(* ===== verification/Prelude.thy ===== *)
theory Prelude
  imports Main
begin

text \<open>
  Shared vocabulary of the development.  A Python computation that may raise is a value of
  the sum type \<open>'e + 'a\<close>: \<open>Inl e\<close> is the raised exception, \<open>Inr x\<close> the
  returned value.  A validator (a \<open>__post_init__\<close> method or one of the \<open>_validate_*\<close>
  helpers of \<open>inci_tennis_expert/contracts.py\<close>) is a value of type \<open>'e option\<close>:
  \<open>None\<close> when it returns normally, \<open>Some e\<close> for the first exception it raises.  The
  collections \<open>contract_defs\<close> and \<open>handler_defs\<close> gather the definitions that the
  component proofs unfold.
\<close>

named_theorems contract_defs \<open>validators and well-formedness predicates\<close>
named_theorems handler_defs \<open>bodies of the operations\<close>
named_theorems projection_defs \<open>projections of contract values to canonical values\<close>

subsection \<open>Sequencing of computations that may raise\<close>

definition bind_result :: "'e + 'a \<Rightarrow> ('a \<Rightarrow> 'e + 'b) \<Rightarrow> 'e + 'b" where
  "bind_result m f = (case m of Inl e \<Rightarrow> Inl e | Inr x \<Rightarrow> f x)"

lemma bind_result_Inl [simp]: "bind_result (Inl e) f = Inl e"
  by (simp add: bind_result_def)

lemma bind_result_Inr [simp]: "bind_result (Inr x) f = f x"
  by (simp add: bind_result_def)

lemma bind_result_eq_Inr: "bind_result m f = Inr y \<longleftrightarrow> (\<exists>x. m = Inr x \<and> f x = Inr y)"
  by (cases m) auto

lemma bind_result_eq_Inl:
  "bind_result m f = Inl e \<longleftrightarrow> m = Inl e \<or> (\<exists>x. m = Inr x \<and> f x = Inl e)"
  by (cases m) auto

lemma bind_result_assoc:
  "bind_result (bind_result m f) g = bind_result m (\<lambda>x. bind_result (f x) g)"
  by (cases m) auto

lemma bind_result_cong [fundef_cong]:
  "m = m' \<Longrightarrow> (\<And>x. m' = Inr x \<Longrightarrow> f x = g x) \<Longrightarrow> bind_result m f = bind_result m' g"
  by (cases m') auto

fun map_result :: "('a \<Rightarrow> 'e + 'b) \<Rightarrow> 'a list \<Rightarrow> 'e + 'b list" where
  "map_result f [] = Inr []"
| "map_result f (x # xs) =
     bind_result (f x) (\<lambda>y. bind_result (map_result f xs) (\<lambda>ys. Inr (y # ys)))"

lemma map_result_cong [fundef_cong]:
  "xs = ys \<Longrightarrow> (\<And>x. x \<in> set ys \<Longrightarrow> f x = g x) \<Longrightarrow> map_result f xs = map_result g ys"
  by (induction xs arbitrary: ys) auto

lemma map_result_total:
  "(\<And>x. x \<in> set xs \<Longrightarrow> \<exists>y. f x = Inr y) \<Longrightarrow> \<exists>ys. map_result f xs = Inr ys"
  by (induction xs) force+

lemma map_result_length: "map_result f xs = Inr ys \<Longrightarrow> length ys = length xs"
  by (induction xs arbitrary: ys) (auto simp: bind_result_eq_Inr)

subsection \<open>Validators\<close>

definition require :: "bool \<Rightarrow> 'e \<Rightarrow> 'e option" where
  "require c e = (if c then None else Some e)"

fun first_raise :: "'e option list \<Rightarrow> 'e option" where
  "first_raise [] = None"
| "first_raise (v # vs) = (case v of None \<Rightarrow> first_raise vs | Some e \<Rightarrow> Some e)"

lemma require_eq_None [simp]: "require c e = None \<longleftrightarrow> c"
  by (simp add: require_def)

lemma require_True [simp]: "require True e = None"
  by (simp add: require_def)

lemma require_False [simp]: "require False e = Some e"
  by (simp add: require_def)

lemma require_eq_Some: "require c e = Some e' \<longleftrightarrow> \<not> c \<and> e' = e"
  by (auto simp: require_def)

lemma first_raise_eq_None [simp]:
  "first_raise (v # vs) = None \<longleftrightarrow> v = None \<and> first_raise vs = None"
  by (cases v) auto

declare first_raise.simps(2) [simp del]

lemma first_raise_None_iff: "first_raise vs = None \<longleftrightarrow> (\<forall>v \<in> set vs. v = None)"
  by (induction vs) auto

lemma first_raise_pass [simp]: "first_raise (None # vs) = first_raise vs"
  by (simp add: first_raise.simps)

lemma first_raise_stop [simp]: "first_raise (Some e # vs) = Some e"
  by (simp add: first_raise.simps)

text \<open>
  A frozen dataclass is built by running its validator on the finished value; the model of
  every constructor call of the source is \<open>construct\<close> with that validator.
\<close>

definition construct :: "('a \<Rightarrow> 'e option) \<Rightarrow> 'a \<Rightarrow> 'e + 'a" where
  "construct v x = (case v x of None \<Rightarrow> Inr x | Some e \<Rightarrow> Inl e)"

lemma construct_ok [simp]: "v x = None \<Longrightarrow> construct v x = Inr x"
  by (simp add: construct_def)

lemma construct_eq_Inr [simp]: "construct v x = Inr y \<longleftrightarrow> v x = None \<and> y = x"
  by (auto simp: construct_def split: option.splits)

lemma construct_eq_Inl [simp]: "construct v x = Inl e \<longleftrightarrow> v x = Some e"
  by (auto simp: construct_def split: option.splits)

text \<open>A check that comes before a computation.\<close>

definition checked :: "'e option \<Rightarrow> 'e + 'a \<Rightarrow> 'e + 'a" where
  "checked v r = (case v of None \<Rightarrow> r | Some e \<Rightarrow> Inl e)"

lemma checked_simps [simp]:
  "checked None r = r"
  "checked (Some e) r = Inl e"
  by (simp_all add: checked_def)

lemma checked_eq_Inr: "checked v r = Inr y \<longleftrightarrow> v = None \<and> r = Inr y"
  by (cases v) auto

text \<open>An optional field validated only when it is present.\<close>

definition when_some :: "('a \<Rightarrow> 'e option) \<Rightarrow> 'a option \<Rightarrow> 'e option" where
  "when_some v x = (case x of None \<Rightarrow> None | Some y \<Rightarrow> v y)"

lemma when_some_simps [simp]:
  "when_some v None = None"
  "when_some v (Some y) = v y"
  by (simp_all add: when_some_def)

lemma when_some_eq_None: "when_some v x = None \<longleftrightarrow> (\<forall>y. x = Some y \<longrightarrow> v y = None)"
  by (cases x) auto

end
