(* ===== verification/Enums.thy ===== *)
theory Enums
  imports Prelude
begin

text \<open>
  The enumerations of \<open>inci_tennis_expert/contracts.py\<close> with the strings the canonical
  encoding writes for them, and the exceptions the modelled modules raise.  Where two Python
  enumerations share a member name the constructors carry a prefix (\<open>MS_\<close> match status,
  \<open>TK_\<close> termination kind, \<open>LK_\<close> provider lifecycle, \<open>MKT_\<close> market status, \<open>BE_\<close>
  book event, \<open>SR_\<close> synchronization reason, \<open>EK_\<close> expert event).
\<close>

subsection \<open>Enumerations\<close>

datatype PlayerSide =
    HOME | AWAY

primrec player_side_value :: "PlayerSide \<Rightarrow> string" where
  "player_side_value HOME = ''home''"
| "player_side_value AWAY = ''away''"

datatype ContractSide =
    YES | NO

primrec contract_side_value :: "ContractSide \<Rightarrow> string" where
  "contract_side_value YES = ''yes''"
| "contract_side_value NO = ''no''"

datatype MatchStatus =
    MS_SCHEDULED | MS_LIVE | MS_SUSPENDED | MS_ENDED | MS_CANCELLED

primrec match_status_value :: "MatchStatus \<Rightarrow> string" where
  "match_status_value MS_SCHEDULED = ''scheduled''"
| "match_status_value MS_LIVE = ''live''"
| "match_status_value MS_SUSPENDED = ''suspended''"
| "match_status_value MS_ENDED = ''ended''"
| "match_status_value MS_CANCELLED = ''cancelled''"

datatype MatchFormat =
    STANDARD_ADVANTAGE_BO3_TB7_ALL_SETS | STANDARD_ADVANTAGE_BO5_TB7_ALL_SETS | UNSUPPORTED

primrec match_format_value :: "MatchFormat \<Rightarrow> string" where
  "match_format_value STANDARD_ADVANTAGE_BO3_TB7_ALL_SETS = ''standard_advantage_bo3_tb7_all_sets''"
| "match_format_value STANDARD_ADVANTAGE_BO5_TB7_ALL_SETS = ''standard_advantage_bo5_tb7_all_sets''"
| "match_format_value UNSUPPORTED = ''unsupported''"

datatype TerminationKind =
    TK_NONE | TK_NATURAL | TK_WALKOVER | TK_RETIREMENT | TK_CANCELLATION

primrec termination_kind_value :: "TerminationKind \<Rightarrow> string" where
  "termination_kind_value TK_NONE = ''none''"
| "termination_kind_value TK_NATURAL = ''natural''"
| "termination_kind_value TK_WALKOVER = ''walkover''"
| "termination_kind_value TK_RETIREMENT = ''retirement''"
| "termination_kind_value TK_CANCELLATION = ''cancellation''"

datatype ProviderLifecycleKind =
    LK_START | LK_SUSPEND | LK_RESUME | LK_WALKOVER | LK_RETIREMENT | LK_CANCEL
  | LK_NATURAL_END_CONFIRMATION

primrec provider_lifecycle_kind_value :: "ProviderLifecycleKind \<Rightarrow> string" where
  "provider_lifecycle_kind_value LK_START = ''start''"
| "provider_lifecycle_kind_value LK_SUSPEND = ''suspend''"
| "provider_lifecycle_kind_value LK_RESUME = ''resume''"
| "provider_lifecycle_kind_value LK_WALKOVER = ''walkover''"
| "provider_lifecycle_kind_value LK_RETIREMENT = ''retirement''"
| "provider_lifecycle_kind_value LK_CANCEL = ''cancel''"
| "provider_lifecycle_kind_value LK_NATURAL_END_CONFIRMATION = ''natural_end_confirmation''"

datatype ScoreValue =
    LOVE | FIFTEEN | THIRTY | FORTY | ADVANTAGE

primrec score_value_value :: "ScoreValue \<Rightarrow> string" where
  "score_value_value LOVE = ''love''"
| "score_value_value FIFTEEN = ''fifteen''"
| "score_value_value THIRTY = ''thirty''"
| "score_value_value FORTY = ''forty''"
| "score_value_value ADVANTAGE = ''advantage''"

datatype TransitionDisposition =
    APPLIED | DUPLICATE | BLOCKED

primrec transition_disposition_value :: "TransitionDisposition \<Rightarrow> string" where
  "transition_disposition_value APPLIED = ''applied''"
| "transition_disposition_value DUPLICATE = ''duplicate''"
| "transition_disposition_value BLOCKED = ''blocked''"

datatype TennisTransitionReason =
    POINT_APPLIED | LIFECYCLE_APPLIED | NATURAL_END_CONFIRMED | CORRECTION_APPLIED
  | EXACT_DUPLICATE | CORRECTION_REQUIRED | PROVIDER_EVENT_GAP | PROVIDER_EVENT_STALE
  | PROVIDER_EVENT_CONFLICT | CORRECTION_EPOCH_STALE | CORRECTION_EPOCH_AHEAD
  | IDENTITY_MISMATCH | FORMAT_MISMATCH | SOURCE_LINEAGE_MISMATCH | REVISION_DOMAIN_MISMATCH
  | RECEIVE_TIME_REGRESSION | SERVER_MISMATCH | POINT_WHILE_NOT_LIVE | TERMINAL_ABSORBING
  | ILLEGAL_LIFECYCLE_TRANSITION | UNSUPPORTED_FORMAT | SNAPSHOT_INVALID
  | CORRECTION_EPOCH_NOT_NEWER | CORRECTION_SNAPSHOT_INVALID

primrec tennis_transition_reason_value :: "TennisTransitionReason \<Rightarrow> string" where
  "tennis_transition_reason_value POINT_APPLIED = ''point_applied''"
| "tennis_transition_reason_value LIFECYCLE_APPLIED = ''lifecycle_applied''"
| "tennis_transition_reason_value NATURAL_END_CONFIRMED = ''natural_end_confirmed''"
| "tennis_transition_reason_value CORRECTION_APPLIED = ''correction_applied''"
| "tennis_transition_reason_value EXACT_DUPLICATE = ''exact_duplicate''"
| "tennis_transition_reason_value CORRECTION_REQUIRED = ''correction_required''"
| "tennis_transition_reason_value PROVIDER_EVENT_GAP = ''provider_event_gap''"
| "tennis_transition_reason_value PROVIDER_EVENT_STALE = ''provider_event_stale''"
| "tennis_transition_reason_value PROVIDER_EVENT_CONFLICT = ''provider_event_conflict''"
| "tennis_transition_reason_value CORRECTION_EPOCH_STALE = ''correction_epoch_stale''"
| "tennis_transition_reason_value CORRECTION_EPOCH_AHEAD = ''correction_epoch_ahead''"
| "tennis_transition_reason_value IDENTITY_MISMATCH = ''identity_mismatch''"
| "tennis_transition_reason_value FORMAT_MISMATCH = ''format_mismatch''"
| "tennis_transition_reason_value SOURCE_LINEAGE_MISMATCH = ''source_lineage_mismatch''"
| "tennis_transition_reason_value REVISION_DOMAIN_MISMATCH = ''revision_domain_mismatch''"
| "tennis_transition_reason_value RECEIVE_TIME_REGRESSION = ''receive_time_regression''"
| "tennis_transition_reason_value SERVER_MISMATCH = ''server_mismatch''"
| "tennis_transition_reason_value POINT_WHILE_NOT_LIVE = ''point_while_not_live''"
| "tennis_transition_reason_value TERMINAL_ABSORBING = ''terminal_absorbing''"
| "tennis_transition_reason_value ILLEGAL_LIFECYCLE_TRANSITION = ''illegal_lifecycle_transition''"
| "tennis_transition_reason_value UNSUPPORTED_FORMAT = ''unsupported_format''"
| "tennis_transition_reason_value SNAPSHOT_INVALID = ''snapshot_invalid''"
| "tennis_transition_reason_value CORRECTION_EPOCH_NOT_NEWER = ''correction_epoch_not_newer''"
| "tennis_transition_reason_value CORRECTION_SNAPSHOT_INVALID = ''correction_snapshot_invalid''"

datatype MarketStatus =
    MKT_PREOPEN | MKT_OPEN | MKT_SUSPENDED | MKT_CLOSED | MKT_SETTLED | MKT_CANCELLED

primrec market_status_value :: "MarketStatus \<Rightarrow> string" where
  "market_status_value MKT_PREOPEN = ''preopen''"
| "market_status_value MKT_OPEN = ''open''"
| "market_status_value MKT_SUSPENDED = ''suspended''"
| "market_status_value MKT_CLOSED = ''closed''"
| "market_status_value MKT_SETTLED = ''settled''"
| "market_status_value MKT_CANCELLED = ''cancelled''"

datatype BookEventKind =
    BE_SNAPSHOT | BE_DELTA | BE_LIFECYCLE

primrec book_event_kind_value :: "BookEventKind \<Rightarrow> string" where
  "book_event_kind_value BE_SNAPSHOT = ''snapshot''"
| "book_event_kind_value BE_DELTA = ''delta''"
| "book_event_kind_value BE_LIFECYCLE = ''lifecycle''"

datatype SyncInputKind =
    TENNIS_ORIGIN | TENNIS_TRANSITION | BOOK_TRANSITION | BOOK_RESNAPSHOT_REQUIRED | CLOCK

primrec sync_input_kind_value :: "SyncInputKind \<Rightarrow> string" where
  "sync_input_kind_value TENNIS_ORIGIN = ''tennis_origin''"
| "sync_input_kind_value TENNIS_TRANSITION = ''tennis_transition''"
| "sync_input_kind_value BOOK_TRANSITION = ''book_transition''"
| "sync_input_kind_value BOOK_RESNAPSHOT_REQUIRED = ''book_resnapshot_required''"
| "sync_input_kind_value CLOCK = ''clock''"

datatype SyncReason =
    SR_TRUSTED_SYNCHRONIZED | SR_DUPLICATE_STATE_SUPPRESSED | SR_SNAPSHOT_INCOMPLETE
  | SR_SCORE_STALE | SR_BOOK_STALE | SR_LIFECYCLE_STALE | SR_BOOK_UNTRUSTED
  | SR_BOOK_NOT_EXECUTABLE | SR_MARKET_NOT_OPEN | SR_MARKET_SUSPENDED | SR_MARKET_ENDED
  | SR_UNKNOWN_SERVER | SR_BINDING_AMBIGUOUS | SR_BINDING_DRIFT | SR_SEQUENCE_GAP
  | SR_UNEXPLAINED_BOOK_MOVE | SR_MATCH_NOT_STARTED | SR_MATCH_SUSPENDED | SR_MATCH_ENDED
  | SR_CORRECTION_PENDING | SR_CONTRACT_MISMATCH | SR_CLOCK_UNCERTAIN
  | SR_CLOSE_HORIZON_INSUFFICIENT

primrec sync_reason_value :: "SyncReason \<Rightarrow> string" where
  "sync_reason_value SR_TRUSTED_SYNCHRONIZED = ''trusted_synchronized''"
| "sync_reason_value SR_DUPLICATE_STATE_SUPPRESSED = ''duplicate_state_suppressed''"
| "sync_reason_value SR_SNAPSHOT_INCOMPLETE = ''snapshot_incomplete''"
| "sync_reason_value SR_SCORE_STALE = ''score_stale''"
| "sync_reason_value SR_BOOK_STALE = ''book_stale''"
| "sync_reason_value SR_LIFECYCLE_STALE = ''lifecycle_stale''"
| "sync_reason_value SR_BOOK_UNTRUSTED = ''book_untrusted''"
| "sync_reason_value SR_BOOK_NOT_EXECUTABLE = ''book_not_executable''"
| "sync_reason_value SR_MARKET_NOT_OPEN = ''market_not_open''"
| "sync_reason_value SR_MARKET_SUSPENDED = ''market_suspended''"
| "sync_reason_value SR_MARKET_ENDED = ''market_ended''"
| "sync_reason_value SR_UNKNOWN_SERVER = ''unknown_server''"
| "sync_reason_value SR_BINDING_AMBIGUOUS = ''binding_ambiguous''"
| "sync_reason_value SR_BINDING_DRIFT = ''binding_drift''"
| "sync_reason_value SR_SEQUENCE_GAP = ''sequence_gap''"
| "sync_reason_value SR_UNEXPLAINED_BOOK_MOVE = ''unexplained_book_move''"
| "sync_reason_value SR_MATCH_NOT_STARTED = ''match_not_started''"
| "sync_reason_value SR_MATCH_SUSPENDED = ''match_suspended''"
| "sync_reason_value SR_MATCH_ENDED = ''match_ended''"
| "sync_reason_value SR_CORRECTION_PENDING = ''correction_pending''"
| "sync_reason_value SR_CONTRACT_MISMATCH = ''contract_mismatch''"
| "sync_reason_value SR_CLOCK_UNCERTAIN = ''clock_uncertain''"
| "sync_reason_value SR_CLOSE_HORIZON_INSUFFICIENT = ''close_horizon_insufficient''"

datatype ExpertEventKindV1 =
    EK_SYNCHRONIZATION_APPLIED | EK_OBSERVATION_IGNORED | EK_OBSERVATION_REJECTED

primrec expert_event_kind_value :: "ExpertEventKindV1 \<Rightarrow> string" where
  "expert_event_kind_value EK_SYNCHRONIZATION_APPLIED = ''synchronization_applied''"
| "expert_event_kind_value EK_OBSERVATION_IGNORED = ''observation_ignored''"
| "expert_event_kind_value EK_OBSERVATION_REJECTED = ''observation_rejected''"

datatype ExpertIgnoreReasonV1 =
    NORMALIZER_NOT_REGISTERED | EVENT_NOT_RELEVANT

primrec expert_ignore_reason_value :: "ExpertIgnoreReasonV1 \<Rightarrow> string" where
  "expert_ignore_reason_value NORMALIZER_NOT_REGISTERED = ''normalizer_not_registered''"
| "expert_ignore_reason_value EVENT_NOT_RELEVANT = ''event_not_relevant''"

datatype ExpertRejectReasonV1 =
    PARENT_CONTRACT_INVALID | NORMALIZER_SCHEMA_UNKNOWN | NORMALIZER_PAYLOAD_INVALID
  | NORMALIZER_CONTRACT_VIOLATION | NORMALIZER_EXCEPTION | GROUP_CAPACITY_EXCEEDED
  | PERSISTENCE_CAPACITY_EXCEEDED | SYNCHRONIZATION_SESSION_DRIFT | REDUCER_EXCEPTION
  | PRIOR_OUTCOME_HALTED | PRIOR_GROUP_HALTED | STATIC_SESSION_HALT

primrec expert_reject_reason_value :: "ExpertRejectReasonV1 \<Rightarrow> string" where
  "expert_reject_reason_value PARENT_CONTRACT_INVALID = ''parent_contract_invalid''"
| "expert_reject_reason_value NORMALIZER_SCHEMA_UNKNOWN = ''normalizer_schema_unknown''"
| "expert_reject_reason_value NORMALIZER_PAYLOAD_INVALID = ''normalizer_payload_invalid''"
| "expert_reject_reason_value NORMALIZER_CONTRACT_VIOLATION = ''normalizer_contract_violation''"
| "expert_reject_reason_value NORMALIZER_EXCEPTION = ''normalizer_exception''"
| "expert_reject_reason_value GROUP_CAPACITY_EXCEEDED = ''group_capacity_exceeded''"
| "expert_reject_reason_value PERSISTENCE_CAPACITY_EXCEEDED = ''persistence_capacity_exceeded''"
| "expert_reject_reason_value SYNCHRONIZATION_SESSION_DRIFT = ''synchronization_session_drift''"
| "expert_reject_reason_value REDUCER_EXCEPTION = ''reducer_exception''"
| "expert_reject_reason_value PRIOR_OUTCOME_HALTED = ''prior_outcome_halted''"
| "expert_reject_reason_value PRIOR_GROUP_HALTED = ''prior_group_halted''"
| "expert_reject_reason_value STATIC_SESSION_HALT = ''static_session_halt''"

subsection \<open>Exceptions\<close>

text \<open>
  \<open>ExpertContractError\<close> and \<open>TennisTransitionError\<close> derive from \<open>ValueError\<close>,
  \<open>TennisStateInvariantError\<close> and \<open>SynchronizationSessionDriftError\<close> from
  \<open>RuntimeError\<close>; \<open>AssertionError\<close> and
  \<open>DecimalException\<close> (a trapped signal of the decimal context, an \<open>ArithmeticError\<close>) from
  neither; \<open>LookupError\<close> is an index or key that is not there,
  \<open>AttributeError\<close> an attribute of \<open>None\<close>.  The errors of the event core (package
  \<open>tennis_v1\<close>) derive from \<open>ValueError\<close>.  The type tests
  \<open>type(x) is not C\<close> of the source, which raise \<open>TypeError\<close>, are discharged by the
  types of the model; \<open>TypeError\<close> is left for the tests on values of a union type.
\<close>

datatype exn =
    ExpertContractError string
  | TennisTransitionError TennisTransitionReason
  | TennisStateInvariantError
  | SynchronizationSessionDriftError
  | ValueError string
  | EventValidationError string
  | RecordCodecError string
  | StateValidationError string
  | ReducerValidationError string
  | CaptureValidationError string
  | JournalValidationError string
  | ExpertJournalCodecError string
  | JournalDurabilityError string
  | JournalCorruptionError string
  | DiskLowError string
  | ProviderGateError string
  | RetentionGlobalHalt string
  | RetentionError string
  | RuntimePoisoned string
  | WrongOwnerThread string
  | TypeError string
  | OverflowError
  | AssertionError
  | DecimalException
  | LookupError
  | AttributeError

text \<open>The exceptions an \<open>except (TypeError, ValueError)\<close> clause catches.\<close>

fun is_value_error :: "exn \<Rightarrow> bool" where
  "is_value_error (ExpertContractError n) = True"
| "is_value_error (TennisTransitionError r) = True"
| "is_value_error (ValueError n) = True"
| "is_value_error (EventValidationError n) = True"
| "is_value_error (RecordCodecError n) = True"
| "is_value_error (StateValidationError n) = True"
| "is_value_error (ReducerValidationError n) = True"
| "is_value_error (CaptureValidationError n) = True"
| "is_value_error (JournalValidationError n) = True"
| "is_value_error (ExpertJournalCodecError n) = True"
| "is_value_error (TypeError n) = True"
| "is_value_error e = False"

text \<open>The exceptions an \<open>except (TypeError, ValueError, RuntimeError)\<close> clause catches.\<close>

fun is_contract_or_runtime_error :: "exn \<Rightarrow> bool" where
  "is_contract_or_runtime_error AssertionError = False"
| "is_contract_or_runtime_error DecimalException = False"
| "is_contract_or_runtime_error LookupError = False"
| "is_contract_or_runtime_error AttributeError = False"
| "is_contract_or_runtime_error OverflowError = False"
| "is_contract_or_runtime_error (JournalDurabilityError n) = False"
| "is_contract_or_runtime_error e = True"

type_synonym 'a result = "exn + 'a"

text \<open>\<open>TennisTransitionError(reason)\<close> itself refuses every reason but two.\<close>

definition tennis_transition_error :: "TennisTransitionReason \<Rightarrow> exn" where
  "tennis_transition_error reason =
     (if reason \<in> {UNSUPPORTED_FORMAT, SNAPSHOT_INVALID} then TennisTransitionError reason
      else ExpertContractError ''reason'')"

end
