(* ===== verification/Sha256.thy ===== *)
theory Sha256
  imports Prelude "HOL-Library.Word"
begin

text \<open>
  The SHA-256 function of Python's \<open>hashlib\<close> (FIPS 180-4), which every digest of the
  program goes through, and the hexadecimal rendering \<open>hexdigest\<close>.  Python \<open>bytes\<close> are
  modelled as \<^typ>\<open>string\<close>: an Isabelle \<^typ>\<open>char\<close> is exactly one byte.
\<close>

unbundle bit_operations_syntax

type_synonym bytes = string
type_synonym u32 = "32 word"

definition rotr32 :: "nat \<Rightarrow> u32 \<Rightarrow> u32" where
  "rotr32 n x = drop_bit n x OR push_bit (32 - n) x"

definition sha_ch :: "u32 \<Rightarrow> u32 \<Rightarrow> u32 \<Rightarrow> u32" where
  "sha_ch x y z = (x AND y) XOR (NOT x AND z)"

definition sha_maj :: "u32 \<Rightarrow> u32 \<Rightarrow> u32 \<Rightarrow> u32" where
  "sha_maj x y z = (x AND y) XOR (x AND z) XOR (y AND z)"

definition big_sigma0 :: "u32 \<Rightarrow> u32" where
  "big_sigma0 x = rotr32 2 x XOR rotr32 13 x XOR rotr32 22 x"

definition big_sigma1 :: "u32 \<Rightarrow> u32" where
  "big_sigma1 x = rotr32 6 x XOR rotr32 11 x XOR rotr32 25 x"

definition small_sigma0 :: "u32 \<Rightarrow> u32" where
  "small_sigma0 x = rotr32 7 x XOR rotr32 18 x XOR drop_bit 3 x"

definition small_sigma1 :: "u32 \<Rightarrow> u32" where
  "small_sigma1 x = rotr32 17 x XOR rotr32 19 x XOR drop_bit 10 x"

text \<open>The fractional parts of the cube roots of the first 64 primes, as decimal numbers.\<close>

definition sha_constants :: "u32 list" where
  "sha_constants =
     [1116352408, 1899447441, 3049323471, 3921009573, 961987163, 1508970993, 2453635748, 2870763221,
      3624381080, 310598401, 607225278, 1426881987, 1925078388, 2162078206, 2614888103, 3248222580,
      3835390401, 4022224774, 264347078, 604807628, 770255983, 1249150122, 1555081692, 1996064986,
      2554220882, 2821834349, 2952996808, 3210313671, 3336571891, 3584528711, 113926993, 338241895,
      666307205, 773529912, 1294757372, 1396182291, 1695183700, 1986661051, 2177026350, 2456956037,
      2730485921, 2820302411, 3259730800, 3345764771, 3516065817, 3600352804, 4094571909, 275423344,
      430227734, 506948616, 659060556, 883997877, 958139571, 1322822218, 1537002063, 1747873779,
      1955562222, 2024104815, 2227730452, 2361852424, 2428436474, 2756734187, 3204031479, 3329325298]"

datatype sha_state = ShaState u32 u32 u32 u32 u32 u32 u32 u32

definition sha_initial :: sha_state where
  "sha_initial = ShaState 0x6a09e667 0xbb67ae85 0x3c6ef372 0xa54ff53a
                          0x510e527f 0x9b05688c 0x1f83d9ab 0x5be0cd19"

subsection \<open>Padding and words\<close>

definition word_bytes :: "nat \<Rightarrow> int \<Rightarrow> bytes" where
  \<comment> \<open>the \<open>n\<close> low bytes of a number, most significant first\<close>
  "word_bytes n v = map (\<lambda>i. char_of (v div 256 ^ i)) (rev [0..<n])"

definition sha_pad :: "bytes \<Rightarrow> bytes" where
  "sha_pad m = m @ [char_of (128 :: int)]
     @ replicate ((119 - length m mod 64) mod 64) (char_of (0 :: int))
     @ word_bytes 8 (8 * int (length m))"

definition bytes_word :: "bytes \<Rightarrow> u32" where
  "bytes_word bs = fold (\<lambda>b w. push_bit 8 w OR of_char b) bs 0"

function chunks :: "nat \<Rightarrow> 'a list \<Rightarrow> 'a list list" where
  "chunks n xs = (if xs = [] \<or> n = 0 then [] else take n xs # chunks n (drop n xs))"
  by pat_completeness auto
termination
  by (relation "measure (\<lambda>(n, xs). length xs)") auto

declare chunks.simps [simp del]

text \<open>The message schedule, newest word first while it grows.\<close>

fun sha_expand :: "nat \<Rightarrow> u32 list \<Rightarrow> u32 list" where
  "sha_expand 0 ws = ws"
| "sha_expand (Suc n) ws =
     sha_expand n ((small_sigma1 (ws ! 1) + ws ! 6 + small_sigma0 (ws ! 14) + ws ! 15) # ws)"

definition sha_schedule :: "bytes \<Rightarrow> u32 list" where
  "sha_schedule block = rev (sha_expand 48 (rev (map bytes_word (chunks 4 block))))"

fun sha_round :: "u32 \<times> u32 \<Rightarrow> sha_state \<Rightarrow> sha_state" where
  "sha_round (k, w) (ShaState a b c d e f g h) =
     (let t1 = h + big_sigma1 e + sha_ch e f g + k + w;
          t2 = big_sigma0 a + sha_maj a b c
      in ShaState (t1 + t2) a b c (d + t1) e f g)"

fun sha_add :: "sha_state \<Rightarrow> sha_state \<Rightarrow> sha_state" where
  "sha_add (ShaState a b c d e f g h) (ShaState a' b' c' d' e' f' g' h') =
     ShaState (a + a') (b + b') (c + c') (d + d') (e + e') (f + f') (g + g') (h + h')"

definition sha_compress :: "bytes \<Rightarrow> sha_state \<Rightarrow> sha_state" where
  "sha_compress block s = sha_add s (fold sha_round (zip sha_constants (sha_schedule block)) s)"

fun sha_digest :: "sha_state \<Rightarrow> bytes" where
  "sha_digest (ShaState a b c d e f g h) =
     concat (map (\<lambda>w. word_bytes 4 (uint w)) [a, b, c, d, e, f, g, h])"

definition sha256 :: "bytes \<Rightarrow> bytes" where
  "sha256 m = sha_digest (fold sha_compress (chunks 64 (sha_pad m)) sha_initial)"

subsection \<open>Hexadecimal text\<close>

definition hex_digits :: string where
  "hex_digits = ''0123456789abcdef''"

definition hex_byte :: "char \<Rightarrow> string" where
  "hex_byte c = [hex_digits ! nat (of_char c div 16), hex_digits ! nat (of_char c mod 16)]"

definition hexdigest :: "bytes \<Rightarrow> string" where
  "hexdigest bs = concat (map hex_byte bs)"

lemma hex_digits_nth: "0 \<le> i \<Longrightarrow> i < 16 \<Longrightarrow> hex_digits ! nat i \<in> set hex_digits"
proof -
  assume "0 \<le> i" "i < 16"
  moreover have "length hex_digits = 16" by (simp add: hex_digits_def)
  ultimately show ?thesis by (intro nth_mem) simp
qed

lemma of_char_int_range: "0 \<le> (of_char c :: int)" "(of_char c :: int) < 256"
  using nat_of_char_less_256 [of c] of_nat_of_char [of c, where ?'a = int]
  by (metis of_nat_0_le_iff) (metis nat_of_char_less_256 of_nat_of_char of_nat_less_numeral_iff)

lemma hex_byte_hex: "list_all (\<lambda>d. d \<in> set hex_digits) (hex_byte c)"
proof -
  have "of_char c div 16 < (16::int)" "0 \<le> of_char c div (16::int)"
    using of_char_int_range [of c] by auto
  then show ?thesis by (simp add: hex_byte_def hex_digits_nth)
qed

lemma length_hex_byte [simp]: "length (hex_byte c) = 2"
  by (simp add: hex_byte_def)

lemma hexdigest_hex: "list_all (\<lambda>d. d \<in> set hex_digits) (hexdigest bs)"
  using hex_byte_hex by (induction bs) (auto simp: hexdigest_def)

lemma length_hexdigest: "length (hexdigest bs) = 2 * length bs"
  by (induction bs) (auto simp: hexdigest_def)

lemma length_word_bytes [simp]: "length (word_bytes n v) = n"
  by (simp add: word_bytes_def)

lemma length_sha256 [simp]: "length (sha256 m) = 32"
  unfolding sha256_def by (cases "fold sha_compress (chunks 64 (sha_pad m)) sha_initial") simp

text \<open>
  \<open>bytes.fromhex\<close>: pairs of hexadecimal digits of either case, white space allowed between
  pairs; \<open>None\<close> is the \<open>ValueError\<close>.
\<close>

definition hex_value :: "char \<Rightarrow> int option" where
  "hex_value c =
     (let n = (of_char c :: int)
      in if 48 \<le> n \<and> n \<le> 57 then Some (n - 48)
         else if 97 \<le> n \<and> n \<le> 102 then Some (n - 87)
         else if 65 \<le> n \<and> n \<le> 70 then Some (n - 55)
         else None)"

definition is_space :: "char \<Rightarrow> bool" where
  "is_space c \<longleftrightarrow> (let n = (of_char c :: int) in n = 32 \<or> (9 \<le> n \<and> n \<le> 13))"

fun bytes_fromhex :: "string \<Rightarrow> bytes option" where
  "bytes_fromhex [] = Some []"
| "bytes_fromhex [c] = (if is_space c then Some [] else None)"
| "bytes_fromhex (c # d # cs) =
     (if is_space c then bytes_fromhex (d # cs)
      else case (hex_value c, hex_value d) of
             (Some h, Some l) \<Rightarrow> map_option (\<lambda>bs. char_of (16 * h + l) # bs) (bytes_fromhex cs)
           | _ \<Rightarrow> None)"

lemma hex_value_hex:
  "d \<in> set hex_digits \<Longrightarrow> \<not> is_space d \<and> (\<exists>h. hex_value d = Some h)"
  by (auto simp: hex_digits_def is_space_def hex_value_def)

lemma bytes_fromhex_total:
  "even (length s) \<Longrightarrow> list_all (\<lambda>d. d \<in> set hex_digits) s \<Longrightarrow> \<exists>bs. bytes_fromhex s = Some bs"
proof (induction s rule: bytes_fromhex.induct)
  case (3 c d cs)
  then have c: "\<not> is_space c" "\<exists>h. hex_value c = Some h" and d: "\<exists>h. hex_value d = Some h"
    using hex_value_hex [of c] hex_value_hex [of d] by auto
  from c(2) d obtain h l where "hex_value c = Some h" "hex_value d = Some l" by blast
  with 3 c(1) show ?case by auto
qed auto

end
