(* ===== verification/Canonical.thy ===== *)
theory Canonical
  imports Complex_Main Enums Sha256 "HOL-Library.Char_ord" "HOL-Library.List_Lexorder"
begin

text \<open>
  The canonical encoding of \<open>inci_tennis_expert/contracts.py\<close>: \<open>_project\<close> maps a
  contract value to a JSON document, \<open>canonical_expert_bytes\<close> serialises the document with
  sorted keys and no white space, \<open>expert_contract_sha256\<close> hashes the bytes under a domain
  prefix.  Python values are values of \<open>pyval\<close>; a finite \<open>Decimal\<close> is its numeric
  value, a rational, because the source only compares decimals, computes with them and renders
  them in normalised form.  A \<open>str\<close> is a list of code points below 256.
\<close>

subsection \<open>Decimal text\<close>

function digits_text :: "int \<Rightarrow> string" where
  "digits_text n =
     (if n < 10 then [char_of (48 + n)] else digits_text (n div 10) @ [char_of (48 + n mod 10)])"
  by pat_completeness auto
termination
  by (relation "measure nat") auto

declare digits_text.simps [simp del]

definition int_text :: "int \<Rightarrow> string" where
  "int_text i = (if i < 0 then ''-'' @ digits_text (- i) else digits_text i)"

text \<open>
  \<open>decimal_places\<close> finds the number of fraction digits of the normalised form; 255 or more
  of them already exceed the length limit of 256 characters, so 255 steps decide every case.
\<close>

fun decimal_places :: "nat \<Rightarrow> rat \<Rightarrow> nat option" where
  "decimal_places 0 r = None"
| "decimal_places (Suc n) r =
     (if of_int \<lfloor>r\<rfloor> = r then Some 0 else map_option Suc (decimal_places n (10 * r)))"

function trailing_zeros :: "int \<Rightarrow> nat" where
  "trailing_zeros n = (if n = 0 \<or> n mod 10 \<noteq> 0 then 0 else Suc (trailing_zeros (n div 10)))"
  by pat_completeness auto
termination
  by (relation "measure (\<lambda>n. nat \<bar>n\<bar>)") auto

declare trailing_zeros.simps [simp del]

definition normalized_length :: "bool \<Rightarrow> int \<Rightarrow> nat \<Rightarrow> nat" where
  "normalized_length sign m k =
     (let sign_length = (if sign then 1 else 0);
          zeros = trailing_zeros m;
          n = length (digits_text m) - zeros;
          e = int zeros - int k
      in if 0 \<le> e then sign_length + n + nat e
         else if 0 < int n + e then sign_length + n + 1
         else sign_length + 2 + nat (- e))"

definition fixed_text :: "bool \<Rightarrow> int \<Rightarrow> nat \<Rightarrow> string" where
  "fixed_text sign m k =
     (if sign then ''-'' else [])
     @ digits_text (m div 10 ^ k)
     @ (if k = 0 then []
        else let frac = digits_text (m mod 10 ^ k)
             in ''.'' @ replicate (k - length frac) (CHR ''0'') @ frac)"

definition canonical_decimal :: "rat \<Rightarrow> string result" where
  "canonical_decimal value =
     (if value = 0 then Inr ''0''
      else case decimal_places 255 value of
             None \<Rightarrow> Inl (ExpertContractError ''decimal_length'')
           | Some k \<Rightarrow>
               (let sign = value < 0;
                    m = \<bar>\<lfloor>value * 10 ^ k\<rfloor>\<bar>;
                    rendered = fixed_text sign m k
                in if 256 < normalized_length sign m k
                   then Inl (ExpertContractError ''decimal_length'')
                   else if length rendered \<noteq> normalized_length sign m k
                   then Inl (ExpertContractError ''decimal_normalization'')
                   else Inr rendered))"

subsection \<open>JSON documents\<close>

datatype json =
    JNull
  | JBool bool
  | JInt int
  | JStr string
  | JArr "json list"
  | JObj "(string \<times> json) list"

fun hex4 :: "nat \<Rightarrow> string" where
  "hex4 n = ''00'' @ hex_byte (char_of n)"

definition json_escape :: "char \<Rightarrow> string" where
  "json_escape c =
     (let n = (of_char c :: nat)
      in if n = 34 then [char_of (92 :: nat), char_of (34 :: nat)]
         else if n = 92 then [char_of (92 :: nat), char_of (92 :: nat)]
         else if n = 10 then [char_of (92 :: nat), CHR ''n'']
         else if n = 13 then [char_of (92 :: nat), CHR ''r'']
         else if n = 9 then [char_of (92 :: nat), CHR ''t'']
         else if n = 8 then [char_of (92 :: nat), CHR ''b'']
         else if n = 12 then [char_of (92 :: nat), CHR ''f'']
         else if n < 32 \<or> 126 < n then [char_of (92 :: nat), CHR ''u''] @ hex4 n
         else [c])"

definition json_string :: "string \<Rightarrow> string" where
  "json_string s = [char_of (34 :: nat)] @ concat (map json_escape s) @ [char_of (34 :: nat)]"

definition comma_join :: "string list \<Rightarrow> string" where
  "comma_join xs = concat (case xs of [] \<Rightarrow> [] | y # ys \<Rightarrow> y # concat (map (\<lambda>z. ['','', z]) ys))"

definition sort_keys :: "(string \<times> 'a) list \<Rightarrow> (string \<times> 'a) list" where
  "sort_keys = sort_key fst"

fun dumps :: "json \<Rightarrow> string" where
  "dumps JNull = ''null''"
| "dumps (JBool b) = (if b then ''true'' else ''false'')"
| "dumps (JInt i) = int_text i"
| "dumps (JStr s) = json_string s"
| "dumps (JArr xs) = ''['' @ comma_join (map dumps xs) @ '']''"
| "dumps (JObj kvs) =
     ''{'' @ comma_join (map (\<lambda>(k, v). json_string k @ '':'' @ v)
                        (sort_keys (map (\<lambda>(k, v). (k, dumps v)) kvs))) @ ''}''"


subsection \<open>Projection of contract values\<close>

datatype pyval =
    VNone
  | VBool bool
  | VInt int
  | VStr string
  | VDecimal rat
  | VEnum string string
  | VTuple "pyval list"
  | VDict "(string \<times> pyval) list"
  | VContract string "(string \<times> pyval) list"

lemma set_sort_keys [simp, termination_simp]: "set (sort_keys kvs) = set kvs"
  by (simp add: sort_keys_def)

lemma length_sort_keys [simp]: "length (sort_keys kvs) = length kvs"
  by (simp add: sort_keys_def)

definition integer_bound :: int where
  "integer_bound = 10 ^ 256"

fun project :: "pyval \<Rightarrow> json result" where
  "project VNone = Inr JNull"
| "project (VBool b) = Inr (JBool b)"
| "project (VStr s) = Inr (JStr s)"
| "project (VInt i) =
     (if integer_bound \<le> \<bar>i\<bar> then Inl (ExpertContractError ''value'') else Inr (JInt i))"
| "project (VDecimal d) =
     bind_result (canonical_decimal d) (\<lambda>s. Inr (JObj [(''$decimal'', JStr s)]))"
| "project (VEnum name val) = Inr (JObj [(''$enum'', JStr name), (''value'', JStr val)])"
| "project (VTuple xs) =
     bind_result (map_result project xs) (\<lambda>js. Inr (JObj [(''$tuple'', JArr js)]))"
| "project (VDict kvs) =
     bind_result
       (map_result (\<lambda>kv. bind_result (project (snd kv)) (\<lambda>j. Inr (JArr [JStr (fst kv), j])))
          (sort_keys kvs))
       (\<lambda>js. Inr (JObj [(''$dict'', JArr js)]))"
| "project (VContract name kvs) =
     bind_result
       (map_result (\<lambda>kv. bind_result (project (snd kv)) (\<lambda>j. Inr (fst kv, j))) kvs)
       (\<lambda>js. Inr (JObj [(''$contract'', JStr name), (''$version'', JInt 1), (''fields'', JObj js)]))"

definition canonical_expert_bytes :: "pyval \<Rightarrow> bytes result" where
  "canonical_expert_bytes v =
     bind_result (project v) (\<lambda>j.
       Inr (dumps (JObj [(''canonical_version'', JInt 1), (''domain'', JStr ''inci-tennis-expert''),
                         (''value'', j)])))"

definition nul :: string where
  "nul = [char_of (0 :: int)]"

definition expert_contract_sha256 :: "pyval \<Rightarrow> string result" where
  "expert_contract_sha256 v =
     bind_result (canonical_expert_bytes v) (\<lambda>b.
       Inr (hexdigest (sha256 (''INCI-EXPERT-CONTRACT-SHA256-V1'' @ nul @ b))))"

text \<open>Optional values and tuples of the dataclass fields.\<close>

definition vopt :: "('a \<Rightarrow> pyval) \<Rightarrow> 'a option \<Rightarrow> pyval" where
  "vopt f x = (case x of None \<Rightarrow> VNone | Some y \<Rightarrow> f y)"

end
