(* ===== verification/Validators.thy ===== *)
theory Validators
  imports Canonical
begin

text \<open>
  The scalar validators of \<open>inci_tennis_expert/contracts.py\<close>: bounded integers, safe
  identifiers, tickers, digests, probabilities and quantities.  Each raises
  \<open>ExpertContractError\<close> with the name of the field.
\<close>

definition contract_error :: "bool \<Rightarrow> string \<Rightarrow> exn option" where
  "contract_error c name = require c (ExpertContractError name)"

lemma contract_error_eq_None [simp]: "contract_error c name = None \<longleftrightarrow> c"
  by (simp add: contract_error_def)

lemma contract_error_True [simp]: "contract_error True name = None"
  by simp

subsection \<open>Integers\<close>

definition integer_ok :: "int \<Rightarrow> bool" where
  \<comment> \<open>\<open>_integer(value, name)\<close> with the default \<open>nonnegative=True\<close>\<close>
  "integer_ok v \<longleftrightarrow> \<bar>v\<bar> < integer_bound \<and> 0 \<le> v"

definition positive_integer_ok :: "int \<Rightarrow> bool" where
  "positive_integer_ok v \<longleftrightarrow> \<bar>v\<bar> < integer_bound \<and> 0 < v"

definition integer :: "int \<Rightarrow> string \<Rightarrow> exn option" where
  "integer v name = contract_error (integer_ok v) name"

definition positive_integer :: "int \<Rightarrow> string \<Rightarrow> exn option" where
  "positive_integer v name = contract_error (positive_integer_ok v) name"

lemma integer_eq_None [simp]: "integer v name = None \<longleftrightarrow> integer_ok v"
  by (simp add: integer_def)

lemma positive_integer_eq_None [simp]: "positive_integer v name = None \<longleftrightarrow> positive_integer_ok v"
  by (simp add: positive_integer_def)

lemma integer_ok_nonneg: "integer_ok v \<Longrightarrow> 0 \<le> v"
  by (simp add: integer_ok_def)

lemma positive_integer_ok_pos: "positive_integer_ok v \<Longrightarrow> 0 < v"
  by (simp add: positive_integer_ok_def)

lemma positive_integer_ok_imp [simp]: "positive_integer_ok v \<Longrightarrow> integer_ok v"
  by (auto simp: positive_integer_ok_def integer_ok_def)

lemma integer_ok_small [simp]: "integer_ok 0" "integer_ok 1"
  by (simp_all add: integer_ok_def integer_bound_def)

text \<open>Literals are compared with a small power of ten, not with the bound itself.\<close>

lemma integer_ok_numeral [simp]:
  assumes "numeral n \<le> (10 ^ 30 :: int)"
  shows "integer_ok (numeral n)" "positive_integer_ok (numeral n)"
proof -
  have "(10 ^ 30 :: int) < integer_bound"
    by (simp add: integer_bound_def)
  then have "numeral n < integer_bound"
    using assms by linarith
  then show "integer_ok (numeral n)" "positive_integer_ok (numeral n)"
    by (simp_all add: integer_ok_def positive_integer_ok_def)
qed

lemma positive_integer_ok_1 [simp]: "positive_integer_ok 1"
  by (simp add: positive_integer_ok_def integer_bound_def)

lemma integer_ok_le: "0 \<le> v \<Longrightarrow> v \<le> w \<Longrightarrow> integer_ok w \<Longrightarrow> integer_ok v"
  by (simp add: integer_ok_def)

subsection \<open>Identifiers, tickers and digests\<close>

definition char_code :: "char \<Rightarrow> int" where
  "char_code c = of_char c"

definition is_upper_char :: "char \<Rightarrow> bool" where
  "is_upper_char c \<longleftrightarrow> 65 \<le> char_code c \<and> char_code c \<le> 90"

definition is_lower_char :: "char \<Rightarrow> bool" where
  "is_lower_char c \<longleftrightarrow> 97 \<le> char_code c \<and> char_code c \<le> 122"

definition is_digit_char :: "char \<Rightarrow> bool" where
  "is_digit_char c \<longleftrightarrow> 48 \<le> char_code c \<and> char_code c \<le> 57"

definition lower_char :: "char \<Rightarrow> char" where
  "lower_char c = (if is_upper_char c then char_of (char_code c + 32) else c)"

definition starts_with :: "string \<Rightarrow> string \<Rightarrow> bool" where
  "starts_with s prefix \<longleftrightarrow> take (length prefix) s = prefix"

definition safe_id_ok :: "string \<Rightarrow> bool" where
  \<comment> \<open>\<open>[A-Za-z0-9][A-Za-z0-9._:-]{0,127}\<close>, and no URL scheme\<close>
  "safe_id_ok s \<longleftrightarrow>
     (case s of
        [] \<Rightarrow> False
      | c # cs \<Rightarrow> (is_upper_char c \<or> is_lower_char c \<or> is_digit_char c) \<and> length cs \<le> 127
          \<and> list_all (\<lambda>d. is_upper_char d \<or> is_lower_char d \<or> is_digit_char d \<or> d \<in> set ''._:-'') cs)
     \<and> \<not> (let t = map lower_char s
          in starts_with t ''http:'' \<or> starts_with t ''https:'' \<or> starts_with t ''file:'')"

definition ticker_ok :: "string \<Rightarrow> bool" where
  \<comment> \<open>\<open>[A-Z0-9][A-Z0-9._-]{0,127}\<close>\<close>
  "ticker_ok s \<longleftrightarrow>
     (case s of
        [] \<Rightarrow> False
      | c # cs \<Rightarrow> (is_upper_char c \<or> is_digit_char c) \<and> length cs \<le> 127
          \<and> list_all (\<lambda>d. is_upper_char d \<or> is_digit_char d \<or> d \<in> set ''._-'') cs)"

definition sha256_ok :: "string \<Rightarrow> bool" where
  \<comment> \<open>\<open>[0-9a-f]{64}\<close>\<close>
  "sha256_ok s \<longleftrightarrow> length s = 64 \<and> list_all (\<lambda>c. c \<in> set hex_digits) s"

definition safe_id :: "string \<Rightarrow> string \<Rightarrow> exn option" where
  "safe_id s name = contract_error (safe_id_ok s) name"

definition ticker :: "string \<Rightarrow> string \<Rightarrow> exn option" where
  "ticker s name = contract_error (ticker_ok s) name"

definition sha256_text :: "string \<Rightarrow> string \<Rightarrow> exn option" where
  "sha256_text s name = contract_error (sha256_ok s) name"

lemma safe_id_eq_None [simp]: "safe_id s name = None \<longleftrightarrow> safe_id_ok s"
  by (simp add: safe_id_def)

lemma ticker_eq_None [simp]: "ticker s name = None \<longleftrightarrow> ticker_ok s"
  by (simp add: ticker_def)

lemma sha256_text_eq_None [simp]: "sha256_text s name = None \<longleftrightarrow> sha256_ok s"
  by (simp add: sha256_text_def)

subsection \<open>Decimals\<close>

definition probability_ok :: "rat \<Rightarrow> bool" where
  "probability_ok p \<longleftrightarrow> 0 \<le> p \<and> p \<le> 1"

definition probability :: "rat \<Rightarrow> string \<Rightarrow> exn option" where
  "probability p name = contract_error (probability_ok p) name"

definition quantity :: "rat \<Rightarrow> string \<Rightarrow> exn option" where
  "quantity q name = contract_error (0 \<le> q) name"

definition positive_quantity :: "rat \<Rightarrow> string \<Rightarrow> exn option" where
  "positive_quantity q name = contract_error (0 < q) name"

lemma probability_eq_None [simp]: "probability p name = None \<longleftrightarrow> probability_ok p"
  by (simp add: probability_def)

lemma quantity_eq_None [simp]: "quantity q name = None \<longleftrightarrow> 0 \<le> q"
  by (simp add: quantity_def)

lemma positive_quantity_eq_None [simp]: "positive_quantity q name = None \<longleftrightarrow> 0 < q"
  by (simp add: positive_quantity_def)

lemma probability_ok_0_1 [simp]: "probability_ok 0" "probability_ok 1"
  by (simp_all add: probability_ok_def)

subsection \<open>Digests are well formed\<close>

lemma sha256_ok_digest [simp]: "sha256_ok (hexdigest (sha256 m))"
  by (simp add: sha256_ok_def hexdigest_hex length_hexdigest)

lemma expert_contract_sha256_ok:
  "expert_contract_sha256 v = Inr d \<Longrightarrow> sha256_ok d"
  by (auto simp: expert_contract_sha256_def bind_result_eq_Inr)

end
