(* ===== verification/ContractsTennis.thy ===== *)
theory ContractsTennis
  imports Validators
begin

text \<open>
  The tennis contracts of \<open>inci_tennis_expert/contracts.py\<close>: set scores, the three provider
  events (snapshot, point, lifecycle), the tennis state and the transition result, each with
  its \<open>__post_init__\<close> validator and its canonical projection.  The fields that
  \<open>_reachable\<close> reads from a \<open>ProviderSnapshot\<close> and from a \<open>TennisState\<close> alike are
  the record \<open>score_board\<close>, which both extend; the fields that
  \<open>_incremental_precheck\<close> reads from a \<open>ProviderPoint\<close> and a \<open>ProviderLifecycle\<close>
  alike are the record \<open>provider_increment\<close>.
\<close>

subsection \<open>Data\<close>

record SetScore =
  set_games_home :: int
  set_games_away :: int
  set_tiebreak_points_home :: "int option"
  set_tiebreak_points_away :: "int option"

record provider_key =
  provider_source_id :: string
  revision_domain_id :: string
  source_lineage_sha256 :: string
  provider_match_id :: string
  home_player_id :: string
  away_player_id :: string
  scheduled_start_wall_ns :: int
  match_format :: MatchFormat
  correction_epoch :: int
  revision :: int

record score_board = provider_key +
  status :: MatchStatus
  termination_kind :: TerminationKind
  winner :: "PlayerSide option"
  retired_side :: "PlayerSide option"
  completed_sets :: "SetScore list"
  games_home :: int
  games_away :: int
  points_home :: ScoreValue
  points_away :: ScoreValue
  in_tiebreak :: bool
  tiebreak_points_home :: int
  tiebreak_points_away :: int
  tiebreak_first_server :: "PlayerSide option"
  server_for_next_point :: "PlayerSide option"

record ProviderSnapshot = score_board +
  sn_provider_event_id :: string
  sn_source_wall_ns :: int
  sn_source_generated_wall_ns :: int
  sn_received_monotonic_ns :: int
  sn_clock_uncertainty_ns :: int
  sn_snapshot_complete :: bool

record provider_increment = provider_key +
  provider_event_id :: string
  source_wall_ns :: int
  source_generated_wall_ns :: int
  received_monotonic_ns :: int
  clock_uncertainty_ns :: int

record ProviderPoint = provider_increment +
  point_winner :: PlayerSide
  server_before_point :: PlayerSide

record ProviderLifecycle = provider_increment +
  lc_kind :: ProviderLifecycleKind
  lc_winner :: "PlayerSide option"
  lc_retired_side :: "PlayerSide option"
  lc_server_for_next_point :: "PlayerSide option"

record TennisState = score_board +
  snapshot_complete :: bool
  last_provider_event_id :: string
  last_event_semantic_sha256 :: string
  correction_lineage_sha256 :: string
  last_source_wall_ns :: int
  last_source_generated_wall_ns :: int
  last_received_monotonic_ns :: int
  last_clock_uncertainty_ns :: int
  block_reason :: "TennisTransitionReason option"
  expected_revision :: "int option"
  observed_revision :: "int option"
  blocked_event_semantic_sha256 :: "string option"
  blocked_received_monotonic_ns :: "int option"

record TennisTransitionResult =
  tr_state :: TennisState
  tr_disposition :: TransitionDisposition
  tr_reason :: TennisTransitionReason
  tr_event_semantic_sha256 :: string

datatype provider_event =
    SnapshotEvent ProviderSnapshot
  | PointEvent ProviderPoint
  | LifecycleEvent ProviderLifecycle

subsection \<open>Validators\<close>

definition supported_match_formats :: "MatchFormat list" where
  "supported_match_formats =
     [STANDARD_ADVANTAGE_BO3_TB7_ALL_SETS, STANDARD_ADVANTAGE_BO5_TB7_ALL_SETS]"

definition installed_block_reasons :: "TennisTransitionReason list" where
  "installed_block_reasons =
     [PROVIDER_EVENT_GAP, PROVIDER_EVENT_STALE, PROVIDER_EVENT_CONFLICT, CORRECTION_EPOCH_STALE,
      CORRECTION_EPOCH_AHEAD, IDENTITY_MISMATCH, FORMAT_MISMATCH, SOURCE_LINEAGE_MISMATCH,
      REVISION_DOMAIN_MISMATCH, RECEIVE_TIME_REGRESSION, SERVER_MISMATCH, POINT_WHILE_NOT_LIVE,
      TERMINAL_ABSORBING, ILLEGAL_LIFECYCLE_TRANSITION, UNSUPPORTED_FORMAT,
      CORRECTION_EPOCH_NOT_NEWER, CORRECTION_SNAPSHOT_INVALID]"

definition set_score_post_init :: "SetScore \<Rightarrow> exn option" where
  "set_score_post_init s = first_raise
     [integer (set_games_home s) ''games_home'',
      integer (set_games_away s) ''games_away'',
      when_some (\<lambda>v. integer v ''tiebreak_points_home'') (set_tiebreak_points_home s),
      when_some (\<lambda>v. integer v ''tiebreak_points_away'') (set_tiebreak_points_away s),
      contract_error ((set_tiebreak_points_home s = None) = (set_tiebreak_points_away s = None))
        ''tiebreak_points'']"

definition validate_identity :: "'a provider_key_scheme \<Rightarrow> string option \<Rightarrow> exn option" where
  "validate_identity v event_id = first_raise
     [safe_id (provider_source_id v) ''provider_source_id'',
      safe_id (revision_domain_id v) ''revision_domain_id'',
      sha256_text (source_lineage_sha256 v) ''source_lineage_sha256'',
      when_some (\<lambda>e. safe_id e ''provider_event_id'') event_id,
      safe_id (provider_match_id v) ''provider_match_id'',
      safe_id (home_player_id v) ''home_player_id'',
      safe_id (away_player_id v) ''away_player_id'',
      contract_error (home_player_id v \<noteq> away_player_id v) ''player_identity'',
      integer (scheduled_start_wall_ns v) ''scheduled_start_wall_ns'']"

definition status_ok :: "'a score_board_scheme \<Rightarrow> bool" where
  "status_ok v =
     (case status v of
        MS_ENDED \<Rightarrow>
          (case termination_kind v of
             TK_NATURAL \<Rightarrow> winner v \<noteq> None \<and> retired_side v = None
           | TK_WALKOVER \<Rightarrow> winner v \<noteq> None \<and> retired_side v = None
           | TK_RETIREMENT \<Rightarrow>
               winner v \<noteq> None \<and> retired_side v \<noteq> None \<and> winner v \<noteq> retired_side v
           | _ \<Rightarrow> False)
      | MS_CANCELLED \<Rightarrow>
          termination_kind v = TK_CANCELLATION \<and> winner v = None \<and> retired_side v = None
          \<and> server_for_next_point v = None
      | _ \<Rightarrow> termination_kind v = TK_NONE \<and> winner v = None \<and> retired_side v = None)"

definition validate_status :: "'a score_board_scheme \<Rightarrow> exn option" where
  "validate_status v = contract_error (status_ok v) ''status_termination''"

definition validate_score :: "'a score_board_scheme \<Rightarrow> exn option" where
  "validate_score v = first_raise
     [integer (games_home v) ''games_home'',
      integer (games_away v) ''games_away'',
      integer (tiebreak_points_home v) ''tiebreak_points_home'',
      integer (tiebreak_points_away v) ''tiebreak_points_away'',
      contract_error
        (\<not> (points_home v = ADVANTAGE \<and> points_away v \<noteq> FORTY)
         \<and> \<not> (points_away v = ADVANTAGE \<and> points_home v \<noteq> FORTY)) ''advantage_score'',
      contract_error (\<not> (points_home v = ADVANTAGE \<and> points_away v = ADVANTAGE)) ''advantage_score'',
      contract_error
        (if in_tiebreak v then points_home v = LOVE \<and> points_away v = LOVE
         else tiebreak_points_home v = 0 \<and> tiebreak_points_away v = 0
              \<and> tiebreak_first_server v = None) ''tiebreak_score'']"

definition validate_event_times :: "int \<Rightarrow> int \<Rightarrow> int \<Rightarrow> int \<Rightarrow> exn option" where
  "validate_event_times source generated received uncertainty = first_raise
     [integer source ''source_wall_ns'',
      integer generated ''source_generated_wall_ns'',
      integer received ''received_monotonic_ns'',
      integer uncertainty ''clock_uncertainty_ns'']"

definition provider_snapshot_post_init :: "ProviderSnapshot \<Rightarrow> exn option" where
  "provider_snapshot_post_init p = first_raise
     [safe_id (sn_provider_event_id p) ''provider_event_id'',
      validate_identity p (Some (sn_provider_event_id p)),
      validate_status p,
      validate_score p,
      integer (correction_epoch p) ''correction_epoch'',
      integer (revision p) ''revision'',
      validate_event_times (sn_source_wall_ns p) (sn_source_generated_wall_ns p)
        (sn_received_monotonic_ns p) (sn_clock_uncertainty_ns p)]"

definition provider_point_post_init :: "ProviderPoint \<Rightarrow> exn option" where
  "provider_point_post_init p = first_raise
     [safe_id (provider_event_id p) ''provider_event_id'',
      validate_identity p (Some (provider_event_id p)),
      integer (correction_epoch p) ''correction_epoch'',
      positive_integer (revision p) ''revision'',
      validate_event_times (source_wall_ns p) (source_generated_wall_ns p)
        (received_monotonic_ns p) (clock_uncertainty_ns p)]"

definition provider_lifecycle_post_init :: "ProviderLifecycle \<Rightarrow> exn option" where
  "provider_lifecycle_post_init p = first_raise
     [safe_id (provider_event_id p) ''provider_event_id'',
      validate_identity p (Some (provider_event_id p)),
      integer (correction_epoch p) ''correction_epoch'',
      positive_integer (revision p) ''revision'',
      validate_event_times (source_wall_ns p) (source_generated_wall_ns p)
        (received_monotonic_ns p) (clock_uncertainty_ns p)]"

definition validate_block_metadata :: "TennisState \<Rightarrow> exn option" where
  "validate_block_metadata s =
     (case block_reason s of
        None \<Rightarrow>
          contract_error
            (expected_revision s = None \<and> observed_revision s = None
             \<and> blocked_event_semantic_sha256 s = None \<and> blocked_received_monotonic_ns s = None)
            ''block_metadata''
      | Some reason \<Rightarrow> first_raise
          [contract_error (reason \<in> set installed_block_reasons) ''block_reason'',
           contract_error
             (blocked_event_semantic_sha256 s \<noteq> None \<and> blocked_received_monotonic_ns s \<noteq> None)
             ''block_metadata'',
           contract_error
             (if reason = PROVIDER_EVENT_GAP
              then expected_revision s \<noteq> None \<and> observed_revision s \<noteq> None
              else expected_revision s = None \<and> observed_revision s = None)
             ''block_metadata''])"

definition tennis_state_post_init :: "TennisState \<Rightarrow> exn option" where
  "tennis_state_post_init s = first_raise
     [validate_identity s None,
      contract_error (match_format s \<in> set supported_match_formats) ''match_format'',
      validate_status s,
      validate_score s,
      integer (correction_epoch s) ''correction_epoch'',
      integer (revision s) ''revision'',
      contract_error (snapshot_complete s) ''snapshot_complete'',
      safe_id (last_provider_event_id s) ''last_provider_event_id'',
      sha256_text (last_event_semantic_sha256 s) ''last_event_semantic_sha256'',
      sha256_text (correction_lineage_sha256 s) ''correction_lineage_sha256'',
      integer (last_source_wall_ns s) ''last_source_wall_ns'',
      integer (last_source_generated_wall_ns s) ''last_source_generated_wall_ns'',
      integer (last_received_monotonic_ns s) ''last_received_monotonic_ns'',
      integer (last_clock_uncertainty_ns s) ''last_clock_uncertainty_ns'',
      when_some (\<lambda>v. integer v ''expected_revision'') (expected_revision s),
      when_some (\<lambda>v. integer v ''observed_revision'') (observed_revision s),
      when_some (\<lambda>v. integer v ''blocked_received_monotonic_ns'') (blocked_received_monotonic_ns s),
      when_some (\<lambda>v. sha256_text v ''blocked_event_semantic_sha256'') (blocked_event_semantic_sha256 s),
      validate_block_metadata s]"

definition tennis_transition_result_post_init :: "TennisTransitionResult \<Rightarrow> exn option" where
  "tennis_transition_result_post_init r =
     sha256_text (tr_event_semantic_sha256 r) ''event_semantic_sha256''"

subsection \<open>Canonical projections\<close>


definition player_side_pyval :: "PlayerSide \<Rightarrow> pyval" where
  "player_side_pyval x = VEnum ''PlayerSide'' (player_side_value x)"

definition match_status_pyval :: "MatchStatus \<Rightarrow> pyval" where
  "match_status_pyval x = VEnum ''MatchStatus'' (match_status_value x)"

definition match_format_pyval :: "MatchFormat \<Rightarrow> pyval" where
  "match_format_pyval x = VEnum ''MatchFormat'' (match_format_value x)"

definition termination_kind_pyval :: "TerminationKind \<Rightarrow> pyval" where
  "termination_kind_pyval x = VEnum ''TerminationKind'' (termination_kind_value x)"

definition provider_lifecycle_kind_pyval :: "ProviderLifecycleKind \<Rightarrow> pyval" where
  "provider_lifecycle_kind_pyval x = VEnum ''ProviderLifecycleKind'' (provider_lifecycle_kind_value x)"

definition score_value_pyval :: "ScoreValue \<Rightarrow> pyval" where
  "score_value_pyval x = VEnum ''ScoreValue'' (score_value_value x)"

definition transition_disposition_pyval :: "TransitionDisposition \<Rightarrow> pyval" where
  "transition_disposition_pyval x = VEnum ''TransitionDisposition'' (transition_disposition_value x)"

definition tennis_transition_reason_pyval :: "TennisTransitionReason \<Rightarrow> pyval" where
  "tennis_transition_reason_pyval x = VEnum ''TennisTransitionReason'' (tennis_transition_reason_value x)"

definition set_score_pyval :: "SetScore \<Rightarrow> pyval" where
  "set_score_pyval s = VContract ''SetScore''
     [(''games_home'', VInt (set_games_home s)),
      (''games_away'', VInt (set_games_away s)),
      (''tiebreak_points_home'', vopt VInt (set_tiebreak_points_home s)),
      (''tiebreak_points_away'', vopt VInt (set_tiebreak_points_away s))]"

definition provider_snapshot_pyval :: "ProviderSnapshot \<Rightarrow> pyval" where
  "provider_snapshot_pyval p = VContract ''ProviderSnapshot''
     [(''provider_source_id'', VStr (provider_source_id p)),
      (''revision_domain_id'', VStr (revision_domain_id p)),
      (''source_lineage_sha256'', VStr (source_lineage_sha256 p)),
      (''provider_event_id'', VStr (sn_provider_event_id p)),
      (''provider_match_id'', VStr (provider_match_id p)),
      (''home_player_id'', VStr (home_player_id p)),
      (''away_player_id'', VStr (away_player_id p)),
      (''scheduled_start_wall_ns'', VInt (scheduled_start_wall_ns p)),
      (''match_format'', match_format_pyval (match_format p)),
      (''status'', match_status_pyval (status p)),
      (''termination_kind'', termination_kind_pyval (termination_kind p)),
      (''winner'', vopt player_side_pyval (winner p)),
      (''retired_side'', vopt player_side_pyval (retired_side p)),
      (''completed_sets'', VTuple (map set_score_pyval (completed_sets p))),
      (''games_home'', VInt (games_home p)),
      (''games_away'', VInt (games_away p)),
      (''points_home'', score_value_pyval (points_home p)),
      (''points_away'', score_value_pyval (points_away p)),
      (''in_tiebreak'', VBool (in_tiebreak p)),
      (''tiebreak_points_home'', VInt (tiebreak_points_home p)),
      (''tiebreak_points_away'', VInt (tiebreak_points_away p)),
      (''tiebreak_first_server'', vopt player_side_pyval (tiebreak_first_server p)),
      (''server_for_next_point'', vopt player_side_pyval (server_for_next_point p)),
      (''correction_epoch'', VInt (correction_epoch p)),
      (''revision'', VInt (revision p)),
      (''source_wall_ns'', VInt (sn_source_wall_ns p)),
      (''source_generated_wall_ns'', VInt (sn_source_generated_wall_ns p)),
      (''received_monotonic_ns'', VInt (sn_received_monotonic_ns p)),
      (''clock_uncertainty_ns'', VInt (sn_clock_uncertainty_ns p)),
      (''snapshot_complete'', VBool (sn_snapshot_complete p))]"

definition provider_point_pyval :: "ProviderPoint \<Rightarrow> pyval" where
  "provider_point_pyval p = VContract ''ProviderPoint''
     [(''provider_source_id'', VStr (provider_source_id p)),
      (''revision_domain_id'', VStr (revision_domain_id p)),
      (''source_lineage_sha256'', VStr (source_lineage_sha256 p)),
      (''provider_event_id'', VStr (provider_event_id p)),
      (''provider_match_id'', VStr (provider_match_id p)),
      (''home_player_id'', VStr (home_player_id p)),
      (''away_player_id'', VStr (away_player_id p)),
      (''scheduled_start_wall_ns'', VInt (scheduled_start_wall_ns p)),
      (''match_format'', match_format_pyval (match_format p)),
      (''correction_epoch'', VInt (correction_epoch p)),
      (''revision'', VInt (revision p)),
      (''point_winner'', player_side_pyval (point_winner p)),
      (''server_before_point'', player_side_pyval (server_before_point p)),
      (''source_wall_ns'', VInt (source_wall_ns p)),
      (''source_generated_wall_ns'', VInt (source_generated_wall_ns p)),
      (''received_monotonic_ns'', VInt (received_monotonic_ns p)),
      (''clock_uncertainty_ns'', VInt (clock_uncertainty_ns p))]"

definition provider_lifecycle_pyval :: "ProviderLifecycle \<Rightarrow> pyval" where
  "provider_lifecycle_pyval p = VContract ''ProviderLifecycle''
     [(''provider_source_id'', VStr (provider_source_id p)),
      (''revision_domain_id'', VStr (revision_domain_id p)),
      (''source_lineage_sha256'', VStr (source_lineage_sha256 p)),
      (''provider_event_id'', VStr (provider_event_id p)),
      (''provider_match_id'', VStr (provider_match_id p)),
      (''home_player_id'', VStr (home_player_id p)),
      (''away_player_id'', VStr (away_player_id p)),
      (''scheduled_start_wall_ns'', VInt (scheduled_start_wall_ns p)),
      (''match_format'', match_format_pyval (match_format p)),
      (''correction_epoch'', VInt (correction_epoch p)),
      (''revision'', VInt (revision p)),
      (''kind'', provider_lifecycle_kind_pyval (lc_kind p)),
      (''winner'', vopt player_side_pyval (lc_winner p)),
      (''retired_side'', vopt player_side_pyval (lc_retired_side p)),
      (''server_for_next_point'', vopt player_side_pyval (lc_server_for_next_point p)),
      (''source_wall_ns'', VInt (source_wall_ns p)),
      (''source_generated_wall_ns'', VInt (source_generated_wall_ns p)),
      (''received_monotonic_ns'', VInt (received_monotonic_ns p)),
      (''clock_uncertainty_ns'', VInt (clock_uncertainty_ns p))]"

definition tennis_state_pyval :: "TennisState \<Rightarrow> pyval" where
  "tennis_state_pyval s = VContract ''TennisState''
     [(''provider_source_id'', VStr (provider_source_id s)),
      (''revision_domain_id'', VStr (revision_domain_id s)),
      (''source_lineage_sha256'', VStr (source_lineage_sha256 s)),
      (''provider_match_id'', VStr (provider_match_id s)),
      (''home_player_id'', VStr (home_player_id s)),
      (''away_player_id'', VStr (away_player_id s)),
      (''scheduled_start_wall_ns'', VInt (scheduled_start_wall_ns s)),
      (''match_format'', match_format_pyval (match_format s)),
      (''status'', match_status_pyval (status s)),
      (''termination_kind'', termination_kind_pyval (termination_kind s)),
      (''winner'', vopt player_side_pyval (winner s)),
      (''retired_side'', vopt player_side_pyval (retired_side s)),
      (''completed_sets'', VTuple (map set_score_pyval (completed_sets s))),
      (''games_home'', VInt (games_home s)),
      (''games_away'', VInt (games_away s)),
      (''points_home'', score_value_pyval (points_home s)),
      (''points_away'', score_value_pyval (points_away s)),
      (''in_tiebreak'', VBool (in_tiebreak s)),
      (''tiebreak_points_home'', VInt (tiebreak_points_home s)),
      (''tiebreak_points_away'', VInt (tiebreak_points_away s)),
      (''tiebreak_first_server'', vopt player_side_pyval (tiebreak_first_server s)),
      (''server_for_next_point'', vopt player_side_pyval (server_for_next_point s)),
      (''correction_epoch'', VInt (correction_epoch s)),
      (''revision'', VInt (revision s)),
      (''snapshot_complete'', VBool (snapshot_complete s)),
      (''last_provider_event_id'', VStr (last_provider_event_id s)),
      (''last_event_semantic_sha256'', VStr (last_event_semantic_sha256 s)),
      (''correction_lineage_sha256'', VStr (correction_lineage_sha256 s)),
      (''last_source_wall_ns'', VInt (last_source_wall_ns s)),
      (''last_source_generated_wall_ns'', VInt (last_source_generated_wall_ns s)),
      (''last_received_monotonic_ns'', VInt (last_received_monotonic_ns s)),
      (''last_clock_uncertainty_ns'', VInt (last_clock_uncertainty_ns s)),
      (''block_reason'', vopt tennis_transition_reason_pyval (block_reason s)),
      (''expected_revision'', vopt VInt (expected_revision s)),
      (''observed_revision'', vopt VInt (observed_revision s)),
      (''blocked_event_semantic_sha256'', vopt VStr (blocked_event_semantic_sha256 s)),
      (''blocked_received_monotonic_ns'', vopt VInt (blocked_received_monotonic_ns s))]"

definition tennis_transition_result_pyval :: "TennisTransitionResult \<Rightarrow> pyval" where
  "tennis_transition_result_pyval r = VContract ''TennisTransitionResult''
     [(''state'', tennis_state_pyval (tr_state r)),
      (''disposition'', transition_disposition_pyval (tr_disposition r)),
      (''reason'', tennis_transition_reason_pyval (tr_reason r)),
      (''event_semantic_sha256'', VStr (tr_event_semantic_sha256 r))]"

end
