(* ===== verification/TennisScore.thy ===== *)
theory TennisScore
  imports ContractsTennis
begin

text \<open>
  The tennis scoring machine of \<open>inci_tennis_expert/tennis_score.py\<close>: which score boards are
  reachable, how a point advances the score, and the three transitions of a
  \<open>TennisState\<close> (point, lifecycle event, correction snapshot).  A dictionary of changed
  fields in the source is the state with those fields updated.
\<close>

subsection \<open>Digests of provider events\<close>

definition event_domain :: bytes where
  "event_domain = ''inci-tennis-provider-event-semantic-v1'' @ nul"

definition initial_lineage_domain :: bytes where
  "initial_lineage_domain = ''inci-tennis-initial-lineage-v1'' @ nul"

definition correction_lineage_domain :: bytes where
  "correction_lineage_domain = ''inci-tennis-correction-lineage-v1'' @ nul"

definition semantic_fields :: "pyval \<Rightarrow> pyval" where
  "semantic_fields v =
     (case v of
        VContract name kvs \<Rightarrow> VDict (filter (\<lambda>kv. fst kv \<noteq> ''received_monotonic_ns'') kvs)
      | _ \<Rightarrow> v)"

definition semantic_value :: "provider_event \<Rightarrow> pyval" where
  "semantic_value event =
     (let (kind, v) =
        (case event of
           SnapshotEvent p \<Rightarrow> (''snapshot'', provider_snapshot_pyval p)
         | PointEvent p \<Rightarrow> (''point'', provider_point_pyval p)
         | LifecycleEvent p \<Rightarrow> (''lifecycle'', provider_lifecycle_pyval p))
      in VDict [(''schema'', VStr ''provider_event_semantic_v1''),
                (''event_kind'', VStr kind),
                (''event'', semantic_fields v)])"

definition event_semantic :: "provider_event \<Rightarrow> (bytes \<times> string) result" where
  "event_semantic event =
     bind_result (canonical_expert_bytes (semantic_value event)) (\<lambda>semantic_bytes.
       Inr (semantic_bytes, hexdigest (sha256 (event_domain @ semantic_bytes))))"

subsection \<open>Reachable scores\<close>

fun opposite :: "PlayerSide \<Rightarrow> PlayerSide" where
  "opposite HOME = AWAY"
| "opposite AWAY = HOME"

definition sets_required :: "MatchFormat \<Rightarrow> int" where
  "sets_required f = (if f = STANDARD_ADVANTAGE_BO3_TB7_ALL_SETS then 2 else 3)"

definition completed_set_winner :: "SetScore \<Rightarrow> PlayerSide option" where
  "completed_set_winner s =
     (let home = set_games_home s; away = set_games_away s
      in case set_tiebreak_points_home s of
           None \<Rightarrow>
             if (home = 6 \<and> 0 \<le> away \<and> away \<le> 4) \<or> (home = 7 \<and> away = 5) then Some HOME
             else if (away = 6 \<and> 0 \<le> home \<and> home \<le> 4) \<or> (away = 7 \<and> home = 5) then Some AWAY
             else None
         | Some home_tiebreak \<Rightarrow>
             (case set_tiebreak_points_away s of
                None \<Rightarrow> None
              | Some away_tiebreak \<Rightarrow>
                  if (home, away) = (7, 6) then
                    if 7 \<le> home_tiebreak \<and> 2 \<le> home_tiebreak - away_tiebreak then Some HOME else None
                  else if (home, away) = (6, 7) then
                    if 7 \<le> away_tiebreak \<and> 2 \<le> away_tiebreak - home_tiebreak then Some AWAY else None
                  else None))"

definition tiebreak_won :: "int \<Rightarrow> int \<Rightarrow> bool" where
  "tiebreak_won home away \<longleftrightarrow> (7 \<le> home \<and> 2 \<le> home - away) \<or> (7 \<le> away \<and> 2 \<le> away - home)"

definition normal_set_won :: "int \<Rightarrow> int \<Rightarrow> bool" where
  "normal_set_won home away \<longleftrightarrow> (6 \<le> home \<and> 2 \<le> home - away) \<or> (6 \<le> away \<and> 2 \<le> away - home)"

definition tiebreak_server :: "PlayerSide \<Rightarrow> int \<Rightarrow> PlayerSide" where
  "tiebreak_server first completed_points =
     (if completed_points = 0 then first
      else if ((completed_points - 1) div 2) mod 2 = 0 then opposite first
      else first)"

definition score_is_zero :: "'a score_board_scheme \<Rightarrow> bool" where
  "score_is_zero v \<longleftrightarrow>
     completed_sets v = [] \<and> games_home v = 0 \<and> games_away v = 0
     \<and> points_home v = LOVE \<and> points_away v = LOVE \<and> \<not> in_tiebreak v
     \<and> tiebreak_points_home v = 0 \<and> tiebreak_points_away v = 0
     \<and> tiebreak_first_server v = None"

fun completed_prefix_loop ::
  "int \<Rightarrow> SetScore list \<Rightarrow> int \<Rightarrow> int \<Rightarrow> PlayerSide option \<Rightarrow> bool \<times> PlayerSide option" where
  "completed_prefix_loop required [] home_wins away_wins clinching_side = (True, clinching_side)"
| "completed_prefix_loop required (s # rest) home_wins away_wins clinching_side =
     (case completed_set_winner s of
        None \<Rightarrow> (False, None)
      | Some w \<Rightarrow>
          if clinching_side \<noteq> None then (False, None)
          else
            (let home_wins' = (if w = HOME then home_wins + 1 else home_wins);
                 away_wins' = (if w = HOME then away_wins else away_wins + 1);
                 clinching_side' =
                   (if w = HOME then if home_wins' = required then Some HOME else clinching_side
                    else if away_wins' = required then Some AWAY else clinching_side)
             in if clinching_side' \<noteq> None \<and> rest \<noteq> [] then (False, None)
                else completed_prefix_loop required rest home_wins' away_wins' clinching_side'))"

definition completed_prefix :: "'a score_board_scheme \<Rightarrow> bool \<times> PlayerSide option" where
  "completed_prefix v =
     completed_prefix_loop (sets_required (match_format v)) (completed_sets v) 0 0 None"

definition incomplete_score_is_reachable :: "'a score_board_scheme \<Rightarrow> bool \<Rightarrow> bool" where
  "incomplete_score_is_reachable v active =
     (let (prefix_valid, clinching_side) = completed_prefix v
      in if \<not> prefix_valid \<or> clinching_side \<noteq> None then False
         else if in_tiebreak v then
           (case tiebreak_first_server v of
              None \<Rightarrow> False
            | Some first_server \<Rightarrow>
                if games_home v \<noteq> 6 \<or> games_away v \<noteq> 6 \<or> points_home v \<noteq> LOVE
                   \<or> points_away v \<noteq> LOVE
                   \<or> tiebreak_won (tiebreak_points_home v) (tiebreak_points_away v)
                then False
                else if active then
                  server_for_next_point v =
                    Some (tiebreak_server first_server
                            (tiebreak_points_home v + tiebreak_points_away v))
                else server_for_next_point v = None)
         else if 6 < games_home v \<or> 6 < games_away v \<or> (games_home v = 6 \<and> games_away v = 6)
                 \<or> normal_set_won (games_home v) (games_away v)
         then False
         else if active then server_for_next_point v \<noteq> None
         else server_for_next_point v = None)"

definition reachable :: "'a score_board_scheme \<Rightarrow> bool" where
  "reachable v =
     (if match_format v \<notin> set supported_match_formats then False
      else if status v = MS_SCHEDULED then
        termination_kind v = TK_NONE \<and> winner v = None \<and> retired_side v = None
        \<and> server_for_next_point v = None \<and> score_is_zero v
      else if status v = MS_LIVE \<or> status v = MS_SUSPENDED then
        termination_kind v = TK_NONE \<and> winner v = None \<and> retired_side v = None
        \<and> incomplete_score_is_reachable v True
      else if status v = MS_CANCELLED then
        termination_kind v = TK_CANCELLATION \<and> winner v = None \<and> retired_side v = None
        \<and> incomplete_score_is_reachable v False
      else if termination_kind v = TK_WALKOVER then
        winner v \<noteq> None \<and> retired_side v = None \<and> server_for_next_point v = None
        \<and> score_is_zero v
      else if termination_kind v = TK_RETIREMENT then
        winner v \<noteq> None \<and> retired_side v \<noteq> None \<and> winner v \<noteq> retired_side v
        \<and> incomplete_score_is_reachable v False
      else if termination_kind v \<noteq> TK_NATURAL then False
      else
        (let (prefix_valid, clinching_side) = completed_prefix v
         in prefix_valid \<and> clinching_side \<noteq> None \<and> winner v = clinching_side
            \<and> retired_side v = None \<and> server_for_next_point v = None
            \<and> games_home v = 0 \<and> games_away v = 0
            \<and> points_home v = LOVE \<and> points_away v = LOVE \<and> \<not> in_tiebreak v
            \<and> tiebreak_points_home v = 0 \<and> tiebreak_points_away v = 0
            \<and> tiebreak_first_server v = None))"

definition validate_tennis_state :: "TennisState \<Rightarrow> unit result" where
  "validate_tennis_state s = (if reachable s then Inr () else Inl TennisStateInvariantError)"

subsection \<open>A state from a snapshot\<close>

text \<open>The fields \<open>_state_from_snapshot\<close> passes to the constructor.\<close>

definition snapshot_fields :: "ProviderSnapshot \<Rightarrow> string \<Rightarrow> string \<Rightarrow> TennisState" where
  "snapshot_fields p event_digest lineage_digest =
       \<lparr>provider_source_id = provider_source_id p,
        revision_domain_id = revision_domain_id p,
        source_lineage_sha256 = source_lineage_sha256 p,
        provider_match_id = provider_match_id p,
        home_player_id = home_player_id p,
        away_player_id = away_player_id p,
        scheduled_start_wall_ns = scheduled_start_wall_ns p,
        match_format = match_format p,
        correction_epoch = correction_epoch p,
        revision = revision p,
        status = status p,
        termination_kind = termination_kind p,
        winner = winner p,
        retired_side = retired_side p,
        completed_sets = completed_sets p,
        games_home = games_home p,
        games_away = games_away p,
        points_home = points_home p,
        points_away = points_away p,
        in_tiebreak = in_tiebreak p,
        tiebreak_points_home = tiebreak_points_home p,
        tiebreak_points_away = tiebreak_points_away p,
        tiebreak_first_server = tiebreak_first_server p,
        server_for_next_point = server_for_next_point p,
        snapshot_complete = True,
        last_provider_event_id = sn_provider_event_id p,
        last_event_semantic_sha256 = event_digest,
        correction_lineage_sha256 = lineage_digest,
        last_source_wall_ns = sn_source_wall_ns p,
        last_source_generated_wall_ns = sn_source_generated_wall_ns p,
        last_received_monotonic_ns = sn_received_monotonic_ns p,
        last_clock_uncertainty_ns = sn_clock_uncertainty_ns p,
        block_reason = None,
        expected_revision = None,
        observed_revision = None,
        blocked_event_semantic_sha256 = None,
        blocked_received_monotonic_ns = None\<rparr>"

definition snapshot_state :: "ProviderSnapshot \<Rightarrow> string \<Rightarrow> string \<Rightarrow> TennisState result" where
  \<comment> \<open>\<open>_state_from_snapshot\<close>\<close>
  "snapshot_state p event_digest lineage_digest =
     construct tennis_state_post_init (snapshot_fields p event_digest lineage_digest)"

definition state_from_snapshot :: "ProviderSnapshot \<Rightarrow> TennisState result" where
  "state_from_snapshot p =
     bind_result (event_semantic (SnapshotEvent p)) (\<lambda>(semantic_bytes, event_digest).
       if match_format p = UNSUPPORTED then Inl (tennis_transition_error UNSUPPORTED_FORMAT)
       else if \<not> sn_snapshot_complete p \<or> \<not> reachable p
       then Inl (tennis_transition_error SNAPSHOT_INVALID)
       else snapshot_state p event_digest
              (hexdigest (sha256 (initial_lineage_domain @ semantic_bytes))))"

subsection \<open>Results and blocks\<close>

definition make_result ::
  "TennisState \<Rightarrow> TransitionDisposition \<Rightarrow> TennisTransitionReason \<Rightarrow> string
     \<Rightarrow> TennisTransitionResult result" where
  \<comment> \<open>\<open>_result\<close>\<close>
  "make_result s disposition reason event_digest =
     construct tennis_transition_result_post_init
       \<lparr>tr_state = s, tr_disposition = disposition, tr_reason = reason,
        tr_event_semantic_sha256 = event_digest\<rparr>"

definition block_state ::
  "TennisState \<Rightarrow> TennisTransitionReason \<Rightarrow> string \<Rightarrow> int \<Rightarrow> int option \<Rightarrow> int option
     \<Rightarrow> TennisState result" where
  "block_state s reason event_digest received expected observed =
     construct tennis_state_post_init
       (s\<lparr>block_reason := Some reason,
          expected_revision := expected,
          observed_revision := observed,
          blocked_event_semantic_sha256 := Some event_digest,
          blocked_received_monotonic_ns := Some received\<rparr>)"

definition blocked_revisions ::
  "TennisState \<Rightarrow> 'a provider_increment_scheme \<Rightarrow> string \<Rightarrow> TennisTransitionReason
     \<Rightarrow> int option \<Rightarrow> int option \<Rightarrow> TennisTransitionResult result" where
  \<comment> \<open>\<open>_blocked\<close> with its keyword arguments\<close>
  "blocked_revisions s event event_digest reason expected observed =
     bind_result
       (block_state s reason event_digest (received_monotonic_ns event) expected observed)
       (\<lambda>s'. make_result s' BLOCKED reason event_digest)"

abbreviation blocked ::
  "TennisState \<Rightarrow> 'a provider_increment_scheme \<Rightarrow> string \<Rightarrow> TennisTransitionReason
     \<Rightarrow> TennisTransitionResult result" where
  "blocked s event event_digest reason \<equiv> blocked_revisions s event event_digest reason None None"

definition incremental_precheck ::
  "TennisState \<Rightarrow> 'a provider_increment_scheme \<Rightarrow> string
     \<Rightarrow> TennisTransitionResult option result" where
  "incremental_precheck s event event_digest =
     (let stop = (\<lambda>r. bind_result r (\<lambda>x. Inr (Some x)))
      in if block_reason s \<noteq> None then stop (make_result s BLOCKED CORRECTION_REQUIRED event_digest)
         else if provider_match_id event \<noteq> provider_match_id s
              \<or> home_player_id event \<noteq> home_player_id s
              \<or> away_player_id event \<noteq> away_player_id s
              \<or> scheduled_start_wall_ns event \<noteq> scheduled_start_wall_ns s
         then stop (blocked s event event_digest IDENTITY_MISMATCH)
         else if provider_source_id event \<noteq> provider_source_id s
              \<or> source_lineage_sha256 event \<noteq> source_lineage_sha256 s
         then stop (blocked s event event_digest SOURCE_LINEAGE_MISMATCH)
         else if revision_domain_id event \<noteq> revision_domain_id s
         then stop (blocked s event event_digest REVISION_DOMAIN_MISMATCH)
         else if match_format event \<noteq> match_format s
         then stop (blocked s event event_digest FORMAT_MISMATCH)
         else if received_monotonic_ns event < last_received_monotonic_ns s
         then stop (blocked s event event_digest RECEIVE_TIME_REGRESSION)
         else if correction_epoch event < correction_epoch s
         then stop (blocked s event event_digest CORRECTION_EPOCH_STALE)
         else if correction_epoch s < correction_epoch event
         then stop (blocked s event event_digest CORRECTION_EPOCH_AHEAD)
         else if revision event = revision s then
           if event_digest = last_event_semantic_sha256 s
           then stop (make_result s DUPLICATE EXACT_DUPLICATE event_digest)
           else stop (blocked s event event_digest PROVIDER_EVENT_CONFLICT)
         else if revision event < revision s
         then stop (blocked s event event_digest PROVIDER_EVENT_STALE)
         else if revision s + 1 < revision event
         then stop (blocked_revisions s event event_digest PROVIDER_EVENT_GAP
                      (Some (revision s + 1)) (Some (revision event)))
         else Inr None)"

definition applied_state ::
  "TennisState \<Rightarrow> 'a provider_increment_scheme \<Rightarrow> string \<Rightarrow> TennisState result" where
  \<comment> \<open>the first argument is the state with the score changes already in place\<close>
  "applied_state s event event_digest =
     construct tennis_state_post_init
       (s\<lparr>revision := revision event,
          last_provider_event_id := provider_event_id event,
          last_event_semantic_sha256 := event_digest,
          last_source_wall_ns := source_wall_ns event,
          last_source_generated_wall_ns := source_generated_wall_ns event,
          last_received_monotonic_ns := received_monotonic_ns event,
          last_clock_uncertainty_ns := clock_uncertainty_ns event,
          block_reason := None,
          expected_revision := None,
          observed_revision := None,
          blocked_event_semantic_sha256 := None,
          blocked_received_monotonic_ns := None\<rparr>)"

subsection \<open>Points\<close>

fun set_wins_loop :: "SetScore list \<Rightarrow> int \<Rightarrow> int \<Rightarrow> int \<times> int" where
  "set_wins_loop [] home away = (home, away)"
| "set_wins_loop (s # rest) home away =
     (if set_games_away s < set_games_home s then set_wins_loop rest (home + 1) away
      else set_wins_loop rest home (away + 1))"

definition set_wins :: "SetScore list \<Rightarrow> int \<times> int" where
  "set_wins sets = set_wins_loop sets 0 0"

definition completed_set_changes ::
  "TennisState \<Rightarrow> SetScore \<Rightarrow> PlayerSide \<Rightarrow> TennisState" where
  "completed_set_changes s set_score next_server =
     (let sets = completed_sets s @ [set_score];
          (home_wins, away_wins) = set_wins sets;
          required = sets_required (match_format s);
          w = (if home_wins = required then Some HOME
               else if away_wins = required then Some AWAY else None);
          terminal = (w \<noteq> None)
      in s\<lparr>status := (if terminal then MS_ENDED else MS_LIVE),
           termination_kind := (if terminal then TK_NATURAL else TK_NONE),
           winner := w,
           retired_side := None,
           completed_sets := sets,
           games_home := 0,
           games_away := 0,
           points_home := LOVE,
           points_away := LOVE,
           in_tiebreak := False,
           tiebreak_points_home := 0,
           tiebreak_points_away := 0,
           tiebreak_first_server := None,
           server_for_next_point := (if terminal then None else Some next_server)\<rparr>)"

text \<open>The point ladder of a game: the new scores of the point's winner and loser, and whether
  the game is won.\<close>

definition game_point :: "ScoreValue \<Rightarrow> ScoreValue \<Rightarrow> (ScoreValue \<times> ScoreValue) \<times> bool" where
  "game_point own opponent =
     (if own = ADVANTAGE then ((own, opponent), True)
      else if opponent = ADVANTAGE then ((FORTY, FORTY), False)
      else if own = FORTY then
        if opponent = FORTY then ((ADVANTAGE, opponent), False) else ((own, opponent), True)
      else if own = LOVE then ((FIFTEEN, opponent), False)
      else if own = FIFTEEN then ((THIRTY, opponent), False)
      else ((FORTY, opponent), False))"

definition advance_tiebreak :: "TennisState \<Rightarrow> PlayerSide \<Rightarrow> TennisState result" where
  "advance_tiebreak s w =
     (let home = (if w = HOME then tiebreak_points_home s + 1 else tiebreak_points_home s);
          away = (if w = HOME then tiebreak_points_away s else tiebreak_points_away s + 1)
      in case tiebreak_first_server s of
           None \<Rightarrow> Inl AssertionError
         | Some first_server \<Rightarrow>
             if tiebreak_won home away then
               bind_result
                 (construct set_score_post_init
                    \<lparr>set_games_home = (if w = HOME then 7 else 6),
                     set_games_away = (if w = HOME then 6 else 7),
                     set_tiebreak_points_home = Some home,
                     set_tiebreak_points_away = Some away\<rparr>)
                 (\<lambda>set_score. Inr (completed_set_changes s set_score (opposite first_server)))
             else
               Inr (s\<lparr>tiebreak_points_home := home,
                      tiebreak_points_away := away,
                      server_for_next_point := Some (tiebreak_server first_server (home + away))\<rparr>))"

definition advance_game :: "TennisState \<Rightarrow> PlayerSide \<Rightarrow> TennisState result" where
  \<comment> \<open>the tail of \<open>_advance_score\<close> after a game has been won\<close>
  "advance_game s w =
     (let home = (if w = HOME then games_home s + 1 else games_home s);
          away = (if w = HOME then games_away s else games_away s + 1)
      in case server_for_next_point s of
           None \<Rightarrow> Inl AssertionError
         | Some server \<Rightarrow>
             (let next_server = opposite server
              in if normal_set_won home away then
                   bind_result
                     (construct set_score_post_init
                        \<lparr>set_games_home = home, set_games_away = away,
                         set_tiebreak_points_home = None, set_tiebreak_points_away = None\<rparr>)
                     (\<lambda>set_score. Inr (completed_set_changes s set_score next_server))
                 else if home = 6 \<and> away = 6 then
                   Inr (s\<lparr>games_home := home, games_away := away,
                          points_home := LOVE, points_away := LOVE,
                          in_tiebreak := True,
                          tiebreak_points_home := 0, tiebreak_points_away := 0,
                          tiebreak_first_server := Some next_server,
                          server_for_next_point := Some next_server\<rparr>)
                 else
                   Inr (s\<lparr>games_home := home, games_away := away,
                          points_home := LOVE, points_away := LOVE,
                          server_for_next_point := Some next_server\<rparr>)))"

definition advance_score :: "TennisState \<Rightarrow> PlayerSide \<Rightarrow> TennisState result" where
  "advance_score s w =
     (if in_tiebreak s then advance_tiebreak s w
      else
        (let own = (if w = HOME then points_home s else points_away s);
             opponent = (if w = HOME then points_away s else points_home s);
             ((own', opponent'), game_won) = game_point own opponent
         in if \<not> game_won then
              if w = HOME then Inr (s\<lparr>points_home := own', points_away := opponent'\<rparr>)
              else Inr (s\<lparr>points_home := opponent', points_away := own'\<rparr>)
            else advance_game s w))"

definition apply_point :: "TennisState \<Rightarrow> ProviderPoint \<Rightarrow> TennisTransitionResult result" where
  "apply_point s point =
     bind_result (validate_tennis_state s) (\<lambda>_.
     bind_result (event_semantic (PointEvent point)) (\<lambda>(semantic_bytes, event_digest).
     bind_result (incremental_precheck s point event_digest) (\<lambda>prechecked.
       case prechecked of
         Some r \<Rightarrow> Inr r
       | None \<Rightarrow>
           if status s = MS_ENDED \<or> status s = MS_CANCELLED
           then blocked s point event_digest TERMINAL_ABSORBING
           else if status s \<noteq> MS_LIVE then blocked s point event_digest POINT_WHILE_NOT_LIVE
           else if Some (server_before_point point) \<noteq> server_for_next_point s
           then blocked s point event_digest SERVER_MISMATCH
           else
             bind_result (advance_score s (point_winner point)) (\<lambda>changed.
             bind_result (applied_state changed point event_digest) (\<lambda>applied.
               make_result applied APPLIED POINT_APPLIED event_digest)))))"

subsection \<open>Lifecycle events\<close>

definition lifecycle_payload_valid :: "ProviderLifecycle \<Rightarrow> bool \<Rightarrow> bool \<Rightarrow> bool \<Rightarrow> bool" where
  "lifecycle_payload_valid event winner_required retired_required server_required =
     (if winner_required \<noteq> (lc_winner event \<noteq> None) then False
      else if retired_required \<noteq> (lc_retired_side event \<noteq> None) then False
      else if server_required \<noteq> (lc_server_for_next_point event \<noteq> None) then False
      else if winner_required \<and> retired_required \<and> lc_winner event = lc_retired_side event
      then False
      else True)"

text \<open>The legal lifecycle transitions: the changed state and whether the server is compared.\<close>

definition lifecycle_changes :: "TennisState \<Rightarrow> ProviderLifecycle \<Rightarrow> (TennisState \<times> bool) option" where
  "lifecycle_changes s event =
     (if status s = MS_SCHEDULED \<and> lc_kind event = LK_START
         \<and> lifecycle_payload_valid event False False True
      then Some (s\<lparr>status := MS_LIVE, server_for_next_point := lc_server_for_next_point event\<rparr>, False)
      else if status s = MS_LIVE \<and> lc_kind event = LK_SUSPEND
         \<and> lifecycle_payload_valid event False False True
      then Some (s\<lparr>status := MS_SUSPENDED\<rparr>, True)
      else if status s = MS_SUSPENDED \<and> lc_kind event = LK_RESUME
         \<and> lifecycle_payload_valid event False False True
      then Some (s\<lparr>status := MS_LIVE\<rparr>, True)
      else if status s = MS_SCHEDULED \<and> lc_kind event = LK_WALKOVER
         \<and> lifecycle_payload_valid event True False False
      then Some (s\<lparr>status := MS_ENDED, termination_kind := TK_WALKOVER, winner := lc_winner event,
                   retired_side := None, server_for_next_point := None\<rparr>, False)
      else if (status s = MS_LIVE \<or> status s = MS_SUSPENDED) \<and> lc_kind event = LK_RETIREMENT
         \<and> lifecycle_payload_valid event True True False
      then Some (s\<lparr>status := MS_ENDED, termination_kind := TK_RETIREMENT, winner := lc_winner event,
                   retired_side := lc_retired_side event, server_for_next_point := None\<rparr>, False)
      else if (status s = MS_SCHEDULED \<or> status s = MS_LIVE \<or> status s = MS_SUSPENDED)
         \<and> lc_kind event = LK_CANCEL \<and> lifecycle_payload_valid event False False False
      then Some (s\<lparr>status := MS_CANCELLED, termination_kind := TK_CANCELLATION, winner := None,
                   retired_side := None, server_for_next_point := None\<rparr>, False)
      else None)"

definition apply_lifecycle :: "TennisState \<Rightarrow> ProviderLifecycle \<Rightarrow> TennisTransitionResult result" where
  "apply_lifecycle s event =
     bind_result (validate_tennis_state s) (\<lambda>_.
     bind_result (event_semantic (LifecycleEvent event)) (\<lambda>(semantic_bytes, event_digest).
     bind_result (incremental_precheck s event event_digest) (\<lambda>prechecked.
       case prechecked of
         Some r \<Rightarrow> Inr r
       | None \<Rightarrow>
           (let terminal = (status s = MS_ENDED \<or> status s = MS_CANCELLED);
                natural_confirmation =
                  (status s = MS_ENDED \<and> termination_kind s = TK_NATURAL
                   \<and> lc_kind event = LK_NATURAL_END_CONFIRMATION)
            in if terminal \<and> \<not> natural_confirmation
               then blocked s event event_digest TERMINAL_ABSORBING
               else if natural_confirmation then
                 if \<not> (lc_winner event = winner s \<and> lc_retired_side event = None
                        \<and> lc_server_for_next_point event = None)
                 then blocked s event event_digest ILLEGAL_LIFECYCLE_TRANSITION
                 else
                   bind_result (applied_state s event event_digest) (\<lambda>applied.
                     make_result applied APPLIED NATURAL_END_CONFIRMED event_digest)
               else
                 (case lifecycle_changes s event of
                    None \<Rightarrow> blocked s event event_digest ILLEGAL_LIFECYCLE_TRANSITION
                  | Some (changed, compare_server) \<Rightarrow>
                      if compare_server \<and> lc_server_for_next_point event \<noteq> server_for_next_point s
                      then blocked s event event_digest SERVER_MISMATCH
                      else
                        bind_result (applied_state changed event event_digest) (\<lambda>applied.
                          make_result applied APPLIED LIFECYCLE_APPLIED event_digest))))))"

subsection \<open>Corrections\<close>

definition correction_rejected ::
  "TennisState \<Rightarrow> ProviderSnapshot \<Rightarrow> string \<Rightarrow> TennisTransitionReason
     \<Rightarrow> TennisTransitionResult result" where
  "correction_rejected s replacement event_digest reason =
     bind_result
       (if block_reason s \<noteq> None then Inr s
        else block_state s reason event_digest (sn_received_monotonic_ns replacement) None None)
       (\<lambda>rejected. make_result rejected BLOCKED reason event_digest)"

definition minimum_receipt :: "TennisState \<Rightarrow> int" where
  "minimum_receipt s =
     (case blocked_received_monotonic_ns s of
        None \<Rightarrow> last_received_monotonic_ns s
      | Some b \<Rightarrow> if last_received_monotonic_ns s < b then b else last_received_monotonic_ns s)"

definition apply_correction :: "TennisState \<Rightarrow> ProviderSnapshot \<Rightarrow> TennisTransitionResult result" where
  "apply_correction s replacement =
     bind_result (validate_tennis_state s) (\<lambda>_.
     bind_result (event_semantic (SnapshotEvent replacement)) (\<lambda>(semantic_bytes, event_digest).
       let reject = correction_rejected s replacement event_digest
       in if provider_match_id replacement \<noteq> provider_match_id s
             \<or> home_player_id replacement \<noteq> home_player_id s
             \<or> away_player_id replacement \<noteq> away_player_id s
             \<or> scheduled_start_wall_ns replacement \<noteq> scheduled_start_wall_ns s
          then reject IDENTITY_MISMATCH
          else if provider_source_id replacement \<noteq> provider_source_id s
             \<or> source_lineage_sha256 replacement \<noteq> source_lineage_sha256 s
          then reject SOURCE_LINEAGE_MISMATCH
          else if revision_domain_id replacement \<noteq> revision_domain_id s
          then reject REVISION_DOMAIN_MISMATCH
          else if match_format replacement = UNSUPPORTED then reject UNSUPPORTED_FORMAT
          else if match_format replacement \<noteq> match_format s then reject FORMAT_MISMATCH
          else if sn_received_monotonic_ns replacement < minimum_receipt s
          then reject RECEIVE_TIME_REGRESSION
          else if correction_epoch replacement = correction_epoch s
             \<and> revision replacement = revision s
             \<and> event_digest = last_event_semantic_sha256 s
          then make_result s DUPLICATE EXACT_DUPLICATE event_digest
          else if correction_epoch replacement \<le> correction_epoch s
          then reject CORRECTION_EPOCH_NOT_NEWER
          else if \<not> sn_snapshot_complete replacement \<or> \<not> reachable replacement
          then reject CORRECTION_SNAPSHOT_INVALID
          else
            (case bytes_fromhex (correction_lineage_sha256 s) of
               None \<Rightarrow> Inl (ValueError ''fromhex'')
             | Some lineage \<Rightarrow>
                 bind_result
                   (snapshot_state replacement event_digest
                      (hexdigest (sha256 (correction_lineage_domain @ lineage @ semantic_bytes))))
                   (\<lambda>applied. make_result applied APPLIED CORRECTION_APPLIED event_digest))))"

end
