(* ===== verification/Encoding.thy ===== *)
theory Encoding
  imports Validators
begin

text \<open>
  Which contract values have canonical bytes.  \<open>encodable\<close> is the exact domain of
  \<open>_project\<close>: the integers are below the bound and the decimals have a canonical text.
\<close>

definition decimal_encodable :: "rat \<Rightarrow> bool" where
  "decimal_encodable d = (case canonical_decimal d of Inl _ \<Rightarrow> False | Inr _ \<Rightarrow> True)"

fun encodable :: "pyval \<Rightarrow> bool" where
  "encodable (VInt i) = (\<bar>i\<bar> < integer_bound)"
| "encodable (VDecimal d) = decimal_encodable d"
| "encodable (VTuple xs) = list_all encodable xs"
| "encodable (VDict kvs) = list_all (\<lambda>kv. encodable (snd kv)) kvs"
| "encodable (VContract name kvs) = list_all (\<lambda>kv. encodable (snd kv)) kvs"
| "encodable v = True"

lemma decimal_encodable_iff: "decimal_encodable d \<longleftrightarrow> (\<exists>s. canonical_decimal d = Inr s)"
  by (auto simp: decimal_encodable_def split: sum.splits)

lemma map_result_ex_iff: "(\<exists>ys. map_result f xs = Inr ys) \<longleftrightarrow> (\<forall>x \<in> set xs. \<exists>y. f x = Inr y)"
  by (induction xs) (auto simp: bind_result_eq_Inr)

lemma bind_ok_iff: "(\<exists>y. bind_result m (\<lambda>x. Inr (f x)) = Inr y) \<longleftrightarrow> (\<exists>x. m = Inr x)"
  by (auto simp: bind_result_eq_Inr)

lemma project_defined: "(\<exists>j. project v = Inr j) \<longleftrightarrow> encodable v"
proof (induction v rule: project.induct)
  case (7 xs)
  then show ?case
    by (simp add: bind_ok_iff map_result_ex_iff list_all_iff)
next
  case (8 kvs)
  then show ?case
    by (simp add: bind_ok_iff map_result_ex_iff list_all_iff)
next
  case (9 name kvs)
  then show ?case
    by (simp add: bind_ok_iff map_result_ex_iff list_all_iff) (simp add: bind_result_eq_Inr)
qed (auto simp: bind_ok_iff decimal_encodable_iff)

lemma canonical_bytes_defined: "(\<exists>b. canonical_expert_bytes v = Inr b) \<longleftrightarrow> encodable v"
  by (simp add: canonical_expert_bytes_def bind_ok_iff project_defined)

lemma contract_digest_defined: "(\<exists>d. expert_contract_sha256 v = Inr d) \<longleftrightarrow> encodable v"
  by (simp add: expert_contract_sha256_def bind_ok_iff canonical_bytes_defined)

lemma encodable_vopt [simp]: "encodable (vopt f x) \<longleftrightarrow> (case x of None \<Rightarrow> True | Some y \<Rightarrow> encodable (f y))"
  by (simp add: vopt_def split: option.splits)

lemma encodable_vopt_int: "when_some (\<lambda>v. integer v n) x = None \<Longrightarrow> encodable (vopt VInt x)"
  by (cases x) (auto simp: vopt_def integer_ok_def)

lemma integer_ok_encodable [simp]: "integer_ok i \<Longrightarrow> encodable (VInt i)"
  by (auto simp: integer_ok_def)

end
