(* ===== verification/TennisInvariant.thy ===== *)
theory TennisInvariant
  imports TennisScore Encoding
begin

text \<open>
  The invariant of the scoring machine and the lemmas that carry it through a point: which
  parts of a value the score predicates read, what a completed set does to the set count, and
  that \<open>_advance_score\<close> takes a valid score board to a valid score board.  The lemmas avoid
  rewriting with the two implications about advantage at once, which the simplifier chases in
  a circle; \<open>validate_score_iff\<close> is used with \<open>blast\<close>.
\<close>

subsection \<open>Well-formed values\<close>

definition sets_ok :: "SetScore list \<Rightarrow> bool" where
  "sets_ok xs \<longleftrightarrow> list_all (\<lambda>x. set_score_post_init x = None) xs"

definition tennis_state_ok :: "TennisState \<Rightarrow> bool" where
  "tennis_state_ok s \<longleftrightarrow> tennis_state_post_init s = None \<and> sets_ok (completed_sets s)"

definition provider_snapshot_ok :: "ProviderSnapshot \<Rightarrow> bool" where
  "provider_snapshot_ok p \<longleftrightarrow> provider_snapshot_post_init p = None \<and> sets_ok (completed_sets p)"

definition provider_point_ok :: "ProviderPoint \<Rightarrow> bool" where
  "provider_point_ok p \<longleftrightarrow> provider_point_post_init p = None"

definition provider_lifecycle_ok :: "ProviderLifecycle \<Rightarrow> bool" where
  "provider_lifecycle_ok p \<longleftrightarrow> provider_lifecycle_post_init p = None"

text \<open>The invariant of the scoring machine: a constructed state whose score is reachable.\<close>

definition tennis_inv :: "TennisState \<Rightarrow> bool" where
  "tennis_inv s \<longleftrightarrow> tennis_state_ok s \<and> reachable s"

definition board_ok :: "'a score_board_scheme \<Rightarrow> bool" where
  "board_ok v \<longleftrightarrow>
     match_format v \<in> set supported_match_formats \<and> status_ok v \<and> validate_score v = None
     \<and> sets_ok (completed_sets v) \<and> reachable v"

definition increment_ok :: "'a provider_increment_scheme \<Rightarrow> bool" where
  "increment_ok e \<longleftrightarrow>
     safe_id_ok (provider_event_id e) \<and> validate_identity e None = None
     \<and> integer_ok (correction_epoch e) \<and> positive_integer_ok (revision e)
     \<and> integer_ok (source_wall_ns e) \<and> integer_ok (source_generated_wall_ns e)
     \<and> integer_ok (received_monotonic_ns e) \<and> integer_ok (clock_uncertainty_ns e)"

lemmas tennis_validators =
  validate_identity_def validate_status_def validate_event_times_def validate_block_metadata_def

lemma sets_ok_append [simp]: "sets_ok (xs @ [x]) \<longleftrightarrow> sets_ok xs \<and> set_score_post_init x = None"
  by (auto simp: sets_ok_def)

lemma sets_ok_Nil [simp]: "sets_ok []"
  by (simp add: sets_ok_def)

lemma point_increment_ok: "provider_point_ok p \<longleftrightarrow> increment_ok p"
  by (auto simp: provider_point_ok_def increment_ok_def provider_point_post_init_def tennis_validators)

lemma lifecycle_increment_ok: "provider_lifecycle_ok p \<longleftrightarrow> increment_ok p"
  by (auto simp: provider_lifecycle_ok_def increment_ok_def provider_lifecycle_post_init_def tennis_validators)

lemma tennis_inv_iff:
  "tennis_inv s \<longleftrightarrow>
     board_ok s \<and> validate_identity s None = None
     \<and> integer_ok (correction_epoch s) \<and> integer_ok (revision s)
     \<and> snapshot_complete s \<and> safe_id_ok (last_provider_event_id s)
     \<and> sha256_ok (last_event_semantic_sha256 s) \<and> sha256_ok (correction_lineage_sha256 s)
     \<and> integer_ok (last_source_wall_ns s) \<and> integer_ok (last_source_generated_wall_ns s)
     \<and> integer_ok (last_received_monotonic_ns s) \<and> integer_ok (last_clock_uncertainty_ns s)
     \<and> pred_option integer_ok (expected_revision s) \<and> pred_option integer_ok (observed_revision s)
     \<and> pred_option integer_ok (blocked_received_monotonic_ns s)
     \<and> pred_option sha256_ok (blocked_event_semantic_sha256 s)
     \<and> validate_block_metadata s = None"
  by (auto simp: tennis_inv_def tennis_state_ok_def tennis_state_post_init_def board_ok_def
      when_some_eq_None option.pred_set validate_status_def)

subsection \<open>The score only depends on the score board\<close>

definition board_fields :: "'a score_board_scheme \<Rightarrow> _" where
  "board_fields v =
     ((match_format v, status v, termination_kind v, winner v, retired_side v, completed_sets v),
      (games_home v, games_away v, points_home v, points_away v),
      (in_tiebreak v, tiebreak_points_home v, tiebreak_points_away v, tiebreak_first_server v,
       server_for_next_point v))"

lemma board_fields_cong:
  assumes "board_fields v = board_fields w"
  shows "completed_prefix v = completed_prefix w" "reachable v = reachable w"
    "status_ok v = status_ok w" "validate_score v = validate_score w" "board_ok v = board_ok w"
proof -
  note eqs = assms[unfolded board_fields_def prod.inject]
  show prefix: "completed_prefix v = completed_prefix w"
    unfolding completed_prefix_def by (simp only: eqs)
  show reach: "reachable v = reachable w"
    unfolding reachable_def incomplete_score_is_reachable_def score_is_zero_def
    by (simp only: eqs prefix)
  show stat: "status_ok v = status_ok w"
    unfolding status_ok_def by (simp only: eqs)
  show score: "validate_score v = validate_score w"
    unfolding validate_score_def by (simp only: eqs)
  show "board_ok v = board_ok w"
    unfolding board_ok_def by (simp only: eqs reach stat score)
qed

subsection \<open>Advancing the score\<close>

text \<open>What an operation that only changes the score leaves alone.\<close>

definition trail_fields :: "TennisState \<Rightarrow> _" where
  "trail_fields s =
     (provider_key.truncate s, snapshot_complete s, last_provider_event_id s,
      last_event_semantic_sha256 s, correction_lineage_sha256 s,
      (last_source_wall_ns s, last_source_generated_wall_ns s, last_received_monotonic_ns s,
       last_clock_uncertainty_ns s),
      (block_reason s, expected_revision s, observed_revision s,
       blocked_event_semantic_sha256 s, blocked_received_monotonic_ns s))"

lemma completed_set_changes_trail: "trail_fields (completed_set_changes s x n) = trail_fields s"
  by (simp add: completed_set_changes_def trail_fields_def provider_key.truncate_def Let_def
      split: prod.splits)

lemma advance_tiebreak_trail:
  "advance_tiebreak s w = Inr s' \<Longrightarrow> trail_fields s' = trail_fields s"
  by (auto simp: advance_tiebreak_def Let_def bind_result_eq_Inr completed_set_changes_trail
      split: option.splits if_split_asm)
    (simp_all add: trail_fields_def provider_key.truncate_def)

lemma advance_game_trail:
  "advance_game s w = Inr s' \<Longrightarrow> trail_fields s' = trail_fields s"
  by (auto simp: advance_game_def Let_def bind_result_eq_Inr completed_set_changes_trail
      split: option.splits if_split_asm)
    (simp_all add: trail_fields_def provider_key.truncate_def)

lemma advance_score_trail:
  "advance_score s w = Inr s' \<Longrightarrow> trail_fields s' = trail_fields s"
  by (auto simp: advance_score_def Let_def advance_tiebreak_trail advance_game_trail
      split: if_split_asm prod.splits)
    (simp_all add: trail_fields_def provider_key.truncate_def)

subsection \<open>Completed sets\<close>

lemma completed_set_winner_games:
  "completed_set_winner x = Some w \<Longrightarrow> (w = HOME) = (set_games_away x < set_games_home x)"
  by (auto simp: completed_set_winner_def Let_def split: option.splits if_splits)

lemma completed_prefix_loop_snoc:
  assumes "completed_prefix_loop req xs h a None = (True, None)" "set_wins_loop xs h a = (h', a')"
  shows "completed_prefix_loop req (xs @ [x]) h a None = completed_prefix_loop req [x] h' a' None"
  using assms
proof (induction xs arbitrary: h a)
  case (Cons s xs)
  then obtain w where w: "completed_set_winner s = Some w"
    by (auto split: option.splits)
  note games = completed_set_winner_games[OF w]
  show ?case
    using Cons.prems Cons.IH w games
    by (cases xs) (auto simp: Let_def split: if_splits option.splits)
qed simp

lemma completed_prefix_loop_unclinched:
  assumes "completed_prefix_loop req xs h a None = (True, None)" "set_wins_loop xs h a = (h', a')"
    "h \<noteq> req" "a \<noteq> req"
  shows "h' \<noteq> req \<and> a' \<noteq> req"
  using assms
proof (induction xs arbitrary: h a)
  case (Cons s xs)
  then obtain w where w: "completed_set_winner s = Some w"
    by (auto split: option.splits)
  note games = completed_set_winner_games[OF w]
  show ?case
    using Cons.prems Cons.IH w games
    by (cases xs) (auto simp: Let_def split: if_splits option.splits)
qed simp

lemma set_wins_loop_snoc:
  "set_wins_loop (xs @ [x]) h a =
     (let (h', a') = set_wins_loop xs h a
      in if set_games_away x < set_games_home x then (h' + 1, a') else (h', a' + 1))"
  by (induction xs arbitrary: h a) (auto simp: Let_def)

lemma completed_prefix_loop_single:
  "completed_set_winner x = Some w \<Longrightarrow>
   completed_prefix_loop req [x] h a None =
     (True, if w = HOME then if h + 1 = req then Some HOME else None
            else if a + 1 = req then Some AWAY else None)"
  by (cases w) (auto simp: Let_def)

lemma sets_required_cases: "sets_required f = 2 \<or> sets_required f = 3"
  by (simp add: sets_required_def)

lemma completed_set_changes_board:
  assumes format: "match_format s \<in> set supported_match_formats"
    and sets: "sets_ok (completed_sets s)" "set_score_post_init x = None"
    and prefix: "completed_prefix s = (True, None)"
    and won: "completed_set_winner x = Some w"
  shows "board_ok (completed_set_changes s x n)"
proof -
  obtain h a where wins: "set_wins_loop (completed_sets s) 0 0 = (h, a)"
    by fastforce
  let ?req = "sets_required (match_format s)"
  let ?s = "completed_set_changes s x n"
  have loop: "completed_prefix_loop ?req (completed_sets s) 0 0 None = (True, None)"
    using prefix by (simp add: completed_prefix_def)
  have open': "h \<noteq> ?req" "a \<noteq> ?req"
    using completed_prefix_loop_unclinched[OF loop wins] sets_required_cases[of "match_format s"] by auto
  have prefix': "completed_prefix_loop ?req (completed_sets s @ [x]) 0 0 None =
      (True, if w = HOME then if h + 1 = ?req then Some HOME else None
             else if a + 1 = ?req then Some AWAY else None)"
    using completed_prefix_loop_snoc[OF loop wins] completed_prefix_loop_single[OF won] by simp
  show ?thesis
    using format sets open' prefix' wins completed_set_winner_games[OF won]
    by (cases w)
      (auto simp: board_ok_def completed_set_changes_def Let_def set_wins_def set_wins_loop_snoc
        reachable_def incomplete_score_is_reachable_def completed_prefix_def status_ok_def
        validate_score_def normal_set_won_def)
qed

lemma board_okD:
  "board_ok s \<Longrightarrow> match_format s \<in> set supported_match_formats"
  "board_ok s \<Longrightarrow> sets_ok (completed_sets s)"
  "board_ok s \<Longrightarrow> validate_score s = None"
  "board_ok s \<Longrightarrow> status_ok s"
  "board_ok s \<Longrightarrow> reachable s"
  by (simp_all add: board_ok_def)

lemma tiebreak_set_winner:
  assumes "tiebreak_won h a" "h = (if w = HOME then th + 1 else th)"
    "a = (if w = HOME then ta else ta + 1)" "\<not> tiebreak_won th ta"
  shows "completed_set_winner
     \<lparr>set_games_home = (if w = HOME then 7 else 6), set_games_away = (if w = HOME then 6 else 7),
      set_tiebreak_points_home = Some h, set_tiebreak_points_away = Some a\<rparr> = Some w"
  using assms by (cases w) (auto simp: completed_set_winner_def tiebreak_won_def Let_def)

lemma normal_set_winner:
  assumes "normal_set_won h a" "h = (if w = HOME then gh + 1 else gh)"
    "a = (if w = HOME then ga else ga + 1)" "\<not> normal_set_won gh ga"
    "0 \<le> gh" "0 \<le> ga" "gh \<le> 6" "ga \<le> 6"
  shows "completed_set_winner
     \<lparr>set_games_home = h, set_games_away = a,
      set_tiebreak_points_home = None, set_tiebreak_points_away = None\<rparr> = Some w"
  using assms by (cases w) (auto simp: completed_set_winner_def normal_set_won_def Let_def)

lemma live_score:
  assumes "board_ok s" "status s = MS_LIVE \<or> status s = MS_SUSPENDED"
  shows "completed_prefix s = (True, None)"
    "server_for_next_point s \<noteq> None"
    "\<not> in_tiebreak s \<Longrightarrow> games_home s \<le> 6 \<and> games_away s \<le> 6
       \<and> \<not> (games_home s = 6 \<and> games_away s = 6)
       \<and> \<not> normal_set_won (games_home s) (games_away s)"
    "in_tiebreak s \<Longrightarrow> games_home s = 6 \<and> games_away s = 6
       \<and> \<not> tiebreak_won (tiebreak_points_home s) (tiebreak_points_away s)
       \<and> (\<exists>f. tiebreak_first_server s = Some f
            \<and> server_for_next_point s =
                Some (tiebreak_server f (tiebreak_points_home s + tiebreak_points_away s)))"
  using assms
  by (auto simp: board_ok_def reachable_def incomplete_score_is_reachable_def Let_def
      split: if_split_asm prod.splits option.splits)

lemma integer_ok_games: "0 \<le> v \<Longrightarrow> v \<le> 10 \<Longrightarrow> integer_ok v"
  by (simp add: integer_ok_def integer_bound_def)

lemma validate_score_iff:
  "validate_score v = None \<longleftrightarrow>
     integer_ok (games_home v) \<and> integer_ok (games_away v)
     \<and> integer_ok (tiebreak_points_home v) \<and> integer_ok (tiebreak_points_away v)
     \<and> (\<not> (points_home v = ADVANTAGE \<and> points_away v \<noteq> FORTY)
        \<and> \<not> (points_away v = ADVANTAGE \<and> points_home v \<noteq> FORTY))
     \<and> \<not> (points_home v = ADVANTAGE \<and> points_away v = ADVANTAGE)
     \<and> (if in_tiebreak v then points_home v = LOVE \<and> points_away v = LOVE
        else tiebreak_points_home v = 0 \<and> tiebreak_points_away v = 0 \<and> tiebreak_first_server v = None)"
  by (simp only: validate_score_def first_raise_eq_None contract_error_eq_None integer_eq_None
      first_raise.simps(1) simp_thms)

text \<open>The winner of a tiebreak point has room for one more point below the integer bound.\<close>

definition point_room :: "TennisState \<Rightarrow> PlayerSide \<Rightarrow> bool" where
  "point_room s w \<longleftrightarrow>
     (if w = HOME then tiebreak_points_home s else tiebreak_points_away s) + 1 < integer_bound"

lemma advance_tiebreak_ok:
  assumes ok: "board_ok s" and live: "status s = MS_LIVE" and tb: "in_tiebreak s"
    and small: "point_room s w"
  shows "\<exists>s'. advance_tiebreak s w = Inr s' \<and> board_ok s'"
proof -
  note ls = live_score[OF ok disjI1[OF live]]
  from ls(4)[OF tb] obtain f where f: "tiebreak_first_server s = Some f"
    and games: "games_home s = 6" "games_away s = 6"
    and open': "\<not> tiebreak_won (tiebreak_points_home s) (tiebreak_points_away s)"
    by blast
  define h where "h = (if w = HOME then tiebreak_points_home s + 1 else tiebreak_points_home s)"
  define a where "a = (if w = HOME then tiebreak_points_away s else tiebreak_points_away s + 1)"
  have points: "integer_ok (tiebreak_points_home s)" "integer_ok (tiebreak_points_away s)"
    using board_okD(3)[OF ok] unfolding validate_score_iff by blast+
  have ok_ha: "integer_ok h" "integer_ok a"
    using small points by (auto simp: h_def a_def integer_ok_def point_room_def)
  show ?thesis
  proof (cases "tiebreak_won h a")
    case True
    let ?x = "\<lparr>set_games_home = (if w = HOME then 7 else 6), set_games_away = (if w = HOME then 6 else 7),
      set_tiebreak_points_home = Some h, set_tiebreak_points_away = Some a\<rparr>"
    have "set_score_post_init ?x = None"
      using ok_ha by (simp add: set_score_post_init_def integer_ok_games)
    moreover have "completed_set_winner ?x = Some w"
      by (rule tiebreak_set_winner[OF True h_def a_def open'])
    ultimately have "board_ok (completed_set_changes s ?x (opposite f))"
      "construct set_score_post_init ?x = Inr ?x"
      using board_okD[OF ok] ls(1) by (simp_all add: completed_set_changes_board)
    then show ?thesis
      using True f by (simp add: advance_tiebreak_def Let_def h_def[symmetric] a_def[symmetric])
  next
    case False
    then show ?thesis
      using f games tb live ok ok_ha ls(1)
      by (simp add: advance_tiebreak_def Let_def h_def[symmetric] a_def[symmetric])
        (simp add: board_ok_def reachable_def incomplete_score_is_reachable_def completed_prefix_def
          status_ok_def validate_score_def)
  qed
qed

lemma advance_game_ok:
  assumes ok: "board_ok s" and live: "status s = MS_LIVE" and tb: "\<not> in_tiebreak s"
  shows "\<exists>s'. advance_game s w = Inr s' \<and> board_ok s'"
proof -
  note ls = live_score[OF ok disjI1[OF live]]
  from ls(2) obtain sv where sv: "server_for_next_point s = Some sv"
    by blast
  define h where "h = (if w = HOME then games_home s + 1 else games_home s)"
  define a where "a = (if w = HOME then games_away s else games_away s + 1)"
  have bounds: "0 \<le> games_home s" "0 \<le> games_away s" "games_home s \<le> 6" "games_away s \<le> 6"
    and open': "\<not> normal_set_won (games_home s) (games_away s)"
      "\<not> (games_home s = 6 \<and> games_away s = 6)"
    using ok ls(3)[OF tb] by (auto simp: board_ok_def validate_score_def dest: integer_ok_nonneg)
  have ok_ha: "integer_ok h" "integer_ok a"
    using bounds by (auto simp: h_def a_def intro!: integer_ok_games)
  show ?thesis
  proof (cases "normal_set_won h a")
    case True
    let ?x = "\<lparr>set_games_home = h, set_games_away = a,
      set_tiebreak_points_home = None, set_tiebreak_points_away = None\<rparr>"
    have "set_score_post_init ?x = None"
      using ok_ha by (simp add: set_score_post_init_def)
    moreover have "completed_set_winner ?x = Some w"
      by (rule normal_set_winner[OF True h_def a_def open'(1) bounds])
    ultimately have "board_ok (completed_set_changes s ?x (opposite sv))"
      "construct set_score_post_init ?x = Inr ?x"
      using board_okD[OF ok] ls(1) by (simp_all add: completed_set_changes_board)
    then show ?thesis
      using True sv by (simp add: advance_game_def Let_def h_def[symmetric] a_def[symmetric])
  next
    case False
    then have "h \<le> 6" "a \<le> 6"
      using bounds open' by (auto simp: h_def a_def normal_set_won_def split: if_splits)
    then show ?thesis
      using False sv tb live ok ok_ha ls(1)
      by (auto simp: advance_game_def Let_def h_def[symmetric] a_def[symmetric])
        (auto simp: board_ok_def reachable_def incomplete_score_is_reachable_def completed_prefix_def
          status_ok_def validate_score_def tiebreak_won_def tiebreak_server_def)
  qed
qed

lemma live_game_board_iff:
  assumes "status v = MS_LIVE" "\<not> in_tiebreak v"
  shows "board_ok v \<longleftrightarrow>
     match_format v \<in> set supported_match_formats \<and> sets_ok (completed_sets v)
     \<and> termination_kind v = TK_NONE \<and> winner v = None \<and> retired_side v = None
     \<and> validate_score v = None \<and> completed_prefix v = (True, None)
     \<and> games_home v \<le> 6 \<and> games_away v \<le> 6 \<and> \<not> (games_home v = 6 \<and> games_away v = 6)
     \<and> \<not> normal_set_won (games_home v) (games_away v) \<and> server_for_next_point v \<noteq> None"
  using assms
  by (simp add: board_ok_def reachable_def incomplete_score_is_reachable_def status_ok_def
      split: prod.splits) auto

lemma completed_prefix_points [simp]:
  "completed_prefix (s\<lparr>points_home := ph, points_away := pa\<rparr>) = completed_prefix s"
  by (simp add: completed_prefix_def)

lemma advance_points_ok:
  assumes ok: "board_ok s" and live: "status s = MS_LIVE" and tb: "\<not> in_tiebreak s"
    and pts: "ph = ADVANTAGE \<longrightarrow> pa = FORTY" "pa = ADVANTAGE \<longrightarrow> ph = FORTY"
  shows "board_ok (s\<lparr>points_home := ph, points_away := pa\<rparr>)"
proof -
  have score: "integer_ok (games_home s)" "integer_ok (games_away s)"
    "tiebreak_points_home s = 0" "tiebreak_points_away s = 0" "tiebreak_first_server s = None"
    using board_okD(3)[OF ok] tb unfolding validate_score_iff by argo+
  have "validate_score (s\<lparr>points_home := ph, points_away := pa\<rparr>) = None"
    using score tb pts by (cases ph; cases pa) (simp_all add: validate_score_def)
  then show ?thesis
    using ok live tb by (simp add: live_game_board_iff)
qed

lemma game_point_advantage:
  "game_point own opp = ((own', opp'), False) \<Longrightarrow>
   (own = ADVANTAGE \<longrightarrow> opp = FORTY) \<and> (opp = ADVANTAGE \<longrightarrow> own = FORTY) \<Longrightarrow>
   (own' = ADVANTAGE \<longrightarrow> opp' = FORTY) \<and> (opp' = ADVANTAGE \<longrightarrow> own' = FORTY)"
  by (cases own; cases opp) (auto simp: game_point_def)

lemma advance_score_ok:
  assumes ok: "board_ok s" and live: "status s = MS_LIVE"
    and small: "point_room s w"
  shows "\<exists>s'. advance_score s w = Inr s' \<and> board_ok s'"
proof (cases "in_tiebreak s")
  case True
  then show ?thesis
    using advance_tiebreak_ok[OF ok live True small] by (simp add: advance_score_def)
next
  case False
  define own where "own = (if w = HOME then points_home s else points_away s)"
  define opp where "opp = (if w = HOME then points_away s else points_home s)"
  obtain own' opp' won where g: "game_point own opp = ((own', opp'), won)"
    by (metis surj_pair)
  show ?thesis
  proof (cases won)
    case True
    then show ?thesis
      using False g advance_game_ok[OF ok live False, of w]
      by (simp add: advance_score_def Let_def own_def[symmetric] opp_def[symmetric])
  next
    case open': False
    have adv: "(points_home s = ADVANTAGE \<longrightarrow> points_away s = FORTY)
        \<and> (points_away s = ADVANTAGE \<longrightarrow> points_home s = FORTY)"
      using board_okD(3)[OF ok] unfolding validate_score_iff by blast
    have "(own = ADVANTAGE \<longrightarrow> opp = FORTY) \<and> (opp = ADVANTAGE \<longrightarrow> own = FORTY)"
      using adv unfolding own_def opp_def by metis
    moreover have "game_point own opp = ((own', opp'), False)"
      using g open' by (cases won) simp_all
    ultimately have pts: "(own' = ADVANTAGE \<longrightarrow> opp' = FORTY) \<and> (opp' = ADVANTAGE \<longrightarrow> own' = FORTY)"
      using game_point_advantage by blast
    show ?thesis
      using False g open' pts advance_points_ok[OF ok live False]
      by (simp add: advance_score_def Let_def own_def[symmetric] opp_def[symmetric])
  qed
qed

end
