(* ===== verification/TennisTransitions.thy ===== *)
theory TennisTransitions
  imports TennisInvariant
begin

text \<open>
  The three transitions in closed form.  Under the invariant each of them is a choice between
  an out-of-sequence answer, a refusal that installs a block, and an applied event; the case
  rules \<open>apply_point_cases\<close>, \<open>apply_lifecycle_cases\<close> and
  \<open>apply_correction_cases\<close> are what the properties of \<open>TennisProperties\<close> use.
\<close>

subsection \<open>Events have digests\<close>

lemma sets_ok_encodable: "sets_ok xs \<Longrightarrow> list_all encodable (map set_score_pyval xs)"
  by (induction xs)
    (auto simp: sets_ok_def set_score_post_init_def set_score_pyval_def integer_ok_def
      split: option.splits)

lemmas enum_pyvals =
  player_side_pyval_def match_status_pyval_def match_format_pyval_def termination_kind_pyval_def
  provider_lifecycle_kind_pyval_def score_value_pyval_def transition_disposition_pyval_def
  tennis_transition_reason_pyval_def

lemma semantic_encodable:
  "encodable v \<Longrightarrow> encodable (semantic_fields v)"
  by (cases v) (auto simp: semantic_fields_def list_all_iff)

lemma event_semantic_defined:
  assumes "encodable (case e of SnapshotEvent p \<Rightarrow> provider_snapshot_pyval p
    | PointEvent p \<Rightarrow> provider_point_pyval p | LifecycleEvent p \<Rightarrow> provider_lifecycle_pyval p)"
  shows "\<exists>b. event_semantic e = Inr (b, hexdigest (sha256 (event_domain @ b)))"
proof -
  have "encodable (semantic_value e)"
    using assms semantic_encodable by (auto simp: semantic_value_def Let_def split: provider_event.splits)
  then obtain b where "canonical_expert_bytes (semantic_value e) = Inr b"
    using canonical_bytes_defined by blast
  then show ?thesis
    by (simp add: event_semantic_def)
qed

lemma point_encodable: "increment_ok p \<Longrightarrow> encodable (provider_point_pyval p)"
  by (simp add: increment_ok_def provider_point_pyval_def validate_identity_def enum_pyvals
      del: encodable.simps(1))

lemma lifecycle_encodable: "increment_ok p \<Longrightarrow> encodable (provider_lifecycle_pyval p)"
  by (simp add: increment_ok_def provider_lifecycle_pyval_def validate_identity_def enum_pyvals
      del: encodable.simps(1) split: option.splits)

lemma validate_score_ints:
  "validate_score v = None \<Longrightarrow> integer_ok (games_home v) \<and> integer_ok (games_away v)
     \<and> integer_ok (tiebreak_points_home v) \<and> integer_ok (tiebreak_points_away v)"
  unfolding validate_score_iff by blast

lemma provider_snapshot_okD:
  assumes "provider_snapshot_ok p"
  shows "safe_id_ok (sn_provider_event_id p)" "validate_identity p None = None" "status_ok p"
    "validate_score p = None" "integer_ok (correction_epoch p)" "integer_ok (revision p)"
    "integer_ok (sn_source_wall_ns p)" "integer_ok (sn_source_generated_wall_ns p)"
    "integer_ok (sn_received_monotonic_ns p)" "integer_ok (sn_clock_uncertainty_ns p)"
    "sets_ok (completed_sets p)"
  using assms
  by (simp_all add: provider_snapshot_ok_def provider_snapshot_post_init_def tennis_validators)

lemma snapshot_encodable:
  assumes "provider_snapshot_ok p"
  shows "encodable (provider_snapshot_pyval p)"
proof -
  note ok = provider_snapshot_okD[OF assms]
  have "integer_ok (scheduled_start_wall_ns p)"
    using ok(2) by (simp add: validate_identity_def)
  then show ?thesis
    using ok(5-11) validate_score_ints[OF ok(4)] sets_ok_encodable[OF ok(11)]
    by (simp add: provider_snapshot_pyval_def enum_pyvals del: encodable.simps(1) split: option.splits)
qed

lemma point_digest:
  "provider_point_ok p \<Longrightarrow> \<exists>b. event_semantic (PointEvent p) = Inr (b, hexdigest (sha256 (event_domain @ b)))"
  by (intro event_semantic_defined) (simp add: point_increment_ok point_encodable)

lemma lifecycle_digest:
  "provider_lifecycle_ok p \<Longrightarrow> \<exists>b. event_semantic (LifecycleEvent p) = Inr (b, hexdigest (sha256 (event_domain @ b)))"
  by (intro event_semantic_defined) (simp add: lifecycle_increment_ok lifecycle_encodable)

lemma snapshot_digest:
  "provider_snapshot_ok p \<Longrightarrow> \<exists>b. event_semantic (SnapshotEvent p) = Inr (b, hexdigest (sha256 (event_domain @ b)))"
  by (intro event_semantic_defined) (simp add: snapshot_encodable)

subsection \<open>Blocking and applying\<close>

definition with_block ::
  "TennisState \<Rightarrow> TennisTransitionReason \<Rightarrow> string \<Rightarrow> int \<Rightarrow> int option \<Rightarrow> int option \<Rightarrow> TennisState" where
  "with_block s reason d t x y =
     s\<lparr>block_reason := Some reason, expected_revision := x, observed_revision := y,
       blocked_event_semantic_sha256 := Some d, blocked_received_monotonic_ns := Some t\<rparr>"

lemma board_ok_with_block [simp]: "board_ok (with_block s reason d t x y) = board_ok s"
  by (rule board_fields_cong) (simp add: board_fields_def with_block_def)

lemma reachable_with_block [simp]: "reachable (with_block s reason d t x y) = reachable s"
  by (rule board_fields_cong) (simp add: board_fields_def with_block_def)

lemma with_block_inv:
  assumes "tennis_inv s" "reason \<in> set installed_block_reasons" "sha256_ok d" "integer_ok t"
    "if reason = PROVIDER_EVENT_GAP then \<exists>a b. x = Some a \<and> y = Some b \<and> integer_ok a \<and> integer_ok b
     else x = None \<and> y = None"
  shows "tennis_inv (with_block s reason d t x y)"
  using assms
  by (simp add: tennis_inv_iff) (auto simp: with_block_def validate_identity_def validate_block_metadata_def
      split: if_splits)

lemma block_state_eq:
  assumes "tennis_inv (with_block s reason d t x y)"
  shows "block_state s reason d t x y = Inr (with_block s reason d t x y)"
  using assms by (simp add: block_state_def tennis_inv_def tennis_state_ok_def with_block_def)

lemma make_result_eq:
  "sha256_ok d \<Longrightarrow> make_result s disp reason d =
     Inr \<lparr>tr_state = s, tr_disposition = disp, tr_reason = reason, tr_event_semantic_sha256 = d\<rparr>"
  by (simp add: make_result_def tennis_transition_result_post_init_def)

definition with_event :: "TennisState \<Rightarrow> 'a provider_increment_scheme \<Rightarrow> string \<Rightarrow> TennisState" where
  "with_event s event d =
     s\<lparr>revision := revision event, last_provider_event_id := provider_event_id event,
       last_event_semantic_sha256 := d, last_source_wall_ns := source_wall_ns event,
       last_source_generated_wall_ns := source_generated_wall_ns event,
       last_received_monotonic_ns := received_monotonic_ns event,
       last_clock_uncertainty_ns := clock_uncertainty_ns event, block_reason := None,
       expected_revision := None, observed_revision := None,
       blocked_event_semantic_sha256 := None, blocked_received_monotonic_ns := None\<rparr>"

lemma board_ok_with_event [simp]: "board_ok (with_event s e d) = board_ok s"
  by (rule board_fields_cong) (simp add: board_fields_def with_event_def)

lemma with_event_inv:
  assumes "tennis_inv s" "trail_fields s' = trail_fields s" "board_ok s'" "increment_ok e" "sha256_ok d"
  shows "tennis_inv (with_event s' e d)"
  using assms
  by (simp add: tennis_inv_iff)
    (simp add: trail_fields_def provider_key.truncate_def with_event_def validate_identity_def
      validate_block_metadata_def increment_ok_def)

lemma applied_state_eq:
  assumes "tennis_inv (with_event s e d)"
  shows "applied_state s e d = Inr (with_event s e d)"
  using assms by (simp add: applied_state_def tennis_inv_def tennis_state_ok_def with_event_def)

definition result_of ::
  "TennisState \<Rightarrow> TransitionDisposition \<Rightarrow> TennisTransitionReason \<Rightarrow> string \<Rightarrow> TennisTransitionResult" where
  "result_of s disp reason d =
     \<lparr>tr_state = s, tr_disposition = disp, tr_reason = reason, tr_event_semantic_sha256 = d\<rparr>"

lemma result_of_simps [simp]:
  "tr_state (result_of s disp reason d) = s"
  "tr_disposition (result_of s disp reason d) = disp"
  "tr_reason (result_of s disp reason d) = reason"
  "tr_event_semantic_sha256 (result_of s disp reason d) = d"
  by (simp_all add: result_of_def)

lemma make_result_of: "sha256_ok d \<Longrightarrow> make_result s disp reason d = Inr (result_of s disp reason d)"
  by (simp add: make_result_eq result_of_def)

lemma blocked_eq:
  assumes "tennis_inv s" "integer_ok (received_monotonic_ns e)" "sha256_ok d"
    "reason \<in> set installed_block_reasons" "reason \<noteq> PROVIDER_EVENT_GAP"
  shows "blocked s e d reason =
     Inr (result_of (with_block s reason d (received_monotonic_ns e) None None) BLOCKED reason d)"
  using assms by (simp add: blocked_revisions_def block_state_eq with_block_inv make_result_of)

lemma blocked_gap_eq:
  assumes "tennis_inv s" "integer_ok (received_monotonic_ns e)" "sha256_ok d"
    "integer_ok x" "integer_ok y"
  shows "blocked_revisions s e d PROVIDER_EVENT_GAP (Some x) (Some y) =
     Inr (result_of (with_block s PROVIDER_EVENT_GAP d (received_monotonic_ns e) (Some x) (Some y))
       BLOCKED PROVIDER_EVENT_GAP d)"
  using assms
  by (simp add: blocked_revisions_def block_state_eq with_block_inv make_result_of installed_block_reasons_def)

subsection \<open>The precheck\<close>

definition same_fixture :: "TennisState \<Rightarrow> 'a provider_key_scheme \<Rightarrow> bool" where
  "same_fixture s e \<longleftrightarrow>
     provider_match_id e = provider_match_id s \<and> home_player_id e = home_player_id s
     \<and> away_player_id e = away_player_id s
     \<and> scheduled_start_wall_ns e = scheduled_start_wall_ns s"

definition same_source :: "TennisState \<Rightarrow> 'a provider_key_scheme \<Rightarrow> bool" where
  "same_source s e \<longleftrightarrow>
     provider_source_id e = provider_source_id s
     \<and> source_lineage_sha256 e = source_lineage_sha256 s"

lemma not_same_fixture:
  "(provider_match_id e \<noteq> provider_match_id s \<or> home_player_id e \<noteq> home_player_id s
    \<or> away_player_id e \<noteq> away_player_id s
    \<or> scheduled_start_wall_ns e \<noteq> scheduled_start_wall_ns s) = (\<not> same_fixture s e)"
  by (simp add: same_fixture_def)

lemma not_same_source:
  "(provider_source_id e \<noteq> provider_source_id s
    \<or> source_lineage_sha256 e \<noteq> source_lineage_sha256 s) = (\<not> same_source s e)"
  by (simp add: same_source_def)

definition same_match :: "TennisState \<Rightarrow> 'a provider_key_scheme \<Rightarrow> bool" where
  "same_match s e \<longleftrightarrow>
     same_fixture s e \<and> same_source s e \<and> revision_domain_id e = revision_domain_id s
     \<and> match_format e = match_format s"

definition next_in_sequence :: "TennisState \<Rightarrow> 'a provider_increment_scheme \<Rightarrow> bool" where
  "next_in_sequence s e \<longleftrightarrow>
     block_reason s = None \<and> same_match s e \<and> last_received_monotonic_ns s \<le> received_monotonic_ns e
     \<and> correction_epoch e = correction_epoch s \<and> revision e = revision s + 1"

definition redelivered :: "TennisState \<Rightarrow> 'a provider_increment_scheme \<Rightarrow> string \<Rightarrow> bool" where
  "redelivered s e d \<longleftrightarrow>
     block_reason s = None \<and> same_match s e \<and> last_received_monotonic_ns s \<le> received_monotonic_ns e
     \<and> correction_epoch e = correction_epoch s \<and> revision e = revision s
     \<and> d = last_event_semantic_sha256 s"

text \<open>The reason an event that is neither next in sequence nor a redelivery is refused with.\<close>

definition refusal_reason ::
  "TennisState \<Rightarrow> 'a provider_increment_scheme \<Rightarrow> string \<Rightarrow> TennisTransitionReason" where
  "refusal_reason s e d =
     (if block_reason s \<noteq> None then CORRECTION_REQUIRED
      else if \<not> same_fixture s e then IDENTITY_MISMATCH
      else if \<not> same_source s e then SOURCE_LINEAGE_MISMATCH
      else if revision_domain_id e \<noteq> revision_domain_id s then REVISION_DOMAIN_MISMATCH
      else if match_format e \<noteq> match_format s then FORMAT_MISMATCH
      else if received_monotonic_ns e < last_received_monotonic_ns s then RECEIVE_TIME_REGRESSION
      else if correction_epoch e < correction_epoch s then CORRECTION_EPOCH_STALE
      else if correction_epoch s < correction_epoch e then CORRECTION_EPOCH_AHEAD
      else if revision e = revision s then PROVIDER_EVENT_CONFLICT
      else if revision e < revision s then PROVIDER_EVENT_STALE
      else PROVIDER_EVENT_GAP)"

definition refused_state ::
  "TennisState \<Rightarrow> 'a provider_increment_scheme \<Rightarrow> string \<Rightarrow> TennisState" where
  "refused_state s e d =
     (if block_reason s \<noteq> None then s
      else if refusal_reason s e d = PROVIDER_EVENT_GAP
      then with_block s PROVIDER_EVENT_GAP d (received_monotonic_ns e)
             (Some (revision s + 1)) (Some (revision e))
      else with_block s (refusal_reason s e d) d (received_monotonic_ns e) None None)"

lemma integer_ok_between: "integer_ok a \<Longrightarrow> integer_ok c \<Longrightarrow> a + 1 < c \<Longrightarrow> integer_ok (a + 1)"
  by (simp add: integer_ok_def)

lemma incremental_precheck_eq:
  assumes inv: "tennis_inv s" and e: "increment_ok e" and d: "sha256_ok d"
  shows "incremental_precheck s e d =
     Inr (if next_in_sequence s e then None
          else if redelivered s e d then Some (result_of s DUPLICATE EXACT_DUPLICATE d)
          else Some (result_of (refused_state s e d) BLOCKED (refusal_reason s e d) d))"
proof -
  have ints: "integer_ok (received_monotonic_ns e)" "integer_ok (revision e)" "integer_ok (revision s)"
    using inv e by (simp_all add: tennis_inv_iff increment_ok_def)
  have last: "sha256_ok (last_event_semantic_sha256 s)"
    using inv by (simp add: tennis_inv_iff)
  note gap = blocked_gap_eq[OF inv ints(1) d integer_ok_between[OF ints(3,2)] ints(2)]
  show ?thesis
    unfolding incremental_precheck_def Let_def not_same_fixture not_same_source
    by (simp add: blocked_eq[OF inv ints(1) d] gap make_result_of[OF d] make_result_of[OF last] next_in_sequence_def
        redelivered_def refused_state_def refusal_reason_def same_match_def installed_block_reasons_def)
qed

lemma refused_state_inv:
  assumes inv: "tennis_inv s" and e: "increment_ok e" and d: "sha256_ok d"
    and no: "\<not> next_in_sequence s e" 
  shows "tennis_inv (refused_state s e d)"
proof -
  have ints: "integer_ok (received_monotonic_ns e)" "integer_ok (revision e)" "integer_ok (revision s)"
    using inv e by (simp_all add: tennis_inv_iff increment_ok_def)
  have gap: "revision s + 1 < revision e" if "block_reason s = None" "refusal_reason s e d = PROVIDER_EVENT_GAP"
    using that no by (auto simp: refusal_reason_def next_in_sequence_def same_match_def split: if_splits)
  show ?thesis
    using inv ints d integer_ok_between[OF ints(3,2)] gap
    by (auto simp: refused_state_def intro!: with_block_inv)
       (auto simp: installed_block_reasons_def refusal_reason_def)
qed

definition semantic_bytes_of :: "provider_event \<Rightarrow> bytes" where
  "semantic_bytes_of e = (case event_semantic e of Inl _ \<Rightarrow> [] | Inr (b, d) \<Rightarrow> b)"

definition event_digest :: "provider_event \<Rightarrow> string" where
  "event_digest e = (case event_semantic e of Inl _ \<Rightarrow> [] | Inr (b, d) \<Rightarrow> d)"

lemma event_semantic_eq:
  assumes "\<exists>b. event_semantic e = Inr (b, hexdigest (sha256 (event_domain @ b)))"
  shows "event_semantic e = Inr (semantic_bytes_of e, event_digest e)" "sha256_ok (event_digest e)"
  using assms by (auto simp: semantic_bytes_of_def event_digest_def)

lemmas point_semantic = event_semantic_eq[OF point_digest]
lemmas lifecycle_semantic = event_semantic_eq[OF lifecycle_digest]
lemmas snapshot_semantic = event_semantic_eq[OF snapshot_digest]

definition out_of_sequence ::
  "TennisState \<Rightarrow> 'a provider_increment_scheme \<Rightarrow> string \<Rightarrow> TennisTransitionResult" where
  "out_of_sequence s e d =
     (if redelivered s e d then result_of s DUPLICATE EXACT_DUPLICATE d
      else result_of (refused_state s e d) BLOCKED (refusal_reason s e d) d)"

definition refuse ::
  "TennisState \<Rightarrow> 'a provider_increment_scheme \<Rightarrow> string \<Rightarrow> TennisTransitionReason \<Rightarrow> TennisTransitionResult" where
  "refuse s e d reason =
     result_of (with_block s reason d (received_monotonic_ns e) None None) BLOCKED reason d"

definition point_refusal :: "TennisState \<Rightarrow> ProviderPoint \<Rightarrow> TennisTransitionReason option" where
  "point_refusal s p =
     (if status s = MS_ENDED \<or> status s = MS_CANCELLED then Some TERMINAL_ABSORBING
      else if status s \<noteq> MS_LIVE then Some POINT_WHILE_NOT_LIVE
      else if Some (server_before_point p) \<noteq> server_for_next_point s then Some SERVER_MISMATCH
      else None)"

lemma refuse_inv:
  assumes "tennis_inv s" "increment_ok e" "sha256_ok d" "reason \<in> set installed_block_reasons"
    "reason \<noteq> PROVIDER_EVENT_GAP"
  shows "tennis_inv (tr_state (refuse s e d reason))"
  using assms by (simp add: refuse_def with_block_inv increment_ok_def)

lemma out_of_sequence_inv:
  assumes "tennis_inv s" "increment_ok e" "sha256_ok d" "\<not> next_in_sequence s e"
  shows "tennis_inv (tr_state (out_of_sequence s e d))"
  using assms by (simp add: out_of_sequence_def refused_state_inv)

lemma apply_point_eq:
  assumes inv: "tennis_inv s" and p: "provider_point_ok p"
  shows "apply_point s p =
     (let d = event_digest (PointEvent p)
      in if \<not> next_in_sequence s p then Inr (out_of_sequence s p d)
         else case point_refusal s p of
                Some reason \<Rightarrow> Inr (refuse s p d reason)
              | None \<Rightarrow>
                  bind_result (advance_score s (point_winner p)) (\<lambda>s'.
                    bind_result (applied_state s' p d) (\<lambda>a. Inr (result_of a APPLIED POINT_APPLIED d))))"
proof -
  have e: "increment_ok p"
    using p by (simp add: point_increment_ok)
  have recv: "integer_ok (received_monotonic_ns p)"
    using e by (simp add: increment_ok_def)
  have valid: "validate_tennis_state s = Inr ()"
    using inv by (simp add: tennis_inv_def validate_tennis_state_def)
  note sem = point_semantic[OF p]
  show ?thesis
    by (simp add: apply_point_def valid sem(1) incremental_precheck_eq[OF inv e sem(2)] Let_def
        out_of_sequence_def refuse_def point_refusal_def blocked_eq[OF inv recv sem(2)]
        installed_block_reasons_def make_result_of[OF sem(2)])
qed

lemma point_applied:
  assumes inv: "tennis_inv s" and p: "provider_point_ok p" and "point_refusal s p = None"
    and adv: "advance_score s (point_winner p) = Inr s'" and ok: "board_ok s'" and that: "sha256_ok d"
  shows "tennis_inv (with_event s' p d) \<and> applied_state s' p d = Inr (with_event s' p d)"
proof -
  have "tennis_inv (with_event s' p d)"
    using p by (intro with_event_inv[OF inv advance_score_trail[OF adv] ok _ that])
      (simp add: point_increment_ok)
  then show ?thesis
    by (simp add: applied_state_eq)
qed

lemma tennis_invD:
  assumes "tennis_inv s"
  shows "board_ok s" "integer_ok (revision s)" "integer_ok (correction_epoch s)"
    "sha256_ok (last_event_semantic_sha256 s)" "sha256_ok (correction_lineage_sha256 s)"
  using assms by (simp_all add: tennis_inv_iff)

lemma apply_point_cases:
  assumes inv: "tennis_inv s" and p: "provider_point_ok p"
  assumes room: "point_room s (point_winner p)"
  obtains
    (out) "\<not> next_in_sequence s p"
      "apply_point s p = Inr (out_of_sequence s p (event_digest (PointEvent p)))"
  | (refused) reason where "next_in_sequence s p" "point_refusal s p = Some reason"
      "apply_point s p = Inr (refuse s p (event_digest (PointEvent p)) reason)"
  | (applied) s' where "next_in_sequence s p" "point_refusal s p = None"
      "advance_score s (point_winner p) = Inr s'" "board_ok s'"
      "tennis_inv (with_event s' p (event_digest (PointEvent p)))"
      "apply_point s p = Inr (result_of (with_event s' p (event_digest (PointEvent p)))
         APPLIED POINT_APPLIED (event_digest (PointEvent p)))"
proof -
  note eq = apply_point_eq[OF inv p, unfolded Let_def]
  show thesis
  proof (cases "next_in_sequence s p")
    case False
    then show ?thesis using out eq by simp
  next
    case nxt: True
    show ?thesis
    proof (cases "point_refusal s p")
      case (Some reason)
      then show ?thesis using refused eq nxt by simp
    next
      case None
      then have "status s = MS_LIVE"
        by (simp add: point_refusal_def split: if_splits)
      then obtain s' where s': "advance_score s (point_winner p) = Inr s'" "board_ok s'"
        using advance_score_ok[OF tennis_invD(1)[OF inv] _ room] by blast
      show ?thesis
        using applied[OF nxt None s'] point_applied[OF inv p None s' point_semantic(2)[OF p]] eq nxt None s'
        by simp
    qed
  qed
qed

lemma point_refusal_reasons:
  "point_refusal s p = Some r \<Longrightarrow> r \<in> set installed_block_reasons \<and> r \<noteq> PROVIDER_EVENT_GAP"
  by (auto simp: point_refusal_def installed_block_reasons_def split: if_splits)

theorem apply_point_total:
  assumes inv: "tennis_inv s" and p: "provider_point_ok p" and room: "point_room s (point_winner p)"
  shows "\<exists>r. apply_point s p = Inr r \<and> tennis_inv (tr_state r)"
proof -
  have e: "increment_ok p"
    using p by (simp add: point_increment_ok)
  show ?thesis
    using inv p room
    by (rule apply_point_cases)
      (use inv e point_semantic(2)[OF p] point_refusal_reasons in
        \<open>auto simp: out_of_sequence_inv refuse_inv\<close>)
qed

lemma no_room:
  assumes ok: "board_ok s" and live: "status s = MS_LIVE" and full: "\<not> point_room s w"
  shows "(\<exists>e. advance_score s w = Inl e) \<or> (\<exists>s'. advance_score s w = Inr s' \<and> validate_score s' \<noteq> None)"
proof -
  have tb: "in_tiebreak s"
    using full board_okD(3)[OF ok] unfolding validate_score_iff
    by (auto simp: point_room_def integer_bound_def split: if_splits)
  from live_score(4)[OF ok disjI1[OF live] tb] obtain f where f: "tiebreak_first_server s = Some f"
    by blast
  have big: "w = HOME \<Longrightarrow> \<not> integer_ok (tiebreak_points_home s + 1)"
    "w \<noteq> HOME \<Longrightarrow> \<not> integer_ok (tiebreak_points_away s + 1)"
    using full by (auto simp: point_room_def integer_ok_def)
  define h where "h = (if w = HOME then tiebreak_points_home s + 1 else tiebreak_points_home s)"
  define a where "a = (if w = HOME then tiebreak_points_away s else tiebreak_points_away s + 1)"
  have big': "\<not> (integer_ok h \<and> integer_ok a)"
    using big by (cases w) (simp_all add: h_def a_def)
  show ?thesis
  proof (cases "tiebreak_won h a")
    case True
    have "\<exists>e. set_score_post_init
      \<lparr>set_games_home = (if w = HOME then 7 else 6), set_games_away = (if w = HOME then 6 else 7),
       set_tiebreak_points_home = Some h, set_tiebreak_points_away = Some a\<rparr> = Some e"
      using big' by (auto simp: set_score_post_init_def simp flip: not_None_eq)
    then obtain er where "construct set_score_post_init
      \<lparr>set_games_home = (if w = HOME then 7 else 6), set_games_away = (if w = HOME then 6 else 7),
       set_tiebreak_points_home = Some h, set_tiebreak_points_away = Some a\<rparr> = Inl er"
      by auto
    then have "advance_score s w = Inl er"
      using True tb f
      by (simp add: advance_score_def advance_tiebreak_def Let_def h_def[symmetric] a_def[symmetric]
          bind_result_eq_Inl split: if_splits)
    then show ?thesis by blast
  next
    case False
    let ?s = "s\<lparr>tiebreak_points_home := h, tiebreak_points_away := a,
        server_for_next_point := Some (tiebreak_server f (h + a))\<rparr>"
    have "validate_score ?s \<noteq> None"
      using big' validate_score_ints[of ?s] by auto
    moreover have "advance_score s w = Inr ?s"
      using False tb f
      by (simp add: advance_score_def advance_tiebreak_def Let_def h_def[symmetric] a_def[symmetric])
    ultimately show ?thesis by blast
  qed
qed

lemma applied_state_eq_Inr:
  "applied_state s e d = Inr a \<longleftrightarrow> tennis_state_post_init (with_event s e d) = None \<and> a = with_event s e d"
  by (simp add: applied_state_def with_event_def)

lemma validate_score_with_event: "validate_score (with_event s e d) = validate_score s"
  by (rule board_fields_cong) (simp add: board_fields_def with_event_def)

lemma applied_score_ok: "applied_state s e d = Inr a \<Longrightarrow> validate_score s = None"
  using validate_score_with_event[of s e d]
  by (simp add: applied_state_eq_Inr tennis_state_post_init_def)

lemma apply_point_keeps:
  assumes inv: "tennis_inv s" and p: "provider_point_ok p" and r: "apply_point s p = Inr r"
  shows "tennis_inv (tr_state r)"
proof (cases "point_room s (point_winner p)")
  case True
  then show ?thesis using apply_point_total[OF inv p True] r by simp
next
  case False
  have e: "increment_ok p"
    using p by (simp add: point_increment_ok)
  note eq = apply_point_eq[OF inv p, unfolded Let_def]
  show ?thesis
  proof (cases "next_in_sequence s p \<and> point_refusal s p = None")
    case True
    then have "status s = MS_LIVE"
      by (auto simp: point_refusal_def split: if_splits)
    from no_room[OF tennis_invD(1)[OF inv] this False] show ?thesis
      using True r eq by (auto simp: bind_result_eq_Inr dest: applied_score_ok)
  next
    case no: False
    then show ?thesis
      using r eq out_of_sequence_inv[OF inv e point_semantic(2)[OF p]]
        refuse_inv[OF inv e point_semantic(2)[OF p]] point_refusal_reasons[of s p]
      by (auto split: if_splits option.splits)
  qed
qed

subsection \<open>Lifecycle events\<close>

definition lifecycle_outcome ::
  "TennisState \<Rightarrow> ProviderLifecycle \<Rightarrow> TennisTransitionReason + TennisState \<times> TennisTransitionReason" where
  "lifecycle_outcome s e =
     (if status s = MS_ENDED \<or> status s = MS_CANCELLED then
        if status s = MS_ENDED \<and> termination_kind s = TK_NATURAL \<and> lc_kind e = LK_NATURAL_END_CONFIRMATION
        then if lc_winner e = winner s \<and> lc_retired_side e = None \<and> lc_server_for_next_point e = None
             then Inr (s, NATURAL_END_CONFIRMED) else Inl ILLEGAL_LIFECYCLE_TRANSITION
        else Inl TERMINAL_ABSORBING
      else case lifecycle_changes s e of
             None \<Rightarrow> Inl ILLEGAL_LIFECYCLE_TRANSITION
           | Some (s', compare) \<Rightarrow>
               if compare \<and> lc_server_for_next_point e \<noteq> server_for_next_point s
               then Inl SERVER_MISMATCH else Inr (s', LIFECYCLE_APPLIED))"

lemma apply_lifecycle_eq:
  assumes inv: "tennis_inv s" and p: "provider_lifecycle_ok p"
  shows "apply_lifecycle s p =
     (let d = event_digest (LifecycleEvent p)
      in if \<not> next_in_sequence s p then Inr (out_of_sequence s p d)
         else case lifecycle_outcome s p of
                Inl reason \<Rightarrow> Inr (refuse s p d reason)
              | Inr (s', reason) \<Rightarrow>
                  bind_result (applied_state s' p d) (\<lambda>a. Inr (result_of a APPLIED reason d)))"
proof -
  have e: "increment_ok p"
    using p by (simp add: lifecycle_increment_ok)
  have recv: "integer_ok (received_monotonic_ns p)"
    using e by (simp add: increment_ok_def)
  have valid: "validate_tennis_state s = Inr ()"
    using inv by (simp add: tennis_inv_def validate_tennis_state_def)
  note sem = lifecycle_semantic[OF p]
  note b = blocked_eq[OF inv recv sem(2)]
  show ?thesis
    by (simp add: apply_lifecycle_def valid sem(1) incremental_precheck_eq[OF inv e sem(2)] Let_def
        out_of_sequence_def refuse_def lifecycle_outcome_def b
        installed_block_reasons_def make_result_of[OF sem(2)] split: option.splits prod.splits)
qed

lemma validate_score_server:
  "validate_score (s\<lparr>status := st, server_for_next_point := sv\<rparr>) = validate_score s"
  "validate_score (s\<lparr>status := st\<rparr>) = validate_score s"
  by (simp_all add: validate_score_def)

lemma incomplete_score_cong:
  assumes "match_format v = match_format w" "completed_sets v = completed_sets w"
    "games_home v = games_home w" "games_away v = games_away w"
    "points_home v = points_home w" "points_away v = points_away w"
    "in_tiebreak v = in_tiebreak w" "tiebreak_points_home v = tiebreak_points_home w"
    "tiebreak_points_away v = tiebreak_points_away w"
    "tiebreak_first_server v = tiebreak_first_server w"
    "server_for_next_point v = server_for_next_point w"
  shows "incomplete_score_is_reachable v b = incomplete_score_is_reachable w b"
  unfolding incomplete_score_is_reachable_def completed_prefix_def by (simp only: assms)

lemma incomplete_score_status [simp]:
  "incomplete_score_is_reachable (s\<lparr>status := st\<rparr>) b = incomplete_score_is_reachable s b"
  by (rule incomplete_score_cong) simp_all

lemma start_board:
  assumes "board_ok s" "status s = MS_SCHEDULED" "sv \<noteq> None"
  shows "board_ok (s\<lparr>status := MS_LIVE, server_for_next_point := sv\<rparr>)"
proof -
  have zero: "score_is_zero s" "termination_kind s = TK_NONE" "winner s = None" "retired_side s = None"
    using assms(1,2) by (simp_all add: board_ok_def reachable_def split: if_split_asm)
  then have "\<not> in_tiebreak s"
    by (simp add: score_is_zero_def)
  then show ?thesis
    using assms(3) zero board_okD[OF assms(1)]
    by (simp add: live_game_board_iff validate_score_server)
      (simp add: score_is_zero_def completed_prefix_def normal_set_won_def)
qed

lemma suspend_board:
  assumes "board_ok s" "status s = MS_LIVE \<or> status s = MS_SUSPENDED"
  shows "board_ok (s\<lparr>status := MS_LIVE\<rparr>)" "board_ok (s\<lparr>status := MS_SUSPENDED\<rparr>)"
proof -
  have "incomplete_score_is_reachable s True" "termination_kind s = TK_NONE"
    "winner s = None" "retired_side s = None"
    using assms by (auto simp: board_ok_def reachable_def split: if_split_asm)
  then show "board_ok (s\<lparr>status := MS_LIVE\<rparr>)" "board_ok (s\<lparr>status := MS_SUSPENDED\<rparr>)"
    using board_okD[OF assms(1)]
    by (simp_all add: board_ok_def validate_score_server reachable_def status_ok_def)
qed

lemma validate_score_stop:
  "validate_score (s\<lparr>status := st, termination_kind := t, winner := w,
     retired_side := rs, server_for_next_point := sv\<rparr>) = validate_score s"
  by (simp add: validate_score_def)

lemma walkover_board:
  assumes "board_ok s" "status s = MS_SCHEDULED" "w \<noteq> None"
  shows "board_ok (s\<lparr>status := MS_ENDED, termination_kind := TK_WALKOVER, winner := w,
     retired_side := None, server_for_next_point := None\<rparr>)"
  using assms board_okD[OF assms(1)]
  by (auto simp: board_ok_def validate_score_stop reachable_def status_ok_def score_is_zero_def
      split: if_split_asm)

lemma stopped_score:
  assumes "incomplete_score_is_reachable s True"
  shows "incomplete_score_is_reachable (s\<lparr>status := st, termination_kind := t, winner := w,
     retired_side := rs, server_for_next_point := None\<rparr>) False"
  using assms
  by (simp add: incomplete_score_is_reachable_def completed_prefix_def Let_def
      split: prod.splits option.splits if_split_asm)

lemma scheduled_score:
  assumes "score_is_zero s"
  shows "incomplete_score_is_reachable (s\<lparr>status := st, termination_kind := t, winner := w,
     retired_side := rs, server_for_next_point := None\<rparr>) False"
  using assms
  by (simp add: incomplete_score_is_reachable_def completed_prefix_def score_is_zero_def normal_set_won_def)

lemma retirement_board:
  assumes "board_ok s" "status s = MS_LIVE \<or> status s = MS_SUSPENDED" "w \<noteq> None" "rs \<noteq> None" "w \<noteq> rs"
  shows "board_ok (s\<lparr>status := MS_ENDED, termination_kind := TK_RETIREMENT, winner := w,
     retired_side := rs, server_for_next_point := None\<rparr>)"
proof -
  have "incomplete_score_is_reachable s True"
    using assms(1,2) by (auto simp: board_ok_def reachable_def)
  from stopped_score[OF this] show ?thesis
    using assms by (simp add: board_ok_def validate_score_stop) (simp add: reachable_def status_ok_def)
qed

lemma cancel_board:
  assumes "board_ok s" "status s = MS_SCHEDULED \<or> status s = MS_LIVE \<or> status s = MS_SUSPENDED"
  shows "board_ok (s\<lparr>status := MS_CANCELLED, termination_kind := TK_CANCELLATION, winner := None,
     retired_side := None, server_for_next_point := None\<rparr>)"
proof -
  have "incomplete_score_is_reachable s True \<or> score_is_zero s"
    using assms(1,2) by (auto simp: board_ok_def reachable_def)
  then have "incomplete_score_is_reachable (s\<lparr>status := MS_CANCELLED, termination_kind := TK_CANCELLATION,
      winner := None, retired_side := None, server_for_next_point := None\<rparr>) False"
    using stopped_score scheduled_score by blast
  then show ?thesis
    using assms by (simp add: board_ok_def validate_score_stop) (simp add: reachable_def status_ok_def)
qed

lemma payload_fields:
  "lifecycle_payload_valid e w r sv \<Longrightarrow>
     (w \<longleftrightarrow> lc_winner e \<noteq> None) \<and> (r \<longleftrightarrow> lc_retired_side e \<noteq> None)
     \<and> (sv \<longleftrightarrow> lc_server_for_next_point e \<noteq> None)
     \<and> (w \<and> r \<longrightarrow> lc_winner e \<noteq> lc_retired_side e)"
  by (auto simp: lifecycle_payload_valid_def split: if_split_asm)

lemma six_way_split:
  assumes "(if a then Some x1 else if b then Some x2 else if c then Some x3
    else if d then Some x4 else if e then Some x5 else if f then Some x6 else None) = Some y"
  obtains a "y = x1" | b "y = x2" | c "y = x3" | d "y = x4" | e "y = x5" | f "y = x6"
  using assms by (simp split: if_split_asm)

lemma lifecycle_changes_cases:
  assumes "lifecycle_changes s e = Some (s', c)"
  obtains
    (start) "status s = MS_SCHEDULED" "lc_kind e = LK_START" "lc_server_for_next_point e \<noteq> None"
      "s' = s\<lparr>status := MS_LIVE, server_for_next_point := lc_server_for_next_point e\<rparr>" "\<not> c"
  | (suspend) "status s = MS_LIVE" "lc_kind e = LK_SUSPEND" "s' = s\<lparr>status := MS_SUSPENDED\<rparr>" c
  | (resume) "status s = MS_SUSPENDED" "lc_kind e = LK_RESUME" "s' = s\<lparr>status := MS_LIVE\<rparr>" c
  | (walkover) "status s = MS_SCHEDULED" "lc_kind e = LK_WALKOVER" "lc_winner e \<noteq> None"
      "s' = s\<lparr>status := MS_ENDED, termination_kind := TK_WALKOVER, winner := lc_winner e,
              retired_side := None, server_for_next_point := None\<rparr>" "\<not> c"
  | (retirement) "status s = MS_LIVE \<or> status s = MS_SUSPENDED" "lc_kind e = LK_RETIREMENT"
      "lc_winner e \<noteq> None" "lc_retired_side e \<noteq> None" "lc_winner e \<noteq> lc_retired_side e"
      "s' = s\<lparr>status := MS_ENDED, termination_kind := TK_RETIREMENT, winner := lc_winner e,
              retired_side := lc_retired_side e, server_for_next_point := None\<rparr>" "\<not> c"
  | (cancel) "status s = MS_SCHEDULED \<or> status s = MS_LIVE \<or> status s = MS_SUSPENDED"
      "lc_kind e = LK_CANCEL"
      "s' = s\<lparr>status := MS_CANCELLED, termination_kind := TK_CANCELLATION, winner := None,
              retired_side := None, server_for_next_point := None\<rparr>" "\<not> c"
proof -
  note split = six_way_split[OF assms[unfolded lifecycle_changes_def]]
  show thesis
    apply (rule split)
    subgoal by (rule start) (use payload_fields[of e False False True] in blast)+
    subgoal by (rule suspend) simp_all
    subgoal by (rule resume) simp_all
    subgoal by (rule walkover) (use payload_fields[of e True False False] in blast)+
    subgoal by (rule retirement) (use payload_fields[of e True True False] in blast)+
    subgoal by (rule cancel) simp_all
    done
qed

lemma lifecycle_changes_ok:
  assumes ok: "board_ok s" and ch: "lifecycle_changes s e = Some (s', c)"
  shows "board_ok s' \<and> trail_fields s' = trail_fields s"
proof
  show "board_ok s'"
    using ch
    by (rule lifecycle_changes_cases)
      (use start_board[OF ok] suspend_board[OF ok] walkover_board[OF ok] retirement_board[OF ok]
        cancel_board[OF ok] in simp_all)
  show "trail_fields s' = trail_fields s"
    using ch by (rule lifecycle_changes_cases) (simp_all add: trail_fields_def provider_key.truncate_def)
qed

lemma lifecycle_outcome_ok:
  assumes ok: "board_ok s" and ch: "lifecycle_outcome s e = Inr (s', reason)"
  shows "board_ok s' \<and> trail_fields s' = trail_fields s"
  using ch lifecycle_changes_ok[OF ok, of e] ok
  by (auto simp: lifecycle_outcome_def split: if_splits option.splits)

lemma lifecycle_refusal_reasons:
  "lifecycle_outcome s e = Inl r \<Longrightarrow> r \<in> set installed_block_reasons \<and> r \<noteq> PROVIDER_EVENT_GAP"
  by (auto simp: lifecycle_outcome_def installed_block_reasons_def split: if_splits option.splits)

lemma apply_lifecycle_cases:
  assumes inv: "tennis_inv s" and p: "provider_lifecycle_ok p"
  obtains
    (out) "\<not> next_in_sequence s p"
      "apply_lifecycle s p = Inr (out_of_sequence s p (event_digest (LifecycleEvent p)))"
  | (refused) reason where "next_in_sequence s p" "lifecycle_outcome s p = Inl reason"
      "apply_lifecycle s p = Inr (refuse s p (event_digest (LifecycleEvent p)) reason)"
  | (applied) s' reason where "next_in_sequence s p" "lifecycle_outcome s p = Inr (s', reason)"
      "tennis_inv (with_event s' p (event_digest (LifecycleEvent p)))"
      "apply_lifecycle s p = Inr (result_of (with_event s' p (event_digest (LifecycleEvent p)))
         APPLIED reason (event_digest (LifecycleEvent p)))"
proof -
  note eq = apply_lifecycle_eq[OF inv p, unfolded Let_def]
  have e: "increment_ok p"
    using p by (simp add: lifecycle_increment_ok)
  show thesis
  proof (cases "next_in_sequence s p")
    case False
    then show ?thesis using out eq by simp
  next
    case nxt: True
    show ?thesis
    proof (cases "lifecycle_outcome s p")
      case (Inl reason)
      then show ?thesis using refused eq nxt by simp
    next
      case (Inr x)
      then obtain s' reason where x: "lifecycle_outcome s p = Inr (s', reason)"
        by (cases x) simp
      note ok = lifecycle_outcome_ok[OF tennis_invD(1)[OF inv] x]
      have "tennis_inv (with_event s' p (event_digest (LifecycleEvent p)))"
        using ok by (intro with_event_inv[OF inv _ _ e lifecycle_semantic(2)[OF p]]) simp_all
      then show ?thesis
        using applied[OF nxt x] eq nxt x by (simp add: applied_state_eq)
    qed
  qed
qed

theorem apply_lifecycle_total:
  assumes inv: "tennis_inv s" and p: "provider_lifecycle_ok p"
  shows "\<exists>r. apply_lifecycle s p = Inr r \<and> tennis_inv (tr_state r)"
proof -
  have e: "increment_ok p"
    using p by (simp add: lifecycle_increment_ok)
  show ?thesis
    using inv p
    by (rule apply_lifecycle_cases)
      (use inv e lifecycle_semantic(2)[OF p] lifecycle_refusal_reasons in
        \<open>auto simp: out_of_sequence_inv refuse_inv\<close>)
qed

subsection \<open>Snapshots and corrections\<close>

lemma snapshot_fields_facts:
  "board_fields (snapshot_fields p d l) = board_fields p"
  "provider_key.truncate (snapshot_fields p d l) = provider_key.truncate p"
  by (simp_all add: snapshot_fields_def board_fields_def provider_key.truncate_def)

lemma validate_identity_cong:
  "provider_key.truncate v = provider_key.truncate w \<Longrightarrow> validate_identity v n = validate_identity w n"
  by (simp add: provider_key.truncate_def validate_identity_def)

lemma snapshot_fields_inv:
  assumes p: "provider_snapshot_ok p" and r: "reachable p" and d: "sha256_ok d" and l: "sha256_ok l"
  shows "tennis_inv (snapshot_fields p d l)"
proof -
  note ok = provider_snapshot_okD[OF p]
  have "match_format p \<in> set supported_match_formats"
    using r by (simp add: reachable_def split: if_split_asm)
  then have b: "board_ok (snapshot_fields p d l)"
    using board_fields_cong(5)[OF snapshot_fields_facts(1)] ok r by (simp add: board_ok_def)
  show ?thesis
    using b ok d l validate_identity_cong[OF snapshot_fields_facts(2)]
    by (simp add: tennis_inv_iff) (simp add: snapshot_fields_def validate_block_metadata_def)
qed

lemma snapshot_state_eq:
  assumes "provider_snapshot_ok p" "reachable p" "sha256_ok d" "sha256_ok l"
  shows "snapshot_state p d l = Inr (snapshot_fields p d l)"
  using snapshot_fields_inv[OF assms] by (simp add: snapshot_state_def tennis_inv_def tennis_state_ok_def)

definition initial_lineage :: "ProviderSnapshot \<Rightarrow> string" where
  "initial_lineage p =
     hexdigest (sha256 (initial_lineage_domain @ semantic_bytes_of (SnapshotEvent p)))"

lemma state_from_snapshot_eq:
  assumes p: "provider_snapshot_ok p"
  shows "state_from_snapshot p =
     (if match_format p = UNSUPPORTED then Inl (TennisTransitionError UNSUPPORTED_FORMAT)
      else if \<not> sn_snapshot_complete p \<or> \<not> reachable p
      then Inl (TennisTransitionError SNAPSHOT_INVALID)
      else Inr (snapshot_fields p (event_digest (SnapshotEvent p)) (initial_lineage p)))"
  using snapshot_semantic[OF p]
  by (simp add: state_from_snapshot_def tennis_transition_error_def snapshot_state_eq[OF p] initial_lineage_def)

definition correction_lineage :: "TennisState \<Rightarrow> ProviderSnapshot \<Rightarrow> string" where
  "correction_lineage s p =
     hexdigest (sha256 (correction_lineage_domain @ the (bytes_fromhex (correction_lineage_sha256 s))
       @ semantic_bytes_of (SnapshotEvent p)))"

definition correction_rejection ::
  "TennisState \<Rightarrow> ProviderSnapshot \<Rightarrow> TennisTransitionReason option" where
  "correction_rejection s p =
     (if \<not> same_fixture s p then Some IDENTITY_MISMATCH
      else if \<not> same_source s p then Some SOURCE_LINEAGE_MISMATCH
      else if revision_domain_id p \<noteq> revision_domain_id s then Some REVISION_DOMAIN_MISMATCH
      else if match_format p = UNSUPPORTED then Some UNSUPPORTED_FORMAT
      else if match_format p \<noteq> match_format s then Some FORMAT_MISMATCH
      else if sn_received_monotonic_ns p < minimum_receipt s then Some RECEIVE_TIME_REGRESSION
      else if correction_epoch p \<le> correction_epoch s then Some CORRECTION_EPOCH_NOT_NEWER
      else if \<not> sn_snapshot_complete p \<or> \<not> reachable p then Some CORRECTION_SNAPSHOT_INVALID
      else None)"

definition correction_redelivered :: "TennisState \<Rightarrow> ProviderSnapshot \<Rightarrow> string \<Rightarrow> bool" where
  "correction_redelivered s p d \<longleftrightarrow>
     same_match s p \<and> match_format p \<noteq> UNSUPPORTED
     \<and> minimum_receipt s \<le> sn_received_monotonic_ns p
     \<and> correction_epoch p = correction_epoch s \<and> revision p = revision s
     \<and> d = last_event_semantic_sha256 s"

definition rejected_state ::
  "TennisState \<Rightarrow> ProviderSnapshot \<Rightarrow> string \<Rightarrow> TennisTransitionReason \<Rightarrow> TennisState" where
  "rejected_state s p d reason =
     (if block_reason s \<noteq> None then s
      else with_block s reason d (sn_received_monotonic_ns p) None None)"

lemma correction_rejection_reasons:
  "correction_rejection s p = Some r \<Longrightarrow> r \<in> set installed_block_reasons \<and> r \<noteq> PROVIDER_EVENT_GAP"
  by (auto simp: correction_rejection_def installed_block_reasons_def split: if_splits)

lemma rejected_state_inv:
  assumes "tennis_inv s" "provider_snapshot_ok p" "sha256_ok d" "reason \<in> set installed_block_reasons"
    "reason \<noteq> PROVIDER_EVENT_GAP"
  shows "tennis_inv (rejected_state s p d reason)"
  using assms provider_snapshot_okD(9)[OF assms(2)] by (simp add: rejected_state_def with_block_inv)

lemma correction_rejected_eq:
  assumes "tennis_inv s" "provider_snapshot_ok p" "sha256_ok d" "reason \<in> set installed_block_reasons"
    "reason \<noteq> PROVIDER_EVENT_GAP"
  shows "correction_rejected s p d reason = Inr (result_of (rejected_state s p d reason) BLOCKED reason d)"
  using assms provider_snapshot_okD(9)[OF assms(2)]
  by (simp add: correction_rejected_def rejected_state_def block_state_eq with_block_inv make_result_of)

lemma lineage_bytes:
  "tennis_inv s \<Longrightarrow> \<exists>bs. bytes_fromhex (correction_lineage_sha256 s) = Some bs"
  using tennis_invD(5)[of s] by (intro bytes_fromhex_total) (simp_all add: sha256_ok_def)

lemma apply_correction_eq:
  assumes inv: "tennis_inv s" and p: "provider_snapshot_ok p"
  shows "apply_correction s p =
     (let d = event_digest (SnapshotEvent p)
      in if correction_redelivered s p d then Inr (result_of s DUPLICATE EXACT_DUPLICATE d)
         else case correction_rejection s p of
                Some reason \<Rightarrow> Inr (result_of (rejected_state s p d reason) BLOCKED reason d)
              | None \<Rightarrow> Inr (result_of (snapshot_fields p d (correction_lineage s p))
                               APPLIED CORRECTION_APPLIED d))"
proof -
  have valid: "validate_tennis_state s = Inr ()"
    using inv by (simp add: tennis_inv_def validate_tennis_state_def)
  note sem = snapshot_semantic[OF p]
  note rej = correction_rejected_eq[OF inv p sem(2)]
  obtain bs where bs: "bytes_fromhex (correction_lineage_sha256 s) = Some bs"
    using lineage_bytes[OF inv] by blast
  show ?thesis
    unfolding apply_correction_def not_same_fixture not_same_source
    by (simp add: valid sem(1) Let_def rej installed_block_reasons_def bs make_result_of[OF sem(2)]
        make_result_of[OF tennis_invD(4)[OF inv]]
        correction_redelivered_def correction_rejection_def same_match_def
        snapshot_state_eq[OF p _ sem(2)] correction_lineage_def)
qed

theorem apply_correction_total:
  assumes inv: "tennis_inv s" and p: "provider_snapshot_ok p"
  shows "\<exists>r. apply_correction s p = Inr r \<and> tennis_inv (tr_state r)"
proof -
  note sem = snapshot_semantic[OF p]
  have "reachable p" if "correction_rejection s p = None"
    using that by (simp add: correction_rejection_def split: if_split_asm)
  then show ?thesis
    using inv apply_correction_eq[OF inv p] correction_rejection_reasons[of s p]
      rejected_state_inv[OF inv p sem(2)] snapshot_fields_inv[OF p _ sem(2)]
    by (simp add: Let_def correction_lineage_def split: option.splits)
qed

subsection \<open>What a transition leaves alone\<close>

definition standing :: "TennisState \<Rightarrow> _" where
  \<comment> \<open>everything but the block: identity, position, score, last event and lineage\<close>
  "standing s =
     (board_fields s, provider_key.truncate s, snapshot_complete s, last_provider_event_id s,
      last_event_semantic_sha256 s, correction_lineage_sha256 s,
      (last_source_wall_ns s, last_source_generated_wall_ns s, last_received_monotonic_ns s,
       last_clock_uncertainty_ns s))"

lemma standing_with_block [simp]: "standing (with_block s reason d t x y) = standing s"
  by (simp add: standing_def with_block_def board_fields_def provider_key.truncate_def)

lemma standing_refused [simp]: "standing (refused_state s e d) = standing s"
  by (simp add: refused_state_def)

lemma standing_out_of_sequence [simp]: "standing (tr_state (out_of_sequence s e d)) = standing s"
  by (simp add: out_of_sequence_def)

lemma standing_refuse [simp]: "standing (tr_state (refuse s e d reason)) = standing s"
  by (simp add: refuse_def)

lemma standing_rejected [simp]: "standing (rejected_state s p d reason) = standing s"
  by (simp add: rejected_state_def)

lemma not_applied [simp]:
  "tr_disposition (out_of_sequence s e d) \<noteq> APPLIED"
  "tr_disposition (refuse s e d reason) \<noteq> APPLIED"
  by (simp_all add: out_of_sequence_def refuse_def)

lemma point_refusal_None:
  "point_refusal s p = None \<longleftrightarrow>
     status s = MS_LIVE \<and> server_for_next_point s = Some (server_before_point p)"
  by (auto simp: point_refusal_def)

lemma with_event_facts:
  "last_event_semantic_sha256 (with_event s e d) = d" "revision (with_event s e d) = revision e"
  "correction_epoch (with_event s e d) = correction_epoch s"
  "last_received_monotonic_ns (with_event s e d) = received_monotonic_ns e"
  "block_reason (with_event s e d) = None" "board_fields (with_event s e d) = board_fields s"
  by (simp_all add: with_event_def board_fields_def)

lemma trail_same_match:
  assumes "trail_fields s' = trail_fields s"
  shows "same_match (with_event s' e d) e = same_match s e" "correction_epoch s' = correction_epoch s"
  using assms
  by (simp_all add: trail_fields_def same_match_def same_fixture_def same_source_def with_event_def
      provider_key.truncate_def)

lemma redelivered_after:
  assumes "next_in_sequence s e" "trail_fields s' = trail_fields s"
  shows "redelivered (with_event s' e d) e d" "\<not> next_in_sequence (with_event s' e d) e"
  using assms trail_same_match(1)[OF assms(2), of e d] trail_same_match(2)[OF assms(2)]
  by (simp_all add: next_in_sequence_def redelivered_def with_event_facts)

lemma blocked_out_of_sequence:
  "block_reason s \<noteq> None \<Longrightarrow> \<not> next_in_sequence s e \<and> out_of_sequence s e d = result_of s BLOCKED CORRECTION_REQUIRED d"
  by (simp add: next_in_sequence_def out_of_sequence_def redelivered_def refused_state_def
      refusal_reason_def)

subsection \<open>Counting sets\<close>

lemma set_wins_length: "set_wins_loop xs h a = (h', a') \<Longrightarrow> h' + a' = h + a + int (length xs) \<and> h \<le> h' \<and> a \<le> a'"
  by (induction xs arbitrary: h a) (fastforce split: if_splits)+

lemma completed_prefix_loop_counts:
  assumes "completed_prefix_loop req xs h a None = (True, c)" "set_wins_loop xs h a = (h', a')"
    "h < req" "a < req"
  shows "h' \<le> req \<and> a' \<le> req \<and> \<not> (h' = req \<and> a' = req)
     \<and> c = (if h' = req then Some HOME else if a' = req then Some AWAY else None)"
  using assms
proof (induction xs arbitrary: h a)
  case (Cons s xs)
  then obtain w where w: "completed_set_winner s = Some w"
    by (auto split: option.splits)
  note games = completed_set_winner_games[OF w]
  show ?case
  proof (cases "(if w = HOME then h + 1 else a + 1) = req")
    case True
    then have "xs = []"
      using Cons.prems(1) w by (cases w) (auto simp: Let_def split: if_splits)
    then show ?thesis
      using True Cons.prems w games by (cases w) (auto simp: Let_def)
  next
    case False
    then have "completed_prefix_loop req xs (if w = HOME then h + 1 else h)
        (if w = HOME then a else a + 1) None = (True, c)"
      using Cons.prems(1) w by (cases w) (simp_all add: Let_def)
    then show ?thesis
      by (rule Cons.IH) (use False Cons.prems games in \<open>auto split: if_splits\<close>)
  qed
qed auto

lemma zero_prefix: "score_is_zero s \<Longrightarrow> completed_prefix s = (True, None)"
  by (simp add: score_is_zero_def completed_prefix_def)

lemma incomplete_prefix: "incomplete_score_is_reachable s b \<Longrightarrow> completed_prefix s = (True, None)"
  by (cases "completed_prefix s") (simp add: incomplete_score_is_reachable_def split: if_split_asm)

lemma reachable_prefix:
  assumes "reachable s"
  shows "if termination_kind s = TK_NATURAL
         then \<exists>c. completed_prefix s = (True, c) \<and> c \<noteq> None \<and> winner s = c
              \<and> status s = MS_ENDED
         else completed_prefix s = (True, None)"
proof (cases "completed_prefix s")
  case (Pair valid c)
  show ?thesis
    using assms Pair zero_prefix[of s] incomplete_prefix[of s True] incomplete_prefix[of s False]
    by (cases "status s"; cases "termination_kind s")
      ((simp add: reachable_def split: if_split_asm); blast?)+
qed

lemma natural_status: "status_ok s \<Longrightarrow> termination_kind s = TK_NATURAL \<Longrightarrow> status s = MS_ENDED"
  by (cases "status s") (simp_all add: status_ok_def)

end
