(* ===== verification/Machines.thy ===== *)
theory Machines
  imports Prelude
begin

text \<open>
  Runs of a component: an operation applied to the events of a list, one after the other, until
  one of them raises.  The two locales are the contract a component's operation promises to
  every run: \<open>guarded_machine\<close> that accepted events keep the invariant,
  \<open>ordered_machine\<close> in addition that a step never moves the state backwards.
\<close>

fun run_steps :: "('s \<Rightarrow> 'e \<Rightarrow> 'x + 's) \<Rightarrow> 's \<Rightarrow> 'e list \<Rightarrow> 'x + 's" where
  "run_steps step s [] = Inr s"
| "run_steps step s (e # es) = bind_result (step s e) (\<lambda>s'. run_steps step s' es)"

lemma run_steps_append:
  "run_steps step s (es @ fs) = bind_result (run_steps step s es) (\<lambda>s'. run_steps step s' fs)"
  by (induction es arbitrary: s) (simp_all add: bind_result_assoc)

locale guarded_machine =
  fixes step :: "'s \<Rightarrow> 'e \<Rightarrow> 'x + 's"
    and inv :: "'s \<Rightarrow> bool"
    and accept :: "'e \<Rightarrow> bool"
  assumes step_inv: "inv s \<Longrightarrow> accept e \<Longrightarrow> step s e = Inr s' \<Longrightarrow> inv s'"
begin

lemma run_inv: "inv s \<Longrightarrow> list_all accept es \<Longrightarrow> run_steps step s es = Inr s' \<Longrightarrow> inv s'"
  by (induction es arbitrary: s) (auto simp: bind_result_eq_Inr dest: step_inv)

lemma run_prefix_inv:
  assumes "inv s" "list_all accept (es @ fs)" "run_steps step s (es @ fs) = Inr s'"
  shows "\<exists>m. run_steps step s es = Inr m \<and> inv m \<and> run_steps step m fs = Inr s'"
  using assms run_inv[of s es] by (auto simp: run_steps_append bind_result_eq_Inr)

lemma run_stable:
  assumes "\<And>s e. P s \<Longrightarrow> inv s \<Longrightarrow> accept e \<Longrightarrow> step s e = Inr s"
  shows "P s \<Longrightarrow> inv s \<Longrightarrow> list_all accept es \<Longrightarrow> run_steps step s es = Inr s"
  by (induction es) (auto simp: assms)

end

locale ordered_machine = guarded_machine step inv accept
  for step :: "'s \<Rightarrow> 'e \<Rightarrow> 'x + 's" and inv :: "'s \<Rightarrow> bool" and accept :: "'e \<Rightarrow> bool" +
  fixes le :: "'s \<Rightarrow> 's \<Rightarrow> bool"
  assumes le_refl: "le s s"
    and le_trans: "le s t \<Longrightarrow> le t u \<Longrightarrow> le s u"
    and step_le: "inv s \<Longrightarrow> accept e \<Longrightarrow> step s e = Inr s' \<Longrightarrow> le s s'"
begin

lemma run_le: "inv s \<Longrightarrow> list_all accept es \<Longrightarrow> run_steps step s es = Inr s' \<Longrightarrow> le s s'"
  by (induction es arbitrary: s)
    (auto simp: bind_result_eq_Inr le_refl dest: step_inv intro: le_trans[OF step_le])

lemma run_prefix_le:
  assumes "inv s" "list_all accept (es @ fs)" "run_steps step s (es @ fs) = Inr s'"
  shows "\<exists>m. run_steps step s es = Inr m \<and> le s m \<and> le m s'"
  using run_prefix_inv[OF assms] assms(1,2) run_le[of s es] run_le[of _ fs s'] by auto

end

end
