(* ===== verification/TennisRuns.thy ===== *)
theory TennisRuns
  imports TennisTransitions Machines
begin

text \<open>
  Runs of the scoring machine: the provider events of a match applied one after the other.  The
  interpretations give every run the validity of its states and the order of their positions
  (\<open>tennis\<close>), and blocked states their fixed point under increments (\<open>increments\<close>).
\<close>

subsection \<open>Runs of provider events\<close>

text \<open>One provider event applied to the state, as the synchronizer dispatches it.\<close>

definition tennis_step :: "TennisState \<Rightarrow> provider_event \<Rightarrow> TennisState result" where
  "tennis_step s event =
     bind_result
       (case event of
          SnapshotEvent p \<Rightarrow> apply_correction s p
        | PointEvent p \<Rightarrow> apply_point s p
        | LifecycleEvent p \<Rightarrow> apply_lifecycle s p)
       (\<lambda>r. Inr (tr_state r))"

definition provider_event_ok :: "provider_event \<Rightarrow> bool" where
  "provider_event_ok event =
     (case event of
        SnapshotEvent p \<Rightarrow> provider_snapshot_ok p
      | PointEvent p \<Rightarrow> provider_point_ok p
      | LifecycleEvent p \<Rightarrow> provider_lifecycle_ok p)"

text \<open>Positions are compared by correction epoch, then revision; receipt times never go back.\<close>

definition no_earlier :: "TennisState \<Rightarrow> TennisState \<Rightarrow> bool" where
  "no_earlier s s' \<longleftrightarrow>
     (correction_epoch s < correction_epoch s'
      \<or> correction_epoch s = correction_epoch s' \<and> revision s \<le> revision s')
     \<and> last_received_monotonic_ns s \<le> last_received_monotonic_ns s'"

lemma no_earlier_refl: "no_earlier s s"
  by (simp add: no_earlier_def)

lemma no_earlier_trans: "no_earlier s t \<Longrightarrow> no_earlier t u \<Longrightarrow> no_earlier s u"
  unfolding no_earlier_def by linarith

lemma standing_no_earlier: "standing s' = standing s \<Longrightarrow> no_earlier s s'"
  by (simp add: no_earlier_def standing_def provider_key.truncate_def)

lemma tennis_step_inv:
  assumes "tennis_inv s" "provider_event_ok e" "tennis_step s e = Inr s'"
  shows "tennis_inv s'"
proof (cases e)
  case (SnapshotEvent p)
  then show ?thesis
    using assms apply_correction_total[of s p]
    by (auto simp: tennis_step_def provider_event_ok_def bind_result_eq_Inr)
next
  case (PointEvent p)
  then show ?thesis
    using assms apply_point_keeps[of s p]
    by (auto simp: tennis_step_def provider_event_ok_def bind_result_eq_Inr)
next
  case (LifecycleEvent p)
  then show ?thesis
    using assms apply_lifecycle_total[of s p]
    by (auto simp: tennis_step_def provider_event_ok_def bind_result_eq_Inr)
qed

lemma with_event_no_earlier:
  assumes "next_in_sequence s e" "trail_fields s' = trail_fields s"
  shows "no_earlier s (with_event s' e d)"
  using assms(1) trail_same_match(2)[OF assms(2)]
  unfolding no_earlier_def next_in_sequence_def with_event_facts by (elim conjE) simp

lemma point_step_standing:
  assumes inv: "tennis_inv s" and p: "provider_point_ok p" and r: "apply_point s p = Inr r"
  shows "standing (tr_state r) = standing s
    \<or> (\<exists>s' d. next_in_sequence s p \<and> trail_fields s' = trail_fields s \<and> tr_state r = with_event s' p d)"
proof (cases "next_in_sequence s p \<and> point_refusal s p = None")
  case True
  then obtain s' where s': "advance_score s (point_winner p) = Inr s'"
      "tr_state r = with_event s' p (event_digest (PointEvent p))"
    using r by (auto simp: apply_point_eq[OF inv p] Let_def bind_result_eq_Inr applied_state_eq_Inr)
  then show ?thesis
    using True advance_score_trail[OF s'(1)] by blast
next
  case False
  then show ?thesis
    using r by (auto simp: apply_point_eq[OF inv p] Let_def split: if_split_asm option.splits)
qed

lemma lifecycle_step_standing:
  assumes inv: "tennis_inv s" and p: "provider_lifecycle_ok p" and r: "apply_lifecycle s p = Inr r"
  shows "standing (tr_state r) = standing s
    \<or> (\<exists>s' d. next_in_sequence s p \<and> trail_fields s' = trail_fields s \<and> tr_state r = with_event s' p d)"
proof (cases "next_in_sequence s p \<and> (\<exists>x. lifecycle_outcome s p = Inr x)")
  case True
  then obtain s' reason where s': "lifecycle_outcome s p = Inr (s', reason)"
    by auto
  then have "tr_state r = with_event s' p (event_digest (LifecycleEvent p))"
    using r True by (auto simp: apply_lifecycle_eq[OF inv p] Let_def bind_result_eq_Inr applied_state_eq_Inr)
  then show ?thesis
    using True lifecycle_outcome_ok[OF tennis_invD(1)[OF inv] s'] by blast
next
  case False
  then show ?thesis
    using r by (auto simp: apply_lifecycle_eq[OF inv p] Let_def split: if_split_asm sum.splits)
qed

lemma minimum_receipt_ge: "last_received_monotonic_ns s \<le> minimum_receipt s"
  by (simp add: minimum_receipt_def split: option.splits)

lemma correction_step_standing:
  assumes inv: "tennis_inv s" and p: "provider_snapshot_ok p" and r: "apply_correction s p = Inr r"
  shows "standing (tr_state r) = standing s
    \<or> (\<exists>d l. correction_rejection s p = None \<and> tr_state r = snapshot_fields p d l)"
proof (cases "correction_rejection s p = None \<and> \<not> correction_redelivered s p (event_digest (SnapshotEvent p))")
  case True
  then show ?thesis
    using r by (simp add: apply_correction_eq[OF inv p] Let_def) (metis result_of_simps(1))
next
  case False
  then show ?thesis
    using r by (auto simp: apply_correction_eq[OF inv p] Let_def split: if_split_asm option.splits)
qed

lemma correction_no_earlier:
  assumes "correction_rejection s p = None"
  shows "no_earlier s (snapshot_fields p d l)"
  using assms minimum_receipt_ge[of s]
  by (simp add: correction_rejection_def no_earlier_def snapshot_fields_def split: if_split_asm)

lemma tennis_step_no_earlier:
  assumes inv: "tennis_inv s" and e: "provider_event_ok e" and s': "tennis_step s e = Inr s'"
  shows "no_earlier s s'"
proof (cases e)
  case (SnapshotEvent p)
  then obtain r where r: "apply_correction s p = Inr r" "s' = tr_state r"
    using s' by (auto simp: tennis_step_def bind_result_eq_Inr)
  then show ?thesis
    using correction_step_standing[OF inv _ r(1)] e SnapshotEvent correction_no_earlier standing_no_earlier
    by (fastforce simp: provider_event_ok_def)
next
  case (PointEvent p)
  then obtain r where r: "apply_point s p = Inr r" "s' = tr_state r"
    using s' by (auto simp: tennis_step_def bind_result_eq_Inr)
  then show ?thesis
    using point_step_standing[OF inv _ r(1)] e PointEvent with_event_no_earlier standing_no_earlier
    by (fastforce simp: provider_event_ok_def)
next
  case (LifecycleEvent p)
  then obtain r where r: "apply_lifecycle s p = Inr r" "s' = tr_state r"
    using s' by (auto simp: tennis_step_def bind_result_eq_Inr)
  then show ?thesis
    using lifecycle_step_standing[OF inv _ r(1)] e LifecycleEvent with_event_no_earlier standing_no_earlier
    by (fastforce simp: provider_event_ok_def)
qed

interpretation tennis: ordered_machine tennis_step tennis_inv provider_event_ok no_earlier
  by unfold_locales
    (fact tennis_step_inv no_earlier_refl no_earlier_trans tennis_step_no_earlier)+

definition not_a_correction :: "provider_event \<Rightarrow> bool" where
  "not_a_correction e = (case e of SnapshotEvent p \<Rightarrow> False | _ \<Rightarrow> True)"

lemma blocked_step:
  assumes b: "block_reason s \<noteq> None" and inv: "tennis_inv s" and e: "provider_event_ok e" "not_a_correction e"
  shows "tennis_step s e = Inr s"
proof (cases e)
  case (SnapshotEvent p)
  then show ?thesis using e by (simp add: not_a_correction_def)
next
  case (PointEvent p)
  then show ?thesis
    using apply_point_eq[OF inv, of p] e blocked_out_of_sequence[OF b, of p]
    by (simp add: tennis_step_def provider_event_ok_def Let_def)
next
  case (LifecycleEvent p)
  then show ?thesis
    using apply_lifecycle_eq[OF inv, of p] e blocked_out_of_sequence[OF b, of p]
    by (simp add: tennis_step_def provider_event_ok_def Let_def)
qed

text \<open>The same machine restricted to incremental events, for states that wait for a correction.\<close>

interpretation increments: guarded_machine tennis_step tennis_inv
  "\<lambda>e. provider_event_ok e \<and> not_a_correction e"
  by unfold_locales (blast intro: tennis_step_inv)


definition final_status :: "TennisState \<Rightarrow> bool" where
  "final_status s \<longleftrightarrow> status s = MS_ENDED \<or> status s = MS_CANCELLED"

lemma board_status: "board_fields s' = board_fields s \<Longrightarrow> final_status s' = final_status s"
  by (simp add: board_fields_def final_status_def)

lemma standing_board: "standing s' = standing s \<Longrightarrow> board_fields s' = board_fields s"
  by (simp add: standing_def)

lemma terminal_step:
  assumes fin: "final_status s" and inv: "tennis_inv s"
    and e: "provider_event_ok e" "not_a_correction e" and s': "tennis_step s e = Inr s'"
  shows "board_fields s' = board_fields s"
proof (cases e)
  case (SnapshotEvent p)
  then show ?thesis using e by (simp add: not_a_correction_def)
next
  case (PointEvent p)
  then have p: "provider_point_ok p" and eq: "bind_result (apply_point s p) (\<lambda>r. Inr (tr_state r)) = Inr s'"
    using e s' by (simp_all add: provider_event_ok_def tennis_step_def)
  have "point_refusal s p = Some TERMINAL_ABSORBING"
    using fin by (simp add: point_refusal_def final_status_def)
  then have "standing s' = standing s"
    using eq by (auto simp: apply_point_eq[OF inv p] Let_def split: if_split_asm)
  then show ?thesis by (rule standing_board)
next
  case (LifecycleEvent p)
  then have p: "provider_lifecycle_ok p" and eq: "bind_result (apply_lifecycle s p) (\<lambda>r. Inr (tr_state r)) = Inr s'"
    using e s' by (simp_all add: provider_event_ok_def tennis_step_def)
  have out: "lifecycle_outcome s p = Inr (x, y) \<Longrightarrow> x = s" for x y
    using fin by (simp add: lifecycle_outcome_def final_status_def split: if_split_asm)
  show ?thesis
  proof (cases "next_in_sequence s p \<and> (\<exists>x. lifecycle_outcome s p = Inr x)")
    case True
    then obtain x y where x: "lifecycle_outcome s p = Inr (x, y)"
      by auto
    then show ?thesis
      using eq True out[OF x]
      by (auto simp: apply_lifecycle_eq[OF inv p] Let_def bind_result_eq_Inr applied_state_eq_Inr with_event_facts)
  next
    case False
    then have "standing s' = standing s"
      using eq by (auto simp: apply_lifecycle_eq[OF inv p] Let_def split: if_split_asm sum.splits)
    then show ?thesis by (rule standing_board)
  qed
qed

lemma terminal_run:
  assumes "tennis_inv s" "status s = MS_ENDED \<or> status s = MS_CANCELLED"
    "list_all (\<lambda>e. provider_event_ok e \<and> not_a_correction e) es"
    "run_steps tennis_step s es = Inr s'"
  shows "board_fields s' = board_fields s"
  using assms unfolding final_status_def[symmetric]
proof (induction es arbitrary: s)
  case (Cons e es)
  then obtain m where m: "tennis_step s e = Inr m" "run_steps tennis_step m es = Inr s'"
    by (auto simp: bind_result_eq_Inr)
  have "board_fields m = board_fields s"
    using terminal_step[OF _ _ _ _ m(1)] Cons.prems by simp
  moreover have "tennis_inv m"
    using tennis_step_inv[OF _ _ m(1)] Cons.prems by simp
  ultimately show ?case
    using Cons.IH[OF _ _ _ m(2)] Cons.prems board_status[of m s] by simp
qed simp

end
