(* ===== verification/TennisProperties.thy ===== *)
theory TennisProperties
  imports TennisRuns
begin

text \<open>
  The properties of the scoring machine, each with a concrete match on which its hypotheses hold.
\<close>

subsection \<open>Concrete values for the witnesses\<close>

definition example_key_digest :: string where
  "example_key_digest = replicate 64 (CHR ''a'')"

definition example_live :: TennisState where
  "example_live =
     \<lparr>provider_source_id = ''src-1'', revision_domain_id = ''dom-1'',
      source_lineage_sha256 = example_key_digest, provider_match_id = ''match-1'',
      home_player_id = ''p1'', away_player_id = ''p2'', scheduled_start_wall_ns = 1000,
      match_format = STANDARD_ADVANTAGE_BO3_TB7_ALL_SETS, correction_epoch = 0, revision = 70,
      status = MS_LIVE, termination_kind = TK_NONE, winner = None, retired_side = None,
      completed_sets = [\<lparr>set_games_home = 7, set_games_away = 6,
        set_tiebreak_points_home = Some 9, set_tiebreak_points_away = Some 7\<rparr>],
      games_home = 5, games_away = 3, points_home = FORTY, points_away = THIRTY,
      in_tiebreak = False, tiebreak_points_home = 0, tiebreak_points_away = 0,
      tiebreak_first_server = None, server_for_next_point = Some HOME,
      snapshot_complete = True, last_provider_event_id = ''ev-70'',
      last_event_semantic_sha256 = example_key_digest, correction_lineage_sha256 = example_key_digest,
      last_source_wall_ns = 5000, last_source_generated_wall_ns = 5000,
      last_received_monotonic_ns = 900, last_clock_uncertainty_ns = 10,
      block_reason = None, expected_revision = None, observed_revision = None,
      blocked_event_semantic_sha256 = None, blocked_received_monotonic_ns = None\<rparr>"

definition example_point :: ProviderPoint where
  "example_point =
     \<lparr>provider_source_id = ''src-1'', revision_domain_id = ''dom-1'',
      source_lineage_sha256 = example_key_digest, provider_match_id = ''match-1'',
      home_player_id = ''p1'', away_player_id = ''p2'', scheduled_start_wall_ns = 1000,
      match_format = STANDARD_ADVANTAGE_BO3_TB7_ALL_SETS, correction_epoch = 0, revision = 71,
      provider_event_id = ''ev-71'', source_wall_ns = 5100, source_generated_wall_ns = 5100,
      received_monotonic_ns = 950, clock_uncertainty_ns = 10,
      point_winner = HOME, server_before_point = HOME\<rparr>"

definition example_retirement :: ProviderLifecycle where
  "example_retirement =
     \<lparr>provider_source_id = ''src-1'', revision_domain_id = ''dom-1'',
      source_lineage_sha256 = example_key_digest, provider_match_id = ''match-1'',
      home_player_id = ''p1'', away_player_id = ''p2'', scheduled_start_wall_ns = 1000,
      match_format = STANDARD_ADVANTAGE_BO3_TB7_ALL_SETS, correction_epoch = 0, revision = 71,
      provider_event_id = ''ev-71'', source_wall_ns = 5100, source_generated_wall_ns = 5100,
      received_monotonic_ns = 950, clock_uncertainty_ns = 10,
      lc_kind = LK_RETIREMENT, lc_winner = Some HOME, lc_retired_side = Some AWAY,
      lc_server_for_next_point = None\<rparr>"

definition example_snapshot :: ProviderSnapshot where
  "example_snapshot =
     \<lparr>provider_source_id = ''src-1'', revision_domain_id = ''dom-1'',
      source_lineage_sha256 = example_key_digest, provider_match_id = ''match-1'',
      home_player_id = ''p1'', away_player_id = ''p2'', scheduled_start_wall_ns = 1000,
      match_format = STANDARD_ADVANTAGE_BO3_TB7_ALL_SETS, correction_epoch = 1, revision = 3,
      status = MS_LIVE, termination_kind = TK_NONE, winner = None, retired_side = None,
      completed_sets = [], games_home = 6, games_away = 6, points_home = LOVE, points_away = LOVE,
      in_tiebreak = True, tiebreak_points_home = 3, tiebreak_points_away = 2,
      tiebreak_first_server = Some AWAY, server_for_next_point = Some HOME,
      sn_provider_event_id = ''ev-c1'', sn_source_wall_ns = 6000, sn_source_generated_wall_ns = 6000,
      sn_received_monotonic_ns = 960, sn_clock_uncertainty_ns = 10, sn_snapshot_complete = True\<rparr>"

definition example_blocked :: TennisState where
  "example_blocked =
     with_block example_live PROVIDER_EVENT_GAP example_key_digest 940 (Some 71) (Some 75)"

definition example_ended :: TennisState where
  "example_ended = example_live
     \<lparr>status := MS_ENDED, termination_kind := TK_RETIREMENT, winner := Some HOME,
      retired_side := Some AWAY, server_for_next_point := None\<rparr>"


lemma example_texts:
  "sha256_ok example_key_digest" "safe_id_ok ''src-1''" "safe_id_ok ''dom-1''" "safe_id_ok ''match-1''"
  "safe_id_ok ''p1''" "safe_id_ok ''p2''" "safe_id_ok ''ev-70''" "safe_id_ok ''ev-71''" "safe_id_ok ''ev-c1''"
  by code_simp+

lemma example_scores:
  "reachable example_live" "reachable example_ended" "reachable example_snapshot"
  by code_simp+

lemma example_point_ok: "provider_point_ok example_point" "provider_lifecycle_ok example_retirement"
  by (simp_all add: point_increment_ok lifecycle_increment_ok increment_ok_def validate_identity_def
    example_point_def example_retirement_def example_texts)

lemma example_snapshot_ok: "provider_snapshot_ok example_snapshot"
  by (simp add: provider_snapshot_ok_def provider_snapshot_post_init_def tennis_validators
    example_snapshot_def example_texts status_ok_def validate_score_def)

lemma example_live_inv: "tennis_inv example_live"
  using example_scores(1)
  by (simp add: tennis_inv_iff board_ok_def validate_identity_def validate_block_metadata_def)
   (simp add: example_live_def example_texts status_ok_def validate_score_def sets_ok_def 
       set_score_post_init_def supported_match_formats_def)

lemma example_ended_inv: "tennis_inv example_ended"
  using example_scores(2)
  by (simp add: tennis_inv_iff board_ok_def validate_identity_def validate_block_metadata_def)
   (simp add: example_live_def example_ended_def example_texts status_ok_def validate_score_def sets_ok_def 
       set_score_post_init_def supported_match_formats_def)

lemma example_blocked_inv: "tennis_inv example_blocked"
  unfolding example_blocked_def
  by (rule with_block_inv[OF example_live_inv]) (simp_all add: example_texts installed_block_reasons_def)

lemma example_room: "point_room example_live w"
  by (simp add: point_room_def example_live_def integer_bound_def)

lemma example_next:
  "next_in_sequence example_live example_point" "status example_live = MS_LIVE"
  "server_for_next_point example_live = Some (server_before_point example_point)"
  "revision example_live = 70"
  by code_simp+

subsection \<open>Preservation\<close>

text \<open>C22: A valid point event never makes \<open>apply_point\<close> raise on a valid state: it returns a
  result whose state is again valid, that is, it satisfies the validators of the contract and its
  score is reachable.  The one hypothesis besides validity is that the winner's tiebreak points
  leave room below the integer bound of 10 to the 256.\<close>

theorem point_preserves_validity:
  assumes "tennis_inv s" "provider_point_ok p" "point_room s (point_winner p)"
  shows "\<exists>r. apply_point s p = Inr r \<and> tennis_inv (tr_state r)"
  using assms by (rule apply_point_total)

theorem point_preserves_validity_witness:
  "\<exists>r. apply_point example_live example_point = Inr r \<and> tennis_inv (tr_state r)"
  by (rule point_preserves_validity[OF example_live_inv example_point_ok(1) example_room])

text \<open>A valid lifecycle event never makes \<open>apply_lifecycle\<close> raise on a valid state, and the
  state it returns is valid.\<close>

theorem lifecycle_preserves_validity:
  assumes "tennis_inv s" "provider_lifecycle_ok e"
  shows "\<exists>r. apply_lifecycle s e = Inr r \<and> tennis_inv (tr_state r)"
  using assms by (rule apply_lifecycle_total)

theorem lifecycle_preserves_validity_witness:
  "\<exists>r. apply_lifecycle example_live example_retirement = Inr r \<and> tennis_inv (tr_state r)"
  by (rule lifecycle_preserves_validity[OF example_live_inv example_point_ok(2)])

text \<open>A valid replacement snapshot never makes \<open>apply_correction\<close> raise on a valid state,
  and the state it returns is valid.\<close>

theorem correction_preserves_validity:
  assumes "tennis_inv s" "provider_snapshot_ok p"
  shows "\<exists>r. apply_correction s p = Inr r \<and> tennis_inv (tr_state r)"
  using assms by (rule apply_correction_total)

theorem correction_preserves_validity_witness:
  "\<exists>r. apply_correction example_blocked example_snapshot = Inr r \<and> tennis_inv (tr_state r)"
  by (rule correction_preserves_validity[OF example_blocked_inv example_snapshot_ok])

text \<open>\<open>state_from_snapshot\<close> on a valid snapshot either returns a valid, unblocked state with
  the identity, position and score of the snapshot, exactly when the snapshot has a supported
  format, is complete and has a reachable score, or raises one of its two
  \<open>TennisTransitionError\<close> reasons; nothing else escapes.\<close>

theorem state_from_snapshot_outcome:
  assumes "provider_snapshot_ok p"
  shows "if match_format p \<noteq> UNSUPPORTED \<and> sn_snapshot_complete p \<and> reachable p
         then \<exists>s. state_from_snapshot p = Inr s \<and> tennis_inv s \<and> block_reason s = None
                \<and> board_fields s = board_fields p
                \<and> provider_key.truncate s = provider_key.truncate p
                \<and> last_received_monotonic_ns s = sn_received_monotonic_ns p
         else state_from_snapshot p =
                Inl (TennisTransitionError
                       (if match_format p = UNSUPPORTED then UNSUPPORTED_FORMAT else SNAPSHOT_INVALID))"
  using snapshot_semantic[OF assms] snapshot_fields_inv[OF assms]
  by (simp add: state_from_snapshot_eq[OF assms] snapshot_fields_facts initial_lineage_def)
    (simp add: snapshot_fields_def)

theorem state_from_snapshot_outcome_witness:
  "\<exists>s. state_from_snapshot example_snapshot = Inr s \<and> tennis_inv s"
proof -
  have "match_format example_snapshot \<noteq> UNSUPPORTED" "sn_snapshot_complete example_snapshot"
    by (simp_all add: example_snapshot_def)
  then show ?thesis
    using state_from_snapshot_outcome[OF example_snapshot_ok] example_scores(3) by auto
qed

subsection \<open>Which events are applied\<close>

text \<open>C29: A point is applied exactly when the state is unblocked, the event is the next of the
  match's revision sequence, the match is live and the announced server is the state's; any other
  point leaves everything but the block (identity, position, score, last event, lineage) as it
  was.\<close>

theorem point_applied_iff:
  assumes "tennis_inv s" "provider_point_ok p" "point_room s (point_winner p)"
  shows "\<exists>r. apply_point s p = Inr r
      \<and> (tr_disposition r = APPLIED \<longleftrightarrow>
           next_in_sequence s p \<and> status s = MS_LIVE
           \<and> server_for_next_point s = Some (server_before_point p))
      \<and> (tr_disposition r \<noteq> APPLIED \<longrightarrow> standing (tr_state r) = standing s)
      \<and> (tr_disposition r = APPLIED \<longrightarrow>
           revision (tr_state r) = revision s + 1 \<and> correction_epoch (tr_state r) = correction_epoch s
           \<and> block_reason (tr_state r) = None
           \<and> (\<exists>s'. advance_score s (point_winner p) = Inr s'
                  \<and> board_fields (tr_state r) = board_fields s'))"
  using assms
proof (rule apply_point_cases)
  fix s'
  assume "next_in_sequence s p" "point_refusal s p = None" "advance_score s (point_winner p) = Inr s'"
    "apply_point s p = Inr (result_of (with_event s' p (event_digest (PointEvent p))) APPLIED
       POINT_APPLIED (event_digest (PointEvent p)))"
  then show ?thesis
    using trail_same_match(2)[OF advance_score_trail, of s "point_winner p" s']
    by (simp add: with_event_facts point_refusal_None) (simp add: next_in_sequence_def)
qed (simp_all add: point_refusal_None[symmetric])

theorem point_applied_iff_witness:
  "\<exists>r. apply_point example_live example_point = Inr r \<and> tr_disposition r = APPLIED
     \<and> revision (tr_state r) = 71"
  using point_applied_iff[OF example_live_inv example_point_ok(1) example_room] example_next
  by auto

text \<open>Once an event has been refused and a block installed, every further point or
  lifecycle event is answered without touching the state at all, however many of them arrive:
  only a correction snapshot can move a blocked state.\<close>

theorem blocked_state_absorbs_increments:
  assumes "block_reason s \<noteq> None" "tennis_inv s"
    "list_all (\<lambda>e. provider_event_ok e \<and> not_a_correction e) es"
  shows "run_steps tennis_step s es = Inr s"
  by (rule increments.run_stable[where P = "\<lambda>s. block_reason s \<noteq> None"])
    (use assms blocked_step in auto)

theorem blocked_state_absorbs_increments_witness:
  "run_steps tennis_step example_blocked
     [PointEvent example_point, LifecycleEvent example_retirement, PointEvent example_point]
   = Inr example_blocked"
  using example_point_ok
  by (intro blocked_state_absorbs_increments[OF _ example_blocked_inv])
    (simp_all add: provider_event_ok_def not_a_correction_def example_blocked_def with_block_def)

text \<open>Redelivery is idempotent: after a point has been applied, applying the same point again
  reports an exact duplicate and returns the state unchanged.\<close>

theorem point_redelivery_is_duplicate:
  assumes "tennis_inv s" "provider_point_ok p" "point_room s (point_winner p)"
    "next_in_sequence s p" "status s = MS_LIVE"
    "server_for_next_point s = Some (server_before_point p)"
  shows "\<exists>r r'. apply_point s p = Inr r \<and> tr_disposition r = APPLIED
     \<and> apply_point (tr_state r) p = Inr r' \<and> tr_disposition r' = DUPLICATE
     \<and> tr_reason r' = EXACT_DUPLICATE \<and> tr_state r' = tr_state r"
  using assms(1-3)
proof (rule apply_point_cases)
  fix s'
  let ?d = "event_digest (PointEvent p)"
  assume a: "advance_score s (point_winner p) = Inr s'" "tennis_inv (with_event s' p ?d)"
    "apply_point s p = Inr (result_of (with_event s' p ?d) APPLIED POINT_APPLIED ?d)"
  show ?thesis
    using a(3) redelivered_after[OF assms(4) advance_score_trail[OF a(1)], of ?d]
    by (simp add: apply_point_eq[OF a(2) assms(2)] Let_def out_of_sequence_def)
qed (use assms in \<open>simp_all add: point_refusal_def\<close>)

theorem point_redelivery_is_duplicate_witness:
  "\<exists>r r'. apply_point example_live example_point = Inr r
     \<and> apply_point (tr_state r) example_point = Inr r' \<and> tr_state r' = tr_state r"
  using point_redelivery_is_duplicate[OF example_live_inv example_point_ok(1) example_room example_next(1-3)]
  by blast

text \<open>C36: An ended or cancelled match is final: no sequence of points and lifecycle events
  changes its score board; corrections apart, the result of the match stands.\<close>

theorem terminal_score_is_final:
  assumes "tennis_inv s" "status s = MS_ENDED \<or> status s = MS_CANCELLED"
    "list_all (\<lambda>e. provider_event_ok e \<and> not_a_correction e) es"
    "run_steps tennis_step s es = Inr s'"
  shows "board_fields s' = board_fields s"
  using assms terminal_run by blast

theorem terminal_score_is_final_witness:
  "\<exists>s'. run_steps tennis_step example_ended [PointEvent example_point] = Inr s'
     \<and> winner s' = Some HOME"
proof -
  have "point_room example_ended (point_winner example_point)"
    by (simp add: point_room_def example_ended_def example_live_def integer_bound_def)
  then obtain r where "apply_point example_ended example_point = Inr r"
    using apply_point_total[OF example_ended_inv example_point_ok(1)] by blast
  then have r: "run_steps tennis_step example_ended [PointEvent example_point] = Inr (tr_state r)"
    by (simp add: tennis_step_def)
  have "board_fields (tr_state r) = board_fields example_ended"
    by (rule terminal_score_is_final[OF example_ended_inv _ _ r])
      (use example_point_ok in \<open>simp_all add: provider_event_ok_def not_a_correction_def example_ended_def\<close>)
  then have "winner (tr_state r) = Some HOME"
    by (simp add: board_fields_def example_ended_def)
  with r show ?thesis by blast
qed

text \<open>C23: Along every run of valid provider events, points, lifecycle events and corrections
  interleaved in any order, the state stays valid and its position (correction epoch, then
  revision) and its last receipt time never go back, between any two moments of the run.\<close>

theorem runs_are_valid_and_monotone:
  assumes "tennis_inv s" "list_all provider_event_ok (es @ fs)"
    "run_steps tennis_step s (es @ fs) = Inr s'"
  shows "\<exists>m. run_steps tennis_step s es = Inr m \<and> tennis_inv m \<and> tennis_inv s'
     \<and> no_earlier s m \<and> no_earlier m s'"
  using tennis.run_prefix_le[OF assms] tennis.run_prefix_inv[OF assms] tennis.run_inv[OF assms]
  by auto

theorem runs_are_valid_and_monotone_witness:
  "\<exists>s'. run_steps tennis_step example_live ([] @ [PointEvent example_point]) = Inr s'
     \<and> no_earlier example_live s'"
proof -
  obtain r where "apply_point example_live example_point = Inr r"
    using apply_point_total[OF example_live_inv example_point_ok(1) example_room] by blast
  then have run: "run_steps tennis_step example_live ([] @ [PointEvent example_point]) = Inr (tr_state r)"
    by (simp add: tennis_step_def)
  have "list_all provider_event_ok ([] @ [PointEvent example_point])"
    using example_point_ok by (simp add: provider_event_ok_def)
  from runs_are_valid_and_monotone[OF example_live_inv this run] show ?thesis
    using run by auto
qed

subsection \<open>Scoring\<close>

text \<open>The abstract game: points won by each side, the score that is called, when it is won.\<close>

definition point_value :: "nat \<Rightarrow> ScoreValue" where
  "point_value n = (if n = 0 then LOVE else if n = 1 then FIFTEEN else if n = 2 then THIRTY else FORTY)"

definition game_called :: "nat \<Rightarrow> nat \<Rightarrow> ScoreValue \<times> ScoreValue" where
  "game_called h a =
     (if 3 \<le> h \<and> 3 \<le> a
      then (if a < h then ADVANTAGE else FORTY, if h < a then ADVANTAGE else FORTY)
      else (point_value h, point_value a))"

definition game_over :: "nat \<Rightarrow> nat \<Rightarrow> bool" where
  "game_over h a \<longleftrightarrow> (4 \<le> h \<and> a + 2 \<le> h) \<or> (4 \<le> a \<and> h + 2 \<le> a)"

lemma game_point_called:
  assumes "\<not> game_over h a"
  shows "game_point (fst (game_called h a)) (snd (game_called h a)) =
    (if game_over (h + 1) a then (game_called h a, True) else (game_called (h + 1) a, False))"
proof (cases "h < 3 \<and> a < 3")
  case True
  then have "h \<in> {0, 1, 2}" "a \<in> {0, 1, 2}" by auto
  then show ?thesis by (auto simp: game_called_def game_over_def point_value_def game_point_def)
next
  case False
  then show ?thesis using assms
    by (auto simp: game_called_def game_over_def point_value_def game_point_def)
qed

lemma game_called_swap: "game_called a h = (snd (game_called h a), fst (game_called h a))"
  by (simp add: game_called_def)

lemma game_over_swap: "game_over a h = game_over h a"
  by (auto simp: game_over_def)

text \<open>C31: The score ladder implements the rules of an advantage game. If a state outside a
  tiebreak shows the score of a game in which the sides have won h and a points, then after a
  further point it shows the score of the game with that point counted, unless the winner now has
  four points and a lead of two: exactly then the game is over and \<open>_advance_score\<close> goes on to
  count a game.\<close>

theorem ladder_refines_point_counts:
  assumes "\<not> in_tiebreak s" "(points_home s, points_away s) = game_called h a" "\<not> game_over h a"
  shows "advance_score s w =
     (let (h', a') = (if w = HOME then (h + 1, a) else (h, a + 1))
      in if game_over h' a' then advance_game s w
         else Inr (s\<lparr>points_home := fst (game_called h' a'), points_away := snd (game_called h' a')\<rparr>))"
proof -
  have p: "points_home s = fst (game_called h a)" "points_away s = snd (game_called h a)"
    using assms(2) by (metis fst_conv snd_conv)+
  show ?thesis
    using assms(1) game_point_called[OF assms(3)]
      game_point_called[of a h, unfolded game_called_swap[of a] game_over_swap[of a]] assms(3)
    by (cases w) (simp_all add: advance_score_def p Let_def case_prod_unfold game_called_swap[of "Suc a"]
        game_over_swap[of "Suc a"])
qed

theorem ladder_refines_point_counts_witness:
  "advance_score example_live AWAY =
     Inr (example_live\<lparr>points_home := FORTY, points_away := FORTY\<rparr>)"
proof -
  have "\<not> in_tiebreak example_live" "(points_home example_live, points_away example_live) = game_called 3 2"
    "\<not> game_over 3 2"
    by (simp_all add: example_live_def game_called_def point_value_def game_over_def)
  from ladder_refines_point_counts[OF this, of AWAY] show ?thesis
    by (simp add: game_over_def game_called_def)
qed

text \<open>The serving order of a tiebreak: one point, then two points each in turn.\<close>

fun tiebreak_rotation :: "PlayerSide \<Rightarrow> nat \<Rightarrow> PlayerSide" where
  "tiebreak_rotation first 0 = first"
| "tiebreak_rotation first (Suc n) =
     (if even n then opposite (tiebreak_rotation first n) else tiebreak_rotation first n)"

text \<open>C30: \<open>_tiebreak_server\<close> computes by one division the server that the rule "the first
  server serves one point, then each side serves two in turn" gives after n completed points.\<close>

theorem tiebreak_server_follows_rotation:
  "tiebreak_server first (int n) = tiebreak_rotation first n"
proof -
  have rot: "tiebreak_rotation first n = (if ((n + 1) div 2) mod 2 = 0 then first else opposite first)"
  proof (induction n)
    case (Suc n)
    then show ?case by (cases first) (auto; presburger)+
  qed simp
  show ?thesis
  proof (cases n)
    case (Suc m)
    have "((int n - 1) div 2) mod 2 = 0 \<longleftrightarrow> (m div 2) mod 2 = 0"
      using Suc by (simp add: zdiv_int[symmetric] flip: of_nat_mod) presburger
    moreover have "(m div 2) mod 2 = 0 \<longleftrightarrow> \<not> ((n + 1) div 2) mod 2 = 0"
      using Suc by presburger
    ultimately show ?thesis
      using Suc rot by (simp add: tiebreak_server_def)
  qed (simp add: tiebreak_server_def)
qed

text \<open>In every valid state the number of sets won by either side never exceeds the number
  needed for the match and only one side can have reached it, so a match has at most 2r - 1 sets;
  and a match has ended naturally exactly when a side has reached it, with that side recorded as
  the winner.\<close>

theorem set_count_decides_match:
  assumes "tennis_inv s" "set_wins (completed_sets s) = (h, a)" "r = sets_required (match_format s)"
  shows "h + a = int (length (completed_sets s)) \<and> 0 \<le> h \<and> 0 \<le> a \<and> h \<le> r \<and> a \<le> r
     \<and> h + a \<le> 2 * r - 1
     \<and> (termination_kind s = TK_NATURAL \<longleftrightarrow> h = r \<or> a = r)
     \<and> (termination_kind s = TK_NATURAL \<longrightarrow> status s = MS_ENDED \<and> winner s = Some (if h = r then HOME else AWAY))"
proof -
  have wins: "set_wins_loop (completed_sets s) 0 0 = (h, a)"
    using assms(2) by (simp add: set_wins_def)
  note len = set_wins_length[OF wins]
  have r: "0 < r" "r = 2 \<or> r = 3"
    using sets_required_cases[of "match_format s"] assms(3) by auto
  have reach: "reachable s"
    using assms(1) by (simp add: tennis_inv_def)
  have counts: "completed_prefix s = (True, c) \<Longrightarrow> h \<le> r \<and> a \<le> r \<and> \<not> (h = r \<and> a = r)
     \<and> c = (if h = r then Some HOME else if a = r then Some AWAY else None)" for c
    using completed_prefix_loop_counts[OF _ wins, of r c] r by (simp add: completed_prefix_def assms(3))
  show ?thesis
  proof (cases "termination_kind s = TK_NATURAL")
    case True
    then obtain c where c: "completed_prefix s = (True, c)" "c \<noteq> None" "winner s = c" "status s = MS_ENDED"
      using reachable_prefix[OF reach] by auto
    then show ?thesis
      using True counts[OF c(1)] len by (auto split: if_splits)
  next
    case False
    then have "completed_prefix s = (True, None)"
      using reachable_prefix[OF reach] by simp
    then show ?thesis
      using False counts[of None] len by (auto split: if_splits)
  qed
qed

theorem set_count_decides_match_witness:
  "termination_kind example_live = TK_NATURAL \<longleftrightarrow> (1::int) = 2 \<or> (0::int) = 2"
proof -
  have "set_wins (completed_sets example_live) = (1, 0)" "2 = sets_required (match_format example_live)"
    by code_simp+
  from set_count_decides_match[OF example_live_inv this] show ?thesis by blast
qed

text \<open>The legal moves of the match status.\<close>

inductive lifecycle_edge :: "ProviderLifecycleKind \<Rightarrow> MatchStatus \<Rightarrow> MatchStatus \<Rightarrow> bool" where
  edge_start: "lifecycle_edge LK_START MS_SCHEDULED MS_LIVE"
| edge_suspend: "lifecycle_edge LK_SUSPEND MS_LIVE MS_SUSPENDED"
| edge_resume: "lifecycle_edge LK_RESUME MS_SUSPENDED MS_LIVE"
| edge_walkover: "lifecycle_edge LK_WALKOVER MS_SCHEDULED MS_ENDED"
| edge_retirement: "s \<in> {MS_LIVE, MS_SUSPENDED} \<Longrightarrow> lifecycle_edge LK_RETIREMENT s MS_ENDED"
| edge_cancel: "s \<in> {MS_SCHEDULED, MS_LIVE, MS_SUSPENDED} \<Longrightarrow> lifecycle_edge LK_CANCEL s MS_CANCELLED"
| edge_confirm: "lifecycle_edge LK_NATURAL_END_CONFIRMATION MS_ENDED MS_ENDED"

code_pred lifecycle_edge .

inductive_simps lifecycle_edge_simps [simp]: "lifecycle_edge k s t"

definition score_line :: "'a score_board_scheme \<Rightarrow> _" where
  "score_line v = (completed_sets v, games_home v, games_away v, points_home v, points_away v,
     in_tiebreak v, tiebreak_points_home v, tiebreak_points_away v, tiebreak_first_server v)"

lemma score_line_with_event: "score_line (with_event s e d) = score_line s" "status (with_event s e d) = status s"
  by (simp_all add: score_line_def with_event_def)

lemma lifecycle_changes_edge:
  assumes "lifecycle_changes s e = Some (s', c)"
  shows "lifecycle_edge (lc_kind e) (status s) (status s') \<and> score_line s' = score_line s"
  using assms by (rule lifecycle_changes_cases) (simp_all add: score_line_def)

lemma lifecycle_outcome_edge:
  assumes "lifecycle_outcome s e = Inr (s', reason)"
  shows "lifecycle_edge (lc_kind e) (status s) (status s') \<and> score_line s' = score_line s"
proof (cases "status s = MS_ENDED \<or> status s = MS_CANCELLED")
  case True
  then show ?thesis
    using assms by (simp add: lifecycle_outcome_def split: if_split_asm)
next
  case False
  then obtain c where "lifecycle_changes s e = Some (s', c)"
    using assms by (auto simp: lifecycle_outcome_def split: option.splits if_split_asm)
  then show ?thesis by (rule lifecycle_changes_edge)
qed

text \<open>A lifecycle event never touches sets, games, points or tiebreak; when it is applied the
  match status moves along one of the legal edges (start, suspend, resume, walkover, retirement,
  cancel, confirmation of a natural end), and when it is not, everything but the block is as it
  was.\<close>

theorem lifecycle_moves_along_edges:
  assumes "tennis_inv s" "provider_lifecycle_ok e"
  shows "\<exists>r. apply_lifecycle s e = Inr r
      \<and> score_line (tr_state r) = score_line s
      \<and> (if tr_disposition r = APPLIED
         then next_in_sequence s e \<and> lifecycle_edge (lc_kind e) (status s) (status (tr_state r))
              \<and> block_reason (tr_state r) = None
         else standing (tr_state r) = standing s)"
  using assms
proof (rule apply_lifecycle_cases)
  fix s' reason
  assume "next_in_sequence s e" and out: "lifecycle_outcome s e = Inr (s', reason)"
    and "apply_lifecycle s e = Inr (result_of (with_event s' e (event_digest (LifecycleEvent e)))
         APPLIED reason (event_digest (LifecycleEvent e)))"
  then show ?thesis
    using lifecycle_outcome_edge[OF out]
    by (simp add: score_line_with_event with_event_facts del: lifecycle_edge_simps)
next
  have line: "standing x = standing s \<Longrightarrow> score_line x = score_line s" for x
    by (simp add: standing_def board_fields_def score_line_def)
  show "apply_lifecycle s e = Inr (out_of_sequence s e (event_digest (LifecycleEvent e))) \<Longrightarrow> ?thesis"
    by (simp add: line[OF standing_out_of_sequence])
  show "apply_lifecycle s e = Inr (refuse s e (event_digest (LifecycleEvent e)) reason) \<Longrightarrow> ?thesis" for reason
    by (simp add: line[OF standing_refuse])
qed

theorem lifecycle_moves_along_edges_witness:
  "\<exists>r. apply_lifecycle example_live example_retirement = Inr r
     \<and> completed_sets (tr_state r) = completed_sets example_live"
proof -
  obtain r where r: "apply_lifecycle example_live example_retirement = Inr r"
      "score_line (tr_state r) = score_line example_live"
    using lifecycle_moves_along_edges[OF example_live_inv example_point_ok(2)] by (elim exE conjE)
  from r(2) have "completed_sets (tr_state r) = completed_sets example_live"
    by (simp only: score_line_def prod.inject)
  with r(1) show ?thesis by blast
qed

text \<open>C32: A correction is applied exactly when it is for the same match, source, domain and format,
  is not older than the state or its block, has a strictly newer correction epoch, is complete and
  has a reachable score.  It then replaces the whole score and position, clears the block and
  extends the lineage digest over the previous one; otherwise everything but the block is kept, and
  a state that is already blocked is kept entirely.\<close>

theorem correction_applied_iff:
  assumes "tennis_inv s" "provider_snapshot_ok p"
  shows "\<exists>r. apply_correction s p = Inr r
      \<and> (tr_disposition r = APPLIED \<longleftrightarrow>
           same_match s p \<and> minimum_receipt s \<le> sn_received_monotonic_ns p
           \<and> correction_epoch s < correction_epoch p \<and> sn_snapshot_complete p \<and> reachable p)
      \<and> (tr_disposition r = APPLIED \<longrightarrow>
           board_fields (tr_state r) = board_fields p
           \<and> provider_key.truncate (tr_state r) = provider_key.truncate p
           \<and> block_reason (tr_state r) = None
           \<and> last_received_monotonic_ns (tr_state r) = sn_received_monotonic_ns p
           \<and> correction_lineage_sha256 (tr_state r) = correction_lineage s p)
      \<and> (tr_disposition r \<noteq> APPLIED \<longrightarrow> standing (tr_state r) = standing s)
      \<and> (tr_disposition r \<noteq> APPLIED \<and> block_reason s \<noteq> None \<longrightarrow> tr_state r = s)"
proof -
  have supported: "match_format s \<noteq> UNSUPPORTED"
    using board_okD(1)[OF tennis_invD(1)[OF assms(1)]] by (auto simp: supported_match_formats_def)
  have iff: "correction_rejection s p = None \<longleftrightarrow>
      same_match s p \<and> minimum_receipt s \<le> sn_received_monotonic_ns p
      \<and> correction_epoch s < correction_epoch p \<and> sn_snapshot_complete p \<and> reachable p"
    using supported by (simp add: correction_rejection_def same_match_def)
  have redel: "correction_redelivered s p d \<Longrightarrow> correction_rejection s p \<noteq> None" for d
    unfolding iff by (simp add: correction_redelivered_def)
  show ?thesis
  proof (cases "correction_rejection s p")
    case None
    then have "\<not> correction_redelivered s p d" for d
      using redel by blast
    then show ?thesis
      using None iff
      by (simp add: apply_correction_eq[OF assms] Let_def snapshot_fields_facts)
        (simp add: snapshot_fields_def)
  next
    case (Some reason)
    then show ?thesis
      using iff by (simp add: apply_correction_eq[OF assms] Let_def rejected_state_def)
  qed
qed

theorem correction_applied_iff_witness:
  "\<exists>r. apply_correction example_blocked example_snapshot = Inr r
     \<and> block_reason (tr_state r) = None \<and> correction_epoch (tr_state r) = 1"
proof -
  have "same_match example_blocked example_snapshot
      \<and> minimum_receipt example_blocked \<le> sn_received_monotonic_ns example_snapshot
      \<and> correction_epoch example_blocked < correction_epoch example_snapshot
      \<and> sn_snapshot_complete example_snapshot \<and> reachable example_snapshot"
    by code_simp
  moreover have "correction_epoch example_snapshot = 1"
    by (simp add: example_snapshot_def)
  ultimately show ?thesis
    using correction_applied_iff[OF example_blocked_inv example_snapshot_ok]
    by (auto simp: provider_key.truncate_def)
qed

end
