(* ===== verification/PyDecimal.thy ===== *)
theory PyDecimal
  imports Complex_Main Prelude
begin

text \<open>
  Python's \<open>decimal\<close> contexts with \<open>ROUND_HALF_EVEN\<close> and the traps \<open>InvalidOperation\<close>,
  \<open>DivisionByZero\<close> and \<open>Overflow\<close>, as the program creates them
  (\<open>_BOOK_DECIMAL_CONTEXT\<close> and \<open>_DECIMAL_CONTEXT\<close>, 80 digits).  A finite decimal is its
  numeric value, a rational.  An operation computes the exact result and rounds it to the
  precision, half to even, no finer than the smallest subnormal; the result \<open>None\<close> is the
  trapped signal, a \<open>DecimalException\<close>.
\<close>

function int_digits :: "int \<Rightarrow> nat" where
  "int_digits n = (if n < 10 then 1 else Suc (int_digits (n div 10)))"
  by pat_completeness auto
termination
  by (relation "measure nat") auto

declare int_digits.simps [simp del]

text \<open>The exponent of the leading digit of a non-zero value (\<open>Decimal.adjusted\<close>).\<close>

definition dec_adjusted :: "rat \<Rightarrow> int" where
  "dec_adjusted r =
     (let (n, d) = quotient_of \<bar>r\<bar>;
          e = int (int_digits n) - int (int_digits d)
      in if 10 powi e \<le> \<bar>r\<bar> then e else e - 1)"

definition round_half_even :: "rat \<Rightarrow> int" where
  "round_half_even x =
     (let f = \<lfloor>x\<rfloor>; d = x - of_int f
      in if d < 1 / 2 then f else if 1 / 2 < d then f + 1 else if even f then f else f + 1)"

definition dec_emax :: int where
  "dec_emax = 999999"

definition dec_quantum :: "nat \<Rightarrow> rat \<Rightarrow> rat" where
  \<comment> \<open>the weight of the last digit kept, not below \<open>Etiny = Emin - (prec - 1)\<close>\<close>
  "dec_quantum prec r = 10 powi (max (dec_adjusted r - (int prec - 1)) (- dec_emax - (int prec - 1)))"

definition dec_round :: "nat \<Rightarrow> rat \<Rightarrow> rat" where
  "dec_round prec r =
     (if r = 0 then 0 else of_int (round_half_even (r / dec_quantum prec r)) * dec_quantum prec r)"

definition dec_overflow :: "rat \<Rightarrow> bool" where
  "dec_overflow r \<longleftrightarrow> dec_emax < dec_adjusted r"

definition dec_fix :: "nat \<Rightarrow> rat \<Rightarrow> rat option" where
  "dec_fix prec r = (let s = dec_round prec r in if dec_overflow s then None else Some s)"

definition dec_add :: "nat \<Rightarrow> rat \<Rightarrow> rat \<Rightarrow> rat option" where
  "dec_add prec a b = dec_fix prec (a + b)"

definition dec_sub :: "nat \<Rightarrow> rat \<Rightarrow> rat \<Rightarrow> rat option" where
  "dec_sub prec a b = dec_fix prec (a - b)"

definition dec_mul :: "nat \<Rightarrow> rat \<Rightarrow> rat \<Rightarrow> rat option" where
  "dec_mul prec a b = dec_fix prec (a * b)"

definition dec_div :: "nat \<Rightarrow> rat \<Rightarrow> rat \<Rightarrow> rat option" where
  "dec_div prec a b = (if b = 0 then None else dec_fix prec (a / b))"

definition dec_abs :: "nat \<Rightarrow> rat \<Rightarrow> rat option" where
  "dec_abs prec a = dec_fix prec \<bar>a\<bar>"

subsection \<open>The leading exponent\<close>

lemma int_digits_pos [simp]: "0 < int_digits n"
  by (subst int_digits.simps) simp

lemma int_digits_bounds:
  "0 < n \<Longrightarrow> 10 ^ (int_digits n - 1) \<le> n \<and> n < 10 ^ int_digits n"
proof (induction n rule: int_digits.induct)
  case (1 n)
  show ?case
  proof (cases "n < 10")
    case True
    with "1.prems" show ?thesis by (simp add: int_digits.simps [of n])
  next
    case False
    let ?m = "n div 10"
    let ?k = "int_digits ?m"
    from False have pos: "0 < ?m" by simp
    from "1.IH" [OF False pos] have lo: "10 ^ (?k - 1) \<le> ?m" and hi: "?m < 10 ^ ?k" by auto
    have k: "0 < ?k" by simp
    from lo have "10 * 10 ^ (?k - 1) \<le> n" by linarith
    moreover have "10 * 10 ^ (?k - 1) = (10::int) ^ ?k" using k by (simp add: power_eq_if)
    moreover from hi have "n < 10 * 10 ^ ?k" by linarith
    ultimately show ?thesis using False by (simp add: int_digits.simps [of n])
  qed
qed

lemma int_digits_powi:
  assumes "0 < n"
  shows "10 powi (int (int_digits n) - 1) \<le> (of_int n :: rat)"
    and "(of_int n :: rat) < 10 powi int (int_digits n)"
proof -
  have k: "0 < int_digits n" by simp
  from int_digits_bounds [OF assms] have b: "10 ^ (int_digits n - 1) \<le> n" "n < 10 ^ int_digits n"
    by auto
  have "(of_int (10 ^ (int_digits n - 1)) :: rat) \<le> of_int n" using b(1) by (simp only: of_int_le_iff)
  moreover have "int (int_digits n) - 1 = int (int_digits n - 1)" using k by linarith
  ultimately show "10 powi (int (int_digits n) - 1) \<le> (of_int n :: rat)" by (simp only: power_int_of_nat of_int_power of_int_numeral)
  have "(of_int n :: rat) < of_int (10 ^ int_digits n)" using b(2) by (simp only: of_int_less_iff)
  then show "(of_int n :: rat) < 10 powi int (int_digits n)" by simp
qed

lemma dec_adjusted_bounds:
  assumes "r \<noteq> 0"
  shows "10 powi dec_adjusted r \<le> \<bar>r\<bar> \<and> \<bar>r\<bar> < 10 powi (dec_adjusted r + 1)"
proof -
  obtain n d where q: "quotient_of \<bar>r\<bar> = (n, d)" by fastforce
  then have d: "0 < d" by (rule quotient_of_denom_pos)
  from q have r: "\<bar>r\<bar> = of_int n / of_int d" by (rule quotient_of_div)
  with assms d have "0 < (of_int n :: rat)"
    by (metis divide_pos_pos divide_neg_pos not_less_iff_gr_or_eq of_int_0_less_iff zero_less_abs_iff div_by_0 divide_eq_0_iff)
  then have n: "0 < n" by simp
  define a b where "a = int (int_digits n)" and "b = int (int_digits d)"
  have n_lo: "10 powi (a - 1) \<le> (of_int n :: rat)" and n_hi: "(of_int n :: rat) < 10 powi a"
    using int_digits_powi [OF n] by (simp_all add: a_def)
  have d_lo: "10 powi (b - 1) \<le> (of_int d :: rat)" and d_hi: "(of_int d :: rat) < 10 powi b"
    using int_digits_powi [OF d] by (simp_all add: b_def)
  have dpos: "(0 :: rat) < of_int d" using d by simp
  have low: "10 powi (a - b - 1) \<le> \<bar>r\<bar>"
  proof -
    have "10 powi (a - b - 1) * of_int d \<le> (10 powi (a - b - 1) * 10 powi b :: rat)"
      using d_hi by (intro mult_left_mono) auto
    also have "\<dots> = 10 powi (a - 1)" by (subst power_int_add [symmetric]) auto
    also have "\<dots> \<le> of_int n" by (rule n_lo)
    finally show ?thesis using dpos by (simp add: r pos_le_divide_eq)
  qed
  have high: "\<bar>r\<bar> < 10 powi (a - b + 1)"
  proof -
    have "(of_int n :: rat) < 10 powi a" by (rule n_hi)
    also have "\<dots> = 10 powi (a - b + 1) * 10 powi (b - 1)" by (subst power_int_add [symmetric]) auto
    also have "\<dots> \<le> 10 powi (a - b + 1) * of_int d" using d_lo by (intro mult_left_mono) auto
    finally show ?thesis using dpos by (simp add: r pos_divide_less_eq)
  qed
  have "dec_adjusted r = (if 10 powi (a - b) \<le> \<bar>r\<bar> then a - b else a - b - 1)"
    using q by (simp add: dec_adjusted_def a_def b_def Let_def)
  with low high show ?thesis by (auto split: if_splits simp: not_le)
qed

lemma powi10_less: "a < b \<Longrightarrow> (10 powi a :: rat) < 10 powi b"
  by (rule power_int_strict_increasing) auto

lemma powi10_less_iff [simp]: "(10 powi a < (10 powi b :: rat)) = (a < b)"
  using powi10_less [of a b] powi10_less [of b a] by (cases a b rule: linorder_cases) auto

lemma powi10_le_iff [simp]: "(10 powi a \<le> (10 powi b :: rat)) = (a \<le> b)"
  by (simp add: not_less [symmetric])

lemma dec_adjusted_le:
  assumes "r \<noteq> 0" and "\<bar>r\<bar> < 10 powi (e + 1)"
  shows "dec_adjusted r \<le> e"
proof -
  from dec_adjusted_bounds [OF assms(1)] assms(2) have "10 powi dec_adjusted r < (10 powi (e + 1) :: rat)"
    by linarith
  then show ?thesis by simp
qed

lemma dec_adjusted_mono:
  assumes "0 < r" and "r \<le> s"
  shows "dec_adjusted r \<le> dec_adjusted s"
proof (rule dec_adjusted_le)
  show "r \<noteq> 0" using assms by simp
  from assms have "s \<noteq> 0" by simp
  from dec_adjusted_bounds [OF this] assms show "\<bar>r\<bar> < 10 powi (dec_adjusted s + 1)" by simp
qed

subsection \<open>Rounding half to even\<close>

lemma round_half_even_of_int [simp]: "round_half_even (of_int n) = n"
  by (simp add: round_half_even_def)

lemma round_half_even_floor: "round_half_even x \<in> {\<lfloor>x\<rfloor>, \<lfloor>x\<rfloor> + 1}"
  by (simp add: round_half_even_def Let_def)

lemma round_half_even_mono:
  assumes "x \<le> y"
  shows "round_half_even x \<le> round_half_even y"
proof (cases "\<lfloor>x\<rfloor> = \<lfloor>y\<rfloor>")
  case True
  with assms show ?thesis by (auto simp: round_half_even_def Let_def)
next
  case False
  with floor_mono [OF assms] have "\<lfloor>x\<rfloor> + 1 \<le> \<lfloor>y\<rfloor>" by linarith
  with round_half_even_floor [of x] round_half_even_floor [of y] show ?thesis by auto
qed

lemma round_half_even_minus: "round_half_even (- x) = - round_half_even x"
proof (cases "x = of_int \<lfloor>x\<rfloor>")
  case True
  then show ?thesis by (metis of_int_minus round_half_even_of_int)
next
  case False
  then have "\<lfloor>- x\<rfloor> = - \<lfloor>x\<rfloor> - 1" by (simp add: floor_minus ceiling_altdef)
  then show ?thesis by (auto simp: round_half_even_def Let_def)
qed

lemma dec_quantum_pos [simp]: "0 < dec_quantum prec r"
  by (simp add: dec_quantum_def)

lemma dec_round_0 [simp]: "dec_round prec 0 = 0"
  by (simp add: dec_round_def)

lemma dec_adjusted_minus [simp]: "dec_adjusted (- r) = dec_adjusted r"
  by (simp add: dec_adjusted_def)

lemma dec_round_minus: "dec_round prec (- r) = - dec_round prec r"
proof -
  have "dec_quantum prec (- r) = dec_quantum prec r" by (simp add: dec_quantum_def)
  then show ?thesis
    by (simp add: dec_round_def round_half_even_minus)
qed

lemma dec_round_nonneg: "0 \<le> r \<Longrightarrow> 0 \<le> dec_round prec r"
  using round_half_even_mono [of 0 "r / dec_quantum prec r"] round_half_even_of_int [of 0]
  by (simp add: dec_round_def less_imp_le)

text \<open>A value with at most \<open>prec\<close> digits, not finer than \<open>Etiny\<close>, is not changed.\<close>

definition dec_representable :: "nat \<Rightarrow> rat \<Rightarrow> bool" where
  "dec_representable prec r \<longleftrightarrow>
     (\<exists>m e. r = of_int m * 10 powi e \<and> \<bar>m\<bar> < 10 ^ prec \<and> - dec_emax - (int prec - 1) \<le> e)"

lemma powi10_ratio:
  assumes "t \<le> e"
  shows "(10 powi e / 10 powi t :: rat) = of_int (10 ^ nat (e - t))"
proof -
  have "(10 powi e / 10 powi t :: rat) = 10 powi (e - t)" by (simp add: power_int_diff)
  also have "\<dots> = 10 ^ nat (e - t)" using assms by (simp add: power_int_nonneg_exp)
  finally show ?thesis by simp
qed

lemma dec_round_representable:
  assumes "dec_representable prec r"
  shows "dec_round prec r = r"
proof (cases "r = 0")
  case False
  from assms obtain m e where r: "r = of_int m * 10 powi e" and m: "\<bar>m\<bar> < 10 ^ prec"
    and e: "- dec_emax - (int prec - 1) \<le> e" unfolding dec_representable_def by blast
  have "(of_int \<bar>m\<bar> :: rat) < of_int (10 ^ prec)" using m by (simp only: of_int_less_iff)
  then have "\<bar>r\<bar> < 10 powi int prec * 10 powi e" by (simp add: r abs_mult)
  also have "\<dots> = 10 powi ((int prec + e - 1) + 1)" by (subst power_int_add [symmetric]) auto
  finally have "dec_adjusted r \<le> int prec + e - 1" using False by (intro dec_adjusted_le)
  then obtain t where q: "dec_quantum prec r = 10 powi t" and t: "t \<le> e"
    using e by (auto simp: dec_quantum_def)
  have "r / dec_quantum prec r = of_int m * (10 powi e / 10 powi t)"
    by (subst q) (simp add: r)
  also have "\<dots> = of_int (m * 10 ^ nat (e - t))"
    by (subst powi10_ratio [OF t]) simp
  finally have "of_int (round_half_even (r / dec_quantum prec r)) = r / dec_quantum prec r"
    by (simp only: round_half_even_of_int)
  with False show ?thesis by (simp add: dec_round_def less_imp_neq [symmetric])
qed simp

lemma dec_round_int:
  assumes "\<bar>n\<bar> < 10 ^ prec" and "0 < prec"
  shows "dec_round prec (of_int n) = of_int n"
proof (rule dec_round_representable)
  show "dec_representable prec (of_int n)" unfolding dec_representable_def
    by (rule exI [of _ n], rule exI [of _ 0]) (use assms in \<open>auto simp: dec_emax_def\<close>)
qed

lemma dec_round_eq: "r \<noteq> 0 \<Longrightarrow> dec_round prec r = of_int (round_half_even (r / dec_quantum prec r)) * dec_quantum prec r"
  by (simp add: dec_round_def)

lemma dec_round_le_power:
  assumes "0 < r" and "r \<le> 10 powi b" and "dec_quantum prec r = 10 powi t" and "t \<le> b"
  shows "dec_round prec r \<le> 10 powi b"
proof -
  have "r / 10 powi t \<le> 10 powi b / 10 powi t" using assms(2) by (intro divide_right_mono) auto
  then have "r / 10 powi t \<le> of_int (10 ^ nat (b - t))" by (subst (asm) powi10_ratio [OF assms(4)])
  then have "round_half_even (r / 10 powi t) \<le> 10 ^ nat (b - t)"
    using round_half_even_mono round_half_even_of_int by metis
  then have "(of_int (round_half_even (r / 10 powi t)) :: rat) \<le> 10 powi b / 10 powi t"
    by (subst powi10_ratio [OF assms(4)]) (simp only: of_int_le_iff)
  then have "of_int (round_half_even (r / 10 powi t)) * 10 powi t \<le> (10 powi b :: rat)"
    by (simp add: pos_le_divide_eq)
  with assms(1,3) show ?thesis by (simp add: dec_round_eq)
qed

lemma dec_round_ge_power:
  assumes "0 < r" and "10 powi b \<le> r" and "dec_quantum prec r = 10 powi t" and "t \<le> b"
  shows "10 powi b \<le> dec_round prec r"
proof -
  have "10 powi b / 10 powi t \<le> r / 10 powi t" using assms(2) by (intro divide_right_mono) auto
  then have "of_int (10 ^ nat (b - t)) \<le> r / 10 powi t" by (subst (asm) powi10_ratio [OF assms(4)])
  then have "10 ^ nat (b - t) \<le> round_half_even (r / 10 powi t)"
    using round_half_even_mono round_half_even_of_int by metis
  then have "10 powi b / 10 powi t \<le> (of_int (round_half_even (r / 10 powi t)) :: rat)"
    by (subst powi10_ratio [OF assms(4)]) (simp only: of_int_le_iff)
  then have "10 powi b \<le> of_int (round_half_even (r / 10 powi t)) * (10 powi t :: rat)"
    by (simp add: pos_divide_le_eq)
  with assms(1,3) show ?thesis by (simp add: dec_round_eq)
qed

lemma dec_round_mono_pos:
  assumes "0 < r" and "r \<le> s" and "0 < prec"
  shows "dec_round prec r \<le> dec_round prec s"
proof -
  let ?t = "\<lambda>x. max (dec_adjusted x - (int prec - 1)) (- dec_emax - (int prec - 1))"
  have q: "dec_quantum prec x = 10 powi ?t x" for x by (simp add: dec_quantum_def)
  have adj: "dec_adjusted r \<le> dec_adjusted s" using assms(1,2) by (rule dec_adjusted_mono)
  have s: "0 < s" using assms by simp
  show ?thesis
  proof (cases "?t r = ?t s")
    case True
    then have eq: "dec_quantum prec r = dec_quantum prec s" by (simp only: q)
    have "r / dec_quantum prec s \<le> s / dec_quantum prec s"
      using assms(2) by (intro divide_right_mono) (auto simp: less_imp_le)
    then show ?thesis using assms(1) s
      by (simp add: dec_round_eq eq round_half_even_mono)
  next
    case False
    with adj have lt: "dec_adjusted r < dec_adjusted s" and ts: "?t s = dec_adjusted s - (int prec - 1)"
      and tr: "?t r < ?t s" by auto
    have b: "10 powi dec_adjusted s \<le> s" using dec_adjusted_bounds [of s] s by simp
    have "r < 10 powi (dec_adjusted r + 1)" using dec_adjusted_bounds [of r] assms(1) by simp
    also have "\<dots> \<le> 10 powi dec_adjusted s" using lt by (simp add: powi10_le_iff)
    finally have "dec_round prec r \<le> 10 powi dec_adjusted s"
      using tr ts assms(1,3) by (intro dec_round_le_power [OF assms(1) _ q]) auto
    also have "\<dots> \<le> dec_round prec s"
      using ts assms(3) b by (intro dec_round_ge_power [OF s _ q]) auto
    finally show ?thesis .
  qed
qed

lemma dec_round_mono:
  assumes "r \<le> s" and "0 < prec"
  shows "dec_round prec r \<le> dec_round prec s"
proof (cases "0 < r")
  case True
  with assms show ?thesis by (intro dec_round_mono_pos)
next
  case r: False
  show ?thesis
  proof (cases "0 \<le> s")
    case True
    have "0 \<le> dec_round prec (- r)" using r by (intro dec_round_nonneg) simp
    with dec_round_nonneg [OF True, of prec] show ?thesis by (simp add: dec_round_minus)
  next
    case False
    then have "dec_round prec (- s) \<le> dec_round prec (- r)"
      using assms by (intro dec_round_mono_pos) auto
    then show ?thesis by (simp add: dec_round_minus)
  qed
qed

lemma dec_fix_bounded:
  assumes "\<bar>r\<bar> \<le> 10" and "1 < prec"
  shows "dec_fix prec r = Some (dec_round prec r)"
proof -
  have ten: "dec_round prec 10 = 10"
    using dec_round_int [of 10 prec] assms(2) power_strict_increasing [of 1 prec "10::int"] by simp
  have "dec_round prec r \<le> 10" using dec_round_mono [of r 10 prec] assms ten by auto
  moreover have "- 10 \<le> dec_round prec r"
    using dec_round_mono [of "- 10" r prec] dec_round_minus [of prec 10] assms ten by auto
  ultimately have b: "\<bar>dec_round prec r\<bar> \<le> 10" by simp
  have "dec_adjusted (dec_round prec r) \<le> 1"
  proof (cases "dec_round prec r = 0")
    case True
    then show ?thesis by (simp add: dec_adjusted_def int_digits.simps)
  next
    case False
    have "(10::rat) powi (1 + 1) = 100" by simp
    with False b show ?thesis by (intro dec_adjusted_le) auto
  qed
  then show ?thesis by (simp add: dec_fix_def dec_overflow_def dec_emax_def)
qed

subsection \<open>What the clients of a context rely on\<close>

text \<open>
  The order book computes only with prices, which are probabilities.  The interface states
  what it needs of the context: rounding is monotone, leaves small integers alone and no signal is trapped near the unit
  interval.
\<close>

locale decimal_context =
  fixes rnd :: "rat \<Rightarrow> rat"
    and run :: "rat \<Rightarrow> rat option"
  assumes rnd_mono: "r \<le> s \<Longrightarrow> rnd r \<le> rnd s"
    and rnd_zero: "rnd 0 = 0"
    and rnd_one: "rnd 1 = 1"
    and rnd_uminus: "rnd (- r) = - rnd r"
    and run_small: "\<bar>r\<bar> \<le> 2 \<Longrightarrow> run r = Some (rnd r)"
begin

lemma rnd_unit: "0 \<le> r \<Longrightarrow> r \<le> 1 \<Longrightarrow> 0 \<le> rnd r \<and> rnd r \<le> 1"
  using rnd_mono [of 0 r] rnd_mono [of r 1] rnd_zero rnd_one by simp

lemma run_complement: "0 \<le> p \<Longrightarrow> p \<le> 1 \<Longrightarrow> run (1 - p) = Some (rnd (1 - p))"
  by (rule run_small) simp

lemma complement_unit: "0 \<le> p \<Longrightarrow> p \<le> 1 \<Longrightarrow> 0 \<le> rnd (1 - p) \<and> rnd (1 - p) \<le> 1"
  by (rule rnd_unit) auto

lemma complement_antimono: "p \<le> q \<Longrightarrow> rnd (1 - q) \<le> rnd (1 - p)"
  by (rule rnd_mono) simp

lemma run_sum: "0 \<le> p \<Longrightarrow> p \<le> 1 \<Longrightarrow> 0 \<le> q \<Longrightarrow> q \<le> 1 \<Longrightarrow> run (p + q) = Some (rnd (p + q))"
  by (rule run_small) simp

lemma run_distance:
  assumes "0 \<le> p" "p \<le> 1" "0 \<le> q" "q \<le> 1"
  shows "run (p - q) = Some (rnd (p - q))" and "\<bar>rnd (p - q)\<bar> \<le> 1"
    and "run \<bar>rnd (p - q)\<bar> = Some (rnd \<bar>rnd (p - q)\<bar>)"
    and "0 \<le> rnd \<bar>rnd (p - q)\<bar> \<and> rnd \<bar>rnd (p - q)\<bar> \<le> 1"
proof -
  show "run (p - q) = Some (rnd (p - q))" using assms by (intro run_small) auto
  have "rnd (p - q) \<le> 1" using rnd_mono [of "p - q" 1] rnd_one assms by simp
  moreover have "- 1 \<le> rnd (p - q)" using rnd_mono [of "- 1" "p - q"] rnd_uminus [of 1] rnd_one assms by simp
  ultimately show b: "\<bar>rnd (p - q)\<bar> \<le> 1" by simp
  then show "run \<bar>rnd (p - q)\<bar> = Some (rnd \<bar>rnd (p - q)\<bar>)" by (intro run_small) auto
  show "0 \<le> rnd \<bar>rnd (p - q)\<bar> \<and> rnd \<bar>rnd (p - q)\<bar> \<le> 1" using b by (intro rnd_unit) auto
qed

end

interpretation book_decimals: decimal_context "dec_round 80" "dec_fix 80"
proof
  show "dec_round 80 1 = 1" using dec_round_int [of 1 80] by simp
qed (auto simp: dec_round_mono dec_round_minus dec_fix_bounded)

end
