(* ===== verification/ContractsBook.thy ===== *)
theory ContractsBook
  imports Validators PyDecimal
begin

text \<open>
  The order book contracts of \<open>inci_tennis_expert/contracts.py\<close>: price levels, the three
  market data events (snapshot, delta, lifecycle), the book state and the transition result,
  each with its validator and its canonical projection.  The field prefixes tell the classes
  apart: \<open>bl_\<close> level, \<open>snap_\<close> snapshot, \<open>delta_\<close> delta, \<open>ml_\<close> market
  lifecycle, \<open>bs_\<close> state, \<open>bt_\<close> transition result.
\<close>

subsection \<open>Data\<close>

record BookLevel =
  bl_price :: rat
  bl_quantity :: rat

record BookSnapshot =
  snap_ticker :: string
  snap_connection_epoch :: int
  snap_sequence :: int
  snap_market_status :: MarketStatus
  snap_scheduled_close_wall_ns :: int
  snap_source_wall_ns :: int
  snap_observed_monotonic_ns :: int
  snap_clock_uncertainty_ns :: int
  snap_yes_bids :: "BookLevel list"
  snap_no_bids :: "BookLevel list"

record BookDelta =
  delta_ticker :: string
  delta_connection_epoch :: int
  delta_sequence :: int
  delta_source_wall_ns :: int
  delta_observed_monotonic_ns :: int
  delta_clock_uncertainty_ns :: int
  delta_contract_side :: ContractSide
  delta_price :: rat
  delta_quantity :: rat

record MarketLifecycle =
  ml_ticker :: string
  ml_connection_epoch :: int
  ml_market_status :: MarketStatus
  ml_scheduled_close_wall_ns :: int
  ml_source_wall_ns :: int
  ml_observed_monotonic_ns :: int
  ml_clock_uncertainty_ns :: int

record BookState =
  bs_ticker :: string
  bs_connection_epoch :: int
  bs_sequence :: int
  bs_market_status :: MarketStatus
  bs_scheduled_close_wall_ns :: int
  bs_book_source_wall_ns :: int
  bs_book_observed_monotonic_ns :: int
  bs_book_clock_uncertainty_ns :: int
  bs_lifecycle_source_wall_ns :: int
  bs_lifecycle_observed_monotonic_ns :: int
  bs_lifecycle_clock_uncertainty_ns :: int
  bs_yes_bids :: "BookLevel list"
  bs_no_bids :: "BookLevel list"
  bs_trusted :: bool
  bs_sequence_gap :: bool
  bs_last_executable_move :: rat
  bs_last_executable_move_monotonic_ns :: int
  bs_last_snapshot_sha256 :: string
  bs_last_event_sha256 :: string

record BookTransitionResult =
  bt_state :: BookState
  bt_accepted_event_kind :: "BookEventKind option"
  bt_accepted_event_sha256 :: "string option"
  bt_executable_move :: rat
  bt_move_observed_monotonic_ns :: "int option"
  bt_connection_epoch :: int
  bt_sequence :: int
  bt_top_of_book_changed :: bool

datatype book_event =
    BookSnapshotEvent BookSnapshot
  | BookDeltaEvent BookDelta
  | MarketLifecycleEvent MarketLifecycle

subsection \<open>Validators\<close>

definition book_level_post_init :: "BookLevel \<Rightarrow> exn option" where
  "book_level_post_init l = first_raise
     [probability (bl_price l) ''price'', positive_quantity (bl_quantity l) ''quantity'']"

fun validate_ladder_from :: "rat option \<Rightarrow> BookLevel list \<Rightarrow> string \<Rightarrow> exn option" where
  "validate_ladder_from previous [] name = None"
| "validate_ladder_from previous (level # rest) name =
     first_raise
       [contract_error (case previous of None \<Rightarrow> True | Some p \<Rightarrow> \<not> p \<le> bl_price level) name,
        validate_ladder_from (Some (bl_price level)) rest name]"

definition validate_ladder :: "BookLevel list \<Rightarrow> string \<Rightarrow> exn option" where
  "validate_ladder ladder name = validate_ladder_from None ladder name"

definition validate_book_ladders :: "BookLevel list \<Rightarrow> BookLevel list \<Rightarrow> exn option" where
  "validate_book_ladders yes_bids no_bids = first_raise
     [validate_ladder yes_bids ''yes_bids'',
      validate_ladder no_bids ''no_bids'',
      (case (yes_bids, no_bids) of
         (y # _, n # _) \<Rightarrow>
           (case dec_add 80 (bl_price y) (bl_price n) of
              None \<Rightarrow> Some DecimalException
            | Some combined \<Rightarrow> contract_error (\<not> 1 < combined) ''crossed_book'')
       | _ \<Rightarrow> None)]"

definition book_snapshot_post_init :: "BookSnapshot \<Rightarrow> exn option" where
  "book_snapshot_post_init p = first_raise
     [ticker (snap_ticker p) ''ticker'',
      integer (snap_connection_epoch p) ''connection_epoch'',
      positive_integer (snap_sequence p) ''sequence'',
      integer (snap_scheduled_close_wall_ns p) ''scheduled_close_wall_ns'',
      integer (snap_source_wall_ns p) ''source_wall_ns'',
      integer (snap_observed_monotonic_ns p) ''observed_monotonic_ns'',
      integer (snap_clock_uncertainty_ns p) ''clock_uncertainty_ns'',
      validate_book_ladders (snap_yes_bids p) (snap_no_bids p)]"

definition book_delta_post_init :: "BookDelta \<Rightarrow> exn option" where
  "book_delta_post_init d = first_raise
     [ticker (delta_ticker d) ''ticker'',
      integer (delta_connection_epoch d) ''connection_epoch'',
      positive_integer (delta_sequence d) ''sequence'',
      integer (delta_source_wall_ns d) ''source_wall_ns'',
      integer (delta_observed_monotonic_ns d) ''observed_monotonic_ns'',
      integer (delta_clock_uncertainty_ns d) ''clock_uncertainty_ns'',
      probability (delta_price d) ''price'',
      quantity (delta_quantity d) ''quantity'']"

definition market_lifecycle_post_init :: "MarketLifecycle \<Rightarrow> exn option" where
  "market_lifecycle_post_init l = first_raise
     [ticker (ml_ticker l) ''ticker'',
      integer (ml_connection_epoch l) ''connection_epoch'',
      integer (ml_scheduled_close_wall_ns l) ''scheduled_close_wall_ns'',
      integer (ml_source_wall_ns l) ''source_wall_ns'',
      integer (ml_observed_monotonic_ns l) ''observed_monotonic_ns'',
      integer (ml_clock_uncertainty_ns l) ''clock_uncertainty_ns'']"

definition book_state_post_init :: "BookState \<Rightarrow> exn option" where
  "book_state_post_init s = first_raise
     [ticker (bs_ticker s) ''ticker'',
      integer (bs_connection_epoch s) ''connection_epoch'',
      positive_integer (bs_sequence s) ''sequence'',
      integer (bs_scheduled_close_wall_ns s) ''scheduled_close_wall_ns'',
      integer (bs_book_source_wall_ns s) ''book_source_wall_ns'',
      integer (bs_book_observed_monotonic_ns s) ''book_observed_monotonic_ns'',
      integer (bs_book_clock_uncertainty_ns s) ''book_clock_uncertainty_ns'',
      integer (bs_lifecycle_source_wall_ns s) ''lifecycle_source_wall_ns'',
      integer (bs_lifecycle_observed_monotonic_ns s) ''lifecycle_observed_monotonic_ns'',
      integer (bs_lifecycle_clock_uncertainty_ns s) ''lifecycle_clock_uncertainty_ns'',
      validate_book_ladders (bs_yes_bids s) (bs_no_bids s),
      contract_error (bs_trusted s = (\<not> bs_sequence_gap s)) ''trusted'',
      probability (bs_last_executable_move s) ''last_executable_move'',
      integer (bs_last_executable_move_monotonic_ns s) ''last_executable_move_monotonic_ns'',
      contract_error (\<not> bs_book_observed_monotonic_ns s < bs_last_executable_move_monotonic_ns s)
        ''last_executable_move_monotonic_ns'',
      sha256_text (bs_last_snapshot_sha256 s) ''last_snapshot_sha256'',
      sha256_text (bs_last_event_sha256 s) ''last_event_sha256'']"

definition event_move_zero :: "BookTransitionResult \<Rightarrow> bool" where
  "event_move_zero r \<longleftrightarrow>
     bt_executable_move r = 0 \<and> bt_move_observed_monotonic_ns r = None
     \<and> \<not> bt_top_of_book_changed r"

definition book_transition_result_post_init :: "BookTransitionResult \<Rightarrow> exn option" where
  "book_transition_result_post_init r = first_raise
     [when_some (\<lambda>d. sha256_text d ''accepted_event_sha256'') (bt_accepted_event_sha256 r),
      probability (bt_executable_move r) ''executable_move'',
      when_some (\<lambda>t. integer t ''move_observed_monotonic_ns'') (bt_move_observed_monotonic_ns r),
      integer (bt_connection_epoch r) ''connection_epoch'',
      positive_integer (bt_sequence r) ''sequence'',
      contract_error ((bt_accepted_event_kind r = None) = (bt_accepted_event_sha256 r = None))
        ''accepted_event'',
      contract_error (bt_connection_epoch r = bs_connection_epoch (bt_state r)) ''connection_epoch'',
      contract_error (bt_sequence r = bs_sequence (bt_state r)) ''sequence'',
      (case bt_accepted_event_kind r of
         None \<Rightarrow> contract_error (event_move_zero r) ''event_move''
       | Some BE_LIFECYCLE \<Rightarrow> first_raise
           [contract_error (event_move_zero r) ''event_move'',
            contract_error (bt_accepted_event_sha256 r = Some (bs_last_event_sha256 (bt_state r)))
              ''accepted_event_sha256'']
       | Some kind \<Rightarrow> first_raise
           [contract_error (bs_trusted (bt_state r) \<and> \<not> bs_sequence_gap (bt_state r))
              ''accepted_event_state'',
            contract_error
              (bt_executable_move r = bs_last_executable_move (bt_state r)
               \<and> bt_move_observed_monotonic_ns r = Some (bs_book_observed_monotonic_ns (bt_state r))
               \<and> bt_move_observed_monotonic_ns r =
                   Some (bs_last_executable_move_monotonic_ns (bt_state r))
               \<and> bt_top_of_book_changed r = (0 < bt_executable_move r)) ''event_move'',
            contract_error (bt_accepted_event_sha256 r = Some (bs_last_event_sha256 (bt_state r)))
              ''accepted_event_sha256'',
            contract_error
              (kind = BE_SNAPSHOT \<longrightarrow>
                 bt_accepted_event_sha256 r = Some (bs_last_snapshot_sha256 (bt_state r)))
              ''accepted_event_sha256''])]"

subsection \<open>Canonical projections\<close>

definition contract_side_pyval :: "ContractSide \<Rightarrow> pyval" where
  "contract_side_pyval x = VEnum ''ContractSide'' (contract_side_value x)"

definition market_status_pyval :: "MarketStatus \<Rightarrow> pyval" where
  "market_status_pyval x = VEnum ''MarketStatus'' (market_status_value x)"

definition book_event_kind_pyval :: "BookEventKind \<Rightarrow> pyval" where
  "book_event_kind_pyval x = VEnum ''BookEventKind'' (book_event_kind_value x)"

definition book_level_pyval :: "BookLevel \<Rightarrow> pyval" where
  "book_level_pyval l = VContract ''BookLevel''
     [(''price'', VDecimal (bl_price l)),
      (''quantity'', VDecimal (bl_quantity l))]"

definition book_snapshot_pyval :: "BookSnapshot \<Rightarrow> pyval" where
  "book_snapshot_pyval p = VContract ''BookSnapshot''
     [(''ticker'', VStr (snap_ticker p)),
      (''connection_epoch'', VInt (snap_connection_epoch p)),
      (''sequence'', VInt (snap_sequence p)),
      (''market_status'', market_status_pyval (snap_market_status p)),
      (''scheduled_close_wall_ns'', VInt (snap_scheduled_close_wall_ns p)),
      (''source_wall_ns'', VInt (snap_source_wall_ns p)),
      (''observed_monotonic_ns'', VInt (snap_observed_monotonic_ns p)),
      (''clock_uncertainty_ns'', VInt (snap_clock_uncertainty_ns p)),
      (''yes_bids'', VTuple (map book_level_pyval (snap_yes_bids p))),
      (''no_bids'', VTuple (map book_level_pyval (snap_no_bids p)))]"

definition book_delta_pyval :: "BookDelta \<Rightarrow> pyval" where
  "book_delta_pyval d = VContract ''BookDelta''
     [(''ticker'', VStr (delta_ticker d)),
      (''connection_epoch'', VInt (delta_connection_epoch d)),
      (''sequence'', VInt (delta_sequence d)),
      (''source_wall_ns'', VInt (delta_source_wall_ns d)),
      (''observed_monotonic_ns'', VInt (delta_observed_monotonic_ns d)),
      (''clock_uncertainty_ns'', VInt (delta_clock_uncertainty_ns d)),
      (''contract_side'', contract_side_pyval (delta_contract_side d)),
      (''price'', VDecimal (delta_price d)),
      (''quantity'', VDecimal (delta_quantity d))]"

definition market_lifecycle_pyval :: "MarketLifecycle \<Rightarrow> pyval" where
  "market_lifecycle_pyval l = VContract ''MarketLifecycle''
     [(''ticker'', VStr (ml_ticker l)),
      (''connection_epoch'', VInt (ml_connection_epoch l)),
      (''market_status'', market_status_pyval (ml_market_status l)),
      (''scheduled_close_wall_ns'', VInt (ml_scheduled_close_wall_ns l)),
      (''source_wall_ns'', VInt (ml_source_wall_ns l)),
      (''observed_monotonic_ns'', VInt (ml_observed_monotonic_ns l)),
      (''clock_uncertainty_ns'', VInt (ml_clock_uncertainty_ns l))]"

definition book_state_pyval :: "BookState \<Rightarrow> pyval" where
  "book_state_pyval s = VContract ''BookState''
     [(''ticker'', VStr (bs_ticker s)),
      (''connection_epoch'', VInt (bs_connection_epoch s)),
      (''sequence'', VInt (bs_sequence s)),
      (''market_status'', market_status_pyval (bs_market_status s)),
      (''scheduled_close_wall_ns'', VInt (bs_scheduled_close_wall_ns s)),
      (''book_source_wall_ns'', VInt (bs_book_source_wall_ns s)),
      (''book_observed_monotonic_ns'', VInt (bs_book_observed_monotonic_ns s)),
      (''book_clock_uncertainty_ns'', VInt (bs_book_clock_uncertainty_ns s)),
      (''lifecycle_source_wall_ns'', VInt (bs_lifecycle_source_wall_ns s)),
      (''lifecycle_observed_monotonic_ns'', VInt (bs_lifecycle_observed_monotonic_ns s)),
      (''lifecycle_clock_uncertainty_ns'', VInt (bs_lifecycle_clock_uncertainty_ns s)),
      (''yes_bids'', VTuple (map book_level_pyval (bs_yes_bids s))),
      (''no_bids'', VTuple (map book_level_pyval (bs_no_bids s))),
      (''trusted'', VBool (bs_trusted s)),
      (''sequence_gap'', VBool (bs_sequence_gap s)),
      (''last_executable_move'', VDecimal (bs_last_executable_move s)),
      (''last_executable_move_monotonic_ns'', VInt (bs_last_executable_move_monotonic_ns s)),
      (''last_snapshot_sha256'', VStr (bs_last_snapshot_sha256 s)),
      (''last_event_sha256'', VStr (bs_last_event_sha256 s))]"

definition book_transition_result_pyval :: "BookTransitionResult \<Rightarrow> pyval" where
  "book_transition_result_pyval r = VContract ''BookTransitionResult''
     [(''state'', book_state_pyval (bt_state r)),
      (''accepted_event_kind'', vopt book_event_kind_pyval (bt_accepted_event_kind r)),
      (''accepted_event_sha256'', vopt VStr (bt_accepted_event_sha256 r)),
      (''executable_move'', VDecimal (bt_executable_move r)),
      (''move_observed_monotonic_ns'', vopt VInt (bt_move_observed_monotonic_ns r)),
      (''connection_epoch'', VInt (bt_connection_epoch r)),
      (''sequence'', VInt (bt_sequence r)),
      (''top_of_book_changed'', VBool (bt_top_of_book_changed r))]"

end
