(* ===== verification/MarketBook.thy ===== *)
theory MarketBook
  imports ContractsBook
begin

text \<open>
  The order book machine of \<open>inci_tennis_expert/market_book.py\<close>: a book is started from a
  snapshot, moved by deltas and market lifecycle events, marked as gapped when the sequence is
  broken, and replaced by a snapshot of a newer connection; \<open>executable_buy\<close> walks the
  opposite ladder.  \<open>None\<close> in a decimal computation is a trapped signal, which the source turns
  into \<open>ExpertContractError("book_decimal_arithmetic")\<close>.
\<close>

subsection \<open>Helpers\<close>

definition decimal_error :: exn where
  "decimal_error = ExpertContractError ''book_decimal_arithmetic''"

fun allowed_status_transitions :: "MarketStatus \<Rightarrow> MarketStatus list" where
  "allowed_status_transitions MKT_PREOPEN =
     [MKT_PREOPEN, MKT_OPEN, MKT_SUSPENDED, MKT_CLOSED, MKT_CANCELLED]"
| "allowed_status_transitions MKT_OPEN = [MKT_OPEN, MKT_SUSPENDED, MKT_CLOSED, MKT_CANCELLED]"
| "allowed_status_transitions MKT_SUSPENDED = [MKT_SUSPENDED, MKT_OPEN, MKT_CLOSED, MKT_CANCELLED]"
| "allowed_status_transitions MKT_CLOSED = [MKT_CLOSED, MKT_SETTLED, MKT_CANCELLED]"
| "allowed_status_transitions MKT_SETTLED = [MKT_SETTLED]"
| "allowed_status_transitions MKT_CANCELLED = [MKT_CANCELLED]"

definition status_transition_allowed :: "MarketStatus \<Rightarrow> MarketStatus \<Rightarrow> bool" where
  "status_transition_allowed current incoming \<longleftrightarrow> incoming \<in> set (allowed_status_transitions current)"

definition gapped_copy :: "BookState \<Rightarrow> BookState result" where
  "gapped_copy s = construct book_state_post_init (s\<lparr>bs_trusted := False, bs_sequence_gap := True\<rparr>)"

definition no_event :: "BookState \<Rightarrow> BookTransitionResult result" where
  "no_event s = construct book_transition_result_post_init
     \<lparr>bt_state = s, bt_accepted_event_kind = None, bt_accepted_event_sha256 = None,
      bt_executable_move = 0, bt_move_observed_monotonic_ns = None,
      bt_connection_epoch = bs_connection_epoch s, bt_sequence = bs_sequence s,
      bt_top_of_book_changed = False\<rparr>"

definition gap_event :: "BookState \<Rightarrow> BookTransitionResult result" where
  \<comment> \<open>\<open>_no_event(_gapped_copy(state))\<close>\<close>
  "gap_event s = bind_result (gapped_copy s) no_event"

definition complement_ask :: "BookLevel list \<Rightarrow> rat option option" where
  "complement_ask bids =
     (case bids of
        [] \<Rightarrow> Some None
      | best # _ \<Rightarrow> map_option Some (dec_sub 80 1 (bl_price best)))"

definition best_asks :: "BookLevel list \<Rightarrow> BookLevel list \<Rightarrow> (rat option \<times> rat option) option" where
  "best_asks yes_bids no_bids =
     Option.bind (complement_ask no_bids) (\<lambda>best_yes_ask.
     Option.bind (complement_ask yes_bids) (\<lambda>best_no_ask.
       Some (best_yes_ask, best_no_ask)))"

definition one_side_move :: "rat option \<Rightarrow> rat option \<Rightarrow> rat option" where
  "one_side_move before after =
     (case (before, after) of
        (None, None) \<Rightarrow> Some 0
      | (Some b, Some a) \<Rightarrow> Option.bind (dec_sub 80 a b) (dec_abs 80)
      | _ \<Rightarrow> Some 1)"

definition executable_move ::
  "BookLevel list \<Rightarrow> BookLevel list \<Rightarrow> BookLevel list \<Rightarrow> BookLevel list \<Rightarrow> rat option" where
  "executable_move before_yes before_no after_yes after_no =
     Option.bind (best_asks before_yes before_no) (\<lambda>(before_yes_ask, before_no_ask).
     Option.bind (best_asks after_yes after_no) (\<lambda>(after_yes_ask, after_no_ask).
     Option.bind (one_side_move before_yes_ask after_yes_ask) (\<lambda>yes_move.
     Option.bind (one_side_move before_no_ask after_no_ask) (\<lambda>no_move.
       Some (max yes_move no_move)))))"

definition is_positive :: "rat \<Rightarrow> bool" where
  "is_positive v \<longleftrightarrow> 0 < v"

subsection \<open>Snapshots\<close>

definition snapshot_book :: "BookSnapshot \<Rightarrow> rat \<Rightarrow> string \<Rightarrow> BookState" where
  \<comment> \<open>the fields both snapshot operations pass to \<open>BookState\<close>\<close>
  "snapshot_book p move digest =
     \<lparr>bs_ticker = snap_ticker p,
      bs_connection_epoch = snap_connection_epoch p,
      bs_sequence = snap_sequence p,
      bs_market_status = snap_market_status p,
      bs_scheduled_close_wall_ns = snap_scheduled_close_wall_ns p,
      bs_book_source_wall_ns = snap_source_wall_ns p,
      bs_book_observed_monotonic_ns = snap_observed_monotonic_ns p,
      bs_book_clock_uncertainty_ns = snap_clock_uncertainty_ns p,
      bs_lifecycle_source_wall_ns = snap_source_wall_ns p,
      bs_lifecycle_observed_monotonic_ns = snap_observed_monotonic_ns p,
      bs_lifecycle_clock_uncertainty_ns = snap_clock_uncertainty_ns p,
      bs_yes_bids = snap_yes_bids p,
      bs_no_bids = snap_no_bids p,
      bs_trusted = True,
      bs_sequence_gap = False,
      bs_last_executable_move = move,
      bs_last_executable_move_monotonic_ns = snap_observed_monotonic_ns p,
      bs_last_snapshot_sha256 = digest,
      bs_last_event_sha256 = digest\<rparr>"

definition book_event_result ::
  "BookState \<Rightarrow> BookEventKind \<Rightarrow> string \<Rightarrow> rat \<Rightarrow> int option \<Rightarrow> bool \<Rightarrow> BookTransitionResult result" where
  "book_event_result s kind digest move observed changed =
     construct book_transition_result_post_init
       \<lparr>bt_state = s, bt_accepted_event_kind = Some kind, bt_accepted_event_sha256 = Some digest,
        bt_executable_move = move, bt_move_observed_monotonic_ns = observed,
        bt_connection_epoch = bs_connection_epoch s, bt_sequence = bs_sequence s,
        bt_top_of_book_changed = changed\<rparr>"

definition book_from_snapshot :: "BookSnapshot \<Rightarrow> BookTransitionResult result" where
  "book_from_snapshot p =
     bind_result (expert_contract_sha256 (book_snapshot_pyval p)) (\<lambda>digest.
     bind_result (construct book_state_post_init (snapshot_book p 0 digest)) (\<lambda>s.
       book_event_result s BE_SNAPSHOT digest 0 (Some (snap_observed_monotonic_ns p)) False))"

definition require_book_resnapshot :: "BookState \<Rightarrow> BookState result" where
  "require_book_resnapshot s =
     (if \<not> bs_trusted s \<and> bs_sequence_gap s then Inr s else gapped_copy s)"

definition apply_book_snapshot :: "BookState \<Rightarrow> BookSnapshot \<Rightarrow> BookTransitionResult result" where
  "apply_book_snapshot s p =
     (if snap_ticker p \<noteq> bs_ticker s then Inl (ExpertContractError ''book_ticker_mismatch'')
      else if bs_trusted s \<or> \<not> bs_sequence_gap s
      then Inl (ExpertContractError ''book_snapshot_not_required'')
      else if snap_connection_epoch p < bs_connection_epoch s
      then Inl (ExpertContractError ''book_snapshot_epoch_stale'')
      else if snap_connection_epoch p = bs_connection_epoch s
      then Inl (ExpertContractError ''book_snapshot_epoch_not_newer'')
      else if snap_observed_monotonic_ns p
              < max (bs_book_observed_monotonic_ns s) (bs_lifecycle_observed_monotonic_ns s)
      then Inl (ExpertContractError ''book_time_regression'')
      else if \<not> status_transition_allowed (bs_market_status s) (snap_market_status p)
      then gap_event s
      else
        (case executable_move (bs_yes_bids s) (bs_no_bids s) (snap_yes_bids p) (snap_no_bids p) of
           None \<Rightarrow> Inl decimal_error
         | Some move \<Rightarrow>
             bind_result (expert_contract_sha256 (book_snapshot_pyval p)) (\<lambda>digest.
             bind_result (construct book_state_post_init (snapshot_book p move digest)) (\<lambda>s'.
               book_event_result s' BE_SNAPSHOT digest move (Some (snap_observed_monotonic_ns p))
                 (is_positive move)))))"

subsection \<open>Deltas\<close>

fun level_index :: "BookLevel list \<Rightarrow> rat \<Rightarrow> nat option" where
  "level_index [] price = None"
| "level_index (level # rest) price =
     (if bl_price level = price then Some 0 else map_option Suc (level_index rest price))"

definition sort_levels :: "BookLevel list \<Rightarrow> BookLevel list" where
  \<comment> \<open>\<open>sorted(levels, key=price, reverse=True)\<close>, a stable sort by descending price\<close>
  "sort_levels levels = sort_key (\<lambda>l. - bl_price l) levels"

definition ladder_remove :: "BookLevel list \<Rightarrow> rat \<Rightarrow> BookLevel list option" where
  "ladder_remove selected price =
     (case level_index selected price of
        None \<Rightarrow> None
      | Some i \<Rightarrow> Some (sort_levels (take i selected @ drop (i + 1) selected)))"

definition ladder_put :: "BookLevel list \<Rightarrow> BookLevel \<Rightarrow> BookLevel list" where
  "ladder_put selected level =
     sort_levels
       (case level_index selected (bl_price level) of
          None \<Rightarrow> selected @ [level]
        | Some i \<Rightarrow> take i selected @ [level] @ drop (i + 1) selected)"

definition updated_levels :: "BookLevel list \<Rightarrow> rat \<Rightarrow> rat \<Rightarrow> BookLevel list option result" where
  \<comment> \<open>\<open>Inr None\<close>: the removal of a level that is not there\<close>
  "updated_levels selected price qty =
     (if qty = 0 then Inr (ladder_remove selected price)
      else bind_result (construct book_level_post_init \<lparr>bl_price = price, bl_quantity = qty\<rparr>)
             (\<lambda>level. Inr (Some (ladder_put selected level))))"

definition crossed :: "BookLevel list \<Rightarrow> BookLevel list \<Rightarrow> bool option" where
  "crossed yes_bids no_bids =
     (case (yes_bids, no_bids) of
        (y # _, n # _) \<Rightarrow> map_option (\<lambda>both. 1 < both) (dec_add 80 (bl_price y) (bl_price n))
      | _ \<Rightarrow> Some False)"

definition delta_book ::
  "BookState \<Rightarrow> BookDelta \<Rightarrow> BookLevel list \<Rightarrow> BookLevel list \<Rightarrow> rat \<Rightarrow> string \<Rightarrow> BookState" where
  "delta_book s d yes_bids no_bids move digest =
     s\<lparr>bs_connection_epoch := delta_connection_epoch d,
       bs_sequence := delta_sequence d,
       bs_book_source_wall_ns := delta_source_wall_ns d,
       bs_book_observed_monotonic_ns := delta_observed_monotonic_ns d,
       bs_book_clock_uncertainty_ns := delta_clock_uncertainty_ns d,
       bs_yes_bids := yes_bids,
       bs_no_bids := no_bids,
       bs_trusted := True,
       bs_sequence_gap := False,
       bs_last_executable_move := move,
       bs_last_executable_move_monotonic_ns := delta_observed_monotonic_ns d,
       bs_last_event_sha256 := digest\<rparr>"

definition accept_delta ::
  "BookState \<Rightarrow> BookDelta \<Rightarrow> BookLevel list \<Rightarrow> BookLevel list \<Rightarrow> BookTransitionResult result" where
  \<comment> \<open>the rest of \<open>apply_book_delta\<close> once the new ladders are known\<close>
  "accept_delta s d yes_bids no_bids =
     (case crossed yes_bids no_bids of
        None \<Rightarrow> Inl decimal_error
      | Some True \<Rightarrow> gap_event s
      | Some False \<Rightarrow>
          (case executable_move (bs_yes_bids s) (bs_no_bids s) yes_bids no_bids of
             None \<Rightarrow> Inl decimal_error
           | Some move \<Rightarrow>
               bind_result (expert_contract_sha256 (book_delta_pyval d)) (\<lambda>digest.
               bind_result (construct book_state_post_init
                             (delta_book s d yes_bids no_bids move digest)) (\<lambda>s'.
                 book_event_result s' BE_DELTA digest move (Some (delta_observed_monotonic_ns d))
                   (is_positive move)))))"

definition apply_book_delta :: "BookState \<Rightarrow> BookDelta \<Rightarrow> BookTransitionResult result" where
  "apply_book_delta s d =
     (if delta_ticker d \<noteq> bs_ticker s then Inl (ExpertContractError ''book_ticker_mismatch'')
      else if \<not> bs_trusted s \<or> bs_sequence_gap s
      then Inl (ExpertContractError ''book_resnapshot_required'')
      else if delta_connection_epoch d < bs_connection_epoch s
      then Inl (ExpertContractError ''book_epoch_stale'')
      else if bs_connection_epoch s < delta_connection_epoch d then gap_event s
      else if delta_observed_monotonic_ns d < bs_book_observed_monotonic_ns s then gap_event s
      else if delta_sequence d \<le> bs_sequence s then gap_event s
      else if bs_sequence s + 1 < delta_sequence d then gap_event s
      else
        (let selected = (if delta_contract_side d = YES then bs_yes_bids s else bs_no_bids s)
         in bind_result (updated_levels selected (delta_price d) (delta_quantity d)) (\<lambda>updated.
              case updated of
                None \<Rightarrow> gap_event s
              | Some levels \<Rightarrow>
                  if delta_contract_side d = YES then accept_delta s d levels (bs_no_bids s)
                  else accept_delta s d (bs_yes_bids s) levels)))"

subsection \<open>Market lifecycle\<close>

definition lifecycle_book :: "BookState \<Rightarrow> MarketLifecycle \<Rightarrow> string \<Rightarrow> BookState" where
  "lifecycle_book s l digest =
     s\<lparr>bs_market_status := ml_market_status l,
       bs_scheduled_close_wall_ns := ml_scheduled_close_wall_ns l,
       bs_lifecycle_source_wall_ns := ml_source_wall_ns l,
       bs_lifecycle_observed_monotonic_ns := ml_observed_monotonic_ns l,
       bs_lifecycle_clock_uncertainty_ns := ml_clock_uncertainty_ns l,
       bs_last_event_sha256 := digest\<rparr>"

definition apply_market_lifecycle :: "BookState \<Rightarrow> MarketLifecycle \<Rightarrow> BookTransitionResult result" where
  "apply_market_lifecycle s l =
     (if ml_ticker l \<noteq> bs_ticker s then Inl (ExpertContractError ''book_ticker_mismatch'')
      else if ml_connection_epoch l < bs_connection_epoch s
      then Inl (ExpertContractError ''book_epoch_stale'')
      else if bs_connection_epoch s < ml_connection_epoch l then gap_event s
      else if ml_observed_monotonic_ns l < bs_lifecycle_observed_monotonic_ns s
      then Inl (ExpertContractError ''lifecycle_time_regression'')
      else if ml_observed_monotonic_ns l = bs_lifecycle_observed_monotonic_ns s then
        (if (ml_market_status l, ml_scheduled_close_wall_ns l, ml_source_wall_ns l,
             ml_clock_uncertainty_ns l)
            = (bs_market_status s, bs_scheduled_close_wall_ns s, bs_lifecycle_source_wall_ns s,
               bs_lifecycle_clock_uncertainty_ns s)
         then no_event s else gap_event s)
      else if \<not> status_transition_allowed (bs_market_status s) (ml_market_status l)
      then gap_event s
      else
        bind_result (expert_contract_sha256 (market_lifecycle_pyval l)) (\<lambda>digest.
        bind_result (construct book_state_post_init (lifecycle_book s l digest)) (\<lambda>s'.
          book_event_result s' BE_LIFECYCLE digest 0 None False)))"

subsection \<open>Buying from the book\<close>

text \<open>A \<open>Decimal\<close> argument that no contract has checked: it may be infinite or not a number.\<close>

datatype decimal_arg = Finite rat | NonFinite

fun consume_levels ::
  "BookLevel list \<Rightarrow> rat \<Rightarrow> rat \<Rightarrow> BookLevel list \<Rightarrow> BookLevel list result" where
  "consume_levels [] limit remaining consumed = Inr consumed"
| "consume_levels (bid # rest) limit remaining consumed =
     (case dec_sub 80 1 (bl_price bid) of
        None \<Rightarrow> Inl decimal_error
      | Some ask \<Rightarrow>
          if limit < ask then Inr consumed
          else
            (let q = min remaining (bl_quantity bid)
             in bind_result (construct book_level_post_init \<lparr>bl_price = ask, bl_quantity = q\<rparr>) (\<lambda>level.
                  case dec_sub 80 remaining q of
                    None \<Rightarrow> Inl decimal_error
                  | Some remaining' \<Rightarrow>
                      if remaining' = 0 then Inr (consumed @ [level])
                      else consume_levels rest limit remaining' (consumed @ [level]))))"

fun dec_sum :: "rat \<Rightarrow> rat option list \<Rightarrow> rat option" where
  "dec_sum acc [] = Some acc"
| "dec_sum acc (x # xs) =
     Option.bind x (\<lambda>v. Option.bind (dec_add 80 acc v) (\<lambda>acc'. dec_sum acc' xs))"

definition filled_contracts :: "BookLevel list \<Rightarrow> rat option" where
  "filled_contracts consumed = dec_sum 0 (map (\<lambda>l. Some (bl_quantity l)) consumed)"

definition total_cost :: "BookLevel list \<Rightarrow> rat option" where
  "total_cost consumed = dec_sum 0 (map (\<lambda>l. dec_mul 80 (bl_price l) (bl_quantity l)) consumed)"

definition executable_buy ::
  "BookState \<Rightarrow> ContractSide \<Rightarrow> decimal_arg \<Rightarrow> decimal_arg \<Rightarrow> (rat \<times> rat \<times> BookLevel list) result" where
  "executable_buy s outcome contracts limit_price =
     (case contracts of
        NonFinite \<Rightarrow> Inl (ExpertContractError ''contracts'')
      | Finite c \<Rightarrow>
          if c < 0 then Inl (ExpertContractError ''contracts'')
          else
            (case limit_price of
               NonFinite \<Rightarrow> Inl (ExpertContractError ''limit_price'')
             | Finite limit \<Rightarrow>
                 if limit < 0 \<or> 1 < limit then Inl (ExpertContractError ''limit_price'')
                 else if \<not> bs_trusted s \<or> bs_sequence_gap s
                 then Inl (ExpertContractError ''book_untrusted'')
                 else if bs_market_status s \<noteq> MKT_OPEN
                 then Inl (ExpertContractError ''market_not_open'')
                 else if c = 0 then Inr (0, 0, [])
                 else
                   (let complementary = (if outcome = YES then bs_no_bids s else bs_yes_bids s)
                    in if complementary = [] then Inr (0, 0, [])
                       else
                         bind_result (consume_levels complementary limit c []) (\<lambda>consumed.
                           if consumed = [] then Inr (0, 0, [])
                           else
                             (case (filled_contracts consumed, total_cost consumed) of
                                (Some filled, Some cost) \<Rightarrow>
                                  (case dec_div 80 cost filled of
                                     None \<Rightarrow> Inl decimal_error
                                   | Some average \<Rightarrow> Inr (filled, average, consumed))
                              | _ \<Rightarrow> Inl decimal_error)))))"

end
