(* ===== verification/BookLadder.thy ===== *)
theory BookLadder
  imports MarketBook
begin

text \<open>
  Price ladders as finite maps.  A ladder is a strictly descending list of levels; \<open>depth\<close> is
  the map from price to quantity it stands for.  The interface \<open>ladder_store\<close> is what a book
  delta relies on, interpreted on the code's index search, slicing and sorting.
\<close>

subsection \<open>Ladders\<close>

definition level_ok :: "BookLevel \<Rightarrow> bool" where
  "level_ok l \<longleftrightarrow> 0 \<le> bl_price l \<and> bl_price l \<le> 1 \<and> 0 < bl_quantity l"

definition descending :: "BookLevel list \<Rightarrow> bool" where
  "descending ls \<longleftrightarrow> sorted_wrt (\<lambda>a b. bl_price b < bl_price a) ls"

definition ladder_ok :: "BookLevel list \<Rightarrow> bool" where
  "ladder_ok ls \<longleftrightarrow> descending ls \<and> list_all level_ok ls"

text \<open>The abstract ladder: the quantity offered at each price.\<close>

definition depth :: "BookLevel list \<Rightarrow> rat \<Rightarrow> rat option" where
  "depth ls = map_of (map (\<lambda>l. (bl_price l, bl_quantity l)) ls)"

lemma book_level_post_init_iff: "book_level_post_init l = None \<longleftrightarrow> level_ok l"
  by (auto simp: book_level_post_init_def level_ok_def probability_ok_def)

lemma validate_ladder_from_iff:
  "validate_ladder_from prev ls n = None \<longleftrightarrow>
     descending ls \<and> (case prev of None \<Rightarrow> True | Some p \<Rightarrow> \<forall>l \<in> set ls. bl_price l < p)"
  by (induction ls arbitrary: prev) (force simp: descending_def split: option.splits)+

lemma validate_ladder_iff: "validate_ladder ls n = None \<longleftrightarrow> descending ls"
  by (simp add: validate_ladder_def validate_ladder_from_iff)

lemma descending_distinct:
  assumes "descending ls"
  shows "distinct (map bl_price ls)" "distinct ls"
proof -
  show "distinct (map bl_price ls)"
    using assms by (induction ls) (auto simp: descending_def)
  then show "distinct ls" by (simp add: distinct_map)
qed

lemma strictly_descending:
  "sorted_wrt (\<lambda>a b. bl_price b \<le> bl_price a) xs \<Longrightarrow> distinct (map bl_price xs) \<Longrightarrow> descending xs"
  unfolding descending_def by (induction xs) (force simp: image_iff less_le)+

lemma descending_sort:
  assumes "distinct (map bl_price ls)"
  shows "descending (sort_levels ls)"
proof -
  let ?s = "sort_levels ls"
  have "sorted (map (\<lambda>l. - bl_price l) ?s)"
    by (simp add: sort_levels_def)
  then have le: "sorted_wrt (\<lambda>a b. bl_price b \<le> bl_price a) ?s"
    by (simp add: sorted_wrt_map)
  have "distinct (map bl_price ?s)"
    using assms by (simp add: sort_levels_def distinct_map)
  with le show ?thesis
    by (rule strictly_descending)
qed


lemma set_sort_levels [simp]: "set (sort_levels ls) = set ls"
  by (simp add: sort_levels_def)

lemma depth_cong:
  assumes "distinct (map bl_price xs)" "distinct (map bl_price ys)" "set xs = set ys"
  shows "depth xs = depth ys"
  unfolding depth_def
  by (subst map_of_inject_set) (use assms in \<open>simp_all add: comp_def\<close>)

lemma level_index_Some:
  "level_index ls p = Some i \<Longrightarrow> i < length ls \<and> bl_price (ls ! i) = p"
  by (induction ls arbitrary: i) (auto split: if_splits)

lemma level_index_None: "level_index ls p = None \<longleftrightarrow> p \<notin> bl_price ` set ls"
  by (induction ls) auto

lemma depth_None_iff: "depth ls p = None \<longleftrightarrow> p \<notin> bl_price ` set ls"
  by (force simp: depth_def map_of_eq_None_iff)

lemma level_index_None_depth: "level_index ls p = None \<longleftrightarrow> depth ls p = None"
  by (simp add: level_index_None depth_None_iff)

lemma depth_Some_iff:
  "descending ls \<Longrightarrow> depth ls p = Some q \<longleftrightarrow> (\<exists>l \<in> set ls. bl_price l = p \<and> bl_quantity l = q)"
  unfolding depth_def using descending_distinct(1)[of ls]
  by (subst map_of_eq_Some_iff) (auto simp: comp_def)

lemma depth_append: "depth (xs @ ys) = depth ys ++ depth xs"
  by (simp add: depth_def)

lemma depth_replace:
  "i < length ls \<Longrightarrow> bl_price (ls ! i) = bl_price l \<Longrightarrow> distinct (map bl_price ls) \<Longrightarrow>
   depth (ls[i := l]) = (depth ls)(bl_price l \<mapsto> bl_quantity l)"
proof (induction ls arbitrary: i)
  case (Cons a ls)
  show ?case
  proof (cases i)
    case 0
    then show ?thesis using Cons.prems by (auto simp: depth_def fun_eq_iff)
  next
    case (Suc j)
    then have "bl_price l \<in> bl_price ` set ls"
      using Cons.prems(1,2) by (metis image_eqI length_Cons not_less_eq nth_Cons_Suc nth_mem)
    then have "bl_price a \<noteq> bl_price l"
      using Cons.prems(3) by auto
    then show ?thesis
      using Suc Cons.IH[of j] Cons.prems by (auto simp: depth_def fun_eq_iff)
  qed
qed simp

lemma depth_drop:
  "i < length ls \<Longrightarrow> distinct (map bl_price ls) \<Longrightarrow>
   depth (take i ls @ drop (Suc i) ls) = (depth ls)(bl_price (ls ! i) := None)"
proof (induction ls arbitrary: i)
  case (Cons a ls)
  show ?case
  proof (cases i)
    case 0
    have "depth ls (bl_price a) = None"
      using Cons.prems(2) by (simp add: depth_None_iff)
    then show ?thesis
      using 0 by (simp add: depth_def fun_eq_iff)
  next
    case (Suc j)
    then have "bl_price (ls ! j) \<in> bl_price ` set ls"
      using Cons.prems(1) by simp
    then have "bl_price (ls ! j) \<noteq> bl_price a"
      using Cons.prems(2) by auto
    then show ?thesis
      using Suc Cons.IH[of j] Cons.prems by (auto simp: depth_def fun_eq_iff)
  qed
qed simp

lemma ladder_put_ok:
  assumes "ladder_ok ls" "level_ok l"
  shows "ladder_ok (ladder_put ls l)" "depth (ladder_put ls l) = (depth ls)(bl_price l \<mapsto> bl_quantity l)"
proof -
  have dist: "distinct (map bl_price ls)"
    using assms(1) by (simp add: ladder_ok_def descending_distinct)
  define m where "m = (case level_index ls (bl_price l) of None \<Rightarrow> ls @ [l]
    | Some i \<Rightarrow> take i ls @ [l] @ drop (i + 1) ls)"
  have m: "distinct (map bl_price m) \<and> list_all level_ok m
      \<and> depth m = (depth ls)(bl_price l \<mapsto> bl_quantity l)"
  proof (cases "level_index ls (bl_price l)")
    case None
    then have none: "depth ls (bl_price l) = None"
      by (simp add: level_index_None_depth)
    have "depth (ls @ [l]) = (depth ls)(bl_price l \<mapsto> bl_quantity l)"
      using none by (auto simp: depth_append fun_eq_iff map_add_def depth_def split: option.splits)
    moreover have "m = ls @ [l]"
      using None by (simp add: m_def)
    ultimately show ?thesis
      using None dist assms by (simp add: ladder_ok_def level_index_None)
  next
    case (Some i)
    note i = level_index_Some[OF Some]
    have eq: "m = ls[i := l]"
      using Some i by (simp add: m_def upd_conv_take_nth_drop)
    have "map bl_price m = map bl_price ls"
      using i by (simp add: eq map_update list_update_same_conv)
    moreover have "list_all level_ok m"
      using assms set_update_subset_insert[of ls i l] by (auto simp: eq ladder_ok_def list_all_iff)
    ultimately show ?thesis
      using depth_replace[of i ls l] i dist by (simp add: eq)
  qed
  have put: "ladder_put ls l = sort_levels m"
    by (simp add: ladder_put_def m_def)
  show ok: "ladder_ok (ladder_put ls l)"
    using m by (simp add: put ladder_ok_def descending_sort list_all_iff)
  then have "depth (ladder_put ls l) = depth m"
    using m descending_distinct(1) by (intro depth_cong) (auto simp: ladder_ok_def put)
  then show "depth (ladder_put ls l) = (depth ls)(bl_price l \<mapsto> bl_quantity l)"
    using m by simp
qed

lemma ladder_remove_ok:
  assumes "ladder_ok ls" "ladder_remove ls p = Some ls'"
  shows "ladder_ok ls'" "depth ls' = (depth ls)(p := None)"
proof -
  have dist: "distinct (map bl_price ls)"
    using assms(1) by (simp add: ladder_ok_def descending_distinct)
  obtain i where i: "level_index ls p = Some i" and ls': "ls' = sort_levels (take i ls @ drop (Suc i) ls)"
    using assms(2) by (auto simp: ladder_remove_def split: option.splits)
  let ?m = "take i ls @ drop (Suc i) ls"
  note ix = level_index_Some[OF i]
  have "distinct (map bl_price (take i ls @ drop i ls))"
    using dist by simp
  then have dist': "distinct (map bl_price ?m)"
    using ix by (auto simp: Cons_nth_drop_Suc[symmetric])
  have "list_all level_ok ?m"
    using assms(1) set_take_subset[of i ls] set_drop_subset[of "Suc i" ls]
    by (auto simp: ladder_ok_def list_all_iff)
  then show ok: "ladder_ok ls'"
    using dist' by (simp add: ls' ladder_ok_def descending_sort list_all_iff)
  then have "depth ls' = depth ?m"
    using dist' descending_distinct(1) by (intro depth_cong) (auto simp: ladder_ok_def ls')
  then show "depth ls' = (depth ls)(p := None)"
    using depth_drop[of i ls] ix dist by simp
qed

lemma ladder_remove_None: "ladder_remove ls p = None \<longleftrightarrow> depth ls p = None"
  using level_index_None_depth[of ls p] by (auto simp: ladder_remove_def split: option.splits)

subsection \<open>The ladder as a store\<close>

text \<open>
  What a delta relies on: a ladder is a finite map from price to quantity, \<open>put\<close> and
  \<open>remove\<close> update it, \<open>best\<close> is its highest price.  The client lemma replays a list of
  changes.
\<close>

datatype ladder_change = Put BookLevel | Remove rat

fun change_ok :: "ladder_change \<Rightarrow> bool" where
  "change_ok (Put l) = level_ok l"
| "change_ok (Remove p) = True"

fun change_map :: "ladder_change \<Rightarrow> (rat \<Rightarrow> rat option) \<Rightarrow> rat \<Rightarrow> rat option" where
  "change_map (Put l) m = m(bl_price l \<mapsto> bl_quantity l)"
| "change_map (Remove p) m = m(p := None)"

locale ladder_store =
  fixes contents :: "'l \<Rightarrow> rat \<Rightarrow> rat option"
    and put :: "'l \<Rightarrow> BookLevel \<Rightarrow> 'l"
    and remove :: "'l \<Rightarrow> rat \<Rightarrow> 'l option"
    and valid :: "'l \<Rightarrow> bool"
  assumes put_valid: "valid s \<Longrightarrow> level_ok l \<Longrightarrow> valid (put s l)"
    and put_contents: "valid s \<Longrightarrow> level_ok l \<Longrightarrow> contents (put s l) = (contents s)(bl_price l \<mapsto> bl_quantity l)"
    and remove_valid: "valid s \<Longrightarrow> remove s p = Some s' \<Longrightarrow> valid s'"
    and remove_contents: "valid s \<Longrightarrow> remove s p = Some s' \<Longrightarrow> contents s' = (contents s)(p := None)"
    and remove_missing: "valid s \<Longrightarrow> remove s p = None \<longleftrightarrow> contents s p = None"
begin

definition change :: "'l \<Rightarrow> ladder_change \<Rightarrow> 'l option" where
  "change s c = (case c of Put l \<Rightarrow> Some (put s l) | Remove p \<Rightarrow> remove s p)"

lemma change_valid: "valid s \<Longrightarrow> change_ok c \<Longrightarrow> change s c = Some s' \<Longrightarrow> valid s'"
  by (cases c) (auto simp: change_def intro: put_valid remove_valid)

lemma change_contents:
  "valid s \<Longrightarrow> change_ok c \<Longrightarrow> change s c = Some s' \<Longrightarrow> contents s' = change_map c (contents s)"
  by (cases c) (auto simp: change_def put_contents remove_contents)

lemma change_refused: "valid s \<Longrightarrow> change s c = None \<longleftrightarrow> (\<exists>p. c = Remove p \<and> contents s p = None)"
  by (cases c) (auto simp: change_def remove_missing)

fun changes :: "'l \<Rightarrow> ladder_change list \<Rightarrow> 'l option" where
  "changes s [] = Some s"
| "changes s (c # cs) = Option.bind (change s c) (\<lambda>s'. changes s' cs)"

lemma changes_contents:
  "valid s \<Longrightarrow> list_all change_ok cs \<Longrightarrow> changes s cs = Some s' \<Longrightarrow>
   valid s' \<and> contents s' = fold change_map cs (contents s)"
proof (induction cs arbitrary: s)
  case (Cons c cs)
  then obtain m where m: "change s c = Some m" "changes m cs = Some s'"
    by (auto simp: bind_eq_Some_conv)
  then show ?case
    using Cons.IH[OF _ _ m(2)] Cons.prems change_valid[OF _ _ m(1)] change_contents[OF _ _ m(1)] by simp
qed simp

end

interpretation ladders: ladder_store depth ladder_put ladder_remove ladder_ok
  by unfold_locales (auto intro: ladder_put_ok ladder_remove_ok simp: ladder_put_ok ladder_remove_None
      dest: ladder_remove_ok(2))

end
