(* ===== verification/BookTransitions.thy ===== *)
theory BookTransitions
  imports BookLadder Encoding
begin

text \<open>
  The operations of the book in closed form on valid books and events: which error is raised,
  when the book is gapped and which book an accepted event leads to.
\<close>

subsection \<open>Well-formed books and events\<close>

definition book_inv :: "BookState \<Rightarrow> bool" where
  "book_inv s \<longleftrightarrow> book_state_post_init s = None
     \<and> list_all level_ok (bs_yes_bids s) \<and> list_all level_ok (bs_no_bids s)"

definition book_snapshot_ok :: "BookSnapshot \<Rightarrow> bool" where
  "book_snapshot_ok p \<longleftrightarrow> book_snapshot_post_init p = None
     \<and> list_all level_ok (snap_yes_bids p) \<and> list_all level_ok (snap_no_bids p)"

definition book_delta_ok :: "BookDelta \<Rightarrow> bool" where
  "book_delta_ok d \<longleftrightarrow> book_delta_post_init d = None"

definition market_lifecycle_ok :: "MarketLifecycle \<Rightarrow> bool" where
  "market_lifecycle_ok l \<longleftrightarrow> market_lifecycle_post_init l = None"

definition ladders_ok :: "BookLevel list \<Rightarrow> BookLevel list \<Rightarrow> bool" where
  "ladders_ok yes no \<longleftrightarrow> ladder_ok yes \<and> ladder_ok no \<and> crossed yes no = Some False"

lemma validate_book_ladders_iff:
  "validate_book_ladders yes no = None \<longleftrightarrow>
     descending yes \<and> descending no \<and> crossed yes no = Some False"
  by (auto simp: validate_book_ladders_def validate_ladder_iff crossed_def split: list.splits option.splits)

lemma ladders_ok_iff:
  "ladders_ok yes no \<longleftrightarrow>
     validate_book_ladders yes no = None \<and> list_all level_ok yes \<and> list_all level_ok no"
  by (auto simp: ladders_ok_def ladder_ok_def validate_book_ladders_iff)

lemma book_inv_iff:
  "book_inv s \<longleftrightarrow>
     ticker_ok (bs_ticker s) \<and> integer_ok (bs_connection_epoch s) \<and> positive_integer_ok (bs_sequence s)
     \<and> integer_ok (bs_scheduled_close_wall_ns s) \<and> integer_ok (bs_book_source_wall_ns s)
     \<and> integer_ok (bs_book_observed_monotonic_ns s) \<and> integer_ok (bs_book_clock_uncertainty_ns s)
     \<and> integer_ok (bs_lifecycle_source_wall_ns s) \<and> integer_ok (bs_lifecycle_observed_monotonic_ns s)
     \<and> integer_ok (bs_lifecycle_clock_uncertainty_ns s)
     \<and> ladders_ok (bs_yes_bids s) (bs_no_bids s)
     \<and> bs_trusted s = (\<not> bs_sequence_gap s) \<and> probability_ok (bs_last_executable_move s)
     \<and> integer_ok (bs_last_executable_move_monotonic_ns s)
     \<and> bs_last_executable_move_monotonic_ns s \<le> bs_book_observed_monotonic_ns s
     \<and> sha256_ok (bs_last_snapshot_sha256 s) \<and> sha256_ok (bs_last_event_sha256 s)"
  by (auto simp: book_inv_def book_state_post_init_def ladders_ok_iff not_less)

lemma book_snapshot_ok_iff:
  "book_snapshot_ok p \<longleftrightarrow>
     ticker_ok (snap_ticker p) \<and> integer_ok (snap_connection_epoch p)
     \<and> positive_integer_ok (snap_sequence p) \<and> integer_ok (snap_scheduled_close_wall_ns p)
     \<and> integer_ok (snap_source_wall_ns p) \<and> integer_ok (snap_observed_monotonic_ns p)
     \<and> integer_ok (snap_clock_uncertainty_ns p)
     \<and> ladders_ok (snap_yes_bids p) (snap_no_bids p)"
  by (auto simp: book_snapshot_ok_def book_snapshot_post_init_def ladders_ok_iff)

lemma book_delta_ok_iff:
  "book_delta_ok d \<longleftrightarrow>
     ticker_ok (delta_ticker d) \<and> integer_ok (delta_connection_epoch d)
     \<and> positive_integer_ok (delta_sequence d) \<and> integer_ok (delta_source_wall_ns d)
     \<and> integer_ok (delta_observed_monotonic_ns d) \<and> integer_ok (delta_clock_uncertainty_ns d)
     \<and> probability_ok (delta_price d) \<and> 0 \<le> delta_quantity d"
  by (simp add: book_delta_ok_def book_delta_post_init_def)

lemma market_lifecycle_ok_iff:
  "market_lifecycle_ok l \<longleftrightarrow>
     ticker_ok (ml_ticker l) \<and> integer_ok (ml_connection_epoch l)
     \<and> integer_ok (ml_scheduled_close_wall_ns l) \<and> integer_ok (ml_source_wall_ns l)
     \<and> integer_ok (ml_observed_monotonic_ns l) \<and> integer_ok (ml_clock_uncertainty_ns l)"
  by (simp add: market_lifecycle_ok_def market_lifecycle_post_init_def)

subsection \<open>Prices and moves\<close>

definition ask_of :: "BookLevel list \<Rightarrow> rat option" where
  "ask_of bids = (case bids of [] \<Rightarrow> None | best # _ \<Rightarrow> Some (dec_round 80 (1 - bl_price best)))"

lemma complement_ask_eq: "list_all level_ok bids \<Longrightarrow> complement_ask bids = Some (ask_of bids)"
  using book_decimals.run_complement
  by (auto simp: complement_ask_def ask_of_def dec_sub_def level_ok_def split: list.splits)

lemma ask_of_unit: "list_all level_ok bids \<Longrightarrow> ask_of bids = Some a \<Longrightarrow> 0 \<le> a \<and> a \<le> 1"
  using book_decimals.complement_unit
  by (auto simp: ask_of_def level_ok_def split: list.splits)

lemma best_asks_eq:
  "list_all level_ok yes \<Longrightarrow> list_all level_ok no \<Longrightarrow> best_asks yes no = Some (ask_of no, ask_of yes)"
  by (simp add: best_asks_def complement_ask_eq)

text \<open>How far the best ask moved, at the precision of the context.\<close>

definition ask_distance :: "rat option \<Rightarrow> rat option \<Rightarrow> rat" where
  "ask_distance before after =
     (case (before, after) of
        (None, None) \<Rightarrow> 0
      | (Some b, Some a) \<Rightarrow> dec_round 80 \<bar>dec_round 80 (a - b)\<bar>
      | _ \<Rightarrow> 1)"

lemma one_side_move_eq:
  assumes "\<And>b. before = Some b \<Longrightarrow> 0 \<le> b \<and> b \<le> 1" "\<And>a. after = Some a \<Longrightarrow> 0 \<le> a \<and> a \<le> 1"
  shows "one_side_move before after = Some (ask_distance before after)"
    "0 \<le> ask_distance before after \<and> ask_distance before after \<le> 1"
  using assms book_decimals.run_distance
  by (auto simp: one_side_move_def ask_distance_def dec_sub_def dec_abs_def split: option.splits)

definition book_move :: "BookState \<Rightarrow> BookLevel list \<Rightarrow> BookLevel list \<Rightarrow> rat" where
  "book_move s yes no =
     max (ask_distance (ask_of (bs_no_bids s)) (ask_of no)) (ask_distance (ask_of (bs_yes_bids s)) (ask_of yes))"

lemma executable_move_eq:
  assumes "list_all level_ok (bs_yes_bids s)" "list_all level_ok (bs_no_bids s)"
    "list_all level_ok yes" "list_all level_ok no"
  shows "executable_move (bs_yes_bids s) (bs_no_bids s) yes no = Some (book_move s yes no)"
    "probability_ok (book_move s yes no)"
  using assms one_side_move_eq[of "ask_of (bs_no_bids s)" "ask_of no"]
    one_side_move_eq[of "ask_of (bs_yes_bids s)" "ask_of yes"] ask_of_unit
  by (auto simp: executable_move_def best_asks_eq book_move_def probability_ok_def le_max_iff_disj)

lemma crossed_defined:
  assumes "list_all level_ok yes" "list_all level_ok no"
  shows "\<exists>b. crossed yes no = Some b"
proof (cases "yes = [] \<or> no = []")
  case False
  then obtain y ys n ns where "yes = y # ys" "no = n # ns"
    by (meson neq_Nil_conv)
  then show ?thesis
    using assms book_decimals.run_sum[of "bl_price y" "bl_price n"]
    by (simp add: crossed_def dec_add_def level_ok_def)
qed (auto simp: crossed_def split: list.splits)

subsection \<open>Digests\<close>

lemma book_digest:
  assumes "encodable v"
  shows "expert_contract_sha256 v = Inr (case expert_contract_sha256 v of Inr d \<Rightarrow> d | Inl _ \<Rightarrow> [])"
    "sha256_ok (case expert_contract_sha256 v of Inr d \<Rightarrow> d | Inl _ \<Rightarrow> [])"
  using assms contract_digest_defined[of v] expert_contract_sha256_ok[of v] by auto

definition contract_digest :: "pyval \<Rightarrow> string" where
  "contract_digest v = (case expert_contract_sha256 v of Inr d \<Rightarrow> d | Inl _ \<Rightarrow> [])"

lemmas contract_digest_eq = book_digest[folded contract_digest_def]

lemma book_delta_encodable:
  assumes "book_delta_ok d" "decimal_encodable (delta_price d)" "decimal_encodable (delta_quantity d)"
  shows "encodable (book_delta_pyval d)"
  using assms by (simp add: book_delta_ok_iff book_delta_pyval_def contract_side_pyval_def
      del: encodable.simps(1))

lemma market_lifecycle_encodable:
  assumes "market_lifecycle_ok l"
  shows "encodable (market_lifecycle_pyval l)"
  using assms by (simp add: market_lifecycle_ok_iff market_lifecycle_pyval_def market_status_pyval_def
      del: encodable.simps(1))

definition levels_encodable :: "BookLevel list \<Rightarrow> bool" where
  "levels_encodable ls \<longleftrightarrow> list_all (\<lambda>l. decimal_encodable (bl_price l) \<and> decimal_encodable (bl_quantity l)) ls"

lemma book_snapshot_encodable:
  assumes "book_snapshot_ok p" "levels_encodable (snap_yes_bids p)" "levels_encodable (snap_no_bids p)"
  shows "encodable (book_snapshot_pyval p)"
proof -
  have levels: "levels_encodable ls \<Longrightarrow> list_all encodable (map book_level_pyval ls)" for ls
    by (simp add: levels_encodable_def list_all_iff book_level_pyval_def)
  show ?thesis
    using assms levels by (simp add: book_snapshot_ok_iff book_snapshot_pyval_def market_status_pyval_def
        del: encodable.simps(1))
qed

subsection \<open>Results\<close>

definition with_gap :: "BookState \<Rightarrow> BookState" where
  "with_gap s = s\<lparr>bs_trusted := False, bs_sequence_gap := True\<rparr>"

definition quiet_result :: "BookState \<Rightarrow> BookTransitionResult" where
  "quiet_result s =
     \<lparr>bt_state = s, bt_accepted_event_kind = None, bt_accepted_event_sha256 = None,
      bt_executable_move = 0, bt_move_observed_monotonic_ns = None,
      bt_connection_epoch = bs_connection_epoch s, bt_sequence = bs_sequence s,
      bt_top_of_book_changed = False\<rparr>"

definition event_result ::
  "BookState \<Rightarrow> BookEventKind \<Rightarrow> rat \<Rightarrow> int option \<Rightarrow> BookTransitionResult" where
  "event_result s kind move observed =
     \<lparr>bt_state = s, bt_accepted_event_kind = Some kind,
      bt_accepted_event_sha256 = Some (bs_last_event_sha256 s),
      bt_executable_move = move, bt_move_observed_monotonic_ns = observed,
      bt_connection_epoch = bs_connection_epoch s, bt_sequence = bs_sequence s,
      bt_top_of_book_changed = (0 < move)\<rparr>"

lemma result_state [simp]:
  "bt_state (quiet_result s) = s" "bt_state (event_result s kind move observed) = s"
  "bt_accepted_event_kind (quiet_result s) = None"
  "bt_accepted_event_kind (event_result s kind move observed) = Some kind"
  "bt_executable_move (event_result s kind move observed) = move"
  "bt_top_of_book_changed (event_result s kind move observed) = (0 < move)"
  "bt_executable_move (quiet_result s) = 0"
  by (simp_all add: quiet_result_def event_result_def)

lemma with_gap_inv: "book_inv s \<Longrightarrow> book_inv (with_gap s)"
  by (simp add: book_inv_iff with_gap_def)

lemma book_inv_post_init: "book_inv s \<Longrightarrow> book_state_post_init s = None"
  by (simp add: book_inv_def)

lemma gapped_copy_eq: "book_inv s \<Longrightarrow> gapped_copy s = Inr (with_gap s)"
  using book_inv_post_init[OF with_gap_inv] by (simp add: gapped_copy_def with_gap_def)

lemma no_event_eq: "book_inv s \<Longrightarrow> no_event s = Inr (quiet_result s)"
  by (simp add: no_event_def quiet_result_def book_transition_result_post_init_def event_move_zero_def
      book_inv_iff)

lemma gap_event_eq: "book_inv s \<Longrightarrow> gap_event s = Inr (quiet_result (with_gap s))"
  by (simp add: gap_event_def gapped_copy_eq no_event_eq with_gap_inv)

lemma book_event_result_eq:
  assumes "book_inv s" "probability_ok move"
    "kind = BE_DELTA \<or> kind = BE_SNAPSHOT \<and> bs_last_snapshot_sha256 s = bs_last_event_sha256 s"
    "bs_trusted s" "move = bs_last_executable_move s" "t = bs_book_observed_monotonic_ns s"
    "t = bs_last_executable_move_monotonic_ns s"
  shows "book_event_result s kind (bs_last_event_sha256 s) move (Some t) (0 < move) =
    Inr (event_result s kind move (Some t))"
  using assms
  by (auto simp: book_event_result_def event_result_def book_transition_result_post_init_def book_inv_iff)

lemma lifecycle_event_result_eq:
  assumes "book_inv s"
  shows "book_event_result s BE_LIFECYCLE (bs_last_event_sha256 s) 0 None False =
    Inr (event_result s BE_LIFECYCLE 0 None)"
  using assms
  by (auto simp: book_event_result_def event_result_def book_transition_result_post_init_def book_inv_iff
      event_move_zero_def)

subsection \<open>Snapshots\<close>

lemma snapshot_book_inv:
  assumes "book_snapshot_ok p" "probability_ok move" "sha256_ok digest"
  shows "book_inv (snapshot_book p move digest)"
  using assms by (simp add: book_inv_iff book_snapshot_ok_iff snapshot_book_def)

definition snapshot_digest_of :: "BookSnapshot \<Rightarrow> string" where
  "snapshot_digest_of p = contract_digest (book_snapshot_pyval p)"

lemma snapshot_accepted:
  assumes p: "book_snapshot_ok p" and e: "encodable (book_snapshot_pyval p)" and m: "probability_ok move"
  shows "bind_result (expert_contract_sha256 (book_snapshot_pyval p)) (\<lambda>digest.
           bind_result (construct book_state_post_init (snapshot_book p move digest)) (\<lambda>s'.
             book_event_result s' BE_SNAPSHOT digest move (Some (snap_observed_monotonic_ns p)) (0 < move))) =
         Inr (event_result (snapshot_book p move (snapshot_digest_of p)) BE_SNAPSHOT move
               (Some (snap_observed_monotonic_ns p)))"
proof -
  let ?s = "snapshot_book p move (snapshot_digest_of p)"
  have inv: "book_inv ?s"
    using snapshot_book_inv[OF p m contract_digest_eq(2)[OF e]] by (simp add: snapshot_digest_of_def)
  have "book_event_result ?s BE_SNAPSHOT (bs_last_event_sha256 ?s) move (Some (snap_observed_monotonic_ns p)) (0 < move)
      = Inr (event_result ?s BE_SNAPSHOT move (Some (snap_observed_monotonic_ns p)))"
    by (rule book_event_result_eq[OF inv m]) (simp_all add: snapshot_book_def)
  then show ?thesis
    using book_inv_post_init[OF inv] contract_digest_eq(1)[OF e]
    by (simp add: snapshot_digest_of_def) (simp add: snapshot_book_def)
qed

lemma book_from_snapshot_eq:
  assumes "book_snapshot_ok p" "encodable (book_snapshot_pyval p)"
  shows "book_from_snapshot p =
    Inr (event_result (snapshot_book p 0 (snapshot_digest_of p)) BE_SNAPSHOT 0
          (Some (snap_observed_monotonic_ns p)))"
  using snapshot_accepted[OF assms, of 0] by (simp add: book_from_snapshot_def)

lemma require_book_resnapshot_eq:
  "book_inv s \<Longrightarrow> require_book_resnapshot s = Inr (with_gap s)"
  by (auto simp: require_book_resnapshot_def gapped_copy_eq with_gap_def)

definition snapshot_refusal :: "BookState \<Rightarrow> BookSnapshot \<Rightarrow> string option" where
  "snapshot_refusal s p =
     (if snap_ticker p \<noteq> bs_ticker s then Some ''book_ticker_mismatch''
      else if bs_trusted s \<or> \<not> bs_sequence_gap s then Some ''book_snapshot_not_required''
      else if snap_connection_epoch p < bs_connection_epoch s then Some ''book_snapshot_epoch_stale''
      else if snap_connection_epoch p = bs_connection_epoch s then Some ''book_snapshot_epoch_not_newer''
      else if snap_observed_monotonic_ns p
              < max (bs_book_observed_monotonic_ns s) (bs_lifecycle_observed_monotonic_ns s)
      then Some ''book_time_regression''
      else None)"

lemma apply_book_snapshot_eq:
  assumes inv: "book_inv s" and p: "book_snapshot_ok p" and e: "encodable (book_snapshot_pyval p)"
  shows "apply_book_snapshot s p =
     (case snapshot_refusal s p of
        Some name \<Rightarrow> Inl (ExpertContractError name)
      | None \<Rightarrow>
          if \<not> status_transition_allowed (bs_market_status s) (snap_market_status p)
          then Inr (quiet_result (with_gap s))
          else let move = book_move s (snap_yes_bids p) (snap_no_bids p)
               in Inr (event_result (snapshot_book p move (snapshot_digest_of p)) BE_SNAPSHOT move
                        (Some (snap_observed_monotonic_ns p))))"
proof -
  have levels: "list_all level_ok (bs_yes_bids s)" "list_all level_ok (bs_no_bids s)"
    "list_all level_ok (snap_yes_bids p)" "list_all level_ok (snap_no_bids p)"
    using inv p by (simp_all add: book_inv_def book_snapshot_ok_def)
  note move = executable_move_eq[OF levels]
  show ?thesis
    using snapshot_accepted[OF p e move(2)]
    by (simp add: apply_book_snapshot_def snapshot_refusal_def gap_event_eq[OF inv] move(1) is_positive_def Let_def)
qed

subsection \<open>Deltas\<close>

definition delta_change :: "BookLevel list \<Rightarrow> BookDelta \<Rightarrow> BookLevel list option" where
  "delta_change ls d =
     (if delta_quantity d = 0 then ladder_remove ls (delta_price d)
      else Some (ladder_put ls \<lparr>bl_price = delta_price d, bl_quantity = delta_quantity d\<rparr>))"

definition delta_ladders :: "BookState \<Rightarrow> BookDelta \<Rightarrow> (BookLevel list \<times> BookLevel list) option" where
  "delta_ladders s d =
     (if delta_contract_side d = YES
      then map_option (\<lambda>ls. (ls, bs_no_bids s)) (delta_change (bs_yes_bids s) d)
      else map_option (\<lambda>ls. (bs_yes_bids s, ls)) (delta_change (bs_no_bids s) d))"

definition delta_error :: "BookState \<Rightarrow> BookDelta \<Rightarrow> string option" where
  "delta_error s d =
     (if delta_ticker d \<noteq> bs_ticker s then Some ''book_ticker_mismatch''
      else if \<not> bs_trusted s \<or> bs_sequence_gap s then Some ''book_resnapshot_required''
      else if delta_connection_epoch d < bs_connection_epoch s then Some ''book_epoch_stale''
      else None)"

definition delta_next :: "BookState \<Rightarrow> BookDelta \<Rightarrow> bool" where
  "delta_next s d \<longleftrightarrow>
     delta_connection_epoch d = bs_connection_epoch s
     \<and> bs_book_observed_monotonic_ns s \<le> delta_observed_monotonic_ns d
     \<and> delta_sequence d = bs_sequence s + 1"

definition delta_digest_of :: "BookDelta \<Rightarrow> string" where
  "delta_digest_of d = contract_digest (book_delta_pyval d)"

definition delta_accepted :: "BookState \<Rightarrow> BookDelta \<Rightarrow> BookLevel list \<Rightarrow> BookLevel list \<Rightarrow> BookTransitionResult" where
  "delta_accepted s d yes no =
     (let move = book_move s yes no
      in event_result (delta_book s d yes no move (delta_digest_of d)) BE_DELTA move
           (Some (delta_observed_monotonic_ns d)))"

text \<open>The ladders a delta leads to, when it is next in sequence, removes a level that is there and
  does not cross the book.\<close>

definition delta_target :: "BookState \<Rightarrow> BookDelta \<Rightarrow> (BookLevel list \<times> BookLevel list) option" where
  "delta_target s d =
     (if delta_next s d
      then case delta_ladders s d of
             None \<Rightarrow> None
           | Some (yes, no) \<Rightarrow> if crossed yes no = Some False then Some (yes, no) else None
      else None)"

lemma delta_change_eq:
  assumes "book_delta_ok d"
  shows "updated_levels ls (delta_price d) (delta_quantity d) = Inr (delta_change ls d)"
  using assms
  by (auto simp: updated_levels_def delta_change_def book_level_post_init_iff level_ok_def book_delta_ok_iff
      probability_ok_def)

lemma delta_change_ladder:
  assumes "book_delta_ok d" "ladder_ok ls" "delta_change ls d = Some ls'"
  shows "ladder_ok ls'"
    "depth ls' = (depth ls)(delta_price d := if delta_quantity d = 0 then None else Some (delta_quantity d))"
proof -
  let ?c = "if delta_quantity d = 0 then Remove (delta_price d)
    else Put \<lparr>bl_price = delta_price d, bl_quantity = delta_quantity d\<rparr>"
  have c: "ladders.change ls ?c = Some ls'"
    using assms(3) by (simp add: delta_change_def ladders.change_def split: if_splits)
  have ok: "change_ok ?c"
    using assms(1) by (auto simp: level_ok_def book_delta_ok_iff probability_ok_def)
  show "ladder_ok ls'"
    by (rule ladders.change_valid[OF assms(2) ok c])
  show "depth ls' = (depth ls)(delta_price d := if delta_quantity d = 0 then None else Some (delta_quantity d))"
    using ladders.change_contents[OF assms(2) ok c] by simp
qed

lemma delta_ladders_ok:
  assumes inv: "book_inv s" and d: "book_delta_ok d" and l: "delta_ladders s d = Some (yes, no)"
  shows "ladder_ok yes" "ladder_ok no"
proof -
  have "ladder_ok (bs_yes_bids s)" "ladder_ok (bs_no_bids s)"
    using inv by (simp_all add: book_inv_iff ladders_ok_def)
  then have "ladder_ok yes \<and> ladder_ok no"
    using l delta_change_ladder(1)[OF d] by (auto simp: delta_ladders_def split: if_splits)
  then show "ladder_ok yes" "ladder_ok no" by auto
qed

lemma delta_book_inv:
  assumes inv: "book_inv s" and d: "book_delta_ok d" and l: "ladders_ok yes no"
    and m: "probability_ok move" and g: "sha256_ok digest"
  shows "book_inv (delta_book s d yes no move digest)"
  using assms by (simp add: book_inv_iff book_delta_ok_iff delta_book_def)

lemma accept_delta_eq:
  assumes inv: "book_inv s" and d: "book_delta_ok d" and e: "encodable (book_delta_pyval d)"
    and l: "ladder_ok yes" "ladder_ok no"
  shows "accept_delta s d yes no =
    (if crossed yes no = Some False then Inr (delta_accepted s d yes no)
     else Inr (quiet_result (with_gap s)))"
proof -
  have levels: "list_all level_ok (bs_yes_bids s)" "list_all level_ok (bs_no_bids s)"
    "list_all level_ok yes" "list_all level_ok no"
    using inv l by (simp_all add: book_inv_def ladder_ok_def)
  obtain b where b: "crossed yes no = Some b"
    using crossed_defined levels(3,4) by blast
  show ?thesis
  proof (cases b)
    case True
    then show ?thesis using b by (simp add: accept_delta_def gap_event_eq[OF inv])
  next
    case False
    let ?m = "book_move s yes no"
    let ?s = "delta_book s d yes no ?m (delta_digest_of d)"
    note move = executable_move_eq[OF levels]
    have s': "book_inv ?s"
      using False b l move(2) contract_digest_eq(2)[OF e]
      by (intro delta_book_inv[OF inv d]) (simp_all add: ladders_ok_def delta_digest_of_def)
    have "book_event_result ?s BE_DELTA (bs_last_event_sha256 ?s) ?m (Some (delta_observed_monotonic_ns d)) (0 < ?m)
       = Inr (event_result ?s BE_DELTA ?m (Some (delta_observed_monotonic_ns d)))"
      by (rule book_event_result_eq[OF s' move(2)]) (simp_all add: delta_book_def)
    then show ?thesis
      using False b move(1) contract_digest_eq(1)[OF e] book_inv_post_init[OF s']
      by (simp add: accept_delta_def delta_accepted_def Let_def delta_digest_of_def is_positive_def)
        (simp add: delta_book_def)
  qed
qed

lemma apply_book_delta_eq:
  assumes inv: "book_inv s" and d: "book_delta_ok d" and e: "encodable (book_delta_pyval d)"
  shows "apply_book_delta s d =
    (case delta_error s d of
       Some name \<Rightarrow> Inl (ExpertContractError name)
     | None \<Rightarrow>
         (case delta_target s d of
            None \<Rightarrow> Inr (quiet_result (with_gap s))
          | Some (yes, no) \<Rightarrow> Inr (delta_accepted s d yes no)))"
proof -
  have ok: "ladder_ok (bs_yes_bids s)" "ladder_ok (bs_no_bids s)"
    using inv by (simp_all add: book_inv_iff ladders_ok_def)
  note acc = accept_delta_eq[OF inv d e]
  show ?thesis
    using delta_change_ladder(1)[OF d ok(1)] delta_change_ladder(1)[OF d ok(2)] ok
    by (auto simp: apply_book_delta_def delta_error_def delta_target_def delta_next_def delta_ladders_def
        Let_def delta_change_eq[OF d] gap_event_eq[OF inv] acc split: option.splits)
qed

subsection \<open>Market lifecycle\<close>

definition lifecycle_error :: "BookState \<Rightarrow> MarketLifecycle \<Rightarrow> string option" where
  "lifecycle_error s l =
     (if ml_ticker l \<noteq> bs_ticker s then Some ''book_ticker_mismatch''
      else if ml_connection_epoch l < bs_connection_epoch s then Some ''book_epoch_stale''
      else if ml_connection_epoch l = bs_connection_epoch s
        \<and> ml_observed_monotonic_ns l < bs_lifecycle_observed_monotonic_ns s
      then Some ''lifecycle_time_regression''
      else None)"

definition lifecycle_repeated :: "BookState \<Rightarrow> MarketLifecycle \<Rightarrow> bool" where
  "lifecycle_repeated s l \<longleftrightarrow>
     ml_connection_epoch l = bs_connection_epoch s
     \<and> ml_observed_monotonic_ns l = bs_lifecycle_observed_monotonic_ns s
     \<and> ml_market_status l = bs_market_status s
     \<and> ml_scheduled_close_wall_ns l = bs_scheduled_close_wall_ns s
     \<and> ml_source_wall_ns l = bs_lifecycle_source_wall_ns s
     \<and> ml_clock_uncertainty_ns l = bs_lifecycle_clock_uncertainty_ns s"

definition lifecycle_next :: "BookState \<Rightarrow> MarketLifecycle \<Rightarrow> bool" where
  "lifecycle_next s l \<longleftrightarrow>
     ml_connection_epoch l = bs_connection_epoch s
     \<and> bs_lifecycle_observed_monotonic_ns s < ml_observed_monotonic_ns l
     \<and> status_transition_allowed (bs_market_status s) (ml_market_status l)"

definition lifecycle_digest_of :: "MarketLifecycle \<Rightarrow> string" where
  "lifecycle_digest_of l = contract_digest (market_lifecycle_pyval l)"

lemma lifecycle_book_inv:
  assumes "book_inv s" "market_lifecycle_ok l" "sha256_ok digest"
  shows "book_inv (lifecycle_book s l digest)"
  using assms by (simp add: book_inv_iff market_lifecycle_ok_iff lifecycle_book_def)

lemma apply_market_lifecycle_eq:
  assumes inv: "book_inv s" and l: "market_lifecycle_ok l"
  shows "apply_market_lifecycle s l =
    (case lifecycle_error s l of
       Some name \<Rightarrow> Inl (ExpertContractError name)
     | None \<Rightarrow>
         if lifecycle_repeated s l then Inr (quiet_result s)
         else if lifecycle_next s l
         then Inr (event_result (lifecycle_book s l (lifecycle_digest_of l)) BE_LIFECYCLE 0 None)
         else Inr (quiet_result (with_gap s)))"
proof -
  note e = market_lifecycle_encodable[OF l]
  let ?s = "lifecycle_book s l (lifecycle_digest_of l)"
  have s': "book_inv ?s"
    using lifecycle_book_inv[OF inv l contract_digest_eq(2)[OF e]] by (simp add: lifecycle_digest_of_def)
  have "book_event_result ?s BE_LIFECYCLE (lifecycle_digest_of l) 0 None False =
      Inr (event_result ?s BE_LIFECYCLE 0 None)"
    using lifecycle_event_result_eq[OF s'] by (simp add: lifecycle_book_def)
  then show ?thesis
    using contract_digest_eq(1)[OF e] book_inv_post_init[OF s']
    by (auto simp: apply_market_lifecycle_def lifecycle_error_def lifecycle_repeated_def lifecycle_next_def
        gap_event_eq[OF inv] no_event_eq[OF inv] lifecycle_digest_of_def)
qed

end
