(* ===== verification/BookRuns.thy ===== *)
theory BookRuns
  imports BookTransitions Machines
begin

text \<open>
  Runs of market data.  \<open>books\<close> gives every run validity and order of positions,
  \<open>gapped_books\<close> the fact that only a snapshot ends a gap, \<open>statuses\<close> the paths of the
  market status.
\<close>

subsection \<open>Runs of market data\<close>

definition book_step :: "BookState \<Rightarrow> book_event \<Rightarrow> BookState result" where
  "book_step s e =
     bind_result
       (case e of
          BookSnapshotEvent p \<Rightarrow> apply_book_snapshot s p
        | BookDeltaEvent d \<Rightarrow> apply_book_delta s d
        | MarketLifecycleEvent l \<Rightarrow> apply_market_lifecycle s l)
       (\<lambda>r. Inr (bt_state r))"

text \<open>A valid event whose decimals have a canonical text.\<close>

definition book_event_ok :: "book_event \<Rightarrow> bool" where
  "book_event_ok e =
     (case e of
        BookSnapshotEvent p \<Rightarrow>
          book_snapshot_ok p \<and> levels_encodable (snap_yes_bids p) \<and> levels_encodable (snap_no_bids p)
      | BookDeltaEvent d \<Rightarrow>
          book_delta_ok d \<and> decimal_encodable (delta_price d) \<and> decimal_encodable (delta_quantity d)
      | MarketLifecycleEvent l \<Rightarrow> market_lifecycle_ok l)"

text \<open>What every step relates: the states it may lead to.\<close>

definition book_next :: "BookState \<Rightarrow> book_event \<Rightarrow> BookState \<Rightarrow> bool" where
  "book_next s e s' \<longleftrightarrow>
     s' = s \<or> s' = with_gap s
     \<or> (case e of
          BookSnapshotEvent p \<Rightarrow>
            snapshot_refusal s p = None \<and> status_transition_allowed (bs_market_status s) (snap_market_status p)
            \<and> s' = snapshot_book p (book_move s (snap_yes_bids p) (snap_no_bids p)) (snapshot_digest_of p)
        | BookDeltaEvent d \<Rightarrow>
            delta_error s d = None
            \<and> (\<exists>yes no. delta_target s d = Some (yes, no)
                 \<and> s' = delta_book s d yes no (book_move s yes no) (delta_digest_of d))
        | MarketLifecycleEvent l \<Rightarrow>
            lifecycle_error s l = None \<and> lifecycle_next s l
            \<and> s' = lifecycle_book s l (lifecycle_digest_of l))"

lemma book_step_next:
  assumes inv: "book_inv s" and e: "book_event_ok e" and s': "book_step s e = Inr s'"
  shows "book_next s e s'"
proof (cases e)
  case (BookSnapshotEvent p)
  then have p: "book_snapshot_ok p" "encodable (book_snapshot_pyval p)"
    using e by (simp_all add: book_event_ok_def book_snapshot_encodable)
  show ?thesis
    using s' BookSnapshotEvent
    by (auto simp: book_step_def apply_book_snapshot_eq[OF inv p] book_next_def Let_def bind_result_eq_Inr
        split: option.splits if_splits)
next
  case (BookDeltaEvent d)
  then have d: "book_delta_ok d" "encodable (book_delta_pyval d)"
    using e by (simp_all add: book_event_ok_def book_delta_encodable)
  show ?thesis
    using s' BookDeltaEvent
    by (auto simp: book_step_def apply_book_delta_eq[OF inv d] book_next_def delta_accepted_def Let_def
        bind_result_eq_Inr split: option.splits)
next
  case (MarketLifecycleEvent l)
  then have l: "market_lifecycle_ok l"
    using e by (simp add: book_event_ok_def)
  show ?thesis
    using s' MarketLifecycleEvent
    by (auto simp: book_step_def apply_market_lifecycle_eq[OF inv l] book_next_def bind_result_eq_Inr
        split: option.splits if_splits)
qed

lemma delta_target_ok:
  assumes "book_inv s" "book_delta_ok d" "delta_target s d = Some (yes, no)"
  shows "delta_next s d" "delta_ladders s d = Some (yes, no)" "ladders_ok yes no"
  using assms delta_ladders_ok[OF assms(1,2)]
  by (auto simp: delta_target_def ladders_ok_def split: if_splits option.splits)

lemma book_next_inv:
  assumes inv: "book_inv s" and e: "book_event_ok e" and n: "book_next s e s'"
  shows "book_inv s'"
proof -
  have levels: "list_all level_ok (bs_yes_bids s)" "list_all level_ok (bs_no_bids s)"
    using inv by (simp_all add: book_inv_def)
  show ?thesis
  proof (cases "s' = s \<or> s' = with_gap s")
    case True
    then show ?thesis using inv with_gap_inv by auto
  next
    case False
    show ?thesis
    proof (cases e)
      case (BookSnapshotEvent p)
      then have p: "book_snapshot_ok p" "encodable (book_snapshot_pyval p)"
        using e by (simp_all add: book_event_ok_def book_snapshot_encodable)
      then have "list_all level_ok (snap_yes_bids p)" "list_all level_ok (snap_no_bids p)"
        by (simp_all add: book_snapshot_ok_def)
      then show ?thesis
        using False n BookSnapshotEvent snapshot_book_inv[OF p(1) executable_move_eq(2)[OF levels]]
          contract_digest_eq(2)[OF p(2)]
        by (simp add: book_next_def snapshot_digest_of_def)
    next
      case (BookDeltaEvent d)
      then have d: "book_delta_ok d" "encodable (book_delta_pyval d)"
        using e by (simp_all add: book_event_ok_def book_delta_encodable)
      obtain yes no where t: "delta_target s d = Some (yes, no)"
        and s': "s' = delta_book s d yes no (book_move s yes no) (delta_digest_of d)"
        using False n BookDeltaEvent by (auto simp: book_next_def)
      note l = delta_target_ok(3)[OF inv d(1) t]
      then have "probability_ok (book_move s yes no)"
        by (intro executable_move_eq(2)[OF levels]) (simp_all add: ladders_ok_def ladder_ok_def)
      then show ?thesis
        using delta_book_inv[OF inv d(1) l] contract_digest_eq(2)[OF d(2)]
        by (simp add: s' delta_digest_of_def)
    next
      case (MarketLifecycleEvent l)
      then have l: "market_lifecycle_ok l"
        using e by (simp add: book_event_ok_def)
      then show ?thesis
        using False n MarketLifecycleEvent lifecycle_book_inv[OF inv l]
          contract_digest_eq(2)[OF market_lifecycle_encodable[OF l]]
        by (simp add: book_next_def lifecycle_digest_of_def)
    qed
  qed
qed

text \<open>Positions of a book: connection epoch, then sequence; the clocks never go back.\<close>

definition book_no_earlier :: "BookState \<Rightarrow> BookState \<Rightarrow> bool" where
  "book_no_earlier s s' \<longleftrightarrow>
     (bs_connection_epoch s < bs_connection_epoch s'
      \<or> bs_connection_epoch s = bs_connection_epoch s' \<and> bs_sequence s \<le> bs_sequence s')
     \<and> bs_book_observed_monotonic_ns s \<le> bs_book_observed_monotonic_ns s'
     \<and> bs_lifecycle_observed_monotonic_ns s \<le> bs_lifecycle_observed_monotonic_ns s'
     \<and> bs_ticker s' = bs_ticker s"

lemma book_no_earlier_trans: "book_no_earlier s t \<Longrightarrow> book_no_earlier t u \<Longrightarrow> book_no_earlier s u"
  unfolding book_no_earlier_def by auto

lemma book_next_no_earlier:
  assumes inv: "book_inv s" and n: "book_next s e s'" and e: "book_event_ok e"
  shows "book_no_earlier s s'"
proof (cases "s' = s \<or> s' = with_gap s")
  case True
  then show ?thesis by (auto simp: book_no_earlier_def with_gap_def)
next
  case False
  show ?thesis
  proof (cases e)
    case (BookSnapshotEvent p)
    then show ?thesis
      using False n by (auto simp: book_next_def snapshot_refusal_def snapshot_book_def book_no_earlier_def
          split: if_splits)
  next
    case (BookDeltaEvent d)
    then obtain yes no where t: "delta_target s d = Some (yes, no)"
        and s': "s' = delta_book s d yes no (book_move s yes no) (delta_digest_of d)"
      using False n by (auto simp: book_next_def)
    have "delta_next s d"
      using t by (simp add: delta_target_def split: if_splits)
    then show ?thesis
      by (simp add: s' delta_book_def book_no_earlier_def delta_next_def)
  next
    case (MarketLifecycleEvent l)
    then show ?thesis
      using False n by (auto simp: book_next_def lifecycle_next_def lifecycle_book_def book_no_earlier_def)
  qed
qed

interpretation books: ordered_machine book_step book_inv book_event_ok book_no_earlier
proof
  show "book_inv s \<Longrightarrow> book_event_ok e \<Longrightarrow> book_step s e = Inr s' \<Longrightarrow> book_inv s'" for s e s'
    by (rule book_next_inv[OF _ _ book_step_next])
  show "book_no_earlier s s" for s
    by (simp add: book_no_earlier_def)
  show "book_no_earlier s t \<Longrightarrow> book_no_earlier t u \<Longrightarrow> book_no_earlier s u" for s t u
    by (rule book_no_earlier_trans)
  show "book_inv s \<Longrightarrow> book_event_ok e \<Longrightarrow> book_step s e = Inr s' \<Longrightarrow> book_no_earlier s s'" for s e s'
    by (rule book_next_no_earlier[OF _ book_step_next])
qed

subsection \<open>Gapped books\<close>

definition not_a_snapshot :: "book_event \<Rightarrow> bool" where
  "not_a_snapshot e = (case e of BookSnapshotEvent p \<Rightarrow> False | _ \<Rightarrow> True)"

definition gapped_like :: "BookState \<Rightarrow> BookState \<Rightarrow> bool" where
  "gapped_like s0 s \<longleftrightarrow> \<not> bs_trusted s \<and> bs_sequence_gap s
     \<and> bs_yes_bids s = bs_yes_bids s0 \<and> bs_no_bids s = bs_no_bids s0
     \<and> bs_connection_epoch s = bs_connection_epoch s0 \<and> bs_sequence s = bs_sequence s0"

lemma gapped_step:
  assumes "gapped_like s0 s" "book_inv s" "book_event_ok e" "not_a_snapshot e" "book_step s e = Inr s'"
  shows "gapped_like s0 s'"
  using book_step_next[OF assms(2,3,5)] assms(1,4)
  by (cases e) (auto simp: book_next_def not_a_snapshot_def gapped_like_def with_gap_def delta_error_def
      lifecycle_book_def split: if_splits)

lemma gap_iff: "book_inv s \<Longrightarrow> bs_sequence_gap s = (\<not> bs_trusted s)"
  by (auto simp: book_inv_iff)

interpretation gapped_books: guarded_machine book_step
  "\<lambda>s. book_inv s \<and> \<not> bs_trusted s" "\<lambda>e. book_event_ok e \<and> not_a_snapshot e"
proof
  fix s e s'
  assume a: "book_inv s \<and> \<not> bs_trusted s" "book_event_ok e \<and> not_a_snapshot e" "book_step s e = Inr s'"
  then have "gapped_like s s"
    using gap_iff[of s] by (simp add: gapped_like_def)
  then have "gapped_like s s'"
    using gapped_step a by blast
  then show "book_inv s' \<and> \<not> bs_trusted s'"
    using a books.step_inv by (auto simp: gapped_like_def)
qed

lemma gapped_run:
  assumes "gapped_like s0 s" "book_inv s" "list_all (\<lambda>e. book_event_ok e \<and> not_a_snapshot e) es"
    "run_steps book_step s es = Inr s'"
  shows "gapped_like s0 s'"
  using assms
proof (induction es arbitrary: s)
  case (Cons e es)
  then obtain m where m: "book_step s e = Inr m" "run_steps book_step m es = Inr s'"
    by (auto simp: bind_result_eq_Inr)
  show ?case
    using Cons.IH[OF gapped_step[OF Cons.prems(1,2) _ _ m(1)] _ _ m(2)] Cons.prems
      books.step_inv[OF Cons.prems(2) _ m(1)] by simp
qed simp

subsection \<open>Market status\<close>

inductive status_path :: "MarketStatus \<Rightarrow> MarketStatus \<Rightarrow> bool" where
  status_refl: "status_path a a"
| status_step: "status_path a b \<Longrightarrow> status_transition_allowed b c \<Longrightarrow> status_path a c"

lemma status_path_trans: "status_path a b \<Longrightarrow> status_path b c \<Longrightarrow> status_path a c"
  by (rotate_tac 1, induction rule: status_path.induct) (auto intro: status_path.intros)

lemma final_status_path:
  "status_path a b \<Longrightarrow> a = MKT_SETTLED \<or> a = MKT_CANCELLED \<Longrightarrow> b = a"
  by (induction rule: status_path.induct) (auto simp: status_transition_allowed_def)

lemma closed_status_path:
  "status_path a b \<Longrightarrow> a = MKT_CLOSED \<or> a = MKT_SETTLED \<or> a = MKT_CANCELLED \<Longrightarrow>
   b = MKT_CLOSED \<or> b = MKT_SETTLED \<or> b = MKT_CANCELLED"
  by (induction rule: status_path.induct) (auto simp: status_transition_allowed_def)

lemma book_next_status:
  assumes "book_next s e s'"
  shows "status_path (bs_market_status s) (bs_market_status s')"
proof -
  have "bs_market_status s' = bs_market_status s
      \<or> status_transition_allowed (bs_market_status s) (bs_market_status s')"
    using assms
    by (cases e) (auto simp: book_next_def with_gap_def snapshot_book_def delta_book_def lifecycle_book_def
        lifecycle_next_def)
  then show ?thesis
    by (metis status_path.intros)
qed

interpretation statuses: ordered_machine book_step book_inv book_event_ok
  "\<lambda>s s'. status_path (bs_market_status s) (bs_market_status s')"
  by unfold_locales
    (auto intro: books.step_inv status_refl status_path_trans book_next_status[OF book_step_next])

end
