(* ===== verification/BookBuying.thy ===== *)
theory BookBuying
  imports BookRuns
begin

text \<open>
  \<open>executable_buy\<close>: what the levels it consumes have to do with the opposite ladder, and its
  exact specification \<open>fill\<close> for whole contracts and prices on a grid.
\<close>

subsection \<open>Walking the ladder\<close>

definition ask_price :: "BookLevel \<Rightarrow> rat" where
  "ask_price bid = dec_round 80 (1 - bl_price bid)"

lemma ask_price_sub:
  "level_ok b \<Longrightarrow> dec_sub 80 1 (bl_price b) = Some (ask_price b)"
  "level_ok b \<Longrightarrow> 0 \<le> ask_price b \<and> ask_price b \<le> 1"
  using book_decimals.run_complement[of "bl_price b"] book_decimals.complement_unit[of "bl_price b"]
  by (simp_all add: dec_sub_def ask_price_def level_ok_def)

lemma dec_sub_remaining:
  assumes "q \<le> remaining" "dec_sub 80 remaining q = Some r"
  shows "0 \<le> r"
  using assms dec_round_nonneg[of "remaining - q" 80]
  by (auto simp: dec_sub_def dec_fix_def Let_def split: if_splits)

lemma dec_sub_self: "dec_sub 80 x x = Some 0"
  using dec_fix_bounded[of 0 80] by (simp add: dec_sub_def)

text \<open>How a list of bought levels relates to the bids it was taken from.\<close>

definition taken_from :: "BookLevel list \<Rightarrow> rat \<Rightarrow> BookLevel list \<Rightarrow> bool" where
  "taken_from bids limit ls \<longleftrightarrow>
     list_all2 (\<lambda>l b. bl_price l = ask_price b \<and> bl_price l \<le> limit
                  \<and> 0 < bl_quantity l \<and> bl_quantity l \<le> bl_quantity b)
       ls (take (length ls) bids)
     \<and> map bl_quantity (butlast ls) = map bl_quantity (take (length ls - 1) bids)"

lemma consume_levels_taken:
  assumes "list_all level_ok bids" "0 < remaining"
    "consume_levels bids limit remaining acc = Inr out"
  shows "\<exists>ls. out = acc @ ls \<and> taken_from bids limit ls"
  using assms
proof (induction bids arbitrary: remaining acc)
  case Nil
  then show ?case by (auto simp: taken_from_def)
next
  case (Cons b bids)
  have b: "level_ok b" using Cons.prems by simp
  note ask = ask_price_sub[OF b]
  let ?q = "min remaining (bl_quantity b)"
  let ?l = "\<lparr>bl_price = ask_price b, bl_quantity = ?q\<rparr>"
  have l: "book_level_post_init ?l = None"
    using b ask(2) Cons.prems(2) by (simp add: book_level_post_init_iff level_ok_def)
  show ?case
  proof (cases "limit < ask_price b")
    case True
    then show ?thesis
      using Cons.prems(3) ask by (auto simp: taken_from_def)
  next
    case False
    then obtain r where r: "dec_sub 80 remaining ?q = Some r"
      and out: "(if r = 0 then Inr (acc @ [?l]) else consume_levels bids limit r (acc @ [?l])) = Inr out"
      using Cons.prems(3) ask l by (auto simp: Let_def split: option.splits)
    have "0 \<le> r" by (rule dec_sub_remaining[OF _ r]) simp
    show ?thesis
    proof (cases "r = 0")
      case True
      then show ?thesis
        using out False b Cons.prems(2)
        by (intro exI[of _ "[?l]"]) (auto simp: taken_from_def level_ok_def)
    next
      case rest: False
      then have "\<not> remaining \<le> bl_quantity b"
        using r dec_sub_self[of remaining] by (auto simp: min_def split: if_splits)
      then have full: "?q = bl_quantity b" by simp
      obtain ls where ls: "out = (acc @ [?l]) @ ls" "taken_from bids limit ls"
        using Cons.IH[of r "acc @ [?l]"] out rest \<open>0 \<le> r\<close> Cons.prems(1) by auto
      have "taken_from (b # bids) limit (?l # ls)"
        using ls(2) False b Cons.prems(2) full
        by (cases ls) (auto simp: taken_from_def level_ok_def)
      then show ?thesis using ls(1) by (intro exI[of _ "?l # ls"]) simp
    qed
  qed
qed

lemma consume_levels_error:
  assumes "list_all level_ok bids" "0 < remaining" "consume_levels bids limit remaining acc = Inl e"
  shows "e = decimal_error"
  using assms
proof (induction bids arbitrary: remaining acc)
  case (Cons b bids)
  have b: "level_ok b" using Cons.prems by simp
  note ask = ask_price_sub[OF b]
  let ?q = "min remaining (bl_quantity b)"
  let ?l = "\<lparr>bl_price = ask_price b, bl_quantity = ?q\<rparr>"
  have l: "book_level_post_init ?l = None"
    using b ask(2) Cons.prems(2) by (simp add: book_level_post_init_iff level_ok_def)
  show ?case
  proof (cases "dec_sub 80 remaining ?q")
    case None
    then show ?thesis
      using Cons.prems(3) ask l by (auto simp: Let_def split: if_splits)
  next
    case (Some r)
    have "0 \<le> r" by (rule dec_sub_remaining[OF _ Some]) simp
    then show ?thesis
      using Cons.prems(1,3) ask l Some Cons.IH[of r "acc @ [?l]"]
      by (auto simp: Let_def split: if_splits)
  qed
qed simp

lemma ask_price_antimono: "bl_price b \<le> bl_price a \<Longrightarrow> ask_price a \<le> ask_price b"
  unfolding ask_price_def by (rule book_decimals.complement_antimono)

lemma taken_from_sorted:
  assumes "descending bids" "taken_from bids limit ls"
  shows "sorted (map bl_price ls)"
proof -
  have "sorted (map ask_price bids)"
    using assms(1) by (induction bids) (auto simp: descending_def intro: ask_price_antimono less_imp_le)
  then have "sorted (map ask_price (take (length ls) bids))"
    by (simp add: sorted_wrt_take flip: take_map)
  moreover have "map bl_price ls = map ask_price (take (length ls) bids)"
    using assms(2) by (auto simp: taken_from_def list_eq_iff_nth_eq list_all2_conv_all_nth)
  ultimately show ?thesis by simp
qed

subsection \<open>Exact arithmetic\<close>

text \<open>Whole numbers of contracts, and prices on a grid of a hundredth of a cent.\<close>

definition whole :: "rat \<Rightarrow> bool" where
  "whole q \<longleftrightarrow> of_int \<lfloor>q\<rfloor> = q"

definition on_grid :: "rat \<Rightarrow> bool" where
  "on_grid p \<longleftrightarrow> whole (10000 * p)"

lemma wholeE: "whole q \<Longrightarrow> \<exists>n::int. q = of_int n"
  unfolding whole_def by metis

lemma whole_of_int [simp]: "whole (of_int n)"
  by (simp add: whole_def)

lemma whole_arith:
  assumes "whole a" "whole b"
  shows "whole (a + b)" "whole (a - b)" "whole (a * b)" "whole (min a b)"
proof -
  obtain m n :: int where "a = of_int m" "b = of_int n"
    using assms wholeE by metis
  then show "whole (a + b)" "whole (a - b)" "whole (a * b)" "whole (min a b)"
    by (simp_all add: whole_of_int min_def flip: of_int_add of_int_diff of_int_mult)
qed

lemma grid_arith:
  assumes "on_grid a"
  shows "on_grid b \<Longrightarrow> on_grid (a + b)" "on_grid (1 - a)" "whole b \<Longrightarrow> on_grid (a * b)"
proof -
  have "whole (10000 :: rat)" "whole (1 :: rat)"
    by (simp_all add: whole_def)
  then show "on_grid b \<Longrightarrow> on_grid (a + b)" "on_grid (1 - a)" "whole b \<Longrightarrow> on_grid (a * b)"
    using assms whole_arith by (simp_all add: on_grid_def distrib_left right_diff_distrib mult.assoc[symmetric])
qed

lemma grid_exact:
  assumes "on_grid x" "\<bar>x\<bar> \<le> 10 ^ 70"
  shows "dec_fix 80 x = Some x" "dec_round 80 x = x"
proof -
  obtain m :: int where m: "10000 * x = of_int m"
    using assms(1) wholeE unfolding on_grid_def by metis
  have x: "x = of_int m * 10 powi (- 4)"
    using m by (simp add: power_int_minus field_simps)
  have "\<bar>of_int m :: rat\<bar> \<le> 10 ^ 74"
    using assms(2) unfolding m[symmetric] by (simp add: abs_mult)
  then have "(of_int \<bar>m\<bar> :: rat) < of_int (10 ^ 80)"
    by (simp add: order.strict_trans1)
  then have "\<bar>m\<bar> < 10 ^ 80"
    by (simp only: of_int_less_iff)
  then have "dec_representable 80 x"
    using x unfolding dec_representable_def by (intro exI[of _ m] exI[of _ "- 4"]) (simp add: dec_emax_def)
  then show r: "dec_round 80 x = x"
    by (rule dec_round_representable)
  have "\<not> dec_overflow x"
  proof (cases "x = 0")
    case True
    then show ?thesis by (simp add: dec_overflow_def dec_adjusted_def dec_emax_def int_digits.simps)
  next
    case False
    have "\<bar>x\<bar> < 10 powi (70 + 1)"
      using assms(2) by (simp add: order.strict_trans1)
    then have "dec_adjusted x \<le> 70"
      by (rule dec_adjusted_le[OF False])
    then show ?thesis by (simp add: dec_overflow_def dec_emax_def)
  qed
  then show "dec_fix 80 x = Some x"
    by (simp add: dec_fix_def r)
qed

lemma whole_grid: "whole q \<Longrightarrow> on_grid q"
  using whole_arith(3)[of 10000 q] by (simp add: on_grid_def whole_def)

subsection \<open>The exact fill\<close>

text \<open>The specification: walk the bids, best ask first, while the limit allows it and contracts are
  wanted, in exact arithmetic.\<close>

fun fill :: "BookLevel list \<Rightarrow> rat \<Rightarrow> rat \<Rightarrow> BookLevel list" where
  "fill [] limit wanted = []"
| "fill (b # bids) limit wanted =
     (if wanted \<le> 0 \<or> limit < 1 - bl_price b then []
      else \<lparr>bl_price = 1 - bl_price b, bl_quantity = min wanted (bl_quantity b)\<rparr>
           # fill bids limit (wanted - min wanted (bl_quantity b)))"

definition available :: "BookLevel list \<Rightarrow> rat \<Rightarrow> rat" where
  "available bids limit =
     sum_list (map bl_quantity (filter (\<lambda>b. 1 - bl_price b \<le> limit) bids))"

definition exact_level :: "BookLevel \<Rightarrow> bool" where
  "exact_level b \<longleftrightarrow> level_ok b \<and> on_grid (bl_price b) \<and> whole (bl_quantity b)"

definition quantity_sum :: "BookLevel list \<Rightarrow> rat" where
  "quantity_sum ls = sum_list (map bl_quantity ls)"

definition cost_sum :: "BookLevel list \<Rightarrow> rat" where
  "cost_sum ls = sum_list (map (\<lambda>l. bl_price l * bl_quantity l) ls)"

lemma exact_ask:
  assumes "exact_level b"
  shows "ask_price b = 1 - bl_price b" "on_grid (1 - bl_price b)"
proof -
  have "\<bar>1 - bl_price b\<bar> \<le> 1"
    using assms by (auto simp: exact_level_def level_ok_def)
  also have "(1 :: rat) \<le> 10 ^ 70"
    by simp
  finally show "ask_price b = 1 - bl_price b"
    using assms grid_arith(2) grid_exact(2) by (simp add: exact_level_def ask_price_def)
  show "on_grid (1 - bl_price b)"
    using assms grid_arith(2) by (simp add: exact_level_def)
qed

lemma fill_empty: "wanted \<le> 0 \<Longrightarrow> fill bids limit wanted = []"
  by (cases bids) simp_all

lemma fill_exact:
  assumes "list_all exact_level bids" "whole wanted"
  shows "list_all exact_level (fill bids limit wanted)"
  using assms
proof (induction bids arbitrary: wanted)
  case (Cons b bids)
  have b: "exact_level b" using Cons.prems by simp
  then have "whole (min wanted (bl_quantity b))" "whole (wanted - min wanted (bl_quantity b))"
    using Cons.prems(2) by (simp_all add: exact_level_def whole_arith)
  moreover have "exact_level \<lparr>bl_price = 1 - bl_price b, bl_quantity = min wanted (bl_quantity b)\<rparr>"
    if "0 < wanted"
    using b that exact_ask(2)[OF b] calculation(1) by (auto simp: exact_level_def level_ok_def)
  ultimately show ?case
    using Cons.IH[of "wanted - min wanted (bl_quantity b)"] Cons.prems(1) by simp
qed simp

lemma contract_bound: "0 \<le> x \<Longrightarrow> x \<le> 10 ^ 60 \<Longrightarrow> \<bar>x :: rat\<bar> \<le> 10 ^ 70"
proof -
  assume "0 \<le> x" "x \<le> 10 ^ 60"
  then have "\<bar>x\<bar> \<le> 10 ^ 60" by (simp only: abs_of_nonneg)
  also have "(10 :: rat) ^ 60 \<le> 10 ^ 70" by simp
  finally show ?thesis .
qed

lemma consume_levels_exact:
  assumes "list_all exact_level bids" "whole remaining" "0 < remaining" "remaining \<le> 10 ^ 60"
  shows "consume_levels bids limit remaining acc = Inr (acc @ fill bids limit remaining)"
  using assms
proof (induction bids arbitrary: remaining acc)
  case (Cons b bids)
  have b: "exact_level b" and ok: "level_ok b" using Cons.prems(1) by (simp_all add: exact_level_def)
  note ask = ask_price_sub(1)[OF ok, unfolded exact_ask(1)[OF b]]
  let ?q = "min remaining (bl_quantity b)"
  let ?l = "\<lparr>bl_price = 1 - bl_price b, bl_quantity = ?q\<rparr>"
  have q: "whole ?q" "0 < ?q" "?q \<le> remaining"
    using b Cons.prems(2,3) by (simp_all add: exact_level_def level_ok_def whole_arith)
  then have r: "whole (remaining - ?q)" "0 \<le> remaining - ?q" "remaining - ?q \<le> 10 ^ 60"
    using Cons.prems(2,4) whole_arith(2) by auto
  have "\<bar>remaining - ?q\<bar> \<le> 10 ^ 70"
    by (rule contract_bound[OF r(2,3)])
  then have sub: "dec_sub 80 remaining ?q = Some (remaining - ?q)"
    using grid_exact(1)[OF whole_grid[OF r(1)]] by (simp add: dec_sub_def)
  have l: "construct book_level_post_init ?l = Inr ?l"
    using ok q(2) by (simp add: book_level_post_init_iff level_ok_def)
  show ?case
  proof (cases "limit < 1 - bl_price b")
    case True
    then show ?thesis using ask by simp
  next
    case lim: False
    show ?thesis
    proof (cases "remaining - ?q = 0")
      case True
      then show ?thesis
        using lim ask sub l Cons.prems(3) by (simp add: Let_def fill_empty)
    next
      case False
      then have "0 < remaining - ?q" using r(2) by simp
      then show ?thesis
        using lim ask sub l False Cons.prems(1,3) Cons.IH[OF _ r(1) _ r(3)] by (simp add: Let_def)
    qed
  qed
qed simp

lemma available_nonneg: "list_all level_ok bids \<Longrightarrow> 0 \<le> available bids limit"
  unfolding available_def by (intro sum_list_nonneg) (auto simp: list_all_iff level_ok_def less_imp_le)

lemma fill_quantity:
  assumes "descending bids" "list_all level_ok bids" "0 \<le> wanted"
  shows "quantity_sum (fill bids limit wanted) = min wanted (available bids limit)"
  using assms
proof (induction bids arbitrary: wanted)
  case Nil
  then show ?case by (simp add: quantity_sum_def available_def)
next
  case (Cons b bids)
  have tail: "descending bids" "list_all level_ok bids" and b: "level_ok b"
    using Cons.prems by (simp_all add: descending_def)
  have nonneg: "0 \<le> available bids limit"
    using available_nonneg[OF tail(2)] .
  show ?case
  proof (cases "limit < 1 - bl_price b")
    case True
    then have "filter (\<lambda>b. 1 - bl_price b \<le> limit) bids = []"
      using Cons.prems(1) by (auto simp: filter_empty_conv descending_def)
    then have "available (b # bids) limit = 0"
      using True by (simp add: available_def)
    then show ?thesis using True Cons.prems(3) by (simp add: quantity_sum_def)
  next
    case False
    then have avail: "available (b # bids) limit = bl_quantity b + available bids limit"
      by (simp add: available_def)
    let ?q = "min wanted (bl_quantity b)"
    have "quantity_sum (fill bids limit (wanted - ?q)) = min (wanted - ?q) (available bids limit)"
      by (rule Cons.IH[OF tail]) simp
    then show ?thesis
      using False avail nonneg Cons.prems(3) b
      by (auto simp: quantity_sum_def level_ok_def min_def split: if_splits)
  qed
qed

lemma dec_sum_exact:
  assumes "list_all (\<lambda>v. on_grid v \<and> 0 \<le> v) vs" "on_grid acc" "0 \<le> acc" "acc + sum_list vs \<le> 10 ^ 70"
  shows "dec_sum acc (map Some vs) = Some (acc + sum_list vs)"
  using assms
proof (induction vs arbitrary: acc)
  case (Cons v vs)
  have nonneg: "0 \<le> sum_list vs"
    using Cons.prems(1) by (intro sum_list_nonneg) (auto simp: list_all_iff)
  have grid: "on_grid (acc + v)"
    using Cons.prems(1,2) grid_arith(1) by simp
  have "dec_add 80 acc v = Some (acc + v)"
    using grid_exact(1)[OF grid] Cons.prems nonneg by (simp add: dec_add_def)
  then show ?case
    using Cons.IH[OF _ grid] Cons.prems by (simp add: add.assoc)
qed simp

lemma level_cost:
  assumes "exact_level l" "bl_quantity l \<le> 10 ^ 60"
  shows "dec_mul 80 (bl_price l) (bl_quantity l) = Some (bl_price l * bl_quantity l)"
    "on_grid (bl_price l * bl_quantity l)" "0 \<le> bl_price l * bl_quantity l"
    "bl_price l * bl_quantity l \<le> bl_quantity l"
proof -
  have l: "0 \<le> bl_price l" "bl_price l \<le> 1" "0 < bl_quantity l"
    using assms(1) by (simp_all add: exact_level_def level_ok_def)
  show grid: "on_grid (bl_price l * bl_quantity l)"
    using assms(1) grid_arith(3) by (simp add: exact_level_def)
  show nn: "0 \<le> bl_price l * bl_quantity l"
    using l by simp
  show le: "bl_price l * bl_quantity l \<le> bl_quantity l"
    using l by (simp add: mult_left_le_one_le)
  have "\<bar>bl_price l * bl_quantity l\<bar> \<le> 10 ^ 70"
    by (rule contract_bound[OF nn order_trans[OF le assms(2)]])
  then show "dec_mul 80 (bl_price l) (bl_quantity l) = Some (bl_price l * bl_quantity l)"
    using grid_exact(1)[OF grid] by (simp add: dec_mul_def)
qed

lemma sums_exact:
  assumes ls: "list_all exact_level ls" and total: "quantity_sum ls \<le> 10 ^ 60"
  shows "filled_contracts ls = Some (quantity_sum ls)" "total_cost ls = Some (cost_sum ls)"
    "cost_sum ls \<le> quantity_sum ls" "0 \<le> cost_sum ls"
proof -
  have each: "bl_quantity l \<le> 10 ^ 60" if "l \<in> set ls" for l
  proof -
    have "bl_quantity l \<le> quantity_sum ls"
      unfolding quantity_sum_def using that ls
      by (intro member_le_sum_list) (auto simp: list_all_iff exact_level_def level_ok_def less_imp_le)
    then show ?thesis using total by simp
  qed
  have cost: "map (\<lambda>l. dec_mul 80 (bl_price l) (bl_quantity l)) ls
      = map Some (map (\<lambda>l. bl_price l * bl_quantity l) ls)"
    using ls each level_cost(1) by (auto simp: list_all_iff)
  show le: "cost_sum ls \<le> quantity_sum ls"
    unfolding cost_sum_def quantity_sum_def
    using ls each level_cost(4) by (intro sum_list_mono) (auto simp: list_all_iff)
  show "0 \<le> cost_sum ls"
    unfolding cost_sum_def
    using ls each level_cost(3) by (intro sum_list_nonneg) (auto simp: list_all_iff)
  have big: "(10 :: rat) ^ 60 \<le> 10 ^ 70" by simp
  have zero: "on_grid 0" by (simp add: on_grid_def whole_def)
  show "filled_contracts ls = Some (quantity_sum ls)"
    using dec_sum_exact[of "map bl_quantity ls" 0] ls total big zero
    by (auto simp: filled_contracts_def quantity_sum_def list_all_iff exact_level_def level_ok_def
        whole_grid less_imp_le comp_def)
  show "total_cost ls = Some (cost_sum ls)"
    using dec_sum_exact[of "map (\<lambda>l. bl_price l * bl_quantity l) ls" 0] ls each total le big zero
      level_cost(2,3)
    by (auto simp: total_cost_def cost cost_sum_def list_all_iff)
qed

lemma fill_prices:
  assumes "descending bids"
  shows "\<forall>l \<in> set (fill bids limit wanted). bl_price l \<le> limit \<and> bl_price (hd (fill bids limit wanted)) \<le> bl_price l"
proof -
  have "sorted (map bl_price (fill bids limit wanted))
      \<and> (\<forall>l \<in> set (fill bids limit wanted). bl_price l \<le> limit \<and> (\<exists>b \<in> set bids. bl_price l = 1 - bl_price b))"
    using assms
  proof (induction bids arbitrary: wanted)
    case (Cons b bids)
    have "descending bids" using Cons.prems by (simp add: descending_def)
    note IH = Cons.IH[OF this, of "wanted - min wanted (bl_quantity b)"]
    show ?case
    proof (cases "wanted \<le> 0 \<or> limit < 1 - bl_price b")
      case False
      have "1 - bl_price b \<le> bl_price l"
        if "l \<in> set (fill bids limit (wanted - min wanted (bl_quantity b)))" for l
      proof -
        obtain b' where "b' \<in> set bids" "bl_price l = 1 - bl_price b'"
          using IH \<open>l \<in> _\<close> by blast
        then show ?thesis
          using Cons.prems by (fastforce simp: descending_def)
      qed
      then show ?thesis using False IH by auto
    qed auto
  qed simp
  then show ?thesis
    by (cases "fill bids limit wanted") auto
qed

lemma average_bounds:
  assumes ls: "list_all exact_level ls" "ls \<noteq> []"
    and p: "\<forall>l \<in> set ls. lo \<le> bl_price l \<and> bl_price l \<le> hi"
  shows "lo \<le> cost_sum ls / quantity_sum ls \<and> cost_sum ls / quantity_sum ls \<le> hi"
proof -
  have pos: "0 < quantity_sum ls"
  proof (cases ls)
    case (Cons l rest)
    have "0 \<le> sum_list (map bl_quantity rest)"
      using ls(1) Cons by (intro sum_list_nonneg) (auto simp: list_all_iff exact_level_def level_ok_def less_imp_le)
    then show ?thesis
      using ls(1) Cons by (simp add: quantity_sum_def exact_level_def level_ok_def)
  qed (use ls in simp)
  have "lo * quantity_sum ls = sum_list (map (\<lambda>l. lo * bl_quantity l) ls)"
    by (simp add: quantity_sum_def sum_list_const_mult)
  also have "\<dots> \<le> cost_sum ls"
    unfolding cost_sum_def using ls p
    by (intro sum_list_mono mult_right_mono) (auto simp: list_all_iff exact_level_def level_ok_def less_imp_le)
  finally have "lo * quantity_sum ls \<le> cost_sum ls" .
  moreover have "cost_sum ls \<le> hi * quantity_sum ls"
  proof -
    have "cost_sum ls \<le> sum_list (map (\<lambda>l. hi * bl_quantity l) ls)"
      unfolding cost_sum_def using ls p
      by (intro sum_list_mono mult_right_mono) (auto simp: list_all_iff exact_level_def level_ok_def less_imp_le)
    then show ?thesis by (simp add: quantity_sum_def sum_list_const_mult)
  qed
  ultimately show ?thesis
    using pos by (simp add: pos_le_divide_eq pos_divide_le_eq)
qed

lemma quantity_sum_pos:
  assumes "list_all level_ok ls" "ls \<noteq> []"
  shows "0 < quantity_sum ls"
proof (cases ls)
  case (Cons l rest)
  have "0 \<le> sum_list (map bl_quantity rest)"
    using assms(1) Cons by (intro sum_list_nonneg) (auto simp: list_all_iff level_ok_def less_imp_le)
  then show ?thesis
    using assms(1) Cons by (simp add: quantity_sum_def level_ok_def)
qed (use assms in simp)

text \<open>The bids that a buyer of an outcome trades against.\<close>

definition opposite_bids :: "BookState \<Rightarrow> ContractSide \<Rightarrow> BookLevel list" where
  "opposite_bids s outcome = (if outcome = YES then bs_no_bids s else bs_yes_bids s)"

lemma opposite_bids_ok:
  assumes "book_inv s"
  shows "ladder_ok (opposite_bids s outcome)" "descending (opposite_bids s outcome)"
    "list_all level_ok (opposite_bids s outcome)"
  using assms by (auto simp: opposite_bids_def book_inv_iff ladders_ok_def ladder_ok_def)

definition exact_purchase :: "BookLevel list \<Rightarrow> rat \<Rightarrow> rat \<Rightarrow> rat \<times> rat \<times> BookLevel list" where
  "exact_purchase bids limit wanted =
     (let ls = fill bids limit wanted
      in if ls = [] then (0, 0, [])
         else (quantity_sum ls, dec_round 80 (cost_sum ls / quantity_sum ls), ls))"

lemma executable_buy_exact:
  assumes inv: "book_inv s" and open': "bs_trusted s" "bs_market_status s = MKT_OPEN"
    and exact: "list_all exact_level (opposite_bids s outcome)"
    and c: "whole c" "0 < c" "c \<le> 10 ^ 60" and limit: "0 \<le> limit" "limit \<le> 1"
  shows "executable_buy s outcome (Finite c) (Finite limit) =
    Inr (exact_purchase (opposite_bids s outcome) limit c)"
proof -
  let ?bids = "opposite_bids s outcome" and ?ls = "fill (opposite_bids s outcome) limit c"
  have gap: "\<not> bs_sequence_gap s"
    using gap_iff[OF inv] open' by simp
  note consume = consume_levels_exact[OF exact c, of limit "[]"]
  show ?thesis
  proof (cases "?ls = []")
    case True
    then show ?thesis
      using consume open' gap c limit
      by (simp add: executable_buy_def exact_purchase_def opposite_bids_def[symmetric] Let_def)
  next
    case False
    have ls: "list_all exact_level ?ls"
      by (rule fill_exact[OF exact c(1)])
    then have ok: "list_all level_ok ?ls"
      by (simp add: list_all_iff exact_level_def)
    have "quantity_sum ?ls \<le> c"
      using fill_quantity[OF opposite_bids_ok(2)[OF inv, of outcome] opposite_bids_ok(3)[OF inv, of outcome], of c limit] c by simp
    then have total: "quantity_sum ?ls \<le> 10 ^ 60"
      using c(3) by (rule order.trans)
    note sums = sums_exact[OF ls total]
    have pos: "0 < quantity_sum ?ls"
      by (rule quantity_sum_pos[OF ok False])
    have "0 \<le> cost_sum ?ls / quantity_sum ?ls \<and> cost_sum ?ls / quantity_sum ?ls \<le> 1"
      using sums(3,4) pos by (simp add: divide_le_eq_1)
    then have "dec_fix 80 (cost_sum ?ls / quantity_sum ?ls) = Some (dec_round 80 (cost_sum ?ls / quantity_sum ?ls))"
      by (intro dec_fix_bounded) auto
    then have "dec_div 80 (cost_sum ?ls) (quantity_sum ?ls) = Some (dec_round 80 (cost_sum ?ls / quantity_sum ?ls))"
      using pos by (simp add: dec_div_def)
    moreover have "?bids \<noteq> []"
      using False by auto
    ultimately show ?thesis
      using consume open' gap c limit False sums(1,2)
      by (simp add: executable_buy_def exact_purchase_def opposite_bids_def[symmetric] Let_def)
  qed
qed

end
