(* ===== verification/BookProperties.thy ===== *)
theory BookProperties
  imports BookBuying
begin

text \<open>
  The properties of the order book, each with a concrete book on which its hypotheses hold.
\<close>

subsection \<open>Concrete values for the witnesses\<close>

definition example_digest :: string where
  "example_digest = replicate 64 (CHR ''b'')"

definition example_book :: BookState where
  "example_book =
     \<lparr>bs_ticker = ''KXATP-1'', bs_connection_epoch = 2, bs_sequence = 10, bs_market_status = MKT_OPEN,
      bs_scheduled_close_wall_ns = 9000, bs_book_source_wall_ns = 100,
      bs_book_observed_monotonic_ns = 200, bs_book_clock_uncertainty_ns = 5,
      bs_lifecycle_source_wall_ns = 90, bs_lifecycle_observed_monotonic_ns = 190,
      bs_lifecycle_clock_uncertainty_ns = 5,
      bs_yes_bids = [\<lparr>bl_price = 55 / 100, bl_quantity = 10\<rparr>, \<lparr>bl_price = 1 / 2, bl_quantity = 40\<rparr>],
      bs_no_bids = [\<lparr>bl_price = 42 / 100, bl_quantity = 30\<rparr>, \<lparr>bl_price = 2 / 5, bl_quantity = 25\<rparr>],
      bs_trusted = True, bs_sequence_gap = False, bs_last_executable_move = 0,
      bs_last_executable_move_monotonic_ns = 200, bs_last_snapshot_sha256 = example_digest,
      bs_last_event_sha256 = example_digest\<rparr>"

definition example_delta :: BookDelta where
  "example_delta =
     \<lparr>delta_ticker = ''KXATP-1'', delta_connection_epoch = 2, delta_sequence = 11,
      delta_source_wall_ns = 110, delta_observed_monotonic_ns = 210, delta_clock_uncertainty_ns = 5,
      delta_contract_side = NO, delta_price = 45 / 100, delta_quantity = 7\<rparr>"

definition example_book_snapshot :: BookSnapshot where
  "example_book_snapshot =
     \<lparr>snap_ticker = ''KXATP-1'', snap_connection_epoch = 3, snap_sequence = 1,
      snap_market_status = MKT_SUSPENDED, snap_scheduled_close_wall_ns = 9000,
      snap_source_wall_ns = 300, snap_observed_monotonic_ns = 400, snap_clock_uncertainty_ns = 5,
      snap_yes_bids = [\<lparr>bl_price = 3 / 10, bl_quantity = 3\<rparr>], snap_no_bids = []\<rparr>"

definition example_lifecycle :: MarketLifecycle where
  "example_lifecycle =
     \<lparr>ml_ticker = ''KXATP-1'', ml_connection_epoch = 2, ml_market_status = MKT_CLOSED,
      ml_scheduled_close_wall_ns = 9000, ml_source_wall_ns = 120,
      ml_observed_monotonic_ns = 230, ml_clock_uncertainty_ns = 5\<rparr>"

lemma example_book_texts: "sha256_ok example_digest" "ticker_ok ''KXATP-1''"
  by code_simp+

lemma example_ladders: "ladders_ok (bs_yes_bids example_book) (bs_no_bids example_book)"
  "ladders_ok (snap_yes_bids example_book_snapshot) (snap_no_bids example_book_snapshot)"
  unfolding ladders_ok_def by code_simp+

lemma example_book_inv: "book_inv example_book"
  using example_ladders(1) by (simp add: book_inv_iff) (simp add: example_book_def example_book_texts probability_ok_def)

lemma example_gapped_inv: "book_inv (with_gap example_book)"
  by (rule with_gap_inv[OF example_book_inv])

lemma example_decimals:
  "decimal_encodable (45 / 100)" "decimal_encodable 7"
  "levels_encodable (snap_yes_bids example_book_snapshot)" "levels_encodable (snap_no_bids example_book_snapshot)"
  by code_simp+

lemma example_events_ok:
  "book_event_ok (BookDeltaEvent example_delta)"
  "book_event_ok (BookSnapshotEvent example_book_snapshot)"
  "book_event_ok (MarketLifecycleEvent example_lifecycle)"
proof -
  have "book_snapshot_ok example_book_snapshot"
    using example_ladders(2) by (simp add: book_snapshot_ok_iff)
      (simp add: example_book_snapshot_def example_book_texts)
  then show "book_event_ok (BookSnapshotEvent example_book_snapshot)"
    using example_decimals by (simp add: book_event_ok_def)
  show "book_event_ok (BookDeltaEvent example_delta)"
    using example_decimals
    by (simp add: book_event_ok_def book_delta_ok_iff example_delta_def example_book_texts probability_ok_def)
  show "book_event_ok (MarketLifecycleEvent example_lifecycle)"
    by (simp add: book_event_ok_def market_lifecycle_ok_iff example_lifecycle_def example_book_texts)
qed

lemma delta_event_ok:
  "book_event_ok (BookDeltaEvent d) \<Longrightarrow> book_delta_ok d \<and> encodable (book_delta_pyval d)"
  by (simp add: book_event_ok_def book_delta_encodable)

lemma snapshot_event_ok:
  "book_event_ok (BookSnapshotEvent p) \<Longrightarrow> book_snapshot_ok p \<and> encodable (book_snapshot_pyval p)"
  by (simp add: book_event_ok_def book_snapshot_encodable)

subsection \<open>Deltas\<close>

text \<open>C34: On a valid book a valid delta for the same ticker is either refused with one of the three
  named contract errors, or answered with a valid book.  It is accepted exactly when the book is
  trusted, the delta is the next of the same connection, it removes only a level that exists and the
  book does not end up crossed; in every other case the ladders and the position stay and the book
  is marked as gapped.\<close>

theorem delta_outcome:
  assumes "book_inv s" "book_event_ok (BookDeltaEvent d)"
  shows "case delta_error s d of
      Some name \<Rightarrow> apply_book_delta s d = Inl (ExpertContractError name)
    | None \<Rightarrow> (\<exists>r. apply_book_delta s d = Inr r \<and> book_inv (bt_state r)
        \<and> (case delta_target s d of
             None \<Rightarrow> bt_accepted_event_kind r = None \<and> bt_state r = with_gap s
           | Some (yes, no) \<Rightarrow> bt_accepted_event_kind r = Some BE_DELTA
               \<and> bs_yes_bids (bt_state r) = yes \<and> bs_no_bids (bt_state r) = no
               \<and> bs_sequence (bt_state r) = bs_sequence s + 1
               \<and> bs_connection_epoch (bt_state r) = bs_connection_epoch s
               \<and> bs_market_status (bt_state r) = bs_market_status s))"
proof -
  have d: "book_delta_ok d" "encodable (book_delta_pyval d)"
    using delta_event_ok[OF assms(2)] by auto
  show ?thesis
  proof (cases "delta_error s d")
    case (Some name)
    then show ?thesis by (simp add: apply_book_delta_eq[OF assms(1) d])
  next
    case None
    show ?thesis
    proof (cases "delta_target s d")
      case None': None
      then show ?thesis
        using None with_gap_inv[OF assms(1)] by (simp add: apply_book_delta_eq[OF assms(1) d])
    next
      case (Some x)
      then obtain yes no where t: "delta_target s d = Some (yes, no)" by (cases x) simp
      have "book_step s (BookDeltaEvent d) = Inr (bt_state (delta_accepted s d yes no))"
        using None t by (simp add: book_step_def apply_book_delta_eq[OF assms(1) d])
      then have "book_inv (bt_state (delta_accepted s d yes no))"
        by (rule books.step_inv[OF assms])
      moreover have "delta_next s d"
        by (rule delta_target_ok(1)[OF assms(1) d(1) t])
      ultimately show ?thesis
        using None t by (simp add: apply_book_delta_eq[OF assms(1) d] delta_accepted_def Let_def)
          (simp add: delta_book_def delta_next_def)
    qed
  qed
qed

theorem delta_outcome_witness:
  "\<exists>r. apply_book_delta example_book example_delta = Inr r \<and> book_inv (bt_state r)"
proof -
  have "delta_error example_book example_delta = None"
    by code_simp
  then show ?thesis
    using delta_outcome[OF example_book_inv example_events_ok(1)] by auto
qed

text \<open>C24: An accepted delta refines the update of a map: the touched ladder, read as a map from
  price to quantity, is the old map with the price of the delta removed (quantity zero) or set to
  its quantity, and the other ladder is the same list.  The index search, slicing and sorting of the
  code leave no other trace.\<close>

theorem delta_refines_map_update:
  assumes "book_inv s" "book_event_ok (BookDeltaEvent d)" "apply_book_delta s d = Inr r"
    "bt_accepted_event_kind r = Some BE_DELTA"
  shows "let update = (\<lambda>m. m(delta_price d :=
               if delta_quantity d = 0 then None else Some (delta_quantity d)))
     in if delta_contract_side d = YES
        then depth (bs_yes_bids (bt_state r)) = update (depth (bs_yes_bids s))
             \<and> bs_no_bids (bt_state r) = bs_no_bids s
        else depth (bs_no_bids (bt_state r)) = update (depth (bs_no_bids s))
             \<and> bs_yes_bids (bt_state r) = bs_yes_bids s"
proof -
  have d: "book_delta_ok d" "encodable (book_delta_pyval d)"
    using delta_event_ok[OF assms(2)] by auto
  obtain yes no where t: "delta_target s d = Some (yes, no)" and r: "r = delta_accepted s d yes no"
    using assms(3,4) by (auto simp: apply_book_delta_eq[OF assms(1) d] split: option.splits)
  have ladders: "ladder_ok (bs_yes_bids s)" "ladder_ok (bs_no_bids s)"
    using assms(1) by (simp_all add: book_inv_iff ladders_ok_def)
  have "bs_yes_bids (bt_state r) = yes" "bs_no_bids (bt_state r) = no"
    by (simp_all add: r delta_accepted_def Let_def) (simp_all add: delta_book_def)
  then show ?thesis
    using delta_target_ok(2)[OF assms(1) d(1) t] delta_change_ladder(2)[OF d(1) ladders(1)]
      delta_change_ladder(2)[OF d(1) ladders(2)]
    by (auto simp: delta_ladders_def Let_def split: if_splits)
qed

theorem delta_refines_map_update_witness:
  "\<exists>r. apply_book_delta example_book example_delta = Inr r
     \<and> depth (bs_no_bids (bt_state r)) (45 / 100) = Some 7"
proof -
  have d: "book_delta_ok example_delta" "encodable (book_delta_pyval example_delta)"
    using delta_event_ok[OF example_events_ok(1)] by auto
  have e: "delta_error example_book example_delta = None"
    by code_simp
  have "delta_target example_book example_delta \<noteq> None"
    by code_simp
  then obtain yes no where "delta_target example_book example_delta = Some (yes, no)"
    by auto
  then have r: "apply_book_delta example_book example_delta =
      Inr (delta_accepted example_book example_delta yes no)"
    using e by (simp add: apply_book_delta_eq[OF example_book_inv d])
  have "bt_accepted_event_kind (delta_accepted example_book example_delta yes no) = Some BE_DELTA"
    by (simp add: delta_accepted_def Let_def)
  from delta_refines_map_update[OF example_book_inv example_events_ok(1) r this] show ?thesis
    using r by (simp add: example_delta_def Let_def)
qed

subsection \<open>Runs\<close>

lemma round_half_even_error: "x - 1 / 2 \<le> of_int (round_half_even x)"
  using of_int_floor_le[of x] floor_correct[of x] unfolding round_half_even_def Let_def by auto

lemma dec_add_at_most_one:
  \<comment> \<open>what a rounded sum that is at most one says of the exact sum\<close>
  assumes "0 \<le> a" "0 \<le> b" "a \<le> 1" "b \<le> 1" "dec_add 80 a b = Some c" "c \<le> 1"
  shows "a + b \<le> 1 + 1 / (2 * 10 ^ 79)"
proof (cases "a + b \<le> 1")
  case True
  then show ?thesis by (simp add: add_increasing2)
next
  case False
  let ?s = "a + b"
  have "dec_adjusted ?s \<le> 0" using dec_adjusted_le[of ?s 0] assms(1-4) False by simp
  moreover have "0 \<le> dec_adjusted ?s"
    using dec_adjusted_bounds[of ?s] False powi10_less_iff[of 0 "dec_adjusted ?s + 1"] by simp
  ultimately have q: "dec_quantum 80 ?s = 1 / 10 ^ 79"
    unfolding dec_quantum_def dec_emax_def by (simp add: power_int_minus_divide)
  have "c = of_int (round_half_even (?s / dec_quantum 80 ?s)) * dec_quantum 80 ?s"
    using assms(5) False unfolding dec_add_def dec_fix_def dec_round_def Let_def by (auto split: if_splits)
  then have "of_int (round_half_even (?s * 10 ^ 79)) \<le> (10 ^ 79 :: rat)" using assms(6) unfolding q by (simp add: field_simps)
  with round_half_even_error[of "?s * 10 ^ 79"] have "?s * 10 ^ 79 \<le> 10 ^ 79 + 1 / 2" by linarith
  then show ?thesis by (simp add: field_simps)
qed

lemma best_bids_sum:
  assumes "ladders_ok (y # ys) (n # ns)"
  shows "bl_price y + bl_price n \<le> 1 + 1 / (2 * 10 ^ 79)"
    and "(bl_price y + bl_price n) * 10 ^ 79 \<in> \<int> \<Longrightarrow> bl_price y + bl_price n \<le> 1"
proof -
  obtain c where c: "dec_add 80 (bl_price y) (bl_price n) = Some c" "c \<le> 1"
    using assms unfolding ladders_ok_def crossed_def by auto
  have p: "0 \<le> bl_price y" "0 \<le> bl_price n" "bl_price y \<le> 1" "bl_price n \<le> 1"
    using assms unfolding ladders_ok_def ladder_ok_def level_ok_def by auto
  show le: "bl_price y + bl_price n \<le> 1 + 1 / (2 * 10 ^ 79)" by (rule dec_add_at_most_one[OF p c])
  show "bl_price y + bl_price n \<le> 1" if "(bl_price y + bl_price n) * 10 ^ 79 \<in> \<int>"
  proof -
    from that obtain k where k: "(bl_price y + bl_price n) * 10 ^ 79 = of_int k" by (elim Ints_cases)
    have "of_int k \<le> (10 ^ 79 :: rat) + 1 / 2" using le k by (simp add: field_simps)
    then have "(of_int k :: rat) < of_int (10 ^ 79 + 1)" by simp
    then have "k \<le> 10 ^ 79" unfolding of_int_less_iff by simp
    then have "(of_int k :: rat) \<le> of_int (10 ^ 79)" unfolding of_int_le_iff .
    then have "(bl_price y + bl_price n) * 10 ^ 79 \<le> 10 ^ 79" using k by simp
    then show ?thesis by (simp add: field_simps)
  qed
qed

text \<open>The check for crossed books compares the rounded sum, so it lets a book pass whose exact sum is above one by less than the
  rounding.\<close>

lemma crossed_check_is_rounded:
  "crossed [\<lparr>bl_price = 1 / 2 + 1 / 10 ^ 100, bl_quantity = 1\<rparr>] [\<lparr>bl_price = 1 / 2, bl_quantity = 1\<rparr>] = Some False"
proof -
  let ?s = "1 / 2 + 1 / 10 ^ 100 + 1 / 2 :: rat"
  have s: "1 < ?s" "?s < 10" by simp_all
  have "dec_adjusted ?s \<le> 0" using dec_adjusted_le[of ?s 0] s by simp
  moreover have "0 \<le> dec_adjusted ?s"
    using dec_adjusted_bounds[of ?s] powi10_less_iff[of 0 "dec_adjusted ?s + 1"] s by simp
  ultimately have q: "dec_quantum 80 ?s = 1 / 10 ^ 79"
    unfolding dec_quantum_def dec_emax_def by (simp add: power_int_minus_divide)
  have "\<lfloor>?s * 10 ^ 79\<rfloor> = 10 ^ 79" by (simp add: floor_unique)
  then have "round_half_even (?s * 10 ^ 79) = 10 ^ 79" unfolding round_half_even_def Let_def by simp
  then have r: "dec_round 80 ?s = 1" using s unfolding dec_round_def q by simp
  have "dec_adjusted (1 :: rat) \<le> 0" using dec_adjusted_le[of 1 0] by simp
  then have "\<not> dec_overflow (1 :: rat)" unfolding dec_overflow_def dec_emax_def by simp
  then show ?thesis
    unfolding crossed_def dec_add_def dec_fix_def Let_def by (simp only: prod.case list.case BookLevel.select_convs r) simp
qed

text \<open>C28: Along every run of valid market events the book stays valid: ladders strictly descending,
  and its connection epoch, sequence and both clocks never go back between any two moments of the run.  The check for
  crossed books compares the two best bids rounded to 80 digits; of their exact sum this gives that it is at most one when it
  has at most 79 decimal places, as every price in cents or fractions of a cent has (so no riskless trade is shown),
  and for longer prices that it exceeds one by at most half a unit in the 79th place.\<close>

theorem book_runs_valid_and_monotone:
  assumes "book_inv s" "list_all book_event_ok (es @ fs)" "run_steps book_step s (es @ fs) = Inr s'"
  shows "\<exists>m. run_steps book_step s es = Inr m \<and> book_inv m \<and> book_inv s'
     \<and> descending (bs_yes_bids s') \<and> descending (bs_no_bids s')
     \<and> crossed (bs_yes_bids s') (bs_no_bids s') = Some False
     \<and> (\<forall>y ys n ns. bs_yes_bids s' = y # ys \<and> bs_no_bids s' = n # ns \<longrightarrow>
          bl_price y + bl_price n \<le> 1 + 1 / (2 * 10 ^ 79)
          \<and> ((bl_price y + bl_price n) * 10 ^ 79 \<in> \<int> \<longrightarrow> bl_price y + bl_price n \<le> 1))
     \<and> book_no_earlier s m \<and> book_no_earlier m s'"
proof -
  have inv: "book_inv s'"
    by (rule books.run_inv[OF assms])
  then have l: "ladders_ok (bs_yes_bids s') (bs_no_bids s')" by (simp add: book_inv_iff)
  then have "descending (bs_yes_bids s') \<and> descending (bs_no_bids s') \<and> crossed (bs_yes_bids s') (bs_no_bids s') = Some False"
    by (simp add: ladders_ok_def ladder_ok_def)
  moreover have "bl_price y + bl_price n \<le> 1 + 1 / (2 * 10 ^ 79)
      \<and> ((bl_price y + bl_price n) * 10 ^ 79 \<in> \<int> \<longrightarrow> bl_price y + bl_price n \<le> 1)"
    if "bs_yes_bids s' = y # ys \<and> bs_no_bids s' = n # ns" for y ys n ns
    using best_bids_sum[of y ys n ns] l that by simp
  ultimately show ?thesis
    using books.run_prefix_le[OF assms] books.run_prefix_inv[OF assms] inv by auto
qed

lemma example_run:
  "\<exists>s'. run_steps book_step example_book ([BookDeltaEvent example_delta] @ [MarketLifecycleEvent example_lifecycle]) = Inr s'"
proof -
  have d: "book_delta_ok example_delta" "encodable (book_delta_pyval example_delta)"
    using delta_event_ok[OF example_events_ok(1)] by auto
  have "delta_target example_book example_delta \<noteq> None" and e: "delta_error example_book example_delta = None"
    by code_simp+
  then obtain yes no where "delta_target example_book example_delta = Some (yes, no)"
    by auto
  then have r: "book_step example_book (BookDeltaEvent example_delta) =
      Inr (bt_state (delta_accepted example_book example_delta yes no))" (is "_ = Inr ?m")
    using e by (simp add: book_step_def apply_book_delta_eq[OF example_book_inv d])
  have inv: "book_inv ?m"
    by (rule books.step_inv[OF example_book_inv example_events_ok(1) r])
  have "lifecycle_error ?m example_lifecycle = None" "lifecycle_next ?m example_lifecycle"
    by (simp_all add: delta_accepted_def Let_def delta_book_def lifecycle_error_def lifecycle_next_def
        example_book_def example_lifecycle_def example_delta_def status_transition_allowed_def)
  moreover have "market_lifecycle_ok example_lifecycle"
    using example_events_ok(3) by (simp add: book_event_ok_def)
  ultimately have "\<exists>x. apply_market_lifecycle ?m example_lifecycle = Inr x"
    using apply_market_lifecycle_eq[OF inv, of example_lifecycle] by simp
  then show ?thesis
    using r by (auto simp: book_step_def)
qed

theorem book_runs_valid_and_monotone_witness:
  "\<exists>s'. run_steps book_step example_book ([BookDeltaEvent example_delta] @ [MarketLifecycleEvent example_lifecycle]) = Inr s'
     \<and> book_no_earlier example_book s' \<and> book_inv s'"
proof -
  obtain s' where s': "run_steps book_step example_book
      ([BookDeltaEvent example_delta] @ [MarketLifecycleEvent example_lifecycle]) = Inr s'"
    using example_run by blast
  have "list_all book_event_ok ([BookDeltaEvent example_delta] @ [MarketLifecycleEvent example_lifecycle])"
    using example_events_ok by simp
  from book_runs_valid_and_monotone[OF example_book_inv this s'] show ?thesis
    using s' book_no_earlier_trans by blast
qed

text \<open>C33: After a gap nothing but a snapshot can restore trust: whatever deltas and lifecycle events
  follow, the book stays untrusted and keeps ladders, connection epoch and sequence, and
  \<open>executable_buy\<close> refuses every order.\<close>

theorem gap_needs_snapshot:
  assumes "book_inv s" "\<not> bs_trusted s"
    "list_all (\<lambda>e. book_event_ok e \<and> not_a_snapshot e) es" "run_steps book_step s es = Inr s'"
  shows "\<not> bs_trusted s' \<and> bs_sequence_gap s'
     \<and> bs_yes_bids s' = bs_yes_bids s \<and> bs_no_bids s' = bs_no_bids s
     \<and> bs_connection_epoch s' = bs_connection_epoch s \<and> bs_sequence s' = bs_sequence s
     \<and> (\<exists>x. executable_buy s' outcome contracts limit = Inl x)"
proof -
  have "gapped_like s s"
    using assms(2) gap_iff[OF assms(1)] by (simp add: gapped_like_def)
  from gapped_run[OF this assms(1,3,4)] have g: "gapped_like s s'" .
  moreover have "\<exists>x. executable_buy s' outcome contracts limit = Inl x"
    using g unfolding gapped_like_def executable_buy_def by (auto split: decimal_arg.split)
  ultimately show ?thesis
    by (simp add: gapped_like_def)
qed

theorem gap_needs_snapshot_witness:
  "\<exists>s'. run_steps book_step (with_gap example_book) [MarketLifecycleEvent example_lifecycle] = Inr s'
     \<and> \<not> bs_trusted s'"
proof -
  have l: "market_lifecycle_ok example_lifecycle"
    using example_events_ok(3) by (simp add: book_event_ok_def)
  have "lifecycle_error (with_gap example_book) example_lifecycle = None"
    by code_simp
  then obtain r where "apply_market_lifecycle (with_gap example_book) example_lifecycle = Inr r"
    using apply_market_lifecycle_eq[OF example_gapped_inv l] by (simp split: if_splits)
  then have s': "run_steps book_step (with_gap example_book) [MarketLifecycleEvent example_lifecycle]
      = Inr (bt_state r)"
    by (simp add: book_step_def)
  have "\<not> bs_trusted (with_gap example_book)"
    by (simp add: with_gap_def)
  from gap_needs_snapshot[OF example_gapped_inv this _ s'] show ?thesis
    using s' example_events_ok by (simp add: not_a_snapshot_def)
qed

text \<open>A gapped book is replaced by a snapshot exactly when the snapshot is for the same ticker,
  comes from a strictly newer connection, is not older than the book and moves the market status
  along an allowed edge; the new book is then trusted, has the ladders of the snapshot and reports as
  executable move the larger change of the two best asks, between zero and one.  Otherwise the
  snapshot is an error or leaves the book gapped as it was.\<close>

theorem snapshot_reopens_iff:
  assumes "book_inv s" "\<not> bs_trusted s" "book_event_ok (BookSnapshotEvent p)"
  shows "if snap_ticker p = bs_ticker s \<and> bs_connection_epoch s < snap_connection_epoch p
       \<and> bs_book_observed_monotonic_ns s \<le> snap_observed_monotonic_ns p
       \<and> bs_lifecycle_observed_monotonic_ns s \<le> snap_observed_monotonic_ns p
       \<and> status_transition_allowed (bs_market_status s) (snap_market_status p)
     then \<exists>r. apply_book_snapshot s p = Inr r \<and> bs_trusted (bt_state r) \<and> book_inv (bt_state r)
       \<and> bs_yes_bids (bt_state r) = snap_yes_bids p \<and> bs_no_bids (bt_state r) = snap_no_bids p
       \<and> bs_connection_epoch (bt_state r) = snap_connection_epoch p
       \<and> bt_executable_move r = book_move s (snap_yes_bids p) (snap_no_bids p)
       \<and> 0 \<le> bt_executable_move r \<and> bt_executable_move r \<le> 1
       \<and> bt_top_of_book_changed r = (0 < bt_executable_move r)
     else (\<exists>name. apply_book_snapshot s p = Inl (ExpertContractError name))
       \<or> apply_book_snapshot s p = Inr (quiet_result (with_gap s))"
proof -
  have p: "book_snapshot_ok p" "encodable (book_snapshot_pyval p)"
    using snapshot_event_ok[OF assms(3)] by auto
  have levels: "list_all level_ok (bs_yes_bids s)" "list_all level_ok (bs_no_bids s)"
    "list_all level_ok (snap_yes_bids p)" "list_all level_ok (snap_no_bids p)"
    using assms(1) p(1) by (simp_all add: book_inv_def book_snapshot_ok_def)
  note move = executable_move_eq(2)[OF levels]
  note eq = apply_book_snapshot_eq[OF assms(1) p]
  have none: "snapshot_refusal s p = None \<longleftrightarrow>
      snap_ticker p = bs_ticker s \<and> bs_connection_epoch s < snap_connection_epoch p
      \<and> bs_book_observed_monotonic_ns s \<le> snap_observed_monotonic_ns p
      \<and> bs_lifecycle_observed_monotonic_ns s \<le> snap_observed_monotonic_ns p"
    using assms(2) gap_iff[OF assms(1)] by (simp add: snapshot_refusal_def) linarith
  show ?thesis
  proof (cases "snapshot_refusal s p")
    case (Some name)
    then have "\<not> (snap_ticker p = bs_ticker s \<and> bs_connection_epoch s < snap_connection_epoch p
       \<and> bs_book_observed_monotonic_ns s \<le> snap_observed_monotonic_ns p
       \<and> bs_lifecycle_observed_monotonic_ns s \<le> snap_observed_monotonic_ns p
       \<and> status_transition_allowed (bs_market_status s) (snap_market_status p))"
      using none by auto
    then show ?thesis using Some eq by (simp only: if_False) simp
  next
    case None
    have cond: "(snap_ticker p = bs_ticker s \<and> bs_connection_epoch s < snap_connection_epoch p
       \<and> bs_book_observed_monotonic_ns s \<le> snap_observed_monotonic_ns p
       \<and> bs_lifecycle_observed_monotonic_ns s \<le> snap_observed_monotonic_ns p
       \<and> status_transition_allowed (bs_market_status s) (snap_market_status p))
      = status_transition_allowed (bs_market_status s) (snap_market_status p)"
      using None none by blast
    have inv: "book_inv (snapshot_book p (book_move s (snap_yes_bids p) (snap_no_bids p)) (snapshot_digest_of p))"
      using snapshot_book_inv[OF p(1) move contract_digest_eq(2)[OF p(2)]] by (simp add: snapshot_digest_of_def)
    show ?thesis
      unfolding cond using None eq inv move
      by (simp add: Let_def probability_ok_def) (simp add: snapshot_book_def)
  qed
qed

theorem snapshot_reopens_iff_witness:
  "\<exists>r. apply_book_snapshot (with_gap example_book) example_book_snapshot = Inr r
     \<and> bs_trusted (bt_state r) \<and> bs_connection_epoch (bt_state r) = 3"
proof -
  have "\<not> bs_trusted (with_gap example_book)"
    by (simp add: with_gap_def)
  from snapshot_reopens_iff[OF example_gapped_inv this example_events_ok(2)] show ?thesis
    by (auto simp: with_gap_def example_book_def example_book_snapshot_def status_transition_allowed_def)
qed

text \<open>Along every run the market status only moves along paths of the allowed transition table,
  whatever mixture of snapshots, deltas and lifecycle events arrives; settled and cancelled are
  final, and a closed market is never open again.\<close>

theorem market_status_follows_table:
  assumes "book_inv s" "list_all book_event_ok es" "run_steps book_step s es = Inr s'"
  shows "status_path (bs_market_status s) (bs_market_status s')
     \<and> (bs_market_status s \<in> {MKT_SETTLED, MKT_CANCELLED} \<longrightarrow> bs_market_status s' = bs_market_status s)
     \<and> (bs_market_status s \<in> {MKT_CLOSED, MKT_SETTLED, MKT_CANCELLED} \<longrightarrow> bs_market_status s' \<noteq> MKT_OPEN)"
  using statuses.run_le[OF assms] final_status_path closed_status_path by fastforce

theorem market_status_follows_table_witness:
  "\<exists>s'. run_steps book_step example_book ([BookDeltaEvent example_delta] @ [MarketLifecycleEvent example_lifecycle]) = Inr s'
     \<and> status_path MKT_OPEN (bs_market_status s')"
proof -
  obtain s' where s': "run_steps book_step example_book
      ([BookDeltaEvent example_delta] @ [MarketLifecycleEvent example_lifecycle]) = Inr s'"
    using example_run by blast
  have "list_all book_event_ok ([BookDeltaEvent example_delta] @ [MarketLifecycleEvent example_lifecycle])"
    using example_events_ok by simp
  from market_status_follows_table[OF example_book_inv this s'] show ?thesis
    using s' by (auto simp: example_book_def)
qed

subsection \<open>Buying\<close>

text \<open>\<open>executable_buy\<close> on a valid book checks its arguments and the book in the documented order
  and raises the error of the first check that fails; past the checks it returns or reports
  \<open>book_decimal_arithmetic\<close>, and no other error.\<close>

theorem buy_checks_in_order:
  assumes "book_inv s"
  shows "case (contracts, limit_price) of
      (NonFinite, _) \<Rightarrow> executable_buy s outcome contracts limit_price = Inl (ExpertContractError ''contracts'')
    | (Finite c, NonFinite) \<Rightarrow> executable_buy s outcome contracts limit_price =
        Inl (ExpertContractError (if c < 0 then ''contracts'' else ''limit_price''))
    | (Finite c, Finite limit) \<Rightarrow>
        if c < 0 then executable_buy s outcome contracts limit_price = Inl (ExpertContractError ''contracts'')
        else if limit < 0 \<or> 1 < limit
        then executable_buy s outcome contracts limit_price = Inl (ExpertContractError ''limit_price'')
        else if \<not> bs_trusted s
        then executable_buy s outcome contracts limit_price = Inl (ExpertContractError ''book_untrusted'')
        else if bs_market_status s \<noteq> MKT_OPEN
        then executable_buy s outcome contracts limit_price = Inl (ExpertContractError ''market_not_open'')
        else (\<exists>x. executable_buy s outcome contracts limit_price = Inr x)
             \<or> executable_buy s outcome contracts limit_price = Inl decimal_error"
proof (cases contracts)
  case NonFinite
  then show ?thesis by (simp add: executable_buy_def)
next
  case c: (Finite c)
  show ?thesis
  proof (cases limit_price)
    case NonFinite
    then show ?thesis using c by (simp add: executable_buy_def)
  next
    case (Finite limit)
    have gap: "bs_sequence_gap s = (\<not> bs_trusted s)"
      by (rule gap_iff[OF assms])
    have err: "\<not> c < 0 \<Longrightarrow> c \<noteq> 0 \<Longrightarrow> consume_levels (opposite_bids s outcome) limit c [] = Inl e \<Longrightarrow> e = decimal_error" for e
      by (rule consume_levels_error[OF opposite_bids_ok(3)[OF assms]]) simp_all
    show ?thesis
      using c Finite gap err
      by (auto simp: executable_buy_def opposite_bids_def[symmetric] Let_def bind_result_def
          split: sum.splits option.splits)
  qed
qed

theorem buy_checks_in_order_witness:
  "executable_buy (with_gap example_book) YES (Finite 5) (Finite (1 / 2)) = Inl (ExpertContractError ''book_untrusted'')"
  using buy_checks_in_order[OF example_gapped_inv, where outcome = YES and contracts = "Finite 5"
    and limit_price = "Finite (1 / 2)"] by (simp add: with_gap_def)

text \<open>Every fill that \<open>executable_buy\<close> returns takes the cheapest asks first and respects the
  limit: the bought levels are the first levels of the opposite ladder at their complementary prices,
  in ascending order of price, none above the limit, none larger than what the ladder offers, and all
  but the last one exhausted.\<close>

theorem buy_takes_best_asks_first:
  assumes "book_inv s" "executable_buy s outcome (Finite c) (Finite limit) = Inr (filled, average, ls)"
  shows "taken_from (opposite_bids s outcome) limit ls \<and> sorted (map bl_price ls)
     \<and> (\<forall>l \<in> set ls. bl_price l \<le> limit)"
proof -
  have "taken_from (opposite_bids s outcome) limit ls"
  proof (cases "ls = []")
    case True
    then show ?thesis by (simp add: taken_from_def)
  next
    case False
    then have "consume_levels (opposite_bids s outcome) limit c [] = Inr ls" "0 < c"
      using assms(2)
      by (auto simp: executable_buy_def opposite_bids_def[symmetric] Let_def bind_result_eq_Inr
          split: if_splits option.splits)
    then show ?thesis
      using consume_levels_taken[OF opposite_bids_ok(3)[OF assms(1)]] by fastforce
  qed
  moreover from this have "sorted (map bl_price ls)"
    by (rule taken_from_sorted[OF opposite_bids_ok(2)[OF assms(1)]])
  moreover have "\<forall>l \<in> set ls. bl_price l \<le> limit"
    using calculation(1) by (auto simp: taken_from_def in_set_conv_nth list_all2_conv_all_nth)
  ultimately show ?thesis by blast
qed

lemma example_exact: "list_all exact_level (opposite_bids example_book YES)" "whole (35 :: rat)"
  by code_simp+

lemma example_purchase:
  "executable_buy example_book YES (Finite 35) (Finite (3 / 5)) =
     Inr (35, dec_round 80 (204 / 350),
       [\<lparr>bl_price = 58 / 100, bl_quantity = 30\<rparr>, \<lparr>bl_price = 3 / 5, bl_quantity = 5\<rparr>])"
proof -
  have "bs_trusted example_book" "bs_market_status example_book = MKT_OPEN"
    by (simp_all add: example_book_def)
  from executable_buy_exact[OF example_book_inv this example_exact, of "3 / 5"] show ?thesis
    by (simp add: exact_purchase_def opposite_bids_def example_book_def quantity_sum_def cost_sum_def)
qed

theorem buy_takes_best_asks_first_witness:
  "sorted (map bl_price [\<lparr>bl_price = 58 / 100, bl_quantity = 30\<rparr>, \<lparr>bl_price = 3 / 5, bl_quantity = (5 :: rat)\<rparr>])
   \<and> taken_from (opposite_bids example_book YES) (3 / 5)
       [\<lparr>bl_price = 58 / 100, bl_quantity = 30\<rparr>, \<lparr>bl_price = 3 / 5, bl_quantity = 5\<rparr>]"
  using buy_takes_best_asks_first[OF example_book_inv example_purchase] by blast

text \<open>C25: For up to 10 to the 60 whole contracts and prices on the exchange's grid the rounding of the decimal context
  does not show: \<open>executable_buy\<close> returns exactly the specified fill, which buys the smaller of what
  is wanted and what is offered within the limit, and an average price that is the exact average
  rounded once and lies between the best ask and the limit.\<close>

theorem buy_is_exact_fill:
  assumes "book_inv s" "bs_trusted s" "bs_market_status s = MKT_OPEN"
    "list_all exact_level (opposite_bids s outcome)" "whole c" "0 < c" "c \<le> 10 ^ 60"
    "on_grid limit" "0 \<le> limit" "limit \<le> 1"
  shows "\<exists>filled average ls. executable_buy s outcome (Finite c) (Finite limit) = Inr (filled, average, ls)
     \<and> ls = fill (opposite_bids s outcome) limit c
     \<and> filled = min c (available (opposite_bids s outcome) limit)
     \<and> (if ls = [] then average = 0
        else average = dec_round 80 (cost_sum ls / filled) \<and> bl_price (hd ls) \<le> average \<and> average \<le> limit)"
proof -
  let ?ls = "fill (opposite_bids s outcome) limit c"
  have filled: "quantity_sum ?ls = min c (available (opposite_bids s outcome) limit)"
    using fill_quantity[OF opposite_bids_ok(2)[OF assms(1), of outcome] opposite_bids_ok(3)[OF assms(1), of outcome], of c limit] assms(6) by simp
  note eq = executable_buy_exact[OF assms(1-7,9,10)]
  show ?thesis
  proof (cases "?ls = []")
    case True
    then show ?thesis
      using eq filled by (simp add: exact_purchase_def quantity_sum_def)
  next
    case False
    have ls: "list_all exact_level ?ls"
      by (rule fill_exact[OF assms(4,5)])
    have grid: "dec_round 80 x = x" if "on_grid x" "0 \<le> x" "x \<le> 1" for x
    proof -
      have "\<bar>x\<bar> \<le> 1" using that by simp
      also have "(1 :: rat) \<le> 10 ^ 70" by simp
      finally show ?thesis using that grid_exact(2) by blast
    qed
    have hd: "exact_level (hd ?ls)"
      using ls False by (simp add: list_all_iff)
    have "bl_price (hd ?ls) \<le> cost_sum ?ls / quantity_sum ?ls \<and> cost_sum ?ls / quantity_sum ?ls \<le> limit"
      using fill_prices[OF opposite_bids_ok(2)[OF assms(1)]] by (intro average_bounds[OF ls False]) blast
    then have "dec_round 80 (bl_price (hd ?ls)) \<le> dec_round 80 (cost_sum ?ls / quantity_sum ?ls)
        \<and> dec_round 80 (cost_sum ?ls / quantity_sum ?ls) \<le> dec_round 80 limit"
      by (simp add: dec_round_mono)
    then show ?thesis
      using eq filled False grid[OF assms(8-10)] grid[of "bl_price (hd ?ls)"] hd
      by (simp add: exact_purchase_def Let_def exact_level_def level_ok_def)
  qed
qed

theorem buy_is_exact_fill_witness:
  "\<exists>average ls. executable_buy example_book YES (Finite 35) (Finite (3 / 5)) = Inr (35, average, ls)
     \<and> 58 / 100 \<le> average \<and> average \<le> 3 / 5"
proof -
  have "bs_trusted example_book" "bs_market_status example_book = MKT_OPEN"
    by (simp_all add: example_book_def)
  moreover have "on_grid (3 / 5)"
    by (simp add: on_grid_def whole_def)
  ultimately show ?thesis
    using buy_is_exact_fill[OF example_book_inv _ _ example_exact, of "3 / 5"]
    by (simp add: opposite_bids_def example_book_def available_def)
qed

end
