(* ===== verification/ContractsBinding.thy ===== *)
theory ContractsBinding
  imports ContractsTennis ContractsBook
begin

text \<open>
  The contracts that bind provider matches to markets (\<open>inci_tennis_expert/contracts.py\<close>):
  match bindings, their metadata and settlement rules, the review decision, the universe of
  bindings with its digest chain, the synchronization policy and the paired clock observation.
  Field prefixes: \<open>ap_\<close> artifact pin, \<open>obs_\<close> observation, \<open>mb_\<close> binding,
  \<open>br_\<close> route, \<open>ss_\<close> settlement, \<open>bmm_\<close> market metadata, \<open>bm_\<close> binding
  metadata, \<open>rv_\<close> review, \<open>bu_\<close> universe, \<open>pol_\<close> policy.
\<close>

subsection \<open>Data\<close>

record ArtifactPin =
  ap_artifact_id :: string
  ap_artifact_sha256 :: string

record PairedTimeObservation =
  obs_wall_ns :: int
  obs_monotonic_ns :: int
  obs_clock_uncertainty_ns :: int

record MatchBinding =
  mb_provider_match_id :: string
  mb_canonical_match_id :: string
  mb_provider_source_id :: string
  mb_revision_domain_id :: string
  mb_source_lineage_sha256 :: string
  mb_provider_home_player_id :: string
  mb_provider_away_player_id :: string
  mb_kalshi_event_ticker :: string
  mb_home_market_ticker :: string
  mb_away_market_ticker :: string
  mb_match_format :: MatchFormat
  mb_scheduled_start_wall_ns :: int
  mb_start_tolerance_ns :: int
  mb_artifact_created_wall_ns :: int
  mb_binding_artifact_sha256 :: string

record BindingRoute =
  br_player_side :: PlayerSide
  br_market_ticker :: string
  br_contract_side :: ContractSide

record SettlementSemantics =
  ss_result_authority :: string
  ss_natural_completion :: string
  ss_retirement_after_point :: string
  ss_walkover_before_point :: string
  ss_default_after_point :: string
  ss_disqualification_after_point :: string
  ss_cancellation :: string
  ss_postponement :: string
  ss_abandonment :: string
  ss_amendment :: string
  ss_void_treatment :: string
  ss_raw_rules_sha256 :: string
  ss_projection_sha256 :: string

record BindingMarketMetadata =
  bmm_series_ticker :: string
  bmm_event_ticker :: string
  bmm_event_id :: string
  bmm_market_ticker :: string
  bmm_market_id :: string
  bmm_yes_player_side :: PlayerSide
  bmm_yes_provider_player_id :: string
  bmm_yes_canonical_player_id :: string
  bmm_product :: string
  bmm_event_catalog_sha256 :: string
  bmm_membership_source_id :: string
  bmm_membership_source_version :: string
  bmm_membership_captured_wall_ns :: int
  bmm_membership_evidence_sha256 :: string
  bmm_membership_projection_sha256 :: string
  bmm_market_text_sha256 :: string
  bmm_settlement_rule_text_sha256 :: string
  bmm_settlement :: SettlementSemantics

record BindingMetadata =
  bm_canonical_match_id :: string
  bm_canonical_home_player_id :: string
  bm_canonical_away_player_id :: string
  bm_tournament_id :: string
  bm_season_id :: string
  bm_draw_id :: string
  bm_round_id :: string
  bm_tour_id :: string
  bm_tier_id :: string
  bm_surface :: string
  bm_provider_snapshot_sha256 :: string
  bm_kalshi_event_sha256 :: string
  bm_markets :: "BindingMarketMetadata list"
  bm_authorized_routes :: "BindingRoute list"

record BindingReviewDecision =
  rv_review_artifact_id :: string
  rv_review_artifact_sha256 :: string
  rv_review_artifact_created_wall_ns :: int
  rv_binding_artifact_id :: string
  rv_binding_artifact_sha256 :: string
  rv_decision :: string
  rv_reviewer_id :: string
  rv_reviewed_wall_ns :: int
  rv_review_evidence_sha256 :: string

record BindingUniverse =
  bu_raw_artifact_id :: string
  bu_raw_artifact_sha256 :: string
  bu_review :: BindingReviewDecision
  bu_bindings :: "MatchBinding list"
  bu_metadata :: "BindingMetadata list"
  bu_universe_sha256 :: string

record SyncPolicy =
  pol_universe_sha256 :: string
  pol_max_score_age_ns :: int
  pol_max_book_age_ns :: int
  pol_max_lifecycle_age_ns :: int
  pol_max_score_book_skew_ns :: int
  pol_max_clock_uncertainty_ns :: int
  pol_large_book_move_threshold :: rat
  pol_explanation_window_ns :: int
  pol_minimum_close_horizon_ns :: int

subsection \<open>Canonical projections\<close>

definition artifact_pin_pyval :: "ArtifactPin \<Rightarrow> pyval" where
  "artifact_pin_pyval x = VContract ''ArtifactPin''
     [(''artifact_id'', VStr (ap_artifact_id x)),
      (''artifact_sha256'', VStr (ap_artifact_sha256 x))]"

definition paired_time_observation_pyval :: "PairedTimeObservation \<Rightarrow> pyval" where
  "paired_time_observation_pyval x = VContract ''PairedTimeObservation''
     [(''wall_ns'', VInt (obs_wall_ns x)),
      (''monotonic_ns'', VInt (obs_monotonic_ns x)),
      (''clock_uncertainty_ns'', VInt (obs_clock_uncertainty_ns x))]"

definition match_binding_pyval :: "MatchBinding \<Rightarrow> pyval" where
  "match_binding_pyval x = VContract ''MatchBinding''
     [(''provider_match_id'', VStr (mb_provider_match_id x)),
      (''canonical_match_id'', VStr (mb_canonical_match_id x)),
      (''provider_source_id'', VStr (mb_provider_source_id x)),
      (''revision_domain_id'', VStr (mb_revision_domain_id x)),
      (''source_lineage_sha256'', VStr (mb_source_lineage_sha256 x)),
      (''provider_home_player_id'', VStr (mb_provider_home_player_id x)),
      (''provider_away_player_id'', VStr (mb_provider_away_player_id x)),
      (''kalshi_event_ticker'', VStr (mb_kalshi_event_ticker x)),
      (''home_market_ticker'', VStr (mb_home_market_ticker x)),
      (''away_market_ticker'', VStr (mb_away_market_ticker x)),
      (''match_format'', match_format_pyval (mb_match_format x)),
      (''scheduled_start_wall_ns'', VInt (mb_scheduled_start_wall_ns x)),
      (''start_tolerance_ns'', VInt (mb_start_tolerance_ns x)),
      (''artifact_created_wall_ns'', VInt (mb_artifact_created_wall_ns x)),
      (''binding_artifact_sha256'', VStr (mb_binding_artifact_sha256 x))]"

definition binding_route_pyval :: "BindingRoute \<Rightarrow> pyval" where
  "binding_route_pyval x = VContract ''BindingRoute''
     [(''player_side'', player_side_pyval (br_player_side x)),
      (''market_ticker'', VStr (br_market_ticker x)),
      (''contract_side'', contract_side_pyval (br_contract_side x))]"

definition settlement_semantics_pyval :: "SettlementSemantics \<Rightarrow> pyval" where
  "settlement_semantics_pyval x = VContract ''SettlementSemantics''
     [(''result_authority'', VStr (ss_result_authority x)),
      (''natural_completion'', VStr (ss_natural_completion x)),
      (''retirement_after_point'', VStr (ss_retirement_after_point x)),
      (''walkover_before_point'', VStr (ss_walkover_before_point x)),
      (''default_after_point'', VStr (ss_default_after_point x)),
      (''disqualification_after_point'', VStr (ss_disqualification_after_point x)),
      (''cancellation'', VStr (ss_cancellation x)),
      (''postponement'', VStr (ss_postponement x)),
      (''abandonment'', VStr (ss_abandonment x)),
      (''amendment'', VStr (ss_amendment x)),
      (''void_treatment'', VStr (ss_void_treatment x)),
      (''raw_rules_sha256'', VStr (ss_raw_rules_sha256 x)),
      (''projection_sha256'', VStr (ss_projection_sha256 x))]"

definition binding_market_metadata_pyval :: "BindingMarketMetadata \<Rightarrow> pyval" where
  "binding_market_metadata_pyval x = VContract ''BindingMarketMetadata''
     [(''series_ticker'', VStr (bmm_series_ticker x)),
      (''event_ticker'', VStr (bmm_event_ticker x)),
      (''event_id'', VStr (bmm_event_id x)),
      (''market_ticker'', VStr (bmm_market_ticker x)),
      (''market_id'', VStr (bmm_market_id x)),
      (''yes_player_side'', player_side_pyval (bmm_yes_player_side x)),
      (''yes_provider_player_id'', VStr (bmm_yes_provider_player_id x)),
      (''yes_canonical_player_id'', VStr (bmm_yes_canonical_player_id x)),
      (''product'', VStr (bmm_product x)),
      (''event_catalog_sha256'', VStr (bmm_event_catalog_sha256 x)),
      (''membership_source_id'', VStr (bmm_membership_source_id x)),
      (''membership_source_version'', VStr (bmm_membership_source_version x)),
      (''membership_captured_wall_ns'', VInt (bmm_membership_captured_wall_ns x)),
      (''membership_evidence_sha256'', VStr (bmm_membership_evidence_sha256 x)),
      (''membership_projection_sha256'', VStr (bmm_membership_projection_sha256 x)),
      (''market_text_sha256'', VStr (bmm_market_text_sha256 x)),
      (''settlement_rule_text_sha256'', VStr (bmm_settlement_rule_text_sha256 x)),
      (''settlement'', settlement_semantics_pyval (bmm_settlement x))]"

definition binding_metadata_pyval :: "BindingMetadata \<Rightarrow> pyval" where
  "binding_metadata_pyval x = VContract ''BindingMetadata''
     [(''canonical_match_id'', VStr (bm_canonical_match_id x)),
      (''canonical_home_player_id'', VStr (bm_canonical_home_player_id x)),
      (''canonical_away_player_id'', VStr (bm_canonical_away_player_id x)),
      (''tournament_id'', VStr (bm_tournament_id x)),
      (''season_id'', VStr (bm_season_id x)),
      (''draw_id'', VStr (bm_draw_id x)),
      (''round_id'', VStr (bm_round_id x)),
      (''tour_id'', VStr (bm_tour_id x)),
      (''tier_id'', VStr (bm_tier_id x)),
      (''surface'', VStr (bm_surface x)),
      (''provider_snapshot_sha256'', VStr (bm_provider_snapshot_sha256 x)),
      (''kalshi_event_sha256'', VStr (bm_kalshi_event_sha256 x)),
      (''markets'', VTuple (map binding_market_metadata_pyval (bm_markets x))),
      (''authorized_routes'', VTuple (map binding_route_pyval (bm_authorized_routes x)))]"

definition binding_review_decision_pyval :: "BindingReviewDecision \<Rightarrow> pyval" where
  "binding_review_decision_pyval x = VContract ''BindingReviewDecision''
     [(''review_artifact_id'', VStr (rv_review_artifact_id x)),
      (''review_artifact_sha256'', VStr (rv_review_artifact_sha256 x)),
      (''review_artifact_created_wall_ns'', VInt (rv_review_artifact_created_wall_ns x)),
      (''binding_artifact_id'', VStr (rv_binding_artifact_id x)),
      (''binding_artifact_sha256'', VStr (rv_binding_artifact_sha256 x)),
      (''decision'', VStr (rv_decision x)),
      (''reviewer_id'', VStr (rv_reviewer_id x)),
      (''reviewed_wall_ns'', VInt (rv_reviewed_wall_ns x)),
      (''review_evidence_sha256'', VStr (rv_review_evidence_sha256 x))]"

definition binding_universe_pyval :: "BindingUniverse \<Rightarrow> pyval" where
  "binding_universe_pyval x = VContract ''BindingUniverse''
     [(''raw_artifact_id'', VStr (bu_raw_artifact_id x)),
      (''raw_artifact_sha256'', VStr (bu_raw_artifact_sha256 x)),
      (''review'', binding_review_decision_pyval (bu_review x)),
      (''bindings'', VTuple (map match_binding_pyval (bu_bindings x))),
      (''metadata'', VTuple (map binding_metadata_pyval (bu_metadata x))),
      (''universe_sha256'', VStr (bu_universe_sha256 x))]"

definition sync_policy_pyval :: "SyncPolicy \<Rightarrow> pyval" where
  "sync_policy_pyval x = VContract ''SyncPolicy''
     [(''universe_sha256'', VStr (pol_universe_sha256 x)),
      (''max_score_age_ns'', VInt (pol_max_score_age_ns x)),
      (''max_book_age_ns'', VInt (pol_max_book_age_ns x)),
      (''max_lifecycle_age_ns'', VInt (pol_max_lifecycle_age_ns x)),
      (''max_score_book_skew_ns'', VInt (pol_max_score_book_skew_ns x)),
      (''max_clock_uncertainty_ns'', VInt (pol_max_clock_uncertainty_ns x)),
      (''large_book_move_threshold'', VDecimal (pol_large_book_move_threshold x)),
      (''explanation_window_ns'', VInt (pol_explanation_window_ns x)),
      (''minimum_close_horizon_ns'', VInt (pol_minimum_close_horizon_ns x))]"

subsection \<open>Digests over projections\<close>

definition domain_sha256 :: "bytes \<Rightarrow> pyval \<Rightarrow> string result" where
  \<comment> \<open>\<open>sha256(domain + canonical_expert_bytes(value)).hexdigest()\<close>\<close>
  "domain_sha256 domain v =
     bind_result (canonical_expert_bytes v) (\<lambda>b. Inr (hexdigest (sha256 (domain @ b))))"

definition digest_is :: "string result \<Rightarrow> string \<Rightarrow> string \<Rightarrow> exn option" where
  \<comment> \<open>\<open>if value != computed: raise ExpertContractError(name)\<close>\<close>
  "digest_is computed value name =
     (case computed of Inl e \<Rightarrow> Some e | Inr d \<Rightarrow> contract_error (value = d) name)"

definition one_of_strings :: "string \<Rightarrow> string list \<Rightarrow> string \<Rightarrow> exn option" where
  "one_of_strings v allowed name = contract_error (v \<in> set allowed) name"

definition settlement_binary_choices :: "string list" where
  "settlement_binary_choices = [''yes_if_named_player_final_winner'', ''void'']"

definition settlement_abandonment_choices :: "string list" where
  "settlement_abandonment_choices = [''await_latest_finalized_result'', ''void'']"

definition validate_settlement_values :: "SettlementSemantics \<Rightarrow> exn option" where
  "validate_settlement_values s = first_raise
     [one_of_strings (ss_result_authority s) [''kalshi_finalized_market_result''] ''result_authority'',
      one_of_strings (ss_natural_completion s) [''yes_if_named_player_final_winner'']
        ''natural_completion'',
      one_of_strings (ss_retirement_after_point s) settlement_binary_choices ''retirement_after_point'',
      one_of_strings (ss_walkover_before_point s) settlement_binary_choices ''walkover_before_point'',
      one_of_strings (ss_default_after_point s) settlement_binary_choices ''default_after_point'',
      one_of_strings (ss_disqualification_after_point s) settlement_binary_choices
        ''disqualification_after_point'',
      one_of_strings (ss_cancellation s) [''void''] ''cancellation'',
      one_of_strings (ss_postponement s) [''defer''] ''postponement'',
      one_of_strings (ss_abandonment s) settlement_abandonment_choices ''abandonment'',
      one_of_strings (ss_amendment s) [''await_latest_finalized_result''] ''amendment'',
      one_of_strings (ss_void_treatment s) [''no_directional_settlement''] ''void_treatment'',
      sha256_text (ss_raw_rules_sha256 s) ''raw_rules_sha256'']"

definition compute_settlement_projection_sha256 :: "SettlementSemantics \<Rightarrow> string result" where
  "compute_settlement_projection_sha256 s =
     checked (validate_settlement_values s)
       (domain_sha256 (''INCI-BINDING-SETTLEMENT-PROJECTION-SHA256-V1'' @ nul)
          (VTuple
             [VStr (ss_result_authority s), VStr (ss_natural_completion s),
              VStr (ss_retirement_after_point s), VStr (ss_walkover_before_point s),
              VStr (ss_default_after_point s), VStr (ss_disqualification_after_point s),
              VStr (ss_cancellation s), VStr (ss_postponement s), VStr (ss_abandonment s),
              VStr (ss_amendment s), VStr (ss_void_treatment s), VStr (ss_raw_rules_sha256 s)]))"

definition compute_membership_projection_sha256 :: "BindingMarketMetadata \<Rightarrow> string result" where
  "compute_membership_projection_sha256 m =
     checked
       (first_raise
          [ticker (bmm_series_ticker m) ''series_ticker'',
           ticker (bmm_event_ticker m) ''event_ticker'',
           safe_id (bmm_event_id m) ''event_id'',
           ticker (bmm_market_ticker m) ''market_ticker'',
           safe_id (bmm_market_id m) ''market_id'',
           one_of_strings (bmm_product m) [''match_winner''] ''product'',
           sha256_text (bmm_event_catalog_sha256 m) ''event_catalog_sha256'',
           safe_id (bmm_membership_source_id m) ''membership_source_id'',
           safe_id (bmm_membership_source_version m) ''membership_source_version'',
           integer (bmm_membership_captured_wall_ns m) ''membership_captured_wall_ns'',
           sha256_text (bmm_membership_evidence_sha256 m) ''membership_evidence_sha256''])
       (domain_sha256 (''INCI-BINDING-MEMBERSHIP-PROJECTION-SHA256-V1'' @ nul)
          (VTuple
             [VStr (bmm_series_ticker m), VStr (bmm_event_ticker m), VStr (bmm_event_id m),
              VStr (bmm_market_ticker m), VStr (bmm_market_id m), VStr (bmm_product m),
              VStr (bmm_event_catalog_sha256 m), VStr (bmm_membership_source_id m),
              VStr (bmm_membership_source_version m), VInt (bmm_membership_captured_wall_ns m),
              VStr (bmm_membership_evidence_sha256 m)]))"

definition compute_binding_review_evidence_sha256 ::
  "ArtifactPin \<Rightarrow> MatchBinding list \<Rightarrow> BindingMetadata list \<Rightarrow> string result" where
  "compute_binding_review_evidence_sha256 pin bindings metadata =
     domain_sha256 (''INCI-BINDING-REVIEW-EVIDENCE-SHA256-V1'' @ nul)
       (VTuple
          [artifact_pin_pyval pin,
           VTuple (map match_binding_pyval bindings),
           VTuple (map binding_metadata_pyval metadata)])"

definition compute_binding_universe_sha256 ::
  "ArtifactPin \<Rightarrow> BindingReviewDecision \<Rightarrow> MatchBinding list \<Rightarrow> BindingMetadata list
     \<Rightarrow> string result" where
  "compute_binding_universe_sha256 pin review bindings metadata =
     domain_sha256 (''INCI-BINDING-UNIVERSE-SHA256-V1'' @ nul)
       (VTuple
          [VStr (ap_artifact_sha256 pin),
           binding_review_decision_pyval review,
           VTuple (map match_binding_pyval bindings),
           VTuple (map binding_metadata_pyval metadata)])"

text \<open>
  \<open>json.dumps\<close> without \<open>sort_keys\<close>: the members of a flat object in the order of the
  dictionary display.
\<close>

definition flat_object :: "(string \<times> json) list \<Rightarrow> string" where
  "flat_object kvs = ''{'' @ comma_join (map (\<lambda>(k, v). json_string k @ '':'' @ dumps v) kvs) @ ''}''"

definition canonical_binding_review_artifact_bytes :: "BindingReviewDecision \<Rightarrow> bytes result" where
  \<comment> \<open>reads every field but the digest of the review artifact itself\<close>
  "canonical_binding_review_artifact_bytes r =
     checked
       (first_raise
          [safe_id (rv_review_artifact_id r) ''review_artifact_id'',
           integer (rv_review_artifact_created_wall_ns r) ''review_artifact_created_wall_ns'',
           safe_id (rv_binding_artifact_id r) ''binding_artifact_id'',
           sha256_text (rv_binding_artifact_sha256 r) ''binding_artifact_sha256'',
           safe_id (rv_decision r) ''decision'',
           safe_id (rv_reviewer_id r) ''reviewer_id'',
           integer (rv_reviewed_wall_ns r) ''reviewed_wall_ns'',
           sha256_text (rv_review_evidence_sha256 r) ''review_evidence_sha256''])
       (Inr (flat_object
          [(''schema_version'', JInt 1),
           (''artifact_id'', JStr (rv_review_artifact_id r)),
           (''artifact_created_wall_ns'', JInt (rv_review_artifact_created_wall_ns r)),
           (''binding_artifact_id'', JStr (rv_binding_artifact_id r)),
           (''binding_artifact_sha256'', JStr (rv_binding_artifact_sha256 r)),
           (''decision'', JStr (rv_decision r)),
           (''reviewer_id'', JStr (rv_reviewer_id r)),
           (''reviewed_wall_ns'', JInt (rv_reviewed_wall_ns r)),
           (''review_evidence_sha256'', JStr (rv_review_evidence_sha256 r))]))"

definition compute_binding_review_artifact_sha256 :: "BindingReviewDecision \<Rightarrow> string result" where
  "compute_binding_review_artifact_sha256 r =
     bind_result (canonical_binding_review_artifact_bytes r) (\<lambda>b. Inr (hexdigest (sha256 b)))"

subsection \<open>Validators\<close>

definition artifact_pin_post_init :: "ArtifactPin \<Rightarrow> exn option" where
  "artifact_pin_post_init p = first_raise
     [safe_id (ap_artifact_id p) ''artifact_id'',
      sha256_text (ap_artifact_sha256 p) ''artifact_sha256'']"

definition paired_time_observation_post_init :: "PairedTimeObservation \<Rightarrow> exn option" where
  "paired_time_observation_post_init t = first_raise
     [integer (obs_wall_ns t) ''wall_ns'',
      integer (obs_monotonic_ns t) ''monotonic_ns'',
      integer (obs_clock_uncertainty_ns t) ''clock_uncertainty_ns'']"

definition match_binding_post_init :: "MatchBinding \<Rightarrow> exn option" where
  "match_binding_post_init b = first_raise
     [safe_id (mb_provider_match_id b) ''provider_match_id'',
      safe_id (mb_canonical_match_id b) ''canonical_match_id'',
      safe_id (mb_provider_source_id b) ''provider_source_id'',
      safe_id (mb_revision_domain_id b) ''revision_domain_id'',
      sha256_text (mb_source_lineage_sha256 b) ''source_lineage_sha256'',
      safe_id (mb_provider_home_player_id b) ''provider_home_player_id'',
      safe_id (mb_provider_away_player_id b) ''provider_away_player_id'',
      contract_error (mb_provider_home_player_id b \<noteq> mb_provider_away_player_id b) ''player_identity'',
      ticker (mb_kalshi_event_ticker b) ''kalshi_event_ticker'',
      ticker (mb_home_market_ticker b) ''home_market_ticker'',
      ticker (mb_away_market_ticker b) ''away_market_ticker'',
      contract_error (mb_home_market_ticker b \<noteq> mb_away_market_ticker b) ''market_tickers'',
      contract_error (mb_match_format b \<in> set supported_match_formats) ''match_format'',
      integer (mb_scheduled_start_wall_ns b) ''scheduled_start_wall_ns'',
      integer (mb_start_tolerance_ns b) ''start_tolerance_ns'',
      integer (mb_artifact_created_wall_ns b) ''artifact_created_wall_ns'',
      contract_error (mb_artifact_created_wall_ns b \<le> mb_scheduled_start_wall_ns b)
        ''artifact_created_wall_ns'',
      sha256_text (mb_binding_artifact_sha256 b) ''binding_artifact_sha256'']"

definition binding_route_post_init :: "BindingRoute \<Rightarrow> exn option" where
  "binding_route_post_init r = first_raise
     [ticker (br_market_ticker r) ''market_ticker'',
      contract_error (br_contract_side r = YES) ''contract_side'']"

definition settlement_semantics_post_init :: "SettlementSemantics \<Rightarrow> exn option" where
  "settlement_semantics_post_init s = first_raise
     [validate_settlement_values s,
      sha256_text (ss_projection_sha256 s) ''projection_sha256'',
      digest_is (compute_settlement_projection_sha256 s) (ss_projection_sha256 s)
        ''projection_sha256'']"

definition binding_market_metadata_post_init :: "BindingMarketMetadata \<Rightarrow> exn option" where
  "binding_market_metadata_post_init m = first_raise
     [ticker (bmm_series_ticker m) ''series_ticker'',
      ticker (bmm_event_ticker m) ''event_ticker'',
      safe_id (bmm_event_id m) ''event_id'',
      ticker (bmm_market_ticker m) ''market_ticker'',
      safe_id (bmm_market_id m) ''market_id'',
      safe_id (bmm_yes_provider_player_id m) ''yes_provider_player_id'',
      safe_id (bmm_yes_canonical_player_id m) ''yes_canonical_player_id'',
      one_of_strings (bmm_product m) [''match_winner''] ''product'',
      sha256_text (bmm_event_catalog_sha256 m) ''event_catalog_sha256'',
      safe_id (bmm_membership_source_id m) ''membership_source_id'',
      safe_id (bmm_membership_source_version m) ''membership_source_version'',
      integer (bmm_membership_captured_wall_ns m) ''membership_captured_wall_ns'',
      sha256_text (bmm_membership_evidence_sha256 m) ''membership_evidence_sha256'',
      sha256_text (bmm_membership_projection_sha256 m) ''membership_projection_sha256'',
      sha256_text (bmm_market_text_sha256 m) ''market_text_sha256'',
      sha256_text (bmm_settlement_rule_text_sha256 m) ''settlement_rule_text_sha256'',
      digest_is (compute_membership_projection_sha256 m) (bmm_membership_projection_sha256 m)
        ''membership_projection_sha256'',
      contract_error (ss_raw_rules_sha256 (bmm_settlement m) = bmm_settlement_rule_text_sha256 m)
        ''settlement_rule_text_sha256'']"

definition yes_route :: "PlayerSide \<Rightarrow> BindingMarketMetadata \<Rightarrow> BindingRoute" where
  "yes_route side m =
     \<lparr>br_player_side = side, br_market_ticker = bmm_market_ticker m, br_contract_side = YES\<rparr>"

definition markets_agree :: "BindingMetadata \<Rightarrow> BindingMarketMetadata \<Rightarrow> BindingMarketMetadata \<Rightarrow> bool" where
  "markets_agree m home away \<longleftrightarrow>
     \<not> (bmm_yes_player_side home \<noteq> HOME
        \<or> bmm_yes_player_side away \<noteq> AWAY
        \<or> bmm_yes_canonical_player_id home \<noteq> bm_canonical_home_player_id m
        \<or> bmm_yes_canonical_player_id away \<noteq> bm_canonical_away_player_id m
        \<or> bmm_yes_provider_player_id home = bmm_yes_provider_player_id away
        \<or> bmm_market_ticker home = bmm_market_ticker away
        \<or> bmm_market_id home = bmm_market_id away
        \<or> bmm_series_ticker home \<noteq> bmm_series_ticker away
        \<or> bmm_event_ticker home \<noteq> bmm_event_ticker away
        \<or> bmm_event_id home \<noteq> bmm_event_id away
        \<or> bmm_event_catalog_sha256 home \<noteq> bmm_event_catalog_sha256 away)"

definition binding_metadata_post_init :: "BindingMetadata \<Rightarrow> exn option" where
  "binding_metadata_post_init m = first_raise
     [safe_id (bm_canonical_match_id m) ''canonical_match_id'',
      safe_id (bm_canonical_home_player_id m) ''canonical_home_player_id'',
      safe_id (bm_canonical_away_player_id m) ''canonical_away_player_id'',
      contract_error (bm_canonical_home_player_id m \<noteq> bm_canonical_away_player_id m)
        ''canonical_player_identity'',
      safe_id (bm_tournament_id m) ''tournament_id'',
      safe_id (bm_season_id m) ''season_id'',
      safe_id (bm_draw_id m) ''draw_id'',
      safe_id (bm_round_id m) ''round_id'',
      safe_id (bm_tour_id m) ''tour_id'',
      safe_id (bm_tier_id m) ''tier_id'',
      one_of_strings (bm_surface m) [''hard'', ''clay'', ''grass'', ''carpet''] ''surface'',
      sha256_text (bm_provider_snapshot_sha256 m) ''provider_snapshot_sha256'',
      sha256_text (bm_kalshi_event_sha256 m) ''kalshi_event_sha256'',
      contract_error (length (bm_markets m) = 2) ''markets'',
      contract_error (length (bm_authorized_routes m) = 2) ''authorized_routes'',
      (case bm_markets m of
         [home, away] \<Rightarrow> first_raise
           [contract_error (markets_agree m home away) ''markets'',
            binding_route_post_init (yes_route HOME home),
            binding_route_post_init (yes_route AWAY away),
            contract_error (bm_authorized_routes m = [yes_route HOME home, yes_route AWAY away])
              ''authorized_routes'']
       | _ \<Rightarrow> None)]"

definition binding_review_decision_post_init :: "BindingReviewDecision \<Rightarrow> exn option" where
  "binding_review_decision_post_init r = first_raise
     [safe_id (rv_review_artifact_id r) ''review_artifact_id'',
      sha256_text (rv_review_artifact_sha256 r) ''review_artifact_sha256'',
      integer (rv_review_artifact_created_wall_ns r) ''review_artifact_created_wall_ns'',
      safe_id (rv_binding_artifact_id r) ''binding_artifact_id'',
      sha256_text (rv_binding_artifact_sha256 r) ''binding_artifact_sha256'',
      one_of_strings (rv_decision r) [''approved''] ''decision'',
      safe_id (rv_reviewer_id r) ''reviewer_id'',
      integer (rv_reviewed_wall_ns r) ''reviewed_wall_ns'',
      sha256_text (rv_review_evidence_sha256 r) ''review_evidence_sha256'',
      contract_error (rv_reviewed_wall_ns r \<le> rv_review_artifact_created_wall_ns r)
        ''review_artifact_created_wall_ns'',
      digest_is (compute_binding_review_artifact_sha256 r) (rv_review_artifact_sha256 r)
        ''review_artifact_sha256'']"

subsection \<open>The universe of bindings\<close>

text \<open>One direction of the player bijection: a key never maps to two values.\<close>

fun bijection_loop ::
  "(('k \<times> string) list) \<Rightarrow> ('k \<rightharpoonup> string) \<Rightarrow> string \<Rightarrow> exn option" where
  "bijection_loop [] known name = None"
| "bijection_loop ((key, v) # rest) known name =
     (case known key of
        Some existing \<Rightarrow>
          if existing \<noteq> v then Some (ExpertContractError name)
          else bijection_loop rest (known(key \<mapsto> v)) name
      | None \<Rightarrow> bijection_loop rest (known(key \<mapsto> v)) name)"

definition validate_player_bijection ::
  "(string \<times> string \<times> string \<times> string) list \<Rightarrow> exn option" where
  "validate_player_bijection occurrences = first_raise
     [bijection_loop (map (\<lambda>(source, lineage, provider, canonical). ((source, lineage, provider), canonical))
        occurrences) Map.empty ''binding_manifest_provider_player_collision'',
      bijection_loop (map (\<lambda>(source, lineage, provider, canonical). ((source, lineage, canonical), provider))
        occurrences) Map.empty ''binding_manifest_canonical_player_collision'']"

definition player_occurrences ::
  "MatchBinding \<Rightarrow> BindingMetadata \<Rightarrow> (string \<times> string \<times> string \<times> string) list" where
  "player_occurrences b item =
     [(mb_provider_source_id b, mb_source_lineage_sha256 b, mb_provider_home_player_id b,
       bm_canonical_home_player_id item),
      (mb_provider_source_id b, mb_source_lineage_sha256 b, mb_provider_away_player_id b,
       bm_canonical_away_player_id item)]"

text \<open>The values seen so far, one set per kind of identity.\<close>

record seen_values =
  seen_match :: "string set"
  seen_provider :: "(string \<times> string \<times> string) set"
  seen_event_ticker :: "string set"
  seen_event_id :: "string set"
  seen_market_ticker :: "string set"
  seen_market_id :: "string set"

definition nothing_seen :: seen_values where
  "nothing_seen =
     \<lparr>seen_match = {}, seen_provider = {}, seen_event_ticker = {}, seen_event_id = {},
      seen_market_ticker = {}, seen_market_id = {}\<rparr>"

definition provider_triple :: "MatchBinding \<Rightarrow> string \<times> string \<times> string" where
  "provider_triple b = (mb_provider_source_id b, mb_revision_domain_id b, mb_provider_match_id b)"

definition new_identities ::
  "seen_values \<Rightarrow> MatchBinding \<Rightarrow> BindingMarketMetadata \<Rightarrow> BindingMarketMetadata \<Rightarrow> bool" where
  "new_identities seen b home away \<longleftrightarrow>
     mb_canonical_match_id b \<notin> seen_match seen
     \<and> provider_triple b \<notin> seen_provider seen
     \<and> mb_kalshi_event_ticker b \<notin> seen_event_ticker seen
     \<and> bmm_event_id home \<notin> seen_event_id seen
     \<and> bmm_market_ticker home \<notin> seen_market_ticker seen
     \<and> bmm_market_ticker away \<notin> insert (bmm_market_ticker home) (seen_market_ticker seen)
     \<and> bmm_market_id home \<notin> seen_market_id seen
     \<and> bmm_market_id away \<notin> insert (bmm_market_id home) (seen_market_id seen)"

definition see ::
  "seen_values \<Rightarrow> MatchBinding \<Rightarrow> BindingMarketMetadata \<Rightarrow> BindingMarketMetadata \<Rightarrow> seen_values" where
  "see seen b home away =
     \<lparr>seen_match = insert (mb_canonical_match_id b) (seen_match seen),
      seen_provider = insert (provider_triple b) (seen_provider seen),
      seen_event_ticker = insert (mb_kalshi_event_ticker b) (seen_event_ticker seen),
      seen_event_id = insert (bmm_event_id home) (seen_event_id seen),
      seen_market_ticker =
        insert (bmm_market_ticker away) (insert (bmm_market_ticker home) (seen_market_ticker seen)),
      seen_market_id =
        insert (bmm_market_id away) (insert (bmm_market_id home) (seen_market_id seen))\<rparr>"

definition binding_order_key :: "MatchBinding \<Rightarrow> string list" where
  \<comment> \<open>a tuple of five strings; Python compares tuples as Isabelle compares lists\<close>
  "binding_order_key b =
     [mb_canonical_match_id b, mb_provider_source_id b, mb_revision_domain_id b,
      mb_provider_match_id b, mb_kalshi_event_ticker b]"

definition binding_projected ::
  "MatchBinding \<Rightarrow> BindingMetadata \<Rightarrow> BindingMarketMetadata \<Rightarrow> BindingMarketMetadata \<Rightarrow> bool" where
  "binding_projected b item home away \<longleftrightarrow>
     \<not> (bm_canonical_match_id item \<noteq> mb_canonical_match_id b
        \<or> bmm_yes_provider_player_id home \<noteq> mb_provider_home_player_id b
        \<or> bmm_yes_provider_player_id away \<noteq> mb_provider_away_player_id b
        \<or> bmm_event_ticker home \<noteq> mb_kalshi_event_ticker b
        \<or> bmm_event_ticker away \<noteq> mb_kalshi_event_ticker b
        \<or> bmm_market_ticker home \<noteq> mb_home_market_ticker b
        \<or> bmm_market_ticker away \<noteq> mb_away_market_ticker b)"

definition review_times_ok :: "BindingReviewDecision \<Rightarrow> MatchBinding \<Rightarrow> bool" where
  "review_times_ok r b \<longleftrightarrow>
     \<not> (rv_reviewed_wall_ns r < mb_artifact_created_wall_ns b
        \<or> rv_review_artifact_created_wall_ns r < rv_reviewed_wall_ns r
        \<or> mb_scheduled_start_wall_ns b < rv_review_artifact_created_wall_ns r)"

fun universe_loop ::
  "BindingUniverse \<Rightarrow> string list option \<Rightarrow> seen_values \<Rightarrow> (MatchBinding \<times> BindingMetadata) list
     \<Rightarrow> exn option" where
  "universe_loop u previous seen [] = None"
| "universe_loop u previous seen ((b, item) # rest) =
     (if mb_binding_artifact_sha256 b \<noteq> bu_raw_artifact_sha256 u
      then Some (ExpertContractError ''binding_artifact_sha256'')
      else
        (case bm_markets item of
           home # away # _ \<Rightarrow> first_raise
             [contract_error (binding_projected b item home away) ''binding_projection'',
              contract_error
                (case previous of None \<Rightarrow> True | Some p \<Rightarrow> \<not> binding_order_key b \<le> p)
                ''binding_manifest_order'',
              contract_error (new_identities seen b home away) ''binding_manifest_collision'',
              contract_error
                (\<not> (mb_artifact_created_wall_ns b < bmm_membership_captured_wall_ns home
                    \<or> mb_artifact_created_wall_ns b < bmm_membership_captured_wall_ns away))
                ''binding_manifest_evidence'',
              contract_error (review_times_ok (bu_review u) b) ''binding_review_time'',
              universe_loop u (Some (binding_order_key b)) (see seen b home away) rest]
         | _ \<Rightarrow> Some LookupError))"

definition universe_pin :: "BindingUniverse \<Rightarrow> ArtifactPin" where
  "universe_pin u = \<lparr>ap_artifact_id = bu_raw_artifact_id u, ap_artifact_sha256 = bu_raw_artifact_sha256 u\<rparr>"

definition universe_pairs :: "BindingUniverse \<Rightarrow> (MatchBinding \<times> BindingMetadata) list" where
  "universe_pairs u = zip (bu_bindings u) (bu_metadata u)"

definition universe_digest :: "BindingUniverse \<Rightarrow> string result" where
  \<comment> \<open>the digest recomputed from the parts of a universe\<close>
  "universe_digest u =
     bind_result (construct artifact_pin_post_init (universe_pin u)) (\<lambda>pin.
       compute_binding_universe_sha256 pin (bu_review u) (bu_bindings u) (bu_metadata u))"

definition binding_universe_post_init :: "BindingUniverse \<Rightarrow> exn option" where
  "binding_universe_post_init u = first_raise
     [safe_id (bu_raw_artifact_id u) ''raw_artifact_id'',
      sha256_text (bu_raw_artifact_sha256 u) ''raw_artifact_sha256'',
      sha256_text (bu_universe_sha256 u) ''universe_sha256'',
      contract_error (1 \<le> length (bu_bindings u) \<and> length (bu_bindings u) \<le> 128) ''bindings'',
      contract_error (length (bu_metadata u) = length (bu_bindings u)) ''metadata'',
      contract_error
        (rv_binding_artifact_id (bu_review u) = bu_raw_artifact_id u
         \<and> rv_binding_artifact_sha256 (bu_review u) = bu_raw_artifact_sha256 u) ''review_binding'',
      universe_loop u None nothing_seen (universe_pairs u),
      validate_player_bijection (concat (map (\<lambda>(b, item). player_occurrences b item) (universe_pairs u))),
      digest_is
        (bind_result (construct artifact_pin_post_init (universe_pin u)) (\<lambda>pin.
           compute_binding_review_evidence_sha256 pin (bu_bindings u) (bu_metadata u)))
        (rv_review_evidence_sha256 (bu_review u)) ''binding_review_evidence'',
      digest_is (universe_digest u) (bu_universe_sha256 u) ''universe_sha256'']"

definition sync_policy_post_init :: "SyncPolicy \<Rightarrow> exn option" where
  "sync_policy_post_init p = first_raise
     [sha256_text (pol_universe_sha256 p) ''universe_sha256'',
      positive_integer (pol_max_score_age_ns p) ''max_score_age_ns'',
      positive_integer (pol_max_book_age_ns p) ''max_book_age_ns'',
      positive_integer (pol_max_lifecycle_age_ns p) ''max_lifecycle_age_ns'',
      integer (pol_max_score_book_skew_ns p) ''max_score_book_skew_ns'',
      integer (pol_max_clock_uncertainty_ns p) ''max_clock_uncertainty_ns'',
      probability (pol_large_book_move_threshold p) ''large_book_move_threshold'',
      positive_integer (pol_explanation_window_ns p) ''explanation_window_ns'',
      integer (pol_minimum_close_horizon_ns p) ''minimum_close_horizon_ns'']"

definition player_side_for_contract ::
  "MatchBinding \<Rightarrow> string \<Rightarrow> ContractSide \<Rightarrow> PlayerSide result" where
  "player_side_for_contract b t side =
     checked (ticker t ''ticker'')
       (if t = mb_home_market_ticker b then Inr (if side = YES then HOME else AWAY)
        else if t = mb_away_market_ticker b then Inr (if side = YES then AWAY else HOME)
        else Inl (ExpertContractError ''contract_mismatch''))"

end
