(* ===== verification/ContractsSync.thy ===== *)
theory ContractsSync
  imports ContractsBinding
begin

text \<open>
  The synchronization contracts of \<open>inci_tennis_expert/contracts.py\<close>: the cursors of a
  session, the session, the trusted snapshot and the opportunity it is published in, the
  evidence of a step and the result of a step, each with its validator and its canonical
  projection.  Field prefixes: \<open>cw_\<close> point witness, \<open>pm_\<close> pending move, \<open>tc_\<close>
  tennis cursor, \<open>em_\<close> emission, \<open>bc_\<close> book cursor, \<open>st_\<close> session, \<open>ts_\<close>
  trusted snapshot, \<open>opp_\<close> opportunity, \<open>in_\<close> input, \<open>res_\<close> result, \<open>tx_\<close>
  transition.
\<close>

subsection \<open>Data\<close>

record CausalPointWitness =
  cw_canonical_match_id :: string
  cw_correction_epoch :: int
  cw_revision :: int
  cw_event_semantic_sha256 :: string
  cw_received_monotonic_ns :: int

record PendingBookMove =
  pm_canonical_match_id :: string
  pm_ticker :: string
  pm_first_move_monotonic_ns :: int
  pm_last_move_monotonic_ns :: int
  pm_first_connection_epoch :: int
  pm_first_sequence :: int
  pm_first_event_sha256 :: string
  pm_last_connection_epoch :: int
  pm_last_sequence :: int
  pm_last_event_sha256 :: string
  pm_move_count :: int
  pm_max_magnitude :: rat
  pm_tennis_correction_epoch_floor :: "int option"
  pm_book_connection_epoch_floor :: int

record TennisSyncCursor =
  tc_canonical_match_id :: string
  tc_binding_sha256 :: string
  tc_binding_metadata_sha256 :: string
  tc_tennis :: "TennisState option"
  tc_last_state_sha256 :: "string option"
  tc_last_input_sha256 :: "string option"
  tc_last_point_witness :: "CausalPointWitness option"

record LastSyncEmission =
  em_fingerprint_sha256 :: string
  em_provider_correction_epoch :: int
  em_provider_revision :: int
  em_provider_event_semantic_sha256 :: string
  em_book_connection_epoch :: int
  em_book_sequence :: int

record BookSyncCursor =
  bc_canonical_match_id :: string
  bc_ticker :: string
  bc_binding_sha256 :: string
  bc_binding_metadata_sha256 :: string
  bc_book :: "BookState option"
  bc_last_state_sha256 :: "string option"
  bc_last_input_sha256 :: "string option"
  bc_pending_move :: "PendingBookMove option"
  bc_causal_point_witness :: "CausalPointWitness option"
  bc_consumed_point_witness :: "CausalPointWitness option"
  bc_last_emission :: "LastSyncEmission option"

record SynchronizationSessionState =
  st_universe :: BindingUniverse
  st_policy :: SyncPolicy
  st_universe_sha256 :: string
  st_sync_policy_sha256 :: string
  st_decision_sequence :: int
  st_last_observation :: "PairedTimeObservation option"
  st_tennis_cursors :: "TennisSyncCursor list"
  st_book_cursors :: "BookSyncCursor list"

record TrustedSnapshot =
  ts_decision_sequence :: int
  ts_decision_time :: PairedTimeObservation
  ts_tennis :: TennisState
  ts_book :: BookState
  ts_binding :: MatchBinding
  ts_sync_policy_sha256 :: string
  ts_causal_provider_revision :: "int option"

record OpportunityFrame =
  opp_opportunity_id :: string
  opp_universe_sha256 :: string
  opp_canonical_match_id :: string
  opp_ticker :: string
  opp_decision_sequence :: int
  opp_decision_time :: PairedTimeObservation
  opp_binding_sha256 :: string
  opp_provider_revision :: int
  opp_book_connection_epoch :: int
  opp_book_sequence :: int
  opp_snapshot_sha256 :: string
  opp_snapshot :: TrustedSnapshot

record SynchronizationInput =
  in_kind :: SyncInputKind
  in_canonical_match_id :: string
  in_ticker :: "string option"
  in_previous_state_sha256 :: "string option"
  in_provider_event :: "provider_event option"
  in_tennis_transition :: "TennisTransitionResult option"
  in_book_event :: "book_event option"
  in_book_transition :: "BookTransitionResult option"
  in_book_resnapshot_state :: "BookState option"

record SyncResult =
  res_canonical_match_id :: string
  res_ticker :: string
  res_snapshot :: "TrustedSnapshot option"
  res_opportunity :: "OpportunityFrame option"
  res_reason :: SyncReason

record SynchronizationTransitionResult =
  tx_state :: SynchronizationSessionState
  tx_input :: SynchronizationInput
  tx_input_sha256 :: string
  tx_prior_session_sha256 :: string
  tx_prior_decision_sequence :: int
  tx_observation :: PairedTimeObservation
  tx_results :: "SyncResult list"

subsection \<open>Canonical projections\<close>

definition sync_reason_pyval :: "SyncReason \<Rightarrow> pyval" where
  "sync_reason_pyval x = VEnum ''SyncReason'' (sync_reason_value x)"

definition sync_input_kind_pyval :: "SyncInputKind \<Rightarrow> pyval" where
  "sync_input_kind_pyval x = VEnum ''SyncInputKind'' (sync_input_kind_value x)"

fun provider_event_pyval :: "provider_event \<Rightarrow> pyval" where
  "provider_event_pyval (SnapshotEvent p) = provider_snapshot_pyval p"
| "provider_event_pyval (PointEvent p) = provider_point_pyval p"
| "provider_event_pyval (LifecycleEvent p) = provider_lifecycle_pyval p"

fun book_event_pyval :: "book_event \<Rightarrow> pyval" where
  "book_event_pyval (BookSnapshotEvent p) = book_snapshot_pyval p"
| "book_event_pyval (BookDeltaEvent d) = book_delta_pyval d"
| "book_event_pyval (MarketLifecycleEvent l) = market_lifecycle_pyval l"

definition causal_point_witness_pyval :: "CausalPointWitness \<Rightarrow> pyval" where
  "causal_point_witness_pyval x = VContract ''CausalPointWitness''
     [(''canonical_match_id'', VStr (cw_canonical_match_id x)),
      (''correction_epoch'', VInt (cw_correction_epoch x)),
      (''revision'', VInt (cw_revision x)),
      (''event_semantic_sha256'', VStr (cw_event_semantic_sha256 x)),
      (''received_monotonic_ns'', VInt (cw_received_monotonic_ns x))]"

definition pending_book_move_pyval :: "PendingBookMove \<Rightarrow> pyval" where
  "pending_book_move_pyval x = VContract ''PendingBookMove''
     [(''canonical_match_id'', VStr (pm_canonical_match_id x)),
      (''ticker'', VStr (pm_ticker x)),
      (''first_move_monotonic_ns'', VInt (pm_first_move_monotonic_ns x)),
      (''last_move_monotonic_ns'', VInt (pm_last_move_monotonic_ns x)),
      (''first_connection_epoch'', VInt (pm_first_connection_epoch x)),
      (''first_sequence'', VInt (pm_first_sequence x)),
      (''first_event_sha256'', VStr (pm_first_event_sha256 x)),
      (''last_connection_epoch'', VInt (pm_last_connection_epoch x)),
      (''last_sequence'', VInt (pm_last_sequence x)),
      (''last_event_sha256'', VStr (pm_last_event_sha256 x)),
      (''move_count'', VInt (pm_move_count x)),
      (''max_magnitude'', VDecimal (pm_max_magnitude x)),
      (''tennis_correction_epoch_floor'', vopt VInt (pm_tennis_correction_epoch_floor x)),
      (''book_connection_epoch_floor'', VInt (pm_book_connection_epoch_floor x))]"

definition tennis_sync_cursor_pyval :: "TennisSyncCursor \<Rightarrow> pyval" where
  "tennis_sync_cursor_pyval x = VContract ''TennisSyncCursor''
     [(''canonical_match_id'', VStr (tc_canonical_match_id x)),
      (''binding_sha256'', VStr (tc_binding_sha256 x)),
      (''binding_metadata_sha256'', VStr (tc_binding_metadata_sha256 x)),
      (''tennis'', vopt tennis_state_pyval (tc_tennis x)),
      (''last_state_sha256'', vopt VStr (tc_last_state_sha256 x)),
      (''last_input_sha256'', vopt VStr (tc_last_input_sha256 x)),
      (''last_point_witness'', vopt causal_point_witness_pyval (tc_last_point_witness x))]"

definition last_sync_emission_pyval :: "LastSyncEmission \<Rightarrow> pyval" where
  "last_sync_emission_pyval x = VContract ''LastSyncEmission''
     [(''fingerprint_sha256'', VStr (em_fingerprint_sha256 x)),
      (''provider_correction_epoch'', VInt (em_provider_correction_epoch x)),
      (''provider_revision'', VInt (em_provider_revision x)),
      (''provider_event_semantic_sha256'', VStr (em_provider_event_semantic_sha256 x)),
      (''book_connection_epoch'', VInt (em_book_connection_epoch x)),
      (''book_sequence'', VInt (em_book_sequence x))]"

definition book_sync_cursor_pyval :: "BookSyncCursor \<Rightarrow> pyval" where
  "book_sync_cursor_pyval x = VContract ''BookSyncCursor''
     [(''canonical_match_id'', VStr (bc_canonical_match_id x)),
      (''ticker'', VStr (bc_ticker x)),
      (''binding_sha256'', VStr (bc_binding_sha256 x)),
      (''binding_metadata_sha256'', VStr (bc_binding_metadata_sha256 x)),
      (''book'', vopt book_state_pyval (bc_book x)),
      (''last_state_sha256'', vopt VStr (bc_last_state_sha256 x)),
      (''last_input_sha256'', vopt VStr (bc_last_input_sha256 x)),
      (''pending_move'', vopt pending_book_move_pyval (bc_pending_move x)),
      (''causal_point_witness'', vopt causal_point_witness_pyval (bc_causal_point_witness x)),
      (''consumed_point_witness'', vopt causal_point_witness_pyval (bc_consumed_point_witness x)),
      (''last_emission'', vopt last_sync_emission_pyval (bc_last_emission x))]"

definition synchronization_session_state_pyval :: "SynchronizationSessionState \<Rightarrow> pyval" where
  "synchronization_session_state_pyval x = VContract ''SynchronizationSessionState''
     [(''universe'', binding_universe_pyval (st_universe x)),
      (''policy'', sync_policy_pyval (st_policy x)),
      (''universe_sha256'', VStr (st_universe_sha256 x)),
      (''sync_policy_sha256'', VStr (st_sync_policy_sha256 x)),
      (''decision_sequence'', VInt (st_decision_sequence x)),
      (''last_observation'', vopt paired_time_observation_pyval (st_last_observation x)),
      (''tennis_cursors'', VTuple (map tennis_sync_cursor_pyval (st_tennis_cursors x))),
      (''book_cursors'', VTuple (map book_sync_cursor_pyval (st_book_cursors x)))]"

definition trusted_snapshot_pyval :: "TrustedSnapshot \<Rightarrow> pyval" where
  "trusted_snapshot_pyval x = VContract ''TrustedSnapshot''
     [(''decision_sequence'', VInt (ts_decision_sequence x)),
      (''decision_time'', paired_time_observation_pyval (ts_decision_time x)),
      (''tennis'', tennis_state_pyval (ts_tennis x)),
      (''book'', book_state_pyval (ts_book x)),
      (''binding'', match_binding_pyval (ts_binding x)),
      (''sync_policy_sha256'', VStr (ts_sync_policy_sha256 x)),
      (''causal_provider_revision'', vopt VInt (ts_causal_provider_revision x))]"

definition opportunity_frame_pyval :: "OpportunityFrame \<Rightarrow> pyval" where
  "opportunity_frame_pyval x = VContract ''OpportunityFrame''
     [(''opportunity_id'', VStr (opp_opportunity_id x)),
      (''universe_sha256'', VStr (opp_universe_sha256 x)),
      (''canonical_match_id'', VStr (opp_canonical_match_id x)),
      (''ticker'', VStr (opp_ticker x)),
      (''decision_sequence'', VInt (opp_decision_sequence x)),
      (''decision_time'', paired_time_observation_pyval (opp_decision_time x)),
      (''binding_sha256'', VStr (opp_binding_sha256 x)),
      (''provider_revision'', VInt (opp_provider_revision x)),
      (''book_connection_epoch'', VInt (opp_book_connection_epoch x)),
      (''book_sequence'', VInt (opp_book_sequence x)),
      (''snapshot_sha256'', VStr (opp_snapshot_sha256 x)),
      (''snapshot'', trusted_snapshot_pyval (opp_snapshot x))]"

definition synchronization_input_pyval :: "SynchronizationInput \<Rightarrow> pyval" where
  "synchronization_input_pyval x = VContract ''SynchronizationInput''
     [(''kind'', sync_input_kind_pyval (in_kind x)),
      (''canonical_match_id'', VStr (in_canonical_match_id x)),
      (''ticker'', vopt VStr (in_ticker x)),
      (''previous_state_sha256'', vopt VStr (in_previous_state_sha256 x)),
      (''provider_event'', vopt provider_event_pyval (in_provider_event x)),
      (''tennis_transition'', vopt tennis_transition_result_pyval (in_tennis_transition x)),
      (''book_event'', vopt book_event_pyval (in_book_event x)),
      (''book_transition'', vopt book_transition_result_pyval (in_book_transition x)),
      (''book_resnapshot_state'', vopt book_state_pyval (in_book_resnapshot_state x))]"

definition sync_result_pyval :: "SyncResult \<Rightarrow> pyval" where
  "sync_result_pyval x = VContract ''SyncResult''
     [(''canonical_match_id'', VStr (res_canonical_match_id x)),
      (''ticker'', VStr (res_ticker x)),
      (''snapshot'', vopt trusted_snapshot_pyval (res_snapshot x)),
      (''opportunity'', vopt opportunity_frame_pyval (res_opportunity x)),
      (''reason'', sync_reason_pyval (res_reason x))]"

definition synchronization_transition_result_pyval :: "SynchronizationTransitionResult \<Rightarrow> pyval" where
  "synchronization_transition_result_pyval x = VContract ''SynchronizationTransitionResult''
     [(''state'', synchronization_session_state_pyval (tx_state x)),
      (''input'', synchronization_input_pyval (tx_input x)),
      (''input_sha256'', VStr (tx_input_sha256 x)),
      (''prior_session_sha256'', VStr (tx_prior_session_sha256 x)),
      (''prior_decision_sequence'', VInt (tx_prior_decision_sequence x)),
      (''observation'', paired_time_observation_pyval (tx_observation x)),
      (''results'', VTuple (map sync_result_pyval (tx_results x)))]"


subsection \<open>Cursors\<close>

text \<open>Python compares tuples of integers lexicographically.\<close>

definition coord_less :: "int \<times> int \<Rightarrow> int \<times> int \<Rightarrow> bool" where
  "coord_less p q \<longleftrightarrow> fst p < fst q \<or> (fst p = fst q \<and> snd p < snd q)"

definition causal_point_witness_post_init :: "CausalPointWitness \<Rightarrow> exn option" where
  "causal_point_witness_post_init w = first_raise
     [safe_id (cw_canonical_match_id w) ''canonical_match_id'',
      integer (cw_correction_epoch w) ''correction_epoch'',
      integer (cw_revision w) ''revision'',
      sha256_text (cw_event_semantic_sha256 w) ''event_semantic_sha256'',
      integer (cw_received_monotonic_ns w) ''received_monotonic_ns'']"

definition pm_first :: "PendingBookMove \<Rightarrow> int \<times> int" where
  "pm_first p = (pm_first_connection_epoch p, pm_first_sequence p)"

definition pm_last :: "PendingBookMove \<Rightarrow> int \<times> int" where
  "pm_last p = (pm_last_connection_epoch p, pm_last_sequence p)"

definition pending_book_move_post_init :: "PendingBookMove \<Rightarrow> exn option" where
  "pending_book_move_post_init p = first_raise
     [safe_id (pm_canonical_match_id p) ''canonical_match_id'',
      ticker (pm_ticker p) ''ticker'',
      integer (pm_first_move_monotonic_ns p) ''first_move_monotonic_ns'',
      integer (pm_last_move_monotonic_ns p) ''last_move_monotonic_ns'',
      integer (pm_first_connection_epoch p) ''first_connection_epoch'',
      positive_integer (pm_first_sequence p) ''first_sequence'',
      sha256_text (pm_first_event_sha256 p) ''first_event_sha256'',
      integer (pm_last_connection_epoch p) ''last_connection_epoch'',
      positive_integer (pm_last_sequence p) ''last_sequence'',
      sha256_text (pm_last_event_sha256 p) ''last_event_sha256'',
      positive_integer (pm_move_count p) ''move_count'',
      probability (pm_max_magnitude p) ''max_magnitude'',
      contract_error (pm_max_magnitude p \<noteq> 0) ''max_magnitude'',
      when_some (\<lambda>v. integer v ''tennis_correction_epoch_floor'') (pm_tennis_correction_epoch_floor p),
      integer (pm_book_connection_epoch_floor p) ''book_connection_epoch_floor'',
      contract_error (\<not> pm_last_move_monotonic_ns p < pm_first_move_monotonic_ns p)
        ''pending_move_order'',
      contract_error
        (\<not> (coord_less (pm_last p) (pm_first p)
            \<or> (pm_move_count p = 1
               \<and> (pm_first p \<noteq> pm_last p
                  \<or> pm_first_move_monotonic_ns p \<noteq> pm_last_move_monotonic_ns p
                  \<or> pm_first_event_sha256 p \<noteq> pm_last_event_sha256 p))
            \<or> (1 < pm_move_count p \<and> pm_first p = pm_last p))) ''pending_move_identity'',
      contract_error (pm_book_connection_epoch_floor p = pm_first_connection_epoch p)
        ''pending_move_floor'']"

definition cursor_witness_ok :: "TennisSyncCursor \<Rightarrow> TennisState \<Rightarrow> CausalPointWitness \<Rightarrow> bool" where
  "cursor_witness_ok c s w \<longleftrightarrow>
     \<not> (cw_canonical_match_id w \<noteq> tc_canonical_match_id c
        \<or> cw_correction_epoch w \<noteq> correction_epoch s
        \<or> revision s < cw_revision w
        \<or> last_received_monotonic_ns s < cw_received_monotonic_ns w
        \<or> (cw_revision w = revision s
           \<and> (cw_event_semantic_sha256 w \<noteq> last_event_semantic_sha256 s
              \<or> cw_received_monotonic_ns w \<noteq> last_received_monotonic_ns s)))"

definition holds_digest :: "string result \<Rightarrow> string option \<Rightarrow> bool \<Rightarrow> string \<Rightarrow> exn option" where
  \<comment> \<open>\<open>stored != computed or other is None\<close>, where computing the digest may raise\<close>
  "holds_digest computed stored other_missing name =
     (case computed of
        Inl e \<Rightarrow> Some e
      | Inr d \<Rightarrow> contract_error (stored = Some d \<and> \<not> other_missing) name)"

definition tennis_sync_cursor_post_init :: "TennisSyncCursor \<Rightarrow> exn option" where
  "tennis_sync_cursor_post_init c = first_raise
     [safe_id (tc_canonical_match_id c) ''canonical_match_id'',
      sha256_text (tc_binding_sha256 c) ''binding_sha256'',
      sha256_text (tc_binding_metadata_sha256 c) ''binding_metadata_sha256'',
      when_some (\<lambda>d. sha256_text d ''last_state_sha256'') (tc_last_state_sha256 c),
      when_some (\<lambda>d. sha256_text d ''last_input_sha256'') (tc_last_input_sha256 c),
      (case tc_tennis c of
         None \<Rightarrow>
           contract_error
             (tc_last_state_sha256 c = None \<and> tc_last_input_sha256 c = None
              \<and> tc_last_point_witness c = None) ''tennis_cursor_state''
       | Some s \<Rightarrow> first_raise
           [holds_digest (expert_contract_sha256 (tennis_state_pyval s)) (tc_last_state_sha256 c)
              (tc_last_input_sha256 c = None) ''tennis_cursor_state'',
            when_some (\<lambda>w. contract_error (cursor_witness_ok c s w) ''tennis_cursor_witness'')
              (tc_last_point_witness c)])]"

definition last_sync_emission_post_init :: "LastSyncEmission \<Rightarrow> exn option" where
  "last_sync_emission_post_init e = first_raise
     [sha256_text (em_fingerprint_sha256 e) ''fingerprint_sha256'',
      integer (em_provider_correction_epoch e) ''provider_correction_epoch'',
      integer (em_provider_revision e) ''provider_revision'',
      sha256_text (em_provider_event_semantic_sha256 e) ''provider_event_semantic_sha256'',
      integer (em_book_connection_epoch e) ''book_connection_epoch'',
      positive_integer (em_book_sequence e) ''book_sequence'']"

definition em_book :: "LastSyncEmission \<Rightarrow> int \<times> int" where
  "em_book e = (em_book_connection_epoch e, em_book_sequence e)"

definition bs_position :: "BookState \<Rightarrow> int \<times> int" where
  "bs_position b = (bs_connection_epoch b, bs_sequence b)"

definition cursor_pending_ok :: "BookSyncCursor \<Rightarrow> BookState \<Rightarrow> PendingBookMove \<Rightarrow> bool" where
  "cursor_pending_ok c b p \<longleftrightarrow>
     \<not> (pm_canonical_match_id p \<noteq> bc_canonical_match_id c
        \<or> pm_ticker p \<noteq> bc_ticker c
        \<or> coord_less (pm_last p) (pm_first p)
        \<or> coord_less (bs_position b) (pm_last p)
        \<or> bs_book_observed_monotonic_ns b < pm_last_move_monotonic_ns p)"

definition cursor_witnesses_ok :: "BookSyncCursor \<Rightarrow> bool" where
  "cursor_witnesses_ok c \<longleftrightarrow>
     (case bc_causal_point_witness c of None \<Rightarrow> True
      | Some w \<Rightarrow> cw_canonical_match_id w = bc_canonical_match_id c)
     \<and> (case bc_consumed_point_witness c of None \<Rightarrow> True
        | Some w \<Rightarrow> cw_canonical_match_id w = bc_canonical_match_id c)
     \<and> \<not> (bc_pending_move c \<noteq> None \<and> bc_causal_point_witness c \<noteq> None)
     \<and> \<not> (bc_causal_point_witness c \<noteq> None
          \<and> bc_causal_point_witness c \<noteq> bc_consumed_point_witness c)"

definition book_sync_cursor_post_init :: "BookSyncCursor \<Rightarrow> exn option" where
  "book_sync_cursor_post_init c = first_raise
     [safe_id (bc_canonical_match_id c) ''canonical_match_id'',
      ticker (bc_ticker c) ''ticker'',
      sha256_text (bc_binding_sha256 c) ''binding_sha256'',
      sha256_text (bc_binding_metadata_sha256 c) ''binding_metadata_sha256'',
      when_some (\<lambda>d. sha256_text d ''last_state_sha256'') (bc_last_state_sha256 c),
      when_some (\<lambda>d. sha256_text d ''last_input_sha256'') (bc_last_input_sha256 c),
      (case bc_book c of
         None \<Rightarrow>
           contract_error
             (bc_last_state_sha256 c = None \<and> bc_last_input_sha256 c = None
              \<and> bc_pending_move c = None \<and> bc_causal_point_witness c = None
              \<and> bc_consumed_point_witness c = None \<and> bc_last_emission c = None) ''book_cursor_state''
       | Some b \<Rightarrow> first_raise
           [contract_error (bs_ticker b = bc_ticker c) ''book_cursor_binding'',
            holds_digest (expert_contract_sha256 (book_state_pyval b)) (bc_last_state_sha256 c)
              (bc_last_input_sha256 c = None) ''book_cursor_state'',
            when_some (\<lambda>p. contract_error (cursor_pending_ok c b p) ''book_cursor_pending'')
              (bc_pending_move c),
            contract_error (cursor_witnesses_ok c) ''book_cursor_witness'',
            when_some (\<lambda>e. contract_error (\<not> coord_less (bs_position b) (em_book e))
                ''book_cursor_emission'') (bc_last_emission c)])]"

subsection \<open>Sessions\<close>

definition rewrap :: "string \<Rightarrow> exn option \<Rightarrow> exn option" where
  \<comment> \<open>\<open>except (TypeError, ValueError): raise ExpertContractError(name)\<close>\<close>
  "rewrap name v =
     (case v of None \<Rightarrow> None
      | Some e \<Rightarrow> if is_value_error e then Some (ExpertContractError name) else Some e)"

definition tennis_position :: "TennisState \<Rightarrow> int \<times> int" where
  "tennis_position s = (correction_epoch s, revision s)"

definition witness_position :: "CausalPointWitness \<Rightarrow> int \<times> int" where
  "witness_position w = (cw_correction_epoch w, cw_revision w)"

definition task5_witness_matches_tennis ::
  "CausalPointWitness \<Rightarrow> TennisState \<Rightarrow> string \<Rightarrow> bool" where
  "task5_witness_matches_tennis w s match_id \<longleftrightarrow>
     \<not> (cw_canonical_match_id w \<noteq> match_id
        \<or> coord_less (tennis_position s) (witness_position w)
        \<or> last_received_monotonic_ns s < cw_received_monotonic_ns w
        \<or> (witness_position w = tennis_position s
           \<and> (cw_event_semantic_sha256 w \<noteq> last_event_semantic_sha256 s
              \<or> cw_received_monotonic_ns w \<noteq> last_received_monotonic_ns s)))"

definition source_triple :: "MatchBinding \<Rightarrow> string \<times> string \<times> string" where
  "source_triple b = (mb_provider_source_id b, mb_revision_domain_id b, mb_source_lineage_sha256 b)"

definition single_source :: "BindingUniverse \<Rightarrow> bool" where
  \<comment> \<open>\<open>len({(source, domain, lineage) for binding in bindings}) == 1\<close>\<close>
  "single_source u \<longleftrightarrow> length (remdups (map source_triple (bu_bindings u))) = 1"

definition session_artifacts_ok :: "SynchronizationSessionState \<Rightarrow> exn option" where
  "session_artifacts_ok st =
     (case rewrap ''synchronization_session_universe''
             (binding_universe_post_init (st_universe st)) of
        Some e \<Rightarrow> Some e
      | None \<Rightarrow>
          (case universe_digest (st_universe st) of
             Inl e \<Rightarrow> rewrap ''synchronization_session_universe'' (Some e)
           | Inr computed \<Rightarrow> first_raise
               [contract_error
                  (computed = bu_universe_sha256 (st_universe st)
                   \<and> st_universe_sha256 st = computed \<and> single_source (st_universe st))
                  ''synchronization_session_universe'',
                rewrap ''synchronization_session_policy'' (sync_policy_post_init (st_policy st)),
                (if pol_universe_sha256 (st_policy st) \<noteq> computed
                 then Some (ExpertContractError ''synchronization_session_policy'')
                 else digest_is (expert_contract_sha256 (sync_policy_pyval (st_policy st)))
                        (st_sync_policy_sha256 st) ''synchronization_session_policy'')]))"

definition session_progress_ok :: "SynchronizationSessionState \<Rightarrow> bool" where
  "session_progress_ok st \<longleftrightarrow>
     \<not> (st_last_observation st = None
        \<and> (st_decision_sequence st \<noteq> 0
           \<or> list_ex (\<lambda>c. tc_tennis c \<noteq> None) (st_tennis_cursors st)
           \<or> list_ex (\<lambda>c. bc_book c \<noteq> None) (st_book_cursors st)))
     \<and> (list_ex (\<lambda>c. bc_last_emission c \<noteq> None) (st_book_cursors st)) = (0 < st_decision_sequence st)"

definition tennis_cursor_contracts :: "TennisSyncCursor \<Rightarrow> exn option" where
  "tennis_cursor_contracts c = first_raise
     [tennis_sync_cursor_post_init c,
      when_some tennis_state_post_init (tc_tennis c),
      when_some causal_point_witness_post_init (tc_last_point_witness c)]"

definition book_cursor_contracts :: "BookSyncCursor \<Rightarrow> exn option" where
  "book_cursor_contracts c = first_raise
     [book_sync_cursor_post_init c,
      when_some book_state_post_init (bc_book c),
      when_some pending_book_move_post_init (bc_pending_move c),
      when_some causal_point_witness_post_init (bc_causal_point_witness c),
      when_some causal_point_witness_post_init (bc_consumed_point_witness c),
      when_some last_sync_emission_post_init (bc_last_emission c)]"

definition session_contracts :: "SynchronizationSessionState \<Rightarrow> exn option" where
  "session_contracts st = first_raise
     [when_some paired_time_observation_post_init (st_last_observation st),
      first_raise (map tennis_cursor_contracts (st_tennis_cursors st)),
      first_raise (map book_cursor_contracts (st_book_cursors st))]"

definition bindings_by_match ::
  "BindingUniverse \<Rightarrow> string \<Rightarrow> (MatchBinding \<times> BindingMetadata) option" where
  \<comment> \<open>a dictionary comprehension: a later binding overrides an earlier one\<close>
  "bindings_by_match u =
     map_of (rev (map (\<lambda>(b, item). (mb_canonical_match_id b, (b, item))) (universe_pairs u)))"

definition expected_tennis :: "BindingUniverse \<Rightarrow> string list" where
  "expected_tennis u = sort (remdups (map (\<lambda>(b, item). mb_canonical_match_id b) (universe_pairs u)))"

definition book_keys :: "BindingUniverse \<Rightarrow> string list list" where
  \<comment> \<open>the pairs of match and ticker, written as lists of two strings\<close>
  "book_keys u = concat (map (\<lambda>b.
     [[mb_canonical_match_id b, mb_home_market_ticker b],
      [mb_canonical_match_id b, mb_away_market_ticker b]]) (bu_bindings u))"

definition expected_books :: "BindingUniverse \<Rightarrow> string list list" where
  "expected_books u = sort (book_keys u)"

definition bc_key :: "BookSyncCursor \<Rightarrow> string list" where
  "bc_key c = [bc_canonical_match_id c, bc_ticker c]"

definition cursor_binding_ok :: "BindingUniverse \<Rightarrow> string \<Rightarrow> string \<Rightarrow> string \<Rightarrow> exn option" where
  "cursor_binding_ok u match_id binding_sha metadata_sha =
     (case bindings_by_match u match_id of
        None \<Rightarrow> Some LookupError
      | Some (b, item) \<Rightarrow> first_raise
          [digest_is (expert_contract_sha256 (match_binding_pyval b)) binding_sha
             ''synchronization_session_cursors'',
           digest_is (expert_contract_sha256 (binding_metadata_pyval item)) metadata_sha
             ''synchronization_session_cursors''])"

definition session_tennis_by_match ::
  "SynchronizationSessionState \<Rightarrow> string \<Rightarrow> TennisSyncCursor option" where
  "session_tennis_by_match st =
     map_of (rev (map (\<lambda>c. (tc_canonical_match_id c, c)) (st_tennis_cursors st)))"

definition pending_floor_ok :: "TennisState option \<Rightarrow> PendingBookMove option \<Rightarrow> bool" where
  "pending_floor_ok tennis pending \<longleftrightarrow>
     (case tennis of
        None \<Rightarrow>
          \<not> (case pending of None \<Rightarrow> False | Some p \<Rightarrow> pm_tennis_correction_epoch_floor p \<noteq> None)
      | Some s \<Rightarrow>
          (case pending of None \<Rightarrow> True
           | Some p \<Rightarrow>
               (case pm_tennis_correction_epoch_floor p of None \<Rightarrow> False
                | Some lowest \<Rightarrow> \<not> correction_epoch s < lowest)))"

definition witnesses_match_tennis ::
  "TennisState option \<Rightarrow> CausalPointWitness option \<Rightarrow> BookSyncCursor \<Rightarrow> bool" where
  "witnesses_match_tennis tennis last_point c \<longleftrightarrow>
     (let witnesses = [last_point, bc_causal_point_witness c, bc_consumed_point_witness c]
      in if list_all (\<lambda>w. w = None) witnesses then True
         else
           (case tennis of
              None \<Rightarrow> False
            | Some s \<Rightarrow>
                list_all
                  (\<lambda>w. case w of None \<Rightarrow> True
                        | Some x \<Rightarrow> task5_witness_matches_tennis x s (bc_canonical_match_id c))
                  witnesses
                \<and> (case bc_causal_point_witness c of None \<Rightarrow> True
                   | Some x \<Rightarrow> cw_correction_epoch x = correction_epoch s)))"

definition em_provider :: "LastSyncEmission \<Rightarrow> int \<times> int" where
  "em_provider e = (em_provider_correction_epoch e, em_provider_revision e)"

definition emission_matches_tennis :: "TennisState option \<Rightarrow> LastSyncEmission option \<Rightarrow> bool" where
  "emission_matches_tennis tennis emission \<longleftrightarrow>
     (case emission of
        None \<Rightarrow> True
      | Some e \<Rightarrow>
          (case tennis of
             None \<Rightarrow> False
           | Some s \<Rightarrow>
               \<not> (coord_less (tennis_position s) (em_provider e)
                  \<or> (em_provider e = tennis_position s
                     \<and> em_provider_event_semantic_sha256 e \<noteq> last_event_semantic_sha256 s))))"

definition book_cursor_in_session ::
  "SynchronizationSessionState \<Rightarrow> BookSyncCursor \<Rightarrow> exn option" where
  "book_cursor_in_session st c = first_raise
     [cursor_binding_ok (st_universe st) (bc_canonical_match_id c) (bc_binding_sha256 c)
        (bc_binding_metadata_sha256 c),
      (case session_tennis_by_match st (bc_canonical_match_id c) of
         None \<Rightarrow> Some LookupError
       | Some t \<Rightarrow> first_raise
           [contract_error (pending_floor_ok (tc_tennis t) (bc_pending_move c))
              ''synchronization_session_cursors'',
            contract_error (witnesses_match_tennis (tc_tennis t) (tc_last_point_witness t) c)
              ''synchronization_session_cursors'',
            contract_error (emission_matches_tennis (tc_tennis t) (bc_last_emission c))
              ''synchronization_session_cursors''])]"

definition synchronization_session_state_post_init ::
  "SynchronizationSessionState \<Rightarrow> exn option" where
  "synchronization_session_state_post_init st = first_raise
     [sha256_text (st_universe_sha256 st) ''universe_sha256'',
      sha256_text (st_sync_policy_sha256 st) ''sync_policy_sha256'',
      integer (st_decision_sequence st) ''decision_sequence'',
      session_artifacts_ok st,
      contract_error (session_progress_ok st) ''synchronization_session_cursors'',
      rewrap ''synchronization_session_cursors'' (session_contracts st),
      contract_error
        (map tc_canonical_match_id (st_tennis_cursors st) = expected_tennis (st_universe st)
         \<and> map bc_key (st_book_cursors st) = expected_books (st_universe st))
        ''synchronization_session_cursors'',
      first_raise (map (\<lambda>c. cursor_binding_ok (st_universe st) (tc_canonical_match_id c)
        (tc_binding_sha256 c) (tc_binding_metadata_sha256 c)) (st_tennis_cursors st)),
      first_raise (map (book_cursor_in_session st) (st_book_cursors st))]"

definition synchronization_emission_fingerprint ::
  "string \<Rightarrow> string \<Rightarrow> MatchBinding \<Rightarrow> BindingMetadata \<Rightarrow> TennisState \<Rightarrow> BookState
     \<Rightarrow> string result" where
  "synchronization_emission_fingerprint universe_sha sync_policy_sha b item s book =
     checked (first_raise
       [sha256_text universe_sha ''universe_sha256'',
        sha256_text sync_policy_sha ''sync_policy_sha256''])
     (bind_result (expert_contract_sha256 (match_binding_pyval b)) (\<lambda>binding_sha.
      bind_result (expert_contract_sha256 (binding_metadata_pyval item)) (\<lambda>metadata_sha.
        domain_sha256 (''INCI-SYNC-EMISSION-FINGERPRINT-V1'' @ nul)
          (VDict
             [(''schema'', VStr ''synchronization_emission_fingerprint_v1''),
              (''universe_sha256'', VStr universe_sha),
              (''sync_policy_sha256'', VStr sync_policy_sha),
              (''binding_sha256'', VStr binding_sha),
              (''binding_metadata_sha256'', VStr metadata_sha),
              (''provider_source_id'', VStr (provider_source_id s)),
              (''revision_domain_id'', VStr (revision_domain_id s)),
              (''source_lineage_sha256'', VStr (source_lineage_sha256 s)),
              (''provider_correction_epoch'', VInt (correction_epoch s)),
              (''provider_revision'', VInt (revision s)),
              (''provider_event_semantic_sha256'', VStr (last_event_semantic_sha256 s)),
              (''ticker'', VStr (bs_ticker book)),
              (''book_connection_epoch'', VInt (bs_connection_epoch book)),
              (''book_sequence'', VInt (bs_sequence book)),
              (''book_event_sha256'', VStr (bs_last_event_sha256 book))]))))"

subsection \<open>Evidence\<close>

fun provider_event_post_init :: "provider_event \<Rightarrow> exn option" where
  "provider_event_post_init (SnapshotEvent p) = provider_snapshot_post_init p"
| "provider_event_post_init (PointEvent p) = provider_point_post_init p"
| "provider_event_post_init (LifecycleEvent p) = provider_lifecycle_post_init p"

fun book_event_post_init :: "book_event \<Rightarrow> exn option" where
  "book_event_post_init (BookSnapshotEvent p) = book_snapshot_post_init p"
| "book_event_post_init (BookDeltaEvent d) = book_delta_post_init d"
| "book_event_post_init (MarketLifecycleEvent l) = market_lifecycle_post_init l"

fun book_event_ticker :: "book_event \<Rightarrow> string" where
  "book_event_ticker (BookSnapshotEvent p) = snap_ticker p"
| "book_event_ticker (BookDeltaEvent d) = delta_ticker d"
| "book_event_ticker (MarketLifecycleEvent l) = ml_ticker l"

definition is_provider_snapshot :: "provider_event option \<Rightarrow> bool" where
  "is_provider_snapshot e \<longleftrightarrow> (case e of Some (SnapshotEvent p) \<Rightarrow> True | _ \<Rightarrow> False)"

definition is_book_snapshot :: "book_event option \<Rightarrow> bool" where
  "is_book_snapshot e \<longleftrightarrow> (case e of Some (BookSnapshotEvent p) \<Rightarrow> True | _ \<Rightarrow> False)"

definition input_shape_ok :: "SynchronizationInput \<Rightarrow> bool" where
  "input_shape_ok i \<longleftrightarrow>
     (case in_kind i of
        TENNIS_ORIGIN \<Rightarrow>
          in_ticker i = None \<and> in_previous_state_sha256 i = None
          \<and> is_provider_snapshot (in_provider_event i) \<and> in_tennis_transition i = None
          \<and> in_book_event i = None \<and> in_book_transition i = None
          \<and> in_book_resnapshot_state i = None
      | TENNIS_TRANSITION \<Rightarrow>
          in_ticker i = None \<and> in_previous_state_sha256 i \<noteq> None
          \<and> in_provider_event i \<noteq> None \<and> in_tennis_transition i \<noteq> None
          \<and> in_book_event i = None \<and> in_book_transition i = None
          \<and> in_book_resnapshot_state i = None
      | BOOK_TRANSITION \<Rightarrow>
          in_ticker i \<noteq> None
          \<and> (in_previous_state_sha256 i \<noteq> None \<or> is_book_snapshot (in_book_event i))
          \<and> in_provider_event i = None \<and> in_tennis_transition i = None
          \<and> in_book_event i \<noteq> None \<and> in_book_resnapshot_state i = None
      | BOOK_RESNAPSHOT_REQUIRED \<Rightarrow>
          in_ticker i \<noteq> None \<and> in_previous_state_sha256 i \<noteq> None
          \<and> in_provider_event i = None \<and> in_tennis_transition i = None
          \<and> in_book_event i = None \<and> in_book_transition i = None
          \<and> in_book_resnapshot_state i \<noteq> None
      | CLOCK \<Rightarrow>
          in_ticker i \<noteq> None \<and> in_previous_state_sha256 i = None
          \<and> in_provider_event i = None \<and> in_tennis_transition i = None
          \<and> in_book_event i = None \<and> in_book_transition i = None
          \<and> in_book_resnapshot_state i = None)"

definition input_tickers :: "SynchronizationInput \<Rightarrow> string list" where
  "input_tickers i =
     List.map_filter id
       [in_ticker i,
        map_option book_event_ticker (in_book_event i),
        map_option (\<lambda>r. bs_ticker (bt_state r)) (in_book_transition i),
        map_option bs_ticker (in_book_resnapshot_state i)]"

definition synchronization_input_post_init :: "SynchronizationInput \<Rightarrow> exn option" where
  "synchronization_input_post_init i = first_raise
     [safe_id (in_canonical_match_id i) ''canonical_match_id'',
      when_some (\<lambda>t. ticker t ''ticker'') (in_ticker i),
      when_some (\<lambda>d. sha256_text d ''previous_state_sha256'') (in_previous_state_sha256 i),
      contract_error (input_shape_ok i) ''synchronization_input_shape'',
      contract_error (\<not> 1 < length (remdups (input_tickers i))) ''synchronization_input_ticker'',
      when_some provider_event_post_init (in_provider_event i),
      when_some (\<lambda>r. first_raise
          [tennis_transition_result_post_init r, tennis_state_post_init (tr_state r)])
        (in_tennis_transition i),
      when_some book_event_post_init (in_book_event i),
      when_some (\<lambda>r. first_raise
          [book_transition_result_post_init r, book_state_post_init (bt_state r)])
        (in_book_transition i),
      when_some book_state_post_init (in_book_resnapshot_state i)]"

subsection \<open>Trusted snapshots and opportunities\<close>

definition binding_matches_tennis :: "MatchBinding \<Rightarrow> TennisState \<Rightarrow> bool" where
  "binding_matches_tennis b s \<longleftrightarrow>
     \<not> (provider_match_id s \<noteq> mb_provider_match_id b
        \<or> home_player_id s \<noteq> mb_provider_home_player_id b
        \<or> away_player_id s \<noteq> mb_provider_away_player_id b
        \<or> provider_source_id s \<noteq> mb_provider_source_id b
        \<or> revision_domain_id s \<noteq> mb_revision_domain_id b
        \<or> source_lineage_sha256 s \<noteq> mb_source_lineage_sha256 b
        \<or> match_format s \<noteq> mb_match_format b
        \<or> scheduled_start_wall_ns s \<noteq> mb_scheduled_start_wall_ns b)"

definition trusted_snapshot_post_init :: "TrustedSnapshot \<Rightarrow> exn option" where
  "trusted_snapshot_post_init t = first_raise
     [positive_integer (ts_decision_sequence t) ''decision_sequence'',
      sha256_text (ts_sync_policy_sha256 t) ''sync_policy_sha256'',
      when_some (\<lambda>v. first_raise
          [integer v ''causal_provider_revision'',
           contract_error (\<not> revision (ts_tennis t) < v) ''causal_provider_revision''])
        (ts_causal_provider_revision t),
      contract_error (binding_matches_tennis (ts_binding t) (ts_tennis t)) ''binding_mismatch'',
      contract_error
        (bs_ticker (ts_book t) \<in> {mb_home_market_ticker (ts_binding t), mb_away_market_ticker (ts_binding t)})
        ''book_ticker'',
      contract_error
        (\<not> (\<not> snapshot_complete (ts_tennis t)
            \<or> block_reason (ts_tennis t) \<noteq> None
            \<or> status (ts_tennis t) \<noteq> MS_LIVE
            \<or> server_for_next_point (ts_tennis t) = None
            \<or> winner (ts_tennis t) \<noteq> None
            \<or> retired_side (ts_tennis t) \<noteq> None)) ''tennis_untrusted'',
      contract_error
        (\<not> (\<not> bs_trusted (ts_book t)
            \<or> bs_sequence_gap (ts_book t)
            \<or> bs_market_status (ts_book t) \<noteq> MKT_OPEN
            \<or> \<not> (bs_yes_bids (ts_book t) \<noteq> [] \<or> bs_no_bids (ts_book t) \<noteq> []))) ''book_untrusted'',
      contract_error
        (\<not> obs_monotonic_ns (ts_decision_time t)
           < max (last_received_monotonic_ns (ts_tennis t))
               (max (bs_book_observed_monotonic_ns (ts_book t))
                  (bs_lifecycle_observed_monotonic_ns (ts_book t)))) ''decision_time'',
      contract_error
        (\<not> bs_scheduled_close_wall_ns (ts_book t) \<le> obs_wall_ns (ts_decision_time t)) ''decision_time'']"

definition opportunity_identity ::
  "string \<Rightarrow> TrustedSnapshot \<Rightarrow> string \<Rightarrow> string \<Rightarrow> pyval" where
  "opportunity_identity universe_sha t binding_sha snapshot_sha =
     VDict
       [(''universe_sha256'', VStr universe_sha),
        (''canonical_match_id'', VStr (mb_canonical_match_id (ts_binding t))),
        (''ticker'', VStr (bs_ticker (ts_book t))),
        (''decision_sequence'', VInt (ts_decision_sequence t)),
        (''decision_time'', paired_time_observation_pyval (ts_decision_time t)),
        (''binding_sha256'', VStr binding_sha),
        (''provider_revision'', VInt (revision (ts_tennis t))),
        (''book_connection_epoch'', VInt (bs_connection_epoch (ts_book t))),
        (''book_sequence'', VInt (bs_sequence (ts_book t))),
        (''snapshot_sha256'', VStr snapshot_sha)]"

definition opportunity_id_of :: "string \<Rightarrow> TrustedSnapshot \<Rightarrow> string \<Rightarrow> string \<Rightarrow> string result" where
  "opportunity_id_of universe_sha t binding_sha snapshot_sha =
     domain_sha256 (''INCI-OPPORTUNITY-ID-V1'' @ nul)
       (opportunity_identity universe_sha t binding_sha snapshot_sha)"

definition opportunity_frame_post_init :: "OpportunityFrame \<Rightarrow> exn option" where
  "opportunity_frame_post_init f = first_raise
     [sha256_text (opp_opportunity_id f) ''opportunity_id'',
      sha256_text (opp_universe_sha256 f) ''universe_sha256'',
      safe_id (opp_canonical_match_id f) ''canonical_match_id'',
      ticker (opp_ticker f) ''ticker'',
      positive_integer (opp_decision_sequence f) ''decision_sequence'',
      sha256_text (opp_binding_sha256 f) ''binding_sha256'',
      integer (opp_provider_revision f) ''provider_revision'',
      integer (opp_book_connection_epoch f) ''book_connection_epoch'',
      positive_integer (opp_book_sequence f) ''book_sequence'',
      sha256_text (opp_snapshot_sha256 f) ''snapshot_sha256'',
      (case (expert_contract_sha256 (match_binding_pyval (ts_binding (opp_snapshot f))),
             expert_contract_sha256 (trusted_snapshot_pyval (opp_snapshot f))) of
         (Inl e, _) \<Rightarrow> Some e
       | (Inr binding_digest, Inl e) \<Rightarrow> Some e
       | (Inr binding_digest, Inr snapshot_digest) \<Rightarrow> first_raise
           [contract_error
              (\<not> (opp_canonical_match_id f \<noteq> mb_canonical_match_id (ts_binding (opp_snapshot f))
                  \<or> opp_ticker f \<noteq> bs_ticker (ts_book (opp_snapshot f))
                  \<or> opp_decision_sequence f \<noteq> ts_decision_sequence (opp_snapshot f)
                  \<or> opp_decision_time f \<noteq> ts_decision_time (opp_snapshot f)
                  \<or> opp_binding_sha256 f \<noteq> binding_digest
                  \<or> opp_provider_revision f \<noteq> revision (ts_tennis (opp_snapshot f))
                  \<or> opp_book_connection_epoch f \<noteq> bs_connection_epoch (ts_book (opp_snapshot f))
                  \<or> opp_book_sequence f \<noteq> bs_sequence (ts_book (opp_snapshot f))
                  \<or> opp_snapshot_sha256 f \<noteq> snapshot_digest)) ''opportunity_snapshot_mismatch'',
            digest_is (opportunity_id_of (opp_universe_sha256 f) (opp_snapshot f) binding_digest
                snapshot_digest) (opp_opportunity_id f) ''opportunity_id''])]"

subsection \<open>Results\<close>

definition sync_result_post_init :: "SyncResult \<Rightarrow> exn option" where
  "sync_result_post_init r = first_raise
     [safe_id (res_canonical_match_id r) ''canonical_match_id'',
      ticker (res_ticker r) ''ticker'',
      contract_error
        (if res_reason r = SR_TRUSTED_SYNCHRONIZED
         then res_snapshot r \<noteq> None \<and> res_opportunity r \<noteq> None
         else res_snapshot r = None \<and> res_opportunity r = None) ''sync_result_shape'',
      (case (res_snapshot r, res_opportunity r) of
         (Some s, Some f) \<Rightarrow> first_raise
           [rewrap ''sync_result_snapshot'' (first_raise
              [paired_time_observation_post_init (ts_decision_time s),
               tennis_state_post_init (ts_tennis s),
               book_state_post_init (ts_book s),
               match_binding_post_init (ts_binding s),
               trusted_snapshot_post_init s,
               opportunity_frame_post_init f]),
            contract_error
              (\<not> (mb_canonical_match_id (ts_binding s) \<noteq> res_canonical_match_id r
                  \<or> bs_ticker (ts_book s) \<noteq> res_ticker r
                  \<or> opp_canonical_match_id f \<noteq> res_canonical_match_id r
                  \<or> opp_ticker f \<noteq> res_ticker r
                  \<or> opp_snapshot f \<noteq> s)) ''sync_result_snapshot'']
       | _ \<Rightarrow> None)]"

definition result_contracts :: "SyncResult \<Rightarrow> exn option" where
  "result_contracts r = first_raise
     [sync_result_post_init r,
      when_some (\<lambda>s. first_raise
          [paired_time_observation_post_init (ts_decision_time s),
           tennis_state_post_init (ts_tennis s),
           book_state_post_init (ts_book s),
           match_binding_post_init (ts_binding s),
           trusted_snapshot_post_init s]) (res_snapshot r),
      when_some opportunity_frame_post_init (res_opportunity r)]"

definition is_trusted :: "SyncResult \<Rightarrow> bool" where
  "is_trusted r \<longleftrightarrow> res_reason r = SR_TRUSTED_SYNCHRONIZED"

definition results_expected ::
  "SynchronizationInput \<Rightarrow> (MatchBinding \<times> BindingMetadata) list \<Rightarrow> SyncResult list \<Rightarrow> bool" where
  "results_expected i pairs results \<longleftrightarrow>
     (if in_kind i \<in> {TENNIS_ORIGIN, TENNIS_TRANSITION} then
        (case pairs of
           [(b, item)] \<Rightarrow>
             length results = 2
             \<and> list_all (\<lambda>r. res_canonical_match_id r = in_canonical_match_id i) results
             \<and> map res_ticker results = sort [mb_home_market_ticker b, mb_away_market_ticker b]
         | _ \<Rightarrow> False)
      else
        length pairs = 1
        \<and> (case results of
             [r] \<Rightarrow> res_canonical_match_id r = in_canonical_match_id i
                   \<and> Some (res_ticker r) = in_ticker i
           | _ \<Rightarrow> False))"

definition sequences_consecutive :: "int \<Rightarrow> int \<Rightarrow> SyncResult list \<Rightarrow> bool" where
  "sequences_consecutive prior current trusted \<longleftrightarrow>
     current = prior + int (length trusted)
     \<and> List.map_filter (\<lambda>r. map_option ts_decision_sequence (res_snapshot r)) trusted
       = [prior + 1..current]"

definition trusted_result_ok ::
  "SynchronizationTransitionResult \<Rightarrow> (MatchBinding \<times> BindingMetadata) list \<Rightarrow> SyncResult
     \<Rightarrow> exn option" where
  "trusted_result_ok x pairs r =
     (let fail = Some (ExpertContractError ''synchronization_transition_results'');
          tennis_matches = filter (\<lambda>c. tc_canonical_match_id c = in_canonical_match_id (tx_input x))
            (st_tennis_cursors (tx_state x));
          book_matches = filter (\<lambda>c. bc_canonical_match_id c = res_canonical_match_id r
            \<and> bc_ticker c = res_ticker r) (st_book_cursors (tx_state x))
      in case (res_snapshot r, res_opportunity r) of
           (Some s, Some f) \<Rightarrow>
             (case (pairs, tennis_matches, book_matches) of
                ([(b, item)], [tc], [bc]) \<Rightarrow>
                  (case bc_last_emission bc of
                     None \<Rightarrow> fail
                   | Some e \<Rightarrow>
                       if ts_binding s \<noteq> b
                          \<or> ts_decision_time s \<noteq> tx_observation x
                          \<or> tc_tennis tc \<noteq> Some (ts_tennis s)
                          \<or> bc_book bc \<noteq> Some (ts_book s)
                          \<or> ts_sync_policy_sha256 s \<noteq> st_sync_policy_sha256 (tx_state x)
                          \<or> opp_universe_sha256 f \<noteq> st_universe_sha256 (tx_state x)
                          \<or> ts_causal_provider_revision s
                             \<noteq> map_option cw_revision (bc_causal_point_witness bc)
                          \<or> em_provider_correction_epoch e \<noteq> correction_epoch (ts_tennis s)
                          \<or> em_provider_revision e \<noteq> revision (ts_tennis s)
                          \<or> em_provider_event_semantic_sha256 e \<noteq> last_event_semantic_sha256 (ts_tennis s)
                          \<or> em_book_connection_epoch e \<noteq> bs_connection_epoch (ts_book s)
                          \<or> em_book_sequence e \<noteq> bs_sequence (ts_book s)
                       then fail
                       else digest_is
                              (synchronization_emission_fingerprint (st_universe_sha256 (tx_state x))
                                 (st_sync_policy_sha256 (tx_state x)) b item (ts_tennis s) (ts_book s))
                              (em_fingerprint_sha256 e) ''synchronization_transition_results'')
              | _ \<Rightarrow> fail)
         | _ \<Rightarrow> Some AssertionError)"

definition binding_pairs ::
  "BindingUniverse \<Rightarrow> string \<Rightarrow> (MatchBinding \<times> BindingMetadata) list" where
  "binding_pairs u match_id = filter (\<lambda>(b, item). mb_canonical_match_id b = match_id) (universe_pairs u)"

definition synchronization_transition_result_post_init ::
  "SynchronizationTransitionResult \<Rightarrow> exn option" where
  "synchronization_transition_result_post_init x =
     (let pairs = binding_pairs (st_universe (tx_state x)) (in_canonical_match_id (tx_input x));
          trusted = filter is_trusted (tx_results x)
      in first_raise
        [sha256_text (tx_input_sha256 x) ''input_sha256'',
         sha256_text (tx_prior_session_sha256 x) ''prior_session_sha256'',
         integer (tx_prior_decision_sequence x) ''prior_decision_sequence'',
         rewrap ''synchronization_transition_input'' (synchronization_input_post_init (tx_input x)),
         digest_is (expert_contract_sha256 (synchronization_input_pyval (tx_input x)))
           (tx_input_sha256 x) ''synchronization_transition_input'',
         rewrap ''synchronization_transition_state'' (first_raise
           [synchronization_session_state_post_init (tx_state x),
            paired_time_observation_post_init (tx_observation x)]),
         contract_error (st_last_observation (tx_state x) = Some (tx_observation x))
           ''synchronization_transition_state'',
         rewrap ''synchronization_transition_results'' (first_raise (map result_contracts (tx_results x))),
         contract_error (results_expected (tx_input x) pairs (tx_results x))
           ''synchronization_transition_results'',
         contract_error
           (sequences_consecutive (tx_prior_decision_sequence x) (st_decision_sequence (tx_state x)) trusted)
           ''synchronization_transition_results'',
         first_raise (map (trusted_result_ok x pairs) trusted)])"

end
