(* ===== verification/Synchronizer.thy ===== *)
theory Synchronizer
  imports TennisScore MarketBook ContractsSync
begin

text \<open>
  The synchronizer of \<open>inci_tennis_expert/synchronizer.py\<close>: it joins the tennis machine and
  the order book machine of a match.  A session holds one cursor per match and one per market;
  a step takes evidence (a snapshot of a match, a tennis transition, a book transition, a request
  to take a new book snapshot, or the clock alone), recomputes the transition, stores it in the
  cursor and evaluates the markets the evidence concerns.  \<open>session_drift\<close> is the model of
  \<open>_drift()\<close>.  Every call of a contract's constructor is \<open>construct\<close> with its validator.
\<close>

subsection \<open>Drift\<close>

definition session_drift :: "'a result" where
  "session_drift = Inl SynchronizationSessionDriftError"

definition drift_on_value_error :: "'a result \<Rightarrow> 'a result" where
  \<comment> \<open>\<open>except (TypeError, ValueError): _drift()\<close>\<close>
  "drift_on_value_error r =
     (case r of Inl e \<Rightarrow> if is_value_error e then session_drift else Inl e | Inr x \<Rightarrow> Inr x)"

definition drift_on_error :: "'a result \<Rightarrow> 'a result" where
  \<comment> \<open>\<open>except (TypeError, ValueError, RuntimeError): _drift()\<close>\<close>
  "drift_on_error r =
     (case r of Inl e \<Rightarrow> if is_contract_or_runtime_error e then session_drift else Inl e
      | Inr x \<Rightarrow> Inr x)"

definition validated :: "exn option \<Rightarrow> unit result" where
  "validated v = checked v (Inr ())"

subsection \<open>Rebuilding cursors and sessions\<close>

definition make_session :: "SynchronizationSessionState \<Rightarrow> SynchronizationSessionState result" where
  \<comment> \<open>\<open>_session(prior, ...)\<close>: the argument is the prior session with the new fields in place\<close>
  "make_session st = construct synchronization_session_state_post_init st"

definition make_tennis_cursor ::
  "TennisSyncCursor \<Rightarrow> TennisState option \<Rightarrow> string option \<Rightarrow> string option
     \<Rightarrow> CausalPointWitness option \<Rightarrow> TennisSyncCursor result" where
  "make_tennis_cursor prior tennis state_sha input_sha point_witness =
     construct tennis_sync_cursor_post_init
       (prior\<lparr>tc_tennis := tennis, tc_last_state_sha256 := state_sha,
              tc_last_input_sha256 := input_sha, tc_last_point_witness := point_witness\<rparr>)"

definition make_book_cursor :: "BookSyncCursor \<Rightarrow> BookSyncCursor result" where
  \<comment> \<open>\<open>_book_cursor(prior, ...)\<close>: the argument is the prior cursor with the new fields in place\<close>
  "make_book_cursor c = construct book_sync_cursor_post_init c"

definition with_observation ::
  "SynchronizationSessionState \<Rightarrow> PairedTimeObservation \<Rightarrow> SynchronizationSessionState result" where
  "with_observation st now = make_session (st\<lparr>st_last_observation := Some now\<rparr>)"

definition put_tennis_cursor :: "TennisSyncCursor \<Rightarrow> TennisSyncCursor list \<Rightarrow> TennisSyncCursor list" where
  "put_tennis_cursor c cs =
     map (\<lambda>item. if tc_canonical_match_id item = tc_canonical_match_id c then c else item) cs"

definition put_book_cursor :: "BookSyncCursor \<Rightarrow> BookSyncCursor list \<Rightarrow> BookSyncCursor list" where
  "put_book_cursor c cs =
     map (\<lambda>item. if bc_canonical_match_id item = bc_canonical_match_id c \<and> bc_ticker item = bc_ticker c
                 then c else item) cs"

definition replace_book_cursor ::
  "SynchronizationSessionState \<Rightarrow> BookSyncCursor \<Rightarrow> SynchronizationSessionState result" where
  "replace_book_cursor st c =
     make_session (st\<lparr>st_book_cursors := put_book_cursor c (st_book_cursors st)\<rparr>)"

subsection \<open>Selection\<close>

definition the_only :: "'a list \<Rightarrow> 'a result" where
  "the_only xs = (case xs of [x] \<Rightarrow> Inr x | _ \<Rightarrow> session_drift)"

definition find_binding ::
  "SynchronizationSessionState \<Rightarrow> string \<Rightarrow> (MatchBinding \<times> BindingMetadata) result" where
  "find_binding st match_id =
     the_only (filter (\<lambda>(b, item). mb_canonical_match_id b = match_id) (universe_pairs (st_universe st)))"

definition selected_tennis_cursor ::
  "SynchronizationSessionState \<Rightarrow> string \<Rightarrow> TennisSyncCursor result" where
  "selected_tennis_cursor st match_id =
     the_only (filter (\<lambda>c. tc_canonical_match_id c = match_id) (st_tennis_cursors st))"

definition selected_book_cursor ::
  "SynchronizationSessionState \<Rightarrow> string \<Rightarrow> string \<Rightarrow> BookSyncCursor result" where
  "selected_book_cursor st match_id t =
     the_only (filter (\<lambda>c. bc_canonical_match_id c = match_id \<and> bc_ticker c = t) (st_book_cursors st))"

subsection \<open>The universe of a session (\<open>match_binding.py\<close>)\<close>

definition binding_universe_sha256 :: "BindingUniverse \<Rightarrow> string result" where
  "binding_universe_sha256 u =
     checked (binding_universe_post_init u)
       (bind_result (universe_digest u) (\<lambda>computed.
          if computed \<noteq> bu_universe_sha256 u then Inl (ExpertContractError ''universe_sha256'')
          else Inr computed))"

definition binding_metadata_for :: "BindingUniverse \<Rightarrow> MatchBinding \<Rightarrow> BindingMetadata result" where
  "binding_metadata_for u b =
     checked (binding_universe_post_init u)
       (case filter (\<lambda>i. bu_bindings u ! i = b) [0..<length (bu_bindings u)] of
          [i] \<Rightarrow> if i < length (bu_metadata u) then Inr (bu_metadata u ! i) else Inl LookupError
        | _ \<Rightarrow> Inl (ExpertContractError ''binding_not_in_universe''))"

definition resolve_binding :: "TennisState \<Rightarrow> string \<Rightarrow> BindingUniverse \<Rightarrow> MatchBinding result" where
  "resolve_binding s event_ticker u =
     checked (first_raise
         [ticker event_ticker ''kalshi_event_ticker'',
          tennis_state_post_init s,
          binding_universe_post_init u])
       (case filter (\<lambda>b.
               mb_provider_source_id b = provider_source_id s
               \<and> mb_revision_domain_id b = revision_domain_id s
               \<and> mb_source_lineage_sha256 b = source_lineage_sha256 s
               \<and> mb_provider_match_id b = provider_match_id s
               \<and> mb_provider_home_player_id b = home_player_id s
               \<and> mb_provider_away_player_id b = away_player_id s
               \<and> mb_match_format b = match_format s
               \<and> mb_scheduled_start_wall_ns b = scheduled_start_wall_ns s
               \<and> mb_kalshi_event_ticker b = event_ticker) (bu_bindings u) of
          [b] \<Rightarrow> Inr b
        | _ \<Rightarrow> Inl (ExpertContractError ''binding_not_found''))"

definition require_authorized_route ::
  "BindingUniverse \<Rightarrow> MatchBinding \<Rightarrow> string \<Rightarrow> ContractSide \<Rightarrow> BindingRoute result" where
  "require_authorized_route u b market_ticker side =
     checked (binding_universe_post_init u)
       (bind_result (binding_metadata_for u b) (\<lambda>item.
        checked (ticker market_ticker ''market_ticker'')
          (case find (\<lambda>r. br_market_ticker r = market_ticker \<and> br_contract_side r = side)
                  (bm_authorized_routes item) of
             Some r \<Rightarrow> Inr r
           | None \<Rightarrow> Inl (ExpertContractError ''binding_route_unsupported''))))"

subsection \<open>Opening a session\<close>

definition empty_tennis_cursor :: "MatchBinding \<times> BindingMetadata \<Rightarrow> TennisSyncCursor result" where
  "empty_tennis_cursor = (\<lambda>(b, item).
     bind_result (expert_contract_sha256 (match_binding_pyval b)) (\<lambda>binding_sha.
     bind_result (expert_contract_sha256 (binding_metadata_pyval item)) (\<lambda>metadata_sha.
       construct tennis_sync_cursor_post_init
         \<lparr>tc_canonical_match_id = mb_canonical_match_id b,
          tc_binding_sha256 = binding_sha,
          tc_binding_metadata_sha256 = metadata_sha,
          tc_tennis = None,
          tc_last_state_sha256 = None,
          tc_last_input_sha256 = None,
          tc_last_point_witness = None\<rparr>)))"

definition empty_book_cursor :: "MatchBinding \<times> BindingMetadata \<Rightarrow> string \<Rightarrow> BookSyncCursor result" where
  "empty_book_cursor = (\<lambda>(b, item) t.
     bind_result (expert_contract_sha256 (match_binding_pyval b)) (\<lambda>binding_sha.
     bind_result (expert_contract_sha256 (binding_metadata_pyval item)) (\<lambda>metadata_sha.
       construct book_sync_cursor_post_init
         \<lparr>bc_canonical_match_id = mb_canonical_match_id b,
          bc_ticker = t,
          bc_binding_sha256 = binding_sha,
          bc_binding_metadata_sha256 = metadata_sha,
          bc_book = None,
          bc_last_state_sha256 = None,
          bc_last_input_sha256 = None,
          bc_pending_move = None,
          bc_causal_point_witness = None,
          bc_consumed_point_witness = None,
          bc_last_emission = None\<rparr>)))"

definition empty_book_cursors :: "MatchBinding \<times> BindingMetadata \<Rightarrow> BookSyncCursor list result" where
  "empty_book_cursors p =
     map_result (empty_book_cursor p) [mb_home_market_ticker (fst p), mb_away_market_ticker (fst p)]"

definition check_indexed :: "BindingUniverse \<Rightarrow> MatchBinding \<times> BindingMetadata \<Rightarrow> unit result" where
  "check_indexed u = (\<lambda>(b, item).
     bind_result (drift_on_value_error (binding_metadata_for u b)) (\<lambda>found.
       if found \<noteq> item then session_drift else Inr ()))"

definition synchronization_session_from_artifacts ::
  "BindingUniverse \<Rightarrow> SyncPolicy \<Rightarrow> SynchronizationSessionState result" where
  "synchronization_session_from_artifacts u p =
     bind_result (drift_on_value_error
         (bind_result (binding_universe_sha256 u) (\<lambda>universe_sha.
          checked (sync_policy_post_init p) (Inr universe_sha)))) (\<lambda>universe_sha.
     if pol_universe_sha256 p \<noteq> universe_sha then session_drift
     else if \<not> single_source u then session_drift
     else
       bind_result (map_result (check_indexed u) (universe_pairs u)) (\<lambda>_.
       bind_result (map_result empty_tennis_cursor
           (sort_key (\<lambda>(b, item). mb_canonical_match_id b) (universe_pairs u))) (\<lambda>tennis_cursors.
       bind_result (map_result empty_book_cursors (universe_pairs u)) (\<lambda>book_cursors.
       bind_result (expert_contract_sha256 (sync_policy_pyval p)) (\<lambda>policy_sha.
         construct synchronization_session_state_post_init
           \<lparr>st_universe = u,
            st_policy = p,
            st_universe_sha256 = universe_sha,
            st_sync_policy_sha256 = policy_sha,
            st_decision_sequence = 0,
            st_last_observation = None,
            st_tennis_cursors = tennis_cursors,
            st_book_cursors = sort_key bc_key (concat book_cursors)\<rparr>)))))"

definition assert_synchronization_session_compatible ::
  "SynchronizationSessionState \<Rightarrow> BindingUniverse \<Rightarrow> SyncPolicy \<Rightarrow> unit result" where
  "assert_synchronization_session_compatible st u p =
     drift_on_error
       (checked (first_raise
          [binding_universe_post_init u,
           sync_policy_post_init p,
           synchronization_session_state_post_init st])
        (bind_result (binding_universe_sha256 u) (\<lambda>computed.
           if st_universe st \<noteq> u \<or> st_policy st \<noteq> p \<or> st_universe_sha256 st \<noteq> computed
           then session_drift
           else
             bind_result (expert_contract_sha256 (sync_policy_pyval p)) (\<lambda>policy_sha.
             if st_sync_policy_sha256 st \<noteq> policy_sha \<or> pol_universe_sha256 p \<noteq> computed
             then session_drift
             else
               bind_result (map_result (\<lambda>(b, item).
                   bind_result (binding_metadata_for u b) (\<lambda>found.
                     if found \<noteq> item then session_drift else Inr ())) (universe_pairs u)) (\<lambda>_.
               bind_result (map_result (\<lambda>c.
                   case tc_tennis c of None \<Rightarrow> Inr () | Some s \<Rightarrow> validate_tennis_state s)
                   (st_tennis_cursors st)) (\<lambda>_.
               bind_result (map_result (\<lambda>c. validated (when_some book_state_post_init (bc_book c)))
                   (st_book_cursors st)) (\<lambda>_.
               Inr ())))))))"

subsection \<open>Pending moves and point witnesses\<close>

definition point_identity :: "CausalPointWitness \<Rightarrow> string \<times> int \<times> int \<times> string" where
  "point_identity w =
     (cw_canonical_match_id w, cw_correction_epoch w, cw_revision w, cw_event_semantic_sha256 w)"

definition explains ::
  "BookSyncCursor \<Rightarrow> PendingBookMove \<Rightarrow> CausalPointWitness \<Rightarrow> TennisState \<Rightarrow> SyncPolicy \<Rightarrow> bool" where
  "explains c pending w s p \<longleftrightarrow>
     \<not> (pm_tennis_correction_epoch_floor pending = None
        \<or> cw_canonical_match_id w \<noteq> pm_canonical_match_id pending
        \<or> cw_correction_epoch w \<noteq> correction_epoch s
        \<or> (case bc_consumed_point_witness c of
             None \<Rightarrow> False
           | Some used \<Rightarrow> point_identity w = point_identity used)
        \<or> pm_first_move_monotonic_ns pending < cw_received_monotonic_ns w
        \<or> pol_explanation_window_ns p < pm_last_move_monotonic_ns pending - cw_received_monotonic_ns w)"

definition explain_pending ::
  "BookSyncCursor \<Rightarrow> CausalPointWitness option \<Rightarrow> TennisState option \<Rightarrow> SyncPolicy
     \<Rightarrow> BookSyncCursor result" where
  "explain_pending c witness tennis p =
     (case (bc_pending_move c, witness) of
        (Some pending, Some w) \<Rightarrow>
          if pm_tennis_correction_epoch_floor pending = None
             \<or> cw_canonical_match_id w \<noteq> pm_canonical_match_id pending
          then Inr c
          else
            (case tennis of
               None \<Rightarrow> Inl AttributeError
             | Some s \<Rightarrow>
                 if \<not> explains c pending w s p then Inr c
                 else make_book_cursor
                        (c\<lparr>bc_pending_move := None, bc_causal_point_witness := Some w,
                           bc_consumed_point_witness := Some w\<rparr>))
      | _ \<Rightarrow> Inr c)"

definition pending_with_floor :: "PendingBookMove \<Rightarrow> int \<Rightarrow> PendingBookMove result" where
  "pending_with_floor pending epoch =
     construct pending_book_move_post_init
       (pending\<lparr>pm_tennis_correction_epoch_floor := Some epoch\<rparr>)"

definition new_pending ::
  "BookSyncCursor \<Rightarrow> BookTransitionResult \<Rightarrow> TennisState option \<Rightarrow> PendingBookMove result" where
  "new_pending c r tennis =
     (case (bt_move_observed_monotonic_ns r, bt_accepted_event_sha256 r) of
        (Some observed, Some digest) \<Rightarrow>
          construct pending_book_move_post_init
            \<lparr>pm_canonical_match_id = bc_canonical_match_id c,
             pm_ticker = bc_ticker c,
             pm_first_move_monotonic_ns = observed,
             pm_last_move_monotonic_ns = observed,
             pm_first_connection_epoch = bt_connection_epoch r,
             pm_first_sequence = bt_sequence r,
             pm_first_event_sha256 = digest,
             pm_last_connection_epoch = bt_connection_epoch r,
             pm_last_sequence = bt_sequence r,
             pm_last_event_sha256 = digest,
             pm_move_count = 1,
             pm_max_magnitude = bt_executable_move r,
             pm_tennis_correction_epoch_floor = map_option correction_epoch tennis,
             pm_book_connection_epoch_floor = bt_connection_epoch r\<rparr>
      | _ \<Rightarrow> Inl AssertionError)"

definition extended_pending :: "PendingBookMove \<Rightarrow> BookTransitionResult \<Rightarrow> PendingBookMove result" where
  "extended_pending pending r =
     (case (bt_move_observed_monotonic_ns r, bt_accepted_event_sha256 r) of
        (Some observed, Some digest) \<Rightarrow>
          construct pending_book_move_post_init
            (pending\<lparr>pm_last_move_monotonic_ns := observed,
                     pm_last_connection_epoch := bt_connection_epoch r,
                     pm_last_sequence := bt_sequence r,
                     pm_last_event_sha256 := digest,
                     pm_move_count := pm_move_count pending + 1,
                     pm_max_magnitude := max (pm_max_magnitude pending) (bt_executable_move r)\<rparr>)
      | _ \<Rightarrow> Inl AssertionError)"

definition paired_reset :: "PendingBookMove \<Rightarrow> TennisState option \<Rightarrow> BookState \<Rightarrow> bool" where
  "paired_reset pending tennis book \<longleftrightarrow>
     (case (tennis, pm_tennis_correction_epoch_floor pending) of
        (Some s, Some lowest) \<Rightarrow>
          lowest < correction_epoch s
          \<and> pm_book_connection_epoch_floor pending < bs_connection_epoch book
          \<and> pm_last_move_monotonic_ns pending \<le> last_received_monotonic_ns s
          \<and> pm_last_move_monotonic_ns pending \<le> bs_book_observed_monotonic_ns book
      | _ \<Rightarrow> False)"

subsection \<open>Evaluation of a market\<close>

definition binding_drift :: "TennisState \<Rightarrow> MatchBinding \<Rightarrow> bool" where
  "binding_drift s b \<longleftrightarrow>
     provider_match_id s \<noteq> mb_provider_match_id b
     \<or> home_player_id s \<noteq> mb_provider_home_player_id b
     \<or> away_player_id s \<noteq> mb_provider_away_player_id b
     \<or> provider_source_id s \<noteq> mb_provider_source_id b
     \<or> revision_domain_id s \<noteq> mb_revision_domain_id b
     \<or> source_lineage_sha256 s \<noteq> mb_source_lineage_sha256 b
     \<or> match_format s \<noteq> mb_match_format b
     \<or> scheduled_start_wall_ns s \<noteq> mb_scheduled_start_wall_ns b"

definition fingerprint ::
  "SynchronizationSessionState \<Rightarrow> MatchBinding \<Rightarrow> BindingMetadata \<Rightarrow> TennisState \<Rightarrow> BookState
     \<Rightarrow> string result" where
  "fingerprint st b item s book =
     synchronization_emission_fingerprint (st_universe_sha256 st) (st_sync_policy_sha256 st) b item s book"

definition opportunity ::
  "SynchronizationSessionState \<Rightarrow> MatchBinding \<Rightarrow> TrustedSnapshot \<Rightarrow> OpportunityFrame result" where
  "opportunity st b t =
     bind_result (expert_contract_sha256 (match_binding_pyval b)) (\<lambda>binding_sha.
     bind_result (expert_contract_sha256 (trusted_snapshot_pyval t)) (\<lambda>snapshot_sha.
     bind_result (domain_sha256 (''INCI-OPPORTUNITY-ID-V1'' @ nul)
       (VDict
         [(''universe_sha256'', VStr (st_universe_sha256 st)),
          (''canonical_match_id'', VStr (mb_canonical_match_id b)),
          (''ticker'', VStr (bs_ticker (ts_book t))),
          (''decision_sequence'', VInt (ts_decision_sequence t)),
          (''decision_time'', paired_time_observation_pyval (ts_decision_time t)),
          (''binding_sha256'', VStr binding_sha),
          (''provider_revision'', VInt (revision (ts_tennis t))),
          (''book_connection_epoch'', VInt (bs_connection_epoch (ts_book t))),
          (''book_sequence'', VInt (bs_sequence (ts_book t))),
          (''snapshot_sha256'', VStr snapshot_sha)])) (\<lambda>opportunity_id.
     construct opportunity_frame_post_init
       \<lparr>opp_opportunity_id = opportunity_id,
        opp_universe_sha256 = st_universe_sha256 st,
        opp_canonical_match_id = mb_canonical_match_id b,
        opp_ticker = bs_ticker (ts_book t),
        opp_decision_sequence = ts_decision_sequence t,
        opp_decision_time = ts_decision_time t,
        opp_binding_sha256 = binding_sha,
        opp_provider_revision = revision (ts_tennis t),
        opp_book_connection_epoch = bs_connection_epoch (ts_book t),
        opp_book_sequence = bs_sequence (ts_book t),
        opp_snapshot_sha256 = snapshot_sha,
        opp_snapshot = t\<rparr>)))"

definition binding_block_reasons :: "TennisTransitionReason list" where
  "binding_block_reasons =
     [IDENTITY_MISMATCH, SOURCE_LINEAGE_MISMATCH, REVISION_DOMAIN_MISMATCH, FORMAT_MISMATCH]"

definition binding_blocked :: "TennisState \<Rightarrow> MatchBinding \<Rightarrow> bool" where
  "binding_blocked s b \<longleftrightarrow>
     binding_drift s b
     \<or> (case block_reason s of None \<Rightarrow> False | Some r \<Rightarrow> r \<in> set binding_block_reasons)"

definition clocks_disagree :: "SyncPolicy \<Rightarrow> TennisState \<Rightarrow> BookState \<Rightarrow> PairedTimeObservation \<Rightarrow> bool" where
  "clocks_disagree p s book t \<longleftrightarrow>
     obs_monotonic_ns t < last_received_monotonic_ns s
     \<or> obs_monotonic_ns t < bs_book_observed_monotonic_ns book
     \<or> obs_monotonic_ns t < bs_lifecycle_observed_monotonic_ns book
     \<or> pol_max_clock_uncertainty_ns p < obs_clock_uncertainty_ns t
     \<or> pol_max_clock_uncertainty_ns p < last_clock_uncertainty_ns s
     \<or> pol_max_clock_uncertainty_ns p < bs_book_clock_uncertainty_ns book
     \<or> pol_max_clock_uncertainty_ns p < bs_lifecycle_clock_uncertainty_ns book
     \<or> pol_max_score_book_skew_ns p
        < \<bar>last_received_monotonic_ns s - bs_book_observed_monotonic_ns book\<bar>"

definition pair_block_reason ::
  "SyncPolicy \<Rightarrow> TennisState \<Rightarrow> BookState \<Rightarrow> PendingBookMove option \<Rightarrow> PairedTimeObservation
     \<Rightarrow> SyncReason option" where
  \<comment> \<open>the checks of \<open>_block_reason\<close> once both states are there and the tennis state is valid\<close>
  "pair_block_reason p s book pending t =
     (if block_reason s \<noteq> None \<and> block_reason s \<noteq> Some PROVIDER_EVENT_GAP
         \<and> \<not> (case block_reason s of None \<Rightarrow> False | Some r \<Rightarrow> r \<in> set binding_block_reasons)
      then Some SR_CORRECTION_PENDING
      else if block_reason s = Some PROVIDER_EVENT_GAP \<or> bs_sequence_gap book then Some SR_SEQUENCE_GAP
      else if \<not> bs_trusted book then Some SR_BOOK_UNTRUSTED
      else if status s = MS_SCHEDULED then Some SR_MATCH_NOT_STARTED
      else if status s = MS_SUSPENDED then Some SR_MATCH_SUSPENDED
      else if status s \<in> {MS_ENDED, MS_CANCELLED} then Some SR_MATCH_ENDED
      else if bs_market_status book = MKT_SUSPENDED then Some SR_MARKET_SUSPENDED
      else if bs_market_status book = MKT_PREOPEN then Some SR_MARKET_NOT_OPEN
      else if bs_market_status book \<in> {MKT_CLOSED, MKT_SETTLED, MKT_CANCELLED} then Some SR_MARKET_ENDED
      else if server_for_next_point s = None then Some SR_UNKNOWN_SERVER
      else if clocks_disagree p s book t then Some SR_CLOCK_UNCERTAIN
      else if pol_max_score_age_ns p < obs_monotonic_ns t - last_received_monotonic_ns s
      then Some SR_SCORE_STALE
      else if pol_max_book_age_ns p < obs_monotonic_ns t - bs_book_observed_monotonic_ns book
      then Some SR_BOOK_STALE
      else if pol_max_lifecycle_age_ns p < obs_monotonic_ns t - bs_lifecycle_observed_monotonic_ns book
      then Some SR_LIFECYCLE_STALE
      else if bs_yes_bids book = [] \<and> bs_no_bids book = [] then Some SR_BOOK_NOT_EXECUTABLE
      else if bs_scheduled_close_wall_ns book \<le> obs_wall_ns t
         \<or> bs_scheduled_close_wall_ns book - obs_wall_ns t < pol_minimum_close_horizon_ns p
      then Some SR_CLOSE_HORIZON_INSUFFICIENT
      else if pending \<noteq> None then Some SR_UNEXPLAINED_BOOK_MOVE
      else None)"

definition block_reason_of ::
  "SynchronizationSessionState \<Rightarrow> MatchBinding \<Rightarrow> TennisSyncCursor \<Rightarrow> BookSyncCursor
     \<Rightarrow> PairedTimeObservation \<Rightarrow> SyncReason option result" where
  "block_reason_of st b tc bc t =
     (case tc_tennis tc of
        None \<Rightarrow> Inr (Some SR_SNAPSHOT_INCOMPLETE)
      | Some s \<Rightarrow>
          if binding_blocked s b then Inr (Some SR_BINDING_DRIFT)
          else
            (case bc_book bc of
               None \<Rightarrow> Inr (Some SR_SNAPSHOT_INCOMPLETE)
             | Some book \<Rightarrow>
                 bind_result (validate_tennis_state s) (\<lambda>_.
                   Inr (pair_block_reason (st_policy st) s book (bc_pending_move bc) t))))"

definition refusal :: "string \<Rightarrow> string \<Rightarrow> SyncReason \<Rightarrow> SyncResult result" where
  \<comment> \<open>\<open>SyncResult(match, ticker, None, None, reason)\<close>\<close>
  "refusal match_id t reason =
     construct sync_result_post_init
       \<lparr>res_canonical_match_id = match_id, res_ticker = t, res_snapshot = None,
        res_opportunity = None, res_reason = reason\<rparr>"

definition emission_identity :: "LastSyncEmission \<Rightarrow> (int \<times> int \<times> string) \<times> int \<times> int" where
  "emission_identity e =
     ((em_provider_correction_epoch e, em_provider_revision e, em_provider_event_semantic_sha256 e),
      em_book_connection_epoch e, em_book_sequence e)"

definition pair_identity :: "TennisState \<Rightarrow> BookState \<Rightarrow> (int \<times> int \<times> string) \<times> int \<times> int" where
  "pair_identity s book =
     ((correction_epoch s, revision s, last_event_semantic_sha256 s),
      bs_connection_epoch book, bs_sequence book)"

definition emission_of :: "string \<Rightarrow> TennisState \<Rightarrow> BookState \<Rightarrow> LastSyncEmission" where
  "emission_of fp s book =
     \<lparr>em_fingerprint_sha256 = fp,
      em_provider_correction_epoch = correction_epoch s,
      em_provider_revision = revision s,
      em_provider_event_semantic_sha256 = last_event_semantic_sha256 s,
      em_book_connection_epoch = bs_connection_epoch book,
      em_book_sequence = bs_sequence book\<rparr>"

definition snapshot_of ::
  "SynchronizationSessionState \<Rightarrow> MatchBinding \<Rightarrow> BookSyncCursor \<Rightarrow> TennisState \<Rightarrow> BookState
     \<Rightarrow> PairedTimeObservation \<Rightarrow> TrustedSnapshot" where
  "snapshot_of st b bc s book t =
     \<lparr>ts_decision_sequence = st_decision_sequence st + 1,
      ts_decision_time = t,
      ts_tennis = s,
      ts_book = book,
      ts_binding = b,
      ts_sync_policy_sha256 = st_sync_policy_sha256 st,
      ts_causal_provider_revision = map_option cw_revision (bc_causal_point_witness bc)\<rparr>"

definition emit ::
  "SynchronizationSessionState \<Rightarrow> MatchBinding \<Rightarrow> string \<Rightarrow> BookSyncCursor \<Rightarrow> TennisState
     \<Rightarrow> BookState \<Rightarrow> string \<Rightarrow> PairedTimeObservation
     \<Rightarrow> (SynchronizationSessionState \<times> SyncResult) result" where
  \<comment> \<open>the tail of \<open>_evaluate\<close>: publish the pair and remember the emission\<close>
  "emit st b t bc s book fp now =
     bind_result (construct trusted_snapshot_post_init (snapshot_of st b bc s book now)) (\<lambda>snapshot.
     bind_result (opportunity st b snapshot) (\<lambda>frame.
     bind_result (construct last_sync_emission_post_init (emission_of fp s book)) (\<lambda>emission.
     bind_result (make_book_cursor (bc\<lparr>bc_last_emission := Some emission\<rparr>)) (\<lambda>emitted.
     bind_result (make_session
        (st\<lparr>st_decision_sequence := st_decision_sequence st + 1,
            st_book_cursors := put_book_cursor emitted (st_book_cursors st)\<rparr>)) (\<lambda>st'.
     bind_result (construct sync_result_post_init
        \<lparr>res_canonical_match_id = mb_canonical_match_id b, res_ticker = t,
         res_snapshot = Some snapshot, res_opportunity = Some frame,
         res_reason = SR_TRUSTED_SYNCHRONIZED\<rparr>) (\<lambda>r.
     Inr (st', r)))))))"

definition evaluate ::
  "SynchronizationSessionState \<Rightarrow> MatchBinding \<Rightarrow> BindingMetadata \<Rightarrow> string
     \<Rightarrow> PairedTimeObservation \<Rightarrow> (SynchronizationSessionState \<times> SyncResult) result" where
  "evaluate st b item t now =
     bind_result (selected_tennis_cursor st (mb_canonical_match_id b)) (\<lambda>tc.
     bind_result (selected_book_cursor st (mb_canonical_match_id b) t) (\<lambda>bc.
     bind_result (block_reason_of st b tc bc now) (\<lambda>reason.
       case reason of
         Some r \<Rightarrow>
           bind_result (refusal (mb_canonical_match_id b) t r) (\<lambda>result. Inr (st, result))
       | None \<Rightarrow>
           (case (tc_tennis tc, bc_book bc) of
              (Some s, Some book) \<Rightarrow>
                bind_result (fingerprint st b item s book) (\<lambda>fp.
                  case bc_last_emission bc of
                    None \<Rightarrow> emit st b t bc s book fp now
                  | Some prior \<Rightarrow>
                      if pair_identity s book = emission_identity prior then
                        bind_result (refusal (mb_canonical_match_id b) t SR_DUPLICATE_STATE_SUPPRESSED)
                          (\<lambda>result. Inr (st, result))
                      else if fp = em_fingerprint_sha256 prior then session_drift
                      else emit st b t bc s book fp now)
            | _ \<Rightarrow> Inl AssertionError))))"

fun results_for_tickers ::
  "SynchronizationSessionState \<Rightarrow> MatchBinding \<Rightarrow> BindingMetadata \<Rightarrow> string list
     \<Rightarrow> PairedTimeObservation \<Rightarrow> (SynchronizationSessionState \<times> SyncResult list) result" where
  "results_for_tickers st b item [] now = Inr (st, [])"
| "results_for_tickers st b item (t # ts) now =
     bind_result (evaluate st b item t now) (\<lambda>(st', r).
     bind_result (results_for_tickers st' b item ts now) (\<lambda>(st'', rs). Inr (st'', r # rs)))"

definition both_tickers :: "MatchBinding \<Rightarrow> string list" where
  "both_tickers b = sort [mb_home_market_ticker b, mb_away_market_ticker b]"

subsection \<open>The five kinds of evidence\<close>

definition set_floor :: "string \<Rightarrow> int \<Rightarrow> BookSyncCursor \<Rightarrow> BookSyncCursor result" where
  "set_floor match_id epoch bc =
     (case bc_pending_move bc of
        None \<Rightarrow> Inr bc
      | Some pending \<Rightarrow>
          if bc_canonical_match_id bc = match_id \<and> pm_tennis_correction_epoch_floor pending = None
          then bind_result (pending_with_floor pending epoch) (\<lambda>pending'.
                 make_book_cursor (bc\<lparr>bc_pending_move := Some pending'\<rparr>))
          else Inr bc)"

definition ingest_tennis_origin ::
  "SynchronizationSessionState \<Rightarrow> MatchBinding \<Rightarrow> BindingMetadata \<Rightarrow> SynchronizationInput
     \<Rightarrow> PairedTimeObservation \<Rightarrow> (SynchronizationSessionState \<times> SyncResult list) result" where
  "ingest_tennis_origin st b item i now =
     bind_result (selected_tennis_cursor st (mb_canonical_match_id b)) (\<lambda>cursor.
     if tc_tennis cursor \<noteq> None then session_drift
     else
       (case in_provider_event i of
          Some (SnapshotEvent p) \<Rightarrow>
            if \<not> sn_snapshot_complete p then session_drift
            else
              bind_result (drift_on_error
                  (bind_result (state_from_snapshot p) (\<lambda>s.
                   bind_result (validate_tennis_state s) (\<lambda>_. Inr s)))) (\<lambda>s.
              if binding_drift s b then
                bind_result (map_result (\<lambda>t. refusal (mb_canonical_match_id b) t SR_BINDING_DRIFT)
                    (both_tickers b)) (\<lambda>rs. Inr (st, rs))
              else
                bind_result (expert_contract_sha256 (synchronization_input_pyval i)) (\<lambda>input_sha.
                bind_result (expert_contract_sha256 (tennis_state_pyval s)) (\<lambda>state_sha.
                bind_result (make_tennis_cursor cursor (Some s) (Some state_sha) (Some input_sha) None)
                  (\<lambda>updated.
                bind_result (map_result (set_floor (mb_canonical_match_id b) (correction_epoch s))
                    (st_book_cursors st)) (\<lambda>books.
                bind_result (make_session
                    (st\<lparr>st_tennis_cursors := put_tennis_cursor updated (st_tennis_cursors st),
                        st_book_cursors := books\<rparr>)) (\<lambda>st'.
                  results_for_tickers st' b item (both_tickers b) now))))))
        | _ \<Rightarrow> session_drift))"

definition recompute_tennis :: "TennisState \<Rightarrow> provider_event \<Rightarrow> TennisTransitionResult result" where
  "recompute_tennis s event =
     (case event of
        PointEvent p \<Rightarrow> apply_point s p
      | LifecycleEvent l \<Rightarrow> apply_lifecycle s l
      | SnapshotEvent p \<Rightarrow> apply_correction s p)"

definition is_point_event :: "provider_event \<Rightarrow> bool" where
  "is_point_event e \<longleftrightarrow> (case e of PointEvent p \<Rightarrow> True | _ \<Rightarrow> False)"

definition applied_point :: "provider_event \<Rightarrow> TennisTransitionResult \<Rightarrow> bool" where
  "applied_point event r \<longleftrightarrow>
     is_point_event event \<and> tr_disposition r = APPLIED \<and> tr_reason r = POINT_APPLIED"

definition applied_correction :: "provider_event \<Rightarrow> TennisTransitionResult \<Rightarrow> bool" where
  "applied_correction event r \<longleftrightarrow>
     is_provider_snapshot (Some event) \<and> tr_disposition r = APPLIED \<and> tr_reason r = CORRECTION_APPLIED"

definition point_witness ::
  "string \<Rightarrow> provider_event \<Rightarrow> TennisTransitionResult \<Rightarrow> CausalPointWitness option result" where
  \<comment> \<open>\<open>new_point_witness\<close>\<close>
  "point_witness match_id event r =
     (if applied_point event r then
        bind_result (construct causal_point_witness_post_init
            \<lparr>cw_canonical_match_id = match_id,
             cw_correction_epoch = correction_epoch (tr_state r),
             cw_revision = revision (tr_state r),
             cw_event_semantic_sha256 = tr_event_semantic_sha256 r,
             cw_received_monotonic_ns = last_received_monotonic_ns (tr_state r)\<rparr>)
          (\<lambda>w. Inr (Some w))
      else Inr None)"

definition after_tennis ::
  "string \<Rightarrow> bool \<Rightarrow> CausalPointWitness option \<Rightarrow> TennisState \<Rightarrow> SyncPolicy \<Rightarrow> BookSyncCursor
     \<Rightarrow> BookSyncCursor result" where
  \<comment> \<open>the loop body of \<open>_ingest_tennis_transition\<close> for one book cursor\<close>
  "after_tennis match_id corrected new_witness s p bc =
     (if bc_canonical_match_id bc \<noteq> match_id then Inr bc
      else
        bind_result (make_book_cursor
            (bc\<lparr>bc_causal_point_witness := (if corrected then None else bc_causal_point_witness bc)\<rparr>))
          (\<lambda>bc'.
           if new_witness \<noteq> None then explain_pending bc' new_witness (Some s) p else Inr bc'))"

definition ingest_tennis_transition ::
  "SynchronizationSessionState \<Rightarrow> MatchBinding \<Rightarrow> BindingMetadata \<Rightarrow> SynchronizationInput
     \<Rightarrow> PairedTimeObservation \<Rightarrow> (SynchronizationSessionState \<times> SyncResult list) result" where
  "ingest_tennis_transition st b item i now =
     bind_result (selected_tennis_cursor st (mb_canonical_match_id b)) (\<lambda>cursor.
     case (tc_tennis cursor, in_provider_event i) of
       (None, _) \<Rightarrow> session_drift
     | (Some s, None) \<Rightarrow> session_drift
     | (Some s, Some event) \<Rightarrow>
         if in_previous_state_sha256 i \<noteq> tc_last_state_sha256 cursor then session_drift
         else
           bind_result (drift_on_error
               (bind_result (recompute_tennis s event) (\<lambda>r.
                if Some r \<noteq> in_tennis_transition i then session_drift
                else bind_result (validate_tennis_state (tr_state r)) (\<lambda>_. Inr r)))) (\<lambda>r.
           bind_result (point_witness (mb_canonical_match_id b) event r) (\<lambda>new_witness.
           let corrected = applied_correction event r;
               witness = (if corrected then None
                          else if new_witness \<noteq> None then new_witness
                          else tc_last_point_witness cursor)
           in
             bind_result (expert_contract_sha256 (tennis_state_pyval (tr_state r))) (\<lambda>state_sha.
             bind_result (expert_contract_sha256 (synchronization_input_pyval i)) (\<lambda>input_sha.
             bind_result (make_tennis_cursor cursor (Some (tr_state r)) (Some state_sha)
                 (Some input_sha) witness) (\<lambda>updated.
             bind_result (map_result (after_tennis (mb_canonical_match_id b) corrected new_witness
                 (tr_state r) (st_policy st)) (st_book_cursors st)) (\<lambda>books.
             bind_result (make_session
                 (st\<lparr>st_tennis_cursors := put_tennis_cursor updated (st_tennis_cursors st),
                     st_book_cursors := books\<rparr>)) (\<lambda>st'.
               results_for_tickers st' b item (both_tickers b) now))))))))"

definition recompute_book ::
  "BookSyncCursor \<Rightarrow> string option \<Rightarrow> book_event \<Rightarrow> BookTransitionResult result" where
  "recompute_book cursor previous event =
     (case bc_book cursor of
        None \<Rightarrow>
          if previous \<noteq> None then session_drift
          else (case event of BookSnapshotEvent p \<Rightarrow> book_from_snapshot p | _ \<Rightarrow> session_drift)
      | Some book \<Rightarrow>
          if previous \<noteq> bc_last_state_sha256 cursor then session_drift
          else
            (case event of
               BookSnapshotEvent p \<Rightarrow> apply_book_snapshot book p
             | BookDeltaEvent d \<Rightarrow> apply_book_delta book d
             | MarketLifecycleEvent l \<Rightarrow> apply_market_lifecycle book l))"

definition reset_pending ::
  "BookSyncCursor \<Rightarrow> book_event \<Rightarrow> BookTransitionResult \<Rightarrow> TennisState option
     \<Rightarrow> PendingBookMove option" where
  "reset_pending cursor event r tennis =
     (case bc_pending_move cursor of
        None \<Rightarrow> None
      | Some pending \<Rightarrow>
          if bc_book cursor \<noteq> None \<and> is_book_snapshot (Some event)
             \<and> bt_accepted_event_kind r = Some BE_SNAPSHOT
             \<and> paired_reset pending tennis (bt_state r)
          then None else Some pending)"

definition large_move :: "BookSyncCursor \<Rightarrow> BookTransitionResult \<Rightarrow> SyncPolicy \<Rightarrow> bool" where
  "large_move cursor r p \<longleftrightarrow>
     bc_book cursor \<noteq> None
     \<and> bt_accepted_event_kind r \<in> {Some BE_SNAPSHOT, Some BE_DELTA}
     \<and> 0 < bt_executable_move r
     \<and> pol_large_book_move_threshold p \<le> bt_executable_move r"

definition move_pending ::
  "BookSyncCursor \<Rightarrow> BookTransitionResult \<Rightarrow> TennisSyncCursor \<Rightarrow> SyncPolicy \<Rightarrow> BookSyncCursor result" where
  \<comment> \<open>a large move starts or extends the pending move, unless a point explains it\<close>
  "move_pending accepted r tc p =
     bind_result
       (case bc_pending_move accepted of
          None \<Rightarrow> new_pending accepted r (tc_tennis tc)
        | Some pending \<Rightarrow> extended_pending pending r) (\<lambda>pending'.
     bind_result (make_book_cursor
         (accepted\<lparr>bc_pending_move := Some pending', bc_causal_point_witness := None\<rparr>)) (\<lambda>moved.
       explain_pending moved (tc_last_point_witness tc) (tc_tennis tc) p))"

definition ingest_book_transition ::
  "SynchronizationSessionState \<Rightarrow> MatchBinding \<Rightarrow> BindingMetadata \<Rightarrow> SynchronizationInput
     \<Rightarrow> string \<Rightarrow> PairedTimeObservation \<Rightarrow> (SynchronizationSessionState \<times> SyncResult list) result" where
  "ingest_book_transition st b item i t now =
     bind_result (selected_book_cursor st (mb_canonical_match_id b) t) (\<lambda>cursor.
     case in_book_event i of
       None \<Rightarrow> session_drift
     | Some event \<Rightarrow>
         bind_result (drift_on_error
             (bind_result (recompute_book cursor (in_previous_state_sha256 i) event) (\<lambda>r.
              if Some r \<noteq> in_book_transition i then session_drift else Inr r))) (\<lambda>r.
         bind_result (selected_tennis_cursor st (mb_canonical_match_id b)) (\<lambda>tc.
         bind_result (expert_contract_sha256 (book_state_pyval (bt_state r))) (\<lambda>state_sha.
         bind_result (expert_contract_sha256 (synchronization_input_pyval i)) (\<lambda>input_sha.
         bind_result (make_book_cursor
             (cursor\<lparr>bc_book := Some (bt_state r), bc_last_state_sha256 := Some state_sha,
                     bc_last_input_sha256 := Some input_sha,
                     bc_pending_move := reset_pending cursor event r (tc_tennis tc)\<rparr>)) (\<lambda>accepted.
         bind_result
           (if large_move cursor r (st_policy st) then move_pending accepted r tc (st_policy st)
            else Inr accepted) (\<lambda>final.
         bind_result (replace_book_cursor st final) (\<lambda>st'.
           results_for_tickers st' b item [t] now))))))))"

definition ingest_resnapshot_required ::
  "SynchronizationSessionState \<Rightarrow> MatchBinding \<Rightarrow> BindingMetadata \<Rightarrow> SynchronizationInput
     \<Rightarrow> string \<Rightarrow> PairedTimeObservation \<Rightarrow> (SynchronizationSessionState \<times> SyncResult list) result" where
  "ingest_resnapshot_required st b item i t now =
     bind_result (selected_book_cursor st (mb_canonical_match_id b) t) (\<lambda>cursor.
     case bc_book cursor of
       None \<Rightarrow> session_drift
     | Some book \<Rightarrow>
         if in_previous_state_sha256 i \<noteq> bc_last_state_sha256 cursor then session_drift
         else
           bind_result (drift_on_error (require_book_resnapshot book)) (\<lambda>required.
           if Some required \<noteq> in_book_resnapshot_state i then session_drift
           else
             bind_result (expert_contract_sha256 (book_state_pyval required)) (\<lambda>state_sha.
             bind_result (expert_contract_sha256 (synchronization_input_pyval i)) (\<lambda>input_sha.
             bind_result (make_book_cursor
                 (cursor\<lparr>bc_book := Some required, bc_last_state_sha256 := Some state_sha,
                         bc_last_input_sha256 := Some input_sha\<rparr>)) (\<lambda>updated.
             bind_result (replace_book_cursor st updated) (\<lambda>st'.
               results_for_tickers st' b item [t] now))))))"

subsection \<open>A step\<close>

definition make_transition ::
  "SynchronizationSessionState \<Rightarrow> SynchronizationSessionState \<Rightarrow> SynchronizationInput
     \<Rightarrow> PairedTimeObservation \<Rightarrow> SyncResult list \<Rightarrow> SynchronizationTransitionResult result" where
  \<comment> \<open>\<open>_transition(prior, state, evidence, observation, results)\<close>\<close>
  "make_transition prior st i now rs =
     bind_result (expert_contract_sha256 (synchronization_input_pyval i)) (\<lambda>input_sha.
     bind_result (expert_contract_sha256 (synchronization_session_state_pyval prior)) (\<lambda>prior_sha.
       construct synchronization_transition_result_post_init
         \<lparr>tx_state = st, tx_input = i, tx_input_sha256 = input_sha,
          tx_prior_session_sha256 = prior_sha,
          tx_prior_decision_sequence = st_decision_sequence prior,
          tx_observation = now, tx_results = rs\<rparr>))"

definition time_regresses :: "SynchronizationSessionState \<Rightarrow> PairedTimeObservation \<Rightarrow> bool" where
  "time_regresses st now \<longleftrightarrow>
     (case st_last_observation st of
        None \<Rightarrow> False
      | Some t \<Rightarrow> obs_monotonic_ns now < obs_monotonic_ns t \<or> obs_wall_ns now < obs_wall_ns t)"

definition ingest ::
  "SynchronizationSessionState \<Rightarrow> MatchBinding \<Rightarrow> BindingMetadata \<Rightarrow> SynchronizationInput
     \<Rightarrow> PairedTimeObservation \<Rightarrow> (SynchronizationSessionState \<times> SyncResult list) result" where
  \<comment> \<open>the dispatch of \<open>synchronize\<close> on the kind of evidence, after the observation is stored\<close>
  "ingest st b item i now =
     (case in_kind i of
        TENNIS_ORIGIN \<Rightarrow> ingest_tennis_origin st b item i now
      | TENNIS_TRANSITION \<Rightarrow> ingest_tennis_transition st b item i now
      | _ \<Rightarrow>
          (case in_ticker i of
             None \<Rightarrow> Inl AssertionError
           | Some t \<Rightarrow>
               if t \<notin> {mb_home_market_ticker b, mb_away_market_ticker b} then
                 bind_result (refusal (mb_canonical_match_id b) t SR_CONTRACT_MISMATCH)
                   (\<lambda>r. Inr (st, [r]))
               else
                 (case in_kind i of
                    BOOK_TRANSITION \<Rightarrow> ingest_book_transition st b item i t now
                  | BOOK_RESNAPSHOT_REQUIRED \<Rightarrow> ingest_resnapshot_required st b item i t now
                  | _ \<Rightarrow> results_for_tickers st b item [t] now)))"

definition synchronize ::
  "SynchronizationSessionState \<Rightarrow> SynchronizationInput \<Rightarrow> PairedTimeObservation
     \<Rightarrow> SynchronizationTransitionResult result" where
  "synchronize st i now =
     bind_result (assert_synchronization_session_compatible st (st_universe st) (st_policy st)) (\<lambda>_.
     bind_result (drift_on_value_error (validated (paired_time_observation_post_init now))) (\<lambda>_.
     if time_regresses st now then session_drift
     else
       bind_result (drift_on_value_error (validated (synchronization_input_post_init i))) (\<lambda>_.
       bind_result (find_binding st (in_canonical_match_id i)) (\<lambda>(b, item).
       bind_result (with_observation st now) (\<lambda>st'.
       bind_result (ingest st' b item i now) (\<lambda>(st'', rs).
         make_transition st st'' i now rs))))))"

definition validate_synchronization_transition ::
  "SynchronizationSessionState \<Rightarrow> SynchronizationTransitionResult \<Rightarrow> unit result" where
  "validate_synchronization_transition prior x =
     bind_result (drift_on_error
         (checked (synchronization_transition_result_post_init x)
            (synchronize prior (tx_input x) (tx_observation x)))) (\<lambda>expected.
       if expected \<noteq> x then session_drift else Inr ())"

end
