(* ===== verification/SyncSession.thy ===== *)
theory SyncSession
  imports TennisRuns BookRuns Synchronizer
begin

text \<open>
  Facts about a synchronisation session that the steps share: what the constructor checks of a
  session amount to, that its cursors are found by their keys and replaced in place, and what the
  chain of checks before a publication lets through (\<open>pair_safe\<close>).
\<close>

subsection \<open>Checks as conditions\<close>

lemma rewrap_eq_None [simp]: "rewrap name v = None \<longleftrightarrow> v = None"
  by (cases v) (auto simp: rewrap_def)

lemma digest_is_eq_None [simp]: "digest_is c v name = None \<longleftrightarrow> c = Inr v"
  by (cases c) (auto simp: digest_is_def)

lemma holds_digest_eq_None [simp]:
  "holds_digest c stored missing name = None \<longleftrightarrow> (\<exists>d. c = Inr d \<and> stored = Some d) \<and> \<not> missing"
  by (cases c) (auto simp: holds_digest_def)

lemma first_raise_map_eq_None [simp]: "first_raise (map f xs) = None \<longleftrightarrow> (\<forall>x \<in> set xs. f x = None)"
  by (induction xs) auto

lemma drift_on_error_eq_Inr [simp]: "drift_on_error r = Inr x \<longleftrightarrow> r = Inr x"
  by (cases r) (auto simp: drift_on_error_def session_drift_def)

lemma drift_on_value_error_eq_Inr [simp]: "drift_on_value_error r = Inr x \<longleftrightarrow> r = Inr x"
  by (cases r) (auto simp: drift_on_value_error_def session_drift_def)

lemma session_drift_neq_Inr [simp]: "session_drift \<noteq> Inr x" "Inr x \<noteq> session_drift"
  by (simp_all add: session_drift_def)

lemma validated_eq_Inr [simp]: "validated v = Inr x \<longleftrightarrow> v = None"
  by (cases v) (auto simp: validated_def)

lemma validated_None [simp]: "validated None = Inr ()"
  by (simp add: validated_def)

lemma drift_on_value [simp]: "drift_on_value_error (Inr x) = Inr x" "drift_on_error (Inr x) = Inr x"
  by (simp_all add: drift_on_value_error_def drift_on_error_def)

lemma the_only_eq_Inr [simp]: "the_only xs = Inr x \<longleftrightarrow> xs = [x]"
  by (auto simp: the_only_def split: list.splits)

lemma refusal_eq_Inr:
  "refusal m t reason = Inr r \<longleftrightarrow>
     r = \<lparr>res_canonical_match_id = m, res_ticker = t, res_snapshot = None,
          res_opportunity = None, res_reason = reason\<rparr>
     \<and> safe_id_ok m \<and> ticker_ok t \<and> reason \<noteq> SR_TRUSTED_SYNCHRONIZED"
  by (auto simp: refusal_def sync_result_post_init_def)

lemma digest_defined: "expert_contract_sha256 v = Inr d \<Longrightarrow> encodable v"
  using contract_digest_defined by blast

lemma domain_digest_defined: "(\<exists>d. domain_sha256 p v = Inr d) \<longleftrightarrow> encodable v"
  by (simp add: domain_sha256_def bind_ok_iff canonical_bytes_defined)

lemma domain_digest_ok: "domain_sha256 p v = Inr d \<Longrightarrow> sha256_ok d"
  by (auto simp: domain_sha256_def bind_result_eq_Inr)

lemma session_post_init_iff:
  "synchronization_session_state_post_init st = None \<longleftrightarrow>
     sha256_ok (st_universe_sha256 st) \<and> sha256_ok (st_sync_policy_sha256 st)
     \<and> integer_ok (st_decision_sequence st)
     \<and> session_artifacts_ok st = None \<and> session_progress_ok st \<and> session_contracts st = None
     \<and> map tc_canonical_match_id (st_tennis_cursors st) = expected_tennis (st_universe st)
     \<and> map bc_key (st_book_cursors st) = expected_books (st_universe st)
     \<and> (\<forall>c \<in> set (st_tennis_cursors st). cursor_binding_ok (st_universe st) (tc_canonical_match_id c)
          (tc_binding_sha256 c) (tc_binding_metadata_sha256 c) = None)
     \<and> (\<forall>c \<in> set (st_book_cursors st). book_cursor_in_session st c = None)"
  unfolding synchronization_session_state_post_init_def by (simp add: conj_ac)

lemma session_artifacts_iff:
  "session_artifacts_ok st = None \<longleftrightarrow>
     binding_universe_post_init (st_universe st) = None
     \<and> universe_digest (st_universe st) = Inr (st_universe_sha256 st)
     \<and> bu_universe_sha256 (st_universe st) = st_universe_sha256 st
     \<and> single_source (st_universe st)
     \<and> sync_policy_post_init (st_policy st) = None
     \<and> pol_universe_sha256 (st_policy st) = st_universe_sha256 st
     \<and> expert_contract_sha256 (sync_policy_pyval (st_policy st)) = Inr (st_sync_policy_sha256 st)"
  unfolding session_artifacts_ok_def
  by (auto simp: rewrap_def split: option.splits sum.splits if_splits)

lemma session_contracts_iff:
  "session_contracts st = None \<longleftrightarrow>
     when_some paired_time_observation_post_init (st_last_observation st) = None
     \<and> (\<forall>c \<in> set (st_tennis_cursors st). tennis_cursor_contracts c = None)
     \<and> (\<forall>c \<in> set (st_book_cursors st). book_cursor_contracts c = None)"
  unfolding session_contracts_def by simp

text \<open>A universe has sorted, pairwise different match identifiers.\<close>

lemma universe_loop_sorted:
  assumes "universe_loop u previous seen ps = None"
  shows "sorted_wrt (<) (map (\<lambda>(b, item). binding_order_key b) ps)
     \<and> distinct (map (\<lambda>(b, item). mb_canonical_match_id b) ps)
     \<and> (\<forall>(b, item) \<in> set ps. mb_canonical_match_id b \<notin> seen_match seen
          \<and> (case previous of None \<Rightarrow> True | Some p \<Rightarrow> p < binding_order_key b))"
  using assms
proof (induction u previous seen ps rule: universe_loop.induct)
  case (2 u previous seen b item rest)
  show ?case
  proof (cases "bm_markets item")
    case Nil
    then show ?thesis using "2.prems" by (simp split: if_splits)
  next
    case (Cons home tl)
    show ?thesis
    proof (cases tl)
      case Nil
      then show ?thesis using "2.prems" Cons by (simp split: if_splits)
    next
      case (Cons away rest')
      then show ?thesis
        using "2.prems" "2.IH" \<open>bm_markets item = home # tl\<close>
        by (fastforce simp: new_identities_def see_def split: if_splits option.splits)
    qed
  qed
qed simp

subsection \<open>Keys of a session\<close>

lemma filter_key_unique:
  "distinct (map f xs) \<Longrightarrow> x \<in> set xs \<Longrightarrow> filter (\<lambda>y. f y = f x) xs = [x]"
proof (induction xs)
  case (Cons a xs)
  show ?case
  proof (cases "x = a")
    case True
    then have "f y \<noteq> f x" if "y \<in> set xs" for y
      using Cons.prems(1) that by (auto simp: image_iff)
    then have "filter (\<lambda>y. f y = f x) xs = []"
      by (simp add: filter_empty_conv)
    then show ?thesis using True by simp
  next
    case False
    then have "f a \<noteq> f x" using Cons.prems by auto
    then show ?thesis using Cons False by simp
  qed
qed simp

lemma universe_pairs_lengths:
  "binding_universe_post_init u = None \<Longrightarrow> length (bu_metadata u) = length (bu_bindings u)"
  by (simp add: binding_universe_post_init_def)

lemma universe_loop_of_post_init:
  "binding_universe_post_init u = None \<Longrightarrow> universe_loop u None nothing_seen (universe_pairs u) = None"
  by (simp add: binding_universe_post_init_def)

lemma universe_bindings_fst:
  "binding_universe_post_init u = None \<Longrightarrow> map fst (universe_pairs u) = bu_bindings u"
  by (simp add: universe_pairs_def universe_pairs_lengths)

lemma universe_match_ids_distinct:
  assumes "binding_universe_post_init u = None"
  shows "distinct (map mb_canonical_match_id (bu_bindings u))"
proof -
  have "distinct (map (\<lambda>p. mb_canonical_match_id (fst p)) (universe_pairs u))"
    using universe_loop_sorted[OF universe_loop_of_post_init[OF assms]] by (simp add: case_prod_unfold)
  then show ?thesis
    using universe_bindings_fst[OF assms] by (metis (no_types, lifting) list.map_comp comp_apply map_eq_conv)
qed

lemma universe_loop_tickers:
  "universe_loop u previous seen ps = None \<Longrightarrow>
     \<forall>(b, item) \<in> set ps. mb_home_market_ticker b \<noteq> mb_away_market_ticker b
       \<and> mb_binding_artifact_sha256 b = bu_raw_artifact_sha256 u
       \<and> bm_canonical_match_id item = mb_canonical_match_id b"
proof (induction u previous seen ps rule: universe_loop.induct)
  case (2 u previous seen b item rest)
  then show ?case
    by (auto simp: new_identities_def binding_projected_def split: if_splits list.splits)
qed simp

lemma universe_tickers_differ:
  assumes "binding_universe_post_init u = None" "b \<in> set (bu_bindings u)"
  shows "mb_home_market_ticker b \<noteq> mb_away_market_ticker b"
proof -
  have "b \<in> set (map fst (universe_pairs u))"
    using assms universe_bindings_fst by metis
  then show ?thesis
    using universe_loop_tickers[OF universe_loop_of_post_init[OF assms(1)]] by auto
qed

lemma distinct_keys_of:
  assumes "distinct (map f bs)" "\<And>b. b \<in> set bs \<Longrightarrow> g b \<noteq> h b"
  shows "distinct (concat (map (\<lambda>b. [[f b, g b], [f b, h b]]) bs))"
  using assms by (induction bs) (auto simp: image_iff)

lemma universe_book_keys_distinct:
  assumes "binding_universe_post_init u = None"
  shows "distinct (book_keys u)"
  unfolding book_keys_def
  by (rule distinct_keys_of[OF universe_match_ids_distinct[OF assms] universe_tickers_differ[OF assms]])

lemma session_keys_distinct:
  assumes "synchronization_session_state_post_init st = None"
  shows "distinct (map tc_canonical_match_id (st_tennis_cursors st))"
    and "distinct (map bc_key (st_book_cursors st))"
proof -
  have u: "binding_universe_post_init (st_universe st) = None"
    using assms by (simp add: session_post_init_iff session_artifacts_iff)
  show "distinct (map tc_canonical_match_id (st_tennis_cursors st))"
    using assms by (simp add: session_post_init_iff expected_tennis_def)
  show "distinct (map bc_key (st_book_cursors st))"
    using assms universe_book_keys_distinct[OF u] by (simp add: session_post_init_iff expected_books_def)
qed

lemma bc_key_eq: "bc_key c = bc_key d \<longleftrightarrow>
  bc_canonical_match_id c = bc_canonical_match_id d \<and> bc_ticker c = bc_ticker d"
  by (simp add: bc_key_def)

lemma selected_book_cursor_iff:
  assumes "synchronization_session_state_post_init st = None"
  shows "selected_book_cursor st m t = Inr c \<longleftrightarrow>
     c \<in> set (st_book_cursors st) \<and> bc_canonical_match_id c = m \<and> bc_ticker c = t"
proof
  assume "selected_book_cursor st m t = Inr c"
  then have "filter (\<lambda>c. bc_canonical_match_id c = m \<and> bc_ticker c = t) (st_book_cursors st) = [c]"
    by (simp add: selected_book_cursor_def)
  then have "c \<in> set (filter (\<lambda>c. bc_canonical_match_id c = m \<and> bc_ticker c = t) (st_book_cursors st))"
    by simp
  then show "c \<in> set (st_book_cursors st) \<and> bc_canonical_match_id c = m \<and> bc_ticker c = t" by simp
next
  assume c: "c \<in> set (st_book_cursors st) \<and> bc_canonical_match_id c = m \<and> bc_ticker c = t"
  then have "filter (\<lambda>d. bc_key d = bc_key c) (st_book_cursors st) = [c]"
    using filter_key_unique[OF session_keys_distinct(2)[OF assms]] by blast
  then show "selected_book_cursor st m t = Inr c"
    using c by (simp add: selected_book_cursor_def bc_key_eq)
qed

lemma selected_tennis_cursor_iff:
  assumes "synchronization_session_state_post_init st = None"
  shows "selected_tennis_cursor st m = Inr c \<longleftrightarrow>
     c \<in> set (st_tennis_cursors st) \<and> tc_canonical_match_id c = m"
proof
  assume "selected_tennis_cursor st m = Inr c"
  then have "filter (\<lambda>c. tc_canonical_match_id c = m) (st_tennis_cursors st) = [c]"
    by (simp add: selected_tennis_cursor_def)
  then have "c \<in> set (filter (\<lambda>c. tc_canonical_match_id c = m) (st_tennis_cursors st))"
    by simp
  then show "c \<in> set (st_tennis_cursors st) \<and> tc_canonical_match_id c = m" by simp
next
  assume c: "c \<in> set (st_tennis_cursors st) \<and> tc_canonical_match_id c = m"
  then show "selected_tennis_cursor st m = Inr c"
    using filter_key_unique[OF session_keys_distinct(1)[OF assms], of c]
    by (simp add: selected_tennis_cursor_def)
qed

subsection \<open>Replacing a cursor\<close>

lemma put_book_cursor_keys [simp]: "map bc_key (put_book_cursor c cs) = map bc_key cs"
  by (auto simp: put_book_cursor_def bc_key_def)

lemma put_tennis_cursor_keys [simp]:
  "map tc_canonical_match_id (put_tennis_cursor c cs) = map tc_canonical_match_id cs"
  by (auto simp: put_tennis_cursor_def)

lemma set_put_book_cursor:
  "x \<in> set (put_book_cursor c cs) \<longleftrightarrow>
     (x \<in> set cs \<and> bc_key x \<noteq> bc_key c) \<or> (x = c \<and> (\<exists>y \<in> set cs. bc_key y = bc_key c))"
  by (auto simp: put_book_cursor_def bc_key_eq)

lemma set_put_tennis_cursor:
  "x \<in> set (put_tennis_cursor c cs) \<longleftrightarrow>
     (x \<in> set cs \<and> tc_canonical_match_id x \<noteq> tc_canonical_match_id c)
     \<or> (x = c \<and> (\<exists>y \<in> set cs. tc_canonical_match_id y = tc_canonical_match_id c))"
  by (auto simp: put_tennis_cursor_def)

subsection \<open>The outcomes of an evaluation\<close>

definition emitted_session ::
  "SynchronizationSessionState \<Rightarrow> BookSyncCursor \<Rightarrow> LastSyncEmission \<Rightarrow> SynchronizationSessionState" where
  "emitted_session st bc e =
     st\<lparr>st_decision_sequence := st_decision_sequence st + 1,
        st_book_cursors := put_book_cursor (bc\<lparr>bc_last_emission := Some e\<rparr>) (st_book_cursors st)\<rparr>"

definition trusted_result ::
  "MatchBinding \<Rightarrow> string \<Rightarrow> TrustedSnapshot \<Rightarrow> OpportunityFrame \<Rightarrow> SyncResult" where
  "trusted_result b t snapshot frame =
     \<lparr>res_canonical_match_id = mb_canonical_match_id b, res_ticker = t,
      res_snapshot = Some snapshot, res_opportunity = Some frame,
      res_reason = SR_TRUSTED_SYNCHRONIZED\<rparr>"

lemma emit_eq_Inr:
  "emit st b t bc s book fp now = Inr (st', r) \<longleftrightarrow>
     (let snapshot = snapshot_of st b bc s book now; e = emission_of fp s book
      in trusted_snapshot_post_init snapshot = None
         \<and> (\<exists>frame. opportunity st b snapshot = Inr frame
              \<and> r = trusted_result b t snapshot frame \<and> sync_result_post_init r = None)
         \<and> last_sync_emission_post_init e = None
         \<and> book_sync_cursor_post_init (bc\<lparr>bc_last_emission := Some e\<rparr>) = None
         \<and> st' = emitted_session st bc e \<and> synchronization_session_state_post_init st' = None)"
  unfolding emit_def make_book_cursor_def make_session_def emitted_session_def Let_def trusted_result_def
  by (auto simp: bind_result_eq_Inr)

definition fresh_pair :: "BookSyncCursor \<Rightarrow> TennisState \<Rightarrow> BookState \<Rightarrow> string \<Rightarrow> bool" where
  "fresh_pair bc s book fp \<longleftrightarrow>
     (case bc_last_emission bc of None \<Rightarrow> True
      | Some e \<Rightarrow> pair_identity s book \<noteq> emission_identity e \<and> fp \<noteq> em_fingerprint_sha256 e)"

lemma evaluate_cases:
  assumes "evaluate st b item t now = Inr (st', r)"
  obtains (refused) tc bc reason where
      "selected_tennis_cursor st (mb_canonical_match_id b) = Inr tc"
      "selected_book_cursor st (mb_canonical_match_id b) t = Inr bc"
      "st' = st" "refusal (mb_canonical_match_id b) t reason = Inr r"
      "block_reason_of st b tc bc now = Inr (Some reason)
       \<or> (block_reason_of st b tc bc now = Inr None \<and> reason = SR_DUPLICATE_STATE_SUPPRESSED)"
    | (emitted) tc bc s book fp where
      "selected_tennis_cursor st (mb_canonical_match_id b) = Inr tc"
      "selected_book_cursor st (mb_canonical_match_id b) t = Inr bc"
      "tc_tennis tc = Some s" "bc_book bc = Some book"
      "block_reason_of st b tc bc now = Inr None"
      "fingerprint st b item s book = Inr fp" "fresh_pair bc s book fp"
      "emit st b t bc s book fp now = Inr (st', r)"
proof -
  from assms obtain tc bc reason where *:
    "selected_tennis_cursor st (mb_canonical_match_id b) = Inr tc"
    "selected_book_cursor st (mb_canonical_match_id b) t = Inr bc"
    "block_reason_of st b tc bc now = Inr reason"
    by (auto simp: evaluate_def bind_result_eq_Inr)
  show thesis
  proof (cases reason)
    case (Some x)
    then show thesis
      using assms * by (intro refused[of tc bc x]) (auto simp: evaluate_def bind_result_eq_Inr)
  next
    case None
    with assms * obtain s book fp where s: "tc_tennis tc = Some s" "bc_book bc = Some book"
        "fingerprint st b item s book = Inr fp"
      by (auto simp: evaluate_def bind_result_eq_Inr split: option.splits)
    show thesis
    proof (cases "bc_last_emission bc")
      case None
      then show thesis
        using assms * \<open>reason = None\<close> s
        by (intro emitted[of tc bc s book fp]) (auto simp: evaluate_def fresh_pair_def)
    next
      case (Some prior)
      then show thesis
        using assms * \<open>reason = None\<close> s refused[of tc bc SR_DUPLICATE_STATE_SUPPRESSED]
          emitted[of tc bc s book fp]
        by (auto simp: evaluate_def fresh_pair_def bind_result_eq_Inr split: if_splits)
    qed
  qed
qed

lemma block_reason_none:
  "block_reason_of st b tc bc now = Inr None \<longleftrightarrow>
     (\<exists>s book. tc_tennis tc = Some s \<and> bc_book bc = Some book \<and> \<not> binding_blocked s b
        \<and> reachable s
        \<and> pair_block_reason (st_policy st) s book (bc_pending_move bc) now = None)"
  by (auto simp: block_reason_of_def bind_result_eq_Inr validate_tennis_state_def
      split: option.splits if_splits)

text \<open>What the chain of checks lets through.\<close>

definition pair_safe ::
  "SyncPolicy \<Rightarrow> TennisState \<Rightarrow> BookState \<Rightarrow> PairedTimeObservation \<Rightarrow> bool" where
  "pair_safe p s book t \<longleftrightarrow>
     block_reason s = None \<and> status s = MS_LIVE \<and> server_for_next_point s \<noteq> None
     \<and> bs_trusted book \<and> \<not> bs_sequence_gap book \<and> bs_market_status book = MKT_OPEN
     \<and> (bs_yes_bids book \<noteq> [] \<or> bs_no_bids book \<noteq> [])
     \<and> last_received_monotonic_ns s \<le> obs_monotonic_ns t
     \<and> bs_book_observed_monotonic_ns book \<le> obs_monotonic_ns t
     \<and> bs_lifecycle_observed_monotonic_ns book \<le> obs_monotonic_ns t
     \<and> obs_monotonic_ns t - last_received_monotonic_ns s \<le> pol_max_score_age_ns p
     \<and> obs_monotonic_ns t - bs_book_observed_monotonic_ns book \<le> pol_max_book_age_ns p
     \<and> obs_monotonic_ns t - bs_lifecycle_observed_monotonic_ns book \<le> pol_max_lifecycle_age_ns p
     \<and> \<bar>last_received_monotonic_ns s - bs_book_observed_monotonic_ns book\<bar> \<le> pol_max_score_book_skew_ns p
     \<and> obs_clock_uncertainty_ns t \<le> pol_max_clock_uncertainty_ns p
     \<and> last_clock_uncertainty_ns s \<le> pol_max_clock_uncertainty_ns p
     \<and> bs_book_clock_uncertainty_ns book \<le> pol_max_clock_uncertainty_ns p
     \<and> bs_lifecycle_clock_uncertainty_ns book \<le> pol_max_clock_uncertainty_ns p
     \<and> obs_wall_ns t < bs_scheduled_close_wall_ns book
     \<and> pol_minimum_close_horizon_ns p \<le> bs_scheduled_close_wall_ns book - obs_wall_ns t"

lemma status_live_iff:
  "status s = MS_LIVE \<longleftrightarrow> status s \<noteq> MS_SCHEDULED \<and> status s \<noteq> MS_SUSPENDED \<and> status s \<notin> {MS_ENDED, MS_CANCELLED}"
  by (cases "status s") auto

lemma market_open_iff:
  "bs_market_status b = MKT_OPEN \<longleftrightarrow> bs_market_status b \<noteq> MKT_SUSPENDED \<and> bs_market_status b \<noteq> MKT_PREOPEN
     \<and> bs_market_status b \<notin> {MKT_CLOSED, MKT_SETTLED, MKT_CANCELLED}"
  by (cases "bs_market_status b") auto

lemma guard_eq_None: "(if c then Some x else y) = None \<longleftrightarrow> \<not> c \<and> y = None"
  by simp

lemma open_block_reason:
  assumes "\<not> binding_blocked s b"
  shows "((block_reason s = None \<or> block_reason s = Some PROVIDER_EVENT_GAP)
      \<or> (case block_reason s of None \<Rightarrow> False | Some r \<Rightarrow> r \<in> set binding_block_reasons))
      \<and> block_reason s \<noteq> Some PROVIDER_EVENT_GAP \<longleftrightarrow> block_reason s = None"
  using assms by (cases "block_reason s") (auto simp: binding_blocked_def)

lemma pair_block_reason_none:
  assumes "\<not> binding_blocked s b"
  shows "pair_block_reason p s book pending t = None \<longleftrightarrow> pair_safe p s book t \<and> pending = None"
  using open_block_reason[OF assms]
  unfolding pair_block_reason_def guard_eq_None pair_safe_def clocks_disagree_def
    status_live_iff[of s] market_open_iff[of book]
  by (simp only: de_Morgan_disj de_Morgan_conj not_less not_le simp_thms) argo

end
