(* ===== verification/SyncInvariant.thy ===== *)
theory SyncInvariant
  imports SyncSession
begin

text \<open>
  The invariant of a session and the proof that the constructor checks on the way to a published
  snapshot all hold: \<open>evaluate_publishes\<close> shows that a safe, fresh and explained pair is
  never turned into an error.
\<close>

definition session_inv :: "SynchronizationSessionState \<Rightarrow> bool" where
  "session_inv st \<longleftrightarrow>
     synchronization_session_state_post_init st = None
     \<and> (\<forall>b \<in> set (bu_bindings (st_universe st)). match_binding_post_init b = None)
     \<and> (\<forall>c \<in> set (st_tennis_cursors st). \<forall>s. tc_tennis c = Some s \<longrightarrow> tennis_inv s)
     \<and> (\<forall>c \<in> set (st_book_cursors st).
          (\<forall>b. bc_book c = Some b \<longrightarrow> book_inv b)
          \<and> (\<forall>p. bc_pending_move c = Some p \<longrightarrow> decimal_encodable (pm_max_magnitude p)))"

lemma session_inv_post_init: "session_inv st \<Longrightarrow> synchronization_session_state_post_init st = None"
  by (simp add: session_inv_def)

lemma encodable_tuple [simp]: "encodable (VTuple (map f xs)) \<longleftrightarrow> (\<forall>x \<in> set xs. encodable (f x))"
  by (simp add: list_all_iff)

lemma universe_digest_encodable:
  assumes "universe_digest u = Inr d"
  shows "\<forall>b \<in> set (bu_bindings u). encodable (match_binding_pyval b)"
    and "\<forall>m \<in> set (bu_metadata u). encodable (binding_metadata_pyval m)"
    and "encodable (binding_review_decision_pyval (bu_review u))"
proof -
  have "encodable (VTuple
          [VStr (ap_artifact_sha256 (universe_pin u)), binding_review_decision_pyval (bu_review u),
           VTuple (map match_binding_pyval (bu_bindings u)),
           VTuple (map binding_metadata_pyval (bu_metadata u))])"
    using assms domain_digest_defined
    by (fastforce simp: universe_digest_def bind_result_eq_Inr compute_binding_universe_sha256_def)
  then show "\<forall>b \<in> set (bu_bindings u). encodable (match_binding_pyval b)"
    "\<forall>m \<in> set (bu_metadata u). encodable (binding_metadata_pyval m)"
    "encodable (binding_review_decision_pyval (bu_review u))"
    by (simp_all add: list_all_iff)
qed

text \<open>What a session knows about one of its book cursors and the tennis cursor beside it.\<close>

lemma map_of_rev_unique:
  "distinct (map f xs) \<Longrightarrow> x \<in> set xs \<Longrightarrow> map_of (rev (map (\<lambda>c. (f c, c)) xs)) (f x) = Some x"
  by (rule map_of_is_SomeI) (auto simp: rev_map[symmetric] comp_def)

lemma session_tennis_by_match_eq:
  assumes "synchronization_session_state_post_init st = None" "c \<in> set (st_tennis_cursors st)"
  shows "session_tennis_by_match st (tc_canonical_match_id c) = Some c"
  unfolding session_tennis_by_match_def
  by (rule map_of_rev_unique[OF session_keys_distinct(1)[OF assms(1)] assms(2)])

lemma session_book_cursor_facts:
  assumes st: "session_inv st"
    and tc: "tc \<in> set (st_tennis_cursors st)" "tc_canonical_match_id tc = m" "tc_tennis tc = Some s"
    and bc: "bc \<in> set (st_book_cursors st)" "bc_canonical_match_id bc = m" "bc_book bc = Some book"
  shows "tennis_state_post_init s = None" "reachable s" "encodable (tennis_state_pyval s)"
    and "book_state_post_init book = None" "bs_ticker book = bc_ticker bc"
    and "encodable (book_state_pyval book)"
    and "book_sync_cursor_post_init bc = None"
    and "when_some causal_point_witness_post_init (bc_causal_point_witness bc) = None"
    and "witnesses_match_tennis (Some s) (tc_last_point_witness tc) bc"
    and "pending_floor_ok (Some s) (bc_pending_move bc)"
proof -
  have p: "synchronization_session_state_post_init st = None"
    using st by (rule session_inv_post_init)
  then have t: "tennis_cursor_contracts tc = None" and b: "book_cursor_contracts bc = None"
      and i: "book_cursor_in_session st bc = None"
    using tc(1) bc(1) by (auto simp: session_post_init_iff session_contracts_iff)
  show "tennis_state_post_init s = None" using t tc(3) by (simp add: tennis_cursor_contracts_def)
  show "reachable s" using st tc by (auto simp: session_inv_def tennis_inv_def)
  show "encodable (tennis_state_pyval s)"
    using t tc(3) by (auto simp: tennis_cursor_contracts_def tennis_sync_cursor_post_init_def
        dest: digest_defined)
  show "book_state_post_init book = None" "book_sync_cursor_post_init bc = None"
    "when_some causal_point_witness_post_init (bc_causal_point_witness bc) = None"
    using b bc(3) by (simp_all add: book_cursor_contracts_def)
  then show "bs_ticker book = bc_ticker bc" "encodable (book_state_pyval book)"
    using bc(3) by (auto simp: book_sync_cursor_post_init_def dest: digest_defined)
  show "witnesses_match_tennis (Some s) (tc_last_point_witness tc) bc"
    "pending_floor_ok (Some s) (bc_pending_move bc)"
    using i session_tennis_by_match_eq[OF p tc(1)] tc bc(2)
    by (simp_all add: book_cursor_in_session_def)
qed

lemma causal_revision_ok:
  assumes "witnesses_match_tennis (Some s) lp bc" "bc_causal_point_witness bc = Some w"
  shows "cw_revision w \<le> revision s"
  using assms
  by (auto simp: witnesses_match_tennis_def task5_witness_matches_tennis_def coord_less_def
      witness_position_def tennis_position_def)

lemma binding_matches_iff: "binding_matches_tennis b s \<longleftrightarrow> \<not> binding_drift s b"
  by (simp add: binding_matches_tennis_def binding_drift_def)

lemma live_status_ok:
  assumes "tennis_state_post_init s = None" "status s = MS_LIVE"
  shows "winner s = None" "retired_side s = None" "snapshot_complete s"
  using assms by (auto simp: tennis_state_post_init_def validate_status_def status_ok_def)

definition now_ok :: "PairedTimeObservation \<Rightarrow> bool" where
  "now_ok t \<longleftrightarrow> integer_ok (obs_wall_ns t) \<and> integer_ok (obs_monotonic_ns t)
     \<and> integer_ok (obs_clock_uncertainty_ns t)"

lemma now_ok_post_init: "paired_time_observation_post_init t = None \<longleftrightarrow> now_ok t"
  by (simp add: paired_time_observation_post_init_def now_ok_def)

lemma now_ok_encodable: "now_ok t \<Longrightarrow> encodable (paired_time_observation_pyval t)"
  by (simp add: now_ok_def paired_time_observation_pyval_def del: encodable.simps(1))

lemma snapshot_of_ok:
  assumes st: "session_inv st"
    and tc: "tc \<in> set (st_tennis_cursors st)" "tc_canonical_match_id tc = m" "tc_tennis tc = Some s"
    and bc: "bc \<in> set (st_book_cursors st)" "bc_canonical_match_id bc = m" "bc_book bc = Some book"
    and b: "bc_ticker bc \<in> {mb_home_market_ticker b, mb_away_market_ticker b}"
    and safe: "pair_safe (st_policy st) s book now" "\<not> binding_blocked s b"
    and ds: "integer_ok (st_decision_sequence st + 1)"
  shows "trusted_snapshot_post_init (snapshot_of st b bc s book now) = None"
proof -
  note f = session_book_cursor_facts[OF st tc bc]
  have "integer_ok (st_decision_sequence st)" "sha256_ok (st_sync_policy_sha256 st)"
    using session_inv_post_init[OF st] by (simp_all add: session_post_init_iff)
  then have seq: "positive_integer_ok (st_decision_sequence st + 1)" "sha256_ok (st_sync_policy_sha256 st)"
    using ds by (auto simp: integer_ok_def positive_integer_ok_def)
  have causal: "when_some (\<lambda>v. first_raise
          [integer v ''causal_provider_revision'',
           contract_error (\<not> revision s < v) ''causal_provider_revision''])
        (map_option cw_revision (bc_causal_point_witness bc)) = None"
    using f(8) causal_revision_ok[OF f(9)]
    by (cases "bc_causal_point_witness bc") (auto simp: causal_point_witness_post_init_def not_less)
  show ?thesis
    using seq causal safe b f(5) live_status_ok[OF f(1)]
    unfolding trusted_snapshot_post_init_def snapshot_of_def pair_safe_def binding_blocked_def
    by (simp add: binding_matches_iff not_less)
qed

lemma opportunity_ok:
  assumes snap: "snapshot = snapshot_of st b bc s book now"
    and st: "synchronization_session_state_post_init st = None"
    and e: "encodable (match_binding_pyval b)" "encodable (tennis_state_pyval s)"
      "encodable (book_state_pyval book)"
    and b: "match_binding_post_init b = None"
    and s: "tennis_state_post_init s = None" "book_state_post_init book = None"
    and t: "trusted_snapshot_post_init snapshot = None" "now_ok now"
  shows "\<exists>frame. opportunity st b snapshot = Inr frame \<and> opp_canonical_match_id frame = mb_canonical_match_id b
     \<and> opp_ticker frame = bs_ticker book \<and> opp_snapshot frame = snapshot
     \<and> opp_universe_sha256 frame = st_universe_sha256 st
     \<and> opportunity_frame_post_init frame = None"
proof -
  obtain bd where bd: "expert_contract_sha256 (match_binding_pyval b) = Inr bd"
    using e(1) contract_digest_defined by blast
  have ints: "integer_ok (revision s)" "integer_ok (bs_connection_epoch book)" "positive_integer_ok (bs_sequence book)"
    "ticker_ok (bs_ticker book)" "safe_id_ok (mb_canonical_match_id b)"
    using s b by (simp_all add: tennis_state_post_init_def book_state_post_init_def match_binding_post_init_def)
  have pos: "positive_integer_ok (ts_decision_sequence snapshot)"
    "encodable (vopt VInt (ts_causal_provider_revision snapshot))"
    using t(1) by (auto simp: trusted_snapshot_post_init_def vopt_def split: option.splits
        simp del: encodable.simps(1) intro: integer_ok_encodable)
  have "encodable (trusted_snapshot_pyval snapshot)"
    using e pos now_ok_encodable[OF t(2)]
    by (simp add: trusted_snapshot_pyval_def snap snapshot_of_def del: encodable.simps(1) encodable_vopt)
  then obtain sd where sd: "expert_contract_sha256 (trusted_snapshot_pyval snapshot) = Inr sd"
    using contract_digest_defined by blast
  have "encodable (opportunity_identity (st_universe_sha256 st) snapshot bd sd)"
    using pos ints now_ok_encodable[OF t(2)]
    by (simp add: opportunity_identity_def snap snapshot_of_def del: encodable.simps(1))
  then obtain oid where oid: "domain_sha256 (''INCI-OPPORTUNITY-ID-V1'' @ nul)
      (opportunity_identity (st_universe_sha256 st) snapshot bd sd) = Inr oid"
    using domain_digest_defined by blast
  have sha: "sha256_ok bd" "sha256_ok sd" "sha256_ok oid" "sha256_ok (st_universe_sha256 st)"
    using bd sd oid st by (auto simp: session_post_init_iff intro: expert_contract_sha256_ok domain_digest_ok)
  show ?thesis
    unfolding opportunity_def
    using bd sd oid sha ints pos
    by (simp add: opportunity_frame_post_init_def opportunity_id_of_def opportunity_identity_def snap
        snapshot_of_def)
qed

lemma emission_of_ok:
  assumes "tennis_state_post_init s = None" "book_state_post_init book = None" "sha256_ok fp"
  shows "last_sync_emission_post_init (emission_of fp s book) = None"
  using assms
  by (simp add: last_sync_emission_post_init_def emission_of_def tennis_state_post_init_def
      book_state_post_init_def)

lemma cursor_witnesses_emission [simp]:
  "cursor_witnesses_ok (bc\<lparr>bc_last_emission := e\<rparr>) = cursor_witnesses_ok bc"
  by (simp add: cursor_witnesses_ok_def cong: option.case_cong)

lemma cursor_pending_emission [simp]:
  "cursor_pending_ok (bc\<lparr>bc_last_emission := e\<rparr>) b p = cursor_pending_ok bc b p"
  by (simp add: cursor_pending_ok_def)

lemma witnesses_match_emission [simp]:
  "witnesses_match_tennis s w (bc\<lparr>bc_last_emission := e\<rparr>) = witnesses_match_tennis s w bc"
  unfolding witnesses_match_tennis_def by (cases bc) (simp only: BookSyncCursor.simps)

lemma emitted_cursor_ok:
  assumes "book_sync_cursor_post_init bc = None" "bc_book bc = Some book"
  shows "book_sync_cursor_post_init (bc\<lparr>bc_last_emission := Some (emission_of fp s book)\<rparr>) = None"
  using assms
  by (simp add: book_sync_cursor_post_init_def em_book_def bs_position_def emission_of_def coord_less_def)

text \<open>A session after a change of its book cursors and counters only.\<close>

lemma session_books_changed:
  assumes st: "synchronization_session_state_post_init st = None"
    and st': "st' = st\<lparr>st_decision_sequence := n, st_book_cursors := bs\<rparr>"
    and n: "integer_ok n" and prog: "session_progress_ok st'"
    and keys: "map bc_key bs = map bc_key (st_book_cursors st)"
    and bs: "\<And>c. c \<in> set bs \<Longrightarrow> c \<in> set (st_book_cursors st)
               \<or> (book_cursor_contracts c = None \<and> book_cursor_in_session st c = None)"
  shows "synchronization_session_state_post_init st' = None"
proof -
  have same: "book_cursor_in_session st' c = book_cursor_in_session st c" for c
    by (simp add: book_cursor_in_session_def session_tennis_by_match_def st')
  have art: "session_artifacts_ok st' = None \<longleftrightarrow> session_artifacts_ok st = None"
    by (simp add: session_artifacts_iff st')
  have "\<forall>c \<in> set bs. book_cursor_contracts c = None \<and> book_cursor_in_session st' c = None"
    using bs st same by (fastforce simp: session_post_init_iff session_contracts_iff)
  then show ?thesis
    using st art n prog keys same
    by (simp add: session_post_init_iff session_contracts_iff st')
qed

lemma emission_in_session:
  assumes st: "synchronization_session_state_post_init st = None"
    and tc: "tc \<in> set (st_tennis_cursors st)" "tc_canonical_match_id tc = bc_canonical_match_id bc"
      "tc_tennis tc = Some s"
    and bc: "bc \<in> set (st_book_cursors st)"
  shows "book_cursor_in_session st (bc\<lparr>bc_last_emission := Some (emission_of fp s book)\<rparr>) = None"
proof -
  have "book_cursor_in_session st bc = None"
    using st bc by (simp add: session_post_init_iff)
  then show ?thesis
    using session_tennis_by_match_eq[OF st tc(1)] tc(2,3)
    by (simp add: book_cursor_in_session_def emission_matches_tennis_def
        em_provider_def tennis_position_def emission_of_def coord_less_def)
qed

lemma emitted_session_ok:
  assumes st: "session_inv st"
    and tc: "tc \<in> set (st_tennis_cursors st)" "tc_canonical_match_id tc = m" "tc_tennis tc = Some s"
    and bc: "bc \<in> set (st_book_cursors st)" "bc_canonical_match_id bc = m" "bc_book bc = Some book"
    and fp: "sha256_ok fp" and ds: "integer_ok (st_decision_sequence st + 1)"
  shows "session_inv (emitted_session st bc (emission_of fp s book))"
proof -
  let ?c = "bc\<lparr>bc_last_emission := Some (emission_of fp s book)\<rparr>"
  let ?st = "emitted_session st bc (emission_of fp s book)"
  note p = session_inv_post_init[OF st] and f = session_book_cursor_facts[OF st tc bc]
  have old: "book_cursor_contracts bc = None"
    using p bc(1) by (simp add: session_post_init_iff session_contracts_iff)
  then have c: "book_cursor_contracts ?c = None"
    using emitted_cursor_ok[OF f(7) bc(3)] emission_of_ok[OF f(1,4) fp]
    by (simp add: book_cursor_contracts_def)
  have i: "book_cursor_in_session st ?c = None"
    using emission_in_session[OF p tc(1) _ tc(3) bc(1)] tc(2) bc(2) by simp
  have key: "bc_key ?c = bc_key bc" by (simp add: bc_key_def)
  have mem: "?c \<in> set (put_book_cursor ?c (st_book_cursors st))"
    using bc(1) key by (auto simp: set_put_book_cursor)
  have obs: "st_last_observation st \<noteq> None"
    using p bc(1,3) by (auto simp: session_post_init_iff session_progress_ok_def list_ex_iff)
  have n: "0 < st_decision_sequence st + 1"
    using p by (auto simp: session_post_init_iff integer_ok_def)
  have prog: "session_progress_ok ?st"
    using obs n mem unfolding session_progress_ok_def emitted_session_def list_ex_iff
    by (auto intro!: bexI[of _ ?c])
  have "synchronization_session_state_post_init ?st = None"
    by (rule session_books_changed[OF p emitted_session_def ds prog])
      (use c i in \<open>auto simp: set_put_book_cursor\<close>)
  then show ?thesis
    using st bc unfolding session_inv_def emitted_session_def by (auto simp: set_put_book_cursor)
qed

lemma pairs_in_universe:
  assumes "binding_universe_post_init u = None" "(b, item) \<in> set (universe_pairs u)"
  shows "b \<in> set (bu_bindings u)" "item \<in> set (bu_metadata u)"
  using assms(2) by (auto simp: universe_pairs_def dest: set_zip_leftD set_zip_rightD)

lemma fingerprint_defined:
  assumes st: "synchronization_session_state_post_init st = None"
    and b: "(b, item) \<in> set (universe_pairs (st_universe st))"
    and s: "tennis_state_post_init s = None" "book_state_post_init book = None"
  shows "\<exists>fp. fingerprint st b item s book = Inr fp \<and> sha256_ok fp"
proof -
  have u: "binding_universe_post_init (st_universe st) = None"
    "universe_digest (st_universe st) = Inr (st_universe_sha256 st)"
    "sha256_ok (st_universe_sha256 st)" "sha256_ok (st_sync_policy_sha256 st)"
    using st by (simp_all add: session_post_init_iff session_artifacts_iff)
  have "encodable (match_binding_pyval b)" "encodable (binding_metadata_pyval item)"
    using universe_digest_encodable[OF u(2)] pairs_in_universe[OF u(1) b] by blast+
  then obtain bd md where d: "expert_contract_sha256 (match_binding_pyval b) = Inr bd"
      "expert_contract_sha256 (binding_metadata_pyval item) = Inr md"
    using contract_digest_defined by blast
  have "integer_ok (correction_epoch s)" "integer_ok (revision s)"
    "integer_ok (bs_connection_epoch book)" "positive_integer_ok (bs_sequence book)"
    using s by (simp_all add: tennis_state_post_init_def book_state_post_init_def)
  moreover have chk: "first_raise [sha256_text (st_universe_sha256 st) ''universe_sha256'',
      sha256_text (st_sync_policy_sha256 st) ''sync_policy_sha256''] = None"
    using u by simp
  ultimately have "\<exists>fp. fingerprint st b item s book = Inr fp"
    unfolding fingerprint_def synchronization_emission_fingerprint_def
    using d by (simp add: chk domain_digest_defined del: encodable.simps(1))
  then show ?thesis
    unfolding fingerprint_def synchronization_emission_fingerprint_def
    by (auto simp: bind_result_eq_Inr checked_eq_Inr dest: domain_digest_ok)
qed

text \<open>In a valid session a safe, fresh and explained pair is always published.\<close>

lemma evaluate_publishes:
  assumes st: "session_inv st" and b: "(b, item) \<in> set (universe_pairs (st_universe st))"
    and now: "now_ok now" and ds: "integer_ok (st_decision_sequence st + 1)"
    and tc: "tc \<in> set (st_tennis_cursors st)" "tc_canonical_match_id tc = mb_canonical_match_id b"
      "tc_tennis tc = Some s"
    and bc: "bc \<in> set (st_book_cursors st)" "bc_canonical_match_id bc = mb_canonical_match_id b"
      "bc_ticker bc = t" "bc_book bc = Some book"
    and t: "t \<in> {mb_home_market_ticker b, mb_away_market_ticker b}"
    and safe: "\<not> binding_blocked s b" "pair_safe (st_policy st) s book now" "bc_pending_move bc = None"
    and fp: "fingerprint st b item s book = Inr fp" and fresh: "fresh_pair bc s book fp"
  shows "\<exists>frame. evaluate st b item t now =
      Inr (emitted_session st bc (emission_of fp s book),
           trusted_result b t (snapshot_of st b bc s book now) frame)
     \<and> opportunity st b (snapshot_of st b bc s book now) = Inr frame
     \<and> result_contracts (trusted_result b t (snapshot_of st b bc s book now) frame) = None
     \<and> opp_universe_sha256 frame = st_universe_sha256 st"
proof -
  note p = session_inv_post_init[OF st] and f = session_book_cursor_facts[OF st tc bc(1,2,4)]
  have u: "binding_universe_post_init (st_universe st) = None"
    "universe_digest (st_universe st) = Inr (st_universe_sha256 st)"
    using p by (simp_all add: session_post_init_iff session_artifacts_iff)
  have bu: "b \<in> set (bu_bindings (st_universe st))" by (rule pairs_in_universe(1)[OF u(1) b])
  then have mb: "match_binding_post_init b = None" using st by (simp add: session_inv_def)
  have enc: "encodable (match_binding_pyval b)" using universe_digest_encodable(1)[OF u(2)] bu by blast
  have snap: "trusted_snapshot_post_init (snapshot_of st b bc s book now) = None"
    by (rule snapshot_of_ok[OF st tc bc(1,2,4) _ safe(2,1) ds]) (use t bc in simp)
  obtain frame where fr: "opportunity st b (snapshot_of st b bc s book now) = Inr frame"
      "opp_canonical_match_id frame = mb_canonical_match_id b" "opp_ticker frame = bs_ticker book"
      "opp_snapshot frame = snapshot_of st b bc s book now"
      "opp_universe_sha256 frame = st_universe_sha256 st"
      "opportunity_frame_post_init frame = None"
    using opportunity_ok[OF refl p enc f(3) f(6) mb f(1) f(4) snap now] by blast
  have tick: "ticker_ok t" "safe_id_ok (mb_canonical_match_id b)" "bs_ticker book = t"
    using f(4,5) bc(3) mb by (simp_all add: book_state_post_init_def match_binding_post_init_def)
  let ?r = "trusted_result b t (snapshot_of st b bc s book now) frame"
  have fields: "ts_decision_time (snapshot_of st b bc s book now) = now"
    "ts_tennis (snapshot_of st b bc s book now) = s" "ts_book (snapshot_of st b bc s book now) = book"
    "ts_binding (snapshot_of st b bc s book now) = b"
    by (simp_all add: snapshot_of_def)
  have r: "sync_result_post_init ?r = None"
    using tick fr snap f(1,4) mb now
    by (simp add: sync_result_post_init_def trusted_result_def fields now_ok_post_init)
  have rc: "result_contracts ?r = None"
    using r snap fr f(1,4) mb now
    by (simp add: result_contracts_def trusted_result_def fields now_ok_post_init)
  have fpok: "sha256_ok fp"
    using fingerprint_defined[OF p b f(1,4)] fp by auto
  have emit: "emit st b t bc s book fp now = Inr (emitted_session st bc (emission_of fp s book), ?r)"
    unfolding emit_eq_Inr Let_def
    using snap fr(1) r emission_of_ok[OF f(1,4) fpok] emitted_cursor_ok[OF f(7) bc(4)]
      session_inv_post_init[OF emitted_session_ok[OF st tc bc(1,2,4) fpok ds]] by blast
  have "selected_tennis_cursor st (mb_canonical_match_id b) = Inr tc"
    "selected_book_cursor st (mb_canonical_match_id b) t = Inr bc"
    using tc bc by (simp_all add: selected_tennis_cursor_iff[OF p] selected_book_cursor_iff[OF p])
  moreover have "block_reason_of st b tc bc now = Inr None"
    using tc(3) bc(4) safe f(2) by (auto simp: block_reason_none pair_block_reason_none)
  ultimately have "evaluate st b item t now = emit st b t bc s book fp now"
    unfolding evaluate_def using tc(3) bc(4) fp fresh
    by (auto simp: fresh_pair_def split: option.splits)
  then show ?thesis using emit fr(1,5) rc by (intro exI[of _ frame]) simp
qed

subsection \<open>Guards of a step in a valid session\<close>

lemma filter_index_unique:
  assumes "distinct xs" "i < length xs"
  shows "filter (\<lambda>j. xs ! j = xs ! i) [0..<length xs] = [i]"
proof -
  have "filter (\<lambda>j. xs ! j = xs ! i) [0..<length xs] = filter (\<lambda>j. j = i) [0..<length xs]"
    by (rule filter_cong) (use assms in \<open>auto simp: nth_eq_iff_index_eq\<close>)
  also have "\<dots> = [i]"
    using filter_key_unique[of id "[0..<length xs]" i] assms(2) by simp
  finally show ?thesis .
qed

lemma binding_metadata_for_pair:
  assumes u: "binding_universe_post_init u = None" and b: "(b, item) \<in> set (universe_pairs u)"
  shows "binding_metadata_for u b = Inr item"
proof -
  obtain i where i: "i < length (bu_bindings u)" "i < length (bu_metadata u)"
      "b = bu_bindings u ! i" "item = bu_metadata u ! i"
    using b by (auto simp: universe_pairs_def in_set_zip)
  have "distinct (bu_bindings u)"
    using universe_match_ids_distinct[OF u] by (simp add: distinct_map)
  then show ?thesis
    using filter_index_unique[of "bu_bindings u" i] i u by (simp add: binding_metadata_for_def)
qed

lemma map_result_unit:
  "(\<And>x. x \<in> set xs \<Longrightarrow> f x = Inr ()) \<Longrightarrow> \<exists>us. map_result f xs = Inr us"
  by (rule map_result_total) blast

lemma session_compatible:
  assumes st: "session_inv st"
  shows "assert_synchronization_session_compatible st (st_universe st) (st_policy st) = Inr ()"
proof -
  note p = session_inv_post_init[OF st]
  have a: "binding_universe_post_init (st_universe st) = None"
    "universe_digest (st_universe st) = Inr (st_universe_sha256 st)"
    "bu_universe_sha256 (st_universe st) = st_universe_sha256 st"
    "sync_policy_post_init (st_policy st) = None"
    "pol_universe_sha256 (st_policy st) = st_universe_sha256 st"
    "expert_contract_sha256 (sync_policy_pyval (st_policy st)) = Inr (st_sync_policy_sha256 st)"
    using p by (simp_all add: session_post_init_iff session_artifacts_iff)
  have "\<exists>us. map_result (\<lambda>(b, item).
      bind_result (binding_metadata_for (st_universe st) b) (\<lambda>found.
        if found \<noteq> item then session_drift else Inr ())) (universe_pairs (st_universe st)) = Inr us"
    by (rule map_result_unit) (auto simp: binding_metadata_for_pair[OF a(1)])
  then obtain u1 where u1: "map_result (\<lambda>(b, item).
      bind_result (binding_metadata_for (st_universe st) b) (\<lambda>found.
        if found \<noteq> item then session_drift else Inr ())) (universe_pairs (st_universe st)) = Inr u1" ..
  have "\<exists>us. map_result (\<lambda>c. case tc_tennis c of None \<Rightarrow> Inr () | Some s \<Rightarrow> validate_tennis_state s)
      (st_tennis_cursors st) = Inr us"
    by (rule map_result_unit)
      (use st in \<open>auto simp: session_inv_def tennis_inv_def validate_tennis_state_def split: option.splits\<close>)
  then obtain u2 where u2: "map_result (\<lambda>c. case tc_tennis c of None \<Rightarrow> Inr () | Some s \<Rightarrow> validate_tennis_state s)
      (st_tennis_cursors st) = Inr u2" ..
  have "\<exists>us. map_result (\<lambda>c. validated (when_some book_state_post_init (bc_book c)))
      (st_book_cursors st) = Inr us"
    by (rule map_result_unit)
      (use p in \<open>auto simp: session_post_init_iff session_contracts_iff book_cursor_contracts_def\<close>)
  then obtain u3 where u3: "map_result (\<lambda>c. validated (when_some book_state_post_init (bc_book c)))
      (st_book_cursors st) = Inr u3" ..
  show ?thesis
    unfolding assert_synchronization_session_compatible_def
    using a p u1 u2 u3 by (simp add: checked_def binding_universe_sha256_def)
qed

lemma find_binding_pair:
  assumes st: "synchronization_session_state_post_init st = None"
    and b: "(b, item) \<in> set (universe_pairs (st_universe st))"
  shows "binding_pairs (st_universe st) (mb_canonical_match_id b) = [(b, item)]"
    and "find_binding st (mb_canonical_match_id b) = Inr (b, item)"
proof -
  have u: "binding_universe_post_init (st_universe st) = None"
    using st by (simp add: session_post_init_iff session_artifacts_iff)
  have "distinct (map (\<lambda>p. mb_canonical_match_id (fst p)) (universe_pairs (st_universe st)))"
    using universe_loop_sorted[OF universe_loop_of_post_init[OF u]] by (simp add: case_prod_unfold)
  from filter_key_unique[OF this b]
  show "binding_pairs (st_universe st) (mb_canonical_match_id b) = [(b, item)]"
    by (simp add: binding_pairs_def case_prod_unfold)
  then show "find_binding st (mb_canonical_match_id b) = Inr (b, item)"
    by (simp add: find_binding_def binding_pairs_def)
qed

definition observed :: "SynchronizationSessionState \<Rightarrow> PairedTimeObservation \<Rightarrow> SynchronizationSessionState" where
  "observed st now = st\<lparr>st_last_observation := Some now\<rparr>"

lemma observed_fields [simp]:
  "st_universe (observed st now) = st_universe st" "st_policy (observed st now) = st_policy st"
  "st_universe_sha256 (observed st now) = st_universe_sha256 st"
  "st_sync_policy_sha256 (observed st now) = st_sync_policy_sha256 st"
  "st_decision_sequence (observed st now) = st_decision_sequence st"
  "st_last_observation (observed st now) = Some now"
  "st_tennis_cursors (observed st now) = st_tennis_cursors st"
  "st_book_cursors (observed st now) = st_book_cursors st"
  by (simp_all add: observed_def)

lemma observed_inv:
  assumes st: "session_inv st" and now: "now_ok now"
  shows "session_inv (observed st now)" and "with_observation st now = Inr (observed st now)"
proof -
  have "book_cursor_in_session (observed st now) c = book_cursor_in_session st c" for c
    by (simp add: book_cursor_in_session_def session_tennis_by_match_def)
  moreover have "session_artifacts_ok (observed st now) = None \<longleftrightarrow> session_artifacts_ok st = None"
    by (simp add: session_artifacts_iff)
  ultimately have p: "synchronization_session_state_post_init (observed st now) = None"
    using session_inv_post_init[OF st] now
    by (simp add: session_post_init_iff session_contracts_iff session_progress_ok_def now_ok_post_init)
  then show "session_inv (observed st now)" using st by (simp add: session_inv_def)
  show "with_observation st now = Inr (observed st now)"
    using p by (simp add: with_observation_def make_session_def observed_def)
qed

subsection \<open>A valid session has canonical bytes\<close>

lemma session_encodable:
  assumes st: "session_inv st"
  shows "encodable (synchronization_session_state_pyval st)"
proof -
  note p = session_inv_post_init[OF st]
  have d: "universe_digest (st_universe st) = Inr (st_universe_sha256 st)"
    "expert_contract_sha256 (sync_policy_pyval (st_policy st)) = Inr (st_sync_policy_sha256 st)"
    "integer_ok (st_decision_sequence st)"
    "when_some paired_time_observation_post_init (st_last_observation st) = None"
    using p by (simp_all add: session_post_init_iff session_artifacts_iff session_contracts_iff)
  have u: "encodable (binding_universe_pyval (st_universe st))"
    using universe_digest_encodable[OF d(1)] by (simp add: binding_universe_pyval_def list_all_iff)
  have o: "encodable (vopt paired_time_observation_pyval (st_last_observation st))"
    using d(4) by (cases "st_last_observation st") (auto simp: vopt_def now_ok_post_init now_ok_encodable)
  have wit: "encodable (vopt causal_point_witness_pyval w)"
    if "when_some causal_point_witness_post_init w = None" for w
    using that by (cases w) (auto simp: vopt_def causal_point_witness_pyval_def
        causal_point_witness_post_init_def simp del: encodable.simps(1))
  have t: "encodable (tennis_sync_cursor_pyval c)" if "c \<in> set (st_tennis_cursors st)" for c
  proof -
    have c: "tennis_cursor_contracts c = None"
      using p that by (simp add: session_post_init_iff session_contracts_iff)
    then have "encodable (vopt tennis_state_pyval (tc_tennis c))"
      by (cases "tc_tennis c") (auto simp: vopt_def tennis_cursor_contracts_def
          tennis_sync_cursor_post_init_def dest: digest_defined)
    then show ?thesis
      using c wit by (simp add: tennis_sync_cursor_pyval_def tennis_cursor_contracts_def vopt_def
          split: option.splits)
  qed
  have b: "encodable (book_sync_cursor_pyval c)" if c: "c \<in> set (st_book_cursors st)" for c
  proof -
    have k: "book_cursor_contracts c = None"
      using p c by (simp add: session_post_init_iff session_contracts_iff)
    have "encodable (vopt book_state_pyval (bc_book c))"
      using k by (cases "bc_book c") (auto simp: vopt_def book_cursor_contracts_def
          book_sync_cursor_post_init_def dest: digest_defined)
    moreover have "encodable (vopt pending_book_move_pyval (bc_pending_move c))"
      using k st c by (cases "bc_pending_move c")
        (auto simp: vopt_def book_cursor_contracts_def pending_book_move_post_init_def
          pending_book_move_pyval_def session_inv_def when_some_eq_None
          simp del: encodable.simps(1) split: option.splits)
    moreover have "encodable (vopt last_sync_emission_pyval (bc_last_emission c))"
      using k by (cases "bc_last_emission c")
        (auto simp: vopt_def book_cursor_contracts_def last_sync_emission_post_init_def
          last_sync_emission_pyval_def simp del: encodable.simps(1))
    ultimately show ?thesis
      using k wit by (simp add: book_sync_cursor_pyval_def book_cursor_contracts_def vopt_def
          split: option.splits)
  qed
  show ?thesis
    unfolding synchronization_session_state_pyval_def
    using u o t b d(3) digest_defined[OF d(2)]
    by (simp add: list_all_iff del: encodable.simps(1) encodable_vopt)
qed

end
