(* ===== verification/SyncSteps.thy ===== *)
theory SyncSteps
  imports SyncInvariant
begin

text \<open>
  The steps of the synchronizer: the decision about one market as a value (\<open>decision\<close>), the
  outcome of an evaluation, and the step on the clock alone, which always returns.
\<close>

lemma make_transition_ok:
  assumes prior: "session_inv prior" and st: "session_inv st" "st_last_observation st = Some now"
    and i: "synchronization_input_post_init i = None" "encodable (synchronization_input_pyval i)"
    and now: "now_ok now"
    and rs: "\<And>r. r \<in> set rs \<Longrightarrow> result_contracts r = None"
    and expd: "results_expected i (binding_pairs (st_universe st) (in_canonical_match_id i)) rs"
    and seqs: "sequences_consecutive (st_decision_sequence prior) (st_decision_sequence st) (filter is_trusted rs)"
    and tr: "\<And>x r. tx_state x = st \<Longrightarrow> tx_input x = i \<Longrightarrow> tx_observation x = now \<Longrightarrow> r \<in> set rs \<Longrightarrow> is_trusted r
       \<Longrightarrow> trusted_result_ok x (binding_pairs (st_universe st) (in_canonical_match_id i)) r = None"
  shows "\<exists>x. make_transition prior st i now rs = Inr x \<and> tx_state x = st \<and> tx_input x = i
     \<and> tx_observation x = now \<and> tx_results x = rs \<and> tx_prior_decision_sequence x = st_decision_sequence prior"
proof -
  obtain di where di: "expert_contract_sha256 (synchronization_input_pyval i) = Inr di"
    using i(2) contract_digest_defined by blast
  obtain dp where dp: "expert_contract_sha256 (synchronization_session_state_pyval prior) = Inr dp"
    using session_encodable[OF prior] contract_digest_defined by blast
  have sha: "sha256_ok di" "sha256_ok dp" "integer_ok (st_decision_sequence prior)"
    using di dp session_inv_post_init[OF prior]
    by (auto simp: session_post_init_iff intro: expert_contract_sha256_ok)
  show ?thesis
    unfolding make_transition_def
    using di dp sha session_inv_post_init[OF st(1)] st(2) i(1) now rs expd seqs tr
    by (simp add: synchronization_transition_result_post_init_def Let_def now_ok_post_init)
qed

lemma refusal_contracts: "refusal m t reason = Inr r \<Longrightarrow> result_contracts r = None"
  by (auto simp: refusal_def result_contracts_def)

definition clock_input :: "string \<Rightarrow> string \<Rightarrow> SynchronizationInput" where
  "clock_input m t =
     \<lparr>in_kind = CLOCK, in_canonical_match_id = m, in_ticker = Some t, in_previous_state_sha256 = None,
      in_provider_event = None, in_tennis_transition = None, in_book_event = None,
      in_book_transition = None, in_book_resnapshot_state = None\<rparr>"

lemma clock_input_ok:
  assumes "safe_id_ok m" "ticker_ok t"
  shows "synchronization_input_post_init (clock_input m t) = None"
    and "encodable (synchronization_input_pyval (clock_input m t))"
  using assms
  by (simp_all add: synchronization_input_post_init_def clock_input_def input_shape_ok_def
      input_tickers_def map_filter_def synchronization_input_pyval_def vopt_def sync_input_kind_pyval_def)

text \<open>The decision about a market, as the reason the step reports.\<close>

definition decision ::
  "SyncPolicy \<Rightarrow> MatchBinding \<Rightarrow> TennisSyncCursor \<Rightarrow> BookSyncCursor \<Rightarrow> PairedTimeObservation
     \<Rightarrow> SyncReason" where
  "decision p b tc bc now =
     (case tc_tennis tc of
        None \<Rightarrow> SR_SNAPSHOT_INCOMPLETE
      | Some s \<Rightarrow>
          if binding_blocked s b then SR_BINDING_DRIFT
          else
            (case bc_book bc of
               None \<Rightarrow> SR_SNAPSHOT_INCOMPLETE
             | Some book \<Rightarrow>
                 (case pair_block_reason p s book (bc_pending_move bc) now of
                    Some reason \<Rightarrow> reason
                  | None \<Rightarrow>
                      (case bc_last_emission bc of
                         None \<Rightarrow> SR_TRUSTED_SYNCHRONIZED
                       | Some e \<Rightarrow>
                           if pair_identity s book = emission_identity e
                           then SR_DUPLICATE_STATE_SUPPRESSED else SR_TRUSTED_SYNCHRONIZED))))"

lemma pair_block_reason_not_trusted:
  "pair_block_reason p s book pending t \<noteq> Some SR_TRUSTED_SYNCHRONIZED"
  unfolding pair_block_reason_def by simp

lemma decision_trusted:
  "decision p b tc bc now = SR_TRUSTED_SYNCHRONIZED \<longleftrightarrow>
     (\<exists>s book. tc_tennis tc = Some s \<and> bc_book bc = Some book \<and> \<not> binding_blocked s b
        \<and> pair_safe p s book now \<and> bc_pending_move bc = None
        \<and> (\<forall>e. bc_last_emission bc = Some e \<longrightarrow> pair_identity s book \<noteq> emission_identity e))"
proof (cases "tc_tennis tc")
  case (Some s)
  show ?thesis
  proof (cases "binding_blocked s b \<or> bc_book bc = None")
    case True
    then show ?thesis using Some by (auto simp: decision_def split: option.splits)
  next
    case False
    then obtain book where book: "bc_book bc = Some book" "\<not> binding_blocked s b" by auto
    show ?thesis
      using Some book pair_block_reason_not_trusted[of p s book "bc_pending_move bc" now]
        pair_block_reason_none[OF book(2), of p book "bc_pending_move bc" now]
      by (auto simp: decision_def split: option.splits if_splits)
  qed
qed (simp add: decision_def)

definition no_fingerprint_collision ::
  "SynchronizationSessionState \<Rightarrow> MatchBinding \<Rightarrow> BindingMetadata \<Rightarrow> TennisSyncCursor
     \<Rightarrow> BookSyncCursor \<Rightarrow> bool" where
  \<comment> \<open>two different pairs of positions do not share a fingerprint\<close>
  "no_fingerprint_collision st b item tc bc \<longleftrightarrow>
     (case (tc_tennis tc, bc_book bc, bc_last_emission bc) of
        (Some s, Some book, Some e) \<Rightarrow>
          pair_identity s book = emission_identity e
          \<or> fingerprint st b item s book \<noteq> Inr (em_fingerprint_sha256 e)
      | _ \<Rightarrow> True)"

lemma evaluate_decides:
  assumes st: "session_inv st" and b: "(b, item) \<in> set (universe_pairs (st_universe st))"
    and now: "now_ok now" and ds: "integer_ok (st_decision_sequence st + 1)"
    and tc: "tc \<in> set (st_tennis_cursors st)" "tc_canonical_match_id tc = mb_canonical_match_id b"
    and bc: "bc \<in> set (st_book_cursors st)" "bc_canonical_match_id bc = mb_canonical_match_id b"
      "bc_ticker bc = t"
    and t: "t \<in> {mb_home_market_ticker b, mb_away_market_ticker b}"
    and coll: "no_fingerprint_collision st b item tc bc"
  shows "\<exists>st' r. evaluate st b item t now = Inr (st', r) \<and> res_reason r = decision (st_policy st) b tc bc now
     \<and> result_contracts r = None"
proof (cases "decision (st_policy st) b tc bc now = SR_TRUSTED_SYNCHRONIZED")
  case True
  then obtain s book where s: "tc_tennis tc = Some s" "bc_book bc = Some book" "\<not> binding_blocked s b"
      "pair_safe (st_policy st) s book now" "bc_pending_move bc = None"
      "\<forall>e. bc_last_emission bc = Some e \<longrightarrow> pair_identity s book \<noteq> emission_identity e"
    unfolding decision_trusted by blast
  note p = session_inv_post_init[OF st] and f = session_book_cursor_facts[OF st tc s(1) bc(1,2) s(2)]
  obtain fp where fp: "fingerprint st b item s book = Inr fp"
    using fingerprint_defined[OF p b f(1,4)] by blast
  have fresh: "fresh_pair bc s book fp"
    using s coll fp by (auto simp: fresh_pair_def no_fingerprint_collision_def split: option.splits)
  show ?thesis
    using evaluate_publishes[OF st b now ds tc s(1) bc(1,2,3) s(2) t s(3,4,5) fp fresh] True
    by (auto simp: trusted_result_def)
next
  case False
  note p = session_inv_post_init[OF st]
  have mb: "safe_id_ok (mb_canonical_match_id b)" "ticker_ok t"
  proof -
    have "b \<in> set (bu_bindings (st_universe st))"
      using pairs_in_universe(1)[OF _ b] p by (simp add: session_post_init_iff session_artifacts_iff)
    then have "match_binding_post_init b = None" using st by (simp add: session_inv_def)
    then show "safe_id_ok (mb_canonical_match_id b)" "ticker_ok t"
      using t by (auto simp: match_binding_post_init_def)
  qed
  then obtain r where r: "refusal (mb_canonical_match_id b) t (decision (st_policy st) b tc bc now) = Inr r"
      "res_reason r = decision (st_policy st) b tc bc now"
    using False by (auto simp: refusal_eq_Inr)
  have sel: "selected_tennis_cursor st (mb_canonical_match_id b) = Inr tc"
    "selected_book_cursor st (mb_canonical_match_id b) t = Inr bc"
    using tc bc by (simp_all add: selected_tennis_cursor_iff[OF p] selected_book_cursor_iff[OF p])
  have reach: "reachable s" if "tc_tennis tc = Some s" for s
    using st tc that by (auto simp: session_inv_def tennis_inv_def)
  have "evaluate st b item t now = Inr (st, r)"
  proof (cases "block_reason_of st b tc bc now = Inr None")
    case True
    then obtain s book where s: "tc_tennis tc = Some s" "bc_book bc = Some book" "\<not> binding_blocked s b"
      "pair_block_reason (st_policy st) s book (bc_pending_move bc) now = None"
      by (auto simp: block_reason_none)
    then obtain e where e: "bc_last_emission bc = Some e" "pair_identity s book = emission_identity e"
      using False by (auto simp: decision_def split: option.splits if_splits)
    note f = session_book_cursor_facts[OF st tc s(1) bc(1,2) s(2)]
    obtain fp where fp: "fingerprint st b item s book = Inr fp"
      using fingerprint_defined[OF p b f(1,4)] by blast
    then show ?thesis
      using sel True s e r(1) by (simp add: evaluate_def decision_def)
  next
    case ne: False
    then have "block_reason_of st b tc bc now = Inr (Some (decision (st_policy st) b tc bc now))"
      using reach by (auto simp: block_reason_of_def decision_def validate_tennis_state_def split: option.splits)
    then show ?thesis using sel r(1) by (simp add: evaluate_def)
  qed
  then show ?thesis using r refusal_contracts[OF r(1)] by auto
qed

lemma emitted_session_fields [simp]:
  "st_universe (emitted_session st bc e) = st_universe st"
  "st_policy (emitted_session st bc e) = st_policy st"
  "st_universe_sha256 (emitted_session st bc e) = st_universe_sha256 st"
  "st_sync_policy_sha256 (emitted_session st bc e) = st_sync_policy_sha256 st"
  "st_decision_sequence (emitted_session st bc e) = st_decision_sequence st + 1"
  "st_last_observation (emitted_session st bc e) = st_last_observation st"
  "st_tennis_cursors (emitted_session st bc e) = st_tennis_cursors st"
  "st_book_cursors (emitted_session st bc e) =
     put_book_cursor (bc\<lparr>bc_last_emission := Some e\<rparr>) (st_book_cursors st)"
  by (simp_all add: emitted_session_def)

lemma selected_tennis_filter:
  "selected_tennis_cursor st m = Inr tc \<longleftrightarrow> filter (\<lambda>c. tc_canonical_match_id c = m) (st_tennis_cursors st) = [tc]"
  by (simp add: selected_tennis_cursor_def)

lemma selected_book_filter:
  "selected_book_cursor st m t = Inr bc \<longleftrightarrow>
     filter (\<lambda>c. bc_canonical_match_id c = m \<and> bc_ticker c = t) (st_book_cursors st) = [bc]"
  by (simp add: selected_book_cursor_def)

lemma trusted_result_ok_emitted:
  assumes st': "st' = emitted_session st bc (emission_of fp s book)" "session_inv st'"
    and tc: "tc \<in> set (st_tennis_cursors st)" "tc_canonical_match_id tc = mb_canonical_match_id b"
      "tc_tennis tc = Some s"
    and bc: "bc \<in> set (st_book_cursors st)" "bc_canonical_match_id bc = mb_canonical_match_id b"
      "bc_ticker bc = t" "bc_book bc = Some book"
    and fp: "fingerprint st b item s book = Inr fp"
    and fr: "opp_universe_sha256 frame = st_universe_sha256 st"
    and x: "tx_state x = st'" "in_canonical_match_id (tx_input x) = mb_canonical_match_id b"
      "tx_observation x = now"
  shows "trusted_result_ok x [(b, item)] (trusted_result b t (snapshot_of st b bc s book now) frame) = None"
proof -
  let ?c = "bc\<lparr>bc_last_emission := Some (emission_of fp s book)\<rparr>"
  note p = session_inv_post_init[OF st'(2)]
  have "selected_tennis_cursor st' (mb_canonical_match_id b) = Inr tc"
    unfolding selected_tennis_cursor_iff[OF p] using tc st'(1) by simp
  moreover have "selected_book_cursor st' (mb_canonical_match_id b) t = Inr ?c"
    unfolding selected_book_cursor_iff[OF p] using bc st'(1) by (auto simp: set_put_book_cursor bc_key_def)
  ultimately show ?thesis
    unfolding trusted_result_ok_def Let_def selected_tennis_filter selected_book_filter
    using x tc(3) bc(4) fr fp st'(1)
    by (simp add: trusted_result_def snapshot_of_def emission_of_def fingerprint_def)
qed


lemma fingerprint_observed [simp]: "fingerprint (observed st now) b item s book = fingerprint st b item s book"
  by (simp add: fingerprint_def)

lemma no_fingerprint_collision_observed [simp]:
  "no_fingerprint_collision (observed st now) b item tc bc = no_fingerprint_collision st b item tc bc"
  by (simp add: no_fingerprint_collision_def split: option.splits)

text \<open>What an evaluation did: nothing, or the emission of the current pair.\<close>

definition emission_step ::
  "SynchronizationSessionState \<Rightarrow> MatchBinding \<Rightarrow> BindingMetadata \<Rightarrow> string \<Rightarrow> PairedTimeObservation
     \<Rightarrow> SynchronizationSessionState \<Rightarrow> SyncResult \<Rightarrow> bool" where
  "emission_step st b item t now st' r \<longleftrightarrow>
     (\<exists>tc bc s book fp frame.
        tc \<in> set (st_tennis_cursors st) \<and> tc_canonical_match_id tc = mb_canonical_match_id b
        \<and> tc_tennis tc = Some s
        \<and> bc \<in> set (st_book_cursors st) \<and> bc_canonical_match_id bc = mb_canonical_match_id b
        \<and> bc_ticker bc = t \<and> bc_book bc = Some book
        \<and> \<not> binding_blocked s b \<and> pair_safe (st_policy st) s book now \<and> bc_pending_move bc = None
        \<and> fingerprint st b item s book = Inr fp \<and> fresh_pair bc s book fp
        \<and> st' = emitted_session st bc (emission_of fp s book)
        \<and> r = trusted_result b t (snapshot_of st b bc s book now) frame)"

lemma evaluate_outcome:
  assumes st: "synchronization_session_state_post_init st = None"
    and ev: "evaluate st b item t now = Inr (st', r)"
  shows "res_canonical_match_id r = mb_canonical_match_id b" and "res_ticker r = t"
    and "if is_trusted r then emission_step st b item t now st' r else st' = st"
proof -
  have "res_canonical_match_id r = mb_canonical_match_id b \<and> res_ticker r = t
    \<and> (if is_trusted r then emission_step st b item t now st' r else st' = st)"
    using ev
  proof (cases rule: evaluate_cases)
    case (refused tc bc reason)
    then show ?thesis by (auto simp: refusal_eq_Inr is_trusted_def)
  next
    case (emitted tc bc s book fp)
    then have "tc \<in> set (st_tennis_cursors st)" "tc_canonical_match_id tc = mb_canonical_match_id b"
      "bc \<in> set (st_book_cursors st)" "bc_canonical_match_id bc = mb_canonical_match_id b" "bc_ticker bc = t"
      by (simp_all add: selected_tennis_cursor_iff[OF st] selected_book_cursor_iff[OF st])
    moreover have "\<not> binding_blocked s b" "pair_safe (st_policy st) s book now" "bc_pending_move bc = None"
      using emitted(3,4,5) by (auto simp: block_reason_none pair_block_reason_none)
    moreover obtain frame where "r = trusted_result b t (snapshot_of st b bc s book now) frame"
      "st' = emitted_session st bc (emission_of fp s book)"
      using emitted(8) by (auto simp: emit_eq_Inr Let_def)
    ultimately show ?thesis
      using emitted(3,4,6,7) unfolding emission_step_def by (fastforce simp: trusted_result_def is_trusted_def)
  qed
  then show "res_canonical_match_id r = mb_canonical_match_id b" "res_ticker r = t"
    "if is_trusted r then emission_step st b item t now st' r else st' = st" by blast+
qed

lemma emission_step_inv:
  assumes st: "session_inv st" and b: "(b, item) \<in> set (universe_pairs (st_universe st))"
    and ds: "integer_ok (st_decision_sequence st + 1)"
    and e: "emission_step st b item t now st' r"
  shows "session_inv st'"
proof -
  from e obtain tc bc s book fp where *:
    "tc \<in> set (st_tennis_cursors st)" "tc_canonical_match_id tc = mb_canonical_match_id b" "tc_tennis tc = Some s"
    "bc \<in> set (st_book_cursors st)" "bc_canonical_match_id bc = mb_canonical_match_id b"
    "bc_book bc = Some book" "fingerprint st b item s book = Inr fp"
    "st' = emitted_session st bc (emission_of fp s book)"
    unfolding emission_step_def by blast
  note f = session_book_cursor_facts[OF st *(1-6)]
  have "sha256_ok fp"
    using fingerprint_defined[OF session_inv_post_init[OF st] b f(1,4)] *(7) by auto
  then show ?thesis
    unfolding *(8) by (rule emitted_session_ok[OF st *(1-6) _ ds])
qed

lemma emission_step_result:
  assumes st: "session_inv st" and b: "(b, item) \<in> set (universe_pairs (st_universe st))"
    and now: "now_ok now" and ds: "integer_ok (st_decision_sequence st + 1)"
    and t: "t \<in> {mb_home_market_ticker b, mb_away_market_ticker b}"
    and ev: "evaluate st b item t now = Inr (st', r)" and e: "emission_step st b item t now st' r"
    and x: "tx_state x = st'" "in_canonical_match_id (tx_input x) = mb_canonical_match_id b"
      "tx_observation x = now"
  shows "trusted_result_ok x [(b, item)] r = None"
proof -
  from e obtain tc bc s book fp frame where *:
    "tc \<in> set (st_tennis_cursors st)" "tc_canonical_match_id tc = mb_canonical_match_id b" "tc_tennis tc = Some s"
    "bc \<in> set (st_book_cursors st)" "bc_canonical_match_id bc = mb_canonical_match_id b" "bc_ticker bc = t"
    "bc_book bc = Some book" "\<not> binding_blocked s b" "pair_safe (st_policy st) s book now"
    "bc_pending_move bc = None" "fingerprint st b item s book = Inr fp" "fresh_pair bc s book fp"
    "st' = emitted_session st bc (emission_of fp s book)"
    "r = trusted_result b t (snapshot_of st b bc s book now) frame"
    unfolding emission_step_def by blast
  have "opp_universe_sha256 frame = st_universe_sha256 st"
    using evaluate_publishes[OF st b now ds *(1,2,3,4,5,6,7) t *(8,9,10,11,12)] ev *(14)
    by (auto simp: trusted_result_def)
  then show ?thesis
    unfolding *(14)
    by (rule trusted_result_ok_emitted[OF *(13) emission_step_inv[OF st b ds e] *(1,2,3,4,5,6,7,11) _ x])
qed

text \<open>An evaluation of one market, packed into the result of a step.\<close>

lemma single_transition_ok:
  assumes prior: "session_inv prior" and o: "session_inv st" "st_last_observation st = Some now"
      "st_universe st = st_universe prior" "st_decision_sequence st = st_decision_sequence prior"
    and b: "(b, item) \<in> set (universe_pairs (st_universe st))" and now: "now_ok now"
    and ds: "integer_ok (st_decision_sequence st + 1)"
    and t: "t \<in> {mb_home_market_ticker b, mb_away_market_ticker b}"
    and i: "synchronization_input_post_init i = None" "encodable (synchronization_input_pyval i)"
      "in_kind i \<notin> {TENNIS_ORIGIN, TENNIS_TRANSITION}" "in_ticker i = Some t"
      "in_canonical_match_id i = mb_canonical_match_id b"
    and ev: "evaluate st b item t now = Inr (st', r)" "result_contracts r = None"
  shows "session_inv st' \<and> (\<exists>x. make_transition prior st' i now [r] = Inr x
     \<and> tx_state x = st' \<and> tx_results x = [r])"
proof -
  note out = evaluate_outcome[OF session_inv_post_init[OF o(1)] ev(1)]
  have "session_inv st' \<and> st_last_observation st' = Some now \<and> st_universe st' = st_universe prior
    \<and> sequences_consecutive (st_decision_sequence prior) (st_decision_sequence st') (filter is_trusted [r])"
  proof (cases "is_trusted r")
    case True
    then have e: "emission_step st b item t now st' r" using out(3) by simp
    then have "session_inv st'"
      by (rule emission_step_inv[OF o(1) b ds])
    then show ?thesis
      using e o True unfolding emission_step_def
      by (auto simp: sequences_consecutive_def map_filter_def trusted_result_def snapshot_of_def is_trusted_def)
  next
    case False
    then show ?thesis
      using out(3) o by (simp add: sequences_consecutive_def map_filter_def)
  qed
  then have st': "session_inv st'" "st_last_observation st' = Some now" "st_universe st' = st_universe prior"
    "sequences_consecutive (st_decision_sequence prior) (st_decision_sequence st') (filter is_trusted [r])"
    by blast+
  have pairs: "binding_pairs (st_universe st') (in_canonical_match_id i) = [(b, item)]"
    using find_binding_pair(1)[OF session_inv_post_init[OF o(1)] b] i(5) o(3) st'(3) by simp
  have "\<exists>x. make_transition prior st' i now [r] = Inr x \<and> tx_state x = st' \<and> tx_input x = i
     \<and> tx_observation x = now \<and> tx_results x = [r]
     \<and> tx_prior_decision_sequence x = st_decision_sequence prior"
  proof (rule make_transition_ok[OF prior st'(1,2) i(1,2) now _ _ st'(4)])
    show "results_expected i (binding_pairs (st_universe st') (in_canonical_match_id i)) [r]"
      using i out pairs by (simp add: results_expected_def)
  next
    fix x :: SynchronizationTransitionResult and r' assume x: "tx_state x = st'" "tx_input x = i" "tx_observation x = now" "r' \<in> set [r]" "is_trusted r'"
    then have "emission_step st b item t now st' r" using out(3) by simp
    then show "trusted_result_ok x (binding_pairs (st_universe st') (in_canonical_match_id i)) r' = None"
      using emission_step_result[OF o(1) b now ds t ev(1), of x] x i(5) pairs by simp
  qed (use ev in simp)
  then show ?thesis using st'(1) by blast
qed

text \<open>A step on the clock alone.\<close>

lemma clock_step:
  assumes st: "session_inv st" and b: "(b, item) \<in> set (universe_pairs (st_universe st))"
    and now: "now_ok now" "\<not> time_regresses st now"
    and ds: "integer_ok (st_decision_sequence st + 1)"
    and tc: "tc \<in> set (st_tennis_cursors st)" "tc_canonical_match_id tc = mb_canonical_match_id b"
    and bc: "bc \<in> set (st_book_cursors st)" "bc_canonical_match_id bc = mb_canonical_match_id b"
      "bc_ticker bc = t"
    and t: "t \<in> {mb_home_market_ticker b, mb_away_market_ticker b}"
    and coll: "no_fingerprint_collision st b item tc bc"
  shows "\<exists>x r. synchronize st (clock_input (mb_canonical_match_id b) t) now = Inr x
     \<and> tx_results x = [r] \<and> res_reason r = decision (st_policy st) b tc bc now
     \<and> session_inv (tx_state x)
     \<and> evaluate (observed st now) b item t now = Inr (tx_state x, r)"
proof -
  let ?o = "observed st now" and ?m = "mb_canonical_match_id b"
  let ?i = "clock_input ?m t"
  note obs = observed_inv[OF st now(1)] and p = session_inv_post_init[OF st]
  have "match_binding_post_init b = None"
    using pairs_in_universe(1)[OF _ b] p st
    by (simp add: session_inv_def session_post_init_iff session_artifacts_iff)
  then have "safe_id_ok ?m" "ticker_ok t"
    using t by (auto simp: match_binding_post_init_def)
  note ok = clock_input_ok[OF this]
  have i: "in_kind ?i \<notin> {TENNIS_ORIGIN, TENNIS_TRANSITION}" "in_ticker ?i = Some t"
      "in_canonical_match_id ?i = ?m" by (simp_all add: clock_input_def)
  have bo: "(b, item) \<in> set (universe_pairs (st_universe ?o))" using b by simp
  have mem: "tc \<in> set (st_tennis_cursors ?o)" "bc \<in> set (st_book_cursors ?o)"
    "integer_ok (st_decision_sequence ?o + 1)" using tc bc ds by simp_all
  have "no_fingerprint_collision ?o b item tc bc"
    using coll by simp
  then obtain st' r where ev: "evaluate ?o b item t now = Inr (st', r)" "result_contracts r = None"
      "res_reason r = decision (st_policy st) b tc bc now"
    using evaluate_decides[OF obs(1) bo now(1) mem(3) mem(1) tc(2) mem(2) bc(2,3) t] by auto
  have "session_inv st' \<and> (\<exists>x. make_transition st st' ?i now [r] = Inr x \<and> tx_state x = st' \<and> tx_results x = [r])"
    by (rule single_transition_ok[OF st obs(1) _ _ _ bo now(1) mem(3) t ok i ev(1,2)]) simp_all
  then obtain x where x: "session_inv st'" "make_transition st st' ?i now [r] = Inr x"
      "tx_state x = st'" "tx_results x = [r]" by blast
  have "ingest ?o b item ?i now = Inr (st', [r])"
    using t ev(1) by (auto simp: ingest_def clock_input_def)
  moreover have "drift_on_value_error (validated (paired_time_observation_post_init now)) = Inr ()"
    "drift_on_value_error (validated (synchronization_input_post_init ?i)) = Inr ()"
    using now(1) ok(1) by (simp_all add: now_ok_post_init)
  ultimately have "synchronize st ?i now = Inr x"
    unfolding synchronize_def
    using session_compatible[OF st] now(2) find_binding_pair(2)[OF p b] obs(2) x(2)
    by (simp add: i(3))
  then show ?thesis using x ev by auto
qed

end
