(* ===== verification/SyncEffects.thy ===== *)
theory SyncEffects
  imports SyncSteps
begin

text \<open>
  What a step of the synchronizer does to a session, read as maps from matches and markets to the
  states of the two component machines: the evidence moves the cursors of one match (\<open>moved\<close>),
  the evaluation that follows decides the markets it concerns (\<open>markets_decided\<close>).  Also the
  life of a pending move.
\<close>

subsection \<open>A session read as a map\<close>

definition tennis_at :: "TennisSyncCursor list \<Rightarrow> string \<Rightarrow> TennisSyncCursor option" where
  "tennis_at cs m = find (\<lambda>c. tc_canonical_match_id c = m) cs"

definition book_at :: "BookSyncCursor list \<Rightarrow> string \<Rightarrow> string \<Rightarrow> BookSyncCursor option" where
  "book_at cs m t = find (\<lambda>c. bc_canonical_match_id c = m \<and> bc_ticker c = t) cs"

definition session_tennis :: "SynchronizationSessionState \<Rightarrow> string \<Rightarrow> TennisState option" where
  "session_tennis st m = Option.bind (tennis_at (st_tennis_cursors st) m) tc_tennis"

definition session_book :: "SynchronizationSessionState \<Rightarrow> string \<Rightarrow> string \<Rightarrow> BookState option" where
  "session_book st m t = Option.bind (book_at (st_book_cursors st) m t) bc_book"

definition session_pending ::
  "SynchronizationSessionState \<Rightarrow> string \<Rightarrow> string \<Rightarrow> PendingBookMove option" where
  "session_pending st m t = Option.bind (book_at (st_book_cursors st) m t) bc_pending_move"

definition session_emission ::
  "SynchronizationSessionState \<Rightarrow> string \<Rightarrow> string \<Rightarrow> LastSyncEmission option" where
  "session_emission st m t = Option.bind (book_at (st_book_cursors st) m t) bc_last_emission"

lemmas session_maps = session_tennis_def session_book_def session_pending_def session_emission_def

lemma filter_single_find: "filter P xs = [x] \<Longrightarrow> find P xs = Some x"
  by (induction xs) (auto split: if_splits)

lemma selected_tennis_at: "selected_tennis_cursor st m = Inr c \<Longrightarrow> tennis_at (st_tennis_cursors st) m = Some c"
  by (simp add: selected_tennis_filter tennis_at_def filter_single_find)

lemma selected_book_at: "selected_book_cursor st m t = Inr c \<Longrightarrow> book_at (st_book_cursors st) m t = Some c"
  by (simp add: selected_book_filter book_at_def filter_single_find)

lemma find_Some_member: "find P xs = Some x \<Longrightarrow> x \<in> set xs \<and> P x"
  by (induction xs) (auto split: if_splits)

lemma tennis_at_Some: "tennis_at cs m = Some c \<Longrightarrow> c \<in> set cs \<and> tc_canonical_match_id c = m"
  unfolding tennis_at_def by (rule find_Some_member)

lemma book_at_Some: "book_at cs m t = Some c \<Longrightarrow> c \<in> set cs \<and> bc_canonical_match_id c = m \<and> bc_ticker c = t"
  unfolding book_at_def by (rule find_Some_member)

lemma tennis_at_member:
  "distinct (map tc_canonical_match_id cs) \<Longrightarrow> c \<in> set cs \<Longrightarrow> tennis_at cs (tc_canonical_match_id c) = Some c"
  by (induction cs) (auto simp: tennis_at_def image_iff)

lemma book_at_member:
  "distinct (map bc_key cs) \<Longrightarrow> c \<in> set cs \<Longrightarrow> book_at cs (bc_canonical_match_id c) (bc_ticker c) = Some c"
  by (induction cs) (auto simp: book_at_def bc_key_def image_iff)

lemma tennis_at_put:
  "tennis_at (put_tennis_cursor c cs) m =
     (if m = tc_canonical_match_id c then map_option (\<lambda>_. c) (tennis_at cs m) else tennis_at cs m)"
  by (induction cs) (auto simp: tennis_at_def put_tennis_cursor_def)

lemma book_at_put:
  "book_at (put_book_cursor c cs) m t =
     (if m = bc_canonical_match_id c \<and> t = bc_ticker c then map_option (\<lambda>_. c) (book_at cs m t)
      else book_at cs m t)"
  by (induction cs) (auto simp: book_at_def put_book_cursor_def)

lemma find_map_result:
  assumes "map_result f cs = Inr ds" "\<And>c d. f c = Inr d \<Longrightarrow> P d = P c"
  shows "case find P cs of None \<Rightarrow> find P ds = None | Some c \<Rightarrow> \<exists>d. f c = Inr d \<and> find P ds = Some d"
  using assms(1)
proof (induction cs arbitrary: ds)
  case (Cons c cs)
  then obtain d ds' where d: "f c = Inr d" "map_result f cs = Inr ds'" "ds = d # ds'"
    by (auto simp: bind_result_eq_Inr)
  then show ?case
    using Cons.IH[OF d(2)] assms(2)[OF d(1)] by (cases "P c") (auto split: option.splits)
qed simp

lemma book_at_map_result:
  assumes "map_result f cs = Inr ds" "\<And>c d. f c = Inr d \<Longrightarrow> bc_key d = bc_key c"
  shows "case book_at cs m t of None \<Rightarrow> book_at ds m t = None
    | Some c \<Rightarrow> \<exists>d. f c = Inr d \<and> book_at ds m t = Some d"
  unfolding book_at_def by (rule find_map_result[OF assms(1)]) (use assms(2) in \<open>auto simp: bc_key_eq\<close>)

subsection \<open>What a step has checked\<close>

lemma synchronize_cases:
  assumes "synchronize st i now = Inr x"
  obtains b item rs where
    "synchronization_session_state_post_init st = None" "paired_time_observation_post_init now = None"
    "\<not> time_regresses st now" "synchronization_input_post_init i = None"
    "(b, item) \<in> set (universe_pairs (st_universe st))" "mb_canonical_match_id b = in_canonical_match_id i"
    "synchronization_session_state_post_init (observed st now) = None"
    "ingest (observed st now) b item i now = Inr (tx_state x, rs)"
    "tx_results x = rs" "tx_input x = i" "tx_observation x = now"
    "tx_prior_decision_sequence x = st_decision_sequence st"
    "synchronization_transition_result_post_init x = None" "encodable (synchronization_input_pyval i)"
proof -
  from assms obtain b item st' st'' rs where *:
    "assert_synchronization_session_compatible st (st_universe st) (st_policy st) = Inr ()"
    "paired_time_observation_post_init now = None" "\<not> time_regresses st now"
    "synchronization_input_post_init i = None" "find_binding st (in_canonical_match_id i) = Inr (b, item)"
    "with_observation st now = Inr st'" "ingest st' b item i now = Inr (st'', rs)"
    "make_transition st st'' i now rs = Inr x"
    unfolding synchronize_def by (auto simp: bind_result_eq_Inr split: if_splits)
  have p: "synchronization_session_state_post_init st = None"
    using *(1) by (auto simp: assert_synchronization_session_compatible_def checked_eq_Inr)
  have o: "st' = observed st now" "synchronization_session_state_post_init (observed st now) = None"
    using *(6) by (auto simp: with_observation_def make_session_def observed_def)
  have "(b, item) \<in> set (filter (\<lambda>(b, item). mb_canonical_match_id b = in_canonical_match_id i)
      (universe_pairs (st_universe st)))"
    using *(5) by (simp add: find_binding_def)
  then have b: "(b, item) \<in> set (universe_pairs (st_universe st))"
    "mb_canonical_match_id b = in_canonical_match_id i" by auto
  have "tx_state x = st'' \<and> tx_results x = rs \<and> tx_input x = i \<and> tx_observation x = now
    \<and> tx_prior_decision_sequence x = st_decision_sequence st
    \<and> synchronization_transition_result_post_init x = None \<and> encodable (synchronization_input_pyval i)"
    using *(8) by (auto simp: make_transition_def bind_result_eq_Inr dest: digest_defined)
  then show thesis
    using that[OF p *(2,3,4) b o(2)] *(7) o(1) by blast
qed

text \<open>A transition that \<open>synchronize\<close> returned is accepted when it is replayed.\<close>

lemma synchronize_validates:
  assumes "synchronize st i now = Inr x"
  shows "validate_synchronization_transition st x = Inr ()"
  using assms
proof (cases rule: synchronize_cases)
  case (1 b item rs)
  then show ?thesis
    using assms by (simp add: validate_synchronization_transition_def drift_on_error_def)
qed

definition same_session ::
  "SynchronizationSessionState \<Rightarrow> SynchronizationSessionState \<Rightarrow> bool" where
  "same_session st st' \<longleftrightarrow>
     st_universe st' = st_universe st \<and> st_policy st' = st_policy st
     \<and> st_universe_sha256 st' = st_universe_sha256 st
     \<and> st_sync_policy_sha256 st' = st_sync_policy_sha256 st
     \<and> st_last_observation st' = st_last_observation st"

lemma same_session_refl [simp]: "same_session st st"
  by (simp add: same_session_def)

lemma same_session_trans: "same_session a b \<Longrightarrow> same_session b c \<Longrightarrow> same_session a c"
  by (simp add: same_session_def)

text \<open>The cursors of a session before and after a piece of evidence, at one match.\<close>

definition tennis_expected ::
  "MatchBinding \<Rightarrow> SynchronizationInput \<Rightarrow> TennisState option \<Rightarrow> TennisState option result" where
  "tennis_expected b i old =
     (case in_kind i of
        TENNIS_ORIGIN \<Rightarrow>
          (case (old, in_provider_event i) of
             (None, Some (SnapshotEvent p)) \<Rightarrow>
               bind_result (state_from_snapshot p) (\<lambda>s. Inr (if binding_drift s b then None else Some s))
           | _ \<Rightarrow> session_drift)
      | TENNIS_TRANSITION \<Rightarrow>
          (case (old, in_provider_event i) of
             (Some s, Some e) \<Rightarrow> bind_result (tennis_step s e) (\<lambda>s'. Inr (Some s'))
           | _ \<Rightarrow> session_drift)
      | _ \<Rightarrow> Inr old)"

definition book_expected ::
  "SynchronizationInput \<Rightarrow> BookState option \<Rightarrow> BookState option result" where
  "book_expected i old =
     (case in_kind i of
        BOOK_TRANSITION \<Rightarrow>
          (case (old, in_book_event i) of
             (None, Some (BookSnapshotEvent p)) \<Rightarrow>
               bind_result (book_from_snapshot p) (\<lambda>r. Inr (Some (bt_state r)))
           | (Some s, Some e) \<Rightarrow> bind_result (book_step s e) (\<lambda>s'. Inr (Some s'))
           | _ \<Rightarrow> session_drift)
      | BOOK_RESNAPSHOT_REQUIRED \<Rightarrow>
          (case old of
             None \<Rightarrow> session_drift
           | Some s \<Rightarrow> bind_result (require_book_resnapshot s) (\<lambda>s'. Inr (Some s')))
      | _ \<Rightarrow> Inr old)"

subsection \<open>What the evaluation of the markets did\<close>

definition published ::
  "SynchronizationSessionState \<Rightarrow> MatchBinding \<Rightarrow> BindingMetadata \<Rightarrow> string \<Rightarrow> PairedTimeObservation
     \<Rightarrow> SynchronizationSessionState \<Rightarrow> SyncResult \<Rightarrow> bool" where
  "published st b item t now st' r \<longleftrightarrow>
     (\<exists>tc bc s book fp n frame.
        tennis_at (st_tennis_cursors st) (mb_canonical_match_id b) = Some tc \<and> tc_tennis tc = Some s
        \<and> book_at (st_book_cursors st) (mb_canonical_match_id b) t = Some bc \<and> bc_book bc = Some book
        \<and> \<not> binding_blocked s b \<and> pair_safe (st_policy st) s book now \<and> bc_pending_move bc = None
        \<and> fingerprint st b item s book = Inr fp \<and> fresh_pair bc s book fp
        \<and> book_at (st_book_cursors st') (mb_canonical_match_id b) t =
            Some (bc\<lparr>bc_last_emission := Some (emission_of fp s book)\<rparr>)
        \<and> st_decision_sequence st < n \<and> n \<le> st_decision_sequence st'
        \<and> r = trusted_result b t ((snapshot_of st b bc s book now)\<lparr>ts_decision_sequence := n\<rparr>) frame)"

definition market_decided ::
  "SynchronizationSessionState \<Rightarrow> MatchBinding \<Rightarrow> BindingMetadata \<Rightarrow> PairedTimeObservation
     \<Rightarrow> SynchronizationSessionState \<Rightarrow> string \<Rightarrow> SyncResult \<Rightarrow> bool" where
  "market_decided st b item now st' t r \<longleftrightarrow>
     res_canonical_match_id r = mb_canonical_match_id b \<and> res_ticker r = t
     \<and> (if is_trusted r then published st b item t now st' r
        else book_at (st_book_cursors st') (mb_canonical_match_id b) t =
             book_at (st_book_cursors st) (mb_canonical_match_id b) t)"

lemma snapshot_sequence [simp]:
  "(snapshot_of st b bc s book now)\<lparr>ts_decision_sequence := st_decision_sequence st + 1\<rparr> =
     snapshot_of st b bc s book now"
  by (simp add: snapshot_of_def)

lemma evaluate_effect:
  assumes p: "synchronization_session_state_post_init st = None"
    and ev: "evaluate st b item t now = Inr (st', r)"
  shows "synchronization_session_state_post_init st' = None"
    and "same_session st st'" and "st_tennis_cursors st' = st_tennis_cursors st"
    and "st_decision_sequence st' = st_decision_sequence st + (if is_trusted r then 1 else 0)"
    and "m \<noteq> mb_canonical_match_id b \<or> u \<noteq> t \<Longrightarrow>
           book_at (st_book_cursors st') m u = book_at (st_book_cursors st) m u"
    and "market_decided st b item now st' t r"
proof -
  note out = evaluate_outcome[OF p ev]
  have pi: "synchronization_session_state_post_init st' = None"
    using ev p by (cases rule: evaluate_cases) (auto simp: emit_eq_Inr Let_def)
  then show "synchronization_session_state_post_init st' = None" .
  show "same_session st st'" "st_tennis_cursors st' = st_tennis_cursors st"
    "st_decision_sequence st' = st_decision_sequence st + (if is_trusted r then 1 else 0)"
    using out(3) by (auto simp: emission_step_def same_session_def split: if_splits)
  show "book_at (st_book_cursors st') m u = book_at (st_book_cursors st) m u"
    if "m \<noteq> mb_canonical_match_id b \<or> u \<noteq> t"
    using out(3) that by (auto simp: emission_step_def book_at_put split: if_splits)
  have "published st b item t now st' r" if r: "is_trusted r"
  proof -
    from r out(3) have e: "emission_step st b item t now st' r" by simp
    then obtain tc bc s book fp frame where *:
      "tc \<in> set (st_tennis_cursors st)" "tc_canonical_match_id tc = mb_canonical_match_id b" "tc_tennis tc = Some s"
      "bc \<in> set (st_book_cursors st)" "bc_canonical_match_id bc = mb_canonical_match_id b" "bc_ticker bc = t"
      "bc_book bc = Some book" "\<not> binding_blocked s b" "pair_safe (st_policy st) s book now"
      "bc_pending_move bc = None" "fingerprint st b item s book = Inr fp" "fresh_pair bc s book fp"
      "st' = emitted_session st bc (emission_of fp s book)"
      "r = trusted_result b t (snapshot_of st b bc s book now) frame"
      unfolding emission_step_def by blast
    have "tennis_at (st_tennis_cursors st) (mb_canonical_match_id b) = Some tc"
      using tennis_at_member[OF session_keys_distinct(1)[OF p] *(1)] *(2) by simp
    moreover have at: "book_at (st_book_cursors st) (mb_canonical_match_id b) t = Some bc"
      using book_at_member[OF session_keys_distinct(2)[OF p] *(4)] *(5,6) by simp
    moreover have "book_at (st_book_cursors st') (mb_canonical_match_id b) t =
        Some (bc\<lparr>bc_last_emission := Some (emission_of fp s book)\<rparr>)"
      using at *(5,6) by (simp add: *(13) book_at_put)
    moreover have "r = trusted_result b t
        ((snapshot_of st b bc s book now)\<lparr>ts_decision_sequence := st_decision_sequence st + 1\<rparr>) frame"
      using *(14) by simp
    moreover have "st_decision_sequence st' = st_decision_sequence st + 1"
      by (simp add: *(13))
    ultimately show ?thesis
      unfolding published_def using *(3,7-12)
      by (intro exI[of _ tc] exI[of _ bc] exI[of _ s] exI[of _ book] exI[of _ fp]
          exI[of _ "st_decision_sequence st + 1"] exI[of _ frame]) simp
  qed
  then show "market_decided st b item now st' t r"
    using out unfolding market_decided_def by simp
qed

lemma published_later:
  assumes "published mid b item t now st' r" "same_session st mid"
    "st_tennis_cursors mid = st_tennis_cursors st" "st_decision_sequence st \<le> st_decision_sequence mid"
    "book_at (st_book_cursors mid) (mb_canonical_match_id b) t =
       book_at (st_book_cursors st) (mb_canonical_match_id b) t"
  shows "published st b item t now st' r"
proof -
  have "fingerprint mid b item s book = fingerprint st b item s book" for s book
    using assms(2) by (simp add: fingerprint_def same_session_def)
  moreover have "(snapshot_of mid b bc s book now)\<lparr>ts_decision_sequence := n\<rparr> =
      (snapshot_of st b bc s book now)\<lparr>ts_decision_sequence := n\<rparr>" for bc s book n
    using assms(2) by (simp add: snapshot_of_def same_session_def)
  moreover have "st_policy mid = st_policy st" using assms(2) by (simp add: same_session_def)
  ultimately show ?thesis
    using assms(1,3,4,5) unfolding published_def
    by (elim exE conjE) (intro exI conjI; (assumption | simp))
qed

lemma published_earlier:
  assumes "published st b item t now mid r" "st_decision_sequence mid \<le> st_decision_sequence st'"
    "book_at (st_book_cursors st') (mb_canonical_match_id b) t =
       book_at (st_book_cursors mid) (mb_canonical_match_id b) t"
  shows "published st b item t now st' r"
  using assms unfolding published_def
  by (elim exE conjE) (intro exI conjI; (assumption | simp))

lemma market_decided_later:
  assumes "market_decided mid b item now st' t r" "same_session st mid"
    "st_tennis_cursors mid = st_tennis_cursors st" "st_decision_sequence st \<le> st_decision_sequence mid"
    "book_at (st_book_cursors mid) (mb_canonical_match_id b) t =
       book_at (st_book_cursors st) (mb_canonical_match_id b) t"
  shows "market_decided st b item now st' t r"
  using assms(1,5) published_later[OF _ assms(2-5), of item now st' r]
  by (auto simp: market_decided_def split: if_splits)

lemma market_decided_earlier:
  assumes "market_decided st b item now mid t r" "st_decision_sequence mid \<le> st_decision_sequence st'"
    "book_at (st_book_cursors st') (mb_canonical_match_id b) t =
       book_at (st_book_cursors mid) (mb_canonical_match_id b) t"
  shows "market_decided st b item now st' t r"
  using assms(1,3) published_earlier[OF _ assms(2,3), of st item now r]
  by (auto simp: market_decided_def split: if_splits)

definition markets_decided ::
  "SynchronizationSessionState \<Rightarrow> MatchBinding \<Rightarrow> BindingMetadata \<Rightarrow> string list \<Rightarrow> PairedTimeObservation
     \<Rightarrow> SynchronizationSessionState \<Rightarrow> SyncResult list \<Rightarrow> bool" where
  "markets_decided st b item ts now st' rs \<longleftrightarrow>
     same_session st st' \<and> st_tennis_cursors st' = st_tennis_cursors st
     \<and> st_decision_sequence st' = st_decision_sequence st + int (length (filter is_trusted rs))
     \<and> (\<forall>m t. m \<noteq> mb_canonical_match_id b \<or> t \<notin> set ts \<longrightarrow>
          book_at (st_book_cursors st') m t = book_at (st_book_cursors st) m t)
     \<and> list_all2 (market_decided st b item now st') ts rs"

lemma results_effect:
  assumes "synchronization_session_state_post_init st = None" "distinct ts"
    "results_for_tickers st b item ts now = Inr (st', rs)"
  shows "synchronization_session_state_post_init st' = None \<and> markets_decided st b item ts now st' rs"
  using assms
proof (induction ts arbitrary: st rs)
  case Nil
  then show ?case by (simp add: markets_decided_def)
next
  case (Cons t ts)
  then obtain mid r rs' where ev: "evaluate st b item t now = Inr (mid, r)"
    and tl: "results_for_tickers mid b item ts now = Inr (st', rs')" and rs: "rs = r # rs'"
    by (auto simp: bind_result_eq_Inr)
  note e = evaluate_effect[OF Cons.prems(1) ev]
  have d: "distinct ts" "t \<notin> set ts" using Cons.prems(2) by simp_all
  have ih: "synchronization_session_state_post_init st' = None" "markets_decided mid b item ts now st' rs'"
    using Cons.IH[OF e(1) d(1) tl] by simp_all
  have le: "st_decision_sequence mid \<le> st_decision_sequence st'" "st_decision_sequence st \<le> st_decision_sequence mid"
    using ih(2) e(4) by (simp_all add: markets_decided_def)
  have hd: "market_decided st b item now st' t r"
    by (rule market_decided_earlier[OF e(6) le(1)]) (use ih(2) d in \<open>simp add: markets_decided_def\<close>)
  have "list_all2 (market_decided st b item now st') ts rs'"
    using ih(2) d(2) unfolding markets_decided_def
    by (elim conjE list.rel_mono_strong) (rule market_decided_later[OF _ e(2,3) le(2) e(5)]; auto)
  moreover have "same_session st st'" using ih(2) e(2) same_session_trans
    unfolding markets_decided_def by blast
  ultimately show ?case
    using ih hd e(3,4,5) rs unfolding markets_decided_def by auto
qed

subsection \<open>The life of a pending move\<close>

definition pending_kept :: "PendingBookMove \<Rightarrow> PendingBookMove \<Rightarrow> bool" where
  "pending_kept p q \<longleftrightarrow>
     pm_first_move_monotonic_ns q = pm_first_move_monotonic_ns p
     \<and> pm_move_count p \<le> pm_move_count q \<and> pm_max_magnitude p \<le> pm_max_magnitude q"

definition pending_explained ::
  "SyncPolicy \<Rightarrow> PendingBookMove \<Rightarrow> BookSyncCursor \<Rightarrow> BookSyncCursor \<Rightarrow> bool" where
  "pending_explained pol p c d \<longleftrightarrow>
     (\<exists>w. bc_consumed_point_witness d = Some w
        \<and> cw_received_monotonic_ns w \<le> pm_first_move_monotonic_ns p
        \<and> pm_first_move_monotonic_ns p - cw_received_monotonic_ns w \<le> pol_explanation_window_ns pol
        \<and> (\<forall>used. bc_consumed_point_witness c = Some used \<longrightarrow> point_identity w \<noteq> point_identity used))"

definition pending_reset ::
  "SynchronizationInput \<Rightarrow> PendingBookMove \<Rightarrow> TennisState option \<Rightarrow> BookSyncCursor \<Rightarrow> bool" where
  "pending_reset i p s d \<longleftrightarrow>
     in_kind i = BOOK_TRANSITION \<and> is_book_snapshot (in_book_event i)
     \<and> (\<exists>book. bc_book d = Some book \<and> paired_reset p s book)"

definition pending_follows ::
  "SyncPolicy \<Rightarrow> SynchronizationInput \<Rightarrow> TennisState option \<Rightarrow> BookSyncCursor \<Rightarrow> BookSyncCursor \<Rightarrow> bool" where
  "pending_follows pol i s c d \<longleftrightarrow>
     (case bc_pending_move c of
        None \<Rightarrow> True
      | Some p \<Rightarrow>
          pending_reset i p s d
          \<or> (case bc_pending_move d of
               None \<Rightarrow> pending_explained pol p c d
             | Some q \<Rightarrow> pending_kept p q))"

text \<open>Where the magnitude of a pending move comes from.\<close>

definition magnitude_known :: "BookTransitionResult option \<Rightarrow> BookSyncCursor \<Rightarrow> BookSyncCursor \<Rightarrow> bool" where
  "magnitude_known r c d \<longleftrightarrow>
     (\<forall>q. bc_pending_move d = Some q \<longrightarrow>
        (\<exists>p. bc_pending_move c = Some p \<and> pm_max_magnitude q = pm_max_magnitude p)
        \<or> (\<exists>t. r = Some t \<and> pm_max_magnitude q = bt_executable_move t))"

lemma magnitude_known_same [simp]: "bc_pending_move d = bc_pending_move c \<Longrightarrow> magnitude_known r c d"
  by (simp add: magnitude_known_def)

lemma magnitude_known_none [simp]: "bc_pending_move d = None \<Longrightarrow> magnitude_known r c d"
  by (simp add: magnitude_known_def)

lemma pending_kept_refl [simp]: "pending_kept p p"
  by (simp add: pending_kept_def)

lemma pending_order: "pending_book_move_post_init p = None \<Longrightarrow>
   pm_first_move_monotonic_ns p \<le> pm_last_move_monotonic_ns p"
  by (simp add: pending_book_move_post_init_def)

lemma explain_pending_cases:
  assumes "explain_pending c w s pol = Inr d"
  obtains (kept) "d = c"
    | (explained) p v where "bc_pending_move c = Some p"
      "d = c\<lparr>bc_pending_move := None, bc_causal_point_witness := Some v, bc_consumed_point_witness := Some v\<rparr>"
      "pending_book_move_post_init p = None \<Longrightarrow> pending_explained pol p c d"
proof -
  let ?e = "\<lambda>v. c\<lparr>bc_pending_move := None, bc_causal_point_witness := Some v, bc_consumed_point_witness := Some v\<rparr>"
  have "d = c \<or> (\<exists>p v s'. bc_pending_move c = Some p \<and> explains c p v s' pol \<and> d = ?e v)"
  proof (cases "bc_pending_move c")
    case (Some p)
    show ?thesis
    proof (cases w)
      case (Some v)
      show ?thesis
      proof (cases s)
        case None
        then show ?thesis using assms Some \<open>bc_pending_move c = Some p\<close>
          by (simp add: explain_pending_def split: if_splits)
      next
        case (Some s')
        then have "d = c \<or> (explains c p v s' pol \<and> d = ?e v)"
          using assms \<open>w = Some v\<close> \<open>bc_pending_move c = Some p\<close>
          by (simp add: explain_pending_def make_book_cursor_def split: if_splits)
        then show ?thesis using \<open>bc_pending_move c = Some p\<close> by blast
      qed
    qed (use assms in \<open>simp add: explain_pending_def split: option.splits\<close>)
  qed (use assms in \<open>simp add: explain_pending_def\<close>)
  then consider "d = c" | p v s' where "bc_pending_move c = Some p" "explains c p v s' pol" "d = ?e v"
    by blast
  then show thesis
  proof cases
    case 2
    have *: "pending_explained pol p c d" if "pending_book_move_post_init p = None"
      using pending_order[OF that] 2(2)
      by (simp add: 2(3) pending_explained_def explains_def not_less split: option.splits)
    show thesis by (rule explained[OF 2(1,3) *])
  qed (rule kept)
qed

subsection \<open>A book cursor under tennis evidence\<close>

definition book_untouched :: "BookSyncCursor \<Rightarrow> BookSyncCursor \<Rightarrow> bool" where
  "book_untouched c d \<longleftrightarrow> bc_key d = bc_key c \<and> bc_book d = bc_book c \<and> bc_last_emission d = bc_last_emission c"

lemma book_untouched_refl [simp]: "book_untouched c c"
  by (simp add: book_untouched_def)

lemma set_floor_effect:
  assumes "set_floor m e c = Inr d"
  shows "book_untouched c d" and "bc_canonical_match_id c \<noteq> m \<Longrightarrow> d = c" and "pending_follows pol i s c d"
    and "magnitude_known r c d"
proof -
  let ?e = "\<lambda>p. c\<lparr>bc_pending_move := Some (p\<lparr>pm_tennis_correction_epoch_floor := Some e\<rparr>)\<rparr>"
  have "d = c \<or> (\<exists>p. bc_pending_move c = Some p \<and> bc_canonical_match_id c = m \<and> d = ?e p)"
  proof (cases "bc_pending_move c")
    case (Some p)
    then have "d = c \<or> (bc_canonical_match_id c = m \<and> d = ?e p)"
      using assms by (simp add: set_floor_def pending_with_floor_def make_book_cursor_def bind_result_eq_Inr
          split: if_splits)
    then show ?thesis using Some by blast
  qed (use assms in \<open>simp add: set_floor_def\<close>)
  then consider "d = c" | p where "bc_pending_move c = Some p" "bc_canonical_match_id c = m" "d = ?e p"
    by blast
  note c = this
  from c show "book_untouched c d" by cases (simp_all add: book_untouched_def bc_key_def)
  from c show "bc_canonical_match_id c \<noteq> m \<Longrightarrow> d = c" by cases simp_all
  from c show "pending_follows pol i s c d"
    by cases (simp_all add: pending_follows_def pending_kept_def split: option.split)
  from c show "magnitude_known r c d" by cases (simp_all add: magnitude_known_def)
qed

lemma after_tennis_effect:
  assumes "after_tennis m corrected w s pol c = Inr d"
  shows "book_untouched c d" and "bc_canonical_match_id c \<noteq> m \<Longrightarrow> d = c"
    and "when_some pending_book_move_post_init (bc_pending_move c) = None \<Longrightarrow> pending_follows pol i t c d"
    and "magnitude_known r c d"
proof -
  let ?c = "c\<lparr>bc_causal_point_witness := (if corrected then None else bc_causal_point_witness c)\<rparr>"
  have "d = c \<or> d = ?c \<or> (explain_pending ?c w (Some s) pol = Inr d \<and> bc_canonical_match_id c = m)"
  proof (cases "bc_canonical_match_id c = m")
    case True
    then have "bind_result (make_book_cursor ?c)
        (\<lambda>c'. if w \<noteq> None then explain_pending c' w (Some s) pol else Inr c') = Inr d"
      using assms by (simp add: after_tennis_def)
    then show ?thesis using True
      by (cases "w = None") (simp_all only: bind_result_eq_Inr make_book_cursor_def construct_eq_Inr
          simp_thms if_True if_False sum.inject ex_simps, blast+)
  qed (use assms in \<open>simp add: after_tennis_def\<close>)
  then consider "d = c" | "d = ?c" | "explain_pending ?c w (Some s) pol = Inr d" "bc_canonical_match_id c = m"
    by blast
  then have *: "book_untouched c d \<and> (bc_canonical_match_id c \<noteq> m \<longrightarrow> d = c \<or> d = ?c)
    \<and> (when_some pending_book_move_post_init (bc_pending_move c) = None \<longrightarrow> pending_follows pol i t c d)
    \<and> magnitude_known r c d"
  proof cases
    case 3
    from 3(1) show ?thesis
    proof (cases rule: explain_pending_cases)
      case kept
      then show ?thesis
        by (simp add: book_untouched_def bc_key_def pending_follows_def split: option.split)
    next
      case (explained p v)
      then show ?thesis using 3(2)
        by (simp add: book_untouched_def bc_key_def pending_follows_def pending_explained_def)
    qed
  qed (simp_all add: book_untouched_def bc_key_def pending_follows_def split: option.split)
  then show "book_untouched c d"
    "when_some pending_book_move_post_init (bc_pending_move c) = None \<Longrightarrow> pending_follows pol i t c d"
    "magnitude_known r c d" by blast+
  show "bc_canonical_match_id c \<noteq> m \<Longrightarrow> d = c" using assms by (simp add: after_tennis_def)
qed

subsection \<open>A book cursor under book evidence\<close>

lemma extended_pending_effect:
  "extended_pending p r = Inr q \<Longrightarrow> pending_kept p q \<and> pending_book_move_post_init q = None
     \<and> pm_max_magnitude q = max (pm_max_magnitude p) (bt_executable_move r)"
  by (auto simp: extended_pending_def pending_kept_def split: option.splits)

lemma new_pending_effect:
  "new_pending c r s = Inr q \<Longrightarrow> pending_book_move_post_init q = None \<and> pm_max_magnitude q = bt_executable_move r"
  by (auto simp: new_pending_def split: option.splits)

lemma move_pending_effect:
  assumes "move_pending c r tc pol = Inr d"
  shows "book_untouched c d"
    and "\<exists>q. (case bc_pending_move c of None \<Rightarrow> True | Some p \<Rightarrow> pending_kept p q)
      \<and> (bc_pending_move d = Some q \<or> (bc_pending_move d = None \<and> pending_explained pol q c d))"
    and "magnitude_known (Some r) c d"
proof -
  obtain q where q: "(case bc_pending_move c of None \<Rightarrow> new_pending c r (tc_tennis tc)
      | Some p \<Rightarrow> extended_pending p r) = Inr q"
    and ex: "explain_pending (c\<lparr>bc_pending_move := Some q, bc_causal_point_witness := None\<rparr>)
      (tc_last_point_witness tc) (tc_tennis tc) pol = Inr d"
    using assms by (auto simp: move_pending_def make_book_cursor_def bind_result_eq_Inr)
  have k: "case bc_pending_move c of None \<Rightarrow> True | Some p \<Rightarrow> pending_kept p q"
    "pending_book_move_post_init q = None"
    "(\<exists>p. bc_pending_move c = Some p \<and> pm_max_magnitude q = pm_max_magnitude p)
     \<or> pm_max_magnitude q = bt_executable_move r"
    using q by (auto simp: max_def dest!: extended_pending_effect new_pending_effect split: option.splits)
  from ex have "book_untouched c d \<and> (bc_pending_move d = Some q
     \<or> (bc_pending_move d = None \<and> pending_explained pol q c d))"
  proof (cases rule: explain_pending_cases)
    case kept
    then show ?thesis by (simp add: book_untouched_def bc_key_def)
  next
    case (explained p v)
    then show ?thesis using k(2) by (simp add: book_untouched_def bc_key_def pending_explained_def)
  qed
  then show "book_untouched c d" "\<exists>q. (case bc_pending_move c of None \<Rightarrow> True | Some p \<Rightarrow> pending_kept p q)
      \<and> (bc_pending_move d = Some q \<or> (bc_pending_move d = None \<and> pending_explained pol q c d))"
    using k(1) by blast+
  then show "magnitude_known (Some r) c d"
    using k(3) \<open>book_untouched c d \<and> _\<close> by (auto simp: magnitude_known_def)
qed

lemma recompute_book_step:
  assumes "recompute_book c previous e = Inr r" "in_kind i = BOOK_TRANSITION" "in_book_event i = Some e"
  shows "book_expected i (bc_book c) = Inr (Some (bt_state r))"
  using assms
  by (auto simp: recompute_book_def book_expected_def book_step_def session_drift_def
      split: option.splits book_event.splits if_splits)

lemma recompute_tennis_step:
  "recompute_tennis s e = Inr r \<Longrightarrow> tennis_step s e = Inr (tr_state r)"
  by (auto simp: recompute_tennis_def tennis_step_def split: provider_event.splits)

subsection \<open>What the evidence changed\<close>

definition cursor_moved ::
  "SyncPolicy \<Rightarrow> MatchBinding \<Rightarrow> SynchronizationInput \<Rightarrow> TennisState option \<Rightarrow> BookSyncCursor
     \<Rightarrow> BookSyncCursor \<Rightarrow> bool" where
  "cursor_moved pol b i s c d \<longleftrightarrow>
     bc_key d = bc_key c \<and> bc_last_emission d = bc_last_emission c
     \<and> (if in_ticker i = Some (bc_ticker c)
            \<and> bc_ticker c \<in> {mb_home_market_ticker b, mb_away_market_ticker b}
        then book_expected i (bc_book c) = Inr (bc_book d) else bc_book d = bc_book c)
     \<and> pending_follows pol i s c d \<and> magnitude_known (in_book_transition i) c d"

definition moved ::
  "SynchronizationSessionState \<Rightarrow> MatchBinding \<Rightarrow> SynchronizationInput \<Rightarrow> SynchronizationSessionState \<Rightarrow> bool" where
  "moved st b i st' \<longleftrightarrow>
     same_session st st' \<and> st_decision_sequence st' = st_decision_sequence st
     \<and> (\<forall>m. m \<noteq> mb_canonical_match_id b \<longrightarrow>
          tennis_at (st_tennis_cursors st') m = tennis_at (st_tennis_cursors st) m)
     \<and> tennis_expected b i (session_tennis st (mb_canonical_match_id b)) =
         Inr (session_tennis st' (mb_canonical_match_id b))
     \<and> (\<forall>m t. m \<noteq> mb_canonical_match_id b \<longrightarrow>
          book_at (st_book_cursors st') m t = book_at (st_book_cursors st) m t)
     \<and> (\<forall>t. case book_at (st_book_cursors st) (mb_canonical_match_id b) t of
            None \<Rightarrow> book_at (st_book_cursors st') (mb_canonical_match_id b) t = None
          | Some c \<Rightarrow> \<exists>d. book_at (st_book_cursors st') (mb_canonical_match_id b) t = Some d
              \<and> cursor_moved (st_policy st) b i (session_tennis st (mb_canonical_match_id b)) c d)"

lemma cursor_moved_same:
  assumes "in_ticker i \<noteq> Some (bc_ticker c) \<or> book_expected i (bc_book c) = Inr (bc_book c)
    \<or> bc_ticker c \<notin> {mb_home_market_ticker b, mb_away_market_ticker b}"
  shows "cursor_moved pol b i s c c"
  using assms by (auto simp: cursor_moved_def pending_follows_def split: option.split)

lemma moved_same:
  assumes "tennis_expected b i (session_tennis st (mb_canonical_match_id b)) =
      Inr (session_tennis st (mb_canonical_match_id b))"
    "\<And>t. in_ticker i = Some t \<Longrightarrow>
       t \<notin> {mb_home_market_ticker b, mb_away_market_ticker b} \<or> (\<forall>c. book_expected i c = Inr c)"
  shows "moved st b i st"
  using assms unfolding moved_def
  by (auto intro!: cursor_moved_same split: option.split)

lemma moved_book:
  assumes c: "selected_book_cursor st (mb_canonical_match_id b) t = Inr c"
    and i: "in_kind i = BOOK_TRANSITION \<or> in_kind i = BOOK_RESNAPSHOT_REQUIRED" "in_ticker i = Some t"
    and d: "cursor_moved (st_policy st) b i (session_tennis st (mb_canonical_match_id b)) c d"
  shows "moved st b i (st\<lparr>st_book_cursors := put_book_cursor d (st_book_cursors st)\<rparr>)"
proof -
  have at: "book_at (st_book_cursors st) (mb_canonical_match_id b) t = Some c"
    by (rule selected_book_at[OF c])
  then have k: "bc_canonical_match_id d = mb_canonical_match_id b" "bc_ticker d = t"
    using d book_at_Some[OF at] by (auto simp: cursor_moved_def bc_key_eq)
  have "tennis_expected b i s = Inr s" for s
    using i(1) by (auto simp: tennis_expected_def)
  moreover have "cursor_moved (st_policy st) b i s e e"
    if "book_at (st_book_cursors st) (mb_canonical_match_id b) u = Some e" "u \<noteq> t" for s e u
    by (rule cursor_moved_same) (use book_at_Some[OF that(1)] that(2) i(2) in auto)
  ultimately show ?thesis
    using at d unfolding moved_def
    by (auto simp: same_session_def book_at_put k session_tennis_def split: option.split)
qed

lemma moved_tennis:
  assumes p: "synchronization_session_state_post_init st = None"
    and c: "selected_tennis_cursor st (mb_canonical_match_id b) = Inr c"
    and i: "in_ticker i = None"
    and d: "tennis_expected b i (tc_tennis c) = Inr (tc_tennis d)" "tc_canonical_match_id d = tc_canonical_match_id c"
    and books: "map_result f (st_book_cursors st) = Inr books"
    and f: "\<And>x y. f x = Inr y \<Longrightarrow> book_untouched x y"
      "\<And>x y. f x = Inr y \<Longrightarrow> bc_canonical_match_id x \<noteq> mb_canonical_match_id b \<Longrightarrow> y = x"
      "\<And>x y s. f x = Inr y \<Longrightarrow> when_some pending_book_move_post_init (bc_pending_move x) = None \<Longrightarrow>
         pending_follows (st_policy st) i s x y"
      "\<And>x y r. f x = Inr y \<Longrightarrow> magnitude_known r x y"
  shows "moved st b i (st\<lparr>st_tennis_cursors := put_tennis_cursor d (st_tennis_cursors st), st_book_cursors := books\<rparr>)"
proof -
  have at: "tennis_at (st_tennis_cursors st) (mb_canonical_match_id b) = Some c"
    by (rule selected_tennis_at[OF c])
  have k: "tc_canonical_match_id d = mb_canonical_match_id b" using d(2) tennis_at_Some[OF at] by simp
  have key: "\<And>x y. f x = Inr y \<Longrightarrow> bc_key y = bc_key x" using f(1) by (simp add: book_untouched_def)
  have b: "case book_at (st_book_cursors st) m t of None \<Rightarrow> book_at books m t = None
      | Some x \<Rightarrow> \<exists>y. f x = Inr y \<and> book_at books m t = Some y" for m t
    by (rule book_at_map_result[OF books key])
  have other: "book_at books m t = book_at (st_book_cursors st) m t" if "m \<noteq> mb_canonical_match_id b" for m t
    using b[of m t] f(2) that by (auto dest: book_at_Some split: option.splits)
  have ok: "when_some pending_book_move_post_init (bc_pending_move x) = None"
    if "book_at (st_book_cursors st) m t = Some x" for m t x
    using p book_at_Some[OF that] by (simp add: session_post_init_iff session_contracts_iff book_cursor_contracts_def)
  have mine: "case book_at (st_book_cursors st) m t of None \<Rightarrow> book_at books m t = None
      | Some x \<Rightarrow> \<exists>y. book_at books m t = Some y \<and> cursor_moved (st_policy st) b i s x y" for m t s
    using b[of m t] f(1,3,4) i ok[of m t]
    by (fastforce simp: cursor_moved_def book_untouched_def split: option.splits)
  let ?st = "st\<lparr>st_tennis_cursors := put_tennis_cursor d (st_tennis_cursors st), st_book_cursors := books\<rparr>"
  have fields: "st_book_cursors ?st = books" "st_tennis_cursors ?st = put_tennis_cursor d (st_tennis_cursors st)"
    "st_decision_sequence ?st = st_decision_sequence st" "same_session st ?st"
    by (simp_all add: same_session_def)
  show ?thesis
    unfolding moved_def fields session_tennis_def
    using at k d(1) other mine fields(4) by (simp add: tennis_at_put)
qed

subsection \<open>Each kind of evidence\<close>

definition evidence_tickers :: "MatchBinding \<Rightarrow> SynchronizationInput \<Rightarrow> string list" where
  "evidence_tickers b i =
     (if in_kind i \<in> {TENNIS_ORIGIN, TENNIS_TRANSITION} then both_tickers b
      else case in_ticker i of None \<Rightarrow> [] | Some t \<Rightarrow> [t])"

lemma refusals_decided:
  "map_result (\<lambda>t. refusal (mb_canonical_match_id b) t reason) ts = Inr rs \<Longrightarrow>
     markets_decided st b item ts now st rs"
proof (induction ts arbitrary: rs)
  case (Cons t ts)
  then obtain r rs' where r: "refusal (mb_canonical_match_id b) t reason = Inr r" "rs = r # rs'"
      "markets_decided st b item ts now st rs'"
    by (auto simp: bind_result_eq_Inr)
  then have "\<not> is_trusted r" "market_decided st b item now st t r"
    by (auto simp: refusal_eq_Inr market_decided_def is_trusted_def)
  then show ?case using r by (simp add: markets_decided_def)
qed (simp add: markets_decided_def)


lemma ingest_tennis_origin_effect:
  assumes p: "synchronization_session_state_post_init st = None" and k: "in_kind i = TENNIS_ORIGIN" "in_ticker i = None"
    and run: "ingest_tennis_origin st b item i now = Inr (st', rs)"
  shows "\<exists>st1. synchronization_session_state_post_init st1 = None \<and> moved st b i st1
     \<and> (results_for_tickers st1 b item (both_tickers b) now = Inr (st', rs)
        \<or> st' = st1 \<and> markets_decided st1 b item (both_tickers b) now st' rs)"
proof -
  obtain c q s where c: "selected_tennis_cursor st (mb_canonical_match_id b) = Inr c" "tc_tennis c = None"
    and q: "in_provider_event i = Some (SnapshotEvent q)" "state_from_snapshot q = Inr s"
    and rest: "(if binding_drift s b then
                bind_result (map_result (\<lambda>t. refusal (mb_canonical_match_id b) t SR_BINDING_DRIFT)
                    (both_tickers b)) (\<lambda>rs. Inr (st, rs))
              else
                bind_result (expert_contract_sha256 (synchronization_input_pyval i)) (\<lambda>input_sha.
                bind_result (expert_contract_sha256 (tennis_state_pyval s)) (\<lambda>state_sha.
                bind_result (make_tennis_cursor c (Some s) (Some state_sha) (Some input_sha) None)
                  (\<lambda>updated.
                bind_result (map_result (set_floor (mb_canonical_match_id b) (correction_epoch s))
                    (st_book_cursors st)) (\<lambda>books.
                bind_result (make_session
                    (st\<lparr>st_tennis_cursors := put_tennis_cursor updated (st_tennis_cursors st),
                        st_book_cursors := books\<rparr>)) (\<lambda>st'.
                  results_for_tickers st' b item (both_tickers b) now)))))) = Inr (st', rs)"
    using run unfolding ingest_tennis_origin_def
    by (auto simp: bind_result_eq_Inr split: if_split_asm option.split_asm provider_event.split_asm)
  have at: "session_tennis st (mb_canonical_match_id b) = None"
    using selected_tennis_at[OF c(1)] c(2) by (simp add: session_tennis_def)
  show ?thesis
  proof (cases "binding_drift s b")
    case True
    then have "st' = st" "markets_decided st b item (both_tickers b) now st rs"
      using rest by (auto simp: bind_result_eq_Inr intro: refusals_decided)
    moreover have "moved st b i st"
      by (rule moved_same) (use at k q True in \<open>simp_all add: tennis_expected_def\<close>)
    ultimately show ?thesis using p by blast
  next
    case False
    then obtain d x y books where d: "make_tennis_cursor c (Some s) x y None = Inr d"
        "map_result (set_floor (mb_canonical_match_id b) (correction_epoch s)) (st_book_cursors st) = Inr books"
      and mk: "synchronization_session_state_post_init
          (st\<lparr>st_tennis_cursors := put_tennis_cursor d (st_tennis_cursors st), st_book_cursors := books\<rparr>) = None"
        "results_for_tickers (st\<lparr>st_tennis_cursors := put_tennis_cursor d (st_tennis_cursors st),
           st_book_cursors := books\<rparr>) b item (both_tickers b) now = Inr (st', rs)"
      using rest by (auto simp: bind_result_eq_Inr make_session_def)
    have "moved st b i (st\<lparr>st_tennis_cursors := put_tennis_cursor d (st_tennis_cursors st), st_book_cursors := books\<rparr>)"
    proof (rule moved_tennis[OF p c(1) k(2) _ _ d(2)])
      show "tennis_expected b i (tc_tennis c) = Inr (tc_tennis d)"
        using d(1) False k(1) c(2) q by (auto simp: make_tennis_cursor_def tennis_expected_def)
      show "tc_canonical_match_id d = tc_canonical_match_id c"
        using d(1) by (auto simp: make_tennis_cursor_def)
    qed (blast intro: set_floor_effect)+
    then show ?thesis using mk by blast
  qed
qed

lemma ingest_tennis_transition_effect:
  assumes p: "synchronization_session_state_post_init st = None" and k: "in_kind i = TENNIS_TRANSITION" "in_ticker i = None"
    and run: "ingest_tennis_transition st b item i now = Inr (st', rs)"
  shows "\<exists>st1. synchronization_session_state_post_init st1 = None \<and> moved st b i st1
     \<and> results_for_tickers st1 b item (both_tickers b) now = Inr (st', rs)"
proof -
  obtain c s e where c: "selected_tennis_cursor st (mb_canonical_match_id b) = Inr c" "tc_tennis c = Some s"
      "in_provider_event i = Some e"
    using run unfolding ingest_tennis_transition_def
    by (auto simp: bind_result_eq_Inr split: option.split_asm)
  from run c obtain r w x y v d books where r: "recompute_tennis s e = Inr r"
    and d: "make_tennis_cursor c (Some (tr_state r)) x y v = Inr d"
      "map_result (after_tennis (mb_canonical_match_id b) (applied_correction e r) w (tr_state r) (st_policy st))
         (st_book_cursors st) = Inr books"
    and mk: "make_session (st\<lparr>st_tennis_cursors := put_tennis_cursor d (st_tennis_cursors st),
        st_book_cursors := books\<rparr>) = Inr (st\<lparr>st_tennis_cursors := put_tennis_cursor d (st_tennis_cursors st),
        st_book_cursors := books\<rparr>)"
      "results_for_tickers (st\<lparr>st_tennis_cursors := put_tennis_cursor d (st_tennis_cursors st),
         st_book_cursors := books\<rparr>) b item (both_tickers b) now = Inr (st', rs)"
    unfolding ingest_tennis_transition_def
    by (fastforce simp: bind_result_eq_Inr make_session_def Let_def split: if_split_asm)
  have "moved st b i (st\<lparr>st_tennis_cursors := put_tennis_cursor d (st_tennis_cursors st), st_book_cursors := books\<rparr>)"
  proof (rule moved_tennis[OF p c(1) k(2) _ _ d(2)])
    show "tennis_expected b i (tc_tennis c) = Inr (tc_tennis d)"
      using d(1) k(1) c(2,3) recompute_tennis_step[OF r]
      by (auto simp: make_tennis_cursor_def tennis_expected_def)
    show "tc_canonical_match_id d = tc_canonical_match_id c"
      using d(1) by (auto simp: make_tennis_cursor_def)
  qed (blast intro: after_tennis_effect)+
  then show ?thesis using mk by (auto simp: make_session_def)
qed

lemma reset_pending_cases:
  "(reset_pending c e r s = None \<and> (\<forall>p. bc_pending_move c = Some p \<longrightarrow>
       is_book_snapshot (Some e) \<and> paired_reset p s (bt_state r)))
   \<or> reset_pending c e r s = bc_pending_move c"
  by (auto simp: reset_pending_def split: option.split)

lemma book_transition_pending:
  assumes a: "bc_pending_move a = reset_pending c e r s" "bc_book a = Some (bt_state r)"
      "bc_consumed_point_witness a = bc_consumed_point_witness c"
    and i: "in_kind i = BOOK_TRANSITION" "in_book_event i = Some e"
    and d: "d = a \<or> move_pending a r tc pol = Inr d"
  shows "pending_follows pol i s c d"
proof (cases "bc_pending_move c")
  case (Some p)
  have book: "bc_book d = Some (bt_state r)"
    using d a(2) move_pending_effect(1) by (auto simp: book_untouched_def)
  show ?thesis
  proof (cases "bc_pending_move a = None")
    case True
    then have "pending_reset i p s d"
      using reset_pending_cases[of c e r s] a(1) Some i book by (auto simp: pending_reset_def)
    then show ?thesis using Some by (simp add: pending_follows_def)
  next
    case False
    then have p: "bc_pending_move a = Some p"
      using reset_pending_cases[of c e r s] a(1) Some by auto
    from d show ?thesis
    proof
      assume "move_pending a r tc pol = Inr d"
      from move_pending_effect(2)[OF this] p obtain q where "pending_kept p q"
        "bc_pending_move d = Some q \<or> bc_pending_move d = None \<and> pending_explained pol q a d" by auto
      then show ?thesis
        using Some a(3) by (auto simp: pending_follows_def pending_explained_def pending_kept_def)
    qed (use p Some in \<open>simp add: pending_follows_def\<close>)
  qed
qed (simp add: pending_follows_def)

lemma ingest_book_transition_effect:
  assumes k: "in_kind i = BOOK_TRANSITION" "in_ticker i = Some t"
    and t: "t \<in> {mb_home_market_ticker b, mb_away_market_ticker b}"
    and run: "ingest_book_transition st b item i t now = Inr (st', rs)"
  shows "\<exists>st1. synchronization_session_state_post_init st1 = None \<and> moved st b i st1
     \<and> results_for_tickers st1 b item [t] now = Inr (st', rs)"
proof -
  obtain c e where c: "selected_book_cursor st (mb_canonical_match_id b) t = Inr c" "in_book_event i = Some e"
    using run unfolding ingest_book_transition_def
    by (auto simp: bind_result_eq_Inr split: option.split_asm)
  from run c obtain r tc x y a d st1 where r: "recompute_book c (in_previous_state_sha256 i) e = Inr r"
    and tr: "in_book_transition i = Some r"
    and tc: "selected_tennis_cursor st (mb_canonical_match_id b) = Inr tc"
    and a: "make_book_cursor (c\<lparr>bc_book := Some (bt_state r), bc_last_state_sha256 := Some x,
          bc_last_input_sha256 := Some y, bc_pending_move := reset_pending c e r (tc_tennis tc)\<rparr>) = Inr a"
    and d: "(if large_move c r (st_policy st) then move_pending a r tc (st_policy st) else Inr a) = Inr d"
    and mk: "replace_book_cursor st d = Inr st1" "results_for_tickers st1 b item [t] now = Inr (st', rs)"
    unfolding ingest_book_transition_def
    by (fastforce simp: bind_result_eq_Inr split: if_split_asm)
  have a: "a = c\<lparr>bc_book := Some (bt_state r), bc_last_state_sha256 := Some x,
          bc_last_input_sha256 := Some y, bc_pending_move := reset_pending c e r (tc_tennis tc)\<rparr>"
    using a by (simp add: make_book_cursor_def)
  have d: "d = a \<or> move_pending a r tc (st_policy st) = Inr d"
    using d by (simp split: if_split_asm)
  have "pending_follows (st_policy st) i (tc_tennis tc) c d"
    by (rule book_transition_pending[OF _ _ _ k(1) c(2) d]) (simp_all add: a)
  moreover have "book_untouched a d" using d move_pending_effect(1) by auto
  moreover have "magnitude_known (in_book_transition i) c d"
    using d reset_pending_cases[of c e r "tc_tennis tc"] move_pending_effect(3)[of a r tc "st_policy st" d]
    unfolding tr by (auto simp: magnitude_known_def a)
  moreover have st: "session_tennis st (mb_canonical_match_id b) = tc_tennis tc"
    using selected_tennis_at[OF tc] by (simp add: session_tennis_def)
  ultimately have "cursor_moved (st_policy st) b i (session_tennis st (mb_canonical_match_id b)) c d"
    using recompute_book_step[OF r k(1) c(2)] k(2) t book_at_Some[OF selected_book_at[OF c(1)]]
    unfolding st cursor_moved_def by (simp add: book_untouched_def a bc_key_def)
  then have "moved st b i (st\<lparr>st_book_cursors := put_book_cursor d (st_book_cursors st)\<rparr>)"
    by (intro moved_book[OF c(1) _ k(2)]) (simp_all add: k(1))
  then show ?thesis using mk by (auto simp: replace_book_cursor_def make_session_def)
qed

lemma ingest_resnapshot_required_effect:
  assumes k: "in_kind i = BOOK_RESNAPSHOT_REQUIRED" "in_ticker i = Some t"
    and t: "t \<in> {mb_home_market_ticker b, mb_away_market_ticker b}"
    and run: "ingest_resnapshot_required st b item i t now = Inr (st', rs)"
  shows "\<exists>st1. synchronization_session_state_post_init st1 = None \<and> moved st b i st1
     \<and> results_for_tickers st1 b item [t] now = Inr (st', rs)"
proof -
  obtain c book where c: "selected_book_cursor st (mb_canonical_match_id b) t = Inr c" "bc_book c = Some book"
    using run unfolding ingest_resnapshot_required_def
    by (auto simp: bind_result_eq_Inr split: option.split_asm)
  from run c obtain r x y d st1 where r: "require_book_resnapshot book = Inr r"
    and d: "make_book_cursor (c\<lparr>bc_book := Some r, bc_last_state_sha256 := Some x,
          bc_last_input_sha256 := Some y\<rparr>) = Inr d"
    and mk: "replace_book_cursor st d = Inr st1" "results_for_tickers st1 b item [t] now = Inr (st', rs)"
    unfolding ingest_resnapshot_required_def
    by (fastforce simp: bind_result_eq_Inr split: if_split_asm)
  have d: "d = c\<lparr>bc_book := Some r, bc_last_state_sha256 := Some x, bc_last_input_sha256 := Some y\<rparr>"
    using d by (simp add: make_book_cursor_def)
  have "cursor_moved (st_policy st) b i (session_tennis st (mb_canonical_match_id b)) c d"
    using r k t c(2) book_at_Some[OF selected_book_at[OF c(1)]]
    unfolding cursor_moved_def
    by (simp add: d bc_key_def book_expected_def pending_follows_def split: option.split)
  then have "moved st b i (st\<lparr>st_book_cursors := put_book_cursor d (st_book_cursors st)\<rparr>)"
    by (intro moved_book[OF c(1) _ k(2)]) (simp_all add: k(1))
  then show ?thesis using mk by (auto simp: replace_book_cursor_def make_session_def)
qed

subsection \<open>A whole step\<close>

lemma ingest_effect:
  assumes p: "synchronization_session_state_post_init st = None" and b: "(b, item) \<in> set (universe_pairs (st_universe st))"
    and i: "synchronization_input_post_init i = None"
    and run: "ingest st b item i now = Inr (st', rs)"
  shows "\<exists>st1. synchronization_session_state_post_init st1 = None
     \<and> synchronization_session_state_post_init st' = None
     \<and> moved st b i st1 \<and> markets_decided st1 b item (evidence_tickers b i) now st' rs"
    (is "\<exists>st1. ?P (evidence_tickers b i) st1")
proof -
  have shape: "input_shape_ok i" using i by (simp add: synchronization_input_post_init_def)
  have u: "binding_universe_post_init (st_universe st) = None"
    using p by (simp add: session_post_init_iff session_artifacts_iff)
  have dist: "distinct (both_tickers b)"
    using universe_tickers_differ[OF u pairs_in_universe(1)[OF u b]] by (simp add: both_tickers_def)
  have fin: "\<exists>st1. ?P ts st1"
    if "synchronization_session_state_post_init st1 = None \<and> moved st b i st1
       \<and> results_for_tickers st1 b item ts now = Inr (st', rs)" "distinct ts" for st1 ts
    using results_effect[of st1 ts b item now st' rs] that by (intro exI[of _ st1]) simp
  show ?thesis
  proof (cases "in_kind i \<in> {TENNIS_ORIGIN, TENNIS_TRANSITION}")
    case True
    have t: "in_ticker i = None" using True shape by (auto simp: input_shape_ok_def)
    have ts: "evidence_tickers b i = both_tickers b" using True by (simp add: evidence_tickers_def)
    from True consider (a) "in_kind i = TENNIS_ORIGIN" | (b) "in_kind i = TENNIS_TRANSITION" by auto
    then show ?thesis
    proof cases
      case a
      then show ?thesis
        using ingest_tennis_origin_effect[OF p a t] run fin[OF _ dist] unfolding ts
        by (simp add: ingest_def) blast
    next
      case b
      then show ?thesis
        using ingest_tennis_transition_effect[OF p b t] run fin[OF _ dist] unfolding ts
        by (simp add: ingest_def) blast
    qed
  next
    case False
    then obtain t where t: "in_ticker i = Some t"
      using run by (auto simp: ingest_def split: SyncInputKind.splits option.splits)
    have ts: "evidence_tickers b i = [t]" using False t by (simp add: evidence_tickers_def)
    have ten: "tennis_expected b i s = Inr s" for s
      using False by (auto simp: tennis_expected_def split: SyncInputKind.split)
    show ?thesis
    proof (cases "t \<in> {mb_home_market_ticker b, mb_away_market_ticker b}")
      case wrong: False
      have "map_result (\<lambda>t. refusal (mb_canonical_match_id b) t SR_CONTRACT_MISMATCH) [t] = Inr rs \<and> st' = st"
        using run t wrong False by (auto simp: ingest_def bind_result_eq_Inr split: SyncInputKind.splits)
      then have "markets_decided st b item [t] now st' rs" using refusals_decided by blast
      moreover have "moved st b i st" by (rule moved_same) (use ten t wrong in auto)
      moreover have "st' = st"
        using run t wrong False by (auto simp: ingest_def bind_result_eq_Inr split: SyncInputKind.splits)
      ultimately show ?thesis using p unfolding ts by blast
    next
      case True
      from False consider (a) "in_kind i = BOOK_TRANSITION" | (b) "in_kind i = BOOK_RESNAPSHOT_REQUIRED" | (c) "in_kind i = CLOCK"
        by (cases "in_kind i") auto
      then show ?thesis
      proof cases
        case a
        have "ingest_book_transition st b item i t now = Inr (st', rs)"
          using run a t True by (simp add: ingest_def split: if_split_asm)
        from ingest_book_transition_effect[OF a t True this] fin[of _ "[t]"] show ?thesis unfolding ts by auto
      next
        case b
        have "ingest_resnapshot_required st b item i t now = Inr (st', rs)"
          using run b t True by (simp add: ingest_def split: if_split_asm)
        from ingest_resnapshot_required_effect[OF b t True this] fin[of _ "[t]"] show ?thesis unfolding ts by auto
      next
        case c
        have "results_for_tickers st b item [t] now = Inr (st', rs)"
          using run c t True by (simp only: ingest_def SyncInputKind.case option.case simp_thms if_False)
        moreover have "moved st b i st"
          by (rule moved_same) (use ten c in \<open>auto simp: book_expected_def\<close>)
        ultimately show ?thesis unfolding ts using fin[of st "[t]"] p by simp
      qed
    qed
  qed
qed

text \<open>Everything a step does to a session, in one place.\<close>

lemma synchronize_effect:
  assumes "synchronize st i now = Inr x"
  obtains b item st1 where
    "synchronization_session_state_post_init st = None" "\<not> time_regresses st now"
    "paired_time_observation_post_init now = None" "synchronization_input_post_init i = None"
    "(b, item) \<in> set (universe_pairs (st_universe st))" "mb_canonical_match_id b = in_canonical_match_id i"
    "synchronization_session_state_post_init st1 = None"
    "synchronization_session_state_post_init (tx_state x) = None"
    "moved (observed st now) b i st1"
    "markets_decided st1 b item (evidence_tickers b i) now (tx_state x) (tx_results x)"
    "tx_input x = i" "tx_observation x = now" "tx_prior_decision_sequence x = st_decision_sequence st"
    "synchronization_transition_result_post_init x = None" "encodable (synchronization_input_pyval i)"
proof -
  from assms show thesis
  proof (cases rule: synchronize_cases)
    case (1 b item rs)
    have "(b, item) \<in> set (universe_pairs (st_universe (observed st now)))" using 1(5) by simp
    from ingest_effect[OF 1(7) this 1(4) 1(8)] 1(9) obtain st1 where
      "synchronization_session_state_post_init st1 = None"
      "synchronization_session_state_post_init (tx_state x) = None"
      "moved (observed st now) b i st1"
      "markets_decided st1 b item (evidence_tickers b i) now (tx_state x) (tx_results x)" by blast
    then show thesis using that 1 by blast
  qed
qed

end
