(* ===== verification/SyncRuns.thy ===== *)
theory SyncRuns
  imports SyncEffects
begin

text \<open>
  Runs of the synchronizer: every step follows the tennis machine and the order book machine, keeps
  the invariant of the session and never moves anything backwards; \<open>sessions\<close> gives this to
  every run.
\<close>

subsection \<open>The invariant read off the maps\<close>

lemma session_maps_observed [simp]:
  "session_tennis (observed st now) = session_tennis st"
  "session_book (observed st now) = session_book st"
  "session_pending (observed st now) = session_pending st"
  "session_emission (observed st now) = session_emission st"
  by (simp_all add: session_maps fun_eq_iff)

lemma session_inv_maps:
  "session_inv st \<longleftrightarrow>
     synchronization_session_state_post_init st = None
     \<and> (\<forall>b \<in> set (bu_bindings (st_universe st)). match_binding_post_init b = None)
     \<and> (\<forall>m s. session_tennis st m = Some s \<longrightarrow> tennis_inv s)
     \<and> (\<forall>m t b. session_book st m t = Some b \<longrightarrow> book_inv b)
     \<and> (\<forall>m t p. session_pending st m t = Some p \<longrightarrow> decimal_encodable (pm_max_magnitude p))"
  (is "?L \<longleftrightarrow> ?p \<and> ?b \<and> ?t \<and> ?k \<and> ?q")
proof
  assume ?L
  then show "?p \<and> ?b \<and> ?t \<and> ?k \<and> ?q"
    by (auto simp: session_inv_def session_maps bind_eq_Some_conv dest!: tennis_at_Some book_at_Some)
next
  assume r: "?p \<and> ?b \<and> ?t \<and> ?k \<and> ?q"
  have "session_tennis st (tc_canonical_match_id c) = tc_tennis c" if "c \<in> set (st_tennis_cursors st)" for c
    using tennis_at_member[OF session_keys_distinct(1) that] r by (simp add: session_maps)
  moreover have "session_book st (bc_canonical_match_id c) (bc_ticker c) = bc_book c
    \<and> session_pending st (bc_canonical_match_id c) (bc_ticker c) = bc_pending_move c"
    if "c \<in> set (st_book_cursors st)" for c
    using book_at_member[OF session_keys_distinct(2) that] r by (simp add: session_maps)
  ultimately show ?L
    using r unfolding session_inv_def by metis
qed

lemma book_key_of_binding:
  assumes p: "synchronization_session_state_post_init st = None" and b: "b \<in> set (bu_bindings (st_universe st))"
    and at: "book_at (st_book_cursors st) (mb_canonical_match_id b) t = Some c"
  shows "t \<in> {mb_home_market_ticker b, mb_away_market_ticker b}"
proof -
  have u: "binding_universe_post_init (st_universe st) = None"
    using p by (simp add: session_post_init_iff session_artifacts_iff)
  have "bc_key c \<in> set (map bc_key (st_book_cursors st))"
    using book_at_Some[OF at] by simp
  moreover have "bc_key c = [mb_canonical_match_id b, t]"
    using book_at_Some[OF at] by (simp add: bc_key_def)
  moreover have "map bc_key (st_book_cursors st) = sort (book_keys (st_universe st))"
    using p by (simp add: session_post_init_iff expected_books_def)
  ultimately have "[mb_canonical_match_id b, t] \<in> set (book_keys (st_universe st))"
    by (metis set_sort)
  then obtain b' where b': "b' \<in> set (bu_bindings (st_universe st))"
      "mb_canonical_match_id b' = mb_canonical_match_id b"
      "t = mb_home_market_ticker b' \<or> t = mb_away_market_ticker b'"
    by (auto simp: book_keys_def)
  moreover have "b' = b"
    using universe_match_ids_distinct[OF u] b b'(1,2) by (auto simp: distinct_map dest: inj_onD)
  ultimately show ?thesis by auto
qed

subsection \<open>A step on the maps\<close>

lemma moved_here:
  assumes "moved st b i st'"
  shows "case book_at (st_book_cursors st) (mb_canonical_match_id b) t of
      None \<Rightarrow> book_at (st_book_cursors st') (mb_canonical_match_id b) t = None
    | Some c \<Rightarrow> \<exists>d. book_at (st_book_cursors st') (mb_canonical_match_id b) t = Some d
        \<and> cursor_moved (st_policy st) b i (session_tennis st (mb_canonical_match_id b)) c d"
  using assms unfolding moved_def by blast

lemma moved_elsewhere:
  assumes "moved st b i st'" "m \<noteq> mb_canonical_match_id b"
  shows "book_at (st_book_cursors st') m t = book_at (st_book_cursors st) m t"
    and "tennis_at (st_tennis_cursors st') m = tennis_at (st_tennis_cursors st) m"
  using assms unfolding moved_def by blast+

lemma moved_book_at:
  assumes "moved st b i st'" "book_at (st_book_cursors st) m t = Some c"
  obtains d where "book_at (st_book_cursors st') m t = Some d" "bc_key d = bc_key c"
    "bc_last_emission d = bc_last_emission c" "magnitude_known (in_book_transition i) c d"
    "m \<noteq> mb_canonical_match_id b \<Longrightarrow> d = c"
    "m = mb_canonical_match_id b \<Longrightarrow>
       cursor_moved (st_policy st) b i (session_tennis st (mb_canonical_match_id b)) c d"
proof (cases "m = mb_canonical_match_id b")
  case True
  then obtain d where "book_at (st_book_cursors st') m t = Some d"
    "cursor_moved (st_policy st) b i (session_tennis st (mb_canonical_match_id b)) c d"
    using moved_here[OF assms(1), of t] assms(2) by auto
  then show thesis using that True by (simp add: cursor_moved_def)
next
  case False
  then have "book_at (st_book_cursors st') m t = Some c"
    using moved_elsewhere(1)[OF assms(1)] assms(2) by simp
  then show thesis using that[of c] False by simp
qed

lemma moved_book_none:
  assumes "moved st b i st'" "book_at (st_book_cursors st) m t = None"
  shows "book_at (st_book_cursors st') m t = None"
proof (cases "m = mb_canonical_match_id b")
  case True
  then show ?thesis using moved_here[OF assms(1), of t] assms(2) by simp
next
  case False
  then show ?thesis using moved_elsewhere(1)[OF assms(1)] assms(2) by simp
qed

lemma decided_book_at:
  assumes "markets_decided st b item ts now st' rs" "book_at (st_book_cursors st) m t = Some c"
  obtains e where "book_at (st_book_cursors st') m t = Some (c\<lparr>bc_last_emission := e\<rparr>)"
    "e = bc_last_emission c \<or> (\<exists>r \<in> set rs. m = mb_canonical_match_id b \<and> is_trusted r
        \<and> res_ticker r = t \<and> published st b item t now st' r)"
proof (cases "m \<noteq> mb_canonical_match_id b \<or> t \<notin> set ts")
  case True
  then have "book_at (st_book_cursors st') m t = Some (c\<lparr>bc_last_emission := bc_last_emission c\<rparr>)"
    using assms by (simp add: markets_decided_def)
  then show thesis using that by blast
next
  case False
  then obtain r where r: "r \<in> set rs" "market_decided st b item now st' t r"
    using assms(1) unfolding markets_decided_def by (metis list_all2_conv_all_nth in_set_conv_nth)
  show thesis
  proof (cases "is_trusted r")
    case True
    then have p: "published st b item t now st' r" "res_ticker r = t" using r(2) by (auto simp: market_decided_def)
    then obtain e where "book_at (st_book_cursors st') m t = Some (c\<lparr>bc_last_emission := e\<rparr>)"
      using False assms(2) unfolding published_def by auto
    then show thesis using that p r(1) True False by blast
  next
    case untrusted: False
    then have "book_at (st_book_cursors st') m t = Some (c\<lparr>bc_last_emission := bc_last_emission c\<rparr>)"
      using r(2) False assms(2) by (simp add: market_decided_def)
    then show thesis using that by blast
  qed
qed

lemma decided_book_none:
  assumes "markets_decided st b item ts now st' rs" "book_at (st_book_cursors st) m t = None"
  shows "book_at (st_book_cursors st') m t = None"
proof (cases "m \<noteq> mb_canonical_match_id b \<or> t \<notin> set ts")
  case True
  then show ?thesis using assms by (simp add: markets_decided_def)
next
  case False
  then obtain r where "market_decided st b item now st' t r"
    using assms(1) unfolding markets_decided_def by (metis list_all2_conv_all_nth in_set_conv_nth)
  then show ?thesis using False assms(2) by (auto simp: market_decided_def published_def split: if_splits)
qed

lemma decided_maps:
  assumes "markets_decided st b item ts now st' rs"
  shows "session_tennis st' = session_tennis st" "session_book st' = session_book st"
    "session_pending st' = session_pending st"
proof -
  show "session_tennis st' = session_tennis st"
    using assms by (simp add: markets_decided_def session_maps fun_eq_iff)
  have "session_book st' m t = session_book st m t \<and> session_pending st' m t = session_pending st m t" for m t
  proof (cases "book_at (st_book_cursors st) m t")
    case None
    then show ?thesis using decided_book_none[OF assms None] by (simp add: session_maps)
  next
    case (Some c)
    from decided_book_at[OF assms Some] obtain e where
      "book_at (st_book_cursors st') m t = Some (c\<lparr>bc_last_emission := e\<rparr>)" by blast
    then show ?thesis using Some by (simp add: session_maps)
  qed
  then show "session_book st' = session_book st" "session_pending st' = session_pending st"
    by (simp_all add: fun_eq_iff)
qed

subsection \<open>The machine of the synchronizer\<close>

definition sync_step ::
  "SynchronizationSessionState \<Rightarrow> SynchronizationInput \<times> PairedTimeObservation
     \<Rightarrow> SynchronizationSessionState result" where
  "sync_step st = (\<lambda>(i, now). bind_result (synchronize st i now) (\<lambda>x. Inr (tx_state x)))"

definition sync_event_ok :: "SynchronizationInput \<times> PairedTimeObservation \<Rightarrow> bool" where
  \<comment> \<open>the events inside the evidence were built by their constructors\<close>
  "sync_event_ok = (\<lambda>(i, now).
     (case in_provider_event i of None \<Rightarrow> True | Some e \<Rightarrow> provider_event_ok e)
     \<and> (case in_book_event i of None \<Rightarrow> True | Some e \<Rightarrow> book_event_ok e))"

text \<open>The order on sessions: nothing a session holds moves backwards.\<close>

definition forward :: "('a \<Rightarrow> 'a \<Rightarrow> bool) \<Rightarrow> 'a option \<Rightarrow> 'a option \<Rightarrow> bool" where
  "forward R old new = (case old of None \<Rightarrow> True | Some x \<Rightarrow> (case new of None \<Rightarrow> False | Some y \<Rightarrow> R x y))"

lemma forward_None [simp]: "forward R None y"
  by (simp add: forward_def)

lemma forward_Some [simp]: "forward R (Some x) (Some y) = R x y"
  by (simp add: forward_def)

lemma forward_refl: "(\<And>x. R x x) \<Longrightarrow> forward R x x"
  by (cases x) simp_all

lemma forward_trans:
  "forward R x y \<Longrightarrow> forward R y z \<Longrightarrow> (\<And>a b c. R a b \<Longrightarrow> R b c \<Longrightarrow> R a c) \<Longrightarrow> forward R x z"
  by (cases x; cases y; cases z) (auto simp: forward_def)

definition emission_before :: "LastSyncEmission \<Rightarrow> LastSyncEmission \<Rightarrow> bool" where
  "emission_before e e' \<longleftrightarrow>
     \<not> coord_less (em_provider e') (em_provider e) \<and> \<not> coord_less (em_book e') (em_book e)
     \<and> (em_provider e \<noteq> em_provider e' \<or> em_book e \<noteq> em_book e')"

definition emission_no_later :: "LastSyncEmission \<Rightarrow> LastSyncEmission \<Rightarrow> bool" where
  "emission_no_later e e' \<longleftrightarrow> e' = e \<or> emission_before e e'"

definition time_no_later :: "PairedTimeObservation \<Rightarrow> PairedTimeObservation \<Rightarrow> bool" where
  "time_no_later t t' \<longleftrightarrow> obs_monotonic_ns t \<le> obs_monotonic_ns t' \<and> obs_wall_ns t \<le> obs_wall_ns t'"

definition session_no_earlier ::
  "SynchronizationSessionState \<Rightarrow> SynchronizationSessionState \<Rightarrow> bool" where
  "session_no_earlier st st' \<longleftrightarrow>
     st_universe st' = st_universe st \<and> st_policy st' = st_policy st
     \<and> st_decision_sequence st \<le> st_decision_sequence st'
     \<and> forward time_no_later (st_last_observation st) (st_last_observation st')
     \<and> (\<forall>m. forward no_earlier (session_tennis st m) (session_tennis st' m))
     \<and> (\<forall>m t. forward book_no_earlier (session_book st m t) (session_book st' m t))
     \<and> (\<forall>m t. forward emission_no_later (session_emission st m t) (session_emission st' m t))"

lemma coord_less_linear: "\<not> coord_less p q \<Longrightarrow> \<not> coord_less q r \<Longrightarrow> \<not> coord_less p r"
  by (auto simp: coord_less_def)

lemma coord_less_antisym: "\<not> coord_less p q \<Longrightarrow> \<not> coord_less q p \<Longrightarrow> p = q"
  by (cases p; cases q) (auto simp: coord_less_def)

lemma emission_before_trans:
  assumes "emission_before a b" "emission_before b c"
  shows "emission_before a c"
proof -
  have le: "\<not> coord_less (em_provider c) (em_provider a)" "\<not> coord_less (em_book c) (em_book a)"
    using assms coord_less_linear unfolding emission_before_def by blast+
  have "em_provider b = em_provider a" if "em_provider c = em_provider a"
    using assms that coord_less_antisym unfolding emission_before_def by auto
  moreover have "em_book b = em_book a" if "em_book c = em_book a"
    using assms that coord_less_antisym unfolding emission_before_def by auto
  ultimately show ?thesis
    using assms le unfolding emission_before_def by auto
qed

lemma emission_no_later_trans: "emission_no_later a b \<Longrightarrow> emission_no_later b c \<Longrightarrow> emission_no_later a c"
  by (auto simp: emission_no_later_def intro: emission_before_trans)

lemma session_no_earlier_refl: "session_no_earlier st st"
  unfolding session_no_earlier_def
  by (intro conjI allI refl order.refl forward_refl)
    (simp_all add: time_no_later_def no_earlier_refl book_no_earlier_def emission_no_later_def)

lemma time_no_later_trans: "time_no_later a b \<Longrightarrow> time_no_later b c \<Longrightarrow> time_no_later a c"
  by (auto simp: time_no_later_def)

lemma session_no_earlier_trans:
  assumes "session_no_earlier a b" "session_no_earlier b c"
  shows "session_no_earlier a c"
proof -
  note a = assms(1)[unfolded session_no_earlier_def] and b = assms(2)[unfolded session_no_earlier_def]
  have "forward no_earlier (session_tennis a m) (session_tennis c m)" for m
    by (rule forward_trans[OF _ _ no_earlier_trans]) (use a b in blast)+
  moreover have "forward book_no_earlier (session_book a m t) (session_book c m t)" for m t
    by (rule forward_trans[OF _ _ book_no_earlier_trans]) (use a b in blast)+
  moreover have "forward emission_no_later (session_emission a m t) (session_emission c m t)" for m t
    by (rule forward_trans[OF _ _ emission_no_later_trans]) (use a b in blast)+
  moreover have "forward time_no_later (st_last_observation a) (st_last_observation c)"
    by (rule forward_trans[OF _ _ time_no_later_trans]) (use a b in blast)+
  moreover have "st_decision_sequence a \<le> st_decision_sequence c" using a b by linarith
  moreover have "st_universe c = st_universe a" "st_policy c = st_policy a" using a b by simp_all
  ultimately show ?thesis unfolding session_no_earlier_def by blast
qed

subsection \<open>A step follows the two component machines\<close>

lemma step_tennis:
  assumes "synchronize st i now = Inr x"
  obtains b where "b \<in> set (bu_bindings (st_universe st))" "mb_canonical_match_id b = in_canonical_match_id i"
    "tennis_expected b i (session_tennis st (in_canonical_match_id i)) =
       Inr (session_tennis (tx_state x) (in_canonical_match_id i))"
    "\<And>m. m \<noteq> in_canonical_match_id i \<Longrightarrow> session_tennis (tx_state x) m = session_tennis st m"
    "\<And>m t. m \<noteq> in_canonical_match_id i \<Longrightarrow>
       book_at (st_book_cursors (tx_state x)) m t = book_at (st_book_cursors st) m t"
  using assms
proof (cases rule: synchronize_effect)
  case (1 b item st1)
  have u: "binding_universe_post_init (st_universe st) = None"
    using 1(1) by (simp add: session_post_init_iff session_artifacts_iff)
  note b = pairs_in_universe(1)[OF u 1(5)] and d = decided_maps[OF 1(10)]
  have "tennis_expected b i (session_tennis st (in_canonical_match_id i)) =
      Inr (session_tennis (tx_state x) (in_canonical_match_id i))"
    using 1(9) d(1) unfolding moved_def by (simp add: 1(6))
  moreover have "session_tennis (tx_state x) m = session_tennis st m"
    "book_at (st_book_cursors (tx_state x)) m t = book_at (st_book_cursors st) m t"
    if "m \<noteq> in_canonical_match_id i" for m t
    using moved_elsewhere[OF 1(9), of m] that d(1) 1(6,10)
    by (simp_all add: session_tennis_def markets_decided_def)
  ultimately show thesis using that b 1(6) by blast
qed

lemma step_book:
  assumes run: "synchronize st i now = Inr x" and at: "book_at (st_book_cursors st) m t = Some c"
  shows "if m = in_canonical_match_id i \<and> in_ticker i = Some t
    then book_expected i (session_book st m t) = Inr (session_book (tx_state x) m t)
    else session_book (tx_state x) m t = session_book st m t"
  using run
proof (cases rule: synchronize_effect)
  case (1 b item st1)
  have u: "binding_universe_post_init (st_universe st) = None"
    using 1(1) by (simp add: session_post_init_iff session_artifacts_iff)
  note b = pairs_in_universe(1)[OF u 1(5)] and d = decided_maps[OF 1(10)]
  have at': "book_at (st_book_cursors (observed st now)) m t = Some c" using at by simp
  from moved_book_at[OF 1(9) at'] obtain e where e: "book_at (st_book_cursors st1) m t = Some e"
    "m \<noteq> mb_canonical_match_id b \<Longrightarrow> e = c"
    "m = mb_canonical_match_id b \<Longrightarrow>
       cursor_moved (st_policy (observed st now)) b i (session_tennis (observed st now) (mb_canonical_match_id b)) c e"
    by blast
  have s: "session_book (tx_state x) m t = bc_book e" "session_book st m t = bc_book c"
    using e(1) at d(2) by (simp_all add: session_book_def)
  show ?thesis
  proof (cases "m = mb_canonical_match_id b")
    case True
    then have "t \<in> {mb_home_market_ticker b, mb_away_market_ticker b}" "bc_ticker c = t"
      using book_key_of_binding[OF 1(1) b] at book_at_Some[OF at] by simp_all
    then show ?thesis unfolding s using e(3)[OF True] True 1(6) by (simp add: cursor_moved_def split: if_splits)
  qed (use e(2) 1(6) s in simp)
qed

lemma step_book_none:
  assumes run: "synchronize st i now = Inr x" and at: "book_at (st_book_cursors st) m t = None"
  shows "book_at (st_book_cursors (tx_state x)) m t = None"
  using run
proof (cases rule: synchronize_effect)
  case (1 b item st1)
  have "book_at (st_book_cursors st1) m t = None"
    by (rule moved_book_none[OF 1(9)]) (use at in simp)
  then show ?thesis by (rule decided_book_none[OF 1(10)])
qed

subsection \<open>Every step keeps the session valid\<close>

lemma origin_tennis_inv:
  "provider_snapshot_ok p \<Longrightarrow> state_from_snapshot p = Inr s \<Longrightarrow> tennis_inv s"
  using snapshot_fields_inv[OF _ _ snapshot_semantic(2)]
  by (auto simp: state_from_snapshot_eq initial_lineage_def split: if_splits)

lemma origin_book_inv:
  "book_event_ok (BookSnapshotEvent p) \<Longrightarrow> book_from_snapshot p = Inr r \<Longrightarrow> book_inv (bt_state r)"
  using book_from_snapshot_eq[of p] snapshot_book_inv[of p 0 "snapshot_digest_of p"]
    contract_digest_eq(2)[of "book_snapshot_pyval p"] book_snapshot_encodable[of p]
  by (auto simp: book_event_ok_def event_result_def snapshot_digest_of_def probability_ok_def)

lemma tennis_expected_inv:
  assumes "tennis_expected b i old = Inr new" "sync_event_ok (i, now)" "\<forall>s. old = Some s \<longrightarrow> tennis_inv s"
  shows "\<forall>s. new = Some s \<longrightarrow> tennis_inv s" and "forward no_earlier old new"
proof -
  have "(\<forall>s. new = Some s \<longrightarrow> tennis_inv s) \<and> forward no_earlier old new"
  proof (cases "in_kind i")
    case TENNIS_ORIGIN
    then obtain p s where "old = None" "in_provider_event i = Some (SnapshotEvent p)" "state_from_snapshot p = Inr s"
        "new = (if binding_drift s b then None else Some s)"
      using assms(1)
      by (auto simp: tennis_expected_def bind_result_eq_Inr split: option.split_asm provider_event.split_asm)
    then show ?thesis
      using assms(2) origin_tennis_inv[of p s] by (auto simp: sync_event_ok_def provider_event_ok_def)
  next
    case TENNIS_TRANSITION
    then obtain s e s' where e: "old = Some s" "in_provider_event i = Some e" "tennis_step s e = Inr s'" "new = Some s'"
      using assms(1) by (auto simp: tennis_expected_def bind_result_eq_Inr split: option.split_asm)
    then have ok: "provider_event_ok e" "tennis_inv s" using assms(2,3) by (auto simp: sync_event_ok_def)
    show ?thesis
      using tennis.step_inv[OF ok(2,1) e(3)] tennis.step_le[OF ok(2,1) e(3)] e(1,4) by simp
  qed (use assms in \<open>auto simp: tennis_expected_def intro!: forward_refl no_earlier_refl\<close>)
  then show "\<forall>s. new = Some s \<longrightarrow> tennis_inv s" "forward no_earlier old new" by blast+
qed

lemma book_no_earlier_refl: "book_no_earlier s s"
  by (rule books.le_refl)

lemma book_expected_inv:
  assumes "book_expected i old = Inr new" "sync_event_ok (i, now)" "\<forall>s. old = Some s \<longrightarrow> book_inv s"
  shows "\<forall>s. new = Some s \<longrightarrow> book_inv s" and "forward book_no_earlier old new"
proof -
  have "(\<forall>s. new = Some s \<longrightarrow> book_inv s) \<and> forward book_no_earlier old new"
  proof (cases "in_kind i")
    case BOOK_TRANSITION
    then consider (origin) p r where "old = None" "in_book_event i = Some (BookSnapshotEvent p)"
        "book_from_snapshot p = Inr r" "new = Some (bt_state r)"
      | (step) s e s' where "old = Some s" "in_book_event i = Some e" "book_step s e = Inr s'" "new = Some s'"
      using assms(1)
      by (auto simp: book_expected_def bind_result_eq_Inr split: option.split_asm book_event.split_asm)
    then show ?thesis
    proof cases
      case origin
      then show ?thesis using assms(2) origin_book_inv[of p r] by (simp add: sync_event_ok_def)
    next
      case step
      then have ok: "book_event_ok e" "book_inv s" using assms(2,3) by (auto simp: sync_event_ok_def)
      show ?thesis
        using books.step_inv[OF ok(2,1) step(3)] books.step_le[OF ok(2,1) step(3)] step(1,4) by simp
    qed
  next
    case BOOK_RESNAPSHOT_REQUIRED
    then obtain s s' where "old = Some s" "require_book_resnapshot s = Inr s'" "new = Some s'"
      using assms(1) by (auto simp: book_expected_def bind_result_eq_Inr split: option.split_asm)
    moreover from this have "s' = with_gap s" using assms(3) require_book_resnapshot_eq by simp
    ultimately show ?thesis
      using assms(3) with_gap_inv[of s] by (simp add: with_gap_def book_no_earlier_def)
  qed (use assms in \<open>auto simp: book_expected_def intro!: forward_refl book_no_earlier_refl\<close>)
  then show "\<forall>s. new = Some s \<longrightarrow> book_inv s" "forward book_no_earlier old new" by blast+
qed

lemma input_move_encodable:
  "encodable (synchronization_input_pyval i) \<Longrightarrow> in_book_transition i = Some r \<Longrightarrow>
     decimal_encodable (bt_executable_move r)"
  by (simp add: synchronization_input_pyval_def book_transition_result_pyval_def)

lemma step_pending_encodable:
  assumes run: "synchronize st i now = Inr x"
    and old: "\<And>p. session_pending st m t = Some p \<Longrightarrow> decimal_encodable (pm_max_magnitude p)"
    and new: "session_pending (tx_state x) m t = Some q"
  shows "decimal_encodable (pm_max_magnitude q)"
  using run
proof (cases rule: synchronize_effect)
  case (1 b item st1)
  have q: "session_pending st1 m t = Some q" using new decided_maps[OF 1(10)] by simp
  then obtain d where d: "book_at (st_book_cursors st1) m t = Some d" "bc_pending_move d = Some q"
    by (auto simp: session_pending_def bind_eq_Some_conv)
  obtain c where c: "book_at (st_book_cursors (observed st now)) m t = Some c"
    using moved_book_none[OF 1(9), of m t] d(1) by (cases "book_at (st_book_cursors (observed st now)) m t") auto
  have "magnitude_known (in_book_transition i) c d"
    using moved_book_at[OF 1(9) c] d(1) by (metis option.inject)
  moreover have "session_pending st m t = bc_pending_move c" using c by (simp add: session_pending_def)
  ultimately show ?thesis
    using d(2) old input_move_encodable[OF 1(15)] by (auto simp: magnitude_known_def)
qed

lemma sync_step_inv:
  assumes st: "session_inv st" and e: "sync_event_ok e" and run: "sync_step st e = Inr st'"
  shows "session_inv st'"
proof -
  obtain i now where i: "e = (i, now)" by (cases e)
  then obtain x where x: "synchronize st i now = Inr x" "st' = tx_state x"
    using run by (auto simp: sync_step_def bind_result_eq_Inr)
  note inv = st[unfolded session_inv_maps]
  have ten: "tennis_inv s" if "session_tennis (tx_state x) m = Some s" for m s
    using x(1)
  proof (cases rule: step_tennis)
    case (1 b)
    show ?thesis
    proof (cases "m = in_canonical_match_id i")
      case True
      have "\<forall>s. session_tennis st (in_canonical_match_id i) = Some s \<longrightarrow> tennis_inv s" using inv by blast
      from tennis_expected_inv(1)[OF 1(3) e[unfolded i] this] show ?thesis using that True by blast
    qed (use 1(4) inv that in auto)
  qed
  have book: "book_inv s" if s: "session_book (tx_state x) m t = Some s" for m t s
  proof -
    have old: "\<forall>s. session_book st m t = Some s \<longrightarrow> book_inv s" using inv by blast
    have "book_at (st_book_cursors (tx_state x)) m t \<noteq> None" using s by (cases "book_at (st_book_cursors (tx_state x)) m t") (simp_all add: session_book_def)
    then obtain c where "book_at (st_book_cursors st) m t = Some c"
      using step_book_none[OF x(1)] by (cases "book_at (st_book_cursors st) m t") auto
    from step_book[OF x(1) this] show ?thesis
      using book_expected_inv(1)[OF _ e[unfolded i] old] old s by (auto split: if_splits)
  qed
  have pend: "decimal_encodable (pm_max_magnitude q)" if "session_pending (tx_state x) m t = Some q" for m t q
    by (rule step_pending_encodable[OF x(1) _ that]) (use inv in blast)
  from x(1) have "synchronization_session_state_post_init (tx_state x) = None \<and> st_universe (tx_state x) = st_universe st"
  proof (cases rule: synchronize_effect)
    case (1 b item st1)
    then show ?thesis by (simp add: moved_def markets_decided_def same_session_def)
  qed
  then show ?thesis
    unfolding x(2) session_inv_maps using inv ten book pend by auto
qed

subsection \<open>Publications only move forward\<close>

lemma published_advances:
  assumes p: "synchronization_session_state_post_init st = None" and pub: "published st b item t now st' r"
  obtains tc bc s book fp n frame where
    "tennis_at (st_tennis_cursors st) (mb_canonical_match_id b) = Some tc" "tc_tennis tc = Some s"
    "book_at (st_book_cursors st) (mb_canonical_match_id b) t = Some bc" "bc_book bc = Some book"
    "session_emission st' (mb_canonical_match_id b) t = Some (emission_of fp s book)"
    "\<And>e. bc_last_emission bc = Some e \<Longrightarrow> emission_before e (emission_of fp s book)"
    "r = trusted_result b t ((snapshot_of st b bc s book now)\<lparr>ts_decision_sequence := n\<rparr>) frame"
proof -
  obtain tc bc s book fp n frame where *:
    "tennis_at (st_tennis_cursors st) (mb_canonical_match_id b) = Some tc" "tc_tennis tc = Some s"
    "book_at (st_book_cursors st) (mb_canonical_match_id b) t = Some bc" "bc_book bc = Some book"
    "fresh_pair bc s book fp"
    "book_at (st_book_cursors st') (mb_canonical_match_id b) t =
       Some (bc\<lparr>bc_last_emission := Some (emission_of fp s book)\<rparr>)"
    "r = trusted_result b t ((snapshot_of st b bc s book now)\<lparr>ts_decision_sequence := n\<rparr>) frame"
    using pub unfolding published_def by blast
  have "session_emission st' (mb_canonical_match_id b) t = Some (emission_of fp s book)"
    using *(6) by (simp add: session_emission_def)
  moreover have "emission_before e (emission_of fp s book)" if e: "bc_last_emission bc = Some e" for e
  proof -
    have mem: "tc \<in> set (st_tennis_cursors st)" "tc_canonical_match_id tc = bc_canonical_match_id bc"
      "bc \<in> set (st_book_cursors st)"
      using tennis_at_Some[OF *(1)] book_at_Some[OF *(3)] by simp_all
    have "book_cursor_contracts bc = None" "book_cursor_in_session st bc = None"
      using p mem by (simp_all add: session_post_init_iff session_contracts_iff)
    then have "\<not> coord_less (bs_position book) (em_book e)" "emission_matches_tennis (Some s) (Some e)"
      using session_tennis_by_match_eq[OF p mem(1)] mem(2) *(2,4) e
      by (simp_all add: book_cursor_contracts_def book_sync_cursor_post_init_def book_cursor_in_session_def)
    moreover have "pair_identity s book \<noteq> emission_identity e"
      using *(5) e by (simp add: fresh_pair_def)
    ultimately show ?thesis
      by (auto simp: emission_before_def emission_matches_tennis_def em_provider_def em_book_def
          tennis_position_def bs_position_def emission_of_def pair_identity_def emission_identity_def)
  qed
  ultimately show thesis using that *(1-4,7) by blast
qed

lemma step_emission:
  assumes run: "synchronize st i now = Inr x"
  shows "forward emission_no_later (session_emission st m t) (session_emission (tx_state x) m t)"
proof (cases "session_emission st m t")
  case (Some e)
  then obtain c where c: "book_at (st_book_cursors st) m t = Some c" "bc_last_emission c = Some e"
    by (auto simp: session_emission_def bind_eq_Some_conv)
  from run show ?thesis
  proof (cases rule: synchronize_effect)
    case (1 b item st1)
    have "book_at (st_book_cursors (observed st now)) m t = Some c" using c(1) by simp
    from moved_book_at[OF 1(9) this] obtain d where d: "book_at (st_book_cursors st1) m t = Some d"
      "bc_last_emission d = Some e" using c(2) by metis
    from decided_book_at[OF 1(10) d(1)] obtain e' where e':
      "book_at (st_book_cursors (tx_state x)) m t = Some (d\<lparr>bc_last_emission := e'\<rparr>)"
      "e' = bc_last_emission d \<or> (\<exists>r. m = mb_canonical_match_id b
        \<and> published st1 b item t now (tx_state x) r)" by blast
    have new: "session_emission (tx_state x) m t = e'" using e'(1) by (simp add: session_emission_def)
    from e'(2) show ?thesis
    proof
      assume "e' = bc_last_emission d"
      then show ?thesis using d(2) by (simp add: Some new emission_no_later_def)
    next
      assume "\<exists>r. m = mb_canonical_match_id b \<and> published st1 b item t now (tx_state x) r"
      then obtain r where m: "m = mb_canonical_match_id b" and pub: "published st1 b item t now (tx_state x) r" by blast
      from published_advances[OF 1(7) pub] show ?thesis
      proof cases
        case (1 tc bc s book fp n frame)
        then have "bc = d" using d(1) by (simp add: m)
        then have "emission_before e (emission_of fp s book)" using 1(6) d(2) by simp
        then show ?thesis using 1(5) by (simp add: m[symmetric] Some emission_no_later_def)
      qed
    qed
  qed
qed simp

lemma sync_step_no_earlier:
  assumes st: "session_inv st" and e: "sync_event_ok e" and run: "sync_step st e = Inr st'"
  shows "session_no_earlier st st'"
proof -
  obtain i now where i: "e = (i, now)" by (cases e)
  then obtain x where x: "synchronize st i now = Inr x" "st' = tx_state x"
    using run by (auto simp: sync_step_def bind_result_eq_Inr)
  note inv = st[unfolded session_inv_maps]
  have "forward no_earlier (session_tennis st m) (session_tennis st' m)" for m
    using x(1)
  proof (cases rule: step_tennis)
    case (1 b)
    have "\<forall>s. session_tennis st (in_canonical_match_id i) = Some s \<longrightarrow> tennis_inv s" using inv by blast
    from tennis_expected_inv(2)[OF 1(3) e[unfolded i] this] show ?thesis
      using 1(4)[of m] forward_refl[of no_earlier, OF no_earlier_refl] unfolding x(2)
      by (cases "m = in_canonical_match_id i") simp_all
  qed
  moreover have "forward book_no_earlier (session_book st m t) (session_book st' m t)" for m t
  proof (cases "book_at (st_book_cursors st) m t")
    case (Some c)
    have old: "\<forall>s. session_book st m t = Some s \<longrightarrow> book_inv s" using inv by blast
    from step_book[OF x(1) Some] show ?thesis
      using book_expected_inv(2)[OF _ e[unfolded i] old] forward_refl[of book_no_earlier, OF book_no_earlier_refl]
      unfolding x(2) by (auto split: if_splits)
  qed (simp add: session_book_def)
  moreover from x(1) have "st_universe st' = st_universe st \<and> st_policy st' = st_policy st
    \<and> st_decision_sequence st \<le> st_decision_sequence st'
    \<and> forward time_no_later (st_last_observation st) (st_last_observation st')"
  proof (cases rule: synchronize_effect)
    case (1 b item st1)
    have "forward time_no_later (st_last_observation st) (Some now)"
      using 1(2) by (cases "st_last_observation st")
        (simp_all add: time_regresses_def time_no_later_def not_less)
    then show ?thesis
      using 1(9,10) unfolding x(2) by (simp add: moved_def markets_decided_def same_session_def)
  qed
  ultimately show ?thesis
    unfolding session_no_earlier_def x(2) using step_emission[OF x(1)] by blast
qed

interpretation sessions: ordered_machine sync_step session_inv sync_event_ok session_no_earlier
  by unfold_locales
    (fact sync_step_inv session_no_earlier_refl session_no_earlier_trans sync_step_no_earlier)+

end
