(* ===== verification/SyncDemo.thy ===== *)
theory SyncDemo
  imports TennisProperties BookProperties SyncRuns
begin

text \<open>
  A concrete universe, policy and session on which the hypotheses of the synchronizer's properties
  hold: one match with two markets, the live score and the order book of the component examples.  Digests
  are kept symbolic.
\<close>

subsection \<open>A concrete universe\<close>

text \<open>The digest of a value, kept symbolic: no proof below needs its bytes.\<close>

definition the_digest :: "string result \<Rightarrow> string" where
  "the_digest r = (case r of Inr d \<Rightarrow> d | Inl _ \<Rightarrow> [])"

definition demo_artifact_sha :: string where
  "demo_artifact_sha = replicate 64 (CHR ''c'')"

definition demo_binding :: MatchBinding where
  "demo_binding =
     \<lparr>mb_provider_match_id = ''match-1'', mb_canonical_match_id = ''m-1'', mb_provider_source_id = ''src-1'',
      mb_revision_domain_id = ''dom-1'', mb_source_lineage_sha256 = example_key_digest,
      mb_provider_home_player_id = ''p1'', mb_provider_away_player_id = ''p2'',
      mb_kalshi_event_ticker = ''KXATP'', mb_home_market_ticker = ''KXATP-1'', mb_away_market_ticker = ''KXATP-2'',
      mb_match_format = STANDARD_ADVANTAGE_BO3_TB7_ALL_SETS, mb_scheduled_start_wall_ns = 1000,
      mb_start_tolerance_ns = 5, mb_artifact_created_wall_ns = 400, mb_binding_artifact_sha256 = demo_artifact_sha\<rparr>"

definition demo_settlement_fields :: SettlementSemantics where
  "demo_settlement_fields =
     \<lparr>ss_result_authority = ''kalshi_finalized_market_result'',
      ss_natural_completion = ''yes_if_named_player_final_winner'',
      ss_retirement_after_point = ''yes_if_named_player_final_winner'', ss_walkover_before_point = ''void'',
      ss_default_after_point = ''void'', ss_disqualification_after_point = ''void'', ss_cancellation = ''void'',
      ss_postponement = ''defer'', ss_abandonment = ''void'', ss_amendment = ''await_latest_finalized_result'',
      ss_void_treatment = ''no_directional_settlement'', ss_raw_rules_sha256 = demo_artifact_sha,
      ss_projection_sha256 = demo_artifact_sha\<rparr>"

definition demo_settlement :: SettlementSemantics where
  "demo_settlement = demo_settlement_fields
     \<lparr>ss_projection_sha256 := the_digest (compute_settlement_projection_sha256 demo_settlement_fields)\<rparr>"

definition demo_market_fields :: "PlayerSide \<Rightarrow> string \<Rightarrow> string \<Rightarrow> string \<Rightarrow> BindingMarketMetadata" where
  "demo_market_fields side suffix player canonical =
     \<lparr>bmm_series_ticker = ''KX'', bmm_event_ticker = ''KXATP'', bmm_event_id = ''event-1'',
      bmm_market_ticker = ''KXATP-'' @ suffix, bmm_market_id = ''market-'' @ suffix, bmm_yes_player_side = side,
      bmm_yes_provider_player_id = player, bmm_yes_canonical_player_id = canonical,
      bmm_product = ''match_winner'', bmm_event_catalog_sha256 = demo_artifact_sha,
      bmm_membership_source_id = ''catalog'', bmm_membership_source_version = ''v1'',
      bmm_membership_captured_wall_ns = 300, bmm_membership_evidence_sha256 = demo_artifact_sha,
      bmm_membership_projection_sha256 = demo_artifact_sha, bmm_market_text_sha256 = demo_artifact_sha,
      bmm_settlement_rule_text_sha256 = demo_artifact_sha, bmm_settlement = demo_settlement\<rparr>"

definition demo_market :: "PlayerSide \<Rightarrow> string \<Rightarrow> string \<Rightarrow> string \<Rightarrow> BindingMarketMetadata" where
  "demo_market side suffix player canonical =
     (let m = demo_market_fields side suffix player canonical
      in m\<lparr>bmm_membership_projection_sha256 := the_digest (compute_membership_projection_sha256 m)\<rparr>)"

definition demo_metadata :: BindingMetadata where
  "demo_metadata =
     (let home = demo_market HOME ''1'' ''p1'' ''c1''; away = demo_market AWAY ''2'' ''p2'' ''c2'' in
     \<lparr>bm_canonical_match_id = ''m-1'', bm_canonical_home_player_id = ''c1'', bm_canonical_away_player_id = ''c2'',
      bm_tournament_id = ''t'', bm_season_id = ''s'', bm_draw_id = ''d'', bm_round_id = ''r'', bm_tour_id = ''atp'',
      bm_tier_id = ''250'', bm_surface = ''clay'', bm_provider_snapshot_sha256 = demo_artifact_sha,
      bm_kalshi_event_sha256 = demo_artifact_sha, bm_markets = [home, away],
      bm_authorized_routes = [yes_route HOME home, yes_route AWAY away]\<rparr>)"

definition demo_pin :: ArtifactPin where
  "demo_pin = \<lparr>ap_artifact_id = ''bindings-1'', ap_artifact_sha256 = demo_artifact_sha\<rparr>"

definition demo_review_fields :: BindingReviewDecision where
  "demo_review_fields =
     \<lparr>rv_review_artifact_id = ''review-1'', rv_review_artifact_sha256 = demo_artifact_sha,
      rv_review_artifact_created_wall_ns = 600, rv_binding_artifact_id = ''bindings-1'',
      rv_binding_artifact_sha256 = demo_artifact_sha, rv_decision = ''approved'', rv_reviewer_id = ''reviewer'',
      rv_reviewed_wall_ns = 500, rv_review_evidence_sha256 =
        the_digest (compute_binding_review_evidence_sha256 demo_pin [demo_binding] [demo_metadata])\<rparr>"

definition demo_review :: BindingReviewDecision where
  "demo_review = demo_review_fields
     \<lparr>rv_review_artifact_sha256 := the_digest (compute_binding_review_artifact_sha256 demo_review_fields)\<rparr>"

definition demo_universe :: BindingUniverse where
  "demo_universe =
     \<lparr>bu_raw_artifact_id = ''bindings-1'', bu_raw_artifact_sha256 = demo_artifact_sha, bu_review = demo_review,
      bu_bindings = [demo_binding], bu_metadata = [demo_metadata],
      bu_universe_sha256 =
        the_digest (compute_binding_universe_sha256 demo_pin demo_review [demo_binding] [demo_metadata])\<rparr>"

definition demo_policy :: SyncPolicy where
  "demo_policy =
     \<lparr>pol_universe_sha256 = bu_universe_sha256 demo_universe, pol_max_score_age_ns = 10000,
      pol_max_book_age_ns = 10000, pol_max_lifecycle_age_ns = 10000, pol_max_score_book_skew_ns = 10000,
      pol_max_clock_uncertainty_ns = 100, pol_large_book_move_threshold = 1 / 10,
      pol_explanation_window_ns = 1000, pol_minimum_close_horizon_ns = 100\<rparr>"

subsection \<open>It is valid\<close>

lemma the_digest_Inr [simp]: "the_digest (Inr d) = d"
  by (simp add: the_digest_def)

lemma checked_pass: "v = None \<Longrightarrow> checked v r = r"
  by simp

lemma the_digest_of_contract: "encodable v \<Longrightarrow> expert_contract_sha256 v = Inr (the_digest (expert_contract_sha256 v))"
  using contract_digest_defined[of v] by auto

lemma the_digest_of_domain: "encodable v \<Longrightarrow> domain_sha256 p v = Inr (the_digest (domain_sha256 p v))"
  using domain_digest_defined[of p v] by auto

lemma demo_texts [simp]:
  "sha256_ok demo_artifact_sha" "safe_id_ok ''m-1''" "ticker_ok ''KXATP-1''" "ticker_ok ''KXATP-2''"
  "ticker_ok ''KXATP''" "ticker_ok ''KX''" "safe_id_ok ''bindings-1''" "safe_id_ok ''event-1''" "safe_id_ok ''market-1''"
  "safe_id_ok ''market-2''" "safe_id_ok ''catalog''" "safe_id_ok ''v1''" "safe_id_ok ''review-1''" "safe_id_ok ''reviewer''"
  "safe_id_ok ''approved''" "safe_id_ok ''c1''" "safe_id_ok ''c2''" "safe_id_ok ''t''" "safe_id_ok ''s''" "safe_id_ok ''d''"
  "safe_id_ok ''r''" "safe_id_ok ''atp''" "safe_id_ok ''250''" "sha256_ok example_digest"
  by code_simp+

declare example_texts [simp]

lemma demo_binding_valid: "match_binding_post_init demo_binding = None"
  by (simp add: match_binding_post_init_def demo_binding_def supported_match_formats_def)

lemma demo_settlement_values: "validate_settlement_values demo_settlement_fields = None"
  "validate_settlement_values demo_settlement = None"
  by (simp_all add: validate_settlement_values_def demo_settlement_def demo_settlement_fields_def
      one_of_strings_def settlement_binary_choices_def settlement_abandonment_choices_def)

lemma demo_binding_encodable: "encodable (match_binding_pyval demo_binding)"
  by (simp add: match_binding_pyval_def demo_binding_def match_format_pyval_def del: encodable.simps(1))

lemma demo_settlement_valid: "settlement_semantics_post_init demo_settlement = None"
proof -
  let ?v = "VTuple
     [VStr (ss_result_authority demo_settlement_fields), VStr (ss_natural_completion demo_settlement_fields),
      VStr (ss_retirement_after_point demo_settlement_fields), VStr (ss_walkover_before_point demo_settlement_fields),
      VStr (ss_default_after_point demo_settlement_fields),
      VStr (ss_disqualification_after_point demo_settlement_fields),
      VStr (ss_cancellation demo_settlement_fields), VStr (ss_postponement demo_settlement_fields),
      VStr (ss_abandonment demo_settlement_fields), VStr (ss_amendment demo_settlement_fields),
      VStr (ss_void_treatment demo_settlement_fields), VStr (ss_raw_rules_sha256 demo_settlement_fields)]"
  have "compute_settlement_projection_sha256 demo_settlement_fields =
      domain_sha256 (''INCI-BINDING-SETTLEMENT-PROJECTION-SHA256-V1'' @ nul) ?v"
    by (simp add: compute_settlement_projection_sha256_def demo_settlement_values)
  moreover have "compute_settlement_projection_sha256 demo_settlement =
      compute_settlement_projection_sha256 demo_settlement_fields"
    by (simp add: compute_settlement_projection_sha256_def demo_settlement_values) (simp add: demo_settlement_def)
  moreover have "encodable ?v" by simp
  ultimately obtain d where d: "compute_settlement_projection_sha256 demo_settlement_fields = Inr d"
      "compute_settlement_projection_sha256 demo_settlement = Inr d" "sha256_ok d"
    using domain_digest_defined[of _ ?v] domain_digest_ok by metis
  then have "ss_projection_sha256 demo_settlement = d"
    by (simp add: demo_settlement_def)
  then show ?thesis using d by (simp add: settlement_semantics_post_init_def demo_settlement_values)
qed

lemma demo_market_digest:
  assumes "ticker_ok (''KXATP-'' @ suffix)" "safe_id_ok (''market-'' @ suffix)"
  obtains d where "compute_membership_projection_sha256 (demo_market side suffix p c) = Inr d" "sha256_ok d"
    "bmm_membership_projection_sha256 (demo_market side suffix p c) = d"
proof -
  let ?m = "demo_market_fields side suffix p c"
  have m: "compute_membership_projection_sha256 (?m\<lparr>bmm_membership_projection_sha256 := x\<rparr>) =
      compute_membership_projection_sha256 ?m" for x
    by (simp add: compute_membership_projection_sha256_def)
  have "\<exists>d. compute_membership_projection_sha256 ?m = Inr d"
    using assms
    by (simp add: compute_membership_projection_sha256_def demo_market_fields_def domain_digest_defined
        one_of_strings_def checked_pass del: encodable.simps(1))
  then obtain d where d: "compute_membership_projection_sha256 ?m = Inr d" ..
  then have "sha256_ok d"
    by (auto simp: compute_membership_projection_sha256_def checked_eq_Inr dest: domain_digest_ok)
  then show thesis using that[of d] d by (simp add: demo_market_def Let_def m)
qed

lemma demo_market_valid:
  assumes "ticker_ok (''KXATP-'' @ suffix)" "safe_id_ok (''market-'' @ suffix)" "safe_id_ok p" "safe_id_ok c"
  shows "binding_market_metadata_post_init (demo_market side suffix p c) = None"
proof -
  from demo_market_digest[OF assms(1,2)] obtain d where
    "compute_membership_projection_sha256 (demo_market side suffix p c) = Inr d" "sha256_ok d"
    "bmm_membership_projection_sha256 (demo_market side suffix p c) = d" .
  then show ?thesis
    using assms unfolding binding_market_metadata_post_init_def
    by simp (simp add: demo_market_def Let_def demo_market_fields_def one_of_strings_def demo_settlement_def
        demo_settlement_fields_def)
qed

lemma demo_market_fields_simps [simp]:
  "bmm_market_ticker (demo_market side suffix p c) = ''KXATP-'' @ suffix"
  "bmm_market_id (demo_market side suffix p c) = ''market-'' @ suffix"
  "bmm_event_ticker (demo_market side suffix p c) = ''KXATP''"
  "bmm_event_id (demo_market side suffix p c) = ''event-1''"
  "bmm_yes_player_side (demo_market side suffix p c) = side"
  "bmm_yes_provider_player_id (demo_market side suffix p c) = p"
  "bmm_yes_canonical_player_id (demo_market side suffix p c) = c"
  "bmm_series_ticker (demo_market side suffix p c) = ''KX''"
  "bmm_event_catalog_sha256 (demo_market side suffix p c) = demo_artifact_sha"
  "bmm_membership_captured_wall_ns (demo_market side suffix p c) = 300"
  by (simp_all add: demo_market_def Let_def demo_market_fields_def)

lemma demo_market_encodable: "encodable (binding_market_metadata_pyval (demo_market side suffix p c))"
  by (simp add: binding_market_metadata_pyval_def settlement_semantics_pyval_def player_side_pyval_def
      demo_market_def demo_market_fields_def Let_def del: encodable.simps(1))

lemma demo_metadata_valid: "binding_metadata_post_init demo_metadata = None"
  by (simp add: binding_metadata_post_init_def demo_metadata_def Let_def one_of_strings_def markets_agree_def
      binding_route_post_init_def yes_route_def)

lemma demo_metadata_encodable: "encodable (binding_metadata_pyval demo_metadata)"
  by (simp add: binding_metadata_pyval_def demo_metadata_def Let_def demo_market_encodable
      binding_route_pyval_def yes_route_def player_side_pyval_def contract_side_pyval_def)

lemma demo_review_encodable: "encodable (binding_review_decision_pyval demo_review)"
  by (simp add: binding_review_decision_pyval_def demo_review_def demo_review_fields_def
      del: encodable.simps(1))

lemma demo_review_simps:
  "rv_binding_artifact_id demo_review = ''bindings-1''" "rv_binding_artifact_sha256 demo_review = demo_artifact_sha"
  "rv_reviewed_wall_ns demo_review = 500" "rv_review_artifact_created_wall_ns demo_review = 600"
  "rv_review_evidence_sha256 demo_review =
     the_digest (compute_binding_review_evidence_sha256 demo_pin [demo_binding] [demo_metadata])"
  by (simp_all add: demo_review_def demo_review_fields_def)

lemma demo_evidence_digest:
  obtains d where "compute_binding_review_evidence_sha256 demo_pin [demo_binding] [demo_metadata] = Inr d"
    "sha256_ok d"
proof -
  have "\<exists>d. compute_binding_review_evidence_sha256 demo_pin [demo_binding] [demo_metadata] = Inr d"
    by (simp add: compute_binding_review_evidence_sha256_def domain_digest_defined artifact_pin_pyval_def
        demo_binding_encodable demo_metadata_encodable)
  then show thesis using that by (auto simp: compute_binding_review_evidence_sha256_def dest: domain_digest_ok)
qed

lemma demo_review_valid: "binding_review_decision_post_init demo_review = None"
proof -
  from demo_evidence_digest obtain d where d:
    "compute_binding_review_evidence_sha256 demo_pin [demo_binding] [demo_metadata] = Inr d" "sha256_ok d" .
  have "canonical_binding_review_artifact_bytes (demo_review_fields\<lparr>rv_review_artifact_sha256 := x\<rparr>) =
      canonical_binding_review_artifact_bytes demo_review_fields" for x
    by (simp add: canonical_binding_review_artifact_bytes_def)
  then have same: "compute_binding_review_artifact_sha256 demo_review =
      compute_binding_review_artifact_sha256 demo_review_fields"
    by (simp add: compute_binding_review_artifact_sha256_def demo_review_def)
  have "\<exists>bs. canonical_binding_review_artifact_bytes demo_review_fields = Inr bs"
    using d by (simp add: canonical_binding_review_artifact_bytes_def demo_review_fields_def checked_pass)
  then obtain bs where "compute_binding_review_artifact_sha256 demo_review_fields = Inr (hexdigest (sha256 bs))"
    by (auto simp: compute_binding_review_artifact_sha256_def)
  then show ?thesis
    unfolding binding_review_decision_post_init_def same
    using d by (simp add: demo_review_def) (simp add: demo_review_fields_def one_of_strings_def d)
qed

lemma demo_universe_digest:
  obtains d where "universe_digest demo_universe = Inr d" "sha256_ok d" "bu_universe_sha256 demo_universe = d"
proof -
  have "\<exists>d. compute_binding_universe_sha256 demo_pin demo_review [demo_binding] [demo_metadata] = Inr d"
    by (simp add: compute_binding_universe_sha256_def domain_digest_defined
        demo_binding_encodable demo_metadata_encodable demo_review_encodable)
  then obtain d where d: "compute_binding_universe_sha256 demo_pin demo_review [demo_binding] [demo_metadata] = Inr d" ..
  moreover have "sha256_ok d" using d by (auto simp: compute_binding_universe_sha256_def dest: domain_digest_ok)
  moreover have "universe_pin demo_universe = demo_pin" "artifact_pin_post_init demo_pin = None"
    by (simp_all add: universe_pin_def demo_universe_def demo_pin_def artifact_pin_post_init_def)
  ultimately show thesis
    using that[of d] by (simp add: universe_digest_def) (simp add: demo_universe_def)
qed

lemma demo_universe_simps [simp]:
  "bu_bindings demo_universe = [demo_binding]" "bu_metadata demo_universe = [demo_metadata]"
  "universe_pairs demo_universe = [(demo_binding, demo_metadata)]"
  by (simp_all add: demo_universe_def universe_pairs_def)

lemma demo_universe_valid: "binding_universe_post_init demo_universe = None"
proof -
  from demo_universe_digest obtain d where d: "universe_digest demo_universe = Inr d" "sha256_ok d"
    "bu_universe_sha256 demo_universe = d" .
  from demo_evidence_digest obtain e where e:
    "compute_binding_review_evidence_sha256 demo_pin [demo_binding] [demo_metadata] = Inr e" "sha256_ok e" .
  have pin: "universe_pin demo_universe = demo_pin" "artifact_pin_post_init demo_pin = None"
    by (simp_all add: universe_pin_def demo_universe_def demo_pin_def artifact_pin_post_init_def)
  have review: "bu_review demo_universe = demo_review" "bu_raw_artifact_id demo_universe = ''bindings-1''"
    "bu_raw_artifact_sha256 demo_universe = demo_artifact_sha"
    by (simp_all add: demo_universe_def)
  have loop: "universe_loop demo_universe None nothing_seen (universe_pairs demo_universe) = None"
    by (simp add: review) (simp add: demo_binding_def demo_metadata_def Let_def binding_projected_def
        new_identities_def nothing_seen_def review_times_ok_def demo_review_simps review)
  have players: "validate_player_bijection (player_occurrences demo_binding demo_metadata) = None"
    by (simp add: validate_player_bijection_def player_occurrences_def demo_binding_def demo_metadata_def Let_def)
  show ?thesis
    unfolding binding_universe_post_init_def
    using d e loop players by (simp add: pin review demo_review_simps)
qed

subsection \<open>A concrete session\<close>

text \<open>A live match, an open book for its home market, none for the away market.\<close>

definition demo_fingerprint :: string where
  "demo_fingerprint = the_digest (synchronization_emission_fingerprint (bu_universe_sha256 demo_universe)
     (the_digest (expert_contract_sha256 (sync_policy_pyval demo_policy))) demo_binding demo_metadata
     example_live example_book)"

definition demo_emission :: LastSyncEmission where
  \<comment> \<open>an earlier publication, at the point before the last\<close>
  "demo_emission =
     \<lparr>em_fingerprint_sha256 = (if demo_fingerprint = example_digest then demo_artifact_sha else example_digest),
      em_provider_correction_epoch = 0, em_provider_revision = 69,
      em_provider_event_semantic_sha256 = example_digest, em_book_connection_epoch = 2, em_book_sequence = 9\<rparr>"

definition demo_pending :: PendingBookMove where
  "demo_pending =
     \<lparr>pm_canonical_match_id = ''m-1'', pm_ticker = ''KXATP-1'', pm_first_move_monotonic_ns = 150,
      pm_last_move_monotonic_ns = 150, pm_first_connection_epoch = 2, pm_first_sequence = 8,
      pm_first_event_sha256 = example_digest, pm_last_connection_epoch = 2, pm_last_sequence = 8,
      pm_last_event_sha256 = example_digest, pm_move_count = 1, pm_max_magnitude = 1 / 4,
      pm_tennis_correction_epoch_floor = Some 0, pm_book_connection_epoch_floor = 2\<rparr>"

definition demo_binding_sha :: string where
  "demo_binding_sha = the_digest (expert_contract_sha256 (match_binding_pyval demo_binding))"

definition demo_metadata_sha :: string where
  "demo_metadata_sha = the_digest (expert_contract_sha256 (binding_metadata_pyval demo_metadata))"

definition demo_tennis_cursor :: TennisSyncCursor where
  "demo_tennis_cursor =
     \<lparr>tc_canonical_match_id = ''m-1'', tc_binding_sha256 = demo_binding_sha,
      tc_binding_metadata_sha256 = demo_metadata_sha, tc_tennis = Some example_live,
      tc_last_state_sha256 = Some (the_digest (expert_contract_sha256 (tennis_state_pyval example_live))),
      tc_last_input_sha256 = Some example_digest, tc_last_point_witness = None\<rparr>"

definition demo_home_cursor :: "PendingBookMove option \<Rightarrow> LastSyncEmission option \<Rightarrow> BookSyncCursor" where
  "demo_home_cursor pending emission =
     \<lparr>bc_canonical_match_id = ''m-1'', bc_ticker = ''KXATP-1'', bc_binding_sha256 = demo_binding_sha,
      bc_binding_metadata_sha256 = demo_metadata_sha, bc_book = Some example_book,
      bc_last_state_sha256 = Some (the_digest (expert_contract_sha256 (book_state_pyval example_book))),
      bc_last_input_sha256 = Some example_digest, bc_pending_move = pending,
      bc_causal_point_witness = None, bc_consumed_point_witness = None, bc_last_emission = emission\<rparr>"

definition demo_away_cursor :: BookSyncCursor where
  "demo_away_cursor =
     \<lparr>bc_canonical_match_id = ''m-1'', bc_ticker = ''KXATP-2'', bc_binding_sha256 = demo_binding_sha,
      bc_binding_metadata_sha256 = demo_metadata_sha, bc_book = None, bc_last_state_sha256 = None,
      bc_last_input_sha256 = None, bc_pending_move = None, bc_causal_point_witness = None,
      bc_consumed_point_witness = None, bc_last_emission = None\<rparr>"

definition demo_time :: PairedTimeObservation where
  "demo_time = \<lparr>obs_wall_ns = 1900, obs_monotonic_ns = 950, obs_clock_uncertainty_ns = 10\<rparr>"

definition demo_now :: PairedTimeObservation where
  "demo_now = \<lparr>obs_wall_ns = 2000, obs_monotonic_ns = 1000, obs_clock_uncertainty_ns = 10\<rparr>"

definition demo_session :: "PendingBookMove option \<Rightarrow> LastSyncEmission option \<Rightarrow> SynchronizationSessionState" where
  "demo_session pending emission =
     \<lparr>st_universe = demo_universe, st_policy = demo_policy,
      st_universe_sha256 = bu_universe_sha256 demo_universe,
      st_sync_policy_sha256 = the_digest (expert_contract_sha256 (sync_policy_pyval demo_policy)),
      st_decision_sequence = (if emission = None then 0 else 4), st_last_observation = Some demo_time,
      st_tennis_cursors = [demo_tennis_cursor],
      st_book_cursors = [demo_home_cursor pending emission, demo_away_cursor]\<rparr>"

lemma demo_session_simps [simp]:
  "st_universe (demo_session p e) = demo_universe" "st_policy (demo_session p e) = demo_policy"
  "st_universe_sha256 (demo_session p e) = bu_universe_sha256 demo_universe"
  "st_sync_policy_sha256 (demo_session p e) = the_digest (expert_contract_sha256 (sync_policy_pyval demo_policy))"
  "st_decision_sequence (demo_session p e) = (if e = None then 0 else 4)"
  "st_last_observation (demo_session p e) = Some demo_time"
  "st_tennis_cursors (demo_session p e) = [demo_tennis_cursor]"
  "st_book_cursors (demo_session p e) = [demo_home_cursor p e, demo_away_cursor]"
  by (simp_all add: demo_session_def)

lemma demo_policy_valid: "sync_policy_post_init demo_policy = None"
proof -
  from demo_universe_digest obtain d where "sha256_ok d" "bu_universe_sha256 demo_universe = d" .
  then show ?thesis
    by (simp add: sync_policy_post_init_def demo_policy_def probability_ok_def)
qed

lemma demo_decimals: "decimal_encodable (1 / 10)" "decimal_encodable (1 / 4)" "decimal_encodable (11 / 20)"
  "decimal_encodable (1 / 2)" "decimal_encodable (21 / 50)" "decimal_encodable (2 / 5)" "decimal_encodable 0"
  "decimal_encodable 10" "decimal_encodable 40" "decimal_encodable 30" "decimal_encodable 25"
  "decimal_encodable (55 / 100)" "decimal_encodable (42 / 100)"
  by code_simp+

lemma demo_policy_encodable: "encodable (sync_policy_pyval demo_policy)"
  by (simp add: sync_policy_pyval_def demo_policy_def demo_decimals del: encodable.simps(1))

lemma demo_states_encodable:
  "encodable (tennis_state_pyval example_live)" "encodable (book_state_pyval example_book)"
proof -
  show "encodable (tennis_state_pyval example_live)"
    by (simp add: tennis_state_pyval_def example_live_def vopt_def set_score_pyval_def match_status_pyval_def termination_kind_pyval_def score_value_pyval_def
        match_format_pyval_def player_side_pyval_def del: encodable.simps(1))
  show "encodable (book_state_pyval example_book)"
    using demo_decimals by (simp add: book_state_pyval_def example_book_def market_status_pyval_def book_level_pyval_def
        del: encodable.simps(1))
qed

lemma demo_digests:
  "expert_contract_sha256 (match_binding_pyval demo_binding) = Inr demo_binding_sha" "sha256_ok demo_binding_sha"
  "expert_contract_sha256 (binding_metadata_pyval demo_metadata) = Inr demo_metadata_sha" "sha256_ok demo_metadata_sha"
  using the_digest_of_contract[OF demo_binding_encodable] the_digest_of_contract[OF demo_metadata_encodable]
  by (auto simp: demo_binding_sha_def demo_metadata_sha_def intro: expert_contract_sha256_ok)

lemma demo_state_digests:
  "expert_contract_sha256 (tennis_state_pyval example_live) =
     Inr (the_digest (expert_contract_sha256 (tennis_state_pyval example_live)))"
  "expert_contract_sha256 (book_state_pyval example_book) =
     Inr (the_digest (expert_contract_sha256 (book_state_pyval example_book)))"
  "expert_contract_sha256 (sync_policy_pyval demo_policy) =
     Inr (the_digest (expert_contract_sha256 (sync_policy_pyval demo_policy)))"
  by (rule the_digest_of_contract; fact demo_states_encodable demo_policy_encodable)+

lemma demo_state_digests_ok:
  "sha256_ok (the_digest (expert_contract_sha256 (tennis_state_pyval example_live)))"
  "sha256_ok (the_digest (expert_contract_sha256 (book_state_pyval example_book)))"
  "sha256_ok (the_digest (expert_contract_sha256 (sync_policy_pyval demo_policy)))"
  by (rule expert_contract_sha256_ok, rule demo_state_digests)+

text \<open>The pending moves and emissions that fit the demonstration session.\<close>

definition demo_fits :: "PendingBookMove option \<Rightarrow> LastSyncEmission option \<Rightarrow> bool" where
  "demo_fits p e \<longleftrightarrow> (p = None \<or> p = Some demo_pending) \<and> (e = None \<or> e = Some demo_emission)"

lemma demo_pending_valid: "pending_book_move_post_init demo_pending = None"
  by (simp add: pending_book_move_post_init_def demo_pending_def probability_ok_def coord_less_def
      pm_first_def pm_last_def)

lemma demo_emission_valid: "last_sync_emission_post_init demo_emission = None"
  by (simp add: last_sync_emission_post_init_def demo_emission_def)

lemma demo_tennis_cursor_valid: "tennis_cursor_contracts demo_tennis_cursor = None"
proof -
  have "tennis_state_post_init example_live = None"
    using example_live_inv by (simp add: tennis_inv_def tennis_state_ok_def)
  then show ?thesis
    using demo_digests demo_state_digests demo_state_digests_ok
    by (simp add: tennis_cursor_contracts_def tennis_sync_cursor_post_init_def demo_tennis_cursor_def)
qed

lemma demo_book_cursors_valid:
  assumes "demo_fits p e"
  shows "book_cursor_contracts (demo_home_cursor p e) = None" and "book_cursor_contracts demo_away_cursor = None"
proof -
  have b: "book_state_post_init example_book = None"
    using example_book_inv by (rule book_inv_post_init)
  have e: "when_some last_sync_emission_post_init e = None" "when_some pending_book_move_post_init p = None"
    using assms demo_pending_valid demo_emission_valid by (auto simp: demo_fits_def)
  have pos: "bs_position example_book = (2, 10)" "em_book demo_emission = (2, 9)" "pm_last demo_pending = (2, 8)"
    "pm_first demo_pending = (2, 8)" "bs_ticker example_book = ''KXATP-1''" "bs_book_observed_monotonic_ns example_book = 200"
    "pm_last_move_monotonic_ns demo_pending = 150" "pm_canonical_match_id demo_pending = ''m-1''"
    "pm_ticker demo_pending = ''KXATP-1''"
    by (simp_all add: bs_position_def example_book_def em_book_def demo_emission_def pm_last_def pm_first_def demo_pending_def)
  have w: "cursor_witnesses_ok (demo_home_cursor p e)"
    by (simp add: cursor_witnesses_ok_def demo_home_cursor_def)
  have "when_some (\<lambda>q. contract_error (cursor_pending_ok (demo_home_cursor p e) example_book q) ''book_cursor_pending'') p = None"
    "when_some (\<lambda>e. contract_error (\<not> coord_less (bs_position example_book) (em_book e)) ''book_cursor_emission'') e = None"
    using assms by (auto simp: demo_fits_def cursor_pending_ok_def pos coord_less_def demo_home_cursor_def)
  then have "book_sync_cursor_post_init (demo_home_cursor p e) = None"
    using demo_digests demo_state_digests demo_state_digests_ok w
    by (simp add: book_sync_cursor_post_init_def) (simp add: demo_home_cursor_def pos)
  then show "book_cursor_contracts (demo_home_cursor p e) = None"
    using b e by (simp add: book_cursor_contracts_def) (simp add: demo_home_cursor_def)
  show "book_cursor_contracts demo_away_cursor = None"
    using demo_digests by (simp add: book_cursor_contracts_def book_sync_cursor_post_init_def demo_away_cursor_def)
qed

lemma demo_keys:
  "[tc_canonical_match_id demo_tennis_cursor] = expected_tennis demo_universe"
  "[bc_key (demo_home_cursor p e), bc_key demo_away_cursor] = expected_books demo_universe"
proof -
  show "[tc_canonical_match_id demo_tennis_cursor] = expected_tennis demo_universe"
    by (simp add: expected_tennis_def demo_tennis_cursor_def demo_binding_def)
  have "sort [[''m-1'', ''KXATP-1''], [''m-1'', ''KXATP-2'']] = [[''m-1'', ''KXATP-1''], [''m-1'', ''KXATP-2'']]"
    by code_simp
  then show "[bc_key (demo_home_cursor p e), bc_key demo_away_cursor] = expected_books demo_universe"
    by (simp add: expected_books_def book_keys_def demo_binding_def bc_key_def demo_home_cursor_def demo_away_cursor_def)
qed

lemma demo_cursor_bindings:
  "cursor_binding_ok demo_universe ''m-1'' demo_binding_sha demo_metadata_sha = None"
proof -
  have "bindings_by_match demo_universe ''m-1'' = Some (demo_binding, demo_metadata)"
    by (simp add: bindings_by_match_def) (simp add: demo_binding_def)
  then show ?thesis using demo_digests by (simp add: cursor_binding_ok_def)
qed

lemma demo_cursors_in_session:
  assumes "demo_fits p e" "c = demo_home_cursor p e \<or> c = demo_away_cursor"
  shows "book_cursor_in_session (demo_session p e) c = None"
proof -
  have t: "session_tennis_by_match (demo_session p e) ''m-1'' = Some demo_tennis_cursor"
    by (simp add: session_tennis_by_match_def) (simp add: demo_tennis_cursor_def)
  have pos: "tennis_position example_live = (0, 70)" "em_provider demo_emission = (0, 69)" "correction_epoch example_live = 0"
    "pm_tennis_correction_epoch_floor demo_pending = Some 0"
    by (simp_all add: tennis_position_def example_live_def em_provider_def demo_emission_def demo_pending_def)
  have "pending_floor_ok (Some example_live) p" "emission_matches_tennis (Some example_live) e"
    using assms(1) by (auto simp: demo_fits_def pending_floor_ok_def emission_matches_tennis_def pos coord_less_def)
  then show ?thesis
    using assms(2) t demo_cursor_bindings
    by (auto simp: book_cursor_in_session_def demo_home_cursor_def demo_away_cursor_def demo_tennis_cursor_def
        pending_floor_ok_def emission_matches_tennis_def witnesses_match_tennis_def)
qed

lemma demo_session_inv:
  assumes "demo_fits p e"
  shows "session_inv (demo_session p e)"
proof -
  from demo_universe_digest obtain d where d: "universe_digest demo_universe = Inr d" "sha256_ok d"
    "bu_universe_sha256 demo_universe = d" .
  have "session_artifacts_ok (demo_session p e) = None"
    using d demo_universe_valid demo_policy_valid demo_state_digests(3)
    by (simp add: session_artifacts_iff single_source_def demo_policy_def)
  moreover have "session_progress_ok (demo_session p e)"
    by (simp add: session_progress_ok_def) (simp add: demo_home_cursor_def demo_away_cursor_def)
  moreover have "session_contracts (demo_session p e) = None"
    using demo_tennis_cursor_valid demo_book_cursors_valid[OF assms]
    by (simp add: session_contracts_iff paired_time_observation_post_init_def demo_time_def)
  moreover have "tc_binding_sha256 demo_tennis_cursor = demo_binding_sha" "tc_canonical_match_id demo_tennis_cursor = ''m-1''"
    "tc_binding_metadata_sha256 demo_tennis_cursor = demo_metadata_sha"
    by (simp_all add: demo_tennis_cursor_def)
  ultimately have "synchronization_session_state_post_init (demo_session p e) = None"
    using d demo_state_digests_ok(3) demo_keys(1) demo_keys(2)[of p e] demo_cursors_in_session[OF assms] demo_cursor_bindings
    by (simp add: session_post_init_iff)
  moreover have "tc_tennis demo_tennis_cursor = Some example_live" "bc_book (demo_home_cursor p e) = Some example_book"
    "bc_book demo_away_cursor = None" "bc_pending_move (demo_home_cursor p e) = p" "bc_pending_move demo_away_cursor = None"
    by (simp_all add: demo_tennis_cursor_def demo_home_cursor_def demo_away_cursor_def)
  moreover have "p = Some q \<Longrightarrow> decimal_encodable (pm_max_magnitude q)" for q
    using assms demo_decimals(2) by (auto simp: demo_fits_def demo_pending_def)
  ultimately show ?thesis
    using demo_binding_valid example_live_inv example_book_inv by (simp add: session_inv_def)
qed

subsection \<open>A step of the demonstration session\<close>

lemma demo_pair_safe: "pair_safe demo_policy example_live example_book demo_now"
  by (simp add: pair_safe_def demo_policy_def example_live_def example_book_def demo_now_def)

lemma demo_not_blocked: "\<not> binding_blocked example_live demo_binding"
  by (simp add: binding_blocked_def binding_drift_def example_live_def demo_binding_def binding_block_reasons_def)

lemma demo_cursor_fields [simp]:
  "tc_tennis demo_tennis_cursor = Some example_live" "tc_canonical_match_id demo_tennis_cursor = ''m-1''"
  "bc_book (demo_home_cursor p e) = Some example_book" "bc_pending_move (demo_home_cursor p e) = p"
  "bc_last_emission (demo_home_cursor p e) = e" "bc_canonical_match_id (demo_home_cursor p e) = ''m-1''"
  "bc_ticker (demo_home_cursor p e) = ''KXATP-1''" "bc_book demo_away_cursor = None"
  "bc_canonical_match_id demo_away_cursor = ''m-1''" "bc_ticker demo_away_cursor = ''KXATP-2''"
  "mb_canonical_match_id demo_binding = ''m-1''" "mb_home_market_ticker demo_binding = ''KXATP-1''"
  "mb_away_market_ticker demo_binding = ''KXATP-2''"
  by (simp_all add: demo_tennis_cursor_def demo_home_cursor_def demo_away_cursor_def demo_binding_def)

lemma demo_decisions:
  "decision demo_policy demo_binding demo_tennis_cursor (demo_home_cursor None (Some demo_emission)) demo_now =
     SR_TRUSTED_SYNCHRONIZED"
  "decision demo_policy demo_binding demo_tennis_cursor demo_away_cursor demo_now = SR_SNAPSHOT_INCOMPLETE"
proof -
  have "pair_identity example_live example_book \<noteq> emission_identity demo_emission"
    by (simp add: pair_identity_def emission_identity_def example_live_def demo_emission_def)
  then show "decision demo_policy demo_binding demo_tennis_cursor (demo_home_cursor None (Some demo_emission)) demo_now =
     SR_TRUSTED_SYNCHRONIZED"
    using demo_pair_safe demo_not_blocked by (simp add: decision_trusted)
  show "decision demo_policy demo_binding demo_tennis_cursor demo_away_cursor demo_now = SR_SNAPSHOT_INCOMPLETE"
    using demo_not_blocked by (simp add: decision_def)
qed

lemma demo_now_ok: "now_ok demo_now" "\<not> time_regresses (demo_session p e) demo_now"
  by (simp_all add: now_ok_def demo_now_def time_regresses_def demo_time_def)

lemma demo_no_collision:
  assumes "demo_fits p e"
  shows "no_fingerprint_collision (demo_session p e) demo_binding demo_metadata demo_tennis_cursor (demo_home_cursor p e)"
    and "no_fingerprint_collision (demo_session p e) demo_binding demo_metadata demo_tennis_cursor demo_away_cursor"
proof -
  have "demo_artifact_sha \<noteq> example_digest"
    by (simp add: demo_artifact_sha_def example_digest_def)
  then have "Inr (em_fingerprint_sha256 demo_emission) \<noteq> fingerprint (demo_session p e) demo_binding demo_metadata
      example_live example_book"
    by (auto simp: demo_emission_def fingerprint_def demo_fingerprint_def dest: arg_cong[of _ _ the_digest] split: if_splits)
  then show "no_fingerprint_collision (demo_session p e) demo_binding demo_metadata demo_tennis_cursor (demo_home_cursor p e)"
    using assms by (auto simp: no_fingerprint_collision_def demo_fits_def)
  show "no_fingerprint_collision (demo_session p e) demo_binding demo_metadata demo_tennis_cursor demo_away_cursor"
    by (simp add: no_fingerprint_collision_def)
qed

lemma demo_clock_step:
  assumes f: "demo_fits p e"
    and c: "c = demo_home_cursor p e \<and> t = ''KXATP-1'' \<or> c = demo_away_cursor \<and> t = ''KXATP-2''"
  shows "\<exists>x r. synchronize (demo_session p e) (clock_input ''m-1'' t) demo_now = Inr x
     \<and> tx_results x = [r] \<and> res_reason r = decision demo_policy demo_binding demo_tennis_cursor c demo_now
     \<and> session_inv (tx_state x)
     \<and> evaluate (observed (demo_session p e) demo_now) demo_binding demo_metadata t demo_now = Inr (tx_state x, r)"
proof -
  have b: "(demo_binding, demo_metadata) \<in> set (universe_pairs (st_universe (demo_session p e)))"
    "demo_tennis_cursor \<in> set (st_tennis_cursors (demo_session p e))" by simp_all
  have ds: "integer_ok (st_decision_sequence (demo_session p e) + 1)" by simp
  have m: "c \<in> set (st_book_cursors (demo_session p e))" "bc_canonical_match_id c = mb_canonical_match_id demo_binding"
    "bc_ticker c = t" "t \<in> {mb_home_market_ticker demo_binding, mb_away_market_ticker demo_binding}"
    using c by auto
  have "no_fingerprint_collision (demo_session p e) demo_binding demo_metadata demo_tennis_cursor c"
    using c demo_no_collision[OF f] by auto
  from clock_step[OF demo_session_inv[OF f] b(1) demo_now_ok ds b(2) _ m(1-4) this] show ?thesis
    by auto
qed

lemma demo_publishes:
  obtains x r where "synchronize (demo_session None (Some demo_emission)) (clock_input ''m-1'' ''KXATP-1'') demo_now = Inr x"
    "tx_results x = [r]" "is_trusted r" "session_inv (tx_state x)"
  using demo_clock_step[of None "Some demo_emission" _ "''KXATP-1''"] demo_decisions(1)
  by (auto simp: demo_fits_def is_trusted_def)

lemma demo_refuses:
  assumes "demo_fits p e"
  obtains x where "synchronize (demo_session p e) (clock_input ''m-1'' ''KXATP-2'') demo_now = Inr x"
    "book_at (st_book_cursors (tx_state x)) ''m-1'' ''KXATP-1'' = Some (demo_home_cursor p e)"
proof -
  from demo_clock_step[OF assms, of _ "''KXATP-2''"] obtain x r where
    x: "synchronize (demo_session p e) (clock_input ''m-1'' ''KXATP-2'') demo_now = Inr x"
    "evaluate (observed (demo_session p e) demo_now) demo_binding demo_metadata ''KXATP-2'' demo_now = Inr (tx_state x, r)"
    by auto
  have "synchronization_session_state_post_init (observed (demo_session p e) demo_now) = None"
    by (rule session_inv_post_init[OF observed_inv(1)[OF demo_session_inv[OF assms] demo_now_ok(1)]])
  from evaluate_effect(5)[OF this x(2)] show thesis
    using that x(1) by (simp add: book_at_def)
qed

end
