(* ===== verification/SyncOpening.thy ===== *)
theory SyncOpening
  imports SyncRuns
begin

text \<open>
  Opening a session: \<open>synchronization_session_from_artifacts\<close> computed in closed form, and the
  session it builds shown to satisfy the invariant.
\<close>

subsection \<open>Opening a session\<close>

lemma map_insort_key: "map f (insort_key f x xs) = insort (f x) (map f xs)"
  by (induction xs) auto

lemma map_sort_key: "map f (sort_key f xs) = sort (map f xs)"
  by (induction xs) (simp_all add: map_insort_key)

lemma map_result_values: "(\<And>x. x \<in> set xs \<Longrightarrow> f x = Inr (g x)) \<Longrightarrow> map_result f xs = Inr (map g xs)"
  by (induction xs) auto

definition digest_of :: "pyval \<Rightarrow> string" where
  "digest_of v = projr (expert_contract_sha256 v)"

lemma digest_of_ok: "encodable v \<Longrightarrow> expert_contract_sha256 v = Inr (digest_of v) \<and> sha256_ok (digest_of v)"
  using contract_digest_defined[of v] expert_contract_sha256_ok[of v] by (auto simp: digest_of_def)

definition fresh_tennis :: "MatchBinding \<times> BindingMetadata \<Rightarrow> TennisSyncCursor" where
  "fresh_tennis p =
     \<lparr>tc_canonical_match_id = mb_canonical_match_id (fst p),
      tc_binding_sha256 = digest_of (match_binding_pyval (fst p)),
      tc_binding_metadata_sha256 = digest_of (binding_metadata_pyval (snd p)),
      tc_tennis = None, tc_last_state_sha256 = None, tc_last_input_sha256 = None, tc_last_point_witness = None\<rparr>"

definition fresh_book :: "MatchBinding \<times> BindingMetadata \<Rightarrow> string \<Rightarrow> BookSyncCursor" where
  "fresh_book p t =
     \<lparr>bc_canonical_match_id = mb_canonical_match_id (fst p), bc_ticker = t,
      bc_binding_sha256 = digest_of (match_binding_pyval (fst p)),
      bc_binding_metadata_sha256 = digest_of (binding_metadata_pyval (snd p)),
      bc_book = None, bc_last_state_sha256 = None, bc_last_input_sha256 = None, bc_pending_move = None,
      bc_causal_point_witness = None, bc_consumed_point_witness = None, bc_last_emission = None\<rparr>"

definition fresh_session :: "BindingUniverse \<Rightarrow> SyncPolicy \<Rightarrow> SynchronizationSessionState" where
  "fresh_session u p =
     \<lparr>st_universe = u, st_policy = p, st_universe_sha256 = bu_universe_sha256 u,
      st_sync_policy_sha256 = digest_of (sync_policy_pyval p), st_decision_sequence = 0, st_last_observation = None,
      st_tennis_cursors = map fresh_tennis (sort_key (\<lambda>(b, item). mb_canonical_match_id b) (universe_pairs u)),
      st_book_cursors = sort_key bc_key (concat (map (\<lambda>q.
         [fresh_book q (mb_home_market_ticker (fst q)), fresh_book q (mb_away_market_ticker (fst q))]) (universe_pairs u)))\<rparr>"

definition universe_ok :: "BindingUniverse \<Rightarrow> bool" where
  "universe_ok u \<longleftrightarrow> binding_universe_post_init u = None
     \<and> (\<forall>b \<in> set (bu_bindings u). match_binding_post_init b = None)"

lemma universe_pair_facts:
  assumes "universe_ok u" "q \<in> set (universe_pairs u)"
  shows "encodable (match_binding_pyval (fst q))" "encodable (binding_metadata_pyval (snd q))"
    and "safe_id_ok (mb_canonical_match_id (fst q))" "ticker_ok (mb_home_market_ticker (fst q))"
      "ticker_ok (mb_away_market_ticker (fst q))"
    and "bindings_by_match u (mb_canonical_match_id (fst q)) = Some q"
proof -
  have u: "binding_universe_post_init u = None" using assms(1) by (simp add: universe_ok_def)
  have d: "universe_digest u = Inr (bu_universe_sha256 u)" using u by (simp add: binding_universe_post_init_def)
  have q: "(fst q, snd q) \<in> set (universe_pairs u)" using assms(2) by simp
  note b = pairs_in_universe[OF u q]
  show "encodable (match_binding_pyval (fst q))" "encodable (binding_metadata_pyval (snd q))"
    using universe_digest_encodable[OF d] b by blast+
  show "safe_id_ok (mb_canonical_match_id (fst q))" "ticker_ok (mb_home_market_ticker (fst q))"
    "ticker_ok (mb_away_market_ticker (fst q))"
    using assms(1) b(1) by (auto simp: universe_ok_def match_binding_post_init_def)
  have "distinct (map (\<lambda>p. mb_canonical_match_id (fst p)) (universe_pairs u))"
    using universe_loop_sorted[OF universe_loop_of_post_init[OF u]] by (simp add: case_prod_unfold)
  from map_of_rev_unique[OF this assms(2)]
  show "bindings_by_match u (mb_canonical_match_id (fst q)) = Some q"
    by (simp add: bindings_by_match_def case_prod_unfold)
qed

lemma fresh_cursors_valid:
  assumes "universe_ok u" "q \<in> set (universe_pairs u)"
  shows "tennis_cursor_contracts (fresh_tennis q) = None"
    and "t \<in> {mb_home_market_ticker (fst q), mb_away_market_ticker (fst q)} \<Longrightarrow>
      book_cursor_contracts (fresh_book q t) = None"
    and "cursor_binding_ok u (mb_canonical_match_id (fst q)) (digest_of (match_binding_pyval (fst q)))
      (digest_of (binding_metadata_pyval (snd q))) = None"
proof -
  note f = universe_pair_facts[OF assms(1,2)] and d = digest_of_ok[OF f(1)] digest_of_ok[OF f(2)]
  show "tennis_cursor_contracts (fresh_tennis q) = None"
    using f(3) d by (simp add: tennis_cursor_contracts_def tennis_sync_cursor_post_init_def fresh_tennis_def)
  show "book_cursor_contracts (fresh_book q t) = None"
    if "t \<in> {mb_home_market_ticker (fst q), mb_away_market_ticker (fst q)}"
    using f(3,4,5) d that by (auto simp: book_cursor_contracts_def book_sync_cursor_post_init_def fresh_book_def)
  show "cursor_binding_ok u (mb_canonical_match_id (fst q)) (digest_of (match_binding_pyval (fst q)))
      (digest_of (binding_metadata_pyval (snd q))) = None"
    using f(6) d by (cases q) (simp add: cursor_binding_ok_def)
qed

lemma fresh_keys:
  assumes u: "binding_universe_post_init u = None"
  shows "map tc_canonical_match_id (st_tennis_cursors (fresh_session u p)) = expected_tennis u"
    and "map bc_key (st_book_cursors (fresh_session u p)) = expected_books u"
proof -
  have d: "distinct (map (\<lambda>p. mb_canonical_match_id (fst p)) (universe_pairs u))"
    using universe_loop_sorted[OF universe_loop_of_post_init[OF u]] by (simp add: case_prod_unfold)
  have "map (\<lambda>p. mb_canonical_match_id (fst p)) (sort_key (\<lambda>p. mb_canonical_match_id (fst p)) (universe_pairs u)) =
      sort (map (\<lambda>p. mb_canonical_match_id (fst p)) (universe_pairs u))"
    by (rule map_sort_key)
  then show "map tc_canonical_match_id (st_tennis_cursors (fresh_session u p)) = expected_tennis u"
    unfolding expected_tennis_def case_prod_unfold distinct_remdups_id[OF d]
    by (simp add: fresh_session_def fresh_tennis_def comp_def case_prod_unfold)
  have "map bc_key (concat (map (\<lambda>q. [fresh_book q (mb_home_market_ticker (fst q)), fresh_book q (mb_away_market_ticker (fst q))])
      (universe_pairs u))) = concat (map (\<lambda>b. [[mb_canonical_match_id b, mb_home_market_ticker b],
        [mb_canonical_match_id b, mb_away_market_ticker b]]) (map fst (universe_pairs u)))"
    by (simp add: map_concat comp_def fresh_book_def bc_key_def)
  then show "map bc_key (st_book_cursors (fresh_session u p)) = expected_books u"
    unfolding universe_bindings_fst[OF u]
    by (simp add: fresh_session_def expected_books_def book_keys_def map_sort_key)
qed

definition can_open :: "BindingUniverse \<Rightarrow> SyncPolicy \<Rightarrow> bool" where
  "can_open u p \<longleftrightarrow> sync_policy_post_init p = None \<and> encodable (sync_policy_pyval p)
     \<and> pol_universe_sha256 p = bu_universe_sha256 u \<and> single_source u"

lemma fresh_session_valid:
  assumes u: "universe_ok u" and o: "can_open u p"
  shows "session_inv (fresh_session u p)"
proof -
  let ?st = "fresh_session u p"
  have ui: "binding_universe_post_init u = None" using u by (simp add: universe_ok_def)
  have d: "universe_digest u = Inr (bu_universe_sha256 u)" "sha256_ok (bu_universe_sha256 u)"
    using ui by (simp_all add: binding_universe_post_init_def)
  have fields: "st_universe ?st = u" "st_policy ?st = p" "st_universe_sha256 ?st = bu_universe_sha256 u"
    "st_sync_policy_sha256 ?st = digest_of (sync_policy_pyval p)" "st_decision_sequence ?st = 0" "st_last_observation ?st = None"
    by (simp_all add: fresh_session_def)
  have tcs: "\<exists>q \<in> set (universe_pairs u). c = fresh_tennis q" if "c \<in> set (st_tennis_cursors ?st)" for c
    using that by (auto simp: fresh_session_def)
  have bcs: "\<exists>q \<in> set (universe_pairs u). \<exists>t \<in> {mb_home_market_ticker (fst q), mb_away_market_ticker (fst q)}. c = fresh_book q t"
    if "c \<in> set (st_book_cursors ?st)" for c
    using that by (force simp: fresh_session_def)
  have art: "session_artifacts_ok ?st = None"
    using o d ui digest_of_ok by (simp add: session_artifacts_iff fields can_open_def)
  have prog: "session_progress_ok ?st"
    using tcs bcs by (fastforce simp: session_progress_ok_def fields list_ex_iff fresh_tennis_def fresh_book_def)
  have con: "session_contracts ?st = None"
    using tcs bcs fresh_cursors_valid[OF u] by (fastforce simp: session_contracts_iff fields)
  have bind: "cursor_binding_ok u (tc_canonical_match_id c) (tc_binding_sha256 c) (tc_binding_metadata_sha256 c) = None"
    if c: "c \<in> set (st_tennis_cursors ?st)" for c
  proof -
    obtain q where "q \<in> set (universe_pairs u)" "c = fresh_tennis q" using tcs[OF c] by blast
    then show ?thesis using fresh_cursors_valid(3)[OF u] by (simp add: fresh_tennis_def)
  qed
  have dist: "distinct (map tc_canonical_match_id (st_tennis_cursors ?st))"
    using fresh_keys(1)[OF ui] by (simp add: expected_tennis_def)
  have books: "book_cursor_in_session ?st c = None" if c: "c \<in> set (st_book_cursors ?st)" for c
  proof -
    obtain q t where q: "q \<in> set (universe_pairs u)" "c = fresh_book q t" using bcs[OF c] by blast
    have "fresh_tennis q \<in> set (st_tennis_cursors ?st)" using q(1) by (simp add: fresh_session_def)
    from map_of_rev_unique[OF dist this]
    have "session_tennis_by_match ?st (mb_canonical_match_id (fst q)) = Some (fresh_tennis q)"
      by (simp add: session_tennis_by_match_def) (simp add: fresh_tennis_def)
    then show ?thesis
      using fresh_cursors_valid(3)[OF u q(1)] q(2)
      by (simp add: book_cursor_in_session_def fields fresh_book_def fresh_tennis_def pending_floor_ok_def
          witnesses_match_tennis_def emission_matches_tennis_def)
  qed
  have "synchronization_session_state_post_init ?st = None"
    using d art prog con fresh_keys[OF ui] bind books digest_of_ok o
    by (simp add: session_post_init_iff fields can_open_def)
  then show ?thesis
    using u tcs bcs by (fastforce simp: session_inv_def fields universe_ok_def fresh_tennis_def fresh_book_def)
qed

lemma empty_cursors:
  assumes "universe_ok u" "q \<in> set (universe_pairs u)"
  shows "empty_tennis_cursor q = Inr (fresh_tennis q)"
    and "empty_book_cursors q = Inr [fresh_book q (mb_home_market_ticker (fst q)), fresh_book q (mb_away_market_ticker (fst q))]"
proof -
  note f = universe_pair_facts[OF assms] and v = fresh_cursors_valid[OF assms]
  have d: "expert_contract_sha256 (match_binding_pyval (fst q)) = Inr (digest_of (match_binding_pyval (fst q)))"
    "expert_contract_sha256 (binding_metadata_pyval (snd q)) = Inr (digest_of (binding_metadata_pyval (snd q)))"
    using digest_of_ok f(1,2) by blast+
  have "tennis_sync_cursor_post_init (fresh_tennis q) = None" using v(1) by (simp add: tennis_cursor_contracts_def)
  then show "empty_tennis_cursor q = Inr (fresh_tennis q)"
    using d by (simp add: empty_tennis_cursor_def fresh_tennis_def case_prod_unfold)
  have "book_sync_cursor_post_init (fresh_book q t) = None"
    if "t \<in> {mb_home_market_ticker (fst q), mb_away_market_ticker (fst q)}" for t
    using v(2)[OF that] by (simp add: book_cursor_contracts_def)
  then have "empty_book_cursor q t = Inr (fresh_book q t)"
    if "t \<in> {mb_home_market_ticker (fst q), mb_away_market_ticker (fst q)}" for t
    using d that by (simp add: empty_book_cursor_def fresh_book_def case_prod_unfold)
  then show "empty_book_cursors q = Inr [fresh_book q (mb_home_market_ticker (fst q)), fresh_book q (mb_away_market_ticker (fst q))]"
    by (simp add: empty_book_cursors_def)
qed

lemma from_artifacts_eq:
  assumes u: "universe_ok u"
  shows "if can_open u p then synchronization_session_from_artifacts u p = Inr (fresh_session u p)
    else \<exists>e. synchronization_session_from_artifacts u p = Inl e"
proof -
  have ui: "binding_universe_post_init u = None" using u by (simp add: universe_ok_def)
  then have "universe_digest u = Inr (bu_universe_sha256 u)" by (simp add: binding_universe_post_init_def)
  then have d: "binding_universe_sha256 u = Inr (bu_universe_sha256 u)"
    using ui by (simp add: binding_universe_sha256_def)
  have "check_indexed u q = Inr ()" if "q \<in> set (universe_pairs u)" for q
    using binding_metadata_for_pair[OF ui, of "fst q" "snd q"] that by (simp add: check_indexed_def case_prod_unfold)
  then have c: "map_result (check_indexed u) (universe_pairs u) = Inr (map (\<lambda>q. ()) (universe_pairs u))"
    by (rule map_result_values)
  have t: "map_result empty_tennis_cursor (sort_key (\<lambda>(b, item). mb_canonical_match_id b) (universe_pairs u)) =
      Inr (st_tennis_cursors (fresh_session u p))"
    unfolding fresh_session_def SynchronizationSessionState.simps
    by (rule map_result_values) (use empty_cursors(1)[OF u] in simp)
  have b: "map_result empty_book_cursors (universe_pairs u) = Inr (map (\<lambda>q.
      [fresh_book q (mb_home_market_ticker (fst q)), fresh_book q (mb_away_market_ticker (fst q))]) (universe_pairs u))"
    using empty_cursors(2)[OF u] by (rule map_result_values)
  show ?thesis
  proof (cases "sync_policy_post_init p = None \<and> pol_universe_sha256 p = bu_universe_sha256 u \<and> single_source u")
    case False
    then show ?thesis
      using d by (cases "sync_policy_post_init p")
        (auto simp: can_open_def synchronization_session_from_artifacts_def drift_on_value_error_def session_drift_def)
  next
    case True
    then have eq: "synchronization_session_from_artifacts u p =
        bind_result (expert_contract_sha256 (sync_policy_pyval p)) (\<lambda>policy_sha.
          construct synchronization_session_state_post_init ((fresh_session u p)\<lparr>st_sync_policy_sha256 := policy_sha\<rparr>))"
      using d t by (simp add: synchronization_session_from_artifacts_def c b) (simp add: fresh_session_def)
    show ?thesis
    proof (cases "encodable (sync_policy_pyval p)")
      case enc: True
      then have o: "can_open u p" using True by (simp add: can_open_def)
      have "(fresh_session u p)\<lparr>st_sync_policy_sha256 := digest_of (sync_policy_pyval p)\<rparr> = fresh_session u p"
        by (simp add: fresh_session_def)
      then show ?thesis
        using o eq digest_of_ok[OF enc] session_inv_post_init[OF fresh_session_valid[OF u o]] by simp
    next
      case no: False
      then have "\<exists>e. expert_contract_sha256 (sync_policy_pyval p) = Inl e"
        using digest_defined by (cases "expert_contract_sha256 (sync_policy_pyval p)") auto
      then show ?thesis using no eq by (auto simp: can_open_def)
    qed
  qed
qed

lemma fresh_session_empty:
  "session_tennis (fresh_session u p) = (\<lambda>m. None)" "session_book (fresh_session u p) = (\<lambda>m t. None)"
  "session_emission (fresh_session u p) = (\<lambda>m t. None)"
proof -
  have t: "tc_tennis c = None" if "c \<in> set (st_tennis_cursors (fresh_session u p))" for c
    using that by (auto simp: fresh_session_def fresh_tennis_def)
  have "session_tennis (fresh_session u p) m = None" for m
    using t tennis_at_Some by (cases "tennis_at (st_tennis_cursors (fresh_session u p)) m") (auto simp: session_tennis_def)
  then show "session_tennis (fresh_session u p) = (\<lambda>m. None)" by blast
  have b: "bc_book c = None \<and> bc_last_emission c = None" if "c \<in> set (st_book_cursors (fresh_session u p))" for c
    using that by (auto simp: fresh_session_def fresh_book_def)
  have "session_book (fresh_session u p) m t = None \<and> session_emission (fresh_session u p) m t = None" for m t
    using b book_at_Some by (cases "book_at (st_book_cursors (fresh_session u p)) m t")
      (auto simp: session_book_def session_emission_def)
  then show "session_book (fresh_session u p) = (\<lambda>m t. None)" "session_emission (fresh_session u p) = (\<lambda>m t. None)"
    by blast+
qed

end
