(* ===== verification/SyncProperties.thy ===== *)
theory SyncProperties
  imports SyncDemo SyncOpening
begin

text \<open>
  The properties of the synchronizer, each with the demonstration session on which its hypotheses
  hold.
\<close>

subsection \<open>Publication\<close>

lemma map_filter_of_filter:
  "(\<And>x. x \<in> set xs \<Longrightarrow> \<not> P x \<Longrightarrow> f x = None) \<Longrightarrow> List.map_filter f (filter P xs) = List.map_filter f xs"
  by (induction xs) (simp_all add: map_filter_simps split: option.split)

text \<open>C1: A market reported as trusted is safe to trade on: the snapshot of the result holds the tennis state
  and the book that the resulting session stores for the match and the market, under a binding of
  the universe that agrees with the tennis state; no book move waits for an explanation, the match is live, unblocked and its server known, the book is open, trusted and not empty,
  both are younger than the policy's ages at the time of the decision, their clocks agree, and the market does not
  close within the policy's horizon.  The publication is remembered in the book cursor.\<close>

theorem trusted_result_is_safe:
  assumes "synchronize st i now = Inr x" "r \<in> set (tx_results x)" "is_trusted r"
  shows "\<exists>b \<in> set (bu_bindings (st_universe st)). \<exists>snapshot fp.
     res_snapshot r = Some snapshot \<and> ts_binding snapshot = b \<and> ts_decision_time snapshot = now
     \<and> mb_canonical_match_id b = in_canonical_match_id i
     \<and> res_ticker r \<in> {mb_home_market_ticker b, mb_away_market_ticker b}
     \<and> session_tennis (tx_state x) (in_canonical_match_id i) = Some (ts_tennis snapshot)
     \<and> session_book (tx_state x) (in_canonical_match_id i) (res_ticker r) = Some (ts_book snapshot)
     \<and> session_pending (tx_state x) (in_canonical_match_id i) (res_ticker r) = None
     \<and> \<not> binding_drift (ts_tennis snapshot) b
     \<and> pair_safe (st_policy st) (ts_tennis snapshot) (ts_book snapshot) now
     \<and> session_emission (tx_state x) (in_canonical_match_id i) (res_ticker r) =
         Some (emission_of fp (ts_tennis snapshot) (ts_book snapshot))"
  using assms(1)
proof (cases rule: synchronize_effect)
  case (1 b item st1)
  have u: "binding_universe_post_init (st_universe st) = None"
    using 1(1) by (simp add: session_post_init_iff session_artifacts_iff)
  note b = pairs_in_universe(1)[OF u 1(5)] and d = decided_maps[OF 1(10)]
  obtain t where dec: "market_decided st1 b item now (tx_state x) t r"
    using 1(10) assms(2) unfolding markets_decided_def by (metis list_all2_conv_all_nth in_set_conv_nth)
  then have pub: "published st1 b item t now (tx_state x) r" and t: "res_ticker r = t"
    using assms(3) by (simp_all add: market_decided_def)
  then obtain tc bc s book fp n frame where *:
    "tennis_at (st_tennis_cursors st1) (mb_canonical_match_id b) = Some tc" "tc_tennis tc = Some s"
    "book_at (st_book_cursors st1) (mb_canonical_match_id b) t = Some bc" "bc_book bc = Some book"
    "\<not> binding_blocked s b" "pair_safe (st_policy st1) s book now" "bc_pending_move bc = None"
    "book_at (st_book_cursors (tx_state x)) (mb_canonical_match_id b) t =
       Some (bc\<lparr>bc_last_emission := Some (emission_of fp s book)\<rparr>)"
    "r = trusted_result b t ((snapshot_of st1 b bc s book now)\<lparr>ts_decision_sequence := n\<rparr>) frame"
    unfolding published_def by blast
  have same: "st_policy st1 = st_policy st" "st_universe st1 = st_universe st"
    using 1(9) by (simp_all add: moved_def same_session_def)
  have "t \<in> {mb_home_market_ticker b, mb_away_market_ticker b}"
    by (rule book_key_of_binding[OF 1(7) _ *(3)]) (use b same in simp)
  moreover have "session_tennis (tx_state x) (mb_canonical_match_id b) = Some s"
    using *(1,2) d(1) by (simp add: session_tennis_def)
  moreover have "session_book (tx_state x) (mb_canonical_match_id b) t = Some book"
    "session_pending (tx_state x) (mb_canonical_match_id b) t = None"
    "session_emission (tx_state x) (mb_canonical_match_id b) t = Some (emission_of fp s book)"
    using *(4,7,8) by (simp_all add: session_maps)
  ultimately show ?thesis
    using b *(5,6) same t 1(6) unfolding *(9)
    by (intro bexI[of _ b] exI[of _ "(snapshot_of st1 b bc s book now)\<lparr>ts_decision_sequence := n\<rparr>"] exI[of _ fp])
      (simp_all add: trusted_result_def snapshot_of_def binding_blocked_def)
qed

theorem trusted_result_is_safe_witness:
  "\<exists>x r snapshot. synchronize (demo_session None (Some demo_emission)) (clock_input ''m-1'' ''KXATP-1'') demo_now = Inr x
     \<and> r \<in> set (tx_results x) \<and> res_snapshot r = Some snapshot \<and> pair_safe demo_policy (ts_tennis snapshot) (ts_book snapshot) demo_now"
proof -
  from demo_publishes obtain x r where
    x: "synchronize (demo_session None (Some demo_emission)) (clock_input ''m-1'' ''KXATP-1'') demo_now = Inr x"
    "tx_results x = [r]" "is_trusted r" by blast
  from trusted_result_is_safe[OF x(1) _ x(3)] x(2) obtain snapshot where
    "res_snapshot r = Some snapshot" "pair_safe demo_policy (ts_tennis snapshot) (ts_book snapshot) demo_now" by auto
  then show ?thesis using x(1,2) by (intro exI[of _ x] exI[of _ r] exI[of _ snapshot]) simp
qed

text \<open>A step answers each market its evidence concerns exactly once: both markets of the match in
  the order of their tickers for tennis evidence, the market named for the other kinds.  The decision
  sequence of the session grows by the number of trusted results, and the snapshots of these carry the consecutive
  numbers that follow the sequence of the prior session; a refused result carries no snapshot.\<close>

theorem results_are_numbered:
  assumes "synchronize st i now = Inr x"
  shows "\<exists>b \<in> set (bu_bindings (st_universe st)). mb_canonical_match_id b = in_canonical_match_id i
     \<and> map (\<lambda>r. (res_canonical_match_id r, res_ticker r)) (tx_results x) =
         map (Pair (in_canonical_match_id i)) (evidence_tickers b i)
     \<and> st_decision_sequence (tx_state x) = st_decision_sequence st + int (length (filter is_trusted (tx_results x)))
     \<and> List.map_filter (\<lambda>r. map_option ts_decision_sequence (res_snapshot r)) (tx_results x) =
         [st_decision_sequence st + 1..st_decision_sequence (tx_state x)]"
  using assms
proof (cases rule: synchronize_effect)
  case (1 b item st1)
  have u: "binding_universe_post_init (st_universe st) = None"
    using 1(1) by (simp add: session_post_init_iff session_artifacts_iff)
  note b = pairs_in_universe(1)[OF u 1(5)]
  have ds: "st_decision_sequence (tx_state x) = st_decision_sequence st + int (length (filter is_trusted (tx_results x)))"
    using 1(9,10) by (simp add: moved_def markets_decided_def)
  have "\<forall>r \<in> set (tx_results x). result_contracts r = None"
    using 1(14) by (simp add: synchronization_transition_result_post_init_def Let_def)
  then have "\<forall>r \<in> set (tx_results x). \<not> is_trusted r \<longrightarrow> res_snapshot r = None"
    by (auto simp: result_contracts_def sync_result_post_init_def is_trusted_def)
  then have "List.map_filter (\<lambda>r. map_option ts_decision_sequence (res_snapshot r)) (filter is_trusted (tx_results x)) =
      List.map_filter (\<lambda>r. map_option ts_decision_sequence (res_snapshot r)) (tx_results x)"
    by (intro map_filter_of_filter) simp
  then have seqs: "List.map_filter (\<lambda>r. map_option ts_decision_sequence (res_snapshot r)) (tx_results x) =
      [st_decision_sequence st + 1..st_decision_sequence (tx_state x)]"
    using 1(13,14) by (simp add: synchronization_transition_result_post_init_def Let_def sequences_consecutive_def)
  have "list_all2 (market_decided st1 b item now (tx_state x)) (evidence_tickers b i) (tx_results x)"
    using 1(10) by (simp add: markets_decided_def)
  then have "map (\<lambda>r. (res_canonical_match_id r, res_ticker r)) (tx_results x) =
      map (Pair (in_canonical_match_id i)) (evidence_tickers b i)"
    using 1(6) by (induction rule: list_all2_induct) (auto simp: market_decided_def)
  then show ?thesis using b 1(6) ds seqs by blast
qed

theorem results_are_numbered_witness:
  "\<exists>x. synchronize (demo_session None (Some demo_emission)) (clock_input ''m-1'' ''KXATP-1'') demo_now = Inr x
     \<and> st_decision_sequence (tx_state x) = 4 + int (length (filter is_trusted (tx_results x)))"
proof -
  from demo_publishes obtain x where
    x: "synchronize (demo_session None (Some demo_emission)) (clock_input ''m-1'' ''KXATP-1'') demo_now = Inr x" .
  then show ?thesis using results_are_numbered[OF x] by auto
qed

subsection \<open>The component machines inside a session\<close>

text \<open>C20: The tennis side of a session refines the scoring machine: an accepted step takes the state of the
  match it concerns exactly where \<open>state_from_snapshot\<close>, \<open>apply_point\<close>, \<open>apply_lifecycle\<close> or
  \<open>apply_correction\<close> takes it (a first snapshot that disagrees with the binding is not stored), book and clock evidence leave it, and
  no step touches another match, neither its tennis state nor its book cursors.\<close>

theorem session_follows_tennis_machine:
  assumes "synchronize st i now = Inr x"
  shows "\<exists>b \<in> set (bu_bindings (st_universe st)). mb_canonical_match_id b = in_canonical_match_id i
     \<and> tennis_expected b i (session_tennis st (in_canonical_match_id i)) =
         Inr (session_tennis (tx_state x) (in_canonical_match_id i))
     \<and> (\<forall>m. m \<noteq> in_canonical_match_id i \<longrightarrow>
           session_tennis (tx_state x) m = session_tennis st m
           \<and> (\<forall>t. book_at (st_book_cursors (tx_state x)) m t = book_at (st_book_cursors st) m t))"
  using assms by (rule step_tennis) blast

theorem session_follows_tennis_machine_witness:
  "\<exists>x. synchronize (demo_session None (Some demo_emission)) (clock_input ''m-1'' ''KXATP-1'') demo_now = Inr x
     \<and> session_tennis (tx_state x) ''m-1'' = Some example_live"
proof -
  from demo_publishes obtain x where
    x: "synchronize (demo_session None (Some demo_emission)) (clock_input ''m-1'' ''KXATP-1'') demo_now = Inr x" .
  then show ?thesis
    using session_follows_tennis_machine[OF x]
    by (auto simp: tennis_expected_def clock_input_def session_tennis_def tennis_at_def)
qed

text \<open>C21: The book side of a session refines the order book machine: for a market of the session, book
  evidence for it takes its book where \<open>book_from_snapshot\<close>, \<open>apply_book_snapshot\<close>, \<open>apply_book_delta\<close>,
  \<open>apply_market_lifecycle\<close> or \<open>require_book_resnapshot\<close> takes it, and any other evidence leaves it.\<close>

theorem session_follows_book_machine:
  assumes "synchronize st i now = Inr x" "book_at (st_book_cursors st) m t = Some c"
  shows "if m = in_canonical_match_id i \<and> in_ticker i = Some t
    then book_expected i (session_book st m t) = Inr (session_book (tx_state x) m t)
    else session_book (tx_state x) m t = session_book st m t"
  using assms by (rule step_book)

theorem session_follows_book_machine_witness:
  "\<exists>x. synchronize (demo_session None (Some demo_emission)) (clock_input ''m-1'' ''KXATP-1'') demo_now = Inr x
     \<and> session_book (tx_state x) ''m-1'' ''KXATP-1'' = Some example_book"
proof -
  from demo_publishes obtain x where
    x: "synchronize (demo_session None (Some demo_emission)) (clock_input ''m-1'' ''KXATP-1'') demo_now = Inr x" .
  have at: "book_at (st_book_cursors (demo_session None (Some demo_emission))) ''m-1'' ''KXATP-1'' =
      Some (demo_home_cursor None (Some demo_emission))"
    by (simp add: book_at_def)
  then have "session_book (demo_session None (Some demo_emission)) ''m-1'' ''KXATP-1'' = Some example_book"
    by (simp add: session_book_def)
  then show ?thesis
    using session_follows_book_machine[OF x at] x by (auto simp: book_expected_def clock_input_def)
qed

subsection \<open>Runs\<close>

text \<open>C5: Every run of accepted evidence whose events their constructors accept keeps the session
  valid (the constructor checks, valid bindings, valid tennis states and books) and only moves it
  forward: universe and policy stay, the clock, the decision sequence, every tennis position, every book
  position and every publication never go back.\<close>

theorem sessions_stay_valid_and_monotone:
  assumes "session_inv st" "list_all sync_event_ok es" "run_steps sync_step st es = Inr st'"
  shows "session_inv st' \<and> session_no_earlier st st'"
  using sessions.run_inv[OF assms] sessions.run_le[OF assms] by blast

lemma demo_run:
  obtains s where "run_steps sync_step (demo_session None (Some demo_emission))
      [(clock_input ''m-1'' ''KXATP-2'', demo_now)] = Inr s"
proof -
  from demo_refuses[of None "Some demo_emission"] obtain x where
    "synchronize (demo_session None (Some demo_emission)) (clock_input ''m-1'' ''KXATP-2'') demo_now = Inr x"
    by (auto simp: demo_fits_def)
  then show thesis using that by (simp add: sync_step_def)
qed

lemma clock_event_ok: "sync_event_ok (clock_input m t, now)"
  by (simp add: sync_event_ok_def clock_input_def)

theorem sessions_stay_valid_and_monotone_witness:
  "\<exists>s. run_steps sync_step (demo_session None (Some demo_emission)) [(clock_input ''m-1'' ''KXATP-2'', demo_now)] = Inr s
     \<and> session_inv s \<and> session_no_earlier (demo_session None (Some demo_emission)) s"
proof -
  from demo_run obtain s where s: "run_steps sync_step (demo_session None (Some demo_emission))
      [(clock_input ''m-1'' ''KXATP-2'', demo_now)] = Inr s" .
  have "session_inv (demo_session None (Some demo_emission))"
    by (rule demo_session_inv) (simp add: demo_fits_def)
  then show ?thesis
    using sessions_stay_valid_and_monotone[OF _ _ s] s clock_event_ok by auto
qed

text \<open>C4: No pair is published twice.  Take a market whose cursor remembers the publication \<open>e\<close>,
  any run after it, and a step that reports the market as trusted: the new publication lies
  strictly after \<open>e\<close>, its tennis position and its book position are not earlier and at least one
  of them is later.\<close>

theorem publications_strictly_advance:
  assumes "session_inv st" "list_all sync_event_ok es" "run_steps sync_step st es = Inr s"
    and "synchronize s i now = Inr x" "r \<in> set (tx_results x)" "is_trusted r"
    and "session_emission st (in_canonical_match_id i) (res_ticker r) = Some e"
  shows "\<exists>e'. session_emission (tx_state x) (in_canonical_match_id i) (res_ticker r) = Some e'
     \<and> emission_before e e'"
proof -
  obtain e1 where e1: "session_emission s (in_canonical_match_id i) (res_ticker r) = Some e1" "emission_no_later e e1"
    using sessions.run_le[OF assms(1-3)] assms(7) unfolding session_no_earlier_def forward_def
    by (metis option.case(2) option.exhaust option.simps(4))
  from assms(4) show ?thesis
  proof (cases rule: synchronize_effect)
    case (1 b item st1)
    obtain t where "market_decided st1 b item now (tx_state x) t r"
      using 1(10) assms(5) unfolding markets_decided_def by (metis list_all2_conv_all_nth in_set_conv_nth)
    then have pub: "published st1 b item (res_ticker r) now (tx_state x) r"
      using assms(6) by (auto simp: market_decided_def)
    from published_advances[OF 1(7) pub] show ?thesis
    proof cases
      case new: (1 tc bc sc book fp n frame)
      have "bc_last_emission bc = Some e1"
      proof -
        obtain c where c: "book_at (st_book_cursors (observed s now)) (in_canonical_match_id i) (res_ticker r) = Some c"
          "bc_last_emission c = Some e1"
          using e1(1) by (auto simp: session_emission_def bind_eq_Some_conv)
        from moved_book_at[OF 1(9) c(1)] show ?thesis using c(2) new(3) 1(6) by (metis option.inject)
      qed
      from new(6)[OF this] e1(2) have "emission_before e (emission_of fp sc book)"
        by (auto simp: emission_no_later_def intro: emission_before_trans)
      then show ?thesis using new(5) 1(6) by simp
    qed
  qed
qed

theorem publications_strictly_advance_witness:
  "\<exists>x r e. synchronize (demo_session None (Some demo_emission)) (clock_input ''m-1'' ''KXATP-1'') demo_now = Inr x
     \<and> r \<in> set (tx_results x) \<and> session_emission (tx_state x) ''m-1'' (res_ticker r) = Some e \<and> emission_before demo_emission e"
proof -
  from demo_publishes obtain x r where
    x: "synchronize (demo_session None (Some demo_emission)) (clock_input ''m-1'' ''KXATP-1'') demo_now = Inr x"
    "tx_results x = [r]" "is_trusted r" by blast
  have inv: "session_inv (demo_session None (Some demo_emission))"
    by (rule demo_session_inv) (simp add: demo_fits_def)
  have i: "in_canonical_match_id (clock_input ''m-1'' ''KXATP-1'') = ''m-1''" by (simp add: clock_input_def)
  from x(1) show ?thesis
  proof (cases rule: synchronize_effect)
    case (1 b item st1)
    have "res_ticker r = ''KXATP-1''"
      using 1(10) x(2) by (simp add: markets_decided_def evidence_tickers_def clock_input_def market_decided_def)
    then have "session_emission (demo_session None (Some demo_emission)) (in_canonical_match_id (clock_input ''m-1'' ''KXATP-1''))
        (res_ticker r) = Some demo_emission"
      by (simp add: session_emission_def book_at_def i)
    from publications_strictly_advance[OF inv, of "[]", OF _ _ x(1) _ x(3) this] x(2) obtain e where
      "session_emission (tx_state x) ''m-1'' (res_ticker r) = Some e" "emission_before demo_emission e"
      by (auto simp: i)
    then show ?thesis using x(1,2) by (intro exI[of _ x] exI[of _ r] exI[of _ e] conjI) simp_all
  qed
qed

subsection \<open>Unexplained moves\<close>

text \<open>C7: A large book move that waits for an explanation is never forgotten.  After a step it is still
  pending, with the same first move, at least as many moves and at least the same magnitude; or it is gone because
  a point not used before was received at most the explanation window before the first move; or a new book snapshot of a
  later connection met a later correction of the score, both observed after the last move (the paired reset).\<close>

theorem pending_move_needs_explanation:
  assumes "synchronize st i now = Inr x" "session_pending st m t = Some p"
  shows "(\<exists>q. session_pending (tx_state x) m t = Some q \<and> pending_kept p q)
     \<or> (session_pending (tx_state x) m t = None
        \<and> (\<exists>c d. book_at (st_book_cursors st) m t = Some c \<and> book_at (st_book_cursors (tx_state x)) m t = Some d
             \<and> pending_explained (st_policy st) p c d))
     \<or> (in_kind i = BOOK_TRANSITION \<and> is_book_snapshot (in_book_event i)
        \<and> (\<exists>book. session_book (tx_state x) m t = Some book \<and> paired_reset p (session_tennis st m) book))"
  using assms(1)
proof (cases rule: synchronize_effect)
  case (1 b item st1)
  obtain c where c: "book_at (st_book_cursors st) m t = Some c" "bc_pending_move c = Some p"
    using assms(2) by (auto simp: session_pending_def bind_eq_Some_conv)
  then have "book_at (st_book_cursors (observed st now)) m t = Some c" by simp
  from moved_book_at[OF 1(9) this] show ?thesis
  proof cases
    case moved: (1 d)
    obtain e where e: "book_at (st_book_cursors (tx_state x)) m t = Some (d\<lparr>bc_last_emission := e\<rparr>)"
      using decided_book_at[OF 1(10) moved(1)] by metis
    have f: "pending_follows (st_policy st) i (session_tennis st m) c d"
    proof (cases "m = mb_canonical_match_id b")
      case True
      then show ?thesis using moved(6) by (simp add: cursor_moved_def)
    next
      case False
      then show ?thesis using moved(5) c(2) by (simp add: pending_follows_def)
    qed
    have same: "session_pending (tx_state x) m t = bc_pending_move d" "session_book (tx_state x) m t = bc_book d"
      using e by (simp_all add: session_maps)
    have "pending_explained (st_policy st) p c (d\<lparr>bc_last_emission := e\<rparr>) = pending_explained (st_policy st) p c d"
      by (simp add: pending_explained_def)
    then show ?thesis
      unfolding same using f c e by (cases "bc_pending_move d") (auto simp: pending_follows_def pending_reset_def)
  qed
qed

theorem pending_move_needs_explanation_witness:
  "\<exists>x q. synchronize (demo_session (Some demo_pending) None) (clock_input ''m-1'' ''KXATP-2'') demo_now = Inr x
     \<and> session_pending (tx_state x) ''m-1'' ''KXATP-1'' = Some q \<and> pending_kept demo_pending q"
proof -
  have f: "demo_fits (Some demo_pending) None" by (simp add: demo_fits_def)
  from demo_refuses[OF f] obtain x where
    x: "synchronize (demo_session (Some demo_pending) None) (clock_input ''m-1'' ''KXATP-2'') demo_now = Inr x"
    "book_at (st_book_cursors (tx_state x)) ''m-1'' ''KXATP-1'' = Some (demo_home_cursor (Some demo_pending) None)" .
  have c: "book_at (st_book_cursors (demo_session (Some demo_pending) None)) ''m-1'' ''KXATP-1'' =
      Some (demo_home_cursor (Some demo_pending) None)"
    by (simp add: book_at_def)
  then have p: "session_pending (demo_session (Some demo_pending) None) ''m-1'' ''KXATP-1'' = Some demo_pending"
    by (simp add: session_pending_def)
  have "session_pending (tx_state x) ''m-1'' ''KXATP-1'' \<noteq> None"
    using x(2) by (simp add: session_pending_def)
  then show ?thesis
    using pending_move_needs_explanation[OF x(1) p] x(1) by (auto simp: clock_input_def)
qed

subsection \<open>Decisions\<close>

text \<open>The chain of checks in \<open>_block_reason\<close> lets a market through exactly when everything
  the decision needs is there and safe: both states are known, the binding agrees with the tennis state, its score is
  reachable, the pair is safe under the policy at this time, and no move waits for an explanation.\<close>

theorem nothing_blocks_iff_safe:
  "block_reason_of st b tc bc now = Inr None \<longleftrightarrow>
     (\<exists>s book. tc_tennis tc = Some s \<and> bc_book bc = Some book \<and> \<not> binding_blocked s b \<and> reachable s
        \<and> pair_safe (st_policy st) s book now \<and> bc_pending_move bc = None)"
  unfolding block_reason_none by (metis pair_block_reason_none)

text \<open>C6: Clock evidence always gets an answer.  In a valid session, for a market of the universe, with a valid
  time that does not go back and a decision sequence below the bound, \<open>synchronize\<close> returns: one result,
  whose reason is the decision computed from the two cursors, and a valid session.  The only condition besides is that
  the SHA-256 fingerprint of the pair differs from the remembered one when the pairs differ.\<close>

theorem clock_evidence_is_answered:
  assumes "session_inv st" "(b, item) \<in> set (universe_pairs (st_universe st))"
    and "now_ok now" "\<not> time_regresses st now" "integer_ok (st_decision_sequence st + 1)"
    and "tennis_at (st_tennis_cursors st) (mb_canonical_match_id b) = Some tc"
    and "book_at (st_book_cursors st) (mb_canonical_match_id b) t = Some bc"
    and "no_fingerprint_collision st b item tc bc"
  shows "\<exists>x r. synchronize st (clock_input (mb_canonical_match_id b) t) now = Inr x
     \<and> tx_results x = [r] \<and> res_reason r = decision (st_policy st) b tc bc now \<and> session_inv (tx_state x)"
proof -
  have p: "synchronization_session_state_post_init st = None" by (rule session_inv_post_init[OF assms(1)])
  then have "binding_universe_post_init (st_universe st) = None"
    by (simp add: session_post_init_iff session_artifacts_iff)
  then have "t \<in> {mb_home_market_ticker b, mb_away_market_ticker b}"
    using book_key_of_binding[OF p pairs_in_universe(1)[OF _ assms(2)] assms(7)] by blast
  then show ?thesis
    using clock_step[OF assms(1-5) _ _ _ _ _ _ assms(8), of t] tennis_at_Some[OF assms(6)] book_at_Some[OF assms(7)]
    by blast
qed

theorem clock_evidence_is_answered_witness:
  "\<exists>x r. synchronize (demo_session None (Some demo_emission)) (clock_input ''m-1'' ''KXATP-1'') demo_now = Inr x
     \<and> tx_results x = [r] \<and> res_reason r = SR_TRUSTED_SYNCHRONIZED \<and> session_inv (tx_state x)"
proof -
  have f: "demo_fits None (Some demo_emission)" by (simp add: demo_fits_def)
  have ds: "integer_ok (st_decision_sequence (demo_session None (Some demo_emission)) + 1)" by simp
  from clock_evidence_is_answered[OF demo_session_inv[OF f] _ demo_now_ok ds _ _ demo_no_collision(1)[OF f], of "''KXATP-1''"]
  show ?thesis
    using demo_decisions(1) by (simp add: tennis_at_def book_at_def)
qed

subsection \<open>Replay\<close>

text \<open>\<open>validate_synchronization_transition\<close> accepts a stored transition after a session exactly when \<open>synchronize\<close> on that
  session, with the evidence and the time the transition records, returns this very transition: a record altered in any field,
  or replayed after another session, is refused.\<close>

theorem validation_is_replay:
  "validate_synchronization_transition prior x = Inr () \<longleftrightarrow>
     synchronize prior (tx_input x) (tx_observation x) = Inr x"
proof
  assume "validate_synchronization_transition prior x = Inr ()"
  then show "synchronize prior (tx_input x) (tx_observation x) = Inr x"
    by (auto simp: validate_synchronization_transition_def bind_result_eq_Inr checked_eq_Inr split: if_splits)
next
  assume "synchronize prior (tx_input x) (tx_observation x) = Inr x"
  then show "validate_synchronization_transition prior x = Inr ()"
    by (rule synchronize_validates)
qed

subsection \<open>Routes\<close>

lemma universe_loop_projected:
  "universe_loop u previous seen ps = None \<Longrightarrow>
     \<forall>(b, item) \<in> set ps. \<exists>home away rest. bm_markets item = home # away # rest
       \<and> bmm_market_ticker home = mb_home_market_ticker b \<and> bmm_market_ticker away = mb_away_market_ticker b"
proof (induction u previous seen ps rule: universe_loop.induct)
  case (2 u previous seen b item rest)
  then show ?case
    by (auto simp: binding_projected_def split: if_splits list.splits)
qed simp

lemma universe_routes:
  assumes u: "binding_universe_post_init u = None" and b: "(b, item) \<in> set (universe_pairs u)"
    and m: "binding_metadata_post_init item = None"
  shows "bm_authorized_routes item =
    [\<lparr>br_player_side = HOME, br_market_ticker = mb_home_market_ticker b, br_contract_side = YES\<rparr>,
     \<lparr>br_player_side = AWAY, br_market_ticker = mb_away_market_ticker b, br_contract_side = YES\<rparr>]"
proof -
  from universe_loop_projected[OF universe_loop_of_post_init[OF u]] b obtain home away rest where
    r: "bm_markets item = home # away # rest" "bmm_market_ticker home = mb_home_market_ticker b"
    "bmm_market_ticker away = mb_away_market_ticker b" by fastforce
  with m show ?thesis
    by (cases rest) (auto simp: binding_metadata_post_init_def yes_route_def)
qed

text \<open>An order is authorized on exactly two routes of a binding: buying YES in the home market, for the home player, and YES in
  the away market, for the away player; every other pair of market and side raises
  \<open>binding_route_unsupported\<close>, or the error of a malformed ticker.\<close>

theorem only_yes_routes_are_authorized:
  assumes "binding_universe_post_init u = None" "(b, item) \<in> set (universe_pairs u)"
    and "binding_metadata_post_init item = None"
  shows "require_authorized_route u b t side =
    (if \<not> ticker_ok t then Inl (ExpertContractError ''market_ticker'')
     else if t = mb_home_market_ticker b \<and> side = YES
     then Inr \<lparr>br_player_side = HOME, br_market_ticker = t, br_contract_side = YES\<rparr>
     else if t = mb_away_market_ticker b \<and> side = YES
     then Inr \<lparr>br_player_side = AWAY, br_market_ticker = t, br_contract_side = YES\<rparr>
     else Inl (ExpertContractError ''binding_route_unsupported''))"
  using binding_metadata_for_pair[OF assms(1,2)] universe_routes[OF assms]
    universe_tickers_differ[OF assms(1) pairs_in_universe(1)[OF assms(1,2)]] assms(1)
  by (cases side) (auto simp: require_authorized_route_def ticker_def contract_error_def checked_def)

theorem only_yes_routes_are_authorized_witness:
  "require_authorized_route demo_universe demo_binding ''KXATP-2'' YES =
     Inr \<lparr>br_player_side = AWAY, br_market_ticker = ''KXATP-2'', br_contract_side = YES\<rparr>
   \<and> require_authorized_route demo_universe demo_binding ''KXATP-2'' NO =
     Inl (ExpertContractError ''binding_route_unsupported'')"
  using only_yes_routes_are_authorized[OF demo_universe_valid _ demo_metadata_valid, of demo_binding "''KXATP-2''"] by simp

subsection \<open>The opened session\<close>

text \<open>C35: \<open>synchronization_session_from_artifacts\<close> on a valid universe opens a session exactly when the policy is valid, was
  written for this universe and has canonical bytes, and all bindings share one provider source.  The session is then valid, empty
  and waiting: no tennis state, no book, no publication, no observation, decision sequence zero.\<close>

theorem session_opens_iff:
  assumes "universe_ok u"
  shows "if can_open u p
    then \<exists>st. synchronization_session_from_artifacts u p = Inr st \<and> session_inv st
       \<and> st_universe st = u \<and> st_policy st = p \<and> st_decision_sequence st = 0 \<and> st_last_observation st = None
       \<and> session_tennis st = (\<lambda>m. None) \<and> session_book st = (\<lambda>m t. None) \<and> session_emission st = (\<lambda>m t. None)
    else \<exists>e. synchronization_session_from_artifacts u p = Inl e"
proof (cases "can_open u p")
  case True
  have "st_universe (fresh_session u p) = u" "st_policy (fresh_session u p) = p"
    "st_decision_sequence (fresh_session u p) = 0" "st_last_observation (fresh_session u p) = None"
    by (simp_all add: fresh_session_def)
  then show ?thesis
    using True from_artifacts_eq[OF assms, of p] fresh_session_valid[OF assms True] fresh_session_empty by auto
qed (use from_artifacts_eq[OF assms, of p] in simp)

theorem session_opens_iff_witness:
  "\<exists>st. synchronization_session_from_artifacts demo_universe demo_policy = Inr st \<and> session_inv st"
proof -
  have "universe_ok demo_universe"
    using demo_universe_valid demo_binding_valid by (simp add: universe_ok_def)
  moreover have "can_open demo_universe demo_policy"
    using demo_policy_valid demo_policy_encodable by (simp add: can_open_def single_source_def) (simp add: demo_policy_def)
  ultimately show ?thesis using session_opens_iff[of demo_universe demo_policy] by auto
qed

end
