(* ===== verification/ContractsExpert.thy ===== *)
theory ContractsExpert
  imports ContractsSync
begin

text \<open>
  The contracts of the expert reducer in \<open>inci_tennis_expert/contracts.py\<close>: the evidence of
  a parent record, the observations derived from it, the state of the expert, the payloads of
  its outcomes and the reduction of one parent, each with its validator and, where the code
  hashes or measures it, its canonical projection.  Field prefixes: \<open>pe_\<close> parent evidence,
  \<open>so_\<close>, \<open>io_\<close>, \<open>ro_\<close> observations (synchronization, ignored, rejected),
  \<open>xs_\<close> expert state, \<open>apl_\<close>, \<open>ipl_\<close>, \<open>rpl_\<close> payloads (applied, ignored,
  rejected), \<open>out_\<close> outcome, \<open>red_\<close> reduction.
\<close>

subsection \<open>Data\<close>

record ExpertParentEvidenceV1 =
  pe_session_id :: string
  pe_ingest_seq :: int
  pe_record_sha256 :: string
  pe_event_type :: string
  pe_event_version :: int
  pe_local_wall_ns :: int
  pe_local_monotonic_ns :: int
  pe_clock_uncertainty_ns :: int

record ExpertSynchronizationObservationV1 =
  so_parent :: ExpertParentEvidenceV1
  so_parent_output_index :: int
  so_parent_output_count :: int
  so_normalizer_id :: string
  so_normalizer_code_sha256 :: string
  so_normalizer_schema_sha256 :: string
  so_evidence :: SynchronizationInput
  so_observation :: PairedTimeObservation

record ExpertIgnoredObservationV1 =
  io_parent :: ExpertParentEvidenceV1
  io_parent_output_index :: int
  io_parent_output_count :: int
  io_normalizer_id :: string
  io_normalizer_code_sha256 :: string
  io_normalizer_schema_sha256 :: string
  io_reason :: ExpertIgnoreReasonV1

record ExpertRejectedObservationV1 =
  ro_parent :: ExpertParentEvidenceV1
  ro_parent_output_index :: int
  ro_parent_output_count :: int
  ro_normalizer_id :: string
  ro_normalizer_code_sha256 :: string
  ro_normalizer_schema_sha256 :: string
  ro_reason :: ExpertRejectReasonV1

text \<open>The union \<open>ExpertObservationV1\<close>.\<close>

datatype expert_observation =
    SynchronizationObservation ExpertSynchronizationObservationV1
  | IgnoredObservation ExpertIgnoredObservationV1
  | RejectedObservation ExpertRejectedObservationV1

record ExpertStateV1 =
  xs_schema_version :: int
  xs_session_id :: string
  xs_expert_manifest_sha256 :: string
  xs_match_binding_universe_sha256 :: string
  xs_sync_policy_sha256 :: string
  xs_initial_synchronization_sha256 :: string
  xs_synchronization :: SynchronizationSessionState
  xs_rejected_parent_count :: int
  xs_halted :: bool
  xs_halt_reason :: "ExpertRejectReasonV1 option"

record ExpertSynchronizationAppliedPayloadV1 =
  apl_observation :: ExpertSynchronizationObservationV1
  apl_transition :: SynchronizationTransitionResult

record ExpertObservationIgnoredPayloadV1 =
  ipl_observation :: ExpertIgnoredObservationV1

record ExpertObservationRejectedPayloadV1 =
  rpl_observation :: expert_observation
  rpl_reason :: ExpertRejectReasonV1

text \<open>The union \<open>ExpertEventPayloadV1\<close>.\<close>

datatype expert_payload =
    AppliedPayload ExpertSynchronizationAppliedPayloadV1
  | IgnoredPayload ExpertObservationIgnoredPayloadV1
  | RejectedPayload ExpertObservationRejectedPayloadV1

record ExpertOutcomeDraftV1 =
  out_event_kind :: ExpertEventKindV1
  out_event_version :: int
  out_event_schema_sha256 :: string
  out_payload :: expert_payload
  out_prior_expert_state_sha256 :: string
  out_post_state :: ExpertStateV1
  out_post_expert_state_sha256 :: string

record ExpertReductionV1 =
  red_prior_expert_state_sha256 :: string
  red_outcomes :: "ExpertOutcomeDraftV1 list"
  red_final_state :: ExpertStateV1
  red_final_expert_state_sha256 :: string
  red_halt_required :: bool

subsection \<open>Canonical projections\<close>

definition expert_ignore_reason_pyval :: "ExpertIgnoreReasonV1 \<Rightarrow> pyval" where
  "expert_ignore_reason_pyval x = VEnum ''ExpertIgnoreReasonV1'' (expert_ignore_reason_value x)"

definition expert_reject_reason_pyval :: "ExpertRejectReasonV1 \<Rightarrow> pyval" where
  "expert_reject_reason_pyval x = VEnum ''ExpertRejectReasonV1'' (expert_reject_reason_value x)"

definition expert_parent_evidence_pyval :: "ExpertParentEvidenceV1 \<Rightarrow> pyval" where
  "expert_parent_evidence_pyval x = VContract ''ExpertParentEvidenceV1''
     [(''session_id'', VStr (pe_session_id x)),
      (''ingest_seq'', VInt (pe_ingest_seq x)),
      (''record_sha256'', VStr (pe_record_sha256 x)),
      (''event_type'', VStr (pe_event_type x)),
      (''event_version'', VInt (pe_event_version x)),
      (''local_wall_ns'', VInt (pe_local_wall_ns x)),
      (''local_monotonic_ns'', VInt (pe_local_monotonic_ns x)),
      (''clock_uncertainty_ns'', VInt (pe_clock_uncertainty_ns x))]"

definition expert_synchronization_observation_pyval :: "ExpertSynchronizationObservationV1 \<Rightarrow> pyval" where
  "expert_synchronization_observation_pyval x = VContract ''ExpertSynchronizationObservationV1''
     [(''parent'', expert_parent_evidence_pyval (so_parent x)),
      (''parent_output_index'', VInt (so_parent_output_index x)),
      (''parent_output_count'', VInt (so_parent_output_count x)),
      (''normalizer_id'', VStr (so_normalizer_id x)),
      (''normalizer_code_sha256'', VStr (so_normalizer_code_sha256 x)),
      (''normalizer_schema_sha256'', VStr (so_normalizer_schema_sha256 x)),
      (''evidence'', synchronization_input_pyval (so_evidence x)),
      (''observation'', paired_time_observation_pyval (so_observation x))]"

definition expert_ignored_observation_pyval :: "ExpertIgnoredObservationV1 \<Rightarrow> pyval" where
  "expert_ignored_observation_pyval x = VContract ''ExpertIgnoredObservationV1''
     [(''parent'', expert_parent_evidence_pyval (io_parent x)),
      (''parent_output_index'', VInt (io_parent_output_index x)),
      (''parent_output_count'', VInt (io_parent_output_count x)),
      (''normalizer_id'', VStr (io_normalizer_id x)),
      (''normalizer_code_sha256'', VStr (io_normalizer_code_sha256 x)),
      (''normalizer_schema_sha256'', VStr (io_normalizer_schema_sha256 x)),
      (''reason'', expert_ignore_reason_pyval (io_reason x))]"

definition expert_rejected_observation_pyval :: "ExpertRejectedObservationV1 \<Rightarrow> pyval" where
  "expert_rejected_observation_pyval x = VContract ''ExpertRejectedObservationV1''
     [(''parent'', expert_parent_evidence_pyval (ro_parent x)),
      (''parent_output_index'', VInt (ro_parent_output_index x)),
      (''parent_output_count'', VInt (ro_parent_output_count x)),
      (''normalizer_id'', VStr (ro_normalizer_id x)),
      (''normalizer_code_sha256'', VStr (ro_normalizer_code_sha256 x)),
      (''normalizer_schema_sha256'', VStr (ro_normalizer_schema_sha256 x)),
      (''reason'', expert_reject_reason_pyval (ro_reason x))]"

fun expert_observation_pyval :: "expert_observation \<Rightarrow> pyval" where
  "expert_observation_pyval (SynchronizationObservation x) = expert_synchronization_observation_pyval x"
| "expert_observation_pyval (IgnoredObservation x) = expert_ignored_observation_pyval x"
| "expert_observation_pyval (RejectedObservation x) = expert_rejected_observation_pyval x"

definition expert_state_pyval :: "ExpertStateV1 \<Rightarrow> pyval" where
  "expert_state_pyval x = VContract ''ExpertStateV1''
     [(''schema_version'', VInt (xs_schema_version x)),
      (''session_id'', VStr (xs_session_id x)),
      (''expert_manifest_sha256'', VStr (xs_expert_manifest_sha256 x)),
      (''match_binding_universe_sha256'', VStr (xs_match_binding_universe_sha256 x)),
      (''sync_policy_sha256'', VStr (xs_sync_policy_sha256 x)),
      (''initial_synchronization_sha256'', VStr (xs_initial_synchronization_sha256 x)),
      (''synchronization'', synchronization_session_state_pyval (xs_synchronization x)),
      (''rejected_parent_count'', VInt (xs_rejected_parent_count x)),
      (''halted'', VBool (xs_halted x)),
      (''halt_reason'', vopt expert_reject_reason_pyval (xs_halt_reason x))]"

definition expert_synchronization_applied_payload_pyval :: "ExpertSynchronizationAppliedPayloadV1 \<Rightarrow> pyval" where
  "expert_synchronization_applied_payload_pyval x = VContract ''ExpertSynchronizationAppliedPayloadV1''
     [(''observation'', expert_synchronization_observation_pyval (apl_observation x)),
      (''transition'', synchronization_transition_result_pyval (apl_transition x))]"

definition expert_observation_ignored_payload_pyval :: "ExpertObservationIgnoredPayloadV1 \<Rightarrow> pyval" where
  "expert_observation_ignored_payload_pyval x = VContract ''ExpertObservationIgnoredPayloadV1''
     [(''observation'', expert_ignored_observation_pyval (ipl_observation x))]"

definition expert_observation_rejected_payload_pyval :: "ExpertObservationRejectedPayloadV1 \<Rightarrow> pyval" where
  "expert_observation_rejected_payload_pyval x = VContract ''ExpertObservationRejectedPayloadV1''
     [(''observation'', expert_observation_pyval (rpl_observation x)),
      (''reason'', expert_reject_reason_pyval (rpl_reason x))]"

fun expert_payload_pyval :: "expert_payload \<Rightarrow> pyval" where
  "expert_payload_pyval (AppliedPayload x) = expert_synchronization_applied_payload_pyval x"
| "expert_payload_pyval (IgnoredPayload x) = expert_observation_ignored_payload_pyval x"
| "expert_payload_pyval (RejectedPayload x) = expert_observation_rejected_payload_pyval x"

subsection \<open>Observations\<close>

text \<open>
  \<open>UUID(text)\<close> accepts several spellings; the comparison of \<open>str(UUID(text))\<close> with the
  text leaves the canonical one: 32 lower-case hexadecimal digits in groups of 8, 4, 4, 4 and 12.
\<close>

definition canonical_uuid :: "string \<Rightarrow> bool" where
  "canonical_uuid s \<longleftrightarrow> length s = 36
     \<and> list_all (\<lambda>i. if i \<in> {8, 13, 18, 23} then s ! i = CHR ''-'' else s ! i \<in> set hex_digits) [0..<36]"

definition session_id_ok :: "string \<Rightarrow> bool" where
  "session_id_ok s \<longleftrightarrow> safe_id_ok s \<and> canonical_uuid s"

definition session_id_text :: "string \<Rightarrow> string \<Rightarrow> exn option" where
  "session_id_text s name = contract_error (session_id_ok s) name"

definition schema_version :: "int \<Rightarrow> exn option" where
  "schema_version v = first_raise
     [integer v ''schema_version'', contract_error (v = 1) ''schema_version'']"

definition expert_parent_evidence_post_init :: "ExpertParentEvidenceV1 \<Rightarrow> exn option" where
  "expert_parent_evidence_post_init p = first_raise
     [session_id_text (pe_session_id p) ''session_id'',
      positive_integer (pe_ingest_seq p) ''ingest_seq'',
      sha256_text (pe_record_sha256 p) ''record_sha256'',
      safe_id (pe_event_type p) ''event_type'',
      positive_integer (pe_event_version p) ''event_version'',
      integer (pe_local_wall_ns p) ''local_wall_ns'',
      integer (pe_local_monotonic_ns p) ''local_monotonic_ns'',
      integer (pe_clock_uncertainty_ns p) ''clock_uncertainty_ns'']"

definition validate_observation_binding ::
  "ExpertParentEvidenceV1 \<Rightarrow> int \<Rightarrow> int \<Rightarrow> string \<Rightarrow> string \<Rightarrow> string \<Rightarrow> exn option" where
  "validate_observation_binding parent index group_size normalizer code schema = first_raise
     [expert_parent_evidence_post_init parent,
      integer index ''parent_output_index'',
      positive_integer group_size ''parent_output_count'',
      contract_error (\<not> (64 < group_size \<or> group_size \<le> index)) ''parent_output'',
      safe_id normalizer ''normalizer_id'',
      sha256_text code ''normalizer_code_sha256'',
      sha256_text schema ''normalizer_schema_sha256'']"

definition parent_time :: "ExpertParentEvidenceV1 \<Rightarrow> PairedTimeObservation" where
  "parent_time p = \<lparr>obs_wall_ns = pe_local_wall_ns p, obs_monotonic_ns = pe_local_monotonic_ns p,
     obs_clock_uncertainty_ns = pe_clock_uncertainty_ns p\<rparr>"

definition expert_synchronization_observation_post_init ::
  "ExpertSynchronizationObservationV1 \<Rightarrow> exn option" where
  "expert_synchronization_observation_post_init x = first_raise
     [validate_observation_binding (so_parent x) (so_parent_output_index x) (so_parent_output_count x)
        (so_normalizer_id x) (so_normalizer_code_sha256 x) (so_normalizer_schema_sha256 x),
      synchronization_input_post_init (so_evidence x),
      paired_time_observation_post_init (so_observation x),
      paired_time_observation_post_init (parent_time (so_parent x)),
      contract_error (so_observation x = parent_time (so_parent x)) ''observation_time'']"

definition expert_ignored_observation_post_init :: "ExpertIgnoredObservationV1 \<Rightarrow> exn option" where
  "expert_ignored_observation_post_init x = first_raise
     [validate_observation_binding (io_parent x) (io_parent_output_index x) (io_parent_output_count x)
        (io_normalizer_id x) (io_normalizer_code_sha256 x) (io_normalizer_schema_sha256 x),
      contract_error (\<not> (io_parent_output_index x \<noteq> 0 \<or> io_parent_output_count x \<noteq> 1))
        ''ignored_observation_shape'']"

definition expert_rejected_observation_post_init :: "ExpertRejectedObservationV1 \<Rightarrow> exn option" where
  "expert_rejected_observation_post_init x = first_raise
     [validate_observation_binding (ro_parent x) (ro_parent_output_index x) (ro_parent_output_count x)
        (ro_normalizer_id x) (ro_normalizer_code_sha256 x) (ro_normalizer_schema_sha256 x),
      contract_error (\<not> (ro_parent_output_index x \<noteq> 0 \<or> ro_parent_output_count x \<noteq> 1))
        ''rejected_observation_shape'']"

fun expert_observation_post_init :: "expert_observation \<Rightarrow> exn option" where
  "expert_observation_post_init (SynchronizationObservation x) = expert_synchronization_observation_post_init x"
| "expert_observation_post_init (IgnoredObservation x) = expert_ignored_observation_post_init x"
| "expert_observation_post_init (RejectedObservation x) = expert_rejected_observation_post_init x"

text \<open>The attributes the members of the union share.\<close>

fun observation_parent :: "expert_observation \<Rightarrow> ExpertParentEvidenceV1" where
  "observation_parent (SynchronizationObservation x) = so_parent x"
| "observation_parent (IgnoredObservation x) = io_parent x"
| "observation_parent (RejectedObservation x) = ro_parent x"

fun observation_index :: "expert_observation \<Rightarrow> int" where
  "observation_index (SynchronizationObservation x) = so_parent_output_index x"
| "observation_index (IgnoredObservation x) = io_parent_output_index x"
| "observation_index (RejectedObservation x) = ro_parent_output_index x"

fun observation_count :: "expert_observation \<Rightarrow> int" where
  "observation_count (SynchronizationObservation x) = so_parent_output_count x"
| "observation_count (IgnoredObservation x) = io_parent_output_count x"
| "observation_count (RejectedObservation x) = ro_parent_output_count x"

fun observation_normalizer :: "expert_observation \<Rightarrow> string \<times> string \<times> string" where
  "observation_normalizer (SynchronizationObservation x) =
     (so_normalizer_id x, so_normalizer_code_sha256 x, so_normalizer_schema_sha256 x)"
| "observation_normalizer (IgnoredObservation x) =
     (io_normalizer_id x, io_normalizer_code_sha256 x, io_normalizer_schema_sha256 x)"
| "observation_normalizer (RejectedObservation x) =
     (ro_normalizer_id x, ro_normalizer_code_sha256 x, ro_normalizer_schema_sha256 x)"

subsection \<open>The state of the expert\<close>

definition expert_state_post_init :: "ExpertStateV1 \<Rightarrow> exn option" where
  "expert_state_post_init s = first_raise
     [schema_version (xs_schema_version s),
      session_id_text (xs_session_id s) ''session_id'',
      sha256_text (xs_expert_manifest_sha256 s) ''expert_manifest_sha256'',
      sha256_text (xs_match_binding_universe_sha256 s) ''match_binding_universe_sha256'',
      sha256_text (xs_sync_policy_sha256 s) ''sync_policy_sha256'',
      sha256_text (xs_initial_synchronization_sha256 s) ''initial_synchronization_sha256'',
      synchronization_session_state_post_init (xs_synchronization s),
      integer (xs_rejected_parent_count s) ''rejected_parent_count'',
      contract_error
        (\<not> (st_universe_sha256 (xs_synchronization s) \<noteq> xs_match_binding_universe_sha256 s
            \<or> st_sync_policy_sha256 (xs_synchronization s) \<noteq> xs_sync_policy_sha256 s
            \<or> xs_halted s \<noteq> (xs_halt_reason s \<noteq> None)
            \<or> (xs_rejected_parent_count s = 0 \<and> xs_halted s))) ''expert_state'']"

definition expert_state_sha256 :: "ExpertStateV1 \<Rightarrow> string result" where
  "expert_state_sha256 s =
     checked (expert_state_post_init s)
       (domain_sha256 (''INCI-EXPERT-STATE-V1'' @ nul) (expert_state_pyval s))"

subsection \<open>Payloads\<close>

definition expert_synchronization_applied_payload_post_init ::
  "ExpertSynchronizationAppliedPayloadV1 \<Rightarrow> exn option" where
  "expert_synchronization_applied_payload_post_init x =
     (let so = apl_observation x; t = apl_transition x
      in first_raise
        [expert_synchronization_observation_post_init so,
         synchronization_transition_result_post_init t,
         contract_error (tx_input t = so_evidence so) ''synchronization_payload'',
         digest_is (expert_contract_sha256 (synchronization_input_pyval (so_evidence so)))
           (tx_input_sha256 t) ''synchronization_payload'',
         contract_error
           (\<not> (tx_observation t \<noteq> so_observation so
               \<or> st_last_observation (tx_state t) \<noteq> Some (so_observation so)))
           ''synchronization_payload''])"

definition expert_observation_ignored_payload_post_init ::
  "ExpertObservationIgnoredPayloadV1 \<Rightarrow> exn option" where
  "expert_observation_ignored_payload_post_init x = expert_ignored_observation_post_init (ipl_observation x)"

definition rejected_synchronization_reasons :: "ExpertRejectReasonV1 set" where
  "rejected_synchronization_reasons =
     {SYNCHRONIZATION_SESSION_DRIFT, REDUCER_EXCEPTION, PRIOR_OUTCOME_HALTED}"

definition expert_observation_rejected_payload_post_init ::
  "ExpertObservationRejectedPayloadV1 \<Rightarrow> exn option" where
  "expert_observation_rejected_payload_post_init x = first_raise
     [expert_observation_post_init (rpl_observation x),
      contract_error
        (case rpl_observation x of
           RejectedObservation r \<Rightarrow> rpl_reason x = ro_reason r
         | SynchronizationObservation s \<Rightarrow> rpl_reason x \<in> rejected_synchronization_reasons
         | IgnoredObservation i \<Rightarrow> rpl_reason x = STATIC_SESSION_HALT) ''rejected_payload'']"

fun expert_payload_post_init :: "expert_payload \<Rightarrow> exn option" where
  "expert_payload_post_init (AppliedPayload x) = expert_synchronization_applied_payload_post_init x"
| "expert_payload_post_init (IgnoredPayload x) = expert_observation_ignored_payload_post_init x"
| "expert_payload_post_init (RejectedPayload x) = expert_observation_rejected_payload_post_init x"

subsection \<open>Outcomes and reductions\<close>

definition event_schema_resource_sha256_v1 :: "(ExpertEventKindV1 \<times> string) list" where
  "event_schema_resource_sha256_v1 =
     [(EK_SYNCHRONIZATION_APPLIED, ''b8a8cdb82ada61385864b88897c58340062304fb4c47c37d5bc3d5481b17e361''),
      (EK_OBSERVATION_IGNORED, ''033edd37c85bb05c8defcd5a2af649246572b8fd48682f80207854da7b2f1f8a''),
      (EK_OBSERVATION_REJECTED, ''8343568ac80eb5072404c2eac50bfe15412490a089c116bcc526ad23058a7137'')]"

definition expert_event_schema_resource_sha256 :: "ExpertEventKindV1 \<Rightarrow> string result" where
  "expert_event_schema_resource_sha256 kind =
     (case filter (\<lambda>(k, digest). k = kind) event_schema_resource_sha256_v1 of
        [(k, digest)] \<Rightarrow> Inr digest
      | _ \<Rightarrow> Inl (ExpertContractError ''event_schema_registry''))"

fun payload_kind :: "expert_payload \<Rightarrow> ExpertEventKindV1" where
  \<comment> \<open>the table from the kind of an event to the class of its payload, read backwards\<close>
  "payload_kind (AppliedPayload x) = EK_SYNCHRONIZATION_APPLIED"
| "payload_kind (IgnoredPayload x) = EK_OBSERVATION_IGNORED"
| "payload_kind (RejectedPayload x) = EK_OBSERVATION_REJECTED"

definition expert_outcome_draft_post_init :: "ExpertOutcomeDraftV1 \<Rightarrow> exn option" where
  "expert_outcome_draft_post_init x = first_raise
     [contract_error (out_event_version x = 1) ''event_version'',
      sha256_text (out_event_schema_sha256 x) ''event_schema_sha256'',
      digest_is (expert_event_schema_resource_sha256 (out_event_kind x)) (out_event_schema_sha256 x)
        ''event_schema_sha256'',
      require (payload_kind (out_payload x) = out_event_kind x) (TypeError ''payload''),
      expert_payload_post_init (out_payload x),
      sha256_text (out_prior_expert_state_sha256 x) ''prior_expert_state_sha256'',
      expert_state_post_init (out_post_state x),
      sha256_text (out_post_expert_state_sha256 x) ''post_expert_state_sha256'',
      digest_is (expert_state_sha256 (out_post_state x)) (out_post_expert_state_sha256 x)
        ''post_expert_state_sha256'']"

fun outcome_chain :: "string \<Rightarrow> ExpertOutcomeDraftV1 list \<Rightarrow> string result" where
  \<comment> \<open>the loop over the outcomes; the value is the last \<open>expected_prior\<close>\<close>
  "outcome_chain expected [] = Inr expected"
| "outcome_chain expected (x # xs) =
     checked (first_raise
         [expert_outcome_draft_post_init x,
          contract_error (out_prior_expert_state_sha256 x = expected) ''outcome_state_chain''])
       (outcome_chain (out_post_expert_state_sha256 x) xs)"

definition expert_reduction_post_init :: "ExpertReductionV1 \<Rightarrow> exn option" where
  "expert_reduction_post_init x = first_raise
     [sha256_text (red_prior_expert_state_sha256 x) ''prior_expert_state_sha256'',
      contract_error (\<not> (red_outcomes x = [] \<or> 64 < length (red_outcomes x))) ''outcomes'',
      (case outcome_chain (red_prior_expert_state_sha256 x) (red_outcomes x) of
         Inl e \<Rightarrow> Some e
       | Inr expected \<Rightarrow> first_raise
           [expert_state_post_init (red_final_state x),
            sha256_text (red_final_expert_state_sha256 x) ''final_expert_state_sha256'',
            contract_error
              (\<not> (out_post_state (last (red_outcomes x)) \<noteq> red_final_state x
                  \<or> expected \<noteq> red_final_expert_state_sha256 x)) ''reduction_final_state'',
            digest_is (expert_state_sha256 (red_final_state x)) (red_final_expert_state_sha256 x)
              ''reduction_final_state'',
            contract_error (red_halt_required x = xs_halted (red_final_state x)) ''reduction_final_state''])]"

end
