(* ===== verification/Reducer.thy ===== *)
theory Reducer
  imports ContractsExpert Synchronizer
begin

text \<open>
  The reducer of \<open>inci_tennis_expert/reducer.py\<close>: it takes the observations derived from one
  parent record and runs the synchronizer on them, one outcome each.  The first observation the synchronizer
  refuses halts the expert; the rest of the group and every later parent are rejected.  A group
  whose payloads are too large for the journal is rejected as a whole.  Every call of a
  contract's constructor is \<open>construct\<close> with its validator.
\<close>

definition max_event_payload_bytes :: nat where
  "max_event_payload_bytes = 131064"

definition max_group_payload_area_bytes :: nat where
  "max_group_payload_area_bytes = 8388608"

subsection \<open>Building states and outcomes\<close>

definition state_with_synchronization ::
  "ExpertStateV1 \<Rightarrow> SynchronizationSessionState \<Rightarrow> ExpertStateV1 result" where
  "state_with_synchronization prior st =
     construct expert_state_post_init (prior\<lparr>xs_synchronization := st\<rparr>)"

definition halted_state :: "ExpertStateV1 \<Rightarrow> ExpertRejectReasonV1 \<Rightarrow> bool \<Rightarrow> ExpertStateV1 result" where
  "halted_state prior reason increment =
     construct expert_state_post_init
       (prior\<lparr>xs_rejected_parent_count := xs_rejected_parent_count prior + (if increment then 1 else 0),
              xs_halted := True,
              xs_halt_reason := (case xs_halt_reason prior of None \<Rightarrow> Some reason | Some r \<Rightarrow> Some r)\<rparr>)"

definition make_outcome ::
  "ExpertEventKindV1 \<Rightarrow> expert_payload \<Rightarrow> string \<Rightarrow> ExpertStateV1 \<Rightarrow> ExpertOutcomeDraftV1 result" where
  "make_outcome kind payload prior_sha post =
     bind_result (expert_event_schema_resource_sha256 kind) (\<lambda>schema.
     bind_result (expert_state_sha256 post) (\<lambda>post_sha.
       construct expert_outcome_draft_post_init
         \<lparr>out_event_kind = kind, out_event_version = 1, out_event_schema_sha256 = schema,
          out_payload = payload, out_prior_expert_state_sha256 = prior_sha, out_post_state = post,
          out_post_expert_state_sha256 = post_sha\<rparr>))"

definition rejected_outcome ::
  "expert_observation \<Rightarrow> ExpertRejectReasonV1 \<Rightarrow> string \<Rightarrow> ExpertStateV1 \<Rightarrow> ExpertOutcomeDraftV1 result" where
  "rejected_outcome observation reason prior_sha post =
     bind_result (construct expert_observation_rejected_payload_post_init
         \<lparr>rpl_observation = observation, rpl_reason = reason\<rparr>) (\<lambda>payload.
       make_outcome EK_OBSERVATION_REJECTED (RejectedPayload payload) prior_sha post)"

subsection \<open>The group of observations of a parent\<close>

fun is_synchronization_observation :: "expert_observation \<Rightarrow> bool" where
  "is_synchronization_observation (SynchronizationObservation x) = True"
| "is_synchronization_observation _ = False"

fun observations_bound :: "ExpertParentEvidenceV1 \<Rightarrow> int \<Rightarrow> int \<Rightarrow> expert_observation list \<Rightarrow> exn option" where
  "observations_bound parent group_size index [] = None"
| "observations_bound parent group_size index (x # xs) = first_raise
     [expert_observation_post_init x,
      contract_error
        (\<not> (observation_parent x \<noteq> parent \<or> observation_index x \<noteq> index \<or> observation_count x \<noteq> group_size))
        ''observation_group_shape'',
      observations_bound parent group_size (index + 1) xs]"

definition validate_observation_group :: "expert_observation list \<Rightarrow> expert_observation result" where
  \<comment> \<open>the value is the first observation, whose class is the shape the code returns\<close>
  "validate_observation_group observations =
     (case observations of
        [] \<Rightarrow> Inl (ExpertContractError ''observation_group_shape'')
      | first # rest \<Rightarrow>
          checked (first_raise
            [contract_error (\<not> 64 < length observations) ''observation_group_shape'',
             contract_error
               (if is_synchronization_observation first
                then list_all is_synchronization_observation observations
                else length observations = 1) ''observation_group_shape'',
             observations_bound (observation_parent first) (int (length observations)) 0 observations])
            (Inr first))"

subsection \<open>Rejecting a parent\<close>

definition rejected_from_observation ::
  "expert_observation \<Rightarrow> ExpertRejectReasonV1 \<Rightarrow> expert_observation result" where
  "rejected_from_observation observation reason =
     (if is_synchronization_observation observation
         \<and> reason \<in> {SYNCHRONIZATION_SESSION_DRIFT, REDUCER_EXCEPTION, PRIOR_OUTCOME_HALTED}
      then Inr observation
      else (let (normalizer, code, schema) = observation_normalizer observation
            in bind_result (construct expert_rejected_observation_post_init
                 \<lparr>ro_parent = observation_parent observation, ro_parent_output_index = 0,
                  ro_parent_output_count = 1, ro_normalizer_id = normalizer, ro_normalizer_code_sha256 = code,
                  ro_normalizer_schema_sha256 = schema, ro_reason = reason\<rparr>)
               (\<lambda>r. Inr (RejectedObservation r))))"

definition single_rejection ::
  "ExpertStateV1 \<Rightarrow> expert_observation \<Rightarrow> ExpertRejectReasonV1 \<Rightarrow> ExpertReductionV1 result" where
  "single_rejection prior observation reason =
     bind_result (expert_state_sha256 prior) (\<lambda>prior_sha.
     bind_result (halted_state prior reason True) (\<lambda>post.
     bind_result (rejected_from_observation observation reason) (\<lambda>rejected.
     bind_result (rejected_outcome rejected reason prior_sha post) (\<lambda>outcome.
     bind_result (expert_state_sha256 post) (\<lambda>post_sha.
       construct expert_reduction_post_init
         \<lparr>red_prior_expert_state_sha256 = prior_sha, red_outcomes = [outcome], red_final_state = post,
          red_final_expert_state_sha256 = post_sha, red_halt_required = True\<rparr>)))))"

definition capacity_exceeded :: "ExpertStateV1 \<Rightarrow> expert_observation \<Rightarrow> ExpertReductionV1 result" where
  "capacity_exceeded prior observation = single_rejection prior observation GROUP_CAPACITY_EXCEEDED"

subsection \<open>Running the synchronizer\<close>

definition replayed_transition ::
  "ExpertStateV1 \<Rightarrow> ExpertSynchronizationObservationV1 \<Rightarrow> SynchronizationTransitionResult result" where
  \<comment> \<open>the body of the \<open>try\<close>\<close>
  "replayed_transition s x =
     bind_result (synchronize (xs_synchronization s) (so_evidence x) (so_observation x)) (\<lambda>t.
     bind_result (validate_synchronization_transition (xs_synchronization s) t) (\<lambda>_. Inr t))"

definition exception_reason :: "exn \<Rightarrow> ExpertRejectReasonV1" where
  \<comment> \<open>\<open>except SynchronizationSessionDriftError\<close>, then \<open>except Exception\<close>\<close>
  "exception_reason e =
     (if e = SynchronizationSessionDriftError then SYNCHRONIZATION_SESSION_DRIFT else REDUCER_EXCEPTION)"

definition applied_outcome ::
  "ExpertStateV1 \<Rightarrow> ExpertSynchronizationObservationV1 \<Rightarrow> SynchronizationTransitionResult \<Rightarrow> string
     \<Rightarrow> (ExpertOutcomeDraftV1 \<times> ExpertStateV1) option result" where
  \<comment> \<open>the \<open>else\<close> branch; \<open>None\<close> is the early return of a payload or a state that is too large\<close>
  "applied_outcome s x t current_sha =
     bind_result (state_with_synchronization s (tx_state t)) (\<lambda>candidate.
     bind_result (construct expert_synchronization_applied_payload_post_init
         \<lparr>apl_observation = x, apl_transition = t\<rparr>) (\<lambda>payload.
     bind_result (canonical_expert_bytes (expert_synchronization_applied_payload_pyval payload)) (\<lambda>payload_bytes.
     if max_event_payload_bytes < length payload_bytes then Inr None
     else bind_result (canonical_expert_bytes (expert_state_pyval candidate)) (\<lambda>state_bytes.
     if max_event_payload_bytes < length state_bytes then Inr None
     else bind_result (make_outcome EK_SYNCHRONIZATION_APPLIED (AppliedPayload payload) current_sha candidate)
       (\<lambda>outcome. Inr (Some (outcome, candidate)))))))"

definition observation_outcome ::
  "ExpertStateV1 \<Rightarrow> bool \<Rightarrow> expert_observation
     \<Rightarrow> (ExpertOutcomeDraftV1 \<times> ExpertStateV1 \<times> bool) option result" where
  \<comment> \<open>the body of the loop; the flag is \<open>halted_in_parent\<close>\<close>
  "observation_outcome s halted observation =
     (case observation of
        SynchronizationObservation x \<Rightarrow>
          bind_result (expert_state_sha256 s) (\<lambda>current_sha.
          if halted then
            bind_result (rejected_outcome observation PRIOR_OUTCOME_HALTED current_sha s)
              (\<lambda>outcome. Inr (Some (outcome, s, True)))
          else
            (case replayed_transition s x of
               Inr t \<Rightarrow>
                 bind_result (applied_outcome s x t current_sha) (\<lambda>r.
                   Inr (map_option (\<lambda>(outcome, candidate). (outcome, candidate, False)) r))
             | Inl e \<Rightarrow>
                 bind_result (halted_state s (exception_reason e) True) (\<lambda>post.
                 bind_result (rejected_outcome observation (exception_reason e) current_sha post)
                   (\<lambda>outcome. Inr (Some (outcome, post, True))))))
      | _ \<Rightarrow> Inl AssertionError)"

fun reduce_observations ::
  "ExpertStateV1 \<Rightarrow> bool \<Rightarrow> expert_observation list
     \<Rightarrow> (ExpertOutcomeDraftV1 list \<times> ExpertStateV1) option result" where
  "reduce_observations s halted [] = Inr (Some ([], s))"
| "reduce_observations s halted (x # xs) =
     bind_result (observation_outcome s halted x) (\<lambda>r.
       case r of
         None \<Rightarrow> Inr None
       | Some (outcome, s', halted') \<Rightarrow>
           bind_result (reduce_observations s' halted' xs) (\<lambda>rest.
             Inr (map_option (\<lambda>(outcomes, final). (outcome # outcomes, final)) rest)))"

subsection \<open>One parent\<close>

definition reduce_ignored :: "ExpertStateV1 \<Rightarrow> ExpertIgnoredObservationV1 \<Rightarrow> string \<Rightarrow> ExpertReductionV1 result" where
  "reduce_ignored s x prior_sha =
     bind_result (construct expert_observation_ignored_payload_post_init \<lparr>ipl_observation = x\<rparr>) (\<lambda>payload.
     bind_result (make_outcome EK_OBSERVATION_IGNORED (IgnoredPayload payload) prior_sha s) (\<lambda>outcome.
       construct expert_reduction_post_init
         \<lparr>red_prior_expert_state_sha256 = prior_sha, red_outcomes = [outcome], red_final_state = s,
          red_final_expert_state_sha256 = prior_sha, red_halt_required = False\<rparr>))"

definition reduce_synchronizations ::
  "ExpertStateV1 \<Rightarrow> expert_observation \<Rightarrow> expert_observation list \<Rightarrow> string \<Rightarrow> ExpertReductionV1 result" where
  "reduce_synchronizations s first observations prior_sha =
     bind_result (reduce_observations s False observations) (\<lambda>r.
       case r of
         None \<Rightarrow> capacity_exceeded s first
       | Some (outcomes, final) \<Rightarrow>
           bind_result (map_result (\<lambda>x. canonical_expert_bytes (expert_payload_pyval (out_payload x))) outcomes)
             (\<lambda>payloads.
             let sizes = map length payloads
             in if list_ex (\<lambda>size. max_event_payload_bytes < size) sizes
                   \<or> max_group_payload_area_bytes < sum_list (map (\<lambda>size. 8 + size) sizes)
                then capacity_exceeded s first
                else bind_result (expert_state_sha256 final) (\<lambda>final_sha.
                  construct expert_reduction_post_init
                    \<lparr>red_prior_expert_state_sha256 = prior_sha, red_outcomes = outcomes,
                     red_final_state = final, red_final_expert_state_sha256 = final_sha,
                     red_halt_required = xs_halted final\<rparr>)))"

definition reduce_expert_parent :: "ExpertStateV1 \<Rightarrow> expert_observation list \<Rightarrow> ExpertReductionV1 result" where
  "reduce_expert_parent s observations =
     checked (expert_state_post_init s)
       (bind_result (validate_observation_group observations) (\<lambda>first.
        if pe_session_id (observation_parent first) \<noteq> xs_session_id s then
          Inl (ExpertContractError ''parent_session'')
        else if xs_halted s then single_rejection s first PRIOR_GROUP_HALTED
        else
          bind_result (expert_state_sha256 s) (\<lambda>prior_sha.
            case first of
              IgnoredObservation x \<Rightarrow> reduce_ignored s x prior_sha
            | RejectedObservation x \<Rightarrow> single_rejection s first (ro_reason x)
            | SynchronizationObservation x \<Rightarrow> reduce_synchronizations s first observations prior_sha)))"

end
