(* ===== verification/ReducerRuns.thy ===== *)
theory ReducerRuns
  imports Reducer SyncRuns
begin

text \<open>
  What one reduction does to the state of the expert.  \<open>reduce_expert_parent_cases\<close> splits a
  reduction that returned into the five ways the code can return; \<open>reduce_observations_run\<close> says
  what the loop over a group does in terms of the synchronizer alone; \<open>experts\<close> is the contract of
  the reducer for runs over many parents.
\<close>

subsection \<open>The invariant and the events\<close>

definition expert_inv :: "ExpertStateV1 \<Rightarrow> bool" where
  "expert_inv s \<longleftrightarrow> expert_state_post_init s = None \<and> session_inv (xs_synchronization s)"

definition observation_event :: "ExpertSynchronizationObservationV1 \<Rightarrow> SynchronizationInput \<times> PairedTimeObservation" where
  "observation_event x = (so_evidence x, so_observation x)"

fun observation_ok :: "expert_observation \<Rightarrow> bool" where
  \<comment> \<open>the events inside the evidence were built by their constructors\<close>
  "observation_ok (SynchronizationObservation x) = sync_event_ok (observation_event x)"
| "observation_ok _ = True"

definition halted_of :: "ExpertStateV1 \<Rightarrow> ExpertRejectReasonV1 \<Rightarrow> ExpertStateV1" where
  "halted_of s reason = s\<lparr>xs_rejected_parent_count := xs_rejected_parent_count s + 1, xs_halted := True,
     xs_halt_reason := (case xs_halt_reason s of None \<Rightarrow> Some reason | Some r \<Rightarrow> Some r)\<rparr>"

lemma halted_of_simps [simp]:
  "xs_synchronization (halted_of s r) = xs_synchronization s"
  "xs_rejected_parent_count (halted_of s r) = xs_rejected_parent_count s + 1"
  "xs_halted (halted_of s r)"
  "xs_halt_reason (halted_of s r) \<noteq> None"
  by (auto simp: halted_of_def split: option.split)

lemma halted_state_ok: "halted_state s reason True = Inr p \<Longrightarrow> p = halted_of s reason \<and> expert_state_post_init p = None"
  by (auto simp: halted_state_def halted_of_def)

lemma expert_state_sha256_ok: "expert_state_sha256 s = Inr d \<Longrightarrow> expert_state_post_init s = None"
  by (simp add: expert_state_sha256_def checked_eq_Inr)

subsection \<open>Outcomes\<close>

text \<open>What an outcome records of the decision: nothing when the evidence was applied or
  ignored, the reason when it was rejected.\<close>

fun payload_reason :: "expert_payload \<Rightarrow> ExpertRejectReasonV1 option" where
  "payload_reason (AppliedPayload p) = None"
| "payload_reason (IgnoredPayload p) = None"
| "payload_reason (RejectedPayload p) = Some (rpl_reason p)"

definition outcome_reason :: "ExpertOutcomeDraftV1 \<Rightarrow> ExpertRejectReasonV1 option" where
  "outcome_reason x = payload_reason (out_payload x)"

fun payload_observation :: "expert_payload \<Rightarrow> expert_observation" where
  "payload_observation (AppliedPayload p) = SynchronizationObservation (apl_observation p)"
| "payload_observation (IgnoredPayload p) = IgnoredObservation (ipl_observation p)"
| "payload_observation (RejectedPayload p) = rpl_observation p"

definition outcome_observation :: "ExpertOutcomeDraftV1 \<Rightarrow> expert_observation" where
  "outcome_observation x = payload_observation (out_payload x)"

lemma make_outcome_ok:
  assumes "make_outcome kind payload d post = Inr x"
  shows "out_payload x = payload" "out_post_state x = post" "out_prior_expert_state_sha256 x = d"
    "expert_state_post_init post = None"
  using assms by (auto simp: make_outcome_def bind_result_eq_Inr dest: expert_state_sha256_ok)

lemma rejected_outcome_ok:
  assumes "rejected_outcome observation reason d post = Inr x"
  shows "outcome_reason x = Some reason" "outcome_observation x = observation" "out_post_state x = post"
    "expert_state_post_init post = None"
  using assms
  by (auto simp: rejected_outcome_def outcome_reason_def outcome_observation_def bind_result_eq_Inr dest: make_outcome_ok)

lemma single_rejection_ok:
  assumes "single_rejection s observation reason = Inr x"
  obtains r where "red_outcomes x = [r]" "outcome_reason r = Some reason" "out_post_state r = halted_of s reason"
    "red_final_state x = halted_of s reason" "expert_state_post_init (halted_of s reason) = None" "red_halt_required x"
proof -
  from assms obtain d post rejected r e where *: "halted_state s reason True = Inr post"
    "rejected_outcome rejected reason d post = Inr r"
    "x = \<lparr>red_prior_expert_state_sha256 = d, red_outcomes = [r], red_final_state = post,
          red_final_expert_state_sha256 = e, red_halt_required = True\<rparr>"
    by (auto simp: single_rejection_def bind_result_eq_Inr)
  then show thesis
    using that halted_state_ok[OF *(1)] rejected_outcome_ok[OF *(2)] by simp
qed

subsection \<open>The loop over a group\<close>

lemma replayed_transition_eq:
  "replayed_transition s x = synchronize (xs_synchronization s) (so_evidence x) (so_observation x)"
proof (cases "synchronize (xs_synchronization s) (so_evidence x) (so_observation x)")
  case (Inr t)
  then show ?thesis using synchronize_validates[OF Inr] by (simp add: replayed_transition_def)
qed (simp add: replayed_transition_def)

lemma applied_outcome_ok:
  assumes "applied_outcome s x t d = Inr (Some (out, s'))"
  shows "s' = s\<lparr>xs_synchronization := tx_state t\<rparr>" "expert_state_post_init s' = None"
    "outcome_reason out = None" "outcome_observation out = SynchronizationObservation x" "out_post_state out = s'"
proof -
  from assms obtain p where *: "s' = s\<lparr>xs_synchronization := tx_state t\<rparr>" "expert_state_post_init s' = None"
    "p = \<lparr>apl_observation = x, apl_transition = t\<rparr>"
    "make_outcome EK_SYNCHRONIZATION_APPLIED (AppliedPayload p) d s' = Inr out"
    by (auto simp: applied_outcome_def bind_result_eq_Inr state_with_synchronization_def split: if_splits)
  then show "s' = s\<lparr>xs_synchronization := tx_state t\<rparr>" "expert_state_post_init s' = None" by simp_all
  show "outcome_reason out = None" "outcome_observation out = SynchronizationObservation x" "out_post_state out = s'"
    using make_outcome_ok[OF *(4)] *(3) by (simp_all add: outcome_reason_def outcome_observation_def)
qed

lemma observation_outcome_cases:
  assumes "observation_outcome s halted o' = Inr (Some (out, s', h))"
  obtains (passed) "halted" "h" "s' = s" "outcome_reason out = Some PRIOR_OUTCOME_HALTED"
      "outcome_observation out = o'"
  | (applied) x t where "\<not> halted" "\<not> h" "o' = SynchronizationObservation x"
      "synchronize (xs_synchronization s) (so_evidence x) (so_observation x) = Inr t"
      "s' = s\<lparr>xs_synchronization := tx_state t\<rparr>" "expert_state_post_init s' = None"
      "outcome_reason out = None" "outcome_observation out = o'"
  | (refused) x e where "\<not> halted" "h" "o' = SynchronizationObservation x"
      "synchronize (xs_synchronization s) (so_evidence x) (so_observation x) = Inl e"
      "s' = halted_of s (exception_reason e)" "expert_state_post_init s' = None"
      "outcome_reason out = Some (exception_reason e)" "outcome_observation out = o'"
proof -
  from assms obtain x d where x: "o' = SynchronizationObservation x" "expert_state_sha256 s = Inr d"
    by (auto simp: observation_outcome_def bind_result_eq_Inr split: expert_observation.splits)
  show thesis
  proof (cases halted)
    case True
    then have "rejected_outcome o' PRIOR_OUTCOME_HALTED d s = Inr out" "s' = s" "h"
      using assms x by (auto simp: observation_outcome_def bind_result_eq_Inr)
    then show thesis using passed True rejected_outcome_ok by blast
  next
    case False
    show thesis
    proof (cases "synchronize (xs_synchronization s) (so_evidence x) (so_observation x)")
      case (Inl e)
      then have *: "rejected_outcome o' (exception_reason e) d s' = Inr out" "h"
        "halted_state s (exception_reason e) True = Inr s'"
        using assms x False by (auto simp: observation_outcome_def bind_result_eq_Inr replayed_transition_eq)
      show thesis
        using refused[OF False *(2) x(1) Inl] halted_state_ok[OF *(3)] rejected_outcome_ok[OF *(1)] by simp
    next
      case (Inr t)
      then have *: "applied_outcome s x t d = Inr (Some (out, s'))" "\<not> h"
        using assms x False by (auto simp: observation_outcome_def bind_result_eq_Inr replayed_transition_eq)
      show thesis
        using applied[OF False *(2) x(1) Inr] applied_outcome_ok[OF *(1)] x(1) by simp
    qed
  qed
qed

lemma reduce_observations_Cons:
  assumes "reduce_observations s halted (x # xs) = Inr (Some (outs, final))"
  obtains out s' h rest where "observation_outcome s halted x = Inr (Some (out, s', h))"
    "reduce_observations s' h xs = Inr (Some (rest, final))" "outs = out # rest"
  using assms by (auto simp: bind_result_eq_Inr split: option.splits)

lemma reduce_observations_halted:
  assumes "reduce_observations s True xs = Inr (Some (outs, final))"
  shows "final = s \<and> map outcome_observation outs = xs
     \<and> map outcome_reason outs = replicate (length xs) (Some PRIOR_OUTCOME_HALTED)"
  using assms
proof (induction xs arbitrary: outs)
  case (Cons x xs)
  from Cons.prems show ?case
  proof (cases rule: reduce_observations_Cons)
    case (1 out s' h rest)
    from 1(1) show ?thesis
      by (cases rule: observation_outcome_cases) (use Cons.IH 1 in auto)
  qed
qed simp

text \<open>
  The group as the synchronizer sees it: the evidence is run up to the first step that raises.
  \<open>group_run st xs\<close> is the number of steps that returned, the session they reached and the
  exception of the next step, if there is one.
\<close>

fun group_run ::
  "SynchronizationSessionState \<Rightarrow> ExpertSynchronizationObservationV1 list
     \<Rightarrow> nat \<times> SynchronizationSessionState \<times> exn option" where
  "group_run st [] = (0, st, None)"
| "group_run st (x # xs) =
     (case sync_step st (observation_event x) of
        Inl e \<Rightarrow> (0, st, Some e)
      | Inr st' \<Rightarrow> (let (k, reached, e) = group_run st' xs in (Suc k, reached, e)))"

lemma group_run_steps:
  assumes "group_run st xs = (k, reached, e)"
  shows "run_steps sync_step st (map observation_event (take k xs)) = Inr reached \<and> k \<le> length xs
     \<and> (e = None \<longleftrightarrow> k = length xs)
     \<and> (\<forall>e'. e = Some e' \<longrightarrow> sync_step reached (observation_event (xs ! k)) = Inl e')"
  using assms
proof (induction xs arbitrary: st k)
  case (Cons x xs)
  show ?case
  proof (cases "sync_step st (observation_event x)")
    case (Inl e')
    then show ?thesis using Cons.prems by auto
  next
    case (Inr st')
    obtain k' where "group_run st' xs = (k', reached, e)" "k = Suc k'"
      using Cons.prems Inr by (auto simp: Let_def split: prod.splits)
    then show ?thesis using Cons.IH[of st' k'] Inr by simp
  qed
qed auto

text \<open>The state and the reasons a group leaves.\<close>

definition group_final :: "ExpertStateV1 \<Rightarrow> SynchronizationSessionState \<Rightarrow> exn option \<Rightarrow> ExpertStateV1" where
  "group_final s reached e =
     (case e of None \<Rightarrow> s\<lparr>xs_synchronization := reached\<rparr>
      | Some e' \<Rightarrow> halted_of (s\<lparr>xs_synchronization := reached\<rparr>) (exception_reason e'))"

definition group_reasons :: "nat \<Rightarrow> nat \<Rightarrow> exn option \<Rightarrow> ExpertRejectReasonV1 option list" where
  "group_reasons n k e = replicate k None
     @ (case e of None \<Rightarrow> [] | Some e' \<Rightarrow> Some (exception_reason e') # replicate (n - Suc k) (Some PRIOR_OUTCOME_HALTED))"

lemma group_final_step: "group_final (s\<lparr>xs_synchronization := st\<rparr>) reached e = group_final s reached e"
  by (simp add: group_final_def halted_of_def split: option.split)

lemma group_reasons_Suc: "group_reasons (Suc n) (Suc k) e = None # group_reasons n k e"
  by (cases e) (simp_all add: group_reasons_def)

lemma reduce_observations_run:
  assumes "reduce_observations s False (map SynchronizationObservation xs) = Inr (Some (outs, final))"
    and "group_run (xs_synchronization s) xs = (k, reached, e)"
  shows "final = group_final s reached e \<and> map outcome_observation outs = map SynchronizationObservation xs
     \<and> map outcome_reason outs = group_reasons (length xs) k e"
  using assms
proof (induction xs arbitrary: s outs k)
  case Nil
  then show ?case by (auto simp: group_final_def group_reasons_def)
next
  case (Cons x xs)
  from Cons.prems(1) have "reduce_observations s False (SynchronizationObservation x # map SynchronizationObservation xs)
    = Inr (Some (outs, final))" by simp
  then show ?case
  proof (cases rule: reduce_observations_Cons)
    case (1 out s' h rest)
    from 1(1) show ?thesis
    proof (cases rule: observation_outcome_cases)
      case (applied y t)
      then have st: "sync_step (xs_synchronization s) (observation_event x) = Inr (tx_state t)"
        by (simp add: sync_step_def observation_event_def)
      then obtain k' where k: "group_run (xs_synchronization s') xs = (k', reached, e)" "k = Suc k'"
        using Cons.prems(2) applied(5) by (auto simp: Let_def split: prod.splits)
      have "reduce_observations s' False (map SynchronizationObservation xs) = Inr (Some (rest, final))"
        using 1(2) applied(2) by simp
      from Cons.IH[OF this k(1)] show ?thesis
        using 1(3) applied k(2) by (simp add: group_final_step group_reasons_Suc)
    next
      case (refused y e')
      then have "sync_step (xs_synchronization s) (observation_event x) = Inl e'"
        by (simp add: sync_step_def observation_event_def)
      then have k: "k = 0" "reached = xs_synchronization s" "e = Some e'" using Cons.prems(2) by auto
      have "reduce_observations s' True (map SynchronizationObservation xs) = Inr (Some (rest, final))"
        using 1(2) refused(2) by simp
      from reduce_observations_halted[OF this] show ?thesis
        using 1(3) refused k by (simp add: group_final_def group_reasons_def)
    qed simp
  qed
qed

subsection \<open>The ways a reduction returns\<close>

lemma synchronization_group:
  "list_all is_synchronization_observation os \<Longrightarrow> \<exists>xs. os = map SynchronizationObservation xs"
proof (induction os)
  case (Cons x os)
  then obtain xs where "os = map SynchronizationObservation xs" by auto
  moreover obtain y where "x = SynchronizationObservation y" using Cons.prems by (cases x) auto
  ultimately show ?case by (intro exI[of _ "y # xs"]) simp
qed simp

lemma validate_observation_group_ok:
  assumes "validate_observation_group os = Inr first"
  obtains rest where "os = first # rest" "length os \<le> 64"
    "observations_bound (observation_parent first) (int (length os)) 0 os = None"
    "if is_synchronization_observation first then list_all is_synchronization_observation os else rest = []"
proof -
  from assms obtain rest where os: "os = first # rest"
    by (auto simp: validate_observation_group_def checked_eq_Inr split: list.splits)
  have "length os \<le> 64 \<and> observations_bound (observation_parent first) (int (length os)) 0 os = None
    \<and> (if is_synchronization_observation first then list_all is_synchronization_observation os else length os = 1)"
    using assms unfolding os validate_observation_group_def list.case checked_eq_Inr
    by (cases "is_synchronization_observation first") simp_all
  then show thesis using that[OF os] os by (cases "is_synchronization_observation first") simp_all
qed

text \<open>The payloads of the outcomes fit the journal.\<close>

definition payload_size :: "ExpertOutcomeDraftV1 \<Rightarrow> nat" where
  "payload_size x =
     (case canonical_expert_bytes (expert_payload_pyval (out_payload x)) of Inl e \<Rightarrow> 0 | Inr b \<Rightarrow> length b)"

definition group_fits :: "ExpertOutcomeDraftV1 list \<Rightarrow> bool" where
  "group_fits xs \<longleftrightarrow> list_all (\<lambda>x. payload_size x \<le> max_event_payload_bytes) xs
     \<and> sum_list (map (\<lambda>x. 8 + payload_size x) xs) \<le> max_group_payload_area_bytes"

definition group_too_large :: "ExpertStateV1 \<Rightarrow> expert_observation list \<Rightarrow> bool" where
  \<comment> \<open>running the group meets a payload or a state above its bound, or ends with payloads above theirs\<close>
  "group_too_large s os \<longleftrightarrow>
     (case reduce_observations s False os of
        Inr None \<Rightarrow> True
      | Inr (Some (outcomes, final)) \<Rightarrow> \<not> group_fits outcomes
      | Inl e \<Rightarrow> False)"

lemma payload_sizes:
  "map_result (\<lambda>x. canonical_expert_bytes (expert_payload_pyval (out_payload x))) outs = Inr bs
     \<Longrightarrow> map length bs = map payload_size outs"
  by (induction outs arbitrary: bs) (auto simp: bind_result_eq_Inr payload_size_def)

lemma reduce_synchronizations_cases:
  assumes "reduce_synchronizations s first os d = Inr x"
  obtains (capacity) "single_rejection s first GROUP_CAPACITY_EXCEEDED = Inr x" "group_too_large s os"
  | (run) "reduce_observations s False os = Inr (Some (red_outcomes x, red_final_state x))"
      "group_fits (red_outcomes x)" "red_halt_required x = xs_halted (red_final_state x)"
proof -
  from assms obtain r where r: "reduce_observations s False os = Inr r"
    by (auto simp: reduce_synchronizations_def bind_result_eq_Inr)
  show thesis
  proof (cases r)
    case None
    then show thesis using assms r capacity by (simp add: reduce_synchronizations_def capacity_exceeded_def group_too_large_def)
  next
    case (Some p)
    obtain outs final where p: "p = (outs, final)" by (cases p)
    obtain bs where bs: "map_result (\<lambda>x. canonical_expert_bytes (expert_payload_pyval (out_payload x))) outs = Inr bs"
      using assms r Some p by (auto simp: reduce_synchronizations_def bind_result_eq_Inr)
    have sizes: "list_ex (\<lambda>size. max_event_payload_bytes < size) (map length bs)
        \<or> max_group_payload_area_bytes < sum_list (map (\<lambda>size. 8 + size) (map length bs)) \<longleftrightarrow> \<not> group_fits outs"
      unfolding payload_sizes[OF bs]
      by (auto simp: group_fits_def list_ex_iff list_all_iff comp_def not_le)
    show thesis
    proof (cases "group_fits outs")
      case True
      then show thesis
        using assms r Some p bs sizes run
        by (auto simp: reduce_synchronizations_def bind_result_eq_Inr Let_def)
    next
      case False
      then show thesis
        using assms r Some p bs sizes capacity
        by (simp add: reduce_synchronizations_def capacity_exceeded_def group_too_large_def Let_def)
    qed
  qed
qed

lemma reduce_expert_parent_cases:
  assumes "reduce_expert_parent s os = Inr x"
  obtains (halted) r where "xs_halted s" "red_outcomes x = [r]" "outcome_reason r = Some PRIOR_GROUP_HALTED"
      "red_final_state x = halted_of s PRIOR_GROUP_HALTED" "expert_state_post_init (red_final_state x) = None"
  | (ignored) y r where "\<not> xs_halted s" "os = [IgnoredObservation y]" "red_outcomes x = [r]" "outcome_reason r = None"
      "outcome_observation r = IgnoredObservation y" "red_final_state x = s"
  | (rejected) y r where "\<not> xs_halted s" "os = [RejectedObservation y]" "red_outcomes x = [r]"
      "outcome_reason r = Some (ro_reason y)"
      "red_final_state x = halted_of s (ro_reason y)" "expert_state_post_init (red_final_state x) = None"
  | (capacity) xs r where "\<not> xs_halted s" "os = map SynchronizationObservation xs" "red_outcomes x = [r]"
      "outcome_reason r = Some GROUP_CAPACITY_EXCEEDED"
      "red_final_state x = halted_of s GROUP_CAPACITY_EXCEEDED" "expert_state_post_init (red_final_state x) = None"
      "group_too_large s os"
  | (run) xs where "\<not> xs_halted s" "os = map SynchronizationObservation xs"
      "reduce_observations s False os = Inr (Some (red_outcomes x, red_final_state x))"
      "group_fits (red_outcomes x)"
proof -
  from assms obtain first where v: "validate_observation_group os = Inr first"
    and run_: "\<not> xs_halted s \<Longrightarrow> \<exists>d. (case first of
              IgnoredObservation y \<Rightarrow> reduce_ignored s y d
            | RejectedObservation y \<Rightarrow> single_rejection s first (ro_reason y)
            | SynchronizationObservation y \<Rightarrow> reduce_synchronizations s first os d) = Inr x"
    and h: "xs_halted s \<Longrightarrow> single_rejection s first PRIOR_GROUP_HALTED = Inr x"
    unfolding reduce_expert_parent_def by (auto simp: checked_eq_Inr bind_result_eq_Inr split: if_splits)
  from v obtain rest where os: "os = first # rest" "if is_synchronization_observation first
      then list_all is_synchronization_observation os else rest = []"
    by (rule validate_observation_group_ok)
  show thesis
  proof (cases "xs_halted s")
    case True
    from single_rejection_ok[OF h[OF True]] show thesis using halted True by metis
  next
    case False
    then obtain d where d: "(case first of
              IgnoredObservation y \<Rightarrow> reduce_ignored s y d
            | RejectedObservation y \<Rightarrow> single_rejection s first (ro_reason y)
            | SynchronizationObservation y \<Rightarrow> reduce_synchronizations s first os d) = Inr x"
      using run_ by blast
    show thesis
    proof (cases first)
      case (SynchronizationObservation y)
      then obtain xs where xs: "os = map SynchronizationObservation xs"
        using os(2) synchronization_group by auto
      from d SynchronizationObservation have "reduce_synchronizations s first os d = Inr x" by simp
      then show thesis
      proof (cases rule: reduce_synchronizations_cases)
        case capacity
        from single_rejection_ok[OF this(1)] this(2) show thesis using \<open>\<not> xs_halted s\<close> xs that(4) by metis
      next
        case run
        then show thesis using \<open>\<not> xs_halted s\<close> xs that(5) by metis
      qed
    next
      case (IgnoredObservation y)
      then obtain p r where "make_outcome EK_OBSERVATION_IGNORED (IgnoredPayload p) d s = Inr r" "ipl_observation p = y"
        "red_outcomes x = [r]" "red_final_state x = s"
        using d by (auto simp: reduce_ignored_def bind_result_eq_Inr)
      then show thesis
        using ignored[OF False] make_outcome_ok[of _ "IgnoredPayload p"] os IgnoredObservation
        by (simp add: outcome_reason_def outcome_observation_def)
    next
      case (RejectedObservation y)
      then have "single_rejection s first (ro_reason y) = Inr x" using d by simp
      from single_rejection_ok[OF this] show thesis
        using rejected[OF False] os RejectedObservation by (metis is_synchronization_observation.simps(3))
    qed
  qed
qed

subsection \<open>Runs over parents\<close>

definition reduce_step :: "ExpertStateV1 \<Rightarrow> expert_observation list \<Rightarrow> ExpertStateV1 result" where
  "reduce_step s os = bind_result (reduce_expert_parent s os) (\<lambda>x. Inr (red_final_state x))"

definition same_expert :: "ExpertStateV1 \<Rightarrow> ExpertStateV1 \<Rightarrow> bool" where
  "same_expert s s' \<longleftrightarrow>
     xs_schema_version s' = xs_schema_version s \<and> xs_session_id s' = xs_session_id s
     \<and> xs_expert_manifest_sha256 s' = xs_expert_manifest_sha256 s
     \<and> xs_match_binding_universe_sha256 s' = xs_match_binding_universe_sha256 s
     \<and> xs_sync_policy_sha256 s' = xs_sync_policy_sha256 s
     \<and> xs_initial_synchronization_sha256 s' = xs_initial_synchronization_sha256 s"

definition expert_no_earlier :: "ExpertStateV1 \<Rightarrow> ExpertStateV1 \<Rightarrow> bool" where
  "expert_no_earlier s s' \<longleftrightarrow> same_expert s s'
     \<and> session_no_earlier (xs_synchronization s) (xs_synchronization s')
     \<and> xs_rejected_parent_count s \<le> xs_rejected_parent_count s'
     \<and> (xs_halted s \<longrightarrow> xs_halted s' \<and> xs_halt_reason s' = xs_halt_reason s
          \<and> xs_synchronization s' = xs_synchronization s)"

lemma same_expert_simps [simp]:
  "same_expert s s" "same_expert s (halted_of s r)" "same_expert s (s\<lparr>xs_synchronization := st\<rparr>)"
  by (simp_all add: same_expert_def halted_of_def)

declare session_no_earlier_refl [simp]

lemma halted_reason_kept:
  "expert_state_post_init s = None \<Longrightarrow> xs_halted s \<Longrightarrow> xs_halt_reason (halted_of s r) = xs_halt_reason s"
  by (auto simp: expert_state_post_init_def halted_of_def split: option.split)

lemma group_final_no_earlier:
  assumes "session_no_earlier (xs_synchronization s) st" "\<not> xs_halted s"
  shows "expert_no_earlier s (group_final s st e)"
  using assms by (auto simp: expert_no_earlier_def group_final_def same_expert_def halted_of_def split: option.split)

lemma group_final_synchronization [simp]: "xs_synchronization (group_final s st e) = st"
  by (simp add: group_final_def split: option.split)

lemma reduce_run_final:
  assumes "reduce_observations s False (map SynchronizationObservation xs) = Inr (Some (outs, final))"
  obtains k st e where "group_run (xs_synchronization s) xs = (k, st, e)" "final = group_final s st e"
    "run_steps sync_step (xs_synchronization s) (map observation_event (take k xs)) = Inr st"
  using reduce_observations_run[OF assms] group_run_steps
  by (metis prod.exhaust)

lemma reduce_observations_final_ok:
  assumes "reduce_observations s h xs = Inr (Some (outs, final))" "expert_state_post_init s = None"
  shows "expert_state_post_init final = None"
  using assms
proof (induction xs arbitrary: s h outs)
  case (Cons x xs)
  from Cons.prems(1) show ?case
  proof (cases rule: reduce_observations_Cons)
    case (1 out s' h' rest)
    from 1(1) have "expert_state_post_init s' = None"
      by (cases rule: observation_outcome_cases) (use Cons.prems(2) in auto)
    then show ?thesis using Cons.IH 1(2) by blast
  qed
qed auto

lemma observations_ok_events:
  assumes "list_all observation_ok (map SynchronizationObservation xs)"
  shows "list_all sync_event_ok (map observation_event (take k xs))"
  using assms by (auto simp: list_all_iff dest: in_set_takeD)

lemma reduce_step_ok:
  assumes s: "expert_inv s" and os: "list_all observation_ok os" and run: "reduce_step s os = Inr s'"
  shows "expert_inv s' \<and> expert_no_earlier s s'"
proof -
  from run obtain x where x: "reduce_expert_parent s os = Inr x" "s' = red_final_state x"
    by (auto simp: reduce_step_def bind_result_eq_Inr)
  have keep: "expert_inv (halted_of s r) \<and> expert_no_earlier s (halted_of s r)"
    if "expert_state_post_init (halted_of s r) = None" for r
    using that s halted_reason_kept[of s r] by (auto simp: expert_inv_def expert_no_earlier_def)
  from x(1) show ?thesis
  proof (cases rule: reduce_expert_parent_cases)
    case (run xs)
    have ok: "expert_state_post_init s' = None"
      using reduce_observations_final_ok[OF run(3)] s x(2) by (simp add: expert_inv_def)
    from run(3) have "reduce_observations s False (map SynchronizationObservation xs) =
      Inr (Some (red_outcomes x, red_final_state x))" using run(2) by simp
    then obtain k st e where k: "red_final_state x = group_final s st e"
      "run_steps sync_step (xs_synchronization s) (map observation_event (take k xs)) = Inr st"
      by (rule reduce_run_final)
    have "session_inv (xs_synchronization s)" using s by (simp add: expert_inv_def)
    note ind = sessions.run_inv[OF this observations_ok_events k(2)] sessions.run_le[OF this observations_ok_events k(2)]
    show ?thesis
      using ind os run(2) ok x(2) k(1) group_final_no_earlier[OF _ run(1)] by (simp add: expert_inv_def)
  qed (use keep s x(2) in \<open>simp_all add: expert_no_earlier_def\<close>)
qed

lemma expert_no_earlier_trans:
  "expert_no_earlier a b \<Longrightarrow> expert_no_earlier b c \<Longrightarrow> expert_no_earlier a c"
  unfolding expert_no_earlier_def same_expert_def using sessions.le_trans by auto

interpretation experts: ordered_machine reduce_step expert_inv "list_all observation_ok" expert_no_earlier
proof
  show "expert_inv s'" if "expert_inv s" "list_all observation_ok e" "reduce_step s e = Inr s'" for s e s'
    using reduce_step_ok[OF that] by blast
  show "expert_no_earlier s s" for s by (simp add: expert_no_earlier_def)
  show "expert_no_earlier s u" if "expert_no_earlier s t" "expert_no_earlier t u" for s t u
    using that by (rule expert_no_earlier_trans)
  show "expert_no_earlier s s'" if "expert_inv s" "list_all observation_ok e" "reduce_step s e = Inr s'" for s e s'
    using reduce_step_ok[OF that] by blast
qed

end
