(* ===== verification/ReducerTotal.thy ===== *)
theory ReducerTotal
  imports ReducerRuns
begin

text \<open>
  The reducer always returns: in a valid state, on a group its constructors accept, every contract the
  code builds is accepted and every value it hashes or measures has canonical bytes.
\<close>

subsection \<open>Canonical bytes\<close>

lemma parent_encodable:
  "expert_parent_evidence_post_init p = None \<Longrightarrow> encodable (expert_parent_evidence_pyval p)"
  by (simp add: expert_parent_evidence_post_init_def expert_parent_evidence_pyval_def del: encodable.simps(1))

lemma binding_ok:
  assumes "validate_observation_binding p i n a b c = None"
  shows "expert_parent_evidence_post_init p = None" "integer_ok i" "integer_ok n" "safe_id_ok a" "sha256_ok b" "sha256_ok c"
  using assms by (simp_all add: validate_observation_binding_def)

fun evidence_encodable :: "expert_observation \<Rightarrow> bool" where
  "evidence_encodable (SynchronizationObservation x) = encodable (synchronization_input_pyval (so_evidence x))"
| "evidence_encodable _ = True"

lemma observation_encodable:
  assumes "expert_observation_post_init x = None" "evidence_encodable x"
  shows "encodable (expert_observation_pyval x)"
proof (cases x)
  case (SynchronizationObservation y)
  then have b: "validate_observation_binding (so_parent y) (so_parent_output_index y) (so_parent_output_count y)
      (so_normalizer_id y) (so_normalizer_code_sha256 y) (so_normalizer_schema_sha256 y) = None"
    "now_ok (so_observation y)" "encodable (synchronization_input_pyval (so_evidence y))"
    using assms by (simp_all add: expert_synchronization_observation_post_init_def now_ok_post_init)
  then show ?thesis
    using SynchronizationObservation parent_encodable binding_ok[OF b(1)] now_ok_encodable[OF b(2)]
    by (simp add: expert_synchronization_observation_pyval_def del: encodable.simps(1))
next
  case (IgnoredObservation y)
  then have b: "validate_observation_binding (io_parent y) (io_parent_output_index y) (io_parent_output_count y)
      (io_normalizer_id y) (io_normalizer_code_sha256 y) (io_normalizer_schema_sha256 y) = None"
    using assms(1) unfolding IgnoredObservation expert_observation_post_init.simps
      expert_ignored_observation_post_init_def first_raise_eq_None by blast
  then show ?thesis
    using IgnoredObservation parent_encodable binding_ok[OF b]
    by (simp add: expert_ignored_observation_pyval_def expert_ignore_reason_pyval_def del: encodable.simps(1))
next
  case (RejectedObservation y)
  then have b: "validate_observation_binding (ro_parent y) (ro_parent_output_index y) (ro_parent_output_count y)
      (ro_normalizer_id y) (ro_normalizer_code_sha256 y) (ro_normalizer_schema_sha256 y) = None"
    using assms(1) unfolding RejectedObservation expert_observation_post_init.simps
      expert_rejected_observation_post_init_def first_raise_eq_None by blast
  then show ?thesis
    using RejectedObservation parent_encodable binding_ok[OF b]
    by (simp add: expert_rejected_observation_pyval_def expert_reject_reason_pyval_def del: encodable.simps(1))
qed

lemma expert_encodable:
  assumes "expert_inv s"
  shows "encodable (expert_state_pyval s)"
proof -
  have "integer_ok (xs_schema_version s)" "integer_ok (xs_rejected_parent_count s)"
    using assms by (simp_all add: expert_inv_def expert_state_post_init_def schema_version_def)
  moreover have "encodable (synchronization_session_state_pyval (xs_synchronization s))"
    using assms session_encodable by (simp add: expert_inv_def)
  moreover have "encodable (vopt expert_reject_reason_pyval (xs_halt_reason s))"
    by (cases "xs_halt_reason s") (simp_all add: vopt_def expert_reject_reason_pyval_def)
  ultimately show ?thesis
    by (simp add: expert_state_pyval_def del: encodable.simps(1) encodable_vopt)
qed

lemma expert_digest:
  assumes "expert_inv s"
  obtains d where "expert_state_sha256 s = Inr d" "sha256_ok d"
proof -
  obtain d where "domain_sha256 (''INCI-EXPERT-STATE-V1'' @ nul) (expert_state_pyval s) = Inr d"
    using expert_encodable[OF assms] domain_digest_defined by blast
  then show thesis
    using assms that domain_digest_ok by (simp add: expert_state_sha256_def expert_inv_def)
qed

lemma trusted_snapshot_encodable:
  assumes "opportunity_frame_post_init f = None"
  shows "encodable (trusted_snapshot_pyval (opp_snapshot f))" "opp_decision_time f = ts_decision_time (opp_snapshot f)"
  using assms by (auto simp: opportunity_frame_post_init_def dest: digest_defined split: sum.splits)

lemma result_encodable:
  assumes "result_contracts r = None"
  shows "encodable (sync_result_pyval r)"
proof -
  have s: "sync_result_post_init r = None" using assms by (simp add: result_contracts_def)
  show ?thesis
  proof (cases "is_trusted r")
    case True
    then obtain s f where *: "res_snapshot r = Some s" "res_opportunity r = Some f" "opportunity_frame_post_init f = None"
      "opp_snapshot f = s"
      using s by (auto simp: sync_result_post_init_def is_trusted_def split: option.splits)
    have "integer_ok (opp_decision_sequence f)" "integer_ok (opp_provider_revision f)"
      "integer_ok (opp_book_connection_epoch f)" "integer_ok (opp_book_sequence f)"
      using *(3) by (simp_all add: opportunity_frame_post_init_def)
    moreover have "encodable (paired_time_observation_pyval (opp_decision_time f))"
      using trusted_snapshot_encodable[OF *(3)] by (simp add: trusted_snapshot_pyval_def del: encodable.simps(1) encodable_vopt)
    ultimately show ?thesis
      using * trusted_snapshot_encodable(1)[OF *(3)]
      by (simp add: sync_result_pyval_def opportunity_frame_pyval_def sync_reason_pyval_def vopt_def del: encodable.simps(1))
  next
    case False
    then have "res_snapshot r = None" "res_opportunity r = None"
      using s by (simp_all add: sync_result_post_init_def is_trusted_def split: option.splits)
    then show ?thesis by (simp add: sync_result_pyval_def sync_reason_pyval_def vopt_def)
  qed
qed

lemma transition_encodable:
  assumes "synchronize st i now = Inr t" "session_inv (tx_state t)"
  shows "encodable (synchronization_transition_result_pyval t)"
  using assms(1)
proof (cases rule: synchronize_cases)
  case (1 b item rs)
  have r: "\<forall>r \<in> set (tx_results t). result_contracts r = None" "integer_ok (tx_prior_decision_sequence t)"
    "now_ok (tx_observation t)"
    using 1(11,13,2) by (simp_all add: synchronization_transition_result_post_init_def Let_def now_ok_post_init)
  then show ?thesis
    using session_encodable[OF assms(2)] 1(10,14) result_encodable now_ok_encodable
    by (simp add: synchronization_transition_result_pyval_def del: encodable.simps(1,3)) 
qed

subsection \<open>Building\<close>

lemma halted_of_inv:
  assumes "expert_inv s" "integer_ok (xs_rejected_parent_count s + 1)"
  shows "expert_inv (halted_of s r)" "halted_state s r True = Inr (halted_of s r)"
proof -
  have n: "0 \<le> xs_rejected_parent_count s" "\<not> xs_rejected_parent_count s + 1 = 0"
    using assms(1) integer_ok_nonneg[of "xs_rejected_parent_count s"]
    by (auto simp: expert_inv_def expert_state_post_init_def)
  have "expert_state_post_init (halted_of s r) = None"
    using assms n by (auto simp: expert_inv_def expert_state_post_init_def halted_of_def split: option.split)
  then show "expert_inv (halted_of s r)" "halted_state s r True = Inr (halted_of s r)"
    using assms(1) by (simp_all add: expert_inv_def halted_state_def) (simp_all add: halted_of_def)
qed

lemma event_schema_digest:
  obtains d where "expert_event_schema_resource_sha256 kind = Inr d" "sha256_ok d"
  by (cases kind) (simp_all add: expert_event_schema_resource_sha256_def event_schema_resource_sha256_v1_def
      sha256_ok_def hex_digits_def)

text \<open>An outcome as the reducer hands it on: accepted by its constructor, between two states of the chain, with
  a payload that has canonical bytes.\<close>

definition outcome_links :: "string \<Rightarrow> ExpertOutcomeDraftV1 \<Rightarrow> ExpertStateV1 \<Rightarrow> bool" where
  "outcome_links d x post \<longleftrightarrow> expert_outcome_draft_post_init x = None \<and> out_prior_expert_state_sha256 x = d
     \<and> out_post_state x = post \<and> expert_state_sha256 post = Inr (out_post_expert_state_sha256 x)
     \<and> encodable (expert_payload_pyval (out_payload x))"

lemma make_outcome_defined:
  assumes "payload_kind payload = kind" "expert_payload_post_init payload = None"
    and "encodable (expert_payload_pyval payload)" "sha256_ok d" "expert_inv post"
  obtains x where "make_outcome kind payload d post = Inr x" "outcome_links d x post"
proof -
  obtain schema where schema: "expert_event_schema_resource_sha256 kind = Inr schema" "sha256_ok schema"
    by (rule event_schema_digest)
  obtain e where e: "expert_state_sha256 post = Inr e" "sha256_ok e"
    using expert_digest[OF assms(5)] .
  have "expert_outcome_draft_post_init
     \<lparr>out_event_kind = kind, out_event_version = 1, out_event_schema_sha256 = schema, out_payload = payload,
      out_prior_expert_state_sha256 = d, out_post_state = post, out_post_expert_state_sha256 = e\<rparr> = None"
    using assms schema e by (simp add: expert_outcome_draft_post_init_def expert_inv_def)
  then show thesis
    using that[of "\<lparr>out_event_kind = kind, out_event_version = 1, out_event_schema_sha256 = schema, out_payload = payload,
      out_prior_expert_state_sha256 = d, out_post_state = post, out_post_expert_state_sha256 = e\<rparr>"]
      schema e assms(3) by (simp add: make_outcome_def outcome_links_def)
qed

definition rejection_fits :: "expert_observation \<Rightarrow> ExpertRejectReasonV1 \<Rightarrow> bool" where
  "rejection_fits x reason \<longleftrightarrow>
     (case x of RejectedObservation r \<Rightarrow> reason = ro_reason r
      | SynchronizationObservation y \<Rightarrow> reason \<in> rejected_synchronization_reasons
      | IgnoredObservation y \<Rightarrow> reason = STATIC_SESSION_HALT)"

lemma rejected_outcome_defined:
  assumes "expert_observation_post_init x = None" "evidence_encodable x" "rejection_fits x reason"
    and "sha256_ok d" "expert_inv post"
  obtains y where "rejected_outcome x reason d post = Inr y" "outcome_links d y post"
proof -
  let ?p = "\<lparr>rpl_observation = x, rpl_reason = reason\<rparr>"
  have ok: "expert_observation_rejected_payload_post_init ?p = None"
    using assms by (cases x) (simp_all add: expert_observation_rejected_payload_post_init_def rejection_fits_def)
  have "encodable (expert_payload_pyval (RejectedPayload ?p))"
    using observation_encodable[OF assms(1,2)]
    by (simp add: expert_observation_rejected_payload_pyval_def expert_reject_reason_pyval_def)
  with ok obtain y where "make_outcome EK_OBSERVATION_REJECTED (RejectedPayload ?p) d post = Inr y" "outcome_links d y post"
    using make_outcome_defined[of "RejectedPayload ?p" EK_OBSERVATION_REJECTED d post] assms(4,5) by auto
  then show thesis using that ok by (simp add: rejected_outcome_def)
qed

lemma observation_normalizer_ok:
  assumes "expert_observation_post_init x = None"
  obtains a b c where "observation_normalizer x = (a, b, c)" "safe_id_ok a" "sha256_ok b" "sha256_ok c"
    "expert_parent_evidence_post_init (observation_parent x) = None"
proof (cases x)
  case (SynchronizationObservation y)
  then have "validate_observation_binding (so_parent y) (so_parent_output_index y) (so_parent_output_count y)
      (so_normalizer_id y) (so_normalizer_code_sha256 y) (so_normalizer_schema_sha256 y) = None"
    using assms unfolding SynchronizationObservation expert_observation_post_init.simps
      expert_synchronization_observation_post_init_def first_raise_eq_None by blast
  from binding_ok[OF this] show thesis using that SynchronizationObservation by simp
next
  case (IgnoredObservation y)
  then have "validate_observation_binding (io_parent y) (io_parent_output_index y) (io_parent_output_count y)
      (io_normalizer_id y) (io_normalizer_code_sha256 y) (io_normalizer_schema_sha256 y) = None"
    using assms unfolding IgnoredObservation expert_observation_post_init.simps
      expert_ignored_observation_post_init_def first_raise_eq_None by blast
  from binding_ok[OF this] show thesis using that IgnoredObservation by simp
next
  case (RejectedObservation y)
  then have "validate_observation_binding (ro_parent y) (ro_parent_output_index y) (ro_parent_output_count y)
      (ro_normalizer_id y) (ro_normalizer_code_sha256 y) (ro_normalizer_schema_sha256 y) = None"
    using assms unfolding RejectedObservation expert_observation_post_init.simps
      expert_rejected_observation_post_init_def first_raise_eq_None by blast
  from binding_ok[OF this] show thesis using that RejectedObservation by simp
qed

lemma rejected_from_observation_defined:
  assumes "expert_observation_post_init x = None" "evidence_encodable x"
  obtains y where "rejected_from_observation x reason = Inr y" "expert_observation_post_init y = None"
    "evidence_encodable y" "rejection_fits y reason"
proof (cases "is_synchronization_observation x
    \<and> reason \<in> {SYNCHRONIZATION_SESSION_DRIFT, REDUCER_EXCEPTION, PRIOR_OUTCOME_HALTED}")
  case True
  then have "rejection_fits x reason"
    by (cases x) (simp_all add: rejection_fits_def rejected_synchronization_reasons_def)
  moreover have "rejected_from_observation x reason = Inr x"
    using True unfolding rejected_from_observation_def by (rule if_P)
  ultimately show thesis using that assms by blast
next
  case False
  obtain a b c where n: "observation_normalizer x = (a, b, c)" "safe_id_ok a" "sha256_ok b" "sha256_ok c"
    "expert_parent_evidence_post_init (observation_parent x) = None"
    using observation_normalizer_ok[OF assms(1)] .
  let ?r = "\<lparr>ro_parent = observation_parent x, ro_parent_output_index = 0, ro_parent_output_count = 1,
    ro_normalizer_id = a, ro_normalizer_code_sha256 = b, ro_normalizer_schema_sha256 = c, ro_reason = reason\<rparr>"
  have ok: "expert_rejected_observation_post_init ?r = None"
    using n by (simp add: expert_rejected_observation_post_init_def validate_observation_binding_def positive_integer_ok_def
        integer_bound_def)
  have "rejected_from_observation x reason = Inr (RejectedObservation ?r)"
    using n(1) ok unfolding rejected_from_observation_def if_not_P[OF False] by simp
  then show thesis using that ok by (simp add: rejection_fits_def)
qed

lemma reduction_defined:
  assumes "expert_inv s" "expert_state_sha256 s = Inr d" "outs \<noteq> []" "length outs \<le> 64"
    and "outcome_chain d outs = Inr e" "out_post_state (last outs) = final" "expert_inv final" "expert_state_sha256 final = Inr e"
  shows "expert_reduction_post_init \<lparr>red_prior_expert_state_sha256 = d, red_outcomes = outs, red_final_state = final,
     red_final_expert_state_sha256 = e, red_halt_required = xs_halted final\<rparr> = None"
proof -
  have "sha256_ok d" "sha256_ok e"
    using assms(2,8) by (auto simp: expert_state_sha256_def checked_eq_Inr dest: domain_digest_ok)
  then show ?thesis using assms by (simp add: expert_reduction_post_init_def expert_inv_def)
qed

lemma single_rejection_defined:
  assumes s: "expert_inv s" "integer_ok (xs_rejected_parent_count s + 1)"
    and x: "expert_observation_post_init x = None" "evidence_encodable x"
  shows "\<exists>r. single_rejection s x reason = Inr r"
proof -
  obtain d where d: "expert_state_sha256 s = Inr d" "sha256_ok d" using expert_digest[OF s(1)] .
  note h = halted_of_inv[OF s, of reason]
  obtain y where y: "rejected_from_observation x reason = Inr y" "expert_observation_post_init y = None"
    "evidence_encodable y" "rejection_fits y reason"
    using rejected_from_observation_defined[OF x] .
  obtain z where z: "rejected_outcome y reason d (halted_of s reason) = Inr z" "outcome_links d z (halted_of s reason)"
    using rejected_outcome_defined[OF y(2-4) d(2) h(1)] .
  obtain e where e: "expert_state_sha256 (halted_of s reason) = Inr e" using expert_digest[OF h(1)] by blast
  have "outcome_chain d [z] = Inr e" "out_post_state z = halted_of s reason"
    using z(2) e by (simp_all add: outcome_links_def)
  then have "expert_reduction_post_init \<lparr>red_prior_expert_state_sha256 = d, red_outcomes = [z],
      red_final_state = halted_of s reason, red_final_expert_state_sha256 = e, red_halt_required = True\<rparr> = None"
    using reduction_defined[OF s(1) d(1) _ _ _ _ h(1) e, of "[z]"] by simp
  then show ?thesis using d h y z e by (simp add: single_rejection_def)
qed

subsection \<open>The loop\<close>

fun chain_links :: "string \<Rightarrow> ExpertOutcomeDraftV1 list \<Rightarrow> string \<Rightarrow> bool" where
  \<comment> \<open>the outcomes link the state with digest \<open>d\<close> to the state with digest \<open>e\<close>\<close>
  "chain_links d [] e \<longleftrightarrow> d = e"
| "chain_links d (x # xs) e \<longleftrightarrow> outcome_links d x (out_post_state x) \<and> chain_links (out_post_expert_state_sha256 x) xs e"

lemma chain_links_outcome_chain: "chain_links d xs e \<Longrightarrow> outcome_chain d xs = Inr e"
  by (induction d xs e rule: chain_links.induct) (simp_all add: outcome_links_def)

lemma chain_links_encodable:
  "chain_links d xs e \<Longrightarrow> \<exists>bs. map_result (\<lambda>x. canonical_expert_bytes (expert_payload_pyval (out_payload x))) xs = Inr bs"
  by (rule map_result_total, induction d xs e rule: chain_links.induct)
    (auto simp: outcome_links_def canonical_bytes_defined)

lemma synchronize_same_shas:
  assumes "synchronize st i now = Inr t"
  shows "st_universe_sha256 (tx_state t) = st_universe_sha256 st" "st_sync_policy_sha256 (tx_state t) = st_sync_policy_sha256 st"
    "st_last_observation (tx_state t) = Some now"
proof -
  from assms have "st_universe_sha256 (tx_state t) = st_universe_sha256 st
      \<and> st_sync_policy_sha256 (tx_state t) = st_sync_policy_sha256 st"
  proof (cases rule: synchronize_effect)
    case (1 b item st1)
    then show ?thesis by (simp add: moved_def same_session_def markets_decided_def)
  qed
  then show "st_universe_sha256 (tx_state t) = st_universe_sha256 st" "st_sync_policy_sha256 (tx_state t) = st_sync_policy_sha256 st"
    by simp_all
  from assms show "st_last_observation (tx_state t) = Some now"
    by (cases rule: synchronize_cases) (simp add: synchronization_transition_result_post_init_def Let_def)
qed

lemma synchronize_keeps:
  assumes "expert_inv s" "sync_event_ok (observation_event x)"
    and "synchronize (xs_synchronization s) (so_evidence x) (so_observation x) = Inr t"
  shows "session_inv (tx_state t)" "expert_inv (s\<lparr>xs_synchronization := tx_state t\<rparr>)"
proof -
  have step: "sync_step (xs_synchronization s) (observation_event x) = Inr (tx_state t)"
    using assms(3) by (simp add: sync_step_def observation_event_def)
  show st: "session_inv (tx_state t)"
    using sessions.step_inv[OF _ assms(2) step] assms(1) by (simp add: expert_inv_def)
  show "expert_inv (s\<lparr>xs_synchronization := tx_state t\<rparr>)"
    using assms(1) st session_inv_post_init[OF st] synchronize_same_shas[OF assms(3)]
    by (auto simp: expert_inv_def expert_state_post_init_def)
qed

lemma applied_payload_ok:
  assumes "expert_synchronization_observation_post_init x = None"
    and "synchronize st (so_evidence x) (so_observation x) = Inr t"
  shows "expert_synchronization_applied_payload_post_init \<lparr>apl_observation = x, apl_transition = t\<rparr> = None"
  using assms(2)
proof (cases rule: synchronize_cases)
  case (1 b item rs)
  then have "expert_contract_sha256 (synchronization_input_pyval (tx_input t)) = Inr (tx_input_sha256 t)"
    by (simp add: synchronization_transition_result_post_init_def Let_def)
  then show ?thesis
    using 1 assms(1) synchronize_same_shas(3)[OF assms(2)]
    by (simp add: expert_synchronization_applied_payload_post_init_def)
qed

lemma applied_outcome_defined:
  assumes s: "expert_inv s" and x: "expert_synchronization_observation_post_init x = None"
      "encodable (synchronization_input_pyval (so_evidence x))" "sync_event_ok (observation_event x)"
    and t: "synchronize (xs_synchronization s) (so_evidence x) (so_observation x) = Inr t" and d: "sha256_ok d"
  shows "\<exists>r. applied_outcome s x t d = Inr r
     \<and> (\<forall>out s'. r = Some (out, s') \<longrightarrow> expert_inv s' \<and> outcome_links d out s')"
proof -
  note k = synchronize_keeps[OF s x(3) t]
  let ?c = "s\<lparr>xs_synchronization := tx_state t\<rparr>" and ?p = "\<lparr>apl_observation = x, apl_transition = t\<rparr>"
  have c: "state_with_synchronization s (tx_state t) = Inr ?c"
    using k(2) by (simp add: state_with_synchronization_def expert_inv_def)
  have p: "expert_synchronization_applied_payload_post_init ?p = None" by (rule applied_payload_ok[OF x(1) t])
  have e: "encodable (expert_synchronization_applied_payload_pyval ?p)"
    using observation_encodable[of "SynchronizationObservation x"] x transition_encodable[OF t k(1)]
    by (simp add: expert_synchronization_applied_payload_pyval_def)
  then obtain b where b: "canonical_expert_bytes (expert_synchronization_applied_payload_pyval ?p) = Inr b"
    using canonical_bytes_defined by blast
  obtain b' where b': "canonical_expert_bytes (expert_state_pyval ?c) = Inr b'"
    using expert_encodable[OF k(2)] canonical_bytes_defined by blast
  obtain out where out: "make_outcome EK_SYNCHRONIZATION_APPLIED (AppliedPayload ?p) d ?c = Inr out" "outcome_links d out ?c"
    using make_outcome_defined[of "AppliedPayload ?p" EK_SYNCHRONIZATION_APPLIED d ?c] p e d k(2) by auto
  show ?thesis
    using c p b b' out k(2) by (simp add: applied_outcome_def)
qed

text \<open>What the loop needs to go on: room for one more rejection, unless one was counted already.\<close>

definition room :: "bool \<Rightarrow> ExpertStateV1 \<Rightarrow> bool" where
  "room halted s \<longleftrightarrow> halted \<or> integer_ok (xs_rejected_parent_count s + 1)"

lemma observation_outcome_defined:
  assumes s: "expert_inv s" "room halted s" "expert_state_sha256 s = Inr d"
    and x: "expert_synchronization_observation_post_init x = None"
      "encodable (synchronization_input_pyval (so_evidence x))" "sync_event_ok (observation_event x)"
  shows "\<exists>r. observation_outcome s halted (SynchronizationObservation x) = Inr r
     \<and> (\<forall>out s' h. r = Some (out, s', h) \<longrightarrow> expert_inv s' \<and> room h s' \<and> outcome_links d out s')"
proof -
  have d: "sha256_ok d" using s(3) by (auto simp: expert_state_sha256_def checked_eq_Inr dest: domain_digest_ok)
  note rej = rejected_outcome_defined[of "SynchronizationObservation x" _ d]
  show ?thesis
  proof (cases halted)
    case True
    then show ?thesis
      using rej[of PRIOR_OUTCOME_HALTED s] s x d
      by (force simp: observation_outcome_def rejection_fits_def rejected_synchronization_reasons_def room_def)
  next
    case False
    then have n: "integer_ok (xs_rejected_parent_count s + 1)" using s(2) by (simp add: room_def)
    show ?thesis
    proof (cases "synchronize (xs_synchronization s) (so_evidence x) (so_observation x)")
      case (Inl e)
      note h = halted_of_inv[OF s(1) n, of "exception_reason e"]
      have "exception_reason e \<in> rejected_synchronization_reasons"
        by (simp add: exception_reason_def rejected_synchronization_reasons_def)
      then obtain out where "rejected_outcome (SynchronizationObservation x) (exception_reason e) d (halted_of s (exception_reason e))
          = Inr out" "outcome_links d out (halted_of s (exception_reason e))"
        using rej[of "exception_reason e" "halted_of s (exception_reason e)"] x d h(1) by (auto simp: rejection_fits_def)
      then show ?thesis
        using False Inl s(3) h by (simp add: observation_outcome_def replayed_transition_eq room_def)
    next
      case (Inr t)
      obtain r where r: "applied_outcome s x t d = Inr r"
        "\<forall>out s'. r = Some (out, s') \<longrightarrow> expert_inv s' \<and> outcome_links d out s'"
        using applied_outcome_defined[OF s(1) x Inr d] by blast
      have "room False s'" if "r = Some (out, s')" for out s'
        using applied_outcome_ok(1)[of s x t d out s'] r(1) that n by (simp add: room_def)
      then show ?thesis
        using False Inr s(3) r by (auto simp: observation_outcome_def replayed_transition_eq)
    qed
  qed
qed

lemma reduce_observations_defined:
  assumes "expert_inv s" "room halted s" "expert_state_sha256 s = Inr d"
    and "\<forall>x \<in> set xs. expert_synchronization_observation_post_init x = None
           \<and> encodable (synchronization_input_pyval (so_evidence x)) \<and> sync_event_ok (observation_event x)"
  shows "\<exists>r. reduce_observations s halted (map SynchronizationObservation xs) = Inr r
     \<and> (\<forall>outs final. r = Some (outs, final) \<longrightarrow> expert_inv final \<and> length outs = length xs
          \<and> (\<exists>e. expert_state_sha256 final = Inr e \<and> chain_links d outs e)
          \<and> (outs \<noteq> [] \<longrightarrow> out_post_state (last outs) = final))"
  using assms
proof (induction xs arbitrary: s halted d)
  case Nil
  then show ?case by simp
next
  case (Cons x xs)
  obtain r where r: "observation_outcome s halted (SynchronizationObservation x) = Inr r"
    "\<forall>out s' h. r = Some (out, s', h) \<longrightarrow> expert_inv s' \<and> room h s' \<and> outcome_links d out s'"
    using observation_outcome_defined[of s halted d x] Cons.prems by auto
  show ?case
  proof (cases r)
    case None
    then show ?thesis using r(1) by simp
  next
    case (Some p)
    obtain out s' h where p: "p = (out, s', h)" by (cases p)
    have o: "expert_inv s'" "room h s'" "outcome_links d out s'" using r(2) Some p by auto
    then have e: "expert_state_sha256 s' = Inr (out_post_expert_state_sha256 out)" "out_post_state out = s'"
      by (simp_all add: outcome_links_def)
    obtain q where q: "reduce_observations s' h (map SynchronizationObservation xs) = Inr q"
      "\<forall>outs final. q = Some (outs, final) \<longrightarrow> expert_inv final \<and> length outs = length xs
          \<and> (\<exists>e. expert_state_sha256 final = Inr e \<and> chain_links (out_post_expert_state_sha256 out) outs e)
          \<and> (outs \<noteq> [] \<longrightarrow> out_post_state (last outs) = final)"
      using Cons.IH[OF o(1,2) e(1)] Cons.prems(4) by auto
    show ?thesis
    proof (cases q)
      case None
      then show ?thesis using r(1) Some p q(1) by simp
    next
      case q': (Some w)
      obtain outs final where w: "w = (outs, final)" by (cases w)
      have f: "expert_inv final" "length outs = length xs" "outs \<noteq> [] \<longrightarrow> out_post_state (last outs) = final"
        "\<exists>e. expert_state_sha256 final = Inr e \<and> chain_links (out_post_expert_state_sha256 out) outs e"
        using q(2) q' w by auto
      have "outs = [] \<Longrightarrow> final = s'" using q(1) q' w f(2) by simp
      then show ?thesis
        using r(1) Some p q(1) q' w f o(3) e(2) by auto
    qed
  qed
qed

subsection \<open>One parent\<close>

lemma observations_bound_all: "observations_bound p n i xs = None \<Longrightarrow> x \<in> set xs \<Longrightarrow> expert_observation_post_init x = None"
  by (induction xs arbitrary: i) auto

text \<open>What the reducer may expect of a group: it has the shape of a group of this session, its evidence has canonical bytes,
  and the events inside the evidence were built by their constructors.\<close>

definition group_accepted :: "ExpertStateV1 \<Rightarrow> expert_observation list \<Rightarrow> bool" where
  "group_accepted s os \<longleftrightarrow>
     (case validate_observation_group os of
        Inl e \<Rightarrow> False
      | Inr first \<Rightarrow> pe_session_id (observation_parent first) = xs_session_id s)
     \<and> list_all observation_ok os \<and> list_all evidence_encodable os"

lemma reduce_expert_parent_defined:
  assumes s: "expert_inv s" "integer_ok (xs_rejected_parent_count s + 1)" and os: "group_accepted s os"
  shows "\<exists>x. reduce_expert_parent s os = Inr x"
proof -
  have post: "expert_state_post_init s = None" using s(1) by (simp add: expert_inv_def)
  obtain first where v: "validate_observation_group os = Inr first"
    "pe_session_id (observation_parent first) = xs_session_id s"
    using os by (auto simp: group_accepted_def split: sum.splits)
  from v(1) obtain rest where g: "os = first # rest" "length os \<le> 64"
    "observations_bound (observation_parent first) (int (length os)) 0 os = None"
    "if is_synchronization_observation first then list_all is_synchronization_observation os else rest = []"
    by (rule validate_observation_group_ok)
  have ok: "expert_observation_post_init x = None \<and> observation_ok x \<and> evidence_encodable x" if "x \<in> set os" for x
    using observations_bound_all[OF g(3) that] os that by (simp add: group_accepted_def list_all_iff)
  then have f: "expert_observation_post_init first = None" "evidence_encodable first" using g(1) by auto
  note single = single_rejection_defined[OF s f]
  obtain d where d: "expert_state_sha256 s = Inr d" "sha256_ok d" using expert_digest[OF s(1)] .
  show ?thesis
  proof (cases "xs_halted s")
    case True
    then show ?thesis using post v single by (simp add: reduce_expert_parent_def)
  next
    case False
    have "\<exists>x. (case first of IgnoredObservation y \<Rightarrow> reduce_ignored s y d
        | RejectedObservation y \<Rightarrow> single_rejection s first (ro_reason y)
        | SynchronizationObservation y \<Rightarrow> reduce_synchronizations s first os d) = Inr x"
    proof (cases first)
      case (IgnoredObservation y)
      let ?p = "\<lparr>ipl_observation = y\<rparr>"
      have p: "expert_observation_ignored_payload_post_init ?p = None" "encodable (expert_payload_pyval (IgnoredPayload ?p))"
        using f observation_encodable[OF f] IgnoredObservation
        by (simp_all add: expert_observation_ignored_payload_post_init_def expert_observation_ignored_payload_pyval_def)
      then obtain out where out: "make_outcome EK_OBSERVATION_IGNORED (IgnoredPayload ?p) d s = Inr out" "outcome_links d out s"
        using make_outcome_defined[of "IgnoredPayload ?p" EK_OBSERVATION_IGNORED d s] d(2) s(1) by auto
      have "out_post_expert_state_sha256 out = d" using out(2) d(1) by (simp add: outcome_links_def)
      then have "expert_reduction_post_init \<lparr>red_prior_expert_state_sha256 = d, red_outcomes = [out], red_final_state = s,
          red_final_expert_state_sha256 = d, red_halt_required = False\<rparr> = None"
        using reduction_defined[OF s(1) d(1) _ _ _ _ s(1) d(1), of "[out]"] out(2) False by (simp add: outcome_links_def)
      then show ?thesis using IgnoredObservation p out by (simp add: reduce_ignored_def)
    next
      case (RejectedObservation y)
      then show ?thesis using single by simp
    next
      case (SynchronizationObservation y)
      obtain xs where xs: "os = map SynchronizationObservation xs"
        using g(4) SynchronizationObservation synchronization_group by auto
      have "\<forall>x \<in> set xs. expert_synchronization_observation_post_init x = None
           \<and> encodable (synchronization_input_pyval (so_evidence x)) \<and> sync_event_ok (observation_event x)"
        using ok xs by force
      from reduce_observations_defined[OF s(1) _ d(1) this, of False] s(2) obtain r where
        r: "reduce_observations s False os = Inr r"
        "\<forall>outs final. r = Some (outs, final) \<longrightarrow> expert_inv final \<and> length outs = length xs
          \<and> (\<exists>e. expert_state_sha256 final = Inr e \<and> chain_links d outs e)
          \<and> (outs \<noteq> [] \<longrightarrow> out_post_state (last outs) = final)"
        unfolding xs room_def by blast
      have "\<exists>x. reduce_synchronizations s first os d = Inr x"
      proof (cases r)
        case None
        then show ?thesis using r(1) single by (simp add: reduce_synchronizations_def capacity_exceeded_def)
      next
        case (Some p)
        obtain outs final where p: "p = (outs, final)" by (cases p)
        obtain e where fin: "expert_inv final" "length outs = length xs" "expert_state_sha256 final = Inr e"
          "chain_links d outs e" "outs \<noteq> [] \<longrightarrow> out_post_state (last outs) = final" using r(2) Some p by auto
        have ne: "outs \<noteq> []" "length outs \<le> 64" using fin(2) g(1,2) xs by auto
        obtain bs where bs: "map_result (\<lambda>x. canonical_expert_bytes (expert_payload_pyval (out_payload x))) outs = Inr bs"
          using chain_links_encodable[OF fin(4)] by blast
        have "expert_reduction_post_init \<lparr>red_prior_expert_state_sha256 = d, red_outcomes = outs, red_final_state = final,
           red_final_expert_state_sha256 = e, red_halt_required = xs_halted final\<rparr> = None"
          using reduction_defined[OF s(1) d(1) ne chain_links_outcome_chain[OF fin(4)] _ fin(1,3)] fin(5) ne(1) by simp
        then show ?thesis
          using r(1) Some p bs fin(3) single by (auto simp: reduce_synchronizations_def capacity_exceeded_def Let_def)
      qed
      then show ?thesis using SynchronizationObservation by simp
    qed
    then show ?thesis using post v d False by (simp add: reduce_expert_parent_def)
  qed
qed

end
