(* ===== verification/ReducerProperties.thy ===== *)
theory ReducerProperties
  imports ReducerTotal SyncProperties
begin

text \<open>
  The properties of the reducer, each with a demonstration: an expert over the demonstration session of the synchronizer
  and a parent record whose only observation is the passing of time.
\<close>

subsection \<open>A demonstration\<close>

definition demo_session_id :: string where
  "demo_session_id = ''00000000-0000-4000-8000-000000000001''"

definition demo_expert :: ExpertStateV1 where
  "demo_expert =
     \<lparr>xs_schema_version = 1, xs_session_id = demo_session_id, xs_expert_manifest_sha256 = example_key_digest,
      xs_match_binding_universe_sha256 = st_universe_sha256 (demo_session None (Some demo_emission)),
      xs_sync_policy_sha256 = st_sync_policy_sha256 (demo_session None (Some demo_emission)),
      xs_initial_synchronization_sha256 = example_key_digest,
      xs_synchronization = demo_session None (Some demo_emission),
      xs_rejected_parent_count = 0, xs_halted = False, xs_halt_reason = None\<rparr>"

definition demo_observation :: ExpertSynchronizationObservationV1 where
  "demo_observation =
     \<lparr>so_parent = \<lparr>pe_session_id = demo_session_id, pe_ingest_seq = 7, pe_record_sha256 = example_key_digest,
        pe_event_type = ''timer'', pe_event_version = 1, pe_local_wall_ns = obs_wall_ns demo_now,
        pe_local_monotonic_ns = obs_monotonic_ns demo_now,
        pe_clock_uncertainty_ns = obs_clock_uncertainty_ns demo_now\<rparr>,
      so_parent_output_index = 0, so_parent_output_count = 1, so_normalizer_id = ''norm-1'',
      so_normalizer_code_sha256 = example_key_digest, so_normalizer_schema_sha256 = example_key_digest,
      so_evidence = clock_input ''m-1'' ''KXATP-1'', so_observation = demo_now\<rparr>"

abbreviation demo_group :: "expert_observation list" where
  "demo_group \<equiv> [SynchronizationObservation demo_observation]"

lemma demo_session_id_ok: "session_id_ok demo_session_id"
  by (simp add: session_id_ok_def canonical_uuid_def demo_session_id_def safe_id_ok_def hex_digits_def
      upt_rec numeral_nat is_upper_char_def is_lower_char_def is_digit_char_def char_code_def starts_with_def
      lower_char_def)

lemma demo_expert_inv: "expert_inv demo_expert"
proof -
  have st: "session_inv (demo_session None (Some demo_emission))"
    by (rule demo_session_inv) (simp add: demo_fits_def)
  have "sha256_ok (st_universe_sha256 (demo_session None (Some demo_emission)))"
    "sha256_ok (st_sync_policy_sha256 (demo_session None (Some demo_emission)))"
    using session_inv_post_init[OF st] by (simp_all add: session_post_init_iff del: demo_session_simps)
  then show ?thesis
    using st session_inv_post_init[OF st] demo_session_id_ok
    by (simp add: expert_inv_def expert_state_post_init_def demo_expert_def schema_version_def session_id_text_def
        del: demo_session_simps)
qed

lemma demo_observation_ok: "expert_observation_post_init (SynchronizationObservation demo_observation) = None"
  using demo_session_id_ok clock_input_ok(1)[of "''m-1''" "''KXATP-1''"] demo_now_ok
  by (simp add: expert_synchronization_observation_post_init_def demo_observation_def parent_time_def
      validate_observation_binding_def expert_parent_evidence_post_init_def session_id_text_def now_ok_post_init
      now_ok_def safe_id_ok_def is_upper_char_def is_lower_char_def is_digit_char_def char_code_def starts_with_def
      lower_char_def)

lemma demo_group_accepted:
  assumes "xs_session_id s = demo_session_id"
  shows "group_accepted s demo_group"
proof -
  have "validate_observation_group demo_group = Inr (SynchronizationObservation demo_observation)"
    using demo_observation_ok by (simp add: validate_observation_group_def)
      (simp add: demo_observation_def)
  then show ?thesis
    using assms clock_event_ok clock_input_ok(2)[of "''m-1''" "''KXATP-1''"]
    by (simp add: group_accepted_def observation_event_def) (simp add: demo_observation_def)
qed

lemma demo_reduction:
  assumes "expert_inv s" "integer_ok (xs_rejected_parent_count s + 1)" "xs_session_id s = demo_session_id"
  obtains x where "reduce_expert_parent s demo_group = Inr x"
  using reduce_expert_parent_defined[OF assms(1,2) demo_group_accepted[OF assms(3)]] by blast

lemma demo_expert_simps:
  "xs_session_id demo_expert = demo_session_id" "xs_rejected_parent_count demo_expert = 0" "\<not> xs_halted demo_expert"
  by (simp_all add: demo_expert_def)

lemma demo_first_reduction:
  obtains x where "reduce_expert_parent demo_expert demo_group = Inr x"
  using reduce_expert_parent_defined[OF demo_expert_inv _ demo_group_accepted] by (auto simp: demo_expert_simps)

subsection \<open>Every parent is answered\<close>

text \<open>C8: The reducer always returns.  A valid expert whose count of rejected parents is below the bound, given a group of its session
  whose evidence has canonical bytes, reduces it to a final state that is valid again, with one outcome for each observation, or a single
  rejection for the whole group, which is for a prior halt, for a rejected observation, or because running the group meets a payload, a
  state or a group above its size bound: no exception of the synchronizer, no digest and no constructor makes the reducer raise.\<close>

theorem every_parent_is_answered:
  assumes "expert_inv s" "integer_ok (xs_rejected_parent_count s + 1)" "group_accepted s os"
  shows "\<exists>x. reduce_expert_parent s os = Inr x \<and> expert_inv (red_final_state x)
     \<and> (map outcome_observation (red_outcomes x) = os
        \<or> (\<exists>r reason. red_outcomes x = [r] \<and> outcome_reason r = Some reason \<and> xs_halted (red_final_state x)
             \<and> (xs_halted s \<and> reason = PRIOR_GROUP_HALTED \<or> (\<exists>y. os = [RejectedObservation y] \<and> reason = ro_reason y)
               \<or> reason = GROUP_CAPACITY_EXCEEDED \<and> group_too_large s os)))"
proof -
  obtain x where x: "reduce_expert_parent s os = Inr x"
    using reduce_expert_parent_defined[OF assms] by blast
  then have "expert_inv (red_final_state x)"
    using reduce_step_ok[OF assms(1)] assms(3) by (auto simp: group_accepted_def reduce_step_def)
  moreover from x have "map outcome_observation (red_outcomes x) = os
        \<or> (\<exists>r reason. red_outcomes x = [r] \<and> outcome_reason r = Some reason \<and> xs_halted (red_final_state x)
             \<and> (xs_halted s \<and> reason = PRIOR_GROUP_HALTED \<or> (\<exists>y. os = [RejectedObservation y] \<and> reason = ro_reason y)
               \<or> reason = GROUP_CAPACITY_EXCEEDED \<and> group_too_large s os))"
  proof (cases rule: reduce_expert_parent_cases)
    case (run xs)
    obtain k st e where g: "group_run (xs_synchronization s) xs = (k, st, e)" by (metis prod.exhaust)
    then show ?thesis using reduce_observations_run[OF _ g] run(2,3) by auto
  qed auto
  ultimately show ?thesis using x by blast
qed

theorem every_parent_is_answered_witness:
  "\<exists>x. reduce_expert_parent demo_expert demo_group = Inr x \<and> expert_inv (red_final_state x)"
  using every_parent_is_answered[OF demo_expert_inv _ demo_group_accepted] by (auto simp: demo_expert_simps)

subsection \<open>What a reduction does\<close>

text \<open>C10: The reducer runs the synchronizer on a group and nothing else.  Unless the group is rejected for its size (which happens only when
  running it meets a payload, a state or a group above its bound), the final session is the one
  \<open>synchronize\<close> reaches on the evidence up to the first step that raises; the outcomes list the observations in order, the evidence of
  the first steps as applied, the next as rejected for a session drift or another exception, and all after it as rejected because of it.
  The expert is halted exactly when a step raised; a group rejected for its size changes the session not at all.\<close>

theorem reduction_replays_synchronizer:
  assumes "reduce_expert_parent s (map SynchronizationObservation xs) = Inr x" "\<not> xs_halted s"
  shows "(\<exists>r. red_outcomes x = [r] \<and> outcome_reason r = Some GROUP_CAPACITY_EXCEEDED
            \<and> red_final_state x = halted_of s GROUP_CAPACITY_EXCEEDED
            \<and> group_too_large s (map SynchronizationObservation xs))
     \<or> (\<exists>k st e. k \<le> length xs
          \<and> run_steps sync_step (xs_synchronization s) (map observation_event (take k xs)) = Inr st
          \<and> (e = None \<longleftrightarrow> k = length xs)
          \<and> (\<forall>e'. e = Some e' \<longrightarrow> sync_step st (observation_event (xs ! k)) = Inl e')
          \<and> map outcome_observation (red_outcomes x) = map SynchronizationObservation xs
          \<and> map outcome_reason (red_outcomes x) = group_reasons (length xs) k e
          \<and> red_final_state x = group_final s st e)"
  using assms(1)
proof (cases rule: reduce_expert_parent_cases)
  case (run ys)
  have ys: "ys = xs" using run(2) by (simp add: inj_map_eq_map inj_def)
  obtain k st e where g: "group_run (xs_synchronization s) xs = (k, st, e)" by (metis prod.exhaust)
  then show ?thesis
    using reduce_observations_run[OF _ g] group_run_steps[OF g] run(3) ys by blast
qed (use assms(2) in auto)

theorem reduction_replays_synchronizer_witness:
  "\<exists>x. reduce_expert_parent demo_expert demo_group = Inr x
     \<and> (xs_halted (red_final_state x) \<longrightarrow> length (red_outcomes x) = 1)"
proof -
  obtain x where x: "reduce_expert_parent demo_expert demo_group = Inr x" by (rule demo_first_reduction)
  have "length (red_outcomes x) = 1"
    using reduction_replays_synchronizer[of demo_expert "[demo_observation]" x] x
    by (auto simp: demo_expert_simps dest: map_eq_imp_length_eq)
  then show ?thesis using x by blast
qed

text \<open>A group enters the journal whole or not at all.  When a reduction returns, either all its payloads are within 131064 bytes each and 8388608
  bytes together, counting 8 bytes for each frame, or the session has not changed and the reduction is a single outcome.\<close>

theorem group_is_atomic_in_size:
  assumes "reduce_expert_parent s os = Inr x"
  shows "(list_all (\<lambda>r. payload_size r \<le> 131064) (red_outcomes x)
          \<and> sum_list (map (\<lambda>r. 8 + payload_size r) (red_outcomes x)) \<le> 8388608)
     \<or> (xs_synchronization (red_final_state x) = xs_synchronization s \<and> length (red_outcomes x) = 1)"
  using assms
  by (cases rule: reduce_expert_parent_cases)
    (simp_all add: group_fits_def max_event_payload_bytes_def max_group_payload_area_bytes_def)

theorem group_is_atomic_in_size_witness:
  "\<exists>x. reduce_expert_parent demo_expert demo_group = Inr x
     \<and> (xs_synchronization (red_final_state x) \<noteq> xs_synchronization demo_expert
         \<longrightarrow> list_all (\<lambda>r. payload_size r \<le> 131064) (red_outcomes x))"
proof -
  obtain x where x: "reduce_expert_parent demo_expert demo_group = Inr x" by (rule demo_first_reduction)
  then show ?thesis using group_is_atomic_in_size[OF x] by blast
qed

subsection \<open>Runs\<close>

text \<open>C16: Over any run of parents the expert stays valid, together with the session inside it; its identity (the session id and the four artifact digests)
  never changes, the session only moves forward, the count of rejected parents never falls, and once it is halted neither the session nor the reason changes again.\<close>

theorem experts_stay_valid_and_monotone:
  assumes "expert_inv s" "list_all (list_all observation_ok) groups" "run_steps reduce_step s groups = Inr s'"
  shows "expert_inv s' \<and> expert_no_earlier s s'"
  using experts.run_inv[OF assms] experts.run_le[OF assms] by blast

theorem experts_stay_valid_and_monotone_witness:
  "\<exists>s. run_steps reduce_step demo_expert [demo_group] = Inr s \<and> expert_inv s \<and> expert_no_earlier demo_expert s"
proof -
  obtain x where x: "reduce_expert_parent demo_expert demo_group = Inr x" by (rule demo_first_reduction)
  then have r: "run_steps reduce_step demo_expert [demo_group] = Inr (red_final_state x)" by (simp add: reduce_step_def)
  have "list_all (list_all observation_ok) [demo_group]"
    using demo_group_accepted[of demo_expert] by (simp add: demo_expert_simps group_accepted_def)
  from experts_stay_valid_and_monotone[OF demo_expert_inv this r] r show ?thesis by blast
qed

lemma halted_step:
  assumes "xs_halted s" "expert_state_post_init s = None" "reduce_step s os = Inr s'"
  shows "s' = s\<lparr>xs_rejected_parent_count := xs_rejected_parent_count s + 1\<rparr> \<and> expert_state_post_init s' = None"
proof -
  from assms(3) obtain x where x: "reduce_expert_parent s os = Inr x" "s' = red_final_state x"
    by (auto simp: reduce_step_def bind_result_eq_Inr)
  obtain r where r: "xs_halt_reason s = Some r"
    using assms(1,2) by (auto simp: expert_state_post_init_def)
  from x(1) show ?thesis
    by (cases rule: reduce_expert_parent_cases) (use assms(1) x(2) r in \<open>simp_all add: halted_of_def\<close>)
qed

text \<open>C17: A halted expert does nothing but count.  Whatever parents follow, each accepted one is rejected: after \<open>n\<close> of them the state is the halted state with its
  count of rejected parents increased by \<open>n\<close>.\<close>

theorem halted_expert_only_counts:
  assumes "xs_halted s" "run_steps reduce_step s groups = Inr s'" "expert_state_post_init s = None"
  shows "s' = s\<lparr>xs_rejected_parent_count := xs_rejected_parent_count s + int (length groups)\<rparr>"
  using assms
proof (induction groups arbitrary: s)
  case (Cons g groups)
  then obtain s1 where s1: "reduce_step s g = Inr s1" "run_steps reduce_step s1 groups = Inr s'"
    by (auto simp: bind_result_eq_Inr)
  note h = halted_step[OF Cons.prems(1,3) s1(1)]
  have "s' = s1\<lparr>xs_rejected_parent_count := xs_rejected_parent_count s1 + int (length groups)\<rparr>"
    using Cons.IH[OF _ s1(2)] Cons.prems(1) h by auto
  with conjunct1[OF h] show ?case by (simp add: add.commute add.left_commute)
qed simp

theorem halted_expert_only_counts_witness:
  "\<exists>s'. run_steps reduce_step (halted_of demo_expert REDUCER_EXCEPTION) [demo_group] = Inr s'
     \<and> xs_rejected_parent_count s' = 2 \<and> xs_halt_reason s' = Some REDUCER_EXCEPTION"
proof -
  let ?s = "halted_of demo_expert REDUCER_EXCEPTION"
  have inv: "expert_inv ?s" by (rule halted_of_inv(1)[OF demo_expert_inv]) (simp add: demo_expert_simps)
  have "xs_session_id ?s = demo_session_id" by (simp add: halted_of_def demo_expert_simps)
  then obtain x where "reduce_expert_parent ?s demo_group = Inr x"
    using demo_reduction[OF inv] by (auto simp: demo_expert_simps)
  then have r: "run_steps reduce_step ?s [demo_group] = Inr (red_final_state x)" by (simp add: reduce_step_def)
  have "xs_halt_reason ?s = Some REDUCER_EXCEPTION" by (simp add: halted_of_def demo_expert_def)
  then show ?thesis
    using halted_expert_only_counts[OF _ r] inv r by (simp add: expert_inv_def demo_expert_simps)
qed

end
