(* ===== verification/JsonText.thy ===== *)
theory JsonText
  imports Canonical
begin

text \<open>
  The part of Python's \<open>json\<close> that the event core (package \<open>tennis_v1\<close>) uses:
  \<open>json_dumps\<close> is \<open>json.dumps\<close> with sorted keys, ASCII output and no white space, \<open>json_loads\<close> is
  \<open>json.loads\<close> with the three hooks of \<open>tennis_v1/codec.py\<close> (duplicate keys, floating point numbers and the
  constants \<open>NaN\<close> and \<open>Infinity\<close> are refused).  Here a \<open>str\<close> is a list of code points of any size, because a text that is read
  may contain all of Unicode.  Integers of more than 4300 decimal digits cannot be printed or read
  (the interpreter's limit on integer conversion).
\<close>

type_synonym utext = "nat list"

definition codes :: "string \<Rightarrow> utext" where
  "codes s = map of_char s"

datatype jvalue =
    JvNull
  | JvBool bool
  | JvInt int
  | JvStr utext
  | JvArr "jvalue list"
  | JvObj "(utext \<times> jvalue) list"

subsection \<open>Printing\<close>

definition hex_digit :: "nat \<Rightarrow> char" where
  "hex_digit k = hex_digits ! k"

definition escape_u :: "nat \<Rightarrow> string" where
  "escape_u n = [char_of (92 :: nat), CHR ''u'', hex_digit (n div 4096 mod 16), hex_digit (n div 256 mod 16),
     hex_digit (n div 16 mod 16), hex_digit (n mod 16)]"

definition escape_point :: "nat \<Rightarrow> string" where
  "escape_point n =
     (if n = 34 then [char_of (92 :: nat), char_of (34 :: nat)]
      else if n = 92 then [char_of (92 :: nat), char_of (92 :: nat)]
      else if n = 10 then [char_of (92 :: nat), CHR ''n'']
      else if n = 13 then [char_of (92 :: nat), CHR ''r'']
      else if n = 9 then [char_of (92 :: nat), CHR ''t'']
      else if n = 8 then [char_of (92 :: nat), CHR ''b'']
      else if n = 12 then [char_of (92 :: nat), CHR ''f'']
      else if 32 \<le> n \<and> n \<le> 126 then [char_of n]
      else if n < 65536 then escape_u n
      else escape_u (55296 + (n - 65536) div 1024) @ escape_u (56320 + (n - 65536) mod 1024))"

definition quoted :: "utext \<Rightarrow> string" where
  "quoted t = [char_of (34 :: nat)] @ concat (map escape_point t) @ [char_of (34 :: nat)]"

fun json_dumps :: "jvalue \<Rightarrow> string" where
  "json_dumps JvNull = ''null''"
| "json_dumps (JvBool b) = (if b then ''true'' else ''false'')"
| "json_dumps (JvInt i) = int_text i"
| "json_dumps (JvStr t) = quoted t"
| "json_dumps (JvArr xs) = ''['' @ comma_join (map json_dumps xs) @ '']''"
| "json_dumps (JvObj kvs) =
     ''{'' @ comma_join (map (\<lambda>(k, v). quoted k @ '':'' @ v)
                        (sort_key fst (map (\<lambda>(k, v). (k, json_dumps v)) kvs))) @ ''}''"

definition int_digits_bound :: int where
  "int_digits_bound = 10 ^ 4300"

fun printable :: "jvalue \<Rightarrow> bool" where
  "printable (JvInt i) = (\<bar>i\<bar> < int_digits_bound)"
| "printable (JvArr xs) = list_all printable xs"
| "printable (JvObj kvs) = list_all (\<lambda>kv. printable (snd kv)) kvs"
| "printable _ = True"

definition canonical_json_bytes :: "jvalue \<Rightarrow> bytes result" where
  \<comment> \<open>\<open>_validate\<close> accepts every value: floats and keys that are not strings are not values of the model\<close>
  "canonical_json_bytes v =
     (if printable v then Inr (json_dumps v) else Inl (ValueError ''int_max_str_digits''))"

subsection \<open>UTF-8\<close>

fun continuation :: "nat \<Rightarrow> bool" where
  "continuation b = (128 \<le> b \<and> b < 192)"

fun utf8_decode :: "nat list \<Rightarrow> utext option" where
  "utf8_decode [] = Some []"
| "utf8_decode (a # s) =
     (if a < 128 then map_option ((#) a) (utf8_decode s)
      else case s of
        [] \<Rightarrow> None
      | b # s1 \<Rightarrow>
          if 194 \<le> a \<and> a < 224 then
            (if continuation b then map_option ((#) ((a - 192) * 64 + (b - 128))) (utf8_decode s1) else None)
          else case s1 of
            [] \<Rightarrow> None
          | c # s2 \<Rightarrow>
              if 224 \<le> a \<and> a < 240 then
                (let n = (a - 224) * 4096 + (b - 128) * 64 + (c - 128)
                 in if continuation b \<and> continuation c \<and> 2048 \<le> n \<and> \<not> (55296 \<le> n \<and> n < 57344)
                    then map_option ((#) n) (utf8_decode s2) else None)
              else case s2 of
                [] \<Rightarrow> None
              | d # s3 \<Rightarrow>
                  if 240 \<le> a \<and> a < 245 then
                    (let n = (a - 240) * 262144 + (b - 128) * 4096 + (c - 128) * 64 + (d - 128)
                     in if continuation b \<and> continuation c \<and> continuation d \<and> 65536 \<le> n \<and> n < 1114112
                        then map_option ((#) n) (utf8_decode s3) else None)
                  else None)"

subsection \<open>Reading\<close>

text \<open>\<open>json_error\<close> is \<open>json.JSONDecodeError\<close>, a \<open>ValueError\<close>.\<close>

definition json_error :: "'a result" where
  "json_error = Inl (ValueError ''JSONDecodeError'')"

fun skip_ws :: "utext \<Rightarrow> utext" where
  "skip_ws [] = []"
| "skip_ws (c # s) = (if c \<in> {32, 9, 10, 13} then skip_ws s else c # s)"

definition hex_code :: "nat \<Rightarrow> nat option" where
  "hex_code n =
     (if 48 \<le> n \<and> n \<le> 57 then Some (n - 48)
      else if 97 \<le> n \<and> n \<le> 102 then Some (n - 87)
      else if 65 \<le> n \<and> n \<le> 70 then Some (n - 55)
      else None)"

fun hex_quad :: "utext \<Rightarrow> (nat \<times> utext) option" where
  "hex_quad (a # b # c # d # s) =
     (case (hex_code a, hex_code b, hex_code c, hex_code d) of
        (Some a', Some b', Some c', Some d') \<Rightarrow> Some (a' * 4096 + b' * 256 + c' * 16 + d', s)
      | _ \<Rightarrow> None)"
| "hex_quad _ = None"

definition low_surrogate :: "utext \<Rightarrow> (nat \<times> utext) option" where
  \<comment> \<open>a low surrogate that follows a high one\<close>
  "low_surrogate s =
     (case s of
        b # u # s' \<Rightarrow>
          if b = 92 \<and> u = 117 then
            (case hex_quad s' of
               Some (n, r) \<Rightarrow> if 56320 \<le> n \<and> n \<le> 57343 then Some (n, r) else None
             | None \<Rightarrow> None)
          else None
      | _ \<Rightarrow> None)"

fun unescape :: "utext \<Rightarrow> (nat \<times> utext) option" where
  \<comment> \<open>what follows a backslash\<close>
  "unescape [] = None"
| "unescape (e # s) =
     (if e = 117 then
        (case hex_quad s of
           None \<Rightarrow> None
         | Some (n, r) \<Rightarrow>
             if 55296 \<le> n \<and> n \<le> 56319 then
               (case low_surrogate r of
                  Some (l, r') \<Rightarrow> Some (65536 + (n - 55296) * 1024 + (l - 56320), r')
                | None \<Rightarrow> Some (n, r))
             else Some (n, r))
      else if e \<in> {34, 92, 47} then Some (e, s)
      else if e = 98 then Some (8, s)
      else if e = 102 then Some (12, s)
      else if e = 110 then Some (10, s)
      else if e = 114 then Some (13, s)
      else if e = 116 then Some (9, s)
      else None)"

lemma hex_quad_shorter: "hex_quad s = Some (n, r) \<Longrightarrow> length r < length s"
  by (cases s rule: hex_quad.cases) (auto split: option.splits)

lemma unescape_shorter: "unescape s = Some (n, r) \<Longrightarrow> length r < length s"
  by (cases s rule: unescape.cases)
    (auto simp: low_surrogate_def split: if_splits option.splits list.splits dest!: hex_quad_shorter)

function string_body :: "utext \<Rightarrow> (utext \<times> utext) result" where
  \<comment> \<open>after the opening quote: the text up to the closing one, and the rest\<close>
  "string_body [] = json_error"
| "string_body (c # s) =
     (if c = 34 then Inr ([], s)
      else if c = 92 then
        (case unescape s of
           None \<Rightarrow> json_error
         | Some (n, r) \<Rightarrow> bind_result (string_body r) (\<lambda>(t, r'). Inr (n # t, r')))
      else if c < 32 then json_error
      else bind_result (string_body s) (\<lambda>(t, r). Inr (c # t, r)))"
  by pat_completeness auto
termination
  by (relation "measure length") (auto dest: unescape_shorter)

definition is_digit :: "nat \<Rightarrow> bool" where
  "is_digit c \<longleftrightarrow> 48 \<le> c \<and> c \<le> 57"

fun starts_digit :: "utext \<Rightarrow> bool" where
  "starts_digit [] = False"
| "starts_digit (c # s) = is_digit c"

definition digits_value :: "utext \<Rightarrow> int" where
  "digits_value = foldl (\<lambda>n c. 10 * n + (int c - 48)) 0"

definition starts_float :: "utext \<Rightarrow> bool" where
  \<comment> \<open>a fraction or an exponent follows the digits\<close>
  "starts_float s =
     (case s of
        [] \<Rightarrow> False
      | c # r \<Rightarrow>
          if c = 46 then starts_digit r
          else if c \<in> {69, 101} then
            starts_digit (case r of [] \<Rightarrow> [] | d # r' \<Rightarrow> if d \<in> {43, 45} then r' else r)
          else False)"

definition read_natural :: "utext \<Rightarrow> (int \<times> utext) result" where
  "read_natural s =
     (case s of
        [] \<Rightarrow> json_error
      | c # r \<Rightarrow>
          if \<not> is_digit c then json_error
          else
            let ds = (if c = 48 then [c] else takeWhile is_digit s);
                rest = drop (length ds) s
            in if starts_float rest then Inl (RecordCodecError ''floating_point_not_permitted'')
               else if 4300 < length ds then Inl (ValueError ''int_max_str_digits'')
               else Inr (digits_value ds, rest))"

definition has_prefix :: "string \<Rightarrow> utext \<Rightarrow> bool" where
  "has_prefix p s \<longleftrightarrow> take (length p) s = codes p"

definition nonstandard_constant :: "'a result" where
  "nonstandard_constant = Inl (RecordCodecError ''nonstandard_constant_not_permitted'')"

definition duplicate_free_object :: "(utext \<times> jvalue) list \<Rightarrow> jvalue result" where
  "duplicate_free_object pairs =
     (if distinct (map fst pairs) then Inr (JvObj pairs) else Inl (RecordCodecError ''duplicate_json_key''))"

definition read_literal :: "utext \<Rightarrow> (jvalue \<times> utext) result" where
  \<comment> \<open>literals, constants and numbers\<close>
  "read_literal s =
     (if has_prefix ''null'' s then Inr (JvNull, drop 4 s)
      else if has_prefix ''true'' s then Inr (JvBool True, drop 4 s)
      else if has_prefix ''false'' s then Inr (JvBool False, drop 5 s)
      else if has_prefix ''NaN'' s \<or> has_prefix ''Infinity'' s \<or> has_prefix ''-Infinity'' s then nonstandard_constant
      else if has_prefix ''-'' s then
        bind_result (read_natural (drop 1 s)) (\<lambda>(n, r). Inr (JvInt (- n), r))
      else bind_result (read_natural s) (\<lambda>(n, r). Inr (JvInt n, r)))"

text \<open>
  The scanner.  The first argument is fuel: a call passes one less to the calls it makes, and every
  second call consumes a character, so \<open>2 * length s + 1\<close> is enough (\<open>parse_value_fuel\<close> in the
  theory of the round trip).
\<close>

fun parse_value :: "nat \<Rightarrow> utext \<Rightarrow> (jvalue \<times> utext) result"
  and parse_elements :: "nat \<Rightarrow> utext \<Rightarrow> (jvalue list \<times> utext) result"
  and parse_members :: "nat \<Rightarrow> utext \<Rightarrow> ((utext \<times> jvalue) list \<times> utext) result"
where
  "parse_value 0 s = json_error"
| "parse_value (Suc n) s =
     (case s of
        [] \<Rightarrow> json_error
      | c # r \<Rightarrow>
          if c = 34 then bind_result (string_body r) (\<lambda>(t, r'). Inr (JvStr t, r'))
          else if c = 91 then
            (let r = skip_ws r
             in if r \<noteq> [] \<and> hd r = 93 then Inr (JvArr [], tl r)
                else bind_result (parse_elements n r) (\<lambda>(vs, r'). Inr (JvArr vs, r')))
          else if c = 123 then
            (let r = skip_ws r
             in if r \<noteq> [] \<and> hd r = 125 then bind_result (duplicate_free_object []) (\<lambda>v. Inr (v, tl r))
                else bind_result (parse_members n r) (\<lambda>(kvs, r').
                  bind_result (duplicate_free_object kvs) (\<lambda>v. Inr (v, r'))))
          else read_literal s)"
| "parse_elements 0 s = json_error"
| "parse_elements (Suc n) s =
     bind_result (parse_value n s) (\<lambda>(v, r).
       case skip_ws r of
         [] \<Rightarrow> json_error
       | d # r' \<Rightarrow>
           if d = 93 then Inr ([v], r')
           else if d = 44 then bind_result (parse_elements n (skip_ws r')) (\<lambda>(vs, r''). Inr (v # vs, r''))
           else json_error)"
| "parse_members 0 s = json_error"
| "parse_members (Suc n) s =
     (case s of
        [] \<Rightarrow> json_error
      | q # s' \<Rightarrow>
          if q \<noteq> 34 then json_error
          else bind_result (string_body s') (\<lambda>(k, r).
            case skip_ws r of
              [] \<Rightarrow> json_error
            | d # r' \<Rightarrow>
                if d \<noteq> 58 then json_error
                else bind_result (parse_value n (skip_ws r')) (\<lambda>(v, r1).
                  case skip_ws r1 of
                    [] \<Rightarrow> json_error
                  | e # r2 \<Rightarrow>
                      if e = 125 then Inr ([(k, v)], r2)
                      else if e = 44 then
                        bind_result (parse_members n (skip_ws r2)) (\<lambda>(kvs, r3). Inr ((k, v) # kvs, r3))
                      else json_error)))"

declare parse_value.simps(2) [simp del] parse_elements.simps(2) [simp del] parse_members.simps(2) [simp del]

definition json_loads :: "utext \<Rightarrow> jvalue result" where
  "json_loads s =
     bind_result (parse_value (2 * length s + 1) (skip_ws s)) (\<lambda>(v, r).
       if skip_ws r = [] then Inr v else json_error)"

end
