(* ===== verification/EventCore.thy ===== *)
theory EventCore
  imports ContractsExpert JsonText
begin

text \<open>
  The event core of \<open>tennis_v1/events.py\<close>: the kinds of records, the persisted event, the manifest of a
  session and the draft of a derived record, each with its validator.  The errors are
  \<open>EventValidationError\<close>; the type tests are discharged by the types of the fields.  Field prefixes:
  \<open>ev_\<close> persisted event, \<open>sm_\<close> session manifest, \<open>dd_\<close> derived draft.
\<close>

subsection \<open>Kinds\<close>

datatype SourceKind = PROVIDER | KALSHI | TIMER | SYSTEM

primrec source_kind_value :: "SourceKind \<Rightarrow> string" where
  "source_kind_value PROVIDER = ''provider''"
| "source_kind_value KALSHI = ''kalshi''"
| "source_kind_value TIMER = ''timer''"
| "source_kind_value SYSTEM = ''system''"

datatype RecordKind = RAW | DERIVED | CONTROL

primrec record_kind_value :: "RecordKind \<Rightarrow> string" where
  "record_kind_value RAW = ''raw''"
| "record_kind_value DERIVED = ''derived''"
| "record_kind_value CONTROL = ''control''"

datatype ProvenanceState = ABSENT | SAFE_ORIGINAL | REDACTED

primrec provenance_state_value :: "ProvenanceState \<Rightarrow> string" where
  "provenance_state_value ABSENT = ''absent''"
| "provenance_state_value SAFE_ORIGINAL = ''safe_original''"
| "provenance_state_value REDACTED = ''redacted''"

subsection \<open>Data\<close>

record SessionManifest =
  sm_schema_version :: int
  sm_session_id :: string
  sm_created_wall_ns :: int
  sm_config_file_sha256 :: string
  sm_config_canonical_sha256 :: string
  sm_code_sha256 :: string
  sm_research_request_sha256 :: string
  sm_provider_id :: string
  sm_product_tier :: string
  sm_source_lineage_id :: string
  sm_provider_manifest_file_sha256 :: string
  sm_provider_manifest_canonical_sha256 :: string
  sm_entitlement_id_sha256 :: string
  sm_terms_version :: string
  sm_permission_artifact_sha256 :: string
  sm_qualification_artifact_sha256 :: string
  sm_qualification_trace_sha256 :: string
  sm_adapter_code_sha256 :: string
  sm_auth_contract_sha256 :: string
  sm_quota_contract_sha256 :: string
  sm_session_end_ns :: int
  sm_required_retention_until_ns :: int
  sm_access_expires_at_ns :: int
  sm_analysis_expires_at_ns :: int
  sm_research_evaluable :: bool

record DerivedDraft =
  dd_event_type :: string
  dd_event_version :: int
  dd_payload_encoding :: string
  dd_payload :: bytes

record PersistedEvent =
  ev_journal_version :: int
  ev_record_kind :: RecordKind
  ev_ingest_seq :: int
  ev_session_id :: string
  ev_event_type :: string
  ev_event_version :: int
  ev_source_kind :: SourceKind
  ev_source_id :: string
  ev_source_entity_id :: string
  ev_endpoint_id :: "string option"
  ev_endpoint_state :: ProvenanceState
  ev_channel_id :: "string option"
  ev_channel_state :: ProvenanceState
  ev_request_id :: "string option"
  ev_request_id_state :: ProvenanceState
  ev_source_wall_ns :: "int option"
  ev_source_generated_ns :: "int option"
  ev_local_wall_ns :: int
  ev_local_monotonic_ns :: int
  ev_clock_uncertainty_ns :: int
  ev_connection_epoch :: int
  ev_provider_sequence :: "string option"
  ev_parent_ingest_seq :: "int option"
  ev_content_type :: string
  ev_payload_encoding :: string
  ev_payload_transform :: string
  ev_retention_delete_by_ns :: "int option"
  ev_payload_sha256 :: string
  ev_payload :: bytes

record ControlRecordContract =
  cr_content_type :: string
  cr_event_version :: int
  cr_payload_encoding :: string
  cr_payload_transform :: string

subsection \<open>Scalars\<close>

definition event_error :: "bool \<Rightarrow> string \<Rightarrow> exn option" where
  "event_error c message = require c (EventValidationError message)"

lemma event_error_eq_None [simp]: "event_error c message = None \<longleftrightarrow> c"
  by (simp add: event_error_def)

definition alphanumeric :: "char \<Rightarrow> bool" where
  "alphanumeric c \<longleftrightarrow> is_upper_char c \<or> is_lower_char c \<or> is_digit_char c"

definition safe_identifier_ok :: "string \<Rightarrow> bool" where
  \<comment> \<open>\<open>[A-Za-z0-9][A-Za-z0-9._-]{0,63}\<close>\<close>
  "safe_identifier_ok s \<longleftrightarrow>
     (case s of
        [] \<Rightarrow> False
      | c # cs \<Rightarrow> alphanumeric c \<and> length cs \<le> 63 \<and> list_all (\<lambda>d. alphanumeric d \<or> d \<in> set ''._-'') cs)"

definition payload_encoding_ok :: "string \<Rightarrow> bool" where
  \<comment> \<open>\<open>[A-Za-z0-9][A-Za-z0-9._+-]{0,63}\<close>\<close>
  "payload_encoding_ok s \<longleftrightarrow>
     (case s of
        [] \<Rightarrow> False
      | c # cs \<Rightarrow> alphanumeric c \<and> length cs \<le> 63 \<and> list_all (\<lambda>d. alphanumeric d \<or> d \<in> set ''._+-'') cs)"

definition media_part_ok :: "nat \<Rightarrow> string \<Rightarrow> bool" where
  \<comment> \<open>\<open>[a-z0-9][a-z0-9!#$&^_.+-]{0,n}\<close>\<close>
  "media_part_ok n s \<longleftrightarrow>
     (case s of
        [] \<Rightarrow> False
      | c # cs \<Rightarrow> (is_lower_char c \<or> is_digit_char c) \<and> length cs \<le> n
          \<and> list_all (\<lambda>d. is_lower_char d \<or> is_digit_char d \<or> d \<in> set ''!#$&^_.+-'') cs)"

definition content_type_ok :: "string \<Rightarrow> bool" where
  \<comment> \<open>two parts around the first slash: no part contains one\<close>
  "content_type_ok s \<longleftrightarrow>
     media_part_ok 63 (takeWhile (\<lambda>c. c \<noteq> CHR ''/'') s)
     \<and> (case dropWhile (\<lambda>c. c \<noteq> CHR ''/'') s of [] \<Rightarrow> False | c # cs \<Rightarrow> media_part_ok 127 cs)"

definition safe_identifier :: "string \<Rightarrow> string \<Rightarrow> exn option" where
  "safe_identifier s name = event_error (safe_identifier_ok s) (name @ '': safe_identifier_required'')"

definition nonnegative_integer :: "int \<Rightarrow> string \<Rightarrow> exn option" where
  "nonnegative_integer v name = event_error (0 \<le> v) (name @ '': nonnegative_integer_required'')"

definition positive_event_integer :: "int \<Rightarrow> string \<Rightarrow> exn option" where
  "positive_event_integer v name = event_error (1 \<le> v) (name @ '': positive_integer_required'')"

definition event_sha256 :: "string \<Rightarrow> string \<Rightarrow> exn option" where
  "event_sha256 s name = event_error (sha256_ok s) (name @ '': sha256_required'')"

definition event_session_id_ok :: "string \<Rightarrow> bool" where
  "event_session_id_ok s \<longleftrightarrow> safe_identifier_ok s \<and> canonical_uuid s"

definition validate_session_id :: "string \<Rightarrow> exn option" where
  "validate_session_id s = first_raise
     [safe_identifier s ''session_id'', event_error (canonical_uuid s) ''session_id: canonical_uuid_required'']"

definition validate_provenance :: "string option \<Rightarrow> ProvenanceState \<Rightarrow> string \<Rightarrow> exn option" where
  \<comment> \<open>a missing value in state \<open>SAFE_ORIGINAL\<close> is a \<open>TypeError\<close> of \<open>_safe_identifier\<close>\<close>
  "validate_provenance value state name =
     (case state of
        ABSENT \<Rightarrow> event_error (value = None) (name @ '': absent_value_mismatch'')
      | REDACTED \<Rightarrow> event_error (value = Some ''<redacted>'') (name @ '': redacted_value_mismatch'')
      | SAFE_ORIGINAL \<Rightarrow>
          (case value of
             None \<Rightarrow> Some (TypeError (name @ '': safe_identifier_required''))
           | Some s \<Rightarrow> safe_identifier s name))"

definition capture_payload_transforms :: "string list" where
  "capture_payload_transforms =
     [''identity-public-market-v1'', ''json-secret-redaction-v1'', ''sanitized-transport-error-v1'']"

definition record_payload_transforms :: "string list" where
  "record_payload_transforms = capture_payload_transforms @ [''derived-canonical-v1'']"

definition control_record_contracts :: "string \<Rightarrow> ControlRecordContract option" where
  "control_record_contracts event_type =
     (if event_type = ''SESSION_START''
      then Some \<lparr>cr_content_type = ''application/vnd.inci.session-manifest+json'', cr_event_version = 1,
        cr_payload_encoding = ''canonical-json-v1'', cr_payload_transform = ''identity-public-market-v1''\<rparr>
      else if event_type = ''SESSION_HALT''
      then Some \<lparr>cr_content_type = ''application/vnd.inci.session-terminal+json'', cr_event_version = 1,
        cr_payload_encoding = ''canonical-json-v1'', cr_payload_transform = ''identity-public-market-v1''\<rparr>
      else None)"

subsection \<open>Validators\<close>

definition session_manifest_post_init :: "SessionManifest \<Rightarrow> exn option" where
  "session_manifest_post_init m = first_raise
     ([event_error (sm_schema_version m = 1) ''session_manifest: unsupported_schema_version'',
       validate_session_id (sm_session_id m),
       nonnegative_integer (sm_created_wall_ns m) ''created_wall_ns'',
       nonnegative_integer (sm_session_end_ns m) ''session_end_ns'',
       nonnegative_integer (sm_required_retention_until_ns m) ''required_retention_until_ns'',
       nonnegative_integer (sm_access_expires_at_ns m) ''access_expires_at_ns'',
       nonnegative_integer (sm_analysis_expires_at_ns m) ''analysis_expires_at_ns'',
       event_error
         (sm_created_wall_ns m < sm_session_end_ns m \<and> sm_session_end_ns m \<le> sm_access_expires_at_ns m
          \<and> sm_access_expires_at_ns m \<le> sm_analysis_expires_at_ns m
          \<and> sm_session_end_ns m < sm_required_retention_until_ns m
          \<and> sm_required_retention_until_ns m \<le> sm_analysis_expires_at_ns m)
         ''session_manifest: invalid_time_window'',
       event_sha256 (sm_config_file_sha256 m) ''config_file_sha256'',
       event_sha256 (sm_config_canonical_sha256 m) ''config_canonical_sha256'',
       event_sha256 (sm_code_sha256 m) ''code_sha256'',
       event_sha256 (sm_research_request_sha256 m) ''research_request_sha256'',
       event_sha256 (sm_provider_manifest_file_sha256 m) ''provider_manifest_file_sha256'',
       event_sha256 (sm_provider_manifest_canonical_sha256 m) ''provider_manifest_canonical_sha256'',
       event_sha256 (sm_entitlement_id_sha256 m) ''entitlement_id_sha256'',
       event_sha256 (sm_permission_artifact_sha256 m) ''permission_artifact_sha256'',
       event_sha256 (sm_qualification_artifact_sha256 m) ''qualification_artifact_sha256'',
       event_sha256 (sm_qualification_trace_sha256 m) ''qualification_trace_sha256'',
       event_sha256 (sm_adapter_code_sha256 m) ''adapter_code_sha256'',
       event_sha256 (sm_auth_contract_sha256 m) ''auth_contract_sha256'',
       event_sha256 (sm_quota_contract_sha256 m) ''quota_contract_sha256'',
       safe_identifier (sm_provider_id m) ''provider_id'',
       safe_identifier (sm_product_tier m) ''product_tier'',
       safe_identifier (sm_source_lineage_id m) ''source_lineage_id'',
       safe_identifier (sm_terms_version m) ''terms_version'',
       event_error (\<not> sm_research_evaluable m) ''session_manifest: research_evaluable_must_be_literal_false''])"

definition derived_draft_post_init :: "DerivedDraft \<Rightarrow> exn option" where
  "derived_draft_post_init d = first_raise
     [safe_identifier (dd_event_type d) ''event_type'',
      positive_event_integer (dd_event_version d) ''event_version'',
      event_error (payload_encoding_ok (dd_payload_encoding d)) ''payload_encoding: safe_identifier_required'']"

definition event_scalars :: "PersistedEvent \<Rightarrow> exn option" where
  "event_scalars e = first_raise
     [event_error (ev_journal_version e = 1) ''journal_version: unsupported_version'',
      positive_event_integer (ev_ingest_seq e) ''ingest_seq'',
      validate_session_id (ev_session_id e),
      safe_identifier (ev_event_type e) ''event_type'',
      safe_identifier (ev_source_id e) ''source_id'',
      safe_identifier (ev_source_entity_id e) ''source_entity_id'',
      positive_event_integer (ev_event_version e) ''event_version'',
      validate_provenance (ev_endpoint_id e) (ev_endpoint_state e) ''endpoint_id'',
      validate_provenance (ev_channel_id e) (ev_channel_state e) ''channel_id'',
      validate_provenance (ev_request_id e) (ev_request_id_state e) ''request_id'',
      when_some (\<lambda>v. nonnegative_integer v ''source_wall_ns'') (ev_source_wall_ns e),
      when_some (\<lambda>v. nonnegative_integer v ''source_generated_ns'') (ev_source_generated_ns e),
      nonnegative_integer (ev_local_wall_ns e) ''local_wall_ns'',
      nonnegative_integer (ev_local_monotonic_ns e) ''local_monotonic_ns'',
      nonnegative_integer (ev_clock_uncertainty_ns e) ''clock_uncertainty_ns'',
      nonnegative_integer (ev_connection_epoch e) ''connection_epoch'',
      when_some (\<lambda>v. safe_identifier v ''provider_sequence'') (ev_provider_sequence e),
      event_error (content_type_ok (ev_content_type e)) ''content_type: normalized_media_type_required'',
      event_error (payload_encoding_ok (ev_payload_encoding e)) ''payload_encoding: safe_identifier_required'',
      safe_identifier (ev_payload_transform e) ''payload_transform'',
      event_error (ev_payload_transform e \<in> set record_payload_transforms) ''payload_transform: unknown_transform'',
      event_sha256 (ev_payload_sha256 e) ''payload_sha256'',
      event_error (hexdigest (sha256 (ev_payload e)) = ev_payload_sha256 e)
        ''payload_sha256: payload_digest_mismatch'']"

definition event_lineage :: "PersistedEvent \<Rightarrow> exn option" where
  "event_lineage e =
     (if ev_record_kind e = DERIVED then first_raise
        [event_error
           (case ev_parent_ingest_seq e of None \<Rightarrow> False | Some p \<Rightarrow> 1 \<le> p \<and> p < ev_ingest_seq e)
           ''parent_ingest_seq: derived_parent_must_precede'',
         event_error
           (ev_content_type e = ''application/vnd.inci.derived+json''
            \<and> ev_payload_transform e = ''derived-canonical-v1'') ''derived_record: contract_mismatch'']
      else event_error (ev_parent_ingest_seq e = None) ''parent_ingest_seq: only_derived_records_have_parents'')"

definition event_retention :: "PersistedEvent \<Rightarrow> exn option" where
  "event_retention e = first_raise
     [when_some (\<lambda>v. nonnegative_integer v ''retention_delete_by_ns'') (ev_retention_delete_by_ns e),
      (if ev_source_kind e = PROVIDER \<and> ev_record_kind e \<in> {RAW, DERIVED} then
         event_error
           (case ev_retention_delete_by_ns e of None \<Rightarrow> False | Some t \<Rightarrow> ev_local_wall_ns e < t)
           ''retention_delete_by_ns: provider_future_deadline_required''
       else event_error (ev_retention_delete_by_ns e = None)
           ''retention_delete_by_ns: nonprovider_deadline_forbidden'')]"

definition control_contract_holds :: "PersistedEvent \<Rightarrow> bool" where
  "control_contract_holds e \<longleftrightarrow>
     (case control_record_contracts (ev_event_type e) of
        None \<Rightarrow> False
      | Some c \<Rightarrow>
          ev_source_kind e = SYSTEM \<and> ev_source_id e = ''tennis-v1'' \<and> ev_source_entity_id e = ev_session_id e
          \<and> ev_endpoint_id e = None \<and> ev_endpoint_state e = ABSENT
          \<and> ev_channel_id e = Some ''session-control'' \<and> ev_channel_state e = SAFE_ORIGINAL
          \<and> ev_request_id e = None \<and> ev_request_id_state e = ABSENT
          \<and> ev_source_wall_ns e = None \<and> ev_source_generated_ns e = None
          \<and> ev_clock_uncertainty_ns e = 0 \<and> ev_connection_epoch e = 0
          \<and> ev_provider_sequence e = None \<and> ev_retention_delete_by_ns e = None
          \<and> ev_event_version e = cr_event_version c \<and> ev_content_type e = cr_content_type c
          \<and> ev_payload_encoding e = cr_payload_encoding c \<and> ev_payload_transform e = cr_payload_transform c)"

definition persisted_event_post_init :: "PersistedEvent \<Rightarrow> exn option" where
  "persisted_event_post_init e = first_raise
     [event_scalars e, event_lineage e, event_retention e,
      (case ev_record_kind e of
         CONTROL \<Rightarrow> event_error (control_contract_holds e) ''control_record: contract_mismatch''
       | RAW \<Rightarrow> first_raise
           [event_error (ev_payload_transform e \<in> set capture_payload_transforms) ''raw_record: transform_mismatch'',
            event_error
              (ev_payload_transform e = ''sanitized-transport-error-v1''
               \<longrightarrow> ev_content_type e = ''application/vnd.inci.transport-error+json'')
              ''raw_record: transport_contract_mismatch'']
       | DERIVED \<Rightarrow> None)]"

end
