(* ===== verification/EventCodec.thy ===== *)
theory EventCodec
  imports EventCore
begin

text \<open>
  The record codec of \<open>tennis_v1/codec.py\<close> with the canonical JSON of \<open>tennis_v1/canonical.py\<close>: a
  persisted event becomes its metadata, a canonical JSON object, and its payload; reading
  accepts exactly the canonical bytes.  \<open>_decode_enum\<close> is \<open>decode_enum\<close>; the
  call of a constructor with the values of a JSON object is \<open>raw_event\<close> or \<open>raw_manifest\<close> behind
  the test that every value has the type of its field, which the constructor makes itself.
\<close>

subsection \<open>Projection\<close>

definition jv_text :: "string \<Rightarrow> jvalue" where
  "jv_text s = JvStr (codes s)"

definition jv_optional :: "('a \<Rightarrow> jvalue) \<Rightarrow> 'a option \<Rightarrow> jvalue" where
  "jv_optional f x = (case x of None \<Rightarrow> JvNull | Some y \<Rightarrow> f y)"

definition metadata_fields :: "PersistedEvent \<Rightarrow> (utext \<times> jvalue) list" where
  \<comment> \<open>\<open>_metadata_projection\<close>\<close>
  "metadata_fields e =
     [(codes ''journal_version'', JvInt (ev_journal_version e)),
      (codes ''record_kind'', jv_text (record_kind_value (ev_record_kind e))),
      (codes ''ingest_seq'', JvInt (ev_ingest_seq e)),
      (codes ''session_id'', jv_text (ev_session_id e)),
      (codes ''event_type'', jv_text (ev_event_type e)),
      (codes ''event_version'', JvInt (ev_event_version e)),
      (codes ''source_kind'', jv_text (source_kind_value (ev_source_kind e))),
      (codes ''source_id'', jv_text (ev_source_id e)),
      (codes ''source_entity_id'', jv_text (ev_source_entity_id e)),
      (codes ''endpoint_id'', jv_optional jv_text (ev_endpoint_id e)),
      (codes ''endpoint_state'', jv_text (provenance_state_value (ev_endpoint_state e))),
      (codes ''channel_id'', jv_optional jv_text (ev_channel_id e)),
      (codes ''channel_state'', jv_text (provenance_state_value (ev_channel_state e))),
      (codes ''request_id'', jv_optional jv_text (ev_request_id e)),
      (codes ''request_id_state'', jv_text (provenance_state_value (ev_request_id_state e))),
      (codes ''source_wall_ns'', jv_optional JvInt (ev_source_wall_ns e)),
      (codes ''source_generated_ns'', jv_optional JvInt (ev_source_generated_ns e)),
      (codes ''local_wall_ns'', JvInt (ev_local_wall_ns e)),
      (codes ''local_monotonic_ns'', JvInt (ev_local_monotonic_ns e)),
      (codes ''clock_uncertainty_ns'', JvInt (ev_clock_uncertainty_ns e)),
      (codes ''connection_epoch'', JvInt (ev_connection_epoch e)),
      (codes ''provider_sequence'', jv_optional jv_text (ev_provider_sequence e)),
      (codes ''parent_ingest_seq'', jv_optional JvInt (ev_parent_ingest_seq e)),
      (codes ''content_type'', jv_text (ev_content_type e)),
      (codes ''payload_encoding'', jv_text (ev_payload_encoding e)),
      (codes ''payload_transform'', jv_text (ev_payload_transform e)),
      (codes ''retention_delete_by_ns'', jv_optional JvInt (ev_retention_delete_by_ns e)),
      (codes ''payload_sha256'', jv_text (hexdigest (sha256 (ev_payload e))))]"

definition metadata_keys :: "string list" where
  "metadata_keys =
     [''journal_version'', ''record_kind'', ''ingest_seq'', ''session_id'', ''event_type'', ''event_version'', ''source_kind'', ''source_id'', ''source_entity_id'', ''endpoint_id'', ''endpoint_state'', ''channel_id'', ''channel_state'', ''request_id'', ''request_id_state'', ''source_wall_ns'', ''source_generated_ns'', ''local_wall_ns'', ''local_monotonic_ns'', ''clock_uncertainty_ns'', ''connection_epoch'', ''provider_sequence'', ''parent_ingest_seq'', ''content_type'', ''payload_encoding'', ''payload_transform'', ''retention_delete_by_ns'', ''payload_sha256'']"

definition session_manifest_keys :: "string list" where
  "session_manifest_keys =
     [''schema_version'', ''session_id'', ''created_wall_ns'', ''config_file_sha256'', ''config_canonical_sha256'', ''code_sha256'', ''research_request_sha256'', ''provider_id'', ''product_tier'', ''source_lineage_id'', ''provider_manifest_file_sha256'', ''provider_manifest_canonical_sha256'', ''entitlement_id_sha256'', ''terms_version'', ''permission_artifact_sha256'', ''qualification_artifact_sha256'', ''qualification_trace_sha256'', ''adapter_code_sha256'', ''auth_contract_sha256'', ''quota_contract_sha256'', ''session_end_ns'', ''required_retention_until_ns'', ''access_expires_at_ns'', ''analysis_expires_at_ns'', ''research_evaluable'']"

definition canonical_metadata :: "PersistedEvent \<Rightarrow> bytes result" where
  "canonical_metadata e = canonical_json_bytes (JvObj (metadata_fields e))"

definition encode_record :: "PersistedEvent \<Rightarrow> (bytes \<times> bytes) result" where
  "encode_record e =
     (if ev_payload_sha256 e \<noteq> hexdigest (sha256 (ev_payload e))
      then Inl (RecordCodecError ''payload_digest_mismatch'')
      else bind_result (canonical_metadata e) (\<lambda>metadata. Inr (metadata, ev_payload e)))"

definition framed :: "bytes \<Rightarrow> bytes result" where
  \<comment> \<open>the length in 8 bytes, most significant first (\<open>to_bytes\<close> refuses a larger one), and the bytes\<close>
  "framed b = (if length b < 2 ^ 64 then Inr (word_bytes 8 (int (length b)) @ b) else Inl OverflowError)"

definition canonical_record_sha256 :: "PersistedEvent \<Rightarrow> string result" where
  "canonical_record_sha256 e =
     bind_result (encode_record e) (\<lambda>(metadata, payload).
     bind_result (framed metadata) (\<lambda>framed_metadata.
     bind_result (framed payload) (\<lambda>framed_payload.
       Inr (hexdigest (sha256 (''INCI-CANONICAL-RECORD-V1'' @ nul @ framed_metadata @ framed_payload))))))"

subsection \<open>Strict objects\<close>

definition byte_order_mark :: bytes where
  "byte_order_mark = map char_of [239, 187, 191 :: nat]"

definition strict_json :: "bytes \<Rightarrow> string \<Rightarrow> jvalue result" where
  \<comment> \<open>the \<open>try\<close> block: \<open>RecordCodecError\<close> passes, every other \<open>ValueError\<close> becomes one\<close>
  "strict_json content label =
     (case (case utf8_decode (map of_char content) of
              None \<Rightarrow> Inl (ValueError ''UnicodeDecodeError'')
            | Some decoded \<Rightarrow> json_loads decoded) of
        Inr v \<Rightarrow> Inr v
      | Inl (RecordCodecError n) \<Rightarrow> Inl (RecordCodecError n)
      | Inl e \<Rightarrow> Inl (if is_value_error e then RecordCodecError (label @ '': invalid_strict_json'') else e))"

definition strict_object :: "bytes \<Rightarrow> string list \<Rightarrow> string \<Rightarrow> (utext \<times> jvalue) list result" where
  "strict_object content expected_keys label =
     (if take 3 content = byte_order_mark then Inl (RecordCodecError (label @ '': utf8_bom_not_permitted''))
      else
        bind_result (strict_json content label) (\<lambda>v.
          case v of
            JvObj kvs \<Rightarrow>
              if set (map fst kvs) \<noteq> set (map codes expected_keys)
              then Inl (RecordCodecError (label @ '': schema_keys_mismatch''))
              else bind_result (canonical_json_bytes v) (\<lambda>canonical.
                if canonical \<noteq> content then Inl (RecordCodecError (label @ '': noncanonical_json''))
                else Inr kvs)
          | _ \<Rightarrow> Inl (RecordCodecError (label @ '': schema_keys_mismatch''))))"

subsection \<open>Reading fields\<close>

fun int_value :: "jvalue \<Rightarrow> int option" where
  "int_value (JvInt i) = Some i"
| "int_value _ = None"

fun text_value :: "jvalue \<Rightarrow> string option" where
  \<comment> \<open>a text with code points above 255 fails every test the constructors make on texts\<close>
  "text_value (JvStr t) = (if list_all (\<lambda>n. n < 256) t then Some (map char_of t) else None)"
| "text_value _ = None"

fun bool_value :: "jvalue \<Rightarrow> bool option" where
  "bool_value (JvBool b) = Some b"
| "bool_value _ = None"

fun optional_value :: "(jvalue \<Rightarrow> 'a option) \<Rightarrow> jvalue \<Rightarrow> 'a option option" where
  "optional_value f JvNull = Some None"
| "optional_value f v = map_option Some (f v)"

definition member :: "(utext \<times> jvalue) list \<Rightarrow> string \<Rightarrow> jvalue" where
  "member kvs name = (case map_of kvs (codes name) of None \<Rightarrow> JvNull | Some v \<Rightarrow> v)"

definition int_field :: "(utext \<times> jvalue) list \<Rightarrow> string \<Rightarrow> int" where
  "int_field kvs name = (case int_value (member kvs name) of None \<Rightarrow> 0 | Some i \<Rightarrow> i)"

definition text_field :: "(utext \<times> jvalue) list \<Rightarrow> string \<Rightarrow> string" where
  "text_field kvs name = (case text_value (member kvs name) of None \<Rightarrow> [] | Some s \<Rightarrow> s)"

definition bool_field :: "(utext \<times> jvalue) list \<Rightarrow> string \<Rightarrow> bool" where
  "bool_field kvs name = (case bool_value (member kvs name) of None \<Rightarrow> False | Some b \<Rightarrow> b)"

definition optional_field :: "(jvalue \<Rightarrow> 'a option) \<Rightarrow> (utext \<times> jvalue) list \<Rightarrow> string \<Rightarrow> 'a option" where
  "optional_field f kvs name = (case optional_value f (member kvs name) of None \<Rightarrow> None | Some x \<Rightarrow> x)"

definition has_type :: "(jvalue \<Rightarrow> 'a option) \<Rightarrow> (utext \<times> jvalue) list \<Rightarrow> string \<Rightarrow> bool" where
  "has_type f kvs name \<longleftrightarrow> f (member kvs name) \<noteq> None"

subsection \<open>The manifest of a session\<close>

definition manifest_typed :: "(utext \<times> jvalue) list \<Rightarrow> bool" where
  "manifest_typed kvs \<longleftrightarrow>
     list_all (has_type int_value kvs)
       [''schema_version'', ''created_wall_ns'', ''session_end_ns'', ''required_retention_until_ns'', ''access_expires_at_ns'', ''analysis_expires_at_ns'']
     \<and> list_all (has_type text_value kvs)
       [''session_id'', ''config_file_sha256'', ''config_canonical_sha256'', ''code_sha256'', ''research_request_sha256'', ''provider_id'', ''product_tier'', ''source_lineage_id'', ''provider_manifest_file_sha256'', ''provider_manifest_canonical_sha256'', ''entitlement_id_sha256'', ''terms_version'', ''permission_artifact_sha256'', ''qualification_artifact_sha256'', ''qualification_trace_sha256'', ''adapter_code_sha256'', ''auth_contract_sha256'', ''quota_contract_sha256'']
     \<and> has_type bool_value kvs ''research_evaluable''"

definition raw_manifest :: "(utext \<times> jvalue) list \<Rightarrow> SessionManifest" where
  "raw_manifest kvs =
     \<lparr>sm_schema_version = int_field kvs ''schema_version'',
      sm_session_id = text_field kvs ''session_id'',
      sm_created_wall_ns = int_field kvs ''created_wall_ns'',
      sm_config_file_sha256 = text_field kvs ''config_file_sha256'',
      sm_config_canonical_sha256 = text_field kvs ''config_canonical_sha256'',
      sm_code_sha256 = text_field kvs ''code_sha256'',
      sm_research_request_sha256 = text_field kvs ''research_request_sha256'',
      sm_provider_id = text_field kvs ''provider_id'',
      sm_product_tier = text_field kvs ''product_tier'',
      sm_source_lineage_id = text_field kvs ''source_lineage_id'',
      sm_provider_manifest_file_sha256 = text_field kvs ''provider_manifest_file_sha256'',
      sm_provider_manifest_canonical_sha256 = text_field kvs ''provider_manifest_canonical_sha256'',
      sm_entitlement_id_sha256 = text_field kvs ''entitlement_id_sha256'',
      sm_terms_version = text_field kvs ''terms_version'',
      sm_permission_artifact_sha256 = text_field kvs ''permission_artifact_sha256'',
      sm_qualification_artifact_sha256 = text_field kvs ''qualification_artifact_sha256'',
      sm_qualification_trace_sha256 = text_field kvs ''qualification_trace_sha256'',
      sm_adapter_code_sha256 = text_field kvs ''adapter_code_sha256'',
      sm_auth_contract_sha256 = text_field kvs ''auth_contract_sha256'',
      sm_quota_contract_sha256 = text_field kvs ''quota_contract_sha256'',
      sm_session_end_ns = int_field kvs ''session_end_ns'',
      sm_required_retention_until_ns = int_field kvs ''required_retention_until_ns'',
      sm_access_expires_at_ns = int_field kvs ''access_expires_at_ns'',
      sm_analysis_expires_at_ns = int_field kvs ''analysis_expires_at_ns'',
      sm_research_evaluable = bool_field kvs ''research_evaluable''\<rparr>"

definition manifest_fields :: "SessionManifest \<Rightarrow> (utext \<times> jvalue) list" where
  \<comment> \<open>\<open>{item.name: getattr(manifest, item.name) for item in fields(SessionManifest)}\<close>\<close>
  "manifest_fields m =
     [(codes ''schema_version'', JvInt (sm_schema_version m)),
      (codes ''session_id'', jv_text (sm_session_id m)),
      (codes ''created_wall_ns'', JvInt (sm_created_wall_ns m)),
      (codes ''config_file_sha256'', jv_text (sm_config_file_sha256 m)),
      (codes ''config_canonical_sha256'', jv_text (sm_config_canonical_sha256 m)),
      (codes ''code_sha256'', jv_text (sm_code_sha256 m)),
      (codes ''research_request_sha256'', jv_text (sm_research_request_sha256 m)),
      (codes ''provider_id'', jv_text (sm_provider_id m)),
      (codes ''product_tier'', jv_text (sm_product_tier m)),
      (codes ''source_lineage_id'', jv_text (sm_source_lineage_id m)),
      (codes ''provider_manifest_file_sha256'', jv_text (sm_provider_manifest_file_sha256 m)),
      (codes ''provider_manifest_canonical_sha256'', jv_text (sm_provider_manifest_canonical_sha256 m)),
      (codes ''entitlement_id_sha256'', jv_text (sm_entitlement_id_sha256 m)),
      (codes ''terms_version'', jv_text (sm_terms_version m)),
      (codes ''permission_artifact_sha256'', jv_text (sm_permission_artifact_sha256 m)),
      (codes ''qualification_artifact_sha256'', jv_text (sm_qualification_artifact_sha256 m)),
      (codes ''qualification_trace_sha256'', jv_text (sm_qualification_trace_sha256 m)),
      (codes ''adapter_code_sha256'', jv_text (sm_adapter_code_sha256 m)),
      (codes ''auth_contract_sha256'', jv_text (sm_auth_contract_sha256 m)),
      (codes ''quota_contract_sha256'', jv_text (sm_quota_contract_sha256 m)),
      (codes ''session_end_ns'', JvInt (sm_session_end_ns m)),
      (codes ''required_retention_until_ns'', JvInt (sm_required_retention_until_ns m)),
      (codes ''access_expires_at_ns'', JvInt (sm_access_expires_at_ns m)),
      (codes ''analysis_expires_at_ns'', JvInt (sm_analysis_expires_at_ns m)),
      (codes ''research_evaluable'', JvBool (sm_research_evaluable m))]"

definition read_manifest :: "bytes \<Rightarrow> SessionManifest result" where
  "read_manifest payload =
     bind_result (strict_object payload session_manifest_keys ''session_manifest'') (\<lambda>kvs.
       if \<not> manifest_typed kvs \<or> session_manifest_post_init (raw_manifest kvs) \<noteq> None
       then Inl (RecordCodecError ''session_manifest: invalid_contract'')
       else if bool_field kvs ''research_evaluable''
       then Inl (RecordCodecError ''session_manifest: research_evaluable_must_be_literal_false'')
       else Inr (raw_manifest kvs))"

definition require_session_start_payload :: "PersistedEvent \<Rightarrow> unit result" where
  "require_session_start_payload e =
     (if ev_record_kind e \<noteq> CONTROL \<or> ev_event_type e \<noteq> ''SESSION_START'' then Inr ()
      else bind_result (read_manifest (ev_payload e)) (\<lambda>_. Inr ()))"

subsection \<open>Records\<close>

definition source_kinds :: "SourceKind list" where "source_kinds = [PROVIDER, KALSHI, TIMER, SYSTEM]"
definition record_kinds :: "RecordKind list" where "record_kinds = [RAW, DERIVED, CONTROL]"
definition provenance_states :: "ProvenanceState list" where "provenance_states = [ABSENT, SAFE_ORIGINAL, REDACTED]"

definition decode_enum :: "('e \<Rightarrow> string) \<Rightarrow> 'e list \<Rightarrow> (utext \<times> jvalue) list \<Rightarrow> string \<Rightarrow> 'e result" where
  "decode_enum val members kvs name =
     (case member kvs name of
        JvStr t \<Rightarrow>
          (case find (\<lambda>m. codes (val m) = t) members of
             Some m \<Rightarrow> Inr m
           | None \<Rightarrow> Inl (RecordCodecError (name @ '': invalid_enum'')))
      | _ \<Rightarrow> Inl (RecordCodecError (name @ '': invalid_enum'')))"

definition metadata_typed :: "(utext \<times> jvalue) list \<Rightarrow> bool" where
  "metadata_typed kvs \<longleftrightarrow>
     list_all (has_type int_value kvs)
       [''journal_version'', ''ingest_seq'', ''event_version'', ''local_wall_ns'', ''local_monotonic_ns'', ''clock_uncertainty_ns'', ''connection_epoch'']
     \<and> list_all (has_type text_value kvs)
       [''session_id'', ''event_type'', ''source_id'', ''source_entity_id'', ''content_type'', ''payload_encoding'', ''payload_transform'', ''payload_sha256'']
     \<and> list_all (has_type (optional_value int_value) kvs)
       [''source_wall_ns'', ''source_generated_ns'', ''parent_ingest_seq'', ''retention_delete_by_ns'']
     \<and> list_all (has_type (optional_value text_value) kvs)
       [''endpoint_id'', ''channel_id'', ''request_id'', ''provider_sequence'']"

definition raw_event ::
  "(utext \<times> jvalue) list \<Rightarrow> RecordKind \<Rightarrow> SourceKind \<Rightarrow> ProvenanceState \<Rightarrow> ProvenanceState \<Rightarrow> ProvenanceState
     \<Rightarrow> bytes \<Rightarrow> PersistedEvent" where
  "raw_event kvs kind source endpoint channel request payload =
     \<lparr>ev_journal_version = int_field kvs ''journal_version'',
      ev_record_kind = kind,
      ev_ingest_seq = int_field kvs ''ingest_seq'',
      ev_session_id = text_field kvs ''session_id'',
      ev_event_type = text_field kvs ''event_type'',
      ev_event_version = int_field kvs ''event_version'',
      ev_source_kind = source,
      ev_source_id = text_field kvs ''source_id'',
      ev_source_entity_id = text_field kvs ''source_entity_id'',
      ev_endpoint_id = optional_field text_value kvs ''endpoint_id'',
      ev_endpoint_state = endpoint,
      ev_channel_id = optional_field text_value kvs ''channel_id'',
      ev_channel_state = channel,
      ev_request_id = optional_field text_value kvs ''request_id'',
      ev_request_id_state = request,
      ev_source_wall_ns = optional_field int_value kvs ''source_wall_ns'',
      ev_source_generated_ns = optional_field int_value kvs ''source_generated_ns'',
      ev_local_wall_ns = int_field kvs ''local_wall_ns'',
      ev_local_monotonic_ns = int_field kvs ''local_monotonic_ns'',
      ev_clock_uncertainty_ns = int_field kvs ''clock_uncertainty_ns'',
      ev_connection_epoch = int_field kvs ''connection_epoch'',
      ev_provider_sequence = optional_field text_value kvs ''provider_sequence'',
      ev_parent_ingest_seq = optional_field int_value kvs ''parent_ingest_seq'',
      ev_content_type = text_field kvs ''content_type'',
      ev_payload_encoding = text_field kvs ''payload_encoding'',
      ev_payload_transform = text_field kvs ''payload_transform'',
      ev_retention_delete_by_ns = optional_field int_value kvs ''retention_delete_by_ns'',
      ev_payload_sha256 = text_field kvs ''payload_sha256'',
      ev_payload = payload\<rparr>"

definition decode_record :: "bytes \<Rightarrow> bytes \<Rightarrow> PersistedEvent result" where
  "decode_record metadata payload =
     bind_result (strict_object metadata metadata_keys ''record_metadata'') (\<lambda>kvs.
     if member kvs ''payload_sha256'' \<noteq> jv_text (hexdigest (sha256 payload))
     then Inl (RecordCodecError ''payload_digest_mismatch'')
     else
       bind_result (decode_enum record_kind_value record_kinds kvs ''record_kind'') (\<lambda>kind.
       bind_result (decode_enum source_kind_value source_kinds kvs ''source_kind'') (\<lambda>source.
       bind_result (decode_enum provenance_state_value provenance_states kvs ''endpoint_state'') (\<lambda>endpoint.
       bind_result (decode_enum provenance_state_value provenance_states kvs ''channel_state'') (\<lambda>channel.
       bind_result (decode_enum provenance_state_value provenance_states kvs ''request_id_state'') (\<lambda>request.
       let e = raw_event kvs kind source endpoint channel request payload
       in if \<not> metadata_typed kvs \<or> persisted_event_post_init e \<noteq> None
          then Inl (RecordCodecError ''record_metadata: invalid_contract'')
          else bind_result (require_session_start_payload e) (\<lambda>_. Inr e)))))))"

end
