(* ===== verification/ByteCodes.thy ===== *)
theory ByteCodes
  imports Sha256
begin

text \<open>
  Numbers as bytes and bytes as hexadecimal text: both codes are injective, and the bytes of a number are
  read back.
\<close>

subsection \<open>Hexadecimal text and fixed-width numbers\<close>

lemma hex_byte_inject: "hex_byte a = hex_byte b \<Longrightarrow> a = b"
proof -
  assume eq: "hex_byte a = hex_byte b"
  have d: "distinct hex_digits" "length hex_digits = 16" by (simp_all add: hex_digits_def)
  have range: "nat (of_char c div 16) < 16" "nat (of_char c mod 16) < 16" "0 \<le> of_char c div (16 :: int)" for c
    using of_char_int_range[of c] by auto
  have "nat (of_char a div 16) = nat (of_char b div 16)" "nat (of_char a mod 16) = nat (of_char b mod 16)"
    using eq range nth_eq_iff_index_eq[OF d(1)] d(2) by (simp_all add: hex_byte_def)
  then have "of_char a div 16 = (of_char b div 16 :: int)" "of_char a mod 16 = (of_char b mod 16 :: int)"
    using range[of a] range[of b] by (simp_all add: eq_nat_nat_iff)
  then have "of_char a = (of_char b :: int)" by (metis div_mult_mod_eq)
  then show "a = b" by simp
qed

lemma hexdigest_inject: "hexdigest a = hexdigest b \<Longrightarrow> a = b"
proof (induction a arbitrary: b)
  case Nil
  then have "2 * length b = 0" using length_hexdigest[of b] length_hexdigest[of "[]"] by simp
  then show ?case by simp
next
  case (Cons c a)
  then obtain d b' where b: "b = d # b'"
    using length_hexdigest[of b] length_hexdigest[of "c # a"] by (cases b) auto
  have "hex_byte c @ hexdigest a = hex_byte d @ hexdigest b'" using Cons.prems b by (simp add: hexdigest_def)
  moreover have "length (hex_byte c) = length (hex_byte d)" by (simp add: hex_byte_def)
  ultimately show ?case using Cons.IH[of b'] hex_byte_inject b by simp
qed

lemma word_bytes_Suc: "word_bytes (Suc n) v = char_of (v div 256 ^ n) # word_bytes n v"
  by (simp add: word_bytes_def)

lemma char_of_int_eq: "(char_of (a :: int) :: char) = char_of b \<longleftrightarrow> a mod 256 = b mod 256"
  by (metis char_of_mod_256 of_char_of)

lemma word_bytes_mod: "word_bytes n v = word_bytes n w \<Longrightarrow> v mod 256 ^ n = w mod 256 ^ n"
proof (induction n)
  case (Suc n)
  then have "v div 256 ^ n mod 256 = w div 256 ^ n mod 256" "v mod 256 ^ n = w mod 256 ^ n"
    by (simp_all add: word_bytes_Suc char_of_int_eq)
  then show ?case by (simp add: mult.commute[of 256] zmod_zmult2_eq)
qed simp

lemma word_bytes_inject:
  "word_bytes n v = word_bytes n w \<Longrightarrow> 0 \<le> v \<Longrightarrow> v < 256 ^ n \<Longrightarrow> 0 \<le> w \<Longrightarrow> w < 256 ^ n \<Longrightarrow> v = w"
  using word_bytes_mod[of n v w] by simp

subsection \<open>Reading numbers\<close>

definition be_value :: "bytes \<Rightarrow> int" where
  \<comment> \<open>an unsigned number, most significant byte first\<close>
  "be_value = foldl (\<lambda>n c. 256 * n + of_char c) 0"

lemma be_value_Nil [simp]: "be_value [] = 0"
  by (simp add: be_value_def)

lemma be_value_Cons: "be_value (c # cs) = of_char c * 256 ^ length cs + be_value cs"
proof -
  have "foldl (\<lambda>n c. 256 * n + of_char c) a cs = a * 256 ^ length cs + foldl (\<lambda>n c. 256 * n + of_char c) 0 cs" for a :: int
  proof (induction cs arbitrary: a)
    case (Cons d cs)
    show ?case using Cons[of "256 * a + of_char d"] Cons[of "of_char d"] by (simp add: algebra_simps)
  qed simp
  from this[of "of_char c"] show ?thesis by (simp add: be_value_def)
qed

lemma be_value_word_bytes: "0 \<le> v \<Longrightarrow> v < 256 ^ n \<Longrightarrow> be_value (word_bytes n v) = v"
proof -
  have "be_value (word_bytes n v) = v mod 256 ^ n" for v
  proof (induction n)
    case (Suc n)
    have "v mod 256 ^ Suc n = 256 ^ n * (v div 256 ^ n mod 256) + v mod 256 ^ n"
      by (simp add: mult.commute[of 256] zmod_zmult2_eq)
    then show ?case using Suc by (simp add: word_bytes_Suc be_value_Cons of_char_of)
  qed (simp add: word_bytes_def)
  then show "0 \<le> v \<Longrightarrow> v < 256 ^ n \<Longrightarrow> be_value (word_bytes n v) = v" by simp
qed

lemma be_value_nonneg: "0 \<le> be_value bs"
  by (induction bs) (simp_all add: be_value_Cons of_char_int_range)

end
