(* ===== verification/WalFormat.thy ===== *)
theory WalFormat
  imports EventCodec ByteCodes
begin

text \<open>
  The format of the write-ahead journal of \<open>tennis_v1/wal.py\<close>: the file prefix, frames, control records and what a terminal record
  says.  \<open>tennis_v1/retention.py\<close> declares the same constants once more.
\<close>

subsection \<open>The format\<close>

definition nul_bytes :: "nat \<Rightarrow> bytes" where
  "nul_bytes n = replicate n (char_of (0 :: nat))"

definition journal_prefix :: bytes where
  \<comment> \<open>\<open>>8sHHI\<close>: magic, version 1, flags 0, length 16\<close>
  "journal_prefix = ''INCIWAL'' @ nul_bytes 1 @ word_bytes 2 1 @ word_bytes 2 0 @ word_bytes 4 16"

definition frame_kind :: "RecordKind \<Rightarrow> int" where
  "frame_kind k = (case k of RAW \<Rightarrow> 1 | DERIVED \<Rightarrow> 2 | CONTROL \<Rightarrow> 3)"

definition frame_prefix_size :: nat where "frame_prefix_size = 32"
definition frame_trailer_size :: nat where "frame_trailer_size = 12"

definition frame_fixed_bytes :: nat where
  "frame_fixed_bytes = frame_prefix_size + 32 + frame_trailer_size"

definition max_frame_bytes :: nat where
  "max_frame_bytes = 16 * 1024 * 1024"

definition frame_digest :: "bytes \<Rightarrow> bytes \<Rightarrow> bytes \<Rightarrow> bytes" where
  "frame_digest prefix metadata payload = sha256 (''INCI-FRAME-V1'' @ nul_bytes 1 @ prefix @ metadata @ payload)"

definition pack_frame_prefix :: "RecordKind \<Rightarrow> int \<Rightarrow> nat \<Rightarrow> nat \<Rightarrow> nat \<Rightarrow> bytes" where
  \<comment> \<open>\<open>>4sBBHQQII\<close>\<close>
  "pack_frame_prefix kind seq frame_size metadata_length payload_length =
     ''EVT1'' @ word_bytes 1 1 @ word_bytes 1 (frame_kind kind) @ word_bytes 2 0 @ word_bytes 8 seq
     @ word_bytes 8 (int frame_size) @ word_bytes 4 (int metadata_length) @ word_bytes 4 (int payload_length)"

definition pack_trailer :: "nat \<Rightarrow> bytes" where
  \<comment> \<open>\<open>>Q4s\<close>\<close>
  "pack_trailer frame_size = word_bytes 8 (int frame_size) @ ''1TVE''"

definition journal_invalid :: "string \<Rightarrow> 'a result" where
  "journal_invalid reason = Inl (JournalValidationError reason)"

definition journal_corrupt :: "string \<Rightarrow> 'a result" where
  "journal_corrupt reason = Inl (JournalCorruptionError reason)"

definition frame_bytes :: "PersistedEvent \<Rightarrow> bytes \<Rightarrow> bytes \<Rightarrow> bytes" where
  "frame_bytes e metadata payload =
     (let frame_size = frame_fixed_bytes + length metadata + length payload;
          prefix = pack_frame_prefix (ev_record_kind e) (ev_ingest_seq e) frame_size (length metadata) (length payload)
      in prefix @ metadata @ payload @ frame_digest prefix metadata payload @ pack_trailer frame_size)"

definition encode_frame :: "PersistedEvent \<Rightarrow> bytes result" where
  \<comment> \<open>a number that does not fit its field is a \<open>struct.error\<close>: only the sequence number can be one, after the bound on the size\<close>
  "encode_frame e =
     (case bind_result (encode_record e) (\<lambda>(metadata, payload).
             bind_result (decode_record metadata payload) (\<lambda>decoded. Inr (metadata, payload, decoded))) of
        Inl x \<Rightarrow> if is_value_error x then journal_invalid ''journal_candidate_invalid'' else Inl x
      | Inr (metadata, payload, decoded) \<Rightarrow>
          if decoded \<noteq> e then journal_invalid ''journal_candidate_invalid''
          else if max_frame_bytes < frame_fixed_bytes + length metadata + length payload
          then journal_invalid ''journal_frame_too_large''
          else if \<not> (0 \<le> ev_ingest_seq e \<and> ev_ingest_seq e < 2 ^ 64)
          then journal_invalid ''journal_candidate_invalid''
          else if length (frame_bytes e metadata payload) \<noteq> frame_fixed_bytes + length metadata + length payload
          then journal_invalid ''journal_frame_length_invalid''
          else Inr (frame_bytes e metadata payload))"

subsection \<open>Control records\<close>

definition control_event :: "SessionManifest \<Rightarrow> int \<Rightarrow> string \<Rightarrow> bytes \<Rightarrow> PersistedEvent" where
  "control_event m seq event_type payload =
     \<lparr>ev_journal_version = 1, ev_record_kind = CONTROL, ev_ingest_seq = seq, ev_session_id = sm_session_id m,
      ev_event_type = event_type, ev_event_version = 1, ev_source_kind = SYSTEM, ev_source_id = ''tennis-v1'',
      ev_source_entity_id = sm_session_id m, ev_endpoint_id = None, ev_endpoint_state = ABSENT,
      ev_channel_id = Some ''session-control'', ev_channel_state = SAFE_ORIGINAL, ev_request_id = None,
      ev_request_id_state = ABSENT, ev_source_wall_ns = None, ev_source_generated_ns = None,
      ev_local_wall_ns = sm_created_wall_ns m, ev_local_monotonic_ns = 0, ev_clock_uncertainty_ns = 0,
      ev_connection_epoch = 0, ev_provider_sequence = None, ev_parent_ingest_seq = None,
      ev_content_type = (if event_type = ''SESSION_START'' then ''application/vnd.inci.session-manifest+json''
        else ''application/vnd.inci.session-terminal+json''),
      ev_payload_encoding = ''canonical-json-v1'', ev_payload_transform = ''identity-public-market-v1'',
      ev_retention_delete_by_ns = None, ev_payload_sha256 = hexdigest (sha256 payload), ev_payload = payload\<rparr>"

definition canonical_session_manifest_bytes :: "SessionManifest \<Rightarrow> bytes result" where
  "canonical_session_manifest_bytes m = canonical_json_bytes (JvObj (manifest_fields m))"

definition session_manifest_sha256 :: "SessionManifest \<Rightarrow> string result" where
  "session_manifest_sha256 m = bind_result (canonical_session_manifest_bytes m) (\<lambda>b. Inr (hexdigest (sha256 b)))"

definition clean_terminal_reasons :: "string list" where
  "clean_terminal_reasons = [''operator_stop'', ''session_end'']"

definition halted_terminal_reasons :: "string list" where
  "halted_terminal_reasons =
     [''operator_halt'', ''initialization_failure'', ''capture_contract_violation'', ''provider_gate_denied'',
      ''retention_global_halt'', ''disk_low'', ''reducer_exception'', ''derived_validation_failure'', ''trace_exception'',
      ''ingress_backpressure'', ''ingress_owner_unresponsive'']"

text \<open>What a terminal record says of the session, and what it says of the manifest.\<close>

record Terminal =
  tm_clean :: bool
  tm_reason :: string
  tm_trace_sha256 :: string
  tm_final_state_sha256 :: string
  tm_record_count :: int
  tm_raw_count :: int
  tm_derived_count :: int
  tm_last_applied_raw_seq :: int

definition terminal_provenance :: "SessionManifest \<Rightarrow> string \<Rightarrow> (utext \<times> jvalue) list" where
  \<comment> \<open>the second argument is the digest of the manifest\<close>
  "terminal_provenance m digest =
     [(codes ''config_file_sha256'', jv_text (sm_config_file_sha256 m)),
      (codes ''config_canonical_sha256'', jv_text (sm_config_canonical_sha256 m)),
      (codes ''code_sha256'', jv_text (sm_code_sha256 m)),
      (codes ''session_manifest_sha256'', jv_text digest),
      (codes ''provider_manifest_file_sha256'', jv_text (sm_provider_manifest_file_sha256 m)),
      (codes ''provider_manifest_canonical_sha256'', jv_text (sm_provider_manifest_canonical_sha256 m)),
      (codes ''entitlement_id_sha256'', jv_text (sm_entitlement_id_sha256 m)),
      (codes ''permission_artifact_sha256'', jv_text (sm_permission_artifact_sha256 m)),
      (codes ''qualification_artifact_sha256'', jv_text (sm_qualification_artifact_sha256 m)),
      (codes ''qualification_trace_sha256'', jv_text (sm_qualification_trace_sha256 m)),
      (codes ''adapter_code_sha256'', jv_text (sm_adapter_code_sha256 m)),
      (codes ''auth_contract_sha256'', jv_text (sm_auth_contract_sha256 m)),
      (codes ''quota_contract_sha256'', jv_text (sm_quota_contract_sha256 m)),
      (codes ''required_retention_until_ns'', JvInt (sm_required_retention_until_ns m))]"

definition terminal_fields :: "SessionManifest \<Rightarrow> string \<Rightarrow> Terminal \<Rightarrow> (utext \<times> jvalue) list" where
  "terminal_fields m digest t =
     [(codes ''terminal_version'', JvInt 1),
      (codes ''clean'', JvBool (tm_clean t)),
      (codes ''reason'', jv_text (tm_reason t)),
      (codes ''trace_sha256'', jv_text (tm_trace_sha256 t)),
      (codes ''final_state_sha256'', jv_text (tm_final_state_sha256 t)),
      (codes ''record_count_before_terminal'', JvInt (tm_record_count t)),
      (codes ''raw_count'', JvInt (tm_raw_count t)),
      (codes ''derived_count'', JvInt (tm_derived_count t)),
      (codes ''last_applied_raw_seq'', JvInt (tm_last_applied_raw_seq t))]
     @ terminal_provenance m digest @ [(codes ''research_evaluable'', JvBool False)]"

definition terminal_digest_keys :: "string list" where
  "terminal_digest_keys =
     [''trace_sha256'', ''final_state_sha256'', ''config_file_sha256'', ''config_canonical_sha256'', ''code_sha256'',
      ''session_manifest_sha256'', ''provider_manifest_file_sha256'', ''provider_manifest_canonical_sha256'',
      ''entitlement_id_sha256'', ''permission_artifact_sha256'', ''qualification_artifact_sha256'',
      ''qualification_trace_sha256'', ''adapter_code_sha256'', ''auth_contract_sha256'', ''quota_contract_sha256'']"

definition terminal_count_keys :: "string list" where
  "terminal_count_keys =
     [''record_count_before_terminal'', ''raw_count'', ''derived_count'', ''last_applied_raw_seq'',
      ''required_retention_until_ns'']"

definition terminal_keys :: "string list" where
  "terminal_keys =
     [''terminal_version'', ''clean'', ''reason''] @ terminal_digest_keys @ terminal_count_keys @ [''research_evaluable'']"

subsection \<open>Values of a terminal\<close>

definition is_nonnegative :: "jvalue \<Rightarrow> bool" where
  "is_nonnegative v \<longleftrightarrow> (case int_value v of None \<Rightarrow> False | Some i \<Rightarrow> 0 \<le> i)"

definition is_digest :: "jvalue \<Rightarrow> bool" where
  "is_digest v \<longleftrightarrow> (case text_value v of None \<Rightarrow> False | Some s \<Rightarrow> sha256_ok s)"

end
