(* ===== verification/WalGuard.thy ===== *)
theory WalGuard
  imports WalFormat
begin

text \<open>
  What the write capability of \<open>tennis_v1/retention.py\<close> refuses before it writes a byte: it decodes every frame it is
  given, and lets only the first record of the session, records that carry no reserved name and terminals of the right
  kind through.  The session state of the coordinator is given by the manifest: \<open>_claim_provider_wal_writer\<close> has checked
  that the state holds the manifest of the writer, and that the session, the digest and the deadline of the marker are those of
  this manifest.
\<close>

subsection \<open>The record of a frame\<close>

definition retention_error :: "string \<Rightarrow> 'a result" where
  "retention_error reason = Inl (RetentionError reason)"

datatype FrameClass =
    OrdinaryFrame          \<comment> \<open>\<open>None\<close>\<close>
  | SessionStartFrame      \<comment> \<open>\<open>_SESSION_START_FRAME\<close>\<close>
  | TerminalFrame bool     \<comment> \<open>whether the terminal is clean\<close>

definition retention_json :: "bytes \<Rightarrow> jvalue result" where
  \<comment> \<open>the \<open>try\<close> block of \<open>_strict_json\<close>: its hooks raise \<open>RetentionError\<close> where those of the codec raise \<open>RecordCodecError\<close>\<close>
  "retention_json content =
     (case (case utf8_decode (map of_char content) of
              None \<Rightarrow> Inl (ValueError ''UnicodeDecodeError'')
            | Some decoded \<Rightarrow> json_loads decoded) of
        Inr v \<Rightarrow> Inr v
      | Inl (RecordCodecError n) \<Rightarrow>
          retention_error (if n = ''duplicate_json_key'' then ''retention_json_duplicate_key'' else ''retention_json_float_forbidden'')
      | Inl x \<Rightarrow> if is_value_error x then retention_error ''retention_json_invalid'' else Inl x)"

definition retention_object :: "bytes \<Rightarrow> string list \<Rightarrow> (utext \<times> jvalue) list result" where
  "retention_object content expected =
     (if take 3 content = byte_order_mark then retention_error ''retention_json_invalid''
      else
        bind_result (retention_json content) (\<lambda>v.
          case v of
            JvObj kvs \<Rightarrow>
              if set (map fst kvs) \<noteq> set (map codes expected) then retention_error ''retention_json_keys_invalid''
              else bind_result (canonical_json_bytes v) (\<lambda>canonical.
                if canonical \<noteq> content then retention_error ''retention_json_noncanonical'' else Inr kvs)
          | _ \<Rightarrow> retention_error ''retention_json_keys_invalid''))"

definition retained_record :: "bytes \<Rightarrow> PersistedEvent result" where
  \<comment> \<open>the first part of \<open>_terminal_frame_clean\<close>: the frame and its record\<close>
  "retained_record content =
     (if length content < frame_prefix_size then retention_error ''retention_terminal_frame_invalid''
      else
        let kind = be_value (take 1 (drop 5 content));
            seq = be_value (take 8 (drop 8 content));
            total = be_value (take 8 (drop 16 content));
            metadata_length = nat (be_value (take 4 (drop 24 content)));
            payload_length = nat (be_value (take 4 (drop 28 content)));
            payload_start = frame_prefix_size + metadata_length;
            digest_start = payload_start + payload_length;
            trailer_start = digest_start + 32;
            prefix = take frame_prefix_size content;
            metadata = take metadata_length (drop frame_prefix_size content);
            payload = take payload_length (drop payload_start content);
            digest = take 32 (drop digest_start content);
            trailer = drop trailer_start content
        in if take 4 content \<noteq> ''EVT1'' \<or> be_value (take 1 (drop 4 content)) \<noteq> 1 \<or> be_value (take 2 (drop 6 content)) \<noteq> 0
              \<or> total \<noteq> int (frame_fixed_bytes + metadata_length + payload_length) \<or> total \<noteq> int (length content)
              \<or> int max_frame_bytes < total \<or> total < int frame_fixed_bytes
           then retention_error ''retention_terminal_frame_invalid''
           else if trailer_start + frame_trailer_size \<noteq> length content then retention_error ''retention_terminal_frame_invalid''
           else if be_value (take 8 trailer) \<noteq> total \<or> drop 8 trailer \<noteq> ''1TVE'' \<or> digest \<noteq> frame_digest prefix metadata payload
           then retention_error ''retention_terminal_frame_invalid''
           else
             case decode_record metadata payload of
               Inl x \<Rightarrow> if is_value_error x then retention_error ''retention_terminal_record_invalid'' else Inl x
             | Inr e \<Rightarrow>
                 if frame_kind (ev_record_kind e) \<noteq> kind \<or> ev_ingest_seq e \<noteq> seq
                 then retention_error ''retention_terminal_record_invalid''
                 else Inr e)"

subsection \<open>Reserved names\<close>

definition retained_start :: "SessionManifest \<Rightarrow> PersistedEvent \<Rightarrow> FrameClass result" where
  \<comment> \<open>a record named \<open>SESSION_START\<close>: only the first control record of this session may have the name\<close>
  "retained_start m e =
     bind_result (canonical_session_manifest_bytes m) (\<lambda>manifest_bytes.
       if ev_record_kind e \<noteq> CONTROL \<or> ev_ingest_seq e \<noteq> 1 \<or> ev_session_id e \<noteq> sm_session_id m
          \<or> ev_local_wall_ns e \<noteq> sm_created_wall_ns m \<or> ev_local_monotonic_ns e \<noteq> 0 \<or> ev_payload e \<noteq> manifest_bytes
       then retention_error ''retention_session_start_binding_invalid''
       else Inr SessionStartFrame)"

definition retained_terminal :: "SessionManifest \<Rightarrow> PersistedEvent \<Rightarrow> FrameClass result" where
  \<comment> \<open>a record named \<open>SESSION_HALT\<close>: only a terminal of this session may have the name\<close>
  "retained_terminal m e =
     (if ev_record_kind e \<noteq> CONTROL \<or> ev_session_id e \<noteq> sm_session_id m
      then retention_error ''retention_terminal_binding_invalid''
      else
        bind_result (retention_object (ev_payload e) terminal_keys) (\<lambda>raw.
          if member raw ''terminal_version'' \<noteq> JvInt 1 \<or> bool_value (member raw ''clean'') = None
             \<or> (case member raw ''reason'' of JvStr t \<Rightarrow> t = [] | _ \<Rightarrow> True) \<or> member raw ''research_evaluable'' \<noteq> JvBool False
          then retention_error ''retention_terminal_payload_invalid''
          else if member raw ''reason'' \<notin> set (map jv_text
                 (if bool_field raw ''clean'' then clean_terminal_reasons else halted_terminal_reasons))
          then retention_error ''retention_terminal_reason_invalid''
          else if \<not> list_all (\<lambda>n. is_digest (member raw n)) terminal_digest_keys
          then retention_error ''retention_terminal_digest_invalid''
          else if \<not> list_all (\<lambda>n. is_nonnegative (member raw n)) terminal_count_keys
          then retention_error ''retention_terminal_count_invalid''
          else bind_result (session_manifest_sha256 m) (\<lambda>digest.
            if list_ex (\<lambda>(key, v). map_of raw key \<noteq> Some v) (terminal_provenance m digest)
            then retention_error ''retention_terminal_binding_invalid''
            else if int_field raw ''record_count_before_terminal'' \<noteq> ev_ingest_seq e - 1
               \<or> int_field raw ''record_count_before_terminal'' < int_field raw ''raw_count'' + int_field raw ''derived_count'' + 1
               \<or> ev_ingest_seq e \<le> int_field raw ''last_applied_raw_seq''
            then retention_error ''retention_terminal_count_invalid''
            else Inr (TerminalFrame (bool_field raw ''clean'')))))"

definition record_class :: "SessionManifest \<Rightarrow> PersistedEvent \<Rightarrow> FrameClass result" where
  "record_class m e =
     (if ev_event_type e = ''SESSION_START'' then retained_start m e
      else if ev_event_type e \<noteq> ''SESSION_HALT'' then Inr OrdinaryFrame
      else retained_terminal m e)"

definition terminal_frame_clean :: "bytes \<Rightarrow> SessionManifest \<Rightarrow> FrameClass result" where
  "terminal_frame_clean content m =
     (if take 4 content \<noteq> ''EVT1'' then Inr OrdinaryFrame
      else bind_result (retained_record content) (record_class m))"

subsection \<open>Refusals\<close>

definition write_refused :: "SessionManifest \<Rightarrow> bool \<Rightarrow> bytes \<Rightarrow> bool" where
  \<comment> \<open>\<open>write_all\<close> after the file prefix: whether it raises before a byte is written; the second argument is
    \<open>session_start_durable\<close>\<close>
  "write_refused m start_durable frame \<longleftrightarrow>
     frame = journal_prefix \<or> take 4 frame \<noteq> ''EVT1''
     \<or> (case terminal_frame_clean frame m of
          Inl x \<Rightarrow> True
        | Inr c \<Rightarrow> (c = SessionStartFrame) = start_durable \<or> c = TerminalFrame False)"

definition halt_refused :: "SessionManifest \<Rightarrow> bool \<Rightarrow> bytes \<Rightarrow> bool" where
  \<comment> \<open>\<open>write_halt_control\<close>: it writes nothing but a terminal that is not clean\<close>
  "halt_refused m start_durable frame \<longleftrightarrow> \<not> start_durable \<or> terminal_frame_clean frame m \<noteq> Inr (TerminalFrame False)"

end
