(* ===== verification/Wal.thy ===== *)
theory Wal
  imports WalGuard
begin

text \<open>
  The write-ahead journal of \<open>tennis_v1/wal.py\<close>, with the captured inputs of \<open>tennis_v1/events.py\<close> and their
  revalidation from \<open>tennis_v1/capture.py\<close>.  The file is the list of its bytes.  Which frames the write capability
  refuses is computed (\<open>WalGuard\<close>); every other effect of it (\<open>tennis_v1/retention.py\<close>: file descriptors, free space,
  \<open>fsync\<close>) is an argument of the operation that causes it, so an operation is defined for every outcome, a partial write
  included; an operation returns the writer after it and its result, because a writer changes even when it raises.
  Field prefixes: \<open>ci_\<close> captured input, \<open>jw_\<close> journal writer, \<open>fr_\<close> frame read, \<open>ss_\<close> scan summary,
  \<open>wk_\<close> the locals of the walk.
\<close>

subsection \<open>Captured inputs\<close>

record CapturedInput =
  ci_session_id :: string
  ci_event_type :: string
  ci_event_version :: int
  ci_source_kind :: SourceKind
  ci_source_id :: string
  ci_source_entity_id :: string
  ci_endpoint_id :: "string option"
  ci_endpoint_state :: ProvenanceState
  ci_channel_id :: "string option"
  ci_channel_state :: ProvenanceState
  ci_request_id :: "string option"
  ci_request_id_state :: ProvenanceState
  ci_source_wall_ns :: "int option"
  ci_source_generated_ns :: "int option"
  ci_local_wall_ns :: int
  ci_local_monotonic_ns :: int
  ci_clock_uncertainty_ns :: int
  ci_connection_epoch :: int
  ci_provider_sequence :: "string option"
  ci_content_type :: string
  ci_payload_encoding :: string
  ci_payload_transform :: string
  ci_retention_delete_by_ns :: "int option"
  ci_payload :: bytes

definition raw_record :: "CapturedInput \<Rightarrow> int \<Rightarrow> PersistedEvent" where
  "raw_record c seq =
     \<lparr>ev_journal_version = 1, ev_record_kind = RAW, ev_ingest_seq = seq, ev_session_id = ci_session_id c,
      ev_event_type = ci_event_type c, ev_event_version = ci_event_version c, ev_source_kind = ci_source_kind c,
      ev_source_id = ci_source_id c, ev_source_entity_id = ci_source_entity_id c, ev_endpoint_id = ci_endpoint_id c,
      ev_endpoint_state = ci_endpoint_state c, ev_channel_id = ci_channel_id c, ev_channel_state = ci_channel_state c,
      ev_request_id = ci_request_id c, ev_request_id_state = ci_request_id_state c,
      ev_source_wall_ns = ci_source_wall_ns c, ev_source_generated_ns = ci_source_generated_ns c,
      ev_local_wall_ns = ci_local_wall_ns c, ev_local_monotonic_ns = ci_local_monotonic_ns c,
      ev_clock_uncertainty_ns = ci_clock_uncertainty_ns c, ev_connection_epoch = ci_connection_epoch c,
      ev_provider_sequence = ci_provider_sequence c, ev_parent_ingest_seq = None, ev_content_type = ci_content_type c,
      ev_payload_encoding = ci_payload_encoding c, ev_payload_transform = ci_payload_transform c,
      ev_retention_delete_by_ns = ci_retention_delete_by_ns c, ev_payload_sha256 = hexdigest (sha256 (ci_payload c)),
      ev_payload = ci_payload c\<rparr>"

definition fixed_nonprovider_source_id :: "SourceKind \<Rightarrow> string" where
  "fixed_nonprovider_source_id kind =
     (case kind of KALSHI \<Rightarrow> ''kalshi'' | TIMER \<Rightarrow> ''timer'' | SYSTEM \<Rightarrow> ''tennis-v1'' | PROVIDER \<Rightarrow> [])"

definition capture_error :: "bool \<Rightarrow> string \<Rightarrow> exn option" where
  "capture_error c reason = require c (CaptureValidationError reason)"

lemma capture_error_eq_None [simp]: "capture_error c reason = None \<longleftrightarrow> c"
  by (simp add: capture_error_def)

definition validate_captured_input ::
  "(CapturedInput \<Rightarrow> exn option) \<Rightarrow> CapturedInput \<Rightarrow> SessionManifest \<Rightarrow> exn option" where
  \<comment> \<open>the first argument is \<open>_validate_capture_payload\<close>, which looks for secrets in the payload\<close>
  "validate_captured_input payload_check c m = first_raise
     [capture_error (ci_session_id c = sm_session_id m) ''capture_session_binding_invalid'',
      capture_error (ci_payload_transform c \<in> set capture_payload_transforms) ''capture_transform_invalid'',
      payload_check c,
      capture_error (persisted_event_post_init (raw_record c 1) = None) ''capture_envelope_invalid'',
      (if ci_source_kind c = PROVIDER
       then capture_error
              (ci_source_id c = sm_provider_id m
               \<and> ci_retention_delete_by_ns c = Some (sm_required_retention_until_ns m))
              ''capture_provider_binding_invalid''
       else capture_error
              (ci_source_id c = fixed_nonprovider_source_id (ci_source_kind c) \<and> ci_retention_delete_by_ns c = None)
              ''capture_nonprovider_binding_invalid'')]"

subsection \<open>The writer\<close>

record JournalWriter =
  jw_session_manifest :: SessionManifest
  jw_session_start :: PersistedEvent
  jw_next_seq :: int
  jw_record_count :: int
  jw_raw_count :: int
  jw_derived_count :: int
  jw_latest_raw :: "PersistedEvent option"
  jw_closed :: bool
  jw_poisoned :: bool
  jw_runtime_claimed :: bool
  jw_file :: bytes

text \<open>
  What the capability answers to a write it has not refused itself (\<open>WalGuard\<close>): all bytes are durable, the space on the disk was
  too low before a byte was written, or the outcome is uncertain after some bytes reached the file.
\<close>

datatype WriteOutcome = Written | PrewriteCapacity | Uncertain nat

definition disk_after :: "WriteOutcome \<Rightarrow> bytes \<Rightarrow> bytes \<Rightarrow> bytes" where
  "disk_after outcome file frame =
     (case outcome of Written \<Rightarrow> file @ frame | PrewriteCapacity \<Rightarrow> file | Uncertain k \<Rightarrow> file @ take k frame)"

definition durability_error :: "string \<Rightarrow> 'a result" where
  "durability_error reason = Inl (JournalDurabilityError reason)"

definition require_writable :: "JournalWriter \<Rightarrow> exn option" where
  "require_writable w = first_raise
     [require (\<not> jw_poisoned w) (JournalDurabilityError ''journal_durability_uncertain''),
      require (\<not> jw_closed w) (JournalValidationError ''journal_already_closed'')]"

definition poison_writer :: "JournalWriter \<Rightarrow> JournalWriter" where
  \<comment> \<open>\<open>_poison_after_attempt\<close>: an error of closing the capability is dropped\<close>
  "poison_writer w = w\<lparr>jw_poisoned := True\<rparr>"

definition count_record :: "PersistedEvent \<Rightarrow> JournalWriter \<Rightarrow> JournalWriter" where
  "count_record e w =
     (let w = w\<lparr>jw_next_seq := jw_next_seq w + 1, jw_record_count := jw_record_count w + 1\<rparr>
      in case ev_record_kind e of
           RAW \<Rightarrow> w\<lparr>jw_raw_count := jw_raw_count w + 1, jw_latest_raw := Some e\<rparr>
         | DERIVED \<Rightarrow> w\<lparr>jw_derived_count := jw_derived_count w + 1\<rparr>
         | CONTROL \<Rightarrow> w)"

definition frame_refused :: "JournalWriter \<Rightarrow> bytes \<Rightarrow> bool \<Rightarrow> bool" where
  \<comment> \<open>whether the capability refuses the frame; the first record is durable when the writer has counted it\<close>
  "frame_refused w frame halted \<longleftrightarrow>
     (if halted then halt_refused else write_refused) (jw_session_manifest w) (0 < jw_record_count w) frame"

definition storage_answer :: "WriteOutcome \<Rightarrow> JournalWriter \<Rightarrow> bytes \<Rightarrow> bool \<Rightarrow> WriteOutcome" where
  \<comment> \<open>a refused frame is an error before a byte is written, whatever the file system would answer\<close>
  "storage_answer outcome w frame halted = (if frame_refused w frame halted then Uncertain 0 else outcome)"

definition write_encoded_event ::
  "WriteOutcome \<Rightarrow> JournalWriter \<Rightarrow> PersistedEvent \<Rightarrow> bytes \<Rightarrow> bool \<Rightarrow> JournalWriter \<times> PersistedEvent result" where
  "write_encoded_event outcome w e frame halted =
     (case require_writable w of
        Some x \<Rightarrow> (w, Inl x)
      | None \<Rightarrow>
          if ev_ingest_seq e \<noteq> jw_next_seq w then (w, journal_invalid ''journal_sequence_invalid'')
          else
            let answer = storage_answer outcome w frame halted;
                written = w\<lparr>jw_file := disk_after answer (jw_file w) frame\<rparr>;
                failed = (poison_writer (written\<lparr>jw_next_seq := jw_next_seq w + 1\<rparr>),
                          durability_error ''journal_durability_uncertain'')
            in case answer of
                 PrewriteCapacity \<Rightarrow> if halted then failed else (w, Inl (DiskLowError ''journal_disk_low''))
               | Uncertain k \<Rightarrow> failed
               | Written \<Rightarrow> (count_record e written, Inr e))"

definition candidate :: "PersistedEvent result \<Rightarrow> (PersistedEvent \<times> bytes) result" where
  \<comment> \<open>build the record and encode its frame; errors of the record become \<open>journal_candidate_invalid\<close>\<close>
  "candidate r =
     (case bind_result r (\<lambda>e. bind_result (construct persisted_event_post_init e) (\<lambda>e.
             bind_result (encode_frame e) (\<lambda>frame. Inr (e, frame)))) of
        Inr x \<Rightarrow> Inr x
      | Inl (JournalValidationError n) \<Rightarrow> Inl (JournalValidationError n)
      | Inl x \<Rightarrow> if is_value_error x then journal_invalid ''journal_candidate_invalid'' else Inl x)"

definition new_writer :: "SessionManifest \<Rightarrow> PersistedEvent \<Rightarrow> JournalWriter" where
  "new_writer m start =
     \<lparr>jw_session_manifest = m, jw_session_start = start, jw_next_seq = 1, jw_record_count = 0, jw_raw_count = 0,
      jw_derived_count = 0, jw_latest_raw = None, jw_closed = False, jw_poisoned = False, jw_runtime_claimed = False,
      jw_file = []\<rparr>"

definition create_writer ::
  "WriteOutcome \<Rightarrow> WriteOutcome \<Rightarrow> bool \<Rightarrow> SessionManifest \<Rightarrow> (bytes \<times> exn) + JournalWriter" where
  \<comment> \<open>\<open>JournalWriter.create\<close>: the outcomes of writing the file prefix and the first record, and whether
    the capability closes; an error is returned with the bytes of the file\<close>
  "create_writer prefix_outcome start_outcome closes m =
     (if sm_research_evaluable m then Inl ([], JournalValidationError ''research_evaluable_must_be_literal_false'')
      else
        case candidate (bind_result (canonical_session_manifest_bytes m) (\<lambda>payload.
               Inr (control_event m 1 ''SESSION_START'' payload))) of
          Inl x \<Rightarrow> Inl ([], x)
        | Inr (start, frame) \<Rightarrow>
            let w = (new_writer m start)\<lparr>jw_file := disk_after prefix_outcome [] journal_prefix\<rparr>
            in if prefix_outcome \<noteq> Written
               then Inl (jw_file w, JournalDurabilityError ''journal_durability_uncertain'')
               else
                 case write_encoded_event start_outcome w start frame False of
                   (w', Inr e) \<Rightarrow> Inr w'
                 | (w', Inl (DiskLowError n)) \<Rightarrow>
                     Inl (jw_file w', if closes then DiskLowError n else JournalDurabilityError ''journal_durability_uncertain'')
                 | (w', Inl x) \<Rightarrow> Inl (jw_file w', x))"

definition claim_runtime :: "bool \<Rightarrow> exn \<Rightarrow> JournalWriter \<Rightarrow> JournalWriter \<times> unit result" where
  \<comment> \<open>whether the coordinator accepts the claim, and what it raises otherwise\<close>
  "claim_runtime accepted refused w =
     (case require_writable w of
        Some x \<Rightarrow> (w, Inl x)
      | None \<Rightarrow>
          if jw_runtime_claimed w then (w, journal_invalid ''journal_runtime_already_claimed'')
          else if \<not> accepted then (w\<lparr>jw_poisoned := True\<rparr>, Inl refused)
          else (w\<lparr>jw_runtime_claimed := True\<rparr>, Inr ()))"

definition write_candidate ::
  "WriteOutcome \<Rightarrow> JournalWriter \<Rightarrow> PersistedEvent result \<Rightarrow> bool \<Rightarrow> JournalWriter \<times> PersistedEvent result" where
  "write_candidate outcome w r halted =
     (case candidate r of
        Inl x \<Rightarrow> (w, Inl x)
      | Inr (e, frame) \<Rightarrow> write_encoded_event outcome w e frame halted)"

definition max_capture_bytes :: nat where
  "max_capture_bytes = 8 * 1024 * 1024"

definition raw_candidate :: "(CapturedInput \<Rightarrow> exn option) \<Rightarrow> JournalWriter \<Rightarrow> CapturedInput \<Rightarrow> PersistedEvent result" where
  "raw_candidate payload_check w c =
     (if validate_captured_input payload_check c (jw_session_manifest w) \<noteq> None
      then journal_invalid ''captured_input_invalid''
      else if max_capture_bytes < length (ci_payload c) then journal_invalid ''captured_payload_invalid''
      else if ci_session_id c \<noteq> sm_session_id (jw_session_manifest w) then journal_invalid ''captured_session_mismatch''
      else if ci_source_kind c = PROVIDER
         \<and> (ci_source_id c \<noteq> sm_provider_id (jw_session_manifest w)
            \<or> ci_retention_delete_by_ns c \<noteq> Some (sm_required_retention_until_ns (jw_session_manifest w)))
      then journal_invalid ''captured_provider_binding_mismatch''
      else if ci_source_kind c \<noteq> PROVIDER \<and> ci_retention_delete_by_ns c \<noteq> None
      then journal_invalid ''captured_nonprovider_retention_invalid''
      else Inr (raw_record c (jw_next_seq w)))"

definition append_raw ::
  "(CapturedInput \<Rightarrow> exn option) \<Rightarrow> WriteOutcome \<Rightarrow> JournalWriter \<Rightarrow> CapturedInput \<Rightarrow> JournalWriter \<times> PersistedEvent result"
where
  "append_raw payload_check outcome w c =
     (case require_writable w of
        Some x \<Rightarrow> (w, Inl x)
      | None \<Rightarrow> write_candidate outcome w (raw_candidate payload_check w c) False)"

definition derived_record :: "PersistedEvent \<Rightarrow> DerivedDraft \<Rightarrow> int \<Rightarrow> PersistedEvent" where
  "derived_record raw d seq = raw
     \<lparr>ev_record_kind := DERIVED, ev_journal_version := 1, ev_ingest_seq := seq, ev_event_type := dd_event_type d,
      ev_event_version := dd_event_version d, ev_parent_ingest_seq := Some (ev_ingest_seq raw),
      ev_content_type := ''application/vnd.inci.derived+json'', ev_payload_encoding := dd_payload_encoding d,
      ev_payload_transform := ''derived-canonical-v1'', ev_payload_sha256 := hexdigest (sha256 (dd_payload d)),
      ev_payload := dd_payload d\<rparr>"

definition append_derived ::
  "WriteOutcome \<Rightarrow> JournalWriter \<Rightarrow> PersistedEvent \<Rightarrow> DerivedDraft \<Rightarrow> JournalWriter \<times> PersistedEvent result" where
  "append_derived outcome w parent d =
     (case require_writable w of
        Some x \<Rightarrow> (w, Inl x)
      | None \<Rightarrow>
          if ev_record_kind parent \<noteq> RAW \<or> ev_session_id parent \<noteq> sm_session_id (jw_session_manifest w)
             \<or> jw_latest_raw w \<noteq> Some parent
          then (w, journal_invalid ''derived_parent_invalid'')
          else write_candidate outcome w (Inr (derived_record parent d (jw_next_seq w))) False)"

definition latest_raw_seq :: "JournalWriter \<Rightarrow> int" where
  "latest_raw_seq w = (case jw_latest_raw w of None \<Rightarrow> 0 | Some e \<Rightarrow> ev_ingest_seq e)"

definition terminal_payload :: "JournalWriter \<Rightarrow> bool \<Rightarrow> string \<Rightarrow> string \<Rightarrow> string \<Rightarrow> int \<Rightarrow> bytes result" where
  "terminal_payload w clean reason trace final_state last_applied =
     (if reason \<notin> set (if clean then clean_terminal_reasons else halted_terminal_reasons)
      then journal_invalid ''terminal_reason_invalid''
      else if \<not> sha256_ok trace \<or> \<not> sha256_ok final_state then journal_invalid ''terminal_witness_invalid''
      else if last_applied < 0 \<or> clean \<and> last_applied \<noteq> latest_raw_seq w \<or> \<not> clean \<and> latest_raw_seq w < last_applied
      then journal_invalid ''terminal_last_applied_invalid''
      else bind_result (session_manifest_sha256 (jw_session_manifest w)) (\<lambda>digest.
        canonical_json_bytes (JvObj (terminal_fields (jw_session_manifest w) digest
          \<lparr>tm_clean = clean, tm_reason = reason, tm_trace_sha256 = trace, tm_final_state_sha256 = final_state,
           tm_record_count = jw_record_count w, tm_raw_count = jw_raw_count w, tm_derived_count = jw_derived_count w,
           tm_last_applied_raw_seq = last_applied\<rparr>))))"

definition close_journal ::
  "WriteOutcome \<Rightarrow> bool \<Rightarrow> bool \<Rightarrow> JournalWriter \<Rightarrow> bool \<Rightarrow> string \<Rightarrow> string \<Rightarrow> string \<Rightarrow> int
     \<Rightarrow> JournalWriter \<times> PersistedEvent result" where
  \<comment> \<open>\<open>_close\<close>: the outcome of the write, whether the coordinator acknowledges a clean end and whether the capability closes\<close>
  "close_journal outcome acknowledged closes w clean reason trace final_state last_applied =
     (case require_writable w of
        Some x \<Rightarrow> (w, Inl x)
      | None \<Rightarrow>
          case write_candidate outcome w
                 (bind_result (terminal_payload w clean reason trace final_state last_applied) (\<lambda>payload.
                    Inr (control_event (jw_session_manifest w) (jw_next_seq w) ''SESSION_HALT'' payload))) (\<not> clean) of
            (w', Inl x) \<Rightarrow> (w', Inl x)
          | (w', Inr stored) \<Rightarrow>
              if clean \<and> \<not> acknowledged
              then (w'\<lparr>jw_closed := True, jw_poisoned := True\<rparr>, durability_error ''journal_clean_ack_uncertain'')
              else if \<not> closes
              then (w'\<lparr>jw_closed := True, jw_poisoned := True\<rparr>, durability_error ''journal_durability_uncertain'')
              else (w'\<lparr>jw_closed := True\<rparr>, Inr stored))"

end
