(* ===== verification/WalReader.thy ===== *)
theory WalReader
  imports Wal
begin

text \<open>
  The reader of the journal (\<open>JournalReader\<close> in \<open>tennis_v1/wal.py\<close>): frames at an offset, the validation of the first
  record and of the terminal, the walk over all records and the summary it ends with.  The
  definitions are those of an open reader; the file does not change while it is read.
\<close>

subsection \<open>The reader\<close>

datatype ScanIssue = MISSING_TERMINAL | HALTED_TERMINAL | TORN_TAIL | CORRUPT_TAIL

record ScanSummary =
  ss_file_size :: nat
  ss_last_good_offset :: nat
  ss_last_good_ingest_seq :: int
  ss_record_count :: int
  ss_raw_count :: int
  ss_derived_count :: int
  ss_terminal_clean :: bool
  ss_issue :: "ScanIssue option"
  ss_wal_valid :: bool

record FrameRead =
  fr_event :: "PersistedEvent option"
  fr_end_offset :: nat
  fr_observed_size :: nat
  fr_issue :: "ScanIssue option"

definition pread :: "bytes \<Rightarrow> nat \<Rightarrow> nat \<Rightarrow> bytes" where
  \<comment> \<open>the bytes of an open file from an offset, fewer at its end\<close>
  "pread file offset n = take n (drop offset file)"

definition read_file_header :: "bytes \<Rightarrow> ScanIssue option result" where
  "read_file_header file =
     (let content = pread file 0 16
      in if length content < 16 then Inr (Some TORN_TAIL)
         else if take 8 content \<noteq> ''INCIWAL'' @ nul_bytes 1 \<or> be_value (take 2 (drop 8 content)) \<noteq> 1
            \<or> be_value (take 2 (drop 10 content)) \<noteq> 0 \<or> be_value (take 4 (drop 12 content)) \<noteq> 16
         then journal_corrupt ''journal_file_header_invalid''
         else Inr None)"

definition torn :: "nat \<Rightarrow> nat \<Rightarrow> FrameRead" where
  "torn offset observed = \<lparr>fr_event = None, fr_end_offset = offset, fr_observed_size = observed, fr_issue = Some TORN_TAIL\<rparr>"

definition tail_or_interior_corruption :: "bytes \<Rightarrow> nat \<Rightarrow> FrameRead result" where
  "tail_or_interior_corruption file next_offset =
     (if pread file next_offset frame_prefix_size = []
      then Inr \<lparr>fr_event = None, fr_end_offset = next_offset, fr_observed_size = next_offset,
             fr_issue = Some CORRUPT_TAIL\<rparr>
      else journal_corrupt ''journal_interior_corruption'')"

definition read_frame_body :: "bytes \<Rightarrow> nat \<Rightarrow> bytes \<Rightarrow> int \<Rightarrow> int \<Rightarrow> int \<Rightarrow> nat \<Rightarrow> nat \<Rightarrow> FrameRead result" where
  \<comment> \<open>the part of \<open>_read_frame\<close> after the prefix\<close>
  "read_frame_body file offset prefix kind seq frame_size metadata_length payload_length =
     (let metadata_offset = offset + frame_prefix_size;
          payload_offset = metadata_offset + metadata_length;
          digest_offset = payload_offset + payload_length;
          trailer_offset = digest_offset + 32;
          end_offset = trailer_offset + frame_trailer_size;
          metadata = pread file metadata_offset metadata_length;
          payload = pread file payload_offset payload_length;
          digest = pread file digest_offset 32;
          trailer = pread file trailer_offset frame_trailer_size
      in if length metadata < metadata_length then Inr (torn offset (metadata_offset + length metadata))
         else if length payload < payload_length then Inr (torn offset (payload_offset + length payload))
         else if length digest < 32 then Inr (torn offset (digest_offset + length digest))
         else if length trailer < frame_trailer_size then Inr (torn offset (trailer_offset + length trailer))
         else if be_value (take 8 trailer) \<noteq> frame_size \<or> drop 8 trailer \<noteq> ''1TVE''
            \<or> digest \<noteq> frame_digest prefix metadata payload
         then tail_or_interior_corruption file end_offset
         else
           case decode_record metadata payload of
             Inl x \<Rightarrow> if is_value_error x then journal_corrupt ''journal_record_invalid'' else Inl x
           | Inr e \<Rightarrow>
               if frame_kind (ev_record_kind e) \<noteq> kind \<or> ev_ingest_seq e \<noteq> seq
               then journal_corrupt ''journal_frame_record_mismatch''
               else Inr \<lparr>fr_event = Some e, fr_end_offset = end_offset, fr_observed_size = end_offset, fr_issue = None\<rparr>)"

definition read_frame :: "bytes \<Rightarrow> nat \<Rightarrow> FrameRead result" where
  "read_frame file offset =
     (let prefix = pread file offset frame_prefix_size
      in if prefix = []
         then Inr \<lparr>fr_event = None, fr_end_offset = offset, fr_observed_size = offset, fr_issue = None\<rparr>
         else if length prefix < frame_prefix_size then Inr (torn offset (offset + length prefix))
         else
           let kind = be_value (take 1 (drop 5 prefix));
               seq = be_value (take 8 (drop 8 prefix));
               frame_size = be_value (take 8 (drop 16 prefix));
               metadata_length = nat (be_value (take 4 (drop 24 prefix)));
               payload_length = nat (be_value (take 4 (drop 28 prefix)))
           in if take 4 prefix \<noteq> ''EVT1'' \<or> be_value (take 1 (drop 4 prefix)) \<noteq> 1
                 \<or> be_value (take 2 (drop 6 prefix)) \<noteq> 0 \<or> kind \<notin> {1, 2, 3}
                 \<or> frame_size \<noteq> int (frame_fixed_bytes + metadata_length + payload_length)
                 \<or> frame_size < int frame_fixed_bytes \<or> int max_frame_bytes < frame_size
              then journal_corrupt ''journal_frame_prefix_invalid''
              else read_frame_body file offset prefix kind seq frame_size metadata_length payload_length)"

definition journal_json :: "bytes \<Rightarrow> string \<Rightarrow> jvalue result" where
  \<comment> \<open>the \<open>try\<close> block of \<open>_strict_json_object\<close>: its hooks raise \<open>JournalCorruptionError\<close> where those of the codec
    raise \<open>RecordCodecError\<close>\<close>
  "journal_json content label =
     (case (case utf8_decode (map of_char content) of
              None \<Rightarrow> Inl (ValueError ''UnicodeDecodeError'')
            | Some decoded \<Rightarrow> json_loads decoded) of
        Inr v \<Rightarrow> Inr v
      | Inl (RecordCodecError n) \<Rightarrow>
          journal_corrupt (if n = ''duplicate_json_key'' then ''journal_json_duplicate_key'' else ''journal_json_number_invalid'')
      | Inl x \<Rightarrow> if is_value_error x then journal_corrupt (label @ ''_invalid'') else Inl x)"

definition journal_object :: "bytes \<Rightarrow> string list \<Rightarrow> string \<Rightarrow> (utext \<times> jvalue) list result" where
  "journal_object content expected_keys label =
     (if take 3 content = byte_order_mark then journal_corrupt (label @ ''_invalid'')
      else
        bind_result (journal_json content label) (\<lambda>v.
          case v of
            JvObj kvs \<Rightarrow>
              if set (map fst kvs) \<noteq> set (map codes expected_keys) then journal_corrupt (label @ ''_keys_invalid'')
              else bind_result (canonical_json_bytes v) (\<lambda>canonical.
                if canonical \<noteq> content then journal_corrupt (label @ ''_noncanonical'') else Inr kvs)
          | _ \<Rightarrow> journal_corrupt (label @ ''_keys_invalid'')))"

definition manifest_from_start :: "PersistedEvent \<Rightarrow> SessionManifest result" where
  "manifest_from_start e =
     (if ev_ingest_seq e \<noteq> 1 \<or> ev_record_kind e \<noteq> CONTROL \<or> ev_event_type e \<noteq> ''SESSION_START''
      then journal_corrupt ''journal_session_start_missing''
      else
        bind_result (journal_object (ev_payload e) session_manifest_keys ''session_manifest'') (\<lambda>kvs.
          if \<not> manifest_typed kvs \<or> session_manifest_post_init (raw_manifest kvs) \<noteq> None
          then journal_corrupt ''journal_session_manifest_invalid''
          else if sm_session_id (raw_manifest kvs) \<noteq> ev_session_id e
          then journal_corrupt ''journal_session_manifest_mismatch''
          else Inr (raw_manifest kvs)))"

definition terminal_object :: "PersistedEvent \<Rightarrow> SessionManifest \<Rightarrow> (utext \<times> jvalue) list result" where
  \<comment> \<open>what the two validators of a terminal share before the reason\<close>
  "terminal_object e m =
     (if ev_record_kind e \<noteq> CONTROL \<or> ev_event_type e \<noteq> ''SESSION_HALT'' \<or> ev_session_id e \<noteq> sm_session_id m
      then journal_corrupt ''journal_terminal_invalid''
      else
        bind_result (journal_object (ev_payload e) terminal_keys ''session_terminal'') (\<lambda>kvs.
          if member kvs ''terminal_version'' \<noteq> JvInt 1 \<or> bool_value (member kvs ''clean'') = None
             \<or> (case member kvs ''reason'' of JvStr t \<Rightarrow> t = [] | _ \<Rightarrow> True)
             \<or> member kvs ''research_evaluable'' \<noteq> JvBool False
          then journal_corrupt ''journal_terminal_contract_invalid''
          else Inr kvs))"

definition terminal_scalars :: "(utext \<times> jvalue) list \<Rightarrow> exn option" where
  "terminal_scalars kvs = first_raise
     [require (list_all (\<lambda>n. is_digest (member kvs n)) terminal_digest_keys)
        (JournalCorruptionError ''journal_terminal_digest_invalid''),
      require (list_all (\<lambda>n. is_nonnegative (member kvs n)) terminal_count_keys)
        (JournalCorruptionError ''journal_terminal_count_invalid'')]"

record WalkCounts =
  wc_record_count :: int
  wc_raw_count :: int
  wc_derived_count :: int
  wc_last_raw_seq :: int

definition validate_terminal :: "PersistedEvent \<Rightarrow> SessionManifest \<Rightarrow> WalkCounts \<Rightarrow> bool result" where
  "validate_terminal e m counts =
     bind_result (terminal_object e m) (\<lambda>kvs.
       let clean = bool_field kvs ''clean''
       in if member kvs ''reason'' \<notin> set (map jv_text (if clean then clean_terminal_reasons else halted_terminal_reasons))
          then journal_corrupt ''journal_terminal_reason_invalid''
          else checked (terminal_scalars kvs)
            (bind_result (session_manifest_sha256 m) (\<lambda>digest.
             if list_ex (\<lambda>(name, v). member kvs name \<noteq> v)
                  [(''record_count_before_terminal'', JvInt (wc_record_count counts)),
                   (''raw_count'', JvInt (wc_raw_count counts)),
                   (''derived_count'', JvInt (wc_derived_count counts))]
                \<or> list_ex (\<lambda>(key, v). map_of kvs key \<noteq> Some v) (terminal_provenance m digest)
             then journal_corrupt ''journal_terminal_binding_invalid''
             else
               let last_applied = int_field kvs ''last_applied_raw_seq''
               in if \<not> clean \<and> wc_last_raw_seq counts < last_applied \<or> clean \<and> last_applied \<noteq> wc_last_raw_seq counts
                  then journal_corrupt ''journal_terminal_count_invalid''
                  else Inr clean)))"

definition validate_replay_terminal_grammar :: "PersistedEvent \<Rightarrow> SessionManifest \<Rightarrow> WalkCounts \<Rightarrow> bool result" where
  "validate_replay_terminal_grammar e m counts =
     bind_result (terminal_object e m) (\<lambda>kvs. checked (terminal_scalars kvs) (Inr (bool_field kvs ''clean'')))"

subsection \<open>The walk over the records\<close>

record WalkState =
  wk_offset :: nat
  wk_expected_seq :: int
  wk_counts :: WalkCounts
  wk_last_good_seq :: int
  wk_manifest :: "SessionManifest option"
  wk_terminal_clean :: bool
  wk_terminal_seen :: bool

definition initial_walk :: WalkState where
  "initial_walk =
     \<lparr>wk_offset = 16, wk_expected_seq = 1,
      wk_counts = \<lparr>wc_record_count = 0, wc_raw_count = 0, wc_derived_count = 0, wc_last_raw_seq = 0\<rparr>,
      wk_last_good_seq = 0, wk_manifest = None, wk_terminal_clean = False, wk_terminal_seen = False\<rparr>"

definition header_summary :: "bytes \<Rightarrow> ScanIssue \<Rightarrow> ScanSummary" where
  "header_summary file issue =
     \<lparr>ss_file_size = length (pread file 0 16), ss_last_good_offset = 0, ss_last_good_ingest_seq = 0, ss_record_count = 0,
      ss_raw_count = 0, ss_derived_count = 0, ss_terminal_clean = False, ss_issue = Some issue, ss_wal_valid = False\<rparr>"

definition walk_summary :: "WalkState \<Rightarrow> FrameRead \<Rightarrow> ScanSummary" where
  "walk_summary k frame =
     \<lparr>ss_file_size = fr_observed_size frame, ss_last_good_offset = wk_offset k,
      ss_last_good_ingest_seq = wk_last_good_seq k, ss_record_count = wc_record_count (wk_counts k),
      ss_raw_count = wc_raw_count (wk_counts k), ss_derived_count = wc_derived_count (wk_counts k),
      ss_terminal_clean = wk_terminal_clean k,
      ss_issue =
        (if fr_issue frame = Some CORRUPT_TAIL \<or> fr_issue frame = Some TORN_TAIL then fr_issue frame
         else if wk_terminal_seen k then (if wk_terminal_clean k then None else Some HALTED_TERMINAL)
         else Some MISSING_TERMINAL),
      ss_wal_valid = (fr_issue frame \<noteq> Some CORRUPT_TAIL \<and> fr_issue frame \<noteq> Some TORN_TAIL)\<rparr>"

type_synonym terminal_validator = "PersistedEvent \<Rightarrow> SessionManifest \<Rightarrow> WalkCounts \<Rightarrow> bool result"

definition walk_event :: "terminal_validator \<Rightarrow> WalkState \<Rightarrow> PersistedEvent \<Rightarrow> WalkState result" where
  \<comment> \<open>the checks of one record and their effect on the locals\<close>
  "walk_event validate k e =
     (if ev_ingest_seq e \<noteq> wk_expected_seq k then journal_corrupt ''journal_sequence_invalid''
      else if wk_expected_seq k = 1
      then bind_result (manifest_from_start e) (\<lambda>m. Inr (k\<lparr>wk_manifest := Some m\<rparr>))
      else
        case wk_manifest k of
          None \<Rightarrow> Inl AssertionError
        | Some m \<Rightarrow>
            if ev_session_id e \<noteq> sm_session_id m then journal_corrupt ''journal_session_mismatch''
            else if ev_event_type e = ''SESSION_START'' then journal_corrupt ''journal_duplicate_session_start''
            else if ev_record_kind e = RAW
            then Inr (k\<lparr>wk_counts := (wk_counts k)\<lparr>wc_last_raw_seq := ev_ingest_seq e,
                         wc_raw_count := wc_raw_count (wk_counts k) + 1\<rparr>\<rparr>)
            else if ev_record_kind e = DERIVED
            then if ev_parent_ingest_seq e \<noteq> Some (wc_last_raw_seq (wk_counts k))
                 then journal_corrupt ''journal_derived_parent_invalid''
                 else Inr (k\<lparr>wk_counts := (wk_counts k)\<lparr>wc_derived_count := wc_derived_count (wk_counts k) + 1\<rparr>\<rparr>)
            else if ev_event_type e = ''SESSION_HALT''
            then bind_result (validate e m (wk_counts k)) (\<lambda>clean.
                   Inr (k\<lparr>wk_terminal_clean := clean, wk_terminal_seen := True\<rparr>))
            else journal_corrupt ''journal_control_record_invalid'')"

definition walk_advance :: "WalkState \<Rightarrow> PersistedEvent \<Rightarrow> nat \<Rightarrow> WalkState" where
  "walk_advance k e end_offset =
     k\<lparr>wk_offset := end_offset, wk_expected_seq := wk_expected_seq k + 1,
       wk_counts := (wk_counts k)\<lparr>wc_record_count := wc_record_count (wk_counts k) + 1\<rparr>,
       wk_last_good_seq := ev_ingest_seq e\<rparr>"

lemma read_frame_body_event:
  assumes "read_frame_body file offset prefix kind seq frame_size ml pl = Inr frame" "fr_event frame = Some e"
  shows "fr_end_offset frame = offset + frame_fixed_bytes + ml + pl \<and> fr_end_offset frame \<le> length file
    \<and> decode_record (pread file (offset + frame_prefix_size) ml) (pread file (offset + frame_prefix_size + ml) pl) = Inr e"
proof -
  have tail: "tail_or_interior_corruption file n \<noteq> Inr frame" for n
    using assms(2) by (auto simp: tail_or_interior_corruption_def journal_corrupt_def)
  have torn: "torn a b \<noteq> frame" for a b using assms(2) by (auto simp: torn_def)
  have trailer: "a + frame_trailer_size \<le> length file" if "\<not> length (pread file a frame_trailer_size) < frame_trailer_size" for a
    using that by (auto simp: pread_def frame_trailer_size_def)
  show ?thesis
    using assms tail torn trailer[of "offset + frame_prefix_size + ml + pl + 32"] unfolding read_frame_body_def Let_def journal_corrupt_def frame_fixed_bytes_def
    by (auto simp: add.assoc split: if_split_asm sum.split_asm)
qed

lemma read_frame_event:
  assumes "read_frame file offset = Inr frame" "fr_event frame = Some e"
  shows "offset < fr_end_offset frame \<and> fr_end_offset frame \<le> length file"
proof -
  have torn: "torn a b \<noteq> frame" for a b using assms(2) by (auto simp: torn_def)
  obtain kind seq frame_size ml pl where "read_frame_body file offset (pread file offset frame_prefix_size) kind seq frame_size ml pl = Inr frame"
    using assms torn unfolding read_frame_def Let_def journal_corrupt_def by (auto split: if_split_asm)
  then show ?thesis
    using read_frame_body_event assms(2) by (fastforce simp: frame_fixed_bytes_def frame_prefix_size_def)
qed

function walk_loop :: "terminal_validator \<Rightarrow> bytes \<Rightarrow> WalkState \<Rightarrow> PersistedEvent list \<times> ScanSummary result" where
  \<comment> \<open>the records that are yielded, and the summary or the error that ends the walk\<close>
  "walk_loop validate file k =
     (case read_frame file (wk_offset k) of
        Inl x \<Rightarrow> ([], Inl x)
      | Inr frame \<Rightarrow>
          if wk_terminal_seen k \<and> \<not> (fr_event frame = None \<and> fr_issue frame = None \<and> fr_observed_size frame = wk_offset k)
          then ([], journal_corrupt ''journal_bytes_after_terminal'')
          else
            case fr_event frame of
              None \<Rightarrow> ([], Inr (walk_summary k frame))
            | Some e \<Rightarrow>
                case walk_event validate k e of
                  Inl x \<Rightarrow> ([], Inl x)
                | Inr k' \<Rightarrow>
                    let (es, result) = walk_loop validate file (walk_advance k' e (fr_end_offset frame))
                    in (e # es, result))"
  by pat_completeness auto
termination
proof (relation "measure (\<lambda>(validate, file, k). length file - wk_offset k)")
  fix validate :: terminal_validator and bs :: bytes and k k' :: WalkState and frame e
  assume "read_frame bs (wk_offset k) = Inr frame" "fr_event frame = Some e"
  then have "wk_offset k < fr_end_offset frame \<and> fr_end_offset frame \<le> length bs" by (rule read_frame_event)
  then show "((validate, bs, walk_advance k' e (fr_end_offset frame)), validate, bs, k)
      \<in> measure (\<lambda>(validate, file, k). length file - wk_offset k)"
    by (simp add: walk_advance_def) linarith
qed simp

declare walk_loop.simps [simp del]

definition walk :: "terminal_validator \<Rightarrow> bytes \<Rightarrow> PersistedEvent list \<times> ScanSummary result" where
  \<comment> \<open>\<open>_walk\<close> with \<open>validate_terminal\<close>, \<open>iter_replay_records\<close> with \<open>validate_replay_terminal_grammar\<close>\<close>
  "walk validate file =
     (case read_file_header file of
        Inl x \<Rightarrow> ([], Inl x)
      | Inr (Some issue) \<Rightarrow> ([], Inr (header_summary file issue))
      | Inr None \<Rightarrow> walk_loop validate file initial_walk)"

definition read_session_manifest :: "bytes \<Rightarrow> SessionManifest result" where
  "read_session_manifest file =
     bind_result (read_file_header file) (\<lambda>issue.
       if issue \<noteq> None then journal_corrupt ''journal_file_header_incomplete''
       else bind_result (read_frame file 16) (\<lambda>frame.
         case fr_event frame of
           None \<Rightarrow> journal_corrupt ''journal_session_start_missing''
         | Some e \<Rightarrow> manifest_from_start e))"

definition scan :: "bytes \<Rightarrow> bool \<Rightarrow> ScanSummary result" where
  "scan file require_clean =
     bind_result (snd (walk validate_terminal file)) (\<lambda>summary.
       if require_clean \<and> (ss_issue summary \<noteq> None \<or> \<not> ss_terminal_clean summary)
       then journal_corrupt ''journal_clean_terminal_required''
       else Inr summary)"

definition iter_records :: "bytes \<Rightarrow> bool \<Rightarrow> PersistedEvent list \<times> unit result" where
  \<comment> \<open>the records that are yielded, and how the iteration ends\<close>
  "iter_records file diagnostic_prefix =
     (let (es, result) = walk validate_terminal file
      in (es, bind_result result (\<lambda>summary.
            if \<not> diagnostic_prefix \<and> ss_issue summary \<noteq> None then journal_corrupt ''journal_incomplete'' else Inr ())))"

definition iter_replay_records :: "bytes \<Rightarrow> PersistedEvent list \<times> ScanSummary result" where
  "iter_replay_records file = walk validate_replay_terminal_grammar file"

end
