(* ===== verification/WalFrames.thy ===== *)
theory WalFrames
  imports WalReader ByteCodes
begin

text \<open>
  Frames: a frame that was encoded is read back wherever it stands in the file, and a frame that was cut
  is seen as torn at every length.
\<close>

subsection \<open>The layout of a frame\<close>

lemma length_pack [simp]:
  "length (pack_frame_prefix kind seq s ml pl) = frame_prefix_size"
  "length (pack_trailer s) = frame_trailer_size"
  "length (frame_digest a b c) = 32"
  by (simp_all add: pack_frame_prefix_def pack_trailer_def frame_prefix_size_def frame_trailer_size_def frame_digest_def)

lemma length_frame_bytes: "length (frame_bytes e m p) = frame_fixed_bytes + length m + length p"
  by (simp add: frame_bytes_def Let_def frame_fixed_bytes_def)

lemma frame_kind_range: "frame_kind k \<in> {1, 2, 3}"
  by (cases k) (simp_all add: frame_kind_def)

lemma prefix_fields:
  fixes kind :: RecordKind
  assumes "0 \<le> seq" "seq < 2 ^ 64" "s \<le> max_frame_bytes" "ml \<le> s" "pl \<le> s"
  defines "prefix \<equiv> pack_frame_prefix kind seq s ml pl"
  shows "take 4 prefix = ''EVT1''" "be_value (take 1 (drop 4 prefix)) = 1"
    "be_value (take 1 (drop 5 prefix)) = frame_kind kind" "be_value (take 2 (drop 6 prefix)) = 0"
    "be_value (take 8 (drop 8 prefix)) = seq" "be_value (take 8 (drop 16 prefix)) = int s"
    "be_value (take 4 (drop 24 prefix)) = int ml" "be_value (take 4 (drop 28 prefix)) = int pl"
proof -
  have s: "int s < 256 ^ 8" "int ml < 256 ^ 4" "int pl < 256 ^ 4"
    using assms(3-5) unfolding max_frame_bytes_def by simp_all
  have seq: "seq < 256 ^ 8" using assms(2) by simp
  have k: "0 \<le> frame_kind kind" "frame_kind kind < 256 ^ 1" using frame_kind_range[of kind] by auto
  note p = prefix_def[unfolded pack_frame_prefix_def]
  show "take 4 prefix = ''EVT1''" unfolding p by simp
  show "be_value (take 1 (drop 4 prefix)) = 1" unfolding p using be_value_word_bytes[of 1 1] by simp
  show "be_value (take 1 (drop 5 prefix)) = frame_kind kind" unfolding p using be_value_word_bytes[OF k] by simp
  show "be_value (take 2 (drop 6 prefix)) = 0" unfolding p using be_value_word_bytes[of 0 2] by simp
  show "be_value (take 8 (drop 8 prefix)) = seq" unfolding p using be_value_word_bytes[OF assms(1) seq] by simp
  show "be_value (take 8 (drop 16 prefix)) = int s" unfolding p using be_value_word_bytes[OF _ s(1)] by simp
  show "be_value (take 4 (drop 24 prefix)) = int ml" unfolding p using be_value_word_bytes[OF _ s(2)] by simp
  show "be_value (take 4 (drop 28 prefix)) = int pl" unfolding p using be_value_word_bytes[OF _ s(3)] by simp
qed

definition frameable :: "PersistedEvent \<Rightarrow> bytes \<Rightarrow> bytes \<Rightarrow> bool" where
  "frameable e m p \<longleftrightarrow>
     decode_record m p = Inr e \<and> frame_fixed_bytes + length m + length p \<le> max_frame_bytes
     \<and> 0 \<le> ev_ingest_seq e \<and> ev_ingest_seq e < 2 ^ 64"

lemma encode_frame_Inr:
  "encode_frame e = Inr f \<longleftrightarrow> (\<exists>m p. encode_record e = Inr (m, p) \<and> frameable e m p \<and> f = frame_bytes e m p)"
proof (cases "encode_record e")
  case (Inl x)
  then show ?thesis by (simp add: encode_frame_def journal_invalid_def)
next
  case (Inr mp)
  obtain m p where mp: "mp = (m, p)" by (cases mp)
  show ?thesis
  proof (cases "decode_record m p")
    case (Inl x)
    then show ?thesis using Inr mp by (simp add: encode_frame_def journal_invalid_def frameable_def)
  next
    case (Inr d)
    then show ?thesis
      using \<open>encode_record e = Inr mp\<close> mp
      by (auto simp: encode_frame_def journal_invalid_def frameable_def length_frame_bytes)
  qed
qed

lemma pread_append: "pread (pre @ rest) (length pre + a) n = take n (drop a rest)"
  by (simp add: pread_def)

lemma pread_append0: "pread (pre @ rest) (length pre) n = take n rest"
  by (simp add: pread_def)

lemma read_frame_at:
  assumes f: "frameable e m p" and rest: "take frame_prefix_size rest = take frame_prefix_size (frame_bytes e m p)"
    and long: "frame_prefix_size \<le> length rest"
  shows "read_frame (pre @ rest) (length pre) =
    read_frame_body (pre @ rest) (length pre)
      (pack_frame_prefix (ev_record_kind e) (ev_ingest_seq e) (frame_fixed_bytes + length m + length p) (length m) (length p))
      (frame_kind (ev_record_kind e)) (ev_ingest_seq e) (int (frame_fixed_bytes + length m + length p)) (length m) (length p)"
proof -
  let ?s = "frame_fixed_bytes + length m + length p"
  let ?prefix = "pack_frame_prefix (ev_record_kind e) (ev_ingest_seq e) ?s (length m) (length p)"
  have prefix: "pread (pre @ rest) (length pre) frame_prefix_size = ?prefix"
    unfolding pread_append0 rest by (simp add: frame_bytes_def Let_def)
  have ne: "?prefix \<noteq> []" "\<not> length ?prefix < frame_prefix_size"
  proof -
    have "length ?prefix \<noteq> 0" unfolding length_pack by (simp add: frame_prefix_size_def)
    then show "?prefix \<noteq> []" by (simp only: length_0_conv not_False_eq_True)
    show "\<not> length ?prefix < frame_prefix_size" by simp
  qed
  note fields = prefix_fields[of "ev_ingest_seq e" ?s "length m" "length p" "ev_record_kind e"]
  have fr: "0 \<le> ev_ingest_seq e" "ev_ingest_seq e < 2 ^ 64" "?s \<le> max_frame_bytes" using f unfolding frameable_def by blast+
  then have fields': "take 4 ?prefix = ''EVT1''" "be_value (take 1 (drop 4 ?prefix)) = 1"
    "be_value (take 1 (drop 5 ?prefix)) = frame_kind (ev_record_kind e)" "be_value (take 2 (drop 6 ?prefix)) = 0"
    "be_value (take 8 (drop 8 ?prefix)) = ev_ingest_seq e" "be_value (take 8 (drop 16 ?prefix)) = int ?s"
    "be_value (take 4 (drop 24 ?prefix)) = int (length m)" "be_value (take 4 (drop 28 ?prefix)) = int (length p)"
    using fields by simp_all
  show ?thesis
    unfolding read_frame_def Let_def prefix fields' nat_int
    using ne fr frame_kind_range[of "ev_record_kind e"] by (simp del: of_nat_add)
qed

lemma trailer_fields:
  assumes "s \<le> max_frame_bytes"
  shows "be_value (take 8 (pack_trailer s)) = int s" "drop 8 (pack_trailer s) = ''1TVE''"
proof -
  have "int s < 256 ^ 8" using assms unfolding max_frame_bytes_def by simp
  then show "be_value (take 8 (pack_trailer s)) = int s"
    unfolding pack_trailer_def using be_value_word_bytes[of "int s" 8] by simp
  show "drop 8 (pack_trailer s) = ''1TVE''" unfolding pack_trailer_def by simp
qed

lemma read_frame_complete:
  assumes f: "frameable e m p"
  shows "read_frame (pre @ frame_bytes e m p @ post) (length pre) =
    Inr \<lparr>fr_event = Some e, fr_end_offset = length pre + length (frame_bytes e m p),
         fr_observed_size = length pre + length (frame_bytes e m p), fr_issue = None\<rparr>"
proof -
  let ?s = "frame_fixed_bytes + length m + length p"
  let ?prefix = "pack_frame_prefix (ev_record_kind e) (ev_ingest_seq e) ?s (length m) (length p)"
  have frame: "frame_bytes e m p = ?prefix @ m @ p @ frame_digest ?prefix m p @ pack_trailer ?s"
    by (simp add: frame_bytes_def Let_def)
  have s: "?s \<le> max_frame_bytes" and d: "decode_record m p = Inr e" using f unfolding frameable_def by blast+
  have "read_frame (pre @ frame_bytes e m p @ post) (length pre) =
    read_frame_body (pre @ frame_bytes e m p @ post) (length pre) ?prefix (frame_kind (ev_record_kind e)) (ev_ingest_seq e)
      (int ?s) (length m) (length p)"
    by (rule read_frame_at[OF f]) (simp_all add: length_frame_bytes frame_fixed_bytes_def)
  also have "\<dots> = Inr \<lparr>fr_event = Some e, fr_end_offset = length pre + length (frame_bytes e m p),
         fr_observed_size = length pre + length (frame_bytes e m p), fr_issue = None\<rparr>"
    unfolding read_frame_body_def Let_def frame
    using d trailer_fields[OF s] by (simp add: pread_append add.assoc frame_fixed_bytes_def)
  finally show ?thesis .
qed

lemma read_frame_end: "read_frame file (length file) =
    Inr \<lparr>fr_event = None, fr_end_offset = length file, fr_observed_size = length file, fr_issue = None\<rparr>"
  by (simp add: read_frame_def pread_def)

lemma read_frame_cut:
  assumes f: "frameable e m p" and k: "0 < k" "k < length (frame_bytes e m p)"
  shows "read_frame (pre @ take k (frame_bytes e m p)) (length pre) = Inr (torn (length pre) (length pre + k))"
proof (cases "k < frame_prefix_size")
  case True
  moreover have "frame_bytes e m p \<noteq> []" using k by auto
  ultimately show ?thesis using k by (simp add: read_frame_def pread_def Let_def)
next
  case False
  let ?s = "frame_fixed_bytes + length m + length p"
  let ?prefix = "pack_frame_prefix (ev_record_kind e) (ev_ingest_seq e) ?s (length m) (length p)"
  have frame: "frame_bytes e m p = ?prefix @ m @ p @ frame_digest ?prefix m p @ pack_trailer ?s"
    by (simp add: frame_bytes_def Let_def)
  have k': "k < frame_prefix_size + length m + length p + 32 + frame_trailer_size"
    using k(2) by (simp add: length_frame_bytes frame_fixed_bytes_def)
  let ?file = "pre @ take k (frame_bytes e m p)"
  have len: "length (pread ?file (length pre + a) n) = min n (k - a)" for a n
    using k(2) by (simp add: pread_append min_def)
  have "read_frame ?file (length pre) =
    read_frame_body ?file (length pre) ?prefix (frame_kind (ev_record_kind e)) (ev_ingest_seq e)
      (int ?s) (length m) (length p)"
    by (rule read_frame_at[OF f]) (use False k in \<open>simp_all add: min_def\<close>)
  also have "\<dots> = Inr (torn (length pre) (length pre + k))"
  proof -
    consider "k < frame_prefix_size + length m" | "frame_prefix_size + length m \<le> k" "k < frame_prefix_size + length m + length p"
      | "frame_prefix_size + length m + length p \<le> k" "k < frame_prefix_size + length m + length p + 32"
      | "frame_prefix_size + length m + length p + 32 \<le> k" by linarith
    then show ?thesis
      unfolding read_frame_body_def Let_def add.assoc len using False k'
      by cases (simp_all add: less_diff_conv2 frame_trailer_size_def)
  qed
  finally show ?thesis .
qed

end
