(* ===== verification/Foundation.thy ===== *)
theory Foundation
  imports EventCodec
begin

text \<open>
  The foundation reducer of \<open>tennis_v1/state.py\<close> and \<open>tennis_v1/reducer.py\<close>: the state counts the raw
  records of a session, remembers the last applied sequence number and the connection epoch of every
  source; a raw record moves it forward and yields one derived record; a trace chains the digests of
  the records and states.  Field prefix: \<open>fs_\<close> foundation state, \<open>rd_\<close> reduction.
\<close>

subsection \<open>The state\<close>

record FoundationState =
  fs_session_id :: string
  fs_last_applied_raw_seq :: int
  fs_raw_count :: int
  fs_derived_count :: int
  fs_source_epochs :: "(SourceKind \<times> string \<times> int) list"

definition state_error :: "bool \<Rightarrow> string \<Rightarrow> exn option" where
  "state_error c reason = require c (StateValidationError reason)"

lemma state_error_eq_None [simp]: "state_error c reason = None \<longleftrightarrow> c"
  by (simp add: state_error_def)

definition epoch_key :: "SourceKind \<times> string \<times> int \<Rightarrow> SourceKind \<times> string" where
  "epoch_key = (\<lambda>(kind, source_id, epoch). (kind, source_id))"

definition epoch_order :: "SourceKind \<times> string \<times> int \<Rightarrow> string list" where
  \<comment> \<open>the sort key \<open>(source_kind.value, source_id)\<close>\<close>
  "epoch_order = (\<lambda>(kind, source_id, epoch). [source_kind_value kind, source_id])"

fun source_epochs_ok :: "(SourceKind \<times> string) list \<Rightarrow> (SourceKind \<times> string \<times> int) list \<Rightarrow> exn option" where
  "source_epochs_ok seen [] = None"
| "source_epochs_ok seen ((kind, source_id, epoch) # rest) = first_raise
     [state_error (safe_identifier_ok source_id \<and> 0 \<le> epoch) ''source_epochs_entry_invalid'',
      state_error ((kind, source_id) \<notin> set seen) ''source_epochs_duplicate_key'',
      source_epochs_ok ((kind, source_id) # seen) rest]"

definition validate_state :: "FoundationState \<Rightarrow> exn option" where
  "validate_state s = first_raise
     [state_error
        (event_session_id_ok (fs_session_id s) \<and> 0 \<le> fs_last_applied_raw_seq s \<and> 0 \<le> fs_raw_count s
         \<and> 0 \<le> fs_derived_count s) ''foundation_state_scalar_invalid'',
      source_epochs_ok [] (fs_source_epochs s),
      state_error (fs_source_epochs s = sort_key epoch_order (fs_source_epochs s)) ''source_epochs_not_sorted'',
      state_error (fs_raw_count s = fs_derived_count s) ''foundation_state_count_mismatch'',
      (if fs_raw_count s = 0
       then state_error (\<not> (fs_last_applied_raw_seq s \<noteq> 0 \<or> fs_source_epochs s \<noteq> []))
              ''foundation_state_empty_invariant''
       else state_error
              (\<not> (fs_last_applied_raw_seq s = 0 \<or> fs_last_applied_raw_seq s < fs_raw_count s
                  \<or> fs_source_epochs s = [] \<or> fs_raw_count s < int (length (fs_source_epochs s))))
              ''foundation_state_sequence_invariant'')]"

definition initial_state :: "string \<Rightarrow> FoundationState result" where
  "initial_state session_id = construct validate_state
     \<lparr>fs_session_id = session_id, fs_last_applied_raw_seq = 0, fs_raw_count = 0, fs_derived_count = 0,
      fs_source_epochs = []\<rparr>"

definition state_fields :: "FoundationState \<Rightarrow> (utext \<times> jvalue) list" where
  "state_fields s =
     [(codes ''state_version'', JvInt 1),
      (codes ''session_id'', jv_text (fs_session_id s)),
      (codes ''last_applied_raw_seq'', JvInt (fs_last_applied_raw_seq s)),
      (codes ''raw_count'', JvInt (fs_raw_count s)),
      (codes ''derived_count'', JvInt (fs_derived_count s)),
      (codes ''source_epochs'', JvArr (map (\<lambda>(kind, source_id, epoch). JvObj
        [(codes ''source_kind'', jv_text (source_kind_value kind)),
         (codes ''source_id'', jv_text source_id),
         (codes ''connection_epoch'', JvInt epoch)]) (fs_source_epochs s)))]"

definition canonical_state_bytes :: "FoundationState \<Rightarrow> bytes result" where
  "canonical_state_bytes s = checked (validate_state s) (canonical_json_bytes (JvObj (state_fields s)))"

subsection \<open>Reducing one record\<close>

record Reduction =
  rd_state :: FoundationState
  rd_outputs :: "DerivedDraft list"

definition make_reduction :: "FoundationState \<Rightarrow> DerivedDraft list \<Rightarrow> Reduction result" where
  \<comment> \<open>\<open>Reduction.__post_init__\<close> computes the canonical bytes of the state\<close>
  "make_reduction s outputs =
     bind_result (canonical_state_bytes s) (\<lambda>_. Inr \<lparr>rd_state = s, rd_outputs = outputs\<rparr>)"

definition reducer_error :: "string \<Rightarrow> 'a result" where
  "reducer_error reason = Inl (ReducerValidationError reason)"

definition require_valid_event :: "PersistedEvent \<Rightarrow> PersistedEvent result" where
  "require_valid_event e =
     (case bind_result (encode_record e) (\<lambda>(metadata, payload). decode_record metadata payload) of
        Inl x \<Rightarrow> if is_value_error x then reducer_error ''persisted_event_invalid'' else Inl x
      | Inr decoded \<Rightarrow> if decoded \<noteq> e then reducer_error ''persisted_event_invalid'' else Inr e)"

definition source_epoch :: "FoundationState \<Rightarrow> SourceKind \<times> string \<Rightarrow> int option" where
  \<comment> \<open>the dict \<open>epochs\<close>\<close>
  "source_epoch s = map_of (map (\<lambda>(kind, source_id, epoch). ((kind, source_id), epoch)) (rev (fs_source_epochs s)))"

definition updated_epochs :: "FoundationState \<Rightarrow> SourceKind \<times> string \<Rightarrow> int \<Rightarrow> (SourceKind \<times> string \<times> int) list" where
  \<comment> \<open>the entries of \<open>epochs\<close> after \<open>epochs[key] = epoch\<close>, sorted\<close>
  "updated_epochs s key epoch =
     sort_key epoch_order
       (if key \<in> set (map epoch_key (fs_source_epochs s))
        then map (\<lambda>item. if epoch_key item = key then (fst key, snd key, epoch) else item) (fs_source_epochs s)
        else fs_source_epochs s @ [(fst key, snd key, epoch)])"

definition accepted_fields :: "PersistedEvent \<Rightarrow> (utext \<times> jvalue) list" where
  "accepted_fields raw =
     [(codes ''input_event_type'', jv_text (ev_event_type raw)),
      (codes ''input_payload_sha256'', jv_text (ev_payload_sha256 raw)),
      (codes ''parent_ingest_seq'', JvInt (ev_ingest_seq raw)),
      (codes ''source_id'', jv_text (ev_source_id raw))]"

definition accepted_draft :: "PersistedEvent \<Rightarrow> DerivedDraft result" where
  "accepted_draft raw =
     bind_result (canonical_json_bytes (JvObj (accepted_fields raw))) (\<lambda>payload.
       construct derived_draft_post_init
         \<lparr>dd_event_type = ''raw_accepted'', dd_event_version = 1, dd_payload_encoding = ''canonical-json-v1'',
          dd_payload = payload\<rparr>)"

definition reduce_event :: "FoundationState \<Rightarrow> PersistedEvent \<Rightarrow> Reduction result" where
  "reduce_event s event =
     bind_result (canonical_state_bytes s) (\<lambda>_.
     bind_result (require_valid_event event) (\<lambda>raw.
     if ev_record_kind raw \<noteq> RAW then reducer_error ''raw_record_required''
     else if ev_session_id raw \<noteq> fs_session_id s then reducer_error ''reducer_session_mismatch''
     else if ev_ingest_seq raw \<le> fs_last_applied_raw_seq s then reducer_error ''raw_sequence_not_increasing''
     else
       let key = (ev_source_kind raw, ev_source_id raw)
       in if (case source_epoch s key of None \<Rightarrow> False | Some prior \<Rightarrow> ev_connection_epoch raw < prior)
          then reducer_error ''source_epoch_regression''
          else
            bind_result (accepted_draft raw) (\<lambda>draft.
            bind_result (construct validate_state
                \<lparr>fs_session_id = fs_session_id s, fs_last_applied_raw_seq = ev_ingest_seq raw,
                 fs_raw_count = fs_raw_count s + 1, fs_derived_count = fs_derived_count s + 1,
                 fs_source_epochs = updated_epochs s key (ev_connection_epoch raw)\<rparr>) (\<lambda>new_state.
              make_reduction new_state [draft]))))"

subsection \<open>The trace\<close>

definition initial_trace :: "PersistedEvent \<Rightarrow> bytes result" where
  \<comment> \<open>the payload is read again after \<open>require_valid_event\<close> has read it strictly, so the reading is the same\<close>
  "initial_trace session_start =
     bind_result (require_valid_event session_start) (\<lambda>start.
     if ev_ingest_seq start \<noteq> 1 \<or> ev_record_kind start \<noteq> CONTROL \<or> ev_event_type start \<noteq> ''SESSION_START''
     then reducer_error ''sequence_one_session_start_required''
     else
       case bind_result (read_manifest (ev_payload start)) (\<lambda>m.
              bind_result (canonical_json_bytes (JvObj (manifest_fields m))) (\<lambda>b. Inr (m, b))) of
         Inl e \<Rightarrow> if is_value_error e then reducer_error ''session_start_manifest_invalid'' else Inl e
       | Inr (m, canonical_manifest) \<Rightarrow>
           if canonical_manifest \<noteq> ev_payload start then reducer_error ''session_start_manifest_invalid''
           else if sm_session_id m \<noteq> ev_session_id start \<or> ev_source_entity_id start \<noteq> sm_session_id m
              \<or> ev_local_wall_ns start \<noteq> sm_created_wall_ns m \<or> ev_local_monotonic_ns start \<noteq> 0
           then reducer_error ''session_start_manifest_binding_invalid''
           else
             bind_result (canonical_record_sha256 start) (\<lambda>digest.
             case bytes_fromhex digest of
               None \<Rightarrow> Inl (ValueError ''fromhex'')
             | Some raw \<Rightarrow> Inr (sha256 (''INCI-TRACE-V1'' @ nul @ raw))))"

fun derived_digests :: "PersistedEvent \<Rightarrow> int list \<Rightarrow> PersistedEvent list \<Rightarrow> jvalue list result" where
  "derived_digests parent seen [] = Inr []"
| "derived_digests parent seen (candidate # rest) =
     bind_result (require_valid_event candidate) (\<lambda>item.
     if ev_record_kind item \<noteq> DERIVED \<or> ev_session_id item \<noteq> ev_session_id parent
        \<or> ev_parent_ingest_seq item \<noteq> Some (ev_ingest_seq parent)
     then reducer_error ''trace_derived_binding_invalid''
     else if ev_ingest_seq item \<in> set seen then reducer_error ''trace_derived_sequence_duplicate''
     else
       bind_result (canonical_record_sha256 item) (\<lambda>digest.
       bind_result (derived_digests parent (ev_ingest_seq item # seen) rest) (\<lambda>hashes.
         Inr (JvObj [(codes ''record_sha256'', jv_text digest)] # hashes))))"

definition next_trace ::
  "bytes \<Rightarrow> PersistedEvent \<Rightarrow> PersistedEvent list \<Rightarrow> FoundationState \<Rightarrow> bytes result" where
  "next_trace prior_trace raw derived s =
     (if length prior_trace \<noteq> 32 then reducer_error ''prior_trace_length_invalid''
      else
        bind_result (require_valid_event raw) (\<lambda>parent.
        if ev_record_kind parent \<noteq> RAW then reducer_error ''trace_raw_record_required''
        else
          bind_result (canonical_state_bytes s) (\<lambda>_.
          if fs_session_id s \<noteq> ev_session_id parent \<or> fs_last_applied_raw_seq s \<noteq> ev_ingest_seq parent
          then reducer_error ''trace_state_binding_invalid''
          else if (case source_epoch s (ev_source_kind parent, ev_source_id parent) of
                     None \<Rightarrow> -1 | Some epoch \<Rightarrow> epoch) < ev_connection_epoch parent
          then reducer_error ''trace_state_epoch_invalid''
          else
            bind_result (derived_digests parent [] derived) (\<lambda>output_hashes.
            bind_result (canonical_record_sha256 parent) (\<lambda>raw_digest.
            bind_result (canonical_state_bytes s) (\<lambda>state_bytes.
            bind_result (canonical_json_bytes (JvObj
                [(codes ''v'', JvInt 1),
                 (codes ''raw_record_sha256'', jv_text raw_digest),
                 (codes ''outputs'', JvArr output_hashes),
                 (codes ''state_sha256'', jv_text (hexdigest (sha256 state_bytes)))])) (\<lambda>entry.
            bind_result (framed entry) (\<lambda>framed_entry.
              Inr (sha256 (''INCI-TRACE-STEP-V1'' @ nul @ prior_trace @ framed_entry))))))))))"

end
