(* ===== verification/JsonRoundTrip.thy ===== *)
theory JsonRoundTrip
  imports JsonText
begin

text \<open>
  Reading is the inverse of printing, for objects whose values are atoms: texts, integers, truth values and null, as
  the records and manifests of the event core are.  \<open>parse_value_fuel\<close> shows that the scanner never runs
  out of fuel.
\<close>

subsection \<open>The scanner consumes its input\<close>

lemma skip_ws_length: "length (skip_ws s) \<le> length s"
  by (induction s) auto

lemma skip_ws_Cons: "skip_ws s = c # r \<Longrightarrow> length r < length s"
  using skip_ws_length[of s] by simp

lemma string_body_shorter: "string_body s = Inr (t, r) \<Longrightarrow> length r < length s"
proof (induction s arbitrary: t rule: string_body.induct)
  case (2 c s)
  then show ?case
    by (auto simp: bind_result_eq_Inr json_error_def less_Suc_eq split: if_splits option.splits dest: unescape_shorter)
      (meson less_trans unescape_shorter)+
qed (simp add: json_error_def)

lemma read_natural_shorter: "read_natural s = Inr (n, r) \<Longrightarrow> length r < length s"
  by (cases s) (auto simp: read_natural_def json_error_def Let_def split: if_splits)

lemma has_prefix_length: "has_prefix p s \<Longrightarrow> length p \<le> length s"
  unfolding has_prefix_def codes_def by (metis length_map length_take min.cobounded1)

lemma read_literal_shorter: "read_literal s = Inr (v, r) \<Longrightarrow> length r < length s"
  by (auto simp: read_literal_def nonstandard_constant_def bind_result_eq_Inr split: if_splits
      dest!: has_prefix_length read_natural_shorter)

lemma parse_elements_SucE:
  assumes "parse_elements (Suc n) s = Inr (vs, r)"
  obtains v q where "parse_value n s = Inr (v, q)" "skip_ws q = 93 # r" "vs = [v]"
  | v q q' ws where "parse_value n s = Inr (v, q)" "skip_ws q = 44 # q'"
      "parse_elements n (skip_ws q') = Inr (ws, r)" "vs = v # ws"
proof -
  note assms = assms[unfolded parse_elements.simps(2)]
  from assms obtain v q where v: "parse_value n s = Inr (v, q)"
    "(case skip_ws q of [] \<Rightarrow> json_error
      | d # r' \<Rightarrow> if d = 93 then Inr ([v], r')
           else if d = 44 then bind_result (parse_elements n (skip_ws r')) (\<lambda>(vs, r''). Inr (v # vs, r''))
           else json_error) = Inr (vs, r)"
    by (auto simp: bind_result_eq_Inr)
  then show thesis using that
    by (cases "skip_ws q") (auto simp: json_error_def bind_result_eq_Inr split: if_split_asm)
qed

lemma parse_members_SucE:
  assumes "parse_members (Suc n) s = Inr (kvs, r)"
  obtains s' k q q' v q1 where "s = 34 # s'" "string_body s' = Inr (k, q)" "skip_ws q = 58 # q'"
      "parse_value n (skip_ws q') = Inr (v, q1)" "skip_ws q1 = 125 # r" "kvs = [(k, v)]"
  | s' k q q' v q1 q2 ws where "s = 34 # s'" "string_body s' = Inr (k, q)" "skip_ws q = 58 # q'"
      "parse_value n (skip_ws q') = Inr (v, q1)" "skip_ws q1 = 44 # q2"
      "parse_members n (skip_ws q2) = Inr (ws, r)" "kvs = (k, v) # ws"
proof -
  note assms = assms[unfolded parse_members.simps(2)]
  obtain s' where s': "s = 34 # s'"
    using assms by (cases s) (auto simp: json_error_def split: if_split_asm)
  then obtain k q where k: "string_body s' = Inr (k, q)"
    using assms by (auto simp: bind_result_eq_Inr)
  obtain q' where q': "skip_ws q = 58 # q'"
    using assms s' k by (cases "skip_ws q") (auto simp: json_error_def split: if_split_asm)
  then obtain v q1 where v: "parse_value n (skip_ws q') = Inr (v, q1)"
    using assms s' k by (auto simp: bind_result_eq_Inr)
  show thesis
    using assms s' k q' v that
    by (cases "skip_ws q1") (auto simp: json_error_def bind_result_eq_Inr split: if_split_asm)
qed

lemma parse_value_SucE:
  assumes "parse_value (Suc n) s = Inr (v, r)"
  obtains c q where "s = c # q" "length r < length s"
  | q ws where "s = 91 # q" "parse_elements n (skip_ws q) = Inr (ws, r)" "v = JvArr ws"
  | q kvs where "s = 123 # q" "parse_members n (skip_ws q) = Inr (kvs, r)"
proof -
  note assms = assms[unfolded parse_value.simps(2)]
  obtain c q where s: "s = c # q" using assms by (cases s) (auto simp: json_error_def)
  have tl: "length (tl (skip_ws q)) < length s" using skip_ws_length[of q] s by simp
  consider "c = 34" | "c = 91" | "c = 123" | "c \<noteq> 34 \<and> c \<noteq> 91 \<and> c \<noteq> 123" by blast
  then show thesis
  proof cases
    case 1
    then obtain t where "string_body q = Inr (t, r)" using assms s by (auto simp: bind_result_eq_Inr)
    then show thesis using that(1)[OF s] string_body_shorter s by fastforce
  next
    case 2
    show thesis
    proof (cases "skip_ws q \<noteq> [] \<and> hd (skip_ws q) = 93")
      case True
      then show thesis using assms s 2 that(1)[OF s] tl by simp
    next
      case False
      then obtain ws where "parse_elements n (skip_ws q) = Inr (ws, r)" "v = JvArr ws"
        using assms s 2 by (auto simp: bind_result_eq_Inr)
      then show thesis using that(2) s 2 by blast
    qed
  next
    case 3
    show thesis
    proof (cases "skip_ws q \<noteq> [] \<and> hd (skip_ws q) = 125")
      case True
      then show thesis using assms s 3 that(1)[OF s] tl by (auto simp: bind_result_eq_Inr duplicate_free_object_def)
    next
      case False
      then obtain kvs where "parse_members n (skip_ws q) = Inr (kvs, r)"
        using assms s 3 by (auto simp: bind_result_eq_Inr)
      then show thesis using that(3) s 3 by blast
    qed
  next
    case 4
    then have "read_literal s = Inr (v, r)" using assms s by simp
    then show thesis using that(1)[OF s] read_literal_shorter by blast
  qed
qed

lemma parse_shorter_all:
  "(\<forall>s v r. parse_value n s = Inr (v, r) \<longrightarrow> length r < length s)
   \<and> (\<forall>s vs r. parse_elements n s = Inr (vs, r) \<longrightarrow> length r < length s)
   \<and> (\<forall>s kvs r. parse_members n s = Inr (kvs, r) \<longrightarrow> length r < length s)"
proof (induction n)
  case 0
  then show ?case by (simp add: json_error_def)
next
  case (Suc n)
  have ih: "parse_value n s = Inr (v, r) \<Longrightarrow> length r < length s" "parse_elements n s = Inr (vs, r) \<Longrightarrow> length r < length s"
    "parse_members n s = Inr (kvs, r) \<Longrightarrow> length r < length s" for s v vs kvs r
    using Suc by blast+
  have "length r < length s" if "parse_value (Suc n) s = Inr (v, r)" for s v r
    using that
  proof (cases rule: parse_value_SucE)
    case (2 q ws)
    then show ?thesis using ih(2)[of "skip_ws q" ws r] skip_ws_length[of q] by simp
  next
    case (3 q kvs)
    then show ?thesis using ih(3)[of "skip_ws q" kvs r] skip_ws_length[of q] by simp
  qed
  moreover have "length r < length s" if "parse_elements (Suc n) s = Inr (vs, r)" for s vs r
    using that
  proof (cases rule: parse_elements_SucE)
    case (1 v q)
    then show ?thesis using ih(1)[of s v q] skip_ws_Cons[of q 93 r] by simp
  next
    case (2 v q q' ws)
    then show ?thesis
      using ih(1)[of s v q] skip_ws_Cons[of q 44 q'] ih(2)[of "skip_ws q'" ws r] skip_ws_length[of q'] by simp
  qed
  moreover have "length r < length s" if "parse_members (Suc n) s = Inr (kvs, r)" for s kvs r
    using that
  proof (cases rule: parse_members_SucE)
    case (1 s' k q q' v q1)
    then show ?thesis
      using string_body_shorter[of s' k q] skip_ws_Cons[of q 58 q'] ih(1)[of "skip_ws q'" v q1] skip_ws_length[of q']
        skip_ws_Cons[of q1 125 r] by simp
  next
    case (2 s' k q q' v q1 q2 ws)
    then show ?thesis
      using string_body_shorter[of s' k q] skip_ws_Cons[of q 58 q'] ih(1)[of "skip_ws q'" v q1] skip_ws_length[of q']
        skip_ws_Cons[of q1 44 q2] ih(3)[of "skip_ws q2" ws r] skip_ws_length[of q2] by simp
  qed
  ultimately show ?case by blast
qed

lemma parse_value_shorter: "parse_value n s = Inr (v, r) \<Longrightarrow> length r < length s"
  using parse_shorter_all[of n] by blast

subsection \<open>The fuel is enough\<close>

lemma bind_result_same:
  "(\<And>x. m = Inr x \<Longrightarrow> f x = g x) \<Longrightarrow> bind_result m f = bind_result m g"
  by (cases m) auto

lemma parse_fuel_all:
  "(\<forall>s. 2 * length s + 1 \<le> n \<longrightarrow> parse_value (Suc n) s = parse_value n s)
   \<and> (\<forall>s. 2 * length s + 2 \<le> n \<longrightarrow> parse_elements (Suc n) s = parse_elements n s)
   \<and> (\<forall>s. 2 * length s + 2 \<le> n \<longrightarrow> parse_members (Suc n) s = parse_members n s)"
proof (induction n)
  case (Suc n)
  then have ih: "2 * length s + 1 \<le> n \<Longrightarrow> parse_value (Suc n) s = parse_value n s"
    "2 * length s + 2 \<le> n \<Longrightarrow> parse_elements (Suc n) s = parse_elements n s"
    "2 * length s + 2 \<le> n \<Longrightarrow> parse_members (Suc n) s = parse_members n s" for s
    by blast+
  have "parse_value (Suc (Suc n)) s = parse_value (Suc n) s" if "2 * length s + 1 \<le> Suc n" for s
  proof (cases s)
    case (Cons c q)
    then have "2 * length (skip_ws q) + 2 \<le> n" using that skip_ws_length[of q] by simp
    then have "parse_elements (Suc n) (skip_ws q) = parse_elements n (skip_ws q)"
      "parse_members (Suc n) (skip_ws q) = parse_members n (skip_ws q)" using ih by blast+
    then show ?thesis unfolding Cons parse_value.simps(2) list.case Let_def by (simp only:)
  qed (simp add: parse_value.simps(2))
  moreover have "parse_elements (Suc (Suc n)) s = parse_elements (Suc n) s" if "2 * length s + 2 \<le> Suc n" for s
  proof -
    have v: "parse_value (Suc n) s = parse_value n s" using ih(1) that by simp
    have e: "parse_elements (Suc n) (skip_ws q') = parse_elements n (skip_ws q')"
      if "parse_value n s = Inr (w, q)" "skip_ws q = d # q'" for w q d q'
      using parse_value_shorter[OF that(1)] skip_ws_Cons[OF that(2)] skip_ws_length[of q'] \<open>2 * length s + 2 \<le> Suc n\<close>
      by (intro ih(2)) simp
    have "(case skip_ws q of [] \<Rightarrow> json_error
        | d # r' \<Rightarrow> if d = 93 then Inr ([w], r')
            else if d = 44 then bind_result (parse_elements (Suc n) (skip_ws r')) (\<lambda>(vs, r''). Inr (w # vs, r''))
            else json_error) =
       (case skip_ws q of [] \<Rightarrow> json_error
        | d # r' \<Rightarrow> if d = 93 then Inr ([w], r')
            else if d = 44 then bind_result (parse_elements n (skip_ws r')) (\<lambda>(vs, r''). Inr (w # vs, r''))
            else json_error)"
      if w: "parse_value n s = Inr (w, q)" for w q
    proof (cases "skip_ws q")
      case q: (Cons d q')
      show ?thesis unfolding q list.case e[OF w q] ..
    qed simp
    then show ?thesis
      unfolding parse_elements.simps(2)[of "Suc n"] parse_elements.simps(2)[of n] v
      by (auto intro!: bind_result_same)
  qed
  moreover have "parse_members (Suc (Suc n)) s = parse_members (Suc n) s" if l: "2 * length s + 2 \<le> Suc n" for s
  proof (cases s)
    case (Cons c s')
    have v: "parse_value (Suc n) (skip_ws q') = parse_value n (skip_ws q')"
      if "string_body s' = Inr (k, q)" "skip_ws q = d # q'" for k q d q'
      using string_body_shorter[OF that(1)] skip_ws_Cons[OF that(2)] skip_ws_length[of q'] l Cons
      by (intro ih(1)) simp
    have e: "parse_members (Suc n) (skip_ws q2) = parse_members n (skip_ws q2)"
      if "string_body s' = Inr (k, q)" "skip_ws q = d # q'" "parse_value n (skip_ws q') = Inr (w, q1)" "skip_ws q1 = d' # q2"
      for k q d q' w q1 d' q2
      using string_body_shorter[OF that(1)] skip_ws_Cons[OF that(2)] skip_ws_length[of q'] parse_value_shorter[OF that(3)]
        skip_ws_Cons[OF that(4)] skip_ws_length[of q2] l Cons
      by (intro ih(3)) simp
    have "(case skip_ws q of [] \<Rightarrow> json_error
        | d # r' \<Rightarrow> if d \<noteq> 58 then json_error
            else bind_result (parse_value (Suc n) (skip_ws r')) (\<lambda>(v, r1).
              case skip_ws r1 of [] \<Rightarrow> json_error
              | e # r2 \<Rightarrow> if e = 125 then Inr ([(k, v)], r2)
                  else if e = 44 then bind_result (parse_members (Suc n) (skip_ws r2)) (\<lambda>(kvs, r3). Inr ((k, v) # kvs, r3))
                  else json_error)) =
       (case skip_ws q of [] \<Rightarrow> json_error
        | d # r' \<Rightarrow> if d \<noteq> 58 then json_error
            else bind_result (parse_value n (skip_ws r')) (\<lambda>(v, r1).
              case skip_ws r1 of [] \<Rightarrow> json_error
              | e # r2 \<Rightarrow> if e = 125 then Inr ([(k, v)], r2)
                  else if e = 44 then bind_result (parse_members n (skip_ws r2)) (\<lambda>(kvs, r3). Inr ((k, v) # kvs, r3))
                  else json_error))"
      if k: "string_body s' = Inr (k, q)" for k q
    proof (cases "skip_ws q")
      case q: (Cons d q')
      show ?thesis
        unfolding q list.case v[OF k q]
        by (cases "d = 58") (auto intro!: bind_result_same split: list.split prod.split simp: e[OF k q])
    qed simp
    then show ?thesis
      unfolding Cons parse_members.simps(2) list.case by (auto intro!: bind_result_same)
  qed (simp add: parse_members.simps(2))
  ultimately show ?case by blast
qed simp

lemma parse_value_fuel:
  "2 * length s + 1 \<le> n \<Longrightarrow> parse_value n s = parse_value (2 * length s + 1) s"
proof (induction n rule: nat_induct_at_least)
  case (Suc n)
  then show ?case using parse_fuel_all[of n] by simp
qed simp

subsection \<open>Reading what was printed\<close>

lemma codes_simps [simp]:
  "codes [] = []" "codes (c # s) = of_char c # codes s" "codes (s @ t) = codes s @ codes t"
  "length (codes s) = length s" "codes s = codes t \<longleftrightarrow> s = t"
  by (simp_all add: codes_def inj_map_eq_map inj_of_char)

lemma hex_code_digit: "k < 16 \<Longrightarrow> hex_code (of_char (hex_digit k)) = Some k"
proof -
  assume "k < 16"
  then have "k = 0 \<or> k = 1 \<or> k = 2 \<or> k = 3 \<or> k = 4 \<or> k = 5 \<or> k = 6 \<or> k = 7 \<or> k = 8 \<or> k = 9
    \<or> k = 10 \<or> k = 11 \<or> k = 12 \<or> k = 13 \<or> k = 14 \<or> k = 15" by presburger
  then show ?thesis by (elim disjE) (simp_all add: hex_digit_def hex_digits_def hex_code_def)
qed

lemma four_digits:
  fixes n :: nat
  assumes "n < 65536"
  shows "n div 4096 mod 16 * 4096 + n div 256 mod 16 * 256 + n div 16 mod 16 * 16 + n mod 16 = n"
proof -
  have "n div 4096 < 16" using assms by (simp add: less_mult_imp_div_less)
  then have "n div 4096 mod 16 = n div 4096" by simp
  moreover have "n = n div 16 * 16 + n mod 16" "n div 16 = n div 256 * 16 + n div 16 mod 16"
    "n div 256 = n div 4096 * 16 + n div 256 mod 16"
    using div_mult_mod_eq[of n 16] div_mult_mod_eq[of "n div 16" 16] div_mult_mod_eq[of "n div 256" 16]
    by (simp_all add: div_mult2_eq[symmetric])
  ultimately show ?thesis by linarith
qed

lemma hex_quad_escape: "n < 65536 \<Longrightarrow>
  hex_quad (of_char (hex_digit (n div 4096 mod 16)) # of_char (hex_digit (n div 256 mod 16))
    # of_char (hex_digit (n div 16 mod 16)) # of_char (hex_digit (n mod 16)) # s) = Some (n, s)"
  by (simp add: hex_code_digit four_digits del: mod_less) 

lemma string_body_escape:
  assumes "n < 55296"
  shows "string_body (codes (escape_point n) @ s) = bind_result (string_body s) (\<lambda>(t, r). Inr (n # t, r))"
proof (cases "n \<in> {34, 92, 10, 13, 9, 8, 12} \<or> 32 \<le> n \<and> n \<le> 126")
  case True
  then consider "n \<in> {34, 92, 10, 13, 9, 8, 12}" | "32 \<le> n \<and> n \<le> 126 \<and> n \<noteq> 34 \<and> n \<noteq> 92" by auto
  then show ?thesis
  proof cases
    case 1
    then show ?thesis by (auto simp: escape_point_def)
  next
    case 2
    then show ?thesis by (auto simp: escape_point_def)
  qed
next
  case False
  then have "escape_point n = escape_u n" using assms by (auto simp: escape_point_def)
  moreover have "unescape (codes (tl (escape_u n)) @ s) = Some (n, s)"
    using hex_quad_escape[of n s] assms by (simp add: escape_u_def)
  ultimately show ?thesis by (simp add: escape_u_def)
qed

lemma string_body_quoted:
  "list_all (\<lambda>n. n < 55296) t \<Longrightarrow> string_body (codes (concat (map escape_point t)) @ 34 # s) = Inr (t, s)"
  by (induction t) (simp_all add: string_body_escape)

lemma digit_code: "0 \<le> n \<Longrightarrow> n < 10 \<Longrightarrow> of_char (char_of (48 + n :: int)) = 48 + nat n"
proof -
  assume "0 \<le> n" "n < 10"
  then have "n = 0 \<or> n = 1 \<or> n = 2 \<or> n = 3 \<or> n = 4 \<or> n = 5 \<or> n = 6 \<or> n = 7 \<or> n = 8 \<or> n = 9"
    by presburger
  then show ?thesis by (elim disjE; hypsubst; code_simp)
qed

lemma digits_text_read:
  "0 \<le> n \<Longrightarrow> digits_value (codes (digits_text n)) = n \<and> list_all is_digit (codes (digits_text n))
     \<and> digits_text n \<noteq> [] \<and> (hd (codes (digits_text n)) = 48 \<longrightarrow> n = 0)
     \<and> n < 10 ^ length (digits_text n) \<and> (0 < n \<longrightarrow> 10 ^ (length (digits_text n) - 1) \<le> n)"
proof (induction n rule: digits_text.induct)
  case (1 n)
  show ?case
  proof (cases "n < 10")
    case True
    then show ?thesis
      using 1(2) digit_code[of n] by (simp add: digits_text.simps digits_value_def is_digit_def)
  next
    case False
    then have ih: "digits_value (codes (digits_text (n div 10))) = n div 10" "list_all is_digit (codes (digits_text (n div 10)))"
      "digits_text (n div 10) \<noteq> []" "hd (codes (digits_text (n div 10))) = 48 \<longrightarrow> n div 10 = 0"
      "n div 10 < 10 ^ length (digits_text (n div 10))" "10 ^ (length (digits_text (n div 10)) - 1) \<le> n div 10"
      using 1 by (auto simp: pos_imp_zdiv_pos_iff)
    have "codes (digits_text (n div 10)) \<noteq> []" using ih(3) by (metis codes_simps(4) length_0_conv)
    moreover have "10 ^ length (digits_text (n div 10)) \<le> n"
      using ih(3,6) by (cases "digits_text (n div 10)") auto
    moreover have "is_digit (48 + nat (n mod 10))"
      using pos_mod_bound[of 10 n] pos_mod_sign[of 10 n] by (simp add: is_digit_def)
    moreover have "n < 10 * 10 ^ length (digits_text (n div 10))" using ih(5) by linarith
    moreover have "n div 10 \<noteq> 0" using False 1(2) by presburger
    ultimately show ?thesis
      using ih False digit_code[of "n mod 10"] unfolding digits_text.simps[of n]
      by (simp add: digits_value_def)
  qed
qed

definition int_ends :: "utext \<Rightarrow> bool" where
  \<comment> \<open>what may follow a number: no digit, fraction or exponent\<close>
  "int_ends r \<longleftrightarrow> (case r of [] \<Rightarrow> True | c # s \<Rightarrow> \<not> is_digit c \<and> c \<notin> {46, 69, 101})"

lemma int_ends_float: "int_ends r \<Longrightarrow> \<not> starts_float r"
  by (cases r) (auto simp: int_ends_def starts_float_def)

lemma read_natural_digits:
  assumes "0 \<le> n" "n < int_digits_bound" "int_ends r"
  shows "read_natural (codes (digits_text n) @ r) = Inr (n, r)"
proof -
  note d = digits_text_read[OF assms(1)]
  obtain c cs where c: "codes (digits_text n) = c # cs" using d by (cases "digits_text n") auto
  have digits: "is_digit c" "list_all is_digit cs" using d c by auto
  have take: "takeWhile is_digit (c # cs @ r) = c # cs"
  proof -
    have "takeWhile is_digit r = []" using assms(3) by (cases r) (auto simp: int_ends_def)
    then show ?thesis using digits by (simp add: list_all_iff takeWhile_append2)
  qed
  have one: "cs = []" if "c = 48"
  proof -
    have "n = 0" using d c that by simp
    then show ?thesis using c by (simp add: digits_text.simps)
  qed
  have len: "length (c # cs) \<le> 4300"
  proof (cases "n = 0")
    case True
    then show ?thesis using c by (auto simp: digits_text.simps)
  next
    case False
    then have "(10 :: int) ^ (length (digits_text n) - 1) < 10 ^ 4300"
      using d assms(1,2) unfolding int_digits_bound_def by linarith
    then have "length (digits_text n) - 1 < 4300" by (rule power_less_imp_less_exp[rotated]) simp
    then show ?thesis using c by (metis Suc_diff_1 Suc_leI codes_simps(4) d length_greater_0_conv)
  qed
  have "read_natural (c # cs @ r) = Inr (digits_value (c # cs), r)"
  proof (cases "c = 48")
    case True
    then show ?thesis
      using one int_ends_float[OF assms(3)] digits(1) by (simp add: read_natural_def)
  next
    case False
    then show ?thesis
      using take len int_ends_float[OF assms(3)] digits(1) by (simp add: read_natural_def Let_def)
  qed
  then show ?thesis using d c by simp
qed

lemma read_literal_int:
  assumes "\<bar>i\<bar> < int_digits_bound" "int_ends r"
  shows "read_literal (codes (int_text i) @ r) = Inr (JvInt i, r)"
proof (cases "i < 0")
  case True
  obtain c cs where c: "codes (digits_text (- i)) = c # cs" "is_digit c"
    using digits_text_read[of "- i"] True by (cases "digits_text (- i)") auto
  have "\<not> has_prefix ''-Infinity'' (45 # c # cs @ r)" using c(2) by (simp add: has_prefix_def is_digit_def)
  then have "read_literal (45 # c # cs @ r) = bind_result (read_natural (c # cs @ r)) (\<lambda>(n, q). Inr (JvInt (- n), q))"
    by (simp add: read_literal_def) (simp add: has_prefix_def)
  then show ?thesis
    using read_natural_digits[of "- i" r] assms True c by (simp add: int_text_def)
next
  case False
  obtain c cs where c: "codes (digits_text i) = c # cs" "is_digit c"
    using digits_text_read[of i] False by (cases "digits_text i") auto
  have "read_literal (c # cs @ r) = bind_result (read_natural (c # cs @ r)) (\<lambda>(n, q). Inr (JvInt n, q))"
    using c(2) by (simp add: read_literal_def has_prefix_def is_digit_def)
  then show ?thesis
    using read_natural_digits[of i r] assms False c by (simp add: int_text_def)
qed

text \<open>The atoms, and what they need to be read back.\<close>

fun atom_ok :: "jvalue \<Rightarrow> bool" where
  "atom_ok JvNull = True"
| "atom_ok (JvBool b) = True"
| "atom_ok (JvInt i) = (\<bar>i\<bar> < int_digits_bound)"
| "atom_ok (JvStr t) = list_all (\<lambda>n. n < 55296) t"
| "atom_ok _ = False"

lemma starts_with_no_space: "c \<notin> {32, 9, 10, 13} \<Longrightarrow> skip_ws (c # s) = c # s"
  by simp

lemma int_text_head:
  obtains c cs where "codes (int_text i) = c # cs" "c = 45 \<or> is_digit c"
proof (cases "i < 0")
  case True
  then show thesis using that by (simp add: int_text_def)
next
  case False
  then show thesis
    using that digits_text_read[of i] by (cases "digits_text i") (auto simp: int_text_def)
qed

lemma parse_atom:
  assumes "atom_ok v" "int_ends r"
  shows "parse_value (Suc n) (codes (json_dumps v) @ r) = Inr (v, r)"
    and "skip_ws (codes (json_dumps v) @ r) = codes (json_dumps v) @ r"
proof -
  show "parse_value (Suc n) (codes (json_dumps v) @ r) = Inr (v, r)"
  proof (cases v)
    case (JvInt i)
    obtain c cs where c: "codes (int_text i) = c # cs" "c = 45 \<or> is_digit c" by (rule int_text_head)
    then have "c \<noteq> 34 \<and> c \<noteq> 91 \<and> c \<noteq> 123" by (auto simp: is_digit_def)
    then show ?thesis
      using read_literal_int[of i r] assms JvInt c by (simp add: parse_value.simps(2))
  next
    case (JvStr t)
    then show ?thesis
      using string_body_quoted[of t r] assms by (simp add: quoted_def parse_value.simps(2))
  next
    case (JvBool b)
    then show ?thesis by (cases b) (simp_all add: parse_value.simps(2) read_literal_def has_prefix_def)
  qed (use assms in \<open>simp_all add: parse_value.simps(2) read_literal_def has_prefix_def\<close>)
  show "skip_ws (codes (json_dumps v) @ r) = codes (json_dumps v) @ r"
  proof (cases v)
    case (JvInt i)
    obtain c cs where c: "codes (int_text i) = c # cs" "c = 45 \<or> is_digit c" by (rule int_text_head)
    then show ?thesis using JvInt by (auto simp: is_digit_def)
  next
    case (JvBool b)
    then show ?thesis by (cases b) simp_all
  qed (use assms in \<open>simp_all add: quoted_def\<close>)
qed

fun members_text :: "(utext \<times> jvalue) list \<Rightarrow> string" where
  "members_text [] = []"
| "members_text [(k, v)] = quoted k @ '':'' @ json_dumps v"
| "members_text ((k, v) # kv # kvs) = quoted k @ '':'' @ json_dumps v @ '','' @ members_text (kv # kvs)"

lemma comma_join_members: "comma_join (map (\<lambda>(k, v). quoted k @ '':'' @ json_dumps v) kvs) = members_text kvs"
  by (induction kvs rule: members_text.induct) (simp_all add: comma_join_def)

lemma sort_key_map: "(\<And>x. f (g x) = h x) \<Longrightarrow> sort_key f (map g xs) = map g (sort_key h xs)"
proof -
  assume eq: "\<And>x. f (g x) = h x"
  have "insort_key f (g x) (map g ys) = map g (insort_key h x ys)" for x ys
    by (induction ys) (simp_all add: eq)
  then show ?thesis by (induction xs) simp_all
qed

lemma json_dumps_object: "json_dumps (JvObj kvs) = ''{'' @ members_text (sort_key fst kvs) @ ''}''"
proof -
  have "sort_key fst (map (\<lambda>(k, v). (k, json_dumps v)) kvs) = map (\<lambda>(k, v). (k, json_dumps v)) (sort_key fst kvs)"
    by (rule sort_key_map) auto
  then show ?thesis
    unfolding json_dumps.simps(6) comma_join_members[of "sort_key fst kvs", symmetric]
    by (auto intro!: arg_cong[where f = comma_join])
qed

definition members_ok :: "(utext \<times> jvalue) list \<Rightarrow> bool" where
  "members_ok kvs \<longleftrightarrow> list_all (\<lambda>(k, v). list_all (\<lambda>n. n < 55296) k \<and> atom_ok v) kvs"

lemma parse_members_text:
  "members_ok kvs \<Longrightarrow> kvs \<noteq> [] \<Longrightarrow> length kvs < n \<Longrightarrow>
     parse_members n (codes (members_text kvs) @ 125 # r) = Inr (kvs, r)"
proof (induction kvs arbitrary: n rule: members_text.induct)
  case (2 k v)
  then obtain m where n: "n = Suc (Suc m)" by (cases n; cases "n - 1") auto
  have ends: "int_ends (125 # r)" by (simp add: int_ends_def is_digit_def)
  have v: "list_all (\<lambda>n. n < 55296) k" "atom_ok v" using 2 by (simp_all add: members_ok_def)
  note a = parse_atom(1)[OF v(2) ends, of m] parse_atom(2)[OF v(2) ends]
  show ?case
    unfolding n using a by (simp add: quoted_def parse_members.simps(2) string_body_quoted[OF v(1)])
next
  case (3 k v kv kvs)
  then obtain m where n: "n = Suc (Suc m)" by (cases n; cases "n - 1") auto
  let ?r = "44 # codes (members_text (kv # kvs)) @ 125 # r"
  have ends: "int_ends ?r" by (simp add: int_ends_def is_digit_def)
  have v: "list_all (\<lambda>n. n < 55296) k" "atom_ok v" using 3 by (simp_all add: members_ok_def)
  note a = parse_atom(1)[OF v(2) ends, of m] parse_atom(2)[OF v(2) ends]
  have rest: "parse_members (Suc m) (codes (members_text (kv # kvs)) @ 125 # r) = Inr (kv # kvs, r)"
    using 3 n by (simp add: members_ok_def)
  have ws: "skip_ws (codes (members_text (kv # kvs)) @ 125 # r) = codes (members_text (kv # kvs)) @ 125 # r"
    by (cases kv; cases kvs) (auto simp: quoted_def)
  show ?case
    unfolding n using a rest ws
    by (simp add: quoted_def parse_members.simps(2) string_body_quoted[OF v(1)])
qed simp

lemma members_text_length: "length kvs \<le> length (members_text kvs)"
  by (induction kvs rule: members_text.induct) (auto simp: quoted_def)

lemma json_loads_dumps:
  assumes "members_ok kvs" "distinct (map fst kvs)"
  shows "json_loads (codes (json_dumps (JvObj kvs))) = Inr (JvObj (sort_key fst kvs))"
proof -
  let ?ks = "sort_key fst kvs" and ?t = "members_text (sort_key fst kvs)"
  have ok: "members_ok ?ks" using assms(1) by (simp add: members_ok_def list_all_iff)
  have "distinct (map fst ?ks)" using assms(2) by (simp add: distinct_map inj_on_def)
  then have d: "duplicate_free_object ?ks = Inr (JvObj ?ks)" by (simp add: duplicate_free_object_def)
  have body: "codes (json_dumps (JvObj kvs)) = 123 # codes ?t @ [125]" unfolding json_dumps_object by simp
  have "parse_value (2 * length (123 # codes ?t @ [125]) + 1) (123 # codes ?t @ [125]) = Inr (JvObj ?ks, [])"
  proof (cases "?ks = []")
    case True
    then show ?thesis by (simp add: parse_value.simps(2) duplicate_free_object_def eval_nat_numeral)
  next
    case False
    then obtain k v rest where kv: "?ks = (k, v) # rest" by (cases ?ks) auto
    have head: "\<exists>q. codes ?t @ [125] = 34 # q" unfolding kv by (cases rest) (auto simp: quoted_def)
    then have ws: "skip_ws (codes ?t @ [125]) = codes ?t @ [125]" by auto
    have "parse_members (2 * length (123 # codes ?t @ [125])) (codes ?t @ [125]) = Inr (?ks, [])"
      using parse_members_text[OF ok False, of "2 * length (123 # codes ?t @ [125])" "[]"] members_text_length[of ?ks]
      by simp
    then show ?thesis
      using head ws d by (auto simp: parse_value.simps(2) Let_def)
  qed
  then show ?thesis unfolding json_loads_def body by simp
qed

end
