(* ===== verification/CodecRoundTrip.thy ===== *)
theory CodecRoundTrip
  imports EventCodec JsonRoundTrip "HOL-Library.Multiset"
begin

text \<open>
  The record codec writes and reads the same thing: a valid event is decoded from the metadata it was encoded
  to, and metadata that is accepted is the canonical text of the event it was decoded to.
\<close>

subsection \<open>Canonical texts are ASCII\<close>

definition ascii :: "string \<Rightarrow> bool" where
  "ascii s \<longleftrightarrow> list_all (\<lambda>c. of_char c < (128 :: nat)) s"

lemma ascii_simps [simp]:
  "ascii []" "ascii (c # s) \<longleftrightarrow> of_char c < (128 :: nat) \<and> ascii s" "ascii (s @ t) \<longleftrightarrow> ascii s \<and> ascii t"
  by (simp_all add: ascii_def)

lemma ascii_concat: "(\<And>s. s \<in> set ss \<Longrightarrow> ascii s) \<Longrightarrow> ascii (concat ss)"
  by (induction ss) auto

lemma ascii_hex_digit: "k < 16 \<Longrightarrow> of_char (hex_digit k) < (128 :: nat)"
proof -
  assume "k < 16"
  then have "k < length hex_digits" by (simp add: hex_digits_def)
  then have "hex_digit k \<in> set hex_digits" unfolding hex_digit_def by (rule nth_mem)
  then show ?thesis by (auto simp: hex_digits_def)
qed

lemma ascii_escape_u: "ascii (escape_u n)"
  by (simp add: escape_u_def ascii_hex_digit)

lemma ascii_quoted: "ascii (quoted t)"
proof -
  have "ascii (escape_point n)" for n
    by (simp add: escape_point_def ascii_escape_u)
  then show ?thesis by (auto simp: quoted_def intro!: ascii_concat)
qed

lemma digit_codes_small: "list_all is_digit (codes s) \<Longrightarrow> ascii s"
  by (induction s) (auto simp: is_digit_def)

lemma ascii_int_text: "ascii (int_text i)"
  using digits_text_read[of i] digits_text_read[of "- i"] by (cases "i < 0") (simp_all add: int_text_def digit_codes_small)

lemma ascii_atom: "atom_ok v \<Longrightarrow> ascii (json_dumps v)"
  by (cases v) (simp_all add: ascii_quoted ascii_int_text)

lemma ascii_members: "members_ok kvs \<Longrightarrow> ascii (members_text kvs)"
  by (induction kvs rule: members_text.induct) (simp_all add: members_ok_def ascii_quoted ascii_atom)

lemma utf8_decode_ascii: "ascii s \<Longrightarrow> utf8_decode (codes s) = Some (codes s)"
  by (induction s) (simp_all add: utf8_decode.simps)

subsection \<open>Objects with distinct keys\<close>

lemma map_of_distinct_cong:
  "distinct (map fst xs) \<Longrightarrow> distinct (map fst ys) \<Longrightarrow> set xs = set ys \<Longrightarrow> map_of xs = map_of ys"
  by (metis map_of_inject_set)

lemma sort_key_distinct_cong:
  fixes xs :: "('k :: linorder \<times> 'v) list"
  assumes "distinct (map fst xs)" "distinct (map fst ys)" "set xs = set ys"
  shows "sort_key fst xs = sort_key fst ys"
proof (rule sort_key_inj_key_eq)
  have "mset xs = mset ys"
    using assms by (metis distinct_map set_eq_iff_mset_eq_distinct)
  then show "mset xs = mset (sort_key fst ys)" by simp
  show "inj_on fst (set xs)" using assms(1) by (simp add: distinct_map)
  show "sorted (map fst (sort_key fst ys))" by simp
qed

lemma json_dumps_cong:
  assumes "distinct (map fst xs)" "distinct (map fst ys)" "set xs = set ys"
  shows "json_dumps (JvObj xs) = json_dumps (JvObj ys)"
  unfolding json_dumps_object sort_key_distinct_cong[OF assms] ..

lemma distinct_sort_key_fst: "distinct (map fst (sort_key fst kvs)) \<longleftrightarrow> distinct (map fst kvs)"
  by (simp add: distinct_map)

lemma member_sorted: "distinct (map fst kvs) \<Longrightarrow> member (sort_key fst kvs) name = member kvs name"
  unfolding member_def by (subst map_of_distinct_cong[of "sort_key fst kvs" kvs]) (simp_all add: distinct_sort_key_fst)

subsection \<open>Strict objects\<close>

lemma strict_object_of_text:
  assumes ok: "members_ok kvs" and d: "distinct (map fst kvs)"
    and keys: "set (map fst kvs) = set (map codes expected)"
  shows "strict_object (json_dumps (JvObj kvs)) expected label = Inr (sort_key fst kvs)"
proof -
  have a: "ascii (json_dumps (JvObj kvs))"
    using ascii_members[of "sort_key fst kvs"] ok unfolding json_dumps_object
    by (simp add: members_ok_def list_all_iff)
  then have "utf8_decode (map of_char (json_dumps (JvObj kvs))) = Some (codes (json_dumps (JvObj kvs)))"
    using utf8_decode_ascii unfolding codes_def by blast
  then have s: "strict_json (json_dumps (JvObj kvs)) label = Inr (JvObj (sort_key fst kvs))"
    unfolding strict_json_def using json_loads_dumps[OF ok d] by simp
  have p: "printable (JvObj (sort_key fst kvs))"
  proof -
    have "atom_ok v \<Longrightarrow> printable v" for v by (cases v) simp_all
    then show ?thesis using ok by (auto simp: members_ok_def list_all_iff)
  qed
  have c: "canonical_json_bytes (JvObj (sort_key fst kvs)) = Inr (json_dumps (JvObj kvs))"
    unfolding canonical_json_bytes_def using p d
    by (simp only: if_True) (rule arg_cong[where f = Inr], rule json_dumps_cong, simp_all add: distinct_sort_key_fst)
  have "take 3 (json_dumps (JvObj kvs)) \<noteq> byte_order_mark"
  proof -
    have "CHR ''{'' \<noteq> char_of (239 :: nat)" by code_simp
    then show ?thesis unfolding json_dumps_object byte_order_mark_def by simp
  qed
  then show ?thesis
    unfolding strict_object_def s bind_result_Inr jvalue.case c using keys by simp
qed


lemma read_literal_no_object: "read_literal s \<noteq> Inr (JvObj kvs, r)"
  by (auto simp: read_literal_def nonstandard_constant_def bind_result_eq_Inr)

lemma duplicate_free_distinct: "duplicate_free_object kvs = Inr (JvObj kvs') \<Longrightarrow> distinct (map fst kvs')"
  by (auto simp: duplicate_free_object_def split: if_splits)

lemma parse_value_distinct: "parse_value n s = Inr (JvObj kvs, r) \<Longrightarrow> distinct (map fst kvs)"
proof (cases n; cases s)
  fix m c q
  assume "n = Suc m" "s = c # q" and p: "parse_value n s = Inr (JvObj kvs, r)"
  then have "(if c = 34 then bind_result (string_body q) (\<lambda>(t, r'). Inr (JvStr t, r'))
      else if c = 91 then
        (let r = skip_ws q in if r \<noteq> [] \<and> hd r = 93 then Inr (JvArr [], tl r)
           else bind_result (parse_elements m r) (\<lambda>(vs, r'). Inr (JvArr vs, r')))
      else if c = 123 then
        (let r = skip_ws q in if r \<noteq> [] \<and> hd r = 125 then bind_result (duplicate_free_object []) (\<lambda>v. Inr (v, tl r))
           else bind_result (parse_members m r) (\<lambda>(kvs, r'). bind_result (duplicate_free_object kvs) (\<lambda>v. Inr (v, r'))))
      else read_literal (c # q)) = Inr (JvObj kvs, r)"
    by (simp add: parse_value.simps(2))
  then show "distinct (map fst kvs)"
    by (auto simp: Let_def bind_result_eq_Inr read_literal_no_object dest: duplicate_free_distinct split: if_splits)
qed (simp_all add: parse_value.simps(2) json_error_def)

lemma strict_json_distinct:
  assumes "strict_json content label = Inr (JvObj kvs)"
  shows "distinct (map fst kvs)"
proof -
  obtain s where "json_loads s = Inr (JvObj kvs)"
    using assms unfolding strict_json_def by (auto split: option.splits sum.splits exn.splits)
  then show ?thesis
    unfolding json_loads_def by (auto simp: bind_result_eq_Inr json_error_def dest: parse_value_distinct split: if_splits)
qed

lemma strict_object_text:
  assumes "strict_object content expected label = Inr kvs"
  shows "set (map fst kvs) = set (map codes expected) \<and> distinct (map fst kvs)
    \<and> canonical_json_bytes (JvObj kvs) = Inr content"
proof -
  from assms obtain v where v: "strict_json content label = Inr v"
    and rest: "(case v of
            JvObj kvs \<Rightarrow>
              if set (map fst kvs) \<noteq> set (map codes expected)
              then Inl (RecordCodecError (label @ '': schema_keys_mismatch''))
              else bind_result (canonical_json_bytes v) (\<lambda>canonical.
                if canonical \<noteq> content then Inl (RecordCodecError (label @ '': noncanonical_json''))
                else Inr kvs)
          | _ \<Rightarrow> Inl (RecordCodecError (label @ '': schema_keys_mismatch''))) = Inr kvs"
    unfolding strict_object_def by (auto simp only: bind_result_eq_Inr if_split_eq1 split: if_splits)
  then obtain ws where ws: "v = JvObj ws" by (cases v) simp_all
  with rest have "set (map fst ws) = set (map codes expected)" "ws = kvs" "canonical_json_bytes v = Inr content"
    by (auto simp: bind_result_eq_Inr split: if_splits)
  then show ?thesis using strict_json_distinct v ws by blast
qed

subsection \<open>Fields\<close>

lemma text_value_codes: "text_value (jv_text s) = Some s"
proof -
  have "list_all (\<lambda>n. n < 256) (codes s)" by (induction s) simp_all
  moreover have "map char_of (codes s) = s" by (induction s) simp_all
  ultimately show ?thesis by (simp add: jv_text_def)
qed

lemma text_value_eq: "text_value v = Some s \<longleftrightarrow> v = jv_text s"
proof
  assume "text_value v = Some s"
  then obtain t where t: "v = JvStr t" "list_all (\<lambda>n. n < 256) t" "s = map char_of t"
    by (cases v) (auto split: if_splits)
  then have "codes s = t" by (induction t arbitrary: s v) auto
  then show "v = jv_text s" using t(1) by (simp add: jv_text_def)
qed (simp add: text_value_codes)

lemma int_value_eq: "int_value v = Some i \<longleftrightarrow> v = JvInt i"
  by (cases v) auto

lemma bool_value_eq: "bool_value v = Some b \<longleftrightarrow> v = JvBool b"
  by (cases v) auto

lemma optional_int_eq: "optional_value int_value v = Some x \<longleftrightarrow> v = jv_optional JvInt x"
  by (cases v; cases x) (auto simp: jv_optional_def)

lemma optional_text_eq: "optional_value text_value v = Some x \<longleftrightarrow> v = jv_optional jv_text x"
proof (cases "v = JvNull")
  case False
  then have "optional_value text_value v = map_option Some (text_value v)" by (cases v) simp_all
  moreover have "jv_text s \<noteq> JvNull" for s by (simp add: jv_text_def)
  ultimately show ?thesis using text_value_eq[of v] False by (cases x) (auto simp: jv_optional_def)
qed (cases x; simp add: jv_optional_def jv_text_def)

subsection \<open>Members of the projections\<close>

lemma metadata_keys_fst: "map fst (metadata_fields e) = map codes metadata_keys"
  by (simp add: metadata_fields_def metadata_keys_def del: codes_simps(1-4))

lemma distinct_codes: "distinct (map codes ks) \<longleftrightarrow> distinct ks"
  by (simp add: distinct_map inj_on_def)

lemma metadata_fields_distinct: "distinct (map fst (metadata_fields e))"
  unfolding metadata_keys_fst distinct_codes by (simp add: metadata_keys_def)

lemma manifest_keys_fst: "map fst (manifest_fields m) = map codes session_manifest_keys"
  by (simp add: manifest_fields_def session_manifest_keys_def del: codes_simps(1-4))

lemma manifest_fields_distinct: "distinct (map fst (manifest_fields m))"
  unfolding manifest_keys_fst distinct_codes by (simp add: session_manifest_keys_def)

lemma member_Cons: "member ((codes n, v) # kvs) m = (if n = m then v else member kvs m)"
  by (simp add: member_def del: codes_simps(1-4))

lemma member_metadata:
  "member (metadata_fields e) ''journal_version'' = JvInt (ev_journal_version e)"
  "member (metadata_fields e) ''record_kind'' = jv_text (record_kind_value (ev_record_kind e))"
  "member (metadata_fields e) ''ingest_seq'' = JvInt (ev_ingest_seq e)"
  "member (metadata_fields e) ''session_id'' = jv_text (ev_session_id e)"
  "member (metadata_fields e) ''event_type'' = jv_text (ev_event_type e)"
  "member (metadata_fields e) ''event_version'' = JvInt (ev_event_version e)"
  "member (metadata_fields e) ''source_kind'' = jv_text (source_kind_value (ev_source_kind e))"
  "member (metadata_fields e) ''source_id'' = jv_text (ev_source_id e)"
  "member (metadata_fields e) ''source_entity_id'' = jv_text (ev_source_entity_id e)"
  "member (metadata_fields e) ''endpoint_id'' = jv_optional jv_text (ev_endpoint_id e)"
  "member (metadata_fields e) ''endpoint_state'' = jv_text (provenance_state_value (ev_endpoint_state e))"
  "member (metadata_fields e) ''channel_id'' = jv_optional jv_text (ev_channel_id e)"
  "member (metadata_fields e) ''channel_state'' = jv_text (provenance_state_value (ev_channel_state e))"
  "member (metadata_fields e) ''request_id'' = jv_optional jv_text (ev_request_id e)"
  "member (metadata_fields e) ''request_id_state'' = jv_text (provenance_state_value (ev_request_id_state e))"
  "member (metadata_fields e) ''source_wall_ns'' = jv_optional JvInt (ev_source_wall_ns e)"
  "member (metadata_fields e) ''source_generated_ns'' = jv_optional JvInt (ev_source_generated_ns e)"
  "member (metadata_fields e) ''local_wall_ns'' = JvInt (ev_local_wall_ns e)"
  "member (metadata_fields e) ''local_monotonic_ns'' = JvInt (ev_local_monotonic_ns e)"
  "member (metadata_fields e) ''clock_uncertainty_ns'' = JvInt (ev_clock_uncertainty_ns e)"
  "member (metadata_fields e) ''connection_epoch'' = JvInt (ev_connection_epoch e)"
  "member (metadata_fields e) ''provider_sequence'' = jv_optional jv_text (ev_provider_sequence e)"
  "member (metadata_fields e) ''parent_ingest_seq'' = jv_optional JvInt (ev_parent_ingest_seq e)"
  "member (metadata_fields e) ''content_type'' = jv_text (ev_content_type e)"
  "member (metadata_fields e) ''payload_encoding'' = jv_text (ev_payload_encoding e)"
  "member (metadata_fields e) ''payload_transform'' = jv_text (ev_payload_transform e)"
  "member (metadata_fields e) ''retention_delete_by_ns'' = jv_optional JvInt (ev_retention_delete_by_ns e)"
  "member (metadata_fields e) ''payload_sha256'' = jv_text (hexdigest (sha256 (ev_payload e)))"
  unfolding metadata_fields_def by (simp_all add: member_Cons del: codes_simps(1-4))

lemma member_manifest:
  "member (manifest_fields m) ''schema_version'' = JvInt (sm_schema_version m)"
  "member (manifest_fields m) ''session_id'' = jv_text (sm_session_id m)"
  "member (manifest_fields m) ''created_wall_ns'' = JvInt (sm_created_wall_ns m)"
  "member (manifest_fields m) ''config_file_sha256'' = jv_text (sm_config_file_sha256 m)"
  "member (manifest_fields m) ''config_canonical_sha256'' = jv_text (sm_config_canonical_sha256 m)"
  "member (manifest_fields m) ''code_sha256'' = jv_text (sm_code_sha256 m)"
  "member (manifest_fields m) ''research_request_sha256'' = jv_text (sm_research_request_sha256 m)"
  "member (manifest_fields m) ''provider_id'' = jv_text (sm_provider_id m)"
  "member (manifest_fields m) ''product_tier'' = jv_text (sm_product_tier m)"
  "member (manifest_fields m) ''source_lineage_id'' = jv_text (sm_source_lineage_id m)"
  "member (manifest_fields m) ''provider_manifest_file_sha256'' = jv_text (sm_provider_manifest_file_sha256 m)"
  "member (manifest_fields m) ''provider_manifest_canonical_sha256'' = jv_text (sm_provider_manifest_canonical_sha256 m)"
  "member (manifest_fields m) ''entitlement_id_sha256'' = jv_text (sm_entitlement_id_sha256 m)"
  "member (manifest_fields m) ''terms_version'' = jv_text (sm_terms_version m)"
  "member (manifest_fields m) ''permission_artifact_sha256'' = jv_text (sm_permission_artifact_sha256 m)"
  "member (manifest_fields m) ''qualification_artifact_sha256'' = jv_text (sm_qualification_artifact_sha256 m)"
  "member (manifest_fields m) ''qualification_trace_sha256'' = jv_text (sm_qualification_trace_sha256 m)"
  "member (manifest_fields m) ''adapter_code_sha256'' = jv_text (sm_adapter_code_sha256 m)"
  "member (manifest_fields m) ''auth_contract_sha256'' = jv_text (sm_auth_contract_sha256 m)"
  "member (manifest_fields m) ''quota_contract_sha256'' = jv_text (sm_quota_contract_sha256 m)"
  "member (manifest_fields m) ''session_end_ns'' = JvInt (sm_session_end_ns m)"
  "member (manifest_fields m) ''required_retention_until_ns'' = JvInt (sm_required_retention_until_ns m)"
  "member (manifest_fields m) ''access_expires_at_ns'' = JvInt (sm_access_expires_at_ns m)"
  "member (manifest_fields m) ''analysis_expires_at_ns'' = JvInt (sm_analysis_expires_at_ns m)"
  "member (manifest_fields m) ''research_evaluable'' = JvBool (sm_research_evaluable m)"
  unfolding manifest_fields_def by (simp_all add: member_Cons del: codes_simps(1-4))

subsection \<open>Reading what was written\<close>

lemma codes_small: "list_all (\<lambda>n. n < 55296) (codes s)"
proof -
  have "list_all (\<lambda>n. n < 256) (codes s)" by (induction s) simp_all
  then show ?thesis by (auto simp: list_all_iff)
qed

lemma atom_text: "atom_ok (jv_text s)"
  by (simp add: jv_text_def codes_small)

lemma atom_optional: "(\<And>x. v = Some x \<Longrightarrow> atom_ok (f x)) \<Longrightarrow> atom_ok (jv_optional f v)"
  by (cases v) (simp_all add: jv_optional_def)

lemma members_ok_codes: "members_ok kvs \<longleftrightarrow> list_all (\<lambda>(k, v). list_all (\<lambda>n. n < 55296) k \<and> atom_ok v) kvs"
  by (simp add: members_ok_def)

lemma members_ok_metadata:
  assumes "printable (JvObj (metadata_fields e))"
  shows "members_ok (metadata_fields e)"
  using assms unfolding metadata_fields_def members_ok_def
  by (auto simp: codes_small atom_text jv_optional_def split: option.splits simp del: codes_simps(1-4))

lemma members_ok_manifest:
  assumes "printable (JvObj (manifest_fields m))"
  shows "members_ok (manifest_fields m)"
  using assms unfolding manifest_fields_def members_ok_def
  by (simp add: codes_small atom_text del: codes_simps(1-4))

lemma find_value:
  assumes "inj val" "m \<in> set ms"
  shows "find (\<lambda>m'. codes (val m') = codes (val m)) ms = Some m"
  using assms(2) by (induction ms) (auto simp: inj_eq[OF assms(1)])

lemma decode_enum_of:
  assumes "member kvs name = jv_text (val m)" "inj val" "m \<in> set ms"
  shows "decode_enum val ms kvs name = Inr m"
  unfolding decode_enum_def assms(1) jv_text_def using find_value[OF assms(2,3)] by simp

lemma enum_values_inj: "inj source_kind_value" "inj record_kind_value" "inj provenance_state_value"
proof -
  have "source_kind_value a = source_kind_value b \<Longrightarrow> a = b" for a b by (cases a; cases b) simp_all
  then show "inj source_kind_value" by (rule injI)
  have "record_kind_value a = record_kind_value b \<Longrightarrow> a = b" for a b by (cases a; cases b) simp_all
  then show "inj record_kind_value" by (rule injI)
  have "provenance_state_value a = provenance_state_value b \<Longrightarrow> a = b" for a b by (cases a; cases b) simp_all
  then show "inj provenance_state_value" by (rule injI)
qed

lemma enum_lists: "k \<in> set source_kinds" "r \<in> set record_kinds" "p \<in> set provenance_states"
proof -
  show "k \<in> set source_kinds" by (cases k) (simp_all add: source_kinds_def)
  show "r \<in> set record_kinds" by (cases r) (simp_all add: record_kinds_def)
  show "p \<in> set provenance_states" by (cases p) (simp_all add: provenance_states_def)
qed

lemma optional_of:
  "optional_value int_value (jv_optional JvInt x) = Some x"
  "optional_value text_value (jv_optional jv_text y) = Some y"
  using optional_int_eq[of "jv_optional JvInt x" x] optional_text_eq[of "jv_optional jv_text y" y] by simp_all

lemmas field_reading = int_field_def text_field_def bool_field_def optional_field_def has_type_def optional_of text_value_codes

lemma post_init_digest:
  "persisted_event_post_init e = None \<Longrightarrow> hexdigest (sha256 (ev_payload e)) = ev_payload_sha256 e"
  by (simp add: persisted_event_post_init_def event_scalars_def)

lemma decode_encode:
  assumes valid: "persisted_event_post_init e = None"
    and printable: "printable (JvObj (metadata_fields e))"
    and start: "require_session_start_payload e = Inr ()"
  shows "decode_record (json_dumps (JvObj (metadata_fields e))) (ev_payload e) = Inr e"
proof -
  let ?kvs = "sort_key fst (metadata_fields e)"
  have strict: "strict_object (json_dumps (JvObj (metadata_fields e))) metadata_keys ''record_metadata'' = Inr ?kvs"
    by (rule strict_object_of_text[OF members_ok_metadata[OF printable] metadata_fields_distinct])
      (simp only: metadata_keys_fst)
  note m = member_sorted[OF metadata_fields_distinct[of e]]
  note members = member_metadata[of e, folded m]
  have enums:
    "decode_enum record_kind_value record_kinds ?kvs ''record_kind'' = Inr (ev_record_kind e)"
    "decode_enum source_kind_value source_kinds ?kvs ''source_kind'' = Inr (ev_source_kind e)"
    "decode_enum provenance_state_value provenance_states ?kvs ''endpoint_state'' = Inr (ev_endpoint_state e)"
    "decode_enum provenance_state_value provenance_states ?kvs ''channel_state'' = Inr (ev_channel_state e)"
    "decode_enum provenance_state_value provenance_states ?kvs ''request_id_state'' = Inr (ev_request_id_state e)"
    by (rule decode_enum_of[OF _ enum_values_inj(2) enum_lists(2)] decode_enum_of[OF _ enum_values_inj(1) enum_lists(1)]
        decode_enum_of[OF _ enum_values_inj(3) enum_lists(3)], rule members)+
  have typed: "metadata_typed ?kvs"
    unfolding metadata_typed_def by (simp add: members field_reading)
  have event: "raw_event ?kvs (ev_record_kind e) (ev_source_kind e) (ev_endpoint_state e) (ev_channel_state e)
      (ev_request_id_state e) (ev_payload e) = e"
    by (rule PersistedEvent.equality)
      (simp_all add: raw_event_def members field_reading post_init_digest[OF valid])
  show ?thesis
    unfolding decode_record_def strict bind_result_Inr enums Let_def event
    using typed valid start by (simp add: members)
qed

lemma encode_of:
  assumes valid: "persisted_event_post_init e = None" and printable: "printable (JvObj (metadata_fields e))"
  shows "encode_record e = Inr (json_dumps (JvObj (metadata_fields e)), ev_payload e)"
  using printable post_init_digest[OF valid]
  unfolding encode_record_def canonical_metadata_def canonical_json_bytes_def by simp

subsection \<open>What is read is canonical\<close>

lemma decode_enum_Inr: "decode_enum val ms kvs name = Inr m \<Longrightarrow> member kvs name = jv_text (val m)"
  unfolding decode_enum_def jv_text_def
  by (auto split: jvalue.splits option.splits simp: find_Some_iff)

lemma has_type_fields:
  "has_type int_value kvs n \<Longrightarrow> member kvs n = JvInt (int_field kvs n)"
  "has_type text_value kvs n \<Longrightarrow> member kvs n = jv_text (text_field kvs n)"
  "has_type bool_value kvs n \<Longrightarrow> member kvs n = JvBool (bool_field kvs n)"
  "has_type (optional_value int_value) kvs n \<Longrightarrow> member kvs n = jv_optional JvInt (optional_field int_value kvs n)"
  "has_type (optional_value text_value) kvs n \<Longrightarrow> member kvs n = jv_optional jv_text (optional_field text_value kvs n)"
  by (auto simp: has_type_def int_field_def text_field_def bool_field_def optional_field_def
      int_value_eq text_value_eq bool_value_eq optional_int_eq optional_text_eq
      text_value_codes optional_of)

lemma same_members:
  assumes "distinct (map fst xs)" "distinct (map fst ys)"
    and "set (map fst xs) = set (map codes ks)" "set (map fst ys) = set (map codes ks)"
    and "\<And>n. n \<in> set ks \<Longrightarrow> member xs n = member ys n"
  shows "set xs = set ys"
proof -
  have "map_of xs k = map_of ys k" for k
  proof (cases "k \<in> set (map codes ks)")
    case True
    then obtain n where n: "n \<in> set ks" "k = codes n" by auto
    moreover have "map_of xs k \<noteq> None" "map_of ys k \<noteq> None" using True assms(3,4) by (metis map_of_eq_None_iff list.set_map)+
    ultimately show ?thesis using assms(5)[of n] by (auto simp: member_def)
  next
    case False
    then have "map_of xs k = None" "map_of ys k = None" using assms(3,4) by (metis map_of_eq_None_iff list.set_map)+
    then show ?thesis by simp
  qed
  then show ?thesis using map_of_inject_set[OF assms(1,2)] by (metis ext)
qed

lemma canonical_json_bytes_Inr: "canonical_json_bytes v = Inr b \<longleftrightarrow> printable v \<and> b = json_dumps v"
  by (auto simp: canonical_json_bytes_def)

lemma canonical_of_same:
  assumes "canonical_json_bytes (JvObj xs) = Inr b" "distinct (map fst xs)" "distinct (map fst ys)" "set xs = set ys"
  shows "canonical_json_bytes (JvObj ys) = Inr b"
  using assms json_dumps_cong[OF assms(2-4)]
  by (auto simp: canonical_json_bytes_def list_all_iff split: if_splits simp del: json_dumps.simps)

lemma metadata_of_raw:
  assumes "metadata_typed kvs" "member kvs ''record_kind'' = jv_text (record_kind_value kind)"
    "member kvs ''source_kind'' = jv_text (source_kind_value source)"
    "member kvs ''endpoint_state'' = jv_text (provenance_state_value endpoint)"
    "member kvs ''channel_state'' = jv_text (provenance_state_value channel)"
    "member kvs ''request_id_state'' = jv_text (provenance_state_value request)"
    "member kvs ''payload_sha256'' = jv_text (hexdigest (sha256 payload))"
  shows "n \<in> set metadata_keys \<Longrightarrow>
    member kvs n = member (metadata_fields (raw_event kvs kind source endpoint channel request payload)) n"
  using assms unfolding metadata_keys_def metadata_typed_def
  by (auto simp only: list.set list.pred_inject insert_iff empty_iff member_metadata raw_event_def PersistedEvent.select_convs
      intro: has_type_fields) 

lemma decode_record_Inr:
  assumes "decode_record metadata payload = Inr e"
  obtains kvs where "strict_object metadata metadata_keys ''record_metadata'' = Inr kvs"
    and "\<And>n. n \<in> set metadata_keys \<Longrightarrow> member kvs n = member (metadata_fields e) n"
    and "persisted_event_post_init e = None" "require_session_start_payload e = Inr ()" "ev_payload e = payload"
proof -
  from assms obtain kvs kind source endpoint channel request where k:
    "strict_object metadata metadata_keys ''record_metadata'' = Inr kvs"
    "member kvs ''payload_sha256'' = jv_text (hexdigest (sha256 payload))"
    "decode_enum record_kind_value record_kinds kvs ''record_kind'' = Inr kind"
    "decode_enum source_kind_value source_kinds kvs ''source_kind'' = Inr source"
    "decode_enum provenance_state_value provenance_states kvs ''endpoint_state'' = Inr endpoint"
    "decode_enum provenance_state_value provenance_states kvs ''channel_state'' = Inr channel"
    "decode_enum provenance_state_value provenance_states kvs ''request_id_state'' = Inr request"
    "metadata_typed kvs" "persisted_event_post_init (raw_event kvs kind source endpoint channel request payload) = None"
    "require_session_start_payload (raw_event kvs kind source endpoint channel request payload) = Inr ()"
    "e = raw_event kvs kind source endpoint channel request payload"
    unfolding decode_record_def Let_def by (auto simp: bind_result_eq_Inr split: if_splits)
  have "member kvs n = member (metadata_fields e) n" if "n \<in> set metadata_keys" for n
    using metadata_of_raw[OF k(8) decode_enum_Inr[OF k(3)] decode_enum_Inr[OF k(4)] decode_enum_Inr[OF k(5)]
        decode_enum_Inr[OF k(6)] decode_enum_Inr[OF k(7)] k(2) that] k(11) by simp
  then show thesis using that k by (simp add: raw_event_def)
qed

lemma encode_decode:
  assumes "decode_record metadata payload = Inr e"
  shows "encode_record e = Inr (metadata, payload)"
proof -
  obtain kvs where k: "strict_object metadata metadata_keys ''record_metadata'' = Inr kvs"
    "\<And>n. n \<in> set metadata_keys \<Longrightarrow> member kvs n = member (metadata_fields e) n"
    "persisted_event_post_init e = None" "ev_payload e = payload"
    by (rule decode_record_Inr[OF assms]) blast
  note s = strict_object_text[OF k(1)]
  have "set kvs = set (metadata_fields e)"
    using s k(2) by (intro same_members[OF _ metadata_fields_distinct, where ks = metadata_keys]) (simp_all only: metadata_keys_fst)
  then have "canonical_metadata e = Inr metadata"
    unfolding canonical_metadata_def using s canonical_of_same metadata_fields_distinct by blast
  then show ?thesis
    unfolding encode_record_def using post_init_digest[OF k(3)] k(4) by simp
qed

subsection \<open>The manifest of a session\<close>

lemma manifest_decode_encode:
  assumes valid: "session_manifest_post_init m = None"
    and c: "canonical_json_bytes (JvObj (manifest_fields m)) = Inr b"
  shows "read_manifest b = Inr m"
proof -
  let ?kvs = "sort_key fst (manifest_fields m)"
  have printable: "printable (JvObj (manifest_fields m))" and b: "b = json_dumps (JvObj (manifest_fields m))"
    using c unfolding canonical_json_bytes_Inr by blast+
  have strict: "strict_object b session_manifest_keys ''session_manifest'' = Inr ?kvs"
    unfolding b
    by (rule strict_object_of_text[OF members_ok_manifest[OF printable] manifest_fields_distinct])
      (simp only: manifest_keys_fst)
  note members = member_manifest[of m, folded member_sorted[OF manifest_fields_distinct[of m]]]
  have typed: "manifest_typed ?kvs"
    unfolding manifest_typed_def by (simp add: members field_reading)
  have raw: "raw_manifest ?kvs = m"
    by (rule SessionManifest.equality) (simp_all add: raw_manifest_def members field_reading)
  have "bool_field ?kvs ''research_evaluable'' = False"
    using valid by (simp add: members field_reading session_manifest_post_init_def)
  then show ?thesis
    unfolding read_manifest_def strict bind_result_Inr raw using typed valid by simp
qed

lemma manifest_of_raw:
  assumes "manifest_typed kvs"
  shows "n \<in> set session_manifest_keys \<Longrightarrow> member kvs n = member (manifest_fields (raw_manifest kvs)) n"
  using assms unfolding session_manifest_keys_def manifest_typed_def
  by (auto simp only: list.set list.pred_inject insert_iff empty_iff member_manifest raw_manifest_def
      SessionManifest.select_convs intro: has_type_fields)

lemma manifest_encode_decode:
  assumes "read_manifest b = Inr m"
  shows "session_manifest_post_init m = None \<and> canonical_json_bytes (JvObj (manifest_fields m)) = Inr b"
proof -
  obtain kvs where k: "strict_object b session_manifest_keys ''session_manifest'' = Inr kvs" "manifest_typed kvs"
    "session_manifest_post_init (raw_manifest kvs) = None" "m = raw_manifest kvs"
    using assms unfolding read_manifest_def by (auto simp: bind_result_eq_Inr split: if_splits)
  note s = strict_object_text[OF k(1)]
  have "set kvs = set (manifest_fields m)"
    using s manifest_of_raw[OF k(2)] unfolding k(4)
    by (intro same_members[OF _ manifest_fields_distinct, where ks = session_manifest_keys]) (simp_all only: manifest_keys_fst)
  then show ?thesis using s canonical_of_same manifest_fields_distinct k(3,4) by blast
qed

end
