(* ===== verification/FoundationRuns.thy ===== *)
theory FoundationRuns
  imports Foundation CodecRoundTrip Machines
begin

text \<open>
  What the foundation reducer does on one record and on a sequence of records.  A record is accepted exactly when it is
  valid, raw, of the session, later than the last one and not of an earlier connection of its source;
  the new state is then valid again, so no other error can arise.  After a run the state is a function of
  the accepted records: their number, the last sequence number and the last epoch of each source.
\<close>

subsection \<open>Valid events\<close>

definition event_recordable :: "PersistedEvent \<Rightarrow> bool" where
  "event_recordable e \<longleftrightarrow>
     persisted_event_post_init e = None \<and> printable (JvObj (metadata_fields e)) \<and> require_session_start_payload e = Inr ()"

lemma encode_record_Inr:
  "encode_record e = Inr (m, p) \<longleftrightarrow>
     ev_payload_sha256 e = hexdigest (sha256 (ev_payload e)) \<and> printable (JvObj (metadata_fields e))
     \<and> m = json_dumps (JvObj (metadata_fields e)) \<and> p = ev_payload e"
  by (auto simp: encode_record_def canonical_metadata_def bind_result_eq_Inr canonical_json_bytes_Inr simp del: json_dumps.simps)

lemma decode_record_recordable:
  assumes "decode_record m p = Inr e"
  shows "event_recordable e"
proof -
  have "printable (JvObj (metadata_fields e))"
    using encode_decode[OF assms] unfolding encode_record_Inr by blast
  moreover obtain "persisted_event_post_init e = None" "require_session_start_payload e = Inr ()"
    by (rule decode_record_Inr[OF assms]) blast
  ultimately show ?thesis unfolding event_recordable_def by blast
qed

lemma require_valid_event_Inr: "require_valid_event e = Inr r \<longleftrightarrow> r = e \<and> event_recordable e"
proof
  assume r: "require_valid_event e = Inr r"
  show "r = e \<and> event_recordable e"
  proof (cases "bind_result (encode_record e) (\<lambda>(metadata, payload). decode_record metadata payload)")
    case (Inl x)
    then show ?thesis using r by (simp add: require_valid_event_def reducer_error_def split: if_splits)
  next
    case (Inr d)
    then have "d = e" "r = e"
      using r by (auto simp: require_valid_event_def reducer_error_def split: if_splits)
    moreover obtain m p where "decode_record m p = Inr d"
      using Inr by (auto simp only: bind_result_eq_Inr split: prod.splits)
    ultimately show ?thesis using decode_record_recordable by blast
  qed
next
  assume r: "r = e \<and> event_recordable e"
  then have "encode_record e = Inr (json_dumps (JvObj (metadata_fields e)), ev_payload e)"
    "decode_record (json_dumps (JvObj (metadata_fields e))) (ev_payload e) = Inr e"
    using encode_of decode_encode unfolding event_recordable_def by blast+
  then show "require_valid_event e = Inr r" unfolding require_valid_event_def using r by simp
qed

subsection \<open>Source epochs\<close>

lemma epoch_key_simps [simp]: "epoch_key (kind, source_id, epoch) = (kind, source_id)"
  by (simp add: epoch_key_def)

lemma source_epochs_ok_iff:
  "source_epochs_ok seen es = None \<longleftrightarrow>
     (\<forall>(kind, source_id, epoch) \<in> set es. safe_identifier_ok source_id \<and> 0 \<le> epoch)
     \<and> distinct (map epoch_key es) \<and> set (map epoch_key es) \<inter> set seen = {}"
  by (induction seen es rule: source_epochs_ok.induct) auto

definition epochs_valid :: "(SourceKind \<times> string \<times> int) list \<Rightarrow> bool" where
  "epochs_valid es \<longleftrightarrow>
     (\<forall>(kind, source_id, epoch) \<in> set es. safe_identifier_ok source_id \<and> 0 \<le> epoch) \<and> distinct (map epoch_key es)"

lemma validate_state_iff:
  "validate_state s = None \<longleftrightarrow>
     event_session_id_ok (fs_session_id s) \<and> 0 \<le> fs_last_applied_raw_seq s
     \<and> epochs_valid (fs_source_epochs s) \<and> sort_key epoch_order (fs_source_epochs s) = fs_source_epochs s
     \<and> fs_derived_count s = fs_raw_count s
     \<and> (if fs_raw_count s = 0 then fs_last_applied_raw_seq s = 0 \<and> fs_source_epochs s = []
        else 0 < fs_raw_count s \<and> fs_last_applied_raw_seq s \<noteq> 0 \<and> fs_raw_count s \<le> fs_last_applied_raw_seq s
          \<and> fs_source_epochs s \<noteq> [] \<and> int (length (fs_source_epochs s)) \<le> fs_raw_count s)"
  unfolding validate_state_def epochs_valid_def by (auto simp: source_epochs_ok_iff)

definition epoch_map :: "(SourceKind \<times> string \<times> int) list \<Rightarrow> SourceKind \<times> string \<Rightarrow> int option" where
  "epoch_map es = map_of (map (\<lambda>(kind, source_id, epoch). ((kind, source_id), epoch)) es)"

lemma epoch_map_Some:
  "epochs_valid es \<Longrightarrow> epoch_map es (k, i) = Some p \<longleftrightarrow> (k, i, p) \<in> set es"
proof -
  assume "epochs_valid es"
  then have "distinct (map fst (map (\<lambda>(kind, source_id, epoch). ((kind, source_id), epoch)) es))"
    unfolding epochs_valid_def by (simp add: epoch_key_def comp_def case_prod_beta' prod.case_eq_if)
  then have "epoch_map es (k, i) = Some p \<longleftrightarrow> ((k, i), p) \<in> set (map (\<lambda>(kind, source_id, epoch). ((kind, source_id), epoch)) es)"
    unfolding epoch_map_def by (rule map_of_eq_Some_iff)
  then show ?thesis by force
qed

lemma map_of_rev: "distinct (map fst xs) \<Longrightarrow> map_of (rev xs) = map_of xs"
  by (rule map_of_distinct_cong) (simp_all add: rev_map[symmetric])

lemma source_epoch_map: "epochs_valid (fs_source_epochs s) \<Longrightarrow> source_epoch s = epoch_map (fs_source_epochs s)"
proof -
  assume "epochs_valid (fs_source_epochs s)"
  then have "distinct (map fst (map (\<lambda>(kind, source_id, epoch). ((kind, source_id), epoch)) (fs_source_epochs s)))"
    unfolding epochs_valid_def by (simp add: epoch_key_def comp_def case_prod_beta' prod.case_eq_if)
  then show ?thesis unfolding source_epoch_def epoch_map_def rev_map[symmetric] by (rule map_of_rev)
qed

lemma updated_epochs_set:
  assumes "epochs_valid (fs_source_epochs s)"
  shows "set (updated_epochs s key epoch) =
    insert (fst key, snd key, epoch) {item \<in> set (fs_source_epochs s). epoch_key item \<noteq> key}"
proof (cases "key \<in> set (map epoch_key (fs_source_epochs s))")
  case True
  then obtain item where "item \<in> set (fs_source_epochs s)" "epoch_key item = key" by auto
  then show ?thesis using True unfolding updated_epochs_def by (auto simp: image_iff)
next
  case False
  then show ?thesis unfolding updated_epochs_def by (auto simp: image_iff)
qed

lemma distinct_map_sort_key: "distinct (map f (sort_key g xs)) \<longleftrightarrow> distinct (map f xs)"
  by (simp add: distinct_map)

lemma updated_epochs_keys:
  "distinct (map epoch_key (fs_source_epochs s)) \<Longrightarrow> distinct (map epoch_key (updated_epochs s key epoch))"
proof -
  assume d: "distinct (map epoch_key (fs_source_epochs s))"
  let ?u = "map (\<lambda>item. if epoch_key item = key then (fst key, snd key, epoch) else item) (fs_source_epochs s)"
  have "map epoch_key ?u = map epoch_key (fs_source_epochs s)" by simp
  then have "distinct (map epoch_key ?u)" using d by (simp only:)
  then show ?thesis using d unfolding updated_epochs_def distinct_map_sort_key by auto
qed

lemma updated_epochs_valid:
  assumes "epochs_valid (fs_source_epochs s)" "safe_identifier_ok (snd key)" "0 \<le> epoch"
  shows "epochs_valid (updated_epochs s key epoch)"
  using assms updated_epochs_keys[of s key epoch] updated_epochs_set[OF assms(1), of key epoch]
  unfolding epochs_valid_def by auto

lemma updated_epochs_sorted: "sort_key epoch_order (updated_epochs s key epoch) = updated_epochs s key epoch"
  unfolding updated_epochs_def by (simp only: sort_key_id_if_sorted sorted_sort_key)

lemma updated_epochs_length: "length (updated_epochs s key epoch) \<le> Suc (length (fs_source_epochs s))"
  "updated_epochs s key epoch \<noteq> []"
proof -
  show "length (updated_epochs s key epoch) \<le> Suc (length (fs_source_epochs s))" by (simp add: updated_epochs_def)
  have "length (updated_epochs s key epoch) \<noteq> 0" by (auto simp: updated_epochs_def)
  then show "updated_epochs s key epoch \<noteq> []" by auto
qed

lemma updated_epochs_map:
  assumes "epochs_valid (fs_source_epochs s)" "safe_identifier_ok (snd key)" "0 \<le> epoch"
  shows "epoch_map (updated_epochs s key epoch) = (epoch_map (fs_source_epochs s))(key \<mapsto> epoch)"
proof
  fix x :: "SourceKind \<times> string"
  obtain k i where x: "x = (k, i)" by (cases x)
  have "epoch_map (updated_epochs s key epoch) (k, i) = Some p \<longleftrightarrow>
      ((epoch_map (fs_source_epochs s))(key \<mapsto> epoch)) (k, i) = Some p" for p
    unfolding epoch_map_Some[OF updated_epochs_valid[OF assms]] updated_epochs_set[OF assms(1)]
    using epoch_map_Some[OF assms(1), of k i p] by (cases key) auto
  then show "epoch_map (updated_epochs s key epoch) x = ((epoch_map (fs_source_epochs s))(key \<mapsto> epoch)) x"
    unfolding x by (metis not_Some_eq option.exhaust)
qed

subsection \<open>One record\<close>

definition event_key :: "PersistedEvent \<Rightarrow> SourceKind \<times> string" where
  "event_key e = (ev_source_kind e, ev_source_id e)"

definition next_state :: "FoundationState \<Rightarrow> PersistedEvent \<Rightarrow> FoundationState" where
  "next_state s e =
     \<lparr>fs_session_id = fs_session_id s, fs_last_applied_raw_seq = ev_ingest_seq e, fs_raw_count = fs_raw_count s + 1,
      fs_derived_count = fs_derived_count s + 1,
      fs_source_epochs = updated_epochs s (event_key e) (ev_connection_epoch e)\<rparr>"

definition draft_of :: "PersistedEvent \<Rightarrow> DerivedDraft" where
  "draft_of e =
     \<lparr>dd_event_type = ''raw_accepted'', dd_event_version = 1, dd_payload_encoding = ''canonical-json-v1'',
      dd_payload = json_dumps (JvObj (accepted_fields e))\<rparr>"

definition state_ok :: "FoundationState \<Rightarrow> bool" where
  "state_ok s \<longleftrightarrow> validate_state s = None \<and> printable (JvObj (state_fields s))"

definition event_acceptable :: "FoundationState \<Rightarrow> PersistedEvent \<Rightarrow> bool" where
  "event_acceptable s e \<longleftrightarrow>
     event_recordable e \<and> ev_record_kind e = RAW \<and> ev_session_id e = fs_session_id s
     \<and> fs_last_applied_raw_seq s < ev_ingest_seq e
     \<and> (case source_epoch s (event_key e) of None \<Rightarrow> True | Some prior \<Rightarrow> prior \<le> ev_connection_epoch e)"

lemma canonical_state_bytes_Inr:
  "canonical_state_bytes s = Inr b \<longleftrightarrow> state_ok s \<and> b = json_dumps (JvObj (state_fields s))"
  unfolding canonical_state_bytes_def state_ok_def checked_def
  by (cases "validate_state s") (simp_all only: option.case canonical_json_bytes_Inr, auto)

lemma event_recordable_facts:
  assumes "event_recordable e"
  shows "safe_identifier_ok (ev_source_id e)" "0 \<le> ev_connection_epoch e" "1 \<le> ev_ingest_seq e"
    "event_session_id_ok (ev_session_id e)"
  using assms unfolding event_recordable_def persisted_event_post_init_def event_scalars_def
  by (simp_all add: safe_identifier_def nonnegative_integer_def positive_event_integer_def validate_session_id_def
      event_session_id_ok_def)

lemma event_recordable_bounds:
  assumes "event_recordable e"
  shows "\<bar>ev_ingest_seq e\<bar> < int_digits_bound" "\<bar>ev_connection_epoch e\<bar> < int_digits_bound"
proof -
  have p: "list_all (\<lambda>kv. printable (snd kv)) (metadata_fields e)" using assms unfolding event_recordable_def by simp
  have "printable (JvInt (ev_ingest_seq e))" "printable (JvInt (ev_connection_epoch e))"
    using p unfolding metadata_fields_def by (simp_all only: list.pred_inject snd_conv)
  then show "\<bar>ev_ingest_seq e\<bar> < int_digits_bound" "\<bar>ev_connection_epoch e\<bar> < int_digits_bound" by simp_all
qed

lemma state_printable_iff:
  "printable (JvObj (state_fields s)) \<longleftrightarrow>
     \<bar>fs_last_applied_raw_seq s\<bar> < int_digits_bound \<and> \<bar>fs_raw_count s\<bar> < int_digits_bound
     \<and> \<bar>fs_derived_count s\<bar> < int_digits_bound
     \<and> (\<forall>(kind, source_id, epoch) \<in> set (fs_source_epochs s). \<bar>epoch\<bar> < int_digits_bound)"
proof -
  have "(1 :: int) < int_digits_bound" unfolding int_digits_bound_def by (rule one_less_power) simp_all
  then show ?thesis by (auto simp: state_fields_def jv_text_def list_all_iff)
qed

lemma next_state_ok:
  assumes ok: "state_ok s" and e: "event_acceptable s e"
  shows "state_ok (next_state s e)"
proof -
  note f = event_recordable_facts[of e] event_recordable_bounds[of e] and v = ok[unfolded state_ok_def validate_state_iff state_printable_iff]
  have r: "event_recordable e" "fs_last_applied_raw_seq s < ev_ingest_seq e" "ev_session_id e = fs_session_id s"
    using e unfolding event_acceptable_def by blast+
  have ev: "epochs_valid (updated_epochs s (event_key e) (ev_connection_epoch e))"
    using v f[OF r(1)] by (intro updated_epochs_valid) (simp_all add: event_key_def)
  have count: "0 \<le> fs_raw_count s" "fs_raw_count s + 1 \<le> ev_ingest_seq e"
    "int (length (fs_source_epochs s)) \<le> fs_raw_count s" "fs_derived_count s = fs_raw_count s"
    using v r(2) by (simp_all split: if_splits)
  have "validate_state (next_state s e) = None"
    unfolding validate_state_iff next_state_def FoundationState.select_convs
    using v f[OF r(1)] r ev updated_epochs_sorted updated_epochs_length[of s "event_key e" "ev_connection_epoch e"] count
    by simp
  moreover have "printable (JvObj (state_fields (next_state s e)))"
    unfolding state_printable_iff next_state_def FoundationState.select_convs
    using v f[OF r(1)] count updated_epochs_set[of s "event_key e" "ev_connection_epoch e"] by auto
  ultimately show ?thesis unfolding state_ok_def by blast
qed

lemma canonical_state_bytes_Inl: "(\<exists>x. canonical_state_bytes s = Inl x) \<longleftrightarrow> \<not> state_ok s"
proof (cases "canonical_state_bytes s")
  case (Inr b)
  then have "state_ok s" unfolding canonical_state_bytes_Inr by blast
  then show ?thesis using Inr by simp
next
  case (Inl x)
  then show ?thesis using canonical_state_bytes_Inr[of s] by (metis Inl_Inr_False)
qed

lemma canonical_state_bytes_ok: "state_ok s \<Longrightarrow> canonical_state_bytes s = Inr (json_dumps (JvObj (state_fields s)))"
  unfolding canonical_state_bytes_Inr by simp

lemma accepted_draft_of:
  assumes "event_recordable e"
  shows "accepted_draft e = Inr (draft_of e)"
proof -
  have "printable (JvObj (accepted_fields e))"
    using event_recordable_bounds[OF assms] by (simp add: accepted_fields_def jv_text_def)
  then have "canonical_json_bytes (JvObj (accepted_fields e)) = Inr (json_dumps (JvObj (accepted_fields e)))"
    unfolding canonical_json_bytes_Inr by simp
  moreover have "safe_identifier_ok ''raw_accepted''" "payload_encoding_ok ''canonical-json-v1''" by code_simp+
  then have "derived_draft_post_init (draft_of e) = None"
    by (simp add: derived_draft_post_init_def draft_of_def safe_identifier_def positive_event_integer_def)
  ultimately show ?thesis unfolding accepted_draft_def draft_of_def by simp
qed

lemma reduce_event_accepts:
  assumes ok: "state_ok s" and e: "event_acceptable s e"
  shows "reduce_event s e = Inr \<lparr>rd_state = next_state s e, rd_outputs = [draft_of e]\<rparr>"
proof -
  have r: "event_recordable e" using e unfolding event_acceptable_def by blast
  then have v: "require_valid_event e = Inr e" unfolding require_valid_event_Inr by simp
  note n = next_state_ok[OF ok e]
  have c: "construct validate_state
      \<lparr>fs_session_id = fs_session_id s, fs_last_applied_raw_seq = ev_ingest_seq e,
       fs_raw_count = fs_raw_count s + 1, fs_derived_count = fs_derived_count s + 1,
       fs_source_epochs = updated_epochs s (ev_source_kind e, ev_source_id e) (ev_connection_epoch e)\<rparr>
     = Inr (next_state s e)"
    using n unfolding state_ok_def next_state_def event_key_def by (intro construct_ok) blast
  have g: "ev_record_kind e = RAW" "ev_session_id e = fs_session_id s" "\<not> ev_ingest_seq e \<le> fs_last_applied_raw_seq s"
    "\<not> (case source_epoch s (ev_source_kind e, ev_source_id e) of None \<Rightarrow> False | Some prior \<Rightarrow> ev_connection_epoch e < prior)"
    using e unfolding event_acceptable_def event_key_def by (auto split: option.splits)
  show ?thesis
    unfolding reduce_event_def canonical_state_bytes_ok[OF ok] bind_result_Inr v Let_def accepted_draft_of[OF r] c
      make_reduction_def canonical_state_bytes_ok[OF n]
    using g by simp
qed

lemma reduce_event_refuses:
  assumes "\<not> (state_ok s \<and> event_acceptable s e)"
  shows "\<exists>x. reduce_event s e = Inl x"
proof (cases "state_ok s \<and> event_recordable e")
  case True
  then have v: "require_valid_event e = Inr e" unfolding require_valid_event_Inr by simp
  have "\<not> event_acceptable s e" "state_ok s" using assms True by blast+
  then show ?thesis
    unfolding reduce_event_def canonical_state_bytes_ok[OF \<open>state_ok s\<close>] bind_result_Inr v Let_def
    using True by (auto simp: event_acceptable_def event_key_def reducer_error_def split: option.splits)
next
  case False
  then consider "\<not> state_ok s" | "state_ok s" "\<not> event_recordable e" by blast
  then show ?thesis
  proof cases
    case 1
    then obtain x where "canonical_state_bytes s = Inl x" using canonical_state_bytes_Inl by blast
    then show ?thesis unfolding reduce_event_def by simp
  next
    case 2
    then obtain x where "require_valid_event e = Inl x"
      using require_valid_event_Inr[of e e] by (cases "require_valid_event e") (auto simp: require_valid_event_Inr)
    then show ?thesis unfolding reduce_event_def canonical_state_bytes_ok[OF 2(1)] by simp
  qed
qed

lemma reduce_event_Inr:
  "reduce_event s e = Inr r \<longleftrightarrow>
     state_ok s \<and> event_acceptable s e \<and> r = \<lparr>rd_state = next_state s e, rd_outputs = [draft_of e]\<rparr>"
  using reduce_event_accepts[of s e] reduce_event_refuses[of s e]
  by (cases "state_ok s \<and> event_acceptable s e") auto

subsection \<open>The errors\<close>

definition value_faults :: "'a result \<Rightarrow> bool" where
  \<comment> \<open>every error is one that an \<open>except (TypeError, ValueError)\<close> clause catches\<close>
  "value_faults r \<longleftrightarrow> (\<forall>x. r = Inl x \<longrightarrow> is_value_error x)"

lemma value_faults_simps [simp]:
  "value_faults (Inr v)" "value_faults (Inl x) \<longleftrightarrow> is_value_error x" "value_faults json_error"
  "value_faults nonstandard_constant"
  by (auto simp: value_faults_def json_error_def nonstandard_constant_def)

lemma value_faults_bind:
  "value_faults m \<Longrightarrow> (\<And>y. m = Inr y \<Longrightarrow> value_faults (f y)) \<Longrightarrow> value_faults (bind_result m f)"
  by (cases m) simp_all

lemma string_body_faults: "value_faults (string_body s)"
  by (induction s rule: string_body.induct) (auto intro!: value_faults_bind split: option.split)

lemma read_natural_faults: "value_faults (read_natural s)"
  by (auto simp: read_natural_def Let_def split: list.split)

lemma read_literal_faults: "value_faults (read_literal s)"
  by (auto simp: read_literal_def read_natural_faults intro!: value_faults_bind)

lemma duplicate_free_faults: "value_faults (duplicate_free_object kvs)"
  by (simp add: duplicate_free_object_def)

lemma parse_faults:
  "(\<forall>s. value_faults (parse_value n s)) \<and> (\<forall>s. value_faults (parse_elements n s)) \<and> (\<forall>s. value_faults (parse_members n s))"
proof (induction n)
  case (Suc n)
  have "value_faults (parse_value (Suc n) s)" for s
    unfolding parse_value.simps(2) Let_def
    by (auto simp: Suc string_body_faults read_literal_faults duplicate_free_faults intro!: value_faults_bind split: list.split)
  moreover have "value_faults (parse_elements (Suc n) s)" for s
    unfolding parse_elements.simps(2) by (auto simp: Suc intro!: value_faults_bind split: list.split)
  moreover have "value_faults (parse_members (Suc n) s)" for s
    unfolding parse_members.simps(2) by (auto simp: Suc string_body_faults intro!: value_faults_bind split: list.split)
  ultimately show ?case by blast
qed simp

lemma json_loads_faults: "value_faults (json_loads s)"
  unfolding json_loads_def using parse_faults by (auto intro!: value_faults_bind)

lemma canonical_json_faults: "value_faults (canonical_json_bytes v)"
  by (simp add: canonical_json_bytes_def)

lemma strict_json_faults: "value_faults (strict_json content label)"
proof -
  obtain r where r: "r = (case utf8_decode (map of_char content) of
      None \<Rightarrow> Inl (ValueError ''UnicodeDecodeError'') | Some decoded \<Rightarrow> json_loads decoded)" by blast
  then have "value_faults r" using json_loads_faults by (auto split: option.split)
  then show ?thesis
    unfolding strict_json_def r[symmetric] by (auto split: sum.split exn.split)
qed

lemma strict_object_faults: "value_faults (strict_object content expected label)"
  unfolding strict_object_def
  by (auto simp: strict_json_faults canonical_json_faults intro!: value_faults_bind split: jvalue.split)

lemma read_manifest_faults: "value_faults (read_manifest b)"
  unfolding read_manifest_def by (auto simp: strict_object_faults intro!: value_faults_bind)

lemma decode_enum_faults: "value_faults (decode_enum val ms kvs name)"
  unfolding decode_enum_def by (auto split: jvalue.split option.split)

lemma decode_record_faults: "value_faults (decode_record m p)"
  unfolding decode_record_def Let_def require_session_start_payload_def
  by (auto simp: strict_object_faults decode_enum_faults read_manifest_faults intro!: value_faults_bind)

lemma encode_record_faults: "value_faults (encode_record e)"
  unfolding encode_record_def canonical_metadata_def by (auto simp: canonical_json_faults intro!: value_faults_bind)

lemma require_valid_event_Inl: "require_valid_event e = Inl x \<longleftrightarrow> \<not> event_recordable e \<and> x = ReducerValidationError ''persisted_event_invalid''"
proof (cases "event_recordable e")
  case True
  then have "require_valid_event e = Inr e" unfolding require_valid_event_Inr by simp
  then show ?thesis using True by simp
next
  case False
  then have n: "require_valid_event e \<noteq> Inr r" for r unfolding require_valid_event_Inr by blast
  show ?thesis
  proof (cases "bind_result (encode_record e) (\<lambda>(metadata, payload). decode_record metadata payload)")
    case (Inl y)
    moreover have "value_faults (bind_result (encode_record e) (\<lambda>(metadata, payload). decode_record metadata payload))"
      by (auto simp: encode_record_faults decode_record_faults intro!: value_faults_bind)
    ultimately show ?thesis using False unfolding require_valid_event_def reducer_error_def by auto
  next
    case (Inr d)
    then show ?thesis using n[of e] False unfolding require_valid_event_def reducer_error_def by auto
  qed
qed

definition refusal_reason :: "FoundationState \<Rightarrow> PersistedEvent \<Rightarrow> string option" where
  \<comment> \<open>the reason a record is refused for in a valid state\<close>
  "refusal_reason s e =
     (if \<not> event_recordable e then Some ''persisted_event_invalid''
      else if ev_record_kind e \<noteq> RAW then Some ''raw_record_required''
      else if ev_session_id e \<noteq> fs_session_id s then Some ''reducer_session_mismatch''
      else if ev_ingest_seq e \<le> fs_last_applied_raw_seq s then Some ''raw_sequence_not_increasing''
      else if (case source_epoch s (event_key e) of None \<Rightarrow> False | Some prior \<Rightarrow> ev_connection_epoch e < prior)
      then Some ''source_epoch_regression''
      else None)"

lemma refusal_reason_None: "refusal_reason s e = None \<longleftrightarrow> event_acceptable s e"
  by (auto simp: refusal_reason_def event_acceptable_def split: option.splits)

lemma reduce_event_eq:
  assumes ok: "state_ok s"
  shows "reduce_event s e =
    (case refusal_reason s e of
       None \<Rightarrow> Inr \<lparr>rd_state = next_state s e, rd_outputs = [draft_of e]\<rparr>
     | Some reason \<Rightarrow> Inl (ReducerValidationError reason))"
proof (cases "refusal_reason s e")
  case None
  then have "event_acceptable s e" unfolding refusal_reason_None .
  then show ?thesis using reduce_event_accepts[OF ok] None by simp
next
  case (Some reason)
  show ?thesis
  proof (cases "event_recordable e")
    case True
    then have v: "require_valid_event e = Inr e" unfolding require_valid_event_Inr by simp
    show ?thesis
      unfolding reduce_event_def canonical_state_bytes_ok[OF ok] bind_result_Inr v Let_def Some
      using True Some by (auto simp: refusal_reason_def reducer_error_def event_key_def split: if_splits)
  next
    case False
    then have v: "require_valid_event e = Inl (ReducerValidationError ''persisted_event_invalid'')"
      unfolding require_valid_event_Inl by simp
    show ?thesis
      unfolding reduce_event_def canonical_state_bytes_ok[OF ok] bind_result_Inr v bind_result_Inl
      using False by (simp add: refusal_reason_def)
  qed
qed

subsection \<open>Runs\<close>

definition foundation_step :: "FoundationState \<Rightarrow> PersistedEvent \<Rightarrow> FoundationState result" where
  "foundation_step s e = bind_result (reduce_event s e) (\<lambda>r. Inr (rd_state r))"

lemma foundation_step_Inr:
  "foundation_step s e = Inr s' \<longleftrightarrow> state_ok s \<and> event_acceptable s e \<and> s' = next_state s e"
  unfolding foundation_step_def by (auto simp: bind_result_eq_Inr reduce_event_Inr)

lemma foundation_step_Inl:
  "state_ok s \<Longrightarrow> foundation_step s e = Inl x \<longleftrightarrow> (\<exists>reason. refusal_reason s e = Some reason \<and> x = ReducerValidationError reason)"
  unfolding foundation_step_def reduce_event_eq by (auto split: option.splits)

definition foundation_le :: "FoundationState \<Rightarrow> FoundationState \<Rightarrow> bool" where
  "foundation_le s t \<longleftrightarrow>
     fs_session_id s = fs_session_id t \<and> fs_last_applied_raw_seq s \<le> fs_last_applied_raw_seq t
     \<and> fs_raw_count s \<le> fs_raw_count t
     \<and> (\<forall>key p. source_epoch s key = Some p \<longrightarrow> (\<exists>q. source_epoch t key = Some q \<and> p \<le> q))"

lemma state_ok_epochs: "state_ok s \<Longrightarrow> epochs_valid (fs_source_epochs s)"
  unfolding state_ok_def validate_state_iff by blast

lemma next_state_epochs:
  assumes "state_ok s" "event_acceptable s e"
  shows "source_epoch (next_state s e) = (source_epoch s)(event_key e \<mapsto> ev_connection_epoch e)"
proof -
  have r: "event_recordable e" using assms(2) unfolding event_acceptable_def by blast
  then have "epoch_map (updated_epochs s (event_key e) (ev_connection_epoch e)) =
      (epoch_map (fs_source_epochs s))(event_key e \<mapsto> ev_connection_epoch e)"
    using event_recordable_facts[OF r] by (intro updated_epochs_map[OF state_ok_epochs[OF assms(1)]]) (simp_all add: event_key_def)
  then show ?thesis
    using source_epoch_map[OF state_ok_epochs[OF next_state_ok[OF assms]]] source_epoch_map[OF state_ok_epochs[OF assms(1)]]
    by (simp add: next_state_def)
qed

interpretation foundation: ordered_machine foundation_step state_ok "\<lambda>_. True" foundation_le
proof
  show "state_ok s'" if "state_ok s" "foundation_step s e = Inr s'" for s e s'
    using that next_state_ok unfolding foundation_step_Inr by blast
  show "foundation_le s s" for s by (simp add: foundation_le_def)
  show "foundation_le s u" if "foundation_le s t" "foundation_le t u" for s t u
    using that unfolding foundation_le_def by (metis order_trans)
  show "foundation_le s s'" if "state_ok s" "foundation_step s e = Inr s'" for s e s'
  proof -
    have e: "event_acceptable s e" and s': "s' = next_state s e" using that(2) unfolding foundation_step_Inr by blast+
    show ?thesis
      unfolding foundation_le_def s' next_state_epochs[OF that(1) e]
      using e by (auto simp: event_acceptable_def next_state_def split: option.splits)
  qed
qed

definition session_state :: "string \<Rightarrow> FoundationState" where
  "session_state sid =
     \<lparr>fs_session_id = sid, fs_last_applied_raw_seq = 0, fs_raw_count = 0, fs_derived_count = 0, fs_source_epochs = []\<rparr>"

lemma initial_state_of: "event_session_id_ok sid \<Longrightarrow> initial_state sid = Inr (session_state sid)"
  unfolding initial_state_def session_state_def by (rule construct_ok) (simp add: validate_state_iff epochs_valid_def)

lemma session_state_ok: "event_session_id_ok sid \<Longrightarrow> state_ok (session_state sid)"
proof -
  have "(0 :: int) < int_digits_bound" unfolding int_digits_bound_def by (rule zero_less_power) simp
  then show "event_session_id_ok sid \<Longrightarrow> state_ok (session_state sid)"
    unfolding state_ok_def validate_state_iff state_printable_iff by (simp add: session_state_def epochs_valid_def)
qed

definition latest_epochs :: "PersistedEvent list \<Rightarrow> SourceKind \<times> string \<Rightarrow> int option" where
  \<comment> \<open>the epoch of the last record of each source\<close>
  "latest_epochs es = map_of (rev (map (\<lambda>e. (event_key e, ev_connection_epoch e)) es))"

definition records_acceptable :: "string \<Rightarrow> PersistedEvent list \<Rightarrow> bool" where
  "records_acceptable sid es \<longleftrightarrow>
     list_all (\<lambda>e. event_recordable e \<and> ev_record_kind e = RAW \<and> ev_session_id e = sid) es
     \<and> sorted_wrt (\<lambda>e e'. ev_ingest_seq e < ev_ingest_seq e'
         \<and> (event_key e = event_key e' \<longrightarrow> ev_connection_epoch e \<le> ev_connection_epoch e')) es"

definition state_after :: "string \<Rightarrow> PersistedEvent list \<Rightarrow> FoundationState \<Rightarrow> bool" where
  "state_after sid es s \<longleftrightarrow>
     state_ok s \<and> fs_session_id s = sid \<and> fs_raw_count s = int (length es) \<and> fs_derived_count s = int (length es)
     \<and> fs_last_applied_raw_seq s = (if es = [] then 0 else ev_ingest_seq (List.last es))
     \<and> source_epoch s = latest_epochs es"

lemma latest_epochs_snoc: "latest_epochs (es @ [e]) = (latest_epochs es)(event_key e \<mapsto> ev_connection_epoch e)"
  by (simp add: latest_epochs_def)

lemma latest_epochs_None: "latest_epochs es key = None \<longleftrightarrow> (\<forall>e \<in> set es. event_key e \<noteq> key)"
  by (auto simp: latest_epochs_def map_of_eq_None_iff image_iff)

lemma latest_epochs_greatest:
  assumes "records_acceptable sid es" "latest_epochs es key = Some p"
  shows "(\<exists>e \<in> set es. event_key e = key \<and> ev_connection_epoch e = p)
    \<and> (\<forall>e \<in> set es. event_key e = key \<longrightarrow> ev_connection_epoch e \<le> p)"
  using assms
proof (induction es rule: rev_induct)
  case Nil
  then show ?case by (simp add: latest_epochs_def)
next
  case (snoc e es)
  then show ?case
    by (auto simp: latest_epochs_snoc records_acceptable_def sorted_wrt_append latest_epochs_None split: if_splits)
qed

lemma records_acceptable_snoc:
  assumes s: "state_after sid es s" and es: "records_acceptable sid es"
  shows "records_acceptable sid (es @ [e]) \<longleftrightarrow> event_acceptable s e"
proof -
  have seq: "(\<forall>e' \<in> set es. ev_ingest_seq e' < ev_ingest_seq e) \<longleftrightarrow> fs_last_applied_raw_seq s < ev_ingest_seq e"
    if "event_recordable e"
  proof (cases es rule: rev_cases)
    case Nil
    then show ?thesis using s event_recordable_facts(3)[OF that] by (simp add: state_after_def)
  next
    case (snoc fs f)
    then have "\<forall>e' \<in> set es. ev_ingest_seq e' \<le> ev_ingest_seq f"
      using es by (auto simp: records_acceptable_def sorted_wrt_append less_imp_le)
    then show ?thesis using s snoc by (auto simp: state_after_def)
  qed
  have epochs: "(\<forall>e' \<in> set es. event_key e' = event_key e \<longrightarrow> ev_connection_epoch e' \<le> ev_connection_epoch e) \<longleftrightarrow>
      (case source_epoch s (event_key e) of None \<Rightarrow> True | Some prior \<Rightarrow> prior \<le> ev_connection_epoch e)"
  proof (cases "latest_epochs es (event_key e)")
    case None
    then have "source_epoch s (event_key e) = None" using s by (simp add: state_after_def)
    then show ?thesis using None by (auto simp: latest_epochs_None)
  next
    case (Some p)
    then show ?thesis using s latest_epochs_greatest[OF es Some] by (auto simp: state_after_def)
  qed
  have "sorted_wrt (\<lambda>e e'. ev_ingest_seq e < ev_ingest_seq e'
      \<and> (event_key e = event_key e' \<longrightarrow> ev_connection_epoch e \<le> ev_connection_epoch e')) (es @ [e]) \<longleftrightarrow>
     (\<forall>e' \<in> set es. ev_ingest_seq e' < ev_ingest_seq e) \<and>
     (\<forall>e' \<in> set es. event_key e' = event_key e \<longrightarrow> ev_connection_epoch e' \<le> ev_connection_epoch e)"
    using es unfolding records_acceptable_def by (auto simp: sorted_wrt_append)
  then show ?thesis
    using es seq epochs s unfolding records_acceptable_def event_acceptable_def state_after_def by auto
qed

lemma state_after_next:
  assumes "state_after sid es s" "event_acceptable s e"
  shows "state_after sid (es @ [e]) (next_state s e)"
  using assms next_state_ok next_state_epochs[of s e]
  by (simp add: state_after_def latest_epochs_snoc) (simp add: next_state_def)

lemma run_records:
  assumes "event_session_id_ok sid"
  shows "case run_steps foundation_step (session_state sid) es of
      Inr s \<Rightarrow> records_acceptable sid es \<and> state_after sid es s
    | Inl x \<Rightarrow> \<not> records_acceptable sid es \<and> (\<exists>reason. x = ReducerValidationError reason)"
proof (induction es rule: rev_induct)
  case Nil
  show ?case
    using session_state_ok[OF assms]
    by (simp add: records_acceptable_def state_after_def latest_epochs_def session_state_def source_epoch_def fun_eq_iff)
next
  case (snoc e es)
  show ?case
  proof (cases "run_steps foundation_step (session_state sid) es")
    case (Inl x)
    then show ?thesis
      using snoc by (auto simp: run_steps_append records_acceptable_def sorted_wrt_append)
  next
    case (Inr s)
    then have s: "records_acceptable sid es" "state_after sid es s" using snoc by simp_all
    then have ok: "state_ok s" by (simp add: state_after_def)
    show ?thesis
    proof (cases "event_acceptable s e")
      case True
      then have "foundation_step s e = Inr (next_state s e)" using ok by (simp add: foundation_step_Inr)
      then show ?thesis
        using Inr True records_acceptable_snoc[OF s(2,1)] state_after_next[OF s(2) True] by (simp add: run_steps_append)
    next
      case False
      then obtain reason where "refusal_reason s e = Some reason" using refusal_reason_None[of s e] by (cases "refusal_reason s e") auto
      then have "foundation_step s e = Inl (ReducerValidationError reason)" using foundation_step_Inl[OF ok] by blast
      then show ?thesis
        using Inr False records_acceptable_snoc[OF s(2,1)] by (simp add: run_steps_append)
    qed
  qed
qed

end
