(* ===== verification/WalRecords.thy ===== *)
theory WalRecords
  imports WalFrames FoundationRuns
begin

text \<open>
  The records of a journal: the first record and the terminal that the writer makes are the ones
  the reader accepts, and a file of frames is walked record by record.
\<close>

subsection \<open>Objects and manifests\<close>

lemma journal_object_of_strict:
  "strict_object content keys label = Inr kvs \<Longrightarrow> journal_object content keys label' = Inr kvs"
proof -
  assume s: "strict_object content keys label = Inr kvs"
  then obtain v where v: "strict_json content label = Inr v"
    unfolding strict_object_def by (auto simp: bind_result_eq_Inr split: if_splits)
  have "journal_json content label' = Inr v"
    using v unfolding strict_json_def journal_json_def journal_corrupt_def
    by (auto split: sum.splits exn.splits option.splits if_splits)
  then show ?thesis
    using s v unfolding strict_object_def journal_object_def
    by (auto simp: bind_result_eq_Inr split: if_splits jvalue.splits)
qed

definition manifest_ok :: "SessionManifest \<Rightarrow> bool" where
  "manifest_ok m \<longleftrightarrow> session_manifest_post_init m = None \<and> printable (JvObj (manifest_fields m))"

lemma canonical_manifest:
  "canonical_session_manifest_bytes m = Inr b \<longleftrightarrow> printable (JvObj (manifest_fields m)) \<and> b = json_dumps (JvObj (manifest_fields m))"
  unfolding canonical_session_manifest_bytes_def canonical_json_bytes_Inr ..

lemma manifest_object:
  assumes "printable (JvObj (manifest_fields m))"
  defines "kvs \<equiv> sort_key fst (manifest_fields m)"
  shows "strict_object (json_dumps (JvObj (manifest_fields m))) session_manifest_keys label = Inr kvs"
    and "raw_manifest kvs = m" and "manifest_typed kvs"
proof -
  show "strict_object (json_dumps (JvObj (manifest_fields m))) session_manifest_keys label = Inr kvs"
    unfolding kvs_def
    by (rule strict_object_of_text[OF members_ok_manifest[OF assms(1)] manifest_fields_distinct]) (simp only: manifest_keys_fst)
  note members = member_manifest[of m, folded member_sorted[OF manifest_fields_distinct[of m]]]
  show "manifest_typed kvs" unfolding kvs_def manifest_typed_def by (simp add: members field_reading)
  show "raw_manifest kvs = m"
    unfolding kvs_def by (rule SessionManifest.equality) (simp_all add: raw_manifest_def members field_reading)
qed

lemma manifest_from_start_of:
  assumes "manifest_ok m" "canonical_session_manifest_bytes m = Inr b"
  shows "manifest_from_start (control_event m 1 ''SESSION_START'' b) = Inr m"
proof -
  have p: "printable (JvObj (manifest_fields m))" and v: "session_manifest_post_init m = None"
    and b: "b = json_dumps (JvObj (manifest_fields m))"
    using assms unfolding manifest_ok_def canonical_manifest by blast+
  note o = journal_object_of_strict[OF manifest_object(1)[OF p], of "''session_manifest''"]
  show ?thesis
    unfolding manifest_from_start_def control_event_def PersistedEvent.select_convs b o bind_result_Inr manifest_object(2)[OF p]
    using manifest_object(3)[OF p] v by simp
qed

lemma start_recordable:
  assumes "encode_frame (control_event m 1 ''SESSION_START'' b) = Inr f" "canonical_session_manifest_bytes m = Inr b"
  shows "manifest_ok m"
proof -
  let ?e = "control_event m 1 ''SESSION_START'' b"
  obtain md p where "decode_record md p = Inr ?e" using assms(1) unfolding encode_frame_Inr frameable_def by blast
  then have "event_recordable ?e" by (rule decode_record_recordable)
  then obtain m' where r: "read_manifest b = Inr m'"
    unfolding event_recordable_def require_session_start_payload_def
    by (auto simp: control_event_def bind_result_eq_Inr)
  have p: "printable (JvObj (manifest_fields m))" and b: "b = json_dumps (JvObj (manifest_fields m))"
    using assms(2) unfolding canonical_manifest by blast+
  have "session_manifest_post_init m = None"
    using r unfolding b read_manifest_def manifest_object(1)[OF p] bind_result_Inr manifest_object(2)[OF p]
    by (auto split: if_splits)
  then show ?thesis unfolding manifest_ok_def using p by blast
qed

subsection \<open>Terminals\<close>

lemma provenance_keys_fst: "map fst (terminal_provenance m digest) = map codes
    [''config_file_sha256'', ''config_canonical_sha256'', ''code_sha256'', ''session_manifest_sha256'',
     ''provider_manifest_file_sha256'', ''provider_manifest_canonical_sha256'', ''entitlement_id_sha256'',
     ''permission_artifact_sha256'', ''qualification_artifact_sha256'', ''qualification_trace_sha256'',
     ''adapter_code_sha256'', ''auth_contract_sha256'', ''quota_contract_sha256'', ''required_retention_until_ns'']"
  by (simp add: terminal_provenance_def del: codes_simps(1-4))

lemma terminal_fields_keys: "set (map fst (terminal_fields m digest t)) = set (map codes terminal_keys)"
  by (simp add: terminal_fields_def terminal_provenance_def terminal_keys_def terminal_digest_keys_def
      terminal_count_keys_def del: codes_simps(1-4)) blast

lemma terminal_fields_distinct: "distinct (map fst (terminal_fields m digest t))"
proof -
  have "map fst (terminal_fields m digest t) = map codes
    ([''terminal_version'', ''clean'', ''reason'', ''trace_sha256'', ''final_state_sha256'', ''record_count_before_terminal'',
      ''raw_count'', ''derived_count'', ''last_applied_raw_seq''] @
     [''config_file_sha256'', ''config_canonical_sha256'', ''code_sha256'', ''session_manifest_sha256'',
     ''provider_manifest_file_sha256'', ''provider_manifest_canonical_sha256'', ''entitlement_id_sha256'',
     ''permission_artifact_sha256'', ''qualification_artifact_sha256'', ''qualification_trace_sha256'',
     ''adapter_code_sha256'', ''auth_contract_sha256'', ''quota_contract_sha256'', ''required_retention_until_ns''] @
     [''research_evaluable''])"
    unfolding terminal_fields_def map_append provenance_keys_fst by (simp del: codes_simps(1-4))
  then show ?thesis unfolding distinct_codes by simp
qed

lemma members_ok_terminal:
  assumes "printable (JvObj (terminal_fields m digest t))"
  shows "members_ok (terminal_fields m digest t)"
  using assms unfolding terminal_fields_def terminal_provenance_def members_ok_def
  by (simp add: codes_small atom_text del: codes_simps(1-4))

lemma member_terminal:
  "member (terminal_fields m digest t) ''terminal_version'' = JvInt 1"
  "member (terminal_fields m digest t) ''clean'' = JvBool (tm_clean t)"
  "member (terminal_fields m digest t) ''reason'' = jv_text (tm_reason t)"
  "member (terminal_fields m digest t) ''trace_sha256'' = jv_text (tm_trace_sha256 t)"
  "member (terminal_fields m digest t) ''final_state_sha256'' = jv_text (tm_final_state_sha256 t)"
  "member (terminal_fields m digest t) ''record_count_before_terminal'' = JvInt (tm_record_count t)"
  "member (terminal_fields m digest t) ''raw_count'' = JvInt (tm_raw_count t)"
  "member (terminal_fields m digest t) ''derived_count'' = JvInt (tm_derived_count t)"
  "member (terminal_fields m digest t) ''last_applied_raw_seq'' = JvInt (tm_last_applied_raw_seq t)"
  "member (terminal_fields m digest t) ''config_file_sha256'' = jv_text (sm_config_file_sha256 m)"
  "member (terminal_fields m digest t) ''config_canonical_sha256'' = jv_text (sm_config_canonical_sha256 m)"
  "member (terminal_fields m digest t) ''code_sha256'' = jv_text (sm_code_sha256 m)"
  "member (terminal_fields m digest t) ''session_manifest_sha256'' = jv_text digest"
  "member (terminal_fields m digest t) ''provider_manifest_file_sha256'' = jv_text (sm_provider_manifest_file_sha256 m)"
  "member (terminal_fields m digest t) ''provider_manifest_canonical_sha256'' = jv_text (sm_provider_manifest_canonical_sha256 m)"
  "member (terminal_fields m digest t) ''entitlement_id_sha256'' = jv_text (sm_entitlement_id_sha256 m)"
  "member (terminal_fields m digest t) ''permission_artifact_sha256'' = jv_text (sm_permission_artifact_sha256 m)"
  "member (terminal_fields m digest t) ''qualification_artifact_sha256'' = jv_text (sm_qualification_artifact_sha256 m)"
  "member (terminal_fields m digest t) ''qualification_trace_sha256'' = jv_text (sm_qualification_trace_sha256 m)"
  "member (terminal_fields m digest t) ''adapter_code_sha256'' = jv_text (sm_adapter_code_sha256 m)"
  "member (terminal_fields m digest t) ''auth_contract_sha256'' = jv_text (sm_auth_contract_sha256 m)"
  "member (terminal_fields m digest t) ''quota_contract_sha256'' = jv_text (sm_quota_contract_sha256 m)"
  "member (terminal_fields m digest t) ''required_retention_until_ns'' = JvInt (sm_required_retention_until_ns m)"
  "member (terminal_fields m digest t) ''research_evaluable'' = JvBool False"
  unfolding terminal_fields_def terminal_provenance_def by (simp_all add: member_Cons del: codes_simps(1-4))

lemma provenance_sublist:
  assumes "(key, v) \<in> set (terminal_provenance m digest)"
  shows "map_of (sort_key fst (terminal_fields m digest t)) key = Some v"
proof -
  have "(key, v) \<in> set (terminal_fields m digest t)" using assms unfolding terminal_fields_def by simp
  then show ?thesis
    using terminal_fields_distinct[of m digest t] by (intro map_of_is_SomeI) (simp_all add: distinct_sort_key_fst)
qed

lemma manifest_digests:
  assumes "session_manifest_post_init m = None"
  shows "sha256_ok (sm_config_file_sha256 m)" "sha256_ok (sm_config_canonical_sha256 m)" "sha256_ok (sm_code_sha256 m)"
    "sha256_ok (sm_provider_manifest_file_sha256 m)" "sha256_ok (sm_provider_manifest_canonical_sha256 m)"
    "sha256_ok (sm_entitlement_id_sha256 m)" "sha256_ok (sm_permission_artifact_sha256 m)"
    "sha256_ok (sm_qualification_artifact_sha256 m)" "sha256_ok (sm_qualification_trace_sha256 m)"
    "sha256_ok (sm_adapter_code_sha256 m)" "sha256_ok (sm_auth_contract_sha256 m)" "sha256_ok (sm_quota_contract_sha256 m)"
    "0 \<le> sm_required_retention_until_ns m"
  using assms unfolding session_manifest_post_init_def
  by (simp_all add: event_sha256_def nonnegative_integer_def)

definition terminal_ok :: "SessionManifest \<Rightarrow> WalkCounts \<Rightarrow> Terminal \<Rightarrow> bool" where
  "terminal_ok m counts t \<longleftrightarrow>
     tm_reason t \<in> set (if tm_clean t then clean_terminal_reasons else halted_terminal_reasons)
     \<and> sha256_ok (tm_trace_sha256 t) \<and> sha256_ok (tm_final_state_sha256 t)
     \<and> tm_record_count t = wc_record_count counts \<and> tm_raw_count t = wc_raw_count counts
     \<and> tm_derived_count t = wc_derived_count counts
     \<and> 0 \<le> wc_record_count counts \<and> 0 \<le> wc_raw_count counts \<and> 0 \<le> wc_derived_count counts
     \<and> 0 \<le> tm_last_applied_raw_seq t
     \<and> (if tm_clean t then tm_last_applied_raw_seq t = wc_last_raw_seq counts
        else tm_last_applied_raw_seq t \<le> wc_last_raw_seq counts)"

lemma validate_terminal_of:
  assumes m: "manifest_ok m" and digest: "session_manifest_sha256 m = Inr digest"
    and p: "printable (JvObj (terminal_fields m digest t))" and t: "terminal_ok m counts t"
    and e: "ev_record_kind e = CONTROL" "ev_event_type e = ''SESSION_HALT''" "ev_session_id e = sm_session_id m"
      "ev_payload e = json_dumps (JvObj (terminal_fields m digest t))"
  shows "validate_terminal e m counts = Inr (tm_clean t)"
    and "validate_replay_terminal_grammar e m counts = Inr (tm_clean t)"
proof -
  let ?kvs = "sort_key fst (terminal_fields m digest t)"
  have o: "journal_object (ev_payload e) terminal_keys ''session_terminal'' = Inr ?kvs"
    unfolding e(4)
    by (rule journal_object_of_strict[OF strict_object_of_text[OF members_ok_terminal[OF p] terminal_fields_distinct terminal_fields_keys]])
  note members = member_terminal[of m digest t, folded member_sorted[OF terminal_fields_distinct[of m digest t]]]
  have reason: "tm_reason t \<noteq> []"
    using t unfolding terminal_ok_def by (auto simp: clean_terminal_reasons_def halted_terminal_reasons_def split: if_splits)
  have object: "terminal_object e m = Inr ?kvs"
    unfolding terminal_object_def o bind_result_Inr using e(1-3) reason by (simp add: members jv_text_def codes_def)
  have d: "sha256_ok digest" using digest unfolding session_manifest_sha256_def by (auto simp: bind_result_eq_Inr)
  have scalars: "terminal_scalars ?kvs = None"
    using t manifest_digests[of m] m d
    by (simp add: terminal_scalars_def terminal_digest_keys_def terminal_count_keys_def is_digest_def is_nonnegative_def members
        text_value_codes terminal_ok_def manifest_ok_def)
  show "validate_replay_terminal_grammar e m counts = Inr (tm_clean t)"
    unfolding validate_replay_terminal_grammar_def object bind_result_Inr scalars by (simp add: members bool_field_def)
  have prov: "\<not> list_ex (\<lambda>(key, v). map_of ?kvs key \<noteq> Some v) (terminal_provenance m digest)"
    using provenance_sublist by (fastforce simp: list_ex_iff)
  have "bool_field ?kvs ''clean'' = tm_clean t" "int_field ?kvs ''last_applied_raw_seq'' = tm_last_applied_raw_seq t"
    by (simp_all add: members field_reading)
  then show "validate_terminal e m counts = Inr (tm_clean t)"
    unfolding validate_terminal_def object bind_result_Inr scalars checked_simps Let_def digest
    using t prov by (auto simp: members terminal_ok_def image_iff)
qed

end
