(* ===== verification/WalWalk.thy ===== *)
theory WalWalk
  imports WalRecords
begin

text \<open>
  The walk over a file of frames: the reader sees the records one after the other, then a clean end or a torn
  frame.
\<close>

definition frame_ok :: "PersistedEvent \<Rightarrow> bool" where
  "frame_ok e \<longleftrightarrow> (\<exists>f. encode_frame e = Inr f)"

definition frame_of :: "PersistedEvent \<Rightarrow> bytes" where
  "frame_of e = (case encode_frame e of Inr f \<Rightarrow> f | Inl x \<Rightarrow> [])"

definition journal_file :: "PersistedEvent list \<Rightarrow> bytes" where
  "journal_file es = journal_prefix @ concat (map frame_of es)"

fun walk_records :: "terminal_validator \<Rightarrow> WalkState \<Rightarrow> PersistedEvent list \<Rightarrow> WalkState result" where
  \<comment> \<open>the walk without the file\<close>
  "walk_records validate k [] = Inr k"
| "walk_records validate k (e # es) =
     (if wk_terminal_seen k then journal_corrupt ''journal_bytes_after_terminal''
      else bind_result (walk_event validate k e) (\<lambda>k'.
        walk_records validate (walk_advance k' e (wk_offset k + length (frame_of e))) es))"

lemma walk_records_snoc:
  "walk_records validate k (es @ [e]) = bind_result (walk_records validate k es) (\<lambda>k'. walk_records validate k' [e])"
  by (induction es arbitrary: k) (auto simp: bind_result_assoc journal_corrupt_def intro!: bind_result_cong)

lemma journal_file_snoc: "journal_file (es @ [e]) = journal_file es @ frame_of e"
  by (simp add: journal_file_def)

lemma length_journal_prefix [simp]: "length journal_prefix = 16"
  by (simp add: journal_prefix_def nul_bytes_def)

lemma journal_header: "read_file_header (journal_prefix @ rest) = Inr None"
proof -
  have "pread (journal_prefix @ rest) 0 16 = journal_prefix" by (simp add: pread_def)
  moreover have "take 8 journal_prefix = ''INCIWAL'' @ nul_bytes 1" "be_value (take 2 (drop 8 journal_prefix)) = 1"
    "be_value (take 2 (drop 10 journal_prefix)) = 0" "be_value (take 4 (drop 12 journal_prefix)) = 16"
    using be_value_word_bytes[of 1 2] be_value_word_bytes[of 0 2] be_value_word_bytes[of 16 4]
    by (simp_all add: journal_prefix_def nul_bytes_def)
  ultimately show ?thesis by (simp add: read_file_header_def)
qed

lemma read_frame_of:
  assumes "frame_ok e"
  shows "read_frame (pre @ frame_of e @ post) (length pre) =
    Inr \<lparr>fr_event = Some e, fr_end_offset = length pre + length (frame_of e),
         fr_observed_size = length pre + length (frame_of e), fr_issue = None\<rparr>"
proof -
  obtain m p where f: "encode_frame e = Inr (frame_bytes e m p)" "frameable e m p"
    using assms unfolding frame_ok_def encode_frame_Inr by blast
  show ?thesis using read_frame_complete[OF f(2)] f(1) by (simp add: frame_of_def)
qed

lemma read_frame_of_cut:
  assumes "frame_ok e" "0 < j" "j < length (frame_of e)"
  shows "read_frame (pre @ take j (frame_of e)) (length pre) = Inr (torn (length pre) (length pre + j))"
proof -
  obtain m p where f: "encode_frame e = Inr (frame_bytes e m p)" "frameable e m p"
    using assms unfolding frame_ok_def encode_frame_Inr by blast
  show ?thesis using read_frame_cut[OF f(2)] assms f(1) by (simp add: frame_of_def)
qed

lemma frame_of_nonempty: "frame_ok e \<Longrightarrow> frame_of e \<noteq> []"
proof -
  assume "frame_ok e"
  then obtain m p where "encode_frame e = Inr (frame_bytes e m p)" unfolding frame_ok_def encode_frame_Inr by blast
  then have "length (frame_of e) \<noteq> 0"
    by (simp add: frame_of_def length_frame_bytes frame_fixed_bytes_def)
  then show ?thesis by auto
qed

lemma walk_event_keeps: "walk_event validate k e = Inr k' \<Longrightarrow> wk_offset k' = wk_offset k"
  unfolding walk_event_def journal_corrupt_def by (auto simp: bind_result_eq_Inr split: if_splits option.splits)

lemma walk_loop_records:
  "list_all frame_ok es \<Longrightarrow> wk_offset k = length pre \<Longrightarrow> walk_records validate k es = Inr k' \<Longrightarrow>
     walk_loop validate (pre @ concat (map frame_of es) @ rest) k =
       (let (es', result) = walk_loop validate (pre @ concat (map frame_of es) @ rest) k' in (es @ es', result))
     \<and> wk_offset k' = length (pre @ concat (map frame_of es))"
proof (induction es arbitrary: k pre)
  case Nil
  then show ?case by (simp add: case_prod_beta)
next
  case (Cons e es)
  let ?file = "pre @ concat (map frame_of (e # es)) @ rest"
  from Cons.prems(3) obtain k1 where k1: "walk_event validate k e = Inr k1" "\<not> wk_terminal_seen k"
    "walk_records validate (walk_advance k1 e (wk_offset k + length (frame_of e))) es = Inr k'"
    by (auto simp: bind_result_eq_Inr journal_corrupt_def split: if_splits)
  let ?k = "walk_advance k1 e (wk_offset k + length (frame_of e))"
  have split: "?file = (pre @ frame_of e) @ concat (map frame_of es) @ rest" by simp
  have "wk_offset ?k = length (pre @ frame_of e)" using Cons.prems(2) by (simp add: walk_advance_def)
  then have ih: "walk_loop validate ?file ?k = (let (es', result) = walk_loop validate ?file k' in (es @ es', result))"
    "wk_offset k' = length ((pre @ frame_of e) @ concat (map frame_of es))"
    using Cons.IH[of ?k "pre @ frame_of e"] Cons.prems(1) k1(3) unfolding split by simp_all
  have "read_frame ?file (wk_offset k) =
    Inr \<lparr>fr_event = Some e, fr_end_offset = wk_offset k + length (frame_of e),
         fr_observed_size = wk_offset k + length (frame_of e), fr_issue = None\<rparr>"
    using read_frame_of[of e pre "concat (map frame_of es) @ rest"] Cons.prems(1,2) by simp
  then have "walk_loop validate ?file k = (let (es', result) = walk_loop validate ?file ?k in (e # es', result))"
    unfolding walk_loop.simps[of validate ?file k] using k1 by simp
  then show ?case using ih by (simp add: case_prod_beta Let_def)
qed

lemma walk_loop_end:
  assumes "wk_offset k = length bs"
  shows "walk_loop validate bs k = ([], Inr (walk_summary k
    \<lparr>fr_event = None, fr_end_offset = length bs, fr_observed_size = length bs, fr_issue = None\<rparr>))"
  unfolding walk_loop.simps[of validate bs k] assms read_frame_end by simp

lemma walk_loop_torn:
  assumes "wk_offset k = length pre" "frame_ok e" "0 < j" "j < length (frame_of e)" "\<not> wk_terminal_seen k"
  shows "walk_loop validate (pre @ take j (frame_of e)) k = ([], Inr (walk_summary k (torn (length pre) (length pre + j))))"
  unfolding walk_loop.simps[of validate "pre @ take j (frame_of e)" k] assms(1) read_frame_of_cut[OF assms(2-4)]
  using assms(5) by (simp add: torn_def)

theorem walk_complete:
  assumes "list_all frame_ok es" "walk_records validate initial_walk es = Inr k"
  shows "walk validate (journal_file es) = (es, Inr (walk_summary k
    \<lparr>fr_event = None, fr_end_offset = length (journal_file es), fr_observed_size = length (journal_file es), fr_issue = None\<rparr>))"
proof -
  have off: "wk_offset initial_walk = length journal_prefix" by (simp add: initial_walk_def)
  note w = walk_loop_records[OF assms(1) off assms(2), of "[]"]
  have "wk_offset k = length (journal_file es)" using w by (simp add: journal_file_def)
  from walk_loop_end[OF this, of validate] show ?thesis
    using w unfolding walk_def journal_file_def journal_header by simp
qed

theorem walk_torn:
  assumes "list_all frame_ok es" "walk_records validate initial_walk es = Inr k" "frame_ok e" "0 < j" "j < length (frame_of e)"
    and "\<not> wk_terminal_seen k"
  shows "walk validate (journal_file es @ take j (frame_of e)) =
    (es, Inr (walk_summary k (torn (length (journal_file es)) (length (journal_file es) + j))))"
proof -
  have off: "wk_offset initial_walk = length journal_prefix" by (simp add: initial_walk_def)
  note w = walk_loop_records[OF assms(1) off assms(2), of "take j (frame_of e)"]
  have "wk_offset k = length (journal_file es)" using w by (simp add: journal_file_def)
  from walk_loop_torn[OF this assms(3-6), of validate] show ?thesis
    using w unfolding walk_def journal_file_def append_assoc journal_header by simp
qed

end
