(* ===== verification/GuardedFrames.thy ===== *)
theory GuardedFrames
  imports WalWalk
begin

text \<open>
  What the write capability makes of the frames the journal writes: it sees the record that was encoded, lets ordinary records, the
  first record and valid terminals through, and refuses every other record with a reserved name.
\<close>

subsection \<open>The record of an encoded frame\<close>

lemma take_drop_append: "k + n \<le> length xs \<Longrightarrow> take n (drop k (xs @ ys)) = take n (drop k xs)"
  by simp

lemma retained_record_of_frame:
  assumes f: "frameable e md p"
  shows "retained_record (frame_bytes e md p) = Inr e" and "take 4 (frame_bytes e md p) = ''EVT1''"
proof -
  let ?s = "frame_fixed_bytes + length md + length p"
  let ?prefix = "pack_frame_prefix (ev_record_kind e) (ev_ingest_seq e) ?s (length md) (length p)"
  have frame: "frame_bytes e md p = ?prefix @ md @ p @ frame_digest ?prefix md p @ pack_trailer ?s"
    by (simp add: frame_bytes_def Let_def)
  have s: "?s \<le> max_frame_bytes" and d: "decode_record md p = Inr e" and q: "0 \<le> ev_ingest_seq e" "ev_ingest_seq e < 2 ^ 64"
    using f unfolding frameable_def by blast+
  have cut: "take n (drop k (frame_bytes e md p)) = take n (drop k ?prefix)" if "k + n \<le> 32" for k n
    unfolding frame by (rule take_drop_append) (use that in \<open>simp add: frame_prefix_size_def\<close>)
  have head: "take 4 (frame_bytes e md p) = ''EVT1''"
    using cut[of 0 4] prefix_fields(1)[OF q s, of "length md" "length p" "ev_record_kind e"] by simp
  then show "take 4 (frame_bytes e md p) = ''EVT1''" .
  have nums: "be_value (take 1 (drop 4 (frame_bytes e md p))) = 1" "be_value (take 2 (drop 6 (frame_bytes e md p))) = 0"
    "be_value (take 1 (drop 5 (frame_bytes e md p))) = frame_kind (ev_record_kind e)"
    "be_value (take 8 (drop 8 (frame_bytes e md p))) = ev_ingest_seq e" "be_value (take 8 (drop 16 (frame_bytes e md p))) = int ?s"
    "be_value (take 4 (drop 24 (frame_bytes e md p))) = int (length md)"
    "be_value (take 4 (drop 28 (frame_bytes e md p))) = int (length p)"
    using prefix_fields(2-)[OF q s, of "length md" "length p" "ev_record_kind e"] cut by simp_all
  have parts: "take frame_prefix_size (frame_bytes e md p) = ?prefix"
    "take (length md) (drop frame_prefix_size (frame_bytes e md p)) = md"
    "take (length p) (drop (frame_prefix_size + length md) (frame_bytes e md p)) = p"
    "take 32 (drop (frame_prefix_size + length md + length p) (frame_bytes e md p)) = frame_digest ?prefix md p"
    "drop (frame_prefix_size + length md + length p + 32) (frame_bytes e md p) = pack_trailer ?s"
    unfolding frame by (simp_all add: add.assoc)
  have len: "length (frame_bytes e md p) = ?s" by (rule length_frame_bytes)
  show "retained_record (frame_bytes e md p) = Inr e"
    unfolding retained_record_def Let_def head nums nat_int parts d len
    using s trailer_fields[OF s] by (simp add: frame_fixed_bytes_def)
qed

lemma frame_of_bytes:
  assumes "frame_ok e"
  obtains md p where "frameable e md p" "frame_of e = frame_bytes e md p"
proof -
  obtain md p where "encode_frame e = Inr (frame_bytes e md p)" "frameable e md p"
    using assms unfolding frame_ok_def encode_frame_Inr by blast
  then show thesis using that by (simp add: frame_of_def)
qed

lemma frame_of_magic: "frame_ok e \<Longrightarrow> take 4 (frame_of e) = ''EVT1''"
  by (erule frame_of_bytes) (simp add: retained_record_of_frame(2))

lemma frame_of_prefix: "frame_ok e \<Longrightarrow> frame_of e \<noteq> journal_prefix"
  using frame_of_magic[of e] by (auto simp: journal_prefix_def)

lemma terminal_frame_clean_of: "frame_ok e \<Longrightarrow> terminal_frame_clean (frame_of e) m = record_class m e"
  unfolding terminal_frame_clean_def
  by (simp add: frame_of_magic) (erule frame_of_bytes, simp add: retained_record_of_frame(1))

lemma write_refused_of:
  "frame_ok e \<Longrightarrow> write_refused m d (frame_of e) \<longleftrightarrow>
     (case record_class m e of Inl x \<Rightarrow> True | Inr c \<Rightarrow> (c = SessionStartFrame) = d \<or> c = TerminalFrame False)"
  unfolding write_refused_def by (simp add: frame_of_magic frame_of_prefix terminal_frame_clean_of)

lemma halt_refused_of:
  "frame_ok e \<Longrightarrow> halt_refused m d (frame_of e) \<longleftrightarrow> \<not> d \<or> record_class m e \<noteq> Inr (TerminalFrame False)"
  unfolding halt_refused_def using terminal_frame_clean_of[of e m] by simp

subsection \<open>Which records pass\<close>

lemma record_class_ordinary [simp]:
  "ev_event_type e \<noteq> ''SESSION_START'' \<Longrightarrow> ev_event_type e \<noteq> ''SESSION_HALT'' \<Longrightarrow> record_class m e = Inr OrdinaryFrame"
  by (simp add: record_class_def)

lemma ordinary_record_passes:
  "frame_ok e \<Longrightarrow> ev_event_type e \<noteq> ''SESSION_START'' \<Longrightarrow> ev_event_type e \<noteq> ''SESSION_HALT'' \<Longrightarrow> \<not> write_refused m True (frame_of e)"
  by (simp add: write_refused_of)

lemma reserved_record_refused:
  \<comment> \<open>a record that is not a control record cannot have a reserved name\<close>
  assumes "frame_ok e" "ev_record_kind e \<noteq> CONTROL" "ev_event_type e \<in> {''SESSION_START'', ''SESSION_HALT''}"
  shows "write_refused m d (frame_of e)"
proof -
  have "\<exists>x. record_class m e = Inl x"
    using assms(2,3)
    by (auto simp: record_class_def retained_start_def retained_terminal_def retention_error_def bind_result_eq_Inr
        split: sum.splits) (cases "canonical_session_manifest_bytes m"; simp)
  then show ?thesis unfolding write_refused_of[OF assms(1)] by auto
qed

lemma start_passes:
  assumes "frame_ok (control_event m 1 ''SESSION_START'' b)" "canonical_session_manifest_bytes m = Inr b"
  shows "\<not> write_refused m False (frame_of (control_event m 1 ''SESSION_START'' b))"
  unfolding write_refused_of[OF assms(1)] record_class_def retained_start_def
  using assms(2) by (simp add: control_event_def)

subsection \<open>Terminals\<close>

lemma retention_object_of_strict:
  "strict_object content keys label = Inr kvs \<Longrightarrow> retention_object content keys = Inr kvs"
proof -
  assume s: "strict_object content keys label = Inr kvs"
  then obtain v where v: "strict_json content label = Inr v"
    unfolding strict_object_def by (auto simp: bind_result_eq_Inr split: if_splits)
  have "retention_json content = Inr v"
    using v unfolding strict_json_def retention_json_def retention_error_def
    by (auto split: sum.splits exn.splits option.splits if_splits)
  then show ?thesis
    using s v unfolding strict_object_def retention_object_def
    by (auto simp: bind_result_eq_Inr split: if_splits jvalue.splits)
qed

lemma retained_terminal_of:
  assumes m: "manifest_ok m" and digest: "session_manifest_sha256 m = Inr digest"
    and p: "printable (JvObj (terminal_fields m digest t))" and t: "terminal_ok m counts t"
    and e: "ev_record_kind e = CONTROL" "ev_event_type e = ''SESSION_HALT''" "ev_session_id e = sm_session_id m"
      "ev_payload e = json_dumps (JvObj (terminal_fields m digest t))"
    and seq: "ev_ingest_seq e = wc_record_count counts + 1" "wc_raw_count counts + wc_derived_count counts < wc_record_count counts"
      "wc_last_raw_seq counts \<le> wc_record_count counts"
  shows "record_class m e = Inr (TerminalFrame (tm_clean t))"
proof -
  let ?kvs = "sort_key fst (terminal_fields m digest t)"
  have o: "retention_object (ev_payload e) terminal_keys = Inr ?kvs"
    unfolding e(4)
    by (rule retention_object_of_strict[OF strict_object_of_text[OF members_ok_terminal[OF p] terminal_fields_distinct terminal_fields_keys]])
  note members = member_terminal[of m digest t, folded member_sorted[OF terminal_fields_distinct[of m digest t]]]
  have reason: "tm_reason t \<noteq> []"
    using t unfolding terminal_ok_def by (auto simp: clean_terminal_reasons_def halted_terminal_reasons_def split: if_splits)
  have d: "sha256_ok digest" using digest unfolding session_manifest_sha256_def by (auto simp: bind_result_eq_Inr)
  have digests: "list_all (\<lambda>n. is_digest (member ?kvs n)) terminal_digest_keys"
    using t manifest_digests[of m] m d
    by (simp add: terminal_digest_keys_def is_digest_def members text_value_codes terminal_ok_def manifest_ok_def)
  have counts: "list_all (\<lambda>n. is_nonnegative (member ?kvs n)) terminal_count_keys"
    using t manifest_digests[of m] m
    by (simp add: terminal_count_keys_def is_nonnegative_def members terminal_ok_def manifest_ok_def)
  have prov: "\<not> list_ex (\<lambda>(key, v). map_of ?kvs key \<noteq> Some v) (terminal_provenance m digest)"
    using provenance_sublist by (fastforce simp: list_ex_iff)
  have reads: "bool_field ?kvs ''clean'' = tm_clean t" "int_field ?kvs ''last_applied_raw_seq'' = tm_last_applied_raw_seq t"
    "int_field ?kvs ''record_count_before_terminal'' = tm_record_count t" "int_field ?kvs ''raw_count'' = tm_raw_count t"
    "int_field ?kvs ''derived_count'' = tm_derived_count t"
    by (simp_all add: members field_reading)
  have named: "member ?kvs ''reason'' \<in> set (map jv_text (if tm_clean t then clean_terminal_reasons else halted_terminal_reasons))"
    using t unfolding members(3) terminal_ok_def by auto
  have order: "tm_record_count t = ev_ingest_seq e - 1" "\<not> tm_record_count t < tm_raw_count t + tm_derived_count t + 1"
    "\<not> ev_ingest_seq e \<le> tm_last_applied_raw_seq t"
    using t seq unfolding terminal_ok_def by (auto split: if_splits)
  have contract: "\<not> (member ?kvs ''terminal_version'' \<noteq> JvInt 1 \<or> bool_value (member ?kvs ''clean'') = None
      \<or> (case member ?kvs ''reason'' of JvStr t \<Rightarrow> t = [] | _ \<Rightarrow> True) \<or> member ?kvs ''research_evaluable'' \<noteq> JvBool False)"
    using reason by (simp add: members jv_text_def codes_def)
  have "retained_terminal m e = Inr (TerminalFrame (tm_clean t))"
    unfolding retained_terminal_def o bind_result_Inr digest reads if_not_P[OF contract]
    using e(1,3) named digests counts prov order by simp
  then show ?thesis using e(2) by (simp add: record_class_def)
qed

end
