(* ===== verification/WalWriter.thy ===== *)
theory WalWriter
  imports GuardedFrames Machines
begin

text \<open>
  The writer against the reader: whatever the storage answers, the file is a journal the reader
  accepts, and what the reader yields are the records the writer acknowledged, with at most one more
  whose outcome was uncertain.
\<close>

subsection \<open>The simulation\<close>

definition counts_of :: "JournalWriter \<Rightarrow> WalkCounts" where
  "counts_of w =
     \<lparr>wc_record_count = jw_record_count w, wc_raw_count = jw_raw_count w, wc_derived_count = jw_derived_count w,
      wc_last_raw_seq = latest_raw_seq w\<rparr>"

definition writer_sim :: "JournalWriter \<Rightarrow> WalkState \<Rightarrow> bool" where
  "writer_sim w k \<longleftrightarrow>
     manifest_ok (jw_session_manifest w) \<and> wk_manifest k = Some (jw_session_manifest w) \<and> wk_counts k = counts_of w
     \<and> 1 \<le> jw_record_count w \<and> 0 \<le> jw_raw_count w \<and> 0 \<le> jw_derived_count w
     \<and> jw_raw_count w + jw_derived_count w < jw_record_count w \<and> latest_raw_seq w \<le> jw_record_count w
     \<and> jw_next_seq w = jw_record_count w + 1 \<and> wk_expected_seq k = jw_next_seq w \<and> wk_terminal_seen k = jw_closed w"

definition tail_of :: "WalkState \<Rightarrow> PersistedEvent \<Rightarrow> bytes \<Rightarrow> bool" where
  \<comment> \<open>what a failed write of a record leaves behind: a prefix of its frame, which the reader would accept\<close>
  "tail_of k e t \<longleftrightarrow>
     t = [] \<or> (\<exists>k' j. frame_ok e \<and> \<not> wk_terminal_seen k \<and> walk_event validate_terminal k e = Inr k' \<and> t = take j (frame_of e))"

definition tail_ok :: "WalkState \<Rightarrow> bytes \<Rightarrow> bool" where
  "tail_ok k t \<longleftrightarrow> (\<exists>e. tail_of k e t)"

lemma tail_Nil [simp]: "tail_of k e []" "tail_ok k []"
  by (simp_all add: tail_of_def tail_ok_def)

definition journal_inv :: "JournalWriter \<Rightarrow> PersistedEvent list \<Rightarrow> bool" where
  "journal_inv w acked \<longleftrightarrow>
     list_all frame_ok acked
     \<and> (\<exists>k t. walk_records validate_terminal initial_walk acked = Inr k \<and> jw_file w = journal_file acked @ t \<and> tail_ok k t
          \<and> (\<not> jw_poisoned w \<longrightarrow> t = [] \<and> writer_sim w k))"

definition torn_write :: "JournalWriter \<Rightarrow> PersistedEvent list \<Rightarrow> PersistedEvent \<Rightarrow> bool" where
  \<comment> \<open>the writer is poisoned, and the file holds the acknowledged records and a prefix of the frame of one record\<close>
  "torn_write w acked e \<longleftrightarrow>
     jw_poisoned w \<and> list_all frame_ok acked
     \<and> (\<exists>k t. walk_records validate_terminal initial_walk acked = Inr k \<and> jw_file w = journal_file acked @ t \<and> tail_of k e t)"

lemma torn_write_inv: "torn_write w acked e \<Longrightarrow> journal_inv w acked"
  unfolding torn_write_def journal_inv_def tail_ok_def by blast

lemma journal_inv_healthy:
  assumes "journal_inv w acked" "require_writable w = None"
  obtains k where "walk_records validate_terminal initial_walk acked = Inr k" "jw_file w = journal_file acked"
    "writer_sim w k" "\<not> wk_terminal_seen k" "list_all frame_ok acked" "\<not> jw_poisoned w" "\<not> jw_closed w"
proof -
  have p: "\<not> jw_poisoned w" "\<not> jw_closed w" using assms(2) by (simp_all add: require_writable_def require_def split: if_splits)
  then obtain k where "walk_records validate_terminal initial_walk acked = Inr k" "jw_file w = journal_file acked" "writer_sim w k"
    using assms(1) unfolding journal_inv_def by auto
  then show thesis using that p assms(1) unfolding journal_inv_def writer_sim_def by blast
qed

lemma candidate_Inr:
  "candidate r = Inr (e, f) \<longleftrightarrow> r = Inr e \<and> persisted_event_post_init e = None \<and> encode_frame e = Inr f"
proof (cases "bind_result r (\<lambda>e. bind_result (construct persisted_event_post_init e) (\<lambda>e.
    bind_result (encode_frame e) (\<lambda>frame. Inr (e, frame))))")
  case (Inl x)
  then have "candidate r \<noteq> Inr (e, f)"
    by (cases x) (simp_all add: candidate_def journal_invalid_def)
  moreover have "\<not> (r = Inr e \<and> persisted_event_post_init e = None \<and> encode_frame e = Inr f)"
    using Inl by auto
  ultimately show ?thesis by blast
next
  case (Inr x)
  then show ?thesis by (auto simp: candidate_def bind_result_eq_Inr construct_def split: option.splits)
qed

subsection \<open>Writing one frame\<close>

lemma write_encoded_event_Inr:
  assumes "write_encoded_event outcome w e f halted = (w', Inr e')"
  shows "e' = e" "w' = count_record e (w\<lparr>jw_file := jw_file w @ f\<rparr>)" "\<not> frame_refused w f halted" "ev_ingest_seq e = jw_next_seq w"
    "require_writable w = None"
  using assms unfolding write_encoded_event_def journal_invalid_def durability_error_def storage_answer_def Let_def
  by (auto simp: disk_after_def split: option.splits if_splits WriteOutcome.splits)

text \<open>
  \<open>after_write w acked w' r\<close>: what holds after an attempt to write when the writer was \<open>w\<close>.
\<close>

definition after_write ::
  "JournalWriter \<Rightarrow> PersistedEvent list \<Rightarrow> PersistedEvent result \<Rightarrow> JournalWriter \<Rightarrow> PersistedEvent result \<Rightarrow> bool" where
  "after_write w acked attempt w' r \<longleftrightarrow>
     (case r of
        Inr e \<Rightarrow>
          \<not> jw_poisoned w' \<and> jw_file w' = journal_file (acked @ [e])
          \<and> w' = count_record e (w\<lparr>jw_file := jw_file w @ frame_of e\<rparr>)
      | Inl x \<Rightarrow> w' = w \<or> (\<exists>e. attempt = Inr e \<and> torn_write w' acked e))"

lemma after_write_Inl: "after_write w acked attempt w' (Inl x) \<longleftrightarrow> w' = w \<or> (\<exists>e. attempt = Inr e \<and> torn_write w' acked e)"
  by (simp add: after_write_def)

lemma write_frame:
  assumes inv: "journal_inv w acked" and writable: "require_writable w = None"
    and k: "walk_records validate_terminal initial_walk acked = Inr k"
      "\<not> frame_refused w f halted \<Longrightarrow> walk_event validate_terminal k e = Inr k'"
    and f: "encode_frame e = Inr f" and w': "write_encoded_event outcome w e f halted = (w', r)"
  shows "after_write w acked (Inr e) w' r"
    and "r = Inr e' \<Longrightarrow> e' = e \<and> walk_records validate_terminal initial_walk (acked @ [e]) =
           Inr (walk_advance k' e (length (journal_file (acked @ [e]))))"
proof -
  obtain k0 where h: "walk_records validate_terminal initial_walk acked = Inr k0" "jw_file w = journal_file acked"
    "\<not> wk_terminal_seen k0" "list_all frame_ok acked" "\<not> jw_poisoned w"
    using journal_inv_healthy[OF inv writable] by blast
  then have k0: "k0 = k" using k(1) by simp
  have fo: "frame_of e = f" "frame_ok e" using f by (simp_all add: frame_of_def frame_ok_def)
  define answer where "answer = storage_answer outcome w f halted"
  have refused: "answer = Uncertain 0" if "frame_refused w f halted" using that by (simp add: answer_def storage_answer_def)
  have tail: "tail_of k e (take j f)" if "answer = Uncertain j" for j
  proof (cases "frame_refused w f halted")
    case True
    then show ?thesis using refused that by simp
  next
    case False
    then show ?thesis unfolding tail_of_def using fo k(2) h(3) k0 by blast
  qed
  have poisoned: "torn_write (poison_writer (w\<lparr>jw_file := jw_file w @ take j f, jw_next_seq := n\<rparr>)) acked e"
    if "answer = Uncertain j" for j n
    unfolding torn_write_def poison_writer_def using h k0 k(1) tail[OF that] by simp
  have poisoned0: "torn_write (poison_writer (w\<lparr>jw_next_seq := n\<rparr>)) acked e" for n
    unfolding torn_write_def poison_writer_def using h k0 k(1) by simp
  have jf: "jw_file w @ f = journal_file (acked @ [e])" using h(2) fo(1) by (simp add: journal_file_snoc)
  note we = w'[unfolded write_encoded_event_def Let_def, folded answer_def]
  show "after_write w acked (Inr e) w' r"
    using we writable poisoned0 poisoned jf h(5) fo(1)
    unfolding after_write_def journal_invalid_def durability_error_def disk_after_def
    by (cases answer) (auto simp: poison_writer_def count_record_def Let_def split: if_splits RecordKind.splits)
  assume r: "r = Inr e'"
  then have e': "e' = e" and written: "answer = Written"
    using we writable unfolding journal_invalid_def durability_error_def
    by (cases answer; auto split: if_splits)+
  have walk: "walk_event validate_terminal k e = Inr k'" using k(2) refused written by auto
  have off: "wk_offset k = length (journal_file acked)"
    using walk_loop_records[OF h(4) _ k(1), of journal_prefix] by (simp add: initial_walk_def journal_file_def)
  show "e' = e \<and> walk_records validate_terminal initial_walk (acked @ [e]) =
      Inr (walk_advance k' e (length (journal_file (acked @ [e]))))"
    using k(1) walk off e' h(3) k0 by (simp add: walk_records_snoc journal_file_snoc)
qed

subsection \<open>The operations\<close>

lemma write_candidate_Inr:
  assumes "write_candidate outcome w r halted = (w', Inr e)"
  obtains f where "r = Inr e" "encode_frame e = Inr f" "write_encoded_event outcome w e f halted = (w', Inr e)"
    "\<not> frame_refused w (frame_of e) halted"
proof -
  obtain e' f where c: "candidate r = Inr (e', f)" "write_encoded_event outcome w e' f halted = (w', Inr e)"
    using assms unfolding write_candidate_def by (auto split: sum.splits)
  have "frame_of e' = f" using c(1) unfolding candidate_Inr by (simp add: frame_of_def)
  then show thesis using that c write_encoded_event_Inr(1,3)[OF c(2)] unfolding candidate_Inr by blast
qed

lemma write_candidate_inv:
  assumes inv: "journal_inv w acked" and writable: "require_writable w = None"
    and w: "write_candidate outcome w r halted = (w', res)"
    and step: "\<And>e k. r = Inr e \<Longrightarrow> frame_ok e \<Longrightarrow> writer_sim w k \<Longrightarrow> \<not> frame_refused w (frame_of e) halted \<Longrightarrow>
      \<exists>k'. walk_event validate_terminal k e = Inr k'"
  shows "after_write w acked r w' res"
proof (cases "candidate r")
  case (Inl x)
  then show ?thesis using w by (auto simp: write_candidate_def after_write_def)
next
  case (Inr ef)
  obtain e f where ef: "ef = (e, f)" by (cases ef)
  then have c: "r = Inr e" "encode_frame e = Inr f" using Inr candidate_Inr[of r e f] by blast+
  have we: "write_encoded_event outcome w e f halted = (w', res)"
    using w Inr ef by (simp add: write_candidate_def)
  obtain k where k: "walk_records validate_terminal initial_walk acked = Inr k" "writer_sim w k"
    using journal_inv_healthy[OF inv writable] by blast
  have "\<exists>k'. walk_event validate_terminal k e = Inr k'" if "\<not> frame_refused w f halted"
    using step[of e k] c k that unfolding frame_ok_def by (simp add: frame_of_def)
  then obtain k' where "\<not> frame_refused w f halted \<Longrightarrow> walk_event validate_terminal k e = Inr k'" by blast
  from write_frame(1)[OF inv writable k(1) this c(2) we] show ?thesis unfolding c(1) .
qed

lemma walk_raw:
  assumes "writer_sim w k" "ev_ingest_seq e = jw_next_seq w" "ev_record_kind e = RAW"
    "ev_session_id e = sm_session_id (jw_session_manifest w)" "ev_event_type e \<noteq> ''SESSION_START''"
  shows "walk_event validate k e = Inr (k\<lparr>wk_counts := (wk_counts k)\<lparr>wc_last_raw_seq := ev_ingest_seq e,
    wc_raw_count := wc_raw_count (wk_counts k) + 1\<rparr>\<rparr>)"
  using assms unfolding walk_event_def writer_sim_def by simp

lemma walk_derived:
  assumes "writer_sim w k" "ev_ingest_seq e = jw_next_seq w" "ev_record_kind e = DERIVED"
    "ev_session_id e = sm_session_id (jw_session_manifest w)" "ev_event_type e \<noteq> ''SESSION_START''"
    "ev_parent_ingest_seq e = Some (latest_raw_seq w)"
  shows "walk_event validate k e = Inr (k\<lparr>wk_counts := (wk_counts k)\<lparr>wc_derived_count := wc_derived_count (wk_counts k) + 1\<rparr>\<rparr>)"
  using assms unfolding walk_event_def writer_sim_def counts_of_def by simp

definition acked_of :: "PersistedEvent result \<Rightarrow> PersistedEvent list" where
  "acked_of r = (case r of Inr e \<Rightarrow> [e] | Inl x \<Rightarrow> [])"

lemma write_candidate_acked:
  assumes inv: "journal_inv w acked" and writable: "require_writable w = None"
    and w: "write_candidate outcome w r halted = (w', Inr e)"
    and k: "walk_records validate_terminal initial_walk acked = Inr k" "walk_event validate_terminal k e = Inr k'"
  shows "list_all frame_ok (acked @ [e])"
    and "walk_records validate_terminal initial_walk (acked @ [e]) = Inr (walk_advance k' e (length (journal_file (acked @ [e]))))"
    and "jw_file w' = journal_file (acked @ [e])" and "w' = count_record e (w\<lparr>jw_file := jw_file w @ frame_of e\<rparr>)"
    and "\<not> jw_poisoned w'" and "ev_ingest_seq e = jw_next_seq w" and "r = Inr e"
proof -
  obtain f where f: "r = Inr e" "encode_frame e = Inr f" "write_encoded_event outcome w e f halted = (w', Inr e)"
    using write_candidate_Inr[OF w] by blast
  show "r = Inr e" by (rule f(1))
  note wf = write_frame[OF inv writable k(1) k(2) f(2,3)]
  show "list_all frame_ok (acked @ [e])"
    using inv f(2) unfolding journal_inv_def by (auto simp: frame_ok_def)
  show "walk_records validate_terminal initial_walk (acked @ [e]) = Inr (walk_advance k' e (length (journal_file (acked @ [e]))))"
    using wf(2) by blast
  show "jw_file w' = journal_file (acked @ [e])" "w' = count_record e (w\<lparr>jw_file := jw_file w @ frame_of e\<rparr>)" "\<not> jw_poisoned w'"
    using wf(1) unfolding after_write_def sum.case by blast+
  show "ev_ingest_seq e = jw_next_seq w"
    by (rule write_encoded_event_Inr(4)[OF f(3)])
qed

lemma journal_inv_Inl:
  "journal_inv w acked \<Longrightarrow> after_write w acked attempt w' (Inl x) \<Longrightarrow> journal_inv w' (acked @ acked_of (Inl x))"
  using torn_write_inv by (auto simp: after_write_def acked_of_def)

lemma written_record_type:
  \<comment> \<open>what the capability lets through, other than control records, has no reserved name\<close>
  assumes "frame_ok e" "ev_record_kind e \<noteq> CONTROL" "\<not> frame_refused w (frame_of e) False"
  shows "ev_event_type e \<notin> {''SESSION_START'', ''SESSION_HALT''}"
  using reserved_record_refused[OF assms(1,2)] assms(3) unfolding frame_refused_def by auto

lemma append_raw_inv:
  assumes inv: "journal_inv w acked" and a: "append_raw check outcome w c = (w', r)"
  shows "journal_inv w' (acked @ acked_of r) \<and> after_write w acked (raw_candidate check w c) w' r"
proof (cases "require_writable w")
  case (Some x)
  then show ?thesis using a inv by (auto simp: append_raw_def acked_of_def after_write_def)
next
  case None
  then have w: "write_candidate outcome w (raw_candidate check w c) False = (w', r)" using a by (simp add: append_raw_def)
  have raw: "e = raw_record c (jw_next_seq w) \<and> ci_session_id c = sm_session_id (jw_session_manifest w)"
    if "raw_candidate check w c = Inr e" for e
    using that unfolding raw_candidate_def journal_invalid_def by (auto split: if_splits)
  have step: "walk_event validate_terminal k e = Inr (k\<lparr>wk_counts := (wk_counts k)\<lparr>wc_last_raw_seq := ev_ingest_seq e,
      wc_raw_count := wc_raw_count (wk_counts k) + 1\<rparr>\<rparr>)"
    if "raw_candidate check w c = Inr e" "frame_ok e" "writer_sim w k" "\<not> frame_refused w (frame_of e) False" for e k
    using raw[OF that(1)] written_record_type[OF that(2) _ that(4)] by (intro walk_raw[OF that(3)]) (simp_all add: raw_record_def)
  have aw: "after_write w acked (raw_candidate check w c) w' r" using step by (intro write_candidate_inv[OF inv None w]) blast
  show ?thesis
  proof (cases r)
    case (Inl x)
    then show ?thesis using journal_inv_Inl[OF inv] aw by simp
  next
    case (Inr e)
    obtain k where k: "walk_records validate_terminal initial_walk acked = Inr k" "writer_sim w k" "jw_file w = journal_file acked"
      using journal_inv_healthy[OF inv None] by blast
    have c: "raw_candidate check w c = Inr e" "frame_ok e" "\<not> frame_refused w (frame_of e) False"
      using write_candidate_Inr[OF w[unfolded Inr]] unfolding frame_ok_def by blast+
    note s = step[OF c(1,2) k(2) c(3)] and e = raw[OF c(1)]
    note ack = write_candidate_acked[OF inv None w[unfolded Inr] k(1) s]
    have "writer_sim w' (walk_advance (k\<lparr>wk_counts := (wk_counts k)\<lparr>wc_last_raw_seq := ev_ingest_seq e,
      wc_raw_count := wc_raw_count (wk_counts k) + 1\<rparr>\<rparr>) e (length (journal_file (acked @ [e]))))"
      using k(2) e ack(6) unfolding ack(4) writer_sim_def
      by (simp add: count_record_def walk_advance_def counts_of_def latest_raw_seq_def raw_record_def)
    then show ?thesis using ack(1-3) Inr aw unfolding journal_inv_def acked_of_def by auto
  qed
qed

lemma append_derived_inv:
  assumes inv: "journal_inv w acked" and a: "append_derived outcome w parent d = (w', r)"
  shows "journal_inv w' (acked @ acked_of r) \<and> after_write w acked (Inr (derived_record parent d (jw_next_seq w))) w' r"
proof (cases "require_writable w = None \<and> ev_record_kind parent = RAW \<and> ev_session_id parent = sm_session_id (jw_session_manifest w)
    \<and> jw_latest_raw w = Some parent")
  case False
  then have "w' = w" "acked_of r = []" "\<exists>x. r = Inl x"
    using a by (auto simp: append_derived_def acked_of_def journal_invalid_def split: option.splits if_splits)
  then show ?thesis using inv by (auto simp: after_write_def)
next
  case True
  then have None: "require_writable w = None" and p: "ev_session_id parent = sm_session_id (jw_session_manifest w)"
    "jw_latest_raw w = Some parent" by blast+
  let ?e = "derived_record parent d (jw_next_seq w)"
  have w: "write_candidate outcome w (Inr ?e) False = (w', r)" using a True by (simp add: append_derived_def)
  have step: "walk_event validate_terminal k ?e = Inr (k\<lparr>wk_counts := (wk_counts k)\<lparr>wc_derived_count := wc_derived_count (wk_counts k) + 1\<rparr>\<rparr>)"
    if "frame_ok ?e" "writer_sim w k" "\<not> frame_refused w (frame_of ?e) False" for k
    using p written_record_type[OF that(1) _ that(3)]
    by (intro walk_derived[OF that(2)]) (simp_all add: derived_record_def latest_raw_seq_def)
  have aw: "after_write w acked (Inr ?e) w' r" using step by (intro write_candidate_inv[OF inv None w]) blast
  show ?thesis
  proof (cases r)
    case (Inl x)
    then show ?thesis using journal_inv_Inl[OF inv] aw by simp
  next
    case (Inr e)
    obtain k where k: "walk_records validate_terminal initial_walk acked = Inr k" "writer_sim w k" "jw_file w = journal_file acked"
      using journal_inv_healthy[OF inv None] by blast
    have e: "e = ?e" "frame_ok ?e" "\<not> frame_refused w (frame_of ?e) False"
      using write_candidate_Inr[OF w[unfolded Inr]] unfolding frame_ok_def by blast+
    note ack = write_candidate_acked[OF inv None w[unfolded Inr] k(1) step[OF e(2) k(2) e(3), folded e(1)]]
    have "writer_sim w' (walk_advance (k\<lparr>wk_counts := (wk_counts k)\<lparr>wc_derived_count := wc_derived_count (wk_counts k) + 1\<rparr>\<rparr>)
       e (length (journal_file (acked @ [e]))))"
      using k(2) ack(6) unfolding ack(4) writer_sim_def e(1)
      by (simp add: count_record_def walk_advance_def counts_of_def latest_raw_seq_def derived_record_def)
    then show ?thesis using ack(1-3) Inr aw unfolding journal_inv_def acked_of_def by auto
  qed
qed

lemma terminal_payload_Inr:
  assumes "terminal_payload w clean reason trace final_state last_applied = Inr payload" "writer_sim w k"
  defines "t \<equiv> \<lparr>tm_clean = clean, tm_reason = reason, tm_trace_sha256 = trace, tm_final_state_sha256 = final_state,
           tm_record_count = jw_record_count w, tm_raw_count = jw_raw_count w, tm_derived_count = jw_derived_count w,
           tm_last_applied_raw_seq = last_applied\<rparr>"
  obtains digest where "session_manifest_sha256 (jw_session_manifest w) = Inr digest"
    "printable (JvObj (terminal_fields (jw_session_manifest w) digest t))"
    "payload = json_dumps (JvObj (terminal_fields (jw_session_manifest w) digest t))"
    "terminal_ok (jw_session_manifest w) (wk_counts k) t"
proof -
  from assms(1) obtain digest where d: "session_manifest_sha256 (jw_session_manifest w) = Inr digest"
    "canonical_json_bytes (JvObj (terminal_fields (jw_session_manifest w) digest t)) = Inr payload"
    and c: "reason \<in> set (if clean then clean_terminal_reasons else halted_terminal_reasons)" "sha256_ok trace"
      "sha256_ok final_state" "0 \<le> last_applied" "clean \<longrightarrow> last_applied = latest_raw_seq w" "\<not> clean \<longrightarrow> last_applied \<le> latest_raw_seq w"
    unfolding terminal_payload_def journal_invalid_def t_def by (auto simp: bind_result_eq_Inr split: if_splits)
  have "terminal_ok (jw_session_manifest w) (wk_counts k) t"
    using c assms(2) unfolding terminal_ok_def t_def writer_sim_def counts_of_def by simp
  then show thesis using that d unfolding canonical_json_bytes_Inr by blast
qed

definition terminal_record :: "JournalWriter \<Rightarrow> bool \<Rightarrow> string \<Rightarrow> string \<Rightarrow> string \<Rightarrow> int \<Rightarrow> PersistedEvent result" where
  \<comment> \<open>the record \<open>_close\<close> makes\<close>
  "terminal_record w clean reason trace final_state last_applied =
     bind_result (terminal_payload w clean reason trace final_state last_applied) (\<lambda>payload.
       Inr (control_event (jw_session_manifest w) (jw_next_seq w) ''SESSION_HALT'' payload))"

lemma walk_terminal:
  assumes sim: "writer_sim w k" and p: "terminal_payload w clean reason trace final_state last_applied = Inr payload"
  defines "e \<equiv> control_event (jw_session_manifest w) (jw_next_seq w) ''SESSION_HALT'' payload"
  shows "walk_event validate_terminal k e = Inr (k\<lparr>wk_terminal_clean := clean, wk_terminal_seen := True\<rparr>)"
proof -
  obtain digest t where t: "session_manifest_sha256 (jw_session_manifest w) = Inr digest"
    "printable (JvObj (terminal_fields (jw_session_manifest w) digest t))"
    "payload = json_dumps (JvObj (terminal_fields (jw_session_manifest w) digest t))"
    "terminal_ok (jw_session_manifest w) (wk_counts k) t" "tm_clean t = clean"
    using terminal_payload_Inr[OF p sim] by (metis Terminal.select_convs(1))
  have "validate_terminal e (jw_session_manifest w) (wk_counts k) = Inr clean"
    using validate_terminal_of(1)[OF _ t(1,2,4)] t(3,5) sim unfolding e_def writer_sim_def by (simp add: control_event_def)
  then show ?thesis
    using sim unfolding walk_event_def writer_sim_def e_def by (simp add: control_event_def)
qed

lemma close_journal_inv:
  assumes inv: "journal_inv w acked"
    and a: "close_journal outcome acknowledged closes w clean reason trace final_state last_applied = (w', r)"
  shows "journal_inv w' (acked @ acked_of r)"
    and "r = Inl x \<Longrightarrow> w' = w \<or> (\<exists>e. terminal_record w clean reason trace final_state last_applied = Inr e \<and> torn_write w' acked e)"
    and "r = Inr e \<Longrightarrow> jw_closed w' \<and> \<not> jw_poisoned w' \<and> (\<exists>k. walk_records validate_terminal initial_walk (acked @ [e]) = Inr k
      \<and> wk_terminal_clean k = clean \<and> wk_terminal_seen k)"
proof -
  let ?r = "terminal_record w clean reason trace final_state last_applied"
  have "journal_inv w' (acked @ acked_of r)
    \<and> (\<forall>x. r = Inl x \<longrightarrow> w' = w \<or> (\<exists>e. ?r = Inr e \<and> torn_write w' acked e))
    \<and> (\<forall>e. r = Inr e \<longrightarrow> jw_closed w' \<and> \<not> jw_poisoned w' \<and>
    (\<exists>k. walk_records validate_terminal initial_walk (acked @ [e]) = Inr k \<and> wk_terminal_clean k = clean \<and> wk_terminal_seen k))"
  proof (cases "require_writable w")
    case (Some x)
    then show ?thesis using a inv by (auto simp: close_journal_def acked_of_def)
  next
    case None
    obtain w1 r1 where w: "write_candidate outcome w ?r (\<not> clean) = (w1, r1)" by (cases "write_candidate outcome w ?r (\<not> clean)")
    have a: "close_journal outcome acknowledged closes w clean reason trace final_state last_applied = (case (w1, r1) of
            (w', Inl x) \<Rightarrow> (w', Inl x)
          | (w', Inr stored) \<Rightarrow>
              if clean \<and> \<not> acknowledged
              then (w'\<lparr>jw_closed := True, jw_poisoned := True\<rparr>, durability_error ''journal_clean_ack_uncertain'')
              else if \<not> closes
              then (w'\<lparr>jw_closed := True, jw_poisoned := True\<rparr>, durability_error ''journal_durability_uncertain'')
              else (w'\<lparr>jw_closed := True\<rparr>, Inr stored))"
      unfolding close_journal_def None option.case w[unfolded terminal_record_def] ..
    then have a: "(case (w1, r1) of
            (w', Inl x) \<Rightarrow> (w', Inl x)
          | (w', Inr stored) \<Rightarrow>
              if clean \<and> \<not> acknowledged
              then (w'\<lparr>jw_closed := True, jw_poisoned := True\<rparr>, durability_error ''journal_clean_ack_uncertain'')
              else if \<not> closes
              then (w'\<lparr>jw_closed := True, jw_poisoned := True\<rparr>, durability_error ''journal_durability_uncertain'')
              else (w'\<lparr>jw_closed := True\<rparr>, Inr stored)) = (w', r)" using assms(2) by simp
    have step: "walk_event validate_terminal k e = Inr (k\<lparr>wk_terminal_clean := clean, wk_terminal_seen := True\<rparr>)"
      if "?r = Inr e" "writer_sim w k" for e k
      using that(1) walk_terminal[OF that(2)] by (auto simp: terminal_record_def bind_result_eq_Inr)
    have aw: "after_write w acked ?r w1 r1" using step by (intro write_candidate_inv[OF inv None w]) blast
    obtain k where k: "walk_records validate_terminal initial_walk acked = Inr k" "writer_sim w k" "jw_file w = journal_file acked"
      "\<not> wk_terminal_seen k" "list_all frame_ok acked"
      using journal_inv_healthy[OF inv None] by blast
    show ?thesis
    proof (cases r1)
      case (Inl x)
      then show ?thesis
        using inv torn_write_inv[of w1 acked] aw a by (auto simp: acked_of_def after_write_Inl)
    next
      case (Inr e)
      have e: "?r = Inr e" using write_candidate_Inr[OF w[unfolded Inr]] by blast
      note s = step[OF e k(2)]
      note ack = write_candidate_acked[OF inv None w[unfolded Inr] k(1) s]
      have kind: "ev_record_kind e = CONTROL" using e by (auto simp: terminal_record_def bind_result_eq_Inr control_event_def)
      let ?k = "walk_advance (k\<lparr>wk_terminal_clean := clean, wk_terminal_seen := True\<rparr>) e (length (journal_file (acked @ [e])))"
      have tail: "tail_of k e (frame_of e)"
      proof -
        have "frame_of e = take (length (frame_of e)) (frame_of e)" by simp
        then show ?thesis unfolding tail_of_def using ack(1) s k(4) by fastforce
      qed
      show ?thesis
      proof (cases "clean \<and> \<not> acknowledged \<or> \<not> closes")
        case True
        then have r: "jw_poisoned w'" "acked_of r = []" "jw_file w' = jw_file w1" "\<exists>x. r = Inl x"
          using a Inr by (auto simp: acked_of_def durability_error_def split: if_splits)
        have "jw_file w1 = journal_file acked @ frame_of e" using ack(3) by (simp add: journal_file_snoc)
        then have "torn_write w' acked e" using r k(1,5) tail unfolding torn_write_def by auto
        then show ?thesis using r e torn_write_inv by auto
      next
        case False
        then have r: "w' = w1\<lparr>jw_closed := True\<rparr>" "r = Inr e"
          using a Inr by (auto split: if_splits)
        have "writer_sim w' ?k"
          using k(2) ack(6) kind unfolding r(1) ack(4) writer_sim_def
          by (simp add: count_record_def walk_advance_def counts_of_def latest_raw_seq_def)
        then have "journal_inv w' (acked @ [e])"
          using ack(1-3) r(1) unfolding journal_inv_def by auto
        then show ?thesis
          using r ack(2,5) by (auto simp: acked_of_def walk_advance_def)
      qed
    qed
  qed
  then show "journal_inv w' (acked @ acked_of r)"
    and "r = Inl x \<Longrightarrow> w' = w \<or> (\<exists>e. terminal_record w clean reason trace final_state last_applied = Inr e \<and> torn_write w' acked e)"
    and "r = Inr e \<Longrightarrow> jw_closed w' \<and> \<not> jw_poisoned w' \<and> (\<exists>k. walk_records validate_terminal initial_walk (acked @ [e]) = Inr k
      \<and> wk_terminal_clean k = clean \<and> wk_terminal_seen k)" by blast+
qed

lemma claim_runtime_inv:
  assumes inv: "journal_inv w acked" and a: "claim_runtime accepted refused w = (w', r)"
  shows "journal_inv w' acked"
proof (cases "require_writable w")
  case (Some x)
  then show ?thesis using a inv by (simp add: claim_runtime_def)
next
  case None
  obtain k where k: "walk_records validate_terminal initial_walk acked = Inr k" "writer_sim w k" "jw_file w = journal_file acked"
    "list_all frame_ok acked"
    using journal_inv_healthy[OF inv None] by blast
  then have "writer_sim (w\<lparr>jw_runtime_claimed := True\<rparr>) k"
    unfolding writer_sim_def counts_of_def latest_raw_seq_def by simp
  then show ?thesis
    using a None k inv unfolding claim_runtime_def journal_inv_def tail_ok_def by (auto split: if_splits)
qed

subsection \<open>Creation and runs\<close>

lemma create_writer_Inr:
  assumes "create_writer prefix_outcome start_outcome closes m = Inr w"
  obtains payload frame where "canonical_session_manifest_bytes m = Inr payload"
    "encode_frame (control_event m 1 ''SESSION_START'' payload) = Inr frame"
    "w = count_record (control_event m 1 ''SESSION_START'' payload)
       ((new_writer m (control_event m 1 ''SESSION_START'' payload))\<lparr>jw_file := journal_prefix @ frame\<rparr>)"
proof -
  from assms obtain start frame where c: "candidate (bind_result (canonical_session_manifest_bytes m) (\<lambda>payload.
      Inr (control_event m 1 ''SESSION_START'' payload))) = Inr (start, frame)"
    and w: "(case write_encoded_event start_outcome ((new_writer m start)\<lparr>jw_file := disk_after prefix_outcome [] journal_prefix\<rparr>)
        start frame False of
          (w', Inr e) \<Rightarrow> Inr w'
        | (w', Inl (DiskLowError n)) \<Rightarrow> Inl (jw_file w', if closes then DiskLowError n else JournalDurabilityError ''journal_durability_uncertain'')
        | (w', Inl x) \<Rightarrow> Inl (jw_file w', x)) = Inr w"
    and p: "prefix_outcome = Written"
    unfolding create_writer_def Let_def by (auto split: if_splits sum.splits)
  obtain payload where payload: "canonical_session_manifest_bytes m = Inr payload"
    "start = control_event m 1 ''SESSION_START'' payload" "encode_frame start = Inr frame"
    using c unfolding candidate_Inr by (auto simp: bind_result_eq_Inr)
  obtain w1 r1 where w1: "write_encoded_event start_outcome ((new_writer m start)\<lparr>jw_file := disk_after prefix_outcome [] journal_prefix\<rparr>)
      start frame False = (w1, r1)"
    by (cases "write_encoded_event start_outcome ((new_writer m start)\<lparr>jw_file := disk_after prefix_outcome [] journal_prefix\<rparr>)
      start frame False")
  then obtain e where r1: "r1 = Inr e" "w1 = w" using w by (auto split: sum.splits exn.splits if_splits)
  have "w = count_record start ((new_writer m start)\<lparr>jw_file := journal_prefix @ frame\<rparr>)"
    using write_encoded_event_Inr(2)[OF w1[unfolded r1]] p by (simp add: disk_after_def)
  then show thesis using that payload by blast
qed

lemma create_writer_inv:
  assumes "create_writer prefix_outcome start_outcome closes m = Inr w"
  shows "journal_inv w [jw_session_start w]" and "\<not> jw_poisoned w" and "\<not> jw_closed w" and "jw_session_manifest w = m"
proof -
  obtain payload frame where c: "canonical_session_manifest_bytes m = Inr payload"
    "encode_frame (control_event m 1 ''SESSION_START'' payload) = Inr frame"
    "w = count_record (control_event m 1 ''SESSION_START'' payload)
       ((new_writer m (control_event m 1 ''SESSION_START'' payload))\<lparr>jw_file := journal_prefix @ frame\<rparr>)"
    by (rule create_writer_Inr[OF assms])
  let ?start = "control_event m 1 ''SESSION_START'' payload"
  have fields: "ev_record_kind ?start = CONTROL" "ev_ingest_seq ?start = 1" by (simp_all add: control_event_def)
  have ok: "manifest_ok m" by (rule start_recordable[OF c(2,1)])
  have f: "frame_ok ?start" "frame_of ?start = frame" using c(2) by (simp_all add: frame_ok_def frame_of_def)
  let ?k = "walk_advance (initial_walk\<lparr>wk_manifest := Some m\<rparr>) ?start (16 + length frame)"
  have "walk_event validate_terminal initial_walk ?start = Inr (initial_walk\<lparr>wk_manifest := Some m\<rparr>)"
    unfolding walk_event_def manifest_from_start_of[OF ok c(1)] using fields by (simp add: initial_walk_def)
  then have walk: "walk_records validate_terminal initial_walk [?start] = Inr ?k"
    by (simp add: f(2)) (simp add: initial_walk_def)
  have w: "jw_session_start w = ?start" "jw_session_manifest w = m" "jw_file w = journal_file [?start]" "\<not> jw_poisoned w" "\<not> jw_closed w"
    "jw_record_count w = 1" "jw_raw_count w = 0" "jw_derived_count w = 0" "jw_next_seq w = 2" "jw_latest_raw w = None"
    unfolding c(3) using f by (simp_all add: count_record_def new_writer_def journal_file_def fields)
  have "writer_sim w ?k"
    unfolding writer_sim_def counts_of_def latest_raw_seq_def using ok w
    by (simp add: walk_advance_def initial_walk_def)
  then show "journal_inv w [jw_session_start w]"
    unfolding journal_inv_def w(1) using walk w(3) f(1) by (auto simp: tail_ok_def)
  show "\<not> jw_poisoned w" "\<not> jw_closed w" "jw_session_manifest w = m" using w by blast+
qed

text \<open>The operations of a journal with the answers of the storage, and the records they acknowledge.\<close>

datatype JournalOp =
    ClaimRuntime bool exn
  | AppendRaw WriteOutcome CapturedInput
  | AppendDerived WriteOutcome PersistedEvent DerivedDraft
  | CloseJournal WriteOutcome bool bool bool string string string int

fun journal_op :: "(CapturedInput \<Rightarrow> exn option) \<Rightarrow> JournalWriter \<Rightarrow> JournalOp \<Rightarrow> JournalWriter \<times> PersistedEvent list" where
  "journal_op check w (ClaimRuntime accepted refused) = (fst (claim_runtime accepted refused w), [])"
| "journal_op check w (AppendRaw outcome c) =
     (let (w', r) = append_raw check outcome w c in (w', acked_of r))"
| "journal_op check w (AppendDerived outcome parent d) =
     (let (w', r) = append_derived outcome w parent d in (w', acked_of r))"
| "journal_op check w (CloseJournal outcome acknowledged closes clean reason trace final_state last_applied) =
     (let (w', r) = close_journal outcome acknowledged closes w clean reason trace final_state last_applied in (w', acked_of r))"

definition result_value :: "'a result \<Rightarrow> 'a option" where
  "result_value r = (case r of Inr x \<Rightarrow> Some x | Inl x \<Rightarrow> None)"

fun attempted_record :: "(CapturedInput \<Rightarrow> exn option) \<Rightarrow> JournalWriter \<Rightarrow> JournalOp \<Rightarrow> PersistedEvent option" where
  \<comment> \<open>the record an operation gives to the storage\<close>
  "attempted_record check w (ClaimRuntime accepted refused) = None"
| "attempted_record check w (AppendRaw outcome c) = result_value (raw_candidate check w c)"
| "attempted_record check w (AppendDerived outcome parent d) = Some (derived_record parent d (jw_next_seq w))"
| "attempted_record check w (CloseJournal outcome acknowledged closes clean reason trace final_state last_applied) =
     result_value (terminal_record w clean reason trace final_state last_applied)"

definition journal_step ::
  "(CapturedInput \<Rightarrow> exn option) \<Rightarrow> JournalWriter \<times> PersistedEvent list \<Rightarrow> JournalOp \<Rightarrow> (JournalWriter \<times> PersistedEvent list) result" where
  \<comment> \<open>an operation that raises leaves the writer it leaves, and the run goes on\<close>
  "journal_step check s op = (let (w', es) = journal_op check (fst s) op in Inr (w', snd s @ es))"

lemma journal_op_outcome:
  assumes inv: "journal_inv w acked" and r: "journal_op check w op = (w', es)"
  shows "journal_inv w' (acked @ es) \<and>
    (jw_poisoned w' \<and> \<not> jw_poisoned w \<longrightarrow> es = [] \<and>
      (jw_file w' = jw_file w \<or> (\<exists>e. attempted_record check w op = Some e \<and> torn_write w' acked e)))"
proof (cases op)
  case (ClaimRuntime accepted refused)
  then show ?thesis
    using r claim_runtime_inv[OF inv, of accepted refused]
    by (cases "claim_runtime accepted refused w") (auto simp: claim_runtime_def split: option.splits if_splits)
next
  case (AppendRaw outcome c)
  obtain w1 r1 where a: "append_raw check outcome w c = (w1, r1)" by (cases "append_raw check outcome w c")
  then show ?thesis
    using r append_raw_inv[OF inv a] AppendRaw
    by (cases r1) (auto simp: after_write_def acked_of_def result_value_def)
next
  case (AppendDerived outcome parent d)
  obtain w1 r1 where a: "append_derived outcome w parent d = (w1, r1)" by (cases "append_derived outcome w parent d")
  then show ?thesis
    using r append_derived_inv[OF inv a] AppendDerived
    by (cases r1) (auto simp: after_write_def acked_of_def)
next
  case (CloseJournal outcome acknowledged closes clean reason trace final_state last_applied)
  obtain w1 r1 where a: "close_journal outcome acknowledged closes w clean reason trace final_state last_applied = (w1, r1)"
    by (cases "close_journal outcome acknowledged closes w clean reason trace final_state last_applied")
  then show ?thesis
    using r close_journal_inv[OF inv a] CloseJournal
    by (cases r1) (auto simp: acked_of_def result_value_def)
qed

interpretation journal: guarded_machine "journal_step check" "\<lambda>s. journal_inv (fst s) (snd s)" "\<lambda>op. True" for check
proof
  show "journal_inv (fst s') (snd s')"
    if "journal_inv (fst s) (snd s)" "True" "journal_step check s op = Inr s'" for s op s'
    using that journal_op_outcome[of "fst s" "snd s" check op] by (auto simp: journal_step_def split: prod.splits)
qed

subsection \<open>How a run ends\<close>

lemma poisoned_stays: "jw_poisoned w \<Longrightarrow> journal_op check w op = (w, [])"
  by (cases op)
    (simp_all add: claim_runtime_def append_raw_def append_derived_def close_journal_def require_writable_def acked_of_def)

definition write_interrupted ::
  "(CapturedInput \<Rightarrow> exn option) \<Rightarrow> JournalWriter \<times> PersistedEvent list \<Rightarrow> JournalOp list \<Rightarrow> PersistedEvent list \<Rightarrow> PersistedEvent \<Rightarrow> bool"
where
  \<comment> \<open>one operation of the run poisoned the writer after these records were acknowledged, and it was writing this record\<close>
  "write_interrupted check s ops acked e \<longleftrightarrow>
     (\<exists>earlier op later w1 w2. ops = earlier @ op # later \<and> run_steps (journal_step check) s earlier = Inr (w1, acked)
        \<and> \<not> jw_poisoned w1 \<and> attempted_record check w1 op = Some e \<and> journal_op check w1 op = (w2, []) \<and> jw_poisoned w2)"

lemma write_interrupted_later: "write_interrupted check s ops acked e \<Longrightarrow> write_interrupted check s (ops @ [op]) acked e"
  unfolding write_interrupted_def by fastforce

lemma journal_run_ends:
  assumes "journal_inv (fst s) (snd s)" "\<not> jw_poisoned (fst s)" "run_steps (journal_step check) s ops = Inr (w, acked)"
  shows "\<not> jw_poisoned w \<or> jw_file w = journal_file acked \<or> (\<exists>e. write_interrupted check s ops acked e \<and> torn_write w acked e)"
  using assms(3)
proof (induction ops arbitrary: w acked rule: rev_induct)
  case Nil
  then show ?case using assms(2) by auto
next
  case (snoc op ops)
  obtain w1 acked1 where run: "run_steps (journal_step check) s ops = Inr (w1, acked1)"
    and step: "journal_step check (w1, acked1) op = Inr (w, acked)"
    using snoc.prems by (auto simp: run_steps_append bind_result_eq_Inr)
  obtain es where o: "journal_op check w1 op = (w, es)" "acked = acked1 @ es"
    using step by (auto simp: journal_step_def split: prod.splits)
  show ?case
  proof (cases "jw_poisoned w1")
    case True
    then have "w = w1" "acked = acked1" using o poisoned_stays[of w1 check op] by simp_all
    then show ?thesis using snoc.IH[OF run] write_interrupted_later by blast
  next
    case False
    have inv: "journal_inv w1 acked1" using journal.run_inv[OF assms(1) _ run] by (simp add: list_all_iff)
    then have "jw_file w1 = journal_file acked1" using False unfolding journal_inv_def by auto
    then show ?thesis
      using journal_op_outcome[OF inv o(1)] False run o unfolding write_interrupted_def by fastforce
  qed
qed

subsection \<open>Recovery\<close>

lemma walk_event_counts:
  "walk_event validate k e = Inr k' \<Longrightarrow> wc_record_count (wk_counts k') = wc_record_count (wk_counts k)"
  unfolding walk_event_def journal_corrupt_def by (auto simp: bind_result_eq_Inr split: if_splits option.splits)

lemma walk_records_count:
  "walk_records validate k es = Inr k' \<Longrightarrow> wc_record_count (wk_counts k') = wc_record_count (wk_counts k) + int (length es)"
proof (induction es arbitrary: k)
  case (Cons e es)
  then obtain k1 where "walk_event validate k e = Inr k1"
    "walk_records validate (walk_advance k1 e (wk_offset k + length (frame_of e))) es = Inr k'"
    by (auto simp: bind_result_eq_Inr journal_corrupt_def split: if_splits)
  then show ?case using Cons.IH walk_event_counts by (fastforce simp: walk_advance_def)
qed simp

lemma walk_offset:
  assumes "list_all frame_ok es" "walk_records validate initial_walk es = Inr k"
  shows "wk_offset k = length (journal_file es)" and "wc_record_count (wk_counts k) = int (length es)"
  using walk_loop_records[OF assms(1) _ assms(2), of journal_prefix] walk_records_count[OF assms(2)]
  by (simp_all add: initial_walk_def journal_file_def)

lemma read_tail:
  assumes ok: "list_all frame_ok acked" and k: "walk_records validate_terminal initial_walk acked = Inr k" and t: "tail_of k e t"
  shows "\<exists>es summary. walk validate_terminal (journal_file acked @ t) = (es, Inr summary) \<and> (es = acked \<or> es = acked @ [e])
    \<and> ss_record_count summary = int (length es) \<and> ss_last_good_offset summary = length (journal_file es)"
proof (cases "t = []")
  case True
  then show ?thesis
    using walk_complete[OF ok k] walk_offset[OF ok k] by (auto simp: walk_summary_def)
next
  case False
  then obtain k' j where e: "frame_ok e" "\<not> wk_terminal_seen k" "walk_event validate_terminal k e = Inr k'" "t = take j (frame_of e)"
    using t unfolding tail_of_def by blast
  show ?thesis
  proof (cases "j < length (frame_of e)")
    case True
    have j: "0 < j" using False e(4) by (cases j) auto
    show ?thesis
      using walk_torn[OF ok k e(1) j True e(2)] walk_offset[OF ok k] e(4) by (auto simp: walk_summary_def)
  next
    case False
    then have t: "t = frame_of e" using e(4) by simp
    have ok': "list_all frame_ok (acked @ [e])" using ok e(1) by simp
    have k': "walk_records validate_terminal initial_walk (acked @ [e]) = Inr (walk_advance k' e (wk_offset k + length (frame_of e)))"
      using k e(2,3) by (simp add: walk_records_snoc)
    show ?thesis
      using walk_complete[OF ok' k'] walk_offset[OF ok' k'] t by (auto simp: walk_summary_def journal_file_snoc)
  qed
qed

lemma read_complete:
  assumes inv: "journal_inv w acked" and f: "jw_file w = journal_file acked"
  shows "\<exists>summary. walk validate_terminal (jw_file w) = (acked, Inr summary)
    \<and> ss_record_count summary = int (length acked) \<and> ss_last_good_offset summary = length (journal_file acked)
    \<and> (\<not> jw_poisoned w \<longrightarrow> ss_wal_valid summary \<and> (jw_closed w \<longleftrightarrow> ss_issue summary \<noteq> Some MISSING_TERMINAL))"
proof -
  obtain k where k: "walk_records validate_terminal initial_walk acked = Inr k" "\<not> jw_poisoned w \<longrightarrow> writer_sim w k"
    and ok: "list_all frame_ok acked"
    using inv unfolding journal_inv_def by blast
  show ?thesis
    using walk_complete[OF ok k(1)] walk_offset[OF ok k(1)] k(2) f by (auto simp: walk_summary_def writer_sim_def)
qed

lemma journal_run_tail:
  assumes inv: "journal_inv w0 start" "\<not> jw_poisoned w0" and run: "run_steps (journal_step check) (w0, start) ops = Inr (w, acked)"
  obtains e k t where "jw_file w = journal_file acked @ t" "list_all frame_ok acked"
    "walk_records validate_terminal initial_walk acked = Inr k" "tail_of k e t"
    "t = [] \<or> jw_poisoned w \<and> write_interrupted check (w0, start) ops acked e"
proof -
  have w: "journal_inv w acked" using journal.run_inv[OF _ _ run] inv by (simp add: list_all_iff)
  then obtain k where k: "list_all frame_ok acked" "walk_records validate_terminal initial_walk acked = Inr k"
    "\<not> jw_poisoned w \<longrightarrow> jw_file w = journal_file acked"
    unfolding journal_inv_def by auto
  consider "jw_file w = journal_file acked"
    | e where "write_interrupted check (w0, start) ops acked e" "torn_write w acked e"
    using journal_run_ends[OF _ _ run] inv k(3) by auto
  then show thesis
  proof cases
    case 1
    then show thesis using that[OF _ k(1,2)] by auto
  next
    case 2
    then show thesis using that k(2) unfolding torn_write_def by auto
  qed
qed

lemma read_after:
  assumes inv: "journal_inv w0 start" "\<not> jw_poisoned w0" and run: "run_steps (journal_step check) (w0, start) ops = Inr (w, acked)"
  shows "\<exists>es summary. walk validate_terminal (jw_file w) = (es, Inr summary)
    \<and> (es = acked \<or> jw_poisoned w \<and> (\<exists>e. es = acked @ [e] \<and> write_interrupted check (w0, start) ops acked e))
    \<and> ss_record_count summary = int (length es) \<and> ss_last_good_offset summary = length (journal_file es)
    \<and> (\<not> jw_poisoned w \<longrightarrow> ss_wal_valid summary \<and> (jw_closed w \<longleftrightarrow> ss_issue summary \<noteq> Some MISSING_TERMINAL))"
proof -
  have w: "journal_inv w acked" using journal.run_inv[OF _ _ run] inv by (simp add: list_all_iff)
  obtain e k t where f: "jw_file w = journal_file acked @ t" "list_all frame_ok acked"
    "walk_records validate_terminal initial_walk acked = Inr k" "tail_of k e t"
    "t = [] \<or> jw_poisoned w \<and> write_interrupted check (w0, start) ops acked e"
    by (rule journal_run_tail[OF inv run])
  show ?thesis
  proof (cases "t = []")
    case True
    then have "jw_file w = journal_file acked" using f(1) by simp
    from read_complete[OF w this] show ?thesis by blast
  next
    case False
    then show ?thesis using read_tail[OF f(2-4)] f(1,5) by metis
  qed
qed

end
