(* ===== verification/Runtime.thy ===== *)
theory Runtime
  imports WalWriter Foundation
begin

text \<open>
  The event runtime of \<open>tennis_v1/sequencer.py\<close>: an input is authorised, made durable, reduced, its derived records are
  made durable, and only then the runtime's state and trace advance; a failure halts the
  journal or poisons the runtime.  What the provider gate (\<open>tennis_v1/entitlements.py\<close>) and the retention coordinator
  (\<open>tennis_v1/retention.py\<close>) answer is an argument of the operation that asks: \<open>None\<close>, or the
  exception they raise.  Field prefixes: \<open>rt_\<close> runtime, \<open>ha_\<close> answers while halting, \<open>ia_\<close> answers during
  \<open>ingest\<close>, \<open>ca_\<close> answers during a clean close.
\<close>

record EventRuntime =
  rt_writer :: JournalWriter
  rt_state :: FoundationState
  rt_trace :: bytes
  rt_poisoned :: bool
  rt_closed :: bool

record HaltAnswers =
  ha_coordinator :: "exn option"
  ha_eligible :: "exn option"
  ha_gate :: "exn option"
  ha_write :: WriteOutcome
  ha_closes :: bool

record IngestAnswers =
  ia_owner :: bool
  ia_halt :: HaltAnswers
  ia_admission :: "exn option"
  ia_ingest_gate :: "exn option"
  ia_persist_gate :: "exn + int"
  ia_before_raw :: "exn option"
  ia_raw_write :: WriteOutcome
  ia_before_transform :: "exn option"
  ia_transform_gate :: "exn option"
  ia_before_derived :: "nat \<Rightarrow> exn option"
  ia_derived_gate :: "nat \<Rightarrow> exn option"
  ia_derived_write :: "nat \<Rightarrow> WriteOutcome"
  ia_before_poll :: "exn option"
  ia_poll :: "exn + bool"

record CloseAnswers =
  ca_owner :: bool
  ca_halt :: HaltAnswers
  ca_coordinator :: "exn option"
  ca_gate :: "exn option"
  ca_write :: WriteOutcome
  ca_acknowledged :: bool
  ca_closes :: bool
  ca_marked :: "exn option"

subsection \<open>Exceptions\<close>

fun is_gate_error :: "exn \<Rightarrow> bool" where
  "is_gate_error (ProviderGateError n) = True"
| "is_gate_error x = False"

fun is_global_halt :: "exn \<Rightarrow> bool" where
  "is_global_halt (RetentionGlobalHalt n) = True"
| "is_global_halt x = False"

fun is_retention_error :: "exn \<Rightarrow> bool" where
  "is_retention_error (RetentionGlobalHalt n) = True"
| "is_retention_error (RetentionError n) = True"
| "is_retention_error x = False"

fun is_durability_error :: "exn \<Rightarrow> bool" where
  "is_durability_error (JournalDurabilityError n) = True"
| "is_durability_error x = False"

fun is_disk_low :: "exn \<Rightarrow> bool" where
  "is_disk_low (DiskLowError n) = True"
| "is_disk_low x = False"

fun is_capture_error :: "exn \<Rightarrow> bool" where
  "is_capture_error (CaptureValidationError n) = True"
| "is_capture_error x = False"

fun is_journal_invalid :: "exn \<Rightarrow> bool" where
  "is_journal_invalid (JournalValidationError n) = True"
| "is_journal_invalid x = False"

subsection \<open>Halting\<close>

definition poison :: "EventRuntime \<Rightarrow> EventRuntime" where
  "poison rt = rt\<lparr>rt_poisoned := True, rt_closed := True\<rparr>"

definition witnesses :: "EventRuntime \<Rightarrow> (string \<times> string \<times> int) result" where
  "witnesses rt =
     bind_result (canonical_state_bytes (rt_state rt)) (\<lambda>b.
       Inr (hexdigest (rt_trace rt), hexdigest (sha256 b), fs_last_applied_raw_seq (rt_state rt)))"

definition close_with :: "WriteOutcome \<Rightarrow> bool \<Rightarrow> bool \<Rightarrow> EventRuntime \<Rightarrow> bool \<Rightarrow> string \<Rightarrow> EventRuntime \<times> PersistedEvent result" where
  \<comment> \<open>\<open>self._writer.close_clean\<close> or \<open>close_halted\<close> with \<open>**self._witnesses()\<close>\<close>
  "close_with outcome acknowledged closes rt clean reason =
     (case witnesses rt of
        Inl x \<Rightarrow> (rt, Inl x)
      | Inr (trace, final_state, last_applied) \<Rightarrow>
          let (w, r) = close_journal outcome acknowledged closes (rt_writer rt) clean reason trace final_state last_applied
          in (rt\<lparr>rt_writer := w\<rparr>, r))"

definition attempt_preobserved_global_halt :: "HaltAnswers \<Rightarrow> EventRuntime \<Rightarrow> EventRuntime \<times> unit result" where
  "attempt_preobserved_global_halt h rt =
     (case ha_eligible h of
        Some x \<Rightarrow> if is_retention_error x then (rt\<lparr>rt_closed := True\<rparr>, Inr ()) else (rt, Inl x)
      | None \<Rightarrow>
          case close_with (ha_write h) True (ha_closes h) rt False ''retention_global_halt'' of
            (rt', Inr e) \<Rightarrow> (rt'\<lparr>rt_closed := True\<rparr>, Inr ())
          | (rt', Inl x) \<Rightarrow>
              if is_durability_error x then (poison rt', Inl x) else (rt'\<lparr>rt_closed := True\<rparr>, Inr ()))"

definition require_coordinator :: "exn option \<Rightarrow> HaltAnswers \<Rightarrow> EventRuntime \<Rightarrow> EventRuntime \<times> unit result" where
  "require_coordinator answer h rt =
     (case answer of
        None \<Rightarrow> (rt, Inr ())
      | Some x \<Rightarrow>
          if is_global_halt x
          then (case attempt_preobserved_global_halt h rt of
                  (rt', Inl y) \<Rightarrow> (rt', Inl y)
                | (rt', Inr u) \<Rightarrow> (rt', Inl x))
          else (rt, Inl x))"

definition attempt_halt :: "HaltAnswers \<Rightarrow> string \<Rightarrow> EventRuntime \<Rightarrow> EventRuntime \<times> PersistedEvent option result" where
  "attempt_halt h reason rt =
     (if rt_closed rt \<or> rt_poisoned rt \<or> jw_poisoned (rt_writer rt) then (rt, Inr None)
      else
        case ha_coordinator h of
          Some x \<Rightarrow>
            if is_global_halt x
            then (case attempt_preobserved_global_halt h rt of
                    (rt', Inl y) \<Rightarrow> (rt', Inl y)
                  | (rt', Inr u) \<Rightarrow> (rt', Inr None))
            else (rt, Inl x)
        | None \<Rightarrow>
            if (case ha_gate h of None \<Rightarrow> False | Some x \<Rightarrow> \<not> is_gate_error x \<and> is_global_halt x)
            then (rt\<lparr>rt_closed := True\<rparr>, Inr None)
            else
              case close_with (ha_write h) True (ha_closes h) rt False reason of
                (rt', Inr e) \<Rightarrow> (rt'\<lparr>rt_closed := True\<rparr>, Inr (Some e))
              | (rt', Inl x) \<Rightarrow>
                  (poison rt', Inl (if is_durability_error x then x
                                    else JournalDurabilityError ''journal_terminal_outcome_uncertain'')))"

definition halt_and_raise :: "HaltAnswers \<Rightarrow> string \<Rightarrow> EventRuntime \<Rightarrow> exn \<Rightarrow> EventRuntime \<times> 'a result" where
  \<comment> \<open>\<open>self._attempt_halt(reason)\<close> followed by \<open>raise\<close>\<close>
  "halt_and_raise h reason rt x =
     (case attempt_halt h reason rt of (rt', Inl y) \<Rightarrow> (rt', Inl y) | (rt', Inr u) \<Rightarrow> (rt', Inl x))"

definition poison_unless_closed :: "EventRuntime \<Rightarrow> EventRuntime" where
  "poison_unless_closed rt = (if rt_closed rt then rt else poison rt)"

subsection \<open>Starting\<close>

definition require_owner_and_healthy :: "bool \<Rightarrow> EventRuntime \<Rightarrow> exn option" where
  "require_owner_and_healthy owner rt = first_raise
     [require owner (WrongOwnerThread ''runtime_wrong_owner_thread''),
      require (\<not> (rt_poisoned rt \<or> rt_closed rt \<or> jw_poisoned (rt_writer rt)))
        (RuntimePoisoned ''runtime_permanently_unavailable'')]"

definition start_runtime ::
  "HaltAnswers \<Rightarrow> exn option \<Rightarrow> exn option \<Rightarrow> exn option \<Rightarrow> JournalWriter \<Rightarrow> FoundationState \<Rightarrow> (JournalWriter \<times> exn) + EventRuntime" where
  \<comment> \<open>\<open>EventRuntime.__init__\<close> for an authorizer and a coordinator bound to the writer's manifest: the answers are those of
    the claim, the coordinator and the session gate; an error is returned with the writer it leaves\<close>
  "start_runtime h claim coordinator gate w s =
     (let m = jw_session_manifest w; start = jw_session_start w
      in case initial_state (sm_session_id m) of
           Inl x \<Rightarrow> Inl (w, x)
         | Inr s0 \<Rightarrow>
             if s \<noteq> s0 then Inl (w, ValueError ''runtime_requires_exact_initial_state'')
             else
               case bind_result (canonical_session_manifest_bytes m) (\<lambda>b.
                      if ev_session_id start \<noteq> sm_session_id m \<or> ev_payload start \<noteq> b
                      then Inl (ValueError ''runtime_session_start_binding_mismatch'') else initial_trace start) of
                 Inl x \<Rightarrow> Inl (w, if is_value_error x then ValueError ''runtime_session_start_binding_mismatch'' else x)
               | Inr trace \<Rightarrow>
                   let rt = \<lparr>rt_writer = w, rt_state = s, rt_trace = trace, rt_poisoned = False, rt_closed = False\<rparr>;
                       (w1, claimed) = claim_runtime (claim = None) (case claim of None \<Rightarrow> AssertionError | Some x \<Rightarrow> x) w;
                       rt1 = rt\<lparr>rt_writer := w1\<rparr>
                   in case claimed of
                        Inl x \<Rightarrow> Inl (w1, x)
                      | Inr u \<Rightarrow>
                          case require_coordinator coordinator h rt1 of
                            (rt2, Inl x) \<Rightarrow>
                              Inl (rt_writer (fst (attempt_halt h ''initialization_failure'' rt2)), x)
                          | (rt2, Inr u) \<Rightarrow>
                              (case gate of
                                 Some x \<Rightarrow> Inl (rt_writer (fst (attempt_halt h ''initialization_failure'' rt2)), x)
                               | None \<Rightarrow> Inr rt2))"

subsection \<open>Ingesting an input\<close>

definition authorize_persist ::
  "(CapturedInput \<Rightarrow> exn option) \<Rightarrow> exn + int \<Rightarrow> SessionManifest \<Rightarrow> CapturedInput \<Rightarrow> int option result" where
  "authorize_persist payload_check allowed m c =
     checked (validate_captured_input payload_check c m)
       (if ci_source_kind c \<noteq> PROVIDER then Inr None
        else bind_result allowed (\<lambda>until.
          if until < sm_required_retention_until_ns m then Inl (ProviderGateError ''RETENTION_TOO_SHORT'')
          else Inr (Some (sm_required_retention_until_ns m))))"

definition admit ::
  "(CapturedInput \<Rightarrow> exn option) \<Rightarrow> IngestAnswers \<Rightarrow> EventRuntime \<Rightarrow> CapturedInput \<Rightarrow> EventRuntime \<times> int option result" where
  \<comment> \<open>the first \<open>try\<close> block of \<open>ingest\<close>\<close>
  "admit payload_check a rt c =
     (case require_coordinator (ia_admission a) (ia_halt a) rt of
        (rt1, Inl x) \<Rightarrow> (rt1, Inl x)
      | (rt1, Inr u) \<Rightarrow>
          (rt1,
           checked (ia_ingest_gate a)
             (checked (validate_captured_input payload_check c (jw_session_manifest (rt_writer rt1)))
               (authorize_persist payload_check (ia_persist_gate a) (jw_session_manifest (rt_writer rt1)) c))))"

definition store_raw ::
  "(CapturedInput \<Rightarrow> exn option) \<Rightarrow> IngestAnswers \<Rightarrow> EventRuntime \<Rightarrow> CapturedInput \<Rightarrow> EventRuntime \<times> PersistedEvent result" where
  "store_raw payload_check a rt c =
     (case require_coordinator (ia_before_raw a) (ia_halt a) rt of
        (rt1, Inl x) \<Rightarrow> (rt1, Inl x)
      | (rt1, Inr u) \<Rightarrow>
          let (w, r) = append_raw payload_check (ia_raw_write a) (rt_writer rt1) c
          in (rt1\<lparr>rt_writer := w\<rparr>, r))"

fun store_derived ::
  "IngestAnswers \<Rightarrow> nat \<Rightarrow> EventRuntime \<Rightarrow> PersistedEvent \<Rightarrow> DerivedDraft list \<Rightarrow> EventRuntime \<times> PersistedEvent list result" where
  "store_derived a i rt raw [] = (rt, Inr [])"
| "store_derived a i rt raw (d # ds) =
     (case require_coordinator (ia_before_derived a i) (ia_halt a) rt of
        (rt1, Inl x) \<Rightarrow> (rt1, Inl x)
      | (rt1, Inr u) \<Rightarrow>
          if ev_record_kind raw \<noteq> RAW \<or> ev_session_id raw \<noteq> sm_session_id (jw_session_manifest (rt_writer rt1))
          then (rt1, Inl (CaptureValidationError ''derived_session_binding_invalid''))
          else
            case ia_derived_gate a i of
              Some x \<Rightarrow> (rt1, Inl x)
            | None \<Rightarrow>
                case append_derived (ia_derived_write a i) (rt_writer rt1) raw d of
                  (w, Inl x) \<Rightarrow> (rt1\<lparr>rt_writer := w\<rparr>, Inl x)
                | (w, Inr e) \<Rightarrow>
                    case store_derived a (Suc i) (rt1\<lparr>rt_writer := w\<rparr>) raw ds of
                      (rt2, Inl x) \<Rightarrow> (rt2, Inl x)
                    | (rt2, Inr es) \<Rightarrow> (rt2, Inr (e # es)))"

definition reduce_stored ::
  "IngestAnswers \<Rightarrow> EventRuntime \<Rightarrow> PersistedEvent \<Rightarrow> EventRuntime \<times> string \<times> (FoundationState \<times> bytes) result" where
  \<comment> \<open>the last \<open>try\<close> block of \<open>ingest\<close>: the runtime it leaves, \<open>failure_reason\<close> and the new state and trace\<close>
  "reduce_stored a rt raw =
     (case require_coordinator (ia_before_transform a) (ia_halt a) rt of
        (rt1, Inl x) \<Rightarrow> (rt1, ''reducer_exception'', Inl x)
      | (rt1, Inr u) \<Rightarrow>
          if ev_record_kind raw \<noteq> RAW \<or> ev_session_id raw \<noteq> sm_session_id (jw_session_manifest (rt_writer rt1))
          then (rt1, ''reducer_exception'', Inl (CaptureValidationError ''raw_session_binding_invalid''))
          else
            case checked (ia_transform_gate a) (reduce_event (rt_state rt1) raw) of
              Inl x \<Rightarrow> (rt1, ''reducer_exception'', Inl x)
            | Inr reduction \<Rightarrow>
                let reason = (if rd_outputs reduction = [] then ''reducer_exception'' else ''derived_validation_failure'')
                in case store_derived a 0 rt1 raw (rd_outputs reduction) of
                     (rt2, Inl x) \<Rightarrow> (rt2, reason, Inl x)
                   | (rt2, Inr stored) \<Rightarrow>
                       case require_coordinator (ia_before_poll a) (ia_halt a) rt2 of
                         (rt3, Inl x) \<Rightarrow> (rt3, reason, Inl x)
                       | (rt3, Inr u) \<Rightarrow>
                           case ia_poll a of
                             Inl x \<Rightarrow> (rt3, reason, Inl x)
                           | Inr ended \<Rightarrow>
                               if ended then (rt3, reason, Inl (ProviderGateError ''SESSION_WINDOW_EXCEEDS_ACCESS''))
                               else (rt3, ''trace_exception'',
                                     bind_result (next_trace (rt_trace rt3) raw stored (rd_state reduction)) (\<lambda>trace.
                                       Inr (rd_state reduction, trace))))"

definition runtime_ingest ::
  "(CapturedInput \<Rightarrow> exn option) \<Rightarrow> IngestAnswers \<Rightarrow> EventRuntime \<Rightarrow> CapturedInput \<Rightarrow> EventRuntime \<times> PersistedEvent result" where
  "runtime_ingest payload_check a rt c =
     (case require_owner_and_healthy (ia_owner a) rt of
        Some x \<Rightarrow> (rt, Inl x)
      | None \<Rightarrow>
          case admit payload_check a rt c of
            (rt1, Inl x) \<Rightarrow>
              if is_gate_error x then halt_and_raise (ia_halt a) ''provider_gate_denied'' rt1 x
              else if is_capture_error x then halt_and_raise (ia_halt a) ''capture_contract_violation'' rt1 x
              else if is_global_halt x then (poison_unless_closed rt1, Inl x)
              else (rt1, Inl x)
          | (rt1, Inr delete_by) \<Rightarrow>
              if ci_retention_delete_by_ns c \<noteq> delete_by
              then halt_and_raise (ia_halt a) ''capture_contract_violation'' rt1
                     (CaptureValidationError ''retention_deadline_mismatch'')
              else
                case store_raw payload_check a rt1 c of
                  (rt2, Inl x) \<Rightarrow>
                    if is_journal_invalid x then halt_and_raise (ia_halt a) ''capture_contract_violation'' rt2 x
                    else if is_disk_low x then halt_and_raise (ia_halt a) ''disk_low'' rt2 x
                    else if is_durability_error x then (poison rt2, Inl x)
                    else if is_global_halt x then (poison_unless_closed rt2, Inl x)
                    else (rt2, Inl x)
                | (rt2, Inr raw) \<Rightarrow>
                    case reduce_stored a rt2 raw of
                      (rt3, reason, Inl x) \<Rightarrow>
                        if is_gate_error x then halt_and_raise (ia_halt a) ''provider_gate_denied'' rt3 x
                        else if is_disk_low x then halt_and_raise (ia_halt a) ''disk_low'' rt3 x
                        else if is_durability_error x then (poison rt3, Inl x)
                        else if is_global_halt x then (poison_unless_closed rt3, Inl x)
                        else halt_and_raise (ia_halt a) reason rt3 x
                    | (rt3, reason, Inr (s, trace)) \<Rightarrow> (rt3\<lparr>rt_trace := trace, rt_state := s\<rparr>, Inr raw))"

subsection \<open>Ending\<close>

definition close_clean_internal :: "CloseAnswers \<Rightarrow> string \<Rightarrow> EventRuntime \<Rightarrow> EventRuntime \<times> PersistedEvent result" where
  "close_clean_internal a reason rt =
     (case (case require_coordinator (ca_coordinator a) (ca_halt a) rt of
              (rt1, Inl x) \<Rightarrow> (rt1, Some x)
            | (rt1, Inr u) \<Rightarrow> (rt1, ca_gate a)) of
        (rt1, Some x) \<Rightarrow>
          if is_gate_error x then halt_and_raise (ca_halt a) ''provider_gate_denied'' rt1 x
          else if is_global_halt x then (poison_unless_closed rt1, Inl x)
          else (rt1, Inl x)
      | (rt1, None) \<Rightarrow>
          case close_with (ca_write a) (ca_acknowledged a) (ca_closes a) rt1 True reason of
            (rt2, Inl x) \<Rightarrow> if is_durability_error x then (poison rt2, Inl x) else (rt2, Inl x)
          | (rt2, Inr terminal) \<Rightarrow>
              case ca_marked a of
                None \<Rightarrow> (rt2\<lparr>rt_closed := True\<rparr>, Inr terminal)
              | Some x \<Rightarrow> (rt2\<lparr>rt_closed := True, rt_poisoned := True\<rparr>, Inl x))"

definition clean_public_reasons :: "string list" where "clean_public_reasons = [''operator_stop'']"
definition halt_public_reasons :: "string list" where "halt_public_reasons = [''operator_halt'']"

definition close_clean :: "CloseAnswers \<Rightarrow> string \<Rightarrow> EventRuntime \<Rightarrow> EventRuntime \<times> PersistedEvent result" where
  "close_clean a reason rt =
     (case require_owner_and_healthy (ca_owner a) rt of
        Some x \<Rightarrow> (rt, Inl x)
      | None \<Rightarrow>
          if reason \<notin> set clean_public_reasons then (rt, Inl (ValueError ''unsupported_public_clean_reason''))
          else close_clean_internal a reason rt)"

definition halt_required :: "bool \<Rightarrow> HaltAnswers \<Rightarrow> string \<Rightarrow> EventRuntime \<Rightarrow> EventRuntime \<times> PersistedEvent result" where
  \<comment> \<open>\<open>close_ingress_backpressure\<close>, \<open>close_ingress_owner_unresponsive\<close> and the body of \<open>close_halted\<close>\<close>
  "halt_required owner h reason rt =
     (case require_owner_and_healthy owner rt of
        Some x \<Rightarrow> (rt, Inl x)
      | None \<Rightarrow>
          case attempt_halt h reason rt of
            (rt', Inl x) \<Rightarrow> (rt', Inl x)
          | (rt', Inr None) \<Rightarrow> (rt', Inl (RuntimePoisoned ''halt_terminal_not_durable''))
          | (rt', Inr (Some terminal)) \<Rightarrow> (rt', Inr terminal))"

definition close_halted :: "bool \<Rightarrow> HaltAnswers \<Rightarrow> string \<Rightarrow> EventRuntime \<Rightarrow> EventRuntime \<times> PersistedEvent result" where
  "close_halted owner h reason rt =
     (case require_owner_and_healthy owner rt of
        Some x \<Rightarrow> (rt, Inl x)
      | None \<Rightarrow>
          if reason \<notin> set halt_public_reasons then (rt, Inl (ValueError ''unsupported_public_halt_reason''))
          else halt_required owner h reason rt)"

definition check_session_end :: "exn option \<Rightarrow> exn + bool \<Rightarrow> HaltAnswers \<Rightarrow> EventRuntime \<Rightarrow> EventRuntime \<times> bool result" where
  \<comment> \<open>\<open>_check_ingress_session_end_internal\<close>, and the first part of \<open>poll_entitlement\<close>\<close>
  "check_session_end coordinator poll h rt =
     (case (case require_coordinator coordinator h rt of
              (rt1, Inl x) \<Rightarrow> (rt1, Inl x)
            | (rt1, Inr u) \<Rightarrow> (rt1, poll)) of
        (rt1, Inr ended) \<Rightarrow> (rt1, Inr ended)
      | (rt1, Inl x) \<Rightarrow>
          if is_gate_error x then halt_and_raise h ''provider_gate_denied'' rt1 x
          else if is_global_halt x then (poison_unless_closed rt1, Inl x)
          else (rt1, Inl x))"

definition poll_entitlement ::
  "exn option \<Rightarrow> exn + bool \<Rightarrow> CloseAnswers \<Rightarrow> EventRuntime \<Rightarrow> EventRuntime \<times> PersistedEvent option result" where
  "poll_entitlement coordinator poll a rt =
     (case require_owner_and_healthy (ca_owner a) rt of
        Some x \<Rightarrow> (rt, Inl x)
      | None \<Rightarrow>
          case check_session_end coordinator poll (ca_halt a) rt of
            (rt1, Inl x) \<Rightarrow> (rt1, Inl x)
          | (rt1, Inr ended) \<Rightarrow>
              if ended
              then (case close_clean_internal a ''session_end'' rt1 of
                      (rt2, Inl x) \<Rightarrow> (rt2, Inl x)
                    | (rt2, Inr e) \<Rightarrow> (rt2, Inr (Some e)))
              else (rt1, Inr None))"

definition close_ingress_session_end ::
  "exn option \<Rightarrow> exn + bool \<Rightarrow> CloseAnswers \<Rightarrow> EventRuntime \<Rightarrow> EventRuntime \<times> PersistedEvent result" where
  "close_ingress_session_end coordinator poll a rt =
     (case require_owner_and_healthy (ca_owner a) rt of
        Some x \<Rightarrow> (rt, Inl x)
      | None \<Rightarrow>
          case check_session_end coordinator poll (ca_halt a) rt of
            (rt1, Inl x) \<Rightarrow> (rt1, Inl x)
          | (rt1, Inr ended) \<Rightarrow>
              if \<not> ended then (poison rt1, Inl (RuntimePoisoned ''session_end_not_current''))
              else close_clean_internal a ''session_end'' rt1)"

end
