(* ===== verification/ReplayCore.thy ===== *)
theory ReplayCore
  imports WalReader Foundation "HOL-Library.Multiset"
begin

text \<open>
  Replay of a journal (\<open>tennis_v1/replay_core.py\<close>): the raw records are reduced again, the derived records they yield are
  compared with the stored ones, and the terminal record is compared with the counts, the manifest, the final state and the
  trace.  The answers of the retention coordinator and of the persistence authorizer
  (\<open>recover_and_purge\<close>, \<open>authorize_analysis\<close>, \<open>issue_read_capability\<close>, \<open>JournalReader.create\<close>) are one argument: the
  error of the first call that fails.  Field prefixes: \<open>rr_\<close> replay result, \<open>rp_\<close> the locals of \<open>_replay\<close>.
\<close>

subsection \<open>Data\<close>

datatype ReplayMismatch =
    SESSION_MANIFEST | DERIVED_MISSING | DERIVED_EXTRA | DERIVED_ORDER | DERIVED_RECORD | RAW_REDUCTION
  | STATE | TRACE | TERMINAL_COUNTS | TERMINAL_PROVENANCE | TERMINAL_REASON

record ReplayResult =
  rr_state :: "FoundationState option"
  rr_trace_sha256 :: "string option"
  rr_raw_count :: int
  rr_derived_count :: int
  rr_terminal_clean :: bool
  rr_wal_valid :: bool
  rr_exact_replay :: bool
  rr_scan_issue :: "ScanIssue option"
  rr_replay_mismatch :: "ReplayMismatch option"

subsection \<open>Derived records\<close>

definition derived_signature :: "PersistedEvent \<Rightarrow> PersistedEvent" where
  \<comment> \<open>all fields but the sequence number\<close>
  "derived_signature e = e\<lparr>ev_ingest_seq := 0\<rparr>"

definition compare_derived_sequences ::
  "PersistedEvent list \<Rightarrow> PersistedEvent list \<Rightarrow> ReplayMismatch option result" where
  "compare_derived_sequences expected stored =
     (if length stored < length expected then Inr (Some DERIVED_MISSING)
      else if length expected < length stored then Inr (Some DERIVED_EXTRA)
      else
        bind_result (map_result encode_record expected) (\<lambda>expected_bytes.
        bind_result (map_result encode_record stored) (\<lambda>stored_bytes.
          if expected_bytes = stored_bytes then Inr None
          else
            let expected_signatures = map derived_signature expected;
                stored_signatures = map derived_signature stored
            in if expected_signatures \<noteq> stored_signatures \<and> mset expected_signatures = mset stored_signatures
               then Inr (Some DERIVED_ORDER) else Inr (Some DERIVED_RECORD))))"

definition reconstruct_derived :: "PersistedEvent \<Rightarrow> DerivedDraft \<Rightarrow> int \<Rightarrow> PersistedEvent result" where
  "reconstruct_derived raw d seq = construct persisted_event_post_init (derived_record raw d seq)"

subsection \<open>The walk over the records\<close>

record ReplayState =
  rp_state :: "FoundationState option"
  rp_trace :: "bytes option"
  rp_terminal :: "PersistedEvent option"
  rp_mismatch :: "ReplayMismatch option"
  rp_reduction_failed :: bool
  rp_pending_expected :: "PersistedEvent list"
  rp_pending_stored :: "PersistedEvent list"
  rp_pending_stored_count :: nat

definition clear_pending :: "ReplayState \<Rightarrow> ReplayState" where
  "clear_pending p = p\<lparr>rp_pending_expected := [], rp_pending_stored := [], rp_pending_stored_count := 0\<rparr>"

definition finish_pending :: "ReplayState \<Rightarrow> ReplayState result" where
  "finish_pending p =
     (if rp_reduction_failed p \<or> rp_pending_expected p = [] \<and> rp_pending_stored_count p = 0
      then Inr (clear_pending p)
      else
        bind_result
          (if length (rp_pending_expected p) < rp_pending_stored_count p then Inr (Some DERIVED_EXTRA)
           else compare_derived_sequences (rp_pending_expected p) (rp_pending_stored p)) (\<lambda>mismatch.
          Inr (clear_pending
            (if rp_mismatch p = None \<and> mismatch \<noteq> None then p\<lparr>rp_mismatch := mismatch\<rparr> else p))))"

fun reconstruct_all :: "PersistedEvent \<Rightarrow> int \<Rightarrow> DerivedDraft list \<Rightarrow> PersistedEvent list result" where
  "reconstruct_all raw seq [] = Inr []"
| "reconstruct_all raw seq (d # ds) =
     bind_result (reconstruct_derived raw d seq) (\<lambda>e. bind_result (reconstruct_all raw (seq + 1) ds) (\<lambda>es. Inr (e # es)))"

definition replay_raw :: "FoundationState \<Rightarrow> bytes \<Rightarrow> PersistedEvent \<Rightarrow> (FoundationState \<times> bytes \<times> PersistedEvent list) result" where
  \<comment> \<open>the \<open>try\<close> block of a raw record\<close>
  "replay_raw s trace e =
     bind_result (reduce_event s e) (\<lambda>reduction.
     bind_result (reconstruct_all e (ev_ingest_seq e + 1) (rd_outputs reduction)) (\<lambda>expected.
     bind_result (next_trace trace e expected (rd_state reduction)) (\<lambda>next_value.
       Inr (rd_state reduction, next_value, expected))))"

definition replay_event :: "ReplayState \<Rightarrow> PersistedEvent \<Rightarrow> ReplayState result" where
  "replay_event p e =
     (case ev_record_kind e of
        RAW \<Rightarrow>
          bind_result (finish_pending p) (\<lambda>p.
            if rp_reduction_failed p then Inr p
            else
              case (rp_state p, rp_trace p) of
                (Some s, Some trace) \<Rightarrow>
                  (case replay_raw s trace e of
                     Inr (s', trace', expected) \<Rightarrow>
                       Inr (p\<lparr>rp_state := Some s', rp_trace := Some trace', rp_pending_expected := expected,
                              rp_pending_stored := [], rp_pending_stored_count := 0\<rparr>)
                   | Inl x \<Rightarrow>
                       if is_value_error x
                       then Inr (clear_pending (p\<lparr>rp_mismatch := (if rp_mismatch p = None then Some RAW_REDUCTION else rp_mismatch p),
                              rp_state := None, rp_trace := None, rp_reduction_failed := True\<rparr>))
                       else Inl x)
              | _ \<Rightarrow> Inl AssertionError)
      | DERIVED \<Rightarrow>
          Inr (if rp_reduction_failed p then p
               else p\<lparr>rp_pending_stored_count := rp_pending_stored_count p + 1,
                      rp_pending_stored :=
                        (if length (rp_pending_stored p) < length (rp_pending_expected p) + 1
                         then rp_pending_stored p @ [e] else rp_pending_stored p)\<rparr>)
      | CONTROL \<Rightarrow> bind_result (finish_pending p) (\<lambda>p. Inr (p\<lparr>rp_terminal := Some e\<rparr>)))"

fun replay_events :: "ReplayState \<Rightarrow> PersistedEvent list \<Rightarrow> ReplayState result" where
  "replay_events p [] = finish_pending p"
| "replay_events p (e # es) = bind_result (replay_event p e) (\<lambda>p'. replay_events p' es)"

subsection \<open>The terminal\<close>

definition exact_clean_reasons :: "string list" where
  "exact_clean_reasons = [''operator_stop'', ''session_end'']"

definition replay_terminal_payload :: "PersistedEvent \<Rightarrow> (utext \<times> jvalue) list result" where
  \<comment> \<open>the reader has accepted the payload as a canonical object, so reading it again without the hooks
    gives the same object\<close>
  "replay_terminal_payload e = journal_object (ev_payload e) terminal_keys ''journal_terminal_contract''"

definition terminal_mismatch ::
  "SessionManifest \<Rightarrow> ScanSummary \<Rightarrow> ReplayState \<Rightarrow> PersistedEvent \<Rightarrow> (utext \<times> jvalue) list \<Rightarrow> ReplayMismatch option result" where
  "terminal_mismatch m summary p terminal kvs =
     (if member kvs ''record_count_before_terminal'' \<noteq> JvInt (ss_record_count summary - 1)
         \<or> member kvs ''raw_count'' \<noteq> JvInt (ss_raw_count summary)
         \<or> member kvs ''derived_count'' \<noteq> JvInt (ss_derived_count summary)
         \<or> member kvs ''last_applied_raw_seq'' \<noteq> jv_optional (\<lambda>s. JvInt (fs_last_applied_raw_seq s)) (rp_state p)
      then Inr (Some TERMINAL_COUNTS)
      else
        bind_result (session_manifest_sha256 m) (\<lambda>digest.
        if list_ex (\<lambda>(key, v). map_of kvs key \<noteq> Some v) (terminal_provenance m digest)
           \<or> ev_local_wall_ns terminal \<noteq> sm_created_wall_ns m \<or> ev_local_monotonic_ns terminal \<noteq> 0
        then Inr (Some TERMINAL_PROVENANCE)
        else if member kvs ''clean'' \<noteq> JvBool True \<or> member kvs ''reason'' \<notin> set (map jv_text exact_clean_reasons)
        then Inr (Some TERMINAL_REASON)
        else
          case rp_state p of
            None \<Rightarrow> Inr (Some STATE)
          | Some s \<Rightarrow>
              bind_result (canonical_state_bytes s) (\<lambda>b.
                if member kvs ''final_state_sha256'' \<noteq> jv_text (hexdigest (sha256 b)) then Inr (Some STATE)
                else
                  case rp_trace p of
                    None \<Rightarrow> Inr (Some TRACE)
                  | Some trace \<Rightarrow>
                      Inr (if member kvs ''trace_sha256'' \<noteq> jv_text (hexdigest trace) then Some TRACE else None))))"

definition replay_result :: "ScanSummary \<Rightarrow> ReplayState \<Rightarrow> ReplayMismatch option \<Rightarrow> ReplayResult" where
  "replay_result summary p mismatch =
     \<lparr>rr_state = rp_state p, rr_trace_sha256 = map_option hexdigest (rp_trace p), rr_raw_count = ss_raw_count summary,
      rr_derived_count = ss_derived_count summary, rr_terminal_clean = ss_terminal_clean summary,
      rr_wal_valid = ss_wal_valid summary,
      rr_exact_replay =
        (rp_state p \<noteq> None \<and> rp_trace p \<noteq> None \<and> ss_terminal_clean summary \<and> ss_wal_valid summary
         \<and> ss_issue summary = None \<and> mismatch = None),
      rr_scan_issue = ss_issue summary, rr_replay_mismatch = mismatch\<rparr>"

definition finish_replay :: "SessionManifest \<Rightarrow> ScanSummary \<Rightarrow> ReplayState \<Rightarrow> ReplayResult result" where
  "finish_replay m summary p =
     bind_result
       (case rp_terminal p of
          None \<Rightarrow> Inr (rp_mismatch p)
        | Some terminal \<Rightarrow>
            bind_result (replay_terminal_payload terminal) (\<lambda>kvs.
              if rp_mismatch p \<noteq> None then Inr (rp_mismatch p) else terminal_mismatch m summary p terminal kvs)) (\<lambda>mismatch.
       Inr (replay_result summary p mismatch))"

subsection \<open>Replay\<close>

definition manifest_mismatch_result :: ReplayResult where
  "manifest_mismatch_result =
     \<lparr>rr_state = None, rr_trace_sha256 = None, rr_raw_count = 0, rr_derived_count = 0, rr_terminal_clean = False,
      rr_wal_valid = False, rr_exact_replay = False, rr_scan_issue = None, rr_replay_mismatch = Some SESSION_MANIFEST\<rparr>"

definition replay_start :: "PersistedEvent \<Rightarrow> SessionManifest result" where
  \<comment> \<open>\<open>_manifest_from_start\<close>: the reader has accepted the payload\<close>
  "replay_start e =
     (case read_manifest (ev_payload e) of
        Inl x \<Rightarrow> if is_value_error x then journal_corrupt ''journal_session_manifest_invalid'' else Inl x
      | Inr m \<Rightarrow> Inr m)"

definition initial_replay :: "SessionManifest \<Rightarrow> PersistedEvent \<Rightarrow> ReplayState result" where
  "initial_replay m start =
     (case bind_result (initial_state (sm_session_id m)) (\<lambda>s. bind_result (initial_trace start) (\<lambda>trace. Inr (s, trace))) of
        Inl x \<Rightarrow> if is_value_error x then journal_corrupt ''journal_session_start_binding_invalid'' else Inl x
      | Inr (s, trace) \<Rightarrow>
          Inr \<lparr>rp_state = Some s, rp_trace = Some trace, rp_terminal = None, rp_mismatch = None, rp_reduction_failed = False,
               rp_pending_expected = [], rp_pending_stored = [], rp_pending_stored_count = 0\<rparr>)"

definition empty_replay :: ReplayState where
  "empty_replay =
     \<lparr>rp_state = None, rp_trace = None, rp_terminal = None, rp_mismatch = None, rp_reduction_failed = False,
      rp_pending_expected = [], rp_pending_stored = [], rp_pending_stored_count = 0\<rparr>"

definition replay_records :: "exn option \<Rightarrow> string \<Rightarrow> SessionManifest \<Rightarrow> PersistedEvent list \<times> ScanSummary result \<Rightarrow> ReplayResult result" where
  \<comment> \<open>the loop over the reader's records: it returns at a manifest that does not match before it reads on\<close>
  "replay_records rejection expected_sha m = (\<lambda>(es, result).
     case es of
       [] \<Rightarrow> bind_result result (\<lambda>summary. finish_replay m summary empty_replay)
     | start # rest \<Rightarrow>
         bind_result (replay_start start) (\<lambda>persisted.
         bind_result (session_manifest_sha256 persisted) (\<lambda>digest.
           if digest \<noteq> expected_sha \<or> persisted \<noteq> m then checked rejection (Inr manifest_mismatch_result)
           else
             bind_result (initial_replay persisted start) (\<lambda>p.
             bind_result (replay_events p rest) (\<lambda>p'.
             bind_result result (\<lambda>summary. finish_replay m summary p'))))))"

definition replay :: "exn option \<Rightarrow> exn option \<Rightarrow> string \<Rightarrow> SessionManifest \<Rightarrow> bytes \<Rightarrow> ReplayResult result" where
  \<comment> \<open>\<open>_replay\<close>, which \<open>replay_exact\<close> and \<open>scan_diagnostic_prefix\<close> both call: what the coordinator raises when it
    rejects a manifest that does not match, and what it raises before it gives out the read capability\<close>
  "replay rejection denial expected_sha m file =
     (if \<not> sha256_ok expected_sha then Inl (ValueError ''expected_session_manifest_sha256_invalid'')
      else
        bind_result (session_manifest_sha256 m) (\<lambda>digest.
          if digest \<noteq> expected_sha then checked rejection (Inl (ValueError ''expected_session_manifest_mismatch''))
          else
            case denial of
              Some x \<Rightarrow> Inl x
            | None \<Rightarrow> replay_records rejection expected_sha m (iter_replay_records file)))"

end
