(* ===== verification/RuntimeInvariant.thy ===== *)
theory RuntimeInvariant
  imports Runtime WalWriter ReplayCore
begin

text \<open>
  The invariant of the event runtime: while it is live, the durable records are exactly those its state and trace
  have been computed from, so replaying the file arrives at the same state and the same trace; an operation that
  leaves the two apart leaves a runtime that accepts nothing more.
\<close>

subsection \<open>Live runtimes\<close>

definition live :: "EventRuntime \<Rightarrow> bool" where
  "live rt \<longleftrightarrow> \<not> rt_closed rt \<and> \<not> rt_poisoned rt \<and> \<not> jw_poisoned (rt_writer rt)"

definition halt_answers_ok :: "HaltAnswers \<Rightarrow> bool" where
  \<comment> \<open>while a runtime uses it the coordinator is open: it refuses with a global halt, and a halt as not eligible with an
    error of its own\<close>
  "halt_answers_ok h \<longleftrightarrow>
     (case ha_coordinator h of None \<Rightarrow> True | Some x \<Rightarrow> is_global_halt x)
     \<and> (case ha_eligible h of None \<Rightarrow> True | Some x \<Rightarrow> is_retention_error x)"

definition extends :: "PersistedEvent list \<Rightarrow> EventRuntime \<Rightarrow> bool" where
  \<comment> \<open>the records acknowledged so far, with those of a halt after them\<close>
  "extends acked rt \<longleftrightarrow> (\<exists>es. journal_inv (rt_writer rt) (acked @ es))"

definition stays_or_dies :: "EventRuntime \<Rightarrow> PersistedEvent list \<Rightarrow> EventRuntime \<Rightarrow> bool" where
  "stays_or_dies rt acked rt' \<longleftrightarrow> rt' = rt \<or> \<not> live rt' \<and> extends acked rt'"

lemma extends_same: "journal_inv (rt_writer rt) acked \<Longrightarrow> extends acked rt"
  unfolding extends_def by (metis append_Nil2)

lemma extends_poison [simp]: "extends acked (poison rt) \<longleftrightarrow> extends acked rt"
  by (simp add: extends_def poison_def)

lemma extends_closed [simp]: "extends acked (rt\<lparr>rt_closed := c\<rparr>) \<longleftrightarrow> extends acked rt"
  by (simp add: extends_def)

lemma dead_poison [simp]: "\<not> live (poison rt)" "\<not> live (poison_unless_closed rt)" "\<not> live (rt\<lparr>rt_closed := True\<rparr>)"
  by (simp_all add: live_def poison_def poison_unless_closed_def)

lemma extends_poison_unless [simp]: "extends acked (poison_unless_closed rt) \<longleftrightarrow> extends acked rt"
  by (simp add: poison_unless_closed_def)

lemma write_encoded_event_Inl:
  "write_encoded_event outcome w e f halted = (w', Inl x) \<Longrightarrow> w' = w \<or> jw_poisoned w'"
  unfolding write_encoded_event_def journal_invalid_def durability_error_def Let_def
  by (auto simp: poison_writer_def split: option.splits if_splits WriteOutcome.splits)

lemma write_candidate_Inl: "write_candidate outcome w r halted = (w', Inl x) \<Longrightarrow> w' = w \<or> jw_poisoned w'"
  unfolding write_candidate_def using write_encoded_event_Inl by (fastforce split: sum.splits)

lemma append_raw_Inl: "append_raw check outcome w c = (w', Inl x) \<Longrightarrow> w' = w \<or> jw_poisoned w'"
  unfolding append_raw_def using write_candidate_Inl by (fastforce split: option.splits)

lemma close_with_extends:
  assumes "journal_inv (rt_writer rt) acked" "close_with outcome acknowledged closes rt clean reason = (rt', r)"
  shows "extends acked rt'"
proof (cases "witnesses rt")
  case (Inl x)
  then show ?thesis using assms extends_same by (simp add: close_with_def)
next
  case (Inr v)
  obtain trace final_state last_applied where v: "v = (trace, final_state, last_applied)" by (cases v)
  obtain w r' where c: "close_journal outcome acknowledged closes (rt_writer rt) clean reason trace final_state last_applied = (w, r')"
    by (cases "close_journal outcome acknowledged closes (rt_writer rt) clean reason trace final_state last_applied")
  then have "rt' = rt\<lparr>rt_writer := w\<rparr>" using assms(2) Inr v by (simp add: close_with_def)
  then show ?thesis using close_journal_inv(1)[OF assms(1) c] unfolding extends_def by auto
qed

subsection \<open>Halting\<close>

lemma preobserved_halt_dies:
  assumes inv: "journal_inv (rt_writer rt) acked" and h: "halt_answers_ok h" and a: "attempt_preobserved_global_halt h rt = (rt', r)"
  shows "\<not> live rt' \<and> extends acked rt'"
proof (cases "ha_eligible h")
  case (Some x)
  then show ?thesis
    using a h extends_same[OF inv] by (auto simp: attempt_preobserved_global_halt_def halt_answers_ok_def)
next
  case None
  obtain rt1 r1 where c: "close_with (ha_write h) True (ha_closes h) rt False ''retention_global_halt'' = (rt1, r1)"
    by (cases "close_with (ha_write h) True (ha_closes h) rt False ''retention_global_halt''")
  then show ?thesis
    using a None close_with_extends[OF inv c] by (auto simp: attempt_preobserved_global_halt_def split: sum.splits if_splits)
qed

lemma attempt_halt_dies:
  assumes inv: "journal_inv (rt_writer rt) acked" and h: "halt_answers_ok h" and a: "attempt_halt h reason rt = (rt', r)"
  shows "\<not> live rt' \<and> extends acked rt'"
proof (cases "live rt")
  case False
  then show ?thesis using a extends_same[OF inv] by (auto simp: attempt_halt_def live_def)
next
  case True
  then have l: "\<not> (rt_closed rt \<or> rt_poisoned rt \<or> jw_poisoned (rt_writer rt))" by (simp add: live_def)
  show ?thesis
  proof (cases "ha_coordinator h")
    case (Some x)
    obtain rt1 r1 where p: "attempt_preobserved_global_halt h rt = (rt1, r1)" by (cases "attempt_preobserved_global_halt h rt")
    then have "rt' = rt1"
      using a Some h l by (auto simp: attempt_halt_def halt_answers_ok_def split: sum.splits)
    then show ?thesis using preobserved_halt_dies[OF inv h p] by simp
  next
    case None
    obtain rt1 r1 where c: "close_with (ha_write h) True (ha_closes h) rt False reason = (rt1, r1)"
      by (cases "close_with (ha_write h) True (ha_closes h) rt False reason")
    show ?thesis
      using a None l close_with_extends[OF inv c] extends_same[OF inv] c
      unfolding attempt_halt_def by (auto split: sum.splits if_split_asm)
  qed
qed

lemma halt_and_raise_dies:
  assumes "journal_inv (rt_writer rt) acked" "halt_answers_ok h" "halt_and_raise h reason rt x = (rt', r)"
  shows "\<not> live rt' \<and> extends acked rt'"
proof -
  obtain rt1 r1 where a: "attempt_halt h reason rt = (rt1, r1)" by (cases "attempt_halt h reason rt")
  then have "rt' = rt1" using assms(3) by (auto simp: halt_and_raise_def split: sum.splits)
  then show ?thesis using attempt_halt_dies[OF assms(1,2) a] by simp
qed

lemma require_coordinator_stays:
  assumes "journal_inv (rt_writer rt) acked" "halt_answers_ok h" "require_coordinator answer h rt = (rt', r)"
  shows "stays_or_dies rt acked rt'" and "r = Inr u \<Longrightarrow> rt' = rt"
proof -
  obtain rt1 r1 where p: "attempt_preobserved_global_halt h rt = (rt1, r1)" by (cases "attempt_preobserved_global_halt h rt")
  note d = preobserved_halt_dies[OF assms(1,2) p]
  show "stays_or_dies rt acked rt'"
    using assms(3) p d by (auto simp: require_coordinator_def stays_or_dies_def split: option.splits if_splits sum.splits)
  show "r = Inr u \<Longrightarrow> rt' = rt"
    using assms(3) p by (auto simp: require_coordinator_def split: option.splits if_splits sum.splits)
qed

text \<open>A halt that starts from records already extended keeps the extension.\<close>

lemma extends_trans: "extends acked rt \<Longrightarrow> (\<And>es. journal_inv (rt_writer rt) (acked @ es) \<Longrightarrow> extends (acked @ es) rt') \<Longrightarrow> extends acked rt'"
  unfolding extends_def by (metis append_assoc)

lemma halt_and_raise_extends:
  assumes "extends acked rt" "halt_answers_ok h" "halt_and_raise h reason rt x = (rt', r)"
  shows "\<not> live rt' \<and> extends acked rt'"
  using assms(1) halt_and_raise_dies[OF _ assms(2,3)] unfolding extends_def by (metis append_assoc)

lemma attempt_halt_extends:
  assumes "extends acked rt" "halt_answers_ok h" "attempt_halt h reason rt = (rt', r)"
  shows "\<not> live rt' \<and> extends acked rt'"
  using assms(1) attempt_halt_dies[OF _ assms(2,3)] unfolding extends_def by (metis append_assoc)

lemma stays_or_dies_extends: "journal_inv (rt_writer rt) acked \<Longrightarrow> stays_or_dies rt acked rt' \<Longrightarrow> extends acked rt'"
  unfolding stays_or_dies_def using extends_same by blast

end
