(* ===== verification/RuntimeReplay.thy ===== *)
theory RuntimeReplay
  imports RuntimeInvariant
begin

text \<open>
  Replay of what the runtime wrote: the records of an ingested input are replayed to the state and trace the
  runtime went on with, and a session that ended cleanly replays exactly.
\<close>

subsection \<open>Replaying the records of one input\<close>

definition settled :: "ReplayState \<Rightarrow> FoundationState \<Rightarrow> bytes \<Rightarrow> bool" where
  \<comment> \<open>a replay between two inputs, without a mismatch so far\<close>
  "settled p s trace \<longleftrightarrow>
     finish_pending p = Inr (clear_pending p) \<and> rp_state p = Some s \<and> rp_trace p = Some trace \<and> rp_terminal p = None
     \<and> rp_mismatch p = None \<and> \<not> rp_reduction_failed p"

lemma clear_pending_fields [simp]:
  "rp_state (clear_pending p) = rp_state p" "rp_trace (clear_pending p) = rp_trace p"
  "rp_terminal (clear_pending p) = rp_terminal p" "rp_mismatch (clear_pending p) = rp_mismatch p"
  "rp_reduction_failed (clear_pending p) = rp_reduction_failed p" "rp_pending_expected (clear_pending p) = []"
  "rp_pending_stored (clear_pending p) = []" "rp_pending_stored_count (clear_pending p) = 0"
  by (simp_all add: clear_pending_def)

lemma frame_ok_encode: "list_all frame_ok es \<Longrightarrow> \<exists>bs. map_result encode_record es = Inr bs"
proof (induction es)
  case (Cons e es)
  then obtain m p where "encode_record e = Inr (m, p)"
    unfolding frame_ok_def encode_frame_Inr frameable_def by auto
  then show ?case using Cons by auto
qed simp

lemma compare_same: "list_all frame_ok es \<Longrightarrow> compare_derived_sequences es es = Inr None"
  using frame_ok_encode[of es] by (auto simp: compare_derived_sequences_def)

lemma replay_derived_records:
  assumes "list_all (\<lambda>e. ev_record_kind e = DERIVED) es" "\<not> rp_reduction_failed p"
    "length (rp_pending_stored p) + length es \<le> length (rp_pending_expected p)"
  shows "run_steps replay_event p es =
    Inr (p\<lparr>rp_pending_stored := rp_pending_stored p @ es, rp_pending_stored_count := rp_pending_stored_count p + length es\<rparr>)"
  using assms by (induction es arbitrary: p) (simp_all add: replay_event_def)

lemma replay_input:
  assumes p: "settled p s trace" and raw: "ev_record_kind raw = RAW" and r: "replay_raw s trace raw = Inr (s', trace', es)"
    and es: "list_all frame_ok es" "list_all (\<lambda>e. ev_record_kind e = DERIVED) es"
  obtains p' where "run_steps replay_event p (raw # es) = Inr p'" "settled p' s' trace'"
proof
  let ?p = "(clear_pending p)\<lparr>rp_state := Some s', rp_trace := Some trace', rp_pending_expected := es,
    rp_pending_stored := [], rp_pending_stored_count := 0\<rparr>"
  let ?q = "?p\<lparr>rp_pending_stored := es, rp_pending_stored_count := length es\<rparr>"
  have "replay_event p raw = Inr ?p"
    using p raw r unfolding settled_def replay_event_def by simp
  then show "run_steps replay_event p (raw # es) = Inr ?q"
    using replay_derived_records[OF es(2), of ?p] p unfolding settled_def by simp
  have "finish_pending ?q = Inr (clear_pending ?q)"
    using compare_same[OF es(1)] p unfolding finish_pending_def settled_def by simp
  then show "settled ?q s' trace'" using p unfolding settled_def by simp
qed

lemma replay_events_run: "replay_events p es = bind_result (run_steps replay_event p es) finish_pending"
  by (induction es arbitrary: p) (simp_all add: bind_result_assoc)

subsection \<open>Storing\<close>

lemma write_candidate_result:
  assumes "write_candidate outcome w r halted = (w', Inr e)"
  obtains f where "r = Inr e" "persisted_event_post_init e = None" "encode_frame e = Inr f" "ev_ingest_seq e = jw_next_seq w"
    "require_writable w = None" "w' = count_record e (w\<lparr>jw_file := jw_file w @ f\<rparr>)"
proof -
  obtain e' f where c: "candidate r = Inr (e', f)" "write_encoded_event outcome w e' f halted = (w', Inr e)"
    using assms unfolding write_candidate_def by (auto split: sum.splits)
  then show thesis using that c write_encoded_event_Inr[OF c(2)] unfolding candidate_Inr by blast
qed

lemma count_record_keeps [simp]:
  "jw_session_manifest (count_record e w) = jw_session_manifest w" "jw_poisoned (count_record e w) = jw_poisoned w"
  "jw_closed (count_record e w) = jw_closed w" "jw_next_seq (count_record e w) = jw_next_seq w + 1"
  "jw_file (count_record e w) = jw_file w"
  by (simp_all add: count_record_def Let_def split: RecordKind.split)

lemma append_derived_result:
  assumes "append_derived outcome w raw d = (w', Inr e)"
  shows "reconstruct_derived raw d (jw_next_seq w) = Inr e \<and> jw_next_seq w' = jw_next_seq w + 1 \<and> frame_ok e
    \<and> ev_record_kind e = DERIVED \<and> jw_session_manifest w' = jw_session_manifest w \<and> jw_poisoned w' = jw_poisoned w
    \<and> jw_closed w' = jw_closed w \<and> latest_raw_seq w' = latest_raw_seq w"
proof -
  obtain outcome' where "write_candidate outcome w (Inr (derived_record raw d (jw_next_seq w))) False = (w', Inr e)"
    using assms unfolding append_derived_def journal_invalid_def by (auto split: option.splits if_splits)
  then obtain f where f: "Inr (derived_record raw d (jw_next_seq w)) = (Inr e :: PersistedEvent result)" "persisted_event_post_init e = None"
    "encode_frame e = Inr f" "w' = count_record e (w\<lparr>jw_file := jw_file w @ f\<rparr>)"
    by (rule write_candidate_result) blast
  then show ?thesis
    unfolding reconstruct_derived_def construct_def frame_ok_def
    by (auto simp: derived_record_def latest_raw_seq_def count_record_def)
qed

lemma store_derived_result:
  assumes "journal_inv (rt_writer rt) acked" "halt_answers_ok (ia_halt a)"
    "store_derived a i rt raw ds = (rt', r)"
  shows "(\<forall>x. r = Inl x \<longrightarrow> extends acked rt') \<and>
    (\<forall>es. r = Inr es \<longrightarrow> journal_inv (rt_writer rt') (acked @ es) \<and> rt' = rt\<lparr>rt_writer := rt_writer rt'\<rparr>
       \<and> reconstruct_all raw (jw_next_seq (rt_writer rt)) ds = Inr es \<and> list_all frame_ok es
       \<and> list_all (\<lambda>e. ev_record_kind e = DERIVED) es
       \<and> jw_session_manifest (rt_writer rt') = jw_session_manifest (rt_writer rt)
       \<and> jw_poisoned (rt_writer rt') = jw_poisoned (rt_writer rt) \<and> jw_closed (rt_writer rt') = jw_closed (rt_writer rt)
       \<and> latest_raw_seq (rt_writer rt') = latest_raw_seq (rt_writer rt))"
  using assms
proof (induction ds arbitrary: i rt acked rt' r)
  case Nil
  then show ?case by auto
next
  case (Cons d ds)
  obtain rt1 r1 where c: "require_coordinator (ia_before_derived a i) (ia_halt a) rt = (rt1, r1)"
    by (cases "require_coordinator (ia_before_derived a i) (ia_halt a) rt")
  note coordinator = require_coordinator_stays[OF Cons.prems(1,2) c]
  show ?case
  proof (cases r1)
    case (Inl x)
    then show ?thesis using Cons.prems(3) c stays_or_dies_extends[OF Cons.prems(1) coordinator(1)] by auto
  next
    case (Inr u)
    then have rt1: "rt1 = rt" using coordinator(2) by simp
    obtain w r2 where ad: "append_derived (ia_derived_write a i) (rt_writer rt) raw d = (w, r2)"
      by (cases "append_derived (ia_derived_write a i) (rt_writer rt) raw d")
    have winv: "journal_inv w (acked @ acked_of r2)" using append_derived_inv[OF Cons.prems(1) ad] by blast
    show ?thesis
    proof (cases "(ev_record_kind raw \<noteq> RAW \<or> ev_session_id raw \<noteq> sm_session_id (jw_session_manifest (rt_writer rt)))
        \<or> ia_derived_gate a i \<noteq> None")
      case True
      then have "rt' = rt \<and> (\<exists>x. r = Inl x)"
        using Cons.prems(3) c Inr rt1 by (auto split: if_splits)
      then show ?thesis using extends_same[OF Cons.prems(1)] by blast
    next
      case False
      then have s: "store_derived a i rt raw (d # ds) =
        (case (w, r2) of (w, Inl x) \<Rightarrow> (rt\<lparr>rt_writer := w\<rparr>, Inl x)
         | (w, Inr e) \<Rightarrow>
             case store_derived a (Suc i) (rt\<lparr>rt_writer := w\<rparr>) raw ds of
               (rt2, Inl x) \<Rightarrow> (rt2, Inl x) | (rt2, Inr es) \<Rightarrow> (rt2, Inr (e # es)))"
        using c Inr rt1 ad by simp
      show ?thesis
      proof (cases r2)
        case (Inl x)
        then show ?thesis using s Cons.prems(3) winv unfolding extends_def by auto
      next
        case (Inr e)
        obtain rt2 r3 where rest: "store_derived a (Suc i) (rt\<lparr>rt_writer := w\<rparr>) raw ds = (rt2, r3)"
          by (cases "store_derived a (Suc i) (rt\<lparr>rt_writer := w\<rparr>) raw ds")
        have "journal_inv (rt_writer (rt\<lparr>rt_writer := w\<rparr>)) (acked @ [e])" using winv Inr by (simp add: acked_of_def)
        note ih = Cons.IH[OF this Cons.prems(2) rest]
        note ar = append_derived_result[OF ad[unfolded Inr]]
        show ?thesis
        proof (cases r3)
          case (Inl x)
          then have "extends (acked @ [e]) rt'" "\<exists>x. r = Inl x"
            using ih s Inr rest Cons.prems(3) by auto
          then show ?thesis unfolding extends_def by auto
        next
          case (Inr es)
          then have "rt' = rt2" "r = Inr (e # es)" using s \<open>r2 = Inr e\<close> rest Cons.prems(3) by auto
          then show ?thesis using ih Inr ar by auto
        qed
      qed
    qed
  qed
qed

subsection \<open>Ingesting\<close>

definition synced :: "SessionManifest \<Rightarrow> EventRuntime \<Rightarrow> PersistedEvent list \<Rightarrow> bool" where
  \<comment> \<open>replaying the records from the first one arrives at the state and trace of the runtime\<close>
  "synced m rt acked \<longleftrightarrow>
     jw_session_manifest (rt_writer rt) = m \<and> \<not> jw_closed (rt_writer rt) \<and> state_ok (rt_state rt) \<and> length (rt_trace rt) = 32
     \<and> fs_last_applied_raw_seq (rt_state rt) = latest_raw_seq (rt_writer rt)
     \<and> (\<exists>start rest p0 p. acked = start # rest \<and> replay_start start = Inr m \<and> initial_replay m start = Inr p0
          \<and> run_steps replay_event p0 rest = Inr p \<and> settled p (rt_state rt) (rt_trace rt))"

definition runtime_inv :: "SessionManifest \<Rightarrow> EventRuntime \<Rightarrow> bool" where
  "runtime_inv m rt \<longleftrightarrow> (\<exists>acked. journal_inv (rt_writer rt) acked \<and> (live rt \<longrightarrow> synced m rt acked))"

lemma dead_inv: "extends acked rt \<Longrightarrow> \<not> live rt \<Longrightarrow> runtime_inv m rt"
  unfolding runtime_inv_def extends_def by blast

lemma stays_inv:
  "journal_inv (rt_writer rt) acked \<Longrightarrow> live rt \<longrightarrow> synced m rt acked \<Longrightarrow> stays_or_dies rt acked rt' \<Longrightarrow> runtime_inv m rt'"
  unfolding stays_or_dies_def using dead_inv unfolding runtime_inv_def by blast

lemma append_raw_result:
  assumes "append_raw check outcome w c = (w', Inr e)"
  shows "e = raw_record c (jw_next_seq w)" and "jw_next_seq w' = ev_ingest_seq e + 1" and "frame_ok e"
    and "jw_session_manifest w' = jw_session_manifest w" and "jw_poisoned w' = jw_poisoned w"
    and "jw_closed w' = jw_closed w" and "latest_raw_seq w' = ev_ingest_seq e"
proof -
  have "write_candidate outcome w (raw_candidate check w c) False = (w', Inr e)"
    using assms unfolding append_raw_def by (auto split: option.splits)
  then obtain f where f: "raw_candidate check w c = Inr e" "encode_frame e = Inr f" "ev_ingest_seq e = jw_next_seq w"
    "w' = count_record e (w\<lparr>jw_file := jw_file w @ f\<rparr>)"
    by (rule write_candidate_result) blast
  show "e = raw_record c (jw_next_seq w)"
    using f(1) unfolding raw_candidate_def journal_invalid_def by (auto split: if_splits)
  show "jw_next_seq w' = ev_ingest_seq e + 1" "frame_ok e" "jw_session_manifest w' = jw_session_manifest w"
    "jw_poisoned w' = jw_poisoned w" "jw_closed w' = jw_closed w"
    using f(2-4) by (simp_all add: frame_ok_def)
  have "ev_record_kind e = RAW" using \<open>e = raw_record c (jw_next_seq w)\<close> by (simp add: raw_record_def)
  then show "latest_raw_seq w' = ev_ingest_seq e" using f(4) by (simp add: count_record_def latest_raw_seq_def)
qed

lemma store_raw_result:
  assumes inv: "journal_inv (rt_writer rt) acked" and h: "halt_answers_ok (ia_halt a)"
    and s: "store_raw check a rt c = (rt', r)"
  shows "r = Inl x \<Longrightarrow> stays_or_dies rt acked rt'"
    and "r = Inr raw \<Longrightarrow> journal_inv (rt_writer rt') (acked @ [raw]) \<and> rt' = rt\<lparr>rt_writer := rt_writer rt'\<rparr>
      \<and> jw_next_seq (rt_writer rt') = ev_ingest_seq raw + 1 \<and> frame_ok raw \<and> ev_record_kind raw = RAW
      \<and> jw_session_manifest (rt_writer rt') = jw_session_manifest (rt_writer rt)
      \<and> jw_poisoned (rt_writer rt') = jw_poisoned (rt_writer rt) \<and> jw_closed (rt_writer rt') = jw_closed (rt_writer rt)
      \<and> latest_raw_seq (rt_writer rt') = ev_ingest_seq raw"
proof -
  obtain rt1 r1 where c: "require_coordinator (ia_before_raw a) (ia_halt a) rt = (rt1, r1)"
    by (cases "require_coordinator (ia_before_raw a) (ia_halt a) rt")
  note coordinator = require_coordinator_stays[OF inv h c]
  obtain w r2 where ar: "append_raw check (ia_raw_write a) (rt_writer rt) c = (w, r2)"
    by (cases "append_raw check (ia_raw_write a) (rt_writer rt) c")
  have winv: "journal_inv w (acked @ acked_of r2)" using append_raw_inv[OF inv ar] by blast
  have stored: "rt' = rt\<lparr>rt_writer := w\<rparr> \<and> r = r2" if "r1 = Inr u" for u
    using s c ar that coordinator(2)[OF that] by (simp add: store_raw_def)
  show "stays_or_dies rt acked rt'" if r: "r = Inl x"
  proof (cases r1)
    case (Inl y)
    then show ?thesis using s c coordinator(1) by (simp add: store_raw_def)
  next
    case (Inr u)
    have r2: "r2 = Inl x" and rt': "rt' = rt\<lparr>rt_writer := w\<rparr>" using stored[OF Inr] r by simp_all
    have "w = rt_writer rt \<or> jw_poisoned w" by (rule append_raw_Inl[OF ar[unfolded r2]])
    moreover have "extends acked rt'" using extends_same[of rt' acked] winv r2 rt' by (simp add: acked_of_def)
    ultimately show ?thesis using rt' unfolding stays_or_dies_def live_def by auto
  qed
  assume r: "r = Inr raw"
  then obtain u where u: "r1 = Inr u" using s c by (cases r1) (auto simp: store_raw_def)
  have r2: "r2 = Inr raw" and rt': "rt' = rt\<lparr>rt_writer := w\<rparr>" using stored[OF u] r by simp_all
  note ar' = append_raw_result[OF ar[unfolded r2]]
  show "journal_inv (rt_writer rt') (acked @ [raw]) \<and> rt' = rt\<lparr>rt_writer := rt_writer rt'\<rparr>
      \<and> jw_next_seq (rt_writer rt') = ev_ingest_seq raw + 1 \<and> frame_ok raw \<and> ev_record_kind raw = RAW
      \<and> jw_session_manifest (rt_writer rt') = jw_session_manifest (rt_writer rt)
      \<and> jw_poisoned (rt_writer rt') = jw_poisoned (rt_writer rt) \<and> jw_closed (rt_writer rt') = jw_closed (rt_writer rt)
      \<and> latest_raw_seq (rt_writer rt') = ev_ingest_seq raw"
    using winv r2 rt' ar' by (auto simp: acked_of_def raw_record_def)
qed

definition outputs_stored ::
  "EventRuntime \<Rightarrow> PersistedEvent list \<Rightarrow> EventRuntime \<Rightarrow> PersistedEvent \<Rightarrow> FoundationState \<Rightarrow> bytes \<Rightarrow> bool" where
  \<comment> \<open>the derived records of a stored raw record are durable, and replay computes the same ones and the same step\<close>
  "outputs_stored rt acked rt' raw s' trace' \<longleftrightarrow>
     (\<exists>es. journal_inv (rt_writer rt') (acked @ es) \<and> rt' = rt\<lparr>rt_writer := rt_writer rt'\<rparr>
        \<and> replay_raw (rt_state rt) (rt_trace rt) raw = Inr (s', trace', es) \<and> list_all frame_ok es
        \<and> list_all (\<lambda>e. ev_record_kind e = DERIVED) es
        \<and> jw_session_manifest (rt_writer rt') = jw_session_manifest (rt_writer rt)
        \<and> jw_poisoned (rt_writer rt') = jw_poisoned (rt_writer rt)
        \<and> jw_closed (rt_writer rt') = jw_closed (rt_writer rt) \<and> latest_raw_seq (rt_writer rt') = latest_raw_seq (rt_writer rt))"

lemma reduce_stored_result:
  assumes inv: "journal_inv (rt_writer rt) acked" and h: "halt_answers_ok (ia_halt a)"
    and s: "reduce_stored a rt raw = (rt', reason, r)"
  shows "r = Inl x \<Longrightarrow> extends acked rt'"
    and "r = Inr (s', trace') \<Longrightarrow> jw_next_seq (rt_writer rt) = ev_ingest_seq raw + 1 \<Longrightarrow>
      outputs_stored rt acked rt' raw s' trace'"
proof -
  obtain rt1 r1 where c: "require_coordinator (ia_before_transform a) (ia_halt a) rt = (rt1, r1)"
    by (cases "require_coordinator (ia_before_transform a) (ia_halt a) rt")
  note coordinator = require_coordinator_stays[OF inv h c]
  have same: "extends acked rt" by (rule extends_same[OF inv])
  have goal: "(r = Inl x \<longrightarrow> extends acked rt') \<and> (r = Inr (s', trace') \<longrightarrow> jw_next_seq (rt_writer rt) = ev_ingest_seq raw + 1 \<longrightarrow>
      outputs_stored rt acked rt' raw s' trace')"
  proof (cases r1)
    case (Inl y)
    then show ?thesis using s c stays_or_dies_extends[OF inv coordinator(1)] by (auto simp: reduce_stored_def)
  next
    case (Inr u)
    then have rt1: "rt1 = rt" using coordinator(2) by simp
    show ?thesis
    proof (cases "(ev_record_kind raw \<noteq> RAW \<or> ev_session_id raw \<noteq> sm_session_id (jw_session_manifest (rt_writer rt)))
        \<or> (\<exists>x. checked (ia_transform_gate a) (reduce_event (rt_state rt) raw) = Inl x)")
      case True
      then have "rt' = rt \<and> (\<exists>x. r = Inl x)" using s c Inr rt1 by (auto simp: reduce_stored_def split: if_splits)
      then show ?thesis using same by auto
    next
      case False
      then obtain reduction where red: "checked (ia_transform_gate a) (reduce_event (rt_state rt) raw) = Inr reduction"
        by (cases "checked (ia_transform_gate a) (reduce_event (rt_state rt) raw)") auto
      then have red': "reduce_event (rt_state rt) raw = Inr reduction" unfolding checked_def by (auto split: option.splits)
      obtain rt2 r2 where sd: "store_derived a 0 rt raw (rd_outputs reduction) = (rt2, r2)"
        by (cases "store_derived a 0 rt raw (rd_outputs reduction)")
      note stored = store_derived_result[OF inv h sd]
      show ?thesis
      proof (cases r2)
        case (Inl y)
        then have "rt' = rt2" "\<exists>x. r = Inl x"
          using s c Inr rt1 red sd False by (auto simp: reduce_stored_def Let_def)
        then show ?thesis using stored Inl by auto
      next
        case (Inr es)
        have es: "journal_inv (rt_writer rt2) (acked @ es)" "rt2 = rt\<lparr>rt_writer := rt_writer rt2\<rparr>"
          "reconstruct_all raw (jw_next_seq (rt_writer rt)) (rd_outputs reduction) = Inr es" "list_all frame_ok es"
          "list_all (\<lambda>e. ev_record_kind e = DERIVED) es" "jw_session_manifest (rt_writer rt2) = jw_session_manifest (rt_writer rt)"
          "jw_poisoned (rt_writer rt2) = jw_poisoned (rt_writer rt)"
          "jw_closed (rt_writer rt2) = jw_closed (rt_writer rt)" "latest_raw_seq (rt_writer rt2) = latest_raw_seq (rt_writer rt)"
          using stored Inr by blast+
        obtain rt3 r3 where c3: "require_coordinator (ia_before_poll a) (ia_halt a) rt2 = (rt3, r3)"
          by (cases "require_coordinator (ia_before_poll a) (ia_halt a) rt2")
        note coordinator3 = require_coordinator_stays[OF es(1) h c3]
        have ext2: "extends acked rt2" using es(1) unfolding extends_def by blast
        have ext3: "extends acked rt3"
          using stays_or_dies_extends[OF es(1) coordinator3(1)] unfolding extends_def by auto
        have step: "reduce_stored a rt raw =
          (let reason = (if rd_outputs reduction = [] then ''reducer_exception'' else ''derived_validation_failure'')
           in case r3 of
             Inl x \<Rightarrow> (rt3, reason, Inl x)
           | Inr u \<Rightarrow>
             (case ia_poll a of
                Inl x \<Rightarrow> (rt3, reason, Inl x)
              | Inr ended \<Rightarrow>
                  if ended then (rt3, reason, Inl (ProviderGateError ''SESSION_WINDOW_EXCEEDS_ACCESS''))
                  else (rt3, ''trace_exception'',
                        bind_result (next_trace (rt_trace rt3) raw es (rd_state reduction)) (\<lambda>trace.
                          Inr (rd_state reduction, trace)))))"
          unfolding reduce_stored_def c \<open>r1 = Inr u\<close> rt1 using False red sd Inr c3 by (simp add: Let_def)
        have rt'3: "rt' = rt3"
          using s unfolding step Let_def by (auto split: sum.splits if_split_asm)
        show ?thesis
        proof (intro conjI impI)
          show "extends acked rt'" using rt'3 ext3 by simp
        next
          assume r: "r = Inr (s', trace')" and seq: "jw_next_seq (rt_writer rt) = ev_ingest_seq raw + 1"
          obtain u where u: "r3 = Inr u" using s r unfolding step Let_def by (cases r3) auto
          then have rt3: "rt3 = rt2" using coordinator3(2) by simp
          have "bind_result (next_trace (rt_trace rt3) raw es (rd_state reduction)) (\<lambda>trace. Inr (rd_state reduction, trace))
              = Inr (s', trace')"
            using s r u unfolding step Let_def by (auto split: sum.splits if_split_asm)
          then have trace: "next_trace (rt_trace rt2) raw es (rd_state reduction) = Inr trace'" "rd_state reduction = s'"
            unfolding rt3 by (auto simp: bind_result_eq_Inr)
          moreover have "rt_trace rt2 = rt_trace rt" by (subst es(2)) simp
          ultimately have "replay_raw (rt_state rt) (rt_trace rt) raw = Inr (s', trace', es)"
            using red' es(3) seq unfolding replay_raw_def by simp
          then show "outputs_stored rt acked rt' raw s' trace'"
            unfolding outputs_stored_def using es rt'3 rt3 by blast
        qed
      qed
    qed
  qed
  show "r = Inl x \<Longrightarrow> extends acked rt'" using goal by blast
  show "r = Inr (s', trace') \<Longrightarrow> jw_next_seq (rt_writer rt) = ev_ingest_seq raw + 1 \<Longrightarrow>
      outputs_stored rt acked rt' raw s' trace'"
    using goal by blast
qed

lemma halted_inv:
  "extends acked rt \<Longrightarrow> halt_answers_ok h \<Longrightarrow> halt_and_raise h reason rt x = (rt', r) \<Longrightarrow> runtime_inv m rt'"
  using halt_and_raise_extends dead_inv by blast

lemma next_trace_length: "next_trace trace raw es s = Inr trace' \<Longrightarrow> length trace' = 32"
  unfolding next_trace_def reducer_error_def by (auto simp: bind_result_eq_Inr split: if_splits)

lemma replay_raw_ok:
  "replay_raw s trace raw = Inr (s', trace', es) \<Longrightarrow>
     state_ok s' \<and> length trace' = 32 \<and> fs_last_applied_raw_seq s' = ev_ingest_seq raw"
  unfolding replay_raw_def using next_state_ok next_trace_length
  by (auto simp: bind_result_eq_Inr reduce_event_Inr) (simp add: next_state_def)

lemma ingested_synced:
  assumes sync: "synced m rt acked" and raw: "jw_session_manifest w = jw_session_manifest (rt_writer rt)" "ev_record_kind raw = RAW"
    "frame_ok raw" "jw_closed w = jw_closed (rt_writer rt)" "latest_raw_seq w = ev_ingest_seq raw"
    and out: "outputs_stored (rt\<lparr>rt_writer := w\<rparr>) (acked @ [raw]) rt' raw s' trace'"
  shows "\<exists>acked'. journal_inv (rt_writer rt') acked' \<and> synced m (rt'\<lparr>rt_trace := trace', rt_state := s'\<rparr>) acked'"
proof -
  obtain es where es: "journal_inv (rt_writer rt') ((acked @ [raw]) @ es)" "rt' = rt\<lparr>rt_writer := rt_writer rt'\<rparr>"
    "replay_raw (rt_state rt) (rt_trace rt) raw = Inr (s', trace', es)" "list_all frame_ok es"
    "list_all (\<lambda>e. ev_record_kind e = DERIVED) es" "jw_session_manifest (rt_writer rt') = jw_session_manifest w"
    "jw_closed (rt_writer rt') = jw_closed w" "latest_raw_seq (rt_writer rt') = latest_raw_seq w"
    using out unfolding outputs_stored_def by auto
  obtain start rest p0 p where p: "acked = start # rest" "replay_start start = Inr m" "initial_replay m start = Inr p0"
    "run_steps replay_event p0 rest = Inr p" "settled p (rt_state rt) (rt_trace rt)"
    using sync unfolding synced_def by blast
  obtain p' where p': "run_steps replay_event p (raw # es) = Inr p'" "settled p' s' trace'"
    by (rule replay_input[OF p(5) raw(2) es(3-5)])
  have "run_steps replay_event p0 (rest @ raw # es) = Inr p'"
    unfolding run_steps_append p(4) bind_result_Inr by (rule p'(1))
  then have "synced m (rt'\<lparr>rt_trace := trace', rt_state := s'\<rparr>) ((acked @ [raw]) @ es)"
    using sync p(1-3) p'(2) es(6-8) raw(1,4,5) replay_raw_ok[OF es(3)] unfolding synced_def by simp
  then show ?thesis using es(1) by blast
qed

lemma admit_stays:
  assumes "journal_inv (rt_writer rt) acked" "halt_answers_ok (ia_halt a)" "admit check a rt c = (rt', r)"
  shows "stays_or_dies rt acked rt'" and "r = Inr v \<Longrightarrow> rt' = rt"
proof -
  obtain rt1 r1 where co: "require_coordinator (ia_admission a) (ia_halt a) rt = (rt1, r1)"
    by (cases "require_coordinator (ia_admission a) (ia_halt a) rt")
  note c = require_coordinator_stays[OF assms(1,2) co]
  have "rt' = rt1" using assms(3) co by (auto simp: admit_def split: sum.splits)
  then show "stays_or_dies rt acked rt'" using c(1) by simp
  show "r = Inr v \<Longrightarrow> rt' = rt" using assms(3) co c(2) by (cases r1) (auto simp: admit_def)
qed

lemma ingest_inv:
  assumes inv: "runtime_inv m rt" and h: "halt_answers_ok (ia_halt a)"
    and i: "runtime_ingest check a rt c = (rt', r)"
  shows "runtime_inv m rt'"
proof (cases "require_owner_and_healthy (ia_owner a) rt")
  case (Some x)
  then show ?thesis using i inv by (simp add: runtime_ingest_def)
next
  case None
  then have l: "live rt" by (simp add: require_owner_and_healthy_def live_def require_def split: if_splits)
  obtain acked where j: "journal_inv (rt_writer rt) acked" and sync: "synced m rt acked"
    using inv l unfolding runtime_inv_def by blast
  obtain rt1 r1 where ad: "admit check a rt c = (rt1, r1)" by (cases "admit check a rt c")
  note admitted = admit_stays[OF j h ad]
  note ext1 = stays_or_dies_extends[OF j admitted(1)]
  show ?thesis
  proof (cases r1)
    case (Inl x)
    then show ?thesis
      using i None ad halted_inv[OF ext1 h] dead_inv ext1 stays_inv[OF j _ admitted(1)] sync
      by (auto simp: runtime_ingest_def split: if_splits)
  next
    case (Inr delete_by)
    then have rt1: "rt1 = rt" using admitted(2) by simp
    obtain rt2 r2 where sr: "store_raw check a rt c = (rt2, r2)" by (cases "store_raw check a rt c")
    note stored = store_raw_result[OF j h sr]
    show ?thesis
    proof (cases "ci_retention_delete_by_ns c \<noteq> delete_by")
      case True
      then show ?thesis
        using i None ad Inr rt1 halted_inv[OF extends_same[OF j] h] by (auto simp: runtime_ingest_def)
    next
      case False
      show ?thesis
      proof (cases r2)
        case (Inl x)
        note ext2 = stays_or_dies_extends[OF j stored(1)[OF Inl]]
        show ?thesis
          using i None ad \<open>r1 = Inr delete_by\<close> rt1 False sr Inl halted_inv[OF ext2 h] dead_inv ext2 stays_inv[OF j _ stored(1)[OF Inl]] sync
          by (auto simp: runtime_ingest_def split: if_splits)
      next
        case (Inr raw)
        obtain w where w: "rt2 = rt\<lparr>rt_writer := w\<rparr>" "journal_inv w (acked @ [raw])" "jw_next_seq w = ev_ingest_seq raw + 1"
          "frame_ok raw" "ev_record_kind raw = RAW" "jw_session_manifest w = jw_session_manifest (rt_writer rt)"
          "jw_closed w = jw_closed (rt_writer rt)" "latest_raw_seq w = ev_ingest_seq raw"
          using stored(2)[OF Inr] by blast
        obtain rt3 reason r3 where rs: "reduce_stored a rt2 raw = (rt3, reason, r3)" by (cases "reduce_stored a rt2 raw")
        have j2: "journal_inv (rt_writer rt2) (acked @ [raw])" using w(1,2) by simp
        note reduced = reduce_stored_result[OF j2 h rs]
        show ?thesis
        proof (cases r3)
          case (Inl x)
          note ext3 = reduced(1)[OF Inl]
          show ?thesis
            using i None ad \<open>r1 = Inr delete_by\<close> rt1 False sr \<open>r2 = Inr raw\<close> rs Inl halted_inv[OF ext3 h] dead_inv ext3
            by (auto simp: runtime_ingest_def split: if_splits)
        next
          case (Inr v)
          obtain s' trace' where v: "v = (s', trace')" by (cases v)
          have "outputs_stored (rt\<lparr>rt_writer := w\<rparr>) (acked @ [raw]) rt3 raw s' trace'"
            using reduced(2)[of s' trace'] Inr v w(1,3) by simp
          note resynced = ingested_synced[OF sync w(6,5,4,7,8) this]
          have "rt' = rt3\<lparr>rt_trace := trace', rt_state := s'\<rparr>"
            using i None ad \<open>r1 = Inr delete_by\<close> rt1 False sr \<open>r2 = Inr raw\<close> rs Inr v by (simp add: runtime_ingest_def)
          then show ?thesis using resynced unfolding runtime_inv_def by auto
        qed
      qed
    qed
  qed
qed

end
