(* ===== verification/RuntimeRuns.thy ===== *)
theory RuntimeRuns
  imports RuntimeReplay
begin

text \<open>
  Runs of the event runtime from its creation, and the end of a session: every operation keeps the runtime's
  invariant, and a clean close writes a journal whose replay is exact.
\<close>

subsection \<open>The terminal of a clean close\<close>

lemma close_journal_result:
  assumes "close_journal outcome acknowledged closes w clean reason trace final_state last_applied = (w', Inr e)"
  obtains payload f where "terminal_payload w clean reason trace final_state last_applied = Inr payload"
    "e = control_event (jw_session_manifest w) (jw_next_seq w) ''SESSION_HALT'' payload" "require_writable w = None"
    "w' = (count_record e (w\<lparr>jw_file := jw_file w @ f\<rparr>))\<lparr>jw_closed := True\<rparr>"
proof -
  let ?r = "bind_result (terminal_payload w clean reason trace final_state last_applied) (\<lambda>payload.
    Inr (control_event (jw_session_manifest w) (jw_next_seq w) ''SESSION_HALT'' payload))"
  obtain w1 r1 where w: "write_candidate outcome w ?r (\<not> clean) = (w1, r1)" by (cases "write_candidate outcome w ?r (\<not> clean)")
  then have r1: "r1 = Inr e" "w' = w1\<lparr>jw_closed := True\<rparr>"
    using assms unfolding close_journal_def durability_error_def by (auto split: option.splits sum.splits if_splits)
  obtain f where f: "?r = Inr e" "require_writable w = None" "w1 = count_record e (w\<lparr>jw_file := jw_file w @ f\<rparr>)"
    by (rule write_candidate_result[OF w[unfolded r1(1)]]) blast
  obtain payload where "terminal_payload w clean reason trace final_state last_applied = Inr payload"
    "e = control_event (jw_session_manifest w) (jw_next_seq w) ''SESSION_HALT'' payload"
    using f(1) unfolding bind_result_eq_Inr by auto
  then show thesis using that f(2,3) r1(2) by blast
qed

lemma grammar_of_terminal:
  "validate_terminal e m counts = Inr clean \<Longrightarrow> validate_replay_terminal_grammar e m counts = Inr clean"
  unfolding validate_terminal_def validate_replay_terminal_grammar_def journal_corrupt_def Let_def checked_def
  by (auto simp: bind_result_eq_Inr split: if_split_asm option.splits)

lemma walk_event_grammar:
  assumes "walk_event validate_terminal k e = Inr k'"
  shows "walk_event validate_replay_terminal_grammar k e = Inr k'"
  using assms grammar_of_terminal unfolding walk_event_def journal_corrupt_def
  by (auto simp: bind_result_eq_Inr split: if_split_asm option.splits)

lemma walk_records_grammar:
  "walk_records validate_terminal k es = Inr k' \<Longrightarrow> walk_records validate_replay_terminal_grammar k es = Inr k'"
proof (induction es arbitrary: k)
  case (Cons e es)
  then obtain k1 where "\<not> wk_terminal_seen k" "walk_event validate_terminal k e = Inr k1"
    "walk_records validate_terminal (walk_advance k1 e (wk_offset k + length (frame_of e))) es = Inr k'"
    by (auto simp: bind_result_eq_Inr journal_corrupt_def split: if_splits)
  then show ?case using Cons.IH walk_event_grammar by simp
qed simp

lemma terminal_object_members:
  assumes "printable (JvObj (terminal_fields m digest t))"
  shows "journal_object (json_dumps (JvObj (terminal_fields m digest t))) terminal_keys label =
    Inr (sort_key fst (terminal_fields m digest t))"
  by (rule journal_object_of_strict[OF strict_object_of_text[OF members_ok_terminal[OF assms] terminal_fields_distinct terminal_fields_keys]])

lemma terminal_matches:
  assumes digest: "session_manifest_sha256 m = Inr digest" and p: "printable (JvObj (terminal_fields m digest t))"
    and e: "e = control_event m seq ''SESSION_HALT'' (json_dumps (JvObj (terminal_fields m digest t)))"
    and t: "tm_clean t" "tm_reason t \<in> set clean_terminal_reasons" "tm_record_count t = ss_record_count summary - 1"
      "tm_raw_count t = ss_raw_count summary" "tm_derived_count t = ss_derived_count summary"
      "tm_last_applied_raw_seq t = fs_last_applied_raw_seq s" "tm_trace_sha256 t = hexdigest trace"
      "canonical_state_bytes s = Inr b" "tm_final_state_sha256 t = hexdigest (sha256 b)"
    and q: "rp_state q = Some s" "rp_trace q = Some trace" "rp_mismatch q = None" "rp_terminal q = Some e"
  shows "finish_replay m summary q = Inr (replay_result summary q None)"
proof -
  let ?kvs = "sort_key fst (terminal_fields m digest t)"
  note members = member_terminal[of m digest t, folded member_sorted[OF terminal_fields_distinct[of m digest t]]]
  have payload: "replay_terminal_payload e = Inr ?kvs"
    unfolding replay_terminal_payload_def e using terminal_object_members[OF p] by (simp add: control_event_def)
  have prov: "\<not> list_ex (\<lambda>(key, v). map_of ?kvs key \<noteq> Some v) (terminal_provenance m digest)"
    using provenance_sublist by (fastforce simp: list_ex_iff)
  have reason: "exact_clean_reasons = clean_terminal_reasons" by (simp add: exact_clean_reasons_def clean_terminal_reasons_def)
  have wall: "ev_local_wall_ns e = sm_created_wall_ns m" "ev_local_monotonic_ns e = 0" by (simp_all add: e control_event_def)
  have "terminal_mismatch m summary q e ?kvs = Inr None"
    unfolding terminal_mismatch_def digest bind_result_Inr q reason
    using t prov wall by (auto simp: members jv_optional_def image_iff)
  then show ?thesis unfolding finish_replay_def by (simp add: q payload)
qed

definition replays_exactly :: "SessionManifest \<Rightarrow> EventRuntime \<Rightarrow> bool" where
  \<comment> \<open>replaying the file under the digest of the manifest is exact and ends in the state and trace of the runtime\<close>
  "replays_exactly m rt \<longleftrightarrow>
     (\<exists>digest r. session_manifest_sha256 m = Inr digest \<and> (\<forall>rejection. replay rejection None digest m (jw_file (rt_writer rt)) = Inr r)
        \<and> rr_exact_replay r \<and> rr_state r = Some (rt_state rt) \<and> rr_trace_sha256 r = Some (hexdigest (rt_trace rt)))"

lemma clean_close_replays:
  assumes inv: "journal_inv (rt_writer rt) acked" and sync: "synced m rt acked"
    and wit: "canonical_state_bytes (rt_state rt) = Inr b"
    and c: "close_journal outcome acknowledged closes (rt_writer rt) True reason (hexdigest (rt_trace rt))
      (hexdigest (sha256 b)) (fs_last_applied_raw_seq (rt_state rt)) = (w', Inr terminal)"
  shows "replays_exactly m (rt\<lparr>rt_writer := w'\<rparr>)"
proof -
  let ?w = "rt_writer rt" and ?s = "rt_state rt" and ?trace = "rt_trace rt"
  obtain payload f where c': "terminal_payload ?w True reason (hexdigest ?trace) (hexdigest (sha256 b)) (fs_last_applied_raw_seq ?s) = Inr payload"
    "terminal = control_event (jw_session_manifest ?w) (jw_next_seq ?w) ''SESSION_HALT'' payload" "require_writable ?w = None"
    "w' = (count_record terminal (?w\<lparr>jw_file := jw_file ?w @ f\<rparr>))\<lparr>jw_closed := True\<rparr>"
    by (rule close_journal_result[OF c])
  have m: "jw_session_manifest ?w = m" using sync unfolding synced_def by blast
  obtain k0 where k0: "walk_records validate_terminal initial_walk acked = Inr k0" "writer_sim ?w k0" "list_all frame_ok acked"
    using journal_inv_healthy[OF inv c'(3)] by blast
  define t where "t = \<lparr>tm_clean = True, tm_reason = reason, tm_trace_sha256 = hexdigest ?trace, tm_final_state_sha256 = hexdigest (sha256 b),
     tm_record_count = jw_record_count ?w, tm_raw_count = jw_raw_count ?w, tm_derived_count = jw_derived_count ?w,
     tm_last_applied_raw_seq = fs_last_applied_raw_seq ?s\<rparr>"
  obtain digest where t: "session_manifest_sha256 m = Inr digest" "printable (JvObj (terminal_fields m digest t))"
    "payload = json_dumps (JvObj (terminal_fields m digest t))" "terminal_ok m (wk_counts k0) t"
    using terminal_payload_Inr[OF c'(1) k0(2)] unfolding t_def m by blast
  have winv: "journal_inv w' (acked @ [terminal])" using close_journal_inv(1)[OF inv c] by (simp add: acked_of_def)
  obtain k where k: "walk_records validate_terminal initial_walk (acked @ [terminal]) = Inr k" "wk_terminal_clean k" "wk_terminal_seen k"
    "\<not> jw_poisoned w'"
    using close_journal_inv(3)[OF inv c] by blast
  then have contents: "jw_file w' = journal_file (acked @ [terminal])" and sim: "writer_sim w' k" and ok: "list_all frame_ok (acked @ [terminal])"
    using winv unfolding journal_inv_def by auto
  define frame where "frame = \<lparr>fr_event = None, fr_end_offset = length (jw_file w'), fr_observed_size = length (jw_file w'), fr_issue = None\<rparr>"
  have walked: "iter_replay_records (jw_file w') = (acked @ [terminal], Inr (walk_summary k frame))"
    using walk_complete[OF ok walk_records_grammar[OF k(1)]] unfolding iter_replay_records_def contents frame_def by simp
  obtain start rest p0 p where p: "acked = start # rest" "replay_start start = Inr m" "initial_replay m start = Inr p0"
    "run_steps replay_event p0 rest = Inr p" "settled p ?s ?trace"
    using sync unfolding synced_def by blast
  let ?q = "(clear_pending p)\<lparr>rp_terminal := Some terminal\<rparr>"
  have kind: "ev_record_kind terminal = CONTROL" unfolding c'(2) by (simp add: control_event_def)
  have settled: "finish_pending p = Inr (clear_pending p)" using p(5) unfolding settled_def by blast
  have "finish_pending ?q = Inr (clear_pending ?q)" by (simp add: finish_pending_def)
  then have "replay_events p0 (rest @ [terminal]) = Inr (clear_pending ?q)"
    unfolding replay_events_run run_steps_append p(4) bind_result_Inr by (simp add: replay_event_def kind settled)
  moreover have "clear_pending ?q = ?q" by (simp add: clear_pending_def)
  ultimately have events: "replay_events p0 (rest @ [terminal]) = Inr ?q" by simp
  have counts: "tm_record_count t = ss_record_count (walk_summary k frame) - 1" "tm_raw_count t = ss_raw_count (walk_summary k frame)"
    "tm_derived_count t = ss_derived_count (walk_summary k frame)"
    using sim kind unfolding c'(4) t_def writer_sim_def counts_of_def walk_summary_def
    by (simp_all add: count_record_def)
  have reason: "tm_reason t \<in> set clean_terminal_reasons" using t(4) unfolding terminal_ok_def t_def by simp
  have finished: "finish_replay m (walk_summary k frame) ?q = Inr (replay_result (walk_summary k frame) ?q None)"
    using p(5) c'(2) reason counts wit t(3) m unfolding settled_def
    by (intro terminal_matches[OF t(1,2), where s = ?s and trace = ?trace and e = terminal]) (simp_all add: t_def)
  let ?r = "replay_result (walk_summary k frame) ?q None"
  have d: "sha256_ok digest" using t(1) unfolding session_manifest_sha256_def by (auto simp: bind_result_eq_Inr)
  have "\<forall>rejection. replay rejection None digest m (jw_file w') = Inr ?r"
    unfolding replay_def replay_records_def walked using d t(1) p(1-3) events finished by simp
  moreover have "rr_exact_replay ?r" "rr_state ?r = Some ?s" "rr_trace_sha256 ?r = Some (hexdigest ?trace)"
    using p(5) k(2,3) unfolding replay_result_def settled_def walk_summary_def frame_def by simp_all
  ultimately show ?thesis using t(1) unfolding replays_exactly_def by simp
qed

subsection \<open>The operations that end a session\<close>

definition close_answers_ok :: "CloseAnswers \<Rightarrow> bool" where
  "close_answers_ok a \<longleftrightarrow> halt_answers_ok (ca_halt a)"

lemma healthy_live: "require_owner_and_healthy owner rt = None \<Longrightarrow> live rt"
  by (simp add: require_owner_and_healthy_def live_def require_def split: if_splits)

lemma runtime_inv_live:
  assumes "runtime_inv m rt" "live rt"
  obtains acked where "journal_inv (rt_writer rt) acked" "synced m rt acked"
  using assms unfolding runtime_inv_def by blast

lemma close_journal_Inl:
  assumes "close_journal outcome acknowledged closes w clean reason trace final_state last_applied = (w', Inl x)"
  shows "w' = w \<or> jw_poisoned w'"
proof -
  let ?r = "bind_result (terminal_payload w clean reason trace final_state last_applied) (\<lambda>payload.
    Inr (control_event (jw_session_manifest w) (jw_next_seq w) ''SESSION_HALT'' payload))"
  obtain w1 r1 where c: "write_candidate outcome w ?r (\<not> clean) = (w1, r1)" by (cases "write_candidate outcome w ?r (\<not> clean)")
  show ?thesis
  proof (cases r1)
    case (Inl y)
    then have "w' = w \<or> w' = w1" using assms c by (auto simp: close_journal_def split: option.splits)
    then show ?thesis using write_candidate_Inl[OF c[unfolded Inl]] by blast
  next
    case (Inr e)
    then show ?thesis using assms c by (auto simp: close_journal_def durability_error_def split: option.splits if_split_asm)
  qed
qed

lemma close_with_Inl:
  assumes "close_with outcome acknowledged closes rt clean reason = (rt', Inl x)"
  shows "rt' = rt \<or> jw_poisoned (rt_writer rt')"
proof (cases "witnesses rt")
  case (Inl y)
  then show ?thesis using assms by (simp add: close_with_def)
next
  case (Inr v)
  obtain trace final_state last_applied where v: "v = (trace, final_state, last_applied)" by (cases v)
  obtain w r where c: "close_journal outcome acknowledged closes (rt_writer rt) clean reason trace final_state last_applied = (w, r)"
    by (cases "close_journal outcome acknowledged closes (rt_writer rt) clean reason trace final_state last_applied")
  then have w: "rt' = rt\<lparr>rt_writer := w\<rparr>" "r = Inl x" using assms Inr v by (simp_all add: close_with_def)
  then have "w = rt_writer rt \<or> jw_poisoned w" using close_journal_Inl[OF c[unfolded w(2)]] by blast
  then show ?thesis using w(1) by auto
qed

lemma close_with_Inr:
  assumes "close_with outcome acknowledged closes rt clean reason = (rt', Inr terminal)"
  obtains b w' where "canonical_state_bytes (rt_state rt) = Inr b" "rt' = rt\<lparr>rt_writer := w'\<rparr>"
    "close_journal outcome acknowledged closes (rt_writer rt) clean reason (hexdigest (rt_trace rt)) (hexdigest (sha256 b))
       (fs_last_applied_raw_seq (rt_state rt)) = (w', Inr terminal)"
proof (cases "canonical_state_bytes (rt_state rt)")
  case (Inl x)
  then show ?thesis using assms by (simp add: close_with_def witnesses_def)
next
  case (Inr b)
  obtain w r where c: "close_journal outcome acknowledged closes (rt_writer rt) clean reason (hexdigest (rt_trace rt)) (hexdigest (sha256 b))
       (fs_last_applied_raw_seq (rt_state rt)) = (w, r)"
    by (cases "close_journal outcome acknowledged closes (rt_writer rt) clean reason (hexdigest (rt_trace rt)) (hexdigest (sha256 b))
       (fs_last_applied_raw_seq (rt_state rt))")
  then have "rt' = rt\<lparr>rt_writer := w\<rparr>" "r = Inr terminal" using assms Inr by (simp_all add: close_with_def witnesses_def)
  then show ?thesis using that Inr c by blast
qed

lemma replays_exactly_closed [simp]: "replays_exactly m (rt\<lparr>rt_closed := c\<rparr>) \<longleftrightarrow> replays_exactly m rt"
  by (simp add: replays_exactly_def)

lemma close_clean_internal_ends:
  assumes j: "journal_inv (rt_writer rt) acked" and sync: "synced m rt acked" and h: "close_answers_ok a"
    and c: "close_clean_internal a reason rt = (rt', r)"
  shows "runtime_inv m rt'" and "r = Inr terminal \<Longrightarrow> replays_exactly m rt'"
proof -
  obtain rt1 r1 where co: "require_coordinator (ca_coordinator a) (ca_halt a) rt = (rt1, r1)"
    by (cases "require_coordinator (ca_coordinator a) (ca_halt a) rt")
  note coordinator = require_coordinator_stays[OF j h[unfolded close_answers_ok_def] co]
  note ext1 = stays_or_dies_extends[OF j coordinator(1)]
  have "runtime_inv m rt' \<and> (r = Inr terminal \<longrightarrow> replays_exactly m rt')"
  proof (cases "r1 = Inr () \<and> ca_gate a = None")
    case False
    then obtain x where c': "close_clean_internal a reason rt =
        (if is_gate_error x then halt_and_raise (ca_halt a) ''provider_gate_denied'' rt1 x
         else if is_global_halt x then (poison_unless_closed rt1, Inl x) else (rt1, Inl x))"
      using co by (cases r1) (auto simp: close_clean_internal_def)
    have "runtime_inv m rt'"
      using c unfolding c'
      using halted_inv[OF ext1 h[unfolded close_answers_ok_def]] dead_inv ext1 stays_inv[OF j _ coordinator(1)] sync
      by (auto split: if_split_asm)
    moreover have "r \<noteq> Inr terminal"
      using c unfolding c' halt_and_raise_def by (auto split: if_split_asm prod.splits sum.splits)
    ultimately show ?thesis by blast
  next
    case True
    then have rt1: "rt1 = rt" using coordinator(2) by simp
    obtain rt2 r2 where cw: "close_with (ca_write a) (ca_acknowledged a) (ca_closes a) rt True reason = (rt2, r2)"
      by (cases "close_with (ca_write a) (ca_acknowledged a) (ca_closes a) rt True reason")
    note ext2 = close_with_extends[OF j cw]
    show ?thesis
    proof (cases r2)
      case (Inl x)
      then have r: "rt' = (if is_durability_error x then poison rt2 else rt2)" "r = Inl x"
        using c co True rt1 cw by (auto simp: close_clean_internal_def split: if_splits)
      have "rt2 = rt \<or> \<not> live rt2" using close_with_Inl[OF cw[unfolded Inl]] unfolding live_def by blast
      then have "runtime_inv m rt2" using j sync dead_inv[OF ext2] unfolding runtime_inv_def by blast
      then show ?thesis using r dead_inv[of acked "poison rt2" m] ext2 by (simp split: if_split)
    next
      case (Inr e)
      have rt': "rt' = (case ca_marked a of None \<Rightarrow> rt2\<lparr>rt_closed := True\<rparr>
          | Some x \<Rightarrow> rt2\<lparr>rt_closed := True, rt_poisoned := True\<rparr>)"
        and r: "r = Inr terminal \<Longrightarrow> rt' = rt2\<lparr>rt_closed := True\<rparr>"
        using c co True rt1 cw Inr by (auto simp: close_clean_internal_def split: option.splits)
      have "\<not> live rt'" "extends acked rt'"
        using ext2 unfolding rt' live_def extends_def by (auto split: option.split)
      moreover obtain b w' where b: "canonical_state_bytes (rt_state rt) = Inr b" "rt2 = rt\<lparr>rt_writer := w'\<rparr>"
        "close_journal (ca_write a) (ca_acknowledged a) (ca_closes a) (rt_writer rt) True reason (hexdigest (rt_trace rt))
           (hexdigest (sha256 b)) (fs_last_applied_raw_seq (rt_state rt)) = (w', Inr e)"
        by (rule close_with_Inr[OF cw[unfolded Inr]])
      ultimately show ?thesis
        using clean_close_replays[OF j sync b(1,3)] dead_inv r b(2) by (metis replays_exactly_closed)
    qed
  qed
  then show "runtime_inv m rt'" and "r = Inr terminal \<Longrightarrow> replays_exactly m rt'" by blast+
qed

lemma close_clean_ends:
  assumes inv: "runtime_inv m rt" and h: "close_answers_ok a" and c: "close_clean a reason rt = (rt', r)"
  shows "runtime_inv m rt'" and "r = Inr terminal \<Longrightarrow> replays_exactly m rt'"
proof -
  have "runtime_inv m rt' \<and> (r = Inr terminal \<longrightarrow> replays_exactly m rt')"
  proof (cases "require_owner_and_healthy (ca_owner a) rt = None \<and> reason \<in> set clean_public_reasons")
    case True
    then obtain acked where j: "journal_inv (rt_writer rt) acked" "synced m rt acked"
      using runtime_inv_live[OF inv healthy_live] by blast
    have "close_clean_internal a reason rt = (rt', r)" using c True by (simp add: close_clean_def)
    then show ?thesis using close_clean_internal_ends[OF j h] by blast
  next
    case False
    then have "rt' = rt" "\<exists>x. r = Inl x" using c by (auto simp: close_clean_def split: option.splits if_splits)
    then show ?thesis using inv by auto
  qed
  then show "runtime_inv m rt'" and "r = Inr terminal \<Longrightarrow> replays_exactly m rt'" by blast+
qed

lemma check_session_end_stays:
  assumes j: "journal_inv (rt_writer rt) acked" and h: "halt_answers_ok h" and sync: "synced m rt acked"
    and c: "check_session_end coordinator poll h rt = (rt', r)"
  shows "runtime_inv m rt'" and "r = Inr ended \<Longrightarrow> rt' = rt"
proof -
  obtain rt1 r1 where co: "require_coordinator coordinator h rt = (rt1, r1)" by (cases "require_coordinator coordinator h rt")
  note coordinator' = require_coordinator_stays[OF j h co]
  note ext1 = stays_or_dies_extends[OF j coordinator'(1)]
  show "runtime_inv m rt'"
    using c co halted_inv[OF ext1 h] dead_inv ext1 stays_inv[OF j _ coordinator'(1)] sync
    by (auto simp: check_session_end_def split: sum.splits if_split_asm)
  show "r = Inr ended \<Longrightarrow> rt' = rt"
    using c co coordinator'(2)
    by (cases r1) (auto simp: check_session_end_def halt_and_raise_def split: sum.splits if_split_asm prod.splits)
qed

lemma poll_entitlement_ends:
  assumes inv: "runtime_inv m rt" and h: "close_answers_ok a" and c: "poll_entitlement coordinator poll a rt = (rt', r)"
  shows "runtime_inv m rt'" and "r = Inr (Some terminal) \<Longrightarrow> replays_exactly m rt'"
proof -
  have "runtime_inv m rt' \<and> (r = Inr (Some terminal) \<longrightarrow> replays_exactly m rt')"
  proof (cases "require_owner_and_healthy (ca_owner a) rt")
    case (Some x)
    then show ?thesis using c inv by (auto simp: poll_entitlement_def)
  next
    case None
    then obtain acked where j: "journal_inv (rt_writer rt) acked" "synced m rt acked"
      using runtime_inv_live[OF inv healthy_live] by blast
    obtain rt1 r1 where ce: "check_session_end coordinator poll (ca_halt a) rt = (rt1, r1)"
      by (cases "check_session_end coordinator poll (ca_halt a) rt")
    note checked' = check_session_end_stays[OF j(1) h[unfolded close_answers_ok_def] j(2) ce]
    show ?thesis
    proof (cases "r1 = Inr True")
      case True
      obtain rt2 r2 where cc: "close_clean_internal a ''session_end'' rt = (rt2, r2)" by (cases "close_clean_internal a ''session_end'' rt")
      have "rt' = rt2" "r = Inr (Some terminal) \<Longrightarrow> r2 = Inr terminal"
        using c None ce True checked'(2)[OF True] cc by (auto simp: poll_entitlement_def split: sum.splits)
      then show ?thesis using close_clean_internal_ends[OF j h cc] by blast
    next
      case False
      then have "rt' = rt1" "r \<noteq> Inr (Some terminal)"
        using c None ce by (auto simp: poll_entitlement_def split: sum.splits if_split_asm)
      then show ?thesis using checked'(1) by blast
    qed
  qed
  then show "runtime_inv m rt'" and "r = Inr (Some terminal) \<Longrightarrow> replays_exactly m rt'" by blast+
qed

lemma close_ingress_session_end_ends:
  assumes inv: "runtime_inv m rt" and h: "close_answers_ok a" and c: "close_ingress_session_end coordinator poll a rt = (rt', r)"
  shows "runtime_inv m rt'" and "r = Inr terminal \<Longrightarrow> replays_exactly m rt'"
proof -
  have "runtime_inv m rt' \<and> (r = Inr terminal \<longrightarrow> replays_exactly m rt')"
  proof (cases "require_owner_and_healthy (ca_owner a) rt")
    case (Some x)
    then show ?thesis using c inv by (auto simp: close_ingress_session_end_def)
  next
    case None
    then obtain acked where j: "journal_inv (rt_writer rt) acked" "synced m rt acked"
      using runtime_inv_live[OF inv healthy_live] by blast
    obtain rt1 r1 where ce: "check_session_end coordinator poll (ca_halt a) rt = (rt1, r1)"
      by (cases "check_session_end coordinator poll (ca_halt a) rt")
    note checked' = check_session_end_stays[OF j(1) h[unfolded close_answers_ok_def] j(2) ce]
    show ?thesis
    proof (cases r1)
      case (Inl x)
      then show ?thesis using c None ce checked'(1) by (auto simp: close_ingress_session_end_def)
    next
      case (Inr ended)
      then have rt1: "rt1 = rt" using checked'(2) by blast
      show ?thesis
      proof (cases ended)
        case True
        then have "close_clean_internal a ''session_end'' rt = (rt', r)"
          using c None ce Inr rt1 by (simp add: close_ingress_session_end_def)
        then show ?thesis using close_clean_internal_ends[OF j h] by blast
      next
        case False
        then have "rt' = poison rt" "r \<noteq> Inr terminal"
          using c None ce Inr rt1 by (auto simp: close_ingress_session_end_def)
        then show ?thesis using dead_inv[of acked "poison rt" m] extends_same[OF j(1)] by simp
      qed
    qed
  qed
  then show "runtime_inv m rt'" and "r = Inr terminal \<Longrightarrow> replays_exactly m rt'" by blast+
qed

lemma halt_required_inv:
  assumes inv: "runtime_inv m rt" and h: "halt_answers_ok h" and c: "halt_required owner h reason rt = (rt', r)"
  shows "runtime_inv m rt'"
proof (cases "require_owner_and_healthy owner rt")
  case (Some x)
  then show ?thesis using c inv by (simp add: halt_required_def)
next
  case None
  then obtain acked where j: "journal_inv (rt_writer rt) acked" using runtime_inv_live[OF inv healthy_live] by blast
  obtain rt1 r1 where a: "attempt_halt h reason rt = (rt1, r1)" by (cases "attempt_halt h reason rt")
  then have "rt' = rt1" using c None by (auto simp: halt_required_def split: sum.splits option.splits)
  then show ?thesis using attempt_halt_dies[OF j h a] dead_inv by blast
qed

subsection \<open>Runs\<close>

text \<open>The operations of a runtime with the answers of its collaborators.\<close>

datatype RuntimeOp =
    Ingest IngestAnswers CapturedInput
  | CloseClean CloseAnswers string
  | CloseHalted bool HaltAnswers string
  | HaltIngress bool HaltAnswers string
  | PollEntitlement "exn option" "exn + bool" CloseAnswers
  | CloseSessionEnd "exn option" "exn + bool" CloseAnswers

fun runtime_op :: "(CapturedInput \<Rightarrow> exn option) \<Rightarrow> EventRuntime \<Rightarrow> RuntimeOp \<Rightarrow> EventRuntime" where
  "runtime_op check rt (Ingest a c) = fst (runtime_ingest check a rt c)"
| "runtime_op check rt (CloseClean a reason) = fst (close_clean a reason rt)"
| "runtime_op check rt (CloseHalted owner h reason) = fst (close_halted owner h reason rt)"
| "runtime_op check rt (HaltIngress owner h reason) = fst (halt_required owner h reason rt)"
| "runtime_op check rt (PollEntitlement coordinator poll a) = fst (poll_entitlement coordinator poll a rt)"
| "runtime_op check rt (CloseSessionEnd coordinator poll a) = fst (close_ingress_session_end coordinator poll a rt)"

fun runtime_op_ok :: "RuntimeOp \<Rightarrow> bool" where
  "runtime_op_ok (Ingest a c) \<longleftrightarrow> halt_answers_ok (ia_halt a)"
| "runtime_op_ok (CloseClean a reason) \<longleftrightarrow> close_answers_ok a"
| "runtime_op_ok (CloseHalted owner h reason) \<longleftrightarrow> halt_answers_ok h"
| "runtime_op_ok (HaltIngress owner h reason) \<longleftrightarrow> halt_answers_ok h"
| "runtime_op_ok (PollEntitlement coordinator poll a) \<longleftrightarrow> close_answers_ok a"
| "runtime_op_ok (CloseSessionEnd coordinator poll a) \<longleftrightarrow> close_answers_ok a"

definition runtime_step :: "(CapturedInput \<Rightarrow> exn option) \<Rightarrow> EventRuntime \<Rightarrow> RuntimeOp \<Rightarrow> EventRuntime result" where
  \<comment> \<open>an operation that raises leaves the runtime it leaves, and the run goes on\<close>
  "runtime_step check rt op = Inr (runtime_op check rt op)"

lemma close_halted_inv:
  assumes inv: "runtime_inv m rt" and h: "halt_answers_ok h" and c: "close_halted owner h reason rt = (rt', r)"
  shows "runtime_inv m rt'"
  using c inv halt_required_inv[OF inv h] by (auto simp: close_halted_def split: option.splits if_split_asm)

lemma runtime_op_inv:
  assumes inv: "runtime_inv m rt" and ok: "runtime_op_ok op"
  shows "runtime_inv m (runtime_op check rt op)"
proof (cases op)
  case (Ingest a c)
  then show ?thesis
    using ok ingest_inv[OF inv, of a check c "fst (runtime_ingest check a rt c)" "snd (runtime_ingest check a rt c)"] by simp
next
  case (CloseClean a reason)
  then show ?thesis using ok close_clean_ends(1)[OF inv] by (cases "close_clean a reason rt") simp
next
  case (CloseHalted owner h reason)
  then show ?thesis using ok close_halted_inv[OF inv] by (cases "close_halted owner h reason rt") simp
next
  case (HaltIngress owner h reason)
  then show ?thesis using ok halt_required_inv[OF inv] by (cases "halt_required owner h reason rt") simp
next
  case (PollEntitlement coordinator poll a)
  then show ?thesis
    using ok poll_entitlement_ends(1)[OF inv] by (cases "poll_entitlement coordinator poll a rt") simp
next
  case (CloseSessionEnd coordinator poll a)
  then show ?thesis
    using ok close_ingress_session_end_ends(1)[OF inv] by (cases "close_ingress_session_end coordinator poll a rt") simp
qed

interpretation runtime: guarded_machine "runtime_step check" "runtime_inv m" runtime_op_ok for check m
  by unfold_locales (auto simp: runtime_step_def runtime_op_inv)

lemma dead_runtime_refuses: "\<not> live rt \<Longrightarrow> runtime_op check rt op = rt"
proof -
  assume "\<not> live rt"
  then have r: "\<exists>x. require_owner_and_healthy owner rt = Some x" for owner
    unfolding require_owner_and_healthy_def live_def require_def by auto
  show ?thesis
  proof (cases op)
    case (Ingest a c)
    then show ?thesis using r[of "ia_owner a"] by (auto simp: runtime_ingest_def)
  next
    case (CloseClean a reason)
    then show ?thesis using r[of "ca_owner a"] by (auto simp: close_clean_def)
  next
    case (CloseHalted owner h reason)
    then show ?thesis using r[of owner] by (auto simp: close_halted_def)
  next
    case (HaltIngress owner h reason)
    then show ?thesis using r[of owner] by (auto simp: halt_required_def)
  next
    case (PollEntitlement coordinator poll a)
    then show ?thesis using r[of "ca_owner a"] by (auto simp: poll_entitlement_def)
  next
    case (CloseSessionEnd coordinator poll a)
    then show ?thesis using r[of "ca_owner a"] by (auto simp: close_ingress_session_end_def)
  qed
qed

subsection \<open>Starting\<close>

lemma initial_trace_manifest:
  assumes "initial_trace start = Inr trace"
  shows "\<exists>m. read_manifest (ev_payload start) = Inr m \<and> canonical_session_manifest_bytes m = Inr (ev_payload start)"
    and "length trace = 32"
proof -
  obtain m where "read_manifest (ev_payload start) = Inr m" "canonical_json_bytes (JvObj (manifest_fields m)) = Inr (ev_payload start)"
    using assms unfolding initial_trace_def reducer_error_def require_valid_event_Inr bind_result_eq_Inr
    by (auto simp: bind_result_eq_Inr require_valid_event_Inr split: if_splits sum.splits prod.splits)
  then show "\<exists>m. read_manifest (ev_payload start) = Inr m \<and> canonical_session_manifest_bytes m = Inr (ev_payload start)"
    unfolding canonical_session_manifest_bytes_def by blast
  show "length trace = 32"
    using assms unfolding initial_trace_def reducer_error_def
    by (auto simp: bind_result_eq_Inr split: if_splits sum.splits prod.splits option.splits)
qed

lemma start_runtime_Inr:
  assumes "start_runtime h claim coordinator gate w s = Inr rt"
  obtains trace where "initial_state (sm_session_id (jw_session_manifest w)) = Inr s"
    "canonical_session_manifest_bytes (jw_session_manifest w) = Inr (ev_payload (jw_session_start w))"
    "initial_trace (jw_session_start w) = Inr trace" "require_writable w = None \<and> \<not> jw_runtime_claimed w"
    "rt = \<lparr>rt_writer = w\<lparr>jw_runtime_claimed := True\<rparr>, rt_state = s, rt_trace = trace, rt_poisoned = False, rt_closed = False\<rparr>"
proof -
  let ?m = "jw_session_manifest w" and ?start = "jw_session_start w"
  from assms have i: "initial_state (sm_session_id ?m) = Inr s"
    unfolding start_runtime_def Let_def by (auto split: sum.splits if_splits)
  obtain trace where t: "bind_result (canonical_session_manifest_bytes ?m) (\<lambda>b.
      if ev_session_id ?start \<noteq> sm_session_id ?m \<or> ev_payload ?start \<noteq> b
      then Inl (ValueError ''runtime_session_start_binding_mismatch'') else initial_trace ?start) = Inr trace"
    using assms i unfolding start_runtime_def Let_def by (auto split: sum.splits)
  let ?rt = "\<lparr>rt_writer = w, rt_state = s, rt_trace = trace, rt_poisoned = False, rt_closed = False\<rparr>"
  obtain w1 claimed where c: "claim_runtime (claim = None) (case claim of None \<Rightarrow> AssertionError | Some x \<Rightarrow> x) w = (w1, claimed)"
    by (cases "claim_runtime (claim = None) (case claim of None \<Rightarrow> AssertionError | Some x \<Rightarrow> x) w")
  obtain rt2 r2 where rc: "require_coordinator coordinator h (?rt\<lparr>rt_writer := w1\<rparr>) = (rt2, r2)"
    by (cases "require_coordinator coordinator h (?rt\<lparr>rt_writer := w1\<rparr>)")
  have r: "claimed = Inr ()" "r2 = Inr ()" "rt = rt2"
    using assms i t c rc unfolding start_runtime_def Let_def by (auto split: sum.splits option.splits)
  have w1: "w1 = w\<lparr>jw_runtime_claimed := True\<rparr>" "require_writable w = None \<and> \<not> jw_runtime_claimed w"
    using c r(1) unfolding claim_runtime_def journal_invalid_def by (auto split: option.splits if_splits)
  have "rt2 = ?rt\<lparr>rt_writer := w1\<rparr>"
    using rc r(2) unfolding require_coordinator_def by (auto split: option.splits if_splits sum.splits prod.splits)
  then show thesis
    using that[of trace] i t r(3) w1 by (auto simp: bind_result_eq_Inr split: if_splits)
qed

lemma start_runtime_inv:
  assumes inv: "journal_inv w [jw_session_start w]" and s: "start_runtime h claim coordinator gate w s = Inr rt"
  shows "runtime_inv (jw_session_manifest w) rt"
proof -
  let ?m = "jw_session_manifest w" and ?start = "jw_session_start w"
  obtain trace where t: "initial_state (sm_session_id ?m) = Inr s" "canonical_session_manifest_bytes ?m = Inr (ev_payload ?start)"
    "initial_trace ?start = Inr trace" "require_writable w = None \<and> \<not> jw_runtime_claimed w"
    "rt = \<lparr>rt_writer = w\<lparr>jw_runtime_claimed := True\<rparr>, rt_state = s, rt_trace = trace, rt_poisoned = False, rt_closed = False\<rparr>"
    by (rule start_runtime_Inr[OF s])
  obtain k where k: "walk_records validate_terminal initial_walk [?start] = Inr k" "writer_sim w k"
    using journal_inv_healthy[OF inv conjunct1[OF t(4)]] by blast
  then have "session_manifest_post_init ?m = None" unfolding writer_sim_def manifest_ok_def by blast
  then have "read_manifest (ev_payload ?start) = Inr ?m"
    using t(2) unfolding canonical_session_manifest_bytes_def by (rule manifest_decode_encode)
  then have start: "replay_start ?start = Inr ?m" by (simp add: replay_start_def)
  have sid: "event_session_id_ok (sm_session_id ?m)"
    using t(1) unfolding initial_state_def construct_def by (auto simp: validate_state_iff split: option.splits)
  then have ok: "state_ok s" using t(1) initial_state_of[OF sid] session_state_ok[OF sid] by simp
  obtain p0 where p0: "initial_replay ?m ?start = Inr p0" "settled p0 s trace"
    unfolding initial_replay_def t(1,3) bind_result_Inr by (simp add: settled_def finish_pending_def)
  have "latest_raw_seq w = wc_last_raw_seq (wk_counts k)" using k(2) unfolding writer_sim_def counts_of_def by simp
  also have "\<dots> = 0" using k(1) unfolding walk_event_def
    by (auto simp: initial_walk_def walk_advance_def bind_result_eq_Inr journal_corrupt_def walk_event_def split: if_splits)
  finally have fresh: "latest_raw_seq (w\<lparr>jw_runtime_claimed := True\<rparr>) = fs_last_applied_raw_seq s"
    using t(1) initial_state_of[OF sid] by (auto simp: latest_raw_seq_def session_state_def)
  have unclosed: "\<not> jw_closed w" using t(4) by (simp add: require_writable_def require_def split: if_splits)
  have "synced ?m rt [?start]"
    unfolding synced_def using start p0 ok initial_trace_manifest(2)[OF t(3)] t(5) fresh unclosed by simp
  moreover have "claim_runtime True AssertionError w = (w\<lparr>jw_runtime_claimed := True\<rparr>, Inr ())"
    using t(4) by (simp add: claim_runtime_def)
  then have "journal_inv (rt_writer rt) [?start]" using claim_runtime_inv[OF inv] t(5) by simp
  ultimately show ?thesis unfolding runtime_inv_def by blast
qed

end
