(* ===== verification/RecordSizes.thy ===== *)
theory RecordSizes
  imports WalWalk
begin

text \<open>
  How large a record can get: the identifiers of a valid record are short and its integers have at most 4300
  digits, so the metadata is small and a payload of the largest capture fits a frame.
\<close>

subsection \<open>Sizes of JSON text\<close>

fun text_bound :: "jvalue \<Rightarrow> nat" where
  "text_bound JvNull = 4"
| "text_bound (JvBool b) = 5"
| "text_bound (JvInt i) = length (int_text i)"
| "text_bound (JvStr t) = 12 * length t + 2"
| "text_bound (JvArr xs) = 2 + sum_list (map (\<lambda>x. text_bound x + 1) xs)"
| "text_bound (JvObj kvs) = 2 + sum_list (map (\<lambda>(k, v). 12 * length k + 4 + text_bound v) kvs)"

lemma length_quoted: "length (quoted t) \<le> 12 * length t + 2"
proof -
  have "length (escape_point n) \<le> 12" for n by (simp add: escape_point_def escape_u_def)
  then have "length (concat (map escape_point t)) \<le> 12 * length t"
    by (induction t) (simp_all add: add_mono le_trans)
  then show ?thesis by (simp add: quoted_def)
qed

lemma length_comma_join: "length (comma_join xs) \<le> sum_list (map (\<lambda>x. length x + 1) xs)"
proof (induction xs)
  case (Cons x xs)
  then show ?case by (cases xs) (simp_all add: comma_join_def)
qed (simp add: comma_join_def)

lemma sum_list_sort_key: "sum_list (map f (sort_key g xs)) = sum_list (map f xs)" for f :: "'a \<Rightarrow> nat"
  by (metis mset_map mset_sort sum_mset_sum_list)

lemma length_json_dumps: "length (json_dumps v) \<le> text_bound v"
proof (induction v)
  case (JvArr xs)
  have "sum_list (map (\<lambda>x. length x + 1) (map json_dumps xs)) \<le> sum_list (map (\<lambda>x. text_bound x + 1) xs)"
    unfolding map_map comp_def by (rule sum_list_mono) (use JvArr in auto)
  then show ?case using length_comma_join[of "map json_dumps xs"] by simp
next
  case (JvObj kvs)
  let ?pairs = "map (\<lambda>(k, v). (k, json_dumps v)) kvs"
  let ?item = "\<lambda>(k, v). quoted k @ '':'' @ v"
  have "sum_list (map (\<lambda>x. length x + 1) (map ?item (sort_key fst ?pairs))) = sum_list (map (\<lambda>p. length (?item p) + 1) ?pairs)"
    unfolding map_map[of "\<lambda>x. length x + 1" ?item] comp_def by (rule sum_list_sort_key)
  also have "\<dots> \<le> sum_list (map (\<lambda>(k, v). 12 * length k + 4 + text_bound v) kvs)"
    unfolding map_map[of "\<lambda>p. length (?item p) + 1"] comp_def
  proof (rule sum_list_mono)
    fix kv assume kv: "kv \<in> set kvs"
    obtain k v where "kv = (k, v)" by (cases kv)
    then show "length (case case kv of (k, v) \<Rightarrow> (k, json_dumps v) of (k, v) \<Rightarrow> quoted k @ '':'' @ v) + 1
        \<le> (case kv of (k, v) \<Rightarrow> 12 * length k + 4 + text_bound v)"
      using JvObj[OF kv] length_quoted[of k] by simp
  qed
  finally show ?case using length_comma_join[of "map ?item (sort_key fst ?pairs)"] by simp
qed (use length_quoted in simp_all)


subsection \<open>Sizes of records\<close>

lemma length_digits_text: "n < 10 ^ Suc k \<Longrightarrow> length (digits_text n) \<le> Suc k"
proof (induction k arbitrary: n)
  case 0
  then show ?case by (simp add: digits_text.simps[of n])
next
  case (Suc k)
  have "n div 10 < 10 ^ Suc k" using Suc.prems by simp
  then show ?case using Suc.IH[of "n div 10"] by (simp add: digits_text.simps[of n])
qed

lemma length_int_text:
  assumes "\<bar>i\<bar> < int_digits_bound"
  shows "length (int_text i) \<le> 4301"
proof -
  have e: "Suc 4299 = 4300" by simp
  have "\<bar>i\<bar> < 10 ^ Suc 4299" using assms unfolding int_digits_bound_def e .
  then have "length (digits_text \<bar>i\<bar>) \<le> Suc 4299" by (rule length_digits_text)
  then show ?thesis by (cases "i < 0") (simp_all add: int_text_def)
qed

definition short_value :: "jvalue \<Rightarrow> bool" where
  "short_value v \<longleftrightarrow> text_bound v \<le> 5000"

lemma short_values:
  "\<bar>i\<bar> < int_digits_bound \<Longrightarrow> short_value (JvInt i)"
  "length s \<le> 200 \<Longrightarrow> short_value (jv_text s)"
  "short_value JvNull" "short_value (JvBool b)"
  using length_int_text[of i] by (simp_all add: short_value_def jv_text_def codes_def)

lemma short_int: "printable (JvInt i) \<Longrightarrow> short_value (JvInt i)"
  by (simp add: short_values)

lemma short_optional_int: "printable (jv_optional JvInt x) \<Longrightarrow> short_value (jv_optional JvInt x)"
  by (cases x) (simp_all add: jv_optional_def short_values)

lemma short_text: "length s \<le> 200 \<Longrightarrow> short_value (jv_text s)"
  by (rule short_values)

lemma short_optional_text: "(\<forall>s. x = Some s \<longrightarrow> length s \<le> 200) \<Longrightarrow> short_value (jv_optional jv_text x)"
  by (cases x) (simp_all add: jv_optional_def short_values)

lemma short_object:
  assumes "\<And>k v. (k, v) \<in> set kvs \<Longrightarrow> length k \<le> 100 \<and> short_value v" "length kvs \<le> 50"
  shows "length (json_dumps (JvObj kvs)) \<le> 400000"
proof -
  have "sum_list (map (\<lambda>(k, v). 12 * length k + 4 + text_bound v) kvs) \<le> sum_list (map (\<lambda>_. 6204) kvs)"
    by (rule sum_list_mono) (use assms(1) in \<open>force simp: short_value_def\<close>)
  then show ?thesis using length_json_dumps[of "JvObj kvs"] assms(2) by (simp add: sum_list_triv)
qed

lemma safe_identifier_length: "safe_identifier_ok s \<Longrightarrow> length s \<le> 64" "payload_encoding_ok s \<Longrightarrow> length s \<le> 64"
  by (auto simp: safe_identifier_ok_def payload_encoding_ok_def split: list.splits)

lemma content_type_length: "content_type_ok s \<Longrightarrow> length s \<le> 193"
proof -
  assume "content_type_ok s"
  then have "length (takeWhile (\<lambda>c. c \<noteq> CHR ''/'') s) \<le> 64" "length (dropWhile (\<lambda>c. c \<noteq> CHR ''/'') s) \<le> 129"
    by (auto simp: content_type_ok_def media_part_ok_def split: list.splits)
  then have "length (takeWhile (\<lambda>c. c \<noteq> CHR ''/'') s @ dropWhile (\<lambda>c. c \<noteq> CHR ''/'') s) \<le> 193" by (simp only: length_append)
  then show ?thesis by (simp only: takeWhile_dropWhile_id)
qed

lemma provenance_length: "validate_provenance (Some v) state name = None \<Longrightarrow> length v \<le> 64"
  by (auto simp: validate_provenance_def safe_identifier_def dest: safe_identifier_length split: ProvenanceState.splits)

lemma short_metadata:
  assumes e: "event_recordable e"
  shows "list_all (\<lambda>kv. length (fst kv) \<le> 100 \<and> short_value (snd kv)) (metadata_fields e)"
proof -
  have v: "persisted_event_post_init e = None" and p: "list_all (\<lambda>kv. printable (snd kv)) (metadata_fields e)"
    using e unfolding event_recordable_def by simp_all
  have scalars: "event_scalars e = None" using v unfolding persisted_event_post_init_def by simp
  have texts: "length (ev_session_id e) \<le> 200" "length (ev_event_type e) \<le> 200" "length (ev_source_id e) \<le> 200"
    "length (ev_source_entity_id e) \<le> 200" "length (ev_content_type e) \<le> 200" "length (ev_payload_encoding e) \<le> 200"
    "length (ev_payload_transform e) \<le> 200"
    using scalars safe_identifier_length content_type_length unfolding event_scalars_def validate_session_id_def
    by (force simp: safe_identifier_def)+
  have optional: "\<forall>s. ev_endpoint_id e = Some s \<longrightarrow> length s \<le> 200" "\<forall>s. ev_channel_id e = Some s \<longrightarrow> length s \<le> 200"
    "\<forall>s. ev_request_id e = Some s \<longrightarrow> length s \<le> 200" "\<forall>s. ev_provider_sequence e = Some s \<longrightarrow> length s \<le> 200"
    using scalars unfolding event_scalars_def
    by (auto simp: safe_identifier_def dest!: provenance_length safe_identifier_length)
  have "length (record_kind_value k) \<le> 200" for k by (cases k) simp_all
  moreover have "length (source_kind_value k) \<le> 200" for k by (cases k) simp_all
  moreover have "length (provenance_state_value k) \<le> 200" for k by (cases k) simp_all
  ultimately have enums: "length (record_kind_value (ev_record_kind e)) \<le> 200" "length (source_kind_value (ev_source_kind e)) \<le> 200"
    "length (provenance_state_value k) \<le> 200" for k
    by blast+
  have digest: "length (hexdigest (sha256 (ev_payload e))) \<le> 200" by (simp add: length_hexdigest)
  have keys: "list_all (\<lambda>kv. length (fst kv) \<le> 100) (metadata_fields e)"
    unfolding metadata_fields_def by (simp add: codes_def)
  have "list_all (\<lambda>kv. short_value (snd kv)) (metadata_fields e)"
    using p unfolding metadata_fields_def list.pred_inject snd_conv
    by (simp only: short_int short_optional_int short_text[OF texts(1)] short_text[OF texts(2)] short_text[OF texts(3)]
        short_text[OF texts(4)] short_text[OF texts(5)] short_text[OF texts(6)] short_text[OF texts(7)]
        short_optional_text[OF optional(1)] short_optional_text[OF optional(2)] short_optional_text[OF optional(3)]
        short_optional_text[OF optional(4)] short_text[OF enums(1)] short_text[OF enums(2)] short_text[OF enums(3)]
        short_text[OF digest] list.pred_inject simp_thms)
  then show ?thesis using keys by (simp add: list_all_iff)
qed

theorem record_fits_frame:
  assumes e: "event_recordable e" and p: "length (ev_payload e) \<le> 8 * 1024 * 1024" and s: "ev_ingest_seq e < 2 ^ 64"
  shows "frame_ok e"
proof -
  let ?m = "json_dumps (JvObj (metadata_fields e))"
  have "length ?m \<le> 400000"
  proof (rule short_object)
    show "length k \<le> 100 \<and> short_value v" if "(k, v) \<in> set (metadata_fields e)" for k v
      using short_metadata[OF e] that by (auto simp: list_all_iff)
    show "length (metadata_fields e) \<le> 50" by (simp add: metadata_fields_def)
  qed
  then have "frame_fixed_bytes + length ?m + length (ev_payload e) \<le> max_frame_bytes"
    using p by (simp add: frame_fixed_bytes_def frame_prefix_size_def frame_trailer_size_def max_frame_bytes_def)
  moreover have "encode_record e = Inr (?m, ev_payload e)" "decode_record ?m (ev_payload e) = Inr e"
    using e encode_of decode_encode unfolding event_recordable_def by blast+
  ultimately show ?thesis
    unfolding frame_ok_def encode_frame_Inr frameable_def using s event_recordable_facts(3)[OF e] by auto
qed

end
