(* ===== verification/RuntimeTotal.thy ===== *)
theory RuntimeTotal
  imports RuntimeRuns RecordSizes
begin

text \<open>
  What the runtime does when its collaborators agree: an input that the codec can record and the reducer accepts is
  ingested, and the file grows by its frame and the frame of its derived record.
\<close>

subsection \<open>Accepted writes\<close>

lemma frame_ok_recordable: "frame_ok e \<Longrightarrow> event_recordable e"
  unfolding frame_ok_def encode_frame_Inr frameable_def using decode_record_recordable by blast

lemma frame_ok_digest:
  assumes "frame_ok e"
  obtains b where "canonical_record_sha256 e = Inr (hexdigest (sha256 b))"
proof -
  obtain m p where e: "encode_record e = Inr (m, p)" "frame_fixed_bytes + length m + length p \<le> max_frame_bytes"
    using assms unfolding frame_ok_def encode_frame_Inr frameable_def by blast
  then have "length m < 2 ^ 64" "length p < 2 ^ 64" by (simp_all add: max_frame_bytes_def)
  then show thesis using that e(1) unfolding canonical_record_sha256_def framed_def by simp
qed

lemma write_candidate_accepts:
  assumes "require_writable w = None" "frame_ok e" "ev_ingest_seq e = jw_next_seq w" "\<not> frame_refused w (frame_of e) halted"
  shows "write_candidate Written w (Inr e) halted = (count_record e (w\<lparr>jw_file := jw_file w @ frame_of e\<rparr>), Inr e)"
proof -
  have f: "encode_frame e = Inr (frame_of e)" using assms(2) unfolding frame_ok_def frame_of_def by auto
  have "persisted_event_post_init e = None" using frame_ok_recordable[OF assms(2)] unfolding event_recordable_def by blast
  then have "candidate (Inr e) = Inr (e, frame_of e)" unfolding candidate_Inr using f by blast
  then show ?thesis using assms unfolding write_candidate_def write_encoded_event_def by (simp add: storage_answer_def disk_after_def)
qed

lemma next_trace_accepts:
  assumes s: "state_ok s" and acc: "event_acceptable s raw" and l: "length trace = 32"
    and f: "frame_ok raw" "frame_ok d" and d: "d = derived_record raw (draft_of raw) seq"
  obtains t where "next_trace trace raw [d] (next_state s raw) = Inr t"
proof -
  obtain b where b: "canonical_record_sha256 raw = Inr (hexdigest (sha256 b))" by (rule frame_ok_digest[OF f(1)])
  obtain c where c: "canonical_record_sha256 d = Inr (hexdigest (sha256 c))" by (rule frame_ok_digest[OF f(2)])
  have v: "require_valid_event raw = Inr raw" "require_valid_event d = Inr d"
    unfolding require_valid_event_Inr using f frame_ok_recordable by blast+
  note st = canonical_state_bytes_ok[OF next_state_ok[OF s acc]]
  let ?st = "json_dumps (JvObj (state_fields (next_state s raw)))"
  let ?entry = "JvObj [(codes ''v'', JvInt 1), (codes ''raw_record_sha256'', jv_text (hexdigest (sha256 b))),
    (codes ''outputs'', JvArr [JvObj [(codes ''record_sha256'', jv_text (hexdigest (sha256 c)))]]),
    (codes ''state_sha256'', jv_text (hexdigest (sha256 ?st)))]"
  have one: "(1 :: int) < int_digits_bound" unfolding int_digits_bound_def by (rule one_less_power) simp_all
  then have p: "canonical_json_bytes ?entry = Inr (json_dumps ?entry)"
    unfolding canonical_json_bytes_def by (simp add: jv_text_def del: json_dumps.simps)
  have "length (int_text 1) = 1" by code_simp
  then have "text_bound ?entry \<le> 10000" by (simp add: jv_text_def codes_def length_hexdigest)
  then have small: "length (json_dumps ?entry) \<le> 10000" by (rule le_trans[OF length_json_dumps])
  have "(10000 :: nat) < 2 ^ 64" by simp
  then have "length (json_dumps ?entry) < 2 ^ 64" by (rule le_less_trans[OF small])
  then have fr: "framed (json_dumps ?entry) = Inr (word_bytes 8 (int (length (json_dumps ?entry))) @ json_dumps ?entry)"
    by (simp add: framed_def)
  have kinds: "ev_record_kind raw = RAW" "ev_record_kind d = DERIVED" "ev_session_id d = ev_session_id raw"
    "ev_parent_ingest_seq d = Some (ev_ingest_seq raw)"
    using acc unfolding event_acceptable_def d by (simp_all add: derived_record_def)
  have bind: "fs_session_id (next_state s raw) = ev_session_id raw" "fs_last_applied_raw_seq (next_state s raw) = ev_ingest_seq raw"
    using acc unfolding event_acceptable_def next_state_def by simp_all
  have epoch: "source_epoch (next_state s raw) (ev_source_kind raw, ev_source_id raw) = Some (ev_connection_epoch raw)"
    using next_state_epochs[OF s acc] by (simp add: event_key_def)
  have dd: "derived_digests raw [] [d] = Inr [JvObj [(codes ''record_sha256'', jv_text (hexdigest (sha256 c)))]]"
    using v(2) kinds c by simp
  have "\<exists>t. next_trace trace raw [d] (next_state s raw) = Inr t"
    unfolding next_trace_def v bind_result_Inr st dd b epoch p fr using l kinds bind
    by (simp del: json_dumps.simps derived_digests.simps)
  then show thesis using that by blast
qed

subsection \<open>An accepted input\<close>

definition granted :: "IngestAnswers \<Rightarrow> bool" where
  \<comment> \<open>the collaborators agree and the storage writes\<close>
  "granted a \<longleftrightarrow>
     ia_owner a \<and> ia_admission a = None \<and> ia_ingest_gate a = None \<and> ia_before_raw a = None \<and> ia_raw_write a = Written
     \<and> ia_before_transform a = None \<and> ia_transform_gate a = None \<and> ia_before_derived a 0 = None \<and> ia_derived_gate a 0 = None
     \<and> ia_derived_write a 0 = Written \<and> ia_before_poll a = None \<and> ia_poll a = Inr False"

definition stored_input :: "EventRuntime \<Rightarrow> CapturedInput \<Rightarrow> PersistedEvent \<times> PersistedEvent" where
  \<comment> \<open>the raw record of an input and its derived record\<close>
  "stored_input rt c =
     (let raw = raw_record c (jw_next_seq (rt_writer rt))
      in (raw, derived_record raw (draft_of raw) (jw_next_seq (rt_writer rt) + 1)))"

definition input_admissible :: "(CapturedInput \<Rightarrow> exn option) \<Rightarrow> IngestAnswers \<Rightarrow> EventRuntime \<Rightarrow> CapturedInput \<Rightarrow> bool" where
  "input_admissible check a rt c \<longleftrightarrow>
     validate_captured_input check c (jw_session_manifest (rt_writer rt)) = None
     \<and> authorize_persist check (ia_persist_gate a) (jw_session_manifest (rt_writer rt)) c = Inr (ci_retention_delete_by_ns c)
     \<and> length (ci_payload c) \<le> max_capture_bytes \<and> ci_event_type c \<notin> {''SESSION_START'', ''SESSION_HALT''}
     \<and> frame_ok (fst (stored_input rt c)) \<and> frame_ok (snd (stored_input rt c))
     \<and> refusal_reason (rt_state rt) (fst (stored_input rt c)) = None"

lemma captured_binding:
  "validate_captured_input check c m = None \<Longrightarrow>
     ci_session_id c = sm_session_id m
     \<and> (if ci_source_kind c = PROVIDER then ci_source_id c = sm_provider_id m
          \<and> ci_retention_delete_by_ns c = Some (sm_required_retention_until_ns m)
        else ci_retention_delete_by_ns c = None)"
  unfolding validate_captured_input_def by (auto split: if_splits)

lemma ingest_accepts:
  assumes inv: "runtime_inv m rt" and l: "live rt" and g: "granted a" and adm: "input_admissible check a rt c"
  defines "raw \<equiv> fst (stored_input rt c)" and "d \<equiv> snd (stored_input rt c)"
  obtains trace where "runtime_ingest check a rt c =
    (rt\<lparr>rt_writer := count_record d (count_record raw (rt_writer rt\<lparr>jw_file := jw_file (rt_writer rt) @ frame_of raw @ frame_of d\<rparr>)),
        rt_trace := trace, rt_state := next_state (rt_state rt) raw\<rparr>, Inr raw)"
proof -
  let ?w = "rt_writer rt" and ?m = "jw_session_manifest (rt_writer rt)"
  let ?w1 = "count_record raw (?w\<lparr>jw_file := jw_file ?w @ frame_of raw\<rparr>)"
  let ?w2 = "count_record d (?w1\<lparr>jw_file := jw_file ?w1 @ frame_of d\<rparr>)"
  have w: "require_writable ?w = None" "require_owner_and_healthy (ia_owner a) rt = None"
    using inv l g unfolding runtime_inv_def synced_def
    by (auto simp: require_writable_def require_owner_and_healthy_def live_def require_def granted_def)
  have raw: "raw = raw_record c (jw_next_seq ?w)" and d: "d = derived_record raw (draft_of raw) (jw_next_seq ?w + 1)"
    unfolding raw_def d_def stored_input_def by (simp_all add: Let_def)
  have f: "frame_ok raw" "frame_ok d" and acc: "event_acceptable (rt_state rt) raw"
    and val: "validate_captured_input check c ?m = None" and size: "\<not> max_capture_bytes < length (ci_payload c)"
    and auth: "authorize_persist check (ia_persist_gate a) ?m c = Inr (ci_retention_delete_by_ns c)"
    using adm unfolding input_admissible_def raw_def d_def refusal_reason_None by auto
  have s: "state_ok (rt_state rt)" "length (rt_trace rt) = 32"
    using inv l unfolding runtime_inv_def synced_def by blast+
  have coord: "require_coordinator None h r = (r, Inr ())" for h r by (simp add: require_coordinator_def)
  have admitted: "admit check a rt c = (rt, Inr (ci_retention_delete_by_ns c))"
    using g val auth unfolding admit_def granted_def by (simp add: coord checked_def)
  have cand: "raw_candidate check ?w c = Inr raw"
    using val captured_binding[OF val] size unfolding raw_candidate_def raw by (auto split: if_splits)
  have seqs: "ev_ingest_seq raw = jw_next_seq ?w" "ev_ingest_seq d = jw_next_seq ?w1"
    by (simp_all add: raw d raw_record_def derived_record_def)
  obtain acked where "journal_inv ?w acked" using inv unfolding runtime_inv_def by blast
  then obtain k where k: "writer_sim ?w k" using journal_inv_healthy[OF _ w(1)] by blast
  then have counted: "0 < jw_record_count ?w" "0 < jw_record_count ?w1"
    unfolding writer_sim_def by (simp_all add: count_record_def Let_def split: RecordKind.split)
  have types: "ev_event_type raw \<notin> {''SESSION_START'', ''SESSION_HALT''}" "ev_event_type d \<notin> {''SESSION_START'', ''SESSION_HALT''}"
    using adm unfolding input_admissible_def by (simp_all add: raw d raw_record_def derived_record_def draft_of_def)
  have passes: "\<not> frame_refused ?w (frame_of raw) False" "\<not> frame_refused ?w1 (frame_of d) False"
    using ordinary_record_passes[OF f(1), of ?m] ordinary_record_passes[OF f(2), of ?m] types counted
    unfolding frame_refused_def by simp_all
  have sr: "store_raw check a rt c = (rt\<lparr>rt_writer := ?w1\<rparr>, Inr raw)"
    using g write_candidate_accepts[OF w(1) f(1) seqs(1) passes(1)] unfolding store_raw_def granted_def append_raw_def
    by (simp add: coord w(1) cand)
  have bound: "ev_record_kind raw = RAW" "ev_session_id raw = sm_session_id ?m"
    using captured_binding[OF val] by (simp_all add: raw raw_record_def)
  have w1: "require_writable ?w1 = None" "jw_latest_raw ?w1 = Some raw" "jw_session_manifest ?w1 = ?m"
    using w(1) bound(1) by (simp_all add: require_writable_def require_def count_record_def)
  have ad: "append_derived Written ?w1 raw (draft_of raw) = (?w2, Inr d)"
    using write_candidate_accepts[OF w1(1) f(2) seqs(2) passes(2)] w1 bound unfolding append_derived_def by (simp add: d)
  have sd: "store_derived a 0 (rt\<lparr>rt_writer := ?w1\<rparr>) raw [draft_of raw] = (rt\<lparr>rt_writer := ?w2\<rparr>, Inr [d])"
    using g ad bound w1(3) unfolding granted_def by (simp add: coord)
  obtain trace where t: "next_trace (rt_trace rt) raw [d] (next_state (rt_state rt) raw) = Inr trace"
    by (rule next_trace_accepts[OF s(1) acc s(2) f d])
  have "reduce_stored a (rt\<lparr>rt_writer := ?w1\<rparr>) raw = (rt\<lparr>rt_writer := ?w2\<rparr>, ''trace_exception'', Inr (next_state (rt_state rt) raw, trace))"
    using g bound w1(3) t sd reduce_event_accepts[OF s(1) acc] unfolding granted_def reduce_stored_def
    by (simp add: coord Let_def del: store_derived.simps)
  then have "runtime_ingest check a rt c = (rt\<lparr>rt_writer := ?w2, rt_trace := trace, rt_state := next_state (rt_state rt) raw\<rparr>, Inr raw)"
    using w(2) admitted sr by (simp add: runtime_ingest_def)
  moreover have "?w2 = count_record d (count_record raw (?w\<lparr>jw_file := jw_file ?w @ frame_of raw @ frame_of d\<rparr>))"
    by (simp add: count_record_def Let_def split: RecordKind.split)
  ultimately show thesis using that by simp
qed

subsection \<open>Sessions that start and end\<close>

lemma first_payload_short:
  assumes "manifest_ok m"
  shows "length (json_dumps (JvObj (manifest_fields m))) \<le> 400000"
proof -
  have p: "list_all (\<lambda>kv. printable (snd kv)) (manifest_fields m)" and v: "session_manifest_post_init m = None"
    using assms unfolding manifest_ok_def by simp_all
  have ids: "length (sm_session_id m) \<le> 200" "length (sm_provider_id m) \<le> 200" "length (sm_product_tier m) \<le> 200"
    "length (sm_source_lineage_id m) \<le> 200" "length (sm_terms_version m) \<le> 200"
    using v safe_identifier_length(1) unfolding session_manifest_post_init_def validate_session_id_def
    by (force simp: safe_identifier_def)+
  have sha: "sha256_ok s \<Longrightarrow> short_value (jv_text s)" for s by (rule short_text) (simp add: sha256_ok_def)
  have shas: "sha256_ok (sm_research_request_sha256 m)" using v unfolding session_manifest_post_init_def by (simp add: event_sha256_def)
  note digests = manifest_digests(1-12)[OF v]
  have keys: "list_all (\<lambda>kv. length (fst kv) \<le> 100) (manifest_fields m)"
    unfolding manifest_fields_def by (simp add: codes_def)
  have "list_all (\<lambda>kv. short_value (snd kv)) (manifest_fields m)"
    using p unfolding manifest_fields_def list.pred_inject snd_conv
    by (simp only: short_int short_text[OF ids(1)] short_text[OF ids(2)] short_text[OF ids(3)] short_text[OF ids(4)]
        short_text[OF ids(5)] sha[OF shas] digests[THEN sha] short_values(4) list.pred_inject simp_thms)
  then show ?thesis
    using keys by (intro short_object) (auto simp: list_all_iff manifest_fields_def)
qed

lemma control_recordable:
  assumes m: "manifest_ok m" and s: "1 \<le> seq" "\<bar>seq\<bar> < int_digits_bound"
    and t: "event_type = ''SESSION_HALT'' \<or> event_type = ''SESSION_START'' \<and> canonical_session_manifest_bytes m = Inr payload"
  shows "event_recordable (control_event m seq event_type payload)"
proof -
  let ?e = "control_event m seq event_type payload"
  have v: "session_manifest_post_init m = None" and p: "list_all (\<lambda>kv. printable (snd kv)) (manifest_fields m)"
    using m unfolding manifest_ok_def by simp_all
  have wall: "\<bar>sm_created_wall_ns m\<bar> < int_digits_bound" "0 \<le> sm_created_wall_ns m" "validate_session_id (sm_session_id m) = None"
    using p v unfolding manifest_fields_def session_manifest_post_init_def by (simp_all add: nonnegative_integer_def)
  have ids: "safe_identifier_ok ''SESSION_HALT''" "safe_identifier_ok ''SESSION_START''" "safe_identifier_ok ''tennis-v1''"
    "safe_identifier_ok ''session-control''" "safe_identifier_ok ''identity-public-market-v1''"
    "content_type_ok ''application/vnd.inci.session-manifest+json''" "content_type_ok ''application/vnd.inci.session-terminal+json''"
    "payload_encoding_ok ''canonical-json-v1''"
    by code_simp+
  have sid: "safe_identifier_ok (sm_session_id m)" using wall(3) by (simp add: validate_session_id_def safe_identifier_def)
  have "persisted_event_post_init ?e = None"
    using t s wall ids sid
    by (auto simp: persisted_event_post_init_def event_scalars_def event_lineage_def event_retention_def control_event_def
        safe_identifier_def positive_event_integer_def nonnegative_integer_def validate_provenance_def event_sha256_def
        record_payload_transforms_def capture_payload_transforms_def control_contract_holds_def control_record_contracts_def)
  moreover have one: "(1 :: int) < int_digits_bound" unfolding int_digits_bound_def by (rule one_less_power) simp_all
  then have "printable (JvObj (metadata_fields ?e))"
    using s(2) wall(1) by (simp add: metadata_fields_def control_event_def jv_optional_def jv_text_def)
  moreover have "require_session_start_payload ?e = Inr ()"
    using t manifest_decode_encode[OF v] unfolding canonical_session_manifest_bytes_def
    by (auto simp: require_session_start_payload_def control_event_def)
  ultimately show ?thesis unfolding event_recordable_def by blast
qed

lemma create_writer_accepts:
  assumes m: "manifest_ok m"
  obtains w where "create_writer Written Written closes m = Inr w" "\<not> jw_runtime_claimed w" "require_writable w = None"
    "jw_session_manifest w = m" "frame_ok (jw_session_start w)"
    "jw_session_start w = control_event m 1 ''SESSION_START'' (json_dumps (JvObj (manifest_fields m)))"
proof -
  let ?payload = "json_dumps (JvObj (manifest_fields m))" and ?start = "control_event m 1 ''SESSION_START'' (json_dumps (JvObj (manifest_fields m)))"
  have c: "canonical_session_manifest_bytes m = Inr ?payload" and v: "session_manifest_post_init m = None"
    using m unfolding canonical_manifest manifest_ok_def by simp_all
  have one: "(1 :: int) < int_digits_bound" unfolding int_digits_bound_def by (rule one_less_power) simp_all
  have r: "event_recordable ?start" using control_recordable[OF m] c one by simp
  have f: "frame_ok ?start"
    by (rule record_fits_frame[OF r]) (use first_payload_short[OF m] in \<open>simp_all add: control_event_def\<close>)
  then have "encode_frame ?start = Inr (frame_of ?start)" unfolding frame_ok_def frame_of_def by auto
  moreover have "persisted_event_post_init ?start = None" using r unfolding event_recordable_def by blast
  ultimately have cand: "candidate (bind_result (canonical_session_manifest_bytes m) (\<lambda>payload.
      Inr (control_event m 1 ''SESSION_START'' payload))) = Inr (?start, frame_of ?start)"
    unfolding candidate_Inr c by simp
  have passes: "\<not> write_refused m False (frame_of ?start)" by (rule start_passes[OF f c])
  have "\<not> sm_research_evaluable m" using v unfolding session_manifest_post_init_def by simp
  then have "create_writer Written Written closes m =
      Inr (count_record ?start (new_writer m ?start\<lparr>jw_file := journal_prefix @ frame_of ?start\<rparr>))"
    unfolding create_writer_def cand
    using passes
    by (simp add: disk_after_def write_encoded_event_def storage_answer_def frame_refused_def require_writable_def require_def
        new_writer_def control_event_def)
  then show thesis
    using that f by (simp add: new_writer_def count_record_def require_writable_def require_def control_event_def)
qed

lemma start_runtime_accepts:
  assumes w: "create_writer Written Written closes m = Inr w" "\<not> jw_runtime_claimed w" "require_writable w = None"
    "jw_session_manifest w = m" "frame_ok (jw_session_start w)" "manifest_ok m"
    "jw_session_start w = control_event m 1 ''SESSION_START'' (json_dumps (JvObj (manifest_fields m)))"
  obtains rt where "start_runtime h None None None w (session_state (sm_session_id m)) = Inr rt" "live rt" "rt_writer rt = w\<lparr>jw_runtime_claimed := True\<rparr>"
    "rt_state rt = session_state (sm_session_id m)"
proof -
  have v: "session_manifest_post_init m = None" using w(6) unfolding manifest_ok_def by blast
  have c: "canonical_session_manifest_bytes m = Inr (ev_payload (jw_session_start w))"
    using w(6,7) unfolding canonical_manifest manifest_ok_def by (simp add: control_event_def)
  have sid: "event_session_id_ok (sm_session_id m)"
    using v unfolding session_manifest_post_init_def
    by (simp add: validate_session_id_def event_session_id_ok_def safe_identifier_def)
  have rv: "require_valid_event (jw_session_start w) = Inr (jw_session_start w)"
    unfolding require_valid_event_Inr using frame_ok_recordable[OF w(5)] by blast
  have rm: "read_manifest (ev_payload (jw_session_start w)) = Inr m"
    using manifest_decode_encode[OF v] c unfolding canonical_session_manifest_bytes_def by blast
  obtain b where d: "canonical_record_sha256 (jw_session_start w) = Inr (hexdigest (sha256 b))" by (rule frame_ok_digest[OF w(5)])
  obtain raw where raw: "bytes_fromhex (hexdigest (sha256 b)) = Some raw"
    using bytes_fromhex_total[of "hexdigest (sha256 b)"] hexdigest_hex by (auto simp: length_hexdigest)
  have fields: "ev_ingest_seq (jw_session_start w) = 1" "ev_record_kind (jw_session_start w) = CONTROL"
    "ev_event_type (jw_session_start w) = ''SESSION_START''" "ev_session_id (jw_session_start w) = sm_session_id m"
    "ev_source_entity_id (jw_session_start w) = sm_session_id m" "ev_local_wall_ns (jw_session_start w) = sm_created_wall_ns m"
    "ev_local_monotonic_ns (jw_session_start w) = 0"
    unfolding w(7) by (simp_all add: control_event_def)
  have it: "initial_trace (jw_session_start w) = Inr (sha256 (''INCI-TRACE-V1'' @ nul @ raw))"
    unfolding initial_trace_def rv bind_result_Inr rm c[unfolded canonical_session_manifest_bytes_def] d
    using fields raw by simp
  have "start_runtime h None None None w (session_state (sm_session_id m)) = Inr \<lparr>rt_writer = w\<lparr>jw_runtime_claimed := True\<rparr>,
      rt_state = session_state (sm_session_id m), rt_trace = sha256 (''INCI-TRACE-V1'' @ nul @ raw), rt_poisoned = False, rt_closed = False\<rparr>"
    unfolding start_runtime_def Let_def w(4) initial_state_of[OF sid] c bind_result_Inr it
    using w(2,3) fields by (simp add: claim_runtime_def require_coordinator_def)
  then show thesis using that w(3) by (simp add: live_def require_writable_def require_def split: if_splits)
qed

lemma terminal_payload_short:
  assumes m: "manifest_ok m" and d: "sha256_ok digest" and t: "terminal_ok m counts t"
    and p: "printable (JvObj (terminal_fields m digest t))"
  shows "length (json_dumps (JvObj (terminal_fields m digest t))) \<le> 400000"
proof -
  have p': "list_all (\<lambda>kv. printable (snd kv)) (terminal_fields m digest t)" using p by simp
  have v: "session_manifest_post_init m = None" using m unfolding manifest_ok_def by blast
  have sha: "sha256_ok s \<Longrightarrow> short_value (jv_text s)" for s by (rule short_text) (simp add: sha256_ok_def)
  note digests = manifest_digests(1-12)[OF v]
  have reason: "length (tm_reason t) \<le> 200"
    using t unfolding terminal_ok_def by (auto simp: clean_terminal_reasons_def halted_terminal_reasons_def split: if_splits)
  have own: "sha256_ok (tm_trace_sha256 t)" "sha256_ok (tm_final_state_sha256 t)" using t unfolding terminal_ok_def by blast+
  have keys: "list_all (\<lambda>kv. length (fst kv) \<le> 100) (terminal_fields m digest t)"
    unfolding terminal_fields_def terminal_provenance_def by (simp add: codes_def)
  have "list_all (\<lambda>kv. short_value (snd kv)) (terminal_fields m digest t)"
    using p' unfolding terminal_fields_def terminal_provenance_def append.simps list.pred_inject snd_conv
    by (simp only: short_int short_text[OF reason] own[THEN sha] sha[OF d] digests[THEN sha] short_values(4) list.pred_inject simp_thms)
  then show ?thesis
    using keys by (intro short_object) (auto simp: list_all_iff terminal_fields_def terminal_provenance_def)
qed

definition close_granted :: "CloseAnswers \<Rightarrow> bool" where
  "close_granted a \<longleftrightarrow>
     ca_owner a \<and> ca_coordinator a = None \<and> ca_gate a = None \<and> ca_write a = Written \<and> ca_acknowledged a \<and> ca_closes a
     \<and> ca_marked a = None"

definition counters_small :: "JournalWriter \<Rightarrow> bool" where
  "counters_small w \<longleftrightarrow> jw_next_seq w < 2 ^ 64 \<and> jw_raw_count w < 2 ^ 64 \<and> jw_derived_count w < 2 ^ 64 \<and> latest_raw_seq w < 2 ^ 64"

lemma small_printable: "0 \<le> i \<Longrightarrow> i < 2 ^ 64 \<Longrightarrow> \<bar>i\<bar> < int_digits_bound"
proof -
  have "(2 :: int) ^ 64 \<le> 10 ^ 20" by simp
  also have "\<dots> \<le> int_digits_bound" unfolding int_digits_bound_def by (rule power_increasing) simp_all
  finally show "0 \<le> i \<Longrightarrow> i < 2 ^ 64 \<Longrightarrow> \<bar>i\<bar> < int_digits_bound" by linarith
qed

lemma close_clean_accepts:
  assumes inv: "runtime_inv m rt" and l: "live rt" and g: "close_granted a" and small: "counters_small (rt_writer rt)"
  obtains rt' terminal where "close_clean a ''operator_stop'' rt = (rt', Inr terminal)"
proof -
  let ?w = "rt_writer rt" and ?s = "rt_state rt"
  obtain acked where j: "journal_inv ?w acked" and sync: "synced m rt acked" using runtime_inv_live[OF inv l] by blast
  have w: "require_writable ?w = None" "require_owner_and_healthy (ca_owner a) rt = None"
    using l g sync unfolding synced_def
    by (simp_all add: require_writable_def require_owner_and_healthy_def live_def require_def close_granted_def)
  obtain k where k: "writer_sim ?w k" using journal_inv_healthy[OF j w(1)] by blast
  have m: "manifest_ok m" "jw_session_manifest ?w = m" using k sync unfolding writer_sim_def synced_def by auto
  have last': "fs_last_applied_raw_seq ?s = latest_raw_seq ?w" and sok: "state_ok ?s" using sync unfolding synced_def by blast+
  have nonneg: "0 \<le> fs_last_applied_raw_seq ?s" using sok unfolding state_ok_def validate_state_iff by blast
  obtain b where b: "canonical_state_bytes ?s = Inr b" using canonical_state_bytes_ok[OF sok] by blast
  obtain digest where d: "session_manifest_sha256 m = Inr digest" "sha256_ok digest"
    using m(1) unfolding session_manifest_sha256_def canonical_session_manifest_bytes_def manifest_ok_def canonical_json_bytes_def
    by (simp del: json_dumps.simps printable.simps)
  define t where "t = \<lparr>tm_clean = True, tm_reason = ''operator_stop'', tm_trace_sha256 = hexdigest (rt_trace rt),
     tm_final_state_sha256 = hexdigest (sha256 b), tm_record_count = jw_record_count ?w, tm_raw_count = jw_raw_count ?w,
     tm_derived_count = jw_derived_count ?w, tm_last_applied_raw_seq = fs_last_applied_raw_seq ?s\<rparr>"
  have trace: "sha256_ok (hexdigest (rt_trace rt))" using sync unfolding synced_def by (simp add: sha256_ok_def hexdigest_hex length_hexdigest)
  have tok: "terminal_ok m (wk_counts k) t"
    using k trace last' nonneg unfolding terminal_ok_def t_def writer_sim_def counts_of_def by (simp add: clean_terminal_reasons_def)
  have ints: "\<bar>jw_record_count ?w\<bar> < int_digits_bound" "\<bar>jw_raw_count ?w\<bar> < int_digits_bound" "\<bar>jw_derived_count ?w\<bar> < int_digits_bound"
    "\<bar>fs_last_applied_raw_seq ?s\<bar> < int_digits_bound" "\<bar>jw_next_seq ?w\<bar> < int_digits_bound"
    by (rule small_printable; use small k last' nonneg in \<open>simp add: counters_small_def writer_sim_def\<close>)+
  have one: "(1 :: int) < int_digits_bound" unfolding int_digits_bound_def by (rule one_less_power) simp_all
  have "\<bar>sm_required_retention_until_ns m\<bar> < int_digits_bound"
    using m(1) unfolding manifest_ok_def manifest_fields_def by simp
  then have p: "printable (JvObj (terminal_fields m digest t))"
    using ints one unfolding terminal_fields_def terminal_provenance_def t_def by (simp add: jv_text_def)
  let ?payload = "json_dumps (JvObj (terminal_fields m digest t))"
  have tp: "terminal_payload ?w True ''operator_stop'' (hexdigest (rt_trace rt)) (hexdigest (sha256 b)) (fs_last_applied_raw_seq ?s) = Inr ?payload"
    using trace last' nonneg d(1) p unfolding terminal_payload_def m(2) t_def[symmetric] canonical_json_bytes_def
    by (simp add: clean_terminal_reasons_def t_def del: json_dumps.simps printable.simps)
  let ?e = "control_event m (jw_next_seq ?w) ''SESSION_HALT'' ?payload"
  have seq: "1 \<le> jw_next_seq ?w" using k unfolding writer_sim_def by simp
  have f: "frame_ok ?e"
    by (rule record_fits_frame[OF control_recordable[OF m(1) seq ints(5)]])
      (use terminal_payload_short[OF m(1) d(2) tok p] small in \<open>simp_all add: control_event_def counters_small_def\<close>)
  have seq': "ev_ingest_seq ?e = jw_next_seq ?w" by (simp add: control_event_def)
  have cl: "record_class m ?e = Inr (TerminalFrame (tm_clean t))"
    by (rule retained_terminal_of[OF m(1) d(1) p tok]) (use k in \<open>simp_all add: control_event_def writer_sim_def counts_of_def\<close>)
  have "tm_clean t" "0 < jw_record_count ?w" using k unfolding t_def writer_sim_def by simp_all
  then have "\<not> frame_refused ?w (frame_of ?e) False"
    unfolding frame_refused_def m(2) if_False write_refused_of[OF f] cl by simp
  note wc = write_candidate_accepts[OF w(1) f seq' this]
  have "close_journal Written True True ?w True ''operator_stop'' (hexdigest (rt_trace rt)) (hexdigest (sha256 b)) (fs_last_applied_raw_seq ?s)
      = ((count_record ?e (?w\<lparr>jw_file := jw_file ?w @ frame_of ?e\<rparr>))\<lparr>jw_closed := True\<rparr>, Inr ?e)"
    unfolding close_journal_def tp bind_result_Inr m(2) using wc w(1) by simp
  then have "\<exists>rt'. close_with Written True True rt True ''operator_stop'' = (rt', Inr ?e)"
    unfolding close_with_def witnesses_def b bind_result_Inr by simp
  then have "\<exists>rt' terminal. close_clean a ''operator_stop'' rt = (rt', Inr terminal)"
    using w(2) g unfolding close_clean_def close_clean_internal_def close_granted_def
    by (auto simp: require_coordinator_def clean_public_reasons_def)
  then show thesis using that by blast
qed

end
