(* ===== verification/EventDemo.thy ===== *)
theory EventDemo
  imports RuntimeTotal
begin

text \<open>
  A small session on which the properties of the event core are instantiated: a manifest, records of one market,
  a captured input and answers of collaborators that agree.  Digests stay symbolic: no hash is computed.
\<close>

subsection \<open>Records\<close>

definition demo_session_id :: string where
  "demo_session_id = ''6f1c2d3e-4a5b-4c6d-8e7f-0123456789ab''"

definition demo_record :: "int \<Rightarrow> int \<Rightarrow> PersistedEvent" where
  "demo_record seq epoch =
     \<lparr>ev_journal_version = 1, ev_record_kind = RAW, ev_ingest_seq = seq, ev_session_id = demo_session_id,
      ev_event_type = ''orderbook_delta'', ev_event_version = 1, ev_source_kind = KALSHI, ev_source_id = ''kalshi-ws'',
      ev_source_entity_id = ''market-1'', ev_endpoint_id = None, ev_endpoint_state = ABSENT,
      ev_channel_id = Some ''orderbook'', ev_channel_state = SAFE_ORIGINAL, ev_request_id = Some ''<redacted>'',
      ev_request_id_state = REDACTED, ev_source_wall_ns = Some 5, ev_source_generated_ns = None, ev_local_wall_ns = 7,
      ev_local_monotonic_ns = 3, ev_clock_uncertainty_ns = 0, ev_connection_epoch = epoch, ev_provider_sequence = None,
      ev_parent_ingest_seq = None, ev_content_type = ''application/json'', ev_payload_encoding = ''utf-8'',
      ev_payload_transform = ''identity-public-market-v1'', ev_retention_delete_by_ns = None,
      ev_payload_sha256 = hexdigest (sha256 ''{}''), ev_payload = ''{}''\<rparr>"

lemma demo_session_ok: "event_session_id_ok demo_session_id"
  by code_simp

lemma small_int_printable: "i < 1000 \<Longrightarrow> i < int_digits_bound"
proof -
  have "(10 :: int) ^ 3 \<le> 10 ^ 4300" by (rule power_increasing) simp_all
  moreover have "(10 :: int) ^ 3 = 1000" by simp
  ultimately have "(1000 :: int) \<le> int_digits_bound" unfolding int_digits_bound_def by (simp only:)
  then show "i < 1000 \<Longrightarrow> i < int_digits_bound" by (rule less_le_trans[rotated])
qed

lemma demo_record_valid:
  assumes "1 \<le> seq" "0 \<le> epoch"
  shows "persisted_event_post_init (demo_record seq epoch) = None"
proof -
  have "safe_identifier_ok ''orderbook_delta''" "safe_identifier_ok ''kalshi-ws''" "safe_identifier_ok ''market-1''"
    "safe_identifier_ok ''orderbook''" "safe_identifier_ok ''identity-public-market-v1''"
    "content_type_ok ''application/json''" "payload_encoding_ok ''utf-8''"
    by code_simp+
  moreover have "validate_session_id demo_session_id = None"
    using demo_session_ok by (simp add: validate_session_id_def event_session_id_ok_def safe_identifier_def)
  ultimately show ?thesis
    using assms
    by (simp add: persisted_event_post_init_def event_scalars_def event_lineage_def event_retention_def demo_record_def
        safe_identifier_def positive_event_integer_def nonnegative_integer_def validate_provenance_def event_sha256_def
        record_payload_transforms_def capture_payload_transforms_def)
qed

lemma demo_record_ok:
  assumes "1 \<le> seq" "seq < 100" "0 \<le> epoch" "epoch < 100"
  shows "event_recordable (demo_record seq epoch)"
proof -
  have "printable (JvObj (metadata_fields (demo_record seq epoch)))"
    using assms small_int_printable[of "\<bar>seq\<bar>"] small_int_printable[of "\<bar>epoch\<bar>"]
    by (simp add: metadata_fields_def demo_record_def jv_optional_def jv_text_def small_int_printable del: codes_simps(1-4))
  moreover have "require_session_start_payload (demo_record seq epoch) = Inr ()"
    by (simp add: require_session_start_payload_def demo_record_def)
  ultimately show ?thesis unfolding event_recordable_def using demo_record_valid assms by blast
qed

subsection \<open>A session\<close>

definition demo_digest :: string where "demo_digest = replicate 64 CHR ''a''"

definition demo_manifest :: SessionManifest where
  "demo_manifest =
     \<lparr>sm_schema_version = 1, sm_session_id = demo_session_id, sm_created_wall_ns = 5, sm_config_file_sha256 = demo_digest,
      sm_config_canonical_sha256 = demo_digest, sm_code_sha256 = demo_digest, sm_research_request_sha256 = demo_digest,
      sm_provider_id = ''provider'', sm_product_tier = ''tier'', sm_source_lineage_id = ''lineage'',
      sm_provider_manifest_file_sha256 = demo_digest, sm_provider_manifest_canonical_sha256 = demo_digest,
      sm_entitlement_id_sha256 = demo_digest, sm_terms_version = ''1'', sm_permission_artifact_sha256 = demo_digest,
      sm_qualification_artifact_sha256 = demo_digest, sm_qualification_trace_sha256 = demo_digest,
      sm_adapter_code_sha256 = demo_digest, sm_auth_contract_sha256 = demo_digest, sm_quota_contract_sha256 = demo_digest,
      sm_session_end_ns = 10, sm_required_retention_until_ns = 15, sm_access_expires_at_ns = 20,
      sm_analysis_expires_at_ns = 30, sm_research_evaluable = False\<rparr>"

lemma demo_digest_ok: "sha256_ok demo_digest"
  by code_simp

lemma demo_manifest_ok: "manifest_ok demo_manifest"
proof -
  have "validate_session_id demo_session_id = None"
    using demo_session_ok by (simp add: validate_session_id_def event_session_id_ok_def safe_identifier_def)
  moreover have "safe_identifier_ok ''provider''" "safe_identifier_ok ''tier''" "safe_identifier_ok ''lineage''" "safe_identifier_ok ''1''"
    by code_simp+
  ultimately have "session_manifest_post_init demo_manifest = None"
    using demo_digest_ok
    by (simp add: session_manifest_post_init_def demo_manifest_def nonnegative_integer_def event_sha256_def safe_identifier_def)
  moreover have "printable (JvObj (manifest_fields demo_manifest))"
    by (simp add: manifest_fields_def demo_manifest_def jv_text_def small_int_printable del: codes_simps(1-4))
  ultimately show ?thesis unfolding manifest_ok_def by blast
qed

definition demo_capture :: CapturedInput where
  "demo_capture =
     \<lparr>ci_session_id = demo_session_id, ci_event_type = ''orderbook_delta'', ci_event_version = 1, ci_source_kind = KALSHI,
      ci_source_id = ''kalshi'', ci_source_entity_id = ''market-1'', ci_endpoint_id = None, ci_endpoint_state = ABSENT,
      ci_channel_id = Some ''orderbook'', ci_channel_state = SAFE_ORIGINAL, ci_request_id = None,
      ci_request_id_state = ABSENT, ci_source_wall_ns = None, ci_source_generated_ns = None, ci_local_wall_ns = 7,
      ci_local_monotonic_ns = 3, ci_clock_uncertainty_ns = 0, ci_connection_epoch = 0, ci_provider_sequence = None,
      ci_content_type = ''application/json'', ci_payload_encoding = ''utf-8'',
      ci_payload_transform = ''identity-public-market-v1'', ci_retention_delete_by_ns = None, ci_payload = ''{}''\<rparr>"

lemma demo_identifiers:
  "safe_identifier_ok ''orderbook_delta''" "safe_identifier_ok ''kalshi''" "safe_identifier_ok ''market-1''"
  "safe_identifier_ok ''orderbook''" "safe_identifier_ok ''identity-public-market-v1''" "safe_identifier_ok ''derived-canonical-v1''"
  "safe_identifier_ok ''raw_accepted''" "content_type_ok ''application/json''" "content_type_ok ''application/vnd.inci.derived+json''"
  "payload_encoding_ok ''utf-8''" "payload_encoding_ok ''canonical-json-v1''"
  by code_simp+

lemma demo_raw_ok:
  assumes "1 \<le> seq" "seq < 100"
  shows "event_recordable (raw_record demo_capture seq)"
    and "event_recordable (derived_record (raw_record demo_capture seq) (draft_of (raw_record demo_capture seq)) (seq + 1))"
proof -
  let ?raw = "raw_record demo_capture seq"
  let ?d = "derived_record ?raw (draft_of ?raw) (seq + 1)"
  have "validate_session_id demo_session_id = None"
    using demo_session_ok by (simp add: validate_session_id_def event_session_id_ok_def safe_identifier_def)
  then have "persisted_event_post_init ?raw = None" "persisted_event_post_init ?d = None"
    using assms demo_identifiers
    by (simp_all add: persisted_event_post_init_def event_scalars_def event_lineage_def event_retention_def demo_capture_def
        raw_record_def derived_record_def draft_of_def safe_identifier_def positive_event_integer_def nonnegative_integer_def
        validate_provenance_def event_sha256_def record_payload_transforms_def capture_payload_transforms_def)
  moreover have big: "100 < int_digits_bound" by (rule small_int_printable) simp
  then have "printable (JvObj (metadata_fields ?raw))" "printable (JvObj (metadata_fields ?d))"
    using assms
    by (simp_all add: metadata_fields_def demo_capture_def raw_record_def derived_record_def draft_of_def jv_optional_def
        jv_text_def del: codes_simps(1-4))
  ultimately show "event_recordable ?raw" "event_recordable ?d"
    unfolding event_recordable_def
    by (simp_all add: require_session_start_payload_def raw_record_def derived_record_def)
qed

definition demo_halt :: HaltAnswers where
  "demo_halt = \<lparr>ha_coordinator = None, ha_eligible = None, ha_gate = None, ha_write = Written, ha_closes = True\<rparr>"

definition demo_answers :: IngestAnswers where
  "demo_answers =
     \<lparr>ia_owner = True, ia_halt = demo_halt, ia_admission = None, ia_ingest_gate = None, ia_persist_gate = Inr 15,
      ia_before_raw = None, ia_raw_write = Written, ia_before_transform = None, ia_transform_gate = None,
      ia_before_derived = (\<lambda>_. None), ia_derived_gate = (\<lambda>_. None), ia_derived_write = (\<lambda>_. Written),
      ia_before_poll = None, ia_poll = Inr False\<rparr>"

definition demo_close :: CloseAnswers where
  "demo_close =
     \<lparr>ca_owner = True, ca_halt = demo_halt, ca_coordinator = None, ca_gate = None, ca_write = Written,
      ca_acknowledged = True, ca_closes = True, ca_marked = None\<rparr>"

abbreviation demo_check :: "CapturedInput \<Rightarrow> exn option" where
  "demo_check \<equiv> \<lambda>_. None"

end
