(* ===== verification/JsonInverse.thy ===== *)
theory JsonInverse
  imports JsonRoundTrip
begin

text \<open>
  Every value that can be printed is read back, up to the order of the keys of its objects; so the
  canonical text of a value determines the value.
\<close>

fun json_ok :: "jvalue \<Rightarrow> bool" where
  "json_ok JvNull = True"
| "json_ok (JvBool b) = True"
| "json_ok (JvInt i) = (\<bar>i\<bar> < int_digits_bound)"
| "json_ok (JvStr t) = list_all (\<lambda>n. n < 55296) t"
| "json_ok (JvArr vs) = list_all json_ok vs"
| "json_ok (JvObj kvs) =
     (distinct (map fst kvs) \<and> list_all (\<lambda>kv. list_all (\<lambda>n. n < 55296) (fst kv) \<and> json_ok (snd kv)) kvs)"

fun key_sorted :: "jvalue \<Rightarrow> jvalue" where
  "key_sorted (JvArr vs) = JvArr (map key_sorted vs)"
| "key_sorted (JvObj kvs) = JvObj (sort_key fst (map (\<lambda>kv. (fst kv, key_sorted (snd kv))) kvs))"
| "key_sorted v = v"

fun elements_text :: "jvalue list \<Rightarrow> string" where
  "elements_text [] = []"
| "elements_text [v] = json_dumps v"
| "elements_text (v # w # vs) = json_dumps v @ '','' @ elements_text (w # vs)"

lemma json_dumps_array: "json_dumps (JvArr vs) = ''['' @ elements_text vs @ '']''"
proof -
  have "comma_join (map json_dumps vs) = elements_text vs"
    by (induction vs rule: elements_text.induct) (simp_all add: comma_join_def)
  then show ?thesis by simp
qed

lemma dumps_head: "\<exists>c cs. codes (json_dumps v) = c # cs \<and> c \<notin> {32, 9, 10, 13, 93}"
proof (cases v)
  case (JvInt i)
  obtain c cs where "codes (int_text i) = c # cs" "c = 45 \<or> is_digit c" by (rule int_text_head)
  then show ?thesis using JvInt by (auto simp: is_digit_def)
qed (auto simp: quoted_def simp del: json_dumps.simps(5,6) simp add: json_dumps_array json_dumps_object)

lemma dumps_skip_ws: "skip_ws (codes (json_dumps v) @ r) = codes (json_dumps v) @ r"
  using dumps_head[of v] by auto

definition reads_back :: "jvalue \<Rightarrow> bool" where
  "reads_back v \<longleftrightarrow> (\<forall>n r. int_ends r \<longrightarrow> 2 * length (json_dumps v) + 1 \<le> n \<longrightarrow>
     parse_value n (codes (json_dumps v) @ r) = Inr (key_sorted v, r))"

lemma reads_back_D:
  "reads_back v \<Longrightarrow> int_ends r \<Longrightarrow> 2 * length (json_dumps v) + 1 \<le> n \<Longrightarrow>
     parse_value n (codes (json_dumps v) @ r) = Inr (key_sorted v, r)"
  unfolding reads_back_def by blast

lemma elements_text_skip_ws: "vs \<noteq> [] \<Longrightarrow> skip_ws (codes (elements_text vs) @ r) = codes (elements_text vs) @ r"
  by (cases vs rule: elements_text.cases) (simp_all add: dumps_skip_ws)

lemma parse_elements_text:
  "list_all reads_back vs \<Longrightarrow> vs \<noteq> [] \<Longrightarrow> 2 * length (elements_text vs) + 2 \<le> n \<Longrightarrow>
     parse_elements n (codes (elements_text vs) @ 93 # r) = Inr (map key_sorted vs, r)"
proof (induction vs arbitrary: n rule: elements_text.induct)
  case (2 v)
  then obtain m where n: "n = Suc m" by (cases n) auto
  have "parse_value m (codes (json_dumps v) @ 93 # r) = Inr (key_sorted v, 93 # r)"
    using 2 n by (intro reads_back_D) (simp_all add: int_ends_def is_digit_def)
  then show ?case unfolding n by (simp add: parse_elements.simps(2))
next
  case (3 v w vs)
  then obtain m where n: "n = Suc m" by (cases n) auto
  let ?r = "44 # codes (elements_text (w # vs)) @ 93 # r"
  have v: "parse_value m (codes (json_dumps v) @ ?r) = Inr (key_sorted v, ?r)"
    using 3 n by (intro reads_back_D) (simp_all add: int_ends_def is_digit_def)
  have "parse_elements m (codes (elements_text (w # vs)) @ 93 # r) = Inr (map key_sorted (w # vs), r)"
    using 3 n by (intro 3(1)) simp_all
  then show ?case
    unfolding n using v elements_text_skip_ws[of "w # vs" "93 # r"] by (simp add: parse_elements.simps(2))
qed simp

definition key_ok :: "utext \<times> jvalue \<Rightarrow> bool" where
  "key_ok kv \<longleftrightarrow> list_all (\<lambda>n. n < 55296) (fst kv) \<and> reads_back (snd kv)"

lemma members_text_skip_ws: "kvs \<noteq> [] \<Longrightarrow> skip_ws (codes (members_text kvs) @ r) = codes (members_text kvs) @ r"
  by (cases kvs rule: members_text.cases) (simp_all add: quoted_def)

lemma parse_members_back:
  "list_all key_ok kvs \<Longrightarrow> kvs \<noteq> [] \<Longrightarrow> 2 * length (members_text kvs) + 2 \<le> n \<Longrightarrow>
     parse_members n (codes (members_text kvs) @ 125 # r) = Inr (map (\<lambda>kv. (fst kv, key_sorted (snd kv))) kvs, r)"
proof (induction kvs arbitrary: n rule: members_text.induct)
  case (2 k v)
  then obtain m where n: "n = Suc m" by (cases n) auto
  have k: "list_all (\<lambda>n. n < 55296) k" using 2 by (simp add: key_ok_def)
  have "parse_value m (codes (json_dumps v) @ 125 # r) = Inr (key_sorted v, 125 # r)"
    using 2 n by (intro reads_back_D) (simp_all add: key_ok_def int_ends_def is_digit_def)
  then show ?case
    unfolding n by (simp add: parse_members.simps(2) quoted_def string_body_quoted[OF k] dumps_skip_ws)
next
  case (3 k v kv kvs)
  then obtain m where n: "n = Suc m" by (cases n) auto
  let ?r = "44 # codes (members_text (kv # kvs)) @ 125 # r"
  have k: "list_all (\<lambda>n. n < 55296) k" using 3 by (simp add: key_ok_def)
  have v: "parse_value m (codes (json_dumps v) @ ?r) = Inr (key_sorted v, ?r)"
    using 3 n by (intro reads_back_D) (simp_all add: key_ok_def int_ends_def is_digit_def)
  have "parse_members m (codes (members_text (kv # kvs)) @ 125 # r) =
      Inr (map (\<lambda>kv. (fst kv, key_sorted (snd kv))) (kv # kvs), r)"
    using 3 n by (intro 3(1)) simp_all
  then show ?case
    unfolding n using v members_text_skip_ws[of "kv # kvs" "125 # r"]
    by (simp add: parse_members.simps(2) quoted_def string_body_quoted[OF k] dumps_skip_ws)
qed simp

lemma sort_key_values:
  "sort_key fst (map (\<lambda>kv. (fst kv, g (snd kv))) kvs) = map (\<lambda>kv. (fst kv, g (snd kv))) (sort_key fst kvs)"
  by (rule sort_key_map) simp

lemma atom_reads_back: "atom_ok v \<Longrightarrow> key_sorted v = v \<Longrightarrow> reads_back v"
proof -
  assume v: "atom_ok v" "key_sorted v = v"
  have "parse_value n (codes (json_dumps v) @ r) = Inr (v, r)" if "int_ends r" "1 \<le> n" for n r
    using parse_atom(1)[OF v(1) that(1)] that(2) by (cases n) simp_all
  then show ?thesis unfolding reads_back_def v(2) by simp
qed

lemma json_ok_reads_back: "json_ok v \<Longrightarrow> reads_back v"
proof (induction v rule: json_ok.induct)
  case (5 vs)
  show ?case unfolding reads_back_def
  proof (intro allI impI)
    fix n r
    assume len: "2 * length (json_dumps (JvArr vs)) + 1 \<le> n"
    then obtain m where n: "n = Suc m" by (cases n) auto
    show "parse_value n (codes (json_dumps (JvArr vs)) @ r) = Inr (key_sorted (JvArr vs), r)"
    proof (cases "vs = []")
      case True
      then show ?thesis unfolding n json_dumps_array by (simp add: parse_value.simps(2))
    next
      case False
      have "list_all reads_back vs" using 5 by (auto simp: list_all_iff)
      then have "parse_elements m (codes (elements_text vs) @ 93 # r) = Inr (map key_sorted vs, r)"
        using False len n by (intro parse_elements_text) (simp_all add: json_dumps_array del: json_dumps.simps)
      moreover have "\<exists>c cs. codes (elements_text vs) @ 93 # r = c # cs \<and> c \<notin> {32, 9, 10, 13, 93}"
      proof (cases vs rule: elements_text.cases)
        case (2 v)
        then show ?thesis using dumps_head[of v] by auto
      next
        case (3 v w ws)
        then show ?thesis using dumps_head[of v] by auto
      qed (use False in simp)
      ultimately show ?thesis
        unfolding n json_dumps_array by (auto simp: parse_value.simps(2) Let_def)
    qed
  qed
next
  case (6 kvs)
  let ?ks = "sort_key fst kvs"
  let ?sorted = "map (\<lambda>kv. (fst kv, key_sorted (snd kv))) ?ks"
  show ?case unfolding reads_back_def
  proof (intro allI impI)
    fix n r
    assume len: "2 * length (json_dumps (JvObj kvs)) + 1 \<le> n"
    then obtain m where n: "n = Suc m" by (cases n) auto
    have d: "duplicate_free_object ?sorted = Inr (JvObj ?sorted)"
      using 6(2) by (simp add: duplicate_free_object_def comp_def distinct_map)
    show "parse_value n (codes (json_dumps (JvObj kvs)) @ r) = Inr (key_sorted (JvObj kvs), r)"
    proof (cases "?ks = []")
      case True
      then have "kvs = []" by (metis length_0_conv length_sort)
      then show ?thesis unfolding n json_dumps_object by (simp add: parse_value.simps(2) duplicate_free_object_def)
    next
      case False
      have "list_all key_ok ?ks" using 6 by (auto simp: list_all_iff key_ok_def)
      then have "parse_members m (codes (members_text ?ks) @ 125 # r) = Inr (?sorted, r)"
        using False len n by (intro parse_members_back) (simp_all add: json_dumps_object del: json_dumps.simps)
      moreover have "\<exists>cs. codes (members_text ?ks) @ 125 # r = 34 # cs"
        using False by (cases ?ks rule: members_text.cases) (simp_all add: quoted_def)
      ultimately show ?thesis
        unfolding n json_dumps_object key_sorted.simps sort_key_values using d by (auto simp: parse_value.simps(2) Let_def)
    qed
  qed
qed (auto intro!: atom_reads_back)

lemma json_loads_dumps_all:
  assumes "json_ok v"
  shows "json_loads (codes (json_dumps v)) = Inr (key_sorted v)"
proof -
  have "parse_value (2 * length (json_dumps v) + 1) (codes (json_dumps v) @ []) = Inr (key_sorted v, [])"
    by (rule reads_back_D[OF json_ok_reads_back[OF assms]]) (simp_all add: int_ends_def)
  then show ?thesis using dumps_skip_ws[of v "[]"] unfolding json_loads_def by simp
qed

lemma json_dumps_inject: "json_ok v \<Longrightarrow> json_ok w \<Longrightarrow> json_dumps v = json_dumps w \<Longrightarrow> key_sorted v = key_sorted w"
  using json_loads_dumps_all by (metis Inr_inject)

end
