(* ===== verification/EventProperties.thy ===== *)
theory EventProperties
  imports EventDemo JsonInverse
begin

text \<open>
  The properties of the event core: the record codec and the session manifest are read as they were
  written, every valid record fits a frame, the foundation reducer accepts exactly the ordered records of its session and its
  state is a function of them.
\<close>

text \<open>C11: The record codec is a bijection between the valid records and what it reads.  \<open>decode_record\<close> returns a record for a
  metadata and a payload exactly when the record passes its constructor, its metadata can be printed, its payload is a
  manifest where it must be one, and \<open>encode_record\<close> of it gives these very bytes.  So every record that can be
  encoded is read back unchanged, and nothing but the canonical encoding of a record is ever read as one.\<close>

theorem codec_is_exact:
  "decode_record metadata payload = Inr e \<longleftrightarrow>
     persisted_event_post_init e = None \<and> require_session_start_payload e = Inr () \<and> encode_record e = Inr (metadata, payload)"
proof
  assume d: "decode_record metadata payload = Inr e"
  then show "persisted_event_post_init e = None \<and> require_session_start_payload e = Inr () \<and> encode_record e = Inr (metadata, payload)"
    using decode_record_recordable[OF d] encode_decode[OF d] unfolding event_recordable_def by blast
next
  assume e: "persisted_event_post_init e = None \<and> require_session_start_payload e = Inr () \<and> encode_record e = Inr (metadata, payload)"
  then show "decode_record metadata payload = Inr e"
    using decode_encode[of e] unfolding encode_record_Inr by blast
qed

text \<open>C37: The session manifest has one text.  Reading bytes as a manifest succeeds exactly for the canonical bytes of a manifest its
  constructor accepts, and then returns that manifest.\<close>

theorem manifest_has_one_text:
  "read_manifest content = Inr m \<longleftrightarrow>
     session_manifest_post_init m = None \<and> canonical_session_manifest_bytes m = Inr content"
  unfolding canonical_session_manifest_bytes_def using manifest_encode_decode manifest_decode_encode by blast

lemma json_dumps_key_sorted: "json_dumps (key_sorted v) = json_dumps v"
proof (induction v)
  case (JvArr vs)
  then have "map (\<lambda>v. json_dumps (key_sorted v)) vs = map json_dumps vs" by (intro map_cong) simp_all
  then show ?case by (simp only: key_sorted.simps json_dumps.simps map_map comp_def)
next
  case (JvObj kvs)
  have "map (\<lambda>kv. (fst kv, json_dumps (key_sorted (snd kv)))) kvs = map (\<lambda>kv. (fst kv, json_dumps (snd kv))) kvs"
    using JvObj by (intro map_cong) auto
  moreover have "sort_key fst (map (\<lambda>kv. (fst kv, json_dumps (snd kv))) (sort_key fst (map (\<lambda>kv. (fst kv, key_sorted (snd kv))) kvs))) =
      sort_key fst (map (\<lambda>kv. (fst kv, json_dumps (key_sorted (snd kv)))) kvs)"
    using sort_key_values[of "\<lambda>v. json_dumps (key_sorted v)" kvs]
    unfolding sort_key_values by (simp add: sort_key_id_if_sorted comp_def)
  ultimately show ?case unfolding key_sorted.simps json_dumps.simps case_prod_beta' by (simp only:)
qed simp_all

lemma json_ok_printable: "json_ok v \<Longrightarrow> printable v"
  by (induction v rule: json_ok.induct) (auto simp: list_all_iff)

text \<open>
  How deep a value is nested.  Both \<open>_validate\<close> and the functions of \<open>json\<close> recurse once per level and raise
  \<open>RecursionError\<close> where the interpreter's limit (1000 unless changed) is reached, which the model does not show; the bound leaves
  more than two thirds of it to the callers.  The objects of the program are nested three levels deep at most.
\<close>

fun json_depth :: "jvalue \<Rightarrow> nat" where
  "json_depth (JvArr vs) = Suc (foldr max (map json_depth vs) 0)"
| "json_depth (JvObj kvs) = Suc (foldr max (map (\<lambda>kv. json_depth (snd kv)) kvs) 0)"
| "json_depth v = 0"

definition nesting_ok :: "jvalue \<Rightarrow> bool" where
  "nesting_ok v \<longleftrightarrow> json_depth v \<le> 300"

text \<open>C38: Canonical JSON is read back, and texts are compared like values.  The canonical text of any value nested at most 300 levels
  deep (far from Python's recursion limit, which is not modelled) whose
  integers can be printed, whose texts hold no surrogates or characters above them and whose objects have distinct keys,
  is read by the strict reader (with its duplicate-key and number hooks) as the same value with the keys of every object in
  order; and two such values have the same text exactly when they differ at most in the order of keys.\<close>

theorem canonical_json_is_read_back:
  assumes "json_ok v" and "json_ok w" and "nesting_ok v" and "nesting_ok w"
  shows "(\<exists>content. canonical_json_bytes v = Inr content \<and> json_loads (codes content) = Inr (key_sorted v))
    \<and> (canonical_json_bytes v = canonical_json_bytes w \<longleftrightarrow> key_sorted v = key_sorted w)"
proof -
  have c: "canonical_json_bytes v = Inr (json_dumps v)" "canonical_json_bytes w = Inr (json_dumps w)"
    using assms(1,2) json_ok_printable unfolding canonical_json_bytes_def by simp_all
  have "json_dumps v = json_dumps w \<longleftrightarrow> key_sorted v = key_sorted w"
    using json_dumps_inject[OF assms(1,2)] json_dumps_key_sorted by metis
  then show ?thesis unfolding c using json_loads_dumps_all[OF assms(1)] by simp
qed

lemma canonical_json_is_read_back_witness:
  "canonical_json_bytes (JvObj [([98], JvArr [JvInt 2, JvNull]), ([97], JvBool True)]) =
     canonical_json_bytes (JvObj [([97], JvBool True), ([98], JvArr [JvInt 2, JvNull])])"
proof -
  have ok: "json_ok (JvObj [([98], JvArr [JvInt 2, JvNull]), ([97], JvBool True)])"
    "json_ok (JvObj [([97], JvBool True), ([98], JvArr [JvInt 2, JvNull])])"
    by (simp_all add: small_int_printable)
  have "nesting_ok (JvObj [([98], JvArr [JvInt 2, JvNull]), ([97], JvBool True)])"
    "nesting_ok (JvObj [([97], JvBool True), ([98], JvArr [JvInt 2, JvNull])])"
    by (simp_all add: nesting_ok_def)
  from canonical_json_is_read_back[OF ok this] show ?thesis by simp
qed

text \<open>C39: Every valid record fits a frame.  The metadata of a record its constructor accepts is at most 400000 bytes, so with a
  payload within the capture limit of 8 MiB and a sequence number below two to the 64 the frame encoder returns a frame,
  of at most the 16 MiB that the reader allows.\<close>

theorem valid_records_fit_frames:
  assumes "persisted_event_post_init e = None" and "require_session_start_payload e = Inr ()"
    and "encode_record e = Inr (metadata, ev_payload e)"
    and "length (ev_payload e) \<le> max_capture_bytes" and "ev_ingest_seq e < 2 ^ 64"
  shows "length metadata \<le> 400000 \<and> (\<exists>frame. encode_frame e = Inr frame
    \<and> length frame = frame_fixed_bytes + length metadata + length (ev_payload e) \<and> length frame \<le> max_frame_bytes)"
proof -
  have r: "event_recordable e" and m: "metadata = json_dumps (JvObj (metadata_fields e))"
    using assms(1-3) unfolding event_recordable_def encode_record_Inr by blast+
  have short: "length metadata \<le> 400000"
    unfolding m
  proof (rule short_object)
    show "length k \<le> 100 \<and> short_value v" if "(k, v) \<in> set (metadata_fields e)" for k v
      using short_metadata[OF r] that by (auto simp: list_all_iff)
    show "length (metadata_fields e) \<le> 50" by (simp add: metadata_fields_def)
  qed
  have "frame_ok e" using record_fits_frame[OF r] assms(4,5) by (simp add: max_capture_bytes_def)
  then obtain f where "encode_frame e = Inr f" unfolding frame_ok_def by blast
  then show ?thesis using short assms(3) unfolding encode_frame_Inr frameable_def by (auto simp: length_frame_bytes)
qed

lemma valid_records_fit_frames_witness:
  "\<exists>metadata frame. encode_record (demo_record 1 0) = Inr (metadata, ''{}'') \<and> length metadata \<le> 400000
     \<and> encode_frame (demo_record 1 0) = Inr frame \<and> length frame \<le> max_frame_bytes"
proof -
  have r: "event_recordable (demo_record 1 0)" by (rule demo_record_ok) simp_all
  then have e: "persisted_event_post_init (demo_record 1 0) = None" "require_session_start_payload (demo_record 1 0) = Inr ()"
    and enc: "encode_record (demo_record 1 0) = Inr (json_dumps (JvObj (metadata_fields (demo_record 1 0))), ev_payload (demo_record 1 0))"
    using encode_of unfolding event_recordable_def by blast+
  have small: "length (ev_payload (demo_record 1 0)) \<le> max_capture_bytes" "ev_ingest_seq (demo_record 1 0) < 2 ^ 64"
    by (simp_all add: demo_record_def max_capture_bytes_def)
  have "ev_payload (demo_record 1 0) = ''{}''" by (simp add: demo_record_def)
  then show ?thesis using valid_records_fit_frames[OF e enc small] enc by metis
qed

subsection \<open>The reducer\<close>

text \<open>C26: What the foundation reducer answers.  For a state whose canonical bytes exist, \<open>reduce_event\<close> either returns the state
  counted up, with the record's sequence number and its source's epoch entered and one derived draft naming the record, or
  raises a \<open>ReducerValidationError\<close> with the reason of the first check that fails: the record is not valid, not raw, of
  another session, not later than the last one, or from an earlier connection of its source.  It raises nothing else.\<close>

theorem reduction_outcome:
  assumes "canonical_state_bytes s = Inr b"
  shows "reduce_event s e =
    (case refusal_reason s e of
       None \<Rightarrow> Inr \<lparr>rd_state = next_state s e, rd_outputs = [draft_of e]\<rparr>
     | Some reason \<Rightarrow> Inl (ReducerValidationError reason))"
  using assms reduce_event_eq unfolding canonical_state_bytes_Inr by blast

lemma demo_reduces: "event_acceptable (session_state demo_session_id) (demo_record 2 0)"
proof -
  have "event_recordable (demo_record 2 0)" by (rule demo_record_ok) simp_all
  then show ?thesis
    unfolding event_acceptable_def by (simp add: demo_record_def session_state_def source_epoch_def)
qed

lemma reduction_outcome_witness:
  "reduce_event (session_state demo_session_id) (demo_record 2 0) =
     Inr \<lparr>rd_state = next_state (session_state demo_session_id) (demo_record 2 0), rd_outputs = [draft_of (demo_record 2 0)]\<rparr>"
proof -
  obtain b where b: "canonical_state_bytes (session_state demo_session_id) = Inr b"
    using session_state_ok[OF demo_session_ok] canonical_state_bytes_ok by blast
  have "refusal_reason (session_state demo_session_id) (demo_record 2 0) = None" using demo_reduces unfolding refusal_reason_None .
  then show ?thesis using reduction_outcome[OF b, of "demo_record 2 0"] by simp
qed

text \<open>C14: A run of the foundation reducer accepts exactly the ordered records of its session.  From the initial state of a session a
  list of records is reduced to the end exactly when they are valid raw records of the session with strictly increasing
  sequence numbers in which no source goes back to an earlier connection; the final state is then a function of them:
  their number, twice, the last sequence number, and the last epoch of each source.  Any other list ends in a
  \<open>ReducerValidationError\<close>.\<close>

theorem foundation_runs:
  assumes "initial_state sid = Inr s0"
  shows "case run_steps foundation_step s0 es of
      Inr s \<Rightarrow> records_acceptable sid es \<and> state_after sid es s
    | Inl x \<Rightarrow> \<not> records_acceptable sid es \<and> (\<exists>reason. x = ReducerValidationError reason)"
proof -
  have "event_session_id_ok sid"
    using assms unfolding initial_state_def construct_def by (auto simp: validate_state_iff split: option.splits)
  moreover from this have "s0 = session_state sid" using initial_state_of assms by simp
  ultimately show ?thesis using run_records by simp
qed

lemma foundation_runs_witness:
  "\<exists>s. run_steps foundation_step (session_state demo_session_id) [demo_record 2 0, demo_record 4 1] = Inr s
     \<and> state_after demo_session_id [demo_record 2 0, demo_record 4 1] s
     \<and> (\<exists>x. run_steps foundation_step (session_state demo_session_id) [demo_record 4 1, demo_record 2 0] = Inl x)"
proof -
  have i: "initial_state demo_session_id = Inr (session_state demo_session_id)" by (rule initial_state_of[OF demo_session_ok])
  have r: "event_recordable (demo_record 2 0)" "event_recordable (demo_record 4 1)" by (rule demo_record_ok; simp)+
  have ordered: "records_acceptable demo_session_id [demo_record 2 0, demo_record 4 1]"
    using r by (simp add: records_acceptable_def demo_record_def event_key_def)
  have unordered: "\<not> records_acceptable demo_session_id [demo_record 4 1, demo_record 2 0]"
    by (simp add: records_acceptable_def demo_record_def)
  show ?thesis
    using foundation_runs[OF i, of "[demo_record 2 0, demo_record 4 1]"] ordered
      foundation_runs[OF i, of "[demo_record 4 1, demo_record 2 0]"] unordered
    by (auto split: sum.splits)
qed

end
