(* ===== verification/JournalProperties.thy ===== *)
theory JournalProperties
  imports EventDemo
begin

text \<open>
  The properties of the journal and of the runtime that writes it: what was written is replayed exactly, what a crash
  leaves is read up to the last whole record, an admissible input is ingested, and reserved names cannot be captured.
\<close>

subsection \<open>The runtime\<close>

lemma demo_session_starts:
  obtains w rt where "create_writer Written Written True demo_manifest = Inr w"
    "start_runtime demo_halt None None None w (session_state demo_session_id) = Inr rt" "live rt"
    "rt_writer rt = w\<lparr>jw_runtime_claimed := True\<rparr>" "rt_state rt = session_state demo_session_id" "runtime_inv demo_manifest rt"
proof -
  have sid: "sm_session_id demo_manifest = demo_session_id" by (simp add: demo_manifest_def)
  obtain w where w: "create_writer Written Written True demo_manifest = Inr w" "\<not> jw_runtime_claimed w" "require_writable w = None"
    "jw_session_manifest w = demo_manifest" "frame_ok (jw_session_start w)"
    "jw_session_start w = control_event demo_manifest 1 ''SESSION_START'' (json_dumps (JvObj (manifest_fields demo_manifest)))"
    by (rule create_writer_accepts[OF demo_manifest_ok, of True])
  obtain rt where rt: "start_runtime demo_halt None None None w (session_state demo_session_id) = Inr rt" "live rt"
    "rt_writer rt = w\<lparr>jw_runtime_claimed := True\<rparr>" "rt_state rt = session_state demo_session_id"
    by (rule start_runtime_accepts[OF w(1-5) demo_manifest_ok w(6), of demo_halt, unfolded sid])
  have "runtime_inv demo_manifest rt"
    using start_runtime_inv[OF create_writer_inv(1)[OF w(1)] rt(1)] w(4) by simp
  then show thesis using that w(1) rt by blast
qed

lemma demo_writer_start:
  assumes "create_writer Written Written True demo_manifest = Inr w"
  shows "jw_next_seq w = 2" "jw_raw_count w = 0" "jw_derived_count w = 0" "jw_latest_raw w = None" "jw_session_manifest w = demo_manifest"
proof -
  obtain payload frame where c:
    "w = count_record (control_event demo_manifest 1 ''SESSION_START'' payload)
       ((new_writer demo_manifest (control_event demo_manifest 1 ''SESSION_START'' payload))\<lparr>jw_file := journal_prefix @ frame\<rparr>)"
    by (rule create_writer_Inr[OF assms]) blast
  show "jw_next_seq w = 2" "jw_raw_count w = 0" "jw_derived_count w = 0" "jw_latest_raw w = None" "jw_session_manifest w = demo_manifest"
    unfolding c by (simp_all add: count_record_def new_writer_def control_event_def)
qed

lemma demo_capture_valid: "validate_captured_input demo_check demo_capture demo_manifest = None"
proof -
  have "persisted_event_post_init (raw_record demo_capture 1) = None"
    using demo_raw_ok(1)[of 1] unfolding event_recordable_def by simp
  then show ?thesis
    by (simp add: validate_captured_input_def capture_payload_transforms_def)
      (simp add: demo_capture_def demo_manifest_def fixed_nonprovider_source_id_def)
qed

lemma demo_input_admissible:
  assumes "jw_session_manifest (rt_writer rt) = demo_manifest" "jw_next_seq (rt_writer rt) = 2" "rt_state rt = session_state demo_session_id"
  shows "input_admissible demo_check demo_answers rt demo_capture"
proof -
  let ?raw = "raw_record demo_capture 2" and ?d = "derived_record (raw_record demo_capture 2) (draft_of (raw_record demo_capture 2)) 3"
  note ok = demo_raw_ok[of 2]
  have r: "event_recordable ?raw" "event_recordable ?d" using ok by simp_all
  have "frame_ok ?raw" by (rule record_fits_frame[OF r(1)]) (simp_all add: raw_record_def demo_capture_def)
  moreover have "length (json_dumps (JvObj (accepted_fields ?raw))) \<le> 400000"
    by (rule short_object)
      (auto simp: accepted_fields_def raw_record_def demo_capture_def codes_def short_value_def jv_text_def length_hexdigest int_text_def digits_text.simps)
  then have "frame_ok ?d"
    by (intro record_fits_frame[OF r(2)]) (simp_all add: derived_record_def draft_of_def)
  moreover have "refusal_reason (session_state demo_session_id) ?raw = None"
    using r(1) by (simp add: refusal_reason_def raw_record_def demo_capture_def session_state_def source_epoch_def)
  moreover have "authorize_persist demo_check (ia_persist_gate demo_answers) demo_manifest demo_capture = Inr (ci_retention_delete_by_ns demo_capture)"
    unfolding authorize_persist_def by (simp add: demo_capture_valid) (simp add: demo_capture_def)
  ultimately show ?thesis
    unfolding input_admissible_def stored_input_def assms using demo_capture_valid
    by (simp add: Let_def demo_capture_def max_capture_bytes_def)
qed

lemma demo_granted: "granted demo_answers" "close_granted demo_close" "halt_answers_ok demo_halt" "close_answers_ok demo_close"
  "runtime_op_ok (Ingest demo_answers demo_capture)"
  by (simp_all add: granted_def close_granted_def close_answers_ok_def halt_answers_ok_def demo_answers_def demo_close_def
      demo_halt_def demo_capture_def)

lemma demo_ingested:
  assumes "create_writer Written Written True demo_manifest = Inr w"
    "rt_writer rt = w\<lparr>jw_runtime_claimed := True\<rparr>" "rt_state rt = session_state demo_session_id" "runtime_inv demo_manifest rt" "live rt"
  obtains rt' where "runtime_ingest demo_check demo_answers rt demo_capture = (rt', Inr (raw_record demo_capture 2))"
    "live rt'" "counters_small (rt_writer rt')"
proof -
  note w = demo_writer_start[OF assms(1)]
  have adm: "input_admissible demo_check demo_answers rt demo_capture"
    using w assms(2,3) by (intro demo_input_admissible) simp_all
  have raw: "fst (stored_input rt demo_capture) = raw_record demo_capture 2" using w(1) assms(2) by (simp add: stored_input_def Let_def)
  let ?raw = "raw_record demo_capture 2" and ?d = "snd (stored_input rt demo_capture)"
  obtain trace where i: "runtime_ingest demo_check demo_answers rt demo_capture =
    (rt\<lparr>rt_writer := count_record ?d (count_record ?raw (rt_writer rt\<lparr>jw_file := jw_file (rt_writer rt) @ frame_of ?raw @ frame_of ?d\<rparr>)),
        rt_trace := trace, rt_state := next_state (rt_state rt) ?raw\<rparr>, Inr ?raw)"
    by (rule ingest_accepts[OF assms(4,5) demo_granted(1) adm, unfolded raw])
  have kinds: "ev_record_kind ?raw = RAW" "ev_record_kind ?d = DERIVED" "ev_ingest_seq ?raw = 2"
    by (simp_all add: stored_input_def Let_def raw_record_def derived_record_def)
  show thesis
    using w assms(2,5) kinds
    by (intro that[OF i]) (simp_all add: live_def counters_small_def count_record_def latest_raw_seq_def)
qed

text \<open>C2: A session that ends cleanly replays exactly.  Whatever operations a runtime started on a fresh journal was given, with
  whatever answers of the storage, of the provider gate and of the retention coordinator, and whatever failed and was
  retried on the way (with a coordinator that is open: while halting it refuses only with a global halt or with retention
  errors): if a clean close (\<open>close_clean\<close>, the session-end close of the ingress, or the poll that finds the
  session ended) returns a terminal record, then replaying the file of the journal under the digest of its manifest
  succeeds, is exact, and ends in the state and trace the runtime ended in.\<close>

theorem clean_session_replays_exactly:
  assumes "create_writer prefix_outcome start_outcome closes m = Inr w"
    and "start_runtime h claim coordinator gate w s = Inr rt0"
    and "list_all runtime_op_ok ops" and "run_steps (runtime_step check) rt0 ops = Inr rt" and "close_answers_ok a"
    and "close_clean a reason rt = (rt', Inr terminal) \<or> close_ingress_session_end c p a rt = (rt', Inr terminal)
      \<or> poll_entitlement c p a rt = (rt', Inr (Some terminal))"
  shows "\<exists>digest r. session_manifest_sha256 m = Inr digest \<and> (\<forall>rejection. replay rejection None digest m (jw_file (rt_writer rt')) = Inr r)
    \<and> rr_exact_replay r \<and> rr_state r = Some (rt_state rt') \<and> rr_trace_sha256 r = Some (hexdigest (rt_trace rt'))"
proof -
  have "runtime_inv m rt0"
    using start_runtime_inv[OF create_writer_inv(1)[OF assms(1)] assms(2)] create_writer_inv(4)[OF assms(1)] by simp
  then have inv: "runtime_inv m rt" by (rule runtime.run_inv[OF _ assms(3,4)])
  have "replays_exactly m rt'"
    using assms(6) close_clean_ends(2)[OF inv assms(5)] close_ingress_session_end_ends(2)[OF inv assms(5)]
      poll_entitlement_ends(2)[OF inv assms(5)] by blast
  then show ?thesis unfolding replays_exactly_def .
qed

lemma clean_session_replays_exactly_witness:
  "\<exists>(rt' :: EventRuntime) digest r. session_manifest_sha256 demo_manifest = Inr digest
     \<and> (\<forall>rejection. replay rejection None digest demo_manifest (jw_file (rt_writer rt')) = Inr r) \<and> rr_exact_replay r
     \<and> rr_state r = Some (rt_state rt') \<and> rr_trace_sha256 r = Some (hexdigest (rt_trace rt'))"
proof -
  obtain w rt0 where w: "create_writer Written Written True demo_manifest = Inr w"
    "start_runtime demo_halt None None None w (session_state demo_session_id) = Inr rt0" "live rt0"
    "rt_writer rt0 = w\<lparr>jw_runtime_claimed := True\<rparr>" "rt_state rt0 = session_state demo_session_id" "runtime_inv demo_manifest rt0"
    by (rule demo_session_starts)
  obtain rt where i: "runtime_ingest demo_check demo_answers rt0 demo_capture = (rt, Inr (raw_record demo_capture 2))"
    "live rt" "counters_small (rt_writer rt)"
    by (rule demo_ingested[OF w(1,4,5,6,3)])
  have run: "run_steps (runtime_step demo_check) rt0 [Ingest demo_answers demo_capture] = Inr rt"
    by (simp add: runtime_step_def i(1))
  have ok: "list_all runtime_op_ok [Ingest demo_answers demo_capture]" using demo_granted(5) by simp
  have inv: "runtime_inv demo_manifest rt" by (rule runtime.run_inv[OF w(6) ok run])
  obtain rt' terminal where c: "close_clean demo_close ''operator_stop'' rt = (rt', Inr terminal)"
    by (rule close_clean_accepts[OF inv i(2) demo_granted(2) i(3)])
  show ?thesis
    using clean_session_replays_exactly[OF w(1,2) ok run demo_granted(4) disjI1[OF c]] by blast
qed

text \<open>C12: An admissible input is ingested.  On a live runtime that a started session has reached, with collaborators that agree and
  a storage that writes, an input that the capture validation and the codec accept and the reducer does not refuse is
  answered with its raw record; the file grows by exactly the frame of that record followed by the frame of its
  derived record, the state becomes the reducer's next state and the runtime stays live.\<close>

theorem input_is_ingested:
  assumes inv: "runtime_inv m rt" and l: "live rt" and g: "granted a" and adm: "input_admissible check a rt c"
    and stored: "stored_input rt c = (raw, d)"
  shows "\<exists>rt'. runtime_ingest check a rt c = (rt', Inr raw) \<and> live rt'
    \<and> jw_file (rt_writer rt') = jw_file (rt_writer rt) @ frame_of raw @ frame_of d
    \<and> rt_state rt' = next_state (rt_state rt) raw \<and> jw_next_seq (rt_writer rt') = jw_next_seq (rt_writer rt) + 2"
proof -
  obtain trace where i: "runtime_ingest check a rt c =
    (rt\<lparr>rt_writer := count_record d (count_record raw (rt_writer rt\<lparr>jw_file := jw_file (rt_writer rt) @ frame_of raw @ frame_of d\<rparr>)),
        rt_trace := trace, rt_state := next_state (rt_state rt) raw\<rparr>, Inr raw)"
    using ingest_accepts[OF inv l g adm] unfolding stored by auto
  then show ?thesis using l by (simp add: live_def)
qed

lemma input_is_ingested_witness:
  "\<exists>(rt :: EventRuntime) rt'. runtime_ingest demo_check demo_answers rt demo_capture = (rt', Inr (raw_record demo_capture 2)) \<and> live rt'
     \<and> rt_state rt' = next_state (session_state demo_session_id) (raw_record demo_capture 2)"
proof -
  obtain w rt where w: "create_writer Written Written True demo_manifest = Inr w" "live rt"
    "rt_writer rt = w\<lparr>jw_runtime_claimed := True\<rparr>" "rt_state rt = session_state demo_session_id" "runtime_inv demo_manifest rt"
    by (rule demo_session_starts)
  note d = demo_writer_start[OF w(1)]
  have adm: "input_admissible demo_check demo_answers rt demo_capture"
    using d w(3,4) by (intro demo_input_admissible) simp_all
  have "stored_input rt demo_capture = (raw_record demo_capture 2, snd (stored_input rt demo_capture))"
    using d(1) w(3) by (simp add: stored_input_def Let_def)
  then show ?thesis using input_is_ingested[OF w(5,2) demo_granted(1) adm] w(4) by metis
qed

subsection \<open>The journal after a crash\<close>

text \<open>C3: No acknowledged record is lost and none is invented.  Take a journal created by \<open>JournalWriter.create\<close> and any sequence of
  operations on it, with any answer of the storage to each of them (written, refused before a byte, or uncertain after
  any number of bytes).  Reading the file, open or closed, clean or poisoned, never raises: it yields exactly the
  acknowledged records in order, or, when the writer is poisoned, at most one more, and that one is the record which the operation
  that poisoned the writer was writing, after exactly these records had been acknowledged.
  The summary counts the yielded records, its last good offset is where the frames of these records end, and a file whose
  writer is not poisoned has no torn tail.\<close>

theorem crash_recovery:
  assumes "create_writer prefix_outcome start_outcome closes m = Inr w0"
    and "run_steps (journal_step check) (w0, [jw_session_start w0]) ops = Inr (w, acked)"
  shows "\<exists>es summary. iter_records (jw_file w) True = (es, Inr ()) \<and> scan (jw_file w) False = Inr summary
    \<and> (es = acked \<or>
        jw_poisoned w \<and> (\<exists>e. es = acked @ [e] \<and> write_interrupted check (w0, [jw_session_start w0]) ops acked e))
    \<and> ss_record_count summary = int (length es) \<and> ss_last_good_offset summary = length (journal_file es)
    \<and> (\<not> jw_poisoned w \<longrightarrow> ss_wal_valid summary \<and> (jw_closed w \<longleftrightarrow> ss_issue summary \<noteq> Some MISSING_TERMINAL))"
proof -
  note w0 = create_writer_inv(1,2)[OF assms(1)]
  obtain es summary where r: "walk validate_terminal (jw_file w) = (es, Inr summary)"
    and rest: "(es = acked \<or>
        jw_poisoned w \<and> (\<exists>e. es = acked @ [e] \<and> write_interrupted check (w0, [jw_session_start w0]) ops acked e))
    \<and> ss_record_count summary = int (length es) \<and> ss_last_good_offset summary = length (journal_file es)
    \<and> (\<not> jw_poisoned w \<longrightarrow> ss_wal_valid summary \<and> (jw_closed w \<longleftrightarrow> ss_issue summary \<noteq> Some MISSING_TERMINAL))"
    using read_after[OF w0 assms(2)] by blast
  have "iter_records (jw_file w) True = (es, Inr ())" "scan (jw_file w) False = Inr summary"
    unfolding iter_records_def scan_def r by simp_all
  then show ?thesis using rest by blast
qed

lemma crash_recovery_witness:
  "\<exists>w0 w acked es. create_writer Written Written True demo_manifest = Inr w0
     \<and> run_steps (journal_step demo_check) (w0, [jw_session_start w0])
         [AppendRaw Written demo_capture, AppendRaw (Uncertain 40) demo_capture] = Inr (w, acked)
     \<and> iter_records (jw_file w) True = (es, Inr ())
     \<and> (es = acked \<or> (\<exists>e. es = acked @ [e] \<and> write_interrupted demo_check (w0, [jw_session_start w0])
         [AppendRaw Written demo_capture, AppendRaw (Uncertain 40) demo_capture] acked e))"
proof -
  obtain w0 where w0: "create_writer Written Written True demo_manifest = Inr w0" by (rule demo_session_starts)
  obtain w acked where run: "run_steps (journal_step demo_check) (w0, [jw_session_start w0])
      [AppendRaw Written demo_capture, AppendRaw (Uncertain 40) demo_capture] = Inr (w, acked)"
    by (simp add: journal_step_def Let_def case_prod_beta)
  show ?thesis using crash_recovery[OF w0 run] w0 run by blast
qed

lemma walk_records_prefix:
  "walk_records validate k (es @ fs) = Inr k' \<Longrightarrow> \<exists>k1. walk_records validate k es = Inr k1"
  by (induction es arbitrary: k) (auto simp: bind_result_eq_Inr journal_corrupt_def split: if_splits)

lemma walk_short_header:
  "n < 16 \<Longrightarrow> walk validate (take n journal_prefix) = ([], Inr (header_summary (take n journal_prefix) TORN_TAIL))"
  by (simp add: walk_def read_file_header_def pread_def)

lemma walk_cut:
  assumes "list_all frame_ok es" "walk_records validate initial_walk es = Inr k" "n \<le> length (journal_file es)"
  shows "\<exists>i summary. walk validate (take n (journal_file es)) = (take i es, Inr summary)"
  using assms
proof (induction es arbitrary: k rule: rev_induct)
  case Nil
  show ?case
  proof (cases "n < 16")
    case True
    then show ?thesis using walk_short_header[OF True] by (simp add: journal_file_def)
  next
    case False
    then have "take n (journal_file []) = journal_file []" using Nil.prems(3) by (simp add: journal_file_def)
    then show ?thesis using walk_complete[OF Nil.prems(1,2)] by simp
  qed
next
  case (snoc e es)
  obtain k1 where k1: "walk_records validate initial_walk es = Inr k1" using walk_records_prefix[OF snoc.prems(2)] by blast
  then have seen: "\<not> wk_terminal_seen k1"
    using snoc.prems(2) by (auto simp: walk_records_snoc journal_corrupt_def split: if_splits)
  have ok: "list_all frame_ok es" "frame_ok e" using snoc.prems(1) by simp_all
  consider "n \<le> length (journal_file es)" | "length (journal_file es) < n" "n < length (journal_file (es @ [e]))"
    | "n = length (journal_file (es @ [e]))" using snoc.prems(3) by linarith
  then show ?case
  proof cases
    case 1
    then obtain i summary where "walk validate (take n (journal_file es)) = (take i es, Inr summary)"
      using snoc.IH[OF ok(1) k1] by blast
    then have "walk validate (take n (journal_file (es @ [e]))) = (take (min i (length es)) (es @ [e]), Inr summary)"
      using 1 by (simp add: journal_file_snoc min_def)
    then show ?thesis by blast
  next
    case 2
    let ?j = "n - length (journal_file es)"
    have cut: "take n (journal_file (es @ [e])) = journal_file es @ take ?j (frame_of e)"
      using 2 by (simp add: journal_file_snoc)
    have "0 < ?j" "?j < length (frame_of e)" using 2 by (simp_all add: journal_file_snoc less_diff_conv2)
    from walk_torn[OF ok(1) k1 ok(2) this seen] show ?thesis
      unfolding cut by (intro exI[of _ "length es"]) simp
  next
    case 3
    then show ?thesis using walk_complete[OF snoc.prems(1,2)] by (intro exI[of _ "length (es @ [e])"]) simp
  qed
qed

lemma walk_cut_any:
  assumes "list_all frame_ok es" "walk_records validate initial_walk es = Inr k"
  shows "\<exists>es' summary. walk validate (take n (journal_file es)) = (es', Inr summary) \<and> (\<exists>i. es' = take i es)"
proof -
  have "take n (journal_file es) = take (min n (length (journal_file es))) (journal_file es)" by (simp add: min_def)
  then show ?thesis using walk_cut[OF assms, of "min n (length (journal_file es))"] by auto
qed

lemma walk_cut_tail:
  assumes ok: "list_all frame_ok acked" and k: "walk_records validate_terminal initial_walk acked = Inr k" and t: "tail_of k e t"
  shows "\<exists>es summary. walk validate_terminal (take n (journal_file acked @ t)) = (es, Inr summary)
    \<and> ((\<exists>i. es = take i acked) \<or> es = acked @ [e])"
proof (cases "t = []")
  case True
  then show ?thesis using walk_cut_any[OF ok k, of n] by simp blast
next
  case False
  then obtain k' j where e: "frame_ok e" "\<not> wk_terminal_seen k" "walk_event validate_terminal k e = Inr k'" "t = take j (frame_of e)"
    using t unfolding tail_of_def by blast
  have ok': "list_all frame_ok (acked @ [e])" using ok e(1) by simp
  obtain k2 where k2: "walk_records validate_terminal initial_walk (acked @ [e]) = Inr k2"
    using k e(2,3) by (simp add: walk_records_snoc)
  let ?n = "min n (min (length (journal_file acked) + j) (length (journal_file (acked @ [e]))))"
  have "take n (journal_file acked @ t) = take ?n (journal_file (acked @ [e]))"
    unfolding e(4) journal_file_snoc by (auto simp: min_def take_append)
  moreover obtain i summary where "walk validate_terminal (take ?n (journal_file (acked @ [e]))) = (take i (acked @ [e]), Inr summary)"
    using walk_cut[OF ok' k2, of ?n] by (metis min.cobounded2 min.coboundedI2)
  moreover have "take i (acked @ [e]) = take i acked \<or> take i (acked @ [e]) = acked @ [e]"
    by (cases "i \<le> length acked") simp_all
  ultimately show ?thesis by metis
qed

text \<open>C15: A journal cut anywhere is read as a prefix.  Take a journal that was created and then used in any way, with any answers of
  the storage, in whatever state the operations left it, and cut its file after any number of bytes: reading what is left
  never raises, and it yields a prefix of the acknowledged records, or all of them and one more, the record that the operation
  which poisoned the writer was writing.\<close>

theorem truncated_journal_is_a_prefix:
  assumes "create_writer prefix_outcome start_outcome closes m = Inr w0"
    and "run_steps (journal_step check) (w0, [jw_session_start w0]) ops = Inr (w, acked)"
  shows "\<exists>es summary. walk validate_terminal (take n (jw_file w)) = (es, Inr summary)
    \<and> ((\<exists>i. es = take i acked)
      \<or> jw_poisoned w \<and> (\<exists>e. es = acked @ [e] \<and> write_interrupted check (w0, [jw_session_start w0]) ops acked e))"
proof -
  obtain e k t where f: "jw_file w = journal_file acked @ t" "list_all frame_ok acked"
    "walk_records validate_terminal initial_walk acked = Inr k" "tail_of k e t"
    "t = [] \<or> jw_poisoned w \<and> write_interrupted check (w0, [jw_session_start w0]) ops acked e"
    by (rule journal_run_tail[OF create_writer_inv(1,2)[OF assms(1)] assms(2)])
  show ?thesis
  proof (cases "t = []")
    case True
    then show ?thesis using f(1) walk_cut_any[OF f(2,3), of n] by simp blast
  next
    case False
    then show ?thesis using walk_cut_tail[OF f(2-4), of n] f(1,5) by metis
  qed
qed

lemma truncated_journal_is_a_prefix_witness:
  "\<exists>w0 w acked es summary. run_steps (journal_step demo_check) (w0, [jw_session_start w0]) [AppendRaw Written demo_capture] = Inr (w, acked)
     \<and> walk validate_terminal (take 100 (jw_file w)) = (es, Inr summary)
     \<and> ((\<exists>i. es = take i acked)
       \<or> (\<exists>e. es = acked @ [e] \<and> write_interrupted demo_check (w0, [jw_session_start w0]) [AppendRaw Written demo_capture] acked e))"
proof -
  obtain w0 where w0: "create_writer Written Written True demo_manifest = Inr w0" by (rule demo_session_starts)
  obtain w acked where run: "run_steps (journal_step demo_check) (w0, [jw_session_start w0])
      [AppendRaw Written demo_capture] = Inr (w, acked)"
    by (simp add: journal_step_def Let_def case_prod_beta)
  show ?thesis using truncated_journal_is_a_prefix[OF w0 run, of 100] run by blast
qed

lemma read_frame_event_size:
  assumes "read_frame bs offset = Inr frame" "fr_event frame = Some e"
  shows "offset + frame_fixed_bytes \<le> fr_end_offset frame \<and> fr_end_offset frame \<le> length bs"
proof -
  have torn: "torn a b \<noteq> frame" for a b using assms(2) by (auto simp: torn_def)
  obtain kind seq frame_size ml pl where "read_frame_body bs offset (pread bs offset frame_prefix_size) kind seq frame_size ml pl = Inr frame"
    using assms torn unfolding read_frame_def Let_def journal_corrupt_def by (auto split: if_split_asm)
  then show ?thesis using read_frame_body_event assms(2) by fastforce
qed

lemma walk_loop_bounded:
  "wk_offset k \<le> length bs \<Longrightarrow> length (fst (walk_loop validate bs k)) * frame_fixed_bytes + wk_offset k \<le> length bs"
proof (induction validate bs k rule: walk_loop.induct)
  case (1 validate bs k)
  show ?case
  proof (cases "read_frame bs (wk_offset k)")
    case (Inl x)
    then show ?thesis using 1(2) unfolding walk_loop.simps[of validate bs k] by simp
  next
    case (Inr frame)
    show ?thesis
    proof (cases "(wk_terminal_seen k \<and> \<not> (fr_event frame = None \<and> fr_issue frame = None \<and> fr_observed_size frame = wk_offset k))
        \<or> fr_event frame = None \<or> (\<exists>e x. fr_event frame = Some e \<and> walk_event validate k e = Inl x)")
      case True
      then show ?thesis using 1(2) Inr unfolding walk_loop.simps[of validate bs k] by auto
    next
      case False
      then obtain e k' where e: "fr_event frame = Some e" "walk_event validate k e = Inr k'"
        by (metis option.exhaust sum.exhaust)
      let ?k = "walk_advance k' e (fr_end_offset frame)"
      note size = read_frame_event_size[OF Inr e(1)]
      have "length (fst (walk_loop validate bs ?k)) * frame_fixed_bytes + wk_offset ?k \<le> length bs"
        using 1(1)[OF Inr _ e] False e size by (auto simp: walk_advance_def)
      moreover have "walk_loop validate bs k = (let (es, result) = walk_loop validate bs ?k in (e # es, result))"
        unfolding walk_loop.simps[of validate bs k] using Inr e False by simp
      ultimately show ?thesis using size by (simp add: case_prod_beta walk_advance_def)
    qed
  qed
qed

text \<open>C27: The walk over a file ends.  For any bytes whatever, valid or not, reading them as a journal returns, and it yields at most
  one record for every 76 bytes of the file, so the loop of \<open>_walk\<close> runs at most that often.\<close>

theorem walk_is_bounded:
  "length (fst (walk validate bs)) * frame_fixed_bytes \<le> length bs"
proof (cases "read_file_header bs = Inr None")
  case True
  then have "16 \<le> length bs" by (auto simp: read_file_header_def pread_def Let_def split: if_splits)
  then show ?thesis using walk_loop_bounded[of initial_walk bs validate] True by (simp add: walk_def initial_walk_def)
next
  case False
  then show ?thesis by (auto simp: walk_def split: sum.split option.split)
qed

subsection \<open>Reserved names\<close>

text \<open>C40: Reserved names cannot be captured.  The validation of captured inputs lets the event types \<open>SESSION_START\<close> and
  \<open>SESSION_HALT\<close> pass, which only control records may have and which the reader does not accept on a second record; the
  write capability refuses them.  Whatever the file system would answer, \<open>append_raw\<close> with such an input raises and does not
  change the file or count a record: either a check before the write raised and the writer is as it was, or the frame was
  built, and then the writer is poisoned and the error is the one of an uncertain write.\<close>

theorem reserved_names_are_not_captured:
  assumes "append_raw check outcome w c = (w', r)" and "ci_event_type c \<in> {''SESSION_START'', ''SESSION_HALT''}"
  shows "jw_file w' = jw_file w \<and> jw_record_count w' = jw_record_count w
    \<and> (if require_writable w \<noteq> None \<or> (\<exists>x. candidate (raw_candidate check w c) = Inl x)
       then w' = w \<and> (\<exists>x. r = Inl x)
       else jw_poisoned w' \<and> r = Inl (JournalDurabilityError ''journal_durability_uncertain''))"
proof (cases "require_writable w \<noteq> None \<or> (\<exists>x. candidate (raw_candidate check w c) = Inl x)")
  case True
  then show ?thesis using assms(1) unfolding append_raw_def write_candidate_def by (auto split: option.splits)
next
  case False
  then have w: "require_writable w = None" by blast
  obtain e f where "candidate (raw_candidate check w c) = Inr (e, f)" using False by (metis sum.exhaust prod.exhaust)
  note cand = this and c = this[unfolded candidate_Inr]
  have e: "e = raw_record c (jw_next_seq w)"
    using c unfolding raw_candidate_def journal_invalid_def by (auto split: if_splits)
  have "frame_ok e" "frame_of e = f" using c by (simp_all add: frame_ok_def frame_of_def)
  then have "frame_refused w f False"
    using reserved_record_refused[of e] assms(2) unfolding frame_refused_def by (auto simp: e raw_record_def)
  then have "(w', r) = (poison_writer (w\<lparr>jw_next_seq := jw_next_seq w + 1\<rparr>), Inl (JournalDurabilityError ''journal_durability_uncertain''))"
    using assms(1) w e unfolding append_raw_def write_candidate_def cand write_encoded_event_def
    by (simp add: storage_answer_def disk_after_def durability_error_def raw_record_def)
  then show ?thesis using False by (simp add: poison_writer_def)
qed

lemma reserved_names_are_not_captured_witness:
  "\<exists>w w' :: JournalWriter. create_writer Written Written True demo_manifest = Inr w
     \<and> validate_captured_input demo_check (demo_capture\<lparr>ci_event_type := ''SESSION_START''\<rparr>) demo_manifest = None
     \<and> append_raw demo_check Written w (demo_capture\<lparr>ci_event_type := ''SESSION_START''\<rparr>) =
         (w', Inl (JournalDurabilityError ''journal_durability_uncertain''))
     \<and> jw_file w' = jw_file w \<and> jw_poisoned w' \<and> \<not> jw_poisoned w"
proof -
  let ?c = "demo_capture\<lparr>ci_event_type := ''SESSION_START''\<rparr>" and ?raw = "raw_record (demo_capture\<lparr>ci_event_type := ''SESSION_START''\<rparr>) 2"
  obtain w where w: "create_writer Written Written True demo_manifest = Inr w" by (rule demo_session_starts)
  note d = demo_writer_start[OF w] and inv = create_writer_inv[OF w]
  have sid: "safe_identifier_ok ''SESSION_START''" by code_simp
  have post: "persisted_event_post_init (raw_record demo_capture seq) = None" if "1 \<le> seq" "seq < 100" for seq
    using demo_raw_ok(1)[OF that] unfolding event_recordable_def by blast
  have post': "persisted_event_post_init (raw_record ?c seq) = None" if "1 \<le> seq" "seq < 100" for seq
    using post[OF that] sid by (simp add: persisted_event_post_init_def event_scalars_def event_lineage_def event_retention_def
        raw_record_def safe_identifier_def demo_capture_def)
  have "printable (JvObj (metadata_fields (raw_record demo_capture 2)))" using demo_raw_ok(1)[of 2] unfolding event_recordable_def by simp
  then have "printable (JvObj (metadata_fields ?raw))" by (simp add: metadata_fields_def raw_record_def jv_text_def)
  then have r: "event_recordable ?raw"
    using post'[of 2] unfolding event_recordable_def by (simp add: require_session_start_payload_def raw_record_def)
  have f: "frame_ok ?raw" by (rule record_fits_frame[OF r]) (simp_all add: raw_record_def demo_capture_def)
  have val: "validate_captured_input demo_check ?c demo_manifest = None"
    using demo_capture_valid post'[of 1] by (simp add: validate_captured_input_def split: if_splits)
  have wr: "require_writable w = None" using inv(2,3) by (simp add: require_writable_def require_def)
  have "raw_candidate demo_check w ?c = Inr ?raw"
    using val d(1,5) unfolding raw_candidate_def by (simp add: demo_capture_def demo_manifest_def max_capture_bytes_def)
  moreover have "encode_frame ?raw = Inr (frame_of ?raw)" using f unfolding frame_ok_def frame_of_def by auto
  ultimately have cand: "candidate (raw_candidate demo_check w ?c) = Inr (?raw, frame_of ?raw)"
    using post'[of 2] unfolding candidate_Inr by simp
  obtain w' r where a: "append_raw demo_check Written w ?c = (w', r)" by (cases "append_raw demo_check Written w ?c")
  have "ci_event_type ?c \<in> {''SESSION_START'', ''SESSION_HALT''}" by simp
  from reserved_names_are_not_captured[OF a this] show ?thesis using w val a wr cand inv(2) by auto
qed

end
