(* ===== verification/ExpertJournal.thy ===== *)
theory ExpertJournal
  imports ContractsExpert
begin

text \<open>
  The contracts of the expert journal in \<open>inci_tennis_expert/contracts.py\<close>: the cursor that stands for everything
  written so far, the descriptor of a payload, the record of one outcome, the step of the trace, the group of all
  outcomes of one parent and the terminal of a session.  Records, trace steps, groups and terminals carry the digest of their own other
  fields.  Field prefixes: \<open>jc_\<close> cursor, \<open>pd_\<close> payload descriptor, \<open>jr_\<close> record, \<open>tt_\<close> trace step, \<open>jg_\<close> group,
  \<open>et_\<close> terminal.
\<close>

subsection \<open>Data\<close>

record ExpertJournalCursorV1 =
  jc_schema_version :: int
  jc_session_id :: string
  jc_group_count :: int
  jc_record_count :: int
  jc_last_parent_ingest_seq :: int
  jc_last_parent_record_sha256 :: string
  jc_expert_seq :: int
  jc_expert_record_sha256 :: string
  jc_expert_state_sha256 :: string
  jc_expert_trace_sha256 :: string

record ExpertPayloadDescriptorV1 =
  pd_schema_version :: int
  pd_content_type :: string
  pd_payload_encoding :: string
  pd_payload_contract_name :: string
  pd_payload_length :: int
  pd_payload_sha256 :: string

record ExpertJournalRecordV1 =
  jr_schema_version :: int
  jr_session_id :: string
  jr_expert_manifest_sha256 :: string
  jr_provider_request_binding_sha256 :: string
  jr_match_binding_universe_sha256 :: string
  jr_retention_binding_sha256 :: string
  jr_expert_seq :: int
  jr_parent :: ExpertParentEvidenceV1
  jr_parent_output_index :: int
  jr_parent_output_count :: int
  jr_event_kind :: ExpertEventKindV1
  jr_event_version :: int
  jr_event_schema_sha256 :: string
  jr_prior_expert_record_sha256 :: string
  jr_prior_expert_state_sha256 :: string
  jr_payload :: ExpertPayloadDescriptorV1
  jr_post_expert_state_sha256 :: string
  jr_record_sha256 :: string

record ExpertTraceStepV1 =
  tt_schema_version :: int
  tt_expert_seq :: int
  tt_prior_trace_sha256 :: string
  tt_expert_record_sha256 :: string
  tt_post_expert_state_sha256 :: string
  tt_post_trace_sha256 :: string

record ExpertJournalGroupV1 =
  jg_schema_version :: int
  jg_session_id :: string
  jg_expert_manifest_sha256 :: string
  jg_group_sequence :: int
  jg_parent :: ExpertParentEvidenceV1
  jg_parent_output_count :: int
  jg_first_expert_seq :: int
  jg_prior_expert_record_sha256 :: string
  jg_prior_expert_state_sha256 :: string
  jg_records :: "ExpertJournalRecordV1 list"
  jg_trace_steps :: "ExpertTraceStepV1 list"
  jg_final_expert_record_sha256 :: string
  jg_post_expert_state_sha256 :: string
  jg_post_trace_sha256 :: string
  jg_group_sha256 :: string

datatype ExpertTerminalReasonV1 = ET_OPERATOR_STOP | ET_SESSION_END | ET_EXPERT_HALT

primrec expert_terminal_reason_value :: "ExpertTerminalReasonV1 \<Rightarrow> string" where
  "expert_terminal_reason_value ET_OPERATOR_STOP = ''operator_stop''"
| "expert_terminal_reason_value ET_SESSION_END = ''session_end''"
| "expert_terminal_reason_value ET_EXPERT_HALT = ''expert_halt''"

record ExpertSessionTerminalV1 =
  et_schema_version :: int
  et_session_id :: string
  et_expert_manifest_sha256 :: string
  et_provider_request_binding_sha256 :: string
  et_match_binding_universe_sha256 :: string
  et_retention_binding_sha256 :: string
  et_evidence_terminal_ingest_seq :: int
  et_evidence_terminal_record_sha256 :: string
  et_evidence_terminal_clean :: bool
  et_evidence_terminal_reason :: string
  et_evidence_raw_count :: int
  et_evidence_derived_count :: int
  et_expert_group_count :: int
  et_expert_record_count :: int
  et_last_parent_ingest_seq :: int
  et_last_parent_record_sha256 :: string
  et_final_expert_seq :: int
  et_final_expert_record_sha256 :: string
  et_final_expert_state_sha256 :: string
  et_final_expert_trace_sha256 :: string
  et_clean :: bool
  et_reason :: ExpertTerminalReasonV1
  et_research_evaluable :: bool
  et_terminal_sha256 :: string

subsection \<open>Canonical projections\<close>

definition expert_event_kind_pyval :: "ExpertEventKindV1 \<Rightarrow> pyval" where
  "expert_event_kind_pyval x = VEnum ''ExpertEventKindV1'' (expert_event_kind_value x)"

definition payload_descriptor_pyval :: "ExpertPayloadDescriptorV1 \<Rightarrow> pyval" where
  "payload_descriptor_pyval x = VContract ''ExpertPayloadDescriptorV1''
     [(''schema_version'', VInt (pd_schema_version x)),
      (''content_type'', VStr (pd_content_type x)),
      (''payload_encoding'', VStr (pd_payload_encoding x)),
      (''payload_contract_name'', VStr (pd_payload_contract_name x)),
      (''payload_length'', VInt (pd_payload_length x)),
      (''payload_sha256'', VStr (pd_payload_sha256 x))]"

text \<open>
  The fields of a self-digesting contract without its digest, in their order; \<open>_self_digest\<close> and the \<open>compute_\<close> functions hash the tuple
  of their values.
\<close>

definition journal_record_fields :: "ExpertJournalRecordV1 \<Rightarrow> (string \<times> pyval) list" where
  "journal_record_fields x =
     [(''schema_version'', VInt (jr_schema_version x)),
      (''session_id'', VStr (jr_session_id x)),
      (''expert_manifest_sha256'', VStr (jr_expert_manifest_sha256 x)),
      (''provider_request_binding_sha256'', VStr (jr_provider_request_binding_sha256 x)),
      (''match_binding_universe_sha256'', VStr (jr_match_binding_universe_sha256 x)),
      (''retention_binding_sha256'', VStr (jr_retention_binding_sha256 x)),
      (''expert_seq'', VInt (jr_expert_seq x)),
      (''parent'', expert_parent_evidence_pyval (jr_parent x)),
      (''parent_output_index'', VInt (jr_parent_output_index x)),
      (''parent_output_count'', VInt (jr_parent_output_count x)),
      (''event_kind'', expert_event_kind_pyval (jr_event_kind x)),
      (''event_version'', VInt (jr_event_version x)),
      (''event_schema_sha256'', VStr (jr_event_schema_sha256 x)),
      (''prior_expert_record_sha256'', VStr (jr_prior_expert_record_sha256 x)),
      (''prior_expert_state_sha256'', VStr (jr_prior_expert_state_sha256 x)),
      (''payload'', payload_descriptor_pyval (jr_payload x)),
      (''post_expert_state_sha256'', VStr (jr_post_expert_state_sha256 x))]"

definition journal_record_pyval :: "ExpertJournalRecordV1 \<Rightarrow> pyval" where
  "journal_record_pyval x = VContract ''ExpertJournalRecordV1''
     (journal_record_fields x @ [(''record_sha256'', VStr (jr_record_sha256 x))])"

definition trace_step_fields :: "ExpertTraceStepV1 \<Rightarrow> (string \<times> pyval) list" where
  "trace_step_fields x =
     [(''schema_version'', VInt (tt_schema_version x)),
      (''expert_seq'', VInt (tt_expert_seq x)),
      (''prior_trace_sha256'', VStr (tt_prior_trace_sha256 x)),
      (''expert_record_sha256'', VStr (tt_expert_record_sha256 x)),
      (''post_expert_state_sha256'', VStr (tt_post_expert_state_sha256 x))]"

definition trace_step_pyval :: "ExpertTraceStepV1 \<Rightarrow> pyval" where
  "trace_step_pyval x = VContract ''ExpertTraceStepV1''
     (trace_step_fields x @ [(''post_trace_sha256'', VStr (tt_post_trace_sha256 x))])"

definition journal_group_fields :: "ExpertJournalGroupV1 \<Rightarrow> (string \<times> pyval) list" where
  "journal_group_fields x =
     [(''schema_version'', VInt (jg_schema_version x)),
      (''session_id'', VStr (jg_session_id x)),
      (''expert_manifest_sha256'', VStr (jg_expert_manifest_sha256 x)),
      (''group_sequence'', VInt (jg_group_sequence x)),
      (''parent'', expert_parent_evidence_pyval (jg_parent x)),
      (''parent_output_count'', VInt (jg_parent_output_count x)),
      (''first_expert_seq'', VInt (jg_first_expert_seq x)),
      (''prior_expert_record_sha256'', VStr (jg_prior_expert_record_sha256 x)),
      (''prior_expert_state_sha256'', VStr (jg_prior_expert_state_sha256 x)),
      (''records'', VTuple (map journal_record_pyval (jg_records x))),
      (''trace_steps'', VTuple (map trace_step_pyval (jg_trace_steps x))),
      (''final_expert_record_sha256'', VStr (jg_final_expert_record_sha256 x)),
      (''post_expert_state_sha256'', VStr (jg_post_expert_state_sha256 x)),
      (''post_trace_sha256'', VStr (jg_post_trace_sha256 x))]"

definition journal_group_pyval :: "ExpertJournalGroupV1 \<Rightarrow> pyval" where
  "journal_group_pyval x = VContract ''ExpertJournalGroupV1''
     (journal_group_fields x @ [(''group_sha256'', VStr (jg_group_sha256 x))])"

definition session_terminal_fields :: "ExpertSessionTerminalV1 \<Rightarrow> (string \<times> pyval) list" where
  "session_terminal_fields x =
     [(''schema_version'', VInt (et_schema_version x)),
      (''session_id'', VStr (et_session_id x)),
      (''expert_manifest_sha256'', VStr (et_expert_manifest_sha256 x)),
      (''provider_request_binding_sha256'', VStr (et_provider_request_binding_sha256 x)),
      (''match_binding_universe_sha256'', VStr (et_match_binding_universe_sha256 x)),
      (''retention_binding_sha256'', VStr (et_retention_binding_sha256 x)),
      (''evidence_terminal_ingest_seq'', VInt (et_evidence_terminal_ingest_seq x)),
      (''evidence_terminal_record_sha256'', VStr (et_evidence_terminal_record_sha256 x)),
      (''evidence_terminal_clean'', VBool (et_evidence_terminal_clean x)),
      (''evidence_terminal_reason'', VStr (et_evidence_terminal_reason x)),
      (''evidence_raw_count'', VInt (et_evidence_raw_count x)),
      (''evidence_derived_count'', VInt (et_evidence_derived_count x)),
      (''expert_group_count'', VInt (et_expert_group_count x)),
      (''expert_record_count'', VInt (et_expert_record_count x)),
      (''last_parent_ingest_seq'', VInt (et_last_parent_ingest_seq x)),
      (''last_parent_record_sha256'', VStr (et_last_parent_record_sha256 x)),
      (''final_expert_seq'', VInt (et_final_expert_seq x)),
      (''final_expert_record_sha256'', VStr (et_final_expert_record_sha256 x)),
      (''final_expert_state_sha256'', VStr (et_final_expert_state_sha256 x)),
      (''final_expert_trace_sha256'', VStr (et_final_expert_trace_sha256 x)),
      (''clean'', VBool (et_clean x)),
      (''reason'', VEnum ''ExpertTerminalReasonV1'' (expert_terminal_reason_value (et_reason x))),
      (''research_evaluable'', VBool (et_research_evaluable x))]"

definition session_terminal_pyval :: "ExpertSessionTerminalV1 \<Rightarrow> pyval" where
  "session_terminal_pyval x = VContract ''ExpertSessionTerminalV1''
     (session_terminal_fields x @ [(''terminal_sha256'', VStr (et_terminal_sha256 x))])"

subsection \<open>Digests\<close>

definition fields_sha256 :: "bytes \<Rightarrow> (string \<times> pyval) list \<Rightarrow> string result" where
  "fields_sha256 domain kvs = domain_sha256 domain (VTuple (map snd kvs))"

definition compute_expert_journal_record_sha256 :: "ExpertJournalRecordV1 \<Rightarrow> string result" where
  "compute_expert_journal_record_sha256 x =
     fields_sha256 (''INCI-EXPERT-JOURNAL-RECORD-V1'' @ nul) (journal_record_fields x)"

definition compute_expert_trace_step_sha256 :: "ExpertTraceStepV1 \<Rightarrow> string result" where
  "compute_expert_trace_step_sha256 x = fields_sha256 (''INCI-EXPERT-TRACE-STEP-V1'' @ nul) (trace_step_fields x)"

definition compute_expert_journal_group_sha256 :: "ExpertJournalGroupV1 \<Rightarrow> string result" where
  "compute_expert_journal_group_sha256 x =
     fields_sha256 (''INCI-EXPERT-JOURNAL-GROUP-V1'' @ nul) (journal_group_fields x)"

definition compute_expert_session_terminal_sha256 :: "ExpertSessionTerminalV1 \<Rightarrow> string result" where
  "compute_expert_session_terminal_sha256 x =
     fields_sha256 (''INCI-EXPERT-SESSION-TERMINAL-V1'' @ nul) (session_terminal_fields x)"

definition expert_trace_seed_sha256 :: "string \<Rightarrow> string \<Rightarrow> string \<Rightarrow> string result" where
  "expert_trace_seed_sha256 session_id manifest_sha256 state_sha256 =
     checked (first_raise
         [session_id_text session_id ''session_id'', sha256_text manifest_sha256 ''expert_manifest_sha256'',
          sha256_text state_sha256 ''initial_expert_state_sha256''])
       (domain_sha256 (''INCI-EXPERT-TRACE-SEED-V1'' @ nul)
          (VTuple [VStr session_id, VStr manifest_sha256, VStr state_sha256]))"

subsection \<open>Validators\<close>

definition expert_journal_cursor_post_init :: "ExpertJournalCursorV1 \<Rightarrow> exn option" where
  "expert_journal_cursor_post_init c = first_raise
     [schema_version (jc_schema_version c),
      session_id_text (jc_session_id c) ''session_id'',
      integer (jc_group_count c) ''group_count'',
      integer (jc_record_count c) ''record_count'',
      integer (jc_last_parent_ingest_seq c) ''last_parent_ingest_seq'',
      integer (jc_expert_seq c) ''expert_seq'',
      sha256_text (jc_last_parent_record_sha256 c) ''last_parent_record_sha256'',
      sha256_text (jc_expert_record_sha256 c) ''expert_record_sha256'',
      sha256_text (jc_expert_state_sha256 c) ''expert_state_sha256'',
      sha256_text (jc_expert_trace_sha256 c) ''expert_trace_sha256'',
      contract_error
        (\<not> (jc_record_count c < jc_group_count c \<or> jc_expert_seq c \<noteq> jc_record_count c
            \<or> (jc_group_count c = 0) \<noteq> (jc_record_count c = 0)
            \<or> (jc_group_count c = 0) \<noteq> (jc_last_parent_ingest_seq c = 0))) ''journal_cursor'']"

fun payload_contract_name :: "ExpertEventKindV1 \<Rightarrow> string" where
  "payload_contract_name EK_SYNCHRONIZATION_APPLIED = ''ExpertSynchronizationAppliedPayloadV1''"
| "payload_contract_name EK_OBSERVATION_IGNORED = ''ExpertObservationIgnoredPayloadV1''"
| "payload_contract_name EK_OBSERVATION_REJECTED = ''ExpertObservationRejectedPayloadV1''"

definition expert_payload_descriptor_post_init :: "ExpertPayloadDescriptorV1 \<Rightarrow> exn option" where
  "expert_payload_descriptor_post_init d = first_raise
     [schema_version (pd_schema_version d),
      one_of_strings (pd_content_type d) [''application/vnd.inci.expert+json''] ''content_type'',
      one_of_strings (pd_payload_encoding d) [''canonical-json-v1''] ''payload_encoding'',
      one_of_strings (pd_payload_contract_name d)
        (map payload_contract_name [EK_SYNCHRONIZATION_APPLIED, EK_OBSERVATION_IGNORED, EK_OBSERVATION_REJECTED])
        ''payload_contract_name'',
      integer (pd_payload_length d) ''payload_length'',
      contract_error (\<not> 131064 < pd_payload_length d) ''payload_length'',
      sha256_text (pd_payload_sha256 d) ''payload_sha256'']"

definition expert_journal_record_post_init :: "ExpertJournalRecordV1 \<Rightarrow> exn option" where
  "expert_journal_record_post_init r = first_raise
     [schema_version (jr_schema_version r),
      session_id_text (jr_session_id r) ''session_id'',
      sha256_text (jr_expert_manifest_sha256 r) ''expert_manifest_sha256'',
      sha256_text (jr_provider_request_binding_sha256 r) ''provider_request_binding_sha256'',
      sha256_text (jr_match_binding_universe_sha256 r) ''match_binding_universe_sha256'',
      sha256_text (jr_retention_binding_sha256 r) ''retention_binding_sha256'',
      sha256_text (jr_event_schema_sha256 r) ''event_schema_sha256'',
      sha256_text (jr_prior_expert_record_sha256 r) ''prior_expert_record_sha256'',
      sha256_text (jr_prior_expert_state_sha256 r) ''prior_expert_state_sha256'',
      sha256_text (jr_post_expert_state_sha256 r) ''post_expert_state_sha256'',
      positive_integer (jr_expert_seq r) ''expert_seq'',
      expert_parent_evidence_post_init (jr_parent r),
      validate_observation_binding (jr_parent r) (jr_parent_output_index r) (jr_parent_output_count r)
        ''record-shape'' (replicate 64 (CHR ''0'')) (replicate 64 (CHR ''0'')),
      contract_error (jr_event_version r = 1) ''event_version'',
      digest_is (expert_event_schema_resource_sha256 (jr_event_kind r)) (jr_event_schema_sha256 r) ''event_schema_sha256'',
      expert_payload_descriptor_post_init (jr_payload r),
      contract_error (pd_payload_contract_name (jr_payload r) = payload_contract_name (jr_event_kind r))
        ''record_payload_contract'',
      sha256_text (jr_record_sha256 r) ''record_sha256'',
      digest_is (compute_expert_journal_record_sha256 r) (jr_record_sha256 r) ''record_sha256'']"

definition expert_trace_step_post_init :: "ExpertTraceStepV1 \<Rightarrow> exn option" where
  "expert_trace_step_post_init t = first_raise
     [schema_version (tt_schema_version t),
      positive_integer (tt_expert_seq t) ''expert_seq'',
      sha256_text (tt_prior_trace_sha256 t) ''prior_trace_sha256'',
      sha256_text (tt_expert_record_sha256 t) ''expert_record_sha256'',
      sha256_text (tt_post_expert_state_sha256 t) ''post_expert_state_sha256'',
      sha256_text (tt_post_trace_sha256 t) ''post_trace_sha256'',
      digest_is (compute_expert_trace_step_sha256 t) (tt_post_trace_sha256 t) ''post_trace_sha256'']"

fun group_chain ::
  "ExpertJournalGroupV1 \<Rightarrow> int \<Rightarrow> string \<Rightarrow> string \<Rightarrow> string
     \<Rightarrow> (ExpertJournalRecordV1 \<times> ExpertTraceStepV1) list \<Rightarrow> (string \<times> string \<times> string) result" where
  \<comment> \<open>the loop over records and trace steps; the value is \<open>expected_record\<close>, \<open>expected_state\<close>, \<open>expected_trace\<close> after it\<close>
  "group_chain g offset record state trace [] = Inr (record, state, trace)"
| "group_chain g offset record state trace ((r, t) # rest) =
     checked (first_raise
         [expert_journal_record_post_init r,
          expert_trace_step_post_init t,
          contract_error
            (\<not> (jr_session_id r \<noteq> jg_session_id g
                \<or> jr_expert_manifest_sha256 r \<noteq> jg_expert_manifest_sha256 g
                \<or> jr_parent r \<noteq> jg_parent g
                \<or> jr_parent_output_count r \<noteq> jg_parent_output_count g
                \<or> jr_parent_output_index r \<noteq> offset
                \<or> jr_expert_seq r \<noteq> jg_first_expert_seq g + offset
                \<or> jr_prior_expert_record_sha256 r \<noteq> record
                \<or> jr_prior_expert_state_sha256 r \<noteq> state
                \<or> tt_expert_seq t \<noteq> jr_expert_seq r
                \<or> tt_prior_trace_sha256 t \<noteq> trace
                \<or> tt_expert_record_sha256 t \<noteq> jr_record_sha256 r
                \<or> tt_post_expert_state_sha256 t \<noteq> jr_post_expert_state_sha256 r)) ''group_chain''])
       (group_chain g (offset + 1) (jr_record_sha256 r) (jr_post_expert_state_sha256 r) (tt_post_trace_sha256 t) rest)"

definition expert_journal_group_post_init :: "ExpertJournalGroupV1 \<Rightarrow> exn option" where
  "expert_journal_group_post_init g = first_raise
     [schema_version (jg_schema_version g),
      session_id_text (jg_session_id g) ''session_id'',
      sha256_text (jg_expert_manifest_sha256 g) ''expert_manifest_sha256'',
      positive_integer (jg_group_sequence g) ''group_sequence'',
      expert_parent_evidence_post_init (jg_parent g),
      positive_integer (jg_parent_output_count g) ''parent_output_count'',
      positive_integer (jg_first_expert_seq g) ''first_expert_seq'',
      contract_error
        (\<not> (jg_records g = [] \<or> 64 < length (jg_records g) \<or> int (length (jg_records g)) \<noteq> jg_parent_output_count g
            \<or> length (jg_trace_steps g) \<noteq> length (jg_records g))) ''group_shape'',
      sha256_text (jg_prior_expert_record_sha256 g) ''prior_expert_record_sha256'',
      sha256_text (jg_prior_expert_state_sha256 g) ''prior_expert_state_sha256'',
      sha256_text (jg_final_expert_record_sha256 g) ''final_expert_record_sha256'',
      sha256_text (jg_post_expert_state_sha256 g) ''post_expert_state_sha256'',
      sha256_text (jg_post_trace_sha256 g) ''post_trace_sha256'',
      (case group_chain g 0 (jg_prior_expert_record_sha256 g) (jg_prior_expert_state_sha256 g)
             (tt_prior_trace_sha256 (hd (jg_trace_steps g))) (zip (jg_records g) (jg_trace_steps g)) of
         Inl e \<Rightarrow> Some e
       | Inr (record, state, trace) \<Rightarrow>
           contract_error
             (\<not> (jg_final_expert_record_sha256 g \<noteq> record \<or> jg_post_expert_state_sha256 g \<noteq> state
                 \<or> jg_post_trace_sha256 g \<noteq> trace)) ''group_final''),
      sha256_text (jg_group_sha256 g) ''group_sha256'',
      digest_is (compute_expert_journal_group_sha256 g) (jg_group_sha256 g) ''group_sha256'']"

definition phase1_clean_terminal_reasons :: "string list" where
  "phase1_clean_terminal_reasons = [''operator_stop'', ''session_end'']"

definition phase1_halted_terminal_reasons :: "string list" where
  "phase1_halted_terminal_reasons =
     [''operator_halt'', ''initialization_failure'', ''capture_contract_violation'', ''provider_gate_denied'',
      ''retention_global_halt'', ''disk_low'', ''reducer_exception'', ''derived_validation_failure'', ''trace_exception'',
      ''ingress_backpressure'', ''ingress_owner_unresponsive'']"

definition terminal_aligned :: "ExpertSessionTerminalV1 \<Rightarrow> bool" where
  \<comment> \<open>the negation of the condition that raises \<open>terminal_alignment\<close>\<close>
  "terminal_aligned t \<longleftrightarrow>
     \<not> (et_evidence_terminal_ingest_seq t \<noteq> 2 + et_evidence_raw_count t + et_evidence_derived_count t
        \<or> et_last_parent_ingest_seq t \<noteq> (if et_evidence_raw_count t = 0 then 0 else 2 * et_evidence_raw_count t)
        \<or> et_evidence_terminal_reason t \<notin>
            set (if et_evidence_terminal_clean t then phase1_clean_terminal_reasons else phase1_halted_terminal_reasons)
        \<or> et_evidence_raw_count t \<noteq> et_evidence_derived_count t
        \<or> et_evidence_raw_count t \<noteq> et_expert_group_count t
        \<or> et_expert_record_count t < et_expert_group_count t
        \<or> et_final_expert_seq t \<noteq> et_expert_record_count t
        \<or> (et_last_parent_ingest_seq t \<noteq> 0 \<and> et_evidence_terminal_ingest_seq t \<le> et_last_parent_ingest_seq t)
        \<or> (et_expert_group_count t = 0) \<noteq> (et_expert_record_count t = 0)
        \<or> (et_expert_group_count t = 0) \<noteq> (et_last_parent_ingest_seq t = 0)
        \<or> et_clean t \<noteq> et_evidence_terminal_clean t
        \<or> (et_clean t \<and> et_evidence_terminal_reason t \<noteq> expert_terminal_reason_value (et_reason t))
        \<or> (et_clean t \<and> et_reason t \<notin> {ET_OPERATOR_STOP, ET_SESSION_END})
        \<or> (\<not> et_clean t \<and> et_reason t \<noteq> ET_EXPERT_HALT))"

definition expert_session_terminal_post_init :: "ExpertSessionTerminalV1 \<Rightarrow> exn option" where
  "expert_session_terminal_post_init t = first_raise
     [schema_version (et_schema_version t),
      session_id_text (et_session_id t) ''session_id'',
      sha256_text (et_expert_manifest_sha256 t) ''expert_manifest_sha256'',
      sha256_text (et_provider_request_binding_sha256 t) ''provider_request_binding_sha256'',
      sha256_text (et_match_binding_universe_sha256 t) ''match_binding_universe_sha256'',
      sha256_text (et_retention_binding_sha256 t) ''retention_binding_sha256'',
      sha256_text (et_evidence_terminal_record_sha256 t) ''evidence_terminal_record_sha256'',
      sha256_text (et_last_parent_record_sha256 t) ''last_parent_record_sha256'',
      sha256_text (et_final_expert_record_sha256 t) ''final_expert_record_sha256'',
      sha256_text (et_final_expert_state_sha256 t) ''final_expert_state_sha256'',
      sha256_text (et_final_expert_trace_sha256 t) ''final_expert_trace_sha256'',
      integer (et_evidence_terminal_ingest_seq t) ''evidence_terminal_ingest_seq'',
      integer (et_evidence_raw_count t) ''evidence_raw_count'',
      integer (et_evidence_derived_count t) ''evidence_derived_count'',
      integer (et_expert_group_count t) ''expert_group_count'',
      integer (et_expert_record_count t) ''expert_record_count'',
      integer (et_last_parent_ingest_seq t) ''last_parent_ingest_seq'',
      integer (et_final_expert_seq t) ''final_expert_seq'',
      safe_id (et_evidence_terminal_reason t) ''evidence_terminal_reason'',
      contract_error (\<not> et_research_evaluable t) ''research_evaluable'',
      contract_error (terminal_aligned t) ''terminal_alignment'',
      sha256_text (et_terminal_sha256 t) ''terminal_sha256'',
      digest_is (compute_expert_session_terminal_sha256 t) (et_terminal_sha256 t) ''terminal_sha256'']"

end
