(* ===== verification/ExpertFrames.thy ===== *)
theory ExpertFrames
  imports ExpertJournal ByteCodes
begin

text \<open>
  The framing codec of the expert journal, \<open>inci_tennis_expert/journal_codec.py\<close>: the file header, the frame with its
  prefix, digest and trailer, the order of frames in a file, the area that holds the payloads of a group, and
  the frames of groups and terminals with their checks against a cursor.  Decoding the metadata of a frame back to a contract is not
  modelled.  A frame is a list of bytes; field prefix \<open>ov_\<close> order validator.
\<close>

definition codec_error :: "string \<Rightarrow> 'a result" where
  "codec_error reason = Inl (ExpertJournalCodecError reason)"

definition frame_invalid :: "'a result" where
  "frame_invalid = codec_error ''expert_journal_frame_invalid''"

subsection \<open>Header and prefix\<close>

definition encode_expert_file_header :: bytes where
  \<comment> \<open>\<open>>8sHHI\<close>\<close>
  "encode_expert_file_header = ''INCIXJ01'' @ word_bytes 2 1 @ word_bytes 2 0 @ word_bytes 4 16"

definition decode_expert_file_header :: "bytes \<Rightarrow> unit result" where
  "decode_expert_file_header content =
     (if length content \<noteq> 16 then codec_error ''expert_journal_header_invalid''
      else if take 8 content \<noteq> ''INCIXJ01'' \<or> be_value (take 2 (drop 8 content)) \<noteq> 1
        \<or> be_value (take 2 (drop 10 content)) \<noteq> 0 \<or> be_value (take 4 (drop 12 content)) \<noteq> 16
      then codec_error ''expert_journal_header_invalid''
      else Inr ())"

definition expert_prefix_bytes :: nat where "expert_prefix_bytes = 32"
definition expert_trailer_bytes :: nat where "expert_trailer_bytes = 44"

definition expert_fixed_bytes :: nat where
  "expert_fixed_bytes = expert_prefix_bytes + expert_trailer_bytes"

definition max_expert_frame_bytes :: int where "max_expert_frame_bytes = 16777216"
definition max_expert_manifest_metadata_bytes :: int where "max_expert_manifest_metadata_bytes = 1048576"
definition max_expert_terminal_metadata_bytes :: int where "max_expert_terminal_metadata_bytes = 1048576"
definition max_expert_terminal_frame_bytes :: int where "max_expert_terminal_frame_bytes = 1048652"
definition max_expert_group_metadata_bytes :: int where "max_expert_group_metadata_bytes = 8388532"
definition max_expert_group_payload_area_bytes :: int where "max_expert_group_payload_area_bytes = 8388608"
definition max_expert_event_payload_bytes :: int where "max_expert_event_payload_bytes = 131064"

definition frame_shape_ok :: "int \<Rightarrow> int \<Rightarrow> int \<Rightarrow> int \<Rightarrow> int \<Rightarrow> bool" where
  \<comment> \<open>\<open>valid_kind_shape\<close>\<close>
  "frame_shape_ok kind seq frame_size metadata_size area_size \<longleftrightarrow>
     (if kind = 1 then seq = 0 \<and> area_size = 0 \<and> metadata_size \<le> max_expert_manifest_metadata_bytes
      else if kind = 2
      then 1 \<le> seq \<and> metadata_size \<le> max_expert_group_metadata_bytes \<and> area_size \<le> max_expert_group_payload_area_bytes
      else 1 \<le> seq \<and> area_size = 0 \<and> metadata_size \<le> max_expert_terminal_metadata_bytes
        \<and> frame_size \<le> max_expert_terminal_frame_bytes)"

definition expert_prefix_fields :: "bytes \<Rightarrow> int \<times> int \<times> int \<times> int \<times> int" where
  \<comment> \<open>kind, sequence, size of the frame, of the metadata and of the payload area\<close>
  "expert_prefix_fields content =
     (be_value (take 1 (drop 5 content)), be_value (take 8 (drop 8 content)), be_value (take 8 (drop 16 content)),
      be_value (take 4 (drop 24 content)), be_value (take 4 (drop 28 content)))"

definition decode_expert_frame_prefix :: "bytes \<Rightarrow> (int \<times> int \<times> int \<times> int \<times> int) result" where
  "decode_expert_frame_prefix content =
     (if length content \<noteq> expert_prefix_bytes then frame_invalid
      else
        let (kind, seq, frame_size, metadata_size, area_size) = expert_prefix_fields content
        in if take 4 content \<noteq> ''IXJF'' \<or> be_value (take 1 (drop 4 content)) \<noteq> 1 \<or> be_value (take 2 (drop 6 content)) \<noteq> 0
              \<or> kind \<notin> {1, 2, 3}
              \<or> frame_size \<noteq> int expert_fixed_bytes + metadata_size + area_size
              \<or> frame_size < int expert_fixed_bytes \<or> max_expert_frame_bytes < frame_size
           then frame_invalid
           else if \<not> frame_shape_ok kind seq frame_size metadata_size area_size then frame_invalid
           else Inr (kind, seq, frame_size, metadata_size, area_size))"

subsection \<open>Whole frames\<close>

definition expert_frame_digest :: "bytes \<Rightarrow> bytes \<Rightarrow> bytes \<Rightarrow> bytes" where
  "expert_frame_digest prefix metadata area =
     sha256 (''INCI-EXPERT-JOURNAL-FRAME-V1'' @ nul @ prefix @ metadata @ area)"

definition trailer_ok :: "bytes \<Rightarrow> int \<Rightarrow> bytes \<Rightarrow> bool" where
  \<comment> \<open>\<open>>Q32s4s\<close>\<close>
  "trailer_ok trailer frame_size digest \<longleftrightarrow>
     be_value (take 8 trailer) = frame_size \<and> take 32 (drop 8 trailer) = digest \<and> drop 40 trailer = ''FJXI''"

definition validate_expert_frame_parts :: "bytes \<Rightarrow> bytes \<Rightarrow> bytes \<Rightarrow> bytes \<Rightarrow> string result" where
  "validate_expert_frame_parts prefix metadata area trailer =
     bind_result (decode_expert_frame_prefix prefix) (\<lambda>(kind, seq, frame_size, metadata_size, area_size).
     if int (length metadata) \<noteq> metadata_size \<or> int (length area) \<noteq> area_size \<or> length trailer \<noteq> expert_trailer_bytes
     then frame_invalid
     else if \<not> trailer_ok trailer frame_size (expert_frame_digest prefix metadata area) then frame_invalid
     else Inr (hexdigest (take 32 (drop 8 trailer))))"

definition validate_expert_streamed_frame_trailer :: "bytes \<Rightarrow> int \<Rightarrow> bytes \<Rightarrow> bytes \<Rightarrow> string result" where
  \<comment> \<open>for a payload area that was hashed while it was read\<close>
  "validate_expert_streamed_frame_trailer prefix payload_area_bytes trailer computed_digest =
     bind_result (decode_expert_frame_prefix prefix) (\<lambda>(kind, seq, frame_size, metadata_size, area_size).
     if payload_area_bytes \<noteq> area_size \<or> length trailer \<noteq> expert_trailer_bytes \<or> length computed_digest \<noteq> 32
     then frame_invalid
     else if \<not> trailer_ok trailer frame_size computed_digest then frame_invalid
     else Inr (hexdigest (take 32 (drop 8 trailer))))"

definition decode_expert_complete_frame :: "bytes \<Rightarrow> (int \<times> int \<times> bytes \<times> bytes \<times> string) result" where
  "decode_expert_complete_frame frame =
     (if length frame < expert_prefix_bytes then frame_invalid
      else
        let prefix = take expert_prefix_bytes frame
        in bind_result (decode_expert_frame_prefix prefix) (\<lambda>(kind, seq, frame_size, metadata_size, area_size).
           if int (length frame) \<noteq> frame_size then frame_invalid
           else
             let payload_start = expert_prefix_bytes + nat metadata_size;
                 trailer_start = payload_start + nat area_size;
                 metadata = take (nat metadata_size) (drop expert_prefix_bytes frame);
                 area = take (nat area_size) (drop payload_start frame);
                 trailer = drop trailer_start frame
             in bind_result (validate_expert_frame_parts prefix metadata area trailer) (\<lambda>digest.
                  Inr (kind, seq, metadata, area, digest))))"

definition pack_expert_prefix :: "int \<Rightarrow> int \<Rightarrow> nat \<Rightarrow> nat \<Rightarrow> bytes" where
  \<comment> \<open>\<open>>4sBBHQQII\<close>\<close>
  "pack_expert_prefix kind seq metadata_size area_size =
     ''IXJF'' @ word_bytes 1 1 @ word_bytes 1 kind @ word_bytes 2 0 @ word_bytes 8 seq
     @ word_bytes 8 (int (expert_fixed_bytes + metadata_size + area_size))
     @ word_bytes 4 (int metadata_size) @ word_bytes 4 (int area_size)"

definition pack_expert_trailer :: "nat \<Rightarrow> bytes \<Rightarrow> bytes" where
  "pack_expert_trailer frame_size digest = word_bytes 8 (int frame_size) @ digest @ ''FJXI''"

definition encode_expert_frame :: "int \<Rightarrow> int \<Rightarrow> bytes \<Rightarrow> bytes \<Rightarrow> bytes result" where
  \<comment> \<open>a number that does not fit its field is a \<open>struct.error\<close>\<close>
  "encode_expert_frame kind seq metadata area =
     (let frame_size = expert_fixed_bytes + length metadata + length area;
          prefix = pack_expert_prefix kind seq (length metadata) (length area);
          trailer = pack_expert_trailer frame_size (expert_frame_digest prefix metadata area)
      in if \<not> (0 \<le> kind \<and> kind < 256 \<and> 0 \<le> seq \<and> seq < 2 ^ 64 \<and> frame_size < 2 ^ 64
             \<and> length metadata < 2 ^ 32 \<and> length area < 2 ^ 32)
         then frame_invalid
         else bind_result (decode_expert_frame_prefix prefix) (\<lambda>_.
              bind_result (validate_expert_frame_parts prefix metadata area trailer) (\<lambda>_.
                Inr (prefix @ metadata @ area @ trailer))))"

subsection \<open>The order of frames\<close>

record ExpertJournalOrderValidator =
  ov_manifest_seen :: bool
  ov_next_sequence :: int
  ov_terminal_seen :: bool

definition new_order_validator :: ExpertJournalOrderValidator where
  "new_order_validator = \<lparr>ov_manifest_seen = False, ov_next_sequence = 0, ov_terminal_seen = False\<rparr>"

definition accept_frame :: "ExpertJournalOrderValidator \<Rightarrow> bytes \<Rightarrow> ExpertJournalOrderValidator result" where
  \<comment> \<open>\<open>accept\<close>; an error leaves the validator as it is\<close>
  "accept_frame v prefix =
     bind_result (decode_expert_frame_prefix prefix) (\<lambda>(kind, seq, frame_size, metadata_size, area_size).
     if ov_terminal_seen v then codec_error ''expert_journal_frame_order_invalid''
     else if \<not> ov_manifest_seen v
     then if kind \<noteq> 1 \<or> seq \<noteq> 0 then codec_error ''expert_journal_frame_order_invalid''
          else Inr (v\<lparr>ov_manifest_seen := True, ov_next_sequence := 1\<rparr>)
     else if kind = 1 \<or> seq \<noteq> ov_next_sequence v then codec_error ''expert_journal_frame_order_invalid''
     else if kind = 2 then Inr (v\<lparr>ov_next_sequence := ov_next_sequence v + 1\<rparr>)
     else if kind = 3 then Inr (v\<lparr>ov_terminal_seen := True\<rparr>)
     else codec_error ''expert_journal_frame_order_invalid'')"

definition require_terminal :: "ExpertJournalOrderValidator \<Rightarrow> exn option" where
  "require_terminal v = require (ov_terminal_seen v) (ExpertJournalCodecError ''expert_journal_terminal_missing'')"

subsection \<open>The payload area\<close>

definition area_invalid :: "'a result" where
  "area_invalid = codec_error ''expert_group_payload_area_invalid''"

definition framed_payload :: "bytes \<Rightarrow> bytes" where
  "framed_payload payload = word_bytes 8 (int (length payload)) @ payload"

definition encode_expert_group_payload_area :: "bytes list \<Rightarrow> bytes result" where
  "encode_expert_group_payload_area payloads =
     (if payloads = [] \<or> 64 < length payloads then area_invalid
      else if list_ex (\<lambda>p. max_expert_event_payload_bytes < int (length p)) payloads then area_invalid
      else if max_expert_group_payload_area_bytes < sum_list (map (\<lambda>p. 8 + int (length p)) payloads) then area_invalid
      else Inr (concat (map framed_payload payloads)))"

fun payload_bounds :: "nat \<Rightarrow> bytes \<Rightarrow> nat \<Rightarrow> ((nat \<times> nat) list \<times> nat) result" where
  \<comment> \<open>the loop: the bounds of the payloads, and the offset after the last\<close>
  "payload_bounds 0 area offset = Inr ([], offset)"
| "payload_bounds (Suc n) area offset =
     (if length area - offset < 8 then area_invalid
      else
        let payload_length = be_value (take 8 (drop offset area));
            start = offset + 8;
            end_offset = start + nat payload_length
        in if max_expert_event_payload_bytes < payload_length then area_invalid
           else if length area < end_offset then area_invalid
           else bind_result (payload_bounds n area end_offset) (\<lambda>(bounds, final). Inr ((start, end_offset) # bounds, final)))"

definition decode_expert_group_payload_area :: "bytes \<Rightarrow> int \<Rightarrow> bytes list result" where
  "decode_expert_group_payload_area area expected_count =
     (if expected_count < 1 \<or> 64 < expected_count then Inl (TypeError ''expected_count'')
      else if max_expert_group_payload_area_bytes < int (length area) then area_invalid
      else bind_result (payload_bounds (nat expected_count) area 0) (\<lambda>(bounds, final).
        if final \<noteq> length area then area_invalid
        else Inr (map (\<lambda>(start, end_offset). take (end_offset - start) (drop start area)) bounds)))"

subsection \<open>Groups and terminals against a cursor\<close>

definition exact_contract :: "exn option \<Rightarrow> exn option" where
  \<comment> \<open>\<open>_require_exact_contract\<close>: whatever the constructor raises\<close>
  "exact_contract v = require (v = None) (ExpertJournalCodecError ''expert_journal_contract_invalid'')"

definition validate_genesis_cursor_anchor :: "ExpertJournalCursorV1 \<Rightarrow> string \<Rightarrow> exn option" where
  "validate_genesis_cursor_anchor c manifest_sha256 =
     (if jc_group_count c \<noteq> 0 then None
      else if jc_record_count c \<noteq> 0 \<or> jc_last_parent_ingest_seq c \<noteq> 0 \<or> jc_expert_seq c \<noteq> 0
         \<or> jc_expert_record_sha256 c \<noteq> manifest_sha256
      then Some (ExpertJournalCodecError ''expert_journal_genesis_cursor_mismatch'')
      else
        case expert_trace_seed_sha256 (jc_session_id c) manifest_sha256 (jc_expert_state_sha256 c) of
          Inl e \<Rightarrow> Some e
        | Inr seed \<Rightarrow> require (jc_expert_trace_sha256 c = seed)
            (ExpertJournalCodecError ''expert_journal_genesis_cursor_mismatch''))"

definition validate_group_cursor :: "ExpertJournalGroupV1 \<Rightarrow> ExpertJournalCursorV1 \<Rightarrow> exn option" where
  "validate_group_cursor g c = first_raise
     [exact_contract (expert_journal_group_post_init g),
      exact_contract (expert_journal_cursor_post_init c),
      validate_genesis_cursor_anchor c (jg_expert_manifest_sha256 g),
      require
        (\<not> (jg_session_id g \<noteq> jc_session_id c \<or> jg_group_sequence g \<noteq> jc_group_count c + 1
            \<or> pe_ingest_seq (jg_parent g) \<le> jc_last_parent_ingest_seq c
            \<or> jg_first_expert_seq g \<noteq> jc_expert_seq c + 1
            \<or> jg_prior_expert_record_sha256 g \<noteq> jc_expert_record_sha256 c
            \<or> jg_prior_expert_state_sha256 g \<noteq> jc_expert_state_sha256 c
            \<or> tt_prior_trace_sha256 (hd (jg_trace_steps g)) \<noteq> jc_expert_trace_sha256 c))
        (ExpertJournalCodecError ''expert_journal_group_cursor_mismatch'')]"

definition validate_payload_descriptors :: "ExpertJournalGroupV1 \<Rightarrow> bytes list \<Rightarrow> exn option" where
  "validate_payload_descriptors g payloads = require
     (length payloads = length (jg_records g)
      \<and> list_all (\<lambda>(r, p). pd_payload_length (jr_payload r) = int (length p)
           \<and> pd_payload_sha256 (jr_payload r) = hexdigest (sha256 p)) (zip (jg_records g) payloads))
     (ExpertJournalCodecError ''expert_journal_group_payload_mismatch'')"

definition validate_expert_group_against_cursor ::
  "ExpertJournalGroupV1 \<Rightarrow> bytes list \<Rightarrow> ExpertJournalCursorV1 \<Rightarrow> exn option" where
  "validate_expert_group_against_cursor g payloads c = first_raise
     [validate_group_cursor g c,
      (case encode_expert_group_payload_area payloads of Inl e \<Rightarrow> Some e | Inr area \<Rightarrow> None),
      validate_payload_descriptors g payloads]"

definition encode_expert_group_frame ::
  "ExpertJournalGroupV1 \<Rightarrow> bytes list \<Rightarrow> ExpertJournalCursorV1 \<Rightarrow> bytes result" where
  "encode_expert_group_frame g payloads c =
     checked (validate_expert_group_against_cursor g payloads c)
       (bind_result (encode_expert_group_payload_area payloads) (\<lambda>area.
        bind_result (canonical_expert_bytes (journal_group_pyval g)) (\<lambda>metadata.
        if max_expert_group_metadata_bytes < int (length metadata) then codec_error ''expert_journal_group_too_large''
        else encode_expert_frame 2 (jg_group_sequence g) metadata area)))"

definition validate_terminal_cursor :: "ExpertSessionTerminalV1 \<Rightarrow> ExpertJournalCursorV1 \<Rightarrow> exn option" where
  "validate_terminal_cursor t c = first_raise
     [exact_contract (expert_session_terminal_post_init t),
      exact_contract (expert_journal_cursor_post_init c),
      validate_genesis_cursor_anchor c (et_expert_manifest_sha256 t),
      require
        (\<not> (et_session_id t \<noteq> jc_session_id c \<or> et_expert_group_count t \<noteq> jc_group_count c
            \<or> et_expert_record_count t \<noteq> jc_record_count c
            \<or> et_last_parent_ingest_seq t \<noteq> jc_last_parent_ingest_seq c
            \<or> et_last_parent_record_sha256 t \<noteq> jc_last_parent_record_sha256 c
            \<or> et_final_expert_seq t \<noteq> jc_expert_seq c
            \<or> et_final_expert_record_sha256 t \<noteq> jc_expert_record_sha256 c
            \<or> et_final_expert_state_sha256 t \<noteq> jc_expert_state_sha256 c
            \<or> et_final_expert_trace_sha256 t \<noteq> jc_expert_trace_sha256 c))
        (ExpertJournalCodecError ''expert_journal_terminal_cursor_mismatch'')]"

definition encode_expert_terminal_frame :: "ExpertSessionTerminalV1 \<Rightarrow> ExpertJournalCursorV1 \<Rightarrow> bytes result" where
  "encode_expert_terminal_frame t c =
     checked (validate_terminal_cursor t c)
       (bind_result (canonical_expert_bytes (session_terminal_pyval t)) (\<lambda>metadata.
        if max_expert_terminal_metadata_bytes < int (length metadata) then codec_error ''expert_journal_terminal_too_large''
        else encode_expert_frame 3 (jc_group_count c + 1) metadata []))"

end
