(* ===== verification/ExpertController.thy ===== *)
theory ExpertController
  imports ExpertFrames ReducerRuns EventCodec
begin

text \<open>
  The part of \<open>inci_tennis_runtime/expert_controller.py\<close> that turns a parent into a group of the expert journal: the cursor of
  an empty journal, the group built on a cursor, the cursor and the state after it, and the frame appended to the
  file.  The manifest of the session is represented by the values the journal takes from it; what the authorizer, the normalizer and
  the store answer are arguments.  Field prefixes: \<open>mf_\<close> manifest, \<open>xj_\<close> journal, \<open>pa_\<close> answers for a parent.
\<close>

record ExpertManifestBinding =
  mf_session_id :: string
  mf_manifest_sha256 :: string
  mf_provider_request_binding_sha256 :: string
  mf_match_binding_universe_sha256 :: string
  mf_retention_binding_sha256 :: string
  mf_evidence_session_start_record_sha256 :: string

definition genesis_cursor :: "ExpertManifestBinding \<Rightarrow> ExpertStateV1 \<Rightarrow> ExpertJournalCursorV1 result" where
  "genesis_cursor m s =
     bind_result (expert_state_sha256 s) (\<lambda>state_sha.
     bind_result (expert_trace_seed_sha256 (mf_session_id m) (mf_manifest_sha256 m) state_sha) (\<lambda>seed.
       construct expert_journal_cursor_post_init
         \<lparr>jc_schema_version = 1, jc_session_id = mf_session_id m, jc_group_count = 0, jc_record_count = 0,
          jc_last_parent_ingest_seq = 0, jc_last_parent_record_sha256 = mf_evidence_session_start_record_sha256 m,
          jc_expert_seq = 0, jc_expert_record_sha256 = mf_manifest_sha256 m, jc_expert_state_sha256 = state_sha,
          jc_expert_trace_sha256 = seed\<rparr>))"

definition candidate_cursor :: "ExpertJournalCursorV1 \<Rightarrow> ExpertJournalGroupV1 \<Rightarrow> ExpertJournalCursorV1 result" where
  "candidate_cursor c g = construct expert_journal_cursor_post_init
     \<lparr>jc_schema_version = 1, jc_session_id = jg_session_id g, jc_group_count = jc_group_count c + 1,
      jc_record_count = jc_record_count c + int (length (jg_records g)),
      jc_last_parent_ingest_seq = pe_ingest_seq (jg_parent g),
      jc_last_parent_record_sha256 = pe_record_sha256 (jg_parent g),
      jc_expert_seq = jr_expert_seq (last (jg_records g)), jc_expert_record_sha256 = jg_final_expert_record_sha256 g,
      jc_expert_state_sha256 = jg_post_expert_state_sha256 g, jc_expert_trace_sha256 = jg_post_trace_sha256 g\<rparr>"

definition require_exact_parent :: "PersistedEvent \<Rightarrow> ExpertManifestBinding \<Rightarrow> ExpertJournalCursorV1 \<Rightarrow> exn option" where
  "require_exact_parent e m c = first_raise
     [persisted_event_post_init e,
      require
        (\<not> (ev_record_kind e \<noteq> RAW \<or> ev_session_id e \<noteq> mf_session_id m
            \<or> ev_ingest_seq e \<noteq> jc_last_parent_ingest_seq c + 2)) (ValueError ''expert_parent_invalid'')]"

definition require_parent_projection :: "PersistedEvent \<Rightarrow> ExpertParentEvidenceV1 \<Rightarrow> exn option" where
  \<comment> \<open>the digest is computed only when the fields before it agree\<close>
  "require_parent_projection e p = first_raise
     [expert_parent_evidence_post_init p,
      require (pe_session_id p = ev_session_id e \<and> pe_ingest_seq p = ev_ingest_seq e)
        (ValueError ''expert_parent_projection_invalid''),
      (case canonical_record_sha256 e of
         Inl x \<Rightarrow> Some x
       | Inr digest \<Rightarrow> require
           (\<not> (pe_record_sha256 p \<noteq> digest \<or> pe_event_type p \<noteq> ev_event_type e
               \<or> pe_event_version p \<noteq> ev_event_version e \<or> pe_local_wall_ns p \<noteq> ev_local_wall_ns e
               \<or> pe_local_monotonic_ns p \<noteq> ev_local_monotonic_ns e
               \<or> pe_clock_uncertainty_ns p \<noteq> ev_clock_uncertainty_ns e))
           (ValueError ''expert_parent_projection_invalid''))]"

definition require_parent_projection_from_reduction :: "ExpertParentEvidenceV1 \<Rightarrow> ExpertReductionV1 \<Rightarrow> exn option" where
  "require_parent_projection_from_reduction parent r = first_raise
     [expert_parent_evidence_post_init parent,
      require (list_all (\<lambda>out. observation_parent (payload_observation (out_payload out)) = parent) (red_outcomes r))
        (ValueError ''expert_reduction_parent_invalid'')]"

definition payload_descriptor :: "ExpertOutcomeDraftV1 \<Rightarrow> bytes \<Rightarrow> ExpertPayloadDescriptorV1 result" where
  "payload_descriptor out payload = construct expert_payload_descriptor_post_init
     \<lparr>pd_schema_version = 1, pd_content_type = ''application/vnd.inci.expert+json'',
      pd_payload_encoding = ''canonical-json-v1'',
      pd_payload_contract_name = payload_contract_name (payload_kind (out_payload out)),
      pd_payload_length = int (length payload), pd_payload_sha256 = hexdigest (sha256 payload)\<rparr>"

definition journal_record ::
  "ExpertManifestBinding \<Rightarrow> ExpertParentEvidenceV1 \<Rightarrow> int \<Rightarrow> int \<Rightarrow> int \<Rightarrow> string \<Rightarrow> ExpertOutcomeDraftV1 \<Rightarrow> ExpertPayloadDescriptorV1
     \<Rightarrow> ExpertJournalRecordV1 result" where
  \<comment> \<open>the record with its own digest, computed over the other values\<close>
  "journal_record m parent group_size index seq prior_record out descriptor =
     (let r = \<lparr>jr_schema_version = 1, jr_session_id = mf_session_id m, jr_expert_manifest_sha256 = mf_manifest_sha256 m,
            jr_provider_request_binding_sha256 = mf_provider_request_binding_sha256 m,
            jr_match_binding_universe_sha256 = mf_match_binding_universe_sha256 m,
            jr_retention_binding_sha256 = mf_retention_binding_sha256 m, jr_expert_seq = seq, jr_parent = parent,
            jr_parent_output_index = index, jr_parent_output_count = group_size, jr_event_kind = out_event_kind out,
            jr_event_version = out_event_version out, jr_event_schema_sha256 = out_event_schema_sha256 out,
            jr_prior_expert_record_sha256 = prior_record,
            jr_prior_expert_state_sha256 = out_prior_expert_state_sha256 out, jr_payload = descriptor,
            jr_post_expert_state_sha256 = out_post_expert_state_sha256 out, jr_record_sha256 = []\<rparr>
      in bind_result (compute_expert_journal_record_sha256 r) (\<lambda>digest.
           construct expert_journal_record_post_init (r\<lparr>jr_record_sha256 := digest\<rparr>)))"

definition trace_step :: "string \<Rightarrow> ExpertJournalRecordV1 \<Rightarrow> ExpertTraceStepV1 result" where
  "trace_step prior_trace r =
     (let t = \<lparr>tt_schema_version = 1, tt_expert_seq = jr_expert_seq r, tt_prior_trace_sha256 = prior_trace,
            tt_expert_record_sha256 = jr_record_sha256 r, tt_post_expert_state_sha256 = jr_post_expert_state_sha256 r,
            tt_post_trace_sha256 = []\<rparr>
      in bind_result (compute_expert_trace_step_sha256 t) (\<lambda>digest.
           construct expert_trace_step_post_init (t\<lparr>tt_post_trace_sha256 := digest\<rparr>)))"

fun build_records ::
  "ExpertManifestBinding \<Rightarrow> ExpertParentEvidenceV1 \<Rightarrow> int \<Rightarrow> ExpertJournalCursorV1 \<Rightarrow> int \<Rightarrow> string \<Rightarrow> string
     \<Rightarrow> (ExpertOutcomeDraftV1 \<times> bytes) list \<Rightarrow> (ExpertJournalRecordV1 \<times> ExpertTraceStepV1) list result" where
  "build_records m parent group_size c index prior_record prior_trace [] = Inr []"
| "build_records m parent group_size c index prior_record prior_trace ((out, payload) # rest) =
     bind_result (payload_descriptor out payload) (\<lambda>descriptor.
     bind_result (journal_record m parent group_size index (jc_expert_seq c + index + 1) prior_record out descriptor) (\<lambda>r.
     bind_result (trace_step prior_trace r) (\<lambda>t.
     bind_result (build_records m parent group_size c (index + 1) (jr_record_sha256 r) (tt_post_trace_sha256 t) rest) (\<lambda>tail.
       Inr ((r, t) # tail)))))"

definition journal_group ::
  "ExpertManifestBinding \<Rightarrow> ExpertJournalCursorV1 \<Rightarrow> ExpertReductionV1 \<Rightarrow> ExpertParentEvidenceV1
     \<Rightarrow> (ExpertJournalRecordV1 \<times> ExpertTraceStepV1) list \<Rightarrow> ExpertJournalGroupV1 result" where
  "journal_group m c reduction parent chain =
     (let g = \<lparr>jg_schema_version = 1, jg_session_id = mf_session_id m, jg_expert_manifest_sha256 = mf_manifest_sha256 m,
            jg_group_sequence = jc_group_count c + 1, jg_parent = parent,
            jg_parent_output_count = int (length (red_outcomes reduction)), jg_first_expert_seq = jc_expert_seq c + 1,
            jg_prior_expert_record_sha256 = jc_expert_record_sha256 c,
            jg_prior_expert_state_sha256 = jc_expert_state_sha256 c, jg_records = map fst chain,
            jg_trace_steps = map snd chain, jg_final_expert_record_sha256 = jr_record_sha256 (fst (last chain)),
            jg_post_expert_state_sha256 = red_final_expert_state_sha256 reduction,
            jg_post_trace_sha256 = tt_post_trace_sha256 (snd (last chain)), jg_group_sha256 = []\<rparr>
      in bind_result (compute_expert_journal_group_sha256 g) (\<lambda>digest.
           construct expert_journal_group_post_init (g\<lparr>jg_group_sha256 := digest\<rparr>)))"

definition build_group ::
  "ExpertManifestBinding \<Rightarrow> ExpertJournalCursorV1 \<Rightarrow> ExpertReductionV1 \<Rightarrow> ExpertParentEvidenceV1
     \<Rightarrow> (ExpertJournalGroupV1 \<times> bytes list \<times> ExpertJournalCursorV1 \<times> ExpertStateV1) result" where
  "build_group m c reduction parent =
     checked (first_raise
         [expert_reduction_post_init reduction,
          require_parent_projection_from_reduction parent reduction,
          require (red_prior_expert_state_sha256 reduction = jc_expert_state_sha256 c)
            (ValueError ''expert_reduction_prior_invalid'')])
       (bind_result (map_result (\<lambda>out. canonical_expert_bytes (expert_payload_pyval (out_payload out))) (red_outcomes reduction))
          (\<lambda>payloads.
        bind_result (build_records m parent (int (length (red_outcomes reduction))) c 0 (jc_expert_record_sha256 c)
            (jc_expert_trace_sha256 c) (zip (red_outcomes reduction) payloads)) (\<lambda>chain.
        bind_result (journal_group m c reduction parent chain) (\<lambda>g.
        checked (validate_expert_group_against_cursor g payloads c)
          (bind_result (candidate_cursor c g) (\<lambda>c'.
           bind_result (construct expert_state_post_init (red_final_state reduction)) (\<lambda>s'.
           bind_result (expert_state_sha256 s') (\<lambda>state_sha.
             if state_sha \<noteq> jc_expert_state_sha256 c' then Inl (ValueError ''expert_candidate_state_invalid'')
             else Inr (g, payloads, c', s')))))))))"

subsection \<open>The journal of a session\<close>

record ExpertJournalState =
  xj_state :: ExpertStateV1
  xj_cursor :: ExpertJournalCursorV1
  xj_file :: bytes

record ParentAnswers =
  pa_authorization :: "exn option"
  pa_observations :: "expert_observation list result"
  pa_append :: "exn option"

definition prepare_parent ::
  "ExpertManifestBinding \<Rightarrow> PersistedEvent \<Rightarrow> ParentAnswers \<Rightarrow> ExpertStateV1 \<Rightarrow> ExpertJournalCursorV1
     \<Rightarrow> (ExpertJournalGroupV1 \<times> bytes list \<times> ExpertJournalCursorV1 \<times> ExpertStateV1) result" where
  \<comment> \<open>\<open>pa_authorization\<close> is what \<open>_authorize_parent\<close> raises, \<open>pa_observations\<close> what \<open>normalize_expert_parent\<close> raises or returns\<close>
  "prepare_parent m parent answers s c =
     checked (first_raise [require_exact_parent parent m c, pa_authorization answers])
       (bind_result (pa_observations answers) (\<lambda>observations.
        case observations of
          [] \<Rightarrow> Inl (TypeError ''observations'')
        | first # rest \<Rightarrow>
            checked (require_parent_projection parent (observation_parent first))
              (if list_ex (\<lambda>x. observation_parent x \<noteq> observation_parent first) observations
               then Inl (ValueError ''expert_observation_parent_invalid'')
               else
                 bind_result (reduce_expert_parent s observations) (\<lambda>reduction.
                   build_group m c reduction (observation_parent first)))))"

definition commit_ordinary ::
  "ParentAnswers \<Rightarrow> ExpertJournalState
     \<Rightarrow> ExpertJournalGroupV1 \<times> bytes list \<times> ExpertJournalCursorV1 \<times> ExpertStateV1 \<Rightarrow> ExpertJournalState result" where
  \<comment> \<open>\<open>pa_append\<close> is what the store and the checks of its permit and receipt raise; when they raise nothing the frame is
    in the file, and the state and the cursor are published\<close>
  "commit_ordinary answers j = (\<lambda>(g, payloads, c', s').
     bind_result (encode_expert_group_frame g payloads (xj_cursor j)) (\<lambda>frame.
       checked (pa_append answers) (Inr \<lparr>xj_state = s', xj_cursor = c', xj_file = xj_file j @ frame\<rparr>)))"

definition journal_parent ::
  "ExpertManifestBinding \<Rightarrow> ExpertJournalState \<Rightarrow> PersistedEvent \<times> ParentAnswers \<Rightarrow> ExpertJournalState result" where
  \<comment> \<open>\<open>_process_raw\<close> up to the commit: the emergency group for a full disk and the end of the session after a required halt
    are left out\<close>
  "journal_parent m j = (\<lambda>(parent, answers).
     bind_result (prepare_parent m parent answers (xj_state j) (xj_cursor j)) (commit_ordinary answers j))"

end
