(* ===== verification/ExpertFraming.thy ===== *)
theory ExpertFraming
  imports ExpertFrames Machines
begin

text \<open>
  What the framing codec of the expert journal accepts: exactly the bytes it writes.
\<close>

subsection \<open>Numbers of a fixed width\<close>

lemma be_value_less: "be_value bs < 256 ^ length bs"
proof (induction bs)
  case (Cons c bs)
  have "of_char c * 256 ^ length bs \<le> 255 * (256 :: int) ^ length bs"
    using of_char_int_range[of c] by (intro mult_right_mono) auto
  then have "of_char c * 256 ^ length bs + be_value bs < 256 * 256 ^ length bs" using Cons by linarith
  then show ?case by (simp add: be_value_Cons)
qed simp

lemma be_value_inject: "be_value bs = be_value cs \<Longrightarrow> length bs = length cs \<Longrightarrow> bs = cs"
proof (induction bs arbitrary: cs)
  case (Cons b bs)
  then obtain c cs' where cs: "cs = c # cs'" "length cs' = length bs" by (cases cs) auto
  let ?B = "256 ^ length bs :: int"
  have eq: "of_char b * ?B + be_value bs = of_char c * ?B + be_value cs'"
    using Cons.prems(1) cs by (simp add: be_value_Cons)
  have range: "0 \<le> be_value bs" "be_value bs < ?B" "0 \<le> be_value cs'" "be_value cs' < ?B"
    using be_value_nonneg be_value_less[of bs] be_value_less[of cs'] cs(2) by simp_all
  have "(of_char b * ?B + be_value bs) div ?B = of_char b" "(of_char c * ?B + be_value cs') div ?B = of_char c"
    using range by simp_all
  then have "of_char b = (of_char c :: int)" using eq by simp
  moreover from this have "be_value bs = be_value cs'" using eq by simp
  ultimately show ?case using Cons.IH[of cs'] cs by simp
qed simp

lemma word_bytes_be_value: "length bs = n \<Longrightarrow> word_bytes n (be_value bs) = bs"
  using be_value_word_bytes[OF be_value_nonneg be_value_less, of bs]
  by (intro be_value_inject) (simp_all add: word_bytes_def)

lemma decode_expert_file_header_Inr: "decode_expert_file_header content = Inr () \<longleftrightarrow> content = encode_expert_file_header"
proof
  assume d: "decode_expert_file_header content = Inr ()"
  then have len: "length content = 16" and v: "take 8 content = ''INCIXJ01''" "be_value (take 2 (drop 8 content)) = 1"
    "be_value (take 2 (drop 10 content)) = 0" "be_value (take 4 (drop 12 content)) = 16"
    by (auto simp: decode_expert_file_header_def codec_error_def split: if_splits)
  have w: "word_bytes n (be_value (take n (drop i content))) = take n (drop i content)" if "i + n \<le> 16" for i n
    by (rule word_bytes_be_value) (use that len in simp)
  have "content = take 8 content @ take 2 (drop 8 content) @ take 2 (drop 10 content) @ take 4 (drop 12 content)"
    using append_take_drop_id[of 8 content] append_take_drop_id[of 2 "drop 8 content"] append_take_drop_id[of 2 "drop 10 content"] len
    by simp
  then show "content = encode_expert_file_header"
    using w[of 8 2] w[of 10 2] w[of 12 4] v by (simp add: encode_expert_file_header_def)
next
  assume c: "content = encode_expert_file_header"
  show "decode_expert_file_header content = Inr ()"
    unfolding c decode_expert_file_header_def encode_expert_file_header_def
    using be_value_word_bytes[of 1 2] be_value_word_bytes[of 0 2] be_value_word_bytes[of 16 4] by simp
qed

subsection \<open>The prefix\<close>

lemma length_pack_expert [simp]:
  "length (pack_expert_prefix k s m a) = 32"
  "length d = 32 \<Longrightarrow> length (pack_expert_trailer f d) = 44"
  by (simp_all add: pack_expert_prefix_def pack_expert_trailer_def)

lemma expert_frame_digest_length [simp]: "length (expert_frame_digest p m a) = 32"
  by (simp add: expert_frame_digest_def)

definition expert_shape :: "int \<Rightarrow> int \<Rightarrow> nat \<Rightarrow> nat \<Rightarrow> bool" where
  \<comment> \<open>what a frame may hold\<close>
  "expert_shape kind seq m a \<longleftrightarrow>
     kind \<in> {1, 2, 3} \<and> 0 \<le> seq \<and> seq < 2 ^ 64 \<and> int (expert_fixed_bytes + m + a) \<le> max_expert_frame_bytes
     \<and> frame_shape_ok kind seq (int (expert_fixed_bytes + m + a)) (int m) (int a)"

lemma pack_expert_prefix_fields:
  assumes "0 \<le> kind" "kind < 256" "0 \<le> seq" "seq < 2 ^ 64" "int (expert_fixed_bytes + m + a) < 2 ^ 32"
  defines "p \<equiv> pack_expert_prefix kind seq m a"
  shows "take 4 p = ''IXJF''" "be_value (take 1 (drop 4 p)) = 1" "be_value (take 2 (drop 6 p)) = 0"
    "expert_prefix_fields p = (kind, seq, int (expert_fixed_bytes + m + a), int m, int a)"
proof -
  have ranges: "kind < 256 ^ 1" "seq < 256 ^ 8" "int (expert_fixed_bytes + m + a) < 256 ^ 8"
    "int m < 256 ^ 4" "int a < 256 ^ 4"
    using assms(1-5) by simp_all
  note p = p_def[unfolded pack_expert_prefix_def]
  show "take 4 p = ''IXJF''" unfolding p by simp
  show "be_value (take 1 (drop 4 p)) = 1" unfolding p using be_value_word_bytes[of 1 1] by simp
  show "be_value (take 2 (drop 6 p)) = 0" unfolding p using be_value_word_bytes[of 0 2] by simp
  have "be_value (take 1 (drop 5 p)) = kind" unfolding p using be_value_word_bytes[OF assms(1) ranges(1)] by simp
  moreover have "be_value (take 8 (drop 8 p)) = seq" unfolding p using be_value_word_bytes[OF assms(3) ranges(2)] by simp
  moreover have "be_value (take 8 (drop 16 p)) = int (expert_fixed_bytes + m + a)"
    unfolding p using be_value_word_bytes[OF _ ranges(3)] by (simp del: of_nat_add)
  moreover have "be_value (take 4 (drop 24 p)) = int m" unfolding p using be_value_word_bytes[OF _ ranges(4)] by simp
  moreover have "be_value (take 4 (drop 28 p)) = int a" unfolding p using be_value_word_bytes[OF _ ranges(5)] by simp
  ultimately show "expert_prefix_fields p = (kind, seq, int (expert_fixed_bytes + m + a), int m, int a)"
    by (simp add: expert_prefix_fields_def)
qed

lemma expert_shape_range:
  "expert_shape k s m a \<Longrightarrow> 0 \<le> k \<and> k < 256 \<and> 0 \<le> s \<and> s < 2 ^ 64 \<and> int (expert_fixed_bytes + m + a) < 2 ^ 32"
  by (auto simp: expert_shape_def max_expert_frame_bytes_def simp del: of_nat_add)

lemma decode_pack_expert_prefix:
  assumes "expert_shape k s m a"
  shows "decode_expert_frame_prefix (pack_expert_prefix k s m a) = Inr (k, s, int (expert_fixed_bytes + m + a), int m, int a)"
proof -
  note r = expert_shape_range[OF assms]
  note f = pack_expert_prefix_fields[of k s m a]
  have "k \<in> {1, 2, 3}" "int (expert_fixed_bytes + m + a) \<le> max_expert_frame_bytes"
    "frame_shape_ok k s (int (expert_fixed_bytes + m + a)) (int m) (int a)"
    using assms by (simp_all add: expert_shape_def del: of_nat_add)
  then show ?thesis
    using r f by (auto simp: decode_expert_frame_prefix_def expert_prefix_bytes_def)
qed

lemma split_prefix:
  assumes "length p = 32"
  shows "p = take 4 p @ take 1 (drop 4 p) @ take 1 (drop 5 p) @ take 2 (drop 6 p) @ take 8 (drop 8 p) @ take 8 (drop 16 p)
    @ take 4 (drop 24 p) @ take 4 (drop 28 p)"
proof -
  have step: "drop i p = take n (drop i p) @ drop (i + n) p" for i n
    using append_take_drop_id[of n "drop i p"] by (simp add: add.commute)
  have "drop 28 p = take 4 (drop 28 p)" using assms by simp
  then show ?thesis
    using step[of 0 4] step[of 4 1] step[of 5 1] step[of 6 2] step[of 8 8] step[of 16 8] step[of 24 4] by simp
qed

lemma decode_expert_frame_prefix_Inr:
  "decode_expert_frame_prefix p = Inr (k, s, f, ms, as) \<longleftrightarrow>
     (\<exists>m a. expert_shape k s m a \<and> p = pack_expert_prefix k s m a
        \<and> f = int (expert_fixed_bytes + m + a) \<and> ms = int m \<and> as = int a)"
proof
  assume d: "decode_expert_frame_prefix p = Inr (k, s, f, ms, as)"
  then have len: "length p = 32" and fields: "expert_prefix_fields p = (k, s, f, ms, as)"
    and p: "take 4 p = ''IXJF''" "be_value (take 1 (drop 4 p)) = 1" "be_value (take 2 (drop 6 p)) = 0"
    and c: "k \<in> {1, 2, 3}" "f = int expert_fixed_bytes + ms + as" "f \<le> max_expert_frame_bytes" "frame_shape_ok k s f ms as"
    by (auto simp: decode_expert_frame_prefix_def expert_prefix_bytes_def frame_invalid_def codec_error_def Let_def
        split: prod.splits if_splits)
  have v: "be_value (take 1 (drop 5 p)) = k" "be_value (take 8 (drop 8 p)) = s" "be_value (take 8 (drop 16 p)) = f"
    "be_value (take 4 (drop 24 p)) = ms" "be_value (take 4 (drop 28 p)) = as"
    using fields by (simp_all add: expert_prefix_fields_def)
  have nn: "0 \<le> ms" "0 \<le> as" "0 \<le> s" using be_value_nonneg v by metis+
  have "s < 256 ^ length (take 8 (drop 8 p))" using be_value_less[of "take 8 (drop 8 p)"] v(2) by simp
  then have s: "s < 2 ^ 64" using len by simp
  have w: "word_bytes n (be_value (take n (drop i p))) = take n (drop i p)" if "i + n \<le> 32" for i n
    by (rule word_bytes_be_value) (use that len in simp)
  have f: "f = int (expert_fixed_bytes + nat ms + nat as)" using c(2) nn by simp
  have "pack_expert_prefix k s (nat ms) (nat as) = p"
    using w[of 4 1] w[of 5 1] w[of 6 2] w[of 8 8] w[of 16 8] w[of 24 4] w[of 28 4] v p nn
    by (subst split_prefix[OF len]) (simp add: pack_expert_prefix_def f[symmetric] del: of_nat_add)
  moreover have "expert_shape k s (nat ms) (nat as)"
    using c nn s f by (simp add: expert_shape_def del: of_nat_add)
  ultimately show "\<exists>m a. expert_shape k s m a \<and> p = pack_expert_prefix k s m a
        \<and> f = int (expert_fixed_bytes + m + a) \<and> ms = int m \<and> as = int a"
    using f nn by (intro exI[of _ "nat ms"] exI[of _ "nat as"]) simp
next
  assume "\<exists>m a. expert_shape k s m a \<and> p = pack_expert_prefix k s m a
        \<and> f = int (expert_fixed_bytes + m + a) \<and> ms = int m \<and> as = int a"
  then show "decode_expert_frame_prefix p = Inr (k, s, f, ms, as)" using decode_pack_expert_prefix by blast
qed

subsection \<open>Whole frames\<close>

definition expert_frame_bytes :: "int \<Rightarrow> int \<Rightarrow> bytes \<Rightarrow> bytes \<Rightarrow> bytes" where
  \<comment> \<open>the layout of a frame\<close>
  "expert_frame_bytes kind seq metadata area =
     (let prefix = pack_expert_prefix kind seq (length metadata) (length area)
      in prefix @ metadata @ area
         @ pack_expert_trailer (expert_fixed_bytes + length metadata + length area) (expert_frame_digest prefix metadata area))"

lemma trailer_ok_iff:
  assumes "length t = 44" "length d = 32" "f < 2 ^ 64"
  shows "trailer_ok t (int f) d \<longleftrightarrow> t = pack_expert_trailer f d"
proof
  assume ok: "trailer_ok t (int f) d"
  have "t = take 8 t @ take 32 (drop 8 t) @ drop 40 t"
    using append_take_drop_id[of 8 t] append_take_drop_id[of 32 "drop 8 t"] by simp
  moreover have "word_bytes 8 (be_value (take 8 t)) = take 8 t" by (rule word_bytes_be_value) (use assms in simp)
  ultimately show "t = pack_expert_trailer f d" using ok by (simp add: trailer_ok_def pack_expert_trailer_def)
next
  assume t: "t = pack_expert_trailer f d"
  have "int f < 256 ^ 8" using assms(3) by simp
  then show "trailer_ok t (int f) d"
    using t assms be_value_word_bytes[of "int f" 8] by (simp add: trailer_ok_def pack_expert_trailer_def)
qed

lemma validate_expert_frame_parts_Inr:
  assumes "expert_shape k s (length m) (length a)"
  shows "validate_expert_frame_parts (pack_expert_prefix k s (length m) (length a)) m a t = Inr d \<longleftrightarrow>
    t = pack_expert_trailer (expert_fixed_bytes + length m + length a)
          (expert_frame_digest (pack_expert_prefix k s (length m) (length a)) m a)
    \<and> d = hexdigest (expert_frame_digest (pack_expert_prefix k s (length m) (length a)) m a)"
    (is "_ = Inr d \<longleftrightarrow> t = pack_expert_trailer ?f ?d \<and> _")
proof -
  have f: "?f < 2 ^ 64" using expert_shape_range[OF assms] by (simp del: of_nat_add)
  have "validate_expert_frame_parts (pack_expert_prefix k s (length m) (length a)) m a t = Inr d \<longleftrightarrow>
    length t = 44 \<and> trailer_ok t (int ?f) ?d \<and> d = hexdigest (take 32 (drop 8 t))"
    by (auto simp: validate_expert_frame_parts_def decode_pack_expert_prefix[OF assms] frame_invalid_def codec_error_def
        expert_trailer_bytes_def)
  also have "\<dots> \<longleftrightarrow> t = pack_expert_trailer ?f ?d \<and> d = hexdigest (take 32 (drop 8 t))"
    using trailer_ok_iff[of t ?d ?f] f by auto
  finally show ?thesis by (auto simp: pack_expert_trailer_def)
qed

lemma encode_expert_frame_Inr:
  "encode_expert_frame k s m a = Inr f \<longleftrightarrow> expert_shape k s (length m) (length a) \<and> f = expert_frame_bytes k s m a"
proof (cases "expert_shape k s (length m) (length a)")
  case True
  note v = iffD2[OF validate_expert_frame_parts_Inr[OF True] conjI[OF refl refl]]
  have "0 \<le> k \<and> k < 256 \<and> 0 \<le> s \<and> s < 2 ^ 64 \<and> expert_fixed_bytes + length m + length a < 2 ^ 64
      \<and> length m < 2 ^ 32 \<and> length a < 2 ^ 32"
    using expert_shape_range[OF True] by simp
  then have "encode_expert_frame k s m a = Inr (expert_frame_bytes k s m a)"
    using v unfolding encode_expert_frame_def Let_def decode_pack_expert_prefix[OF True] expert_frame_bytes_def
    by (simp del: of_nat_add)
  then show ?thesis using True by auto
next
  case False
  have "encode_expert_frame k s m a \<noteq> Inr f"
  proof
    assume e: "encode_expert_frame k s m a = Inr f"
    then obtain k' s' f' m' a' where
      d: "decode_expert_frame_prefix (pack_expert_prefix k s (length m) (length a)) = Inr (k', s', f', m', a')"
      and r: "0 \<le> k" "k < 256" "0 \<le> s" "s < 2 ^ 64"
      by (auto simp: encode_expert_frame_def Let_def frame_invalid_def codec_error_def bind_result_eq_Inr split: if_splits)
    from e have lm: "length m < 2 ^ 32" "length a < 2 ^ 32" 
      by (auto simp: encode_expert_frame_def Let_def frame_invalid_def codec_error_def split: if_splits)
    let ?p = "pack_expert_prefix k s (length m) (length a)"
    have "be_value (word_bytes 1 k) = k" "be_value (word_bytes 8 s) = s"
      "be_value (word_bytes 4 (int (length m))) = int (length m)" "be_value (word_bytes 4 (int (length a))) = int (length a)"
      using r lm by (simp_all add: be_value_word_bytes)
    then have "be_value (take 1 (drop 5 ?p)) = k" "be_value (take 8 (drop 8 ?p)) = s"
      "be_value (take 4 (drop 24 ?p)) = int (length m)" "be_value (take 4 (drop 28 ?p)) = int (length a)"
      by (simp_all add: pack_expert_prefix_def)
    then have "k' = k" "s' = s" "m' = int (length m)" "a' = int (length a)"
      using d by (auto simp: decode_expert_frame_prefix_def expert_prefix_fields_def frame_invalid_def codec_error_def Let_def
          split: if_splits)
    then show False using d False unfolding decode_expert_frame_prefix_Inr by simp
  qed
  then show ?thesis using False by simp
qed

lemma decode_expert_complete_frame_Inr:
  "decode_expert_complete_frame f = Inr (k, s, m, a, d) \<longleftrightarrow>
     encode_expert_frame k s m a = Inr f \<and> d = hexdigest (expert_frame_digest (take expert_prefix_bytes f) m a)"
proof
  assume e: "encode_expert_frame k s m a = Inr f \<and> d = hexdigest (expert_frame_digest (take expert_prefix_bytes f) m a)"
  then have sh: "expert_shape k s (length m) (length a)" and f: "f = expert_frame_bytes k s m a"
    by (simp_all add: encode_expert_frame_Inr)
  let ?p = "pack_expert_prefix k s (length m) (length a)"
  let ?t = "pack_expert_trailer (expert_fixed_bytes + length m + length a) (expert_frame_digest ?p m a)"
  have f': "f = ?p @ m @ a @ ?t" unfolding f expert_frame_bytes_def by (simp add: Let_def)
  have v: "validate_expert_frame_parts ?p m a ?t = Inr (hexdigest (expert_frame_digest ?p m a))"
    using validate_expert_frame_parts_Inr[OF sh] by blast
  show "decode_expert_complete_frame f = Inr (k, s, m, a, d)"
    using e v by (simp add: decode_expert_complete_frame_def f' decode_pack_expert_prefix[OF sh] Let_def
        expert_prefix_bytes_def expert_fixed_bytes_def expert_trailer_bytes_def)
next
  assume dec: "decode_expert_complete_frame f = Inr (k, s, m, a, d)"
  let ?p = "take expert_prefix_bytes f"
  from dec obtain ml al where
    dp: "decode_expert_frame_prefix ?p = Inr (k, s, int (length f), int ml, int al)"
    and m: "m = take ml (drop expert_prefix_bytes f)" and a: "a = take al (drop (expert_prefix_bytes + ml) f)"
    and v: "validate_expert_frame_parts ?p m a (drop (expert_prefix_bytes + ml + al) f) = Inr d"
    by (auto simp: decode_expert_complete_frame_def frame_invalid_def codec_error_def Let_def bind_result_eq_Inr
        decode_expert_frame_prefix_Inr split: if_splits)
  from v dp have len: "ml = length m" "al = length a"
    by (auto simp: validate_expert_frame_parts_def frame_invalid_def codec_error_def split: if_splits)
  from dp have sh: "expert_shape k s (length m) (length a)" and p: "?p = pack_expert_prefix k s (length m) (length a)"
    unfolding decode_expert_frame_prefix_Inr len by auto
  let ?t = "drop (expert_prefix_bytes + ml + al) f"
  from v have t: "?t = pack_expert_trailer (expert_fixed_bytes + length m + length a) (expert_frame_digest ?p m a)"
    and d: "d = hexdigest (expert_frame_digest ?p m a)"
    unfolding p validate_expert_frame_parts_Inr[OF sh] by simp_all
  have "f = ?p @ m @ a @ ?t"
    unfolding m a using append_take_drop_id[of expert_prefix_bytes f]
      append_take_drop_id[of ml "drop expert_prefix_bytes f"] append_take_drop_id[of al "drop (expert_prefix_bytes + ml) f"]
    by (simp add: add.commute add.left_commute)
  then have "f = expert_frame_bytes k s m a" using p t by (simp add: expert_frame_bytes_def Let_def)
  then show "encode_expert_frame k s m a = Inr f \<and> d = hexdigest (expert_frame_digest ?p m a)"
    using sh d by (simp add: encode_expert_frame_Inr)
qed

subsection \<open>The payload area\<close>

definition area_fits :: "bytes list \<Rightarrow> bool" where
  "area_fits ps \<longleftrightarrow> ps \<noteq> [] \<and> length ps \<le> 64 \<and> list_all (\<lambda>p. int (length p) \<le> max_expert_event_payload_bytes) ps
     \<and> int (length (concat (map framed_payload ps))) \<le> max_expert_group_payload_area_bytes"

lemma length_framed_payload [simp]: "length (framed_payload p) = 8 + length p"
  by (simp add: framed_payload_def)

lemma encode_expert_group_payload_area_Inr:
  "encode_expert_group_payload_area ps = Inr area \<longleftrightarrow> area_fits ps \<and> area = concat (map framed_payload ps)"
proof -
  have "sum_list (map (\<lambda>p. 8 + int (length p)) ps) = int (length (concat (map framed_payload ps)))"
    by (induction ps) simp_all
  then show ?thesis
    by (auto simp: encode_expert_group_payload_area_def area_fits_def area_invalid_def codec_error_def list_ex_iff list_all_iff
        linorder_class.not_le)
qed

fun bounds_of :: "nat \<Rightarrow> bytes list \<Rightarrow> (nat \<times> nat) list" where
  "bounds_of offset [] = []"
| "bounds_of offset (p # ps) = (offset + 8, offset + 8 + length p) # bounds_of (offset + 8 + length p) ps"

lemma framed_payload_read:
  assumes "int (length p) \<le> max_expert_event_payload_bytes"
  shows "be_value (take 8 (framed_payload p @ rest)) = int (length p)"
  using be_value_word_bytes[of "int (length p)" 8] assms
  by (simp add: framed_payload_def max_expert_event_payload_bytes_def)

lemma payload_bounds_Inr:
  assumes "offset \<le> length area"
  shows "payload_bounds n area offset = Inr (bounds, final) \<longleftrightarrow>
    (\<exists>ps post. length ps = n \<and> list_all (\<lambda>p. int (length p) \<le> max_expert_event_payload_bytes) ps
       \<and> drop offset area = concat (map framed_payload ps) @ post \<and> bounds = bounds_of offset ps
       \<and> final = offset + length (concat (map framed_payload ps)))"
  using assms
proof (induction n arbitrary: offset bounds)
  case 0
  then show ?case by auto
next
  case (Suc n)
  let ?v = "be_value (take 8 (drop offset area))"
  show ?case
  proof
    assume b: "payload_bounds (Suc n) area offset = Inr (bounds, final)"
    let ?stop = "offset + 8 + nat ?v"
    from b have len: "8 \<le> length area - offset" "?v \<le> max_expert_event_payload_bytes" "?stop \<le> length area"
      by (auto simp: area_invalid_def codec_error_def Let_def split: if_splits)
    from b len obtain bs where bs: "payload_bounds n area ?stop = Inr (bs, final)" "bounds = (offset + 8, ?stop) # bs"
      by (auto simp: Let_def bind_result_eq_Inr area_invalid_def codec_error_def split: if_splits)
    from Suc.IH[OF len(3)] bs(1) obtain ps post where ps: "length ps = n"
      "list_all (\<lambda>p. int (length p) \<le> max_expert_event_payload_bytes) ps"
      "drop ?stop area = concat (map framed_payload ps) @ post" "bs = bounds_of ?stop ps"
      "final = ?stop + length (concat (map framed_payload ps))"
      by blast
    let ?p = "take (nat ?v) (drop (offset + 8) area)"
    have v: "0 \<le> ?v" by (rule be_value_nonneg)
    have lp: "length ?p = nat ?v" using len(3) by simp
    have "word_bytes 8 ?v = take 8 (drop offset area)" by (rule word_bytes_be_value) (use len(1) in simp)
    then have "drop offset area = framed_payload ?p @ drop ?stop area"
      using append_take_drop_id[of 8 "drop offset area"] append_take_drop_id[of "nat ?v" "drop (offset + 8) area"] lp v
      by (simp add: framed_payload_def add.commute add.left_commute)
    then show "\<exists>ps post. length ps = Suc n \<and> list_all (\<lambda>p. int (length p) \<le> max_expert_event_payload_bytes) ps
       \<and> drop offset area = concat (map framed_payload ps) @ post \<and> bounds = bounds_of offset ps
       \<and> final = offset + length (concat (map framed_payload ps))"
      using ps bs(2) lp len(2) v by (intro exI[of _ "?p # ps"] exI[of _ post]) simp
  next
    assume "\<exists>ps post. length ps = Suc n \<and> list_all (\<lambda>p. int (length p) \<le> max_expert_event_payload_bytes) ps
       \<and> drop offset area = concat (map framed_payload ps) @ post \<and> bounds = bounds_of offset ps
       \<and> final = offset + length (concat (map framed_payload ps))"
    then obtain p ps post where ps: "length ps = n" "int (length p) \<le> max_expert_event_payload_bytes"
      "list_all (\<lambda>p. int (length p) \<le> max_expert_event_payload_bytes) ps"
      "drop offset area = framed_payload p @ concat (map framed_payload ps) @ post" "bounds = bounds_of offset (p # ps)"
      "final = offset + 8 + length p + length (concat (map framed_payload ps))"
      by (auto simp: length_Suc_conv)
    let ?stop = "offset + 8 + length p"
    have "length (drop offset area) = 8 + length p + length (concat (map framed_payload ps)) + length post"
      unfolding ps(4) by simp
    then have len: "8 \<le> length area - offset" "?stop \<le> length area" using Suc.prems by simp_all
    have v: "?v = int (length p)" unfolding ps(4) by (rule framed_payload_read[OF ps(2)])
    have "drop ?stop area = drop (8 + length p) (drop offset area)" by (simp add: add.commute add.left_commute)
    then have "drop ?stop area = concat (map framed_payload ps) @ post" unfolding ps(4) by simp
    then have "payload_bounds n area ?stop = Inr (bounds_of ?stop ps, final)"
      using Suc.IH[OF len(2)] ps by blast
    then show "payload_bounds (Suc n) area offset = Inr (bounds, final)"
      using len ps(2,5) by (simp add: Let_def v)
  qed
qed

lemma bounds_of_slices:
  "drop offset area = concat (map framed_payload ps) @ post
     \<Longrightarrow> map (\<lambda>(start, end_offset). take (end_offset - start) (drop start area)) (bounds_of offset ps) = ps"
proof (induction ps arbitrary: offset)
  case (Cons p ps)
  have "drop (offset + 8) area = drop 8 (drop offset area)"
    "drop (offset + 8 + length p) area = drop (8 + length p) (drop offset area)"
    by (simp_all add: add.commute add.left_commute)
  then have "drop (offset + 8) area = p @ concat (map framed_payload ps) @ post"
    "drop (offset + 8 + length p) area = concat (map framed_payload ps) @ post"
    unfolding \<open>drop (offset + 8) area = _\<close> \<open>drop (offset + 8 + length p) area = _\<close> Cons.prems
    by (simp_all add: framed_payload_def[of p])
  then show ?case using Cons.IH by simp
qed simp

lemma decode_expert_group_payload_area_Inr:
  "decode_expert_group_payload_area area n = Inr ps \<longleftrightarrow>
     encode_expert_group_payload_area ps = Inr area \<and> n = int (length ps)"
proof
  assume d: "decode_expert_group_payload_area area n = Inr ps"
  then have n: "1 \<le> n" "n \<le> 64" "int (length area) \<le> max_expert_group_payload_area_bytes"
    by (auto simp: decode_expert_group_payload_area_def area_invalid_def codec_error_def split: if_splits)
  from d n obtain bounds where b: "payload_bounds (nat n) area 0 = Inr (bounds, length area)"
    "ps = map (\<lambda>(start, end_offset). take (end_offset - start) (drop start area)) bounds"
    by (auto simp: decode_expert_group_payload_area_def area_invalid_def codec_error_def bind_result_eq_Inr split: if_splits)
  from b(1) obtain qs post where q: "length qs = nat n"
    "list_all (\<lambda>p. int (length p) \<le> max_expert_event_payload_bytes) qs"
    "drop 0 area = concat (map framed_payload qs) @ post" "bounds = bounds_of 0 qs"
    "length area = 0 + length (concat (map framed_payload qs))"
    unfolding payload_bounds_Inr[OF le0] by blast
  have "post = []" using q(3,5) by simp
  moreover have "ps = qs" using b(2) q(4) bounds_of_slices[OF q(3)] by simp
  ultimately show "encode_expert_group_payload_area ps = Inr area \<and> n = int (length ps)"
    using q n by (auto simp: encode_expert_group_payload_area_Inr area_fits_def)
next
  assume e: "encode_expert_group_payload_area ps = Inr area \<and> n = int (length ps)"
  then have fits: "area_fits ps" and area: "drop 0 area = concat (map framed_payload ps) @ []"
    by (simp_all add: encode_expert_group_payload_area_Inr)
  have "payload_bounds (length ps) area 0 = Inr (bounds_of 0 ps, length area)"
    unfolding payload_bounds_Inr[OF le0] using fits area
    by (intro exI[of _ ps] exI[of _ "[]"]) (simp add: area_fits_def)
  moreover have "1 \<le> n \<and> n \<le> 64 \<and> int (length area) \<le> max_expert_group_payload_area_bytes"
    using fits e area by (cases ps) (auto simp: area_fits_def)
  ultimately show "decode_expert_group_payload_area area n = Inr ps"
    using e bounds_of_slices[OF area] by (auto simp: decode_expert_group_payload_area_def)
qed

subsection \<open>The order of frames\<close>

definition frame_head :: "bytes \<Rightarrow> (int \<times> int) result" where
  \<comment> \<open>the kind and the sequence of a frame\<close>
  "frame_head prefix = bind_result (decode_expert_frame_prefix prefix) (\<lambda>(kind, seq, rest). Inr (kind, seq))"

lemma accept_frame_Inr:
  "accept_frame v p = Inr v' \<longleftrightarrow> (\<exists>k s. frame_head p = Inr (k, s) \<and> \<not> ov_terminal_seen v
     \<and> (if \<not> ov_manifest_seen v then k = 1 \<and> s = 0 \<and> v' = v\<lparr>ov_manifest_seen := True, ov_next_sequence := 1\<rparr>
        else s = ov_next_sequence v
          \<and> (k = 2 \<and> v' = v\<lparr>ov_next_sequence := s + 1\<rparr> \<or> k = 3 \<and> v' = v\<lparr>ov_terminal_seen := True\<rparr>)))"
  by (cases "decode_expert_frame_prefix p")
    (auto simp: accept_frame_def frame_head_def codec_error_def bind_result_eq_Inr split: if_splits prod.splits)

lemma order_after_terminal:
  "ov_terminal_seen v \<Longrightarrow> run_steps accept_frame v ps = Inr v' \<longleftrightarrow> ps = [] \<and> v' = v"
  by (cases ps) (auto simp: bind_result_eq_Inr accept_frame_Inr)

definition group_heads :: "int \<Rightarrow> nat \<Rightarrow> (int \<times> int) list" where
  "group_heads first n = map (\<lambda>i. (2, first + int i)) [0..<n]"

lemma group_heads_Suc: "group_heads first (Suc n) = (2, first) # group_heads (first + 1) n"
proof -
  have "[0..<Suc n] = 0 # map Suc [0..<n]" by (simp only: upt_conv_Cons map_Suc_upt)
  then show ?thesis by (simp add: group_heads_def comp_def algebra_simps)
qed

lemma group_heads_0 [simp]: "group_heads first 0 = []"
  by (simp add: group_heads_def)

lemma order_of_groups:
  assumes "ov_manifest_seen v" "\<not> ov_terminal_seen v"
  shows "(\<exists>v'. run_steps accept_frame v ps = Inr v' \<and> ov_terminal_seen v') \<longleftrightarrow>
    (\<exists>n. map frame_head ps = map Inr (group_heads (ov_next_sequence v) n @ [(3, ov_next_sequence v + int n)]))"
  using assms
proof (induction ps arbitrary: v)
  case (Cons p ps)
  let ?next = "ov_next_sequence v"
  let ?w = "v\<lparr>ov_next_sequence := ?next + 1\<rparr>" and ?t = "v\<lparr>ov_terminal_seen := True\<rparr>"
  have "(\<exists>v'. run_steps accept_frame v (p # ps) = Inr v' \<and> ov_terminal_seen v') \<longleftrightarrow>
      frame_head p = Inr (2, ?next) \<and> (\<exists>v'. run_steps accept_frame ?w ps = Inr v' \<and> ov_terminal_seen v')
      \<or> frame_head p = Inr (3, ?next) \<and> ps = []"
    using Cons.prems order_after_terminal[of ?t ps] by (auto simp: bind_result_eq_Inr accept_frame_Inr)
  also have "\<dots> \<longleftrightarrow> (\<exists>n. map frame_head (p # ps) = map Inr (group_heads ?next n @ [(3, ?next + int n)]))"
    (is "?L \<longleftrightarrow> (\<exists>n. ?R n)")
  proof -
    have "(\<exists>n. ?R n) \<longleftrightarrow> ?R 0 \<or> (\<exists>n. ?R (Suc n))" by (metis not0_implies_Suc)
    then show ?thesis
      using Cons.IH[of ?w] Cons.prems by (auto simp: group_heads_Suc add.assoc)
  qed
  finally show ?case .
qed simp

end
