(* ===== verification/ExpertSizes.thy ===== *)
theory ExpertSizes
  imports ExpertJournal ReducerTotal RecordSizes
begin

text \<open>
  How large the canonical bytes of a contract can get: integers have at most 257 characters, identifiers and digests are short.
  A payload that carries no evidence fits the frame of a payload, a group of 64 outcomes fits the metadata of a frame.
\<close>

subsection \<open>Sizes of documents\<close>

fun json_bound :: "json \<Rightarrow> nat" where
  "json_bound JNull = 4"
| "json_bound (JBool b) = 5"
| "json_bound (JInt i) = length (int_text i)"
| "json_bound (JStr s) = 6 * length s + 2"
| "json_bound (JArr xs) = 2 + sum_list (map (\<lambda>x. json_bound x + 1) xs)"
| "json_bound (JObj kvs) = 2 + sum_list (map (\<lambda>(k, v). 6 * length k + 4 + json_bound v) kvs)"

lemma length_json_string: "length (json_string s) \<le> 6 * length s + 2"
proof -
  have "length (json_escape c) \<le> 6" for c by (simp add: json_escape_def Let_def hex_byte_def)
  then have "length (concat (map json_escape s)) \<le> 6 * length s"
    by (induction s) (simp_all add: add_mono le_trans)
  then show ?thesis by (simp add: json_string_def)
qed

lemma sum_list_sort_keys: "sum_list (map f (sort_keys xs)) = sum_list (map f xs)" for f :: "_ \<Rightarrow> nat"
  unfolding sort_keys_def by (rule sum_list_sort_key)

lemma length_dumps: "length (dumps j) \<le> json_bound j"
proof (induction j)
  case (JArr xs)
  have "sum_list (map (\<lambda>x. length x + 1) (map dumps xs)) \<le> sum_list (map (\<lambda>x. json_bound x + 1) xs)"
    unfolding map_map comp_def by (rule sum_list_mono) (use JArr in auto)
  then show ?case using length_comma_join[of "map dumps xs"] by simp
next
  case (JObj kvs)
  let ?pairs = "map (\<lambda>(k, v). (k, dumps v)) kvs"
  let ?item = "\<lambda>(k, v). json_string k @ '':'' @ v"
  have "sum_list (map (\<lambda>x. length x + 1) (map ?item (sort_keys ?pairs))) = sum_list (map (\<lambda>p. length (?item p) + 1) ?pairs)"
    unfolding map_map[of "\<lambda>x. length x + 1" ?item] comp_def by (rule sum_list_sort_keys)
  also have "\<dots> \<le> sum_list (map (\<lambda>(k, v). 6 * length k + 4 + json_bound v) kvs)"
    unfolding map_map[of "\<lambda>p. length (?item p) + 1"] comp_def
  proof (rule sum_list_mono)
    fix kv assume kv: "kv \<in> set kvs"
    obtain k v where "kv = (k, v)" by (cases kv)
    then show "length (case case kv of (k, v) \<Rightarrow> (k, dumps v) of (k, v) \<Rightarrow> json_string k @ '':'' @ v) + 1
        \<le> (case kv of (k, v) \<Rightarrow> 6 * length k + 4 + json_bound v)"
      using JObj[OF kv] length_json_string[of k] by simp
  qed
  finally show ?case using length_comma_join[of "map ?item (sort_keys ?pairs)"] by simp
qed (use length_json_string in simp_all)

lemma length_canonical_int:
  assumes "\<bar>i\<bar> < integer_bound"
  shows "length (int_text i) \<le> 257"
proof -
  have e: "Suc 255 = 256" by simp
  have "\<bar>i\<bar> < 10 ^ Suc 255" using assms unfolding integer_bound_def e .
  then have "length (digits_text \<bar>i\<bar>) \<le> Suc 255" by (rule length_digits_text)
  then show ?thesis by (cases "i < 0") (simp_all add: int_text_def)
qed

subsection \<open>Sizes of projections\<close>

fun value_bound :: "pyval \<Rightarrow> nat" where
  "value_bound VNone = 4"
| "value_bound (VBool b) = 5"
| "value_bound (VInt i) = 257"
| "value_bound (VStr s) = 6 * length s + 2"
| "value_bound (VDecimal d) = 1600"
| "value_bound (VEnum name v) = 6 * length name + 6 * length v + 100"
| "value_bound (VTuple xs) = 60 + sum_list (map (\<lambda>x. value_bound x + 1) xs)"
| "value_bound (VDict kvs) = 60 + sum_list (map (\<lambda>(k, v). 6 * length k + 7 + value_bound v) kvs)"
| "value_bound (VContract name kvs) =
     6 * length name + 250 + sum_list (map (\<lambda>(k, v). 6 * length k + 4 + value_bound v) kvs)"

lemma canonical_decimal_length: "canonical_decimal d = Inr s \<Longrightarrow> length s \<le> 256"
  by (auto simp: canonical_decimal_def Let_def split: if_splits option.splits)

lemma map_result_sum_le:
  assumes "map_result f xs = Inr ys" "\<And>x y. x \<in> set xs \<Longrightarrow> f x = Inr y \<Longrightarrow> (h y :: nat) \<le> g x"
  shows "sum_list (map h ys) \<le> sum_list (map g xs)"
  using assms
proof (induction xs arbitrary: ys)
  case (Cons x xs)
  from Cons.prems(1) obtain y zs where *: "f x = Inr y" "map_result f xs = Inr zs" "ys = y # zs"
    by (auto simp: bind_result_eq_Inr)
  have "sum_list (map h zs) \<le> sum_list (map g xs)" using Cons.IH[OF *(2)] Cons.prems(2) by simp
  then show ?case using Cons.prems(2)[OF _ *(1)] * by (simp add: add_mono)
qed simp

lemma project_bound: "project v = Inr j \<Longrightarrow> json_bound j \<le> value_bound v"
proof (induction v arbitrary: j rule: project.induct)
  case (4 i)
  then show ?case using length_canonical_int[of i] by (auto split: if_splits)
next
  case (5 d)
  then show ?case by (auto simp: bind_result_eq_Inr dest: canonical_decimal_length)
next
  case (7 xs)
  then obtain js where js: "map_result project xs = Inr js" "j = JObj [(''$tuple'', JArr js)]"
    by (auto simp: bind_result_eq_Inr)
  have "sum_list (map (\<lambda>x. json_bound x + 1) js) \<le> sum_list (map (\<lambda>x. value_bound x + 1) xs)"
    by (rule map_result_sum_le[OF js(1)]) (use 7(1) in simp)
  then show ?case using js(2) by simp
next
  case (8 kvs)
  let ?f = "\<lambda>kv. bind_result (project (snd kv)) (\<lambda>j. Inr (JArr [JStr (fst kv), j]))"
  from 8(2) obtain js where js: "map_result ?f (sort_keys kvs) = Inr js" "j = JObj [(''$dict'', JArr js)]"
    by (auto simp: bind_result_eq_Inr)
  have "sum_list (map (\<lambda>x. json_bound x + 1) js) \<le> sum_list (map (\<lambda>(k, v). 6 * length k + 7 + value_bound v) (sort_keys kvs))"
    by (rule map_result_sum_le[OF js(1)]) (use 8(1) in \<open>auto simp: bind_result_eq_Inr\<close>)
  then show ?case using js(2) by (simp add: sum_list_sort_keys)
next
  case (9 name kvs)
  let ?f = "\<lambda>kv. bind_result (project (snd kv)) (\<lambda>j. Inr (fst kv, j))"
  from 9(2) obtain js where js: "map_result ?f kvs = Inr js"
    "j = JObj [(''$contract'', JStr name), (''$version'', JInt 1), (''fields'', JObj js)]"
    by (auto simp: bind_result_eq_Inr)
  have "sum_list (map (\<lambda>(k, v). 6 * length k + 4 + json_bound v) js)
      \<le> sum_list (map (\<lambda>(k, v). 6 * length k + 4 + value_bound v) kvs)"
    by (rule map_result_sum_le[OF js(1)]) (use 9(1) in \<open>auto simp: bind_result_eq_Inr\<close>)
  moreover have "length (int_text 1) = 1" by (simp add: int_text_def digits_text.simps)
  ultimately show ?case using js(2) by simp
qed auto

lemma canonical_bytes_bound:
  assumes "canonical_expert_bytes v = Inr b"
  shows "length b \<le> value_bound v + 400"
proof -
  from assms obtain j where j: "project v = Inr j" "b = dumps (JObj [(''canonical_version'', JInt 1),
      (''domain'', JStr ''inci-tennis-expert''), (''value'', j)])"
    by (auto simp: canonical_expert_bytes_def bind_result_eq_Inr)
  have "length (int_text 1) = 1" by (simp add: int_text_def digits_text.simps)
  then have "length b \<le> json_bound j + 400"
    unfolding j(2) by (intro le_trans[OF length_dumps]) simp
  then show ?thesis using project_bound[OF j(1)] by simp
qed

subsection \<open>Sizes of contracts\<close>

lemma text_lengths:
  "sha256_ok s \<Longrightarrow> length s = 64" "session_id_ok s \<Longrightarrow> length s = 36" "safe_id_ok s \<Longrightarrow> length s \<le> 128"
  by (auto simp: sha256_ok_def session_id_ok_def canonical_uuid_def safe_id_ok_def split: list.splits)

lemma parent_bound:
  assumes "expert_parent_evidence_post_init p = None"
  shows "value_bound (expert_parent_evidence_pyval p) \<le> 4000"
proof -
  have "length (pe_record_sha256 p) = 64" "length (pe_session_id p) = 36" "length (pe_event_type p) \<le> 128"
    using assms text_lengths by (simp_all add: expert_parent_evidence_post_init_def session_id_text_def)
  then show ?thesis by (simp add: expert_parent_evidence_pyval_def)
qed

lemma reason_bounds:
  "length (expert_reject_reason_value r) \<le> 64" "length (expert_ignore_reason_value i) \<le> 64"
  "length (expert_event_kind_value k) \<le> 64"
proof -
  show "length (expert_reject_reason_value r) \<le> 64" by (cases r) simp_all
  show "length (expert_ignore_reason_value i) \<le> 64" by (cases i) simp_all
  show "length (expert_event_kind_value k) \<le> 64" by (cases k) simp_all
qed

lemma binding_lengths:
  assumes "validate_observation_binding p i n a b c = None"
  shows "length a \<le> 128" "length b = 64" "length c = 64" "value_bound (expert_parent_evidence_pyval p) \<le> 4000"
  using binding_ok[OF assms] text_lengths parent_bound by blast+

text \<open>A payload that carries no evidence.\<close>

fun plain_payload :: "expert_payload \<Rightarrow> bool" where
  "plain_payload (IgnoredPayload p) \<longleftrightarrow> expert_ignored_observation_post_init (ipl_observation p) = None"
| "plain_payload (RejectedPayload p) \<longleftrightarrow>
     (case rpl_observation p of RejectedObservation r \<Rightarrow> expert_rejected_observation_post_init r = None | _ \<Rightarrow> False)"
| "plain_payload (AppliedPayload p) \<longleftrightarrow> False"

lemma ignored_observation_bound:
  assumes "expert_ignored_observation_post_init y = None"
  shows "value_bound (expert_ignored_observation_pyval y) \<le> 9000"
proof -
  have b: "validate_observation_binding (io_parent y) (io_parent_output_index y) (io_parent_output_count y)
      (io_normalizer_id y) (io_normalizer_code_sha256 y) (io_normalizer_schema_sha256 y) = None"
    using assms unfolding expert_ignored_observation_post_init_def first_raise_eq_None by blast
  show ?thesis
    using binding_lengths[OF b] reason_bounds(2)[of "io_reason y"]
    by (simp add: expert_ignored_observation_pyval_def expert_ignore_reason_pyval_def)
qed

lemma rejected_observation_bound:
  assumes "expert_rejected_observation_post_init y = None"
  shows "value_bound (expert_rejected_observation_pyval y) \<le> 9000"
proof -
  have b: "validate_observation_binding (ro_parent y) (ro_parent_output_index y) (ro_parent_output_count y)
      (ro_normalizer_id y) (ro_normalizer_code_sha256 y) (ro_normalizer_schema_sha256 y) = None"
    using assms unfolding expert_rejected_observation_post_init_def first_raise_eq_None by blast
  show ?thesis
    using binding_lengths[OF b] reason_bounds(1)[of "ro_reason y"]
    by (simp add: expert_rejected_observation_pyval_def expert_reject_reason_pyval_def)
qed

lemma plain_payload_fits:
  assumes "plain_payload p"
  shows "encodable (expert_payload_pyval p)"
    and "canonical_expert_bytes (expert_payload_pyval p) = Inr b \<Longrightarrow> length b \<le> 20000"
proof -
  have "encodable (expert_payload_pyval p) \<and> value_bound (expert_payload_pyval p) \<le> 19000"
  proof (cases p)
    case (IgnoredPayload q)
    then have ok: "expert_observation_post_init (IgnoredObservation (ipl_observation q)) = None" using assms by simp
    then have "encodable (expert_ignored_observation_pyval (ipl_observation q))"
      using observation_encodable[OF ok] by simp
    then show ?thesis
      using IgnoredPayload ignored_observation_bound[of "ipl_observation q"] ok
      by (simp add: expert_observation_ignored_payload_pyval_def)
  next
    case (RejectedPayload q)
    then obtain y where y: "rpl_observation q = RejectedObservation y" "expert_rejected_observation_post_init y = None"
      using assms by (auto split: expert_observation.splits)
    then have "encodable (expert_rejected_observation_pyval y)"
      using observation_encodable[of "RejectedObservation y"] by simp
    then show ?thesis
      using RejectedPayload y rejected_observation_bound[OF y(2)] reason_bounds(1)[of "rpl_reason q"]
      by (simp add: expert_observation_rejected_payload_pyval_def expert_reject_reason_pyval_def)
  qed (use assms in simp)
  then show "encodable (expert_payload_pyval p)"
    and "canonical_expert_bytes (expert_payload_pyval p) = Inr b \<Longrightarrow> length b \<le> 20000"
    using canonical_bytes_bound[of "expert_payload_pyval p" b] by auto
qed

subsection \<open>Sizes of journal contracts\<close>

lemma descriptor_size:
  assumes "expert_payload_descriptor_post_init d = None"
  shows "value_bound (payload_descriptor_pyval d) \<le> 2500" "encodable (payload_descriptor_pyval d)"
proof -
  have "length (payload_contract_name k) \<le> 40" for k by (cases k) simp_all
  then have n: "length (pd_payload_contract_name d) \<le> 40"
    using assms by (auto simp: expert_payload_descriptor_post_init_def one_of_strings_def)
  moreover have "length (pd_payload_sha256 d) = 64" "pd_content_type d = ''application/vnd.inci.expert+json''"
    "pd_payload_encoding d = ''canonical-json-v1''"
    using assms text_lengths by (simp_all add: expert_payload_descriptor_post_init_def one_of_strings_def)
  ultimately show "value_bound (payload_descriptor_pyval d) \<le> 2500" by (simp add: payload_descriptor_pyval_def)
  have "integer_ok (pd_schema_version d)" "integer_ok (pd_payload_length d)"
    using assms by (simp_all add: expert_payload_descriptor_post_init_def schema_version_def)
  then show "encodable (payload_descriptor_pyval d)"
    by (simp add: payload_descriptor_pyval_def del: encodable.simps(1))
qed

lemma journal_record_size:
  assumes "expert_journal_record_post_init r = None"
  shows "value_bound (journal_record_pyval r) \<le> 20000" "encodable (journal_record_pyval r)"
proof -
  have t: "length (jr_session_id r) = 36" "length (jr_expert_manifest_sha256 r) = 64"
    "length (jr_provider_request_binding_sha256 r) = 64" "length (jr_match_binding_universe_sha256 r) = 64"
    "length (jr_retention_binding_sha256 r) = 64" "length (jr_event_schema_sha256 r) = 64"
    "length (jr_prior_expert_record_sha256 r) = 64" "length (jr_prior_expert_state_sha256 r) = 64"
    "length (jr_post_expert_state_sha256 r) = 64" "length (jr_record_sha256 r) = 64"
    using assms text_lengths by (simp_all add: expert_journal_record_post_init_def session_id_text_def)
  have p: "expert_parent_evidence_post_init (jr_parent r) = None" "expert_payload_descriptor_post_init (jr_payload r) = None"
    using assms by (simp_all add: expert_journal_record_post_init_def)
  show "value_bound (journal_record_pyval r) \<le> 20000"
    using t parent_bound[OF p(1)] descriptor_size(1)[OF p(2)] reason_bounds(3)[of "jr_event_kind r"]
    by (simp add: journal_record_pyval_def journal_record_fields_def expert_event_kind_pyval_def)
  have "integer_ok (jr_schema_version r)" "integer_ok (jr_expert_seq r)" "integer_ok (jr_parent_output_index r)"
    "integer_ok (jr_parent_output_count r)" "jr_event_version r = 1"
    using assms by (simp_all add: expert_journal_record_post_init_def schema_version_def validate_observation_binding_def)
  then show "encodable (journal_record_pyval r)"
    using parent_encodable[OF p(1)] descriptor_size(2)[OF p(2)]
    by (simp add: journal_record_pyval_def journal_record_fields_def expert_event_kind_pyval_def del: encodable.simps(1))
qed

lemma trace_step_size:
  assumes "expert_trace_step_post_init t = None"
  shows "value_bound (trace_step_pyval t) \<le> 5000" "encodable (trace_step_pyval t)"
proof -
  have "length (tt_prior_trace_sha256 t) = 64" "length (tt_expert_record_sha256 t) = 64"
    "length (tt_post_expert_state_sha256 t) = 64" "length (tt_post_trace_sha256 t) = 64"
    using assms text_lengths by (simp_all add: expert_trace_step_post_init_def)
  then show "value_bound (trace_step_pyval t) \<le> 5000" by (simp add: trace_step_pyval_def trace_step_fields_def)
  have "integer_ok (tt_schema_version t)" "integer_ok (tt_expert_seq t)"
    using assms by (simp_all add: expert_trace_step_post_init_def schema_version_def)
  then show "encodable (trace_step_pyval t)"
    by (simp add: trace_step_pyval_def trace_step_fields_def del: encodable.simps(1))
qed

lemma group_chain_members:
  assumes "group_chain g i a b c chain = Inr x" "(r, t) \<in> set chain"
  shows "expert_journal_record_post_init r = None" "expert_trace_step_post_init t = None"
  using assms by (induction g i a b c chain rule: group_chain.induct) (auto simp: checked_eq_Inr)

lemma sum_list_bounded:
  "(\<And>x. x \<in> set xs \<Longrightarrow> f x \<le> (k :: nat)) \<Longrightarrow> sum_list (map f xs) \<le> length xs * k"
  by (induction xs) (auto simp: add_mono)

lemma journal_group_members:
  assumes "expert_journal_group_post_init g = None"
  shows "\<forall>r \<in> set (jg_records g). expert_journal_record_post_init r = None"
    "\<forall>t \<in> set (jg_trace_steps g). expert_trace_step_post_init t = None"
    "length (jg_records g) \<le> 64" "length (jg_trace_steps g) = length (jg_records g)"
proof -
  show len: "length (jg_records g) \<le> 64" "length (jg_trace_steps g) = length (jg_records g)"
    using assms by (simp_all add: expert_journal_group_post_init_def)
  obtain x where x: "group_chain g 0 (jg_prior_expert_record_sha256 g) (jg_prior_expert_state_sha256 g)
      (tt_prior_trace_sha256 (hd (jg_trace_steps g))) (zip (jg_records g) (jg_trace_steps g)) = Inr x"
    using assms by (auto simp: expert_journal_group_post_init_def split: sum.splits)
  show "\<forall>r \<in> set (jg_records g). expert_journal_record_post_init r = None"
  proof
    fix r assume "r \<in> set (jg_records g)"
    then obtain t where "(r, t) \<in> set (zip (jg_records g) (jg_trace_steps g))"
      using len(2) by (metis in_set_impl_in_set_zip1)
    then show "expert_journal_record_post_init r = None" using group_chain_members[OF x] by blast
  qed
  show "\<forall>t \<in> set (jg_trace_steps g). expert_trace_step_post_init t = None"
  proof
    fix t assume "t \<in> set (jg_trace_steps g)"
    then obtain r where "(r, t) \<in> set (zip (jg_records g) (jg_trace_steps g))"
      using len(2) by (metis in_set_impl_in_set_zip2)
    then show "expert_trace_step_post_init t = None" using group_chain_members[OF x] by blast
  qed
qed

lemma journal_group_size:
  assumes g: "expert_journal_group_post_init g = None"
  shows "value_bound (journal_group_pyval g) \<le> 2000000" "encodable (journal_group_pyval g)"
proof -
  note m = journal_group_members[OF g]
  have r: "sum_list (map (\<lambda>r. value_bound (journal_record_pyval r) + 1) (jg_records g)) \<le> length (jg_records g) * 20001"
    by (rule sum_list_bounded) (use m(1) journal_record_size(1) in force)
  have t: "sum_list (map (\<lambda>t. value_bound (trace_step_pyval t) + 1) (jg_trace_steps g)) \<le> length (jg_records g) * 5001"
    unfolding m(4)[symmetric] by (rule sum_list_bounded) (use m(2) trace_step_size(1) in force)
  have l: "length (jg_session_id g) = 36" "length (jg_expert_manifest_sha256 g) = 64"
    "length (jg_prior_expert_record_sha256 g) = 64" "length (jg_prior_expert_state_sha256 g) = 64"
    "length (jg_final_expert_record_sha256 g) = 64" "length (jg_post_expert_state_sha256 g) = 64"
    "length (jg_post_trace_sha256 g) = 64" "length (jg_group_sha256 g) = 64"
    using g text_lengths by (simp_all add: expert_journal_group_post_init_def session_id_text_def)
  have p: "expert_parent_evidence_post_init (jg_parent g) = None"
    using g by (simp add: expert_journal_group_post_init_def)
  show "value_bound (journal_group_pyval g) \<le> 2000000"
    using r t l m(3) parent_bound[OF p] by (simp add: journal_group_pyval_def journal_group_fields_def comp_def)
  have "integer_ok (jg_schema_version g)" "integer_ok (jg_group_sequence g)" "integer_ok (jg_parent_output_count g)"
    "integer_ok (jg_first_expert_seq g)"
    using g by (simp_all add: expert_journal_group_post_init_def schema_version_def)
  then show "encodable (journal_group_pyval g)"
    using m(1,2) parent_encodable[OF p] journal_record_size(2) trace_step_size(2)
    by (simp add: journal_group_pyval_def journal_group_fields_def list_all_iff del: encodable.simps(1))
qed

end
