(* ===== verification/JournaledReductions.thy ===== *)
theory JournaledReductions
  imports ExpertSizes
begin

text \<open>
  What the journal needs to know of a reduction that returned: it was accepted by its constructor, it starts at the digest of the state,
  its outcomes are those of one parent, and their payloads have canonical bytes that fit a payload area.
\<close>

lemma reduction_constructed:
  assumes "reduce_expert_parent s os = Inr x"
  shows "expert_reduction_post_init x = None" "expert_state_sha256 s = Inr (red_prior_expert_state_sha256 x)"
proof -
  have single: "expert_reduction_post_init x = None \<and> expert_state_sha256 s = Inr (red_prior_expert_state_sha256 x)"
    if "single_rejection s o' r = Inr x" for o' r
    using that by (auto simp: single_rejection_def bind_result_eq_Inr)
  from assms obtain first where first: "validate_observation_group os = Inr first"
    and h: "xs_halted s \<Longrightarrow> single_rejection s first PRIOR_GROUP_HALTED = Inr x"
    and run: "\<not> xs_halted s \<Longrightarrow> \<exists>d. expert_state_sha256 s = Inr d \<and> (case first of
              IgnoredObservation y \<Rightarrow> reduce_ignored s y d
            | RejectedObservation y \<Rightarrow> single_rejection s first (ro_reason y)
            | SynchronizationObservation y \<Rightarrow> reduce_synchronizations s first os d) = Inr x"
    unfolding reduce_expert_parent_def by (auto simp: checked_eq_Inr bind_result_eq_Inr split: if_splits)
  have "expert_reduction_post_init x = None \<and> expert_state_sha256 s = Inr (red_prior_expert_state_sha256 x)"
  proof (cases "xs_halted s")
    case True
    then show ?thesis using single h by blast
  next
    case False
    then obtain d where d: "expert_state_sha256 s = Inr d" "(case first of
              IgnoredObservation y \<Rightarrow> reduce_ignored s y d
            | RejectedObservation y \<Rightarrow> single_rejection s first (ro_reason y)
            | SynchronizationObservation y \<Rightarrow> reduce_synchronizations s first os d) = Inr x"
      using run by blast
    show ?thesis
    proof (cases first)
      case (SynchronizationObservation y)
      then have "reduce_synchronizations s first os d = Inr x" using d(2) by simp
      then show ?thesis
        using single d(1)
        by (auto simp: reduce_synchronizations_def capacity_exceeded_def bind_result_eq_Inr Let_def
            split: option.splits if_splits)
    next
      case (IgnoredObservation y)
      then show ?thesis using d by (auto simp: reduce_ignored_def bind_result_eq_Inr)
    next
      case (RejectedObservation y)
      then show ?thesis using d single by auto
    qed
  qed
  then show "expert_reduction_post_init x = None" "expert_state_sha256 s = Inr (red_prior_expert_state_sha256 x)" by simp_all
qed

definition plain_outcome :: "ExpertParentEvidenceV1 \<Rightarrow> ExpertOutcomeDraftV1 \<Rightarrow> bool" where
  \<comment> \<open>an outcome of this parent whose payload carries no evidence\<close>
  "plain_outcome p out \<longleftrightarrow> plain_payload (out_payload out) \<and> observation_parent (outcome_observation out) = p"

lemma single_rejection_plain:
  assumes "single_rejection s first reason = Inr x"
    and "\<not> (is_synchronization_observation first
           \<and> reason \<in> {SYNCHRONIZATION_SESSION_DRIFT, REDUCER_EXCEPTION, PRIOR_OUTCOME_HALTED})"
  shows "list_all (plain_outcome (observation_parent first)) (red_outcomes x)"
proof -
  from assms(1) obtain d post rejected r e where *: "rejected_from_observation first reason = Inr rejected"
    "rejected_outcome rejected reason d post = Inr r" "red_outcomes x = [r]"
    by (auto simp: single_rejection_def bind_result_eq_Inr)
  from *(1) assms(2) obtain y where y: "rejected = RejectedObservation y" "expert_rejected_observation_post_init y = None"
    "ro_parent y = observation_parent first"
    unfolding rejected_from_observation_def if_not_P[OF assms(2)] by (auto simp: bind_result_eq_Inr split: prod.splits)
  from *(2) have "out_payload r = RejectedPayload \<lparr>rpl_observation = rejected, rpl_reason = reason\<rparr>"
    by (auto simp: rejected_outcome_def bind_result_eq_Inr dest: make_outcome_ok(1))
  then show ?thesis using *(3) y by (simp add: plain_outcome_def outcome_observation_def)
qed

lemma observations_bound_parent: "observations_bound p n i xs = None \<Longrightarrow> x \<in> set xs \<Longrightarrow> observation_parent x = p"
  by (induction xs arbitrary: i) auto

lemma plain_outcomes_fit:
  assumes "list_all (plain_outcome p) outs" "length outs \<le> 1"
  shows "list_all (\<lambda>x. encodable (expert_payload_pyval (out_payload x))) outs" "group_fits outs"
proof -
  have "payload_size x \<le> 20000" if "plain_outcome p x" for x
    using plain_payload_fits(2)[of "out_payload x"] that
    by (auto simp: payload_size_def plain_outcome_def split: sum.splits)
  then have "list_all (\<lambda>x. payload_size x \<le> 20000) outs" using assms(1) by (simp add: list_all_iff)
  then show "group_fits outs"
    using assms(2) by (cases outs) (simp_all add: group_fits_def max_event_payload_bytes_def max_group_payload_area_bytes_def)
  show "list_all (\<lambda>x. encodable (expert_payload_pyval (out_payload x))) outs"
    using assms(1) plain_payload_fits(1) by (auto simp: list_all_iff plain_outcome_def)
qed

lemma run_outcomes_fit:
  assumes s: "expert_inv s" "integer_ok (xs_rejected_parent_count s + 1)"
    and xs: "\<forall>x \<in> set xs. expert_synchronization_observation_post_init x = None
           \<and> encodable (synchronization_input_pyval (so_evidence x)) \<and> sync_event_ok (observation_event x)"
    and run: "reduce_observations s False (map SynchronizationObservation xs) = Inr (Some (outs, final))"
  shows "list_all (\<lambda>x. encodable (expert_payload_pyval (out_payload x))) outs"
    "map outcome_observation outs = map SynchronizationObservation xs"
proof -
  obtain d where d: "expert_state_sha256 s = Inr d" using expert_digest[OF s(1)] by blast
  have "room False s" using s(2) by (simp add: room_def)
  from reduce_observations_defined[OF s(1) this d xs] run obtain e where "chain_links d outs e" by auto
  then show "list_all (\<lambda>x. encodable (expert_payload_pyval (out_payload x))) outs"
    by (induction d outs e rule: chain_links.induct) (simp_all add: outcome_links_def)
  obtain k st e' where "group_run (xs_synchronization s) xs = (k, st, e')" by (metis prod.exhaust)
  from reduce_observations_run[OF run this]
  show "map outcome_observation outs = map SynchronizationObservation xs" by simp
qed

lemma reduction_outcomes_fit:
  assumes s: "expert_inv s" "integer_ok (xs_rejected_parent_count s + 1)" and os: "group_accepted s os"
    and x: "reduce_expert_parent s os = Inr x"
  shows "list_all (\<lambda>x. encodable (expert_payload_pyval (out_payload x))) (red_outcomes x)" (is ?encodable)
    and "group_fits (red_outcomes x)" (is ?fits)
    and "list_all (\<lambda>out. observation_parent (outcome_observation out) = observation_parent (hd os)) (red_outcomes x)"
      (is ?parents)
proof -
  from os obtain first where v: "validate_observation_group os = Inr first"
    by (auto simp: group_accepted_def split: sum.splits)
  then obtain rest where g: "os = first # rest" "observations_bound (observation_parent first) (int (length os)) 0 os = None"
    "if is_synchronization_observation first then list_all is_synchronization_observation os else rest = []"
    by (rule validate_observation_group_ok)
  have ok: "expert_observation_post_init y = None \<and> observation_ok y \<and> evidence_encodable y
      \<and> observation_parent y = observation_parent first" if "y \<in> set os" for y
    using observations_bound_all[OF g(2) that] observations_bound_parent[OF g(2) that] os that
    by (simp add: group_accepted_def list_all_iff)
  have plain: "?encodable \<and> ?fits \<and> ?parents"
    if p: "list_all (plain_outcome (observation_parent first)) (red_outcomes x)" "length (red_outcomes x) \<le> 1"
    using plain_outcomes_fit[OF p] p(1) g(1) by (auto simp: list_all_iff plain_outcome_def)
  have single: "?encodable \<and> ?fits \<and> ?parents" if r: "single_rejection s first r = Inr x"
    "\<not> (is_synchronization_observation first
        \<and> r \<in> {SYNCHRONIZATION_SESSION_DRIFT, REDUCER_EXCEPTION, PRIOR_OUTCOME_HALTED})" for r
  proof (rule plain[OF single_rejection_plain[OF r]])
    show "length (red_outcomes x) \<le> 1" using single_rejection_ok[OF r(1)] by force
  qed
  have cases: "xs_halted s \<and> single_rejection s first PRIOR_GROUP_HALTED = Inr x
    \<or> \<not> xs_halted s \<and> (\<exists>d. (case first of
              IgnoredObservation y \<Rightarrow> reduce_ignored s y d
            | RejectedObservation y \<Rightarrow> single_rejection s first (ro_reason y)
            | SynchronizationObservation y \<Rightarrow> reduce_synchronizations s first os d) = Inr x)"
    using x v unfolding reduce_expert_parent_def by (auto simp: checked_eq_Inr bind_result_eq_Inr split: if_splits)
  have "?encodable \<and> ?fits \<and> ?parents"
  proof (cases "xs_halted s")
    case True
    then show ?thesis using single cases by auto
  next
    case False
    then obtain d where d: "(case first of
              IgnoredObservation y \<Rightarrow> reduce_ignored s y d
            | RejectedObservation y \<Rightarrow> single_rejection s first (ro_reason y)
            | SynchronizationObservation y \<Rightarrow> reduce_synchronizations s first os d) = Inr x"
      using cases by blast
    show ?thesis
    proof (cases first)
      case (IgnoredObservation y)
      then obtain p r where r: "make_outcome EK_OBSERVATION_IGNORED (IgnoredPayload p) d s = Inr r" "ipl_observation p = y"
        "red_outcomes x = [r]" "expert_observation_ignored_payload_post_init p = None"
        using d by (auto simp: reduce_ignored_def bind_result_eq_Inr)
      then show ?thesis
        using IgnoredObservation make_outcome_ok(1)[OF r(1)]
        by (intro plain) (simp_all add: plain_outcome_def outcome_observation_def expert_observation_ignored_payload_post_init_def)
    next
      case (RejectedObservation y)
      then show ?thesis using d single[of "ro_reason y"] by simp
    next
      case (SynchronizationObservation y)
      obtain xs where xs: "os = map SynchronizationObservation xs"
        using g(3) SynchronizationObservation synchronization_group by auto
      from d SynchronizationObservation have "reduce_synchronizations s first os d = Inr x" by simp
      then show ?thesis
      proof (cases rule: reduce_synchronizations_cases)
        case capacity
        then show ?thesis using single by simp
      next
        case run
        have "\<forall>x \<in> set xs. expert_synchronization_observation_post_init x = None
           \<and> encodable (synchronization_input_pyval (so_evidence x)) \<and> sync_event_ok (observation_event x)"
          using ok xs by force
        note fit = run_outcomes_fit[OF s this run(1)[unfolded xs]]
        have "observation_parent (outcome_observation out) = observation_parent first" if "out \<in> set (red_outcomes x)" for out
        proof -
          have "outcome_observation out \<in> set os" using fit(2) that xs by (metis image_eqI list.set_map)
          then show ?thesis using ok by blast
        qed
        then show ?thesis using fit(1) run(2) g(1) by (simp add: list_all_iff)
      qed
    qed
  qed
  then show ?encodable ?fits ?parents by simp_all
qed

end
