(* ===== verification/GroupBuilding.thy ===== *)
theory GroupBuilding
  imports ExpertController ExpertFraming JournaledReductions
begin

text \<open>
  Building the group of a reduction: with a valid manifest and cursor every record, trace step and group is accepted by its
  constructor, the group follows the cursor, and its frame fits the journal.
\<close>

definition manifest_binding_ok :: "ExpertManifestBinding \<Rightarrow> bool" where
  "manifest_binding_ok m \<longleftrightarrow> session_id_ok (mf_session_id m) \<and> sha256_ok (mf_manifest_sha256 m)
     \<and> sha256_ok (mf_provider_request_binding_sha256 m) \<and> sha256_ok (mf_match_binding_universe_sha256 m)
     \<and> sha256_ok (mf_retention_binding_sha256 m) \<and> sha256_ok (mf_evidence_session_start_record_sha256 m)"

lemma fields_digest_defined: "(\<exists>d. fields_sha256 domain kvs = Inr d) \<longleftrightarrow> list_all (\<lambda>kv. encodable (snd kv)) kvs"
  by (simp add: fields_sha256_def domain_digest_defined list_all_iff)

lemma fields_digest_ok: "fields_sha256 domain kvs = Inr d \<Longrightarrow> sha256_ok d"
  unfolding fields_sha256_def by (rule domain_digest_ok)

lemma self_digest_fields:
  "journal_record_fields (r\<lparr>jr_record_sha256 := d\<rparr>) = journal_record_fields r"
  "trace_step_fields (t\<lparr>tt_post_trace_sha256 := d\<rparr>) = trace_step_fields t"
  "journal_group_fields (g\<lparr>jg_group_sha256 := d\<rparr>) = journal_group_fields g"
  by (simp_all add: journal_record_fields_def trace_step_fields_def journal_group_fields_def)

lemma integer_ok_sum: "integer_ok (i + n) \<Longrightarrow> 0 \<le> i \<Longrightarrow> 0 \<le> n \<Longrightarrow> integer_ok i"
  by (rule integer_ok_le[of i "i + n"]) simp_all

lemma positive_le: "0 < i \<Longrightarrow> i \<le> n \<Longrightarrow> integer_ok n \<Longrightarrow> positive_integer_ok i"
  by (auto simp: positive_integer_ok_def integer_ok_def)

subsection \<open>One outcome\<close>

lemma payload_descriptor_defined:
  assumes "int (length payload) \<le> 131064"
  obtains d where "payload_descriptor out payload = Inr d" "expert_payload_descriptor_post_init d = None"
    "pd_payload_contract_name d = payload_contract_name (payload_kind (out_payload out))"
    "pd_payload_length d = int (length payload)" "pd_payload_sha256 d = hexdigest (sha256 payload)"
proof -
  let ?d = "\<lparr>pd_schema_version = 1, pd_content_type = ''application/vnd.inci.expert+json'',
      pd_payload_encoding = ''canonical-json-v1'',
      pd_payload_contract_name = payload_contract_name (payload_kind (out_payload out)),
      pd_payload_length = int (length payload), pd_payload_sha256 = hexdigest (sha256 payload)\<rparr>"
  have "integer_ok (int (length payload))" by (rule integer_ok_le[of _ 131064]) (use assms in simp_all)
  moreover have "payload_contract_name k \<in> set (map payload_contract_name
      [EK_SYNCHRONIZATION_APPLIED, EK_OBSERVATION_IGNORED, EK_OBSERVATION_REJECTED])" for k by (cases k) simp_all
  ultimately have "expert_payload_descriptor_post_init ?d = None"
    using assms by (simp add: expert_payload_descriptor_post_init_def one_of_strings_def schema_version_def del: list.map)
  then show thesis using that[of ?d] by (simp add: payload_descriptor_def)
qed

text \<open>What the group checks of a record and of its trace step.\<close>

definition record_links ::
  "ExpertManifestBinding \<Rightarrow> ExpertParentEvidenceV1 \<Rightarrow> int \<Rightarrow> int \<Rightarrow> int \<Rightarrow> string \<Rightarrow> ExpertOutcomeDraftV1
     \<Rightarrow> ExpertPayloadDescriptorV1 \<Rightarrow> ExpertJournalRecordV1 \<Rightarrow> bool" where
  "record_links m p n index seq prior out d r \<longleftrightarrow> expert_journal_record_post_init r = None
     \<and> jr_session_id r = mf_session_id m \<and> jr_expert_manifest_sha256 r = mf_manifest_sha256 m \<and> jr_parent r = p
     \<and> jr_parent_output_count r = n \<and> jr_parent_output_index r = index \<and> jr_expert_seq r = seq
     \<and> jr_prior_expert_record_sha256 r = prior \<and> jr_prior_expert_state_sha256 r = out_prior_expert_state_sha256 out
     \<and> jr_post_expert_state_sha256 r = out_post_expert_state_sha256 out \<and> jr_payload r = d \<and> sha256_ok (jr_record_sha256 r)"

lemma journal_record_defined:
  assumes m: "manifest_binding_ok m" and p: "expert_parent_evidence_post_init p = None"
    and i: "0 \<le> index" "index < n" "n \<le> 64" and seq: "positive_integer_ok seq" and prior: "sha256_ok prior"
    and out: "expert_outcome_draft_post_init out = None"
    and d: "expert_payload_descriptor_post_init d = None"
      "pd_payload_contract_name d = payload_contract_name (payload_kind (out_payload out))"
  obtains r where "journal_record m p n index seq prior out d = Inr r" "record_links m p n index seq prior out d r"
proof -
  let ?r = "\<lparr>jr_schema_version = 1, jr_session_id = mf_session_id m, jr_expert_manifest_sha256 = mf_manifest_sha256 m,
      jr_provider_request_binding_sha256 = mf_provider_request_binding_sha256 m,
      jr_match_binding_universe_sha256 = mf_match_binding_universe_sha256 m,
      jr_retention_binding_sha256 = mf_retention_binding_sha256 m, jr_expert_seq = seq, jr_parent = p,
      jr_parent_output_index = index, jr_parent_output_count = n, jr_event_kind = out_event_kind out,
      jr_event_version = out_event_version out, jr_event_schema_sha256 = out_event_schema_sha256 out,
      jr_prior_expert_record_sha256 = prior, jr_prior_expert_state_sha256 = out_prior_expert_state_sha256 out,
      jr_payload = d, jr_post_expert_state_sha256 = out_post_expert_state_sha256 out, jr_record_sha256 = []\<rparr>"
  have n: "positive_integer_ok n" "integer_ok index"
    using i by (auto intro: positive_le[of _ 64] integer_ok_le[of _ 64])
  have o': "out_event_version out = 1" "payload_kind (out_payload out) = out_event_kind out"
    "sha256_ok (out_event_schema_sha256 out)"
    "expert_event_schema_resource_sha256 (out_event_kind out) = Inr (out_event_schema_sha256 out)"
    "sha256_ok (out_prior_expert_state_sha256 out)" "sha256_ok (out_post_expert_state_sha256 out)"
    using out by (simp_all add: expert_outcome_draft_post_init_def)
  have "list_all (\<lambda>kv. encodable (snd kv)) (journal_record_fields ?r)"
    using n seq p d(1) o'(1) parent_encodable descriptor_size(2)
    by (simp add: journal_record_fields_def expert_event_kind_pyval_def del: encodable.simps(1))
  then obtain h where h: "compute_expert_journal_record_sha256 ?r = Inr h"
    unfolding compute_expert_journal_record_sha256_def using fields_digest_defined by blast
  then have hok: "sha256_ok h" unfolding compute_expert_journal_record_sha256_def by (rule fields_digest_ok)
  have "compute_expert_journal_record_sha256 (?r\<lparr>jr_record_sha256 := h\<rparr>) = Inr h"
    using h unfolding compute_expert_journal_record_sha256_def self_digest_fields .
  moreover have "safe_id_ok ''record-shape'' \<and> sha256_ok (replicate 64 (CHR ''0''))"
    by (simp add: safe_id_ok_def sha256_ok_def hex_digits_def is_upper_char_def is_lower_char_def is_digit_char_def
        char_code_def starts_with_def lower_char_def list_all_iff)
  ultimately have ok: "expert_journal_record_post_init (?r\<lparr>jr_record_sha256 := h\<rparr>) = None"
    using m p n i seq prior d o' hok
    by (simp add: expert_journal_record_post_init_def schema_version_def session_id_text_def manifest_binding_ok_def
        validate_observation_binding_def)
  show thesis
  proof (rule that)
    show "journal_record m p n index seq prior out d = Inr (?r\<lparr>jr_record_sha256 := h\<rparr>)"
      unfolding journal_record_def Let_def h by (simp add: ok[simplified])
    show "record_links m p n index seq prior out d (?r\<lparr>jr_record_sha256 := h\<rparr>)"
      unfolding record_links_def using ok hok by simp
  qed
qed

definition step_links :: "string \<Rightarrow> ExpertJournalRecordV1 \<Rightarrow> ExpertTraceStepV1 \<Rightarrow> bool" where
  "step_links prior r t \<longleftrightarrow> expert_trace_step_post_init t = None \<and> tt_expert_seq t = jr_expert_seq r
     \<and> tt_prior_trace_sha256 t = prior \<and> tt_expert_record_sha256 t = jr_record_sha256 r
     \<and> tt_post_expert_state_sha256 t = jr_post_expert_state_sha256 r \<and> sha256_ok (tt_post_trace_sha256 t)"

lemma trace_step_defined:
  assumes r: "expert_journal_record_post_init r = None" and prior: "sha256_ok prior"
  obtains t where "trace_step prior r = Inr t" "step_links prior r t"
proof -
  let ?t = "\<lparr>tt_schema_version = 1, tt_expert_seq = jr_expert_seq r, tt_prior_trace_sha256 = prior,
      tt_expert_record_sha256 = jr_record_sha256 r, tt_post_expert_state_sha256 = jr_post_expert_state_sha256 r,
      tt_post_trace_sha256 = []\<rparr>"
  have r': "positive_integer_ok (jr_expert_seq r)" "sha256_ok (jr_record_sha256 r)" "sha256_ok (jr_post_expert_state_sha256 r)"
    using r by (simp_all add: expert_journal_record_post_init_def)
  have "list_all (\<lambda>kv. encodable (snd kv)) (trace_step_fields ?t)"
    using r' by (simp add: trace_step_fields_def del: encodable.simps(1))
  then obtain h where h: "compute_expert_trace_step_sha256 ?t = Inr h"
    unfolding compute_expert_trace_step_sha256_def using fields_digest_defined by blast
  then have hok: "sha256_ok h" unfolding compute_expert_trace_step_sha256_def by (rule fields_digest_ok)
  have "compute_expert_trace_step_sha256 (?t\<lparr>tt_post_trace_sha256 := h\<rparr>) = Inr h"
    using h unfolding compute_expert_trace_step_sha256_def self_digest_fields .
  then have ok: "expert_trace_step_post_init (?t\<lparr>tt_post_trace_sha256 := h\<rparr>) = None"
    using r' prior hok by (simp add: expert_trace_step_post_init_def schema_version_def)
  show thesis
  proof (rule that)
    show "trace_step prior r = Inr (?t\<lparr>tt_post_trace_sha256 := h\<rparr>)"
      unfolding trace_step_def Let_def h by (simp add: ok[simplified])
    show "step_links prior r (?t\<lparr>tt_post_trace_sha256 := h\<rparr>)" unfolding step_links_def using ok hok by simp
  qed
qed

subsection \<open>All outcomes of a parent\<close>

fun chain_built ::
  "ExpertManifestBinding \<Rightarrow> ExpertParentEvidenceV1 \<Rightarrow> int \<Rightarrow> int \<Rightarrow> int \<Rightarrow> string \<Rightarrow> string \<Rightarrow> (ExpertOutcomeDraftV1 \<times> bytes) list
     \<Rightarrow> (ExpertJournalRecordV1 \<times> ExpertTraceStepV1) list \<Rightarrow> bool" where
  \<comment> \<open>a record and a trace step for each outcome and its payload, each linked to the one before\<close>
  "chain_built m p n seq index prior trace [] chain \<longleftrightarrow> chain = []"
| "chain_built m p n seq index prior trace ((out, payload) # rest) chain \<longleftrightarrow>
     (\<exists>r t tail. chain = (r, t) # tail \<and> record_links m p n index (seq + index + 1) prior out (jr_payload r) r
        \<and> step_links trace r t \<and> pd_payload_length (jr_payload r) = int (length payload)
        \<and> pd_payload_sha256 (jr_payload r) = hexdigest (sha256 payload)
        \<and> chain_built m p n seq (index + 1) (jr_record_sha256 r) (tt_post_trace_sha256 t) rest tail)"

lemma build_records_defined:
  assumes "manifest_binding_ok m" "expert_parent_evidence_post_init p = None" "n \<le> 64"
    and "0 \<le> jc_expert_seq c" "integer_ok (jc_expert_seq c + n)"
    and "0 \<le> index" "index + int (length outs) = n" "sha256_ok prior" "sha256_ok trace"
    and "list_all (\<lambda>(out, payload). expert_outcome_draft_post_init out = None \<and> int (length payload) \<le> 131064) outs"
  shows "\<exists>chain. build_records m p n c index prior trace outs = Inr chain
     \<and> chain_built m p n (jc_expert_seq c) index prior trace outs chain"
  using assms(6-10)
proof (induction outs arbitrary: index prior trace)
  case (Cons x outs)
  obtain out payload where x: "x = (out, payload)" by (cases x)
  have xok: "expert_outcome_draft_post_init out = None" "int (length payload) \<le> 131064" using Cons.prems(5) x by simp_all
  obtain d where d: "payload_descriptor out payload = Inr d" "expert_payload_descriptor_post_init d = None"
    "pd_payload_contract_name d = payload_contract_name (payload_kind (out_payload out))"
    "pd_payload_length d = int (length payload)" "pd_payload_sha256 d = hexdigest (sha256 payload)"
    using payload_descriptor_defined[OF xok(2)] .
  have i: "index < n" using Cons.prems(2) by simp
  have seq: "positive_integer_ok (jc_expert_seq c + index + 1)"
    by (rule positive_le[OF _ _ assms(5)]) (use assms(4) Cons.prems(1) i in simp_all)
  obtain r where r: "journal_record m p n index (jc_expert_seq c + index + 1) prior out d = Inr r"
    "record_links m p n index (jc_expert_seq c + index + 1) prior out d r"
    using journal_record_defined[OF assms(1,2) Cons.prems(1) i assms(3) seq Cons.prems(3) xok(1) d(2,3)] .
  then have r': "expert_journal_record_post_init r = None" "jr_payload r = d" "sha256_ok (jr_record_sha256 r)"
    by (simp_all add: record_links_def)
  obtain t where t: "trace_step trace r = Inr t" "step_links trace r t"
    using trace_step_defined[OF r'(1) Cons.prems(4)] .
  then have "sha256_ok (tt_post_trace_sha256 t)" by (simp add: step_links_def)
  then obtain chain where chain: "build_records m p n c (index + 1) (jr_record_sha256 r) (tt_post_trace_sha256 t) outs = Inr chain"
    "chain_built m p n (jc_expert_seq c) (index + 1) (jr_record_sha256 r) (tt_post_trace_sha256 t) outs chain"
    using Cons.IH[of "index + 1" "jr_record_sha256 r" "tt_post_trace_sha256 t"] Cons.prems r'(3) by auto
  show ?case using x d r r' t chain by simp
qed simp

lemma chain_built_length: "chain_built m p n seq index prior trace outs chain \<Longrightarrow> length chain = length outs"
  by (induction outs arbitrary: index prior trace chain) auto

lemma chain_built_descriptors:
  "chain_built m p n seq index prior trace outs chain \<Longrightarrow>
     list_all (\<lambda>(r, payload). pd_payload_length (jr_payload r) = int (length payload)
       \<and> pd_payload_sha256 (jr_payload r) = hexdigest (sha256 payload)) (zip (map fst chain) (map snd outs))"
  by (induction outs arbitrary: index prior trace chain) auto

lemma chain_built_first:
  "chain_built m p n seq index prior trace (x # outs) chain \<Longrightarrow> tt_prior_trace_sha256 (snd (hd chain)) = trace"
  by (cases x) (auto simp: step_links_def)

lemma chain_built_last:
  "chain_built m p n seq index prior trace outs chain \<Longrightarrow> outs \<noteq> [] \<Longrightarrow>
     jr_expert_seq (fst (last chain)) = seq + index + int (length outs)
     \<and> sha256_ok (jr_record_sha256 (fst (last chain))) \<and> sha256_ok (tt_post_trace_sha256 (snd (last chain)))"
proof (induction outs arbitrary: index prior trace chain)
  case (Cons x outs)
  then obtain r t tail where c: "chain = (r, t) # tail"
    "chain_built m p n seq (index + 1) (jr_record_sha256 r) (tt_post_trace_sha256 t) outs tail"
    "jr_expert_seq r = seq + index + 1" "sha256_ok (jr_record_sha256 r)" "sha256_ok (tt_post_trace_sha256 t)"
    by (cases x) (auto simp: record_links_def step_links_def)
  show ?case
  proof (cases outs)
    case Nil
    then show ?thesis using c by simp
  next
    case (Cons y ys)
    then have "tail \<noteq> []" using chain_built_length[OF c(2)] by auto
    then show ?thesis using Cons.IH[OF c(2)] c(1) Cons by simp
  qed
qed simp

lemma chain_built_group:
  assumes "chain_built m p n seq index prior trace outs chain" "outcome_chain state (map fst outs) = Inr final"
    and "jg_session_id g = mf_session_id m" "jg_expert_manifest_sha256 g = mf_manifest_sha256 m" "jg_parent g = p"
      "jg_parent_output_count g = n" "jg_first_expert_seq g = seq + 1"
  shows "group_chain g index prior state trace chain = Inr
     (if outs = [] then (prior, state, trace)
      else (jr_record_sha256 (fst (last chain)), final, tt_post_trace_sha256 (snd (last chain))))"
  using assms(1,2)
proof (induction outs arbitrary: index prior state trace chain)
  case (Cons x outs)
  obtain out payload where x: "x = (out, payload)" by (cases x)
  from Cons.prems(1) x obtain r t tail where c: "chain = (r, t) # tail"
    "record_links m p n index (seq + index + 1) prior out (jr_payload r) r" "step_links trace r t"
    "chain_built m p n seq (index + 1) (jr_record_sha256 r) (tt_post_trace_sha256 t) outs tail"
    by auto
  from Cons.prems(2) x have o': "out_prior_expert_state_sha256 out = state"
    "outcome_chain (out_post_expert_state_sha256 out) (map fst outs) = Inr final"
    by (auto simp: checked_eq_Inr)
  note ih = Cons.IH[OF c(4) o'(2)]
  have post: "jr_post_expert_state_sha256 r = out_post_expert_state_sha256 out" using c(2) by (simp add: record_links_def)
  have step: "group_chain g index prior state trace chain
      = group_chain g (index + 1) (jr_record_sha256 r) (out_post_expert_state_sha256 out) (tt_post_trace_sha256 t) tail"
    using c(1-3) o'(1) assms(3-7) post by (simp add: record_links_def step_links_def)
  show ?case
  proof (cases outs)
    case Nil
    then show ?thesis using step ih c o'(2) by simp
  next
    case (Cons y ys)
    then have "tail \<noteq> []" using chain_built_length[OF c(4)] by auto
    then show ?thesis using step ih c(1) Cons by simp
  qed
qed simp

subsection \<open>The group\<close>

lemma reduction_outcomes_ok:
  assumes "expert_reduction_post_init r = None"
  shows "red_outcomes r \<noteq> []" "length (red_outcomes r) \<le> 64"
    "outcome_chain (red_prior_expert_state_sha256 r) (red_outcomes r) = Inr (red_final_expert_state_sha256 r)"
    "list_all (\<lambda>out. expert_outcome_draft_post_init out = None) (red_outcomes r)"
    "expert_state_post_init (red_final_state r) = None" "sha256_ok (red_final_expert_state_sha256 r)"
    "sha256_ok (red_prior_expert_state_sha256 r)"
    "expert_state_sha256 (red_final_state r) = Inr (red_final_expert_state_sha256 r)"
proof -
  show c: "red_outcomes r \<noteq> []" "length (red_outcomes r) \<le> 64"
    "outcome_chain (red_prior_expert_state_sha256 r) (red_outcomes r) = Inr (red_final_expert_state_sha256 r)"
    "expert_state_post_init (red_final_state r) = None" "sha256_ok (red_final_expert_state_sha256 r)"
    "sha256_ok (red_prior_expert_state_sha256 r)"
    "expert_state_sha256 (red_final_state r) = Inr (red_final_expert_state_sha256 r)"
    using assms by (auto simp: expert_reduction_post_init_def split: sum.splits)
  have "list_all (\<lambda>out. expert_outcome_draft_post_init out = None) outs" if "outcome_chain a outs = Inr b" for a b outs
    using that by (induction a outs rule: outcome_chain.induct) (auto simp: checked_eq_Inr)
  then show "list_all (\<lambda>out. expert_outcome_draft_post_init out = None) (red_outcomes r)" using c(3) by blast
qed

lemma outcome_payloads:
  assumes "list_all (\<lambda>x. encodable (expert_payload_pyval (out_payload x))) outs" "group_fits outs" "outs \<noteq> []" "length outs \<le> 64"
  obtains ps where "map_result (\<lambda>out. canonical_expert_bytes (expert_payload_pyval (out_payload out))) outs = Inr ps"
    "length ps = length outs" "area_fits ps"
proof -
  obtain ps where ps: "map_result (\<lambda>out. canonical_expert_bytes (expert_payload_pyval (out_payload out))) outs = Inr ps"
    using map_result_total[of outs "\<lambda>out. canonical_expert_bytes (expert_payload_pyval (out_payload out))"] assms(1)
    by (auto simp: list_all_iff canonical_bytes_defined)
  note sizes = payload_sizes[OF ps] and len = map_result_length[OF ps]
  have "list_all (\<lambda>n. n \<le> max_event_payload_bytes) (map length ps)"
    "sum_list (map ((+) 8) (map length ps)) \<le> max_group_payload_area_bytes"
    unfolding sizes using assms(2) by (simp_all add: group_fits_def list_all_iff comp_def)
  moreover have "length (concat (map framed_payload ps)) = sum_list (map ((+) 8) (map length ps))"
    by (simp add: length_concat comp_def)
  moreover have "ps \<noteq> []" using len assms(3) by auto
  ultimately have "area_fits ps"
    using len assms(4) by (simp add: area_fits_def list_all_iff max_event_payload_bytes_def max_group_payload_area_bytes_def
        max_expert_event_payload_bytes_def max_expert_group_payload_area_bytes_def)
  then show thesis using that ps len by blast
qed

text \<open>What building a group needs of the cursor: it belongs to the session of the manifest, and its counters have room.\<close>

definition cursor_ready :: "ExpertManifestBinding \<Rightarrow> ExpertJournalCursorV1 \<Rightarrow> bool" where
  "cursor_ready m c \<longleftrightarrow> expert_journal_cursor_post_init c = None \<and> jc_session_id c = mf_session_id m
     \<and> validate_genesis_cursor_anchor c (mf_manifest_sha256 m) = None
     \<and> jc_group_count c + 1 < 2 ^ 64 \<and> integer_ok (jc_record_count c + 64)"

lemma cursor_ready_facts:
  assumes "cursor_ready m c"
  shows "0 \<le> jc_group_count c" "jc_expert_seq c = jc_record_count c" "jc_group_count c \<le> jc_record_count c"
    "sha256_ok (jc_expert_record_sha256 c)" "sha256_ok (jc_expert_trace_sha256 c)" "0 \<le> jc_last_parent_ingest_seq c"
    "integer_ok (jc_group_count c + 1)"
proof -
  have c: "integer_ok (jc_group_count c)" "jc_expert_seq c = jc_record_count c" "jc_group_count c \<le> jc_record_count c"
    "sha256_ok (jc_expert_record_sha256 c)" "sha256_ok (jc_expert_trace_sha256 c)" "integer_ok (jc_last_parent_ingest_seq c)"
    using assms by (auto simp: cursor_ready_def expert_journal_cursor_post_init_def)
  then show "0 \<le> jc_group_count c" "jc_expert_seq c = jc_record_count c" "jc_group_count c \<le> jc_record_count c"
    "sha256_ok (jc_expert_record_sha256 c)" "sha256_ok (jc_expert_trace_sha256 c)" "0 \<le> jc_last_parent_ingest_seq c"
    by (simp_all add: integer_ok_nonneg)
  show "integer_ok (jc_group_count c + 1)"
    by (rule integer_ok_le[of _ "2 ^ 64"]) (use assms c(1) integer_ok_nonneg in \<open>auto simp: cursor_ready_def\<close>)
qed

definition group_links ::
  "ExpertManifestBinding \<Rightarrow> ExpertJournalCursorV1 \<Rightarrow> ExpertReductionV1 \<Rightarrow> ExpertParentEvidenceV1
     \<Rightarrow> (ExpertJournalRecordV1 \<times> ExpertTraceStepV1) list \<Rightarrow> ExpertJournalGroupV1 \<Rightarrow> bool" where
  "group_links m c r p chain g \<longleftrightarrow> expert_journal_group_post_init g = None
     \<and> jg_session_id g = mf_session_id m \<and> jg_expert_manifest_sha256 g = mf_manifest_sha256 m
     \<and> jg_group_sequence g = jc_group_count c + 1 \<and> jg_parent g = p \<and> jg_first_expert_seq g = jc_expert_seq c + 1
     \<and> jg_prior_expert_record_sha256 g = jc_expert_record_sha256 c
     \<and> jg_prior_expert_state_sha256 g = jc_expert_state_sha256 c \<and> jg_records g = map fst chain
     \<and> jg_trace_steps g = map snd chain \<and> jg_final_expert_record_sha256 g = jr_record_sha256 (fst (last chain))
     \<and> jg_post_expert_state_sha256 g = red_final_expert_state_sha256 r
     \<and> jg_post_trace_sha256 g = tt_post_trace_sha256 (snd (last chain))"

lemma journal_group_defined:
  assumes m: "manifest_binding_ok m" and c: "cursor_ready m c" and p: "expert_parent_evidence_post_init p = None"
    and r: "expert_reduction_post_init r = None" "red_prior_expert_state_sha256 r = jc_expert_state_sha256 c"
    and ps: "length ps = length (red_outcomes r)"
    and chain: "chain_built m p (int (length (red_outcomes r))) (jc_expert_seq c) 0 (jc_expert_record_sha256 c)
      (jc_expert_trace_sha256 c) (zip (red_outcomes r) ps) chain"
  obtains g where "journal_group m c r p chain = Inr g" "group_links m c r p chain g"
proof -
  note out = reduction_outcomes_ok[OF r(1)] and cf = cursor_ready_facts[OF c]
  let ?outs = "zip (red_outcomes r) ps" and ?n = "int (length (red_outcomes r))"
  let ?g = "\<lparr>jg_schema_version = 1, jg_session_id = mf_session_id m, jg_expert_manifest_sha256 = mf_manifest_sha256 m,
      jg_group_sequence = jc_group_count c + 1, jg_parent = p, jg_parent_output_count = ?n,
      jg_first_expert_seq = jc_expert_seq c + 1, jg_prior_expert_record_sha256 = jc_expert_record_sha256 c,
      jg_prior_expert_state_sha256 = jc_expert_state_sha256 c, jg_records = map fst chain, jg_trace_steps = map snd chain,
      jg_final_expert_record_sha256 = jr_record_sha256 (fst (last chain)),
      jg_post_expert_state_sha256 = red_final_expert_state_sha256 r,
      jg_post_trace_sha256 = tt_post_trace_sha256 (snd (last chain)), jg_group_sha256 = []\<rparr>"
  have fst_outs: "map fst ?outs = red_outcomes r" using ps by simp
  have ne: "?outs \<noteq> []" using ps out(1) by (cases ps) auto
  then obtain x rest where xr: "?outs = x # rest" by (cases ?outs) auto
  have len: "length chain = length (red_outcomes r)" using chain_built_length[OF chain] ps by simp
  have first: "tt_prior_trace_sha256 (hd (map snd chain)) = jc_expert_trace_sha256 c"
    using chain_built_first[of m p ?n "jc_expert_seq c" 0 _ _ x rest chain] chain xr len out(1) by (cases chain) auto
  have grp: "group_chain g 0 (jc_expert_record_sha256 c) (jc_expert_state_sha256 c) (jc_expert_trace_sha256 c) chain =
      Inr (jr_record_sha256 (fst (last chain)), red_final_expert_state_sha256 r, tt_post_trace_sha256 (snd (last chain)))"
    if "jg_session_id g = mf_session_id m" "jg_expert_manifest_sha256 g = mf_manifest_sha256 m" "jg_parent g = p"
      "jg_parent_output_count g = ?n" "jg_first_expert_seq g = jc_expert_seq c + 1" for g
    using chain_built_group[OF chain _ that] out(3) r(2) fst_outs ne by simp
  have members: "expert_journal_record_post_init a = None \<and> expert_trace_step_post_init b = None" if "(a, b) \<in> set chain" for a b
    using group_chain_members[OF grp that, of ?g] by simp
  have enc: "list_all encodable (map journal_record_pyval (map fst chain))" "list_all encodable (map trace_step_pyval (map snd chain))"
    using members journal_record_size(2) trace_step_size(2) by (auto simp: list_all_iff)
  have ints: "positive_integer_ok (jc_group_count c + 1)" "positive_integer_ok ?n" "positive_integer_ok (jc_expert_seq c + 1)"
  proof -
    show "positive_integer_ok (jc_group_count c + 1)" by (rule positive_le[OF _ _ cf(7)]) (use cf(1) in simp_all)
    show "positive_integer_ok ?n" by (rule positive_le[of _ 64]) (use out(1,2) in simp_all)
    show "positive_integer_ok (jc_expert_seq c + 1)"
      by (rule positive_le[of _ "jc_record_count c + 64"]) (use c cf in \<open>simp_all add: cursor_ready_def\<close>)
  qed
  have "list_all (\<lambda>kv. encodable (snd kv)) (journal_group_fields ?g)"
    using ints parent_encodable[OF p] enc by (simp add: journal_group_fields_def del: encodable.simps(1))
  then obtain h where h: "compute_expert_journal_group_sha256 ?g = Inr h"
    unfolding compute_expert_journal_group_sha256_def using fields_digest_defined by blast
  then have hok: "sha256_ok h" unfolding compute_expert_journal_group_sha256_def by (rule fields_digest_ok)
  let ?gh = "?g\<lparr>jg_group_sha256 := h\<rparr>"
  have self: "compute_expert_journal_group_sha256 ?gh = Inr h"
    using h unfolding compute_expert_journal_group_sha256_def self_digest_fields .
  have "sha256_ok (jr_record_sha256 (fst (last chain)))" "sha256_ok (tt_post_trace_sha256 (snd (last chain)))"
    using chain_built_last[OF chain ne] by simp_all
  moreover have "group_chain ?gh 0 (jg_prior_expert_record_sha256 ?gh) (jg_prior_expert_state_sha256 ?gh)
      (tt_prior_trace_sha256 (hd (jg_trace_steps ?gh))) (zip (jg_records ?gh) (jg_trace_steps ?gh)) =
    Inr (jr_record_sha256 (fst (last chain)), red_final_expert_state_sha256 r, tt_post_trace_sha256 (snd (last chain)))"
    using grp[of ?gh] first by (simp add: zip_map_fst_snd)
  moreover have "chain \<noteq> []" using len out(1) by auto
  ultimately have ok: "expert_journal_group_post_init ?gh = None"
    unfolding expert_journal_group_post_init_def using m cf p ints out(2,6,7) r(2) len hok self
    by (simp add: schema_version_def session_id_text_def manifest_binding_ok_def del: zip_map_map)
  show thesis
  proof (rule that)
    show "journal_group m c r p chain = Inr ?gh"
      unfolding journal_group_def Let_def h by (simp add: ok[simplified])
    show "group_links m c r p chain ?gh" unfolding group_links_def using ok by simp
  qed
qed

end
