(* ===== verification/JournalSteps.thy ===== *)
theory JournalSteps
  imports GroupBuilding
begin

text \<open>
  One parent in the journal: the group of its reduction is built, its frame is appended, and the cursor and the state after it
  belong together again.
\<close>

subsection \<open>The group on its cursor\<close>

definition group_built ::
  "ExpertManifestBinding \<Rightarrow> ExpertJournalCursorV1 \<Rightarrow> ExpertReductionV1 \<Rightarrow> ExpertParentEvidenceV1 \<Rightarrow> ExpertJournalGroupV1
     \<Rightarrow> bytes list \<Rightarrow> ExpertJournalCursorV1 \<Rightarrow> bool" where
  \<comment> \<open>a valid group on the cursor, its payloads and the cursor after it\<close>
  "group_built m c r p g ps c' \<longleftrightarrow>
     map_result (\<lambda>out. canonical_expert_bytes (expert_payload_pyval (out_payload out))) (red_outcomes r) = Inr ps
     \<and> area_fits ps \<and> validate_expert_group_against_cursor g ps c = None \<and> expert_journal_group_post_init g = None
     \<and> jg_group_sequence g = jc_group_count c + 1 \<and> expert_journal_cursor_post_init c' = None
     \<and> jc_session_id c' = mf_session_id m \<and> jc_group_count c' = jc_group_count c + 1
     \<and> jc_record_count c' = jc_record_count c + int (length (red_outcomes r))
     \<and> jc_last_parent_ingest_seq c' = pe_ingest_seq p \<and> jc_last_parent_record_sha256 c' = pe_record_sha256 p
     \<and> jc_expert_state_sha256 c' = red_final_expert_state_sha256 r"

lemma build_group_defined:
  assumes m: "manifest_binding_ok m" and c: "cursor_ready m c" and p: "expert_parent_evidence_post_init p = None"
    and later: "jc_last_parent_ingest_seq c < pe_ingest_seq p"
    and r: "expert_reduction_post_init r = None" "red_prior_expert_state_sha256 r = jc_expert_state_sha256 c"
    and fits: "list_all (\<lambda>x. encodable (expert_payload_pyval (out_payload x))) (red_outcomes r)" "group_fits (red_outcomes r)"
    and parents: "list_all (\<lambda>out. observation_parent (outcome_observation out) = p) (red_outcomes r)"
  shows "\<exists>g ps c'. build_group m c r p = Inr (g, ps, c', red_final_state r) \<and> group_built m c r p g ps c'"
proof -
  note out = reduction_outcomes_ok[OF r(1)] and cf = cursor_ready_facts[OF c]
  let ?n = "int (length (red_outcomes r))"
  obtain ps where ps: "map_result (\<lambda>out. canonical_expert_bytes (expert_payload_pyval (out_payload out))) (red_outcomes r) = Inr ps"
    "length ps = length (red_outcomes r)" "area_fits ps"
    using outcome_payloads[OF fits out(1,2)] .
  let ?outs = "zip (red_outcomes r) ps"
  have small: "int (length q) \<le> 131064" if "q \<in> set ps" for q
    using ps(3) that by (auto simp: area_fits_def list_all_iff max_expert_event_payload_bytes_def)
  have "list_all (\<lambda>(out, payload). expert_outcome_draft_post_init out = None \<and> int (length payload) \<le> 131064) ?outs"
    using out(4) small by (auto simp: list_all_iff dest: set_zip_leftD set_zip_rightD)
  moreover have "integer_ok (jc_expert_seq c + ?n)"
    by (rule integer_ok_le[of _ "jc_record_count c + 64"]) (use c cf out(2) in \<open>simp_all add: cursor_ready_def\<close>)
  ultimately obtain chain where chain: "build_records m p ?n c 0 (jc_expert_record_sha256 c) (jc_expert_trace_sha256 c) ?outs = Inr chain"
    "chain_built m p ?n (jc_expert_seq c) 0 (jc_expert_record_sha256 c) (jc_expert_trace_sha256 c) ?outs chain"
    using build_records_defined[OF m p, of ?n c 0 ?outs "jc_expert_record_sha256 c" "jc_expert_trace_sha256 c"] cf ps(2) out(2)
    by auto
  obtain g where g: "journal_group m c r p chain = Inr g" "group_links m c r p chain g"
    using journal_group_defined[OF m c p r ps(2) chain(2)] .
  note gl = g(2)[unfolded group_links_def]
  have ne: "?outs \<noteq> []" using ps(2) out(1) by (cases ps) auto
  then obtain x rest where xr: "?outs = x # rest" by (cases ?outs) auto
  have len: "length chain = length (red_outcomes r)" using chain_built_length[OF chain(2)] ps(2) by simp
  then have cne: "chain \<noteq> []" using out(1) by auto
  have first: "tt_prior_trace_sha256 (hd (jg_trace_steps g)) = jc_expert_trace_sha256 c"
    using chain_built_first[of m p ?n "jc_expert_seq c" 0 _ _ x rest chain] chain(2) xr gl cne by (cases chain) auto
  have descr: "validate_payload_descriptors g ps = None"
    using chain_built_descriptors[OF chain(2)] gl len ps(2) by (simp add: validate_payload_descriptors_def)
  have cur: "validate_group_cursor g c = None"
    using gl c later first by (simp add: validate_group_cursor_def exact_contract_def cursor_ready_def)
  have valid: "validate_expert_group_against_cursor g ps c = None"
  proof -
    have "encode_expert_group_payload_area ps = Inr (concat (map framed_payload ps))"
      using ps(3) by (simp add: encode_expert_group_payload_area_Inr)
    then show ?thesis using cur descr by (simp add: validate_expert_group_against_cursor_def)
  qed
  let ?c' = "\<lparr>jc_schema_version = 1, jc_session_id = jg_session_id g, jc_group_count = jc_group_count c + 1,
      jc_record_count = jc_record_count c + int (length (jg_records g)),
      jc_last_parent_ingest_seq = pe_ingest_seq (jg_parent g),
      jc_last_parent_record_sha256 = pe_record_sha256 (jg_parent g),
      jc_expert_seq = jr_expert_seq (last (jg_records g)), jc_expert_record_sha256 = jg_final_expert_record_sha256 g,
      jc_expert_state_sha256 = jg_post_expert_state_sha256 g, jc_expert_trace_sha256 = jg_post_trace_sha256 g\<rparr>"
  have last_seq: "jr_expert_seq (last (jg_records g)) = jc_expert_seq c + ?n"
    "sha256_ok (jr_record_sha256 (fst (last chain)))" "sha256_ok (tt_post_trace_sha256 (snd (last chain)))"
    using chain_built_last[OF chain(2) ne] gl cne ps(2) by (simp_all add: last_map)
  have "session_id_ok (mf_session_id m)" using m by (simp add: manifest_binding_ok_def)
  moreover have "sha256_ok (pe_record_sha256 p)" "positive_integer_ok (pe_ingest_seq p)"
    using p by (simp_all add: expert_parent_evidence_post_init_def)
  moreover have "integer_ok (jc_record_count c + ?n)" using \<open>integer_ok (jc_expert_seq c + ?n)\<close> cf by simp
  moreover have "1 \<le> ?n" using out(1) by (cases "red_outcomes r") auto
  moreover have "jg_session_id g = mf_session_id m" "jg_parent g = p" "length (jg_records g) = length (red_outcomes r)"
    "jg_final_expert_record_sha256 g = jr_record_sha256 (fst (last chain))"
    "jg_post_expert_state_sha256 g = red_final_expert_state_sha256 r"
    "jg_post_trace_sha256 g = tt_post_trace_sha256 (snd (last chain))"
    using gl len by simp_all
  ultimately have c': "expert_journal_cursor_post_init ?c' = None"
    using cf(1-3,7) last_seq out(6) positive_integer_ok_imp positive_integer_ok_pos[of "pe_ingest_seq p"]
    by (simp add: expert_journal_cursor_post_init_def schema_version_def session_id_text_def)
  have "build_group m c r p = Inr (g, ps, ?c', red_final_state r)"
    using r parents p ps(1) chain(1) g(1) valid c' out(5,8) gl
    by (simp add: build_group_def require_parent_projection_from_reduction_def candidate_cursor_def outcome_observation_def)
  moreover have "group_built m c r p g ps ?c'"
    using ps(1,3) valid gl c' len by (simp add: group_built_def)
  ultimately show ?thesis by blast
qed

subsection \<open>The frame of the group\<close>

lemma group_frame_defined:
  assumes "cursor_ready m c" "group_built m c r p g ps c'"
  obtains metadata area where "canonical_expert_bytes (journal_group_pyval g) = Inr metadata"
    "encode_expert_group_payload_area ps = Inr area"
    "encode_expert_group_frame g ps c = Inr (expert_frame_bytes 2 (jc_group_count c + 1) metadata area)"
    "encode_expert_frame 2 (jc_group_count c + 1) metadata area = Inr (expert_frame_bytes 2 (jc_group_count c + 1) metadata area)"
proof -
  note b = assms(2)[unfolded group_built_def]
  have g: "expert_journal_group_post_init g = None" using b by blast
  obtain metadata where meta: "canonical_expert_bytes (journal_group_pyval g) = Inr metadata"
    using journal_group_size(2)[OF g] canonical_bytes_defined by blast
  have m_len: "length metadata \<le> 2000400" using canonical_bytes_bound[OF meta] journal_group_size(1)[OF g] by simp
  let ?area = "concat (map framed_payload ps)"
  have area: "encode_expert_group_payload_area ps = Inr ?area" using b by (simp add: encode_expert_group_payload_area_Inr)
  have a_len: "length ?area \<le> 8388608" using b unfolding area_fits_def max_expert_group_payload_area_bytes_def by linarith
  have seq: "0 \<le> jc_group_count c" "jc_group_count c + 1 < 2 ^ 64"
    using cursor_ready_facts(1)[OF assms(1)] assms(1) by (simp_all add: cursor_ready_def)
  have shape: "expert_shape 2 (jc_group_count c + 1) (length metadata) (length ?area)"
    unfolding expert_shape_def frame_shape_ok_def using m_len a_len seq
    by (simp add: expert_fixed_bytes_def expert_prefix_bytes_def expert_trailer_bytes_def max_expert_frame_bytes_def
        max_expert_group_metadata_bytes_def max_expert_group_payload_area_bytes_def)
  have frame: "encode_expert_frame 2 (jc_group_count c + 1) metadata ?area = Inr (expert_frame_bytes 2 (jc_group_count c + 1) metadata ?area)"
    using shape by (simp add: encode_expert_frame_Inr)
  have "encode_expert_group_frame g ps c = Inr (expert_frame_bytes 2 (jc_group_count c + 1) metadata ?area)"
    using b meta area frame m_len by (simp add: encode_expert_group_frame_def max_expert_group_metadata_bytes_def)
  from that[OF meta area this frame] show thesis .
qed

subsection \<open>One parent\<close>

definition expert_journal_inv :: "ExpertManifestBinding \<Rightarrow> ExpertJournalState \<Rightarrow> bool" where
  \<comment> \<open>a valid state, a valid cursor of this session, and the digest of the state in the cursor\<close>
  "expert_journal_inv m j \<longleftrightarrow> expert_inv (xj_state j) \<and> xs_session_id (xj_state j) = mf_session_id m
     \<and> expert_journal_cursor_post_init (xj_cursor j) = None \<and> jc_session_id (xj_cursor j) = mf_session_id m
     \<and> validate_genesis_cursor_anchor (xj_cursor j) (mf_manifest_sha256 m) = None
     \<and> expert_state_sha256 (xj_state j) = Inr (jc_expert_state_sha256 (xj_cursor j))
     \<and> jc_last_parent_ingest_seq (xj_cursor j) = 2 * jc_group_count (xj_cursor j)"

definition counters_have_room :: "ExpertJournalState \<Rightarrow> bool" where
  "counters_have_room j \<longleftrightarrow> jc_group_count (xj_cursor j) + 1 < 2 ^ 64 \<and> integer_ok (jc_record_count (xj_cursor j) + 64)
     \<and> integer_ok (xs_rejected_parent_count (xj_state j) + 1)"

definition parent_follows ::
  "ExpertManifestBinding \<Rightarrow> ExpertJournalState \<Rightarrow> PersistedEvent \<Rightarrow> expert_observation list \<Rightarrow> bool" where
  \<comment> \<open>the parent is the next raw record of the session, and the observations are a group derived from it\<close>
  "parent_follows m j parent observations \<longleftrightarrow>
     require_exact_parent parent m (xj_cursor j) = None \<and> group_accepted (xj_state j) observations
     \<and> require_parent_projection parent (observation_parent (hd observations)) = None"

definition agreed :: "expert_observation list \<Rightarrow> ParentAnswers" where
  \<comment> \<open>the parent is authorized, the normalizer returns these observations, and the store appends\<close>
  "agreed observations = \<lparr>pa_authorization = None, pa_observations = Inr observations, pa_append = None\<rparr>"

lemma group_of_one_parent:
  assumes "group_accepted s os"
  obtains first rest where "os = first # rest" "\<not> list_ex (\<lambda>x. observation_parent x \<noteq> observation_parent first) os"
    "expert_parent_evidence_post_init (observation_parent first) = None"
proof -
  from assms obtain first where v: "validate_observation_group os = Inr first"
    by (auto simp: group_accepted_def split: sum.splits)
  then obtain rest where g: "os = first # rest" "observations_bound (observation_parent first) (int (length os)) 0 os = None"
    by (rule validate_observation_group_ok)
  have "expert_observation_post_init first = None" using observations_bound_all[OF g(2)] g(1) by simp
  then obtain a b d where "expert_parent_evidence_post_init (observation_parent first) = None"
    by (rule observation_normalizer_ok)
  moreover have "\<not> list_ex (\<lambda>x. observation_parent x \<noteq> observation_parent first) os"
    using observations_bound_parent[OF g(2)] by (auto simp: list_ex_iff)
  ultimately show thesis using that g(1) by blast
qed

lemma journal_parent_step:
  assumes m: "manifest_binding_ok m" and j: "expert_journal_inv m j" "counters_have_room j" and e: "parent_follows m j parent os"
  obtains r g ps c' metadata area where "reduce_expert_parent (xj_state j) os = Inr r"
    "group_built m (xj_cursor j) r (observation_parent (hd os)) g ps c'"
    "canonical_expert_bytes (journal_group_pyval g) = Inr metadata" "encode_expert_group_payload_area ps = Inr area"
    "encode_expert_frame 2 (jc_group_count (xj_cursor j) + 1) metadata area
       = Inr (expert_frame_bytes 2 (jc_group_count (xj_cursor j) + 1) metadata area)"
    "journal_parent m j (parent, agreed os) = Inr \<lparr>xj_state = red_final_state r, xj_cursor = c',
       xj_file = xj_file j @ expert_frame_bytes 2 (jc_group_count (xj_cursor j) + 1) metadata area\<rparr>"
proof -
  let ?s = "xj_state j" and ?c = "xj_cursor j"
  have s: "expert_inv ?s" "integer_ok (xs_rejected_parent_count ?s + 1)"
    and c: "cursor_ready m ?c"
    and sha: "expert_state_sha256 ?s = Inr (jc_expert_state_sha256 ?c)"
    using j by (simp_all add: expert_journal_inv_def counters_have_room_def cursor_ready_def)
  have os: "group_accepted ?s os" and exact: "require_exact_parent parent m ?c = None"
    and proj: "require_parent_projection parent (observation_parent (hd os)) = None"
    using e by (simp_all add: parent_follows_def)
  obtain first rest where first: "os = first # rest" "\<not> list_ex (\<lambda>x. observation_parent x \<noteq> observation_parent first) os"
    "expert_parent_evidence_post_init (observation_parent first) = None"
    using group_of_one_parent[OF os] .
  obtain r where r: "reduce_expert_parent ?s os = Inr r" using reduce_expert_parent_defined[OF s os] by blast
  note rc = reduction_constructed[OF r] and fit = reduction_outcomes_fit[OF s os r]
  have prior: "red_prior_expert_state_sha256 r = jc_expert_state_sha256 ?c" using rc(2) sha by simp
  have "pe_ingest_seq (observation_parent first) = jc_last_parent_ingest_seq ?c + 2"
    using exact proj first(1) by (simp add: require_exact_parent_def require_parent_projection_def)
  then have later: "jc_last_parent_ingest_seq ?c < pe_ingest_seq (observation_parent first)" by simp
  obtain g ps c' where g: "build_group m ?c r (observation_parent first) = Inr (g, ps, c', red_final_state r)"
    "group_built m ?c r (observation_parent first) g ps c'"
    using build_group_defined[OF m c first(3) later rc(1) prior fit(1,2)] fit(3) first(1) by auto
  obtain metadata area where f: "canonical_expert_bytes (journal_group_pyval g) = Inr metadata"
    "encode_expert_group_payload_area ps = Inr area"
    "encode_expert_group_frame g ps ?c = Inr (expert_frame_bytes 2 (jc_group_count ?c + 1) metadata area)"
    "encode_expert_frame 2 (jc_group_count ?c + 1) metadata area = Inr (expert_frame_bytes 2 (jc_group_count ?c + 1) metadata area)"
    using group_frame_defined[OF c g(2)] .
  have "journal_parent m j (parent, agreed os) = Inr \<lparr>xj_state = red_final_state r, xj_cursor = c',
       xj_file = xj_file j @ expert_frame_bytes 2 (jc_group_count ?c + 1) metadata area\<rparr>"
    using exact proj first r g(1) f(3)
    by (simp add: journal_parent_def prepare_parent_def commit_ordinary_def agreed_def)
  then show thesis using that r g(2) f(1,2,4) first(1) by simp
qed

end
