(* ===== verification/JournalRuns.thy ===== *)
theory JournalRuns
  imports JournalSteps
begin

text \<open>
  Runs of the expert journal: the cursor of an empty journal, what every step that returned has kept, the frames a run has
  appended, and the terminal that can close the journal after it.
\<close>

subsection \<open>The empty journal\<close>

lemma expert_digest_ok: "expert_state_sha256 s = Inr d \<Longrightarrow> sha256_ok d"
  by (auto simp: expert_state_sha256_def checked_eq_Inr dest: domain_digest_ok)

lemma genesis_journal:
  assumes "manifest_binding_ok m" "expert_inv s" "xs_session_id s = mf_session_id m"
  obtains c where "genesis_cursor m s = Inr c" "jc_group_count c = 0" "jc_record_count c = 0" "jc_last_parent_ingest_seq c = 0"
    "expert_journal_inv m \<lparr>xj_state = s, xj_cursor = c, xj_file = f\<rparr>"
proof -
  obtain d where d: "expert_state_sha256 s = Inr d" "sha256_ok d" using expert_digest[OF assms(2)] .
  have m: "session_id_ok (mf_session_id m)" "sha256_ok (mf_manifest_sha256 m)" "sha256_ok (mf_evidence_session_start_record_sha256 m)"
    using assms(1) by (simp_all add: manifest_binding_ok_def)
  have "encodable (VTuple [VStr (mf_session_id m), VStr (mf_manifest_sha256 m), VStr d])" by simp
  then obtain seed where "domain_sha256 (''INCI-EXPERT-TRACE-SEED-V1'' @ nul)
      (VTuple [VStr (mf_session_id m), VStr (mf_manifest_sha256 m), VStr d]) = Inr seed"
    using domain_digest_defined by blast
  then have seed: "expert_trace_seed_sha256 (mf_session_id m) (mf_manifest_sha256 m) d = Inr seed"
    using m d(2) by (simp add: expert_trace_seed_sha256_def checked_eq_Inr session_id_text_def)
  then have "sha256_ok seed" by (auto simp: expert_trace_seed_sha256_def checked_eq_Inr dest: domain_digest_ok)
  let ?c = "\<lparr>jc_schema_version = 1, jc_session_id = mf_session_id m, jc_group_count = 0, jc_record_count = 0,
      jc_last_parent_ingest_seq = 0, jc_last_parent_record_sha256 = mf_evidence_session_start_record_sha256 m,
      jc_expert_seq = 0, jc_expert_record_sha256 = mf_manifest_sha256 m, jc_expert_state_sha256 = d,
      jc_expert_trace_sha256 = seed\<rparr>"
  have c: "expert_journal_cursor_post_init ?c = None"
    using m d(2) \<open>sha256_ok seed\<close> by (simp add: expert_journal_cursor_post_init_def schema_version_def session_id_text_def)
  have "validate_genesis_cursor_anchor ?c (mf_manifest_sha256 m) = None"
    using seed by (simp add: validate_genesis_cursor_anchor_def)
  then have "expert_journal_inv m \<lparr>xj_state = s, xj_cursor = ?c, xj_file = f\<rparr>"
    using assms(2,3) c d(1) by (simp add: expert_journal_inv_def)
  moreover have "genesis_cursor m s = Inr ?c" using c d(1) seed by (simp add: genesis_cursor_def)
  ultimately show thesis using that[of ?c] by simp
qed

subsection \<open>Steps that returned\<close>

definition parent_observations_ok :: "PersistedEvent \<times> ParentAnswers \<Rightarrow> bool" where
  "parent_observations_ok e \<longleftrightarrow>
     (case pa_observations (snd e) of Inl x \<Rightarrow> True | Inr os \<Rightarrow> list_all observation_ok os)"

lemma build_group_Inr:
  assumes "build_group m c r p = Inr (g, ps, c', s')"
  shows "s' = red_final_state r" "expert_state_post_init s' = None" "expert_state_sha256 s' = Inr (jc_expert_state_sha256 c')"
    "expert_journal_cursor_post_init c' = None" "jc_session_id c' = jg_session_id g" "jc_group_count c' = jc_group_count c + 1"
    "jc_last_parent_ingest_seq c' = pe_ingest_seq p"
    "validate_expert_group_against_cursor g ps c = None"
proof -
  obtain chain state_sha where *: "journal_group m c r p chain = Inr g" "candidate_cursor c g = Inr c'"
    "validate_expert_group_against_cursor g ps c = None"
    "s' = red_final_state r" "expert_state_post_init s' = None" "expert_state_sha256 s' = Inr state_sha"
    "state_sha = jc_expert_state_sha256 c'"
    using assms by (auto simp: build_group_def checked_eq_Inr bind_result_eq_Inr split: if_splits)
  have "jg_parent g = p" using *(1) by (auto simp: journal_group_def Let_def bind_result_eq_Inr)
  then show "s' = red_final_state r" "expert_state_post_init s' = None" "expert_state_sha256 s' = Inr (jc_expert_state_sha256 c')"
    "expert_journal_cursor_post_init c' = None" "jc_session_id c' = jg_session_id g" "jc_group_count c' = jc_group_count c + 1"
    "jc_last_parent_ingest_seq c' = pe_ingest_seq p" "validate_expert_group_against_cursor g ps c = None"
    using * by (auto simp: candidate_cursor_def)
qed

lemma prepare_parent_Inr:
  assumes "prepare_parent m parent answers s c = Inr x"
  obtains first rest r where "require_exact_parent parent m c = None" "pa_observations answers = Inr (first # rest)"
    "require_parent_projection parent (observation_parent first) = None" "reduce_expert_parent s (first # rest) = Inr r"
    "build_group m c r (observation_parent first) = Inr x"
proof -
  from assms obtain os where os: "require_exact_parent parent m c = None" "pa_observations answers = Inr os"
    and run: "(case os of [] \<Rightarrow> Inl (TypeError ''observations'')
        | first # rest \<Rightarrow>
            checked (require_parent_projection parent (observation_parent first))
              (if list_ex (\<lambda>x. observation_parent x \<noteq> observation_parent first) os
               then Inl (ValueError ''expert_observation_parent_invalid'')
               else
                 bind_result (reduce_expert_parent s os) (\<lambda>reduction.
                   build_group m c reduction (observation_parent first)))) = Inr x"
    by (auto simp: prepare_parent_def checked_eq_Inr bind_result_eq_Inr)
  from run obtain first rest where f: "os = first # rest" by (cases os) auto
  show thesis
    using run os that by (cases "reduce_expert_parent s os") (auto simp: f checked_eq_Inr split: if_splits)
qed

lemma journal_parent_returned:
  assumes j: "expert_journal_inv m j" and e: "parent_observations_ok e" and run: "journal_parent m j e = Inr j'"
  obtains metadata area frame where "expert_journal_inv m j'" "jc_group_count (xj_cursor j') = jc_group_count (xj_cursor j) + 1"
    "encode_expert_frame 2 (jc_group_count (xj_cursor j) + 1) metadata area = Inr frame" "xj_file j' = xj_file j @ frame"
proof -
  obtain parent answers where eq: "e = (parent, answers)" by (cases e)
  let ?s = "xj_state j" and ?c = "xj_cursor j"
  from run obtain x where x: "prepare_parent m parent answers ?s ?c = Inr x" "commit_ordinary answers j x = Inr j'"
    by (auto simp: journal_parent_def eq bind_result_eq_Inr)
  obtain g ps c' s' where gx: "x = (g, ps, c', s')" by (cases x)
  obtain first rest r where exact: "require_exact_parent parent m ?c = None" and os: "pa_observations answers = Inr (first # rest)"
    and proj: "require_parent_projection parent (observation_parent first) = None"
    and r: "reduce_expert_parent ?s (first # rest) = Inr r"
    and g: "build_group m ?c r (observation_parent first) = Inr (g, ps, c', s')"
    using prepare_parent_Inr[OF x(1)] gx by metis
  from x(2) obtain frame where f: "encode_expert_group_frame g ps ?c = Inr frame"
    and j': "j' = \<lparr>xj_state = s', xj_cursor = c', xj_file = xj_file j @ frame\<rparr>"
    by (auto simp: gx commit_ordinary_def checked_eq_Inr bind_result_eq_Inr)
  note b = build_group_Inr[OF g]
  have "reduce_step ?s (first # rest) = Inr s'" using r b(1) by (simp add: reduce_step_def)
  moreover have "expert_inv ?s" using j by (simp add: expert_journal_inv_def)
  ultimately have s': "expert_inv s'" "xs_session_id s' = xs_session_id ?s"
    using reduce_step_ok[of ?s "first # rest" s'] e eq os by (simp_all add: parent_observations_ok_def expert_no_earlier_def same_expert_def)
  have grp: "jg_session_id g = jc_session_id ?c" "jg_group_sequence g = jc_group_count ?c + 1"
    using b(8) by (simp_all add: validate_expert_group_against_cursor_def validate_group_cursor_def)
  have last: "pe_ingest_seq (observation_parent first) = jc_last_parent_ingest_seq ?c + 2"
    using exact proj by (simp add: require_exact_parent_def require_parent_projection_def)
  have n: "0 \<le> jc_group_count ?c"
    using j by (auto simp: expert_journal_inv_def expert_journal_cursor_post_init_def dest: integer_ok_nonneg)
  then have "validate_genesis_cursor_anchor c' (mf_manifest_sha256 m) = None"
    using b(6) by (simp add: validate_genesis_cursor_anchor_def)
  then have "expert_journal_inv m j'"
    using j j' s' b grp last by (simp add: expert_journal_inv_def)
  moreover obtain area metadata where "encode_expert_frame 2 (jc_group_count ?c + 1) metadata area = Inr frame"
    using f grp(2) by (auto simp: encode_expert_group_frame_def checked_eq_Inr bind_result_eq_Inr codec_error_def split: if_splits)
  ultimately show thesis using that j' b(6) by simp
qed

interpretation journals: guarded_machine "journal_parent m" "expert_journal_inv m" parent_observations_ok for m
proof
  show "expert_journal_inv m s'" if "expert_journal_inv m s" "parent_observations_ok e" "journal_parent m s e = Inr s'" for s e s'
    using that by (rule journal_parent_returned)
qed

subsection \<open>The frames of a run\<close>

lemma frame_head_encoded:
  assumes "encode_expert_frame k s m a = Inr frame"
  shows "frame_head (take expert_prefix_bytes frame) = Inr (k, s)"
proof -
  from assms have sh: "expert_shape k s (length m) (length a)" and f: "frame = expert_frame_bytes k s m a"
    by (simp_all add: encode_expert_frame_Inr)
  have "take expert_prefix_bytes frame = pack_expert_prefix k s (length m) (length a)"
    unfolding f by (simp add: expert_frame_bytes_def Let_def expert_prefix_bytes_def)
  then show ?thesis using decode_pack_expert_prefix[OF sh] by (simp add: frame_head_def)
qed

definition group_frame :: "bytes \<Rightarrow> bool" where
  "group_frame frame \<longleftrightarrow> (\<exists>s m a. encode_expert_frame 2 s m a = Inr frame)"

lemma journal_run_frames:
  assumes "expert_journal_inv m j" "list_all parent_observations_ok es" "run_steps (journal_parent m) j es = Inr j'"
  shows "\<exists>frames. xj_file j' = xj_file j @ concat frames \<and> list_all group_frame frames
    \<and> map (\<lambda>f. frame_head (take expert_prefix_bytes f)) frames
        = map Inr (group_heads (jc_group_count (xj_cursor j) + 1) (length es))
    \<and> jc_group_count (xj_cursor j') = jc_group_count (xj_cursor j) + int (length es)"
  using assms
proof (induction es arbitrary: j)
  case Nil
  then show ?case by (intro exI[of _ "[]"]) simp
next
  case (Cons e es)
  then obtain j1 where j1: "journal_parent m j e = Inr j1" "run_steps (journal_parent m) j1 es = Inr j'"
    by (auto simp: bind_result_eq_Inr)
  have e: "parent_observations_ok e" using Cons.prems(2) by simp
  obtain metadata area frame where f: "expert_journal_inv m j1" "jc_group_count (xj_cursor j1) = jc_group_count (xj_cursor j) + 1"
    "encode_expert_frame 2 (jc_group_count (xj_cursor j) + 1) metadata area = Inr frame" "xj_file j1 = xj_file j @ frame"
    using journal_parent_returned[OF Cons.prems(1) e j1(1)] .
  obtain frames where fs: "xj_file j' = xj_file j1 @ concat frames" "list_all group_frame frames"
    "map (\<lambda>f. frame_head (take expert_prefix_bytes f)) frames
        = map Inr (group_heads (jc_group_count (xj_cursor j1) + 1) (length es))"
    "jc_group_count (xj_cursor j') = jc_group_count (xj_cursor j1) + int (length es)"
    using Cons.IH[OF f(1) _ j1(2)] Cons.prems(2) by auto
  have "group_frame frame" using f(3) by (auto simp: group_frame_def)
  then show ?case
    using f fs frame_head_encoded[OF f(3)] by (intro exI[of _ "frame # frames"]) (simp add: group_heads_Suc add.assoc)
qed

subsection \<open>Closing the journal\<close>

lemma terminal_fields_digest:
  "session_terminal_fields (t\<lparr>et_terminal_sha256 := d\<rparr>) = session_terminal_fields t"
  by (simp add: session_terminal_fields_def)

lemma journal_can_be_closed:
  assumes m: "manifest_binding_ok m" and j: "expert_journal_inv m j" and room: "jc_group_count (xj_cursor j) + 1 < 2 ^ 64"
  obtains t frame where "encode_expert_terminal_frame t (xj_cursor j) = Inr frame"
proof -
  let ?c = "xj_cursor j"
  let ?n = "jc_group_count ?c"
  have c: "expert_journal_cursor_post_init ?c = None" "jc_session_id ?c = mf_session_id m"
    "validate_genesis_cursor_anchor ?c (mf_manifest_sha256 m) = None" "jc_last_parent_ingest_seq ?c = 2 * ?n"
    using j by (simp_all add: expert_journal_inv_def)
  have cf: "integer_ok ?n" "integer_ok (jc_record_count ?c)" "jc_expert_seq ?c = jc_record_count ?c" "?n \<le> jc_record_count ?c"
    "(?n = 0) = (jc_record_count ?c = 0)" "sha256_ok (jc_last_parent_record_sha256 ?c)"
    "sha256_ok (jc_expert_record_sha256 ?c)" "sha256_ok (jc_expert_state_sha256 ?c)" "sha256_ok (jc_expert_trace_sha256 ?c)"
    using c(1) by (auto simp: expert_journal_cursor_post_init_def)
  have n: "0 \<le> ?n" using cf(1) by (rule integer_ok_nonneg)
  have big: "integer_ok (2 * 2 ^ 64 :: int)" by simp
  have ints: "integer_ok (2 + ?n + ?n)" "integer_ok (2 * ?n)"
    by (rule integer_ok_le[OF _ _ big], use n room in simp_all)+
  let ?t = "\<lparr>et_schema_version = 1, et_session_id = mf_session_id m, et_expert_manifest_sha256 = mf_manifest_sha256 m,
      et_provider_request_binding_sha256 = mf_provider_request_binding_sha256 m,
      et_match_binding_universe_sha256 = mf_match_binding_universe_sha256 m,
      et_retention_binding_sha256 = mf_retention_binding_sha256 m, et_evidence_terminal_ingest_seq = 2 + ?n + ?n,
      et_evidence_terminal_record_sha256 = jc_last_parent_record_sha256 ?c, et_evidence_terminal_clean = True,
      et_evidence_terminal_reason = ''session_end'', et_evidence_raw_count = ?n, et_evidence_derived_count = ?n,
      et_expert_group_count = ?n, et_expert_record_count = jc_record_count ?c, et_last_parent_ingest_seq = 2 * ?n,
      et_last_parent_record_sha256 = jc_last_parent_record_sha256 ?c, et_final_expert_seq = jc_record_count ?c,
      et_final_expert_record_sha256 = jc_expert_record_sha256 ?c, et_final_expert_state_sha256 = jc_expert_state_sha256 ?c,
      et_final_expert_trace_sha256 = jc_expert_trace_sha256 ?c, et_clean = True, et_reason = ET_SESSION_END,
      et_research_evaluable = False, et_terminal_sha256 = []\<rparr>"
  have "list_all (\<lambda>kv. encodable (snd kv)) (session_terminal_fields ?t)"
    using cf ints by (simp add: session_terminal_fields_def del: encodable.simps(1))
  then obtain h where h: "compute_expert_session_terminal_sha256 ?t = Inr h"
    unfolding compute_expert_session_terminal_sha256_def using fields_digest_defined by blast
  then have hok: "sha256_ok h" unfolding compute_expert_session_terminal_sha256_def by (rule fields_digest_ok)
  let ?th = "?t\<lparr>et_terminal_sha256 := h\<rparr>"
  have self: "compute_expert_session_terminal_sha256 ?th = Inr h"
    using h unfolding compute_expert_session_terminal_sha256_def terminal_fields_digest .
  have "safe_id_ok ''session_end''"
    by (simp add: safe_id_ok_def is_upper_char_def is_lower_char_def is_digit_char_def char_code_def starts_with_def lower_char_def)
  moreover have "terminal_aligned ?th"
    using cf(4,5) n by (simp add: terminal_aligned_def phase1_clean_terminal_reasons_def)
  ultimately have ok: "expert_session_terminal_post_init ?th = None"
    unfolding expert_session_terminal_post_init_def using m cf ints hok self
    by (simp add: schema_version_def session_id_text_def manifest_binding_ok_def)
  have valid: "validate_terminal_cursor ?th ?c = None"
    unfolding validate_terminal_cursor_def using ok c cf by (simp add: exact_contract_def)
  have enc: "encodable (session_terminal_pyval ?th)"
    using cf ints by (simp add: session_terminal_pyval_def session_terminal_fields_def del: encodable.simps(1))
  then obtain metadata where meta: "canonical_expert_bytes (session_terminal_pyval ?th) = Inr metadata"
    using canonical_bytes_defined by blast
  have lens: "length (mf_session_id m) = 36" "length (mf_manifest_sha256 m) = 64"
    "length (mf_provider_request_binding_sha256 m) = 64" "length (mf_match_binding_universe_sha256 m) = 64"
    "length (mf_retention_binding_sha256 m) = 64" "length (jc_last_parent_record_sha256 ?c) = 64"
    "length (jc_expert_record_sha256 ?c) = 64" "length (jc_expert_state_sha256 ?c) = 64"
    "length (jc_expert_trace_sha256 ?c) = 64" "length h = 64"
    using m cf hok text_lengths by (simp_all add: manifest_binding_ok_def)
  have "value_bound (session_terminal_pyval ?th) \<le> 30000"
    using lens by (simp add: session_terminal_pyval_def session_terminal_fields_def)
  then have len: "length metadata \<le> 30400" using canonical_bytes_bound[OF meta] by simp
  have "expert_shape 3 (?n + 1) (length metadata) (length ([] :: bytes))"
    unfolding expert_shape_def frame_shape_ok_def using len n room
    by (simp add: expert_fixed_bytes_def expert_prefix_bytes_def expert_trailer_bytes_def max_expert_frame_bytes_def
        max_expert_terminal_metadata_bytes_def max_expert_terminal_frame_bytes_def)
  then have "encode_expert_terminal_frame ?th ?c = Inr (expert_frame_bytes 3 (?n + 1) metadata [])"
    using valid meta len by (simp add: encode_expert_terminal_frame_def max_expert_terminal_metadata_bytes_def encode_expert_frame_Inr)
  then show thesis by (rule that)
qed

lemma terminal_frame_head:
  assumes "encode_expert_terminal_frame t c = Inr frame"
  shows "frame_head (take expert_prefix_bytes frame) = Inr (3, jc_group_count c + 1)"
  using assms
  by (auto simp: encode_expert_terminal_frame_def checked_eq_Inr bind_result_eq_Inr codec_error_def split: if_splits
      intro: frame_head_encoded)

lemma order_accepted_iff:
  "(\<exists>v. run_steps accept_frame new_order_validator prefixes = Inr v \<and> require_terminal v = None) \<longleftrightarrow>
     (\<exists>n. map frame_head prefixes = map Inr ((1, 0) # group_heads 1 n @ [(3, 1 + int n)]))"
proof (cases prefixes)
  case Nil
  then show ?thesis by (simp add: require_terminal_def new_order_validator_def)
next
  case (Cons p ps)
  let ?v = "new_order_validator\<lparr>ov_manifest_seen := True, ov_next_sequence := 1\<rparr>"
  have v: "ov_manifest_seen ?v" "\<not> ov_terminal_seen ?v" "ov_next_sequence ?v = 1" by (simp_all add: new_order_validator_def)
  have "accept_frame new_order_validator p = Inr w \<longleftrightarrow> frame_head p = Inr (1, 0) \<and> w = ?v" for w
    by (auto simp: accept_frame_Inr new_order_validator_def)
  then have "(\<exists>w. run_steps accept_frame new_order_validator prefixes = Inr w \<and> require_terminal w = None) \<longleftrightarrow>
      frame_head p = Inr (1, 0) \<and> (\<exists>w. run_steps accept_frame ?v ps = Inr w \<and> ov_terminal_seen w)"
    unfolding Cons by (auto simp: bind_result_eq_Inr require_terminal_def)
  then show ?thesis unfolding order_of_groups[OF v(1,2)] v(3) Cons by auto
qed

end
