(* ===== verification/ExpertDemo.thy ===== *)
theory ExpertDemo
  imports JournalRuns ReducerProperties EventDemo
begin

text \<open>
  A journal on which the properties of the expert journal are instantiated: the expert of the demonstrations of the reducer on an
  empty journal, and a raw record of its session whose only observation is the passing of time.
\<close>

definition demo_journal_binding :: ExpertManifestBinding where
  "demo_journal_binding =
     \<lparr>mf_session_id = ReducerProperties.demo_session_id, mf_manifest_sha256 = example_key_digest,
      mf_provider_request_binding_sha256 = example_key_digest, mf_match_binding_universe_sha256 = example_key_digest,
      mf_retention_binding_sha256 = example_key_digest, mf_evidence_session_start_record_sha256 = example_key_digest\<rparr>"

lemma demo_journal_binding_ok: "manifest_binding_ok demo_journal_binding"
  using demo_session_id_ok by (simp add: manifest_binding_ok_def demo_journal_binding_def)

definition demo_parent :: PersistedEvent where
  "demo_parent = (demo_record 2 0)
     \<lparr>ev_session_id := ReducerProperties.demo_session_id, ev_event_type := ''timer'', ev_local_wall_ns := obs_wall_ns demo_now,
      ev_local_monotonic_ns := obs_monotonic_ns demo_now, ev_clock_uncertainty_ns := obs_clock_uncertainty_ns demo_now\<rparr>"

lemma small_int_printable_4: "i < 10000 \<Longrightarrow> i < int_digits_bound"
proof -
  have "(10 :: int) ^ 4 \<le> 10 ^ 4300" by (rule power_increasing) simp_all
  moreover have "(10 :: int) ^ 4 = 10000" by simp
  ultimately have "(10000 :: int) \<le> int_digits_bound" unfolding int_digits_bound_def by (simp only:)
  then show "i < 10000 \<Longrightarrow> i < int_digits_bound" by (rule less_le_trans[rotated])
qed

lemma demo_parent_valid: "persisted_event_post_init demo_parent = None"
proof -
  have "safe_identifier_ok ''timer''" "safe_identifier_ok ''kalshi-ws''" "safe_identifier_ok ''market-1''"
    "safe_identifier_ok ''orderbook''" "safe_identifier_ok ''identity-public-market-v1''"
    "content_type_ok ''application/json''" "payload_encoding_ok ''utf-8''"
    by code_simp+
  moreover have "event_session_id_ok ReducerProperties.demo_session_id" by code_simp
  then have "validate_session_id ReducerProperties.demo_session_id = None"
    by (simp add: validate_session_id_def event_session_id_ok_def safe_identifier_def)
  ultimately show ?thesis
    by (simp add: persisted_event_post_init_def event_scalars_def event_lineage_def event_retention_def demo_parent_def demo_record_def
        demo_now_def safe_identifier_def positive_event_integer_def nonnegative_integer_def validate_provenance_def
        event_sha256_def record_payload_transforms_def capture_payload_transforms_def)
qed

lemma demo_parent_digest:
  "\<exists>b. canonical_record_sha256 demo_parent = Inr (hexdigest (sha256 b))"
proof -
  have "printable (JvObj (metadata_fields demo_parent))"
    by (simp add: metadata_fields_def demo_parent_def demo_record_def demo_now_def jv_optional_def jv_text_def
        small_int_printable_4 del: codes_simps(1-4))
  moreover have "require_session_start_payload demo_parent = Inr ()"
    by (simp add: require_session_start_payload_def demo_parent_def demo_record_def)
  ultimately have "event_recordable demo_parent" unfolding event_recordable_def using demo_parent_valid by blast
  then have "frame_ok demo_parent"
    by (rule record_fits_frame) (simp_all add: demo_parent_def demo_record_def)
  then show ?thesis using frame_ok_digest by metis
qed

definition demo_parent_observation :: ExpertSynchronizationObservationV1 where
  "demo_parent_observation = demo_observation
     \<lparr>so_parent := (so_parent demo_observation)
       \<lparr>pe_ingest_seq := 2, pe_record_sha256 := the_digest (canonical_record_sha256 demo_parent)\<rparr>\<rparr>"

abbreviation demo_parent_group :: "expert_observation list" where
  "demo_parent_group \<equiv> [SynchronizationObservation demo_parent_observation]"

lemma demo_parent_observation_ok: "expert_observation_post_init (SynchronizationObservation demo_parent_observation) = None"
  using demo_observation_ok demo_parent_digest
  by (auto simp: demo_parent_observation_def expert_synchronization_observation_post_init_def parent_time_def
      validate_observation_binding_def expert_parent_evidence_post_init_def)

lemma demo_parent_group_accepted:
  assumes "xs_session_id s = ReducerProperties.demo_session_id"
  shows "group_accepted s demo_parent_group"
proof -
  have "validate_observation_group demo_parent_group = Inr (SynchronizationObservation demo_parent_observation)"
    using demo_parent_observation_ok by (simp add: validate_observation_group_def)
      (simp add: demo_parent_observation_def demo_observation_def)
  then show ?thesis
    using demo_group_accepted[OF assms] by (simp add: group_accepted_def observation_event_def demo_parent_observation_def
        split: sum.splits) (simp add: assms demo_observation_def)
qed

lemma demo_parent_projection: "require_parent_projection demo_parent (so_parent demo_parent_observation) = None"
proof -
  have "expert_parent_evidence_post_init (so_parent demo_parent_observation) = None"
    using demo_parent_observation_ok by (simp add: expert_synchronization_observation_post_init_def validate_observation_binding_def)
  then show ?thesis
    using demo_parent_digest
    by (auto simp: require_parent_projection_def demo_parent_observation_def demo_observation_def demo_parent_def demo_record_def)
qed

text \<open>The empty journal of the expert, with any bytes in its file.\<close>

lemma demo_journal:
  obtains j where "expert_journal_inv demo_journal_binding j" "xj_state j = demo_expert" "xj_file j = f" "counters_have_room j"
    "jc_group_count (xj_cursor j) = 0" "parent_follows demo_journal_binding j demo_parent demo_parent_group"
proof -
  obtain c where c: "jc_group_count c = 0" "jc_record_count c = 0" "jc_last_parent_ingest_seq c = 0"
    "expert_journal_inv demo_journal_binding \<lparr>xj_state = demo_expert, xj_cursor = c, xj_file = f\<rparr>"
    using genesis_journal[OF demo_journal_binding_ok demo_expert_inv, of f] by (auto simp: demo_journal_binding_def demo_expert_simps)
  let ?j = "\<lparr>xj_state = demo_expert, xj_cursor = c, xj_file = f\<rparr>"
  have "counters_have_room ?j" using c by (simp add: counters_have_room_def demo_expert_simps)
  moreover have "require_exact_parent demo_parent demo_journal_binding c = None"
    using demo_parent_valid c(3) by (simp add: require_exact_parent_def demo_journal_binding_def) (simp add: demo_parent_def demo_record_def)
  then have "parent_follows demo_journal_binding ?j demo_parent demo_parent_group"
    using demo_parent_group_accepted[of demo_expert] demo_parent_projection by (simp add: parent_follows_def demo_expert_simps)
  ultimately show thesis using that[of ?j] c by simp
qed

end
