(* ===== verification/ExpertJournalProperties.thy ===== *)
theory ExpertJournalProperties
  imports ExpertDemo
begin

text \<open>
  The properties of the expert journal: its frames and payload areas have one encoding, the order of its frames is exact, every
  accepted parent is journaled, and a run leaves a journal that can be closed in order.
\<close>

text \<open>C18: Frames, payload areas and file headers have one encoding.  \<open>decode_expert_complete_frame\<close> returns kind, sequence, metadata,
  payload area and digest exactly for the bytes \<open>encode_expert_frame\<close> makes of them; a payload area is split into payloads
  exactly when it is what \<open>encode_expert_group_payload_area\<close> makes of them; and checking the parts of a frame at once gives the
  same as checking its trailer after the payload area was hashed while it was read, provided the prefix declares the length of the
  metadata.\<close>

theorem expert_frames_are_exact:
  "(decode_expert_complete_frame frame = Inr (kind, seq, metadata, area, digest) \<longleftrightarrow>
      encode_expert_frame kind seq metadata area = Inr frame
      \<and> digest = hexdigest (expert_frame_digest (take expert_prefix_bytes frame) metadata area))
    \<and> (decode_expert_group_payload_area area n = Inr payloads \<longleftrightarrow>
      encode_expert_group_payload_area payloads = Inr area \<and> n = int (length payloads))
    \<and> (validate_expert_frame_parts prefix metadata area trailer = Inr digest \<longleftrightarrow>
      validate_expert_streamed_frame_trailer prefix (int (length area)) trailer (expert_frame_digest prefix metadata area) = Inr digest
      \<and> (\<exists>k s f a. decode_expert_frame_prefix prefix = Inr (k, s, f, int (length metadata), a)))
    \<and> (decode_expert_file_header content = Inr () \<longleftrightarrow> content = encode_expert_file_header)"
proof (intro conjI)
  show "decode_expert_complete_frame frame = Inr (kind, seq, metadata, area, digest) \<longleftrightarrow>
      encode_expert_frame kind seq metadata area = Inr frame
      \<and> digest = hexdigest (expert_frame_digest (take expert_prefix_bytes frame) metadata area)"
    by (rule decode_expert_complete_frame_Inr)
  show "decode_expert_group_payload_area area n = Inr payloads \<longleftrightarrow>
      encode_expert_group_payload_area payloads = Inr area \<and> n = int (length payloads)"
    by (rule decode_expert_group_payload_area_Inr)
  show "validate_expert_frame_parts prefix metadata area trailer = Inr digest \<longleftrightarrow>
      validate_expert_streamed_frame_trailer prefix (int (length area)) trailer (expert_frame_digest prefix metadata area) = Inr digest
      \<and> (\<exists>k s f a. decode_expert_frame_prefix prefix = Inr (k, s, f, int (length metadata), a))"
    by (cases "decode_expert_frame_prefix prefix")
      (auto simp: validate_expert_frame_parts_def validate_expert_streamed_frame_trailer_def frame_invalid_def codec_error_def
        split: if_splits)
  show "decode_expert_file_header content = Inr () \<longleftrightarrow> content = encode_expert_file_header"
    by (rule decode_expert_file_header_Inr)
qed

text \<open>C19: The order of frames is exact.  The order validator accepts a file's frames, and finds it terminated, exactly when they are the
  manifest with sequence 0, any number of groups with the sequences 1, 2, 3 and so on, and one terminal with the next sequence.\<close>

theorem expert_frame_order_is_exact:
  "(\<exists>v. run_steps accept_frame new_order_validator prefixes = Inr v \<and> require_terminal v = None) \<longleftrightarrow>
     (\<exists>n. map frame_head prefixes = map Inr ((1, 0) # map (\<lambda>i. (2, 1 + int i)) [0..<n] @ [(3, 1 + int n)]))"
  using order_accepted_iff[of prefixes] by (simp add: group_heads_def)

text \<open>C9: Every accepted parent is journaled.  Take a journal whose cursor and state belong together and whose counters have room, and
  the next raw record of its session with a group of observations derived from it.  When the parent is authorized and the store
  appends, the reducer returns, the group of its outcomes
  is accepted by its constructor and against the cursor, and one frame is appended: it is read back with the next sequence, the
  canonical bytes of the group as metadata and a payload area that splits into the canonical bytes of the payloads.  The state of
  the journal is then the final state of the reduction, and cursor and state belong together again.\<close>

theorem accepted_parent_is_journaled:
  assumes "manifest_binding_ok m" "expert_journal_inv m j" "counters_have_room j" "parent_follows m j parent observations"
  shows "\<exists>j' r g payloads frame metadata area digest.
     journal_parent m j (parent, agreed observations) = Inr j' \<and> expert_journal_inv m j'
     \<and> reduce_expert_parent (xj_state j) observations = Inr r \<and> xj_state j' = red_final_state r
     \<and> expert_journal_group_post_init g = None \<and> validate_expert_group_against_cursor g payloads (xj_cursor j) = None
     \<and> map_result (\<lambda>out. canonical_expert_bytes (expert_payload_pyval (out_payload out))) (red_outcomes r) = Inr payloads
     \<and> xj_file j' = xj_file j @ frame
     \<and> decode_expert_complete_frame frame = Inr (2, jc_group_count (xj_cursor j) + 1, metadata, area, digest)
     \<and> canonical_expert_bytes (journal_group_pyval g) = Inr metadata
     \<and> decode_expert_group_payload_area area (int (length payloads)) = Inr payloads"
proof -
  obtain r g ps c' metadata area where s: "reduce_expert_parent (xj_state j) observations = Inr r"
    "group_built m (xj_cursor j) r (observation_parent (hd observations)) g ps c'"
    "canonical_expert_bytes (journal_group_pyval g) = Inr metadata" "encode_expert_group_payload_area ps = Inr area"
    "encode_expert_frame 2 (jc_group_count (xj_cursor j) + 1) metadata area
       = Inr (expert_frame_bytes 2 (jc_group_count (xj_cursor j) + 1) metadata area)"
    "journal_parent m j (parent, agreed observations) = Inr \<lparr>xj_state = red_final_state r, xj_cursor = c',
       xj_file = xj_file j @ expert_frame_bytes 2 (jc_group_count (xj_cursor j) + 1) metadata area\<rparr>" (is "_ = Inr ?j'")
    using journal_parent_step[OF assms] .
  have "parent_observations_ok (parent, agreed observations)"
    using assms(4) by (simp add: parent_observations_ok_def parent_follows_def group_accepted_def agreed_def)
  then have "expert_journal_inv m ?j'" using journals.step_inv[OF assms(2) _ s(6)] by blast
  then show ?thesis
    using s decode_expert_complete_frame_Inr[of "expert_frame_bytes 2 (jc_group_count (xj_cursor j) + 1) metadata area"]
    by (intro exI[of _ ?j'] exI[of _ r] exI[of _ g] exI[of _ ps])
      (simp add: group_built_def decode_expert_group_payload_area_Inr)
qed

theorem accepted_parent_is_journaled_witness:
  "\<exists>j j' frame metadata area digest. jc_group_count (xj_cursor j) = 0 \<and> xj_state j = demo_expert
     \<and> journal_parent demo_journal_binding j (demo_parent, agreed demo_parent_group) = Inr j' \<and> xj_file j' = xj_file j @ frame
     \<and> decode_expert_complete_frame frame = Inr (2, 1, metadata, area, digest)"
proof -
  obtain j where j: "expert_journal_inv demo_journal_binding j" "xj_state j = demo_expert" "counters_have_room j"
    "jc_group_count (xj_cursor j) = 0" "parent_follows demo_journal_binding j demo_parent demo_parent_group"
    using demo_journal[of "[]"] by metis
  show ?thesis using accepted_parent_is_journaled[OF demo_journal_binding_ok j(1,3,5)] j(2,4) by auto
qed

text \<open>C13: A run leaves a journal that can be closed in order.  From an empty journal, whatever parents follow and whatever normalizer, authorizer
  and store answer, as long as no parent is refused: cursor and state belong together, the file has grown by one group frame for each parent, a terminal for the cursor
  exists, and with a manifest frame before and any terminal frame after them the order validator accepts the frames and finds the
  journal terminated.\<close>

theorem journal_runs_are_in_order:
  assumes "manifest_binding_ok m" "expert_journal_inv m j" "jc_group_count (xj_cursor j) = 0"
    "list_all parent_observations_ok parents" "run_steps (journal_parent m) j parents = Inr j'"
    "jc_group_count (xj_cursor j') + 1 < 2 ^ 64" "encode_expert_frame 1 0 manifest [] = Inr manifest_frame"
  shows "expert_journal_inv m j' \<and> (\<exists>frames terminal terminal_frame. length frames = length parents
     \<and> xj_file j' = xj_file j @ concat frames \<and> list_all group_frame frames
     \<and> encode_expert_terminal_frame terminal (xj_cursor j') = Inr terminal_frame
     \<and> (\<forall>t f. encode_expert_terminal_frame t (xj_cursor j') = Inr f \<longrightarrow>
          (\<exists>v. run_steps accept_frame new_order_validator (map (take expert_prefix_bytes) (manifest_frame # frames @ [f])) = Inr v
             \<and> require_terminal v = None)))"
proof -
  note inv = journals.run_inv[OF assms(2,4,5)]
  obtain frames where fs: "xj_file j' = xj_file j @ concat frames" "list_all group_frame frames"
    "map (\<lambda>f. frame_head (take expert_prefix_bytes f)) frames = map Inr (group_heads 1 (length parents))"
    "jc_group_count (xj_cursor j') = int (length parents)"
    using journal_run_frames[OF assms(2,4,5)] assms(3) by auto
  have len: "length frames = length parents" using fs(3) by (auto simp: group_heads_def dest: map_eq_imp_length_eq)
  obtain t tf where t: "encode_expert_terminal_frame t (xj_cursor j') = Inr tf"
    using journal_can_be_closed[OF assms(1) inv assms(6)] by metis
  have closed: "\<exists>v. run_steps accept_frame new_order_validator (map (take expert_prefix_bytes) (manifest_frame # frames @ [f])) = Inr v
      \<and> require_terminal v = None" if "encode_expert_terminal_frame u (xj_cursor j') = Inr f" for u f
    unfolding order_accepted_iff
    using frame_head_encoded[OF assms(7)] terminal_frame_head[OF that] fs(3,4)
    by (intro exI[of _ "length parents"]) (simp add: comp_def add.commute)
  show ?thesis using inv len fs(1,2) t closed by blast
qed

theorem journal_runs_are_in_order_witness:
  "\<exists>j j' frame f v. run_steps (journal_parent demo_journal_binding) j [(demo_parent, agreed demo_parent_group)] = Inr j'
     \<and> expert_journal_inv demo_journal_binding j' \<and> xj_file j' = xj_file j @ frame
     \<and> run_steps accept_frame new_order_validator
          (map (take expert_prefix_bytes) [expert_frame_bytes 1 0 ''{}'' [], frame, f]) = Inr v
     \<and> require_terminal v = None"
proof -
  obtain j where j: "expert_journal_inv demo_journal_binding j" "xj_state j = demo_expert" "counters_have_room j"
    "jc_group_count (xj_cursor j) = 0" "parent_follows demo_journal_binding j demo_parent demo_parent_group"
    using demo_journal[of "[]"] by metis
  obtain r g ps c' metadata area where s: "group_built demo_journal_binding (xj_cursor j) r (observation_parent (hd demo_parent_group)) g ps c'"
    "journal_parent demo_journal_binding j (demo_parent, agreed demo_parent_group) = Inr \<lparr>xj_state = red_final_state r, xj_cursor = c',
       xj_file = xj_file j @ expert_frame_bytes 2 (jc_group_count (xj_cursor j) + 1) metadata area\<rparr>" (is "_ = Inr ?j'")
    using journal_parent_step[OF demo_journal_binding_ok j(1,3,5)] by metis
  have run: "run_steps (journal_parent demo_journal_binding) j [(demo_parent, agreed demo_parent_group)] = Inr ?j'" using s(2) by simp
  have room: "jc_group_count (xj_cursor ?j') + 1 < 2 ^ 64" using s(1) j(4) by (simp add: group_built_def)
  have ok: "list_all parent_observations_ok [(demo_parent, agreed demo_parent_group)]"
    using demo_parent_group_accepted[of demo_expert] by (simp add: parent_observations_ok_def group_accepted_def agreed_def demo_expert_simps)
  have manifest: "encode_expert_frame 1 0 ''{}'' [] = Inr (expert_frame_bytes 1 0 ''{}'' [])"
    by (simp add: encode_expert_frame_Inr expert_shape_def frame_shape_ok_def expert_fixed_bytes_def expert_prefix_bytes_def
        expert_trailer_bytes_def max_expert_frame_bytes_def max_expert_manifest_metadata_bytes_def)
  note all = journal_runs_are_in_order[OF demo_journal_binding_ok j(1,4) ok run room manifest]
  then obtain frames t f where f: "length frames = 1" "xj_file ?j' = xj_file j @ concat frames"
    "encode_expert_terminal_frame t (xj_cursor ?j') = Inr f" 
    "\<exists>v. run_steps accept_frame new_order_validator
       (map (take expert_prefix_bytes) (expert_frame_bytes 1 0 ''{}'' [] # frames @ [f])) = Inr v \<and> require_terminal v = None"
    by auto
  obtain frame where "frames = [frame]" using f(1) by (cases frames) auto
  then show ?thesis using run conjunct1[OF all] f(2,4) by fastforce
qed

end
