(* ===== verification/Spec2Isabelle.thy ===== *)
theory Spec2Isabelle
  imports TennisProperties BookProperties SyncProperties ReducerProperties EventProperties JournalProperties
    ExpertJournalProperties
begin

text \<open>
  Verification of the inci tennis trading system: the decision core (package \<open>inci_tennis_expert\<close>) and the
  event core that records and replays a session (package \<open>tennis_v1\<close>).

  The program.  Provider events of a tennis match (score snapshots, points, lifecycle events) move a scoring
  machine, market data of an exchange moves an order book, and the synchronizer joins both for the markets of
  the matches in a reviewed binding universe: it publishes a market only when score and book are fresh, bound to
  each other and every large book move is explained by a point.  The expert reducer runs the synchronizer on the
  observations derived from one journal record and halts at the first refusal; its outcomes are journaled as one group of
  a second, expert journal.  Below that, the event runtime
  receives captured inputs, makes each of them durable in a write-ahead journal, reduces it, makes the derived
  records durable and only then advances its state and a trace of digests; replay reads the journal, reduces
  again and compares everything.

  Which theory models what.

  Shared.  \<open>Prelude\<close>: results as a sum of an exception and a value, validators as lists of checks
  (\<open>first_raise\<close>), constructors of frozen dataclasses (\<open>construct\<close>).  \<open>Machines\<close>: runs of a step function and
  the two locales \<open>guarded_machine\<close> and \<open>ordered_machine\<close>, which every component interprets on its own step.
  \<open>PyDecimal\<close>: the decimal contexts.  \<open>Sha256\<close>, \<open>ByteCodes\<close>: SHA-256 as an executable function on bytes,
  hexadecimal text, numbers as bytes.  \<open>Enums\<close>, \<open>Canonical\<close>, \<open>Validators\<close>, \<open>Encoding\<close>: enumerations,
  canonical bytes and scalar checks of \<open>inci_tennis_expert/contracts.py\<close>.

  Decision core.  \<open>ContractsTennis\<close> and \<open>TennisScore\<close> (\<open>tennis_score.py\<close>), with \<open>TennisInvariant\<close>,
  \<open>TennisTransitions\<close>, \<open>TennisRuns\<close>, \<open>TennisProperties\<close>.  \<open>ContractsBook\<close> and \<open>MarketBook\<close>
  (\<open>market_book.py\<close>), with \<open>BookLadder\<close> (ladders as finite maps, locale \<open>ladder_store\<close>),
  \<open>BookTransitions\<close>, \<open>BookRuns\<close>, \<open>BookBuying\<close>, \<open>BookProperties\<close>.  \<open>ContractsBinding\<close>,
  \<open>ContractsSync\<close> and \<open>Synchronizer\<close> (\<open>synchronizer.py\<close>, and the lookups of \<open>match_binding.py\<close>), with
  \<open>SyncSession\<close>, \<open>SyncInvariant\<close>, \<open>SyncSteps\<close>, \<open>SyncEffects\<close>, \<open>SyncRuns\<close>, \<open>SyncOpening\<close>, \<open>SyncDemo\<close>,
  \<open>SyncProperties\<close>.  \<open>ContractsExpert\<close> and \<open>Reducer\<close> (\<open>reducer.py\<close>), with \<open>ReducerRuns\<close>,
  \<open>ReducerTotal\<close>, \<open>ReducerProperties\<close>.

  Expert journal.  \<open>ExpertJournal\<close> (the journal contracts of \<open>contracts.py\<close>), \<open>ExpertFrames\<close> (frames, order and
  payload areas of \<open>journal_codec.py\<close>) and \<open>ExpertController\<close> (the path of a parent through
  \<open>inci_tennis_runtime/expert_controller.py\<close>: \<open>_prepare_parent\<close>, \<open>_build_group\<close>, \<open>_commit_ordinary\<close>), with \<open>ExpertFraming\<close>
  (what the codec accepts), \<open>ExpertSizes\<close> (bounds on canonical bytes), \<open>JournaledReductions\<close>, \<open>GroupBuilding\<close>,
  \<open>JournalSteps\<close>, \<open>JournalRuns\<close>, \<open>ExpertDemo\<close>, \<open>ExpertJournalProperties\<close>.

  Event core.  \<open>EventCore\<close> (\<open>events.py\<close>): records, manifests, drafts and their constructors.  \<open>JsonText\<close>
  (\<open>canonical.py\<close> and the part of \<open>json\<close> it uses) and \<open>EventCodec\<close> (\<open>codec.py\<close>, the projection and the
  digest of \<open>session.py\<close>), with \<open>JsonRoundTrip\<close>, \<open>JsonInverse\<close>, \<open>CodecRoundTrip\<close>.  \<open>Foundation\<close>
  (\<open>state.py\<close>, \<open>reducer.py\<close>), with \<open>FoundationRuns\<close>.  \<open>WalFormat\<close> (frames and terminals of \<open>wal.py\<close>),
  \<open>WalGuard\<close> (which frames the write capability of \<open>retention.py\<close> refuses: \<open>_terminal_frame_clean\<close>), \<open>Wal\<close>
  (\<open>JournalWriter\<close> of \<open>wal.py\<close>, the revalidation of inputs from \<open>capture.py\<close>) and \<open>WalReader\<close> (\<open>JournalReader\<close>), with
  \<open>WalFrames\<close>, \<open>WalRecords\<close>, \<open>WalWalk\<close>, \<open>GuardedFrames\<close>, \<open>WalWriter\<close>, \<open>RecordSizes\<close>.  \<open>ReplayCore\<close> (\<open>replay_core.py\<close>).  \<open>Runtime\<close>
  (\<open>sequencer.py\<close>), with \<open>RuntimeInvariant\<close>, \<open>RuntimeReplay\<close>, \<open>RuntimeRuns\<close>, \<open>RuntimeTotal\<close>.
  \<open>EventDemo\<close>, \<open>EventProperties\<close>, \<open>JournalProperties\<close>.

  Correspondence.  A frozen dataclass is a record with a field prefix of its own, its \<open>__post_init__\<close> a function to an
  optional exception; a function or method that raises is a function to a sum type, and a method that changes
  its object and may raise returns the object it leaves and the result.  Definitions keep the names of the
  source without the leading underscore; names that clash are prefixed (\<open>validate_state\<close>, \<open>runtime_ingest\<close>, \<open>book_\<close>,
  \<open>event_\<close>).  \<open>type(x) is T\<close> tests are discharged by the types of the model.

  What is shown.  Scoring machine: validity of every reachable state, the exact conditions under which
  points, corrections and snapshots are applied, finality of ended matches, the score ladder against counts of
  points, the tiebreak server against the rotation.  Order book: a delta refines the update of a
  map, gaps end only with a snapshot, \<open>executable_buy\<close> against its specification.  Synchronizer: a published market is
  safe, publications strictly advance, pending moves are not forgotten, a session follows both component
  machines, clock evidence is always answered.  Reducer: it always returns, replays the synchronizer, and
  a halted expert only counts.  Expert journal: frames and payload areas have one encoding, the order validator accepts exactly the
  files that are in order, every accepted parent is journaled as one readable frame, and a run leaves a journal that can be closed in
  order.  Codec and JSON: reading is the exact inverse of writing.  Foundation: exactly
  the ordered records of a session are accepted, and the state is a function of them.  Journal: whatever the storage
  answers, and wherever the file is cut, reading yields the acknowledged records, or a prefix, or one more, the record whose
  write failed; reserved names cannot be captured; reading any bytes ends.  Runtime and replay: a session that ends cleanly
  replays exactly, and an admissible input is ingested.

  Bounds.  Decimal arithmetic at 80 digits, integers of the contracts below 10 to the 256, decimals of at most 255
  places; at most 64 outcomes of a reduction, payloads of at most 131064 bytes and groups of at most 8388608 bytes; the metadata of
  such a group has at most 2000400 bytes (\<open>journal_group_size\<close>), so its frame is within the 16 MiB of the codec;
  frames of at most 16 MiB, captured payloads of at most 8 MiB, metadata of a valid record at most 400000 bytes, sequence
  numbers below 2 to the 64; integers of more than 4300 digits cannot be printed or read.  The JSON scanner
  has fuel twice the length of its text plus one, which \<open>parse_value_fuel\<close> shows to be enough; Python's recursion limit
  on nested JSON is not modelled, and the round trip of JSON is stated for values at most 300 levels deep.  No other definition has fuel; the walk over a journal terminates because
  each frame ends after it began.

  Hypotheses that are not about the arguments of one call.  \<open>no_fingerprint_collision\<close>: two different emissions that are compared
  have different digests.  The reducer's evidence has canonical bytes.  While a runtime halts, the retention
  coordinator is open (\<open>halt_answers_ok\<close>).  \<open>payload_check\<close>, the search for secrets in a captured payload, is a
  parameter, and so are the answers of the storage to frames it does not refuse, of the provider gate, of the retention coordinator and of the normalizer:
  no theorem assumes that they agree, except those that say that an operation succeeds.

  Not modelled.  Provider adapters, decoding of the binding artifact and reading the metadata of expert frames back
  (\<open>inci_tennis_adapters\<close>, \<open>match_binding.py\<close> before its lookups, the projection decoder of \<open>journal_codec.py\<close>,
  \<open>replay.py\<close>): large decoders of formats of their own, above and below the modelled core.  Of the expert controller the
  emergency group for a full disk, restart and the life cycle.  \<open>retention.py\<close> beyond the check of frames, \<open>entitlements.py\<close>,
  \<open>ingress.py\<close>, \<open>inci_tennis_io\<close> and the rest of \<open>inci_tennis_runtime\<close>: file systems, locks, threads and network.  The legacy
  bot at the root of the repository computes with floating point numbers and shares no code with the packages.
  A Python \<open>str\<close> of the contracts is a list of characters, the code points below 256; JSON texts are lists of code
  points of any size.
\<close>

end
